(* ===== verification/Go_Prelude.thy ===== *)
theory Go_Prelude
  imports Main "HOL-Library.State_Monad" "HOL-Library.AList" "HOL-Library.Char_ord"
    "HOL-Library.List_Lexorder"
begin

text \<open>
  What every component of the model shares: Go's time and integer types, Go
  maps as association lists, the characters and strings the program tests, and
  a small Hoare calculus over the state monad in which the stateful components
  are written.
\<close>

section \<open>Time, durations and 64-bit integers\<close>

text \<open>
  A \<^verbatim>\<open>time.Time\<close> is its distance in nanoseconds from Go's zero time, so
  \<^verbatim>\<open>IsZero\<close> is equality with 0, \<^verbatim>\<open>UTC()\<close> is the identity, and
  \<^verbatim>\<open>Before\<close>, \<^verbatim>\<open>After\<close>, \<^verbatim>\<open>Compare\<close> are the order of integers.
  A \<^verbatim>\<open>time.Duration\<close> is its number of nanoseconds.  \<^verbatim>\<open>Time.Sub\<close>
  saturates at the limits of a 64-bit duration.
\<close>

type_synonym gotime = int
type_synonym duration = int

definition zeroTime :: gotime where
  "zeroTime = 0"

definition time_isZero :: "gotime \<Rightarrow> bool" where
  "time_isZero t \<longleftrightarrow> t = zeroTime"

definition maxInt64 :: int where
  "maxInt64 = 9223372036854775807"

definition minInt64 :: int where
  "minInt64 = - 9223372036854775808"

definition time_sub :: "gotime \<Rightarrow> gotime \<Rightarrow> duration" where
  "time_sub a b = max minInt64 (min maxInt64 (a - b))"

definition time_Truncate :: "gotime \<Rightarrow> duration \<Rightarrow> gotime" where
  "time_Truncate t d = t - t mod d"

text \<open>Two's complement wrap-around of 64-bit integer arithmetic.\<close>

definition wrap64 :: "int \<Rightarrow> int" where
  "wrap64 x = (x + 9223372036854775808) mod 18446744073709551616 - 9223372036854775808"

text \<open>Integer division truncates towards zero.\<close>

definition go_quot :: "int \<Rightarrow> int \<Rightarrow> int" where
  "go_quot a b = sgn a * sgn b * (\<bar>a\<bar> div \<bar>b\<bar>)"

definition go_rem :: "int \<Rightarrow> int \<Rightarrow> int" where
  "go_rem a b = a - b * go_quot a b"

abbreviation second :: duration where "second \<equiv> 1000000000"
abbreviation minute :: duration where "minute \<equiv> 60000000000"
abbreviation hour :: duration where "hour \<equiv> 3600000000000"

lemma wrap64_id: "minInt64 \<le> x \<Longrightarrow> x \<le> maxInt64 \<Longrightarrow> wrap64 x = x"
  by (simp add: wrap64_def minInt64_def maxInt64_def)

lemma wrap64_range: "minInt64 \<le> wrap64 x \<and> wrap64 x \<le> maxInt64"
proof -
  have "0 \<le> (x + 9223372036854775808) mod 18446744073709551616"
    and "(x + 9223372036854775808) mod 18446744073709551616 < 18446744073709551616"
    by simp_all
  then show ?thesis by (simp add: wrap64_def minInt64_def maxInt64_def)
qed

lemma wrap64_add_wrap64: "wrap64 (wrap64 x + y) = wrap64 (x + y)"
proof -
  have "((x + 9223372036854775808) mod 18446744073709551616 + y) mod 18446744073709551616
      = (x + 9223372036854775808 + y) mod (18446744073709551616::int)"
    by (rule mod_add_left_eq)
  then show ?thesis by (simp add: wrap64_def algebra_simps)
qed

lemma time_sub_in_range:
  "minInt64 \<le> a - b \<Longrightarrow> a - b \<le> maxInt64 \<Longrightarrow> time_sub a b = a - b"
  by (simp add: time_sub_def)

lemma time_sub_le: "0 \<le> a - b \<Longrightarrow> 0 \<le> time_sub a b \<and> time_sub a b \<le> a - b"
  by (simp add: time_sub_def minInt64_def maxInt64_def)

section \<open>Go maps\<close>

text \<open>
  A Go map is an association list without repeated keys.  The list order stands
  for the iteration order of a \<^verbatim>\<open>range\<close> over the map, which Go leaves
  unspecified: every lemma holds for every order of the list.  Lookup is
  \<^const>\<open>map_of\<close>, assignment \<^const>\<open>AList.update\<close>, \<^verbatim>\<open>delete\<close> is
  \<^const>\<open>AList.delete\<close>.
\<close>

type_synonym 'v gomap = "(string \<times> 'v) list"

definition gomap_ok :: "('k \<times> 'v) list \<Rightarrow> bool" where
  "gomap_ok m \<longleftrightarrow> distinct (map fst m)"

lemma gomap_ok_Nil [simp]: "gomap_ok []"
  by (simp add: gomap_ok_def)

lemma gomap_ok_update [simp]: "gomap_ok m \<Longrightarrow> gomap_ok (AList.update k v m)"
  by (simp add: gomap_ok_def distinct_update)

lemma gomap_ok_delete [simp]: "gomap_ok m \<Longrightarrow> gomap_ok (AList.delete k m)"
  by (simp add: gomap_ok_def distinct_delete)

lemma gomap_ok_map_snd [simp]:
  "gomap_ok (map (\<lambda>(k, v). (k, f k v)) m) \<longleftrightarrow> gomap_ok m"
proof -
  have "map fst (map (\<lambda>(k, v). (k, f k v)) m) = map fst m"
    by (induction m) auto
  then show ?thesis by (simp only: gomap_ok_def)
qed

lemma gomap_ok_filter [simp]: "gomap_ok m \<Longrightarrow> gomap_ok (filter P m)"
  by (induction m) (auto simp: gomap_ok_def)

lemma map_of_update [simp]: "map_of (AList.update k v m) k' = (if k' = k then Some v else map_of m k')"
  by (simp add: update_conv')

lemma map_of_delete [simp]: "map_of (AList.delete k m) k' = (if k' = k then None else map_of m k')"
  by (simp add: delete_conv')

lemma gomap_in_set: "gomap_ok m \<Longrightarrow> (k, v) \<in> set m \<longleftrightarrow> map_of m k = Some v"
  by (metis gomap_ok_def map_of_eq_Some_iff)

lemma length_update_le: "length (AList.update k v m) \<le> Suc (length m)"
  by (induction m) auto

lemma length_delete_le': "length (AList.delete k m) \<le> length m"
  by (simp add: AList.length_delete_le)

lemma length_update_new: "map_of m k = None \<Longrightarrow> length (AList.update k v m) = Suc (length m)"
  by (induction m) (auto split: if_splits)

lemma length_update_old: "map_of m k \<noteq> None \<Longrightarrow> length (AList.update k v m) = length m"
  by (induction m) (auto split: if_splits)

lemma AList_update_same: "map_of m k = Some v \<Longrightarrow> gomap_ok m \<Longrightarrow> AList.update k v m = m"
  by (induction m) (auto simp: gomap_ok_def split: if_splits)

lemma AList_delete_absent: "map_of m k = None \<Longrightarrow> AList.delete k m = m"
  by (induction m) (auto simp: AList.delete_eq split: if_splits)

section \<open>Characters and strings\<close>

text \<open>
  Strings are byte strings.  \<^verbatim>\<open>strings.TrimSpace\<close> and
  \<^verbatim>\<open>strings.ToLower\<close> are modelled on ASCII, which is what the program
  gives them (provider state words).
\<close>

definition is_ascii_space :: "char \<Rightarrow> bool" where
  "is_ascii_space c \<longleftrightarrow> (let n = (of_char c :: nat) in n = 32 \<or> (9 \<le> n \<and> n \<le> 13))"

definition trimSpace :: "string \<Rightarrow> string" where
  "trimSpace s = rev (dropWhile is_ascii_space (rev (dropWhile is_ascii_space s)))"

definition char_toLower :: "char \<Rightarrow> char" where
  "char_toLower c = (let n = (of_char c :: nat) in if 65 \<le> n \<and> n \<le> 90 then char_of (n + 32) else c)"

definition toLower :: "string \<Rightarrow> string" where
  "toLower s = map char_toLower s"

definition is_hex_lower :: "char \<Rightarrow> bool" where
  "is_hex_lower c \<longleftrightarrow>
     (let n = (of_char c :: nat) in (48 \<le> n \<and> n \<le> 57) \<or> (97 \<le> n \<and> n \<le> 102))"

definition is_digit :: "char \<Rightarrow> bool" where
  "is_digit c \<longleftrightarrow> (let n = (of_char c :: nat) in 48 \<le> n \<and> n \<le> 57)"

definition is_lower :: "char \<Rightarrow> bool" where
  "is_lower c \<longleftrightarrow> (let n = (of_char c :: nat) in 97 \<le> n \<and> n \<le> 122)"

text \<open>Decimal rendering of an integer, \<^verbatim>\<open>strconv.Itoa\<close> and the verb \<^verbatim>\<open>%d\<close>.\<close>

fun nat_digits :: "nat \<Rightarrow> string" where
  "nat_digits n = (if n < 10 then [char_of (48 + n)] else nat_digits (n div 10) @ [char_of (48 + n mod 10)])"

declare nat_digits.simps [simp del]

definition itoa :: "int \<Rightarrow> string" where
  "itoa i = (if i < 0 then CHR ''-'' # nat_digits (nat (- i)) else nat_digits (nat i))"

text \<open>The value of a string of digits, as \<^verbatim>\<open>strconv.Atoi\<close> reads it.\<close>

definition digits_value :: "string \<Rightarrow> nat" where
  "digits_value ds = foldl (\<lambda>n c. 10 * n + (of_char c - 48)) 0 ds"

lemma digit_char: "d < 10 \<Longrightarrow> is_digit (char_of (48 + d)) \<and> (of_char (char_of (48 + d) :: char) :: nat) = 48 + d"
  by (simp add: is_digit_def of_char_of)

lemma nat_digits_digits: "list_all is_digit (nat_digits n) \<and> nat_digits n \<noteq> []"
proof (induction n rule: nat_digits.induct)
  case (1 n)
  then show ?case by (subst (1 2) nat_digits.simps) (simp add: digit_char)
qed

lemma digits_value_append: "digits_value (ds @ [c]) = 10 * digits_value ds + (of_char c - 48)"
  by (simp add: digits_value_def)

lemma digits_value_nat_digits: "digits_value (nat_digits n) = n"
proof (induction n rule: nat_digits.induct)
  case (1 n)
  show ?case
  proof (cases "n < 10")
    case True
    then show ?thesis using digit_char [of n] by (subst nat_digits.simps) (simp add: digits_value_def)
  next
    case False
    then show ?thesis
      using 1 digit_char [of "n mod 10"] by (subst nat_digits.simps) (simp add: digits_value_append)
  qed
qed

section \<open>A Hoare calculus over the state monad\<close>

text \<open>
  The stateful components are functions into \<^typ>\<open>('s, 'a) state\<close>.  A triple
  \<open>hoare P m Q\<close> says that from every state satisfying \<open>P\<close> the computation
  \<open>m\<close> returns a value and a state satisfying \<open>Q\<close>: computations are total, so
  the triple is a statement of total correctness.
\<close>

definition hoare :: "('s \<Rightarrow> bool) \<Rightarrow> ('s, 'a) state \<Rightarrow> ('a \<Rightarrow> 's \<Rightarrow> bool) \<Rightarrow> bool" where
  "hoare P m Q \<longleftrightarrow> (\<forall>s. P s \<longrightarrow> (case run_state m s of (a, s') \<Rightarrow> Q a s'))"

definition gets :: "('s \<Rightarrow> 'a) \<Rightarrow> ('s, 'a) state" where
  "gets f = State (\<lambda>s. (f s, s))"

definition modify :: "('s \<Rightarrow> 's) \<Rightarrow> ('s, unit) state" where
  "modify f = State (\<lambda>s. ((), f s))"

lemma run_gets [simp]: "run_state (gets f) s = (f s, s)"
  by (simp add: gets_def)

lemma run_modify [simp]: "run_state (modify f) s = ((), f s)"
  by (simp add: modify_def)

named_theorems hoare_rules \<open>syntax-directed rules of the Hoare calculus\<close>

lemma hoareI: "(\<And>s a s'. P s \<Longrightarrow> run_state m s = (a, s') \<Longrightarrow> Q a s') \<Longrightarrow> hoare P m Q"
  by (auto simp: hoare_def split: prod.splits)

lemma hoareD: "hoare P m Q \<Longrightarrow> P s \<Longrightarrow> run_state m s = (a, s') \<Longrightarrow> Q a s'"
  by (auto simp: hoare_def split: prod.splits)

lemma hoare_return [hoare_rules]: "(\<And>s. P s \<Longrightarrow> Q a s) \<Longrightarrow> hoare P (State_Monad.return a) Q"
  by (simp add: hoare_def)

lemma hoare_gets [hoare_rules]: "(\<And>s. P s \<Longrightarrow> Q (f s) s) \<Longrightarrow> hoare P (gets f) Q"
  by (simp add: hoare_def)

lemma hoare_modify [hoare_rules]: "(\<And>s. P s \<Longrightarrow> Q () (f s)) \<Longrightarrow> hoare P (modify f) Q"
  by (simp add: hoare_def)

lemma hoare_bind:
  assumes "hoare P m R" and "\<And>a. hoare (R a) (f a) Q"
  shows "hoare P (State_Monad.bind m f) Q"
  by (rule hoareI) (auto split: prod.splits dest: hoareD [OF assms(1)] hoareD [OF assms(2)])

lemma hoare_if [hoare_rules]:
  "(b \<Longrightarrow> hoare P m Q) \<Longrightarrow> (\<not> b \<Longrightarrow> hoare P n Q) \<Longrightarrow> hoare P (if b then m else n) Q"
  by simp

lemma hoare_option [hoare_rules]:
  "(x = None \<Longrightarrow> hoare P m Q) \<Longrightarrow> (\<And>a. x = Some a \<Longrightarrow> hoare P (f a) Q)
   \<Longrightarrow> hoare P (case x of None \<Rightarrow> m | Some a \<Rightarrow> f a) Q"
  by (cases x) auto

lemma hoare_sum [hoare_rules]:
  "(\<And>a. x = Inl a \<Longrightarrow> hoare P (f a) Q) \<Longrightarrow> (\<And>b. x = Inr b \<Longrightarrow> hoare P (g b) Q)
   \<Longrightarrow> hoare P (case x of Inl a \<Rightarrow> f a | Inr b \<Rightarrow> g b) Q"
  by (cases x) auto

lemma hoare_prod [hoare_rules]:
  "(\<And>a b. x = (a, b) \<Longrightarrow> hoare P (f a b) Q) \<Longrightarrow> hoare P (case x of (a, b) \<Rightarrow> f a b) Q"
  by (cases x) auto

lemma hoare_let [hoare_rules]: "hoare P (f x) Q \<Longrightarrow> hoare P (let y = x in f y) Q"
  by simp

lemma hoare_weaken:
  "hoare P' m Q' \<Longrightarrow> (\<And>s. P s \<Longrightarrow> P' s) \<Longrightarrow> (\<And>a s. Q' a s \<Longrightarrow> Q a s) \<Longrightarrow> hoare P m Q"
  by (fastforce simp: hoare_def split: prod.splits)

lemma hoare_conj:
  "hoare P m Q \<Longrightarrow> hoare P' m Q' \<Longrightarrow> hoare (\<lambda>s. P s \<and> P' s) m (\<lambda>a s. Q a s \<and> Q' a s)"
  by (auto simp: hoare_def split: prod.splits)

lemma hoare_known: "(C \<Longrightarrow> hoare P m Q) \<Longrightarrow> hoare (\<lambda>s. P s \<and> C) m Q"
  by (auto simp: hoare_def)

text \<open>
  An invariant of a computation is a predicate its every run keeps.  Invariants
  compose along \<open>bind\<close> without any intermediate assertion, so the rules below
  are applied by plain resolution.
\<close>

definition keeps :: "('s \<Rightarrow> bool) \<Rightarrow> ('s, 'a) state \<Rightarrow> bool" where
  "keeps I m \<longleftrightarrow> hoare I m (\<lambda>_. I)"

named_theorems keeps_rules \<open>rules that an invariant is kept\<close>

lemma keepsI: "(\<And>s a s'. I s \<Longrightarrow> run_state m s = (a, s') \<Longrightarrow> I s') \<Longrightarrow> keeps I m"
  by (auto simp: keeps_def intro: hoareI)

lemma keepsD: "keeps I m \<Longrightarrow> I s \<Longrightarrow> run_state m s = (a, s') \<Longrightarrow> I s'"
  by (auto simp: keeps_def dest: hoareD)

lemma keeps_return [keeps_rules]: "keeps I (State_Monad.return a)"
  by (simp add: keeps_def hoare_def)

lemma keeps_gets [keeps_rules]: "keeps I (gets f)"
  by (simp add: keeps_def hoare_def)

lemma keeps_bind [keeps_rules]:
  "keeps I m \<Longrightarrow> (\<And>a. keeps I (f a)) \<Longrightarrow> keeps I (State_Monad.bind m f)"
  unfolding keeps_def by (rule hoare_bind)

lemma keeps_modify: "(\<And>s. I s \<Longrightarrow> I (f s)) \<Longrightarrow> keeps I (modify f)"
  by (simp add: keeps_def hoare_def)

lemma keeps_if [keeps_rules]: "keeps I m \<Longrightarrow> keeps I n \<Longrightarrow> keeps I (if b then m else n)"
  by simp

lemma keeps_option [keeps_rules]:
  "keeps I m \<Longrightarrow> (\<And>a. keeps I (f a)) \<Longrightarrow> keeps I (case x of None \<Rightarrow> m | Some a \<Rightarrow> f a)"
  by (cases x) auto

lemma keeps_sum [keeps_rules]:
  "(\<And>a. keeps I (f a)) \<Longrightarrow> (\<And>b. keeps I (g b)) \<Longrightarrow> keeps I (case x of Inl a \<Rightarrow> f a | Inr b \<Rightarrow> g b)"
  by (cases x) auto

lemma keeps_prod [keeps_rules]:
  "(\<And>a b. keeps I (f a b)) \<Longrightarrow> keeps I (case x of (a, b) \<Rightarrow> f a b)"
  by (cases x) auto

lemma keeps_let [keeps_rules]: "(\<And>y. keeps I (f y)) \<Longrightarrow> keeps I (let y = x in f y)"
  by simp

section \<open>Events and what precedes them\<close>

text \<open>
  Traces in which each event is allowed after what precedes it, and stays so when more precedes it.
\<close>

definition preceded :: "('e list \<Rightarrow> 'e \<Rightarrow> bool) \<Rightarrow> 'e list \<Rightarrow> bool" where
  "preceded Q es \<longleftrightarrow> (\<forall>before e after. es = before @ e # after \<longrightarrow> Q before e)"

locale precedence =
  fixes Q :: "'e list \<Rightarrow> 'e \<Rightarrow> bool"
  assumes more_before: "Q before e \<Longrightarrow> Q (xs @ before) e"
begin

lemma preceded_append:
  assumes "preceded Q xs" and "preceded Q ys"
  shows "preceded Q (xs @ ys)"
  unfolding preceded_def
proof (intro allI impI)
  fix before e after assume "xs @ ys = before @ e # after"
  then consider zs where "xs = before @ zs" "zs @ ys = e # after"
    | zs where "before = xs @ zs" "ys = zs @ e # after"
    by (auto simp: append_eq_append_conv2)
  then show "Q before e"
  proof cases
    case 1
    then show ?thesis using assms more_before [of "[]" e before] by (cases zs) (auto simp: preceded_def)
  next
    case 2
    then show ?thesis using assms more_before by (auto simp: preceded_def)
  qed
qed

end

lemma preceded_single: "preceded Q [e] \<longleftrightarrow> Q [] e"
  by (auto simp: preceded_def Cons_eq_append_conv)

lemma preceded_snoc:
  assumes "preceded Q xs" and "Q xs e"
  shows "preceded Q (xs @ [e])"
  unfolding preceded_def
proof (intro allI impI)
  fix before e' after assume eq: "xs @ [e] = before @ e' # after"
  show "Q before e'"
  proof (cases after rule: rev_cases)
    case Nil
    then show ?thesis using eq assms(2) by simp
  next
    case (snoc ys y)
    then have "xs = before @ e' # ys" using eq by simp
    then show ?thesis using assms(1) by (simp add: preceded_def)
  qed
qed

end
