(* ===== verification/Provider_Seam.thy ===== *)
theory Provider_Seam
  imports Go_Prelude
begin

text \<open>
  The compute seam (\<^verbatim>\<open>provider/provider.go\<close>): the lease and worker records,
  Go's error values as trees, and the classification of provider errors, with the
  controller's own error kinds (\<^verbatim>\<open>controller/scaler.go\<close>, lines 34 to 107).
\<close>

section \<open>Leases, workers, conditions\<close>

record lease =
  l_ID :: string
  l_RunnerName :: string
  l_RunnerID :: int
  l_RunnerScaleSetID :: int
  l_JITConfig :: string
  l_Deadline :: gotime
  l_IdleTimeout :: duration

record worker =
  w_ID :: string
  w_LeaseID :: string
  w_RunnerName :: string
  w_RunnerID :: int
  w_RunnerScaleSetID :: int
  w_State :: string
  w_CreatedAt :: gotime

text \<open>The zero value of \<^verbatim>\<open>provider.Worker\<close>, for composite literals that set a few fields.\<close>

definition zeroWorker :: worker where
  "zeroWorker = \<lparr>w_ID = [], w_LeaseID = [], w_RunnerName = [], w_RunnerID = 0,
     w_RunnerScaleSetID = 0, w_State = [], w_CreatedAt = zeroTime\<rparr>"

record condition =
  co_Key :: string
  co_Summary :: string
  co_Action :: string
  co_Since :: gotime

section \<open>Error values\<close>

text \<open>
  A Go error is a tree: \<^verbatim>\<open>fmt.Errorf\<close> with \<^verbatim>\<open>%w\<close> and every type with an
  \<^verbatim>\<open>Unwrap\<close> method add a node above one error, \<^verbatim>\<open>errors.Join\<close> above a list.
  Message texts are kept where they tell errors apart.  A nil error is
  \<^const>\<open>None\<close> of \<open>goerr option\<close>.
\<close>

datatype sentinel =
    ErrRetirementDeferred
  | JobStillRunningError
  | ContextCanceled
  | ContextDeadlineExceeded
  | IoEOF
  | IoErrUnexpectedEOF
  | ECONNRESET
  | ECONNREFUSED
  | OsErrNotExist
  | ErrRebaseConflict
  | ErrLeaseRejected
  | ErrNotFastForward
  | ErrFull
  | ErrUnreachable
  | ErrPublicTarget

datatype goerr =
    ErrText string
  | ErrSentinel sentinel
  | ErrWrap string goerr
  | ErrJoin "goerr list"
  | UrlError goerr
  | NetError string
  | StatusError string int string
  | TransientError goerr
  | CapacityError string duration goerr
  | PartialLaunchError worker goerr
  | LaunchRejectedError string goerr
  | HandlerFailure goerr
  | AgentError string string

text \<open>The nodes of an error in the order \<^verbatim>\<open>errors.Is\<close> and \<^verbatim>\<open>errors.As\<close> visit them.\<close>

primrec err_nodes :: "goerr \<Rightarrow> goerr list" where
  "err_nodes (ErrText m) = [ErrText m]"
| "err_nodes (ErrSentinel x) = [ErrSentinel x]"
| "err_nodes (ErrWrap m e) = ErrWrap m e # err_nodes e"
| "err_nodes (ErrJoin es) = ErrJoin es # concat (map err_nodes es)"
| "err_nodes (UrlError e) = UrlError e # err_nodes e"
| "err_nodes (NetError m) = [NetError m]"
| "err_nodes (StatusError p n m) = [StatusError p n m]"
| "err_nodes (TransientError e) = TransientError e # err_nodes e"
| "err_nodes (CapacityError r d e) = CapacityError r d e # err_nodes e"
| "err_nodes (PartialLaunchError w e) = PartialLaunchError w e # err_nodes e"
| "err_nodes (LaunchRejectedError r e) = LaunchRejectedError r e # err_nodes e"
| "err_nodes (HandlerFailure e) = HandlerFailure e # err_nodes e"
| "err_nodes (AgentError c m) = [AgentError c m]"

definition errors_nodes :: "goerr option \<Rightarrow> goerr list" where
  "errors_nodes err = (case err of None \<Rightarrow> [] | Some e \<Rightarrow> err_nodes e)"

definition errors_Is :: "goerr option \<Rightarrow> sentinel \<Rightarrow> bool" where
  "errors_Is err x \<longleftrightarrow> ErrSentinel x \<in> set (errors_nodes err)"

fun errors_Join :: "goerr option list \<Rightarrow> goerr option" where
  "errors_Join errs =
     (case List.map_filter id errs of [] \<Rightarrow> None | es \<Rightarrow> Some (ErrJoin es))"

text \<open>\<^verbatim>\<open>errors.As\<close> finds the first node of the wanted type.\<close>

fun as_transient :: "goerr \<Rightarrow> bool" where
  "as_transient (TransientError e) = True"
| "as_transient _ = False"

fun as_capacity :: "goerr \<Rightarrow> (string \<times> duration) option" where
  "as_capacity (CapacityError r d e) = Some (r, d)"
| "as_capacity _ = None"

fun as_partial :: "goerr \<Rightarrow> worker option" where
  "as_partial (PartialLaunchError w e) = Some w"
| "as_partial _ = None"

fun as_status :: "goerr \<Rightarrow> (string \<times> int) option" where
  "as_status (StatusError p n m) = Some (p, n)"
| "as_status _ = None"

fun as_rejected :: "goerr \<Rightarrow> string option" where
  "as_rejected (LaunchRejectedError r e) = Some r"
| "as_rejected _ = None"

fun as_handlerFailure :: "goerr \<Rightarrow> bool" where
  "as_handlerFailure (HandlerFailure e) = True"
| "as_handlerFailure _ = False"

fun first_as :: "(goerr \<Rightarrow> 'a option) \<Rightarrow> goerr list \<Rightarrow> 'a option" where
  "first_as f [] = None"
| "first_as f (e # es) = (case f e of Some x \<Rightarrow> Some x | None \<Rightarrow> first_as f es)"

definition errors_As :: "(goerr \<Rightarrow> 'a option) \<Rightarrow> goerr option \<Rightarrow> 'a option" where
  "errors_As f err = first_as f (errors_nodes err)"

section \<open>Classification of provider errors\<close>

definition IsTransient :: "goerr option \<Rightarrow> bool" where
  "IsTransient err \<longleftrightarrow> list_ex as_transient (errors_nodes err)"

definition IsCapacity :: "goerr option \<Rightarrow> bool" where
  "IsCapacity err \<longleftrightarrow> errors_As as_capacity err \<noteq> None"

definition CapacityRetryAfter :: "goerr option \<Rightarrow> duration" where
  "CapacityRetryAfter err =
     (case errors_As as_capacity err of
        Some (r, d) \<Rightarrow> if d > 0 then d else 0
      | None \<Rightarrow> 0)"

definition validCapacityReason :: "string \<Rightarrow> bool" where
  "validCapacityReason reason =
     (if length reason < 1 \<or> length reason > 64 \<or> \<not> is_lower (hd reason) then False
      else list_all (\<lambda>c. is_lower c \<or> is_digit c \<or> c = CHR ''_'') (tl reason))"

definition CapacityReason :: "goerr option \<Rightarrow> string" where
  "CapacityReason err =
     (case errors_As as_capacity err of
        Some (r, d) \<Rightarrow> if validCapacityReason r then r else ''provider_capacity_limit''
      | None \<Rightarrow> ''provider_capacity_limit'')"

text \<open>
  \<^verbatim>\<open>classifyLaunchFailure\<close> of the scaler sorts a launch error: transient and
  capacity errors pass, 401 and 403 stay fatal, every other permanent answer
  becomes a launch rejection with a stable reason.
\<close>

definition classifyLaunchFailure :: "goerr option \<Rightarrow> goerr option" where
  "classifyLaunchFailure err =
     (case err of
        None \<Rightarrow> None
      | Some e \<Rightarrow>
          if IsTransient err \<or> IsCapacity err then err
          else (case errors_As as_status err of
                  Some (p, n) \<Rightarrow>
                    if n = 401 \<or> n = 403 then err
                    else Some (LaunchRejectedError (p @ ''_status_'' @ itoa n) e)
                | None \<Rightarrow> Some (LaunchRejectedError ''provider_launch_rejected'' e)))"

definition launchRejectionReason :: "goerr option \<Rightarrow> string" where
  "launchRejectionReason err =
     (case errors_As as_rejected err of
        Some r \<Rightarrow> if r \<noteq> [] then r else ''provider_launch_rejected''
      | None \<Rightarrow> ''provider_launch_rejected'')"

definition isHandlerFailure :: "goerr option \<Rightarrow> bool" where
  "isHandlerFailure err \<longleftrightarrow> list_ex as_handlerFailure (errors_nodes err)"

definition failClosed :: "goerr option \<Rightarrow> goerr option" where
  "failClosed err =
     (case err of
        None \<Rightarrow> None
      | Some e \<Rightarrow> if list_ex as_handlerFailure (errors_nodes err) then err else Some (HandlerFailure e))"

section \<open>Lemmas on error trees\<close>

named_theorems error_simps \<open>how the classifiers see the constructors of errors\<close>

lemma errors_nodes_simps [simp, error_simps]:
  "errors_nodes None = []"
  "errors_nodes (Some e) = err_nodes e"
  by (simp_all add: errors_nodes_def)

lemma IsTransient_None [simp, error_simps]: "\<not> IsTransient None"
  by (simp add: IsTransient_def)

lemma IsTransient_cons [simp, error_simps]:
  "IsTransient (Some (TransientError e))"
  "IsTransient (Some (ErrWrap m e)) = IsTransient (Some e)"
  "IsTransient (Some (LaunchRejectedError r e)) = IsTransient (Some e)"
  "IsTransient (Some (HandlerFailure e)) = IsTransient (Some e)"
  "IsTransient (Some (PartialLaunchError w e)) = IsTransient (Some e)"
  "IsTransient (Some (CapacityError r d e)) = IsTransient (Some e)"
  "\<not> IsTransient (Some (ErrText m))"
  "\<not> IsTransient (Some (ErrSentinel x))"
  "\<not> IsTransient (Some (StatusError p n m))"
  "IsTransient (Some (ErrJoin es)) \<longleftrightarrow> (\<exists>e \<in> set es. IsTransient (Some e))"
  by (auto simp: IsTransient_def list_ex_iff)

lemma IsCapacity_None [simp, error_simps]: "\<not> IsCapacity None"
  by (simp add: IsCapacity_def errors_As_def)

lemma IsCapacity_cons [simp, error_simps]:
  "IsCapacity (Some (CapacityError r d e))"
  "IsCapacity (Some (ErrWrap m e)) = IsCapacity (Some e)"
  "IsCapacity (Some (TransientError e)) = IsCapacity (Some e)"
  "IsCapacity (Some (LaunchRejectedError q e)) = IsCapacity (Some e)"
  "\<not> IsCapacity (Some (ErrText m))"
  "\<not> IsCapacity (Some (ErrSentinel x))"
  "\<not> IsCapacity (Some (StatusError p n m))"
  by (auto simp: IsCapacity_def errors_As_def)

lemma first_as_Some: "first_as f es = Some x \<Longrightarrow> \<exists>e \<in> set es. f e = Some x"
  by (induction es) (auto split: option.splits)

lemma first_as_None: "first_as f es = None \<longleftrightarrow> (\<forall>e \<in> set es. f e = None)"
  by (induction es) (auto split: option.splits)

lemma failClosed_None [simp]: "failClosed err = None \<longleftrightarrow> err = None"
  by (auto simp: failClosed_def split: option.splits)

lemma isHandlerFailure_failClosed: "isHandlerFailure (failClosed err) \<longleftrightarrow> err \<noteq> None"
  by (auto simp: isHandlerFailure_def failClosed_def split: option.splits)

text \<open>
  A launch failure is put in exactly one class.  A transient or capacity error
  passes through unchanged, an authorization answer (401 or 403) passes through
  unchanged and is neither transient nor a capacity limit nor a rejection of the
  adapter's own making, so it stays fatal; every other error becomes a launch
  rejection that wraps it and carries a non-empty reason.
\<close>

lemma classifyLaunchFailure_classes:
  "classifyLaunchFailure (Some e) =
     (if IsTransient (Some e) \<or> IsCapacity (Some e)
         \<or> (\<exists>p n. errors_As as_status (Some e) = Some (p, n) \<and> (n = 401 \<or> n = 403))
      then Some e
      else Some (LaunchRejectedError (launchRejectionReason (classifyLaunchFailure (Some e))) e))
   \<and> launchRejectionReason (classifyLaunchFailure (Some e)) \<noteq> []"
  by (auto simp: classifyLaunchFailure_def launchRejectionReason_def errors_As_def
      split: option.splits)

end
