(* ===== verification/Retry_Policy.thy ===== *)
theory Retry_Policy
  imports Complex_Main Provider_Seam
begin

text \<open>
  \<^verbatim>\<open>provider/retry/retry.go\<close>: the retry policy and its defaults, the retry loop
  \<^verbatim>\<open>Do\<close>, the backoff with jitter, the token bucket \<^verbatim>\<open>Limiter\<close>, and the
  classification of HTTP statuses and request errors.  \<^verbatim>\<open>float64\<close> values are
  rationals: rounding of floating-point operations is not modelled.
\<close>

section \<open>Policy\<close>

record policy =
  p_Attempts :: int
  p_InitialBackoff :: duration
  p_MaxBackoff :: duration
  p_Rate :: rat
  p_Burst :: int

definition withDefaults :: "policy \<Rightarrow> policy" where
  "withDefaults p =
     (let p = (if p_Attempts p < 1 then p\<lparr>p_Attempts := 5\<rparr> else p);
          p = (if p_InitialBackoff p \<le> 0 then p\<lparr>p_InitialBackoff := 500000000\<rparr> else p);
          p = (if p_MaxBackoff p < p_InitialBackoff p
               then p\<lparr>p_MaxBackoff := max (8 * second) (p_InitialBackoff p)\<rparr> else p);
          p = (if p_Rate p < 0 then p\<lparr>p_Rate := 0\<rparr> else p);
          p = (if p_Burst p < 1 then p\<lparr>p_Burst := 10\<rparr> else p)
      in p)"

section \<open>Backoff\<close>

primrec backoff_loop :: "nat \<Rightarrow> duration \<Rightarrow> duration \<Rightarrow> duration" where
  "backoff_loop 0 mx delay = delay"
| "backoff_loop (Suc k) mx delay =
     (if delay < mx then backoff_loop k mx (wrap64 (delay * 2)) else delay)"

definition backoff_nominal :: "policy \<Rightarrow> int \<Rightarrow> duration" where
  "backoff_nominal p attempt =
     min (backoff_loop (nat (attempt - 1)) (p_MaxBackoff p) (p_InitialBackoff p)) (p_MaxBackoff p)"

text \<open>\<open>r\<close> is the random number in \<open>[0, 1)\<close> the retryer draws.\<close>

definition Backoff :: "policy \<Rightarrow> int \<Rightarrow> rat \<Rightarrow> duration" where
  "Backoff p attempt r = \<lfloor>of_int (backoff_nominal p attempt) * (3 / 4 + r * (1 / 2))\<rfloor>"

section \<open>The retry loop\<close>

text \<open>
  A retryer's pacing, sleeping and randomness are computations over a state that
  stands for everything outside; so is the operation it repeats.
\<close>

record 's retryer =
  r_policy :: policy
  r_wait :: "('s, goerr option) state"
  r_sleep :: "duration \<Rightarrow> ('s, goerr option) state"
  r_random :: "('s, rat) state"

primrec retry_from :: "nat \<Rightarrow> 's retryer \<Rightarrow> int \<Rightarrow> ('s, goerr option) state \<Rightarrow> goerr option
    \<Rightarrow> ('s, goerr option) state" where
  "retry_from 0 r attempt operation last_err = State_Monad.return last_err"
| "retry_from (Suc k) r attempt operation last_err =
     do { waited \<leftarrow> r_wait r;
          case waited of
            Some err \<Rightarrow> State_Monad.return (Some err)
          | None \<Rightarrow>
              do { last \<leftarrow> operation;
                   if last = None \<or> \<not> IsTransient last then State_Monad.return last
                   else if attempt = p_Attempts (r_policy r) then State_Monad.return last
                   else do { x \<leftarrow> r_random r;
                             slept \<leftarrow> r_sleep r (Backoff (r_policy r) attempt x);
                             case slept of
                               Some err \<Rightarrow> State_Monad.return (errors_Join [last, Some err])
                             | None \<Rightarrow> retry_from k r (attempt + 1) operation last } } }"

definition retry_Do :: "'s retryer \<Rightarrow> ('s, goerr option) state \<Rightarrow> ('s, goerr option) state" where
  "retry_Do r operation = retry_from (nat (p_Attempts (r_policy r))) r 1 operation None"

section \<open>The token bucket\<close>

record limiter =
  lim_rate :: rat
  lim_burst :: rat
  lim_tokens :: rat
  lim_last :: gotime

definition NewLimiter :: "rat \<Rightarrow> int \<Rightarrow> limiter" where
  "NewLimiter rate burst =
     (let burst = (if burst < 1 then 1 else burst)
      in \<lparr>lim_rate = rate, lim_burst = of_int burst, lim_tokens = of_int burst, lim_last = zeroTime\<rparr>)"

text \<open>
  The locked part of \<^verbatim>\<open>Wait\<close> at time \<open>now\<close>: the updated bucket, and how long
  the caller sleeps (\<^const>\<open>None\<close>: it is admitted at once).
\<close>

definition limiter_refill :: "limiter \<Rightarrow> gotime \<Rightarrow> limiter" where
  "limiter_refill l now =
     (let l = (if \<not> time_isZero (lim_last l)
               then l\<lparr>lim_tokens := min (lim_burst l)
                      (lim_tokens l + of_int (time_sub now (lim_last l)) / of_int second * lim_rate l)\<rparr>
               else l)
      in l\<lparr>lim_last := now\<rparr>)"

definition limiter_take :: "limiter \<Rightarrow> gotime \<Rightarrow> limiter \<times> duration option" where
  "limiter_take l now =
     (let l = limiter_refill l now
      in if lim_tokens l \<ge> 1 then (l\<lparr>lim_tokens := lim_tokens l - 1\<rparr>, None)
         else (l\<lparr>lim_tokens := 0\<rparr>,
               Some \<lfloor>(1 - lim_tokens l) / lim_rate l * of_int second\<rfloor>))"

text \<open>\<open>ctx\<close> is the context's error, \<open>sleep\<close> the injected sleep.\<close>

definition limiter_Wait :: "limiter \<Rightarrow> gotime \<Rightarrow> goerr option \<Rightarrow> (duration \<Rightarrow> goerr option)
    \<Rightarrow> limiter \<times> goerr option" where
  "limiter_Wait l now ctx sleep =
     (if lim_rate l \<le> 0 then (l, ctx)
      else (case limiter_take l now of
              (l', None) \<Rightarrow> (l', ctx)
            | (l', Some wait) \<Rightarrow> (l', sleep wait)))"

text \<open>A single caller that calls \<^verbatim>\<open>Wait\<close> again as soon as the last call returned.\<close>

primrec limiter_calls :: "nat \<Rightarrow> limiter \<Rightarrow> gotime \<Rightarrow> limiter \<times> gotime" where
  "limiter_calls 0 l now = (l, now)"
| "limiter_calls (Suc n) l now =
     (case limiter_take l now of
        (l', None) \<Rightarrow> limiter_calls n l' now
      | (l', Some wait) \<Rightarrow> limiter_calls n l' (now + wait))"

section \<open>Classification of answers\<close>

definition Transient :: "goerr option \<Rightarrow> goerr option" where
  "Transient err =
     (case err of None \<Rightarrow> None
      | Some e \<Rightarrow> if IsTransient err then err else Some (TransientError e))"

definition RetryableStatus :: "int \<Rightarrow> bool" where
  "RetryableStatus status \<longleftrightarrow> status \<in> {429, 500, 502, 503, 504}"

fun as_url :: "goerr \<Rightarrow> goerr option" where
  "as_url (UrlError e) = Some e"
| "as_url _ = None"

text \<open>
  The errors that implement \<^verbatim>\<open>net.Error\<close> (\<^verbatim>\<open>url.Error\<close>, socket errors and
  \<^verbatim>\<open>syscall.Errno\<close> among them).
\<close>

fun as_net :: "goerr \<Rightarrow> unit option" where
  "as_net (UrlError e) = Some ()"
| "as_net (NetError m) = Some ()"
| "as_net (ErrSentinel ECONNRESET) = Some ()"
| "as_net (ErrSentinel ECONNREFUSED) = Some ()"
| "as_net (ErrSentinel ContextDeadlineExceeded) = Some ()"
| "as_net _ = None"

definition ClassifyRequestError :: "goerr option \<Rightarrow> goerr option" where
  "ClassifyRequestError err =
     (if err = None then None
      else if errors_Is err ContextCanceled \<or> errors_Is err ContextDeadlineExceeded then err
      else (case errors_As as_url err of
              Some inner \<Rightarrow> if errors_Is (Some inner) ContextCanceled then err else Transient err
            | None \<Rightarrow>
                if errors_As as_net err \<noteq> None \<or> errors_Is err IoEOF \<or> errors_Is err IoErrUnexpectedEOF
                   \<or> errors_Is err ECONNRESET \<or> errors_Is err ECONNREFUSED
                then Transient err else err))"

definition ClassifyStatus :: "string \<Rightarrow> int \<Rightarrow> string \<Rightarrow> goerr option" where
  "ClassifyStatus providerName status message =
     (let err = Some (StatusError providerName status message)
      in if RetryableStatus status then Transient err else err)"

section \<open>Lemmas\<close>

lemma ClassifyStatus_transient: "IsTransient (ClassifyStatus p n m) \<longleftrightarrow> RetryableStatus n"
  by (simp add: ClassifyStatus_def Transient_def Let_def)

lemma backoff_loop_bounds:
  assumes "0 < delay" "delay \<le> mx" "mx \<le> 4611686018427387904"
  shows "0 < backoff_loop k mx delay
       \<and> min (backoff_loop k mx delay) mx = min (delay * 2 ^ k) mx"
  using assms(1,2)
proof (induction k arbitrary: delay)
  case 0
  then show ?case by simp
next
  case (Suc k)
  show ?case
  proof (cases "delay < mx")
    case True
    have wrap: "wrap64 (delay * 2) = delay * 2"
      using Suc.prems True assms(3) by (intro wrap64_id) (auto simp: minInt64_def maxInt64_def)
    show ?thesis
    proof (cases "delay * 2 \<le> mx")
      case True
      with Suc.IH [of "delay * 2"] Suc.prems wrap \<open>delay < mx\<close> show ?thesis
        by (simp add: mult.assoc)
    next
      case False
      then have "\<not> delay * 2 < mx" by simp
      then have stop: "backoff_loop k mx (delay * 2) = delay * 2" by (cases k) auto
      have "(1::int) \<le> 2 ^ k" by simp
      then have "delay * 2 * 1 \<le> delay * 2 * 2 ^ k" using Suc.prems by (intro mult_left_mono) auto
      then have "delay * 2 \<le> delay * 2 ^ Suc k" by (simp add: mult.assoc)
      with False have "mx \<le> delay * 2 ^ Suc k" by linarith
      with stop wrap \<open>delay < mx\<close> False Suc.prems show ?thesis by simp
    qed
  next
    case False
    with Suc.prems have "delay = mx" by simp
    moreover have "mx * 1 \<le> mx * 2 ^ Suc k"
      using \<open>delay = mx\<close> Suc.prems by (intro mult_left_mono one_le_power) auto
    ultimately show ?thesis using Suc.prems by simp
  qed
qed

text \<open>
  The nominal delay after failed attempt \<open>n\<close> is the initial backoff doubled
  \<open>n - 1\<close> times and cut at the maximum, for every positive initial backoff and every
  maximum up to \<open>2 ^ 62\<close> nanoseconds (146 years), with no wrap-around on the way.
\<close>

theorem backoff_nominal_doubles:
  assumes "0 < p_InitialBackoff p" and "p_InitialBackoff p \<le> p_MaxBackoff p"
    and "p_MaxBackoff p \<le> 4611686018427387904"
  shows "backoff_nominal p attempt
       = min (p_InitialBackoff p * 2 ^ nat (attempt - 1)) (p_MaxBackoff p)"
  using backoff_loop_bounds [OF assms] by (simp add: backoff_nominal_def)

definition example_policy :: policy where
  "example_policy = \<lparr>p_Attempts = 5, p_InitialBackoff = 100000000, p_MaxBackoff = 350000000,
     p_Rate = 1, p_Burst = 1\<rparr>"

theorem backoff_nominal_doubles_witness: "backoff_nominal example_policy 3 = 350000000"
  using backoff_nominal_doubles [of example_policy 3] by (simp add: example_policy_def)

lemma withDefaults_wf:
  "1 \<le> p_Attempts (withDefaults p) \<and> 0 < p_InitialBackoff (withDefaults p)
   \<and> p_InitialBackoff (withDefaults p) \<le> p_MaxBackoff (withDefaults p)
   \<and> 0 \<le> p_Rate (withDefaults p) \<and> 1 \<le> p_Burst (withDefaults p)"
  by (auto simp: withDefaults_def Let_def)

text \<open>
  The number of calls of the operation is bounded through any counter of the outer
  state that the operation raises by at most one and that pacing, sleeping and the
  random source leave alone.
\<close>

lemma retry_from_bounded:
  assumes op: "\<And>s a s'. run_state operation s = (a, s') \<Longrightarrow> f s' \<le> f s + (1::nat)"
    and wait: "\<And>s a s'. run_state (r_wait r) s = (a, s') \<Longrightarrow> f s' = f s"
    and sleep: "\<And>d s a s'. run_state (r_sleep r d) s = (a, s') \<Longrightarrow> f s' = f s"
    and random: "\<And>s a s'. run_state (r_random r) s = (a, s') \<Longrightarrow> f s' = f s"
    and run: "run_state (retry_from k r attempt operation l0) s = (a, s')"
  shows "f s' \<le> f s + k"
  using run
proof (induction k arbitrary: attempt l0 s)
  case 0
  then show ?case by simp
next
  case (Suc k)
  obtain w s1 where w: "run_state (r_wait r) s = (w, s1)" by fastforce
  obtain e s2 where e: "run_state operation s1 = (e, s2)" by fastforce
  obtain x s3 where x: "run_state (r_random r) s2 = (x, s3)" by fastforce
  obtain z s4 where z: "run_state (r_sleep r (Backoff (r_policy r) attempt x)) s3 = (z, s4)"
    by fastforce
  have "f s4 \<le> f s + 1"
    using wait [OF w] op [OF e] random [OF x] sleep [OF z] by simp
  moreover have "f s' \<le> f s4 + k"
    if "run_state (retry_from k r (attempt + 1) operation e) s4 = (a, s')"
    using Suc.IH [OF that] .
  moreover have "f s1 = f s" "f s2 \<le> f s + 1" using wait [OF w] op [OF e] by simp_all
  ultimately show ?case using Suc.prems w e x z sleep [OF z] random [OF x]
    by (auto split: option.splits if_splits)
qed

text \<open>
  \<^verbatim>\<open>Do\<close> calls the operation at most \<^verbatim>\<open>Attempts\<close> times.
\<close>

theorem retry_Do_attempts:
  assumes "\<And>s a s'. run_state operation s = (a, s') \<Longrightarrow> calls s' \<le> calls s + (1::nat)"
    and "\<And>s a s'. run_state (r_wait r) s = (a, s') \<Longrightarrow> calls s' = calls s"
    and "\<And>d s a s'. run_state (r_sleep r d) s = (a, s') \<Longrightarrow> calls s' = calls s"
    and "\<And>s a s'. run_state (r_random r) s = (a, s') \<Longrightarrow> calls s' = calls s"
    and "run_state (retry_Do r operation) s = (err, s')"
  shows "calls s' \<le> calls s + nat (p_Attempts (r_policy r))"
  by (rule retry_from_bounded [OF assms(1-4) assms(5) [unfolded retry_Do_def]])

definition example_retryer :: "nat retryer" where
  "example_retryer = \<lparr>r_policy = example_policy, r_wait = State_Monad.return None,
     r_sleep = (\<lambda>d. State_Monad.return None), r_random = State_Monad.return 0\<rparr>"

definition example_failing :: "(nat, goerr option) state" where
  "example_failing = State (\<lambda>n. (Some (TransientError (ErrText ''down'')), Suc n))"

theorem retry_Do_attempts_witness:
  "snd (run_state (retry_Do example_retryer example_failing) 0) \<le> 5"
proof -
  obtain err s' where run: "run_state (retry_Do example_retryer example_failing) 0 = (err, s')"
    by fastforce
  have "id s' \<le> id (0::nat) + nat (p_Attempts (r_policy example_retryer))"
    by (rule retry_Do_attempts [OF _ _ _ _ run])
      (simp_all add: example_retryer_def example_failing_def)
  with run show ?thesis by (simp add: example_retryer_def example_policy_def)
qed

subsection \<open>The token bucket\<close>

definition limiter_ok :: "limiter \<Rightarrow> bool" where
  "limiter_ok l \<longleftrightarrow> 0 < lim_rate l \<and> 1 \<le> lim_burst l \<and> 0 \<le> lim_tokens l \<and> lim_tokens l \<le> lim_burst l"

lemma limiter_refill_ok:
  assumes "limiter_ok l" and "lim_last l \<le> now"
  shows "limiter_ok (limiter_refill l now)"
proof -
  have "0 \<le> time_sub now (lim_last l)" using assms(2) time_sub_le [of now "lim_last l"] by simp
  then have "0 \<le> (of_int (time_sub now (lim_last l)) :: rat) / of_int second * lim_rate l"
    using assms(1) by (simp add: limiter_ok_def)
  with assms(1) show ?thesis by (auto simp: limiter_ok_def limiter_refill_def Let_def)
qed

lemma limiter_take_ok:
  assumes "limiter_ok l" and "lim_last l \<le> now" and "limiter_take l now = (l', w)"
  shows "limiter_ok l' \<and> lim_last l' = now \<and> (\<forall>d. w = Some d \<longrightarrow> 0 \<le> d)"
proof -
  have "limiter_ok (limiter_refill l now)" using limiter_refill_ok [OF assms(1,2)] .
  moreover have "lim_last (limiter_refill l now) = now" by (simp add: limiter_refill_def)
  ultimately show ?thesis using assms(3)
    by (auto simp: limiter_take_def limiter_ok_def Let_def split: if_splits)
qed

lemma limiter_calls_add:
  "limiter_calls (m + n) l now = (case limiter_calls m l now of (l', t) \<Rightarrow> limiter_calls n l' t)"
  by (induction m arbitrary: l now) (auto split: prod.splits option.splits)

text \<open>
  Two calls of a lone caller on an empty bucket: the first sleeps one period, the
  second finds the tokens that accrued during that sleep and does not sleep at all.
\<close>

lemma limiter_calls_two:
  assumes "limiter_ok l" and "lim_tokens l = 0" and "lim_last l = now" and "0 < now"
    and "lim_rate l * of_int period = of_int second" and "period \<le> maxInt64"
  shows "limiter_calls 2 l now = (l\<lparr>lim_last := now + period\<rparr>, now + period)"
proof -
  have rate: "0 < lim_rate l" and burst: "1 \<le> lim_burst l" using assms(1) by (auto simp: limiter_ok_def)
  have period: "of_int period = of_int second / lim_rate l"
    using assms(5) rate by (simp add: field_simps)
  then have "0 < (of_int period :: rat)" using rate by simp
  then have pos: "0 < period" by simp
  have first: "limiter_take l now = (l, Some period)"
  proof -
    have "limiter_refill l now = l"
      using assms(2,3) burst by (simp add: limiter_refill_def time_sub_def minInt64_def maxInt64_def)
    moreover have "\<lfloor>1 / lim_rate l * of_int second\<rfloor> = period"
      using period [symmetric] by simp
    ultimately show ?thesis using assms(2) by (simp add: limiter_take_def)
  qed
  have "time_sub (now + period) now = period"
    using pos assms(6) by (simp add: time_sub_def minInt64_def)
  moreover have "of_int period / of_int second * lim_rate l = 1"
    using assms(5) by (simp add: field_simps)
  ultimately have "limiter_take l (now + period) = (l\<lparr>lim_last := now + period\<rparr>, None)"
    using assms(2,3,4) burst
    by (simp add: limiter_take_def limiter_refill_def time_isZero_def zeroTime_def Let_def)
  with first show ?thesis by (simp add: numeral_2_eq_2)
qed

text \<open>
  C40. A lone caller that repeats \<^verbatim>\<open>Wait\<close> on an empty bucket is admitted \<open>2 n\<close>
  times in \<open>n\<close> periods of \<open>1 / rate\<close>: twice the configured rate, for every rate whose
  period is a whole number of nanoseconds.  The sleeping branch sets the bucket to
  zero without charging the token it hands out against the refill of the sleep.
\<close>

theorem limiter_sustained_rate_doubled:
  assumes "limiter_ok l" and "lim_tokens l = 0" and "lim_last l = now" and "0 < now"
    and "lim_rate l * of_int period = of_int second" and "period \<le> maxInt64"
  shows "limiter_calls (2 * n) l now
       = (l\<lparr>lim_last := now + int n * period\<rparr>, now + int n * period)"
proof -
  have pos: "0 < period"
  proof -
    have "0 < lim_rate l * of_int period" using assms(5) by simp
    moreover have "0 < lim_rate l" using assms(1) by (simp add: limiter_ok_def)
    ultimately show ?thesis by (simp add: zero_less_mult_iff)
  qed
  show ?thesis
    using assms(1-5)
  proof (induction n arbitrary: l now)
    case 0
    then show ?case by simp
  next
    case (Suc n)
    let ?l = "l\<lparr>lim_last := now + period\<rparr>"
    have two: "limiter_calls 2 l now = (?l, now + period)"
      by (rule limiter_calls_two [OF Suc.prems assms(6)])
    have split: "limiter_calls (2 * Suc n) l now = limiter_calls (2 * n) ?l (now + period)"
      using limiter_calls_add [of 2 "2 * n" l now] two by simp
    have "limiter_calls (2 * n) ?l (now + period)
        = (?l\<lparr>lim_last := now + period + int n * period\<rparr>, now + period + int n * period)"
      by (rule Suc.IH) (use Suc.prems pos in \<open>auto simp: limiter_ok_def\<close>)
    with split show ?case by (simp add: algebra_simps)
  qed
qed

theorem limiter_sustained_rate_doubled_witness:
  "snd (limiter_calls 100 \<lparr>lim_rate = 10, lim_burst = 2, lim_tokens = 0, lim_last = hour\<rparr> hour)
     = hour + 5 * second"
  using limiter_sustained_rate_doubled
    [of "\<lparr>lim_rate = 10, lim_burst = 2, lim_tokens = 0, lim_last = hour\<rparr>" hour 100000000 50]
  by (simp add: limiter_ok_def maxInt64_def)

end
