(* ===== verification/Durable_File.thy ===== *)
theory Durable_File
  imports Provider_Seam
begin

text \<open>
  The controller's three durable files (usage ledger, retirement journal, fleet
  status) are replaced in the same way: write a temporary file, sync it, rename it
  over the old one, sync the directory.  This theory models that sequence and the
  pattern \<^emph>\<open>mutate the memory, persist, restore the memory on failure\<close> around it,
  and states what the two ledgers promise their clients as a locale.

  The file system is outside the program: for each write it is a function from the
  steps of the sequence to the error each step returns.  The JSON text of a file is
  identified with the value it encodes.
\<close>

datatype fs_step =
    FsMkdirAll | FsLstat | FsRegular | FsEncode | FsOpenTemp | FsChmodTemp | FsWriteTemp | FsSyncTemp
  | FsCloseTemp | FsRename | FsChmod | FsOpenDir | FsSyncDir

type_synonym fs = "fs_step \<Rightarrow> goerr option"

text \<open>What is found at a path: nothing, something unreadable, bytes that do not decode, or a value.\<close>

datatype 'f fileState = FileAbsent | FileUnreadable goerr | FileMalformed goerr | FileContent 'f

text \<open>
  The journal and the status file are inspected before they are read.  The probe holds
  what each system call of the inspection answers and what the bytes decode to.
\<close>

record 'f fileProbe =
  fp_abs :: "goerr option"
  fp_root :: "goerr option"
  fp_lstat :: "goerr option"
  fp_symlink :: bool
  fp_regular :: bool
  fp_groupOrOthers :: bool
  fp_size :: int
  fp_open :: "goerr option"
  fp_sameFile :: bool
  fp_decode :: "goerr + 'f"
  fp_trailing :: bool

text \<open>The first failing step ends the sequence with its own message around the error.\<close>

fun run_steps :: "fs \<Rightarrow> (fs_step \<times> string) list \<Rightarrow> goerr option" where
  "run_steps fs [] = None"
| "run_steps fs ((step, message) # steps) =
     (case fs step of
        Some e \<Rightarrow> Some (ErrWrap message e)
      | None \<Rightarrow> run_steps fs steps)"

text \<open>
  \<open>before\<close> are the steps up to and including the rename, \<open>after\<close> those behind it.  A
  failure before the rename leaves the old file; a failure after it is reported
  although the new file is already in place.
\<close>

definition replace_file :: "fs \<Rightarrow> (fs_step \<times> string) list \<Rightarrow> (fs_step \<times> string) list \<Rightarrow> 'f
    \<Rightarrow> 'f fileState \<Rightarrow> goerr option \<times> 'f fileState" where
  "replace_file fs before after content old =
     (case run_steps fs before of
        Some e \<Rightarrow> (Some e, old)
      | None \<Rightarrow> (run_steps fs after, FileContent content))"

text \<open>
  The controller's write pattern: set the new contents in memory, persist, and put
  the previous contents back when that fails.
\<close>

definition commit :: "(fs \<Rightarrow> 's \<Rightarrow> goerr option \<times> 's) \<Rightarrow> ('s \<Rightarrow> 'c) \<Rightarrow> ('c \<Rightarrow> 's \<Rightarrow> 's)
    \<Rightarrow> fs \<Rightarrow> 'c \<Rightarrow> 's \<Rightarrow> goerr option \<times> 's" where
  "commit persist content set_content fs c s =
     (case persist fs (set_content c s) of
        (None, s') \<Rightarrow> (None, s')
      | (Some e, s') \<Rightarrow> (Some e, set_content (content s) s'))"

lemma run_steps_None: "run_steps fs steps = None \<longleftrightarrow> (\<forall>(step, m) \<in> set steps. fs step = None)"
  by (induction steps) (auto split: option.splits)

lemma replace_file_cases:
  "replace_file fs before after content old = (e, new)
   \<Longrightarrow> (e = None \<longrightarrow> new = FileContent content) \<and> new \<in> {old, FileContent content}"
  by (auto simp: replace_file_def split: option.splits)

section \<open>The contract of a durable store\<close>

text \<open>
  \<open>content\<close> is what the store holds in memory, \<open>durable\<close> the file, \<open>encode\<close> what
  \<open>persist\<close> writes for a memory content.
\<close>

locale durable_store =
  fixes content :: "'s \<Rightarrow> 'c"
    and set_content :: "'c \<Rightarrow> 's \<Rightarrow> 's"
    and durable :: "'s \<Rightarrow> 'f fileState"
    and encode :: "'c \<Rightarrow> 'f"
    and persist :: "fs \<Rightarrow> 's \<Rightarrow> goerr option \<times> 's"
  assumes get_set: "content (set_content c s) = c"
    and set_set: "set_content c (set_content c' s) = set_content c s"
    and durable_set: "durable (set_content c s) = durable s"
    and persist_content: "content (snd (persist fs s)) = content s"
    and persist_ok: "fst (persist fs s) = None \<Longrightarrow> durable (snd (persist fs s)) = FileContent (encode (content s))"
    and persist_atomic: "durable (snd (persist fs s)) \<in> {durable s, FileContent (encode (content s))}"
begin

text \<open>A commit that succeeds is in memory and in the file.\<close>

lemma commit_ok:
  assumes "commit persist content set_content fs c s = (None, s')"
  shows "content s' = c \<and> durable s' = FileContent (encode c)"
proof -
  obtain e t where p: "persist fs (set_content c s) = (e, t)" by fastforce
  with assms have "e = None" "t = s'" by (auto simp: commit_def split: option.splits)
  with p show ?thesis
    using persist_content [of fs "set_content c s"] persist_ok [of fs "set_content c s"]
    by (simp add: get_set)
qed

text \<open>
  A commit that fails leaves the memory as it was; the file holds its old contents or
  the new ones, never a mixture.
\<close>

lemma commit_fail:
  assumes "commit persist content set_content fs c s = (Some e, s')"
  shows "content s' = content s \<and> durable s' \<in> {durable s, FileContent (encode c)}"
proof -
  obtain e' t where p: "persist fs (set_content c s) = (e', t)" by fastforce
  with assms have "s' = set_content (content s) t" by (auto simp: commit_def split: option.splits)
  with p show ?thesis
    using persist_atomic [of fs "set_content c s"] by (simp add: get_set durable_set)
qed

lemma commit_content:
  "commit persist content set_content fs c s = (e, s')
   \<Longrightarrow> content s' = (if e = None then c else content s)"
  using commit_ok commit_fail by (cases e) auto

text \<open>After a commit the file holds what the memory held before or holds now.\<close>

lemma commit_synced:
  assumes "durable s = FileContent (encode (content s))"
    and "commit persist content set_content fs c s = (e, s')"
  shows "durable s' \<in> {FileContent (encode (content s)), FileContent (encode c)}"
  using assms(1) commit_ok [of fs c s s'] commit_fail [of fs c s _ s'] assms(2)
  by (cases e) auto

end

end
