(* ===== verification/Usage_Budget.thy ===== *)
theory Usage_Budget
  imports Durable_File
begin

text \<open>
  \<^verbatim>\<open>controller/usage_budget.go\<close>: the durable rolling-window ledger of runner
  seconds.  A lease is reserved at its maximum lifetime before a launch, and settled,
  forfeited or released afterwards; usage leaves the window after \<^verbatim>\<open>window\<close>.
\<close>

section \<open>Data\<close>

record usageEntry =
  ue_LeaseID :: string
  ue_ChargedAt :: gotime
  ue_StartedAt :: gotime
  ue_Seconds :: int
  ue_Active :: bool
  ue_Confirmed :: bool

record usageLedger =
  ul_Version :: int
  ul_Entries :: "usageEntry list"

record usageBudget =
  ub_limit :: duration
  ub_window :: duration
  ub_reservation :: duration
  ub_stateFile :: string
  ub_entries :: "usageEntry list"
  ub_disk :: "usageLedger fileState"

record budgetStatus =
  bs_LimitSeconds :: int
  bs_UsedSeconds :: int
  bs_ReservedSeconds :: int
  bs_RemainingSeconds :: int
  bs_WindowSeconds :: int
  bs_RefusalReason :: string
  bs_NextAvailableAt :: gotime
  bs_BurnSecondsPerDay :: int
  bs_HorizonSeconds :: int

text \<open>
  \<^verbatim>\<open>int64(math.Ceil(value.Seconds()))\<close>: the ceiling in seconds.  The floating-point
  \<^verbatim>\<open>Seconds()\<close> separates all nanoseconds of a duration below \<open>2 ^ 23\<close> seconds (97
  days), so the integer ceiling is exact there, and for whole seconds everywhere.
\<close>

definition durationSeconds :: "duration \<Rightarrow> int" where
  "durationSeconds d = - ((- d) div second)"

definition longestReservation :: duration where
  "longestReservation = 24 * hour"

section \<open>The ledger's arithmetic\<close>

definition entry_expiry :: "usageEntry \<Rightarrow> gotime" where
  "entry_expiry e = ue_StartedAt e + wrap64 (ue_Seconds e * second)"

definition expire_entry :: "gotime \<Rightarrow> usageEntry \<Rightarrow> usageEntry" where
  "expire_entry now e =
     (if ue_Active e \<and> \<not> now < entry_expiry e
      then e\<lparr>ue_Active := False, ue_ChargedAt := entry_expiry e\<rparr> else e)"

definition budget_prune :: "usageBudget \<Rightarrow> gotime \<Rightarrow> bool \<times> usageBudget" where
  "budget_prune b now =
     (let expired = map (expire_entry now) (ub_entries b);
          changed = list_ex (\<lambda>e. ue_Active e \<and> \<not> now < entry_expiry e) (ub_entries b);
          cutoff = now - ub_window b;
          kept = filter (\<lambda>e. \<not> (\<not> ue_Active e \<and> ue_ChargedAt e < cutoff)) expired
      in (changed \<or> length kept \<noteq> length expired, b\<lparr>ub_entries := kept\<rparr>))"

fun sum_seconds :: "int \<Rightarrow> usageEntry list \<Rightarrow> int" where
  "sum_seconds acc [] = acc"
| "sum_seconds acc (e # es) = sum_seconds (wrap64 (acc + ue_Seconds e)) es"

definition usedSeconds :: "usageBudget \<Rightarrow> int" where
  "usedSeconds b = sum_seconds 0 (ub_entries b)"

definition nextAvailable :: "usageBudget \<Rightarrow> gotime \<Rightarrow> gotime" where
  "nextAvailable b now =
     (case sort_key ue_ChargedAt (filter (\<lambda>e. \<not> ue_Active e) (ub_entries b)) of
        [] \<Rightarrow> now + ub_window b
      | e # es \<Rightarrow> ue_ChargedAt e + ub_window b)"

fun burn_loop :: "gotime \<Rightarrow> int \<Rightarrow> gotime \<Rightarrow> usageEntry list \<Rightarrow> int \<times> gotime" where
  "burn_loop cutoff recent oldest [] = (recent, oldest)"
| "burn_loop cutoff recent oldest (e # es) =
     (if ue_Active e \<or> ue_ChargedAt e < cutoff then burn_loop cutoff recent oldest es
      else burn_loop cutoff (wrap64 (recent + ue_Seconds e))
             (if ue_ChargedAt e < oldest then ue_ChargedAt e else oldest) es)"

text \<open>The floating-point quotient is taken exactly and truncated.\<close>

definition burnPerDay :: "usageBudget \<Rightarrow> gotime \<Rightarrow> int" where
  "burnPerDay b now =
     (case burn_loop (now - 24 * hour) 0 now (ub_entries b) of
        (recent, oldest) \<Rightarrow>
          if recent = 0 then 0
          else (let span = max (time_sub now oldest) hour
                in sgn recent * ((\<bar>recent\<bar> * (24 * hour)) div span)))"

fun snapshot_loop :: "gotime \<Rightarrow> int \<Rightarrow> int \<Rightarrow> usageEntry list \<Rightarrow> int \<times> int" where
  "snapshot_loop cutoff used reserved [] = (used, reserved)"
| "snapshot_loop cutoff used reserved (e # es) =
     (if \<not> ue_Active e \<and> ue_ChargedAt e < cutoff then snapshot_loop cutoff used reserved es
      else if ue_Active e then snapshot_loop cutoff used (wrap64 (reserved + ue_Seconds e)) es
      else snapshot_loop cutoff (wrap64 (used + ue_Seconds e)) reserved es)"

text \<open>Go's \<open>/\<close> truncates; the divisor is positive where it is used.\<close>

definition budget_snapshot :: "usageBudget \<Rightarrow> gotime \<Rightarrow> budgetStatus" where
  "budget_snapshot b now =
     (case snapshot_loop (now - ub_window b) 0 0 (ub_entries b) of
        (used, reserved) \<Rightarrow>
          (let limit = durationSeconds (ub_limit b);
               remaining = max 0 (wrap64 (wrap64 (limit - used) - reserved));
               burn = burnPerDay b now;
               horizon = (if burn > 0
                          then (let x = wrap64 (remaining * 86400) in sgn x * (\<bar>x\<bar> div burn)) else 0);
               refused = remaining < durationSeconds (ub_reservation b)
           in \<lparr>bs_LimitSeconds = limit, bs_UsedSeconds = used, bs_ReservedSeconds = reserved,
               bs_RemainingSeconds = remaining, bs_WindowSeconds = durationSeconds (ub_window b),
               bs_RefusalReason = (if refused then ''usage_budget_exhausted'' else []),
               bs_NextAvailableAt = (if refused then nextAvailable b now else zeroTime),
               bs_BurnSecondsPerDay = burn, bs_HorizonSeconds = horizon\<rparr>))"

section \<open>Validation\<close>

fun validate_entries :: "duration \<Rightarrow> string list \<Rightarrow> int \<Rightarrow> usageEntry list \<Rightarrow> goerr option" where
  "validate_entries reservation seen acc [] = None"
| "validate_entries reservation seen acc (e # es) =
     (if ue_LeaseID e = [] \<or> time_isZero (ue_StartedAt e) \<or> time_isZero (ue_ChargedAt e)
        then Some (ErrText ''invalid runner usage budget entry: identity and timestamps are required'')
      else if ue_LeaseID e \<in> set seen
        then Some (ErrText ''invalid runner usage budget: duplicate lease'')
      else if ue_Seconds e < 1 \<or> ue_Seconds e > durationSeconds longestReservation
        then Some (ErrText ''invalid runner usage budget entry: seconds out of range'')
      else if ue_Active e \<and> ue_Seconds e < durationSeconds reservation
        then Some (ErrText ''invalid runner usage budget entry: active reservation is undercharged'')
      else if \<not> ue_Active e \<and> ue_ChargedAt e < ue_StartedAt e
        then Some (ErrText ''invalid runner usage budget entry: charge precedes start'')
      else if acc > maxInt64 - ue_Seconds e
        then Some (ErrText ''invalid runner usage budget: usage overflow'')
      else validate_entries reservation (ue_LeaseID e # seen) (acc + ue_Seconds e) es)"

definition budget_validate :: "usageBudget \<Rightarrow> goerr option" where
  "budget_validate b = validate_entries (ub_reservation b) [] 0 (ub_entries b)"

section \<open>Persistence\<close>

definition budget_ledger :: "usageEntry list \<Rightarrow> usageLedger" where
  "budget_ledger es = \<lparr>ul_Version = 1, ul_Entries = es\<rparr>"

definition budget_persist :: "fs \<Rightarrow> usageBudget \<Rightarrow> goerr option \<times> usageBudget" where
  "budget_persist fs b =
     (case replace_file fs
        [(FsMkdirAll, ''create runner usage budget directory''),
         (FsEncode, ''encode runner usage budget''),
         (FsOpenTemp, ''open runner usage budget''),
         (FsWriteTemp, ''write runner usage budget''),
         (FsSyncTemp, ''sync runner usage budget''),
         (FsCloseTemp, ''close runner usage budget''),
         (FsRename, ''commit runner usage budget'')]
        [(FsOpenDir, ''open runner usage budget directory''),
         (FsSyncDir, ''sync runner usage budget directory'')]
        (budget_ledger (ub_entries b)) (ub_disk b) of
      (err, disk) \<Rightarrow> (err, b\<lparr>ub_disk := disk\<rparr>))"

abbreviation set_entries :: "usageEntry list \<Rightarrow> usageBudget \<Rightarrow> usageBudget" where
  "set_entries es b \<equiv> b\<lparr>ub_entries := es\<rparr>"

definition budget_commit :: "fs \<Rightarrow> usageEntry list \<Rightarrow> usageBudget \<Rightarrow> goerr option \<times> usageBudget" where
  "budget_commit = commit budget_persist ub_entries set_entries"

text \<open>
  \<^verbatim>\<open>newUsageBudget\<close> opens an initialized ledger.  \<open>disk\<close> is the file at the state path.
\<close>

definition newUsageBudget :: "duration \<Rightarrow> duration \<Rightarrow> string \<Rightarrow> duration \<Rightarrow> usageLedger fileState
    \<Rightarrow> gotime \<Rightarrow> fs \<Rightarrow> goerr + usageBudget" where
  "newUsageBudget limit window stateFile reservation disk now fs =
     (if limit \<le> 0 \<or> window \<le> 0 \<or> stateFile = [] \<or> reservation \<le> 0 \<or> reservation > limit
        then Inl (ErrText ''runner usage budget, window, and state file are required'')
      else (case disk of
          FileAbsent \<Rightarrow> Inl (ErrText ''runner usage budget is not initialized'')
        | FileUnreadable e \<Rightarrow> Inl (ErrWrap ''read runner usage budget'' e)
        | FileMalformed e \<Rightarrow> Inl (ErrWrap ''parse runner usage budget'' e)
        | FileContent ledger \<Rightarrow>
            if ul_Version ledger \<noteq> 1 then Inl (ErrText ''unsupported runner usage budget version'')
            else (let b = \<lparr>ub_limit = limit, ub_window = window, ub_reservation = reservation,
                           ub_stateFile = stateFile, ub_entries = ul_Entries ledger, ub_disk = disk\<rparr>
                  in case budget_validate b of
                       Some e \<Rightarrow> Inl e
                     | None \<Rightarrow>
                         (case budget_prune b now of
                            (True, b') \<Rightarrow>
                              (case budget_persist fs b' of
                                 (Some e, b'') \<Rightarrow> Inl e
                               | (None, b'') \<Rightarrow> Inr b'')
                          | (False, b') \<Rightarrow> Inr b'))))"

text \<open>
  \<^verbatim>\<open>InitializeUsageBudget\<close> creates an empty ledger and never touches an existing one.
  A write that fails after the exclusive create leaves an incomplete file.
\<close>

definition InitializeUsageBudget :: "string \<Rightarrow> fs \<Rightarrow> usageLedger fileState \<Rightarrow> goerr option \<times> usageLedger fileState" where
  "InitializeUsageBudget stateFile fs disk =
     (if stateFile = [] then (Some (ErrText ''runner usage budget state file is required''), disk)
      else (case run_steps fs [(FsMkdirAll, ''create runner usage budget directory''),
                               (FsEncode, ''encode runner usage budget'')] of
          Some e \<Rightarrow> (Some e, disk)
        | None \<Rightarrow>
            if disk \<noteq> FileAbsent then (Some (ErrText ''refusing to reset existing runner usage budget''), disk)
            else (case run_steps fs [(FsOpenTemp, ''create runner usage budget'')] of
                Some e \<Rightarrow> (Some e, disk)
              | None \<Rightarrow>
                  (case run_steps fs [(FsWriteTemp, ''write initial runner usage budget'')] of
                     Some e \<Rightarrow> (Some e, FileMalformed (ErrText ''incomplete file''))
                   | None \<Rightarrow>
                       (run_steps fs [(FsSyncTemp, ''sync initial runner usage budget''),
                                      (FsCloseTemp, ''close initial runner usage budget''),
                                      (FsOpenDir, ''open runner usage budget directory''),
                                      (FsSyncDir, ''sync runner usage budget directory'')],
                        FileContent (budget_ledger []))))))"

section \<open>Operations\<close>

definition budget_reserve :: "fs \<Rightarrow> usageBudget \<Rightarrow> string \<Rightarrow> gotime \<Rightarrow> duration
    \<Rightarrow> (goerr + bool \<times> gotime) \<times> usageBudget" where
  "budget_reserve fs b0 leaseID now maximum =
     (let b = snd (budget_prune b0 now)
      in if list_ex (\<lambda>e. ue_LeaseID e = leaseID) (ub_entries b)
           then (Inl (ErrText ''runner usage budget already contains lease''), b)
         else (let requested = durationSeconds maximum
               in if requested \<noteq> durationSeconds (ub_reservation b)
                    then (Inl (ErrText ''runner reservation must equal configured maximum lifetime''), b)
                  else (let used = usedSeconds b; limit = durationSeconds (ub_limit b)
                        in if used > limit \<or> requested > limit - used
                             then (Inr (False, nextAvailable b now), b)
                           else (case budget_commit fs (ub_entries b @
                                   [\<lparr>ue_LeaseID = leaseID, ue_ChargedAt = now, ue_StartedAt = now,
                                     ue_Seconds = requested, ue_Active = True, ue_Confirmed = False\<rparr>]) b of
                                   (Some e, b') \<Rightarrow> (Inl e, b')
                                 | (None, b') \<Rightarrow> (Inr (True, zeroTime), b')))))"

text \<open>\<open>update_first\<close> is the update at the index \<^verbatim>\<open>slices.IndexFunc\<close> finds.\<close>

fun update_first :: "('a \<Rightarrow> bool) \<Rightarrow> ('a \<Rightarrow> 'a) \<Rightarrow> 'a list \<Rightarrow> 'a list" where
  "update_first P f [] = []"
| "update_first P f (x # xs) = (if P x then f x # xs else x # update_first P f xs)"

fun remove_first :: "('a \<Rightarrow> bool) \<Rightarrow> 'a list \<Rightarrow> 'a list" where
  "remove_first P [] = []"
| "remove_first P (x # xs) = (if P x then xs else x # remove_first P xs)"

definition active_lease :: "string \<Rightarrow> usageEntry \<Rightarrow> bool" where
  "active_lease leaseID e \<longleftrightarrow> ue_LeaseID e = leaseID \<and> ue_Active e"

definition settle_entry :: "gotime \<Rightarrow> gotime \<Rightarrow> usageEntry \<Rightarrow> usageEntry" where
  "settle_entry stoppedAt now e =
     (let stopped = (if time_isZero stoppedAt \<or> stoppedAt < ue_StartedAt e \<or> now < stoppedAt
                     then now else stoppedAt)
      in e\<lparr>ue_Active := False, ue_ChargedAt := now,
           ue_Seconds := min (ue_Seconds e) (max 1 (durationSeconds (time_sub stopped (ue_StartedAt e))))\<rparr>)"

definition budget_settleAt :: "fs \<Rightarrow> usageBudget \<Rightarrow> string \<Rightarrow> gotime \<Rightarrow> gotime
    \<Rightarrow> goerr option \<times> usageBudget" where
  "budget_settleAt fs b leaseID stoppedAt now =
     (if \<not> list_ex (active_lease leaseID) (ub_entries b) then (None, b)
      else budget_commit fs
             (ub_entries (snd (budget_prune
                (set_entries (update_first (active_lease leaseID) (settle_entry stoppedAt now) (ub_entries b)) b)
                now))) b)"

definition budget_settle :: "fs \<Rightarrow> usageBudget \<Rightarrow> string \<Rightarrow> gotime \<Rightarrow> goerr option \<times> usageBudget" where
  "budget_settle fs b leaseID now = budget_settleAt fs b leaseID now now"

definition budget_forfeit :: "fs \<Rightarrow> usageBudget \<Rightarrow> string \<Rightarrow> gotime \<Rightarrow> goerr option \<times> usageBudget" where
  "budget_forfeit fs b leaseID now =
     (if \<not> list_ex (active_lease leaseID) (ub_entries b) then (None, b)
      else budget_commit fs
             (update_first (active_lease leaseID) (\<lambda>e. e\<lparr>ue_Active := False, ue_ChargedAt := now\<rparr>)
                (ub_entries b)) b)"

definition budget_release :: "fs \<Rightarrow> usageBudget \<Rightarrow> string \<Rightarrow> goerr option \<times> usageBudget" where
  "budget_release fs b leaseID =
     (if \<not> list_ex (active_lease leaseID) (ub_entries b) then (None, b)
      else budget_commit fs (remove_first (active_lease leaseID) (ub_entries b)) b)"

text \<open>
  \<^verbatim>\<open>adopt\<close> acts on the first entry of the lease, or appends one.  Only the branches
  that change an entry restore it when the write fails; the appending branch keeps
  the new entry in memory.  \<open>now\<close> is read when the worker has no creation time.
\<close>

definition adopt_entry :: "duration \<Rightarrow> gotime \<Rightarrow> usageEntry \<Rightarrow> usageEntry" where
  "adopt_entry reservation startedAt e =
     (if ue_Active e
      then e\<lparr>ue_Confirmed := True, ue_Seconds := max (ue_Seconds e) (durationSeconds reservation)\<rparr>
      else e\<lparr>ue_Active := True, ue_StartedAt := startedAt, ue_ChargedAt := startedAt,
             ue_Seconds := durationSeconds reservation, ue_Confirmed := True\<rparr>)"

definition budget_adopt :: "fs \<Rightarrow> usageBudget \<Rightarrow> string \<Rightarrow> gotime \<Rightarrow> gotime \<Rightarrow> goerr option \<times> usageBudget" where
  "budget_adopt fs b leaseID created now =
     (if leaseID = [] then (Some (ErrText ''cannot adopt a worker without a lease ID''), b)
      else (let startedAt = (if time_isZero created then now else created)
            in case List.find (\<lambda>e. ue_LeaseID e = leaseID) (ub_entries b) of
                 Some e \<Rightarrow>
                   if ue_Active e \<and> ue_Confirmed e then (None, b)
                   else budget_commit fs
                          (update_first (\<lambda>e. ue_LeaseID e = leaseID)
                             (adopt_entry (ub_reservation b) startedAt) (ub_entries b)) b
               | None \<Rightarrow>
                   budget_persist fs (set_entries (ub_entries b @
                     [\<lparr>ue_LeaseID = leaseID, ue_ChargedAt = startedAt, ue_StartedAt = startedAt,
                       ue_Seconds = durationSeconds (ub_reservation b), ue_Active = True,
                       ue_Confirmed = True\<rparr>]) b)))"

definition reconcile_entry :: "string set \<Rightarrow> gotime \<Rightarrow> usageEntry \<Rightarrow> usageEntry" where
  "reconcile_entry activeLeases now e =
     (if \<not> ue_Active e \<or> ue_LeaseID e \<in> activeLeases then e
      else (let e' = e\<lparr>ue_Active := False, ue_ChargedAt := now\<rparr>
            in if ue_Confirmed e
               then e'\<lparr>ue_Seconds := min (ue_Seconds e) (max 1 (durationSeconds (time_sub now (ue_StartedAt e))))\<rparr>
               else e'))"

definition budget_reconcile :: "fs \<Rightarrow> usageBudget \<Rightarrow> string set \<Rightarrow> gotime \<Rightarrow> goerr option \<times> usageBudget" where
  "budget_reconcile fs b activeLeases now =
     (let changed = list_ex (\<lambda>e. ue_Active e \<and> ue_LeaseID e \<notin> activeLeases) (ub_entries b)
      in case budget_prune (set_entries (map (reconcile_entry activeLeases now) (ub_entries b)) b) now of
           (pruned, b') \<Rightarrow>
             if \<not> changed \<and> \<not> pruned then (None, b)
             else budget_commit fs (ub_entries b') b)"

section \<open>The ledger as a durable store\<close>

lemma budget_persist_eq:
  "budget_persist fs b = (e, b') \<Longrightarrow>
     b' = b\<lparr>ub_disk := ub_disk b'\<rparr>
   \<and> (e = None \<longrightarrow> ub_disk b' = FileContent (budget_ledger (ub_entries b)))
   \<and> ub_disk b' \<in> {ub_disk b, FileContent (budget_ledger (ub_entries b))}"
  unfolding budget_persist_def
  by (auto dest!: replace_file_cases split: prod.splits)

interpretation budget_store: durable_store ub_entries set_entries ub_disk budget_ledger budget_persist
proof (unfold_locales, goal_cases)
  case (4 fs b)
  obtain e b' where "budget_persist fs b = (e, b')" by fastforce
  with budget_persist_eq [OF this] show ?case by (metis snd_conv usageBudget.select_convs(5)
        usageBudget.surjective usageBudget.update_convs(6))
next
  case (5 fs b)
  obtain e b' where "budget_persist fs b = (e, b')" by fastforce
  with budget_persist_eq [OF this] 5 show ?case by simp
next
  case (6 fs b)
  obtain e b' where "budget_persist fs b = (e, b')" by fastforce
  with budget_persist_eq [OF this] show ?case by simp
qed simp_all

lemma budget_commit_eq:
  assumes "budget_commit fs es b = (e, b')"
  shows "b' = b\<lparr>ub_entries := (if e = None then es else ub_entries b), ub_disk := ub_disk b'\<rparr>"
proof -
  obtain e1 b1 where p: "budget_persist fs (set_entries es b) = (e1, b1)" by fastforce
  with budget_persist_eq [OF this] have "b1 = b\<lparr>ub_entries := es, ub_disk := ub_disk b1\<rparr>" by simp
  with p assms show ?thesis
    by (cases e1) (auto simp: budget_commit_def commit_def, (metis usageBudget.surjective
        usageBudget.update_convs(5,6))+)
qed

section \<open>Well-formed ledgers\<close>

definition entry_valid :: "duration \<Rightarrow> usageEntry \<Rightarrow> bool" where
  "entry_valid reservation e \<longleftrightarrow>
     ue_LeaseID e \<noteq> [] \<and> ue_StartedAt e \<noteq> 0 \<and> ue_ChargedAt e \<noteq> 0
   \<and> 1 \<le> ue_Seconds e \<and> ue_Seconds e \<le> durationSeconds longestReservation
   \<and> (ue_Active e \<longrightarrow> durationSeconds reservation \<le> ue_Seconds e)
   \<and> (\<not> ue_Active e \<longrightarrow> ue_StartedAt e \<le> ue_ChargedAt e)"

abbreviation charges :: "usageEntry list \<Rightarrow> int" where
  "charges es \<equiv> sum_list (map ue_Seconds es)"

lemma charges_nonneg: "(\<And>e. e \<in> set es \<Longrightarrow> 0 \<le> ue_Seconds e) \<Longrightarrow> 0 \<le> charges es"
  by (induction es) auto

lemma sum_seconds_exact:
  assumes "\<And>e. e \<in> set es \<Longrightarrow> 0 \<le> ue_Seconds e" and "0 \<le> acc" and "acc + charges es \<le> maxInt64"
  shows "sum_seconds acc es = acc + charges es"
  using assms
proof (induction es arbitrary: acc)
  case (Cons e es)
  have rest: "0 \<le> charges es" using Cons.prems(1) by (intro charges_nonneg) simp
  have "0 \<le> ue_Seconds e" using Cons.prems(1) by simp
  then have "wrap64 (acc + ue_Seconds e) = acc + ue_Seconds e"
    using Cons.prems(2,3) rest by (intro wrap64_id) (auto simp: minInt64_def)
  then show ?case using Cons by simp
qed simp

text \<open>\<^verbatim>\<open>validate\<close> accepts exactly the ledgers with valid entries, distinct leases and a total that fits.\<close>

lemma validate_entries_None:
  assumes "acc \<le> maxInt64"
  shows "validate_entries r seen acc es = None \<longleftrightarrow>
     (\<forall>e \<in> set es. entry_valid r e) \<and> distinct (map ue_LeaseID es)
   \<and> set (map ue_LeaseID es) \<inter> set seen = {} \<and> acc + charges es \<le> maxInt64"
  using assms
proof (induction es arbitrary: seen acc)
  case (Cons e es)
  show ?case
  proof (cases "entry_valid r e \<and> ue_LeaseID e \<notin> set seen")
    case True
    show ?thesis
    proof (cases "acc > maxInt64 - ue_Seconds e")
      case overflow: True
      have "0 \<le> charges es" if "\<forall>e \<in> set es. entry_valid r e"
        using that by (intro charges_nonneg) (auto simp: entry_valid_def)
      then have "\<not> ((\<forall>x \<in> set es. entry_valid r x) \<and> acc + (ue_Seconds e + charges es) \<le> maxInt64)"
        using overflow by linarith
      moreover have "validate_entries r seen acc (e # es) \<noteq> None"
        using True overflow by (auto simp: entry_valid_def time_isZero_def zeroTime_def)
      ultimately show ?thesis by auto
    next
      case fits: False
      with Cons.IH [of "acc + ue_Seconds e" "ue_LeaseID e # seen"] True show ?thesis
        by (auto simp: entry_valid_def time_isZero_def zeroTime_def)
    qed
  next
    case False
    then show ?thesis by (auto simp: entry_valid_def time_isZero_def zeroTime_def)
  qed
qed simp

definition entries_ok :: "duration \<Rightarrow> usageEntry list \<Rightarrow> bool" where
  "entries_ok r es \<longleftrightarrow>
     (\<forall>e \<in> set es. entry_valid r e \<and> 0 < ue_StartedAt e)
   \<and> distinct (map ue_LeaseID es) \<and> charges es \<le> maxInt64"

lemma budget_validate_iff:
  "budget_validate b = None \<longleftrightarrow>
     (\<forall>e \<in> set (ub_entries b). entry_valid (ub_reservation b) e)
   \<and> distinct (map ue_LeaseID (ub_entries b)) \<and> charges (ub_entries b) \<le> maxInt64"
  by (simp add: budget_validate_def validate_entries_None maxInt64_def)

text \<open>
  The invariant of an open ledger: \<^verbatim>\<open>validate\<close> accepts it, no start lies before Go's
  zero time, and the configuration is one \<^verbatim>\<open>controller.New\<close> accepts.
\<close>

definition budget_ok :: "usageBudget \<Rightarrow> bool" where
  "budget_ok b \<longleftrightarrow> budget_validate b = None \<and> (\<forall>e \<in> set (ub_entries b). 0 < ue_StartedAt e)
   \<and> 0 < ub_reservation b \<and> ub_reservation b \<le> longestReservation \<and> 0 < ub_window b"

lemma budget_ok_entries: "budget_ok b \<Longrightarrow> entries_ok (ub_reservation b) (ub_entries b)"
  by (auto simp: budget_ok_def entries_ok_def budget_validate_iff)

lemma budget_ok_set:
  "budget_ok b \<Longrightarrow> entries_ok (ub_reservation b) es \<Longrightarrow> budget_ok (b\<lparr>ub_entries := es, ub_disk := d\<rparr>)"
  by (auto simp: budget_ok_def entries_ok_def budget_validate_iff)

lemma durationSeconds_mono: "a \<le> b \<Longrightarrow> durationSeconds a \<le> durationSeconds b"
  by (simp add: durationSeconds_def zdiv_mono1)

lemma durationSeconds_pos: "0 < d \<Longrightarrow> 1 \<le> durationSeconds d"
  by (simp add: durationSeconds_def)

lemma durationSeconds_ceiling: "d \<le> durationSeconds d * second \<and> (durationSeconds d - 1) * second < d"
proof -
  define q m where "q = (- d) div second" and "m = (- d) mod second"
  then have "- d = q * second + m" and "0 \<le> m" and "m < second" by simp_all
  then have "d \<le> - q * second \<and> (- q - 1) * second < d" by (simp add: algebra_simps)
  then show ?thesis by (simp add: durationSeconds_def q_def)
qed

lemma durationSeconds_longest: "durationSeconds longestReservation = 86400"
  by (simp add: durationSeconds_def longestReservation_def)

lemma entry_expiry_exact:
  "entry_valid r e \<Longrightarrow> entry_expiry e = ue_StartedAt e + ue_Seconds e * second"
  by (auto simp: entry_expiry_def entry_valid_def durationSeconds_longest minInt64_def maxInt64_def
      intro!: wrap64_id)

lemma expire_entry_ok:
  "entry_valid r e \<Longrightarrow> 0 < ue_StartedAt e
   \<Longrightarrow> entry_valid r (expire_entry now e) \<and> 0 < ue_StartedAt (expire_entry now e)"
  using entry_expiry_exact [of r e] by (auto simp: expire_entry_def entry_valid_def)

lemma expire_entry_same [simp]:
  "ue_LeaseID (expire_entry now e) = ue_LeaseID e"
  "ue_Seconds (expire_entry now e) = ue_Seconds e"
  "ue_StartedAt (expire_entry now e) = ue_StartedAt e"
  by (simp_all add: expire_entry_def)

lemma charges_map: "(\<And>e. ue_Seconds (f e) = ue_Seconds e) \<Longrightarrow> charges (map f es) = charges es"
  by (induction es) auto

lemma charges_map_le:
  "(\<And>e. e \<in> set es \<Longrightarrow> ue_Seconds (f e) \<le> ue_Seconds e) \<Longrightarrow> charges (map f es) \<le> charges es"
  by (induction es) (auto intro: add_mono)

lemma charges_filter_le:
  assumes "\<And>e. e \<in> set es \<Longrightarrow> 0 \<le> ue_Seconds e"
  shows "charges (filter P es) \<le> charges es"
  using assms
proof (induction es)
  case (Cons e es)
  then have "0 \<le> ue_Seconds e" and "charges (filter P es) \<le> charges es" by auto
  then show ?case by simp
qed simp

lemma distinct_lease_filter:
  "distinct (map ue_LeaseID es) \<Longrightarrow> distinct (map ue_LeaseID (filter P es))"
  by (induction es) auto

lemma prune_entries:
  "ub_entries (snd (budget_prune b now)) =
     filter (\<lambda>e. \<not> (\<not> ue_Active e \<and> ue_ChargedAt e < now - ub_window b))
       (map (expire_entry now) (ub_entries b))"
  by (simp add: budget_prune_def Let_def)

lemma prune_eq: "snd (budget_prune b now) = b\<lparr>ub_entries := ub_entries (snd (budget_prune b now))\<rparr>"
  by (simp add: budget_prune_def Let_def)

lemma entries_ok_prune:
  assumes "entries_ok r (ub_entries b)"
  shows "entries_ok r (ub_entries (snd (budget_prune b now)))"
proof -
  let ?es = "map (expire_entry now) (ub_entries b)"
  have "\<And>e. e \<in> set ?es \<Longrightarrow> entry_valid r e \<and> 0 < ue_StartedAt e"
    using assms expire_entry_ok by (auto simp: entries_ok_def)
  moreover have "\<And>e. e \<in> set (ub_entries b) \<Longrightarrow> 0 \<le> ue_Seconds e"
    using assms by (force simp: entries_ok_def entry_valid_def)
  moreover have "distinct (map ue_LeaseID ?es)" using assms by (simp add: entries_ok_def comp_def)
  moreover have "charges (filter P ?es) \<le> charges (ub_entries b)" for P
  proof -
    have "charges (filter P ?es) \<le> charges ?es"
      using calculation(2) by (intro charges_filter_le) auto
    then show ?thesis by (simp only: charges_map expire_entry_same)
  qed
  moreover have "charges (ub_entries b) \<le> maxInt64" using assms by (simp add: entries_ok_def)
  ultimately show ?thesis unfolding prune_entries entries_ok_def
    by (meson distinct_lease_filter filter_is_subset order_trans subsetD)
qed

lemma lease_update_first:
  "(\<And>e. ue_LeaseID (f e) = ue_LeaseID e) \<Longrightarrow> map ue_LeaseID (update_first P f es) = map ue_LeaseID es"
  by (induction es) auto

lemma set_update_first: "e \<in> set (update_first P f es) \<Longrightarrow> e \<in> set es \<or> (\<exists>x \<in> set es. P x \<and> e = f x)"
  by (induction es) (auto split: if_splits)

lemma charges_update_first_le:
  "(\<And>e. e \<in> set es \<Longrightarrow> P e \<Longrightarrow> ue_Seconds (f e) \<le> ue_Seconds e) \<Longrightarrow> charges (update_first P f es) \<le> charges es"
  by (induction es) auto

lemma entries_ok_update_first:
  assumes "entries_ok r es"
    and "\<And>e. ue_LeaseID (f e) = ue_LeaseID e"
    and "\<And>e. e \<in> set es \<Longrightarrow> P e \<Longrightarrow> entry_valid r (f e) \<and> 0 < ue_StartedAt (f e)"
    and "charges (update_first P f es) \<le> maxInt64"
  shows "entries_ok r (update_first P f es)"
  using assms lease_update_first [of f P es] by (auto simp: entries_ok_def dest!: set_update_first)

lemma remove_first_sub: "set (remove_first P es) \<subseteq> set es"
  by (induction es) auto

lemma entries_ok_remove_first:
  assumes "entries_ok r es"
  shows "entries_ok r (remove_first P es) \<and> charges (remove_first P es) \<le> charges es"
proof -
  have "distinct (map ue_LeaseID es) \<Longrightarrow> distinct (map ue_LeaseID (remove_first P es))"
    using remove_first_sub by (induction es) (fastforce split: if_splits)+
  moreover have "(\<And>e. e \<in> set es \<Longrightarrow> 0 \<le> ue_Seconds e) \<Longrightarrow> charges (remove_first P es) \<le> charges es"
  proof (induction es)
    case (Cons e es)
    then have "0 \<le> ue_Seconds e" and "charges (remove_first P es) \<le> charges es" by auto
    then show ?case by simp
  qed simp
  ultimately show ?thesis
    using assms remove_first_sub [of P es] by (fastforce simp: entries_ok_def entry_valid_def)
qed

end
