(* ===== verification/Usage_Budget_Correct.thy ===== *)
theory Usage_Budget_Correct
  imports Usage_Budget
begin

text \<open>
  Correctness of the usage ledger: the invariant every operation keeps, admission
  under the limit, the charge of a settlement, and what a restart reads back.
\<close>

section \<open>Operations as steps\<close>

datatype budget_op =
    OpReserve string duration
  | OpSettle string gotime
  | OpForfeit string
  | OpRelease string
  | OpAdopt string gotime
  | OpReconcile "string set"

fun budget_step :: "fs \<Rightarrow> gotime \<Rightarrow> budget_op \<Rightarrow> usageBudget \<Rightarrow> usageBudget" where
  "budget_step fs now (OpReserve l m) b = snd (budget_reserve fs b l now m)"
| "budget_step fs now (OpSettle l t) b = snd (budget_settleAt fs b l t now)"
| "budget_step fs now (OpForfeit l) b = snd (budget_forfeit fs b l now)"
| "budget_step fs now (OpRelease l) b = snd (budget_release fs b l)"
| "budget_step fs now (OpAdopt l t) b = snd (budget_adopt fs b l t now)"
| "budget_step fs now (OpReconcile ls) b = snd (budget_reconcile fs b ls now)"

fun budget_run :: "(fs \<times> gotime \<times> budget_op) list \<Rightarrow> usageBudget \<Rightarrow> usageBudget" where
  "budget_run [] b = b"
| "budget_run ((fs, now, op) # ops) b = budget_run ops (budget_step fs now op b)"

section \<open>Every operation keeps the ledger loadable\<close>

lemma budget_commit_ok:
  assumes "budget_ok b" and "entries_ok (ub_reservation b) es"
  shows "budget_ok (snd (budget_commit fs es b))"
proof -
  obtain e b' where c: "budget_commit fs es b = (e, b')" by fastforce
  show ?thesis
    using budget_commit_eq [OF c] assms c budget_ok_entries [OF assms(1)]
    by (metis budget_ok_set snd_conv)
qed

lemma budget_prune_ok: "budget_ok b \<Longrightarrow> budget_ok (snd (budget_prune b now))"
proof -
  assume ok: "budget_ok b"
  have "budget_ok (b\<lparr>ub_entries := ub_entries (snd (budget_prune b now)), ub_disk := ub_disk b\<rparr>)"
    using ok budget_ok_entries [OF ok] by (intro budget_ok_set entries_ok_prune)
  then show ?thesis by (subst prune_eq) simp
qed

lemma prune_fields [simp]:
  "ub_reservation (snd (budget_prune b now)) = ub_reservation b"
  "ub_limit (snd (budget_prune b now)) = ub_limit b"
  "ub_window (snd (budget_prune b now)) = ub_window b"
  "ub_disk (snd (budget_prune b now)) = ub_disk b"
  by (simp_all add: budget_prune_def Let_def)

lemma entry_secs: "entries_ok r es \<Longrightarrow> e \<in> set es \<Longrightarrow> 0 \<le> ue_Seconds e"
  by (force simp: entries_ok_def entry_valid_def)

lemma charges_prune_le:
  assumes "\<And>e. e \<in> set (ub_entries b) \<Longrightarrow> 0 \<le> ue_Seconds e"
  shows "charges (ub_entries (snd (budget_prune b now))) \<le> charges (ub_entries b)"
proof -
  let ?es = "map (expire_entry now) (ub_entries b)"
  have "charges (filter P ?es) \<le> charges ?es" for P
    using assms by (intro charges_filter_le) auto
  then show ?thesis unfolding prune_entries by (simp only: charges_map expire_entry_same)
qed

lemma entries_ok_append:
  assumes "entries_ok r es" and "entry_valid r e" and "0 < ue_StartedAt e"
    and "ue_LeaseID e \<notin> set (map ue_LeaseID es)" and "charges es + ue_Seconds e \<le> maxInt64"
  shows "entries_ok r (es @ [e])"
  using assms by (auto simp: entries_ok_def)

lemma new_entry_valid:
  assumes "budget_ok b" and "l \<noteq> []" and "0 < t"
  shows "entry_valid (ub_reservation b) \<lparr>ue_LeaseID = l, ue_ChargedAt = t, ue_StartedAt = t,
     ue_Seconds = durationSeconds (ub_reservation b), ue_Active = True, ue_Confirmed = c\<rparr>"
  using assms durationSeconds_pos durationSeconds_mono by (auto simp: entry_valid_def budget_ok_def)

lemma settle_entry_ok:
  assumes "entry_valid r e" and "0 < ue_StartedAt e" and "ue_StartedAt e \<le> now"
  shows "entry_valid r (settle_entry t now e) \<and> 0 < ue_StartedAt (settle_entry t now e)
       \<and> ue_Seconds (settle_entry t now e) \<le> ue_Seconds e"
  using assms by (auto simp: settle_entry_def entry_valid_def Let_def)

lemma settle_entry_lease [simp]: "ue_LeaseID (settle_entry t now e) = ue_LeaseID e"
  by (simp add: settle_entry_def Let_def)

lemma settle_entry_secs: "0 \<le> ue_Seconds e \<Longrightarrow>
    0 \<le> ue_Seconds (settle_entry t now e) \<and> ue_Seconds (settle_entry t now e) \<le> ue_Seconds e"
  by (auto simp: settle_entry_def Let_def)

lemma reserve_ok:
  assumes ok: "budget_ok b" and "0 < now" and "l \<noteq> []"
    and room: "charges (ub_entries b) + durationSeconds (ub_reservation b) \<le> maxInt64"
  shows "budget_ok (snd (budget_reserve fs b l now m))"
proof -
  let ?p = "snd (budget_prune b now)"
  have p: "budget_ok ?p" using budget_prune_ok [OF ok] .
  have "charges (ub_entries ?p) \<le> charges (ub_entries b)"
    using entry_secs [OF budget_ok_entries [OF ok]] by (intro charges_prune_le)
  with room have fits: "charges (ub_entries ?p) + durationSeconds (ub_reservation b) \<le> maxInt64" by simp
  show ?thesis
  proof (cases "list_ex (\<lambda>e. ue_LeaseID e = l) (ub_entries ?p)
      \<or> durationSeconds m \<noteq> durationSeconds (ub_reservation b)")
    case True
    then show ?thesis using p by (auto simp: budget_reserve_def Let_def)
  next
    case False
    let ?e = "\<lparr>ue_LeaseID = l, ue_ChargedAt = now, ue_StartedAt = now,
       ue_Seconds = durationSeconds (ub_reservation ?p), ue_Active = True, ue_Confirmed = False\<rparr>"
    have "entries_ok (ub_reservation ?p) (ub_entries ?p @ [?e])"
      using False p fits assms(2,3) new_entry_valid [of ?p l now]
      by (intro entries_ok_append budget_ok_entries) (auto simp: list_ex_iff)
    then have "budget_ok (snd (budget_commit fs (ub_entries ?p @ [?e]) ?p))"
      using p budget_commit_ok by blast
    with False p show ?thesis
      by (auto simp: budget_reserve_def Let_def split: prod.splits option.splits)
  qed
qed

lemma settleAt_ok:
  assumes ok: "budget_ok b" and clock: "\<And>e. e \<in> set (ub_entries b) \<Longrightarrow> ue_Active e \<Longrightarrow> ue_StartedAt e \<le> now"
  shows "budget_ok (snd (budget_settleAt fs b l t now))"
proof -
  let ?es = "update_first (active_lease l) (settle_entry t now) (ub_entries b)"
  have es: "entries_ok (ub_reservation b) (ub_entries b)" using budget_ok_entries [OF ok] .
  have "charges ?es \<le> charges (ub_entries b)"
    using settle_entry_secs entry_secs [OF es] by (intro charges_update_first_le) blast
  then have "entries_ok (ub_reservation b) ?es"
    using es clock settle_entry_ok
    by (intro entries_ok_update_first) (auto simp: entries_ok_def active_lease_def)
  then have "entries_ok (ub_reservation b) (ub_entries (snd (budget_prune (set_entries ?es b) now)))"
    by (intro entries_ok_prune) simp
  then show ?thesis
    using ok budget_commit_ok by (simp add: budget_settleAt_def)
qed

lemma forfeit_ok:
  assumes ok: "budget_ok b" and clock: "\<And>e. e \<in> set (ub_entries b) \<Longrightarrow> ue_Active e \<Longrightarrow> ue_StartedAt e \<le> now"
  shows "budget_ok (snd (budget_forfeit fs b l now))"
proof -
  let ?f = "\<lambda>e. e\<lparr>ue_Active := False, ue_ChargedAt := now\<rparr>"
  have es: "entries_ok (ub_reservation b) (ub_entries b)" using budget_ok_entries [OF ok] .
  have "charges (update_first (active_lease l) ?f (ub_entries b)) \<le> charges (ub_entries b)"
    by (intro charges_update_first_le) simp
  then have "entries_ok (ub_reservation b) (update_first (active_lease l) ?f (ub_entries b))"
    using es clock
    by (intro entries_ok_update_first) (force simp: entries_ok_def active_lease_def entry_valid_def)+
  then show ?thesis using ok budget_commit_ok by (simp add: budget_forfeit_def)
qed

lemma release_ok: "budget_ok b \<Longrightarrow> budget_ok (snd (budget_release fs b l))"
  using budget_commit_ok entries_ok_remove_first budget_ok_entries
  by (auto simp: budget_release_def)

lemma charges_adopt:
  assumes "\<And>e. e \<in> set es \<Longrightarrow> entry_valid r e" and "0 < r"
  shows "charges (update_first P (adopt_entry r t) es) \<le> charges es + durationSeconds r"
  using assms
proof (induction es)
  case Nil
  then show ?case using durationSeconds_pos [of r] by simp
next
  case (Cons e es)
  then have "entry_valid r e" and IH: "charges (update_first P (adopt_entry r t) es) \<le> charges es + durationSeconds r"
    by auto
  then have "ue_Seconds (adopt_entry r t e) \<le> ue_Seconds e + durationSeconds r"
    using durationSeconds_pos [OF Cons.prems(2)] by (auto simp: adopt_entry_def entry_valid_def)
  with IH show ?case by simp
qed

lemma budget_persist_ok: "budget_ok b \<Longrightarrow> budget_ok (snd (budget_persist fs b))"
  using budget_persist_eq [of fs b] budget_ok_set [of b "ub_entries b"] budget_ok_entries [of b]
  by (cases "budget_persist fs b") (metis snd_conv usageBudget.surjective usageBudget.update_convs(5))

lemma adopt_ok:
  assumes ok: "budget_ok b" and "0 < now" and "0 \<le> created"
    and room: "charges (ub_entries b) + durationSeconds (ub_reservation b) \<le> maxInt64"
  shows "budget_ok (snd (budget_adopt fs b l created now))"
proof -
  let ?t = "if time_isZero created then now else created"
  let ?r = "ub_reservation b"
  have t: "0 < ?t" using assms by (auto simp: time_isZero_def zeroTime_def)
  have es: "entries_ok ?r (ub_entries b)" using budget_ok_entries [OF ok] .
  have r: "0 < ?r" "durationSeconds ?r \<le> durationSeconds longestReservation"
    using ok durationSeconds_mono by (auto simp: budget_ok_def)
  show ?thesis
  proof (cases "List.find (\<lambda>e. ue_LeaseID e = l) (ub_entries b)")
    case None
    let ?n = "\<lparr>ue_LeaseID = l, ue_ChargedAt = ?t, ue_StartedAt = ?t,
        ue_Seconds = durationSeconds ?r, ue_Active = True, ue_Confirmed = True\<rparr>"
    have fresh: "l \<notin> set (map ue_LeaseID (ub_entries b))" using None by (auto simp: find_None_iff)
    have "budget_ok (set_entries (ub_entries b @ [?n]) b)" if "l \<noteq> []"
    proof -
      have "entries_ok ?r (ub_entries b @ [?n])"
        using fresh t room by (intro entries_ok_append [OF es new_entry_valid [OF ok that t]]) simp_all
      then show ?thesis using budget_ok_set [OF ok, of _ "ub_disk b"] by simp
    qed
    then show ?thesis using None ok budget_persist_ok by (simp add: budget_adopt_def Let_def)
  next
    case (Some e)
    have "entries_ok ?r (update_first (\<lambda>e. ue_LeaseID e = l) (adopt_entry ?r ?t) (ub_entries b))"
    proof (rule entries_ok_update_first [OF es])
      show "ue_LeaseID (adopt_entry ?r ?t e) = ue_LeaseID e" for e by (simp add: adopt_entry_def)
    next
      fix e assume "e \<in> set (ub_entries b)"
      then show "entry_valid ?r (adopt_entry ?r ?t e) \<and> 0 < ue_StartedAt (adopt_entry ?r ?t e)"
        using es t r durationSeconds_pos [of ?r] by (auto simp: entries_ok_def entry_valid_def adopt_entry_def)
    next
      show "charges (update_first (\<lambda>e. ue_LeaseID e = l) (adopt_entry ?r ?t) (ub_entries b)) \<le> maxInt64"
        using charges_adopt [of "ub_entries b" ?r "\<lambda>e. ue_LeaseID e = l" ?t] es r(1) room
        by (simp add: entries_ok_def)
    qed
    then show ?thesis using Some ok budget_commit_ok by (auto simp: budget_adopt_def Let_def)
  qed
qed

lemma reconcile_entry_secs: "0 \<le> ue_Seconds e \<Longrightarrow>
    0 \<le> ue_Seconds (reconcile_entry ls now e) \<and> ue_Seconds (reconcile_entry ls now e) \<le> ue_Seconds e"
  by (auto simp: reconcile_entry_def Let_def)

lemma reconcile_ok:
  assumes ok: "budget_ok b" and clock: "\<And>e. e \<in> set (ub_entries b) \<Longrightarrow> ue_Active e \<Longrightarrow> ue_StartedAt e \<le> now"
  shows "budget_ok (snd (budget_reconcile fs b ls now))"
proof -
  let ?es = "map (reconcile_entry ls now) (ub_entries b)"
  have es: "entries_ok (ub_reservation b) (ub_entries b)" using budget_ok_entries [OF ok] .
  have "charges ?es \<le> charges (ub_entries b)"
    using reconcile_entry_secs entry_secs [OF es] by (intro charges_map_le) blast
  moreover have leases: "map ue_LeaseID ?es = map ue_LeaseID (ub_entries b)"
    by (simp add: reconcile_entry_def Let_def)
  moreover have "entry_valid (ub_reservation b) (reconcile_entry ls now e)
      \<and> 0 < ue_StartedAt (reconcile_entry ls now e)" if "e \<in> set (ub_entries b)" for e
    using es clock [OF that] that by (auto simp: entries_ok_def reconcile_entry_def entry_valid_def Let_def)
  ultimately have "entries_ok (ub_reservation b) ?es"
    using es unfolding entries_ok_def leases by (auto simp del: map_map)
  then have "entries_ok (ub_reservation b) (ub_entries (snd (budget_prune (set_entries ?es b) now)))"
    by (intro entries_ok_prune) simp
  then show ?thesis using ok budget_commit_ok
    by (auto simp: budget_reconcile_def Let_def split: prod.splits)
qed

text \<open>
  Every operation keeps the ledger in a state that \<^verbatim>\<open>validate\<close> accepts, so the
  next controller start loads it: for a clock that is not behind the start of an
  active lease, a lease with an identity, a creation time that is not before Go's
  zero time, and room for one more reservation below the 64-bit range.  This holds
  whatever step of the file write fails.
\<close>

theorem budget_step_ok:
  assumes "budget_ok b" and "0 < now"
    and "\<And>e. e \<in> set (ub_entries b) \<Longrightarrow> ue_Active e \<Longrightarrow> ue_StartedAt e \<le> now"
    and "charges (ub_entries b) + durationSeconds (ub_reservation b) \<le> maxInt64"
    and "\<And>l m. op = OpReserve l m \<Longrightarrow> l \<noteq> []"
    and "\<And>l t. op = OpAdopt l t \<Longrightarrow> 0 \<le> t"
  shows "budget_ok (budget_step fs now op b)"
  using assms
  by (cases op) (simp_all add: reserve_ok settleAt_ok forfeit_ok release_ok adopt_ok reconcile_ok)

definition example_fs :: fs where
  "example_fs = (\<lambda>step. None)"

definition example_budget :: usageBudget where
  "example_budget = \<lparr>ub_limit = 2 * hour, ub_window = 24 * hour, ub_reservation = hour,
     ub_stateFile = ''usage.json'',
     ub_entries = [\<lparr>ue_LeaseID = ''a'', ue_ChargedAt = 1000 * hour, ue_StartedAt = 1000 * hour,
                     ue_Seconds = 3600, ue_Active = True, ue_Confirmed = True\<rparr>],
     ub_disk = FileAbsent\<rparr>"

lemma example_budget_ok: "budget_ok example_budget"
  by (simp add: budget_ok_def budget_validate_iff example_budget_def entry_valid_def
      durationSeconds_def longestReservation_def maxInt64_def)

theorem budget_step_ok_witness:
  "budget_ok (budget_step example_fs (1000 * hour + minute) (OpSettle ''a'' 0) example_budget)"
  by (rule budget_step_ok [OF example_budget_ok])
    (simp_all add: example_budget_def durationSeconds_def maxInt64_def)

section \<open>Admission under the limit\<close>

text \<open>Of all operations only a reservation and an adoption can raise the total charge.\<close>

lemma budget_commit_entries:
  "ub_entries (snd (budget_commit fs es b)) \<in> {es, ub_entries b}"
  "ub_limit (snd (budget_commit fs es b)) = ub_limit b"
proof -
  obtain e b' where c: "budget_commit fs es b = (e, b')" by fastforce
  show "ub_entries (snd (budget_commit fs es b)) \<in> {es, ub_entries b}"
    using arg_cong [OF budget_commit_eq [OF c], of ub_entries] c by simp
  show "ub_limit (snd (budget_commit fs es b)) = ub_limit b"
    using arg_cong [OF budget_commit_eq [OF c], of ub_limit] c by simp
qed

lemma budget_commit_reservation [simp]:
  "ub_reservation (snd (budget_commit fs es b)) = ub_reservation b"
proof -
  obtain e b' where c: "budget_commit fs es b = (e, b')" by fastforce
  show ?thesis using arg_cong [OF budget_commit_eq [OF c], of ub_reservation] c by simp
qed

abbreviation nonneg_charges :: "usageEntry list \<Rightarrow> bool" where
  "nonneg_charges es \<equiv> (\<forall>e \<in> set es. 0 \<le> ue_Seconds e)"

lemma nonneg_prune:
  "nonneg_charges (ub_entries b) \<Longrightarrow> nonneg_charges (ub_entries (snd (budget_prune b now)))"
  by (auto simp: prune_entries)

lemma nonneg_update_first:
  "nonneg_charges es \<Longrightarrow> (\<And>e. 0 \<le> ue_Seconds e \<Longrightarrow> 0 \<le> ue_Seconds (f e)) \<Longrightarrow> nonneg_charges (update_first P f es)"
  by (auto dest!: set_update_first)

lemma remove_first_le:
  "nonneg_charges es \<Longrightarrow> nonneg_charges (remove_first P es) \<and> charges (remove_first P es) \<le> charges es"
  by (induction es) auto

lemma settleAt_le:
  assumes "nonneg_charges (ub_entries b)"
  shows "let b' = snd (budget_settleAt fs b l t now) in
     nonneg_charges (ub_entries b') \<and> charges (ub_entries b') \<le> charges (ub_entries b) \<and> ub_limit b' = ub_limit b"
proof -
  let ?es = "update_first (active_lease l) (settle_entry t now) (ub_entries b)"
  let ?p = "ub_entries (snd (budget_prune (set_entries ?es b) now))"
  have es: "nonneg_charges ?es" using assms settle_entry_secs by (intro nonneg_update_first) blast+
  have "charges ?p \<le> charges (ub_entries (set_entries ?es b))"
    using es by (intro charges_prune_le) auto
  then have "charges ?p \<le> charges ?es" by simp
  moreover have "charges ?es \<le> charges (ub_entries b)"
    using assms settle_entry_secs by (intro charges_update_first_le) blast
  moreover have "nonneg_charges ?p" using es nonneg_prune [of "set_entries ?es b"] by simp
  ultimately show ?thesis
    using assms budget_commit_entries [of fs ?p b] by (auto simp: budget_settleAt_def Let_def)
qed

lemma forfeit_le:
  assumes "nonneg_charges (ub_entries b)"
  shows "let b' = snd (budget_forfeit fs b l now) in
     nonneg_charges (ub_entries b') \<and> charges (ub_entries b') \<le> charges (ub_entries b) \<and> ub_limit b' = ub_limit b"
proof -
  let ?es = "update_first (active_lease l) (\<lambda>e. e\<lparr>ue_Active := False, ue_ChargedAt := now\<rparr>) (ub_entries b)"
  have "nonneg_charges ?es" using assms by (intro nonneg_update_first) auto
  moreover have "charges ?es \<le> charges (ub_entries b)" by (intro charges_update_first_le) simp
  ultimately show ?thesis
    using assms budget_commit_entries [of fs ?es b] by (auto simp: budget_forfeit_def Let_def)
qed

lemma release_le:
  assumes "nonneg_charges (ub_entries b)"
  shows "let b' = snd (budget_release fs b l) in
     nonneg_charges (ub_entries b') \<and> charges (ub_entries b') \<le> charges (ub_entries b) \<and> ub_limit b' = ub_limit b"
  using assms remove_first_le [OF assms, of "active_lease l"]
    budget_commit_entries [of fs "remove_first (active_lease l) (ub_entries b)" b]
  by (auto simp: budget_release_def Let_def)

lemma reconcile_le:
  assumes "nonneg_charges (ub_entries b)"
  shows "let b' = snd (budget_reconcile fs b ls now) in
     nonneg_charges (ub_entries b') \<and> charges (ub_entries b') \<le> charges (ub_entries b) \<and> ub_limit b' = ub_limit b"
proof -
  let ?es = "map (reconcile_entry ls now) (ub_entries b)"
  define p where "p = ub_entries (snd (budget_prune (set_entries ?es b) now))"
  have es: "nonneg_charges ?es" using assms reconcile_entry_secs by auto
  then have "charges p \<le> charges (ub_entries (set_entries ?es b))"
    unfolding p_def by (intro charges_prune_le) auto
  then have "charges p \<le> charges ?es" by simp
  moreover have "charges ?es \<le> charges (ub_entries b)"
    using assms reconcile_entry_secs by (intro charges_map_le) blast
  ultimately have "charges p \<le> charges (ub_entries b)" by simp
  moreover have "nonneg_charges p"
    unfolding p_def by (rule nonneg_prune) (use es in auto)
  ultimately have "nonneg_charges (ub_entries (snd (budget_commit fs p b)))
      \<and> charges (ub_entries (snd (budget_commit fs p b))) \<le> charges (ub_entries b)
      \<and> ub_limit (snd (budget_commit fs p b)) = ub_limit b"
    using assms budget_commit_entries [of fs p b] by auto
  then show ?thesis
    using assms by (simp add: budget_reconcile_def Let_def case_prod_beta p_def)
qed

definition reservation_entry :: "usageBudget \<Rightarrow> string \<Rightarrow> gotime \<Rightarrow> usageEntry" where
  "reservation_entry b l now = \<lparr>ue_LeaseID = l, ue_ChargedAt = now, ue_StartedAt = now,
     ue_Seconds = durationSeconds (ub_reservation b), ue_Active = True, ue_Confirmed = False\<rparr>"

definition reservation_refused :: "usageBudget \<Rightarrow> string \<Rightarrow> duration \<Rightarrow> bool" where
  "reservation_refused b l m \<longleftrightarrow> (\<exists>e \<in> set (ub_entries b). ue_LeaseID e = l)
     \<or> durationSeconds m \<noteq> durationSeconds (ub_reservation b)
     \<or> usedSeconds b > durationSeconds (ub_limit b)
     \<or> durationSeconds m > durationSeconds (ub_limit b) - usedSeconds b"

lemma snd_reserve:
  "snd (budget_reserve fs b l now m) =
     (let p = snd (budget_prune b now)
      in if reservation_refused p l m then p
         else snd (budget_commit fs (ub_entries p @ [reservation_entry p l now]) p))"
  by (auto simp: budget_reserve_def reservation_refused_def reservation_entry_def list_ex_iff Let_def
      split: prod.splits option.splits)

lemma budget_step_reservation: "ub_reservation (budget_step fs now op b) = ub_reservation b"
proof (cases op)
  case (OpAdopt l t)
  have "ub_reservation (snd (budget_persist fs b')) = ub_reservation b'" for b'
    by (simp add: budget_persist_def split: prod.splits)
  then show ?thesis
    using OpAdopt by (simp add: budget_adopt_def Let_def split: option.splits)
qed (simp_all add: snd_reserve Let_def budget_settleAt_def budget_forfeit_def budget_release_def
      budget_reconcile_def split: prod.splits)

lemma reserve_le:
  assumes "nonneg_charges (ub_entries b)" and "charges (ub_entries b) \<le> durationSeconds (ub_limit b)"
    and "durationSeconds (ub_limit b) \<le> maxInt64" and "0 < ub_reservation b"
  shows "let b' = snd (budget_reserve fs b l now m) in
     nonneg_charges (ub_entries b') \<and> charges (ub_entries b') \<le> durationSeconds (ub_limit b) \<and> ub_limit b' = ub_limit b"
proof -
  let ?p = "snd (budget_prune b now)"
  have p: "nonneg_charges (ub_entries ?p)" "charges (ub_entries ?p) \<le> durationSeconds (ub_limit b)"
    using assms nonneg_prune charges_prune_le [of b now] by force+
  then have used: "usedSeconds ?p = charges (ub_entries ?p)"
    using assms(3) sum_seconds_exact [of "ub_entries ?p" 0] by (simp add: usedSeconds_def)
  define c where "c = snd (budget_commit fs (ub_entries ?p @ [reservation_entry ?p l now]) ?p)"
  have c: "ub_entries c \<in> {ub_entries ?p @ [reservation_entry ?p l now], ub_entries ?p}" "ub_limit c = ub_limit b"
    unfolding c_def using budget_commit_entries [of fs _ ?p] by simp_all
  have "nonneg_charges (ub_entries c) \<and> charges (ub_entries c) \<le> durationSeconds (ub_limit b)"
    if "\<not> reservation_refused ?p l m"
    using c(1) p used that assms(4) durationSeconds_pos [of "ub_reservation b"]
    by (auto simp: reservation_refused_def reservation_entry_def)
  then show ?thesis
    using p c(2) snd_reserve [of fs b l now m] by (simp add: Let_def c_def)
qed

lemma budget_step_within:
  assumes "nonneg_charges (ub_entries b)" and "charges (ub_entries b) \<le> durationSeconds (ub_limit b)"
    and "durationSeconds (ub_limit b) \<le> maxInt64" and "0 < ub_reservation b"
    and "\<And>l t. op \<noteq> OpAdopt l t"
  shows "nonneg_charges (ub_entries (budget_step fs now op b))
    \<and> charges (ub_entries (budget_step fs now op b)) \<le> durationSeconds (ub_limit b)
    \<and> ub_limit (budget_step fs now op b) = ub_limit b"
proof (cases op)
  case (OpReserve l m)
  then show ?thesis using reserve_le [OF assms(1-4), of fs l now m] by (simp add: Let_def)
next
  case (OpSettle l t)
  then show ?thesis using settleAt_le [OF assms(1), of fs l t now] assms(2) by (simp add: Let_def)
next
  case (OpForfeit l)
  then show ?thesis using forfeit_le [OF assms(1), of fs l now] assms(2) by (simp add: Let_def)
next
  case (OpRelease l)
  then show ?thesis using release_le [OF assms(1), of fs l] assms(2) by (simp add: Let_def)
next
  case (OpReconcile ls)
  then show ?thesis using reconcile_le [OF assms(1), of fs ls now] assms(2) by (simp add: Let_def)
qed (use assms(5) in simp)

text \<open>
  C6. Admission control.  Starting from a ledger whose total charge is within the
  limit, no sequence of reservations, settlements, forfeitures, releases and
  reconciliations, at whatever times and with whatever file errors, takes the total
  of the recorded charges above the configured limit.
\<close>

theorem budget_run_within_limit:
  assumes "nonneg_charges (ub_entries b)" and "charges (ub_entries b) \<le> durationSeconds (ub_limit b)"
    and "durationSeconds (ub_limit b) \<le> maxInt64" and "0 < ub_reservation b"
    and "\<And>fs now l t. (fs, now, OpAdopt l t) \<notin> set ops"
  shows "charges (ub_entries (budget_run ops b)) \<le> durationSeconds (ub_limit b)"
  using assms
proof (induction ops arbitrary: b)
  case Nil
  then show ?case by simp
next
  case (Cons x ops)
  obtain fs now op where x: "x = (fs, now, op)" by (metis surj_pair)
  let ?b = "budget_step fs now op b"
  have adopt: "op \<noteq> OpAdopt l t" for l t using Cons.prems(5) x by auto
  have "nonneg_charges (ub_entries ?b) \<and> charges (ub_entries ?b) \<le> durationSeconds (ub_limit b)
      \<and> ub_limit ?b = ub_limit b"
    using Cons.prems(1-4) adopt by (intro budget_step_within) auto
  then show ?case
    using Cons.IH [of ?b] Cons.prems x budget_step_reservation [of fs now op b] by auto
qed

theorem budget_run_within_limit_witness:
  "charges (ub_entries (budget_run
      [(example_fs, 1000 * hour, OpReserve ''b'' hour), (example_fs, 1000 * hour, OpReserve ''c'' hour)]
      example_budget)) \<le> 7200"
  using budget_run_within_limit [of example_budget
      "[(example_fs, 1000 * hour, OpReserve ''b'' hour), (example_fs, 1000 * hour, OpReserve ''c'' hour)]"]
  by (simp add: example_budget_def durationSeconds_def maxInt64_def)

section \<open>What a reservation, a settlement and a restart return\<close>

lemma budget_commit_healthy:
  assumes "\<And>step. fs step = None"
  shows "budget_commit fs es b = (None, b\<lparr>ub_entries := es, ub_disk := FileContent (budget_ledger es)\<rparr>)"
  using assms by (simp add: budget_commit_def commit_def budget_persist_def replace_file_def)

lemma budget_commit_None:
  assumes "budget_commit fs es b = (None, b')"
  shows "ub_entries b' = es \<and> ub_disk b' = FileContent (budget_ledger es)"
  using budget_store.commit_ok [of fs es b b'] assms by (simp add: budget_commit_def)

text \<open>
  A reservation is admitted exactly when the lease is new, the requested lifetime is
  the configured one, and the charges still in the window leave room for it under the
  limit; an admitted reservation is appended to the ledger and is already in the file
  when the call returns.  The file system is one in which the write succeeds.
\<close>

theorem reserve_admits_iff:
  assumes "budget_ok b" and "\<And>step. fs step = None"
  shows "let p = ub_entries (snd (budget_prune b now));
             (r, b') = budget_reserve fs b l now m
         in (r = Inr (True, zeroTime) \<longleftrightarrow>
               (\<forall>e \<in> set p. ue_LeaseID e \<noteq> l) \<and> durationSeconds m = durationSeconds (ub_reservation b)
               \<and> charges p + durationSeconds m \<le> durationSeconds (ub_limit b))
          \<and> (r = Inr (True, zeroTime) \<longrightarrow>
               ub_entries b' = p @ [reservation_entry b l now]
               \<and> ub_disk b' = FileContent (budget_ledger (ub_entries b')))"
proof -
  let ?p = "snd (budget_prune b now)"
  have "budget_ok ?p" using budget_prune_ok assms(1) by blast
  then have "usedSeconds ?p = charges (ub_entries ?p)"
    using sum_seconds_exact [of "ub_entries ?p" 0] entry_secs budget_ok_entries [of ?p]
    by (fastforce simp: usedSeconds_def entries_ok_def)
  moreover have "0 < durationSeconds (ub_reservation b)"
    using assms(1) durationSeconds_pos [of "ub_reservation b"] by (simp add: budget_ok_def)
  ultimately show ?thesis
    using budget_commit_healthy [OF assms(2)]
    by (auto simp: budget_reserve_def Let_def list_ex_iff reservation_entry_def)
qed

theorem reserve_admits_iff_witness:
  "fst (budget_reserve example_fs example_budget ''b'' (1000 * hour) hour) = Inr (True, zeroTime)"
  using reserve_admits_iff [OF example_budget_ok, of example_fs "1000 * hour" "''b''" hour]
  by (simp add: example_fs_def example_budget_def budget_prune_def expire_entry_def entry_expiry_def
      wrap64_def durationSeconds_def case_prod_beta Let_def)

lemma find_update_first: "List.find P es = Some e \<Longrightarrow> f e \<in> set (update_first P f es)"
  by (induction es) (auto split: if_splits)

lemma settled_kept:
  assumes "List.find (active_lease l) (ub_entries b) = Some e" and "0 < ub_window b"
    and "\<And>step. fs step = None"
  shows "settle_entry t now e \<in> set (ub_entries (snd (budget_settleAt fs b l t now)))"
proof -
  let ?es = "update_first (active_lease l) (settle_entry t now) (ub_entries b)"
  have "settle_entry t now e \<in> set ?es" using find_update_first [OF assms(1)] .
  moreover have "expire_entry now (settle_entry t now e) = settle_entry t now e"
    by (simp add: expire_entry_def settle_entry_def Let_def)
  moreover have "ue_ChargedAt (settle_entry t now e) = now" by (simp add: settle_entry_def Let_def)
  ultimately have "settle_entry t now e \<in> set (ub_entries (snd (budget_prune (set_entries ?es b) now)))"
    using assms(2) by (force simp: prune_entries)
  moreover have "list_ex (active_lease l) (ub_entries b)"
    using assms(1) by (auto simp: find_Some_iff list_ex_iff)
  ultimately show ?thesis
    using budget_commit_healthy [OF assms(3)] by (simp add: budget_settleAt_def)
qed

text \<open>
  Settling a lease turns its reservation into the actual charge: the elapsed time
  from its start to the recorded stop, rounded up to whole seconds, at least one
  second and never more than was reserved.  The charge stays in the ledger and is in
  the file.
\<close>

theorem settle_charges_elapsed:
  assumes "budget_ok b" and "\<And>step. fs step = None"
    and "List.find (active_lease l) (ub_entries b) = Some e"
    and "ue_StartedAt e \<le> stop" and "stop \<le> now" and "stop - ue_StartedAt e \<le> maxInt64"
  shows "let b' = snd (budget_settleAt fs b l stop now)
         in (\<exists>e' \<in> set (ub_entries b'). ue_LeaseID e' = l \<and> \<not> ue_Active e' \<and> ue_ChargedAt e' = now
               \<and> ue_Seconds e' = min (ue_Seconds e) (max 1 (durationSeconds (stop - ue_StartedAt e))))
          \<and> ub_disk b' = FileContent (budget_ledger (ub_entries b'))"
proof -
  have act: "active_lease l e" "e \<in> set (ub_entries b)" "list_ex (active_lease l) (ub_entries b)"
    using assms(3) by (auto simp: find_Some_iff list_ex_iff)
  have "0 < ue_StartedAt e" and w: "0 < ub_window b"
    using assms(1) act(2) by (auto simp: budget_ok_def)
  then have "ue_Seconds (settle_entry stop now e)
      = min (ue_Seconds e) (max 1 (durationSeconds (stop - ue_StartedAt e)))"
    using assms(4-6) time_sub_in_range [of stop "ue_StartedAt e"]
    by (auto simp: settle_entry_def Let_def time_isZero_def zeroTime_def minInt64_def)
  moreover have "ue_LeaseID (settle_entry stop now e) = l \<and> \<not> ue_Active (settle_entry stop now e)
      \<and> ue_ChargedAt (settle_entry stop now e) = now"
    using act(1) by (simp add: settle_entry_def Let_def active_lease_def)
  moreover have "ub_disk (snd (budget_settleAt fs b l stop now))
      = FileContent (budget_ledger (ub_entries (snd (budget_settleAt fs b l stop now))))"
    using act(3) budget_commit_healthy [OF assms(2)] by (simp add: budget_settleAt_def)
  ultimately show ?thesis
    using settled_kept [where fs = fs, OF assms(3) w assms(2), of stop now] unfolding Let_def by blast
qed

theorem settle_charges_elapsed_witness:
  "\<exists>e' \<in> set (ub_entries (snd (budget_settleAt example_fs example_budget ''a''
      (1000 * hour + minute) (1000 * hour + minute)))). ue_Seconds e' = 60"
  using settle_charges_elapsed [OF example_budget_ok, of example_fs "''a''"
      "\<lparr>ue_LeaseID = ''a'', ue_ChargedAt = 1000 * hour, ue_StartedAt = 1000 * hour,
        ue_Seconds = 3600, ue_Active = True, ue_Confirmed = True\<rparr>" "1000 * hour + minute" "1000 * hour + minute"]
  by (auto simp: example_fs_def example_budget_def active_lease_def durationSeconds_def maxInt64_def Let_def)

text \<open>
  A restart reads the ledger back: opening the file a well-formed ledger was
  written to, under the same configuration, succeeds and yields its entries with
  the expired reservations closed and the charges older than the window dropped.
\<close>

theorem restart_round_trip:
  assumes "budget_ok b" and "ub_reservation b \<le> ub_limit b" and "ub_stateFile b \<noteq> []"
    and "\<And>step. fs step = None"
  shows "\<exists>b'. newUsageBudget (ub_limit b) (ub_window b) (ub_stateFile b) (ub_reservation b)
            (FileContent (budget_ledger (ub_entries b))) now fs = Inr b'
          \<and> ub_entries b' = ub_entries (snd (budget_prune b now)) \<and> budget_ok b'"
proof -
  let ?d = "FileContent (budget_ledger (ub_entries b))"
  let ?b = "b\<lparr>ub_disk := ?d\<rparr>"
  have valid: "budget_validate ?b = None" "budget_ok ?b"
    using assms(1) by (auto simp: budget_ok_def budget_validate_iff)
  have rec: "\<lparr>ub_limit = ub_limit b, ub_window = ub_window b, ub_reservation = ub_reservation b,
      ub_stateFile = ub_stateFile b, ub_entries = ub_entries b, ub_disk = ?d\<rparr> = ?b" by simp
  have ledger: "ul_Version (budget_ledger es) = 1" "ul_Entries (budget_ledger es) = es" for es
    by (simp_all add: budget_ledger_def)
  have cfg: "\<not> (ub_limit b \<le> 0 \<or> ub_window b \<le> 0 \<or> ub_stateFile b = [] \<or> ub_reservation b \<le> 0
      \<or> ub_reservation b > ub_limit b)"
    using assms(1-3) by (auto simp: budget_ok_def)
  have p: "ub_entries (snd (budget_prune ?b now)) = ub_entries (snd (budget_prune b now))"
    by (simp add: prune_entries)
  obtain c b' where pr: "budget_prune ?b now = (c, b')" by fastforce
  have okp: "budget_ok b'" using budget_prune_ok [OF valid(2), of now] pr by simp
  have "budget_persist fs b' = (None, b'\<lparr>ub_disk := FileContent (budget_ledger (ub_entries b'))\<rparr>)"
    using assms(4) by (simp add: budget_persist_def replace_file_def)
  moreover have "budget_ok (b'\<lparr>ub_disk := FileContent (budget_ledger (ub_entries b'))\<rparr>)"
    using okp by (auto simp: budget_ok_def budget_validate_iff)
  ultimately show ?thesis
    using valid(1) cfg p pr okp ledger
    by (cases c) (auto simp: newUsageBudget_def Let_def rec)
qed

theorem restart_round_trip_witness:
  "\<exists>b'. newUsageBudget (2 * hour) (24 * hour) ''usage.json'' hour
     (FileContent (budget_ledger (ub_entries example_budget))) (1000 * hour) example_fs = Inr b'"
  using restart_round_trip [OF example_budget_ok, of example_fs "1000 * hour"]
  by (auto simp: example_fs_def example_budget_def)

text \<open>
  C39. The clock assumption is needed.  When the wall clock has gone back behind the start of
  an active lease, settling that lease succeeds and writes a ledger in which the
  charge precedes the start, and the next start of the controller refuses the file.
\<close>

theorem settle_before_start_unloadable:
  assumes "0 < ub_window b" and "\<And>step. fs step = None"
    and "List.find (active_lease l) (ub_entries b) = Some e" and "now < ue_StartedAt e"
  shows "\<exists>b'. budget_settleAt fs b l stop now = (None, b')
     \<and> (\<forall>limit window path reservation at fs' b''.
          newUsageBudget limit window path reservation (ub_disk b') at fs' \<noteq> Inr b'')"
proof -
  let ?b = "snd (budget_settleAt fs b l stop now)"
  have act: "list_ex (active_lease l) (ub_entries b)"
    using assms(3) by (auto simp: find_Some_iff list_ex_iff)
  then have fine: "budget_settleAt fs b l stop now = (None, ?b)"
      "ub_disk ?b = FileContent (budget_ledger (ub_entries ?b))"
    using budget_commit_healthy [OF assms(2)] by (simp_all add: budget_settleAt_def)
  have bad: "\<not> entry_valid r (settle_entry stop now e)" for r
    using assms(4) by (auto simp: entry_valid_def settle_entry_def Let_def)
  have "settle_entry stop now e \<in> set (ub_entries ?b)"
    by (rule settled_kept [where fs = fs, OF assms(3,1,2)])
  then have refused: "budget_validate c \<noteq> None" if "ub_entries c = ub_entries ?b" for c
    using bad [of "ub_reservation c"] that unfolding budget_validate_iff by auto
  have "newUsageBudget limit window path reservation (ub_disk ?b) at fs' \<noteq> Inr b''"
    for limit window path reservation at fs' b''
    using refused [of "\<lparr>ub_limit = limit, ub_window = window, ub_reservation = reservation,
        ub_stateFile = path, ub_entries = ub_entries ?b, ub_disk = ub_disk ?b\<rparr>"]
    by (auto simp: newUsageBudget_def fine(2) budget_ledger_def Let_def)
  with fine(1) show ?thesis by blast
qed

theorem settle_before_start_unloadable_witness:
  "\<exists>b'. budget_settleAt example_fs example_budget ''a'' 0 (999 * hour) = (None, b')"
  using settle_before_start_unloadable [of example_budget example_fs "''a''"
      "\<lparr>ue_LeaseID = ''a'', ue_ChargedAt = 1000 * hour, ue_StartedAt = 1000 * hour,
        ue_Seconds = 3600, ue_Active = True, ue_Confirmed = True\<rparr>" "999 * hour" 0]
  by (auto simp: example_fs_def example_budget_def active_lease_def)

end
