(* ===== verification/Interleaving.thy ===== *)
theory Interleaving
  imports Go_Prelude "HOL-Library.Multiset"
begin

text \<open>
  Goroutines that share state.  A program is a finite tree of atomic steps on the shared
  state: a method that holds its mutex throughout, an external call, a reading of the
  clock.  Running it alone executes its steps one after the other; running several
  interleaves their steps.  The theory has the programs, their sequential run, a
  Hoare calculus for it, and two properties that survive every interleaving:
  invariants that each step keeps, and bounds on how much a program can raise a
  count.
\<close>

section \<open>Programs\<close>

datatype ('s, 'a) prog = Done 'a | Act "'s \<Rightarrow> ('s, 'a) prog \<times> 's"

primrec pbind :: "('s, 'a) prog \<Rightarrow> ('a \<Rightarrow> ('s, 'b) prog) \<Rightarrow> ('s, 'b) prog" where
  "pbind (Done a) k = k a"
| "pbind (Act f) k = Act (map_prod (\<lambda>p. pbind p k) id \<circ> f)"

definition pseq :: "('s, 'a) prog \<Rightarrow> ('s, 'b) prog \<Rightarrow> ('s, 'b) prog" where
  "pseq p q = pbind p (\<lambda>_. q)"

definition atom :: "('s \<Rightarrow> 'a \<times> 's) \<Rightarrow> ('s, 'a) prog" where
  "atom f = Act (\<lambda>s. case f s of (a, s') \<Rightarrow> (Done a, s'))"

text \<open>\<open>pcheck m h k\<close> is \<^verbatim>\<open>if err := m; err != nil { h(err) }; k\<close>.\<close>

definition pcheck :: "('s, 'e option) prog \<Rightarrow> ('e \<Rightarrow> ('s, 'b) prog) \<Rightarrow> ('s, 'b) prog \<Rightarrow> ('s, 'b) prog" where
  "pcheck m h k = pbind m (\<lambda>err. case err of Some e \<Rightarrow> h e | None \<Rightarrow> k)"

primrec prun :: "('s, 'a) prog \<Rightarrow> 's \<Rightarrow> 'a \<times> 's" where
  "prun (Done a) = (\<lambda>s. (a, s))"
| "prun (Act f) = (\<lambda>s. case (map_prod prun id \<circ> f) s of (r, s') \<Rightarrow> r s')"

lemma prun_Act [simp]: "prun (Act f) s = prun (fst (f s)) (snd (f s))"
  by (simp add: case_prod_beta)

declare prun.simps(2) [simp del]

lemma prun_pbind [simp]: "prun (pbind p k) s = (case prun p s of (a, s') \<Rightarrow> prun (k a) s')"
proof (induction p arbitrary: s)
  case (Act f)
  have "prun (pbind (fst (f s)) k) (snd (f s)) = (case prun (fst (f s)) (snd (f s)) of (a, s') \<Rightarrow> prun (k a) s')"
    by (rule Act.IH [of "f s" "fst (f s)"]) (auto simp: fsts.simps)
  then show ?case by simp
qed simp

lemma prun_atom [simp]: "prun (atom f) s = f s"
  by (simp add: atom_def case_prod_beta)

lemma prun_pseq [simp]: "prun (pseq p q) s = prun q (snd (prun p s))"
  by (simp add: pseq_def case_prod_beta)

lemma prun_pcheck [simp]:
  "prun (pcheck m h k) s = (case prun m s of (Some e, s') \<Rightarrow> prun (h e) s' | (None, s') \<Rightarrow> prun k s')"
  by (simp add: pcheck_def split: prod.splits option.splits)

section \<open>Sequential reasoning\<close>

text \<open>The Hoare calculus of the prelude applies to a program through its sequential run.\<close>

definition seq :: "('s, 'a) prog \<Rightarrow> ('s, 'a) state" where
  "seq p = State (prun p)"

lemma run_seq [simp]: "run_state (seq p) = prun p"
  by (simp add: seq_def)

lemma hoare_seq_iff: "hoare P (seq p) Q \<longleftrightarrow> (\<forall>s. P s \<longrightarrow> Q (fst (prun p s)) (snd (prun p s)))"
  by (simp add: hoare_def case_prod_beta)

lemma hoare_pbind:
  "hoare P (seq p) R \<Longrightarrow> (\<And>a. hoare (R a) (seq (k a)) Q) \<Longrightarrow> hoare P (seq (pbind p k)) Q"
  by (auto simp: hoare_seq_iff case_prod_beta)

lemma hoare_pseq: "hoare P (seq p) (\<lambda>_. R) \<Longrightarrow> hoare R (seq q) Q \<Longrightarrow> hoare P (seq (pseq p q)) Q"
  by (auto simp: hoare_seq_iff)

lemma hoare_pcheck:
  assumes "hoare P (seq m) (\<lambda>e s. case e of Some x \<Rightarrow> R x s | None \<Rightarrow> R' s)"
    and "\<And>x. hoare (R x) (seq (h x)) Q" and "hoare R' (seq k) Q"
  shows "hoare P (seq (pcheck m h k)) Q"
  unfolding pcheck_def by (rule hoare_pbind [OF assms(1)]) (use assms(2,3) in \<open>auto simp: hoare_seq_iff split: option.splits\<close>)

lemma hoare_Done: "(\<And>s. P s \<Longrightarrow> Q a s) \<Longrightarrow> hoare P (seq (Done a)) Q"
  by (simp add: hoare_seq_iff)

lemma hoare_atom: "(\<And>s. P s \<Longrightarrow> Q (fst (f s)) (snd (f s))) \<Longrightarrow> hoare P (seq (atom f)) Q"
  by (simp add: hoare_seq_iff)

section \<open>Invariants of programs\<close>

text \<open>
  \<open>pkeeps I p\<close>: every step of \<open>p\<close> keeps \<open>I\<close>, from whatever state satisfying \<open>I\<close> it is
  taken; so \<open>I\<close> holds throughout any interleaving of such programs.
\<close>

inductive pkeeps :: "('s \<Rightarrow> bool) \<Rightarrow> ('s, 'a) prog \<Rightarrow> bool" for I where
  pkeeps_Done: "pkeeps I (Done a)"
| pkeeps_Act: "pkeeps I (Act f)" if "\<And>s. I s \<Longrightarrow> I (snd (f s)) \<and> pkeeps I (fst (f s))"

inductive_simps pkeeps_Act_iff: "pkeeps I (Act f)"

named_theorems pkeeps_rules \<open>rules that a program keeps an invariant\<close>

declare pkeeps_Done [pkeeps_rules]

lemma pkeeps_pbind [pkeeps_rules]:
  "pkeeps I p \<Longrightarrow> (\<And>a. pkeeps I (k a)) \<Longrightarrow> pkeeps I (pbind p k)"
proof (induction rule: pkeeps.induct)
  case (pkeeps_Act f)
  then show ?case by (simp add: pkeeps_Act_iff)
qed simp

lemma pkeeps_pseq [pkeeps_rules]: "pkeeps I p \<Longrightarrow> pkeeps I q \<Longrightarrow> pkeeps I (pseq p q)"
  unfolding pseq_def by (intro pkeeps_pbind)

lemma pkeeps_pcheck [pkeeps_rules]:
  "pkeeps I m \<Longrightarrow> (\<And>e. pkeeps I (h e)) \<Longrightarrow> pkeeps I k \<Longrightarrow> pkeeps I (pcheck m h k)"
  unfolding pcheck_def by (intro pkeeps_pbind) (auto split: option.splits)

lemma pkeeps_atom: "(\<And>s. I s \<Longrightarrow> I (snd (f s))) \<Longrightarrow> pkeeps I (atom f)"
  unfolding atom_def case_prod_beta by (rule pkeeps_Act) (simp add: pkeeps_Done)

text \<open>When the rest depends on what the step found.\<close>

lemma pkeeps_bind_atom:
  "(\<And>s. I s \<Longrightarrow> I (snd (f s)) \<and> pkeeps I (k (fst (f s)))) \<Longrightarrow> pkeeps I (pbind (atom f) k)"
  unfolding atom_def case_prod_beta pbind.simps by (rule pkeeps_Act) simp

lemma pkeeps_if [pkeeps_rules]: "(b \<Longrightarrow> pkeeps I p) \<Longrightarrow> (\<not> b \<Longrightarrow> pkeeps I q) \<Longrightarrow> pkeeps I (if b then p else q)"
  by simp

lemma pkeeps_option [pkeeps_rules]:
  "(x = None \<Longrightarrow> pkeeps I p) \<Longrightarrow> (\<And>a. x = Some a \<Longrightarrow> pkeeps I (q a)) \<Longrightarrow> pkeeps I (case x of None \<Rightarrow> p | Some a \<Rightarrow> q a)"
  by (cases x) auto

lemma pkeeps_sum [pkeeps_rules]:
  "(\<And>a. x = Inl a \<Longrightarrow> pkeeps I (p a)) \<Longrightarrow> (\<And>b. x = Inr b \<Longrightarrow> pkeeps I (q b))
   \<Longrightarrow> pkeeps I (case x of Inl a \<Rightarrow> p a | Inr b \<Rightarrow> q b)"
  by (cases x) auto

lemma pkeeps_prod [pkeeps_rules]: "(\<And>a b. x = (a, b) \<Longrightarrow> pkeeps I (p a b)) \<Longrightarrow> pkeeps I (case x of (a, b) \<Rightarrow> p a b)"
  by (cases x) auto

lemma pkeeps_bool [pkeeps_rules]: "pkeeps I p \<Longrightarrow> pkeeps I q \<Longrightarrow> pkeeps I (case b of True \<Rightarrow> p | False \<Rightarrow> q)"
  by (cases b) auto

lemma pkeeps_let [pkeeps_rules]: "pkeeps I (p x) \<Longrightarrow> pkeeps I (let y = x in p y)"
  by simp

lemma pkeeps_prun: "pkeeps I p \<Longrightarrow> I s \<Longrightarrow> I (snd (prun p s))"
  by (induction arbitrary: s rule: pkeeps.induct) auto

lemma hoare_pkeeps: "pkeeps I p \<Longrightarrow> hoare I (seq p) (\<lambda>_. I)"
  by (simp add: hoare_seq_iff pkeeps_prun)

section \<open>Bounded growth\<close>

text \<open>
  \<open>pgrows m n p\<close>: however its steps are interleaved with others, the steps of \<open>p\<close> raise
  the count \<open>m\<close> by at most \<open>n\<close> altogether.
\<close>

inductive pgrows :: "('s \<Rightarrow> nat) \<Rightarrow> nat \<Rightarrow> ('s, 'a) prog \<Rightarrow> bool" for m where
  pgrows_Done: "pgrows m n (Done a)"
| pgrows_Act: "pgrows m n (Act f)"
    if "\<And>s. \<exists>i n'. m (snd (f s)) \<le> m s + i \<and> i + n' \<le> n \<and> pgrows m n' (fst (f s))"

inductive_simps pgrows_Act_iff: "pgrows m n (Act f)"

named_theorems pgrows_rules \<open>rules that bound the growth of a count\<close>

lemma pgrows_mono: "pgrows m n p \<Longrightarrow> n \<le> n' \<Longrightarrow> pgrows m n' p"
proof (induction arbitrary: n' rule: pgrows.induct)
  case (pgrows_Act f n)
  show ?case
  proof (rule pgrows.pgrows_Act)
    fix s
    obtain i k where "m (snd (f s)) \<le> m s + i" "i + k \<le> n" "pgrows m k (fst (f s))"
      using pgrows_Act.IH [of s] by blast
    then show "\<exists>i k. m (snd (f s)) \<le> m s + i \<and> i + k \<le> n' \<and> pgrows m k (fst (f s))"
      using pgrows_Act.prems by (intro exI [of _ i] exI [of _ k]) simp
  qed
qed (rule pgrows_Done)

lemma pgrows_pbind:
  "pgrows m n p \<Longrightarrow> (\<And>a. pgrows m n' (k a)) \<Longrightarrow> pgrows m (n + n') (pbind p k)"
proof (induction rule: pgrows.induct)
  case (pgrows_Done n a)
  then show ?case using pgrows_mono [of m n' "k a" "n + n'"] by simp
next
  case (pgrows_Act f n)
  show ?case unfolding pbind.simps
  proof (rule pgrows.pgrows_Act)
    fix s
    obtain i j where s: "m (snd (f s)) \<le> m s + i" "i + j \<le> n" "pgrows m (j + n') (pbind (fst (f s)) k)"
      using pgrows_Act.IH [of s] pgrows_Act.prems by blast
    show "\<exists>i n''. m (snd ((map_prod (\<lambda>p. pbind p k) id \<circ> f) s)) \<le> m s + i \<and> i + n'' \<le> n + n'
        \<and> pgrows m n'' (fst ((map_prod (\<lambda>p. pbind p k) id \<circ> f) s))"
      using s by (intro exI [of _ i] exI [of _ "j + n'"]) simp
  qed
qed

lemma pgrows_pbind_0 [pgrows_rules]:
  "pgrows m 0 p \<Longrightarrow> (\<And>a. pgrows m n (k a)) \<Longrightarrow> pgrows m n (pbind p k)"
  using pgrows_pbind [of m 0 p n k] by simp

lemma pgrows_pseq_0 [pgrows_rules]: "pgrows m 0 p \<Longrightarrow> pgrows m n q \<Longrightarrow> pgrows m n (pseq p q)"
  unfolding pseq_def by (intro pgrows_pbind_0)

lemma pgrows_pcheck_0 [pgrows_rules]:
  "pgrows m 0 p \<Longrightarrow> (\<And>e. pgrows m n (h e)) \<Longrightarrow> pgrows m n k \<Longrightarrow> pgrows m n (pcheck p h k)"
  unfolding pcheck_def by (intro pgrows_pbind_0) (auto split: option.splits)

lemma pgrows_atom: "(\<And>s. m (snd (f s)) \<le> m s + n) \<Longrightarrow> pgrows m n (atom f)"
  unfolding atom_def case_prod_beta
  by (rule pgrows_Act) (intro exI [of _ n] exI [of _ 0], simp add: pgrows_Done)

lemma pgrows_if [pgrows_rules]: "(b \<Longrightarrow> pgrows m n p) \<Longrightarrow> (\<not> b \<Longrightarrow> pgrows m n q) \<Longrightarrow> pgrows m n (if b then p else q)"
  by simp

lemma pgrows_option [pgrows_rules]:
  "(x = None \<Longrightarrow> pgrows m n p) \<Longrightarrow> (\<And>a. x = Some a \<Longrightarrow> pgrows m n (q a)) \<Longrightarrow> pgrows m n (case x of None \<Rightarrow> p | Some a \<Rightarrow> q a)"
  by (cases x) auto

lemma pgrows_sum [pgrows_rules]:
  "(\<And>a. x = Inl a \<Longrightarrow> pgrows m n (p a)) \<Longrightarrow> (\<And>b. x = Inr b \<Longrightarrow> pgrows m n (q b))
   \<Longrightarrow> pgrows m n (case x of Inl a \<Rightarrow> p a | Inr b \<Rightarrow> q b)"
  by (cases x) auto

lemma pgrows_prod [pgrows_rules]: "(\<And>a b. x = (a, b) \<Longrightarrow> pgrows m n (p a b)) \<Longrightarrow> pgrows m n (case x of (a, b) \<Rightarrow> p a b)"
  by (cases x) auto

lemma pgrows_bool [pgrows_rules]: "pgrows m n p \<Longrightarrow> pgrows m n q \<Longrightarrow> pgrows m n (case b of True \<Rightarrow> p | False \<Rightarrow> q)"
  by (cases b) auto

lemma pgrows_let [pgrows_rules]: "pgrows m n (p x) \<Longrightarrow> pgrows m n (let y = x in p y)"
  by simp

declare pgrows_Done [pgrows_rules]

lemma pgrows_prun: "pgrows m n p \<Longrightarrow> m (snd (prun p s)) \<le> m s + n"
proof (induction arbitrary: s rule: pgrows.induct)
  case (pgrows_Act f n)
  obtain i k where s: "m (snd (f s)) \<le> m s + i" "i + k \<le> n" "\<And>t. m (snd (prun (fst (f s)) t)) \<le> m t + k"
    using pgrows_Act [of s] by blast
  have "m (snd (prun (fst (f s)) (snd (f s)))) \<le> m (snd (f s)) + k" by (rule s(3))
  then show ?case using s(1,2) by simp
qed simp

section \<open>Termination of schedules\<close>

text \<open>A step replaces a program by one of its subtrees; so any schedule of finitely many programs ends.\<close>

definition psub :: "(('s, 'a) prog \<times> ('s, 'a) prog) set" where
  "psub = {(fst (f s), Act f) | f s. True}"

lemma wf_psub: "wf psub"
proof (rule wfUNIVI)
  fix P :: "('a, 'b) prog \<Rightarrow> bool" and p
  assume step: "\<forall>x. (\<forall>y. (y, x) \<in> psub \<longrightarrow> P y) \<longrightarrow> P x"
  show "P p"
  proof (induction p)
    case (Done a)
    show ?case using step by (auto simp: psub_def)
  next
    case (Act f)
    have "P (fst (f s))" for s by (rule Act.IH [of "f s"]) (auto simp: fsts.simps)
    then show ?case using step [rule_format, of "Act f"] by (auto simp: psub_def)
  qed
qed

lemma psub_step: "(fst (f s), Act f) \<in> psub"
  by (auto simp: psub_def)

lemma mset_update_sub:
  assumes "i < length ts" and "ts ! i = Act f"
  shows "(mset (ts[i := fst (f s)]), mset ts) \<in> mult psub"
proof -
  have "mset ts = add_mset (ts ! i) (mset ts - {#ts ! i#})" using assms(1) by simp
  moreover have "mset (ts[i := fst (f s)]) = add_mset (fst (f s)) (mset ts - {#ts ! i#})"
    using assms(1) by (simp add: mset_update)
  ultimately show ?thesis
    using assms(2) psub_step [of f s] one_step_implies_mult [of "{#ts ! i#}" "{#fst (f s)#}" psub "mset ts - {#ts ! i#}"]
    by auto
qed

lemma mset_remove_sub:
  assumes "i < length ts"
  shows "(mset (take i ts @ drop (Suc i) ts), mset ts) \<in> mult psub"
proof -
  have "mset ts = mset (take i ts @ ts ! i # drop (Suc i) ts)" using assms by (simp add: id_take_nth_drop [symmetric])
  then have "mset ts = mset (take i ts @ drop (Suc i) ts) + {#ts ! i#}" by simp
  then show ?thesis
    using one_step_implies_mult [of "{#ts ! i#}" "{#}" psub "mset (take i ts @ drop (Suc i) ts)"] by simp
qed

end
