(* ===== verification/Retirement_Queue.thy ===== *)
theory Retirement_Queue
  imports Durable_File
begin

text \<open>
  The journal of pending runner retirements (\<^verbatim>\<open>controller/retirement_queue.go\<close>): the
  entries that prove which GitHub registration may be removed, their validation, the
  map of pending entries and its file, and what survives retries, failed writes and
  restarts.
\<close>

section \<open>Entries\<close>

definition maximumRetirementQueueSize :: int where
  "maximumRetirementQueueSize = 1048576"

text \<open>\<^verbatim>\<open>managedRunnerName\<close>: \<open>runner-\<close> and eight hex digits, or a lower-case UUID.\<close>

fun hex_groups :: "nat list \<Rightarrow> string \<Rightarrow> bool" where
  "hex_groups [] s \<longleftrightarrow> s = []"
| "hex_groups [n] s \<longleftrightarrow> length s = n \<and> list_all is_hex_lower s"
| "hex_groups (n # m # ns) s \<longleftrightarrow>
     length s > n \<and> list_all is_hex_lower (take n s) \<and> s ! n = CHR ''-''
   \<and> hex_groups (m # ns) (drop (Suc n) s)"

definition managedRunnerName :: "string \<Rightarrow> bool" where
  "managedRunnerName s \<longleftrightarrow>
     take 7 s = ''runner-'' \<and> (hex_groups [8] (drop 7 s) \<or> hex_groups [8, 4, 4, 4, 12] (drop 7 s))"

type_synonym budgetDisposition = string

definition settleActualUsage :: budgetDisposition where
  "settleActualUsage = ''settle''"

definition forfeitReservation :: budgetDisposition where
  "forfeitReservation = ''forfeit''"

record retirementEntry =
  re_RunnerName :: string
  re_RunnerID :: int
  re_RunnerScaleSetID :: int
  re_LeaseID :: string
  re_BudgetDisposition :: budgetDisposition
  re_StoppedAt :: gotime
  re_RequestedAt :: gotime

record retirementLedger =
  rl_Version :: int
  rl_Entries :: "retirementEntry list"
  rl_Runners :: "string list"

record retirementQueue =
  rq_file :: string
  rq_entries :: "retirementEntry gomap"
  rq_disk :: "retirementLedger fileState"

definition validateRetirementEntry :: "retirementEntry \<Rightarrow> goerr option" where
  "validateRetirementEntry entry =
     (if \<not> managedRunnerName (re_RunnerName entry)
        then Some (ErrText ''invalid managed runner name in retirement queue'')
      else if re_RunnerID entry < 0 \<or> re_RunnerScaleSetID entry < 1 \<or> re_LeaseID entry = []
        then Some (ErrText ''invalid identity proof for runner'')
      else if re_BudgetDisposition entry \<noteq> settleActualUsage
            \<and> re_BudgetDisposition entry \<noteq> forfeitReservation
        then Some (ErrText ''invalid budget disposition for runner'')
      else None)"

section \<open>Persistence\<close>

definition queue_sorted :: "retirementEntry gomap \<Rightarrow> retirementEntry list" where
  "queue_sorted m = sort_key re_RunnerName (map snd m)"

definition queue_ledger :: "retirementEntry gomap \<Rightarrow> retirementLedger" where
  "queue_ledger m = \<lparr>rl_Version = 2, rl_Entries = queue_sorted m, rl_Runners = []\<rparr>"

definition queue_persistLocked :: "fs \<Rightarrow> retirementQueue \<Rightarrow> goerr option \<times> retirementQueue" where
  "queue_persistLocked fs q =
     (case replace_file fs
        [(FsMkdirAll, ''create runner retirement queue directory''),
         (FsEncode, ''encode runner retirement queue''),
         (FsOpenTemp, ''create temporary runner retirement queue''),
         (FsChmodTemp, ''secure runner retirement queue''),
         (FsWriteTemp, ''write runner retirement queue''),
         (FsSyncTemp, ''sync runner retirement queue''),
         (FsCloseTemp, ''close runner retirement queue''),
         (FsRename, ''commit runner retirement queue'')]
        [(FsChmod, ''secure committed runner retirement queue''),
         (FsOpenDir, ''open runner retirement queue directory''),
         (FsSyncDir, ''sync runner retirement queue directory'')]
        (queue_ledger (rq_entries q)) (rq_disk q) of
      (err, disk) \<Rightarrow> (err, q\<lparr>rq_disk := disk\<rparr>))"

text \<open>
  \<^verbatim>\<open>loadRetirementLedger\<close> inspects the file before it reads it.
\<close>

definition loadRetirementLedger :: "bool \<Rightarrow> retirementLedger fileProbe \<Rightarrow> goerr + retirementLedger" where
  "loadRetirementLedger windows p =
     (if fp_abs p \<noteq> None then Inl (ErrText ''resolve runner retirement queue path'')
      else if fp_root p \<noteq> None
        then Inl (if errors_Is (fp_root p) OsErrNotExist then ErrSentinel OsErrNotExist
                  else ErrText ''open runner retirement queue directory'')
      else (case fp_lstat p of
          Some e \<Rightarrow> Inl (if errors_Is (Some e) OsErrNotExist then ErrSentinel OsErrNotExist
                       else ErrWrap ''inspect runner retirement queue'' e)
        | None \<Rightarrow>
            if fp_symlink p \<or> \<not> fp_regular p
              then Inl (ErrText ''runner retirement queue must be a regular file, not a symlink'')
            else if \<not> windows \<and> fp_groupOrOthers p
              then Inl (ErrText ''runner retirement queue is accessible by group or others'')
            else if fp_size p < 1 \<or> fp_size p > maximumRetirementQueueSize
              then Inl (ErrText ''runner retirement queue size is outside the safe range'')
            else if fp_open p \<noteq> None then Inl (ErrText ''open runner retirement queue'')
            else if \<not> fp_sameFile p
              then Inl (ErrText ''runner retirement queue changed while it was being inspected'')
            else (case fp_decode p of
                Inl e \<Rightarrow> Inl (ErrWrap ''decode runner retirement queue'' e)
              | Inr ledger \<Rightarrow>
                  if fp_trailing p then Inl (ErrText ''runner retirement queue contains trailing data'')
                  else Inr ledger)))"

fun load_entries :: "retirementEntry gomap \<Rightarrow> retirementEntry list \<Rightarrow> goerr + retirementEntry gomap" where
  "load_entries m [] = Inr m"
| "load_entries m (e # es) =
     (case validateRetirementEntry e of
        Some err \<Rightarrow> Inl err
      | None \<Rightarrow>
          if map_of m (re_RunnerName e) \<noteq> None
            then Inl (ErrText ''duplicate runner in retirement queue'')
          else load_entries (AList.update (re_RunnerName e) e m) es)"

definition newRetirementQueue :: "string \<Rightarrow> bool \<Rightarrow> retirementLedger fileProbe \<Rightarrow> retirementLedger fileState
    \<Rightarrow> fs \<Rightarrow> goerr + retirementQueue" where
  "newRetirementQueue path windows probe disk fs =
     (if path = [] then Inl (ErrText ''runner retirement queue file is required'')
      else (let queue = \<lparr>rq_file = path, rq_entries = [], rq_disk = disk\<rparr>
            in case loadRetirementLedger windows probe of
                 Inl err \<Rightarrow>
                   if errors_Is (Some err) OsErrNotExist
                   then (case queue_persistLocked fs queue of
                           (Some e, _) \<Rightarrow> Inl e
                         | (None, queue') \<Rightarrow> Inr queue')
                   else Inl err
               | Inr ledger \<Rightarrow>
                   if rl_Version ledger = 1 \<and> rl_Runners ledger \<noteq> []
                     then Inl (ErrText ''legacy runner retirement queue is non-empty'')
                   else if rl_Version ledger \<noteq> 1 \<and> rl_Version ledger \<noteq> 2
                     then Inl (ErrText ''unsupported runner retirement queue version'')
                   else (case load_entries [] (rl_Entries ledger) of
                           Inl e \<Rightarrow> Inl e
                         | Inr m \<Rightarrow> Inr (queue\<lparr>rq_entries := m\<rparr>))))"

section \<open>Operations\<close>

text \<open>What \<^verbatim>\<open>put\<close> keeps of the entry it replaces.\<close>

definition put_merge :: "retirementEntry \<Rightarrow> retirementEntry \<Rightarrow> retirementEntry" where
  "put_merge previous entry =
     entry\<lparr>re_RunnerID := (if re_RunnerID entry = 0 then re_RunnerID previous else re_RunnerID entry),
           re_StoppedAt := (if time_isZero (re_StoppedAt entry) then re_StoppedAt previous else re_StoppedAt entry),
           re_RequestedAt := (if \<not> time_isZero (re_RequestedAt previous) then re_RequestedAt previous
                              else re_RequestedAt entry)\<rparr>"

definition queue_store :: "fs \<Rightarrow> retirementEntry \<Rightarrow> retirementEntry option \<Rightarrow> retirementQueue
    \<Rightarrow> goerr option \<times> retirementQueue" where
  "queue_store fs entry previous q =
     (let name = re_RunnerName entry
      in case queue_persistLocked fs (q\<lparr>rq_entries := AList.update name entry (rq_entries q)\<rparr>) of
           (None, q') \<Rightarrow> (None, q')
         | (Some e, q') \<Rightarrow>
             (Some e, q'\<lparr>rq_entries :=
                (case previous of
                   Some old \<Rightarrow> AList.update name old (rq_entries q')
                 | None \<Rightarrow> AList.delete name (rq_entries q'))\<rparr>))"

definition queue_put :: "fs \<Rightarrow> retirementEntry \<Rightarrow> retirementQueue \<Rightarrow> goerr option \<times> retirementQueue" where
  "queue_put fs entry q =
     (case validateRetirementEntry entry of
        Some err \<Rightarrow> (Some err, q)
      | None \<Rightarrow>
          (case map_of (rq_entries q) (re_RunnerName entry) of
             None \<Rightarrow> queue_store fs entry None q
           | Some previous \<Rightarrow>
               if re_RunnerScaleSetID previous \<noteq> re_RunnerScaleSetID entry
                  \<or> re_LeaseID previous \<noteq> re_LeaseID entry
                  \<or> re_BudgetDisposition previous \<noteq> re_BudgetDisposition entry
                 then (Some (ErrText ''refusing to replace identity proof for runner''), q)
               else if re_RunnerID previous \<noteq> 0 \<and> re_RunnerID entry \<noteq> 0
                     \<and> re_RunnerID previous \<noteq> re_RunnerID entry
                 then (Some (ErrText ''refusing to replace registration id for runner''), q)
               else queue_store fs (put_merge previous entry) (Some previous) q))"

definition queue_remove :: "fs \<Rightarrow> string \<Rightarrow> retirementQueue \<Rightarrow> goerr option \<times> retirementQueue" where
  "queue_remove fs name q =
     (case map_of (rq_entries q) name of
        None \<Rightarrow> (None, q)
      | Some previous \<Rightarrow>
          (case queue_persistLocked fs (q\<lparr>rq_entries := AList.delete name (rq_entries q)\<rparr>) of
             (None, q') \<Rightarrow> (None, q')
           | (Some e, q') \<Rightarrow> (Some e, q'\<lparr>rq_entries := AList.update name previous (rq_entries q')\<rparr>)))"

definition queue_all :: "retirementQueue \<Rightarrow> retirementEntry list" where
  "queue_all q = queue_sorted (rq_entries q)"

definition queue_count :: "retirementQueue \<Rightarrow> nat" where
  "queue_count q = length (rq_entries q)"

definition queue_overdue :: "retirementQueue \<Rightarrow> gotime \<Rightarrow> duration \<Rightarrow> nat" where
  "queue_overdue q now grace =
     length (filter (\<lambda>(_, e). time_isZero (re_RequestedAt e) \<or> time_sub now (re_RequestedAt e) > grace)
       (rq_entries q))"

section \<open>The journal as a durable store\<close>

abbreviation set_queue :: "retirementEntry gomap \<Rightarrow> retirementQueue \<Rightarrow> retirementQueue" where
  "set_queue m q \<equiv> q\<lparr>rq_entries := m\<rparr>"

lemma queue_persist_eq:
  "queue_persistLocked fs q = (e, q') \<Longrightarrow>
     q' = q\<lparr>rq_disk := rq_disk q'\<rparr>
   \<and> (e = None \<longrightarrow> rq_disk q' = FileContent (queue_ledger (rq_entries q)))
   \<and> rq_disk q' \<in> {rq_disk q, FileContent (queue_ledger (rq_entries q))}"
  unfolding queue_persistLocked_def
  by (auto dest!: replace_file_cases split: prod.splits)

lemma queue_persist_entries [simp]: "rq_entries (snd (queue_persistLocked fs q)) = rq_entries q"
  by (simp add: queue_persistLocked_def split: prod.splits)

interpretation journal: durable_store rq_entries set_queue rq_disk queue_ledger queue_persistLocked
proof (unfold_locales, goal_cases)
  case (5 fs q)
  obtain e q' where "queue_persistLocked fs q = (e, q')" by fastforce
  with queue_persist_eq [OF this] 5 show ?case by simp
next
  case (6 fs q)
  obtain e q' where "queue_persistLocked fs q = (e, q')" by fastforce
  with queue_persist_eq [OF this] show ?case by simp
qed simp_all

section \<open>The invariant of the journal\<close>

definition entries_named :: "retirementEntry gomap \<Rightarrow> bool" where
  "entries_named m \<longleftrightarrow> gomap_ok m
     \<and> (\<forall>(k, e) \<in> set m. k = re_RunnerName e \<and> validateRetirementEntry e = None)"

definition queue_ok :: "retirementQueue \<Rightarrow> bool" where
  "queue_ok q \<longleftrightarrow> entries_named (rq_entries q)
     \<and> (\<exists>m. entries_named m \<and> rq_disk q = FileContent (queue_ledger m))"

lemma entries_named_update:
  assumes "entries_named m" and "validateRetirementEntry e = None"
  shows "entries_named (AList.update (re_RunnerName e) e m)"
proof -
  have "k = re_RunnerName x \<and> validateRetirementEntry x = None"
    if "(k, x) \<in> set (AList.update (re_RunnerName e) e m)" for k x
  proof -
    have "map_of (AList.update (re_RunnerName e) e m) k = Some x"
      using that assms(1) by (subst gomap_in_set [symmetric]) (simp_all add: entries_named_def)
    then show ?thesis
      using assms by (auto simp: entries_named_def split: if_splits dest!: map_of_SomeD)
  qed
  then show ?thesis using assms(1) by (auto simp: entries_named_def)
qed

lemma entries_named_delete: "entries_named m \<Longrightarrow> entries_named (AList.delete k m)"
  by (auto simp: entries_named_def AList.delete_eq)

lemma entries_namedD:
  "entries_named m \<Longrightarrow> map_of m k = Some e \<Longrightarrow> k = re_RunnerName e \<and> validateRetirementEntry e = None"
  by (auto simp: entries_named_def dest: map_of_SomeD)

text \<open>\<^verbatim>\<open>put\<close> undoes its change when the file cannot be written: it is a commit.\<close>

lemma delete_back: "map_of m k = None \<Longrightarrow> AList.delete k (AList.update k new m) = m"
  by (induction m) (auto simp: AList.delete_eq filter_id_conv map_of_eq_None_iff image_iff split: if_splits)

lemma queue_store_commit:
  assumes "gomap_ok (rq_entries q)" and "previous = map_of (rq_entries q) (re_RunnerName entry)"
  shows "queue_store fs entry previous q =
     commit queue_persistLocked rq_entries set_queue fs
       (AList.update (re_RunnerName entry) entry (rq_entries q)) q"
proof -
  obtain e q' where p: "queue_persistLocked fs
      (set_queue (AList.update (re_RunnerName entry) entry (rq_entries q)) q) = (e, q')" by fastforce
  then have "rq_entries q' = AList.update (re_RunnerName entry) entry (rq_entries q)"
    using queue_persist_entries [of fs "set_queue _ q"] by (metis retirementQueue.select_convs(2)
        retirementQueue.surjective retirementQueue.update_convs(2) snd_conv)
  with p assms show ?thesis
    by (cases "map_of (rq_entries q) (re_RunnerName entry)")
      (auto simp: queue_store_def commit_def Let_def AList_update_same delete_back split: option.splits)
qed

lemma put_merge_valid:
  assumes "validateRetirementEntry entry = None" and "validateRetirementEntry previous = None"
  shows "validateRetirementEntry (put_merge previous entry) = None
     \<and> re_RunnerName (put_merge previous entry) = re_RunnerName entry"
  using assms by (auto simp: validateRetirementEntry_def put_merge_def split: if_splits)

text \<open>
  The entry \<^verbatim>\<open>put\<close> stores, if it stores one: an abstract specification of the call that
  knows nothing of files.
\<close>

definition put_spec :: "(string \<rightharpoonup> retirementEntry) \<Rightarrow> retirementEntry \<Rightarrow> retirementEntry option" where
  "put_spec m entry =
     (if validateRetirementEntry entry \<noteq> None then None
      else (case m (re_RunnerName entry) of
          None \<Rightarrow> Some entry
        | Some previous \<Rightarrow>
            if re_RunnerScaleSetID previous = re_RunnerScaleSetID entry
               \<and> re_LeaseID previous = re_LeaseID entry
               \<and> re_BudgetDisposition previous = re_BudgetDisposition entry
               \<and> (re_RunnerID previous = 0 \<or> re_RunnerID entry = 0 \<or> re_RunnerID previous = re_RunnerID entry)
            then Some (put_merge previous entry) else None))"

lemma put_spec_name:
  assumes "put_spec (map_of m) entry = Some e" and "entries_named m"
  shows "re_RunnerName e = re_RunnerName entry \<and> validateRetirementEntry e = None"
  using assms put_merge_valid [of entry] entries_namedD [OF assms(2)]
  by (auto simp: put_spec_def split: option.splits if_splits)

lemma queue_put_commit:
  assumes "entries_named (rq_entries q)"
  shows "case put_spec (map_of (rq_entries q)) entry of
      None \<Rightarrow> fst (queue_put fs entry q) \<noteq> None \<and> snd (queue_put fs entry q) = q
    | Some e \<Rightarrow> queue_put fs entry q = commit queue_persistLocked rq_entries set_queue fs
        (AList.update (re_RunnerName entry) e (rq_entries q)) q"
proof (cases "validateRetirementEntry entry")
  case (Some err)
  then show ?thesis by (simp add: queue_put_def put_spec_def)
next
  case valid: None
  show ?thesis
  proof (cases "map_of (rq_entries q) (re_RunnerName entry)")
    case None
    then show ?thesis
      using valid assms queue_store_commit [of q None entry fs]
      by (simp add: queue_put_def put_spec_def entries_named_def)
  next
    case (Some previous)
    have "re_RunnerName (put_merge previous entry) = re_RunnerName entry" by (simp add: put_merge_def)
    then show ?thesis
      using valid Some assms queue_store_commit [of q "Some previous" "put_merge previous entry" fs]
      by (auto simp: queue_put_def put_spec_def entries_named_def)
  qed
qed

section \<open>What the journal promises\<close>

datatype queue_op = QPut retirementEntry | QRemove string

fun queue_step :: "fs \<Rightarrow> queue_op \<Rightarrow> retirementQueue \<Rightarrow> goerr option \<times> retirementQueue" where
  "queue_step fs (QPut entry) q = queue_put fs entry q"
| "queue_step fs (QRemove name) q = queue_remove fs name q"

fun queue_run :: "(fs \<times> queue_op) list \<Rightarrow> retirementQueue \<Rightarrow> retirementQueue" where
  "queue_run [] q = q"
| "queue_run ((fs, op) # ops) q = queue_run ops (snd (queue_step fs op q))"

text \<open>The abstract journal: a map, changed by an operation that succeeds and by no other.\<close>

fun spec_step :: "queue_op \<Rightarrow> (string \<rightharpoonup> retirementEntry) \<Rightarrow> (string \<rightharpoonup> retirementEntry)" where
  "spec_step (QPut entry) m = (case put_spec m entry of None \<Rightarrow> m | Some e \<Rightarrow> m(re_RunnerName entry \<mapsto> e))"
| "spec_step (QRemove name) m = m(name := None)"

lemma commit_queue:
  assumes "commit queue_persistLocked rq_entries set_queue fs m q = (err, q')"
  shows "rq_entries q' = (if err = None then m else rq_entries q)
     \<and> (err = None \<longrightarrow> rq_disk q' = FileContent (queue_ledger m))
     \<and> rq_disk q' \<in> {rq_disk q, FileContent (queue_ledger m)}"
  using journal.commit_content [OF assms] journal.commit_ok [of fs m q q']
    journal.commit_fail [of fs m q _ q'] assms by (cases err) auto

lemma queue_remove_cases:
  assumes "queue_remove fs name q = (err, q')" and "map_of (rq_entries q) name = Some previous"
  shows "rq_entries q' = (if err = None then AList.delete name (rq_entries q)
            else AList.update name previous (AList.delete name (rq_entries q)))
     \<and> (err = None \<longrightarrow> rq_disk q' = FileContent (queue_ledger (AList.delete name (rq_entries q))))
     \<and> rq_disk q' \<in> {rq_disk q, FileContent (queue_ledger (AList.delete name (rq_entries q)))}"
proof -
  obtain e t where p: "queue_persistLocked fs (set_queue (AList.delete name (rq_entries q)) q) = (e, t)"
    by fastforce
  have "rq_entries t = AList.delete name (rq_entries q)"
    using journal.persist_content [of fs "set_queue (AList.delete name (rq_entries q)) q"] p by simp
  then show ?thesis
    using queue_persist_eq [OF p] assms p by (cases e) (auto simp: queue_remove_def)
qed

lemma queue_put_step:
  assumes ok: "queue_ok q" and step: "queue_put fs entry q = (err, q')"
  shows "queue_ok q'
     \<and> map_of (rq_entries q') =
         (if err = None then spec_step (QPut entry) (map_of (rq_entries q)) else map_of (rq_entries q))"
proof (cases "put_spec (map_of (rq_entries q)) entry")
  case None
  then have "err \<noteq> None" "q' = q"
    using queue_put_commit [of q fs entry] ok step by (auto simp: queue_ok_def)
  then show ?thesis using ok by auto
next
  case (Some e)
  let ?m = "AList.update (re_RunnerName entry) e (rq_entries q)"
  have "commit queue_persistLocked rq_entries set_queue fs ?m q = (err, q')"
    using queue_put_commit [of q fs entry] ok step Some by (auto simp: queue_ok_def)
  from commit_queue [OF this]
  have c: "rq_entries q' = (if err = None then ?m else rq_entries q)"
      "rq_disk q' \<in> {rq_disk q, FileContent (queue_ledger ?m)}" by simp_all
  have "entries_named ?m"
    using put_spec_name [OF Some] ok entries_named_update [of "rq_entries q" e] by (simp add: queue_ok_def)
  then have "queue_ok q'" using c ok by (auto simp: queue_ok_def)
  moreover have "map_of ?m = (map_of (rq_entries q))(re_RunnerName entry \<mapsto> e)"
    by (simp add: fun_eq_iff)
  ultimately show ?thesis using c(1) Some by (simp del: map_of_update)
qed

lemma queue_remove_step:
  assumes ok: "queue_ok q" and step: "queue_remove fs name q = (err, q')"
  shows "queue_ok q'
     \<and> map_of (rq_entries q') =
         (if err = None then spec_step (QRemove name) (map_of (rq_entries q)) else map_of (rq_entries q))"
proof (cases "map_of (rq_entries q) name")
  case None
  then have "err = None" "q' = q" using step by (auto simp: queue_remove_def)
  then show ?thesis using ok None by (auto simp: fun_eq_iff)
next
  case (Some previous)
  have named: "name = re_RunnerName previous" "validateRetirementEntry previous = None"
    using ok Some entries_namedD by (auto simp: queue_ok_def)
  have del: "entries_named (AList.delete name (rq_entries q))"
    using ok entries_named_delete by (simp add: queue_ok_def)
  note c = queue_remove_cases [OF step Some]
  have "entries_named (rq_entries q')"
    using c del entries_named_update [OF del named(2)] named(1) by (simp split: if_splits)
  moreover have "\<exists>m. entries_named m \<and> rq_disk q' = FileContent (queue_ledger m)"
    using c del ok by (auto simp: queue_ok_def)
  ultimately have "queue_ok q'" by (simp add: queue_ok_def)
  then show ?thesis using c Some by (auto simp: fun_eq_iff)
qed

lemma queue_step_spec:
  assumes "queue_ok q" and "queue_step fs op q = (err, q')"
  shows "queue_ok q'
     \<and> map_of (rq_entries q') = (if err = None then spec_step op (map_of (rq_entries q)) else map_of (rq_entries q))"
proof (cases op)
  case (QPut entry)
  then show ?thesis using queue_put_step [OF assms(1), of fs entry err q'] assms(2) by simp
next
  case (QRemove name)
  then show ?thesis using queue_remove_step [OF assms(1), of fs name err q'] assms(2) by simp
qed

text \<open>A concrete journal with one pending retirement, for the witnesses.\<close>

definition example_entry :: retirementEntry where
  "example_entry = \<lparr>re_RunnerName = ''runner-0123abcd'', re_RunnerID = 7, re_RunnerScaleSetID = 1,
     re_LeaseID = ''lease'', re_BudgetDisposition = settleActualUsage, re_StoppedAt = 5, re_RequestedAt = 6\<rparr>"

definition example_queue :: retirementQueue where
  "example_queue = \<lparr>rq_file = ''retirements.json'', rq_entries = [(''runner-0123abcd'', example_entry)],
     rq_disk = FileContent (queue_ledger [(''runner-0123abcd'', example_entry)])\<rparr>"

definition example_other :: retirementEntry where
  "example_other = example_entry\<lparr>re_RunnerID := 0, re_StoppedAt := 0, re_RequestedAt := 9\<rparr>"

lemma example_entry_valid: "validateRetirementEntry example_entry = None"
  by code_simp

lemma example_queue_ok: "queue_ok example_queue"
  using example_entry_valid
  by (auto simp: queue_ok_def entries_named_def gomap_ok_def example_queue_def example_entry_def
      intro!: exI [of _ "[(''runner-0123abcd'', example_entry)]"])

fun queue_results :: "(fs \<times> queue_op) list \<Rightarrow> retirementQueue \<Rightarrow> goerr option list" where
  "queue_results [] q = []"
| "queue_results ((fs, op) # ops) q = fst (queue_step fs op q) # queue_results ops (snd (queue_step fs op q))"

fun spec_run :: "(goerr option \<times> queue_op) list \<Rightarrow> (string \<rightharpoonup> retirementEntry) \<Rightarrow> (string \<rightharpoonup> retirementEntry)" where
  "spec_run [] m = m"
| "spec_run ((err, op) # ops) m = spec_run ops (if err = None then spec_step op m else m)"

lemma queue_run_ok: "queue_ok q \<Longrightarrow> queue_ok (queue_run ops q)"
proof (induction ops arbitrary: q)
  case (Cons x ops)
  then show ?case using queue_step_spec by (cases x) (metis prod.collapse queue_run.simps(2))
qed simp

text \<open>
  C27. Refinement of the journal.  A sequence of calls does to the map of pending
  retirements exactly what the calls that reported success do in the specification;
  a call that reported an error did nothing to it, whichever step of its file write
  failed.  The journal stays well formed in memory and on disk throughout.
\<close>

theorem queue_run_refines:
  assumes "queue_ok q"
  shows "queue_ok (queue_run ops q)
     \<and> map_of (rq_entries (queue_run ops q)) =
         spec_run (zip (queue_results ops q) (map snd ops)) (map_of (rq_entries q))"
  using assms
proof (induction ops arbitrary: q)
  case (Cons x ops)
  obtain fs op where x: "x = (fs, op)" by fastforce
  obtain err q' where step: "queue_step fs op q = (err, q')" by fastforce
  from queue_step_spec [OF Cons.prems step] Cons.IH [of q'] step x show ?case by simp
qed simp

theorem queue_run_refines_witness:
  "map_of (rq_entries (queue_run [(\<lambda>_. None, QRemove ''runner-0123abcd'')] example_queue)) ''runner-0123abcd'' = None"
  using queue_run_refines [OF example_queue_ok, of "[(\<lambda>_. None, QRemove ''runner-0123abcd'')]"]
  by (simp add: queue_remove_def queue_persistLocked_def replace_file_def example_queue_def)

text \<open>What a later entry of the same runner must agree on with an earlier one.\<close>

definition continues :: "retirementEntry \<Rightarrow> retirementEntry \<Rightarrow> bool" where
  "continues e e' \<longleftrightarrow>
     re_RunnerName e' = re_RunnerName e \<and> re_RunnerScaleSetID e' = re_RunnerScaleSetID e
   \<and> re_LeaseID e' = re_LeaseID e \<and> re_BudgetDisposition e' = re_BudgetDisposition e
   \<and> (re_RunnerID e \<noteq> 0 \<longrightarrow> re_RunnerID e' = re_RunnerID e)
   \<and> (\<not> time_isZero (re_RequestedAt e) \<longrightarrow> re_RequestedAt e' = re_RequestedAt e)
   \<and> (\<not> time_isZero (re_StoppedAt e) \<longrightarrow> \<not> time_isZero (re_StoppedAt e'))"

lemma continues_refl: "continues e e"
  by (simp add: continues_def)

lemma continues_trans: "continues a b \<Longrightarrow> continues b c \<Longrightarrow> continues a c"
  by (auto simp: continues_def time_isZero_def)

lemma put_spec_continues:
  assumes "put_spec m entry = Some e'" and "m (re_RunnerName entry) = Some e" and "re_RunnerName e = re_RunnerName entry"
  shows "continues e e'"
  using assms by (auto simp: put_spec_def continues_def put_merge_def split: if_splits)

lemma queue_step_continues:
  assumes "queue_ok q" and "map_of (rq_entries q) name = Some e" and "op \<noteq> QRemove name"
  shows "\<exists>e'. map_of (rq_entries (snd (queue_step fs op q))) name = Some e' \<and> continues e e'"
proof -
  obtain err q' where step: "queue_step fs op q = (err, q')" by fastforce
  have named: "re_RunnerName e = name" using assms entries_namedD by (auto simp: queue_ok_def)
  have "\<exists>e'. spec_step op (map_of (rq_entries q)) name = Some e' \<and> continues e e'"
    using assms named put_spec_continues [of "map_of (rq_entries q)"] continues_refl
    by (cases op) (auto split: option.splits)
  then show ?thesis
    using queue_step_spec [OF assms(1) step] step assms(2) continues_refl by (cases err) auto
qed

text \<open>
  Until an entry is removed, no sequence of calls, whatever they pass and whatever
  fails, changes its scale set, lease or budget disposition, replaces a known
  registration id or a recorded request time, or forgets a recorded stop.
\<close>

theorem queue_identity_kept:
  assumes "queue_ok q" and "map_of (rq_entries q) name = Some e"
    and "\<And>fs. (fs, QRemove name) \<notin> set ops"
  shows "\<exists>e'. map_of (rq_entries (queue_run ops q)) name = Some e' \<and> continues e e'"
  using assms
proof (induction ops arbitrary: q e)
  case Nil
  then show ?case using continues_refl by auto
next
  case (Cons x ops)
  obtain fs op where x: "x = (fs, op)" by fastforce
  obtain e1 where e1: "map_of (rq_entries (snd (queue_step fs op q))) name = Some e1" "continues e e1"
    using queue_step_continues [OF Cons.prems(1,2), of op fs] Cons.prems(3) x by auto
  have "queue_ok (snd (queue_step fs op q))"
    using queue_step_spec [OF Cons.prems(1), of fs op] by (metis prod.collapse)
  from Cons.IH [OF this e1(1)] obtain e' where "map_of (rq_entries (queue_run (x # ops) q)) name = Some e'"
      "continues e1 e'" using Cons.prems(3) x by auto
  then show ?case using continues_trans [OF e1(2)] by blast
qed

theorem queue_identity_kept_witness:
  "\<exists>e'. map_of (rq_entries (queue_run [(\<lambda>_. None, QPut example_other)] example_queue)) ''runner-0123abcd'' = Some e'
     \<and> re_RunnerID e' = 7 \<and> re_RequestedAt e' = 6"
  using queue_identity_kept [OF example_queue_ok, of "''runner-0123abcd''" example_entry "[(\<lambda>_. None, QPut example_other)]"]
  by (auto simp: continues_def example_entry_def time_isZero_def zeroTime_def)
     (auto simp: example_queue_def example_entry_def)

section \<open>Listing and reloading\<close>

lemma map_eqI:
  assumes "\<And>k v. m k = Some v \<longleftrightarrow> m' k = Some v"
  shows "m = m'"
proof (rule ext)
  show "m k = m' k" for k using assms [of k "the (m k)"] assms [of k "the (m' k)"]
    by (cases "m k"; cases "m' k") simp_all
qed

lemma queue_sorted_distinct:
  assumes "entries_named m"
  shows "distinct (map re_RunnerName (queue_sorted m))"
proof -
  have "map re_RunnerName (map snd m) = map fst m"
    using assms by (induction m) (auto simp: entries_named_def gomap_ok_def)
  then have "distinct (map re_RunnerName (map snd m))"
    using assms by (simp only: gomap_ok_def entries_named_def)
  then show ?thesis by (simp only: queue_sorted_def distinct_map distinct_sort set_sort)
qed

text \<open>
  \<^verbatim>\<open>all\<close> lists every pending entry once, in strictly ascending order of the
  runner name, whatever the iteration order of the map was.
\<close>

theorem queue_all_sorted:
  assumes "queue_ok q"
  shows "sorted_wrt (<) (map re_RunnerName (queue_all q))
     \<and> set (queue_all q) = ran (map_of (rq_entries q)) \<and> length (queue_all q) = queue_count q"
proof -
  have m: "gomap_ok (rq_entries q)" "entries_named (rq_entries q)"
    using assms by (auto simp: queue_ok_def entries_named_def)
  have "distinct (map re_RunnerName (queue_all q))"
    using queue_sorted_distinct [OF m(2)] by (simp add: queue_all_def)
  moreover have "sorted (map re_RunnerName (queue_all q))"
    by (simp add: queue_all_def queue_sorted_def)
  ultimately have "sorted_wrt (<) (map re_RunnerName (queue_all q))"
    by (simp add: strict_sorted_iff)
  moreover have "set (queue_all q) = ran (map_of (rq_entries q))"
    using m(1) by (force simp: queue_all_def queue_sorted_def ran_def gomap_in_set [symmetric])
  ultimately show ?thesis by (simp add: queue_all_def queue_sorted_def queue_count_def)
qed

theorem queue_all_sorted_witness: "length (queue_all example_queue) = 1"
  using queue_all_sorted [OF example_queue_ok] by (simp add: queue_count_def example_queue_def)

lemma load_entries_ok:
  assumes "\<And>e. e \<in> set es \<Longrightarrow> validateRetirementEntry e = None" and "distinct (map re_RunnerName es)"
    and "\<And>e. e \<in> set es \<Longrightarrow> map_of m (re_RunnerName e) = None" and "entries_named m"
  shows "\<exists>m'. load_entries m es = Inr m' \<and> entries_named m'
     \<and> map_of m' = map_of m ++ map_of (map (\<lambda>e. (re_RunnerName e, e)) es)"
  using assms
proof (induction es arbitrary: m)
  case (Cons e es)
  let ?m = "AList.update (re_RunnerName e) e m"
  have v: "validateRetirementEntry e = None" "map_of m (re_RunnerName e) = None" using Cons.prems(1,3) by auto
  have "map_of ?m (re_RunnerName x) = None" if "x \<in> set es" for x
    using Cons.prems(2,3) that by (auto simp: image_iff)
  then have "\<exists>m'. load_entries ?m es = Inr m' \<and> entries_named m'
      \<and> map_of m' = map_of ?m ++ map_of (map (\<lambda>e. (re_RunnerName e, e)) es)"
    using Cons.prems(1,2) entries_named_update [OF Cons.prems(4) v(1)] by (intro Cons.IH) auto
  then obtain m' where m': "load_entries ?m es = Inr m'" "entries_named m'"
      "map_of m' = map_of ?m ++ map_of (map (\<lambda>e. (re_RunnerName e, e)) es)" by blast
  have fresh: "map_of (map (\<lambda>e. (re_RunnerName e, e)) es) (re_RunnerName e) = None"
    using Cons.prems(2) by (auto simp: map_of_eq_None_iff image_iff)
  have "map_of m' = map_of m ++ map_of (map (\<lambda>e. (re_RunnerName e, e)) (e # es))"
  proof (rule ext)
    show "map_of m' k = (map_of m ++ map_of (map (\<lambda>e. (re_RunnerName e, e)) (e # es))) k" for k
      using fresh by (cases "k = re_RunnerName e") (simp_all add: m'(3) map_add_def split: option.splits)
  qed
  moreover have "load_entries m (e # es) = Inr m'" using m'(1) v by simp
  ultimately show ?case using m'(2) by blast
qed (auto simp: map_add_def)

lemma load_sorted:
  assumes "entries_named m"
  shows "\<exists>m'. load_entries [] (queue_sorted m) = Inr m' \<and> entries_named m' \<and> map_of m' = map_of m"
proof -
  let ?es = "queue_sorted m"
  have m: "gomap_ok m" using assms by (simp add: entries_named_def)
  have set: "set ?es = snd ` set m" and d: "distinct (map re_RunnerName ?es)"
    using queue_sorted_distinct [OF assms] by (simp_all add: queue_sorted_def)
  have valid: "validateRetirementEntry e = None" if "e \<in> set ?es" for e
    using that assms set by (auto simp: entries_named_def)
  obtain m' where m': "load_entries [] ?es = Inr m'" "entries_named m'"
      "map_of m' = map_of (map (\<lambda>e. (re_RunnerName e, e)) ?es)"
    using load_entries_ok [of ?es "[]"] valid d by (auto simp: entries_named_def)
  have ok: "gomap_ok (map (\<lambda>e. (re_RunnerName e, e)) ?es)" using d by (simp add: gomap_ok_def comp_def)
  have "map_of (map (\<lambda>e. (re_RunnerName e, e)) ?es) k = Some e \<longleftrightarrow> map_of m k = Some e" for k e
  proof -
    have "(k, e) \<in> set (map (\<lambda>e. (re_RunnerName e, e)) ?es) \<longleftrightarrow> e \<in> set ?es \<and> k = re_RunnerName e" by auto
    also have "\<dots> \<longleftrightarrow> (k, e) \<in> set m" unfolding set using assms by (force simp: entries_named_def)
    finally show ?thesis using gomap_in_set [OF m] gomap_in_set [OF ok] by simp
  qed
  then have "map_of (map (\<lambda>e. (re_RunnerName e, e)) ?es) = map_of m"
    by (rule map_eqI)
  with m' show ?thesis by auto
qed

text \<open>The probe of a file that this program wrote: private, regular, within the size limit, decodable.\<close>

definition written_probe :: "retirementLedger fileProbe \<Rightarrow> retirementLedger \<Rightarrow> bool" where
  "written_probe p l \<longleftrightarrow> fp_abs p = None \<and> fp_root p = None \<and> fp_lstat p = None \<and> \<not> fp_symlink p
   \<and> fp_regular p \<and> \<not> fp_groupOrOthers p \<and> 1 \<le> fp_size p \<and> fp_size p \<le> maximumRetirementQueueSize
   \<and> fp_open p = None \<and> fp_sameFile p \<and> fp_decode p = Inr l \<and> \<not> fp_trailing p"

lemma load_written: "written_probe p l \<Longrightarrow> loadRetirementLedger windows p = Inr l"
  by (simp add: written_probe_def loadRetirementLedger_def)

text \<open>
  Restart.  Whatever calls were made and whichever of their writes failed, the file
  is a journal the next start accepts; and when the last call succeeded, the start
  reads back exactly the pending retirements of the memory before the restart.
\<close>

theorem queue_restart:
  assumes "queue_ok q" and "path \<noteq> []"
  shows "\<exists>l. rq_disk (queue_run ops q) = FileContent l
     \<and> (\<forall>p windows fs. written_probe p l \<longrightarrow>
          (\<exists>q'. newRetirementQueue path windows p (FileContent l) fs = Inr q' \<and> queue_ok q'
             \<and> (rq_disk (queue_run ops q) = FileContent (queue_ledger (rq_entries (queue_run ops q)))
                \<longrightarrow> map_of (rq_entries q') = map_of (rq_entries (queue_run ops q)))))"
proof -
  let ?q = "queue_run ops q"
  have ok: "queue_ok ?q" using queue_run_ok [OF assms(1)] .
  then obtain m where m: "entries_named m" "rq_disk ?q = FileContent (queue_ledger m)"
    by (auto simp: queue_ok_def)
  obtain m' where m': "load_entries [] (queue_sorted m) = Inr m'" "entries_named m'" "map_of m' = map_of m"
    using load_sorted [OF m(1)] by blast
  let ?r = "\<lparr>rq_file = path, rq_entries = m', rq_disk = FileContent (queue_ledger m)\<rparr>"
  have "newRetirementQueue path windows p (FileContent (queue_ledger m)) fs = Inr ?r"
    if "written_probe p (queue_ledger m)" for p windows fs
    using assms(2) load_written [OF that, of windows] m'(1)
    by (simp add: newRetirementQueue_def queue_ledger_def Let_def)
  moreover have "queue_ok ?r" using m(1) m'(2) by (auto simp: queue_ok_def)
  moreover have "map_of m' = map_of (rq_entries ?q)"
    if "rq_disk ?q = FileContent (queue_ledger (rq_entries ?q))"
  proof -
    have "queue_sorted m = queue_sorted (rq_entries ?q)" using that m(2) by (simp add: queue_ledger_def)
    then show ?thesis using load_sorted [of "rq_entries ?q"] ok m' by (auto simp: queue_ok_def)
  qed
  ultimately show ?thesis using m(2) by fastforce
qed

definition example_probe :: "retirementLedger fileProbe" where
  "example_probe = \<lparr>fp_abs = None, fp_root = None, fp_lstat = None, fp_symlink = False, fp_regular = True,
     fp_groupOrOthers = False, fp_size = 300, fp_open = None, fp_sameFile = True,
     fp_decode = Inr (queue_ledger (rq_entries example_queue)), fp_trailing = False\<rparr>"

theorem queue_restart_witness:
  "\<exists>q'. newRetirementQueue ''retirements.json'' False example_probe (rq_disk example_queue) (\<lambda>_. None) = Inr q'
     \<and> map_of (rq_entries q') = map_of (rq_entries example_queue)"
proof -
  have "written_probe example_probe (queue_ledger (rq_entries example_queue))"
    by (simp add: written_probe_def example_probe_def maximumRetirementQueueSize_def)
  moreover have d: "rq_disk example_queue = FileContent (queue_ledger (rq_entries example_queue))"
    by (simp add: example_queue_def)
  ultimately show ?thesis
    using queue_restart [OF example_queue_ok, of "''retirements.json''" "[]"] by (simp add: d) blast
qed

end
