(* ===== verification/Worker_State.thy ===== *)
theory Worker_State
  imports Provider_Seam
begin

text \<open>
  The controller's view of its workers (\<^verbatim>\<open>controller/state.go\<close>): the workers it counts,
  and the departed ones it still expects a message about.  Each method holds the
  mutex throughout, so it is one atomic step.
\<close>

section \<open>Records\<close>

record workerRecord =
  wr_Worker :: worker
  wr_Busy :: bool
  wr_Observed :: bool
  wr_MissingSince :: gotime

record departure =
  dp_Worker :: worker
  dp_Busy :: bool
  dp_At :: gotime
  dp_Stopped :: bool
  dp_Awaiting :: bool

record workerState =
  ws_workers :: "workerRecord gomap"
  ws_departed :: "departure gomap"

definition newWorkerState :: workerState where
  "newWorkerState = \<lparr>ws_workers = [], ws_departed = []\<rparr>"

section \<open>Departed workers\<close>

definition state_markDeparted :: "workerRecord \<Rightarrow> gotime \<Rightarrow> workerState \<Rightarrow> workerState" where
  "state_markDeparted record at s =
     (let name = w_RunnerName (wr_Worker record);
          fresh = \<lparr>dp_Worker = wr_Worker record, dp_Busy = wr_Busy record, dp_At = at,
                   dp_Stopped = False, dp_Awaiting = False\<rparr>
      in case map_of (ws_departed s) name of
           Some known \<Rightarrow> if dp_Stopped known then s
                         else s\<lparr>ws_departed := AList.update name fresh (ws_departed s)\<rparr>
         | None \<Rightarrow> s\<lparr>ws_departed := AList.update name fresh (ws_departed s)\<rparr>)"

definition state_markStopped :: "workerRecord \<Rightarrow> gotime \<Rightarrow> bool \<Rightarrow> workerState \<Rightarrow> workerState" where
  "state_markStopped record at awaiting s =
     (let name = w_RunnerName (wr_Worker record);
          fresh = \<lparr>dp_Worker = wr_Worker record, dp_Busy = wr_Busy record, dp_At = at,
                   dp_Stopped = True, dp_Awaiting = awaiting\<rparr>
      in case map_of (ws_departed s) name of
           Some known \<Rightarrow> if dp_Stopped known then s
                         else s\<lparr>ws_departed := AList.update name fresh (ws_departed s)\<rparr>
         | None \<Rightarrow> s\<lparr>ws_departed := AList.update name fresh (ws_departed s)\<rparr>)"

definition state_markDepartedBusy :: "string \<Rightarrow> workerState \<Rightarrow> departure option \<times> workerState" where
  "state_markDepartedBusy name s =
     (case map_of (ws_departed s) name of
        None \<Rightarrow> (None, s)
      | Some record \<Rightarrow>
          (let record' = record\<lparr>dp_Busy := True\<rparr>
           in (Some record', s\<lparr>ws_departed := AList.update name record' (ws_departed s)\<rparr>)))"

text \<open>
  \<^verbatim>\<open>takeOverdue\<close> assigns to the map while it ranges over it; only keys that are present
  are assigned, so each entry is visited once.
\<close>

definition departure_overdue :: "gotime \<Rightarrow> departure \<Rightarrow> bool" where
  "departure_overdue before d \<longleftrightarrow> dp_Awaiting d \<and> dp_At d < before"

definition state_takeOverdue :: "gotime \<Rightarrow> workerState \<Rightarrow> departure list \<times> workerState" where
  "state_takeOverdue before s =
     (map (\<lambda>(name, d). d\<lparr>dp_Awaiting := False\<rparr>)
        (filter (\<lambda>(name, d). departure_overdue before d) (ws_departed s)),
      s\<lparr>ws_departed := map (\<lambda>(name, d). (name, if departure_overdue before d then d\<lparr>dp_Awaiting := False\<rparr> else d))
         (ws_departed s)\<rparr>)"

definition state_takeDeparted :: "string \<Rightarrow> workerState \<Rightarrow> departure option \<times> workerState" where
  "state_takeDeparted name s =
     (map_of (ws_departed s) name, s\<lparr>ws_departed := AList.delete name (ws_departed s)\<rparr>)"

definition state_pruneDeparted :: "gotime \<Rightarrow> workerState \<Rightarrow> workerState" where
  "state_pruneDeparted before s =
     s\<lparr>ws_departed := filter (\<lambda>(name, d). \<not> dp_At d < before) (ws_departed s)\<rparr>"

section \<open>Present workers\<close>

definition state_add :: "worker \<Rightarrow> bool \<Rightarrow> workerState \<Rightarrow> workerState" where
  "state_add w busy s =
     s\<lparr>ws_workers := AList.update (w_RunnerName w)
        \<lparr>wr_Worker = w, wr_Busy = busy, wr_Observed = True, wr_MissingSince = zeroTime\<rparr> (ws_workers s)\<rparr>"

definition state_adopt :: "worker \<Rightarrow> workerState \<Rightarrow> workerState" where
  "state_adopt w s =
     s\<lparr>ws_workers := AList.update (w_RunnerName w)
        \<lparr>wr_Worker = w, wr_Busy = False, wr_Observed = False, wr_MissingSince = zeroTime\<rparr> (ws_workers s)\<rparr>"

definition state_count :: "workerState \<Rightarrow> nat" where
  "state_count s = length (ws_workers s)"

definition state_countScaleSet :: "int \<Rightarrow> workerState \<Rightarrow> nat \<times> nat" where
  "state_countScaleSet i s =
     (length (filter (\<lambda>(_, r). w_RunnerScaleSetID (wr_Worker r) = i) (ws_workers s)), length (ws_workers s))"

fun summary_loop :: "workerRecord list \<Rightarrow> nat \<times> nat \<times> nat \<Rightarrow> nat \<times> nat \<times> nat" where
  "summary_loop [] acc = acc"
| "summary_loop (r # rs) (busy, idle, unknown) =
     summary_loop rs
       (if \<not> wr_Observed r then (busy, idle, Suc unknown)
        else if wr_Busy r then (Suc busy, idle, unknown)
        else (busy, Suc idle, unknown))"

definition state_summary :: "workerState \<Rightarrow> nat \<times> nat \<times> nat \<times> nat" where
  "state_summary s = (length (ws_workers s), summary_loop (map snd (ws_workers s)) (0, 0, 0))"

fun idle_loop :: "(worker \<Rightarrow> bool) \<Rightarrow> (string \<Rightarrow> bool) \<Rightarrow> workerRecord list \<Rightarrow> nat \<times> nat \<times> nat \<Rightarrow> nat \<times> nat \<times> nat" where
  "idle_loop incl fast [] acc = acc"
| "idle_loop incl fast (r # rs) (busy, fastIdle, slowIdle) =
     idle_loop incl fast rs
       (if \<not> incl (wr_Worker r) then (busy, fastIdle, slowIdle)
        else if wr_Busy r \<or> \<not> wr_Observed r then (Suc busy, fastIdle, slowIdle)
        else if fast (w_ID (wr_Worker r)) then (busy, Suc fastIdle, slowIdle)
        else (busy, fastIdle, Suc slowIdle))"

definition state_idleByStart :: "(worker \<Rightarrow> bool) \<Rightarrow> (string \<Rightarrow> bool) \<Rightarrow> workerState \<Rightarrow> nat \<times> nat \<times> nat" where
  "state_idleByStart incl fast s = idle_loop incl fast (map snd (ws_workers s)) (0, 0, 0)"

definition state_all :: "workerState \<Rightarrow> workerRecord gomap" where
  "state_all s = ws_workers s"

definition state_markBusy :: "string \<Rightarrow> workerState \<Rightarrow> bool \<times> workerState" where
  "state_markBusy name s =
     (case map_of (ws_workers s) name of
        None \<Rightarrow> (False, s)
      | Some r \<Rightarrow>
          (True, s\<lparr>ws_workers := AList.update name
             (r\<lparr>wr_Busy := True, wr_Observed := True, wr_MissingSince := zeroTime\<rparr>) (ws_workers s)\<rparr>))"

definition state_markMissing :: "string \<Rightarrow> gotime \<Rightarrow> workerState \<Rightarrow> bool \<times> workerState" where
  "state_markMissing name at s =
     (case map_of (ws_workers s) name of
        None \<Rightarrow> (False, s)
      | Some r \<Rightarrow>
          (True, if time_isZero (wr_MissingSince r)
                 then s\<lparr>ws_workers := AList.update name (r\<lparr>wr_MissingSince := at\<rparr>) (ws_workers s)\<rparr> else s))"

definition state_markPresent :: "string \<Rightarrow> workerState \<Rightarrow> workerState" where
  "state_markPresent name s =
     (case map_of (ws_workers s) name of
        None \<Rightarrow> s
      | Some r \<Rightarrow>
          if time_isZero (wr_MissingSince r) then s
          else s\<lparr>ws_workers := AList.update name (r\<lparr>wr_MissingSince := zeroTime\<rparr>) (ws_workers s)\<rparr>)"

definition state_get :: "string \<Rightarrow> workerState \<Rightarrow> workerRecord option" where
  "state_get name s = map_of (ws_workers s) name"

definition state_remove :: "string \<Rightarrow> workerState \<Rightarrow> workerRecord option \<times> workerState" where
  "state_remove name s =
     (map_of (ws_workers s) name, s\<lparr>ws_workers := AList.delete name (ws_workers s)\<rparr>)"

section \<open>Well-formed states\<close>

text \<open>
  Both maps are keyed by the runner name of the worker they hold; only a stopped
  worker is awaited.
\<close>

definition state_ok :: "workerState \<Rightarrow> bool" where
  "state_ok s \<longleftrightarrow> gomap_ok (ws_workers s) \<and> gomap_ok (ws_departed s)
   \<and> (\<forall>k r. map_of (ws_workers s) k = Some r \<longrightarrow> w_RunnerName (wr_Worker r) = k)
   \<and> (\<forall>k d. map_of (ws_departed s) k = Some d
        \<longrightarrow> w_RunnerName (dp_Worker d) = k \<and> (dp_Awaiting d \<longrightarrow> dp_Stopped d))"

named_theorems state_defs \<open>the operations of the worker state\<close>

lemmas [state_defs] =
  state_markDeparted_def state_markStopped_def state_markDepartedBusy_def state_takeDeparted_def
  state_add_def state_adopt_def state_markBusy_def
  state_markMissing_def state_markPresent_def state_remove_def

lemma map_of_filter_some:
  "gomap_ok m \<Longrightarrow> map_of (filter P m) k = Some v \<longleftrightarrow> map_of m k = Some v \<and> P (k, v)"
  by (subst (1 2) gomap_in_set [symmetric]) auto

lemma map_of_map_value: "map_of (map (\<lambda>(k, v). (k, f k v)) m) k = map_option (f k) (map_of m k)"
  by (induction m) auto

datatype state_op =
    StMarkDeparted workerRecord gotime
  | StMarkStopped workerRecord gotime bool
  | StMarkDepartedBusy string
  | StTakeOverdue gotime
  | StTakeDeparted string
  | StPruneDeparted gotime
  | StAdd worker bool
  | StAdopt worker
  | StMarkBusy string
  | StMarkMissing string gotime
  | StMarkPresent string
  | StRemove string

fun state_step :: "state_op \<Rightarrow> workerState \<Rightarrow> workerState" where
  "state_step (StMarkDeparted r t) s = state_markDeparted r t s"
| "state_step (StMarkStopped r t a) s = state_markStopped r t a s"
| "state_step (StMarkDepartedBusy n) s = snd (state_markDepartedBusy n s)"
| "state_step (StTakeOverdue t) s = snd (state_takeOverdue t s)"
| "state_step (StTakeDeparted n) s = snd (state_takeDeparted n s)"
| "state_step (StPruneDeparted t) s = state_pruneDeparted t s"
| "state_step (StAdd w b) s = state_add w b s"
| "state_step (StAdopt w) s = state_adopt w s"
| "state_step (StMarkBusy n) s = snd (state_markBusy n s)"
| "state_step (StMarkMissing n t) s = snd (state_markMissing n t s)"
| "state_step (StMarkPresent n) s = state_markPresent n s"
| "state_step (StRemove n) s = snd (state_remove n s)"

lemma takeOverdue_departed:
  "map_of (ws_departed (snd (state_takeOverdue before s))) name =
     map_option (\<lambda>d. if departure_overdue before d then d\<lparr>dp_Awaiting := False\<rparr> else d) (map_of (ws_departed s) name)"
  by (simp add: state_takeOverdue_def map_of_map_value)

lemma state_step_ok:
  assumes "state_ok s"
  shows "state_ok (state_step op s)"
proof (cases op)
  case (StTakeOverdue t)
  have "map fst (ws_departed (snd (state_takeOverdue t s))) = map fst (ws_departed s)"
    by (simp add: state_takeOverdue_def comp_def case_prod_beta)
  then show ?thesis
    using assms StTakeOverdue
    by (auto simp: state_ok_def gomap_ok_def takeOverdue_departed split: if_splits)
       (auto simp: state_takeOverdue_def)
next
  case (StPruneDeparted t)
  then show ?thesis using assms by (auto simp: state_ok_def state_pruneDeparted_def map_of_filter_some)
qed (use assms in \<open>auto simp: state_ok_def state_defs Let_def split: option.splits if_splits\<close>)

lemma state_newWorkerState_ok: "state_ok newWorkerState"
  by (simp add: state_ok_def newWorkerState_def)

section \<open>Counting\<close>

lemma summary_loop_sum:
  "summary_loop rs (b, i, u) =
     (b + length (filter (\<lambda>r. wr_Observed r \<and> wr_Busy r) rs),
      i + length (filter (\<lambda>r. wr_Observed r \<and> \<not> wr_Busy r) rs),
      u + length (filter (\<lambda>r. \<not> wr_Observed r) rs))"
  by (induction rs arbitrary: b i u) auto

lemma idle_loop_sum:
  "idle_loop incl fast rs (b, f, w) =
     (b + length (filter (\<lambda>r. incl (wr_Worker r) \<and> (wr_Busy r \<or> \<not> wr_Observed r)) rs),
      f + length (filter (\<lambda>r. incl (wr_Worker r) \<and> \<not> wr_Busy r \<and> wr_Observed r \<and> fast (w_ID (wr_Worker r))) rs),
      w + length (filter (\<lambda>r. incl (wr_Worker r) \<and> \<not> wr_Busy r \<and> wr_Observed r \<and> \<not> fast (w_ID (wr_Worker r))) rs))"
  by (induction rs arbitrary: b f w) auto

lemma summary_parts:
  "state_summary s = (a, b, i, u) \<Longrightarrow> a = state_count s \<and> a = b + i + u"
proof -
  have "length rs = length (filter (\<lambda>r. wr_Observed r \<and> wr_Busy r) rs)
      + length (filter (\<lambda>r. wr_Observed r \<and> \<not> wr_Busy r) rs) + length (filter (\<lambda>r. \<not> wr_Observed r) rs)" for rs
    by (induction rs) auto
  from this [of "map snd (ws_workers s)"] show "state_summary s = (a, b, i, u) \<Longrightarrow> ?thesis"
    by (simp add: state_summary_def summary_loop_sum state_count_def)
qed

lemma idleByStart_parts:
  assumes "state_idleByStart incl fast s = (b, f, w)"
  shows "b + f + w = length (filter (\<lambda>x. incl (wr_Worker (snd x))) (ws_workers s))"
proof -
  have "length (filter (\<lambda>r. incl (wr_Worker r)) rs)
      = length (filter (\<lambda>r. incl (wr_Worker r) \<and> (wr_Busy r \<or> \<not> wr_Observed r)) rs)
      + length (filter (\<lambda>r. incl (wr_Worker r) \<and> \<not> wr_Busy r \<and> wr_Observed r \<and> fast (w_ID (wr_Worker r))) rs)
      + length (filter (\<lambda>r. incl (wr_Worker r) \<and> \<not> wr_Busy r \<and> wr_Observed r \<and> \<not> fast (w_ID (wr_Worker r))) rs)" for rs
    by (induction rs) auto
  from this [of "map snd (ws_workers s)"] assms show ?thesis
    by (simp add: state_idleByStart_def idle_loop_sum filter_map comp_def case_prod_beta)
qed

text \<open>
  The counts the controller reports and scales by partition its workers: those that
  are busy, idle or never observed add up to the count, and so do the busy, fast and
  slow workers among those the filter accepts.
\<close>

theorem counts_partition:
  "(case state_summary s of (actual, busy, idle, unknown) \<Rightarrow>
      actual = state_count s \<and> actual = busy + idle + unknown)
   \<and> (case state_idleByStart (\<lambda>_. True) fast s of (busy, fastIdle, slowIdle) \<Rightarrow>
      busy + fastIdle + slowIdle = state_count s)"
proof -
  obtain a b i u where s: "state_summary s = (a, b, i, u)" by (cases "state_summary s")
  obtain b' f w where i: "state_idleByStart (\<lambda>_. True) fast s = (b', f, w)"
    by (cases "state_idleByStart (\<lambda>_. True) fast s")
  show ?thesis
    using summary_parts [OF s] idleByStart_parts [OF i] s i by (simp add: state_count_def)
qed

section \<open>A stopped worker is reported overdue once\<close>

fun state_run :: "state_op list \<Rightarrow> workerState \<Rightarrow> workerState" where
  "state_run [] s = s"
| "state_run (op # ops) s = state_run ops (state_step op s)"

text \<open>The departures that the \<^verbatim>\<open>takeOverdue\<close> calls of a sequence return.\<close>

fun state_reported :: "state_op list \<Rightarrow> workerState \<Rightarrow> departure list" where
  "state_reported [] s = []"
| "state_reported (op # ops) s =
     (case op of StTakeOverdue t \<Rightarrow> fst (state_takeOverdue t s) | _ \<Rightarrow> []) @ state_reported ops (state_step op s)"

definition forgets :: "string \<Rightarrow> state_op \<Rightarrow> bool" where
  "forgets name op \<longleftrightarrow> op = StTakeDeparted name \<or> (\<exists>t. op = StPruneDeparted t)"

definition settled_departure :: "string \<Rightarrow> workerState \<Rightarrow> bool" where
  "settled_departure name s \<longleftrightarrow>
     (\<exists>d. map_of (ws_departed s) name = Some d \<and> dp_Stopped d \<and> \<not> dp_Awaiting d)"

lemma takeOverdue_iff:
  assumes "state_ok s"
  shows "d \<in> set (fst (state_takeOverdue t s)) \<longleftrightarrow>
     (\<exists>name d0. map_of (ws_departed s) name = Some d0 \<and> departure_overdue t d0 \<and> d = d0\<lparr>dp_Awaiting := False\<rparr>)"
  using assms gomap_in_set [of "ws_departed s"]
  by (force simp: state_takeOverdue_def state_ok_def)

lemma settled_step:
  assumes "state_ok s" and "settled_departure name s" and "\<not> forgets name op"
  shows "settled_departure name (state_step op s)"
proof (cases op)
  case (StTakeOverdue t)
  then show ?thesis
    using assms(2) by (auto simp: settled_departure_def takeOverdue_departed departure_overdue_def)
next
  case (StTakeDeparted n)
  then show ?thesis using assms(2,3) by (auto simp: forgets_def settled_departure_def state_takeDeparted_def)
next
  case (StPruneDeparted t)
  then show ?thesis using assms(3) by (auto simp: forgets_def)
qed (use assms(2) in \<open>auto simp: settled_departure_def state_defs Let_def split: option.splits if_splits\<close>)

lemma settled_not_reported:
  assumes "state_ok s" and "settled_departure name s" and "d \<in> set (fst (state_takeOverdue t s))"
  shows "w_RunnerName (dp_Worker d) \<noteq> name"
proof -
  obtain k d0 where k: "map_of (ws_departed s) k = Some d0" "departure_overdue t d0" "d = d0\<lparr>dp_Awaiting := False\<rparr>"
    using takeOverdue_iff [OF assms(1)] assms(3) by blast
  then have "w_RunnerName (dp_Worker d) = k" using assms(1) by (auto simp: state_ok_def)
  then show ?thesis using k assms(2) by (auto simp: settled_departure_def departure_overdue_def)
qed

lemma settled_run:
  assumes "state_ok s" and "settled_departure name s" and "\<And>op. op \<in> set ops \<Longrightarrow> \<not> forgets name op"
  shows "settled_departure name (state_run ops s)
     \<and> (\<forall>d \<in> set (state_reported ops s). w_RunnerName (dp_Worker d) \<noteq> name)"
  using assms
proof (induction ops arbitrary: s)
  case (Cons op ops)
  have "settled_departure name (state_step op s)" using settled_step Cons.prems by simp
  then have "settled_departure name (state_run ops (state_step op s))
     \<and> (\<forall>d \<in> set (state_reported ops (state_step op s)). w_RunnerName (dp_Worker d) \<noteq> name)"
    using Cons.IH [OF state_step_ok [OF Cons.prems(1)]] Cons.prems(3) by simp
  moreover have "w_RunnerName (dp_Worker d) \<noteq> name" if "d \<in> set (fst (state_takeOverdue t s))" for d t
    using settled_not_reported [OF Cons.prems(1,2) that] .
  ultimately show ?case by (auto split: state_op.splits)
qed simp

text \<open>
  A stopped worker whose completion never came is reported once: after the call that
  reported it no later call does, however often it departs or is marked again, until
  it is taken or pruned; and a late completion still finds it.
\<close>

theorem overdue_reported_once:
  assumes "state_ok s" and "d \<in> set (fst (state_takeOverdue t s))"
    and "\<And>op. op \<in> set ops \<Longrightarrow> \<not> forgets (w_RunnerName (dp_Worker d)) op"
  shows "(\<forall>d' \<in> set (state_reported ops (snd (state_takeOverdue t s))). w_RunnerName (dp_Worker d') \<noteq> w_RunnerName (dp_Worker d))
     \<and> fst (state_takeDeparted (w_RunnerName (dp_Worker d)) (state_run ops (snd (state_takeOverdue t s)))) \<noteq> None"
proof -
  let ?s = "snd (state_takeOverdue t s)"
  obtain k d0 where k: "map_of (ws_departed s) k = Some d0" "departure_overdue t d0" "d = d0\<lparr>dp_Awaiting := False\<rparr>"
    using takeOverdue_iff [OF assms(1)] assms(2) by blast
  then have name: "w_RunnerName (dp_Worker d) = k" "dp_Stopped d0"
    using assms(1) by (auto simp: state_ok_def departure_overdue_def)
  have "settled_departure k ?s"
    using k name(2) by (simp add: settled_departure_def takeOverdue_departed)
  moreover have "state_ok ?s" using state_step_ok [OF assms(1), of "StTakeOverdue t"] by simp
  ultimately show ?thesis
    using settled_run [of ?s k ops] assms(3) name(1)
    by (auto simp: state_takeDeparted_def settled_departure_def)
qed

definition example_state :: workerState where
  "example_state = \<lparr>ws_workers = [], ws_departed =
     [(''r'', \<lparr>dp_Worker = zeroWorker\<lparr>w_RunnerName := ''r''\<rparr>, dp_Busy = False, dp_At = 5,
               dp_Stopped = True, dp_Awaiting = True\<rparr>)]\<rparr>"

lemma example_state_ok: "state_ok example_state"
  by (simp add: state_ok_def example_state_def gomap_ok_def zeroWorker_def)

theorem overdue_reported_once_witness:
  "fst (state_takeDeparted ''r'' (state_run [StTakeOverdue 20] (snd (state_takeOverdue 10 example_state)))) \<noteq> None"
  using overdue_reported_once [OF example_state_ok, of
      "\<lparr>dp_Worker = zeroWorker\<lparr>w_RunnerName := ''r''\<rparr>, dp_Busy = False, dp_At = 5, dp_Stopped = True, dp_Awaiting = False\<rparr>"
      10 "[StTakeOverdue 20]"]
  by (simp add: forgets_def example_state_def state_takeOverdue_def departure_overdue_def zeroWorker_def)

end
