(* ===== verification/Fleet_Status.thy ===== *)
theory Fleet_Status
  imports Complex_Main Usage_Budget
begin

text \<open>
  The fleet status file and the operator alerts (\<^verbatim>\<open>controller/status.go\<close>,
  \<^verbatim>\<open>alert.go\<close>, \<^verbatim>\<open>conditions.go\<close>): the status record, how health is derived from it,
  every call of the reporter, the write and the validated read of the file, the alert
  queue and the watch over the compute's conditions.

  A call of the reporter reads the clock once: \<open>now\<close> is both the activity time and the
  update time it records.  Counters of type \<^verbatim>\<open>int\<close> are unbounded here; the 64-bit
  unsigned counters saturate as the code makes them.  The running average of the
  latencies is exact.
\<close>

section \<open>The status record\<close>

definition maxUint64 :: int where
  "maxUint64 = 18446744073709551615"

definition statusSchemaVersion :: int where
  "statusSchemaVersion = 2"

definition maximumStatusSize :: int where
  "maximumStatusSize = 1048576"

record controllerStatus =
  cs_ID :: string
  cs_Provider :: string
  cs_Version :: string
  cs_CommitSHA :: string

record scaleSetStatus =
  ss_Name :: string
  ss_AssignedJobs :: int
  ss_DesiredWorkers :: int
  ss_Workers :: int

record gitHubStatus =
  gh_ConfigURL :: string
  gh_ScaleSet :: string
  gh_AssignedJobs :: int
  gh_DesiredWorkers :: int
  gh_LastActivityAt :: gotime
  gh_LastEvent :: string
  gh_ScaleSets :: "scaleSetStatus list"

record workerStatus =
  wk_Actual :: int
  wk_Starting :: int
  wk_Busy :: int
  wk_Idle :: int
  wk_Unknown :: int
  wk_OrphanCandidates :: int
  wk_PendingRetirements :: int
  wk_OverdueRetirements :: int
  wk_Maximum :: int
  wk_Saturated :: bool

record capacityStatus =
  cp_Configured :: int
  cp_Effective :: int
  cp_Rejections :: int
  cp_Rejection :: string
  cp_RetryAt :: gotime

record launchStatus =
  la_Rejections :: int
  la_Rejection :: string
  la_RetryAt :: gotime

record latencyStats =
  ls_Samples :: int
  ls_Failures :: int
  ls_LastMS :: int
  ls_AverageMS :: rat
  ls_MaximumMS :: int

record latencyStatus =
  lt_ProviderCreate :: latencyStats
  lt_Assignment :: latencyStats

record fleetStatus =
  st_SchemaVersion :: int
  st_UpdatedAt :: gotime
  st_StartedAt :: gotime
  st_Health :: string
  st_Reason :: string
  st_Controller :: controllerStatus
  st_GitHub :: gitHubStatus
  st_Workers :: workerStatus
  st_Capacity :: capacityStatus
  st_Launch :: launchStatus
  st_Latency :: latencyStatus
  st_Budget :: budgetStatus
  st_Compute :: string

section \<open>Alerts\<close>

definition alertQueueDepth :: nat where
  "alertQueueDepth = 32"

definition alertRepeatInterval :: duration where
  "alertRepeatInterval = hour"

text \<open>
  The queue is the buffered channel.  The rendering of times and durations by Go's
  \<^verbatim>\<open>time\<close> package is kept as two functions.
\<close>

record alerter =
  al_controller :: string
  al_scaleSet :: string
  al_lastKey :: string
  al_lastSent :: gotime
  al_queue :: "string list"
  al_formatTime :: "gotime \<Rightarrow> string"
  al_formatDuration :: "duration \<Rightarrow> string"

definition alerter_enqueue :: "string \<Rightarrow> alerter \<Rightarrow> alerter" where
  "alerter_enqueue text a =
     (if length (al_queue a) < alertQueueDepth then a\<lparr>al_queue := al_queue a @ [text]\<rparr>
      else a\<lparr>al_queue := tl (al_queue a) @ [text]\<rparr>)"

definition hasPrefix :: "string \<Rightarrow> string \<Rightarrow> bool" where
  "hasPrefix s p \<longleftrightarrow> take (length p) s = p"

text \<open>\<^verbatim>\<open>Duration.Round\<close> for a positive unit: to the nearest multiple, halves away from zero.\<close>

definition duration_round :: "duration \<Rightarrow> duration \<Rightarrow> duration" where
  "duration_round d unit =
     (let q = \<bar>d\<bar> div unit; r = \<bar>d\<bar> mod unit
      in sgn d * (if r + r < unit then q * unit else (q + 1) * unit))"

definition message_detail :: "alerter \<Rightarrow> fleetStatus \<Rightarrow> string" where
  "message_detail a s =
     (let reason = st_Reason s;
          probe = (\<lambda>t. if time_isZero t then []
                        else ''; the next bounded probe is after '' @ al_formatTime a t)
      in if reason = ''usage_budget_exhausted''
           then ''. New jobs stay queued until the rolling window releases usage; raise RUNNER_USAGE_BUDGET to admit them.''
         else if reason = ''provider_capacity_exhausted''
           then ''. Provider capacity is '' @ itoa (cp_Effective (st_Capacity s)) @ '' of ''
                @ itoa (cp_Configured (st_Capacity s)) @ '' configured workers (''
                @ cp_Rejection (st_Capacity s) @ ''); lower MAX_RUNNERS or raise the provider quota''
                @ probe (cp_RetryAt (st_Capacity s)) @ ''.''
         else if reason = ''provider_launch_rejected''
           then ''. The provider rejected worker launches ('' @ la_Rejection (st_Launch s)
                @ ''); check the worker image, shape, region, and token permissions''
                @ probe (la_RetryAt (st_Launch s)) @ ''.''
         else if reason = ''github_session_restarting''
           then ''. The GitHub scale-set session ended on a transport failure; the controller reopens it with bounded backoff and existing workers keep running.''
         else if hasPrefix reason ''provider_''
           then ''. The provider is unavailable; the controller keeps retrying on every message.''
         else if reason = ''orphan_candidates''
           then ''. Provider inventory holds workers the controller does not recognize; inspect them before deleting anything.''
         else if reason = ''runner_retirements_pending''
           then ''. A worker's GitHub registration has stayed pending beyond the retirement grace; reconciliation keeps retrying it.''
         else if st_Health s = ''ready'' then ''. Recovered.''
         else [])"

definition alerter_message :: "alerter \<Rightarrow> fleetStatus \<Rightarrow> bool \<Rightarrow> string" where
  "alerter_message a s reminder =
     ''RunnerYard '' @ al_controller a @ '' ('' @ al_scaleSet a @ ''): '' @ st_Health s
     @ (if st_Reason s = [] then [] else '' '' @ st_Reason s)
     @ (if reminder then '' (still)'' else [])
     @ message_detail a s
     @ '' Workers '' @ itoa (wk_Actual (st_Workers s)) @ ''/'' @ itoa (wk_Maximum (st_Workers s))
     @ (if bs_HorizonSeconds (st_Budget s) > 0
        then '', budget horizon '' @ al_formatDuration a
               (duration_round (wrap64 (bs_HorizonSeconds (st_Budget s) * second)) hour)
        else [])
     @ ''.''"

definition status_key :: "fleetStatus \<Rightarrow> string" where
  "status_key s = st_Health s @ '':'' @ st_Reason s"

definition alerter_observe :: "gotime \<Rightarrow> fleetStatus \<Rightarrow> alerter \<Rightarrow> alerter" where
  "alerter_observe now s a =
     (if st_Health s = ''starting'' then a
      else (let key = status_key s;
                transition = key \<noteq> al_lastKey a;
                reminder = \<not> transition \<and> st_Health s = ''degraded''
                           \<and> time_sub now (al_lastSent a) \<ge> alertRepeatInterval
            in if \<not> transition \<and> \<not> reminder then a
               else if transition \<and> st_Health s = ''ready'' \<and> al_lastKey a = []
                 then a\<lparr>al_lastKey := key, al_lastSent := now\<rparr>
               else (let a' = a\<lparr>al_lastKey := key, al_lastSent := now\<rparr>
                     in alerter_enqueue (alerter_message a' s reminder) a')))"

section \<open>Compute conditions\<close>

record watchedCondition =
  wc_condition :: condition
  wc_notified :: gotime

definition conditionLinesPerAlert :: nat where
  "conditionLinesPerAlert = 10"

definition conditionLine :: "condition \<Rightarrow> string \<Rightarrow> string" where
  "conditionLine c note =
     co_Summary c @ note @ ''.'' @ (if co_Action c = [] then [] else '' '' @ co_Action c)"

definition two_digits :: "int \<Rightarrow> string" where
  "two_digits n = (if n < 10 then ''0'' else []) @ itoa n"

definition roughly :: "duration \<Rightarrow> string" where
  "roughly d =
     (if d < minute
        then (let s = duration_round (max d 0) second div second
              in if s = 60 then ''1m0s'' else itoa s @ ''s'')
      else if d < hour then itoa (duration_round d minute div minute) @ ''m''
      else (let d' = duration_round d minute
            in itoa (d' div hour) @ ''h'' @ two_digits (d' mod hour div minute) @ ''m''))"

fun message_lines :: "nat \<Rightarrow> nat \<Rightarrow> string list \<Rightarrow> string" where
  "message_lines i n [] = []"
| "message_lines i n (l # ls) =
     (if i = conditionLinesPerAlert
        then [CHR 0x0A] @ ''- and '' @ itoa (int (n - i)) @ '' more; see runneryard status.''
      else [CHR 0x0A] @ ''- '' @ l @ message_lines (Suc i) n ls)"

definition conditionMessage :: "alerter \<Rightarrow> string list \<Rightarrow> string" where
  "conditionMessage a ls =
     ''RunnerYard '' @ al_controller a @ '' ('' @ al_scaleSet a @ ''): ''
     @ (case ls of
          [l] \<Rightarrow> l
        | _ \<Rightarrow> itoa (int (length ls)) @ '' compute conditions changed:'' @ message_lines 0 (length ls) ls)"

text \<open>The loop over the sampled conditions: \<open>present\<close> are the keys seen so far.\<close>

fun observe_loop :: "gotime \<Rightarrow> condition list \<Rightarrow> string list \<Rightarrow> watchedCondition gomap \<Rightarrow> string list
    \<Rightarrow> string list \<times> watchedCondition gomap \<times> string list" where
  "observe_loop now [] present active lines = (present, active, lines)"
| "observe_loop now (c # cs) present active lines =
     (if co_Key c = [] \<or> co_Key c \<in> set present then observe_loop now cs present active lines
      else (case map_of active (co_Key c) of
          None \<Rightarrow> observe_loop now cs (co_Key c # present)
                    (AList.update (co_Key c) \<lparr>wc_condition = c, wc_notified = now\<rparr> active)
                    (lines @ [conditionLine c []])
        | Some watched \<Rightarrow>
            if time_sub now (wc_notified watched) \<ge> alertRepeatInterval
            then observe_loop now cs (co_Key c # present)
                   (AList.update (co_Key c) \<lparr>wc_condition = c, wc_notified = now\<rparr> active)
                   (lines @ [conditionLine c ('' (still, for '' @ roughly (time_sub now (co_Since c)) @ '')'')])
            else observe_loop now cs (co_Key c # present)
                   (AList.update (co_Key c) (watched\<lparr>wc_condition := c\<rparr>) active) lines))"

definition cleared_line :: "gotime \<Rightarrow> watchedCondition \<Rightarrow> string" where
  "cleared_line now w =
     ''cleared after '' @ roughly (time_sub now (co_Since (wc_condition w))) @ '': ''
     @ co_Summary (wc_condition w) @ ''.''"

definition conditions_observe :: "gotime \<Rightarrow> condition list \<Rightarrow> watchedCondition gomap \<Rightarrow> alerter option
    \<Rightarrow> watchedCondition gomap \<times> alerter option" where
  "conditions_observe now cs active0 alert =
     (case observe_loop now cs [] active0 [] of
        (present, active, lines) \<Rightarrow>
          (let gone = sort (filter (\<lambda>k. k \<notin> set present) (map fst active));
               cleared = map (\<lambda>k. cleared_line now (the (map_of active k))) gone;
               active' = filter (\<lambda>(k, _). k \<notin> set gone) active;
               lines' = lines @ cleared
           in (active',
               if lines' \<noteq> []
               then map_option (\<lambda>a. alerter_enqueue (conditionMessage a lines') a) alert else alert)))"

section \<open>The status file\<close>

definition writeStatusFile :: "string \<Rightarrow> fs \<Rightarrow> fleetStatus \<Rightarrow> fleetStatus fileState
    \<Rightarrow> goerr option \<times> fleetStatus fileState" where
  "writeStatusFile path fs status disk =
     (if path = [] then (Some (ErrText ''fleet status file is required''), disk)
      else (case run_steps fs [(FsMkdirAll, ''create fleet status directory'')] of
          Some e \<Rightarrow> (Some e, disk)
        | None \<Rightarrow>
            if fs FsLstat = None \<and> fs FsRegular \<noteq> None
              then (Some (ErrText ''refusing to replace a non-regular or symlinked fleet status file''), disk)
            else if fs FsLstat \<noteq> None \<and> \<not> errors_Is (fs FsLstat) OsErrNotExist
              then (Some (ErrWrap ''inspect fleet status file'' (the (fs FsLstat))), disk)
            else replace_file fs
              [(FsEncode, ''encode fleet status''),
               (FsOpenTemp, ''create temporary fleet status''),
               (FsChmodTemp, ''secure temporary fleet status''),
               (FsWriteTemp, ''write fleet status''),
               (FsSyncTemp, ''sync fleet status''),
               (FsCloseTemp, ''close fleet status''),
               (FsRename, ''commit fleet status'')]
              [(FsChmod, ''secure fleet status''),
               (FsOpenDir, ''open fleet status directory''),
               (FsSyncDir, ''sync fleet status directory'')]
              status disk))"

definition latency_valid :: "latencyStats \<Rightarrow> bool" where
  "latency_valid l \<longleftrightarrow>
     \<not> (ls_Failures l > ls_Samples l \<or> ls_LastMS l < 0 \<or> ls_MaximumMS l < 0 \<or> ls_AverageMS l < 0)"

definition status_validate :: "fleetStatus \<Rightarrow> goerr option" where
  "status_validate s =
     (let w = st_Workers s; c = st_Capacity s; la = st_Launch s; b = st_Budget s;
          sets = gh_ScaleSets (st_GitHub s);
          workerValues = [wk_Actual w, wk_Starting w, wk_Busy w, wk_Idle w, wk_Unknown w,
              wk_OrphanCandidates w, wk_PendingRetirements w, wk_Maximum w]
            @ concat (map (\<lambda>x. [ss_AssignedJobs x, ss_DesiredWorkers x, ss_Workers x]) sets)
      in if st_SchemaVersion s \<noteq> statusSchemaVersion \<or> time_isZero (st_UpdatedAt s) \<or> time_isZero (st_StartedAt s)
           then Some (ErrText ''fleet status has an unsupported schema or missing timestamps'')
         else if st_Health s \<noteq> ''starting'' \<and> st_Health s \<noteq> ''ready'' \<and> st_Health s \<noteq> ''degraded''
           then Some (ErrText ''fleet status contains an invalid health value'')
         else if list_ex (\<lambda>x. ss_Name x = []) sets
           then Some (ErrText ''fleet status lists a scale set without a name'')
         else if list_ex (\<lambda>v. v < 0) workerValues
           then Some (ErrText ''fleet status contains a negative worker count'')
         else if cp_Configured c < 0 \<or> cp_Effective c < 0
              \<or> (cp_Configured c > 0 \<and> cp_Effective c > cp_Configured c)
           then Some (ErrText ''fleet status contains invalid capacity metrics'')
         else if cp_Rejection c \<noteq> [] \<and> (cp_Rejections c = 0 \<or> time_isZero (cp_RetryAt c))
           then Some (ErrText ''fleet status contains an incomplete provider capacity rejection'')
         else if la_Rejection la \<noteq> [] \<and> (la_Rejections la = 0 \<or> time_isZero (la_RetryAt la))
           then Some (ErrText ''fleet status contains an incomplete provider launch rejection'')
         else if wk_Busy w + wk_Idle w + wk_Unknown w \<noteq> wk_Actual w
           then Some (ErrText ''fleet status worker counts are inconsistent'')
         else if \<not> latency_valid (lt_ProviderCreate (st_Latency s)) \<or> \<not> latency_valid (lt_Assignment (st_Latency s))
           then Some (ErrText ''fleet status contains invalid latency metrics'')
         else if list_ex (\<lambda>v. v < 0) [bs_LimitSeconds b, bs_UsedSeconds b, bs_ReservedSeconds b,
                bs_RemainingSeconds b, bs_WindowSeconds b, bs_BurnSecondsPerDay b, bs_HorizonSeconds b]
           then Some (ErrText ''fleet status contains a negative budget value'')
         else None)"

definition LoadStatus :: "bool \<Rightarrow> fleetStatus fileProbe \<Rightarrow> goerr + fleetStatus" where
  "LoadStatus windows p =
     (if fp_abs p \<noteq> None then Inl (ErrText ''resolve fleet status path'')
      else if fp_root p \<noteq> None then Inl (ErrText ''open fleet status directory'')
      else (case fp_lstat p of
          Some e \<Rightarrow> Inl (ErrWrap ''inspect fleet status'' e)
        | None \<Rightarrow>
            if fp_symlink p \<or> \<not> fp_regular p
              then Inl (ErrText ''fleet status must be a regular file, not a symlink'')
            else if \<not> windows \<and> fp_groupOrOthers p
              then Inl (ErrText ''fleet status is readable by group or others'')
            else if fp_size p < 1 \<or> fp_size p > maximumStatusSize
              then Inl (ErrText ''fleet status size is outside the safe range'')
            else if fp_open p \<noteq> None then Inl (ErrText ''open fleet status'')
            else if \<not> fp_sameFile p
              then Inl (ErrText ''fleet status changed while it was being inspected'')
            else (case fp_decode p of
                Inl e \<Rightarrow> Inl (ErrWrap ''decode fleet status'' e)
              | Inr status \<Rightarrow>
                  if fp_trailing p then Inl (ErrText ''fleet status contains trailing data'')
                  else (case status_validate status of
                          Some e \<Rightarrow> Inl e
                        | None \<Rightarrow> Inr status))))"

section \<open>The reporter\<close>

text \<open>
  \<open>sr_disk\<close> is the file; \<open>sr_compute\<close> is whether a compute status source is watched; the
  source itself is outside the program.
\<close>

record statusReporter =
  sr_status :: fleetStatus
  sr_file :: string
  sr_failure :: string
  sr_dirty :: bool
  sr_revision :: int
  sr_started :: bool
  sr_alerter :: "alerter option"
  sr_conditions :: "watchedCondition gomap"
  sr_disk :: "fleetStatus fileState"

definition reporter_derive :: "statusReporter \<Rightarrow> statusReporter" where
  "reporter_derive r =
     (let s = sr_status r;
          w = st_Workers s;
          effective = (if cp_Configured (st_Capacity s) = 0 then wk_Maximum w else cp_Effective (st_Capacity s));
          saturated = (wk_Actual w + wk_Starting w \<ge> effective);
          (health, reason) =
            (if sr_failure r \<noteq> [] then (''degraded'', sr_failure r)
             else if cp_Rejection (st_Capacity s) \<noteq> [] then (''degraded'', ''provider_capacity_exhausted'')
             else if la_Rejection (st_Launch s) \<noteq> [] then (''degraded'', ''provider_launch_rejected'')
             else if wk_OverdueRetirements w > 0 then (''degraded'', ''runner_retirements_pending'')
             else if wk_OrphanCandidates w > 0 then (''degraded'', ''orphan_candidates'')
             else if bs_RefusalReason (st_Budget s) \<noteq> [] then (''degraded'', bs_RefusalReason (st_Budget s))
             else if time_isZero (gh_LastActivityAt (st_GitHub s)) then (''starting'', [])
             else (''ready'', []))
      in r\<lparr>sr_status := s\<lparr>st_Workers := w\<lparr>wk_Saturated := saturated\<rparr>, st_Health := health, st_Reason := reason\<rparr>\<rparr>)"

definition reporter_flush :: "fs \<Rightarrow> statusReporter \<Rightarrow> statusReporter" where
  "reporter_flush fs r =
     (if \<not> sr_dirty r then r
      else (case writeStatusFile (sr_file r) fs (sr_status r) (sr_disk r) of
              (Some _, disk) \<Rightarrow> r\<lparr>sr_disk := disk\<rparr>
            | (None, disk) \<Rightarrow> r\<lparr>sr_disk := disk, sr_dirty := False\<rparr>))"

definition reporter_update :: "gotime \<Rightarrow> fs \<Rightarrow> (statusReporter \<Rightarrow> statusReporter) \<Rightarrow> statusReporter \<Rightarrow> statusReporter" where
  "reporter_update now fs change r0 =
     (let r1 = change r0;
          r2 = reporter_derive (r1\<lparr>sr_status := (sr_status r1)\<lparr>st_UpdatedAt := now\<rparr>\<rparr>);
          r3 = r2\<lparr>sr_dirty := True,
                  sr_revision := (if sr_revision r2 < maxUint64 then sr_revision r2 + 1 else sr_revision r2)\<rparr>;
          r4 = r3\<lparr>sr_alerter := map_option (alerter_observe now (sr_status r3)) (sr_alerter r3)\<rparr>
      in if sr_started r4 then r4 else reporter_flush fs r4)"

definition on_status :: "(fleetStatus \<Rightarrow> fleetStatus) \<Rightarrow> statusReporter \<Rightarrow> statusReporter" where
  "on_status f r = r\<lparr>sr_status := f (sr_status r)\<rparr>"

definition on_workers :: "(workerStatus \<Rightarrow> workerStatus) \<Rightarrow> statusReporter \<Rightarrow> statusReporter" where
  "on_workers f = on_status (\<lambda>s. s\<lparr>st_Workers := f (st_Workers s)\<rparr>)"

definition on_github :: "(gitHubStatus \<Rightarrow> gitHubStatus) \<Rightarrow> statusReporter \<Rightarrow> statusReporter" where
  "on_github f = on_status (\<lambda>s. s\<lparr>st_GitHub := f (st_GitHub s)\<rparr>)"

definition reporter_githubActivity :: "gotime \<Rightarrow> fs \<Rightarrow> string \<Rightarrow> statusReporter \<Rightarrow> statusReporter" where
  "reporter_githubActivity now fs event =
     reporter_update now fs (on_github (\<lambda>g. g\<lparr>gh_LastActivityAt := now, gh_LastEvent := event\<rparr>))"

definition desired_sets :: "string \<Rightarrow> int \<Rightarrow> int \<Rightarrow> scaleSetStatus list \<Rightarrow> scaleSetStatus list" where
  "desired_sets scaleSet assigned desired sets =
     map (\<lambda>e. if ss_Name e = scaleSet
              then e\<lparr>ss_AssignedJobs := max 0 assigned, ss_DesiredWorkers := max 0 desired\<rparr> else e) sets"

definition reporter_desired :: "gotime \<Rightarrow> fs \<Rightarrow> string \<Rightarrow> int \<Rightarrow> int \<Rightarrow> statusReporter \<Rightarrow> statusReporter" where
  "reporter_desired now fs scaleSet assigned desired =
     reporter_update now fs (on_github (\<lambda>g.
       (let sets = desired_sets scaleSet assigned desired (gh_ScaleSets g);
            g' = (if sets \<noteq> []
                  then g\<lparr>gh_AssignedJobs := sum_list (map ss_AssignedJobs sets),
                         gh_DesiredWorkers := sum_list (map ss_DesiredWorkers sets), gh_ScaleSets := sets\<rparr>
                  else g\<lparr>gh_AssignedJobs := max 0 assigned, gh_DesiredWorkers := max 0 desired\<rparr>)
        in g'\<lparr>gh_LastActivityAt := now, gh_LastEvent := ''desired_count''\<rparr>)))"

definition reporter_scaleSetWorkers :: "gotime \<Rightarrow> fs \<Rightarrow> string \<Rightarrow> int \<Rightarrow> statusReporter \<Rightarrow> statusReporter" where
  "reporter_scaleSetWorkers now fs scaleSet count =
     reporter_update now fs (on_github (\<lambda>g. g\<lparr>gh_ScaleSets :=
       map (\<lambda>e. if ss_Name e = scaleSet then e\<lparr>ss_Workers := max 0 count\<rparr> else e) (gh_ScaleSets g)\<rparr>))"

definition reporter_workers :: "gotime \<Rightarrow> fs \<Rightarrow> int \<Rightarrow> int \<Rightarrow> int \<Rightarrow> int \<Rightarrow> statusReporter \<Rightarrow> statusReporter" where
  "reporter_workers now fs actual busy idle unknown =
     reporter_update now fs (on_workers (\<lambda>w. w\<lparr>wk_Actual := max 0 actual, wk_Busy := max 0 busy,
       wk_Idle := max 0 idle, wk_Unknown := max 0 unknown\<rparr>))"

definition reporter_starting :: "gotime \<Rightarrow> fs \<Rightarrow> int \<Rightarrow> statusReporter \<Rightarrow> statusReporter" where
  "reporter_starting now fs delta =
     reporter_update now fs (on_workers (\<lambda>w. w\<lparr>wk_Starting := max 0 (wk_Starting w + delta)\<rparr>))"

definition reporter_orphans :: "gotime \<Rightarrow> fs \<Rightarrow> int \<Rightarrow> statusReporter \<Rightarrow> statusReporter" where
  "reporter_orphans now fs count =
     reporter_update now fs (on_workers (\<lambda>w. w\<lparr>wk_OrphanCandidates := max 0 count\<rparr>))"

definition reporter_retirements :: "gotime \<Rightarrow> fs \<Rightarrow> int \<Rightarrow> int \<Rightarrow> statusReporter \<Rightarrow> statusReporter" where
  "reporter_retirements now fs count overdue =
     reporter_update now fs (on_workers (\<lambda>w. w\<lparr>wk_PendingRetirements := max 0 count,
       wk_OverdueRetirements := min (max 0 overdue) (max 0 count)\<rparr>))"

definition reporter_budget :: "gotime \<Rightarrow> fs \<Rightarrow> budgetStatus \<Rightarrow> statusReporter \<Rightarrow> statusReporter" where
  "reporter_budget now fs snapshot = reporter_update now fs (on_status (\<lambda>s. s\<lparr>st_Budget := snapshot\<rparr>))"

definition duration_milliseconds :: "duration \<Rightarrow> int" where
  "duration_milliseconds d = sgn d * (\<bar>d\<bar> div 1000000)"

definition addLatency :: "duration \<Rightarrow> bool \<Rightarrow> latencyStats \<Rightarrow> latencyStats" where
  "addLatency elapsed failed l =
     (let ms = max 0 (duration_milliseconds elapsed);
          l1 = (if ls_Samples l < maxUint64
                then l\<lparr>ls_Samples := ls_Samples l + 1,
                       ls_AverageMS := ls_AverageMS l + (of_int ms - ls_AverageMS l) / of_int (ls_Samples l + 1)\<rparr>
                else l);
          l2 = (if failed \<and> ls_Failures l1 < maxUint64 then l1\<lparr>ls_Failures := ls_Failures l1 + 1\<rparr> else l1)
      in l2\<lparr>ls_LastMS := ms, ls_MaximumMS := max (ls_MaximumMS l2) ms\<rparr>)"

definition reporter_latency :: "gotime \<Rightarrow> fs \<Rightarrow> bool \<Rightarrow> duration \<Rightarrow> bool \<Rightarrow> statusReporter \<Rightarrow> statusReporter" where
  "reporter_latency now fs providerCreate elapsed failed =
     reporter_update now fs (on_status (\<lambda>s. s\<lparr>st_Latency :=
       (if providerCreate
        then (st_Latency s)\<lparr>lt_ProviderCreate := addLatency elapsed failed (lt_ProviderCreate (st_Latency s))\<rparr>
        else (st_Latency s)\<lparr>lt_Assignment := addLatency elapsed failed (lt_Assignment (st_Latency s))\<rparr>)\<rparr>))"

definition saturating_inc :: "int \<Rightarrow> int" where
  "saturating_inc n = (if n < maxUint64 then n + 1 else n)"

definition reporter_capacityRejected :: "gotime \<Rightarrow> fs \<Rightarrow> int \<Rightarrow> string \<Rightarrow> gotime \<Rightarrow> statusReporter \<Rightarrow> statusReporter" where
  "reporter_capacityRejected now fs effective reason retryAt =
     reporter_update now fs (on_status (\<lambda>s. s\<lparr>st_Capacity := (st_Capacity s)\<lparr>
       cp_Effective := min (max 0 effective) (cp_Configured (st_Capacity s)),
       cp_Rejections := saturating_inc (cp_Rejections (st_Capacity s)),
       cp_Rejection := reason, cp_RetryAt := retryAt\<rparr>\<rparr>))"

definition reporter_capacityRecovered :: "gotime \<Rightarrow> fs \<Rightarrow> statusReporter \<Rightarrow> statusReporter" where
  "reporter_capacityRecovered now fs =
     reporter_update now fs (on_status (\<lambda>s. s\<lparr>st_Capacity := (st_Capacity s)\<lparr>
       cp_Effective := cp_Configured (st_Capacity s), cp_Rejection := [], cp_RetryAt := zeroTime\<rparr>\<rparr>))"

definition reporter_launchRejected :: "gotime \<Rightarrow> fs \<Rightarrow> string \<Rightarrow> gotime \<Rightarrow> statusReporter \<Rightarrow> statusReporter" where
  "reporter_launchRejected now fs reason retryAt =
     reporter_update now fs (on_status (\<lambda>s. s\<lparr>st_Launch := (st_Launch s)\<lparr>
       la_Rejections := saturating_inc (la_Rejections (st_Launch s)),
       la_Rejection := reason, la_RetryAt := retryAt\<rparr>\<rparr>))"

definition reporter_launchRecovered :: "gotime \<Rightarrow> fs \<Rightarrow> statusReporter \<Rightarrow> statusReporter" where
  "reporter_launchRecovered now fs =
     reporter_update now fs (on_status (\<lambda>s. s\<lparr>st_Launch := (st_Launch s)\<lparr>
       la_Rejection := [], la_RetryAt := zeroTime\<rparr>\<rparr>))"

definition reporter_degraded :: "gotime \<Rightarrow> fs \<Rightarrow> string \<Rightarrow> statusReporter \<Rightarrow> statusReporter" where
  "reporter_degraded now fs reason = reporter_update now fs (\<lambda>r. r\<lparr>sr_failure := reason\<rparr>)"

definition reporter_recovered :: "gotime \<Rightarrow> fs \<Rightarrow> statusReporter \<Rightarrow> statusReporter" where
  "reporter_recovered now fs = reporter_update now fs (\<lambda>r. r\<lparr>sr_failure := []\<rparr>)"

text \<open>
  \<open>source\<close> is what the compute answers to one sample: its conditions, when it reports
  any, and its status, encoded or with the error of the encoder.
\<close>

definition reporter_sampleCompute :: "gotime \<Rightarrow> fs \<Rightarrow> (condition list option \<times> (goerr + string)) option
    \<Rightarrow> statusReporter \<Rightarrow> statusReporter" where
  "reporter_sampleCompute now fs source r =
     (case source of
        None \<Rightarrow> r
      | Some (conditions, encoded) \<Rightarrow>
          (let r' = (case conditions of
                       None \<Rightarrow> r
                     | Some cs \<Rightarrow>
                         (case conditions_observe now cs (sr_conditions r) (sr_alerter r) of
                            (active, alert) \<Rightarrow> r\<lparr>sr_conditions := active, sr_alerter := alert\<rparr>))
           in case encoded of
                Inl _ \<Rightarrow> r'
              | Inr text \<Rightarrow> reporter_update now fs (on_status (\<lambda>s. s\<lparr>st_Compute := text\<rparr>)) r'))"

text \<open>
  \<^verbatim>\<open>newStatusReporter\<close>: \<open>ephemeral\<close> is the name of the second scale set, empty when there
  is one; \<open>alert\<close> is what \<^verbatim>\<open>newAlerter\<close> returned.
\<close>

definition zeroLatency :: latencyStats where
  "zeroLatency = \<lparr>ls_Samples = 0, ls_Failures = 0, ls_LastMS = 0, ls_AverageMS = 0, ls_MaximumMS = 0\<rparr>"

definition initial_status :: "gotime \<Rightarrow> controllerStatus \<Rightarrow> string \<Rightarrow> string \<Rightarrow> string \<Rightarrow> int \<Rightarrow> budgetStatus \<Rightarrow> fleetStatus" where
  "initial_status now ctl url scaleSet ephemeral maxWorkers budget =
     \<lparr>st_SchemaVersion = statusSchemaVersion, st_UpdatedAt = now, st_StartedAt = now,
      st_Health = ''starting'', st_Reason = [], st_Controller = ctl,
      st_GitHub = \<lparr>gh_ConfigURL = url, gh_ScaleSet = scaleSet, gh_AssignedJobs = 0, gh_DesiredWorkers = 0,
        gh_LastActivityAt = zeroTime, gh_LastEvent = [],
        gh_ScaleSets = (if ephemeral = [] then []
          else map (\<lambda>n. \<lparr>ss_Name = n, ss_AssignedJobs = 0, ss_DesiredWorkers = 0, ss_Workers = 0\<rparr>) [scaleSet, ephemeral])\<rparr>,
      st_Workers = \<lparr>wk_Actual = 0, wk_Starting = 0, wk_Busy = 0, wk_Idle = 0, wk_Unknown = 0,
        wk_OrphanCandidates = 0, wk_PendingRetirements = 0, wk_OverdueRetirements = 0,
        wk_Maximum = maxWorkers, wk_Saturated = False\<rparr>,
      st_Capacity = \<lparr>cp_Configured = maxWorkers, cp_Effective = maxWorkers, cp_Rejections = 0,
        cp_Rejection = [], cp_RetryAt = zeroTime\<rparr>,
      st_Launch = \<lparr>la_Rejections = 0, la_Rejection = [], la_RetryAt = zeroTime\<rparr>,
      st_Latency = \<lparr>lt_ProviderCreate = zeroLatency, lt_Assignment = zeroLatency\<rparr>,
      st_Budget = budget, st_Compute = []\<rparr>"

definition newStatusReporter :: "string \<Rightarrow> fs \<Rightarrow> fleetStatus \<Rightarrow> goerr + alerter option
    \<Rightarrow> fleetStatus fileState \<Rightarrow> goerr + statusReporter" where
  "newStatusReporter path fs status alert disk =
     (case alert of
        Inl e \<Rightarrow> Inl e
      | Inr a \<Rightarrow>
          (case writeStatusFile path fs status disk of
             (Some e, _) \<Rightarrow> Inl (ErrWrap ''initialize fleet status'' e)
           | (None, disk') \<Rightarrow>
               Inr \<lparr>sr_status = status, sr_file = path, sr_failure = [], sr_dirty = False, sr_revision = 0,
                    sr_started = False, sr_alerter = a, sr_conditions = [], sr_disk = disk'\<rparr>))"

definition reporter_start :: "statusReporter \<Rightarrow> statusReporter" where
  "reporter_start r = r\<lparr>sr_started := True\<rparr>"

end
