(* ===== verification/Scaler_Model.thy ===== *)
theory Scaler_Model
  imports Interleaving Retirement_Queue Worker_State Fleet_Status_Correct Retry_Policy
begin

text \<open>
  The scaler (\<^verbatim>\<open>controller/scaler.go\<close>, \<^verbatim>\<open>scale_sets.go\<close>): how it decides how many workers
  to start, how it launches, adopts and retires them, and what it does when any of the
  calls on the way fails.

  Everything outside the process is the record \<open>env\<close> of functions on an arbitrary world:
  the clock, fresh ids, the compute provider, GitHub's scale set API, the file system
  under the ledger and the journal, and the Go scheduler.  Each call of one of them,
  each method that holds a mutex, is one atomic step; the log output is left out.
  \<open>sy_calls\<close> is a ghost record of the calls that create or destroy something outside,
  with the durable files as they were at that moment.
\<close>

section \<open>The environment\<close>

text \<open>Which compute starts a worker: the fleet's, the ephemeral tier's, or the fleet's spare room.\<close>

datatype launcher = LaunchCompute | LaunchEphemeral | LaunchSpare

record runnerReference =
  rr_ID :: int
  rr_Name :: string
  rr_RunnerScaleSetID :: int

record jitRunnerConfig =
  jc_Runner :: "runnerReference option"
  jc_EncodedJITConfig :: string

record 'w env =
  env_now :: "'w \<Rightarrow> gotime \<times> 'w"
  env_newID :: "'w \<Rightarrow> string \<times> 'w"
  env_fs :: "'w \<Rightarrow> fs \<times> 'w"
  env_schedule :: "'w \<Rightarrow> nat \<times> 'w"
  env_inventory :: "'w \<Rightarrow> (goerr + worker list) \<times> 'w"
  env_launch :: "launcher \<Rightarrow> lease \<Rightarrow> 'w \<Rightarrow> (worker \<times> goerr option) \<times> 'w"
  env_destroy :: "string \<Rightarrow> 'w \<Rightarrow> goerr option \<times> 'w"
  env_spareRoom :: "'w \<Rightarrow> int \<times> 'w"
  env_fast :: "'w \<Rightarrow> string \<Rightarrow> bool"
  env_generateJit :: "string \<Rightarrow> int \<Rightarrow> 'w \<Rightarrow> (goerr + jitRunnerConfig option) \<times> 'w"
  env_getRunner :: "string \<Rightarrow> 'w \<Rightarrow> (goerr + runnerReference option) \<times> 'w"
  env_removeRunner :: "int \<Rightarrow> 'w \<Rightarrow> goerr option \<times> 'w"

section \<open>The scaler's state\<close>

record scaleSetRoute =
  rt_name :: string
  rt_id :: int
  rt_minWorkers :: int
  rt_launch :: launcher

record scalerConfig =
  cf_scaleSetName :: string
  cf_scaleSetID :: int
  cf_minWorkers :: int
  cf_maxWorkers :: int
  cf_launchConcurrency :: int
  cf_maxLifetime :: duration
  cf_idleTimeout :: duration
  cf_danglingTimeout :: duration
  cf_ephemeral :: "scaleSetRoute option"
  cf_speculator :: bool

text \<open>The launch gate; \<open>lg_probe\<close> is the armed timer, with its delay.\<close>

record launchGate =
  lg_kind :: string
  lg_effective :: int
  lg_reason :: string
  lg_retryAt :: gotime
  lg_backoff :: duration
  lg_probe :: "duration option"

datatype external_call =
    CallGenerateJit string int "retirementLedger fileState" "usageLedger fileState"
  | CallLaunch launcher lease "retirementLedger fileState" "usageLedger fileState"
  | CallDestroy string "retirementLedger fileState"
  | CallRemoveRunner int "retirementLedger fileState"

record 'w sys =
  sy_state :: workerState
  sy_budget :: usageBudget
  sy_retirements :: retirementQueue
  sy_reporter :: statusReporter
  sy_gate :: launchGate
  sy_world :: 'w
  sy_calls :: "external_call list"

section \<open>Atomic steps\<close>

definition world_call :: "('w \<Rightarrow> 'a \<times> 'w) \<Rightarrow> ('w sys, 'a) prog" where
  "world_call g = atom (\<lambda>s. case g (sy_world s) of (a, w) \<Rightarrow> (a, s\<lparr>sy_world := w\<rparr>))"

definition traced_call :: "('w sys \<Rightarrow> external_call) \<Rightarrow> ('w \<Rightarrow> 'a \<times> 'w) \<Rightarrow> ('w sys, 'a) prog" where
  "traced_call c g = atom (\<lambda>s. case g (sy_world s) of
     (a, w) \<Rightarrow> (a, s\<lparr>sy_world := w, sy_calls := sy_calls s @ [c s]\<rparr>))"

definition budget_call :: "'w env \<Rightarrow> (fs \<Rightarrow> usageBudget \<Rightarrow> 'a \<times> usageBudget) \<Rightarrow> ('w sys, 'a) prog" where
  "budget_call env f = atom (\<lambda>s. case env_fs env (sy_world s) of
     (fs, w) \<Rightarrow> (case f fs (sy_budget s) of (a, b) \<Rightarrow> (a, s\<lparr>sy_budget := b, sy_world := w\<rparr>)))"

definition journal_call :: "'w env \<Rightarrow> (fs \<Rightarrow> retirementQueue \<Rightarrow> 'a \<times> retirementQueue) \<Rightarrow> ('w sys, 'a) prog" where
  "journal_call env f = atom (\<lambda>s. case env_fs env (sy_world s) of
     (fs, w) \<Rightarrow> (case f fs (sy_retirements s) of (a, q) \<Rightarrow> (a, s\<lparr>sy_retirements := q, sy_world := w\<rparr>)))"

definition state_call :: "(workerState \<Rightarrow> 'a \<times> workerState) \<Rightarrow> ('w sys, 'a) prog" where
  "state_call f = atom (\<lambda>s. case f (sy_state s) of (a, st) \<Rightarrow> (a, s\<lparr>sy_state := st\<rparr>))"

definition state_do :: "(workerState \<Rightarrow> workerState) \<Rightarrow> ('w sys, unit) prog" where
  "state_do f = state_call (\<lambda>st. ((), f st))"

definition reads :: "('w sys \<Rightarrow> 'a) \<Rightarrow> ('w sys, 'a) prog" where
  "reads f = atom (\<lambda>s. (f s, s))"

definition report :: "'w env \<Rightarrow> reporter_op \<Rightarrow> ('w sys, unit) prog" where
  "report env op = atom (\<lambda>s. case env_now env (sy_world s) of
     (now, w) \<Rightarrow> (case env_fs env w of
        (fs, w') \<Rightarrow> ((), s\<lparr>sy_reporter := reporter_step now fs op (sy_reporter s), sy_world := w'\<rparr>)))"

definition clock :: "'w env \<Rightarrow> ('w sys, gotime) prog" where
  "clock env = world_call (env_now env)"

definition inventory :: "'w env \<Rightarrow> ('w sys, goerr + worker list) prog" where
  "inventory env = world_call (env_inventory env)"

definition getRunnerByName :: "'w env \<Rightarrow> string \<Rightarrow> ('w sys, goerr + runnerReference option) prog" where
  "getRunnerByName env name = world_call (env_getRunner env name)"

definition generateJitRunnerConfig :: "'w env \<Rightarrow> string \<Rightarrow> int \<Rightarrow> ('w sys, goerr + jitRunnerConfig option) prog" where
  "generateJitRunnerConfig env name scaleSet =
     traced_call (\<lambda>s. CallGenerateJit name scaleSet (rq_disk (sy_retirements s)) (ub_disk (sy_budget s)))
       (env_generateJit env name scaleSet)"

definition launchLease :: "'w env \<Rightarrow> launcher \<Rightarrow> lease \<Rightarrow> ('w sys, worker \<times> goerr option) prog" where
  "launchLease env l lease =
     traced_call (\<lambda>s. CallLaunch l lease (rq_disk (sy_retirements s)) (ub_disk (sy_budget s))) (env_launch env l lease)"

definition destroy :: "'w env \<Rightarrow> string \<Rightarrow> ('w sys, goerr option) prog" where
  "destroy env workerID = traced_call (\<lambda>s. CallDestroy workerID (rq_disk (sy_retirements s))) (env_destroy env workerID)"

definition removeRunner :: "'w env \<Rightarrow> int \<Rightarrow> ('w sys, goerr option) prog" where
  "removeRunner env runnerID =
     traced_call (\<lambda>s. CallRemoveRunner runnerID (rq_disk (sy_retirements s))) (env_removeRunner env runnerID)"

section \<open>Constants and small functions\<close>

definition workerTeardownGrace :: duration where "workerTeardownGrace = 15 * second"
definition capacityInitialBackoff :: duration where "capacityInitialBackoff = minute"
definition capacityMinimumRetry :: duration where "capacityMinimumRetry = 5 * second"
definition capacityMaximumBackoff :: duration where "capacityMaximumBackoff = 15 * minute"
definition retirementGrace :: duration where "retirementGrace = 15 * minute"
definition departureMemory :: duration where "departureMemory = hour"
definition inventoryAbsenceGrace :: duration where "inventoryAbsenceGrace = 30 * second"
definition stoppedCompletionGrace :: duration where "stoppedCompletionGrace = 5 * minute"

definition gateCapacity :: string where "gateCapacity = ''capacity''"
definition gateLaunch :: string where "gateLaunch = ''launch''"

definition workerStoppedAt :: "gotime \<Rightarrow> gotime" where
  "workerStoppedAt finished = (if time_isZero finished then zeroTime else finished + workerTeardownGrace)"

definition workerStopped :: "string \<Rightarrow> bool" where
  "workerStopped st \<longleftrightarrow>
     toLower (trimSpace st) \<in> set [''stopped'', ''off'', ''failed'', ''destroyed'', ''suspended'']"

definition orphanCandidateCount :: "worker list \<Rightarrow> workerRecord gomap \<Rightarrow> duration \<Rightarrow> gotime \<Rightarrow> int" where
  "orphanCandidateCount workers loc maximumLifetime now =
     (let known = map (\<lambda>(_, r). w_ID (wr_Worker r)) loc
      in int (length (filter (\<lambda>w.
           w_ID w \<notin> set known
         \<or> (\<not> time_isZero (w_CreatedAt w) \<and> time_sub now (w_CreatedAt w) > maximumLifetime)
         \<or> w_ID w = [] \<or> w_LeaseID w = [] \<or> w_RunnerName w = [] \<or> time_isZero (w_CreatedAt w)) workers)))"

definition mainRoute :: "scalerConfig \<Rightarrow> scaleSetRoute" where
  "mainRoute cfg = \<lparr>rt_name = cf_scaleSetName cfg, rt_id = cf_scaleSetID cfg,
     rt_minWorkers = cf_minWorkers cfg, rt_launch = LaunchCompute\<rparr>"

definition servesScaleSet :: "scalerConfig \<Rightarrow> int \<Rightarrow> bool" where
  "servesScaleSet cfg i \<longleftrightarrow>
     i = cf_scaleSetID cfg \<or> (case cf_ephemeral cfg of None \<Rightarrow> False | Some e \<Rightarrow> i = rt_id e)"

definition routeCounts :: "scalerConfig \<Rightarrow> scaleSetRoute \<Rightarrow> workerState \<Rightarrow> int \<times> int" where
  "routeCounts cfg route st =
     (case cf_ephemeral cfg of
        None \<Rightarrow> (int (state_count st), int (state_count st))
      | Some e \<Rightarrow>
          (case state_countScaleSet (rt_id e) st of
             (ephemeral, fleet) \<Rightarrow>
               if rt_id route = rt_id e then (int ephemeral, int fleet) else (int fleet - int ephemeral, int fleet)))"

definition routeCount :: "scalerConfig \<Rightarrow> scaleSetRoute \<Rightarrow> workerState \<Rightarrow> int" where
  "routeCount cfg route st = fst (routeCounts cfg route st)"

definition routeWorker :: "scalerConfig \<Rightarrow> scaleSetRoute \<Rightarrow> worker \<Rightarrow> bool" where
  "routeWorker cfg route w =
     (case cf_ephemeral cfg of
        None \<Rightarrow> True
      | Some e \<Rightarrow> if rt_id route = rt_id e then w_RunnerScaleSetID w = rt_id e
                  else w_RunnerScaleSetID w \<noteq> rt_id e)"

section \<open>Reporting\<close>

definition reportScaleSets :: "scalerConfig \<Rightarrow> 'w env \<Rightarrow> ('w sys, unit) prog" where
  "reportScaleSets cfg env =
     (case cf_ephemeral cfg of
        None \<Rightarrow> Done ()
      | Some e \<Rightarrow>
          pbind (reads (\<lambda>s. state_countScaleSet (rt_id e) (sy_state s))) (\<lambda>(ephemeral, fleet).
          pseq (report env (RpScaleSetWorkers (cf_scaleSetName cfg) (int fleet - int ephemeral)))
               (report env (RpScaleSetWorkers (rt_name e) (int ephemeral)))))"

definition reportState :: "scalerConfig \<Rightarrow> 'w env \<Rightarrow> ('w sys, unit) prog" where
  "reportState cfg env =
     pbind (reads (\<lambda>s. state_summary (sy_state s))) (\<lambda>(actual, busy, idle, unknown).
     pseq (report env (RpWorkers (int actual) (int busy) (int idle) (int unknown)))
          (reportScaleSets cfg env))"

definition reportRetirements :: "'w env \<Rightarrow> ('w sys, unit) prog" where
  "reportRetirements env =
     pbind (reads (\<lambda>s. queue_count (sy_retirements s))) (\<lambda>count.
     pbind (clock env) (\<lambda>now.
     pbind (reads (\<lambda>s. queue_overdue (sy_retirements s) now retirementGrace)) (\<lambda>overdue.
     report env (RpRetirements (int count) (int overdue)))))"

text \<open>\<^verbatim>\<open>s.reporter.budget(s.budget.snapshot(time.Now()))\<close>.\<close>

definition reportBudget :: "'w env \<Rightarrow> ('w sys, unit) prog" where
  "reportBudget env =
     pbind (clock env) (\<lambda>now.
     pbind (reads (\<lambda>s. budget_snapshot (sy_budget s) now)) (\<lambda>snapshot.
     report env (RpBudget snapshot)))"

section \<open>The launch gate\<close>

definition capacityAllowance :: "'w env \<Rightarrow> int \<Rightarrow> int \<Rightarrow> ('w sys, int \<times> bool) prog" where
  "capacityAllowance env current target = atom (\<lambda>s.
     (let gate = sy_gate s; requested = max 0 (target - current)
      in if requested = 0 \<or> lg_reason gate = [] then ((requested, False), s)
         else if current < lg_effective gate then ((min requested (lg_effective gate - current), False), s)
         else (case env_now env (sy_world s) of
                 (now, w) \<Rightarrow> (if now < lg_retryAt gate then (0, False) else (min 1 requested, True),
                             s\<lparr>sy_world := w\<rparr>))))"

definition gate_wait :: "string \<Rightarrow> duration \<Rightarrow> launchGate \<Rightarrow> duration \<times> launchGate" where
  "gate_wait kind hint gate =
     (if kind = gateCapacity \<and> hint > 0
        then (min (max hint capacityMinimumRetry) capacityMaximumBackoff, gate)
      else if lg_backoff gate = 0
        then (capacityInitialBackoff, gate\<lparr>lg_backoff := capacityInitialBackoff\<rparr>)
      else (let b = min (lg_backoff gate * 2) capacityMaximumBackoff in (b, gate\<lparr>lg_backoff := b\<rparr>)))"

definition releaseGateStatus :: "'w env \<Rightarrow> string \<Rightarrow> ('w sys, unit) prog" where
  "releaseGateStatus env kind =
     report env (if kind = gateLaunch then RpLaunchRecovered else RpCapacityRecovered)"

definition recordLaunchGate :: "'w env \<Rightarrow> string \<Rightarrow> string \<Rightarrow> goerr option \<Rightarrow> ('w sys, unit) prog" where
  "recordLaunchGate env kind reason err =
     pbind (clock env) (\<lambda>now.
     pbind (reads (\<lambda>s. int (state_count (sy_state s)))) (\<lambda>effective.
     pbind (atom (\<lambda>s.
       (case gate_wait kind (CapacityRetryAfter err) (sy_gate s) of
          (wait, gate) \<Rightarrow>
            ((lg_kind gate, now + wait),
             s\<lparr>sy_gate := gate\<lparr>lg_kind := kind, lg_effective := effective, lg_reason := reason,
                               lg_retryAt := now + wait, lg_probe := Some wait\<rparr>\<rparr>)))) (\<lambda>(previousKind, retryAt).
     pseq (if previousKind \<noteq> [] \<and> previousKind \<noteq> kind then releaseGateStatus env previousKind else Done ())
       (report env (if kind = gateLaunch then RpLaunchRejected reason retryAt
                    else RpCapacityRejected effective reason retryAt)))))"

definition clearLaunchGate :: "'w env \<Rightarrow> ('w sys, unit) prog" where
  "clearLaunchGate env =
     pbind (atom (\<lambda>s. ((lg_reason (sy_gate s) \<noteq> [], lg_kind (sy_gate s)),
        s\<lparr>sy_gate := \<lparr>lg_kind = [], lg_effective = 0, lg_reason = [], lg_retryAt = zeroTime,
                        lg_backoff = 0, lg_probe = None\<rparr>\<rparr>))) (\<lambda>(hadRejection, kind).
     if hadRejection then releaseGateStatus env kind else Done ())"

definition launchGateOpen :: "('w sys, bool) prog" where
  "launchGateOpen = reads (\<lambda>s. lg_reason (sy_gate s) = [])"

section \<open>Retirement\<close>

definition validateWorkerRetirementProof :: "worker \<Rightarrow> retirementEntry \<Rightarrow> goerr option" where
  "validateWorkerRetirementProof w r =
     (if w_RunnerName w \<noteq> re_RunnerName r \<or> w_LeaseID w \<noteq> re_LeaseID r
        then Some (ErrText ''provider worker identity does not match retirement proof'')
      else if w_RunnerID w \<noteq> 0 \<and> re_RunnerID r \<noteq> 0 \<and> w_RunnerID w \<noteq> re_RunnerID r
        then Some (ErrText ''provider worker registration id does not match retirement proof'')
      else if w_RunnerScaleSetID w \<noteq> 0 \<and> w_RunnerScaleSetID w \<noteq> re_RunnerScaleSetID r
        then Some (ErrText ''provider worker scale set does not match retirement proof'')
      else None)"

definition destroyWorker :: "'w env \<Rightarrow> worker \<Rightarrow> ('w sys, goerr option) prog" where
  "destroyWorker env w =
     pbind (destroy env (w_ID w)) (\<lambda>deleteErr.
     case deleteErr of
       None \<Rightarrow> Done None
     | Some e \<Rightarrow>
         pbind (inventory env) (\<lambda>inv.
         case inv of
           Inl inventoryErr \<Rightarrow>
             Done (errors_Join [Some e, Some (ErrWrap ''confirm deletion of worker'' inventoryErr)])
         | Inr workers \<Rightarrow>
             Done (if list_ex (\<lambda>present. w_ID present = w_ID w) workers then Some e else None)))"

definition removeRunnerRegistration :: "scalerConfig \<Rightarrow> 'w env \<Rightarrow> retirementEntry \<Rightarrow> ('w sys, goerr option) prog" where
  "removeRunnerRegistration cfg env r =
     (if \<not> servesScaleSet cfg (re_RunnerScaleSetID r)
        then Done (Some (ErrText ''refusing to remove runner from unexpected scale set''))
      else
      pbind (getRunnerByName env (re_RunnerName r)) (\<lambda>found.
      case found of
        Inl err \<Rightarrow> Done (Some (ErrWrap ''find GitHub runner registration'' err))
      | Inr None \<Rightarrow> Done None
      | Inr (Some runner) \<Rightarrow>
          if rr_Name runner \<noteq> re_RunnerName r
             \<or> (rr_RunnerScaleSetID runner \<noteq> 0 \<and> rr_RunnerScaleSetID runner \<noteq> re_RunnerScaleSetID r)
            then Done (Some (ErrText ''refusing to remove runner from unexpected scale set''))
          else (let r' = (if re_RunnerID r = 0 then r\<lparr>re_RunnerID := rr_ID runner\<rparr> else r)
            in pcheck (if re_RunnerID r = 0 then journal_call env (\<lambda>fs. queue_put fs r') else Done None)
                 (\<lambda>err. Done (Some (ErrWrap ''bind GitHub runner registration before removal'' err)))
                 (if rr_ID runner \<noteq> re_RunnerID r'
                    then Done (Some (ErrText ''refusing to remove runner with unexpected registration id''))
                  else pcheck (removeRunner env (re_RunnerID r'))
                         (\<lambda>err. Done (Some (ErrWrap ''remove GitHub runner registration'' err)))
                         (Done None)))))"

definition settleRetirement :: "'w env \<Rightarrow> retirementEntry \<Rightarrow> ('w sys, goerr option) prog" where
  "settleRetirement env r =
     pbind (clock env) (\<lambda>now.
     if re_BudgetDisposition r = forfeitReservation
     then budget_call env (\<lambda>fs b. budget_forfeit fs b (re_LeaseID r) now)
     else budget_call env (\<lambda>fs b. budget_settleAt fs b (re_LeaseID r) (re_StoppedAt r) now))"

definition finishRetirement :: "scalerConfig \<Rightarrow> 'w env \<Rightarrow> worker \<Rightarrow> bool \<Rightarrow> retirementEntry \<Rightarrow> ('w sys, goerr option) prog" where
  "finishRetirement cfg env w providerPresent r =
     pcheck (Done (validateWorkerRetirementProof w r)) (\<lambda>err. Done (Some err))
     (pcheck (if providerPresent then destroyWorker env w else Done None)
        (\<lambda>err. pseq (report env (RpDegraded ''provider_delete_failed'')) (Done (Some err)))
     (pcheck (removeRunnerRegistration cfg env r)
        (\<lambda>err. pseq (report env (RpDegraded ''github_runner_cleanup_failed''))
                 (Done (if errors_Is (Some err) JobStillRunningError
                        then errors_Join [Some (ErrSentinel ErrRetirementDeferred), Some err] else Some err)))
     (pcheck (settleRetirement env r)
        (\<lambda>err. pseq (report env (RpDegraded ''usage_budget_write_failed'')) (Done (Some err)))
     (pseq (state_call (state_remove (re_RunnerName r)))
     (pcheck (journal_call env (\<lambda>fs. queue_remove fs (re_RunnerName r)))
        (\<lambda>err. pseq (report env (RpDegraded ''runner_retirement_state_failed'')) (Done (Some err)))
     (pseq (reportRetirements env) (Done None)))))))"

definition retireWorker :: "scalerConfig \<Rightarrow> 'w env \<Rightarrow> worker \<Rightarrow> bool \<Rightarrow> budgetDisposition \<Rightarrow> gotime
    \<Rightarrow> ('w sys, goerr option) prog" where
  "retireWorker cfg env w providerPresent disposition stoppedAt =
     pbind (clock env) (\<lambda>now.
     let r = \<lparr>re_RunnerName = w_RunnerName w, re_RunnerID = w_RunnerID w,
              re_RunnerScaleSetID = (if w_RunnerScaleSetID w = 0 then cf_scaleSetID cfg else w_RunnerScaleSetID w),
              re_LeaseID = w_LeaseID w, re_BudgetDisposition = disposition,
              re_StoppedAt = stoppedAt, re_RequestedAt = now\<rparr>
     in pcheck (journal_call env (\<lambda>fs. queue_put fs r))
          (\<lambda>err. pseq (report env (RpDegraded ''runner_retirement_state_failed'')) (Done (Some err)))
        (pseq (reportRetirements env)
        (pbind (finishRetirement cfg env w providerPresent r) (\<lambda>err.
         Done (if errors_Is err ErrRetirementDeferred \<or> IsTransient err then None else err)))))"

section \<open>Cleaning up after a failed launch\<close>

definition cleanupRejectedLaunch :: "scalerConfig \<Rightarrow> 'w env \<Rightarrow> retirementEntry \<Rightarrow> ('w sys, goerr option) prog" where
  "cleanupRejectedLaunch cfg env r =
     pcheck (removeRunnerRegistration cfg env r)
       (\<lambda>err. pseq (report env (RpDegraded ''github_runner_cleanup_failed'')) (Done (Some err)))
     (pcheck (budget_call env (\<lambda>fs b. budget_release fs b (re_LeaseID r)))
       (\<lambda>err. pseq (report env (RpDegraded ''usage_budget_write_failed'')) (Done (Some err)))
     (pcheck (journal_call env (\<lambda>fs. queue_remove fs (re_RunnerName r)))
       (\<lambda>err. pseq (report env (RpDegraded ''runner_retirement_state_failed'')) (Done (Some err)))
     (pseq (reportRetirements env) (Done None))))"

text \<open>The worker literal with only a lease id and a runner name.\<close>

definition leaseWorker :: "retirementEntry \<Rightarrow> worker" where
  "leaseWorker r = zeroWorker\<lparr>w_LeaseID := re_LeaseID r, w_RunnerName := re_RunnerName r\<rparr>"

definition cleanupJITGenerationFailure :: "scalerConfig \<Rightarrow> 'w env \<Rightarrow> retirementEntry \<Rightarrow> goerr
    \<Rightarrow> ('w sys, goerr option) prog" where
  "cleanupJITGenerationFailure cfg env r generationErr =
     pbind (getRunnerByName env (re_RunnerName r)) (\<lambda>found.
     case found of
       Inl err \<Rightarrow> Done (errors_Join [Some generationErr, Some (ErrWrap ''resolve ambiguous JIT generation'' err)])
     | Inr None \<Rightarrow>
         pcheck (journal_call env (\<lambda>fs. queue_remove fs (re_RunnerName r)))
           (\<lambda>err. Done (errors_Join [Some generationErr, Some err]))
         (pseq (reportRetirements env)
         (pcheck (budget_call env (\<lambda>fs b. budget_release fs b (re_LeaseID r)))
           (\<lambda>err. Done (errors_Join [Some generationErr, Some err]))
         (Done (Some generationErr))))
     | Inr (Some runner) \<Rightarrow>
         if rr_Name runner \<noteq> re_RunnerName r
            \<or> (rr_RunnerScaleSetID runner \<noteq> 0 \<and> rr_RunnerScaleSetID runner \<noteq> re_RunnerScaleSetID r)
           then Done (errors_Join [Some generationErr,
                  Some (ErrText ''ambiguous JIT generation returned an unexpected runner identity'')])
         else (let r' = r\<lparr>re_RunnerID := rr_ID runner\<rparr>
           in pcheck (journal_call env (\<lambda>fs. queue_put fs r'))
                (\<lambda>err. Done (errors_Join [Some generationErr, Some err]))
              (pcheck (finishRetirement cfg env (leaseWorker r') False r')
                (\<lambda>err. Done (errors_Join [Some generationErr, Some err]))
              (Done (Some generationErr)))))"

fun cleanup_ambiguous_workers :: "scalerConfig \<Rightarrow> 'w env \<Rightarrow> retirementEntry \<Rightarrow> worker option \<Rightarrow> bool \<Rightarrow> worker list
    \<Rightarrow> ('w sys, goerr + bool) prog" where
  "cleanup_ambiguous_workers cfg env r partial cleaned [] = Done (Inr cleaned)"
| "cleanup_ambiguous_workers cfg env r partial cleaned (w # ws) =
     (if w_LeaseID w \<noteq> re_LeaseID r \<or> (case partial of None \<Rightarrow> False | Some pw \<Rightarrow> w_ID w = w_ID pw)
        then cleanup_ambiguous_workers cfg env r partial cleaned ws
      else pcheck (retireWorker cfg env w True forfeitReservation zeroTime)
             (\<lambda>err. Done (Inl (ErrWrap ''clean up ambiguous worker'' err)))
           (cleanup_ambiguous_workers cfg env r partial True ws))"

definition cleanupAmbiguousLaunch :: "scalerConfig \<Rightarrow> 'w env \<Rightarrow> retirementEntry \<Rightarrow> goerr
    \<Rightarrow> ('w sys, goerr option) prog" where
  "cleanupAmbiguousLaunch cfg env r launchErr =
     (let partial = errors_As as_partial (Some launchErr)
      in pcheck (case partial of
                   None \<Rightarrow> Done None
                 | Some pw \<Rightarrow> if w_ID pw = [] then Done None
                              else retireWorker cfg env pw True forfeitReservation zeroTime)
           (\<lambda>err. Done (errors_Join [Some launchErr, Some (ErrWrap ''clean up partial worker'' err)]))
         (pbind (inventory env) (\<lambda>inv.
          case inv of
            Inl err \<Rightarrow> Done (errors_Join [Some launchErr, Some (ErrWrap ''inventory after ambiguous launch'' err)])
          | Inr workers \<Rightarrow>
              pbind (cleanup_ambiguous_workers cfg env r partial False workers) (\<lambda>cleaned.
              case cleaned of
                Inl err \<Rightarrow> Done (errors_Join [Some launchErr, Some err])
              | Inr True \<Rightarrow> Done None
              | Inr False \<Rightarrow>
                  pcheck (finishRetirement cfg env (leaseWorker r) False r)
                    (\<lambda>err. Done (errors_Join [Some launchErr,
                              Some (ErrWrap ''clean up ambiguous runner registration'' err)]))
                  (Done None)))))"

section \<open>Starting one worker\<close>

definition invalidRegistration :: "scaleSetRoute \<Rightarrow> string \<Rightarrow> runnerReference option \<Rightarrow> bool" where
  "invalidRegistration route name reg =
     (case reg of
        None \<Rightarrow> True
      | Some x \<Rightarrow> rr_ID x < 1 \<or> rr_Name x \<noteq> name
                 \<or> (rr_RunnerScaleSetID x \<noteq> 0 \<and> rr_RunnerScaleSetID x \<noteq> rt_id route))"

text \<open>From the launched worker on: confirm it in the ledger, count it, close its journal entry.\<close>

definition commitLaunch :: "scalerConfig \<Rightarrow> 'w env \<Rightarrow> retirementEntry \<Rightarrow> worker \<Rightarrow> ('w sys, bool \<times> goerr option) prog" where
  "commitLaunch cfg env r w0 =
     (let w1 = (if w_RunnerID w0 = 0 then w0\<lparr>w_RunnerID := re_RunnerID r\<rparr> else w0);
          w = (if w_RunnerScaleSetID w1 = 0 then w1\<lparr>w_RunnerScaleSetID := re_RunnerScaleSetID r\<rparr> else w1)
      in pbind (clock env) (\<lambda>now.
         pbind (budget_call env (\<lambda>fs b. budget_adopt fs b (re_LeaseID r) (w_CreatedAt w) now)) (\<lambda>adopted.
         case adopted of
           Some err \<Rightarrow>
             pseq (report env (RpDegraded ''usage_budget_write_failed''))
             (pbind (retireWorker cfg env w True forfeitReservation zeroTime) (\<lambda>cleanupErr.
              pseq (reportBudget env)
              (Done (False, errors_Join [Some (ErrWrap ''confirm launched worker in runner usage budget'' err), cleanupErr]))))
         | None \<Rightarrow>
             pseq (state_do (state_add w False))
             (pcheck (journal_call env (\<lambda>fs. queue_remove fs (re_RunnerName r)))
               (\<lambda>err. pseq (report env (RpDegraded ''runner_retirement_state_failed''))
                        (Done (False, Some (ErrWrap ''commit launched runner state'' err))))
             (pseq (reportRetirements env)
             (pseq (reportState cfg env)
             (pseq (reportBudget env)
             (pseq (report env RpRecovered)
             (Done (True, None))))))))))"

text \<open>A launch that failed: what the error class decides.\<close>

definition failedLaunch :: "scalerConfig \<Rightarrow> 'w env \<Rightarrow> retirementEntry \<Rightarrow> goerr \<Rightarrow> ('w sys, bool \<times> goerr option) prog" where
  "failedLaunch cfg env r err =
     (if IsCapacity (Some err)
      then pcheck (cleanupRejectedLaunch cfg env r)
             (\<lambda>cleanupErr. Done (False, Some (ErrWrap ''clean up capacity-rejected launch'' cleanupErr)))
           (pseq (reportBudget env) (Done (False, Some err)))
      else (let classified = classifyLaunchFailure (Some err)
            in pseq (if errors_As as_rejected classified = None
                     then report env (RpDegraded ''provider_launch_failed'') else Done ())
               (pcheck (cleanupAmbiguousLaunch cfg env r err)
                  (\<lambda>cleanupErr. Done (False, Some cleanupErr))
               (pseq (reportBudget env) (Done (False, classified))))))"

text \<open>From the journaled intent on: register the runner with GitHub, bind it, launch.\<close>

definition registerAndLaunch :: "scalerConfig \<Rightarrow> 'w env \<Rightarrow> scaleSetRoute \<Rightarrow> launcher \<Rightarrow> retirementEntry
    \<Rightarrow> ('w sys, bool \<times> goerr option) prog" where
  "registerAndLaunch cfg env route launch r0 =
     (let name = re_RunnerName r0
      in pbind (generateJitRunnerConfig env name (rt_id route)) (\<lambda>generated.
         case generated of
           Inl err \<Rightarrow> pbind (cleanupJITGenerationFailure cfg env r0 err) (\<lambda>e. Done (False, e))
         | Inr None \<Rightarrow>
             pbind (cleanupJITGenerationFailure cfg env r0 (ErrText ''GitHub returned an empty JIT runner response''))
               (\<lambda>e. Done (False, e))
         | Inr (Some jit) \<Rightarrow>
             pbind (if (case jc_Runner jit of None \<Rightarrow> True | Some x \<Rightarrow> rr_ID x < 1)
                    then getRunnerByName env name else Done (Inr (jc_Runner jit))) (\<lambda>registration.
             case registration of
               Inl err \<Rightarrow> Done (False, Some (ErrWrap ''resolve generated runner registration'' err))
             | Inr reg \<Rightarrow>
                 if invalidRegistration route name reg
                   then Done (False, Some (ErrText ''GitHub returned invalid identity for generated runner''))
                 else (let r = r0\<lparr>re_RunnerID := rr_ID (the reg)\<rparr>
                   in pcheck (journal_call env (\<lambda>fs. queue_put fs r))
                        (\<lambda>err. pseq (report env (RpDegraded ''runner_retirement_state_failed''))
                                 (Done (False, Some (ErrWrap ''bind generated runner registration'' err))))
                      (pseq (report env (RpStarting 1))
                      (pbind (clock env) (\<lambda>launchStarted.
                       pbind (clock env) (\<lambda>now.
                       pbind (launchLease env launch
                          \<lparr>l_ID = re_LeaseID r, l_RunnerName = name, l_RunnerID = re_RunnerID r,
                           l_RunnerScaleSetID = rt_id route, l_JITConfig = jc_EncodedJITConfig jit,
                           l_Deadline = now + (cf_maxLifetime cfg - 30 * second),
                           l_IdleTimeout = cf_idleTimeout cfg\<rparr>) (\<lambda>(w, launchErr).
                       pseq (report env (RpStarting (-1)))
                       (pbind (clock env) (\<lambda>launched.
                        pseq (report env (RpLatency True (time_sub launched launchStarted) (launchErr \<noteq> None)))
                        (case launchErr of
                           Some err \<Rightarrow> failedLaunch cfg env r err
                         | None \<Rightarrow> commitLaunch cfg env r w))))))))))))"

definition startWorker :: "scalerConfig \<Rightarrow> 'w env \<Rightarrow> scaleSetRoute \<Rightarrow> bool \<Rightarrow> ('w sys, bool \<times> goerr option) prog" where
  "startWorker cfg env route spare =
     pbind (world_call (env_newID env)) (\<lambda>leaseID.
     let name = ''runner-'' @ leaseID
     in pbind (clock env) (\<lambda>now.
        pbind (budget_call env (\<lambda>fs b. budget_reserve fs b leaseID now (cf_maxLifetime cfg))) (\<lambda>reserved.
        case reserved of
          Inl err \<Rightarrow>
            pseq (report env (RpDegraded ''usage_budget_write_failed''))
            (Done (False, Some (ErrWrap ''reserve runner usage budget'' err)))
        | Inr (allowed, next) \<Rightarrow>
            pseq (reportBudget env)
            (if \<not> allowed then Done (False, None)
             else
             pbind (getRunnerByName env name) (\<lambda>existing.
             let release = (\<lambda>problem. pbind (budget_call env (\<lambda>fs b. budget_release fs b leaseID)) (\<lambda>budgetErr.
                   Done (False, case budgetErr of None \<Rightarrow> Some problem
                                | Some e \<Rightarrow> errors_Join [Some problem, Some e])))
             in case existing of
                  Inl err \<Rightarrow> release (ErrWrap ''preflight runner registration'' err)
                | Inr (Some _) \<Rightarrow> release (ErrText ''generated runner name already exists'')
                | Inr None \<Rightarrow>
                    pbind (clock env) (\<lambda>requested.
                    let r = \<lparr>re_RunnerName = name, re_RunnerID = 0, re_RunnerScaleSetID = rt_id route,
                             re_LeaseID = leaseID, re_BudgetDisposition = forfeitReservation,
                             re_StoppedAt = zeroTime, re_RequestedAt = requested\<rparr>
                    in pbind (journal_call env (\<lambda>fs. queue_put fs r)) (\<lambda>journaled.
                       case journaled of
                         Some err \<Rightarrow>
                           pseq (report env (RpDegraded ''runner_retirement_state_failed''))
                           (pbind (clock env) (\<lambda>now'.
                            pbind (budget_call env (\<lambda>fs b. budget_forfeit fs b leaseID now')) (\<lambda>budgetErr.
                            Done (False, errors_Join [Some (ErrWrap ''journal runner registration intent'' err), budgetErr]))))
                       | None \<Rightarrow>
                           pseq (reportRetirements env)
                           (registerAndLaunch cfg env route
                              (if spare then LaunchSpare else rt_launch route) r))))))))"

section \<open>Starting several workers at once\<close>

record launchOutcome =
  lw_stopped :: bool
  lw_fatal :: "goerr option"
  lw_capacity :: "goerr option"
  lw_rejected :: "goerr option"

text \<open>What a finished goroutine does under the mutex.\<close>

definition launch_finish :: "bool \<times> goerr option \<Rightarrow> launchOutcome \<Rightarrow> launchOutcome" where
  "launch_finish res o' =
     (case res of
        (started, None) \<Rightarrow> if started then o' else o'\<lparr>lw_stopped := True\<rparr>
      | (started, Some err) \<Rightarrow>
          (let o1 = o'\<lparr>lw_stopped := True\<rparr>
           in if IsCapacity (Some err)
                then (if lw_capacity o1 = None then o1\<lparr>lw_capacity := Some err\<rparr> else o1)
              else if IsTransient (Some err) then o1
              else if errors_As as_rejected (Some err) \<noteq> None
                then (if lw_rejected o1 = None then o1\<lparr>lw_rejected := Some err\<rparr> else o1)
              else (if lw_fatal o1 = None then o1\<lparr>lw_fatal := Some err\<rparr> else o1)))"

text \<open>
  \<open>left\<close> iterations of the launching loop are still to come and the goroutines \<open>ts\<close> are
  in flight, at most \<open>limit\<close> of them.  At every point the scheduler chooses: the loop
  acquires a slot and either stops or starts another goroutine, or one goroutine
  takes its next step.  A goroutine that is done records its result and frees its slot.
\<close>

function launch_loop :: "('w sys, bool \<times> goerr option) prog \<Rightarrow> ('w \<Rightarrow> nat \<times> 'w) \<Rightarrow> nat \<Rightarrow> nat
    \<Rightarrow> ('w sys, bool \<times> goerr option) prog list \<Rightarrow> launchOutcome \<Rightarrow> 'w sys \<Rightarrow> launchOutcome \<times> 'w sys" where
  "launch_loop start sched limit left ts o' s =
     (if left = 0 \<and> ts = [] then (o', s)
      else (let k = fst (sched (sy_world s)); s1 = s\<lparr>sy_world := snd (sched (sy_world s))\<rparr>
            in if left > 0 \<and> length ts < limit \<and> (k = 0 \<or> ts = [])
                 then (if lw_stopped o' then launch_loop start sched limit 0 ts o' s1
                       else launch_loop start sched limit (left - 1) (ts @ [start]) o' s1)
               else if ts = [] then (o', s1)
               else (case ts ! (k mod length ts) of
                       Done res \<Rightarrow>
                         launch_loop start sched limit left
                           (take (k mod length ts) ts @ drop (Suc (k mod length ts)) ts) (launch_finish res o') s1
                     | Act f \<Rightarrow>
                         launch_loop start sched limit left (ts[k mod length ts := fst (f s1)]) o' (snd (f s1)))))"
  by pat_completeness auto

termination
proof (relation "inv_image (less_than <*lex*> mult psub) (\<lambda>(start, sched, limit, left, ts, o', s). (left, mset ts))",
    goal_cases)
  case 1
  show ?case by (intro wf_inv_image wf_lex_prod wf_less_than wf_mult wf_psub)
next
  case (4 start sched limit left ts o' s k s1 res)
  then show ?case using mset_remove_sub [of "k mod length ts" ts] by simp
next
  case (5 start sched limit left ts o' s k s1 f)
  then show ?case using mset_update_sub [of "k mod length ts" ts f] by simp
qed auto

declare launch_loop.simps [simp del]

definition launchWorkers :: "scalerConfig \<Rightarrow> 'w env \<Rightarrow> scaleSetRoute \<Rightarrow> int \<Rightarrow> bool \<Rightarrow> ('w sys, goerr option) prog" where
  "launchWorkers cfg env route needed spare =
     pbind (atom (launch_loop (startWorker cfg env route spare) (env_schedule env)
              (nat (max 1 (cf_launchConcurrency cfg))) (nat needed) []
              \<lparr>lw_stopped = False, lw_fatal = None, lw_capacity = None, lw_rejected = None\<rparr>)) (\<lambda>o'.
     pseq (if lw_capacity o' \<noteq> None
           then (if spare then Done ()
                 else recordLaunchGate env gateCapacity (CapacityReason (lw_capacity o')) (lw_capacity o'))
           else if lw_rejected o' \<noteq> None
           then recordLaunchGate env gateLaunch (launchRejectionReason (lw_rejected o')) (lw_rejected o')
           else Done ())
     (Done (lw_fatal o')))"

section \<open>Reconciliation with the provider\<close>

text \<open>
  The pending retirements are retried in the order of the journal.  A deferred or
  transient failure keeps the entry for the next round; any other stops the loop.
\<close>

fun inventory_by_name :: "worker gomap \<Rightarrow> worker list \<Rightarrow> goerr + worker gomap" where
  "inventory_by_name m [] = Inr m"
| "inventory_by_name m (w # ws) =
     (if map_of m (w_RunnerName w) \<noteq> None
        then Inl (ErrText ''provider inventory contains duplicate runner name'')
      else inventory_by_name (AList.update (w_RunnerName w) w m) ws)"

definition retirementWorker :: "worker gomap \<Rightarrow> workerState \<Rightarrow> retirementEntry \<Rightarrow> worker \<times> bool" where
  "retirementWorker byName st r =
     (case map_of byName (re_RunnerName r) of
        Some w \<Rightarrow> (w, True)
      | None \<Rightarrow>
          (case state_get (re_RunnerName r) st of
             Some record \<Rightarrow> (wr_Worker record, False)
           | None \<Rightarrow> (zeroWorker\<lparr>w_LeaseID := re_LeaseID r, w_RunnerName := re_RunnerName r,
                         w_RunnerID := re_RunnerID r, w_RunnerScaleSetID := re_RunnerScaleSetID r\<rparr>, False)))"

fun finish_retirements :: "scalerConfig \<Rightarrow> 'w env \<Rightarrow> worker gomap \<Rightarrow> retirementEntry list \<Rightarrow> ('w sys, goerr option) prog" where
  "finish_retirements cfg env byName [] = Done None"
| "finish_retirements cfg env byName (r # rs) =
     pbind (reads (\<lambda>s. retirementWorker byName (sy_state s) r)) (\<lambda>(w, providerPresent).
     pcheck (Done (validateWorkerRetirementProof w r)) (\<lambda>err. Done (Some err))
     (pcheck (finishRetirement cfg env w providerPresent r)
        (\<lambda>err. if errors_Is (Some err) ErrRetirementDeferred \<or> IsTransient (Some err)
               then finish_retirements cfg env byName rs
               else Done (Some (ErrWrap ''finish pending retirement'' err)))
     (finish_retirements cfg env byName rs)))"

definition finishPendingRetirements :: "scalerConfig \<Rightarrow> 'w env \<Rightarrow> worker list \<Rightarrow> ('w sys, goerr option) prog" where
  "finishPendingRetirements cfg env workers =
     (case inventory_by_name [] workers of
        Inl err \<Rightarrow> Done (Some err)
      | Inr byName \<Rightarrow>
          pbind (reads (\<lambda>s. queue_all (sy_retirements s))) (\<lambda>rs. finish_retirements cfg env byName rs))"

text \<open>\<^verbatim>\<open>!worker.CreatedAt.IsZero() && time.Since(worker.CreatedAt) > limit\<close>.\<close>

definition olderThan :: "'w env \<Rightarrow> worker \<Rightarrow> duration \<Rightarrow> ('w sys, bool) prog" where
  "olderThan env w limit =
     (if time_isZero (w_CreatedAt w) then Done False
      else pbind (clock env) (\<lambda>now. Done (time_sub now (w_CreatedAt w) > limit)))"

text \<open>\<^verbatim>\<open>logStopped\<close> without its log lines: which stop is remembered, and whether it is awaited.\<close>

definition logStopped :: "scalerConfig \<Rightarrow> worker \<Rightarrow> workerRecord option \<Rightarrow> gotime \<Rightarrow> ('w sys, unit) prog" where
  "logStopped cfg w record now =
     (let age = (if time_isZero (w_CreatedAt w) then 0
                 else duration_round (time_sub now (w_CreatedAt w)) second);
          st = toLower (trimSpace (w_State w))
      in case record of
           None \<Rightarrow> Done ()
         | Some rec \<Rightarrow>
             if st \<noteq> ''stopped'' \<and> st \<noteq> ''off'' then Done ()
             else if \<not> wr_Observed rec then state_do (state_markStopped rec now False)
             else if \<not> wr_Busy rec \<and> cf_idleTimeout cfg > 0 \<and> age \<ge> cf_idleTimeout cfg
               then state_do (state_markStopped rec now False)
             else state_do (state_markStopped rec now True))"

text \<open>
  The loop over the inventory: \<open>loc\<close> is the snapshot of the local workers, \<open>present\<close> the
  ids found present and \<open>retired\<close> the names retired so far.
\<close>

fun reconcile_workers :: "scalerConfig \<Rightarrow> 'w env \<Rightarrow> workerRecord gomap \<Rightarrow> string gomap \<Rightarrow> string list \<Rightarrow> string list
    \<Rightarrow> worker list \<Rightarrow> ('w sys, goerr + string list \<times> string list) prog" where
  "reconcile_workers cfg env loc byWorker present retired [] = Done (Inr (present, retired))"
| "reconcile_workers cfg env loc byWorker present retired (w # ws) =
     pbind (olderThan env w (cf_maxLifetime cfg)) (\<lambda>expired.
     if expired
     then pcheck (retireWorker cfg env w True settleActualUsage zeroTime)
            (\<lambda>err. Done (Inl (ErrWrap ''retire worker after maximum lifetime'' err)))
          (reconcile_workers cfg env loc byWorker present (w_RunnerName w # retired) ws)
     else if workerStopped (w_State w)
     then pcheck (retireWorker cfg env w True settleActualUsage zeroTime)
            (\<lambda>err. Done (Inl (ErrWrap ''retire stopped worker'' err)))
          (pbind (clock env) (\<lambda>now.
           pseq (logStopped cfg w
                   (case map_of loc (w_RunnerName w) of
                      Some rec \<Rightarrow> if w_ID (wr_Worker rec) = w_ID w then Some rec else None
                    | None \<Rightarrow> None) now)
           (reconcile_workers cfg env loc byWorker present (w_RunnerName w # retired) ws)))
     else
     pbind (case map_of loc (w_RunnerName w) of
              None \<Rightarrow> Done False
            | Some rec \<Rightarrow> if cf_danglingTimeout cfg > 0 \<and> wr_Observed rec \<and> \<not> wr_Busy rec
                          then olderThan env w (cf_danglingTimeout cfg) else Done False) (\<lambda>dangling.
     if dangling
     then pcheck (retireWorker cfg env w True settleActualUsage zeroTime)
            (\<lambda>err. Done (Inl (ErrWrap ''retire dangling worker'' err)))
          (reconcile_workers cfg env loc byWorker present (w_RunnerName w # retired) ws)
     else (case map_of byWorker (w_ID w) of
             Some name \<Rightarrow>
               pseq (state_do (state_markPresent name))
               (reconcile_workers cfg env loc byWorker (w_ID w # present) retired ws)
           | None \<Rightarrow>
               pbind (clock env) (\<lambda>now.
               pcheck (budget_call env (\<lambda>fs b. budget_adopt fs b (w_LeaseID w) (w_CreatedAt w) now))
                 (\<lambda>err. pseq (report env (RpDegraded ''usage_budget_write_failed''))
                          (Done (Inl (ErrWrap ''adopt runner usage budget'' err))))
               (pseq (state_do (state_adopt w))
               (reconcile_workers cfg env loc byWorker (w_ID w # present) retired ws))))))"

fun reconcile_absent :: "scalerConfig \<Rightarrow> 'w env \<Rightarrow> gotime \<Rightarrow> string list \<Rightarrow> string list \<Rightarrow> workerRecord gomap
    \<Rightarrow> ('w sys, goerr option) prog" where
  "reconcile_absent cfg env now present retired [] = Done None"
| "reconcile_absent cfg env now present retired ((name, rec) # rest) =
     (let w = wr_Worker rec;
          age = (if time_isZero (w_CreatedAt w) then 0 else time_sub now (w_CreatedAt w));
          maxLifetimeExpired = (cf_maxLifetime cfg > 0 \<and> age > cf_maxLifetime cfg);
          danglingExpired = (cf_danglingTimeout cfg > 0 \<and> wr_Observed rec \<and> \<not> wr_Busy rec \<and> age > cf_danglingTimeout cfg)
      in if name \<in> set retired \<or> w_ID w \<in> set present then reconcile_absent cfg env now present retired rest
         else if \<not> maxLifetimeExpired \<and> \<not> danglingExpired \<and> time_isZero (wr_MissingSince rec)
           then pseq (state_call (state_markMissing name now)) (reconcile_absent cfg env now present retired rest)
         else if \<not> maxLifetimeExpired \<and> \<not> danglingExpired \<and> time_sub now (wr_MissingSince rec) < inventoryAbsenceGrace
           then reconcile_absent cfg env now present retired rest
         else pcheck (retireWorker cfg env w False settleActualUsage zeroTime)
                (\<lambda>err. Done (Some (ErrWrap ''retire disappeared worker'' err)))
              (pseq (state_do (state_markDeparted rec now))
              (reconcile_absent cfg env now present retired rest)))"

text \<open>From the refreshed inventory on.\<close>

definition reconcile_inventory :: "scalerConfig \<Rightarrow> 'w env \<Rightarrow> worker list \<Rightarrow> ('w sys, goerr option) prog" where
  "reconcile_inventory cfg env workers =
     pbind (reads (\<lambda>s. state_all (sy_state s))) (\<lambda>loc.
     pbind (clock env) (\<lambda>t0.
     pseq (report env (RpOrphans (orphanCandidateCount workers loc (cf_maxLifetime cfg) t0)))
     (let byWorker = fold (\<lambda>(name, rec). AList.update (w_ID (wr_Worker rec)) name) loc []
      in pbind (reconcile_workers cfg env loc byWorker [] [] workers) (\<lambda>seen.
      case seen of
        Inl err \<Rightarrow> Done (Some err)
      | Inr (present, retired) \<Rightarrow>
          pbind (clock env) (\<lambda>now.
          pseq (state_do (state_pruneDeparted (now - departureMemory)))
          (pseq (state_call (state_takeOverdue (now - stoppedCompletionGrace)))
          (pcheck (reconcile_absent cfg env now present retired loc) (\<lambda>err. Done (Some err))
          (pseq (report env (RpOrphans 0))
          (pseq (reportState cfg env)
          (pseq (reportBudget env)
          (pseq (report env RpRecovered)
          (Done None))))))))))))"

definition reconcile :: "scalerConfig \<Rightarrow> 'w env \<Rightarrow> ('w sys, goerr option) prog" where
  "reconcile cfg env =
     pbind (inventory env) (\<lambda>inv.
     case inv of
       Inl err \<Rightarrow> pseq (report env (RpDegraded ''provider_inventory_failed''))
                    (Done (Some (ErrWrap ''inventory compute workers'' err)))
     | Inr workers \<Rightarrow>
         pbind (reads (\<lambda>s. queue_count (sy_retirements s))) (\<lambda>pending.
         if pending > 0
         then pcheck (finishPendingRetirements cfg env workers)
                (\<lambda>err. pseq (report env (RpDegraded ''runner_retirement_failed'')) (Done (Some err)))
              (pbind (inventory env) (\<lambda>again.
               case again of
                 Inl err \<Rightarrow> pseq (report env (RpDegraded ''provider_inventory_failed''))
                              (Done (Some (ErrWrap ''refresh inventory after runner retirement'' err)))
               | Inr workers' \<Rightarrow> reconcile_inventory cfg env workers'))
         else reconcile_inventory cfg env workers))"

section \<open>Recovery at start-up\<close>

fun recover_workers :: "'w env \<Rightarrow> worker list \<Rightarrow> ('w sys, goerr option) prog" where
  "recover_workers env [] = Done None"
| "recover_workers env (w # ws) =
     pbind (clock env) (\<lambda>now.
     pcheck (budget_call env (\<lambda>fs b. budget_adopt fs b (w_LeaseID w) (w_CreatedAt w) now))
       (\<lambda>err. pseq (report env (RpDegraded ''usage_budget_write_failed'')) (Done (Some err)))
     (pseq (state_do (state_adopt w)) (recover_workers env ws)))"

definition recover :: "scalerConfig \<Rightarrow> 'w env \<Rightarrow> ('w sys, goerr option) prog" where
  "recover cfg env =
     pbind (inventory env) (\<lambda>inv.
     case inv of
       Inl err \<Rightarrow> pseq (report env (RpDegraded ''provider_inventory_failed'')) (Done (Some err))
     | Inr workers0 \<Rightarrow>
         pcheck (finishPendingRetirements cfg env workers0)
           (\<lambda>err. pseq (report env (RpDegraded ''runner_retirement_failed'')) (Done (Some err)))
         (pbind (inventory env) (\<lambda>again.
          case again of
            Inl err \<Rightarrow> pseq (report env (RpDegraded ''provider_inventory_failed''))
                         (Done (Some (ErrWrap ''refresh inventory after recovering runner retirements'' err)))
          | Inr workers \<Rightarrow>
              pseq (report env (RpOrphans (int (length workers))))
              (pcheck (recover_workers env workers) (\<lambda>err. Done (Some err))
              (pbind (clock env) (\<lambda>now.
               pcheck (budget_call env (\<lambda>fs b. budget_reconcile fs b (set (map w_LeaseID workers)) now))
                 (\<lambda>err. pseq (report env (RpDegraded ''usage_budget_write_failed''))
                          (Done (Some (ErrWrap ''reconcile runner usage budget'' err))))
               (pseq (report env (RpOrphans 0))
               (pseq (reportState cfg env)
               (pseq (reportBudget env)
               (Done None))))))))))"

section \<open>The listener's handlers\<close>

definition speculate :: "scalerConfig \<Rightarrow> 'w env \<Rightarrow> scaleSetRoute \<Rightarrow> int \<Rightarrow> ('w sys, goerr option) prog" where
  "speculate cfg env route assignedJobs =
     (if \<not> cf_speculator cfg then Done None
      else pbind launchGateOpen (\<lambda>gateOpen.
      if \<not> gateOpen then Done None
      else pbind (world_call (env_spareRoom env)) (\<lambda>room.
      if room < 1 then Done None
      else pbind (reads (\<lambda>s. state_idleByStart (routeWorker cfg route) (env_fast env (sy_world s)) (sy_state s)))
             (\<lambda>(busy, fastIdle, slowIdle).
           pbind (reads (\<lambda>s. int (state_count (sy_state s)))) (\<lambda>fleet.
           let waiting = max 0 (assignedJobs - int busy);
               count = Min {waiting - int fastIdle, int slowIdle, room, cf_maxWorkers cfg - fleet}
           in if count < 1 then Done None else launchWorkers cfg env route count True)))))"

text \<open>The launches of a desired-count message, within the allowance of the gate.\<close>

definition scaleUp :: "scalerConfig \<Rightarrow> 'w env \<Rightarrow> scaleSetRoute \<Rightarrow> int \<Rightarrow> int \<Rightarrow> int \<Rightarrow> ('w sys, goerr option) prog" where
  "scaleUp cfg env route target current fleet =
     (if target > current
      then pbind (capacityAllowance env fleet (min (cf_maxWorkers cfg) (fleet + target - current)))
             (\<lambda>(needed, probing).
           if needed > 0
           then pcheck (launchWorkers cfg env route needed False) (\<lambda>err. Done (Some err))
                (pbind (reads (\<lambda>s. int (state_count (sy_state s)))) (\<lambda>count.
                 if probing \<and> count > fleet then pseq (clearLaunchGate env) (Done None) else Done None))
           else Done None)
      else Done None)"

definition handleDesiredRunnerCount :: "scalerConfig \<Rightarrow> 'w env \<Rightarrow> scaleSetRoute \<Rightarrow> int \<Rightarrow> ('w sys, int \<times> goerr option) prog" where
  "handleDesiredRunnerCount cfg env route assignedJobs =
     (let target = min (cf_maxWorkers cfg) (rt_minWorkers route + assignedJobs);
          answer = (\<lambda>err. pbind (reads (\<lambda>s. routeCount cfg route (sy_state s))) (\<lambda>n. Done (n, err)))
      in pseq (report env (RpDesired (rt_name route) assignedJobs target))
         (pcheck (reconcile cfg env)
            (\<lambda>err. if IsTransient (Some err) then answer None else answer (Some err))
         (pbind (reads (\<lambda>s. routeCounts cfg route (sy_state s))) (\<lambda>(current, fleet).
          pcheck (scaleUp cfg env route target current fleet)
            (\<lambda>err. answer (Some err))
          (pcheck (if rt_id route = cf_scaleSetID cfg then speculate cfg env route assignedJobs else Done None)
             (\<lambda>err. answer (Some err))
          (answer None))))))"

definition HandleDesiredRunnerCount :: "scalerConfig \<Rightarrow> 'w env \<Rightarrow> int \<Rightarrow> ('w sys, int \<times> goerr option) prog" where
  "HandleDesiredRunnerCount cfg env assignedJobs =
     pbind (handleDesiredRunnerCount cfg env (mainRoute cfg) assignedJobs) (\<lambda>(count, err). Done (count, failClosed err))"

record jobMessage =
  jm_RunnerName :: string
  jm_FinishTime :: gotime

definition handleJobStarted :: "scalerConfig \<Rightarrow> 'w env \<Rightarrow> jobMessage \<Rightarrow> ('w sys, goerr option) prog" where
  "handleJobStarted cfg env job =
     pseq (report env (RpGithubActivity ''job_started''))
     (pbind (state_call (state_markBusy (jm_RunnerName job))) (\<lambda>known.
      if \<not> known then pseq (state_call (state_markDepartedBusy (jm_RunnerName job))) (Done None)
      else pbind (reads (\<lambda>s. state_get (jm_RunnerName job) (sy_state s))) (\<lambda>rec.
           pseq (case rec of
                   None \<Rightarrow> Done ()
                 | Some r \<Rightarrow>
                     if time_isZero (w_CreatedAt (wr_Worker r)) then Done ()
                     else pbind (clock env) (\<lambda>now.
                          report env (RpLatency False (time_sub now (w_CreatedAt (wr_Worker r))) False)))
           (pseq (reportState cfg env) (Done None)))))"

definition HandleJobStarted :: "scalerConfig \<Rightarrow> 'w env \<Rightarrow> jobMessage \<Rightarrow> ('w sys, goerr option) prog" where
  "HandleJobStarted cfg env job = pbind (handleJobStarted cfg env job) (\<lambda>err. Done (failClosed err))"

definition handleJobCompleted :: "scalerConfig \<Rightarrow> 'w env \<Rightarrow> jobMessage \<Rightarrow> ('w sys, goerr option) prog" where
  "handleJobCompleted cfg env job =
     pseq (report env (RpGithubActivity ''job_completed''))
     (pbind (state_call (state_takeDeparted (jm_RunnerName job))) (\<lambda>departed.
      pbind (reads (\<lambda>s. state_get (jm_RunnerName job) (sy_state s))) (\<lambda>rec.
      case rec of
        None \<Rightarrow> Done None
      | Some r \<Rightarrow>
          pcheck (retireWorker cfg env (wr_Worker r) True settleActualUsage (workerStoppedAt (jm_FinishTime job)))
            (\<lambda>err. Done (Some (ErrWrap ''retire completed worker'' err)))
          (pseq (reportState cfg env)
          (pseq (reportBudget env)
          (pseq (report env RpRecovered)
          (Done None)))))))"

definition HandleJobCompleted :: "scalerConfig \<Rightarrow> 'w env \<Rightarrow> jobMessage \<Rightarrow> ('w sys, goerr option) prog" where
  "HandleJobCompleted cfg env job = pbind (handleJobCompleted cfg env job) (\<lambda>err. Done (failClosed err))"

text \<open>With two scale sets, each listener has a handler of its own; \<^verbatim>\<open>handlerMu\<close> makes it one step.\<close>

definition scaleSetHandler_HandleDesiredRunnerCount :: "scalerConfig \<Rightarrow> 'w env \<Rightarrow> scaleSetRoute \<Rightarrow> int
    \<Rightarrow> ('w sys, int \<times> goerr option) prog" where
  "scaleSetHandler_HandleDesiredRunnerCount cfg env route assignedJobs =
     atom (prun (pbind (handleDesiredRunnerCount cfg env route assignedJobs)
       (\<lambda>(count, err). Done (count, failClosed err))))"

definition scaleSetHandler_HandleJobStarted :: "scalerConfig \<Rightarrow> 'w env \<Rightarrow> jobMessage \<Rightarrow> ('w sys, goerr option) prog" where
  "scaleSetHandler_HandleJobStarted cfg env job =
     atom (prun (pbind (handleJobStarted cfg env job) (\<lambda>err. Done (failClosed err))))"

definition scaleSetHandler_HandleJobCompleted :: "scalerConfig \<Rightarrow> 'w env \<Rightarrow> jobMessage \<Rightarrow> ('w sys, goerr option) prog" where
  "scaleSetHandler_HandleJobCompleted cfg env job =
     atom (prun (pbind (handleJobCompleted cfg env job) (\<lambda>err. Done (failClosed err))))"

end
