(* ===== verification/Scaler_Invariants.thy ===== *)
theory Scaler_Invariants
  imports Scaler_Model
begin

text \<open>
  Invariants of the controller under every interleaving.  The locales state what a
  property of the shared state has to tolerate: one step of each component
  (\<open>sys_frame\<close>), also the removal of journal entries (\<open>sys_quiet\<close>), also the calls that
  create a registration or a worker (\<open>sys_invariant\<close>).  From that alone every program of
  the scaler that takes such steps, including the concurrent launches, keeps it.
\<close>

section \<open>Programs that remove no journal entry\<close>

locale sys_frame =
  fixes I :: "'w sys \<Rightarrow> bool"
  assumes keeps_world: "I s \<Longrightarrow> I (s\<lparr>sy_world := w\<rparr>)"
    and keeps_destroy: "I s \<Longrightarrow> I (s\<lparr>sy_calls := sy_calls s @ [CallDestroy i d]\<rparr>)"
    and keeps_removal: "I s \<Longrightarrow> I (s\<lparr>sy_calls := sy_calls s @ [CallRemoveRunner j d]\<rparr>)"
    and keeps_reporter: "I s \<Longrightarrow> I (s\<lparr>sy_reporter := r\<rparr>)"
    and keeps_gate: "I s \<Longrightarrow> I (s\<lparr>sy_gate := g\<rparr>)"
    and keeps_put: "I s \<Longrightarrow> I (s\<lparr>sy_retirements := snd (queue_put fs e (sy_retirements s))\<rparr>)"
    and keeps_state: "I s \<Longrightarrow> I (s\<lparr>sy_state := state_step sop (sy_state s)\<rparr>)"
    and keeps_budget: "I s \<Longrightarrow> I (s\<lparr>sy_budget := budget_step fs now bop (sy_budget s)\<rparr>)"
begin

lemma world_call [pkeeps_rules]: "pkeeps I (world_call g)"
  unfolding world_call_def by (rule pkeeps_atom) (auto simp: keeps_world split: prod.splits)

lemma traced_call_keeps:
  assumes "\<And>s. I s \<Longrightarrow> I (s\<lparr>sy_calls := sy_calls s @ [c s]\<rparr>)"
  shows "pkeeps I (traced_call c g)"
  unfolding traced_call_def
proof (rule pkeeps_atom)
  fix s assume "I s"
  have "s\<lparr>sy_world := w, sy_calls := x\<rparr> = s\<lparr>sy_calls := x, sy_world := w\<rparr>" for w x by simp
  then have "I (s\<lparr>sy_world := w, sy_calls := sy_calls s @ [c s]\<rparr>)" for w
    using keeps_world [OF assms [OF \<open>I s\<close>], of w] by metis
  then show "I (snd (case g (sy_world s) of (a, w) \<Rightarrow> (a, s\<lparr>sy_world := w, sy_calls := sy_calls s @ [c s]\<rparr>)))"
    by (simp split: prod.splits)
qed

lemma reads_keeps [pkeeps_rules]: "pkeeps I (reads f)"
  unfolding reads_def by (rule pkeeps_atom) simp

lemma report_keeps [pkeeps_rules]: "pkeeps I (report env rop)"
  unfolding report_def
proof (rule pkeeps_atom)
  fix s assume "I s"
  then have "I (s\<lparr>sy_reporter := r, sy_world := w\<rparr>)" for r w
    using keeps_reporter keeps_world [of "s\<lparr>sy_reporter := r\<rparr>"] by simp
  then show "I (snd (case env_now env (sy_world s) of (now, w) \<Rightarrow> (case env_fs env w of
     (fs, w') \<Rightarrow> ((), s\<lparr>sy_reporter := reporter_step now fs rop (sy_reporter s), sy_world := w'\<rparr>))))"
    by (simp split: prod.splits)
qed

lemma journal_call_keeps:
  assumes "\<And>fs s. I s \<Longrightarrow> I (s\<lparr>sy_retirements := snd (f fs (sy_retirements s))\<rparr>)"
  shows "pkeeps I (journal_call env f)"
  unfolding journal_call_def
proof (rule pkeeps_atom)
  fix s assume "I s"
  then have "I (s\<lparr>sy_retirements := snd (f fs (sy_retirements s)), sy_world := w\<rparr>)" for fs w
    using assms keeps_world [of "s\<lparr>sy_retirements := snd (f fs (sy_retirements s))\<rparr>"] by simp
  then show "I (snd (case env_fs env (sy_world s) of (fs, w) \<Rightarrow>
      (case f fs (sy_retirements s) of (a, q) \<Rightarrow> (a, s\<lparr>sy_retirements := q, sy_world := w\<rparr>))))"
    by (simp add: case_prod_beta)
qed

lemma journal_put [pkeeps_rules]: "pkeeps I (journal_call env (\<lambda>fs. queue_put fs e))"
  by (rule journal_call_keeps) (rule keeps_put)

lemma budget_call_keeps:
  assumes "\<And>fs b. \<exists>now bop. snd (f fs b) = budget_step fs now bop b"
  shows "pkeeps I (budget_call env f)"
  unfolding budget_call_def
proof (rule pkeeps_atom)
  fix s assume "I s"
  then have "I (s\<lparr>sy_budget := snd (f fs (sy_budget s)), sy_world := w\<rparr>)" for fs w
  proof -
    obtain now bop where "snd (f fs (sy_budget s)) = budget_step fs now bop (sy_budget s)" using assms by blast
    then show ?thesis
      using keeps_budget [OF \<open>I s\<close>, of fs now bop] keeps_world [of "s\<lparr>sy_budget := snd (f fs (sy_budget s))\<rparr>"] by simp
  qed
  then show "I (snd (case env_fs env (sy_world s) of (fs, w) \<Rightarrow>
      (case f fs (sy_budget s) of (a, b) \<Rightarrow> (a, s\<lparr>sy_budget := b, sy_world := w\<rparr>))))"
    by (simp add: case_prod_beta)
qed

lemma budget_reserve_keeps [pkeeps_rules]: "pkeeps I (budget_call env (\<lambda>fs b. budget_reserve fs b l now m))"
  by (rule budget_call_keeps, rule exI [of _ now], rule exI [of _ "OpReserve l m"]) simp

lemma budget_release_keeps [pkeeps_rules]: "pkeeps I (budget_call env (\<lambda>fs b. budget_release fs b l))"
  by (rule budget_call_keeps, rule exI [of _ 0], rule exI [of _ "OpRelease l"]) simp

lemma budget_forfeit_keeps [pkeeps_rules]: "pkeeps I (budget_call env (\<lambda>fs b. budget_forfeit fs b l now))"
  by (rule budget_call_keeps, rule exI [of _ now], rule exI [of _ "OpForfeit l"]) simp

lemma budget_settleAt_keeps [pkeeps_rules]: "pkeeps I (budget_call env (\<lambda>fs b. budget_settleAt fs b l t now))"
  by (rule budget_call_keeps, rule exI [of _ now], rule exI [of _ "OpSettle l t"]) simp

lemma budget_adopt_keeps [pkeeps_rules]: "pkeeps I (budget_call env (\<lambda>fs b. budget_adopt fs b l t now))"
  by (rule budget_call_keeps, rule exI [of _ now], rule exI [of _ "OpAdopt l t"]) simp

lemma budget_reconcile_keeps [pkeeps_rules]: "pkeeps I (budget_call env (\<lambda>fs b. budget_reconcile fs b ls now))"
  by (rule budget_call_keeps, rule exI [of _ now], rule exI [of _ "OpReconcile ls"]) simp

lemma state_call_keeps:
  assumes "\<And>st. \<exists>sop. snd (f st) = state_step sop st"
  shows "pkeeps I (state_call f)"
  unfolding state_call_def
proof (rule pkeeps_atom)
  fix s assume "I s"
  obtain sop where "snd (f (sy_state s)) = state_step sop (sy_state s)" using assms by blast
  then show "I (snd (case f (sy_state s) of (a, st) \<Rightarrow> (a, s\<lparr>sy_state := st\<rparr>)))"
    using keeps_state [OF \<open>I s\<close>, of sop] by (simp add: case_prod_beta)
qed

lemma state_remove_keeps [pkeeps_rules]: "pkeeps I (state_call (state_remove name))"
  by (rule state_call_keeps, rule exI [of _ "StRemove name"]) simp

lemma state_markBusy_keeps [pkeeps_rules]: "pkeeps I (state_call (state_markBusy name))"
  by (rule state_call_keeps, rule exI [of _ "StMarkBusy name"]) simp

lemma state_markDepartedBusy_keeps [pkeeps_rules]: "pkeeps I (state_call (state_markDepartedBusy name))"
  by (rule state_call_keeps, rule exI [of _ "StMarkDepartedBusy name"]) simp

lemma state_takeDeparted_keeps [pkeeps_rules]: "pkeeps I (state_call (state_takeDeparted name))"
  by (rule state_call_keeps, rule exI [of _ "StTakeDeparted name"]) simp

lemma state_takeOverdue_keeps [pkeeps_rules]: "pkeeps I (state_call (state_takeOverdue t))"
  by (rule state_call_keeps, rule exI [of _ "StTakeOverdue t"]) simp

lemma state_markMissing_keeps [pkeeps_rules]: "pkeeps I (state_call (state_markMissing name t))"
  by (rule state_call_keeps, rule exI [of _ "StMarkMissing name t"]) simp

lemma state_add_keeps [pkeeps_rules]: "pkeeps I (state_do (state_add w b))"
  unfolding state_do_def by (rule state_call_keeps, rule exI [of _ "StAdd w b"]) simp

lemma state_adopt_keeps [pkeeps_rules]: "pkeeps I (state_do (state_adopt w))"
  unfolding state_do_def by (rule state_call_keeps, rule exI [of _ "StAdopt w"]) simp

lemma state_markPresent_keeps [pkeeps_rules]: "pkeeps I (state_do (state_markPresent name))"
  unfolding state_do_def by (rule state_call_keeps, rule exI [of _ "StMarkPresent name"]) simp

lemma state_markStopped_keeps [pkeeps_rules]: "pkeeps I (state_do (state_markStopped r t a))"
  unfolding state_do_def by (rule state_call_keeps, rule exI [of _ "StMarkStopped r t a"]) simp

lemma state_markDeparted_keeps [pkeeps_rules]: "pkeeps I (state_do (state_markDeparted r t))"
  unfolding state_do_def by (rule state_call_keeps, rule exI [of _ "StMarkDeparted r t"]) simp

lemma state_pruneDeparted_keeps [pkeeps_rules]: "pkeeps I (state_do (state_pruneDeparted t))"
  unfolding state_do_def by (rule state_call_keeps, rule exI [of _ "StPruneDeparted t"]) simp

lemma capacityAllowance_keeps [pkeeps_rules]: "pkeeps I (capacityAllowance env current target)"
  unfolding capacityAllowance_def
  by (rule pkeeps_atom) (auto simp: Let_def keeps_world split: prod.splits)

lemma clock_keeps [pkeeps_rules]: "pkeeps I (clock env)"
  unfolding clock_def by (intro pkeeps_rules)

lemma inventory_keeps [pkeeps_rules]: "pkeeps I (inventory env)"
  unfolding inventory_def by (intro pkeeps_rules)

lemma getRunnerByName_keeps [pkeeps_rules]: "pkeeps I (getRunnerByName env name)"
  unfolding getRunnerByName_def by (intro pkeeps_rules)

lemma destroy_keeps [pkeeps_rules]: "pkeeps I (destroy env i)"
  unfolding destroy_def by (rule traced_call_keeps) (rule keeps_destroy)

lemma removeRunner_keeps [pkeeps_rules]: "pkeeps I (removeRunner env i)"
  unfolding removeRunner_def by (rule traced_call_keeps) (rule keeps_removal)

lemma reportScaleSets_keeps [pkeeps_rules]: "pkeeps I (reportScaleSets cfg env)"
  unfolding reportScaleSets_def by (intro pkeeps_rules)

lemma reportState_keeps [pkeeps_rules]: "pkeeps I (reportState cfg env)"
  unfolding reportState_def by (intro pkeeps_rules)

lemma reportRetirements_keeps [pkeeps_rules]: "pkeeps I (reportRetirements env)"
  unfolding reportRetirements_def by (intro pkeeps_rules)

lemma reportBudget_keeps [pkeeps_rules]: "pkeeps I (reportBudget env)"
  unfolding reportBudget_def by (intro pkeeps_rules)

lemma releaseGateStatus_keeps [pkeeps_rules]: "pkeeps I (releaseGateStatus env kind)"
  unfolding releaseGateStatus_def by (intro pkeeps_rules)

lemma recordLaunchGate_keeps [pkeeps_rules]: "pkeeps I (recordLaunchGate env kind reason err)"
  unfolding recordLaunchGate_def
  by (intro pkeeps_rules pkeeps_atom) (auto simp: keeps_gate split: prod.splits)

lemma clearLaunchGate_keeps [pkeeps_rules]: "pkeeps I (clearLaunchGate env)"
  unfolding clearLaunchGate_def by (intro pkeeps_rules pkeeps_atom) (simp add: keeps_gate)

lemma launchGateOpen_keeps [pkeeps_rules]: "pkeeps I launchGateOpen"
  unfolding launchGateOpen_def by (intro pkeeps_rules)

lemma destroyWorker_keeps [pkeeps_rules]: "pkeeps I (destroyWorker env w)"
  unfolding destroyWorker_def by (intro pkeeps_rules)

lemma removeRunnerRegistration_keeps [pkeeps_rules]: "pkeeps I (removeRunnerRegistration cfg env r)"
  unfolding removeRunnerRegistration_def by (intro pkeeps_rules)

lemma settleRetirement_keeps [pkeeps_rules]: "pkeeps I (settleRetirement env r)"
  unfolding settleRetirement_def by (intro pkeeps_rules)

end

section \<open>Programs that create nothing outside\<close>

locale sys_quiet = sys_frame +
  assumes keeps_remove: "I s \<Longrightarrow> I (s\<lparr>sy_retirements := snd (queue_remove fs name (sy_retirements s))\<rparr>)"
begin

lemma journal_remove [pkeeps_rules]: "pkeeps I (journal_call env (\<lambda>fs. queue_remove fs name))"
  by (rule journal_call_keeps) (rule keeps_remove)

lemma finishRetirement_keeps [pkeeps_rules]: "pkeeps I (finishRetirement cfg env w pp r)"
  unfolding finishRetirement_def by (intro pkeeps_rules)

lemma retireWorker_keeps [pkeeps_rules]: "pkeeps I (retireWorker cfg env w pp d t)"
  unfolding retireWorker_def by (intro pkeeps_rules)

lemma cleanupRejectedLaunch_keeps [pkeeps_rules]: "pkeeps I (cleanupRejectedLaunch cfg env r)"
  unfolding cleanupRejectedLaunch_def by (intro pkeeps_rules)

lemma cleanupJIT_keeps [pkeeps_rules]: "pkeeps I (cleanupJITGenerationFailure cfg env r e)"
  unfolding cleanupJITGenerationFailure_def by (intro pkeeps_rules)

lemma cleanup_workers_keeps [pkeeps_rules]: "pkeeps I (cleanup_ambiguous_workers cfg env r partial cleaned ws)"
  by (induction ws arbitrary: cleaned) (auto intro!: pkeeps_rules)

lemma cleanupAmbiguousLaunch_keeps [pkeeps_rules]: "pkeeps I (cleanupAmbiguousLaunch cfg env r e)"
  unfolding cleanupAmbiguousLaunch_def by (intro pkeeps_rules)

lemma commitLaunch_keeps [pkeeps_rules]: "pkeeps I (commitLaunch cfg env r w)"
  unfolding commitLaunch_def by (intro pkeeps_rules)

lemma failedLaunch_keeps [pkeeps_rules]: "pkeeps I (failedLaunch cfg env r e)"
  unfolding failedLaunch_def by (intro pkeeps_rules)

end

section \<open>All programs of the scaler\<close>

locale sys_invariant = sys_quiet +
  assumes keeps_generate: "I s \<Longrightarrow> I (s\<lparr>sy_calls := sy_calls s @ [CallGenerateJit n j d u]\<rparr>)"
    and keeps_launch: "I s \<Longrightarrow> I (s\<lparr>sy_calls := sy_calls s @ [CallLaunch l x d u]\<rparr>)"
begin

lemma generateJit_keeps [pkeeps_rules]: "pkeeps I (generateJitRunnerConfig env name i)"
  unfolding generateJitRunnerConfig_def by (rule traced_call_keeps) (rule keeps_generate)

lemma launchLease_keeps [pkeeps_rules]: "pkeeps I (launchLease env l x)"
  unfolding launchLease_def by (rule traced_call_keeps) (rule keeps_launch)

lemma registerAndLaunch_keeps [pkeeps_rules]: "pkeeps I (registerAndLaunch cfg env route l r)"
  unfolding registerAndLaunch_def by (intro pkeeps_rules)

lemma startWorker_keeps [pkeeps_rules]: "pkeeps I (startWorker cfg env route spare)"
  unfolding startWorker_def by (intro pkeeps_rules)

text \<open>Every interleaving of goroutines that keep the invariant keeps it.\<close>

lemma launch_loop_keeps:
  "pkeeps I start \<Longrightarrow> (\<And>t. t \<in> set ts \<Longrightarrow> pkeeps I t) \<Longrightarrow> I s
   \<Longrightarrow> I (snd (launch_loop start sched limit left ts o' s))"
proof (induction start sched limit left ts o' s rule: launch_loop.induct)
  case (1 start sched limit left ts o' s)
  define k where "k = fst (sched (sy_world s))"
  define s1 where "s1 = s\<lparr>sy_world := snd (sched (sy_world s))\<rparr>"
  have s1: "I s1" unfolding s1_def using "1.prems"(3) by (rule keeps_world)
  note IH = "1.IH" [OF _ k_def s1_def]
  consider (finished) "left = 0" "ts = []"
    | (loop) "\<not> (left = 0 \<and> ts = [])" "left > 0 \<and> length ts < limit \<and> (k = 0 \<or> ts = [])"
    | (idle) "\<not> (left = 0 \<and> ts = [])" "\<not> (left > 0 \<and> length ts < limit \<and> (k = 0 \<or> ts = []))" "ts = []"
    | (step) "\<not> (left = 0 \<and> ts = [])" "\<not> (left > 0 \<and> length ts < limit \<and> (k = 0 \<or> ts = []))" "ts \<noteq> []"
    by blast
  then show ?case
  proof cases
    case loop
    then show ?thesis
      using IH(1) [OF loop(1,2)] IH(2) [OF loop(1,2)] "1.prems"(1,2) s1
      by (subst launch_loop.simps) (auto simp: k_def s1_def Let_def)
  next
    case step
    let ?i = "k mod length ts"
    have i: "?i < length ts" using step(3) by simp
    then have ti: "pkeeps I (ts ! ?i)" using "1.prems"(2) by simp
    show ?thesis
    proof (cases "ts ! ?i")
      case (Done res)
      have "I (snd (launch_loop start sched limit left (take ?i ts @ drop (Suc ?i) ts) (launch_finish res o') s1))"
        using "1.prems"(1,2) s1 by (intro IH(3) [OF step Done]) (auto dest: in_set_takeD in_set_dropD)
      then show ?thesis using step Done by (subst launch_loop.simps) (auto simp: k_def s1_def Let_def)
    next
      case (Act f)
      then have f: "I (snd (f s1))" "pkeeps I (fst (f s1))" using ti s1 by (auto simp: pkeeps_Act_iff)
      have "I (snd (launch_loop start sched limit left (ts[?i := fst (f s1)]) o' (snd (f s1))))"
        using "1.prems"(1,2) f by (intro IH(4) [OF step Act]) (auto dest!: set_update_subset_insert [THEN subsetD])
      then show ?thesis using step Act by (subst launch_loop.simps) (auto simp: k_def s1_def Let_def)
    qed
  next
    case finished
    then show ?thesis using "1.prems"(3) by (subst launch_loop.simps) simp
  next
    case idle
    then show ?thesis using s1 by (subst launch_loop.simps) (auto simp: k_def s1_def Let_def)
  qed
qed

lemma launchWorkers_keeps [pkeeps_rules]: "pkeeps I (launchWorkers cfg env route needed spare)"
  unfolding launchWorkers_def
  by (intro pkeeps_rules pkeeps_atom launch_loop_keeps) auto

lemma finish_retirements_keeps [pkeeps_rules]: "pkeeps I (finish_retirements cfg env byName rs)"
  by (induction rs) (auto intro!: pkeeps_rules)

lemma finishPendingRetirements_keeps [pkeeps_rules]: "pkeeps I (finishPendingRetirements cfg env ws)"
  unfolding finishPendingRetirements_def by (intro pkeeps_rules)

lemma olderThan_keeps [pkeeps_rules]: "pkeeps I (olderThan env w d)"
  unfolding olderThan_def by (intro pkeeps_rules)

lemma logStopped_keeps [pkeeps_rules]: "pkeeps I (logStopped cfg w rec now)"
  unfolding logStopped_def by (intro pkeeps_rules)

lemma reconcile_workers_keeps [pkeeps_rules]: "pkeeps I (reconcile_workers cfg env loc byWorker present retired ws)"
  by (induction ws arbitrary: present retired) (simp_all only: reconcile_workers.simps, (intro pkeeps_rules | assumption)+)

lemma reconcile_absent_keeps [pkeeps_rules]: "pkeeps I (reconcile_absent cfg env now present retired rest)"
proof (induction rest)
  case (Cons x rest)
  then show ?case by (cases x) (simp only: reconcile_absent.simps, intro pkeeps_rules)
qed (simp add: pkeeps_Done)

lemma reconcile_keeps [pkeeps_rules]: "pkeeps I (reconcile cfg env)"
  unfolding reconcile_def reconcile_inventory_def by (intro pkeeps_rules)

lemma recover_workers_keeps [pkeeps_rules]: "pkeeps I (recover_workers env ws)"
  by (induction ws) (auto intro!: pkeeps_rules)

lemma recover_keeps [pkeeps_rules]: "pkeeps I (recover cfg env)"
  unfolding recover_def by (intro pkeeps_rules)

lemma speculate_keeps [pkeeps_rules]: "pkeeps I (speculate cfg env route n)"
  unfolding speculate_def by (intro pkeeps_rules)

lemma scaleUp_keeps [pkeeps_rules]: "pkeeps I (scaleUp cfg env route target current n)"
  unfolding scaleUp_def by (intro pkeeps_rules)

lemma handleDesired_keeps [pkeeps_rules]: "pkeeps I (handleDesiredRunnerCount cfg env route n)"
  unfolding handleDesiredRunnerCount_def by (intro pkeeps_rules)

lemma handleJobStarted_keeps [pkeeps_rules]: "pkeeps I (handleJobStarted cfg env job)"
  unfolding handleJobStarted_def by (intro pkeeps_rules)

lemma handleJobCompleted_keeps [pkeeps_rules]: "pkeeps I (handleJobCompleted cfg env job)"
  unfolding handleJobCompleted_def by (intro pkeeps_rules)

end

end
