(* ===== verification/Scaler_Example.thy ===== *)
theory Scaler_Example
  imports Scaler_Model
begin

text \<open>
  A concrete environment in which every call succeeds, a configuration and a state, at
  which the theorems about the scaler are instantiated.
\<close>

definition example_now :: gotime where
  "example_now = 1000 * hour"

definition example_worker :: worker where
  "example_worker = \<lparr>w_ID = ''vm1'', w_LeaseID = ''lease'', w_RunnerName = ''runner-0123abcd'', w_RunnerID = 7,
     w_RunnerScaleSetID = 1, w_State = ''started'', w_CreatedAt = 999 * hour + 30 * minute\<rparr>"

definition example_env :: "unit env" where
  "example_env = \<lparr>
     env_now = (\<lambda>w. (example_now, w)),
     env_newID = (\<lambda>w. (''89abcdef'', w)),
     env_fs = (\<lambda>w. (\<lambda>_. None, w)),
     env_schedule = (\<lambda>w. (0, w)),
     env_inventory = (\<lambda>w. (Inr [example_worker], w)),
     env_launch = (\<lambda>l x w. ((\<lparr>w_ID = ''vm2'', w_LeaseID = l_ID x, w_RunnerName = l_RunnerName x,
        w_RunnerID = l_RunnerID x, w_RunnerScaleSetID = l_RunnerScaleSetID x, w_State = ''started'',
        w_CreatedAt = example_now\<rparr>, None), w)),
     env_destroy = (\<lambda>i w. (None, w)),
     env_spareRoom = (\<lambda>w. (0, w)),
     env_fast = (\<lambda>w i. False),
     env_generateJit = (\<lambda>name i w. (Inr (Some \<lparr>jc_Runner = Some \<lparr>rr_ID = 8, rr_Name = name, rr_RunnerScaleSetID = i\<rparr>,
        jc_EncodedJITConfig = ''jit''\<rparr>), w)),
     env_getRunner = (\<lambda>name w. (Inr None, w)),
     env_removeRunner = (\<lambda>i w. (None, w))\<rparr>"

definition example_cfg :: scalerConfig where
  "example_cfg = \<lparr>cf_scaleSetName = ''main'', cf_scaleSetID = 1, cf_minWorkers = 0, cf_maxWorkers = 4,
     cf_launchConcurrency = 2, cf_maxLifetime = hour, cf_idleTimeout = 0, cf_danglingTimeout = 0,
     cf_ephemeral = None, cf_speculator = False\<rparr>"

definition example_sys :: "unit sys" where
  "example_sys = \<lparr>
     sy_state = \<lparr>ws_workers = [(''runner-0123abcd'', \<lparr>wr_Worker = example_worker, wr_Busy = True,
        wr_Observed = True, wr_MissingSince = zeroTime\<rparr>)], ws_departed = []\<rparr>,
     sy_budget = example_budget, sy_retirements = example_queue, sy_reporter = example_reporter,
     sy_gate = \<lparr>lg_kind = [], lg_effective = 0, lg_reason = [], lg_retryAt = zeroTime, lg_backoff = 0, lg_probe = None\<rparr>,
     sy_world = (), sy_calls = []\<rparr>"

lemma example_sys_queue: "queue_ok (sy_retirements example_sys)"
  using example_queue_ok by (simp add: example_sys_def)

lemma example_sys_state: "state_ok (sy_state example_sys)"
  by (simp add: state_ok_def example_sys_def gomap_ok_def example_worker_def)

end
