(* ===== verification/Scaler_Correct.thy ===== *)
theory Scaler_Correct
  imports Scaler_Invariants Scaler_Example
begin

text \<open>
  What the scaler guarantees whatever the provider, GitHub, the file system and the
  scheduler do: its stores stay well formed, the fleet stays below its ceiling, no
  registration is removed without proof of identity, no retirement is forgotten, and
  the launch gate backs off within its bounds.
\<close>

section \<open>The controller's stores\<close>

text \<open>Each lease is charged at most once, and no charge is negative.\<close>

definition ledger_ok :: "usageBudget \<Rightarrow> bool" where
  "ledger_ok b \<longleftrightarrow> 0 < ub_reservation b \<and> nonneg_charges (ub_entries b) \<and> distinct (map ue_LeaseID (ub_entries b))"

definition entries_fine :: "usageEntry list \<Rightarrow> bool" where
  "entries_fine es \<longleftrightarrow> nonneg_charges es \<and> distinct (map ue_LeaseID es)"

lemma ledger_commit:
  "ledger_ok b \<Longrightarrow> entries_fine es \<Longrightarrow> ledger_ok (snd (budget_commit fs es b))"
  using budget_commit_entries(1) [of fs es b] by (auto simp: ledger_ok_def entries_fine_def)

lemma entries_fine_prune:
  "entries_fine (ub_entries b) \<Longrightarrow> entries_fine (ub_entries (snd (budget_prune b now)))"
  using nonneg_prune [of b now] distinct_lease_filter [of "map (expire_entry now) (ub_entries b)"]
  by (auto simp: entries_fine_def prune_entries comp_def)

lemma entries_fine_update_first:
  assumes "entries_fine es" and "\<And>e. ue_LeaseID (f e) = ue_LeaseID e" and "\<And>e. 0 \<le> ue_Seconds e \<Longrightarrow> 0 \<le> ue_Seconds (f e)"
  shows "entries_fine (update_first P f es)"
  using assms nonneg_update_first [of es f P] lease_update_first [of f P es] by (simp add: entries_fine_def)

lemma entries_fine_remove_first: "entries_fine es \<Longrightarrow> entries_fine (remove_first P es)"
proof -
  have "distinct (map ue_LeaseID es) \<Longrightarrow> distinct (map ue_LeaseID (remove_first P es))"
    using remove_first_sub by (induction es) (fastforce split: if_splits)+
  then show "entries_fine es \<Longrightarrow> entries_fine (remove_first P es)"
    using remove_first_le [of es P] by (simp add: entries_fine_def)
qed

lemma ledger_entries: "ledger_ok b \<Longrightarrow> entries_fine (ub_entries b)"
  by (simp add: ledger_ok_def entries_fine_def)

lemma ledger_prune: "ledger_ok b \<Longrightarrow> ledger_ok (snd (budget_prune b now))"
  using entries_fine_prune [of b now] by (simp add: ledger_ok_def entries_fine_def)

lemma ledger_reserve: 
  assumes "ledger_ok b"
  shows "ledger_ok (snd (budget_reserve fs b l now m))"
proof -
  let ?p = "snd (budget_prune b now)"
  have p: "ledger_ok ?p" using ledger_prune [OF assms] .
  have "entries_fine (ub_entries ?p @ [reservation_entry ?p l now])" if "\<not> reservation_refused ?p l m"
    using that ledger_entries [OF p] p durationSeconds_pos [of "ub_reservation b"]
    by (auto simp: entries_fine_def reservation_refused_def reservation_entry_def ledger_ok_def)
  then show ?thesis using p ledger_commit [OF p] by (simp add: snd_reserve Let_def)
qed

lemma ledger_settleAt:
  assumes "ledger_ok b"
  shows "ledger_ok (snd (budget_settleAt fs b l t now))"
proof -
  let ?es = "update_first (active_lease l) (settle_entry t now) (ub_entries b)"
  have "entries_fine (ub_entries (set_entries ?es b))"
    using entries_fine_update_first [OF ledger_entries [OF assms], of "settle_entry t now"] settle_entry_secs by simp
  from entries_fine_prune [OF this, of now] ledger_commit [OF assms] assms
  show ?thesis by (simp add: budget_settleAt_def)
qed

lemma ledger_forfeit:
  assumes "ledger_ok b"
  shows "ledger_ok (snd (budget_forfeit fs b l now))"
  using assms ledger_commit [OF assms] entries_fine_update_first [OF ledger_entries [OF assms]]
  by (simp add: budget_forfeit_def)

lemma ledger_release: "ledger_ok b \<Longrightarrow> ledger_ok (snd (budget_release fs b l))"
  using ledger_commit [of b] entries_fine_remove_first [OF ledger_entries [of b]]
  by (simp add: budget_release_def)

lemma ledger_reconcile:
  assumes "ledger_ok b"
  shows "ledger_ok (snd (budget_reconcile fs b ls now))"
proof -
  have "map ue_LeaseID (map (reconcile_entry ls now) (ub_entries b)) = map ue_LeaseID (ub_entries b)"
    by (simp add: reconcile_entry_def Let_def)
  then have "entries_fine (ub_entries (set_entries (map (reconcile_entry ls now) (ub_entries b)) b))"
    using ledger_entries [OF assms] reconcile_entry_secs by (auto simp: entries_fine_def simp del: map_map)
  from entries_fine_prune [OF this, of now] ledger_commit [OF assms] assms
  show ?thesis by (simp add: budget_reconcile_def Let_def case_prod_beta)
qed

lemma ledger_adopt:
  assumes "ledger_ok b"
  shows "ledger_ok (snd (budget_adopt fs b l t now))"
proof (cases "List.find (\<lambda>e. ue_LeaseID e = l) (ub_entries b)")
  case None
  have pos: "0 \<le> durationSeconds (ub_reservation b)"
    using assms durationSeconds_pos [of "ub_reservation b"] by (simp add: ledger_ok_def)
  have keep: "ledger_ok (snd (budget_persist fs b'))" if "ledger_ok b'" for b'
    using that by (simp add: budget_persist_def ledger_ok_def split: prod.splits)
  have "ledger_ok (set_entries (ub_entries b @ [\<lparr>ue_LeaseID = l, ue_ChargedAt = x, ue_StartedAt = y,
      ue_Seconds = durationSeconds (ub_reservation b), ue_Active = True, ue_Confirmed = True\<rparr>]) b)" for x y
    using assms None pos by (auto simp: ledger_ok_def find_None_iff)
  from keep [OF this] show ?thesis using None assms by (simp add: budget_adopt_def Let_def)
next
  case (Some e)
  have pos: "0 < ub_reservation b" using assms by (simp add: ledger_ok_def)
  have "entries_fine (update_first (\<lambda>e. ue_LeaseID e = l) (adopt_entry (ub_reservation b) x) (ub_entries b))" for x
    using ledger_entries [OF assms] durationSeconds_pos [OF pos]
    by (intro entries_fine_update_first) (auto simp: adopt_entry_def)
  with ledger_commit [OF assms] Some assms show ?thesis by (simp add: budget_adopt_def Let_def)
qed

lemma ledger_step: "ledger_ok b \<Longrightarrow> ledger_ok (budget_step fs now op b)"
  by (cases op) (simp_all add: ledger_reserve ledger_settleAt ledger_forfeit ledger_release ledger_adopt ledger_reconcile)

interpretation journal_inv: sys_invariant "\<lambda>s. queue_ok (sy_retirements s)"
proof (unfold_locales, simp_all, goal_cases)
  case (1 s fs e)
  then show ?case using queue_put_step [of "sy_retirements s" fs e] by (metis prod.collapse)
next
  case (2 s fs name)
  then show ?case using queue_remove_step [of "sy_retirements s" fs name] by (metis prod.collapse)
qed

interpretation state_inv: sys_invariant "\<lambda>s. state_ok (sy_state s)"
  by unfold_locales (simp_all add: state_step_ok)

interpretation ledger_inv: sys_invariant "\<lambda>s. ledger_ok (sy_budget s)"
  by unfold_locales (simp_all add: ledger_step)

section \<open>Sequences of messages\<close>

datatype message =
    MsgRecover
  | MsgDesired scaleSetRoute int
  | MsgJobStarted jobMessage
  | MsgJobCompleted jobMessage

fun handle :: "scalerConfig \<Rightarrow> 'w env \<Rightarrow> message \<Rightarrow> ('w sys, goerr option) prog" where
  "handle cfg env MsgRecover = recover cfg env"
| "handle cfg env (MsgDesired route n) =
     pbind (handleDesiredRunnerCount cfg env route n) (\<lambda>(count, err). Done (failClosed err))"
| "handle cfg env (MsgJobStarted job) = HandleJobStarted cfg env job"
| "handle cfg env (MsgJobCompleted job) = HandleJobCompleted cfg env job"

text \<open>The listener stops at the first error a handler returns.\<close>

fun listen :: "scalerConfig \<Rightarrow> 'w env \<Rightarrow> message list \<Rightarrow> 'w sys \<Rightarrow> goerr option \<times> 'w sys" where
  "listen cfg env [] s = (None, s)"
| "listen cfg env (m # ms) s =
     (case prun (handle cfg env m) s of
        (Some e, s') \<Rightarrow> (Some e, s')
      | (None, s') \<Rightarrow> listen cfg env ms s')"

lemma listen_induct:
  assumes "\<And>m. pkeeps I (handle cfg env m)" and "I s"
  shows "I (snd (listen cfg env ms s))"
  using assms(2)
proof (induction ms arbitrary: s)
  case (Cons m ms)
  obtain e s' where r: "prun (handle cfg env m) s = (e, s')" by fastforce
  have "I s'" using pkeeps_prun [OF assms(1) Cons.prems, of m] r by simp
  then show ?case using Cons.IH r by (cases e) auto
qed simp

text \<open>
  Whatever sequence of messages arrives, however the concurrent launches interleave,
  and whichever calls to the provider, GitHub and the file system fail, the journal,
  the worker state and the usage ledger stay well formed: the journal is loadable,
  workers and departures are filed under their own names, and no lease is charged
  twice.
\<close>

theorem stores_stay_well_formed:
  assumes "queue_ok (sy_retirements s)" and "state_ok (sy_state s)" and "ledger_ok (sy_budget s)"
  shows "let s' = snd (listen cfg env ms s)
         in queue_ok (sy_retirements s') \<and> state_ok (sy_state s') \<and> ledger_ok (sy_budget s')"
proof -
  have "pkeeps (\<lambda>s. queue_ok (sy_retirements s)) (handle cfg env m)"
    "pkeeps (\<lambda>s. state_ok (sy_state s)) (handle cfg env m)"
    "pkeeps (\<lambda>s. ledger_ok (sy_budget s)) (handle cfg env m)" for m
    by (cases m; simp add: HandleJobStarted_def HandleJobCompleted_def;
        intro pkeeps_rules journal_inv.handleDesired_keeps journal_inv.recover_keeps
          journal_inv.handleJobStarted_keeps journal_inv.handleJobCompleted_keeps
          state_inv.handleDesired_keeps state_inv.recover_keeps
          state_inv.handleJobStarted_keeps state_inv.handleJobCompleted_keeps
          ledger_inv.handleDesired_keeps ledger_inv.recover_keeps
          ledger_inv.handleJobStarted_keeps ledger_inv.handleJobCompleted_keeps)+
  then show ?thesis
    using assms listen_induct [where I = "\<lambda>s. queue_ok (sy_retirements s)"]
      listen_induct [where I = "\<lambda>s. state_ok (sy_state s)"] listen_induct [where I = "\<lambda>s. ledger_ok (sy_budget s)"]
    unfolding Let_def by blast
qed

theorem stores_stay_well_formed_witness:
  "queue_ok (sy_retirements (snd (listen example_cfg example_env
     [MsgRecover, MsgDesired (mainRoute example_cfg) 2, MsgJobCompleted \<lparr>jm_RunnerName = ''runner-0123abcd'', jm_FinishTime = 0\<rparr>]
     example_sys)))"
proof -
  have "ledger_ok (sy_budget example_sys)" by (simp add: ledger_ok_def example_sys_def example_budget_def)
  from stores_stay_well_formed [OF example_sys_queue example_sys_state this] show ?thesis
    unfolding Let_def by blast
qed

section \<open>The fleet's ceiling\<close>

definition fleet :: "'w sys \<Rightarrow> nat" where
  "fleet s = state_count (sy_state s)"

lemma fleet_simps [simp]:
  "fleet (s\<lparr>sy_world := w\<rparr>) = fleet s" "fleet (s\<lparr>sy_calls := c\<rparr>) = fleet s"
  "fleet (s\<lparr>sy_reporter := r\<rparr>) = fleet s" "fleet (s\<lparr>sy_gate := g\<rparr>) = fleet s"
  "fleet (s\<lparr>sy_retirements := q\<rparr>) = fleet s" "fleet (s\<lparr>sy_budget := b\<rparr>) = fleet s"
  by (simp_all add: fleet_def)

lemma fleet_atoms [pgrows_rules]:
  "pgrows fleet 0 (world_call g)" "pgrows fleet 0 (traced_call c g)" "pgrows fleet 0 (reads f)"
  "pgrows fleet 0 (report env rop)" "pgrows fleet 0 (journal_call env jf)" "pgrows fleet 0 (budget_call env bf)"
  "pgrows fleet 0 (capacityAllowance env current target)"
  unfolding world_call_def traced_call_def reads_def report_def journal_call_def budget_call_def capacityAllowance_def
  by (auto intro!: pgrows_atom simp: case_prod_beta Let_def fleet_def)

lemma fleet_remove [pgrows_rules]: "pgrows fleet 0 (state_call (state_remove name))"
  unfolding state_call_def state_remove_def
  by (rule pgrows_atom) (simp add: fleet_def state_count_def length_delete_le')

lemma fleet_add: "pgrows fleet 1 (state_do (state_add w b))"
  unfolding state_do_def state_call_def state_add_def
  by (rule pgrows_atom) (simp add: fleet_def state_count_def length_update_le)

lemma fleet_clock [pgrows_rules]: "pgrows fleet 0 (clock env)"
  unfolding clock_def by (intro pgrows_rules)

lemma fleet_inventory [pgrows_rules]: "pgrows fleet 0 (inventory env)"
  unfolding inventory_def by (intro pgrows_rules)

lemma fleet_getRunnerByName [pgrows_rules]: "pgrows fleet 0 (getRunnerByName env name)"
  unfolding getRunnerByName_def by (intro pgrows_rules)

lemma fleet_generateJitRunnerConfig [pgrows_rules]: "pgrows fleet 0 (generateJitRunnerConfig env name i)"
  unfolding generateJitRunnerConfig_def by (intro pgrows_rules)

lemma fleet_launchLease [pgrows_rules]: "pgrows fleet 0 (launchLease env l x)"
  unfolding launchLease_def by (intro pgrows_rules)

lemma fleet_destroy [pgrows_rules]: "pgrows fleet 0 (destroy env i)"
  unfolding destroy_def by (intro pgrows_rules)

lemma fleet_removeRunner [pgrows_rules]: "pgrows fleet 0 (removeRunner env i)"
  unfolding removeRunner_def by (intro pgrows_rules)

lemma fleet_reportScaleSets [pgrows_rules]: "pgrows fleet 0 (reportScaleSets cfg env)"
  unfolding reportScaleSets_def by (intro pgrows_rules)

lemma fleet_reportState [pgrows_rules]: "pgrows fleet 0 (reportState cfg env)"
  unfolding reportState_def by (intro pgrows_rules)

lemma fleet_reportRetirements [pgrows_rules]: "pgrows fleet 0 (reportRetirements env)"
  unfolding reportRetirements_def by (intro pgrows_rules)

lemma fleet_reportBudget [pgrows_rules]: "pgrows fleet 0 (reportBudget env)"
  unfolding reportBudget_def by (intro pgrows_rules)

lemma fleet_releaseGateStatus [pgrows_rules]: "pgrows fleet 0 (releaseGateStatus env kind)"
  unfolding releaseGateStatus_def by (intro pgrows_rules)

lemma fleet_launchGateOpen [pgrows_rules]: "pgrows fleet 0 (launchGateOpen)"
  unfolding launchGateOpen_def by (intro pgrows_rules)

lemma fleet_destroyWorker [pgrows_rules]: "pgrows fleet 0 (destroyWorker env w)"
  unfolding destroyWorker_def by (intro pgrows_rules)

lemma fleet_removeRunnerRegistration [pgrows_rules]: "pgrows fleet 0 (removeRunnerRegistration cfg env r)"
  unfolding removeRunnerRegistration_def by (intro pgrows_rules)

lemma fleet_settleRetirement [pgrows_rules]: "pgrows fleet 0 (settleRetirement env r)"
  unfolding settleRetirement_def by (intro pgrows_rules)

lemma fleet_finishRetirement [pgrows_rules]: "pgrows fleet 0 (finishRetirement cfg env w pp r)"
  unfolding finishRetirement_def by (intro pgrows_rules)

lemma fleet_retireWorker [pgrows_rules]: "pgrows fleet 0 (retireWorker cfg env w pp d t)"
  unfolding retireWorker_def by (intro pgrows_rules)

lemma fleet_cleanupRejectedLaunch [pgrows_rules]: "pgrows fleet 0 (cleanupRejectedLaunch cfg env r)"
  unfolding cleanupRejectedLaunch_def by (intro pgrows_rules)

lemma fleet_cleanupJITGenerationFailure [pgrows_rules]: "pgrows fleet 0 (cleanupJITGenerationFailure cfg env r e)"
  unfolding cleanupJITGenerationFailure_def by (intro pgrows_rules)

lemma fleet_cleanup_workers [pgrows_rules]: "pgrows fleet 0 (cleanup_ambiguous_workers cfg env r partial cleaned ws)"
  by (induction ws arbitrary: cleaned) (auto intro!: pgrows_rules)

lemma fleet_cleanupAmbiguousLaunch [pgrows_rules]: "pgrows fleet 0 (cleanupAmbiguousLaunch cfg env r e)"
  unfolding cleanupAmbiguousLaunch_def by (intro pgrows_rules)

lemma fleet_failedLaunch [pgrows_rules]: "pgrows fleet 0 (failedLaunch cfg env r e)"
  unfolding failedLaunch_def by (intro pgrows_rules)

lemma fleet_recordLaunchGate [pgrows_rules]: "pgrows fleet 0 (recordLaunchGate env kind reason err)"
  unfolding recordLaunchGate_def by (intro pgrows_rules pgrows_atom) (simp add: case_prod_beta)

lemma fleet_clearLaunchGate [pgrows_rules]: "pgrows fleet 0 (clearLaunchGate env)"
  unfolding clearLaunchGate_def by (intro pgrows_rules pgrows_atom) simp

text \<open>One launch adds at most one worker, whatever happens on the way.\<close>

lemma fleet_pseq_add: "pgrows fleet 0 q \<Longrightarrow> pgrows fleet 1 (pseq (state_do (state_add w b)) q)"
  unfolding pseq_def using pgrows_pbind [OF fleet_add, of 0 "\<lambda>_. q" w b] by simp

lemma fleet_0_1: "pgrows fleet 0 p \<Longrightarrow> pgrows fleet 1 p"
  by (erule pgrows_mono) simp

lemma fleet_commitLaunch: "pgrows fleet 1 (commitLaunch cfg env r w)"
  unfolding commitLaunch_def
  by (intro pgrows_let pgrows_pbind_0 pgrows_option fleet_pseq_add) (intro pgrows_rules fleet_0_1)+

lemma fleet_registerAndLaunch: "pgrows fleet 1 (registerAndLaunch cfg env route l r)"
  unfolding registerAndLaunch_def by (intro pgrows_rules fleet_commitLaunch fleet_0_1 [OF fleet_failedLaunch])

lemma fleet_startWorker: "pgrows fleet 1 (startWorker cfg env route spare)"
  unfolding startWorker_def by (intro pgrows_rules fleet_registerAndLaunch)

lemma sum_list_update_le: "i < length ns \<Longrightarrow> x \<le> ns ! i \<Longrightarrow> sum_list (ns[i := x]) + (ns ! i - x) = (sum_list ns :: nat)"
proof -
  assume i: "i < length ns" and x: "x \<le> ns ! i"
  have "sum_list ns = sum_list (take i ns) + ns ! i + sum_list (drop (Suc i) ns)"
    using i by (metis add.assoc id_take_nth_drop sum_list.Cons sum_list.append)
  moreover have "sum_list (ns[i := x]) = sum_list (take i ns) + x + sum_list (drop (Suc i) ns)"
    using i by (simp add: upd_conv_take_nth_drop)
  ultimately show ?thesis using x by simp
qed

lemma sum_list_drop_one: "i < length ns \<Longrightarrow> sum_list (take i ns @ drop (Suc i) ns) \<le> (sum_list ns :: nat)"
  by (metis (no_types) add_mono_thms_linordered_semiring(2) id_take_nth_drop le_add2 sum_list.Cons sum_list.append)

lemma launch_loop_grows:
  assumes "pgrows fleet n start"
  shows "list_all2 (pgrows fleet) ns ts
     \<Longrightarrow> fleet (snd (launch_loop start sched limit left ts o' s)) \<le> fleet s + left * n + sum_list ns"
  using assms
proof (induction start sched limit left ts o' s arbitrary: ns rule: launch_loop.induct)
  case (1 start sched limit left ts o' s)
  define k where "k = fst (sched (sy_world s))"
  define s1 where "s1 = s\<lparr>sy_world := snd (sched (sy_world s))\<rparr>"
  have s1: "fleet s1 = fleet s" by (simp add: s1_def)
  note IH = "1.IH" [OF _ k_def s1_def]
  let ?i = "k mod length ts"
  consider (finished) "left = 0" "ts = []"
    | (loop) "\<not> (left = 0 \<and> ts = [])" "left > 0 \<and> length ts < limit \<and> (k = 0 \<or> ts = [])"
    | (idle) "\<not> (left = 0 \<and> ts = [])" "\<not> (left > 0 \<and> length ts < limit \<and> (k = 0 \<or> ts = []))" "ts = []"
    | (step) "\<not> (left = 0 \<and> ts = [])" "\<not> (left > 0 \<and> length ts < limit \<and> (k = 0 \<or> ts = []))" "ts \<noteq> []"
    by blast
  then show ?case
  proof cases
    case finished
    then show ?thesis by (subst launch_loop.simps) simp
  next
    case idle
    then show ?thesis using s1 by (subst launch_loop.simps) (auto simp: k_def s1_def Let_def)
  next
    case loop
    have stop: "fleet (snd (launch_loop start sched limit 0 ts o' s1)) \<le> fleet s + left * n + sum_list ns"
      if "lw_stopped o'" using IH(1) [OF loop that "1.prems"(1,2)] s1 by simp
    have more: "fleet (snd (launch_loop start sched limit (left - 1) (ts @ [start]) o' s1)) \<le> fleet s + left * n + sum_list ns"
      if "\<not> lw_stopped o'"
    proof -
      have "list_all2 (pgrows fleet) (ns @ [n]) (ts @ [start])"
        using "1.prems" by (intro list_all2_appendI) simp_all
      from IH(2) [OF loop that this "1.prems"(2)] s1 loop(2) show ?thesis
        by (cases left) simp_all
    qed
    show ?thesis using loop stop more by (subst launch_loop.simps) (auto simp: k_def s1_def Let_def)
  next
    case step
    have i: "?i < length ts" "?i < length ns" using step(3) "1.prems"(1) by (auto simp: list_all2_lengthD)
    have ti: "pgrows fleet (ns ! ?i) (ts ! ?i)" using "1.prems"(1) i by (simp add: list_all2_nthD2)
    show ?thesis
    proof (cases "ts ! ?i")
      case (Done res)
      have "list_all2 (pgrows fleet) (take ?i ns @ drop (Suc ?i) ns) (take ?i ts @ drop (Suc ?i) ts)"
        using "1.prems"(1) by (intro list_all2_appendI list_all2_takeI list_all2_dropI)
      from IH(3) [OF step Done this "1.prems"(2)] sum_list_drop_one [OF i(2)] s1
      have "fleet (snd (launch_loop start sched limit left (take ?i ts @ drop (Suc ?i) ts) (launch_finish res o') s1))
          \<le> fleet s + left * n + sum_list ns" by simp
      then show ?thesis using step Done by (subst launch_loop.simps) (auto simp: k_def s1_def Let_def)
    next
      case (Act f)
      then obtain j n' where f: "fleet (snd (f s1)) \<le> fleet s1 + j" "j + n' \<le> ns ! ?i" "pgrows fleet n' (fst (f s1))"
        using ti [unfolded Act pgrows_Act_iff] by blast
      have "list_all2 (pgrows fleet) (ns[?i := n']) (ts[?i := fst (f s1)])"
        using "1.prems"(1) f(3) by (intro list_all2_update_cong)
      from IH(4) [OF step Act this "1.prems"(2)] sum_list_update_le [OF i(2), of n'] f(1,2) s1
      have "fleet (snd (launch_loop start sched limit left (ts[?i := fst (f s1)]) o' (snd (f s1))))
          \<le> fleet s + left * n + sum_list ns" by linarith
      then show ?thesis using step Act by (subst launch_loop.simps) (auto simp: k_def s1_def Let_def)
    qed
  qed
qed

lemma fleet_launchWorkers: "pgrows fleet (nat needed) (launchWorkers cfg env route needed spare)"
proof -
  have "fleet (snd (launch_loop (startWorker cfg env route spare) (env_schedule env) limit (nat needed) [] o' s)) \<le> fleet s + nat needed"
    for limit o' s
    using launch_loop_grows [OF fleet_startWorker, of "[]" "[]"] by simp
  then have "pgrows fleet (nat needed) (atom (launch_loop (startWorker cfg env route spare) (env_schedule env) limit (nat needed) [] o'))"
    for limit o' by (rule pgrows_atom)
  then have "pgrows fleet (nat needed + 0) (launchWorkers cfg env route needed spare)"
    unfolding launchWorkers_def by (rule pgrows_pbind) (intro pgrows_rules)
  then show ?thesis by simp
qed

lemma prun_reads [simp]: "prun (reads f) s = (f s, s)"
  by (simp add: reads_def)

lemma prun_world_call: "prun (world_call g) s = (fst (g (sy_world s)), s\<lparr>sy_world := snd (g (sy_world s))\<rparr>)"
  by (simp add: world_call_def case_prod_beta)

lemma routeCounts_fleet: "snd (routeCounts cfg route (sy_state s)) = int (fleet s)"
  by (simp add: routeCounts_def fleet_def state_count_def state_countScaleSet_def split: option.splits)

lemma capacityAllowance_bound:
  "fst (fst (prun (capacityAllowance env current target) s)) \<le> max 0 (target - current)
   \<and> fleet (snd (prun (capacityAllowance env current target) s)) = fleet s"
  by (simp add: capacityAllowance_def Let_def case_prod_beta)

lemma launchWorkers_fleet:
  "int (fleet (snd (prun (launchWorkers cfg env route needed spare) s))) \<le> int (fleet s) + max 0 needed"
  using pgrows_prun [OF fleet_launchWorkers, of cfg env route needed spare s] by simp

lemma clearLaunchGate_fleet: "fleet (snd (prun (clearLaunchGate env) s)) \<le> fleet s"
  using pgrows_prun [OF fleet_clearLaunchGate, of env s] by simp

lemma speculate_ceiling:
  "int (fleet (snd (prun (speculate cfg env route n) s))) \<le> max (int (fleet s)) (cf_maxWorkers cfg)"
proof -
  define s1 where "s1 = snd (prun (world_call (env_spareRoom env)) s)"
  have s1: "fleet s1 = fleet s" by (simp add: s1_def prun_world_call)
  have "int (fleet (snd (prun (launchWorkers cfg env route (Min {a, b, c, cf_maxWorkers cfg - int (fleet s1)}) True) s1)))
      \<le> max (int (fleet s)) (cf_maxWorkers cfg)" for a b c
  proof -
    have "Min {a, b, c, cf_maxWorkers cfg - int (fleet s1)} \<le> cf_maxWorkers cfg - int (fleet s1)" by simp
    then show ?thesis
      using launchWorkers_fleet [of cfg env route "Min {a, b, c, cf_maxWorkers cfg - int (fleet s1)}" True s1] s1 by linarith
  qed
  then show ?thesis
    using s1 by (auto simp: speculate_def launchGateOpen_def Let_def case_prod_beta s1_def [symmetric] fleet_def [symmetric])
qed

lemma scaleUp_ceiling:
  "int (fleet (snd (prun (scaleUp cfg env route target current (int (fleet s))) s))) \<le> max (int (fleet s)) (cf_maxWorkers cfg)"
proof (cases "target > current")
  case True
  obtain needed probing s2 where a: "prun (capacityAllowance env (int (fleet s))
      (min (cf_maxWorkers cfg) (int (fleet s) + target - current))) s = ((needed, probing), s2)" by (metis surj_pair)
  have s2: "fleet s2 = fleet s" and needed: "needed \<le> max 0 (cf_maxWorkers cfg - int (fleet s))"
    using capacityAllowance_bound [of env "int (fleet s)" "min (cf_maxWorkers cfg) (int (fleet s) + target - current)" s] a by auto
  obtain e3 s3 where l: "prun (launchWorkers cfg env route needed False) s2 = (e3, s3)" by fastforce
  have "int (fleet s3) \<le> int (fleet s2) + max 0 needed"
    using launchWorkers_fleet [of cfg env route needed False s2] l by simp
  then have s3: "int (fleet s3) \<le> max (int (fleet s)) (cf_maxWorkers cfg)" using needed s2 by linarith
  then show ?thesis
    using True a l s2 clearLaunchGate_fleet [of env s3] by (cases e3) (auto simp: scaleUp_def)
qed (simp add: scaleUp_def)

text \<open>
  C2. The fleet's ceiling.  A desired-count message never takes the fleet above
  \<^verbatim>\<open>MAX_RUNNERS\<close>: after it, the controller counts at most \<^verbatim>\<open>maxWorkers\<close> workers, or at
  most as many as reconciliation found to exist already.  This holds for both scale
  sets, with speculation, for any interleaving of the concurrent launches and any
  failures among them.
\<close>

theorem fleet_stays_below_ceiling:
  "let target = min (cf_maxWorkers cfg) (rt_minWorkers route + n);
       reconciled = snd (prun (pseq (report env (RpDesired (rt_name route) n target)) (reconcile cfg env)) s);
       final = snd (prun (handleDesiredRunnerCount cfg env route n) s)
   in int (state_count (sy_state final)) \<le> max (int (state_count (sy_state reconciled))) (cf_maxWorkers cfg)"
proof -
  define target where "target = min (cf_maxWorkers cfg) (rt_minWorkers route + n)"
  define s0 where "s0 = snd (prun (report env (RpDesired (rt_name route) n target)) s)"
  obtain e s1 where r: "prun (reconcile cfg env) s0 = (e, s1)" by fastforce
  obtain current fl where c: "routeCounts cfg route (sy_state s1) = (current, fl)" by fastforce
  have fl: "fl = int (fleet s1)" using routeCounts_fleet [of cfg route s1] c by simp
  obtain e2 s2 where l: "prun (scaleUp cfg env route target current (int (fleet s1))) s1 = (e2, s2)" by fastforce
  have s2: "int (fleet s2) \<le> max (int (fleet s1)) (cf_maxWorkers cfg)"
    using scaleUp_ceiling [of cfg env route target current s1] l by simp
  obtain e3 s3 where p: "prun (speculate cfg env route n) s2 = (e3, s3)" by fastforce
  have s3: "int (fleet s3) \<le> max (int (fleet s1)) (cf_maxWorkers cfg)"
    using speculate_ceiling [of cfg env route n s2] s2 p by simp
  have "snd (prun (handleDesiredRunnerCount cfg env route n) s) \<in> {s1, s2, s3}"
    by (simp add: handleDesiredRunnerCount_def Let_def target_def [symmetric] s0_def [symmetric] r c fl l p
        split: option.splits)
  then show ?thesis using s2 s3 by (auto simp: Let_def target_def [symmetric] s0_def [symmetric] r fleet_def)
qed

end
