(* ===== verification/Scaler_Retirement.thy ===== *)
theory Scaler_Retirement
  imports Scaler_Correct
begin

text \<open>
  Retirement of workers: an intent that was journaled is carried out or stays in the
  journal, a GitHub registration is removed only on proof of identity, and one
  inventory that misses a worker does not retire it.
\<close>

section \<open>Pending retirements\<close>

definition journaled :: "string \<Rightarrow> 'w sys \<Rightarrow> bool" where
  "journaled name s \<longleftrightarrow> map_of (rq_entries (sy_retirements s)) name \<noteq> None"

definition pending :: "string \<Rightarrow> 'w sys \<Rightarrow> bool" where
  "pending name s \<longleftrightarrow> queue_ok (sy_retirements s) \<and> journaled name s"

text \<open>Only \<^verbatim>\<open>remove\<close> takes an entry out of the journal.\<close>

lemma pending_put:
  assumes "pending name s"
  shows "pending name (s\<lparr>sy_retirements := snd (queue_put fs e (sy_retirements s))\<rparr>)"
proof -
  obtain err q where p: "queue_put fs e (sy_retirements s) = (err, q)" by fastforce
  show ?thesis
    using assms queue_put_step [OF _ p] p by (auto simp: pending_def journaled_def split: if_splits option.splits)
qed

interpretation pending: sys_frame "pending name" for name
  by unfold_locales (simp_all add: pending_put, simp_all add: pending_def journaled_def)

definition retired :: "string \<Rightarrow> 'w sys \<Rightarrow> bool" where
  "retired name s \<longleftrightarrow> queue_ok (sy_retirements s) \<and> \<not> journaled name s \<and> state_get name (sy_state s) = None"

lemma errors_Join_Some: "errors_Join (Some e # es) = Some (ErrJoin (e # List.map_filter id es))"
  by (simp add: List.map_filter_def)

lemma prun_journal_call:
  "prun (journal_call env f) s =
     (fst (f (fst (env_fs env (sy_world s))) (sy_retirements s)),
      s\<lparr>sy_retirements := snd (f (fst (env_fs env (sy_world s))) (sy_retirements s)), sy_world := snd (env_fs env (sy_world s))\<rparr>)"
  by (simp add: journal_call_def case_prod_beta)

lemma prun_state_call:
  "prun (state_call f) s = (fst (f (sy_state s)), s\<lparr>sy_state := snd (f (sy_state s))\<rparr>)"
  by (simp add: state_call_def case_prod_beta)

lemma journal_remove_outcome:
  "hoare (\<lambda>s. pending name s \<and> state_get name (sy_state s) = None)
     (seq (journal_call env (\<lambda>fs. queue_remove fs name)))
     (\<lambda>e s. case e of Some x \<Rightarrow> pending name s | None \<Rightarrow> retired name s)"
proof (rule hoareI, simp only: run_seq)
  fix s e s'
  assume P: "pending name s \<and> state_get name (sy_state s) = None"
    and run: "prun (journal_call env (\<lambda>fs. queue_remove fs name)) s = (e, s')"
  obtain err q where r: "queue_remove (fst (env_fs env (sy_world s))) name (sy_retirements s) = (err, q)" by fastforce
  have e: "e = err" "sy_retirements s' = q" "sy_state s' = sy_state s"
    using run r by (auto simp: prun_journal_call)
  have "queue_ok q \<and> map_of (rq_entries q) = (if err = None then spec_step (QRemove name) (map_of (rq_entries (sy_retirements s)))
      else map_of (rq_entries (sy_retirements s)))"
    using queue_remove_step [OF _ r] P by (simp add: pending_def)
  then show "case e of Some x \<Rightarrow> pending name s' | None \<Rightarrow> retired name s'"
    using P e by (auto simp: pending_def journaled_def retired_def split: option.splits)
qed

lemma state_remove_outcome:
  "hoare (pending name) (seq (state_call (state_remove name)))
     (\<lambda>_ s. pending name s \<and> state_get name (sy_state s) = None)"
  by (rule hoareI) (auto simp: prun_state_call state_remove_def state_get_def pending_def journaled_def)

lemma report_failed:
  "hoare (pending name) (seq (pseq (report env op) (Done (Some e)))) (\<lambda>err s. (err \<noteq> None \<and> pending name s) \<or> (err = None \<and> retired name s))"
  by (rule hoare_pseq [OF hoare_pkeeps [OF pending.report_keeps]]) (rule hoare_Done, simp)

lemma pkeeps_branch: "pkeeps I p \<Longrightarrow> hoare I (seq p) (\<lambda>e s. case e of Some x \<Rightarrow> I s | None \<Rightarrow> I s)"
  using hoare_pkeeps [of I p] by (simp add: hoare_seq_iff option.case_eq_if)

lemma report_keeps_retired: "retired name s \<Longrightarrow> retired name (snd (prun (reportRetirements env) s))"
  by (simp add: reportRetirements_def clock_def report_def prun_world_call case_prod_beta retired_def journaled_def)

lemma finishRetirement_outcome:
  "hoare (pending (re_RunnerName r)) (seq (finishRetirement cfg env w pp r))
     (\<lambda>err s. (err \<noteq> None \<and> pending (re_RunnerName r) s) \<or> (err = None \<and> retired (re_RunnerName r) s))"
  (is "hoare ?P _ ?Q")
proof -
  have deferred: "hoare ?P (seq (pseq (report env op) (Done (if b then errors_Join (Some x # xs) else Some e)))) ?Q" for op b x xs e
    by (rule hoare_pseq [OF hoare_pkeeps [OF pending.report_keeps]]) (rule hoare_Done, simp add: errors_Join_Some del: errors_Join.simps)
  have last: "hoare (retired (re_RunnerName r)) (seq (pseq (reportRetirements env) (Done None))) ?Q"
    using report_keeps_retired by (auto simp: hoare_seq_iff)
  have proof_failed: "hoare ?P (seq (Done (Some x))) ?Q" for x by (rule hoare_Done) simp
  have "pkeeps ?P (if pp then destroyWorker env w else Done None)"
    by (intro pkeeps_rules pending.destroyWorker_keeps)
  then show ?thesis
    unfolding finishRetirement_def
    by (intro hoare_pcheck [OF pkeeps_branch] hoare_pseq [OF state_remove_outcome]
        hoare_pcheck [OF journal_remove_outcome] report_failed deferred last proof_failed
        pkeeps_Done pending.removeRunnerRegistration_keeps pending.settleRetirement_keeps)
qed

text \<open>
  Finishing a journaled retirement is all or nothing for the journal: when it
  reports success the entry and the worker are gone, and when it reports any error,
  from the provider, from GitHub, from the ledger or from the journal's own file, the
  entry is still there for the next reconciliation.
\<close>

theorem finishRetirement_keeps_proof:
  assumes "queue_ok (sy_retirements s)" and "map_of (rq_entries (sy_retirements s)) (re_RunnerName r) \<noteq> None"
    and "prun (finishRetirement cfg env w providerPresent r) s = (err, s')"
  shows "(err \<noteq> None \<longrightarrow> map_of (rq_entries (sy_retirements s')) (re_RunnerName r) \<noteq> None)
       \<and> (err = None \<longrightarrow> map_of (rq_entries (sy_retirements s')) (re_RunnerName r) = None
                        \<and> state_get (re_RunnerName r) (sy_state s') = None)"
  using hoareD [OF finishRetirement_outcome, of r s cfg env w providerPresent err s'] assms
  by (auto simp: pending_def journaled_def retired_def)

theorem finishRetirement_keeps_proof_witness:
  "let (err, s') = prun (finishRetirement example_cfg example_env example_worker True example_entry) example_sys
   in err \<noteq> None \<longrightarrow> map_of (rq_entries (sy_retirements s')) ''runner-0123abcd'' \<noteq> None"
proof -
  have name: "re_RunnerName example_entry = ''runner-0123abcd''" by (simp add: example_entry_def)
  have "map_of (rq_entries (sy_retirements example_sys)) (re_RunnerName example_entry) \<noteq> None"
    by (simp add: name example_sys_def example_queue_def)
  from finishRetirement_keeps_proof [OF example_sys_queue this surjective_pairing] show ?thesis
    unfolding name by (simp add: case_prod_beta Let_def)
qed

section \<open>Retiring a worker\<close>






section \<open>Proof of identity\<close>

lemma put_disk:
  assumes "queue_ok q" and "queue_put fs e q = (None, q')" and "re_RunnerID e \<noteq> 0"
  shows "\<exists>l. rq_disk q' = FileContent l
     \<and> (\<exists>x \<in> set (rl_Entries l). re_RunnerName x = re_RunnerName e \<and> re_RunnerID x = re_RunnerID e)"
proof -
  have named: "entries_named (rq_entries q)" using assms(1) by (simp add: queue_ok_def)
  obtain x where x: "put_spec (map_of (rq_entries q)) e = Some x"
    using queue_put_commit [OF named, of fs e] assms(2) by (auto split: option.splits)
  let ?m = "AList.update (re_RunnerName e) x (rq_entries q)"
  have "commit queue_persistLocked rq_entries set_queue fs ?m q = (None, q')"
    using queue_put_commit [OF named, of fs e] assms(2) x by simp
  from commit_queue [OF this] have "rq_disk q' = FileContent (queue_ledger ?m)" by simp
  moreover have "map_of ?m (re_RunnerName e) = Some x" by simp
  then have "(re_RunnerName e, x) \<in> set ?m" by (rule map_of_SomeD)
  then have "x \<in> snd ` set ?m" by (rule rev_image_eqI) simp
  then have "x \<in> set (rl_Entries (queue_ledger ?m))" by (simp add: queue_ledger_def queue_sorted_def)
  moreover have "re_RunnerName x = re_RunnerName e" using put_spec_name [OF x named] by simp
  moreover have "re_RunnerID x = re_RunnerID e"
    using x assms(3) by (auto simp: put_spec_def put_merge_def split: option.splits if_splits)
  ultimately show ?thesis by blast
qed

text \<open>
  C29. A GitHub registration is removed only on proof of identity.  If
  \<^verbatim>\<open>removeRunnerRegistration\<close> calls \<^verbatim>\<open>RemoveRunner\<close>, then the scale set is one this controller
  serves, GitHub has just answered the lookup by name with a runner of that very name,
  in that scale set or without one, the removed id is that runner's and agrees with
  the id in the retirement entry, and when the entry had none, the id was written to
  the journal file before the call.  It makes no other call outside.
\<close>

theorem removal_needs_identity:
  assumes "queue_ok (sy_retirements s)" and "prun (removeRunnerRegistration cfg env r) s = (err, s')"
  shows "sy_calls s' = sy_calls s
    \<or> (\<exists>i disk runner. sy_calls s' = sy_calls s @ [CallRemoveRunner i disk]
         \<and> servesScaleSet cfg (re_RunnerScaleSetID r)
         \<and> fst (env_getRunner env (re_RunnerName r) (sy_world s)) = Inr (Some runner)
         \<and> rr_Name runner = re_RunnerName r
         \<and> (rr_RunnerScaleSetID runner = 0 \<or> rr_RunnerScaleSetID runner = re_RunnerScaleSetID r)
         \<and> i = rr_ID runner \<and> (re_RunnerID r = 0 \<or> re_RunnerID r = i)
         \<and> (re_RunnerID r = 0 \<and> i \<noteq> 0 \<longrightarrow> (\<exists>l. disk = FileContent l
              \<and> (\<exists>x \<in> set (rl_Entries l). re_RunnerName x = re_RunnerName r \<and> re_RunnerID x = i))))"
proof -
  define found where "found = fst (env_getRunner env (re_RunnerName r) (sy_world s))"
  define s1 where "s1 = s\<lparr>sy_world := snd (env_getRunner env (re_RunnerName r) (sy_world s))\<rparr>"
  have g: "prun (getRunnerByName env (re_RunnerName r)) s = (found, s1)"
    by (simp add: getRunnerByName_def prun_world_call found_def s1_def)
  have s1: "sy_calls s1 = sy_calls s" "sy_retirements s1 = sy_retirements s" by (simp_all add: s1_def)
  show ?thesis
  proof (cases "servesScaleSet cfg (re_RunnerScaleSetID r) \<and> (\<exists>runner. found = Inr (Some runner) \<and> rr_Name runner = re_RunnerName r
      \<and> (rr_RunnerScaleSetID runner = 0 \<or> rr_RunnerScaleSetID runner = re_RunnerScaleSetID r))")
    case False
    then show ?thesis using assms(2) g s1
      by (auto simp: removeRunnerRegistration_def split: if_splits sum.splits option.splits)
  next
    case True
    then obtain runner where runner: "found = Inr (Some runner)" "rr_Name runner = re_RunnerName r"
      "rr_RunnerScaleSetID runner = 0 \<or> rr_RunnerScaleSetID runner = re_RunnerScaleSetID r" by blast
    let ?r = "if re_RunnerID r = 0 then r\<lparr>re_RunnerID := rr_ID runner\<rparr> else r"
    obtain e2 s2 where bind: "prun (if re_RunnerID r = 0 then journal_call env (\<lambda>fs. queue_put fs ?r) else Done None) s1 = (e2, s2)"
      by fastforce
    have s2: "sy_calls s2 = sy_calls s"
      using bind s1 by (auto simp: prun_journal_call split: if_splits)
    have disk: "\<exists>l. rq_disk (sy_retirements s2) = FileContent l
        \<and> (\<exists>x \<in> set (rl_Entries l). re_RunnerName x = re_RunnerName r \<and> re_RunnerID x = rr_ID runner)"
      if "re_RunnerID r = 0" "rr_ID runner \<noteq> 0" "e2 = None"
    proof -
      have "queue_put (fst (env_fs env (sy_world s1))) (r\<lparr>re_RunnerID := rr_ID runner\<rparr>) (sy_retirements s1) = (None, sy_retirements s2)"
        using bind that by (auto simp: prun_journal_call intro: prod_eqI)
      from put_disk [OF _ this] assms(1) s1 that(2) show ?thesis by simp
    qed
    have "sy_calls s' = sy_calls s2 \<or> (e2 = None \<and> rr_ID runner = re_RunnerID ?r
        \<and> sy_calls s' = sy_calls s2 @ [CallRemoveRunner (re_RunnerID ?r) (rq_disk (sy_retirements s2))])"
      using assms(2) g True runner bind
      by (auto simp: removeRunnerRegistration_def removeRunner_def traced_call_def Let_def case_prod_beta split: if_splits option.splits)
    then show ?thesis using s2 disk True runner unfolding found_def by (auto split: if_splits)
  qed
qed

definition example_found_env :: "unit env" where
  "example_found_env = example_env\<lparr>env_getRunner :=
     (\<lambda>name w. (Inr (Some \<lparr>rr_ID = 7, rr_Name = name, rr_RunnerScaleSetID = 0\<rparr>), w))\<rparr>"

theorem removal_needs_identity_witness:
  "let s' = snd (prun (removeRunnerRegistration example_cfg example_found_env example_entry) example_sys)
   in sy_calls s' = [] \<or> (\<exists>disk. sy_calls s' = [CallRemoveRunner 7 disk])"
  using removal_needs_identity [OF example_sys_queue surjective_pairing, of example_cfg example_found_env example_entry]
  by (auto simp: Let_def example_found_env_def example_sys_def)

section \<open>Absence from one inventory\<close>

definition record_expired :: "scalerConfig \<Rightarrow> gotime \<Rightarrow> workerRecord \<Rightarrow> bool" where
  "record_expired cfg now rec \<longleftrightarrow>
     (let age = (if time_isZero (w_CreatedAt (wr_Worker rec)) then 0 else time_sub now (w_CreatedAt (wr_Worker rec)))
      in (cf_maxLifetime cfg > 0 \<and> age > cf_maxLifetime cfg)
       \<or> (cf_danglingTimeout cfg > 0 \<and> wr_Observed rec \<and> \<not> wr_Busy rec \<and> age > cf_danglingTimeout cfg))"

lemma keys_markMissing:
  "map fst (ws_workers (snd (state_markMissing name t st))) = map fst (ws_workers st)"
proof -
  have "map fst (AList.update k v m) = map fst m" if "map_of m k = Some y" for k v m y
    using that by (induction m) (auto split: if_splits)
  then show ?thesis by (auto simp: state_markMissing_def split: option.splits)
qed

text \<open>
  An eventually consistent inventory does not erase a worker.  If every local worker
  is within its lifetime and was not already missing for the absence grace, then the
  pass over the absent workers destroys and retires nothing, whatever the inventory
  left out: the same workers stay counted and no call is made outside.
\<close>

theorem absence_needs_confirmation:
  assumes "\<And>name rec. (name, rec) \<in> set loc \<Longrightarrow> \<not> record_expired cfg now rec
     \<and> (time_isZero (wr_MissingSince rec) \<or> time_sub now (wr_MissingSince rec) < inventoryAbsenceGrace)"
  shows "let (err, s') = prun (reconcile_absent cfg env now present gone loc) s
         in err = None \<and> sy_calls s' = sy_calls s \<and> sy_retirements s' = sy_retirements s
          \<and> map fst (ws_workers (sy_state s')) = map fst (ws_workers (sy_state s))"
  using assms
proof (induction loc arbitrary: s)
  case (Cons x loc)
  obtain name rec where x: "x = (name, rec)" by fastforce
  have fresh: "\<not> record_expired cfg now rec"
    "time_isZero (wr_MissingSince rec) \<or> time_sub now (wr_MissingSince rec) < inventoryAbsenceGrace"
    using Cons.prems [of name rec] x by auto
  let ?s = "s\<lparr>sy_state := snd (state_markMissing name now (sy_state s))\<rparr>"
  have "prun (reconcile_absent cfg env now present gone (x # loc)) s \<in>
      {prun (reconcile_absent cfg env now present gone loc) s, prun (reconcile_absent cfg env now present gone loc) ?s}"
    using fresh unfolding x by (auto simp: Let_def record_expired_def prun_state_call)
  moreover have "let (err, s') = prun (reconcile_absent cfg env now present gone loc) t
      in err = None \<and> sy_calls s' = sy_calls t \<and> sy_retirements s' = sy_retirements t
       \<and> map fst (ws_workers (sy_state s')) = map fst (ws_workers (sy_state t))" for t
    using Cons.prems by (intro Cons.IH) auto
  from this [of s] this [of ?s] show ?case
    using calculation keys_markMissing [of name now "sy_state s"] by (auto simp: Let_def case_prod_beta)
qed (simp add: Let_def)

theorem absence_needs_confirmation_witness:
  "sy_calls (snd (prun (reconcile_absent example_cfg example_env example_now [] [] (ws_workers (sy_state example_sys))) example_sys)) = []"
  using absence_needs_confirmation [of "ws_workers (sy_state example_sys)" example_cfg example_now example_env "[]" "[]" example_sys]
  by (simp add: example_sys_def record_expired_def example_worker_def example_cfg_def example_now_def
      time_isZero_def zeroTime_def time_sub_def minInt64_def maxInt64_def Let_def case_prod_beta)

end
