(* ===== verification/Scaler_Launch.thy ===== *)
theory Scaler_Launch
  imports Scaler_Retirement
begin

text \<open>
  Launching: nothing is registered with GitHub or started at the provider before the
  intent is in the journal file and its charge in the ledger file; the launch gate
  backs off within its bounds and holds launches back while it is closed.
\<close>

section \<open>Write-ahead\<close>

definition recorded :: "string \<Rightarrow> retirementLedger fileState \<Rightarrow> bool" where
  "recorded name disk \<longleftrightarrow>
     (\<exists>l. disk = FileContent l \<and> (\<exists>e \<in> set (rl_Entries l). re_RunnerName e = name))"

definition charged :: "string \<Rightarrow> usageLedger fileState \<Rightarrow> bool" where
  "charged leaseID disk \<longleftrightarrow>
     (\<exists>l. disk = FileContent l \<and> (\<exists>e \<in> set (ul_Entries l). ue_LeaseID e = leaseID \<and> ue_Active e))"

text \<open>A call that creates something outside is backed by both files.\<close>

fun backed :: "external_call \<Rightarrow> bool" where
  "backed (CallGenerateJit name i journal ledger) \<longleftrightarrow>
     recorded name journal \<and> (\<exists>leaseID. name = ''runner-'' @ leaseID \<and> charged leaseID ledger)"
| "backed (CallLaunch l x journal ledger) \<longleftrightarrow> recorded (l_RunnerName x) journal \<and> charged (l_ID x) ledger"
| "backed (CallDestroy i journal) \<longleftrightarrow> True"
| "backed (CallRemoveRunner i journal) \<longleftrightarrow> True"

definition calls_backed :: "external_call list \<Rightarrow> 'w sys \<Rightarrow> bool" where
  "calls_backed before s \<longleftrightarrow> (\<exists>new. sy_calls s = before @ new \<and> (\<forall>c \<in> set new. backed c))"

lemma calls_backed_append: "calls_backed before s \<Longrightarrow> backed c \<Longrightarrow> calls_backed before (s\<lparr>sy_calls := sy_calls s @ [c]\<rparr>)"
proof -
  assume "calls_backed before s" "backed c"
  then obtain new where "sy_calls s = before @ new" "\<forall>c \<in> set new. backed c" by (auto simp: calls_backed_def)
  then show "calls_backed before (s\<lparr>sy_calls := sy_calls s @ [c]\<rparr>)"
    using \<open>backed c\<close> unfolding calls_backed_def by (intro exI [of _ "new @ [c]"]) auto
qed

interpretation backed: sys_quiet "calls_backed before" for before
  by unfold_locales (simp_all add: calls_backed_append, simp_all add: calls_backed_def)

text \<open>The four stages of a launch, by what is durable.\<close>

definition stage0 :: "external_call list \<Rightarrow> 'w sys \<Rightarrow> bool" where
  "stage0 before s \<longleftrightarrow> calls_backed before s \<and> queue_ok (sy_retirements s)"

definition stage1 :: "external_call list \<Rightarrow> string \<Rightarrow> 'w sys \<Rightarrow> bool" where
  "stage1 before leaseID s \<longleftrightarrow> stage0 before s \<and> charged leaseID (ub_disk (sy_budget s))"

definition stage2 :: "external_call list \<Rightarrow> string \<Rightarrow> string \<Rightarrow> 'w sys \<Rightarrow> bool" where
  "stage2 before leaseID name s \<longleftrightarrow> stage1 before leaseID s \<and> recorded name (rq_disk (sy_retirements s))"

text \<open>Steps that only read, or only touch the reporter and the world, keep every stage.\<close>

definition silent :: "('w sys, 'a) prog \<Rightarrow> bool" where
  "silent p \<longleftrightarrow> (\<forall>s. sy_calls (snd (prun p s)) = sy_calls s \<and> sy_retirements (snd (prun p s)) = sy_retirements s
     \<and> sy_budget (snd (prun p s)) = sy_budget s)"

lemma silent_programs [simp]:
  "silent (report env op)" "silent (clock env)" "silent (world_call g)" "silent (reads f)"
  "silent (getRunnerByName env name)" "silent (Done a)"
  by (simp_all add: silent_def report_def clock_def prun_world_call getRunnerByName_def case_prod_beta)

lemma silent_pbind [simp]: "silent p \<Longrightarrow> (\<And>a. silent (k a)) \<Longrightarrow> silent (pbind p k)"
  by (simp add: silent_def case_prod_beta)

lemma silent_reports [simp]: "silent (reportBudget env)" "silent (reportRetirements env)"
  by (simp_all add: reportBudget_def reportRetirements_def)

lemma silent_stages:
  "silent p \<Longrightarrow> hoare (stage0 before) (seq p) (\<lambda>_. stage0 before)"
  "silent p \<Longrightarrow> hoare (stage1 before l) (seq p) (\<lambda>_. stage1 before l)"
  "silent p \<Longrightarrow> hoare (stage2 before l n) (seq p) (\<lambda>_. stage2 before l n)"
  by (simp_all add: hoare_seq_iff silent_def stage0_def stage1_def stage2_def calls_backed_def)

lemma hoare_drop:
  "pkeeps (calls_backed before) p \<Longrightarrow> (\<And>s. P s \<Longrightarrow> calls_backed before s) \<Longrightarrow> hoare P (seq p) (\<lambda>_. calls_backed before)"
  by (simp add: hoare_seq_iff pkeeps_prun)

lemma stage_calls:
  "stage0 before s \<Longrightarrow> calls_backed before s" "stage1 before l s \<Longrightarrow> calls_backed before s"
  "stage2 before l n s \<Longrightarrow> calls_backed before s"
  by (simp_all add: stage0_def stage1_def stage2_def)

lemma reserve_stage:
  "hoare (stage0 before) (seq (budget_call env (\<lambda>fs b. budget_reserve fs b leaseID now m)))
     (\<lambda>res s. case res of Inl e \<Rightarrow> stage0 before s
              | Inr (allowed, t) \<Rightarrow> if allowed then stage1 before leaseID s else stage0 before s)"
proof (rule hoareI, simp only: run_seq)
  fix s res s'
  assume P: "stage0 before s"
    and run: "prun (budget_call env (\<lambda>fs b. budget_reserve fs b leaseID now m)) s = (res, s')"
  obtain b' where r: "budget_reserve (fst (env_fs env (sy_world s))) (sy_budget s) leaseID now m = (res, b')"
      and s': "s' = s\<lparr>sy_budget := b', sy_world := snd (env_fs env (sy_world s))\<rparr>"
    using run by (auto simp: budget_call_def case_prod_beta) (metis prod.collapse)
  have "charged leaseID (ub_disk b')" if "res = Inr (True, t)" for t
  proof -
    let ?p = "snd (budget_prune (sy_budget s) now)"
    have "budget_commit (fst (env_fs env (sy_world s))) (ub_entries ?p @
        [\<lparr>ue_LeaseID = leaseID, ue_ChargedAt = now, ue_StartedAt = now, ue_Seconds = durationSeconds m, ue_Active = True, ue_Confirmed = False\<rparr>]) ?p = (None, b')"
      using r that by (auto simp: budget_reserve_def Let_def split: if_splits prod.splits option.splits)
    from budget_commit_None [OF this] show ?thesis by (auto simp: charged_def budget_ledger_def)
  qed
  then show "case res of Inl e \<Rightarrow> stage0 before s'
      | Inr (allowed, t) \<Rightarrow> if allowed then stage1 before leaseID s' else stage0 before s'"
    using P s' by (auto simp: stage0_def stage1_def calls_backed_def split: sum.splits prod.splits)
qed

lemma put_stage:
  "hoare (stage1 before leaseID) (seq (journal_call env (\<lambda>fs. queue_put fs r)))
     (\<lambda>err s. case err of Some x \<Rightarrow> stage1 before leaseID s | None \<Rightarrow> stage2 before leaseID (re_RunnerName r) s)"
proof (rule hoareI, simp only: run_seq)
  fix s err s'
  assume P: "stage1 before leaseID s" and run: "prun (journal_call env (\<lambda>fs. queue_put fs r)) s = (err, s')"
  define fs where "fs = fst (env_fs env (sy_world s))"
  obtain q where p: "queue_put fs r (sy_retirements s) = (err, q)"
      and s': "s' = s\<lparr>sy_retirements := q, sy_world := snd (env_fs env (sy_world s))\<rparr>"
    using run unfolding fs_def by (auto simp: prun_journal_call) (metis prod.collapse)
  have ok: "queue_ok (sy_retirements s)" using P by (simp add: stage1_def stage0_def)
  have "recorded (re_RunnerName r) (rq_disk q)" if "err = None"
  proof -
    have named: "entries_named (rq_entries (sy_retirements s))" using ok by (simp add: queue_ok_def)
    have p': "queue_put fs r (sy_retirements s) = (None, q)" using p that by simp
    obtain x where x: "put_spec (map_of (rq_entries (sy_retirements s))) r = Some x"
      using queue_put_commit [OF named, of fs r] p' by (auto split: option.splits)
    have "commit queue_persistLocked rq_entries set_queue fs
        (AList.update (re_RunnerName r) x (rq_entries (sy_retirements s))) (sy_retirements s) = (None, q)"
      using queue_put_commit [OF named, of fs r] p' x by simp
    from commit_queue [OF this]
    have "rq_disk q = FileContent (queue_ledger (AList.update (re_RunnerName r) x (rq_entries (sy_retirements s))))" by simp
    moreover have "(re_RunnerName r, x) \<in> set (AList.update (re_RunnerName r) x (rq_entries (sy_retirements s)))"
      by (rule map_of_SomeD) simp
    then have "x \<in> snd ` set (AList.update (re_RunnerName r) x (rq_entries (sy_retirements s)))"
      by (rule rev_image_eqI) simp
    ultimately show ?thesis
      using put_spec_name [OF x named] by (auto simp: recorded_def queue_ledger_def queue_sorted_def)
  qed
  then show "case err of Some x \<Rightarrow> stage1 before leaseID s' | None \<Rightarrow> stage2 before leaseID (re_RunnerName r) s'"
    using P s' queue_put_step [OF ok p] by (auto simp: stage2_def stage1_def stage0_def calls_backed_def split: option.splits)
qed

text \<open>A creating call made from a state where both files are written is backed.\<close>

lemma generate_stage:
  "hoare (stage2 before leaseID (''runner-'' @ leaseID)) (seq (generateJitRunnerConfig env (''runner-'' @ leaseID) i))
     (\<lambda>_. stage2 before leaseID (''runner-'' @ leaseID))"
  by (rule hoareI)
    (auto simp: generateJitRunnerConfig_def traced_call_def stage2_def stage1_def stage0_def calls_backed_def case_prod_beta)

lemma launch_stage:
  "l_RunnerName x = name \<Longrightarrow> l_ID x = leaseID \<Longrightarrow>
   hoare (stage2 before leaseID name) (seq (launchLease env l x)) (\<lambda>_. calls_backed before)"
  by (rule hoareI)
    (auto simp: launchLease_def traced_call_def stage2_def stage1_def stage0_def calls_backed_def case_prod_beta)

text \<open>Silent steps before, and steps that create nothing after, can be skipped.\<close>

lemma hoare_silent_bind:
  "silent p \<Longrightarrow> (\<And>a. hoare (stage2 before l n) (seq (k a)) Q) \<Longrightarrow> hoare (stage2 before l n) (seq (pbind p k)) Q"
  by (rule hoare_pbind [OF silent_stages(3)])

lemma hoare_silent_seq:
  "silent p \<Longrightarrow> hoare (stage2 before l n) (seq k) Q \<Longrightarrow> hoare (stage2 before l n) (seq (pseq p k)) Q"
  by (rule hoare_pseq [OF silent_stages(3)])

lemma hoare_stage2_drop:
  "pkeeps (calls_backed before) p \<Longrightarrow> hoare (stage2 before l n) (seq p) (\<lambda>_. calls_backed before)"
  by (rule hoare_drop [OF _ stage_calls(3)])

lemma hoare_stage1_drop:
  "pkeeps (calls_backed before) p \<Longrightarrow> hoare (stage1 before l) (seq p) (\<lambda>_. calls_backed before)"
  by (rule hoare_drop [OF _ stage_calls(2)])

lemma hoare_stage0_drop:
  "pkeeps (calls_backed before) p \<Longrightarrow> hoare (stage0 before) (seq p) (\<lambda>_. calls_backed before)"
  by (rule hoare_drop [OF _ stage_calls(1)])

lemma hoare_seq_sum:
  "(\<And>a. x = Inl a \<Longrightarrow> hoare P (seq (p a)) Q) \<Longrightarrow> (\<And>b. x = Inr b \<Longrightarrow> hoare P (seq (q b)) Q)
   \<Longrightarrow> hoare P (seq (case x of Inl a \<Rightarrow> p a | Inr b \<Rightarrow> q b)) Q"
  by (cases x) auto

lemma hoare_seq_option:
  "(x = None \<Longrightarrow> hoare P (seq p) Q) \<Longrightarrow> (\<And>a. x = Some a \<Longrightarrow> hoare P (seq (q a)) Q)
   \<Longrightarrow> hoare P (seq (case x of None \<Rightarrow> p | Some a \<Rightarrow> q a)) Q"
  by (cases x) auto

lemma hoare_seq_if:
  "(b \<Longrightarrow> hoare P (seq p) Q) \<Longrightarrow> (\<not> b \<Longrightarrow> hoare P (seq q) Q) \<Longrightarrow> hoare P (seq (if b then p else q)) Q"
  by simp

lemma stage2_weaken:
  "hoare (stage1 before l) p Q \<Longrightarrow> hoare (stage2 before l n) p Q"
  by (simp add: hoare_def stage2_def)

lemma rebind_stage:
  assumes "re_RunnerName r = n" and "\<And>x. hoare (stage1 before l) (seq (h x)) Q" and "hoare (stage2 before l n) (seq k) Q"
  shows "hoare (stage2 before l n) (seq (pcheck (journal_call env (\<lambda>fs. queue_put fs r)) h k)) Q"
  using assms(1) by (intro hoare_pcheck [OF stage2_weaken [OF put_stage] assms(2)]) (simp add: assms(3))

lemma launch_backed:
  assumes "l_RunnerName x = n" "l_ID x = l" "\<And>a. pkeeps (calls_backed before) (k a)"
  shows "hoare (stage2 before l n) (seq (pbind (launchLease env la x) k)) (\<lambda>_. calls_backed before)"
  by (rule hoare_pbind [OF launch_stage [OF assms(1,2)]]) (rule hoare_pkeeps [OF assms(3)])

lemma registerAndLaunch_backed:
  assumes r: "re_RunnerName r = ''runner-'' @ leaseID" "re_LeaseID r = leaseID"
  shows "hoare (stage2 before leaseID (''runner-'' @ leaseID)) (seq (registerAndLaunch cfg env route l r)) (\<lambda>_. calls_backed before)"
  unfolding registerAndLaunch_def Let_def r
proof (rule hoare_pbind [OF generate_stage], rule hoare_seq_sum, goal_cases)
  case (2 generated generated')
  show ?case
  proof (rule hoare_seq_option, goal_cases)
    case (2 jit)
    have looked: "silent (if b then getRunnerByName env n else Done x)" for b n x by simp
    show ?case
    proof (rule hoare_silent_bind [OF looked], rule hoare_seq_sum, goal_cases)
      case (2 found reg)
      show ?case
      proof (rule hoare_seq_if, goal_cases)
        case 2
        show ?case
          by (rule rebind_stage, simp add: r, rule hoare_stage1_drop, intro pkeeps_rules)
            (intro hoare_silent_seq hoare_silent_bind silent_programs launch_backed; (intro pkeeps_rules | simp add: r))
      qed (rule hoare_stage2_drop, intro pkeeps_rules)
    qed (rule hoare_stage2_drop, intro pkeeps_rules)
  qed (rule hoare_stage2_drop, intro pkeeps_rules)
qed (rule hoare_stage2_drop, intro pkeeps_rules)

text \<open>From a granted reservation on.\<close>

lemma granted_backed:
  "hoare (stage1 before leaseID) (seq (pbind (getRunnerByName env name) (\<lambda>existing.
     case existing of Inl err \<Rightarrow> release err | Inr (Some x) \<Rightarrow> duplicate x
     | Inr None \<Rightarrow> pbind (clock env) (\<lambda>requested. pbind (journal_call env (\<lambda>fs. queue_put fs (r requested))) (\<lambda>journaled.
         case journaled of Some err \<Rightarrow> giveUp err | None \<Rightarrow> pseq (reportRetirements env) (go requested)))))) Q"
  if "\<And>e. hoare (stage1 before leaseID) (seq (release e)) Q"
    and "\<And>x. hoare (stage1 before leaseID) (seq (duplicate x)) Q"
    and "\<And>e. hoare (stage1 before leaseID) (seq (giveUp e)) Q"
    and "\<And>t. re_RunnerName (r t) = name" and "\<And>t. hoare (stage2 before leaseID name) (seq (go t)) Q"
proof (rule hoare_pbind [OF silent_stages(2)], simp, rule hoare_seq_sum, rule that(1), rule hoare_seq_option, goal_cases)
  case (1 existing b)
  show ?case
  proof (rule hoare_pbind [OF silent_stages(2)], simp, rule hoare_pbind [OF put_stage], goal_cases)
    case (1 requested err)
    show ?case
      using that(3,5) by (cases err) (simp_all add: that(4) hoare_silent_seq)
  qed
qed (rule that(2))

lemma startWorker_backed:
  "hoare (stage0 before) (seq (startWorker cfg env route spare)) (\<lambda>_. calls_backed before)"
  unfolding startWorker_def Let_def
proof (rule hoare_pbind [OF silent_stages(1)], simp, rule hoare_pbind [OF silent_stages(1)], simp,
    rule hoare_pbind [OF reserve_stage], goal_cases)
  case (1 leaseID now reserved)
  show ?case
  proof (cases reserved)
    case (Inl e)
    show ?thesis unfolding Inl sum.case by (rule hoare_stage0_drop) (intro pkeeps_rules)
  next
    case (Inr res)
    obtain allowed t where res: "res = (allowed, t)" by fastforce
    show ?thesis
    proof (cases allowed)
      case False
      show ?thesis unfolding Inr res sum.case prod.case using False
        by (simp only: if_False simp_thms if_True) (rule hoare_stage0_drop, intro pkeeps_rules)
    next
      case True
      show ?thesis unfolding Inr res sum.case prod.case using True
        by (simp only: if_False simp_thms if_True)
          (rule hoare_pseq [OF silent_stages(2)], simp, rule granted_backed;
            (rule hoare_stage1_drop, intro pkeeps_rules | rule registerAndLaunch_backed | simp); simp)
    qed
  qed
qed

text \<open>
  C1. Launches are written ahead.  Every call \<^verbatim>\<open>startWorker\<close> makes that creates something
  outside, the GitHub registration and the machine, is made only when the journal file
  already holds the retirement intent for that runner name and the ledger file an
  active charge for that lease; so a controller that dies at any point leaves proof of
  what it may have created.
\<close>

theorem launch_written_ahead:
  assumes "queue_ok (sy_retirements s)" and "prun (startWorker cfg env route spare) s = (res, s')"
  shows "\<exists>new. sy_calls s' = sy_calls s @ new \<and> (\<forall>c \<in> set new. backed c)"
proof -
  have "stage0 (sy_calls s) s" using assms(1) by (simp add: stage0_def calls_backed_def)
  then show ?thesis
    using hoareD [OF startWorker_backed, of "sy_calls s" s cfg env route spare res s'] assms(2) by (simp add: calls_backed_def)
qed

theorem launch_written_ahead_witness:
  "let s' = snd (prun (startWorker example_cfg example_env (mainRoute example_cfg) False) example_sys)
   in \<exists>new. sy_calls s' = sy_calls example_sys @ new \<and> (\<forall>c \<in> set new. backed c)"
  using launch_written_ahead [OF example_sys_queue surjective_pairing] unfolding Let_def .

section \<open>The launch gate\<close>

definition gate_ok :: "launchGate \<Rightarrow> bool" where
  "gate_ok gate \<longleftrightarrow> lg_backoff gate = 0 \<or> (capacityInitialBackoff \<le> lg_backoff gate \<and> lg_backoff gate \<le> capacityMaximumBackoff)"

lemmas gate_constants = capacityInitialBackoff_def capacityMaximumBackoff_def capacityMinimumRetry_def

lemma gate_wait_ok:
  "gate_ok gate \<Longrightarrow> gate_ok (snd (gate_wait kind hint gate))
     \<and> capacityMinimumRetry \<le> fst (gate_wait kind hint gate) \<and> fst (gate_wait kind hint gate) \<le> capacityMaximumBackoff"
  by (auto simp: gate_ok_def gate_wait_def gate_constants Let_def min_def max_def)

text \<open>
  What a rejected launch does to the gate.  From any state the gate can be in, one
  \<^verbatim>\<open>recordLaunchGate\<close> closes it at the present size of the fleet, for a wait between five
  seconds and fifteen minutes whatever the provider's hint says, with exactly one probe
  timer armed for the end of that wait; the backoff it keeps stays in its range.  It
  launches and removes nothing.
\<close>

theorem recordLaunchGate_closes:
  assumes "gate_ok (sy_gate s)" and "reason \<noteq> []"
  shows "let s' = snd (prun (recordLaunchGate env kind reason err) s); gate = sy_gate s'; now = fst (env_now env (sy_world s))
    in gate_ok gate \<and> lg_reason gate = reason \<and> lg_kind gate = kind \<and> lg_effective gate = int (state_count (sy_state s))
     \<and> (\<exists>wait. lg_probe gate = Some wait \<and> lg_retryAt gate = now + wait \<and> 5 * second \<le> wait \<and> wait \<le> 15 * minute)
     \<and> sy_state s' = sy_state s \<and> sy_calls s' = sy_calls s"
  using gate_wait_ok [OF assms(1), of kind "CapacityRetryAfter err"]
  by (auto simp: recordLaunchGate_def releaseGateStatus_def clock_def prun_world_call reads_def report_def case_prod_beta
      Let_def gate_ok_def gate_constants)

theorem recordLaunchGate_closes_witness:
  "lg_reason (sy_gate (snd (prun (recordLaunchGate example_env gateCapacity ''no_capacity'' None) example_sys))) = ''no_capacity''"
proof -
  have "gate_ok (sy_gate example_sys)" by (simp add: gate_ok_def example_sys_def)
  from recordLaunchGate_closes [OF this, of "''no_capacity''" example_env gateCapacity None] show ?thesis
    unfolding Let_def by simp
qed

text \<open>
  Repeated rejections without a hint back off exponentially: after \<open>n + 1\<close> of them in
  a row from an open gate, the wait is one minute doubled \<open>n\<close> times, at most fifteen
  minutes.
\<close>

theorem gate_backoff_doubles:
  assumes "hint \<le> 0" and "lg_backoff gate = 0"
  shows "fst (gate_wait kind hint (((\<lambda>g. snd (gate_wait kind hint g)) ^^ n) gate)) = min (2 ^ n * minute) (15 * minute)"
proof -
  let ?step = "\<lambda>g. snd (gate_wait kind hint g)"
  have first: "lg_backoff (?step g) = (if lg_backoff g = 0 then minute else min (lg_backoff g * 2) (15 * minute))"
      "fst (gate_wait kind hint g) = lg_backoff (?step g)" for g
    using assms(1) by (simp_all add: gate_wait_def gate_constants Let_def)
  have "lg_backoff ((?step ^^ Suc m) gate) = min (2 ^ m * minute) (15 * minute)" for m
  proof (induction m)
    case 0
    show ?case using first(1) [of gate] assms(2) by simp
  next
    case (Suc m)
    have pos: "(1::int) \<le> 2 ^ m" by simp
    have "lg_backoff ((?step ^^ Suc m) gate) \<noteq> 0" unfolding Suc.IH using pos by (simp add: min_def)
    then show ?case
      using first(1) [of "(?step ^^ Suc m) gate"] Suc.IH by (simp add: min_def)
  qed
  from this [of n] show ?thesis by (simp add: first(2))
qed

theorem gate_backoff_doubles_witness:
  "fst (gate_wait gateLaunch 0 (((\<lambda>g. snd (gate_wait gateLaunch 0 g)) ^^ 2) (sy_gate example_sys))) = 4 * minute"
  using gate_backoff_doubles [of 0 "sy_gate example_sys" gateLaunch 2] by (simp add: example_sys_def)

text \<open>
  A closed gate holds launches back.  While the gate is closed, the fleet is no
  smaller than the size it was closed at and the retry time has not come, neither the
  answer to a desired count nor the speculative use of spare room makes any call
  outside, and both leave the fleet, the ledger and the journal as they are.
\<close>

theorem closed_gate_holds_launches:
  assumes "lg_reason (sy_gate s) \<noteq> []" and "lg_effective (sy_gate s) \<le> n"
    and "fst (env_now env (sy_world s)) < lg_retryAt (sy_gate s)"
    and "p = scaleUp cfg env route target current n \<or> p = speculate cfg env route assignedJobs"
  shows "fst (prun p s) = None \<and> sy_calls (snd (prun p s)) = sy_calls s \<and> sy_state (snd (prun p s)) = sy_state s
    \<and> sy_budget (snd (prun p s)) = sy_budget s \<and> sy_retirements (snd (prun p s)) = sy_retirements s"
proof -
  have "\<exists>w. prun (capacityAllowance env n t) s = ((0, False), s\<lparr>sy_world := w\<rparr>)" for t
  proof (cases "t \<le> n")
    case True
    then show ?thesis by (intro exI [of _ "sy_world s"]) (simp add: capacityAllowance_def)
  next
    case False
    then show ?thesis using assms(1-3)
      by (intro exI [of _ "snd (env_now env (sy_world s))"]) (simp add: capacityAllowance_def Let_def case_prod_beta)
  qed
  then obtain w where w: "prun (capacityAllowance env n (min (cf_maxWorkers cfg) (n + target - current))) s
      = ((0, False), s\<lparr>sy_world := w\<rparr>)" by blast
  have "prun (speculate cfg env route assignedJobs) s = (None, s)"
    using assms(1) by (simp add: speculate_def launchGateOpen_def reads_def)
  moreover have "prun (scaleUp cfg env route target current n) s \<in> {(None, s), (None, s\<lparr>sy_world := w\<rparr>)}"
    by (simp add: scaleUp_def w)
  ultimately show ?thesis using assms(4) by auto
qed

theorem closed_gate_holds_launches_witness:
  "let gate = \<lparr>lg_kind = gateCapacity, lg_effective = 1, lg_reason = ''no_capacity'', lg_retryAt = 1001 * hour,
        lg_backoff = minute, lg_probe = Some minute\<rparr>
   in sy_calls (snd (prun (scaleUp example_cfg example_env (mainRoute example_cfg) 3 1 1) (example_sys\<lparr>sy_gate := gate\<rparr>))) = []"
proof -
  let ?s = "example_sys\<lparr>sy_gate := \<lparr>lg_kind = gateCapacity, lg_effective = 1, lg_reason = ''no_capacity'',
    lg_retryAt = 1001 * hour, lg_backoff = minute, lg_probe = Some minute\<rparr>\<rparr>"
  have "lg_reason (sy_gate ?s) \<noteq> []" "lg_effective (sy_gate ?s) \<le> 1"
    "fst (env_now example_env (sy_world ?s)) < lg_retryAt (sy_gate ?s)"
    by (simp_all add: example_env_def example_now_def)
  from closed_gate_holds_launches [OF this disjI1 [OF refl]] show ?thesis
    unfolding Let_def by (simp add: example_sys_def)
qed

end
