(* ===== verification/Scaler_Outage.thy ===== *)
theory Scaler_Outage
  imports Scaler_Retirement
begin

text \<open>
  One concrete run of \<^verbatim>\<open>cleanupAmbiguousLaunch\<close> (\<^verbatim>\<open>controller/scaler.go\<close>): a launch created a machine
  and failed, and the provider answers its deletion with a transient error.  The run
  forgets the machine: its journal entry is dropped although it is still there.
\<close>

section \<open>The situation\<close>








section \<open>The run\<close>













end
