(* ===== verification/Go_Filepath.thy ===== *)
theory Go_Filepath
  imports Go_Prelude "HOL-Library.Sublist"
begin

text \<open>
  Go's \<^verbatim>\<open>filepath.Match\<close> on Unix, for byte patterns and names: the matching of changed files
  against the path filters of the merge queue's required checks.  A malformed pattern
  matches nothing, which is how its caller reads the error.
\<close>

section \<open>Splitting the pattern\<close>

text \<open>\<^verbatim>\<open>scanChunk\<close> after the leading stars: up to the next star outside a character class.\<close>

fun scan_chunk :: "bool \<Rightarrow> string \<Rightarrow> string \<times> string" where
  "scan_chunk inrange [] = ([], [])"
| "scan_chunk inrange (c # cs) =
     (if c = CHR 0x5C
        then (case cs of [] \<Rightarrow> ([c], [])
              | d # ds \<Rightarrow> (case scan_chunk inrange ds of (chunk, rest) \<Rightarrow> (c # d # chunk, rest)))
      else if c = CHR ''*'' \<and> \<not> inrange then ([], c # cs)
      else (case scan_chunk (if c = CHR ''['' then True else if c = CHR '']'' then False else inrange) cs of
              (chunk, rest) \<Rightarrow> (c # chunk, rest)))"

definition scanChunk :: "string \<Rightarrow> bool \<times> string \<times> string" where
  "scanChunk pat =
     (let stripped = dropWhile (\<lambda>c. c = CHR ''*'') pat in (stripped \<noteq> pat, scan_chunk False stripped))"

section \<open>Matching a chunk\<close>

text \<open>\<^verbatim>\<open>getEsc\<close>: one possibly escaped character of a class; something has to follow it.\<close>

definition getEsc :: "string \<Rightarrow> (char \<times> string) option" where
  "getEsc chunk =
     (case chunk of
        [] \<Rightarrow> None
      | c # cs \<Rightarrow>
          if c = CHR ''-'' \<or> c = CHR '']'' then None
          else (case (if c = CHR 0x5C then cs else chunk) of
                  [] \<Rightarrow> None
                | d # rest \<Rightarrow> if rest = [] then None else Some (d, rest)))"

lemma getEsc_shorter: "getEsc chunk = Some (c, rest) \<Longrightarrow> length rest < length chunk"
  by (auto simp: getEsc_def split: list.splits if_splits)

text \<open>One range of a class, \<open>lo\<close> or \<open>lo-hi\<close>.\<close>

definition getRange :: "string \<Rightarrow> (char \<times> char \<times> string) option" where
  "getRange chunk =
     (case getEsc chunk of
        None \<Rightarrow> None
      | Some (lo, chunk1) \<Rightarrow>
          if hd chunk1 = CHR ''-''
          then (case getEsc (tl chunk1) of None \<Rightarrow> None | Some (hi, chunk2) \<Rightarrow> Some (lo, hi, chunk2))
          else Some (lo, lo, chunk1))"

lemma getRange_shorter: "getRange chunk = Some (lo, hi, rest) \<Longrightarrow> length rest < length chunk"
  by (auto simp: getRange_def split: option.splits if_splits dest!: getEsc_shorter)

text \<open>The ranges of a class, up to the closing bracket: what follows, and whether \<open>r\<close> is in one.\<close>

function match_ranges :: "nat \<Rightarrow> char \<Rightarrow> bool \<Rightarrow> string \<Rightarrow> (string \<times> bool) option" where
  "match_ranges n r found chunk =
     (if n > 0 \<and> chunk \<noteq> [] \<and> hd chunk = CHR '']'' then Some (tl chunk, found)
      else (case getRange chunk of
              None \<Rightarrow> None
            | Some (lo, hi, rest) \<Rightarrow> match_ranges (Suc n) r (found \<or> (lo \<le> r \<and> r \<le> hi)) rest))"
  by pat_completeness auto

termination
  by (relation "measure (\<lambda>(n, r, found, chunk). length chunk)") (auto dest: getRange_shorter)

declare match_ranges.simps [simp del]

lemma match_ranges_shorter: "match_ranges n r found chunk = Some (rest, b) \<Longrightarrow> length rest < length chunk"
proof (induction n r found chunk rule: match_ranges.induct)
  case (1 n r found chunk)
  show ?case
  proof (cases "n > 0 \<and> chunk \<noteq> [] \<and> hd chunk = CHR '']''")
    case True
    then show ?thesis using "1.prems" by (cases chunk) (auto simp: match_ranges.simps)
  next
    case False
    then obtain lo hi chunk1 where g: "getRange chunk = Some (lo, hi, chunk1)"
        "match_ranges (Suc n) r (found \<or> (lo \<le> r \<and> r \<le> hi)) chunk1 = Some (rest, b)"
      using "1.prems" by (subst (asm) match_ranges.simps) (auto split: option.splits if_splits)
    then show ?thesis using "1.IH" [OF False g(1) refl refl g(2)] getRange_shorter [OF g(1)] by simp
  qed
qed

text \<open>
  \<^verbatim>\<open>matchChunk\<close>: what is left of the name after the chunk; \<^const>\<open>None\<close> when the chunk does not
  fit or is malformed.  A malformed chunk fails for every name, so that its error
  and a mismatch lead to the same answer.
\<close>

function match_chunk :: "string \<Rightarrow> string \<Rightarrow> string option" where
  "match_chunk chunk s =
     (case chunk of
        [] \<Rightarrow> Some s
      | c # cs \<Rightarrow>
          (case s of
             [] \<Rightarrow> None
           | x # xs \<Rightarrow>
               if c = CHR ''[''
               then (let negated = (cs \<noteq> [] \<and> hd cs = CHR ''^'')
                     in case match_ranges 0 x False (if negated then tl cs else cs) of
                          None \<Rightarrow> None
                        | Some (rest, found) \<Rightarrow> if found = negated then None else match_chunk rest xs)
               else if c = CHR ''?'' then (if x = CHR ''/'' then None else match_chunk cs xs)
               else if c = CHR 0x5C
               then (case cs of [] \<Rightarrow> None | d # ds \<Rightarrow> if d = x then match_chunk ds xs else None)
               else if c = x then match_chunk cs xs else None))"
  by pat_completeness auto

termination
  by (relation "measure (\<lambda>(chunk, s). length s)") auto

declare match_chunk.simps [simp del]

section \<open>Matching a name\<close>

text \<open>The name after a star and the chunk behind it: the first position at which the chunk fits.\<close>

fun match_star :: "string \<Rightarrow> bool \<Rightarrow> string \<Rightarrow> string option" where
  "match_star chunk final [] = None"
| "match_star chunk final (c # name) =
     (if c = CHR ''/'' then None
      else (case match_chunk chunk name of
              None \<Rightarrow> match_star chunk final name
            | Some t \<Rightarrow> if final \<and> t \<noteq> [] then match_star chunk final name else Some t))"

lemma scan_chunk_append: "scan_chunk b pat = (chunk, rest) \<Longrightarrow> pat = chunk @ rest"
  by (induction b pat arbitrary: chunk rest rule: scan_chunk.induct) (auto split: if_splits list.splits prod.splits)

lemma scan_chunk_nonempty: "scan_chunk b (c # cs) = (chunk, rest) \<Longrightarrow> c \<noteq> CHR ''*'' \<Longrightarrow> chunk \<noteq> []"
  by (auto split: if_splits list.splits prod.splits)

lemma scan_chunk_shorter:
  assumes "pat \<noteq> []" and "(star, chunk, rest) = scanChunk pat" and "\<not> star \<or> chunk \<noteq> []"
  shows "length rest < length pat"
proof -
  let ?p = "dropWhile (\<lambda>c. c = CHR ''*'') pat"
  have sc: "scan_chunk False ?p = (chunk, rest)" and star: "star \<longleftrightarrow> ?p \<noteq> pat"
    using assms(2) by (simp_all add: scanChunk_def Let_def)
  have p: "?p = chunk @ rest" by (rule scan_chunk_append [OF sc])
  have le: "length ?p \<le> length pat" by (rule length_dropWhile_le)
  have "chunk \<noteq> []"
  proof (cases star)
    case False
    obtain c cs where c: "pat = c # cs" using assms(1) by (cases pat) auto
    have "?p = pat" using star False by simp
    then have "c \<noteq> CHR ''*''" using hd_dropWhile [of "\<lambda>c. c = CHR ''*''" pat] assms(1) c by auto
    then show ?thesis using sc \<open>?p = pat\<close> c scan_chunk_nonempty by metis
  qed (use assms(3) in simp)
  moreover have "length ?p = length chunk + length rest" unfolding p by simp
  ultimately show ?thesis using le by (cases chunk) auto
qed

function filepathMatch :: "string \<Rightarrow> string \<Rightarrow> bool" where
  "filepathMatch pat name =
     (if pat = [] then name = []
      else (case scanChunk pat of
              (star, chunk, rest) \<Rightarrow>
                if star \<and> chunk = [] then CHR ''/'' \<notin> set name
                else (case (case match_chunk chunk name of
                              Some t \<Rightarrow> if t = [] \<or> rest \<noteq> [] then Some t
                                        else if star then match_star chunk (rest = []) name else None
                            | None \<Rightarrow> if star then match_star chunk (rest = []) name else None) of
                        None \<Rightarrow> False
                      | Some t \<Rightarrow> filepathMatch rest t)))"
  by pat_completeness auto

termination
  by (relation "measure (\<lambda>(pat, name). length pat)") (auto intro: scan_chunk_shorter)

declare filepathMatch.simps [simp del]

lemma match_chunk_literal:
  "set chunk \<inter> set [CHR ''['', CHR ''?'', CHR 0x5C] = {} \<Longrightarrow> match_chunk chunk s = (if prefix chunk s then Some (drop (length chunk) s) else None)"
proof (induction chunk arbitrary: s)
  case Nil
  show ?case by (subst match_chunk.simps) simp
next
  case (Cons c cs)
  then show ?case by (subst match_chunk.simps) (auto split: list.splits)
qed

lemma scan_chunk_literal:
  "set pat \<inter> set [CHR ''*'', CHR ''['', CHR 0x5C] = {} \<Longrightarrow> scan_chunk False pat = (pat, [])"
  by (induction pat) auto

text \<open>A pattern without special characters matches exactly itself.\<close>

lemma filepathMatch_literal:
  assumes "set pat \<inter> set [CHR ''*'', CHR ''['', CHR ''?'', CHR 0x5C] = {}"
  shows "filepathMatch pat name \<longleftrightarrow> name = pat"
proof (cases "pat = []")
  case True
  then show ?thesis by (subst filepathMatch.simps) simp
next
  case False
  have "CHR ''*'' \<notin> set pat" using assms by auto
  then have d: "dropWhile (\<lambda>c. c = CHR ''*'') pat = pat" by (cases pat) auto
  then have s: "scanChunk pat = (False, pat, [])"
    using scan_chunk_literal [of pat] assms by (auto simp: scanChunk_def)
  have m: "match_chunk pat name = (if prefix pat name then Some (drop (length pat) name) else None)"
    using assms by (intro match_chunk_literal) auto
  show ?thesis
    using False by (subst filepathMatch.simps) (auto simp: s m prefix_def filepathMatch.simps)
qed

end
