(* ===== verification/Go_Text.thy ===== *)
theory Go_Text
  imports Go_Prelude "HOL-Library.Sublist"
begin

text \<open>
  What the components use of Go's \<^verbatim>\<open>strings\<close>, \<^verbatim>\<open>strconv\<close>, \<^verbatim>\<open>regexp\<close>, \<^verbatim>\<open>filepath\<close> and \<^verbatim>\<open>time\<close>
  on byte strings: splitting, joining, numbers, the character classes of their regular expressions,
  clean paths and the RFC 3339 text of a time in UTC.
\<close>

section \<open>Splitting and joining\<close>

fun strings_Join :: "string list \<Rightarrow> string \<Rightarrow> string" where
  "strings_Join [] sep = []"
| "strings_Join [x] sep = x"
| "strings_Join (x # y # ys) sep = x @ sep @ strings_Join (y # ys) sep"

text \<open>\<^verbatim>\<open>strings.Split\<close> on one byte.\<close>

fun split_on :: "char \<Rightarrow> string \<Rightarrow> string \<Rightarrow> string list" where
  "split_on sep acc [] = [acc]"
| "split_on sep acc (c # cs) = (if c = sep then acc # split_on sep [] cs else split_on sep (acc @ [c]) cs)"

text \<open>\<^verbatim>\<open>strings.Cut\<close> at one byte.\<close>

definition strings_Cut :: "char \<Rightarrow> string \<Rightarrow> (string \<times> string) option" where
  "strings_Cut sep s = (case dropWhile (\<lambda>c. c \<noteq> sep) s of [] \<Rightarrow> None | c # rest \<Rightarrow> Some (takeWhile (\<lambda>c. c \<noteq> sep) s, rest))"

text \<open>\<^verbatim>\<open>strings.Fields\<close> of ASCII text.\<close>

fun fields_from :: "string \<Rightarrow> string \<Rightarrow> string list" where
  "fields_from acc [] = (if acc = [] then [] else [acc])"
| "fields_from acc (c # cs) =
     (if is_ascii_space c then (if acc = [] then fields_from [] cs else acc # fields_from [] cs) else fields_from (acc @ [c]) cs)"

definition strings_Fields :: "string \<Rightarrow> string list" where
  "strings_Fields s = fields_from [] s"

text \<open>\<^verbatim>\<open>strings.ReplaceAll\<close> of one byte by another, \<^verbatim>\<open>strings.TrimPrefix\<close>, \<^verbatim>\<open>strings.CutPrefix\<close>.\<close>

definition replace_byte :: "char \<Rightarrow> char \<Rightarrow> string \<Rightarrow> string" where
  "replace_byte a b s = map (\<lambda>c. if c = a then b else c) s"

definition cut_prefix :: "string \<Rightarrow> string \<Rightarrow> string option" where
  "cut_prefix p s = (if prefix p s then Some (drop (length p) s) else None)"

definition trim_prefix :: "string \<Rightarrow> string \<Rightarrow> string" where
  "trim_prefix p s = (case cut_prefix p s of Some r \<Rightarrow> r | None \<Rightarrow> s)"

text \<open>\<^verbatim>\<open>strings.Contains\<close>, and \<^verbatim>\<open>strings.EqualFold\<close> of ASCII text.\<close>

fun strings_Contains :: "string \<Rightarrow> string \<Rightarrow> bool" where
  "strings_Contains [] sub \<longleftrightarrow> sub = []"
| "strings_Contains (c # cs) sub \<longleftrightarrow> prefix sub (c # cs) \<or> strings_Contains cs sub"

definition EqualFold :: "string \<Rightarrow> string \<Rightarrow> bool" where
  "EqualFold a b \<longleftrightarrow> toLower a = toLower b"

section \<open>Numbers\<close>

text \<open>\<^verbatim>\<open>strconv.Atoi\<close> with its sign and range; \<open>parse_int\<close> is the number \<^verbatim>\<open>ParseInt\<close> returns when its error is ignored.\<close>

definition atoi_parts :: "string \<Rightarrow> bool \<times> string" where
  "atoi_parts s = (s \<noteq> [] \<and> hd s = CHR ''-'', if s \<noteq> [] \<and> (hd s = CHR ''-'' \<or> hd s = CHR ''+'') then tl s else s)"

definition strconv_Atoi :: "string \<Rightarrow> int option" where
  "strconv_Atoi s =
     (case atoi_parts s of
        (negative, ds) \<Rightarrow>
          (let n = (if negative then - int (digits_value ds) else int (digits_value ds))
           in if ds = [] \<or> \<not> list_all is_digit ds \<or> n < minInt64 \<or> n > maxInt64 then None else Some n))"

definition parse_int :: "string \<Rightarrow> int" where
  "parse_int s =
     (case atoi_parts s of
        (negative, ds) \<Rightarrow>
          if ds = [] \<or> \<not> list_all is_digit ds then 0
          else max minInt64 (min maxInt64 (if negative then - int (digits_value ds) else int (digits_value ds))))"

section \<open>Character classes\<close>

definition is_alpha :: "char \<Rightarrow> bool" where
  "is_alpha c \<longleftrightarrow> (let n = (of_char c :: nat) in (65 \<le> n \<and> n \<le> 90) \<or> (97 \<le> n \<and> n \<le> 122))"

definition is_alnum :: "char \<Rightarrow> bool" where
  "is_alnum c \<longleftrightarrow> is_alpha c \<or> is_digit c"

text \<open>The regular expressions \<^verbatim>\<open>^[A-Za-z0-9][A-Za-z0-9...]{0,n}$\<close>, with the further characters of the second class.\<close>

definition safe_token :: "char set \<Rightarrow> nat \<Rightarrow> string \<Rightarrow> bool" where
  "safe_token extra n s \<longleftrightarrow>
     (case s of [] \<Rightarrow> False | c # cs \<Rightarrow> is_alnum c \<and> list_all (\<lambda>c. is_alnum c \<or> c \<in> extra) cs \<and> length cs \<le> n)"

section \<open>Paths\<close>

text \<open>\<^verbatim>\<open>filepath.Clean\<close>, \<^verbatim>\<open>filepath.Join\<close> of two non-empty elements and \<^verbatim>\<open>filepath.IsAbs\<close> on Unix.\<close>

fun clean_parts :: "bool \<Rightarrow> string list \<Rightarrow> string list \<Rightarrow> string list" where
  "clean_parts rooted st [] = st"
| "clean_parts rooted st (p # ps) =
     (if p = [] \<or> p = ''.'' then clean_parts rooted st ps
      else if p = ''..'' then
        (if st \<noteq> [] \<and> last st \<noteq> ''..'' then clean_parts rooted (butlast st) ps
         else if rooted then clean_parts rooted st ps
         else clean_parts rooted (st @ [p]) ps)
      else clean_parts rooted (st @ [p]) ps)"

definition filepath_IsAbs :: "string \<Rightarrow> bool" where
  "filepath_IsAbs path \<longleftrightarrow> path \<noteq> [] \<and> hd path = CHR ''/''"

definition filepath_Clean :: "string \<Rightarrow> string" where
  "filepath_Clean path =
     (let rooted = filepath_IsAbs path;
          cleaned = (if rooted then ''/'' else []) @ strings_Join (clean_parts rooted [] (split_on (CHR ''/'') [] path)) ''/''
      in if cleaned = [] then ''.'' else cleaned)"

definition filepath_Join :: "string \<Rightarrow> string \<Rightarrow> string" where
  "filepath_Join a b = filepath_Clean (a @ ''/'' @ b)"

section \<open>Times\<close>

text \<open>\<^verbatim>\<open>Format(time.RFC3339)\<close> of a time in UTC, of the years 1 to 9999; times count from the first of January of year 1.\<close>

fun month_day :: "int \<Rightarrow> int \<Rightarrow> int list \<Rightarrow> int \<times> int" where
  "month_day m d [] = (m, d + 1)"
| "month_day m d (n # ns) = (if d < n then (m, d + 1) else month_day (m + 1) (d - n) ns)"

definition civil_date :: "int \<Rightarrow> int \<times> int \<times> int" where
  "civil_date days =
     (let r = days mod 146097; c = min 3 (r div 36524); r1 = r - c * 36524; q = r1 div 1461; r2 = r1 mod 1461; y = min 3 (r2 div 365);
          year = 400 * (days div 146097) + 100 * c + 4 * q + y + 1;
          leap = (year mod 4 = 0 \<and> (year mod 100 \<noteq> 0 \<or> year mod 400 = 0))
      in (year, month_day 1 (r2 - y * 365) [31, if leap then 29 else 28, 31, 30, 31, 30, 31, 31, 30, 31, 30]))"

definition pad :: "nat \<Rightarrow> int \<Rightarrow> string" where
  "pad n i = (let s = itoa i in replicate (n - length s) (CHR ''0'') @ s)"

definition time_RFC3339 :: "gotime \<Rightarrow> string" where
  "time_RFC3339 t =
     (let s = t div second; sod = s mod 86400
      in case civil_date (s div 86400) of (y, m, d) \<Rightarrow>
           pad 4 y @ ''-'' @ pad 2 m @ ''-'' @ pad 2 d @ ''T'' @ pad 2 (sod div 3600) @ '':'' @ pad 2 (sod mod 3600 div 60)
             @ '':'' @ pad 2 (sod mod 60) @ ''Z'')"

section \<open>Lemmas\<close>

lemma itoa_digits: "0 \<le> n \<Longrightarrow> list_all is_digit (itoa n) \<and> itoa n \<noteq> []"
  using nat_digits_digits by (simp add: itoa_def)

lemma itoa_inj: "0 \<le> i \<Longrightarrow> 0 \<le> j \<Longrightarrow> itoa i = itoa j \<Longrightarrow> i = j"
  by (metis digits_value_nat_digits itoa_def linorder_not_less nat_0_le)

lemma split_on_block: "c \<notin> set s \<Longrightarrow> split_on c acc (s @ c # rest) = (acc @ s) # split_on c [] rest"
  by (induction s arbitrary: acc) auto

lemma split_on_tail: "c \<notin> set s \<Longrightarrow> split_on c acc s = [acc @ s]"
  by (induction s arbitrary: acc) auto

lemma digit_signs: "list_all is_digit s \<Longrightarrow> CHR ''/'' \<notin> set s \<and> CHR ''-'' \<notin> set s \<and> CHR ''+'' \<notin> set s"
  by (induction s) (auto simp: is_digit_def)

lemma itoa_negative: "a < 0 \<Longrightarrow> 0 \<le> b \<Longrightarrow> itoa a \<noteq> itoa b"
  using digit_signs [of "itoa b"] itoa_digits [of b] by (cases "itoa b") (auto simp: itoa_def [of a])

lemma itoa_eq [simp]: "itoa i = itoa j \<longleftrightarrow> i = j"
proof (cases "i < 0"; cases "j < 0")
  assume "i < 0" "j < 0"
  then show ?thesis by (auto simp: itoa_def) (metis digits_value_nat_digits add.inverse_inverse int_nat_eq neg_0_le_iff_le order_less_imp_le)
qed (use itoa_inj itoa_negative [of i j] itoa_negative [of j i] in auto)

lemma strconv_Atoi_itoa: "0 \<le> n \<Longrightarrow> n \<le> maxInt64 \<Longrightarrow> strconv_Atoi (itoa n) = Some n"
proof -
  assume n: "0 \<le> n" "n \<le> maxInt64"
  let ?ds = "nat_digits (nat n)"
  have ds: "list_all is_digit ?ds" "?ds \<noteq> []" "hd ?ds \<in> set ?ds" using nat_digits_digits [of "nat n"] by auto
  have "hd ?ds \<noteq> CHR ''-'' \<and> hd ?ds \<noteq> CHR ''+''" using digit_signs [OF ds(1)] ds(3) by metis
  then show ?thesis
    using n ds by (simp add: strconv_Atoi_def atoi_parts_def itoa_def Let_def digits_value_nat_digits minInt64_def)
qed

lemma Atoi_parse_int: "strconv_Atoi s = Some n \<Longrightarrow> parse_int s = n"
  by (auto simp: strconv_Atoi_def parse_int_def Let_def split: prod.splits if_splits)

lemma cut_at_block: "c \<notin> set s \<Longrightarrow> strings_Cut c (s @ [c] @ rest) = Some (s, rest)"
  by (simp add: strings_Cut_def dropWhile_append takeWhile_append)

end
