(* ===== verification/Merge_Queue.thy ===== *)
theory Merge_Queue
  imports Go_Filepath Go_Text Provider_Seam "HOL-Library.Monad_Syntax"
begin

text \<open>
  The merge queue's data and pure parts (\<^verbatim>\<open>mergequeue/\<close>): the configuration, the bisection of a
  failed stack, the evaluation of required checks, the markers kept in status comments,
  and \<^verbatim>\<open>PlanTick\<close>, which decides one tick from a snapshot.
\<close>

section \<open>Pull requests, runs, configuration\<close>

record pr =
  pr_Number :: int
  pr_HeadSHA :: string
  pr_HeadRef :: string
  pr_BaseRef :: string
  pr_SameRepo :: bool
  pr_Draft :: bool
  pr_LabeledAt :: gotime
  pr_LabeledBy :: string

record checkRun =
  cr_ID :: int
  cr_Name :: string
  cr_Status :: string
  cr_Conclusion :: string
  cr_URL :: string
  cr_SuiteID :: int
  cr_StartedAt :: gotime

record workflowRun =
  wf_ID :: int
  wf_Event :: string
  wf_Status :: string
  wf_Conclusion :: string
  wf_SuiteID :: int

record requiredCheck =
  rc_Name :: string
  rc_Paths :: "string list"

record mqConfig =
  mc_Target :: string
  mc_Label :: string
  mc_BatchSize :: int
  mc_RequiredChecks :: "requiredCheck list"
  mc_CheckTimeout :: duration

definition DefaultLabel :: string where "DefaultLabel = ''queue''"
definition maxBatchSize :: int where "maxBatchSize = 10"

definition WithDefaults :: "mqConfig \<Rightarrow> mqConfig" where
  "WithDefaults c =
     (let c1 = (if mc_Target c = [] then c\<lparr>mc_Target := ''main''\<rparr> else c);
          c2 = (if mc_Label c1 = [] then c1\<lparr>mc_Label := DefaultLabel\<rparr> else c1);
          c3 = (if mc_BatchSize c2 < 1 then c2\<lparr>mc_BatchSize := 3\<rparr> else c2)
      in if mc_CheckTimeout c3 \<le> 0 then c3\<lparr>mc_CheckTimeout := 45 * minute\<rparr> else c3)"

record configFile =
  fc_Target :: string
  fc_Label :: string
  fc_BatchSize :: int
  fc_CheckTimeout :: string
  fc_RequiredChecks :: "requiredCheck list"

text \<open>
  \<^verbatim>\<open>decode\<close> is the strict YAML decoder and \<open>parseDuration\<close> Go's \<^verbatim>\<open>time.ParseDuration\<close>, whose
  fractions are floating point; nothing below depends on what they compute.
\<close>

definition ParseConfig :: "('d \<Rightarrow> goerr + configFile) \<Rightarrow> (string \<Rightarrow> duration option) \<Rightarrow> 'd \<Rightarrow> goerr + mqConfig" where
  "ParseConfig decode parseDuration input =
     (case decode input of
        Inl err \<Rightarrow> Inl (ErrWrap ''parse merge queue config'' err)
      | Inr fc \<Rightarrow>
          if fc_BatchSize fc < 0 \<or> fc_BatchSize fc > maxBatchSize
            then Inl (ErrText ''parse merge queue config: batch_size must be between 1 and 10'')
          else if fc_RequiredChecks fc = []
            then Inl (ErrText ''parse merge queue config: required_checks must list at least one check'')
          else if list_ex (\<lambda>c. trimSpace (rc_Name c) = []) (fc_RequiredChecks fc)
            then Inl (ErrText ''parse merge queue config: a required check has no name'')
          else
          let config = \<lparr>mc_Target = trimSpace (fc_Target fc), mc_Label = trimSpace (fc_Label fc),
                        mc_BatchSize = fc_BatchSize fc, mc_RequiredChecks = fc_RequiredChecks fc, mc_CheckTimeout = 0\<rparr>
          in if fc_CheckTimeout fc = [] then Inr (WithDefaults config)
             else (case parseDuration (fc_CheckTimeout fc) of
                     None \<Rightarrow> Inl (ErrText ''parse merge queue config: invalid check_timeout'')
                   | Some timeout \<Rightarrow>
                       if timeout \<le> 0 then Inl (ErrText ''parse merge queue config: invalid check_timeout'')
                       else Inr (WithDefaults (config\<lparr>mc_CheckTimeout := timeout\<rparr>))))"

section \<open>Bisection\<close>

definition Split :: "int list \<Rightarrow> int list \<times> int list" where
  "Split prs =
     (if length prs < 2 then (prs, [])
      else (let mid = (length prs + 1) div 2 in (take mid prs, drop mid prs)))"

section \<open>Required checks\<close>

definition matchPath :: "string \<Rightarrow> string \<Rightarrow> bool" where
  "matchPath pattern name =
     (if suffix ''/**'' pattern
      then (let dir = take (length pattern - 3) pattern in name = dir \<or> prefix (dir @ ''/'') name)
      else filepathMatch pattern name)"

definition Applicable :: "requiredCheck \<Rightarrow> string list \<Rightarrow> bool" where
  "Applicable check changedFiles \<longleftrightarrow>
     rc_Paths check = []
     \<or> list_ex (\<lambda>name. list_ex (\<lambda>pattern. matchPath pattern name) (rc_Paths check)) changedFiles"

record checkStatus =
  cs_State :: string
  cs_Failing :: "string list"
  cs_URLs :: "string list"
  cs_Suites :: "int list"

definition StatePending :: string where "StatePending = ''pending''"
definition StateSuccess :: string where "StateSuccess = ''success''"
definition StateFailure :: string where "StateFailure = ''failure''"

definition passed :: "string \<Rightarrow> bool" where
  "passed conclusion \<longleftrightarrow> conclusion \<in> set [''success'', ''neutral'', ''skipped'']"

fun newest_runs :: "checkRun gomap \<Rightarrow> checkRun list \<Rightarrow> checkRun gomap" where
  "newest_runs m [] = m"
| "newest_runs m (run # runs) =
     newest_runs (case map_of m (cr_Name run) of
                    Some current \<Rightarrow> if cr_ID run > cr_ID current then AList.update (cr_Name run) run m else m
                  | None \<Rightarrow> AList.update (cr_Name run) run m) runs"

text \<open>The run that counts for a check: none, when its failure belongs to the attempt being re-run.\<close>

definition reported_run :: "checkRun gomap \<Rightarrow> gotime \<Rightarrow> string \<Rightarrow> checkRun option" where
  "reported_run newest retriedAt name =
     (case map_of newest name of
        None \<Rightarrow> None
      | Some run \<Rightarrow>
          if cr_Status run = ''completed'' \<and> \<not> passed (cr_Conclusion run)
             \<and> \<not> time_isZero retriedAt \<and> cr_StartedAt run < retriedAt then None else Some run)"

fun evaluate_loop :: "string list \<Rightarrow> checkRun gomap \<Rightarrow> duration \<Rightarrow> duration \<Rightarrow> gotime
    \<Rightarrow> requiredCheck list \<Rightarrow> bool \<times> checkStatus \<Rightarrow> bool \<times> checkStatus" where
  "evaluate_loop changed newest age timeout retriedAt [] acc = acc"
| "evaluate_loop changed newest age timeout retriedAt (check # checks) (pending, status) =
     evaluate_loop changed newest age timeout retriedAt checks
       (if \<not> Applicable check changed then (pending, status)
        else (case reported_run newest retriedAt (rc_Name check) of
                None \<Rightarrow>
                  if age \<ge> timeout then (pending, status\<lparr>cs_Failing := cs_Failing status @ [rc_Name check]\<rparr>)
                  else (True, status)
              | Some run \<Rightarrow>
                  if cr_Status run \<noteq> ''completed'' then (True, status)
                  else if \<not> passed (cr_Conclusion run)
                  then (pending, status\<lparr>
                    cs_Failing := cs_Failing status @ [rc_Name check],
                    cs_URLs := cs_URLs status @ (if cr_URL run \<noteq> [] then [cr_URL run] else []),
                    cs_Suites := cs_Suites status @ (if cr_SuiteID run \<noteq> 0 then [cr_SuiteID run] else [])\<rparr>)
                  else (pending, status)))"

definition zeroStatus :: checkStatus where
  "zeroStatus = \<lparr>cs_State = [], cs_Failing = [], cs_URLs = [], cs_Suites = []\<rparr>"

definition Evaluate :: "requiredCheck list \<Rightarrow> string list \<Rightarrow> checkRun list \<Rightarrow> duration \<Rightarrow> duration \<Rightarrow> gotime \<Rightarrow> checkStatus" where
  "Evaluate required changedFiles runs age timeout retriedAt =
     (case evaluate_loop changedFiles (newest_runs [] runs) age timeout retriedAt required (False, zeroStatus) of
        (pending, status) \<Rightarrow>
          status\<lparr>cs_State := (if cs_Failing status \<noteq> [] then StateFailure
                             else if pending then StatePending else StateSuccess)\<rparr>)"

section \<open>Stacks and their markers\<close>

record member =
  me_Number :: int
  me_SHA :: string

record stack =
  st_Base :: string
  st_Members :: "member list"
  st_Retry :: int
  st_At :: gotime

definition stack_Top :: "stack \<Rightarrow> member" where
  "stack_Top s = last (st_Members s)"

definition stack_Numbers :: "stack \<Rightarrow> int list" where
  "stack_Numbers s = map me_Number (st_Members s)"

record own =
  ow_Head :: string
  ow_Upstream :: string

record landed =
  ld_Head :: string

definition markerPrefix :: string where "markerPrefix = ''<!-- runneryard-merge-queue:''"
definition StatusPrefix :: string where "StatusPrefix = markerPrefix @ ''status -->''"

text \<open>Seconds since 1970; Go's zero time is the first of January of year 1.\<close>

definition unixEpoch :: int where "unixEpoch = 62135596800"

definition time_Unix :: "gotime \<Rightarrow> int" where
  "time_Unix t = t div second - unixEpoch"

definition time_fromUnix :: "int \<Rightarrow> gotime" where
  "time_fromUnix at = wrap64 (at + unixEpoch) * second"

definition stackMarker :: "stack \<Rightarrow> string" where
  "stackMarker s =
     markerPrefix @ ''stack base='' @ st_Base s @ '' prs=''
     @ strings_Join (map (\<lambda>m. itoa (me_Number m) @ ''@'' @ me_SHA m) (st_Members s)) '',''
     @ '' retry='' @ itoa (st_Retry s) @ '' at='' @ itoa (time_Unix (st_At s)) @ '' -->''"

definition ownMarker :: "own \<Rightarrow> string" where
  "ownMarker o' = markerPrefix @ ''own head='' @ ow_Head o' @ '' upstream='' @ ow_Upstream o' @ '' -->''"

definition landedMarker :: "landed \<Rightarrow> string" where
  "landedMarker l = markerPrefix @ ''landed head='' @ ld_Head l @ '' -->''"

text \<open>
  The three regular expressions as parsers of one match at the start of a string.  Each
  choice in them is decided by the next character, so they need no backtracking.
\<close>

definition lit :: "string \<Rightarrow> string \<Rightarrow> string option" where
  "lit p s = (if prefix p s then Some (drop (length p) s) else None)"

definition hex40 :: "string \<Rightarrow> (string \<times> string) option" where
  "hex40 s = (if length s \<ge> 40 \<and> list_all is_hex_lower (take 40 s) then Some (take 40 s, drop 40 s) else None)"

definition digits1 :: "string \<Rightarrow> (string \<times> string) option" where
  "digits1 s = (let d = takeWhile is_digit s in if d = [] then None else Some (d, dropWhile is_digit s))"

definition entry_at :: "string \<Rightarrow> ((string \<times> string) \<times> string) option" where
  "entry_at s = do {
     (number, s1) \<leftarrow> digits1 s;
     s2 \<leftarrow> lit ''@'' s1;
     (sha, s3) \<leftarrow> hex40 s2;
     Some ((number, sha), s3) }"

lemma entry_at_shorter: "entry_at s = Some (e, rest) \<Longrightarrow> length rest < length s"
proof -
  assume "entry_at s = Some (e, rest)"
  then obtain s2 where *: "digits1 s \<noteq> None" "lit ''@'' (dropWhile is_digit s) = Some s2" "rest = drop 40 s2"
    by (auto simp: entry_at_def digits1_def hex40_def Let_def split: bind_splits if_splits)
  have "length (dropWhile is_digit s) \<le> length s" by (rule length_dropWhile_le)
  moreover have "length s2 < length (dropWhile is_digit s)"
    using *(2) by (auto simp: lit_def split: if_splits dest: prefix_length_le)
  ultimately show ?thesis using *(3) by simp
qed

function entries_at :: "string \<Rightarrow> ((string \<times> string) list \<times> string) option" where
  "entries_at s =
     (case entry_at s of
        None \<Rightarrow> None
      | Some (e, rest) \<Rightarrow>
          (case lit '','' rest of
             None \<Rightarrow> Some ([e], rest)
           | Some s' \<Rightarrow>
               (case entries_at s' of None \<Rightarrow> Some ([e], rest) | Some (es, rest') \<Rightarrow> Some (e # es, rest'))))"
  by pat_completeness auto

termination
  by (relation "measure length") (auto simp: lit_def dest!: entry_at_shorter split: if_splits)

declare entries_at.simps [simp del]

definition stack_at :: "string \<Rightarrow> (string \<times> (string \<times> string) list \<times> char \<times> string) option" where
  "stack_at s = do {
     s1 \<leftarrow> lit (markerPrefix @ ''stack base='') s;
     (base, s2) \<leftarrow> hex40 s1;
     s3 \<leftarrow> lit '' prs='' s2;
     (entries, s4) \<leftarrow> entries_at s3;
     s5 \<leftarrow> lit '' retry='' s4;
     (case s5 of
        [] \<Rightarrow> None
      | c # s6 \<Rightarrow>
          if c \<noteq> CHR ''0'' \<and> c \<noteq> CHR ''1'' then None
          else do {
            s7 \<leftarrow> lit '' at='' s6;
            (at, s8) \<leftarrow> digits1 s7;
            s9 \<leftarrow> lit '' -->'' s8;
            Some (base, entries, c, at) }) }"

definition own_at :: "string \<Rightarrow> (own \<times> string) option" where
  "own_at s = do {
     s1 \<leftarrow> lit (markerPrefix @ ''own head='') s;
     (head, s2) \<leftarrow> hex40 s1;
     s3 \<leftarrow> lit '' upstream='' s2;
     (upstream, s4) \<leftarrow> hex40 s3;
     s5 \<leftarrow> lit '' -->'' s4;
     Some (\<lparr>ow_Head = head, ow_Upstream = upstream\<rparr>, s5) }"

definition landed_at :: "string \<Rightarrow> landed option" where
  "landed_at s = do {
     s1 \<leftarrow> lit (markerPrefix @ ''landed head='') s;
     (head, s2) \<leftarrow> hex40 s1;
     s3 \<leftarrow> lit '' -->'' s2;
     Some \<lparr>ld_Head = head\<rparr> }"

text \<open>The leftmost match in a body, and the first \<open>n\<close> matches that do not overlap.\<close>

fun find_first :: "(string \<Rightarrow> 'a option) \<Rightarrow> string \<Rightarrow> 'a option" where
  "find_first p [] = p []"
| "find_first p (c # cs) = (case p (c # cs) of Some a \<Rightarrow> Some a | None \<Rightarrow> find_first p cs)"

primrec find_all :: "(string \<Rightarrow> ('a \<times> string) option) \<Rightarrow> nat \<Rightarrow> string \<Rightarrow> 'a list" where
  "find_all p 0 s = []"
| "find_all p (Suc n) s = (case find_first p s of None \<Rightarrow> [] | Some (a, rest) \<Rightarrow> a # find_all p n rest)"

text \<open>\<^verbatim>\<open>strconv.Atoi\<close> on a string of digits.\<close>

definition atoi :: "string \<Rightarrow> int option" where
  "atoi ds = (if int (digits_value ds) \<le> maxInt64 then Some (int (digits_value ds)) else None)"

fun parse_members :: "int list \<Rightarrow> (string \<times> string) list \<Rightarrow> member list option" where
  "parse_members seen [] = Some []"
| "parse_members seen ((number, sha) # rest) =
     (case atoi number of
        None \<Rightarrow> None
      | Some n \<Rightarrow>
          if n \<le> 0 \<or> n \<in> set seen then None
          else map_option ((#) \<lparr>me_Number = n, me_SHA = sha\<rparr>) (parse_members (n # seen) rest))"

definition ParseStack :: "string \<Rightarrow> stack option" where
  "ParseStack body = do {
     (base, entries, retry, at) \<leftarrow> find_first stack_at body;
     members \<leftarrow> parse_members [] entries;
     seconds \<leftarrow> atoi at;
     Some \<lparr>st_Base = base, st_Members = members, st_Retry = of_char retry - 48, st_At = time_fromUnix seconds\<rparr> }"

definition maxOwns :: nat where "maxOwns = 2"

definition ParseOwns :: "string \<Rightarrow> own list" where
  "ParseOwns body = find_all own_at maxOwns body"

definition ParseLanded :: "string \<Rightarrow> landed option" where
  "ParseLanded body = find_first landed_at body"

section \<open>Status comments\<close>

definition shortSHA :: "string \<Rightarrow> string" where
  "shortSHA sha = (if length sha > 7 then take 7 sha else sha)"

definition refs :: "int list \<Rightarrow> string" where
  "refs numbers = strings_Join (map (\<lambda>n. ''#'' @ itoa n) numbers) '', ''"

abbreviation newline :: string where "newline \<equiv> [CHR 0x0A]"

definition statusBody :: "string \<Rightarrow> string list \<Rightarrow> string" where
  "statusBody txt markers = strings_Join ([StatusPrefix, ''Merge queue: '' @ txt] @ markers) newline"

definition ownMarkers :: "own list \<Rightarrow> string list" where
  "ownMarkers owns = map ownMarker (take maxOwns owns)"

definition stackOwn :: "stack \<Rightarrow> nat \<Rightarrow> own" where
  "stackOwn s index =
     \<lparr>ow_Head = me_SHA (st_Members s ! index),
      ow_Upstream = (if index > 0 then me_SHA (st_Members s ! (index - 1)) else st_Base s)\<rparr>"

definition waitingComment :: "int \<Rightarrow> int \<Rightarrow> own list \<Rightarrow> string" where
  "waitingComment position count owns =
     statusBody (''position '' @ itoa position @ '' of '' @ itoa count @ '', waiting for the stack ahead to resolve.'') (ownMarkers owns)"

definition ineligibleComment :: "string \<Rightarrow> string \<Rightarrow> own list \<Rightarrow> string" where
  "ineligibleComment reason label owns =
     statusBody (''not queued: '' @ reason @ ''. Fix it and the queue picks this pull request up again while the `''
       @ label @ ''` label stays on.'') (ownMarkers owns)"

definition with_others :: "string \<Rightarrow> int list \<Rightarrow> string" where
  "with_others word others = (if others \<noteq> [] then word @ refs others else [])"

definition stackComment :: "stack \<Rightarrow> nat \<Rightarrow> own list \<Rightarrow> string" where
  "stackComment s index keep =
     (let m = st_Members s ! index;
          markers = ownMarkers (stackOwn s index # keep);
          others = filter (\<lambda>n. n \<noteq> me_Number m) (stack_Numbers s);
          withText = with_others '' with '' others
      in if index = length (st_Members s) - 1
         then statusBody
                (if st_Retry s > 0
                 then ''re-running the failed jobs once on this stack'' @ withText @ '' before giving up ('' @ shortSHA (me_SHA m) @ '').''
                 else ''testing this branch as the top of a stack'' @ withText @ '', rebased onto '' @ shortSHA (st_Base s)
                      @ '' as '' @ shortSHA (me_SHA m) @ ''.'')
                (markers @ [stackMarker s])
         else statusBody
                (''rebased into a stack'' @ withText @ '' as '' @ shortSHA (me_SHA m) @ ''. CI runs once, on the top pull request.'')
                markers)"

definition landedComment :: "stack \<Rightarrow> nat \<Rightarrow> string" where
  "landedComment s index =
     (let batchmates = map (\<lambda>i. me_Number (st_Members s ! i)) (filter (\<lambda>i. i \<noteq> index) [0..<length (st_Members s)])
      in statusBody (''landed on the target as '' @ shortSHA (me_SHA (stack_Top s)) @ with_others '' together with '' batchmates @ ''.'')
           [landedMarker \<lparr>ld_Head = me_SHA (st_Members s ! index)\<rparr>])"

definition rejectedComment :: "string \<Rightarrow> string \<Rightarrow> string list \<Rightarrow> own list \<Rightarrow> string" where
  "rejectedComment reason label urls owns =
     statusBody (''rejected ('' @ reason @ ''). Re-apply the `'' @ label @ ''` label once this is fixed.''
       @ (if urls \<noteq> [] then newline @ newline @ ''- '' @ strings_Join urls (newline @ ''- '') else []))
       (ownMarkers owns)"

definition requeuedComment :: "string \<Rightarrow> own list \<Rightarrow> string" where
  "requeuedComment reason owns = statusBody (''back in the queue ('' @ reason @ '').'') (ownMarkers owns)"

section \<open>The plan of a tick\<close>

text \<open>A queued pull request embeds the pull request, as a record extension.\<close>

record queuedPR = pr +
  qp_LabelerCanWrite :: bool
  qp_Owns :: "own list"
  qp_Landed :: bool

record inFlight =
  if_Stack :: stack
  if_Landed :: bool
  if_Checks :: checkStatus
  if_RerunIDs :: "int list"
  if_BatchmateRuns :: "int list"

record snapshot =
  sn_Now :: gotime
  sn_TargetSHA :: string
  sn_Queued :: "queuedPR list"
  sn_Stacks :: "inFlight list"

text \<open>An action with the fields its kind uses.\<close>

datatype action =
    ActionForm "int list" string
  | ActionAdvance stack
  | ActionLanded stack
  | ActionRetry stack "int list" string
  | ActionReject stack int string "string list"
  | ActionSplit stack string
  | ActionAbandon stack string "int list"
  | ActionCancel stack "int list"
  | ActionComment int string

record plan =
  pl_Actions :: "action list"
  pl_Idle :: bool

type_synonym queuedMap = "(int \<times> queuedPR) list"

definition queued_map :: "queuedPR list \<Rightarrow> queuedMap" where
  "queued_map prs = fold (\<lambda>p. AList.update (pr_Number p) p) prs []"

fun stale_members :: "queuedMap \<Rightarrow> member list \<Rightarrow> string" where
  "stale_members queued [] = []"
| "stale_members queued (m # ms) =
     (case map_of queued (me_Number m) of
        None \<Rightarrow> ''#'' @ itoa (me_Number m) @ '' left the queue''
      | Some p \<Rightarrow>
          if pr_HeadSHA p \<noteq> me_SHA m
            then ''#'' @ itoa (me_Number m) @ '' was pushed to while the stack was tested''
          else stale_members queued ms)"

definition staleReason :: "stack \<Rightarrow> string \<Rightarrow> queuedMap \<Rightarrow> string" where
  "staleReason s targetSHA queued =
     (if st_Base s \<noteq> targetSHA then ''the target branch moved while the stack was tested''
      else stale_members queued (st_Members s))"

definition unclaimedMembers :: "stack \<Rightarrow> int list \<Rightarrow> int list" where
  "unclaimedMembers s claimed = filter (\<lambda>n. count_list claimed n = 0) (stack_Numbers s)"

definition ineligibleReason :: "queuedPR \<Rightarrow> mqConfig \<Rightarrow> string" where
  "ineligibleReason p config =
     (if \<not> pr_SameRepo p then ''the queue only lands branches of this repository, not forks''
      else if pr_Draft p then ''it is a draft''
      else if pr_BaseRef p \<noteq> mc_Target config
        then ''it targets `'' @ pr_BaseRef p @ ''`, and the queue lands on `'' @ mc_Target config @ ''`''
      else if \<not> qp_LabelerCanWrite p
        then ''the `'' @ mc_Label config @ ''` label must be added by someone with write access''
      else [])"

definition failureActions :: "snapshot \<Rightarrow> inFlight \<Rightarrow> action list" where
  "failureActions sn f =
     (let s = if_Stack f;
          reason = ''required checks failed: '' @ strings_Join (cs_Failing (if_Checks f)) '', ''
      in if st_Retry s = 0 \<and> if_RerunIDs f \<noteq> []
           then [ActionRetry (s\<lparr>st_Retry := 1, st_At := time_Truncate (sn_Now sn) second\<rparr>) (if_RerunIDs f) reason]
         else if length (st_Members s) = 1
           then [ActionReject s (me_Number (st_Members s ! 0)) reason (cs_URLs (if_Checks f))]
         else (case Split (stack_Numbers s) of
                 (front, back) \<Rightarrow> [ActionSplit s reason, ActionForm front (st_Base s), ActionForm back (st_Base s)]))"

text \<open>Why each stack in flight is stale, \<^verbatim>\<open>""\<close> when it is not, and the first one that can land.\<close>

definition first_stale :: "snapshot \<Rightarrow> inFlight \<Rightarrow> string" where
  "first_stale sn f =
     (if if_Landed f then [] else staleReason (if_Stack f) (sn_TargetSHA sn) (queued_map (sn_Queued sn)))"

definition can_advance :: "snapshot \<Rightarrow> inFlight \<Rightarrow> bool" where
  "can_advance sn f \<longleftrightarrow> \<not> if_Landed f \<and> first_stale sn f = [] \<and> cs_State (if_Checks f) = StateSuccess"

definition advancing :: "snapshot \<Rightarrow> nat option" where
  "advancing sn = (case filter (\<lambda>i. can_advance sn (sn_Stacks sn ! i)) [0..<length (sn_Stacks sn)] of
     [] \<Rightarrow> None | i # is \<Rightarrow> Some i)"

definition stale_reasons :: "snapshot \<Rightarrow> string list" where
  "stale_reasons sn =
     map (\<lambda>i. let f = sn_Stacks sn ! i; reason = first_stale sn f
              in case advancing sn of
                   None \<Rightarrow> reason
                 | Some a \<Rightarrow>
                     if i \<noteq> a \<and> \<not> if_Landed f \<and> reason = []
                     then ''the stack of '' @ refs (stack_Numbers (if_Stack (sn_Stacks sn ! a))) @ '' lands first''
                     else reason)
       [0..<length (sn_Stacks sn)]"

text \<open>The loop over the stacks: the actions, whether anything resolved, what is still pending, who was handled.\<close>

record resolution =
  rs_actions :: "action list"
  rs_resolved :: bool
  rs_pending :: "inFlight list"
  rs_handled :: "int list"

fun resolve_stacks :: "snapshot \<Rightarrow> (inFlight \<times> string) list \<Rightarrow> resolution \<Rightarrow> resolution" where
  "resolve_stacks sn [] r = r"
| "resolve_stacks sn ((f, stale) # rest) r =
     (let s = if_Stack f;
          resolve = (\<lambda>actions. resolve_stacks sn rest (r\<lparr>rs_actions := rs_actions r @ actions, rs_resolved := True,
                       rs_handled := rs_handled r @ stack_Numbers s\<rparr>))
      in if if_Landed f then resolve [ActionLanded s]
         else if stale \<noteq> [] then resolve [ActionAbandon s stale []]
         else if cs_State (if_Checks f) = StatePending
           then resolve_stacks sn rest (r\<lparr>rs_pending := rs_pending r @ [f],
                  rs_actions := rs_actions r @ (if if_BatchmateRuns f \<noteq> [] then [ActionCancel s (if_BatchmateRuns f)] else [])\<rparr>)
         else if cs_State (if_Checks f) = StateSuccess then resolve [ActionAdvance s]
         else resolve (failureActions sn f))"

definition claimed_numbers :: "(inFlight \<times> string) list \<Rightarrow> int list" where
  "claimed_numbers judged =
     concat (map (\<lambda>(f, stale). if if_Landed f \<or> stale = [] then stack_Numbers (if_Stack f) else []) judged)"

fun release_members :: "int list \<Rightarrow> action \<Rightarrow> action" where
  "release_members claimed (ActionAbandon s reason prs) = ActionAbandon s reason (unclaimedMembers s claimed)"
| "release_members claimed a = a"

text \<open>The loop over the queued pull requests: comments on ineligible ones, and the candidates.\<close>

fun sort_candidates :: "mqConfig \<Rightarrow> int list \<Rightarrow> queuedPR list \<Rightarrow> action list \<times> queuedPR list" where
  "sort_candidates config busy [] = ([], [])"
| "sort_candidates config busy (p # ps) =
     (case sort_candidates config busy ps of
        (actions, candidates) \<Rightarrow>
          if qp_Landed p \<or> pr_Number p \<in> set busy then (actions, candidates)
          else if ineligibleReason p config \<noteq> []
            then (ActionComment (pr_Number p) (ineligibleComment (ineligibleReason p config) (mc_Label config) (qp_Owns p)) # actions,
                  candidates)
          else (actions, p # candidates))"

text \<open>The first candidates of a new stack; the loop never stops at a negative size.\<close>

definition take_batch :: "int \<Rightarrow> queuedPR list \<Rightarrow> int list" where
  "take_batch batchSize candidates = map pr_Number (if batchSize < 0 then candidates else take (nat batchSize) candidates)"

definition waiting_actions :: "queuedPR list \<Rightarrow> action list" where
  "waiting_actions waiting =
     map (\<lambda>i. ActionComment (pr_Number (waiting ! i))
            (waitingComment (int i + 1) (int (length waiting)) (qp_Owns (waiting ! i)))) [0..<length waiting]"

definition PlanTick :: "snapshot \<Rightarrow> mqConfig \<Rightarrow> plan" where
  "PlanTick sn config =
     (let judged = zip (sn_Stacks sn) (stale_reasons sn);
          r = resolve_stacks sn judged \<lparr>rs_actions = [], rs_resolved = False, rs_pending = [], rs_handled = []\<rparr>;
          actions = map (release_members (claimed_numbers judged)) (rs_actions r);
          active = concat (map (\<lambda>f. stack_Numbers (if_Stack f)) (rs_pending r))
      in case sort_candidates config (active @ rs_handled r) (sn_Queued sn) of
           (comments, candidates) \<Rightarrow>
             let next = (if \<not> rs_resolved r \<and> rs_pending r = [] then take_batch (mc_BatchSize config) candidates else []);
                 waiting = drop (length next) candidates
             in \<lparr>pl_Actions = actions @ comments @ waiting_actions waiting
                    @ (if next \<noteq> [] then [ActionForm next (sn_TargetSHA sn)] else []),
                 pl_Idle = (\<not> rs_resolved r \<and> next = [])\<rparr>)"

section \<open>The order of the queue\<close>

definition fifo_before :: "pr \<Rightarrow> pr \<Rightarrow> bool" where
  "fifo_before a b \<longleftrightarrow>
     (if time_isZero (pr_LabeledAt a) \<noteq> time_isZero (pr_LabeledAt b) then \<not> time_isZero (pr_LabeledAt a)
      else if pr_LabeledAt a \<noteq> pr_LabeledAt b then pr_LabeledAt a < pr_LabeledAt b
      else pr_Number a < pr_Number b)"

text \<open>A stable insertion sort, as \<^verbatim>\<open>slices.SortStableFunc\<close> orders.\<close>

fun fifo_insert :: "pr \<Rightarrow> pr list \<Rightarrow> pr list" where
  "fifo_insert p [] = [p]"
| "fifo_insert p (q # qs) = (if fifo_before q p then q # fifo_insert p qs else p # q # qs)"

definition sortFIFO :: "pr list \<Rightarrow> pr list" where
  "sortFIFO prs = foldr fifo_insert prs []"

end
