(* ===== verification/Merge_Queue_Correct.thy ===== *)
theory Merge_Queue_Correct
  imports Merge_Queue "HOL-Library.Multiset"
begin

text \<open>
  What the merge queue decides: which checks let a stack land, that the target moves at most
  once per tick and only to a commit that was tested on it, that new stacks form in order
  and only when nothing is in flight, and that bisection and the retry end.
\<close>

section \<open>Required checks\<close>

text \<open>The run that counts for a name is one of its runs, and none of them has a larger id.\<close>

lemma newest_runs_max:
  assumes "\<And>n c. map_of m n = Some c \<Longrightarrow> cr_Name c = n"
  shows "map_of (newest_runs m runs) name = Some run \<Longrightarrow>
     cr_Name run = name \<and> (run \<in> set runs \<or> map_of m name = Some run)
     \<and> (\<forall>r \<in> set runs. cr_Name r = name \<longrightarrow> cr_ID r \<le> cr_ID run)
     \<and> (\<forall>c. map_of m name = Some c \<longrightarrow> cr_ID c \<le> cr_ID run)"
  using assms
proof (induction runs arbitrary: m)
  case (Cons r runs)
  let ?m = "case map_of m (cr_Name r) of
      Some current \<Rightarrow> if cr_ID r > cr_ID current then AList.update (cr_Name r) r m else m
    | None \<Rightarrow> AList.update (cr_Name r) r m"
  have named: "map_of ?m n = Some c \<Longrightarrow> cr_Name c = n" for n c
    using Cons.prems(2) by (auto split: option.splits if_splits)
  have step: "map_of ?m n = (if n = cr_Name r \<and> (\<forall>c. map_of m n = Some c \<longrightarrow> cr_ID r > cr_ID c) then Some r else map_of m n)" for n
    by (cases "map_of m (cr_Name r)") simp_all
  have ih: "cr_Name run = name \<and> (run \<in> set runs \<or> map_of ?m name = Some run)
     \<and> (\<forall>r \<in> set runs. cr_Name r = name \<longrightarrow> cr_ID r \<le> cr_ID run)
     \<and> (\<forall>c. map_of ?m name = Some c \<longrightarrow> cr_ID c \<le> cr_ID run)"
    using Cons.prems(1) by (intro Cons.IH [OF _ named]) (simp_all only: newest_runs.simps)
  show ?case
  proof (cases "name = cr_Name r \<and> (\<forall>c. map_of m name = Some c \<longrightarrow> cr_ID r > cr_ID c)")
    case True
    then have "map_of ?m name = Some r" using step [of name] by simp
    note ih' = ih [unfolded this]
    have "cr_ID c < cr_ID run" if "map_of m name = Some c" for c using True that ih' by fastforce
    then show ?thesis using ih' by fastforce
  next
    case False
    then have same: "map_of ?m name = map_of m name" using step [of name] by (simp only: if_False)
    have "cr_ID r \<le> cr_ID run" if r: "cr_Name r = name"
    proof -
      obtain c where c: "map_of m name = Some c" "cr_ID r \<le> cr_ID c" using False r by (auto simp: not_less)
      then show ?thesis using ih [unfolded same] by fastforce
    qed
    then show ?thesis using ih [unfolded same] by simp
  qed
qed auto

lemma newest_runs_reported:
  "map_of (newest_runs m runs) name = None \<longleftrightarrow> map_of m name = None \<and> (\<forall>r \<in> set runs. cr_Name r \<noteq> name)"
  by (induction runs arbitrary: m) (auto split: option.splits)

text \<open>What one applicable check contributes.\<close>

definition check_failed :: "checkRun gomap \<Rightarrow> duration \<Rightarrow> duration \<Rightarrow> gotime \<Rightarrow> string \<Rightarrow> bool" where
  "check_failed newest age timeout retriedAt name =
     (case reported_run newest retriedAt name of
        None \<Rightarrow> age \<ge> timeout
      | Some run \<Rightarrow> cr_Status run = ''completed'' \<and> \<not> passed (cr_Conclusion run))"

definition check_passed :: "checkRun gomap \<Rightarrow> gotime \<Rightarrow> string \<Rightarrow> bool" where
  "check_passed newest retriedAt name =
     (case reported_run newest retriedAt name of
        None \<Rightarrow> False
      | Some run \<Rightarrow> cr_Status run = ''completed'' \<and> passed (cr_Conclusion run))"

lemma evaluate_loop_spec:
  "evaluate_loop changed newest age timeout retriedAt checks (pending, status) = (pending', status') \<Longrightarrow>
     cs_Failing status' = cs_Failing status @ map rc_Name (filter (\<lambda>c. Applicable c changed
        \<and> check_failed newest age timeout retriedAt (rc_Name c)) checks)
   \<and> (pending' \<longleftrightarrow> pending \<or> (\<exists>c \<in> set checks. Applicable c changed
        \<and> \<not> check_failed newest age timeout retriedAt (rc_Name c) \<and> \<not> check_passed newest retriedAt (rc_Name c)))"
proof (induction checks arbitrary: pending status)
  case (Cons c checks)
  show ?case
  proof (cases "Applicable c changed")
    case False
    then show ?thesis using Cons.IH [of pending status] Cons.prems by simp
  next
    case True
    show ?thesis
    proof (cases "reported_run newest retriedAt (rc_Name c)")
      case None
      then show ?thesis using Cons.IH Cons.prems True by (auto simp: check_failed_def check_passed_def split: if_splits)
    next
      case (Some run)
      then show ?thesis
        using Cons.IH Cons.prems True by (auto simp: check_failed_def check_passed_def split: if_splits)
    qed
  qed
qed simp

lemma Evaluate_parts:
  "cs_Failing (Evaluate required changed runs age timeout retriedAt) =
     map rc_Name (filter (\<lambda>c. Applicable c changed
        \<and> check_failed (newest_runs [] runs) age timeout retriedAt (rc_Name c)) required)"
  "cs_State (Evaluate required changed runs age timeout retriedAt) = StateSuccess \<longleftrightarrow>
     (\<forall>c \<in> set required. Applicable c changed \<longrightarrow> check_passed (newest_runs [] runs) retriedAt (rc_Name c))"
  "cs_State (Evaluate required changed runs age timeout retriedAt) = StateFailure \<longleftrightarrow>
     (\<exists>c \<in> set required. Applicable c changed \<and> check_failed (newest_runs [] runs) age timeout retriedAt (rc_Name c))"
proof -
  obtain pending status where e: "evaluate_loop changed (newest_runs [] runs) age timeout retriedAt required (False, zeroStatus) = (pending, status)"
    by fastforce
  have "cs_Failing zeroStatus = []" by (simp add: zeroStatus_def)
  note spec = evaluate_loop_spec [OF e, unfolded this append_Nil]
  have disjoint: "\<not> (check_failed n age timeout retriedAt name \<and> check_passed n retriedAt name)" for n name
    by (auto simp: check_failed_def check_passed_def split: option.splits)
  have names: "StateSuccess \<noteq> StateFailure" "StatePending \<noteq> StateSuccess" "StateFailure \<noteq> StateSuccess" "StatePending \<noteq> StateFailure"
    by (simp_all add: StateSuccess_def StateFailure_def StatePending_def)
  show "cs_Failing (Evaluate required changed runs age timeout retriedAt) =
     map rc_Name (filter (\<lambda>c. Applicable c changed
        \<and> check_failed (newest_runs [] runs) age timeout retriedAt (rc_Name c)) required)"
    using spec by (simp add: Evaluate_def e)
  show "cs_State (Evaluate required changed runs age timeout retriedAt) = StateSuccess \<longleftrightarrow>
     (\<forall>c \<in> set required. Applicable c changed \<longrightarrow> check_passed (newest_runs [] runs) retriedAt (rc_Name c))"
    using spec disjoint names by (auto simp: Evaluate_def e filter_empty_conv)
  show "cs_State (Evaluate required changed runs age timeout retriedAt) = StateFailure \<longleftrightarrow>
     (\<exists>c \<in> set required. Applicable c changed \<and> check_failed (newest_runs [] runs) age timeout retriedAt (rc_Name c))"
    using spec disjoint names by (auto simp: Evaluate_def e filter_empty_conv)
qed

lemma check_passed_iff:
  "check_passed (newest_runs [] runs) retriedAt name \<longleftrightarrow>
     (\<exists>run. map_of (newest_runs [] runs) name = Some run \<and> run \<in> set runs \<and> cr_Name run = name
        \<and> (\<forall>r \<in> set runs. cr_Name r = name \<longrightarrow> cr_ID r \<le> cr_ID run)
        \<and> cr_Status run = ''completed'' \<and> passed (cr_Conclusion run))"
  using newest_runs_max [of "[]" runs name] by (auto simp: check_passed_def reported_run_def split: option.splits if_splits)

text \<open>
  C33. A stack is green only on evidence.  \<^verbatim>\<open>Evaluate\<close> reports success exactly when for every
  required check that applies to the changed files there is a check run of that name,
  no run of that name is newer, and it is completed with a passing conclusion.  A check
  that never reported, is still running or failed never counts as a pass; after a
  re-run neither does the failure it replaces.
\<close>

theorem Evaluate_success_iff:
  "cs_State (Evaluate required changedFiles runs age timeout retriedAt) = StateSuccess \<longleftrightarrow>
   (\<forall>check \<in> set required. Applicable check changedFiles \<longrightarrow>
      (\<exists>run. map_of (newest_runs [] runs) (rc_Name check) = Some run \<and> run \<in> set runs \<and> cr_Name run = rc_Name check
         \<and> (\<forall>r \<in> set runs. cr_Name r = rc_Name check \<longrightarrow> cr_ID r \<le> cr_ID run)
         \<and> cr_Status run = ''completed'' \<and> passed (cr_Conclusion run)))"
  by (simp add: Evaluate_parts(2) check_passed_iff)

definition example_check :: requiredCheck where
  "example_check = \<lparr>rc_Name = ''ci'', rc_Paths = []\<rparr>"

definition example_run :: checkRun where
  "example_run = \<lparr>cr_ID = 5, cr_Name = ''ci'', cr_Status = ''completed'', cr_Conclusion = ''success'',
     cr_URL = ''url'', cr_SuiteID = 3, cr_StartedAt = 100\<rparr>"

theorem Evaluate_success_iff_witness:
  "cs_State (Evaluate [example_check] [''a.go''] [example_run\<lparr>cr_ID := 4, cr_Conclusion := ''failure''\<rparr>, example_run] 0 1 0) = StateSuccess"
  by (subst Evaluate_success_iff) (auto simp: example_check_def example_run_def passed_def)

text \<open>
  A failure wins and is never waited out: \<^verbatim>\<open>Evaluate\<close> reports failure exactly when some
  applicable required check has its newest run completed without passing (and that
  failure is not older than the re-run), or has not reported when the timeout is over;
  and the checks it names are exactly those, in the order of the configuration.
\<close>

theorem Evaluate_failure_names:
  "let status = Evaluate required changedFiles runs age timeout retriedAt;
       failed = (\<lambda>check. Applicable check changedFiles \<and>
         (case reported_run (newest_runs [] runs) retriedAt (rc_Name check) of
            None \<Rightarrow> timeout \<le> age
          | Some run \<Rightarrow> cr_Status run = ''completed'' \<and> \<not> passed (cr_Conclusion run)))
   in cs_Failing status = map rc_Name (filter failed required)
    \<and> (cs_State status = StateFailure \<longleftrightarrow> cs_Failing status \<noteq> [])"
  unfolding Let_def Evaluate_parts(3) Evaluate_parts(1) by (auto simp: check_failed_def filter_empty_conv)

section \<open>Bisection\<close>

text \<open>
  Bisection loses no pull request, keeps the order and ends: the two halves of a failed
  stack are its members in order, neither is empty, and the larger has at most half of
  them, rounded up; so a stack of at most \<open>2 ^ k\<close> is down to single pull requests after
  \<open>k\<close> splits.
\<close>

theorem Split_halves:
  assumes "Split prs = (front, back)" and "2 \<le> length prs"
  shows "front @ back = prs \<and> front \<noteq> [] \<and> back \<noteq> [] \<and> length front = (length prs + 1) div 2
     \<and> length back \<le> length front \<and> (length prs \<le> 2 ^ Suc k \<longrightarrow> length front \<le> 2 ^ k \<and> length back \<le> 2 ^ k)"
  using assms by (auto simp: Split_def Let_def)

theorem Split_halves_witness: "Split [4, 7, 9] = ([4, 7], [9]) \<and> length [4, 7 :: int] \<le> 2 ^ 1"
  using Split_halves [of "[4, 7, 9]" "[4, 7]" "[9]" 1] by (simp add: Split_def)

section \<open>The plan of a tick\<close>

text \<open>What the loop over the stacks does with each, in closed form.\<close>

definition still_pending :: "inFlight \<times> string \<Rightarrow> bool" where
  "still_pending j \<longleftrightarrow> \<not> if_Landed (fst j) \<and> snd j = [] \<and> cs_State (if_Checks (fst j)) = StatePending"

definition stack_actions :: "snapshot \<Rightarrow> inFlight \<times> string \<Rightarrow> action list" where
  "stack_actions sn j =
     (let f = fst j; s = if_Stack f
      in if if_Landed f then [ActionLanded s]
         else if snd j \<noteq> [] then [ActionAbandon s (snd j) []]
         else if cs_State (if_Checks f) = StatePending
           then (if if_BatchmateRuns f \<noteq> [] then [ActionCancel s (if_BatchmateRuns f)] else [])
         else if cs_State (if_Checks f) = StateSuccess then [ActionAdvance s]
         else failureActions sn f)"

lemma resolve_stacks_spec:
  "rs_actions (resolve_stacks sn judged r) = rs_actions r @ concat (map (stack_actions sn) judged)
   \<and> (rs_resolved (resolve_stacks sn judged r) \<longleftrightarrow> rs_resolved r \<or> (\<exists>j \<in> set judged. \<not> still_pending j))
   \<and> rs_pending (resolve_stacks sn judged r) = rs_pending r @ map fst (filter still_pending judged)"
proof (induction judged arbitrary: r)
  case (Cons j judged)
  obtain f stale where j: "j = (f, stale)" by (cases j)
  show ?case unfolding j by (simp add: Cons.IH stack_actions_def still_pending_def Let_def)
qed simp

abbreviation judged :: "snapshot \<Rightarrow> (inFlight \<times> string) list" where
  "judged sn \<equiv> zip (sn_Stacks sn) (stale_reasons sn)"

lemma length_stale_reasons [simp]: "length (stale_reasons sn) = length (sn_Stacks sn)"
  by (simp add: stale_reasons_def)

definition is_form :: "action \<Rightarrow> bool" where
  "is_form a = (case a of ActionForm prs base \<Rightarrow> True | _ \<Rightarrow> False)"

definition is_comment :: "action \<Rightarrow> bool" where
  "is_comment a = (case a of ActionComment n body \<Rightarrow> True | _ \<Rightarrow> False)"

lemma sort_candidates_spec:
  "(\<forall>a \<in> set (fst (sort_candidates config busy ps)). is_comment a) \<and>
   snd (sort_candidates config busy ps) =
     filter (\<lambda>p. \<not> qp_Landed p \<and> pr_Number p \<notin> set busy \<and> ineligibleReason p config = []) ps"
  by (induction ps) (auto simp: is_comment_def split: prod.splits)

text \<open>A plan is what the stacks ask for, then comments, then at most one new stack.\<close>

lemma PlanTick_parts:
  obtains comments candidates where
    "pl_Actions (PlanTick sn config) =
       map (release_members (claimed_numbers (judged sn))) (concat (map (stack_actions sn) (judged sn))) @ comments
       @ (if sn_Stacks sn = [] \<and> take_batch (mc_BatchSize config) candidates \<noteq> []
          then [ActionForm (take_batch (mc_BatchSize config) candidates) (sn_TargetSHA sn)] else [])"
    "\<And>a. a \<in> set comments \<Longrightarrow> is_comment a"
    "sn_Stacks sn = [] \<Longrightarrow> candidates = filter (\<lambda>p. \<not> qp_Landed p \<and> ineligibleReason p config = []) (sn_Queued sn)"
    "pl_Idle (PlanTick sn config) \<longleftrightarrow> (\<forall>j \<in> set (judged sn). still_pending j)
       \<and> \<not> (sn_Stacks sn = [] \<and> take_batch (mc_BatchSize config) candidates \<noteq> [])"
proof -
  let ?r = "resolve_stacks sn (judged sn) \<lparr>rs_actions = [], rs_resolved = False, rs_pending = [], rs_handled = []\<rparr>"
  let ?busy = "concat (map (\<lambda>f. stack_Numbers (if_Stack f)) (rs_pending ?r)) @ rs_handled ?r"
  define comments where "comments = fst (sort_candidates config ?busy (sn_Queued sn))"
  define candidates where "candidates = snd (sort_candidates config ?busy (sn_Queued sn))"
  note spec = resolve_stacks_spec [of sn "judged sn" "\<lparr>rs_actions = [], rs_resolved = False, rs_pending = [], rs_handled = []\<rparr>"]
  have fresh: "\<not> rs_resolved ?r \<and> rs_pending ?r = [] \<longleftrightarrow> sn_Stacks sn = []"
  proof
    assume *: "\<not> rs_resolved ?r \<and> rs_pending ?r = []"
    then have "\<forall>j \<in> set (judged sn). still_pending j" "filter still_pending (judged sn) = []" using spec by auto
    then have "judged sn = []" by (cases "judged sn") auto
    then show "sn_Stacks sn = []" by (metis length_stale_reasons length_zip length_0_conv min.idem)
  next
    assume "sn_Stacks sn = []"
    then show "\<not> rs_resolved ?r \<and> rs_pending ?r = []" using spec by simp
  qed
  define next' where "next' = (if sn_Stacks sn = [] then take_batch (mc_BatchSize config) candidates else [])"
  have plan: "PlanTick sn config = \<lparr>pl_Actions = map (release_members (claimed_numbers (judged sn))) (rs_actions ?r) @ comments
      @ waiting_actions (drop (length next') candidates) @ (if next' \<noteq> [] then [ActionForm next' (sn_TargetSHA sn)] else []),
      pl_Idle = (\<not> rs_resolved ?r \<and> next' = [])\<rparr>"
    unfolding PlanTick_def Let_def fresh comments_def candidates_def next'_def by (simp add: case_prod_beta)
  have waiting: "\<And>a. a \<in> set (waiting_actions ws) \<Longrightarrow> is_comment a" for ws by (auto simp: waiting_actions_def is_comment_def)
  show ?thesis
  proof (rule that [of "comments @ waiting_actions (drop (length next') candidates)" candidates])
    show "sn_Stacks sn = [] \<Longrightarrow> candidates = filter (\<lambda>p. \<not> qp_Landed p \<and> ineligibleReason p config = []) (sn_Queued sn)"
      unfolding candidates_def sort_candidates_spec [THEN conjunct2] by simp
    show "a \<in> set (comments @ waiting_actions (drop (length next') candidates)) \<Longrightarrow> is_comment a" for a
      using sort_candidates_spec [of config ?busy "sn_Queued sn"] waiting by (auto simp: comments_def)
  qed (use plan spec in \<open>auto simp: next'_def\<close>)
qed

definition is_advance :: "action \<Rightarrow> bool" where
  "is_advance a = (case a of ActionAdvance s \<Rightarrow> True | _ \<Rightarrow> False)"

definition is_abandon :: "action \<Rightarrow> bool" where
  "is_abandon a = (case a of ActionAbandon s reason prs \<Rightarrow> True | _ \<Rightarrow> False)"

lemma comment_kind: "is_comment a \<Longrightarrow> \<not> is_advance a \<and> \<not> is_abandon a \<and> \<not> is_form a"
  by (cases a) (simp_all add: is_comment_def is_advance_def is_abandon_def is_form_def)

lemma release_members_kind: "\<not> is_abandon a \<Longrightarrow> release_members c x = a \<longleftrightarrow> x = a"
  by (cases x) (auto simp: is_abandon_def)

lemma release_members_set: "\<not> is_abandon a \<Longrightarrow> a \<in> set (map (release_members c) xs) \<longleftrightarrow> a \<in> set xs"
  using release_members_kind [of a c] by (metis (no_types, opaque_lifting) imageE image_eqI set_map)

lemma filter_advance_release: "filter is_advance (map (release_members c) xs) = filter is_advance xs"
proof (induction xs)
  case (Cons a xs)
  then show ?case by (cases a) (auto simp: is_advance_def)
qed simp

text \<open>A stack that is current, by what \<^verbatim>\<open>staleReason\<close> answers.\<close>

lemma map_of_fold_update_None:
  "map_of (fold (\<lambda>p. AList.update (f p) p) ps acc) n = None \<longleftrightarrow> n \<notin> f ` set ps \<and> map_of acc n = None"
  by (induction ps arbitrary: acc) (auto simp: update_conv')

lemma queued_map_None: "map_of (queued_map prs) n = None \<longleftrightarrow> n \<notin> pr_Number ` set prs"
  by (simp add: queued_map_def map_of_fold_update_None)

lemma queued_map_SomeD: "map_of (queued_map prs) n = Some p \<Longrightarrow> p \<in> set prs \<and> pr_Number p = n"
proof -
  have "map_of (fold (\<lambda>p. AList.update (pr_Number p) p) prs m) n = Some p \<Longrightarrow>
      (p \<in> set prs \<and> pr_Number p = n) \<or> map_of m n = Some p" for m
    by (induction prs arbitrary: m) (fastforce split: if_splits)+
  then show "map_of (queued_map prs) n = Some p \<Longrightarrow> p \<in> set prs \<and> pr_Number p = n"
    unfolding queued_map_def by fastforce
qed

lemma not_stale:
  assumes "staleReason s target (queued_map prs) = []"
  shows "st_Base s = target \<and> (\<forall>m \<in> set (st_Members s). \<exists>p \<in> set prs. pr_Number p = me_Number m \<and> pr_HeadSHA p = me_SHA m)"
proof -
  have "stale_members (queued_map prs) ms = [] \<Longrightarrow> \<forall>m \<in> set ms. \<exists>p \<in> set prs. pr_Number p = me_Number m \<and> pr_HeadSHA p = me_SHA m" for ms
    by (induction ms) (auto split: option.splits if_splits dest: queued_map_SomeD)
  then show ?thesis using assms by (auto simp: staleReason_def split: if_splits)
qed

lemma stale_reason_nth:
  assumes "i < length (sn_Stacks sn)"
  shows "judged sn ! i = (sn_Stacks sn ! i, stale_reasons sn ! i)"
    and "stale_reasons sn ! i = [] \<Longrightarrow> first_stale sn (sn_Stacks sn ! i) = []"
    and "stale_reasons sn ! i = [] \<Longrightarrow> \<not> if_Landed (sn_Stacks sn ! i) \<Longrightarrow> advancing sn = Some a \<Longrightarrow> i = a"
  using assms by (auto simp: stale_reasons_def Let_def split: option.splits if_splits)

lemma advancing_Some: "advancing sn = Some a \<Longrightarrow> a < length (sn_Stacks sn) \<and> can_advance sn (sn_Stacks sn ! a)"
  by (auto simp: advancing_def filter_eq_Cons_iff split: list.splits) (metis add_leD1 atLeastLessThan_iff in_set_conv_decomp set_upt)+

lemma advancing_None: "advancing sn = None \<Longrightarrow> i < length (sn_Stacks sn) \<Longrightarrow> \<not> can_advance sn (sn_Stacks sn ! i)"
  by (auto simp: advancing_def filter_empty_conv split: list.splits)

lemma stack_actions_advance:
  "filter is_advance (stack_actions sn j) =
     (if \<not> if_Landed (fst j) \<and> snd j = [] \<and> cs_State (if_Checks (fst j)) = StateSuccess then [ActionAdvance (if_Stack (fst j))] else [])"
  by (auto simp: stack_actions_def failureActions_def Let_def is_advance_def StateSuccess_def StatePending_def split: prod.splits)

lemma advance_index:
  assumes "i < length (sn_Stacks sn)"
  shows "filter is_advance (stack_actions sn (judged sn ! i)) =
     (if advancing sn = Some i then [ActionAdvance (if_Stack (sn_Stacks sn ! i))] else [])"
proof (cases "advancing sn = Some i")
  case True
  then have "can_advance sn (sn_Stacks sn ! i)" using advancing_Some by blast
  moreover have "stale_reasons sn ! i = first_stale sn (sn_Stacks sn ! i)"
    using True assms by (simp add: stale_reasons_def Let_def)
  ultimately show ?thesis using True by (simp add: stack_actions_advance stale_reason_nth(1) [OF assms] can_advance_def)
next
  case False
  have "\<not> (\<not> if_Landed (sn_Stacks sn ! i) \<and> stale_reasons sn ! i = [] \<and> cs_State (if_Checks (sn_Stacks sn ! i)) = StateSuccess)"
  proof
    assume *: "\<not> if_Landed (sn_Stacks sn ! i) \<and> stale_reasons sn ! i = [] \<and> cs_State (if_Checks (sn_Stacks sn ! i)) = StateSuccess"
    then have c: "can_advance sn (sn_Stacks sn ! i)" using stale_reason_nth(2) [OF assms] by (simp add: can_advance_def)
    then obtain a where "advancing sn = Some a" using advancing_None [OF _ assms] by (cases "advancing sn") auto
    then show False using stale_reason_nth(3) [OF assms] * False by blast
  qed
  then show ?thesis using False by (simp add: stack_actions_advance stale_reason_nth(1) [OF assms])
qed

lemma concat_single: "concat (map (\<lambda>i. if a = Some i then [f i] else []) [0..<n]) = (case a of None \<Rightarrow> [] | Some i \<Rightarrow> if i < n then [f i] else [])"
  by (induction n) (auto split: option.splits)

text \<open>All the advances of a plan.\<close>

lemma plan_advances:
  "filter is_advance (pl_Actions (PlanTick sn config)) =
     (case advancing sn of None \<Rightarrow> [] | Some a \<Rightarrow> [ActionAdvance (if_Stack (sn_Stacks sn ! a))])"
proof -
  obtain comments candidates where p:
    "pl_Actions (PlanTick sn config) =
       map (release_members (claimed_numbers (judged sn))) (concat (map (stack_actions sn) (judged sn))) @ comments
       @ (if sn_Stacks sn = [] \<and> take_batch (mc_BatchSize config) candidates \<noteq> []
          then [ActionForm (take_batch (mc_BatchSize config) candidates) (sn_TargetSHA sn)] else [])"
    "\<And>a. a \<in> set comments \<Longrightarrow> is_comment a"
    by (rule PlanTick_parts [of sn config]) (rule that, assumption+)
  have none: "filter is_advance comments = []"
    using p(2) comment_kind by (auto simp: filter_empty_conv)
  have "map (stack_actions sn) (judged sn) = map (\<lambda>i. stack_actions sn (judged sn ! i)) [0..<length (sn_Stacks sn)]"
    by (rule nth_equalityI) simp_all
  then have "filter is_advance (concat (map (stack_actions sn) (judged sn)))
      = concat (map (\<lambda>i. filter is_advance (stack_actions sn (judged sn ! i))) [0..<length (sn_Stacks sn)])"
    by (simp only: filter_concat map_map comp_def)
  also have "\<dots> = concat (map (\<lambda>i. if advancing sn = Some i then [ActionAdvance (if_Stack (sn_Stacks sn ! i))] else []) [0..<length (sn_Stacks sn)])"
    using advance_index [of _ sn] by (intro arg_cong [of _ _ concat] map_cong) (simp_all del: nth_zip)
  finally have stacks: "filter is_advance (concat (map (stack_actions sn) (judged sn))) =
      (case advancing sn of None \<Rightarrow> [] | Some a \<Rightarrow> [ActionAdvance (if_Stack (sn_Stacks sn ! a))])"
    using advancing_Some [of sn] by (simp add: concat_single split: option.splits)
  show ?thesis unfolding p(1) filter_append filter_advance_release stacks none by (simp add: is_advance_def)
qed

text \<open>Every action that is neither an abandonment nor a comment comes from a stack or is the new one.\<close>

lemma plan_action_cases:
  assumes "a \<in> set (pl_Actions (PlanTick sn config))" and "\<not> is_abandon a" and "\<not> is_comment a"
  obtains i where "i < length (sn_Stacks sn)" "a \<in> set (stack_actions sn (sn_Stacks sn ! i, stale_reasons sn ! i))"
  | "sn_Stacks sn = []" "a = ActionForm (take_batch (mc_BatchSize config)
        (filter (\<lambda>p. \<not> qp_Landed p \<and> ineligibleReason p config = []) (sn_Queued sn))) (sn_TargetSHA sn)"
     "take_batch (mc_BatchSize config) (filter (\<lambda>p. \<not> qp_Landed p \<and> ineligibleReason p config = []) (sn_Queued sn)) \<noteq> []"
proof -
  obtain comments candidates where p:
    "pl_Actions (PlanTick sn config) =
       map (release_members (claimed_numbers (judged sn))) (concat (map (stack_actions sn) (judged sn))) @ comments
       @ (if sn_Stacks sn = [] \<and> take_batch (mc_BatchSize config) candidates \<noteq> []
          then [ActionForm (take_batch (mc_BatchSize config) candidates) (sn_TargetSHA sn)] else [])"
    "\<And>a. a \<in> set comments \<Longrightarrow> is_comment a"
    "sn_Stacks sn = [] \<Longrightarrow> candidates = filter (\<lambda>p. \<not> qp_Landed p \<and> ineligibleReason p config = []) (sn_Queued sn)"
    by (rule PlanTick_parts [of sn config]) (rule that, assumption+)
  consider "a \<in> set (map (release_members (claimed_numbers (judged sn))) (concat (map (stack_actions sn) (judged sn))))"
    | "sn_Stacks sn = []" "take_batch (mc_BatchSize config) candidates \<noteq> []"
      "a = ActionForm (take_batch (mc_BatchSize config) candidates) (sn_TargetSHA sn)"
    using assms(1,3) p(1,2) by (auto split: if_splits)
  then show thesis
  proof cases
    case 1
    then have "a \<in> set (concat (map (stack_actions sn) (judged sn)))"
      using release_members_set [OF assms(2)] by blast
    then obtain j where j: "j \<in> set (judged sn)" "a \<in> set (stack_actions sn j)" by auto
    then obtain i where "i < length (sn_Stacks sn)" "j = judged sn ! i" by (auto simp: in_set_conv_nth)
    then show thesis using j(2) that(1) stale_reason_nth(1) by metis
  next
    case 2
    then show thesis using that(2) p(3) by simp
  qed
qed

text \<open>
  The target moves at most once per tick, and only to a tested commit.  A plan holds at
  most one fast-forward; its stack is in flight and not landed, its required checks
  are green, it was built on exactly the commit the target has now, and every member is
  still queued with exactly the head the stack recorded.
\<close>

theorem plan_advances_tested_stack:
  "length (filter is_advance (pl_Actions (PlanTick sn config))) \<le> 1 \<and>
   (\<forall>s. ActionAdvance s \<in> set (pl_Actions (PlanTick sn config)) \<longrightarrow>
      st_Base s = sn_TargetSHA sn
    \<and> (\<exists>f \<in> set (sn_Stacks sn). if_Stack f = s \<and> \<not> if_Landed f \<and> cs_State (if_Checks f) = StateSuccess)
    \<and> (\<forall>m \<in> set (st_Members s). \<exists>p \<in> set (sn_Queued sn). pr_Number p = me_Number m \<and> pr_HeadSHA p = me_SHA m))"
proof (intro conjI allI impI)
  show "length (filter is_advance (pl_Actions (PlanTick sn config))) \<le> 1"
    by (simp add: plan_advances split: option.splits)
  fix s assume "ActionAdvance s \<in> set (pl_Actions (PlanTick sn config))"
  then have "ActionAdvance s \<in> set (filter is_advance (pl_Actions (PlanTick sn config)))" by (simp add: is_advance_def)
  then obtain a where a: "advancing sn = Some a" "s = if_Stack (sn_Stacks sn ! a)"
    by (cases "advancing sn") (auto simp: plan_advances)
  have c: "a < length (sn_Stacks sn)" "can_advance sn (sn_Stacks sn ! a)" using advancing_Some [OF a(1)] by auto
  then have "staleReason s (sn_TargetSHA sn) (queued_map (sn_Queued sn)) = []"
    by (auto simp: can_advance_def first_stale_def a(2) split: if_splits)
  from not_stale [OF this]
  show "st_Base s = sn_TargetSHA sn"
    "\<forall>m \<in> set (st_Members s). \<exists>p \<in> set (sn_Queued sn). pr_Number p = me_Number m \<and> pr_HeadSHA p = me_SHA m" by auto
  show "\<exists>f \<in> set (sn_Stacks sn). if_Stack f = s \<and> \<not> if_Landed f \<and> cs_State (if_Checks f) = StateSuccess"
    using c a(2) by (intro bexI [of _ "sn_Stacks sn ! a"]) (auto simp: can_advance_def)
qed

definition example_sha :: "char \<Rightarrow> string" where
  "example_sha c = replicate 40 c"

definition example_pr :: "int \<Rightarrow> queuedPR" where
  "example_pr n = \<lparr>pr_Number = n, pr_HeadSHA = example_sha (CHR ''b''), pr_HeadRef = ''topic'', pr_BaseRef = ''main'',
     pr_SameRepo = True, pr_Draft = False, pr_LabeledAt = 5, pr_LabeledBy = ''dev'',
     qp_LabelerCanWrite = True, qp_Owns = [], qp_Landed = False\<rparr>"

definition example_stack :: stack where
  "example_stack = \<lparr>st_Base = example_sha (CHR ''a''), st_Members = [\<lparr>me_Number = 7, me_SHA = example_sha (CHR ''b'')\<rparr>],
     st_Retry = 0, st_At = 62135596805 * second\<rparr>"

definition example_flight :: "string \<Rightarrow> inFlight" where
  "example_flight state = \<lparr>if_Stack = example_stack, if_Landed = False, if_Checks = zeroStatus\<lparr>cs_State := state\<rparr>,
     if_RerunIDs = [], if_BatchmateRuns = []\<rparr>"

definition example_config :: mqConfig where
  "example_config = \<lparr>mc_Target = ''main'', mc_Label = ''queue'', mc_BatchSize = 3,
     mc_RequiredChecks = [example_check], mc_CheckTimeout = 45 * minute\<rparr>"

definition example_snapshot :: "inFlight list \<Rightarrow> snapshot" where
  "example_snapshot stacks = \<lparr>sn_Now = 62135596810 * second, sn_TargetSHA = example_sha (CHR ''a''),
     sn_Queued = [example_pr 7], sn_Stacks = stacks\<rparr>"

lemma example_advances:
  "pl_Actions (PlanTick (example_snapshot [example_flight StateSuccess]) example_config) = [ActionAdvance example_stack]"
  by code_simp

theorem plan_advances_tested_stack_witness:
  "ActionAdvance example_stack \<in> set (pl_Actions (PlanTick (example_snapshot [example_flight StateSuccess]) example_config))
   \<and> st_Base example_stack = sn_TargetSHA (example_snapshot [example_flight StateSuccess])"
  using plan_advances_tested_stack [of "example_snapshot [example_flight StateSuccess]" example_config] example_advances by simp

definition eligible :: "mqConfig \<Rightarrow> queuedPR \<Rightarrow> bool" where
  "eligible config p \<longleftrightarrow> \<not> qp_Landed p \<and> pr_SameRepo p \<and> \<not> pr_Draft p \<and> pr_BaseRef p = mc_Target config \<and> qp_LabelerCanWrite p"

lemma eligible_iff: "\<not> qp_Landed p \<and> ineligibleReason p config = [] \<longleftrightarrow> eligible config p"
  by (simp add: eligible_def ineligibleReason_def)

lemma live_stack:
  assumes "i < length (sn_Stacks sn)" and "stale_reasons sn ! i = []" and "\<not> if_Landed (sn_Stacks sn ! i)"
  shows "st_Base (if_Stack (sn_Stacks sn ! i)) = sn_TargetSHA sn \<and>
    (\<forall>m \<in> set (st_Members (if_Stack (sn_Stacks sn ! i))). \<exists>p \<in> set (sn_Queued sn). pr_Number p = me_Number m \<and> pr_HeadSHA p = me_SHA m)"
  using not_stale [of "if_Stack (sn_Stacks sn ! i)"] stale_reason_nth(2) [OF assms(1,2)] assms(3) by (simp add: first_stale_def)

text \<open>A red stack in flight that still matches GitHub.\<close>

definition red_stack :: "snapshot \<Rightarrow> inFlight \<Rightarrow> bool" where
  "red_stack sn f \<longleftrightarrow> f \<in> set (sn_Stacks sn) \<and> \<not> if_Landed f \<and> st_Base (if_Stack f) = sn_TargetSHA sn
     \<and> cs_State (if_Checks f) \<noteq> StatePending \<and> cs_State (if_Checks f) \<noteq> StateSuccess
     \<and> (\<forall>m \<in> set (st_Members (if_Stack f)). \<exists>p \<in> set (sn_Queued sn). pr_Number p = me_Number m \<and> pr_HeadSHA p = me_SHA m)"

lemma plan_failure_cases:
  assumes "a \<in> set (pl_Actions (PlanTick sn config))"
    and "case a of ActionForm prs base \<Rightarrow> True | ActionRetry s ids reason \<Rightarrow> True | ActionReject s n reason urls \<Rightarrow> True
         | ActionSplit s reason \<Rightarrow> True | _ \<Rightarrow> False"
  obtains f where "red_stack sn f" "a \<in> set (failureActions sn f)" "advancing sn = None"
  | "sn_Stacks sn = []" "a = ActionForm (take_batch (mc_BatchSize config) (filter (eligible config) (sn_Queued sn))) (sn_TargetSHA sn)"
     "take_batch (mc_BatchSize config) (filter (eligible config) (sn_Queued sn)) \<noteq> []"
proof -
  have kinds: "\<not> is_abandon a" "\<not> is_comment a"
    using assms(2) by (auto simp: is_abandon_def is_comment_def split: action.splits)
  show thesis
    using assms(1) kinds
  proof (cases rule: plan_action_cases)
    case (1 i)
    let ?f = "sn_Stacks sn ! i"
    have f: "\<not> if_Landed ?f" "stale_reasons sn ! i = []" "cs_State (if_Checks ?f) \<noteq> StatePending"
        "cs_State (if_Checks ?f) \<noteq> StateSuccess" "a \<in> set (failureActions sn ?f)"
      using 1(2) assms(2) by (auto simp: stack_actions_def Let_def split: if_splits)
    have "advancing sn = None"
    proof (rule ccontr)
      assume "advancing sn \<noteq> None"
      then obtain b where b: "advancing sn = Some b" by blast
      then have "i = b" using stale_reason_nth(3) [OF 1(1) f(2,1)] by blast
      then show False using advancing_Some [OF b] f(4) by (simp add: can_advance_def)
    qed
    then show thesis
      using that(1) [of ?f] f live_stack [OF 1(1) f(2,1)] 1(1) by (simp add: red_stack_def)
  next
    case 2
    then show thesis using that(2) unfolding eligible_iff by simp
  qed
qed

text \<open>
  C35. New stacks form in order and only on an empty queue line.  Whenever a plan forms a
  stack, its base is the commit the target has now and the plan does not move the
  target.  Either nothing was in flight, and the stack is the first pull requests in
  the order of the queue that are eligible, at most a batch of them; or it is one half
  of a red stack in flight that could not be retried any more.
\<close>

theorem plan_forms_in_order:
  assumes "ActionForm prs base \<in> set (pl_Actions (PlanTick sn config))" and "1 \<le> mc_BatchSize config"
  shows "base = sn_TargetSHA sn \<and> filter is_advance (pl_Actions (PlanTick sn config)) = [] \<and>
    ((sn_Stacks sn = [] \<and> prs = map pr_Number (take (nat (mc_BatchSize config)) (filter (eligible config) (sn_Queued sn)))
        \<and> length prs \<le> nat (mc_BatchSize config))
   \<or> (\<exists>f. red_stack sn f \<and> (st_Retry (if_Stack f) \<noteq> 0 \<or> if_RerunIDs f = []) \<and> length (st_Members (if_Stack f)) \<noteq> 1
        \<and> (prs = fst (Split (stack_Numbers (if_Stack f))) \<or> prs = snd (Split (stack_Numbers (if_Stack f))))))"
proof (cases rule: plan_failure_cases [OF assms(1)])
  case (2 f)
  then have "st_Base (if_Stack f) = sn_TargetSHA sn" by (simp add: red_stack_def)
  then have form: "base = sn_TargetSHA sn" "st_Retry (if_Stack f) \<noteq> 0 \<or> if_RerunIDs f = []"
      "length (st_Members (if_Stack f)) \<noteq> 1"
      "prs = fst (Split (stack_Numbers (if_Stack f))) \<or> prs = snd (Split (stack_Numbers (if_Stack f)))"
    using 2(2) by (auto simp: failureActions_def Let_def case_prod_beta split: if_splits)
  have "filter is_advance (pl_Actions (PlanTick sn config)) = []" using 2(3) by (simp add: plan_advances)
  then show ?thesis using form 2(1) by blast
next
  case 3
  then have "advancing sn = None" by (simp add: advancing_def)
  then show ?thesis using 3 assms(2) by (simp add: take_batch_def plan_advances)
qed simp

lemma example_forms:
  "pl_Actions (PlanTick (example_snapshot []) example_config) = [ActionForm [7] (example_sha (CHR ''a''))]"
  by code_simp

theorem plan_forms_in_order_witness:
  "ActionForm [7] (example_sha (CHR ''a'')) \<in> set (pl_Actions (PlanTick (example_snapshot []) example_config))
   \<and> example_sha (CHR ''a'') = sn_TargetSHA (example_snapshot [])"
proof -
  have "ActionForm [7] (example_sha (CHR ''a'')) \<in> set (pl_Actions (PlanTick (example_snapshot []) example_config))"
    "1 \<le> mc_BatchSize example_config" by (simp add: example_forms) (simp add: example_config_def)
  from plan_forms_in_order [OF this] this(1) show ?thesis by blast
qed

text \<open>
  A red stack is retried once, then bisected, and only a single pull request is rejected.
  A retry is planned only for a stack that was not retried yet, whose failed jobs can be
  re-run, and it records that; a rejection or a split only for a red stack that was
  retried or cannot be, and a rejection only of its one member.
\<close>

theorem plan_failure_handling:
  assumes "a \<in> set (pl_Actions (PlanTick sn config))"
  shows "case a of
      ActionRetry s ids reason \<Rightarrow> (\<exists>f. red_stack sn f \<and> st_Retry (if_Stack f) = 0 \<and> ids = if_RerunIDs f \<and> ids \<noteq> []
         \<and> st_Retry s = 1 \<and> st_Base s = st_Base (if_Stack f) \<and> st_Members s = st_Members (if_Stack f) \<and> st_At s \<le> sn_Now sn)
    | ActionReject s n reason urls \<Rightarrow> (\<exists>f. red_stack sn f \<and> if_Stack f = s \<and> stack_Numbers s = [n]
         \<and> (st_Retry s \<noteq> 0 \<or> if_RerunIDs f = []) \<and> urls = cs_URLs (if_Checks f))
    | ActionSplit s reason \<Rightarrow> (\<exists>f. red_stack sn f \<and> if_Stack f = s \<and> length (stack_Numbers s) \<noteq> 1
         \<and> (st_Retry s \<noteq> 0 \<or> if_RerunIDs f = []))
    | _ \<Rightarrow> True"
proof (cases "case a of ActionForm prs base \<Rightarrow> True | ActionRetry s ids reason \<Rightarrow> True | ActionReject s n reason urls \<Rightarrow> True
         | ActionSplit s reason \<Rightarrow> True | _ \<Rightarrow> False")
  case True
  with assms show ?thesis
  proof (cases rule: plan_failure_cases)
    case (1 f)
    have single: "length ms = 1 \<Longrightarrow> map me_Number ms = [me_Number (ms ! 0)]" for ms :: "member list"
      by (cases ms) auto
    have trunc: "time_Truncate t second \<le> t" for t by (simp add: time_Truncate_def)
    show ?thesis
      using 1 single trunc [of "sn_Now sn"]
      by (auto simp: failureActions_def Let_def stack_Numbers_def split: if_splits prod.splits)
  qed simp
qed (auto split: action.splits)

lemma example_rejects:
  "\<exists>reason urls. ActionReject example_stack 7 reason urls
     \<in> set (pl_Actions (PlanTick (example_snapshot [example_flight StateFailure]) example_config))"
proof -
  have "pl_Actions (PlanTick (example_snapshot [example_flight StateFailure]) example_config)
      = [ActionReject example_stack 7 ''required checks failed: '' []]" by code_simp
  then show ?thesis by simp
qed

theorem plan_failure_handling_witness:
  "\<exists>f. red_stack (example_snapshot [example_flight StateFailure]) f \<and> if_Stack f = example_stack \<and> stack_Numbers example_stack = [7]"
proof -
  obtain reason urls where "ActionReject example_stack 7 reason urls
     \<in> set (pl_Actions (PlanTick (example_snapshot [example_flight StateFailure]) example_config))"
    using example_rejects by blast
  from plan_failure_handling [OF this] show ?thesis by auto
qed

definition is_cancel :: "action \<Rightarrow> bool" where
  "is_cancel a = (case a of ActionCancel s ids \<Rightarrow> True | _ \<Rightarrow> False)"

lemma failureActions_act: "\<exists>a \<in> set (failureActions sn f). \<not> is_comment a \<and> \<not> is_cancel a"
  by (simp add: failureActions_def Let_def is_comment_def is_cancel_def case_prod_beta)

lemma stack_actions_waiting:
  "(\<forall>a \<in> set (stack_actions sn j). is_comment a \<or> is_cancel a) \<longleftrightarrow> still_pending j"
  using failureActions_act [of sn "fst j"]
  by (auto simp: stack_actions_def still_pending_def Let_def is_comment_def is_cancel_def)

lemma release_members_waiting: "is_comment (release_members c a) \<or> is_cancel (release_members c a) \<longleftrightarrow> is_comment a \<or> is_cancel a"
  by (cases a) (simp_all add: is_comment_def is_cancel_def)

text \<open>
  No tick is wasted.  A plan is idle exactly when it only writes comments and cancels runs
  the top of a stack makes redundant; and that happens only when there is nothing to do:
  no stack is in flight and no eligible pull request is queued, or every stack in flight
  still matches GitHub and waits for its checks.
\<close>

theorem plan_idle_iff:
  assumes "1 \<le> mc_BatchSize config"
  shows "(pl_Idle (PlanTick sn config) \<longleftrightarrow> (\<forall>a \<in> set (pl_Actions (PlanTick sn config)). is_comment a \<or> is_cancel a))
    \<and> (pl_Idle (PlanTick sn config) \<longleftrightarrow>
         (if sn_Stacks sn = [] then filter (eligible config) (sn_Queued sn) = []
          else (\<forall>i < length (sn_Stacks sn). \<not> if_Landed (sn_Stacks sn ! i) \<and> stale_reasons sn ! i = []
                  \<and> cs_State (if_Checks (sn_Stacks sn ! i)) = StatePending)))"
proof -
  obtain comments candidates where p:
    "pl_Actions (PlanTick sn config) =
       map (release_members (claimed_numbers (judged sn))) (concat (map (stack_actions sn) (judged sn))) @ comments
       @ (if sn_Stacks sn = [] \<and> take_batch (mc_BatchSize config) candidates \<noteq> []
          then [ActionForm (take_batch (mc_BatchSize config) candidates) (sn_TargetSHA sn)] else [])"
    "\<And>a. a \<in> set comments \<Longrightarrow> is_comment a"
    "sn_Stacks sn = [] \<Longrightarrow> candidates = filter (\<lambda>p. \<not> qp_Landed p \<and> ineligibleReason p config = []) (sn_Queued sn)"
    "pl_Idle (PlanTick sn config) \<longleftrightarrow> (\<forall>j \<in> set (judged sn). still_pending j)
       \<and> \<not> (sn_Stacks sn = [] \<and> take_batch (mc_BatchSize config) candidates \<noteq> [])"
    by (rule PlanTick_parts [of sn config]) (rule that, assumption+)
  have "(\<forall>a \<in> set (map (release_members c) (concat (map (stack_actions sn) (judged sn)))). is_comment a \<or> is_cancel a)
      \<longleftrightarrow> (\<forall>j \<in> set (judged sn). still_pending j)" for c
    unfolding stack_actions_waiting [symmetric, of _ sn] by (auto simp: release_members_waiting)
  moreover have "\<not> is_comment (ActionForm prs base) \<and> \<not> is_cancel (ActionForm prs base)" for prs base
    by (simp add: is_comment_def is_cancel_def)
  ultimately have idle: "pl_Idle (PlanTick sn config) \<longleftrightarrow> (\<forall>a \<in> set (pl_Actions (PlanTick sn config)). is_comment a \<or> is_cancel a)"
    unfolding p(1) p(4) set_append ball_Un using p(2) by auto
  have all: "(\<forall>j \<in> set (judged sn). still_pending j) \<longleftrightarrow> (\<forall>i < length (sn_Stacks sn). still_pending (judged sn ! i))"
    by (auto simp: all_set_conv_all_nth)
  have "take_batch (mc_BatchSize config) candidates = [] \<longleftrightarrow> candidates = []"
    using assms by (auto simp: take_batch_def)
  then have "pl_Idle (PlanTick sn config) \<longleftrightarrow>
         (if sn_Stacks sn = [] then filter (eligible config) (sn_Queued sn) = []
          else (\<forall>i < length (sn_Stacks sn). still_pending (judged sn ! i)))"
    unfolding p(4) all using p(3) by (auto simp: eligible_iff)
  moreover have "(\<forall>i < length (sn_Stacks sn). still_pending (judged sn ! i)) \<longleftrightarrow>
      (\<forall>i < length (sn_Stacks sn). \<not> if_Landed (sn_Stacks sn ! i) \<and> stale_reasons sn ! i = []
         \<and> cs_State (if_Checks (sn_Stacks sn ! i)) = StatePending)" by (simp add: still_pending_def)
  ultimately show ?thesis using idle by (intro conjI) (simp_all only:)
qed

theorem plan_idle_iff_witness:
  "\<not> pl_Idle (PlanTick (example_snapshot []) example_config)"
proof -
  have "1 \<le> mc_BatchSize example_config" by (simp add: example_config_def)
  note idle = plan_idle_iff [OF this, of "example_snapshot []", THEN conjunct2]
  have "sn_Stacks (example_snapshot []) = []" "filter (eligible example_config) (sn_Queued (example_snapshot [])) \<noteq> []"
    by (simp_all add: example_snapshot_def example_pr_def eligible_def example_config_def)
  then show ?thesis unfolding idle by simp
qed

section \<open>The order of the queue\<close>

lemma fifo_before_trans: "fifo_before a b \<Longrightarrow> fifo_before b c \<Longrightarrow> fifo_before a c"
  by (auto simp: fifo_before_def split: if_splits)

lemma fifo_total: "\<not> fifo_before b a \<Longrightarrow> \<not> fifo_before c b \<Longrightarrow> \<not> fifo_before c a"
  by (auto simp: fifo_before_def split: if_splits)

lemma mset_fifo_insert [simp]: "mset (fifo_insert p qs) = add_mset p (mset qs)"
  by (induction qs) auto

lemma mset_sortFIFO: "mset (sortFIFO prs) = mset prs"
  by (induction prs) (simp_all add: sortFIFO_def)

lemma sorted_fifo_insert:
  "sorted_wrt (\<lambda>a b. \<not> fifo_before b a) qs \<Longrightarrow> sorted_wrt (\<lambda>a b. \<not> fifo_before b a) (fifo_insert p qs)"
proof (induction qs)
  case (Cons q qs)
  have set: "set (fifo_insert p qs) = insert p (set qs)"
    using mset_fifo_insert [of p qs] by (metis set_mset_add_mset_insert set_mset_mset)
  show ?case
  proof (cases "fifo_before q p")
    case True
    then have "\<not> fifo_before p q" using fifo_before_trans [of p q p] by (auto simp: fifo_before_def)
    then show ?thesis using True Cons set by auto
  next
    case False
    then show ?thesis using Cons.prems fifo_total [of p _] by auto (metis fifo_total)
  qed
qed simp

text \<open>
  The queue is first come, first served: \<^verbatim>\<open>sortFIFO\<close> returns the same pull requests, so ordered
  that whoever was labeled earlier comes first, pull requests labeled at the same time by
  their number, and those without a labeled event last.
\<close>

theorem sortFIFO_sorted:
  "mset (sortFIFO prs) = mset prs \<and>
   sorted_wrt (\<lambda>a b. (time_isZero (pr_LabeledAt a) \<longrightarrow> time_isZero (pr_LabeledAt b))
      \<and> (\<not> time_isZero (pr_LabeledAt a) \<and> \<not> time_isZero (pr_LabeledAt b) \<longrightarrow> pr_LabeledAt a \<le> pr_LabeledAt b)
      \<and> (pr_LabeledAt a = pr_LabeledAt b \<longrightarrow> pr_Number a \<le> pr_Number b)) (sortFIFO prs)"
proof -
  have "sorted_wrt (\<lambda>a b. \<not> fifo_before b a) (sortFIFO prs)"
    by (induction prs) (simp_all add: sortFIFO_def sorted_fifo_insert)
  then show ?thesis
    using mset_sortFIFO by (auto elim!: sorted_wrt_mono_rel [rotated] simp: fifo_before_def split: if_splits)
qed

theorem sortFIFO_sorted_witness:
  "mset (sortFIFO [pr.truncate (example_pr 7), pr.truncate (example_pr 3)]) = {# pr.truncate (example_pr 7), pr.truncate (example_pr 3) #}"
  using sortFIFO_sorted [of "[pr.truncate (example_pr 7), pr.truncate (example_pr 3)]"] by simp

section \<open>The configuration\<close>

text \<open>
  Every configuration the queue runs with is usable: whatever \<^verbatim>\<open>ParseConfig\<close> accepts names a
  target and a label, asks for at least one check and names each, stacks between one and
  ten pull requests and has a positive check timeout.
\<close>

theorem ParseConfig_usable:
  assumes "ParseConfig decode parseDuration input = Inr config"
  shows "mc_Target config \<noteq> [] \<and> mc_Label config \<noteq> [] \<and> 1 \<le> mc_BatchSize config \<and> mc_BatchSize config \<le> maxBatchSize
    \<and> mc_RequiredChecks config \<noteq> [] \<and> (\<forall>c \<in> set (mc_RequiredChecks config). trimSpace (rc_Name c) \<noteq> [])
    \<and> mc_CheckTimeout config > 0"
proof -
  have defaults: "mc_Target (WithDefaults c) \<noteq> [] \<and> mc_Label (WithDefaults c) \<noteq> [] \<and> 1 \<le> mc_BatchSize (WithDefaults c)
      \<and> mc_CheckTimeout (WithDefaults c) > 0 \<and> mc_RequiredChecks (WithDefaults c) = mc_RequiredChecks c
      \<and> (mc_BatchSize c \<le> 10 \<longrightarrow> mc_BatchSize (WithDefaults c) \<le> 10)" for c
    by (auto simp: WithDefaults_def Let_def DefaultLabel_def)
  obtain c where "config = WithDefaults c" "mc_BatchSize c \<le> 10" "mc_RequiredChecks c \<noteq> []"
      "\<forall>x \<in> set (mc_RequiredChecks c). trimSpace (rc_Name x) \<noteq> []"
    using assms by (auto simp: ParseConfig_def Let_def maxBatchSize_def list_ex_iff split: sum.splits if_splits option.splits)
  then show ?thesis using defaults [of c] by (simp add: maxBatchSize_def)
qed

theorem ParseConfig_usable_witness:
  "\<exists>config. ParseConfig (\<lambda>d. Inr \<lparr>fc_Target = [], fc_Label = [], fc_BatchSize = 0, fc_CheckTimeout = [],
       fc_RequiredChecks = [example_check]\<rparr>) (\<lambda>_. None) () = Inr config \<and> 1 \<le> mc_BatchSize config"
proof -
  let ?p = "ParseConfig (\<lambda>d. Inr \<lparr>fc_Target = [], fc_Label = [], fc_BatchSize = 0, fc_CheckTimeout = [],
       fc_RequiredChecks = [example_check]\<rparr>) (\<lambda>_. None) ()"
  have "\<exists>config. ?p = Inr config"
    by (simp add: ParseConfig_def example_check_def trimSpace_def is_ascii_space_def maxBatchSize_def)
  then obtain config where "?p = Inr config" by blast
  with ParseConfig_usable [OF this] show ?thesis by blast
qed

end
