(* ===== verification/Merge_Queue_Markers.thy ===== *)
theory Merge_Queue_Markers
  imports Merge_Queue_Correct
begin

text \<open>
  The queue keeps its state in markers inside its own status comments
  (\<^verbatim>\<open>mergequeue/marker.go\<close>).  What it writes is what it reads back: the stack on the top pull
  request, the records of own commits on every member, the landed head.
\<close>

section \<open>Numbers\<close>

lemma atoi_itoa: "0 \<le> n \<Longrightarrow> n \<le> maxInt64 \<Longrightarrow> atoi (itoa n) = Some n"
  by (simp add: atoi_def itoa_def digits_value_nat_digits)

lemma digits1_itoa: "0 \<le> n \<Longrightarrow> \<not> is_digit c \<Longrightarrow> digits1 (itoa n @ c # s) = Some (itoa n, c # s)"
  using itoa_digits [of n] by (simp add: digits1_def Let_def takeWhile_append dropWhile_append list_all_iff)

section \<open>Parsing one marker\<close>

definition sha40 :: "string \<Rightarrow> bool" where
  "sha40 s \<longleftrightarrow> length s = 40 \<and> list_all is_hex_lower s"

lemma lit_append [simp]: "lit p (p @ s) = Some s"
  by (simp add: lit_def)

lemma lit_simps [simp]:
  "lit [] s = Some s" "lit (c # p) [] = None" "lit (c # p) (d # s) = (if c = d then lit p s else None)"
  by (simp_all add: lit_def)

lemma lit_concat [simp]: "lit (p @ q) s = Option.bind (lit p s) (lit q)"
  by (auto simp: lit_def prefix_def split: bind_splits)

lemma hex40_append [simp]: "sha40 h \<Longrightarrow> hex40 (h @ s) = Some (h, s)"
  by (simp add: sha40_def hex40_def)

definition own_wf :: "own \<Rightarrow> bool" where
  "own_wf o' \<longleftrightarrow> sha40 (ow_Head o') \<and> sha40 (ow_Upstream o')"

definition member_wf :: "member \<Rightarrow> bool" where
  "member_wf m \<longleftrightarrow> 0 < me_Number m \<and> me_Number m \<le> maxInt64 \<and> sha40 (me_SHA m)"

text \<open>A stack as the queue builds it: real commits, distinct pull requests, a time after 1970.\<close>

definition stack_wf :: "stack \<Rightarrow> bool" where
  "stack_wf s \<longleftrightarrow> sha40 (st_Base s) \<and> st_Members s \<noteq> [] \<and> list_all member_wf (st_Members s)
     \<and> distinct (stack_Numbers s) \<and> (st_Retry s = 0 \<or> st_Retry s = 1)
     \<and> unixEpoch \<le> st_At s div second \<and> st_At s div second \<le> maxInt64"

lemma own_at_ownMarker: "own_wf o' \<Longrightarrow> own_at (ownMarker o' @ s) = Some (o', s)"
  by (simp add: own_at_def ownMarker_def own_wf_def)

lemma landed_at_landedMarker: "sha40 h \<Longrightarrow> landed_at (landedMarker \<lparr>ld_Head = h\<rparr> @ s) = Some \<lparr>ld_Head = h\<rparr>"
  by (simp add: landed_at_def landedMarker_def)

abbreviation entry_text :: "member \<Rightarrow> string" where
  "entry_text m \<equiv> itoa (me_Number m) @ ''@'' @ me_SHA m"

lemma entry_at_text: "member_wf m \<Longrightarrow> entry_at (entry_text m @ s) = Some ((itoa (me_Number m), me_SHA m), s)"
proof -
  assume m: "member_wf m"
  have "digits1 (itoa (me_Number m) @ CHR ''@'' # me_SHA m @ s) = Some (itoa (me_Number m), CHR ''@'' # me_SHA m @ s)"
    using m by (intro digits1_itoa) (simp_all add: member_wf_def is_digit_def)
  then show ?thesis using m by (simp add: entry_at_def member_wf_def)
qed

lemma entries_at_text:
  "ms \<noteq> [] \<Longrightarrow> list_all member_wf ms \<Longrightarrow>
   entries_at (strings_Join (map entry_text ms) '','' @ CHR '' '' # s) =
     Some (map (\<lambda>m. (itoa (me_Number m), me_SHA m)) ms, CHR '' '' # s)"
proof (induction ms)
  case (Cons m ms)
  show ?case
  proof (cases ms)
    case Nil
    have "lit '','' (CHR '' '' # s) = None" by (simp add: lit_def)
    then show ?thesis using Nil Cons.prems entry_at_text [of m "CHR '' '' # s"] by (subst entries_at.simps) simp
  next
    case (Cons m' ms')
    let ?rest = "strings_Join (map entry_text ms) '','' @ CHR '' '' # s"
    have "entry_at (entry_text m @ '','' @ ?rest) = Some ((itoa (me_Number m), me_SHA m), '','' @ ?rest)"
      using Cons.prems by (intro entry_at_text) simp
    moreover have "lit '','' ('','' @ ?rest) = Some ?rest" by (rule lit_append)
    moreover have "entries_at ?rest = Some (map (\<lambda>m. (itoa (me_Number m), me_SHA m)) ms, CHR '' '' # s)"
      using Cons.IH Cons.prems Cons by simp
    moreover have "strings_Join (map entry_text (m # ms)) '','' @ CHR '' '' # s = entry_text m @ '','' @ ?rest"
      using Cons by simp
    ultimately show ?thesis by (simp only:) (subst entries_at.simps, simp)
  qed
qed simp

lemma itoa_bit: "itoa 0 = [CHR ''0'']" "itoa 1 = [CHR ''1'']"
  by code_simp+

lemma stack_at_stackMarker:
  assumes "stack_wf s"
  shows "stack_at (stackMarker s @ rest) =
    Some (st_Base s, map (\<lambda>m. (itoa (me_Number m), me_SHA m)) (st_Members s), (if st_Retry s = 0 then CHR ''0'' else CHR ''1''),
          itoa (time_Unix (st_At s)))"
proof -
  have at: "digits1 (itoa (time_Unix (st_At s)) @ CHR '' '' # t) = Some (itoa (time_Unix (st_At s)), CHR '' '' # t)" for t
    using assms by (intro digits1_itoa) (simp_all add: stack_wf_def time_Unix_def is_digit_def)
  have entries: "entries_at (strings_Join (map entry_text (st_Members s)) '','' @ CHR '' '' # t) =
      Some (map (\<lambda>m. (itoa (me_Number m), me_SHA m)) (st_Members s), CHR '' '' # t)" for t
    using assms by (intro entries_at_text) (simp_all add: stack_wf_def)
  have retry: "itoa (st_Retry s) = [if st_Retry s = 0 then CHR ''0'' else CHR ''1'']"
    using assms by (auto simp: stack_wf_def itoa_bit)
  have base: "sha40 (st_Base s)" using assms by (simp add: stack_wf_def)
  show ?thesis
    by (simp add: stack_at_def stackMarker_def base entries [simplified] retry at)
qed

lemma parse_members_text:
  assumes "list_all member_wf ms" and "distinct (map me_Number ms)" and "set (map me_Number ms) \<inter> set seen = {}"
  shows "parse_members seen (map (\<lambda>m. (itoa (me_Number m), me_SHA m)) ms) = Some ms"
  using assms
proof (induction ms arbitrary: seen)
  case (Cons m ms)
  then have "atoi (itoa (me_Number m)) = Some (me_Number m)" by (intro atoi_itoa) (simp_all add: member_wf_def)
  then show ?case using Cons by (simp add: member_wf_def)
qed simp

section \<open>Searching a comment\<close>

text \<open>A parser that only accepts strings starting with an angle bracket skips everything without one.\<close>

definition opens :: "(string \<Rightarrow> 'a option) \<Rightarrow> bool" where
  "opens p \<longleftrightarrow> (\<forall>s. p s \<noteq> None \<longrightarrow> (\<exists>t. s = CHR ''<'' # t))"

lemma lit_markerPrefix: "lit markerPrefix s = Some t \<Longrightarrow> \<exists>u. s = CHR ''<'' # u"
  by (auto simp: lit_def markerPrefix_def prefix_def split: if_splits)

lemma opens_parsers [simp]: "opens stack_at" "opens own_at" "opens landed_at"
  unfolding opens_def stack_at_def own_at_def landed_at_def by (auto split: bind_splits dest: lit_markerPrefix)

lemma find_first_skip: "opens p \<Longrightarrow> CHR ''<'' \<notin> set a \<Longrightarrow> find_first p (a @ s) = find_first p s"
proof (induction a)
  case (Cons c a)
  then have "p (c # a @ s) = None" by (auto simp: opens_def)
  then show ?case using Cons by simp
qed simp

lemma find_first_none: "opens p \<Longrightarrow> CHR ''<'' \<notin> set a \<Longrightarrow> find_first p a = None"
  using find_first_skip [of p a "[]"] by (auto simp: opens_def)

lemma find_first_hit: "p s = Some a \<Longrightarrow> find_first p s = Some a"
  by (cases s) simp_all

text \<open>A marker holds one angle bracket, its first character; one of another kind is skipped.\<close>

definition marker_shaped :: "string \<Rightarrow> bool" where
  "marker_shaped m \<longleftrightarrow> (\<exists>t. m = CHR ''<'' # t \<and> CHR ''<'' \<notin> set t)"

lemma find_first_other: "opens p \<Longrightarrow> marker_shaped m \<Longrightarrow> p (m @ s) = None \<Longrightarrow> find_first p (m @ s) = find_first p s"
  by (auto simp: marker_shaped_def find_first_skip)

lemma plain_hex: "sha40 h \<Longrightarrow> CHR ''<'' \<notin> set h"
  by (auto simp: sha40_def list_all_iff is_hex_lower_def)

lemma plain_itoa: "CHR ''<'' \<notin> set (itoa n)"
proof -
  have "\<not> is_digit (CHR ''<'')" by (simp add: is_digit_def)
  then have "CHR ''<'' \<notin> set (nat_digits m)" for m using nat_digits_digits [of m] by (auto simp: list_all_iff)
  then show ?thesis by (simp add: itoa_def)
qed

lemma plain_join: "CHR ''<'' \<notin> set sep \<Longrightarrow> (\<And>x. x \<in> set xs \<Longrightarrow> CHR ''<'' \<notin> set x) \<Longrightarrow> CHR ''<'' \<notin> set (strings_Join xs sep)"
  by (induction xs sep rule: strings_Join.induct) auto

lemma plain_refs: "CHR ''<'' \<notin> set (refs ns)"
  unfolding refs_def by (rule plain_join) (auto simp: plain_itoa)

lemma plain_with_others: "CHR ''<'' \<notin> set w \<Longrightarrow> CHR ''<'' \<notin> set (with_others w ns)"
  by (simp add: with_others_def plain_refs)

lemma plain_shortSHA: "sha40 h \<Longrightarrow> CHR ''<'' \<notin> set (shortSHA h)"
  using plain_hex [of h] by (auto simp: shortSHA_def dest: in_set_takeD)

lemma marker_shapes:
  "marker_shaped StatusPrefix"
  "own_wf o' \<Longrightarrow> marker_shaped (ownMarker o')"
  "sha40 h \<Longrightarrow> marker_shaped (landedMarker \<lparr>ld_Head = h\<rparr>)"
  "stack_wf s \<Longrightarrow> marker_shaped (stackMarker s)"
proof -
  show "marker_shaped StatusPrefix" by (simp add: marker_shaped_def StatusPrefix_def markerPrefix_def)
  show "own_wf o' \<Longrightarrow> marker_shaped (ownMarker o')"
    by (simp add: marker_shaped_def ownMarker_def markerPrefix_def own_wf_def plain_hex)
  show "sha40 h \<Longrightarrow> marker_shaped (landedMarker \<lparr>ld_Head = h\<rparr>)"
    by (simp add: marker_shaped_def landedMarker_def markerPrefix_def plain_hex)
  assume s: "stack_wf s"
  have "CHR ''<'' \<notin> set (strings_Join (map entry_text (st_Members s)) '','')"
    using s by (intro plain_join) (auto simp: plain_itoa stack_wf_def list_all_iff member_wf_def plain_hex)
  then show "marker_shaped (stackMarker s)"
    using s by (simp add: marker_shaped_def stackMarker_def markerPrefix_def plain_itoa stack_wf_def plain_hex)
qed

text \<open>No parser accepts a marker of another kind.\<close>

lemma other_markers:
  "stack_at (StatusPrefix @ s) = None" "own_at (StatusPrefix @ s) = None" "landed_at (StatusPrefix @ s) = None"
  "stack_at (ownMarker o' @ s) = None" "landed_at (ownMarker o' @ s) = None"
  "own_at (stackMarker st @ s) = None" "landed_at (stackMarker st @ s) = None"
  "stack_at (landedMarker l @ s) = None" "own_at (landedMarker l @ s) = None"
  by (simp_all add: stack_at_def own_at_def landed_at_def StatusPrefix_def ownMarker_def stackMarker_def landedMarker_def)

lemma join_concat: "strings_Join (x # xs) sep = x @ concat (map (\<lambda>y. sep @ y) xs)"
  by (induction xs arbitrary: x) simp_all

lemma statusBody_concat:
  "statusBody txt markers = StatusPrefix @ (newline @ ''Merge queue: '' @ txt) @ concat (map (\<lambda>m. newline @ m) markers)"
  by (simp add: statusBody_def join_concat)

text \<open>Only the markers of a comment matter.\<close>

lemma find_first_statusBody:
  "opens p \<Longrightarrow> (\<And>s. p (StatusPrefix @ s) = None) \<Longrightarrow> CHR ''<'' \<notin> set txt \<Longrightarrow>
   find_first p (statusBody txt markers) = find_first p (concat (map (\<lambda>m. newline @ m) markers))"
  unfolding statusBody_concat by (simp add: find_first_other marker_shapes find_first_skip del: append_Cons append.simps append_assoc)

lemma find_first_owns:
  assumes "opens p" and "\<And>o' s. p (ownMarker o' @ s) = None" and "list_all own_wf owns"
  shows "find_first p (concat (map (\<lambda>m. newline @ m) (map ownMarker owns)) @ s) = find_first p s"
  using assms(3)
proof (induction owns)
  case (Cons o' owns)
  have "find_first p (newline @ ownMarker o' @ concat (map (\<lambda>m. newline @ m) (map ownMarker owns)) @ s)
      = find_first p (ownMarker o' @ concat (map (\<lambda>m. newline @ m) (map ownMarker owns)) @ s)"
    by (rule find_first_skip [OF assms(1)]) simp
  also have "\<dots> = find_first p (concat (map (\<lambda>m. newline @ m) (map ownMarker owns)) @ s)"
    using Cons.prems by (intro find_first_other assms marker_shapes) simp
  finally show ?case using Cons by simp
qed simp

section \<open>Round trips\<close>

lemma ownMarkers_map: "ownMarkers owns = map ownMarker (take maxOwns owns)"
  by (simp add: ownMarkers_def)

lemma stackOwn_wf: "stack_wf s \<Longrightarrow> i < length (st_Members s) \<Longrightarrow> own_wf (stackOwn s i)"
  by (auto simp: stackOwn_def own_wf_def stack_wf_def list_all_length member_wf_def)

lemma take_owns_wf: "list_all own_wf owns \<Longrightarrow> list_all own_wf (take n owns)"
  by (auto simp: list_all_iff dest: in_set_takeD)

lemma time_round_trip:
  "unixEpoch \<le> t div second \<Longrightarrow> t div second \<le> maxInt64 \<Longrightarrow>
   0 \<le> time_Unix t \<and> time_Unix t \<le> maxInt64 \<and> time_fromUnix (time_Unix t) = time_Truncate t second"
  by (simp add: time_Unix_def time_fromUnix_def time_Truncate_def wrap64_id minInt64_def unixEpoch_def minus_mod_eq_div_mult)

lemma plain_member: "stack_wf s \<Longrightarrow> i < length (st_Members s) \<Longrightarrow> CHR ''<'' \<notin> set (shortSHA (me_SHA (st_Members s ! i)))"
  by (intro plain_shortSHA) (simp add: stack_wf_def list_all_length member_wf_def)

text \<open>The comment of a stack member: plain words, then its markers.\<close>

lemma stackComment_shape:
  assumes "stack_wf s" and "i < length (st_Members s)"
  obtains msg where "CHR ''<'' \<notin> set msg"
    "stackComment s i keep = statusBody msg (map ownMarker (take maxOwns (stackOwn s i # keep))
       @ (if i = length (st_Members s) - 1 then [stackMarker s] else []))"
proof -
  let ?with = "with_others '' with '' (filter (\<lambda>n. n \<noteq> me_Number (st_Members s ! i)) (stack_Numbers s))"
  let ?sha = "shortSHA (me_SHA (st_Members s ! i))"
  define msg where "msg = (if i = length (st_Members s) - 1
    then (if st_Retry s > 0 then ''re-running the failed jobs once on this stack'' @ ?with @ '' before giving up ('' @ ?sha @ '').''
          else ''testing this branch as the top of a stack'' @ ?with @ '', rebased onto '' @ shortSHA (st_Base s) @ '' as '' @ ?sha @ ''.'')
    else ''rebased into a stack'' @ ?with @ '' as '' @ ?sha @ ''. CI runs once, on the top pull request.'')"
  have base: "CHR ''<'' \<notin> set (shortSHA (st_Base s))" using assms(1) by (intro plain_shortSHA) (simp add: stack_wf_def)
  have sha: "CHR ''<'' \<notin> set ?sha" by (rule plain_member [OF assms])
  have "CHR ''<'' \<notin> set msg"
    unfolding msg_def using sha by (auto simp: base plain_with_others)
  moreover have "stackComment s i keep = statusBody msg (map ownMarker (take maxOwns (stackOwn s i # keep))
       @ (if i = length (st_Members s) - 1 then [stackMarker s] else []))"
  proof (cases "i = length (st_Members s) - 1")
    case True
    show ?thesis unfolding stackComment_def Let_def ownMarkers_map msg_def if_P [OF True] by (rule refl)
  next
    case False
    show ?thesis unfolding stackComment_def Let_def ownMarkers_map msg_def if_not_P [OF False] append_Nil2 by (rule refl)
  qed
  ultimately show thesis by (rule that)
qed

lemma find_stack_comment:
  assumes "stack_wf s" and "list_all own_wf keep" and "i < length (st_Members s)"
  shows "find_first stack_at (stackComment s i keep) =
    (if i = length (st_Members s) - 1 then stack_at (stackMarker s @ []) else None)"
proof -
  let ?owns = "take maxOwns (stackOwn s i # keep)"
  have owns: "list_all own_wf ?owns" using assms stackOwn_wf by (intro take_owns_wf) simp
  obtain msg where msg: "CHR ''<'' \<notin> set msg" "stackComment s i keep = statusBody msg (map ownMarker ?owns
       @ (if i = length (st_Members s) - 1 then [stackMarker s] else []))"
    by (rule stackComment_shape [OF assms(1,3)])
  have "find_first stack_at (stackComment s i keep) =
      find_first stack_at (concat (map (\<lambda>m. newline @ m) (if i = length (st_Members s) - 1 then [stackMarker s] else [])))"
    unfolding msg(2) find_first_statusBody [OF opens_parsers(1) other_markers(1) msg(1)] map_append concat_append
    by (rule find_first_owns [OF opens_parsers(1) other_markers(4) owns])
  moreover have "find_first stack_at (newline @ stackMarker s @ []) = find_first stack_at (stackMarker s @ [])"
    by (rule find_first_skip) simp_all
  moreover have "find_first stack_at (stackMarker s @ []) = stack_at (stackMarker s @ [])"
    using find_first_hit [of stack_at "stackMarker s @ []"] stack_at_stackMarker [OF assms(1), of "[]"] by (simp only:)
  moreover have "find_first stack_at [] = None" by (rule find_first_none) simp_all
  ultimately show ?thesis by (simp split: if_splits)
qed

text \<open>
  C34. The stack marker is read back as written.  For every stack the queue builds, the comment
  it writes on the top pull request, whatever records of own commits it keeps there,
  parses to exactly that stack: base, members with their heads in order, the retry flag
  and the time, in whole seconds.  The comment on any other member parses to no stack, so a stack is
  found on its top pull request only.
\<close>

theorem stack_comment_round_trip:
  assumes "stack_wf s" and "list_all own_wf keep" and "i < length (st_Members s)"
  shows "ParseStack (stackComment s i keep) = 
    (if i = length (st_Members s) - 1 then Some (s\<lparr>st_At := time_Truncate (st_At s) second\<rparr>) else None)"
proof (cases "i = length (st_Members s) - 1")
  case True
  have wf: "list_all member_wf (st_Members s)" "distinct (map me_Number (st_Members s))" "st_Retry s = 0 \<or> st_Retry s = 1"
      "0 \<le> time_Unix (st_At s)" "time_Unix (st_At s) \<le> maxInt64" "time_fromUnix (time_Unix (st_At s)) = time_Truncate (st_At s) second"
    using assms(1) time_round_trip [of "st_At s"] by (auto simp: stack_wf_def stack_Numbers_def)
  have members: "parse_members [] (map (\<lambda>m. (itoa (me_Number m), me_SHA m)) (st_Members s)) = Some (st_Members s)"
    by (rule parse_members_text [OF wf(1,2)]) simp
  have "ParseStack (stackComment s i keep) = Some (s\<lparr>st_At := time_Truncate (st_At s) second\<rparr>)"
    unfolding ParseStack_def find_stack_comment [OF assms] if_P [OF True] stack_at_stackMarker [OF assms(1)]
    using wf(3) by (auto simp: members atoi_itoa [OF wf(4,5)] wf(6))
  then show ?thesis using True by simp
next
  case False
  then show ?thesis unfolding ParseStack_def find_stack_comment [OF assms] by simp
qed

lemma example_stack_wf: "stack_wf example_stack"
  by code_simp

theorem stack_comment_round_trip_witness:
  "ParseStack (stackComment example_stack 0 []) = Some example_stack"
  using stack_comment_round_trip [OF example_stack_wf, of "[]" 0] by (simp add: example_stack_def time_Truncate_def)

lemma find_all_owns:
  assumes "list_all own_wf owns" and "find_first own_at rest = None"
  shows "find_all own_at n (concat (map (\<lambda>m. newline @ m) (map ownMarker owns)) @ rest) = take n owns"
  using assms(1)
proof (induction owns arbitrary: n)
  case Nil
  show ?case using assms(2) by (cases n) simp_all
next
  case (Cons o' owns)
  let ?tail = "concat (map (\<lambda>m. newline @ m) (map ownMarker owns)) @ rest"
  have "find_first own_at (newline @ ownMarker o' @ ?tail) = find_first own_at (ownMarker o' @ ?tail)"
    by (rule find_first_skip) simp_all
  also have "\<dots> = Some (o', ?tail)"
    using Cons.prems own_at_ownMarker [of o' ?tail] by (intro find_first_hit) simp
  finally have "find_first own_at (newline @ ownMarker o' @ ?tail) = Some (o', ?tail)" .
  then show ?case using Cons by (cases n) simp_all
qed

lemma find_all_cong: "find_first p s = find_first p s' \<Longrightarrow> find_all p n s = find_all p n s'"
  by (cases n) simp_all

text \<open>
  The records of own commits survive every rewriting of a comment.  The comment of a stack
  member parses to its new record followed by those kept, and the comments of waiting,
  requeued and rejected pull requests to the records the pull request had, at most two
  of them; so the queue always knows which commits of a branch it rewrote are the pull
  request's own.
\<close>

theorem own_records_kept:
  assumes "list_all own_wf owns"
  shows "(stack_wf s \<and> i < length (st_Members s) \<longrightarrow> ParseOwns (stackComment s i owns) = take 2 (stackOwn s i # owns))
    \<and> ParseOwns (waitingComment position n owns) = take 2 owns
    \<and> (CHR ''<'' \<notin> set reason \<longrightarrow> ParseOwns (requeuedComment reason owns) = take 2 owns)
    \<and> (CHR ''<'' \<notin> set (reason @ label @ concat urls) \<longrightarrow> ParseOwns (rejectedComment reason label urls owns) = take 2 owns)"
proof -
  have body: "ParseOwns (statusBody msg (map ownMarker os @ markers)) = take 2 os"
    if "CHR ''<'' \<notin> set msg" "list_all own_wf os" "length os \<le> 2"
      "find_first own_at (concat (map (\<lambda>m. newline @ m) markers)) = None" for msg os markers
  proof -
    have "find_all own_at 2 (statusBody msg (map ownMarker os @ markers))
        = find_all own_at 2 (concat (map (\<lambda>m. newline @ m) (map ownMarker os)) @ concat (map (\<lambda>m. newline @ m) markers))"
      using find_first_statusBody [OF opens_parsers(2) other_markers(2) that(1)] by (intro find_all_cong) simp
    then show ?thesis using find_all_owns [OF that(2,4), of 2] by (simp add: ParseOwns_def maxOwns_def)
  qed
  have none: "find_first own_at [] = None" by (rule find_first_none) simp_all
  have two: "take 2 (take 2 xs) = take 2 xs" for xs :: "own list" by simp
  have plain: "ParseOwns (statusBody msg (ownMarkers owns)) = take 2 owns" if "CHR ''<'' \<notin> set msg" for msg
    using body [OF that take_owns_wf [OF assms, of 2], of "[]"] none by (simp add: ownMarkers_map maxOwns_def)
  have "ParseOwns (stackComment s i owns) = take 2 (stackOwn s i # owns)" if s: "stack_wf s" "i < length (st_Members s)"
  proof -
    obtain msg where msg: "CHR ''<'' \<notin> set msg" "stackComment s i owns = statusBody msg (map ownMarker (take maxOwns (stackOwn s i # owns))
         @ (if i = length (st_Members s) - 1 then [stackMarker s] else []))"
      by (rule stackComment_shape [OF s])
    have "find_first own_at (newline @ stackMarker s @ []) = find_first own_at (stackMarker s @ [])"
      by (rule find_first_skip) simp_all
    also have "\<dots> = find_first own_at []" by (intro find_first_other other_markers marker_shapes s) simp
    finally have "find_first own_at (concat (map (\<lambda>m. newline @ m) (if i = length (st_Members s) - 1 then [stackMarker s] else []))) = None"
      using none by simp
    moreover have "list_all own_wf (take maxOwns (stackOwn s i # owns))" using assms stackOwn_wf [OF s] by (intro take_owns_wf) simp
    moreover have "length (take maxOwns (stackOwn s i # owns)) \<le> 2" by (simp add: maxOwns_def)
    ultimately show ?thesis unfolding msg(2) using body [OF msg(1)] two by (simp only: maxOwns_def)
  qed
  moreover have "ParseOwns (waitingComment position n owns) = take 2 owns"
    unfolding waitingComment_def by (rule plain) (simp add: plain_itoa)
  moreover have "ParseOwns (requeuedComment reason owns) = take 2 owns" if "CHR ''<'' \<notin> set reason"
    unfolding requeuedComment_def by (rule plain) (use that in simp)
  moreover have "ParseOwns (rejectedComment reason label urls owns) = take 2 owns" if "CHR ''<'' \<notin> set (reason @ label @ concat urls)"
  proof -
    have "CHR ''<'' \<notin> set (strings_Join urls (newline @ ''- ''))" by (rule plain_join) (use that in auto)
    then show ?thesis unfolding rejectedComment_def by (intro plain) (use that in simp)
  qed
  ultimately show ?thesis by blast
qed

theorem own_records_kept_witness:
  "ParseOwns (waitingComment 1 2 [\<lparr>ow_Head = example_sha (CHR ''a''), ow_Upstream = example_sha (CHR ''b'')\<rparr>])
     = [\<lparr>ow_Head = example_sha (CHR ''a''), ow_Upstream = example_sha (CHR ''b'')\<rparr>]"
proof -
  have "list_all own_wf [\<lparr>ow_Head = example_sha (CHR ''a''), ow_Upstream = example_sha (CHR ''b'')\<rparr>]" by code_simp
  from own_records_kept [OF this] show ?thesis by simp
qed

text \<open>
  A landed pull request is recognised: its comment parses to its own head, and to no stack.
\<close>

theorem landed_comment_round_trip:
  assumes "stack_wf s" and "i < length (st_Members s)"
  shows "ParseLanded (landedComment s i) = Some \<lparr>ld_Head = me_SHA (st_Members s ! i)\<rparr> \<and> ParseStack (landedComment s i) = None"
proof -
  let ?m = "landedMarker \<lparr>ld_Head = me_SHA (st_Members s ! i)\<rparr>"
  have sha: "sha40 (me_SHA (st_Members s ! i))" using assms by (simp add: stack_wf_def list_all_length member_wf_def)
  have top: "CHR ''<'' \<notin> set (shortSHA (me_SHA (stack_Top s)))"
    using assms by (intro plain_shortSHA) (auto simp: stack_wf_def stack_Top_def list_all_iff member_wf_def)
  define msg where "msg = ''landed on the target as '' @ shortSHA (me_SHA (stack_Top s)) @ with_others '' together with ''
    (map (\<lambda>i. me_Number (st_Members s ! i)) (filter (\<lambda>k. k \<noteq> i) [0..<length (st_Members s)])) @ ''.''"
  have msg: "landedComment s i = statusBody msg [?m]" "CHR ''<'' \<notin> set msg"
    unfolding landedComment_def Let_def msg_def by (rule refl) (simp add: top plain_with_others)
  have skip: "opens p \<Longrightarrow> find_first p (newline @ ?m @ []) = find_first p (?m @ [])" for p :: "string \<Rightarrow> 'x option"
    by (rule find_first_skip) simp_all
  have "find_first landed_at (?m @ []) = Some \<lparr>ld_Head = me_SHA (st_Members s ! i)\<rparr>"
    by (rule find_first_hit) (rule landed_at_landedMarker [OF sha])
  then have "ParseLanded (landedComment s i) = Some \<lparr>ld_Head = me_SHA (st_Members s ! i)\<rparr>"
    using skip [OF opens_parsers(3)] find_first_statusBody [OF opens_parsers(3) other_markers(3) msg(2), of "[?m]"]
    by (simp add: ParseLanded_def msg(1))
  moreover have "find_first stack_at (?m @ []) = find_first stack_at []"
    by (intro find_first_other other_markers marker_shapes sha) simp
  then have "find_first stack_at (landedComment s i) = None"
    using skip [OF opens_parsers(1)] find_first_statusBody [OF opens_parsers(1) other_markers(1) msg(2), of "[?m]"]
      find_first_none [OF opens_parsers(1), of "[]"] by (simp add: msg(1))
  ultimately show ?thesis by (simp add: ParseStack_def)
qed

theorem landed_comment_round_trip_witness:
  "ParseLanded (landedComment example_stack 0) = Some \<lparr>ld_Head = example_sha (CHR ''b'')\<rparr>"
  using landed_comment_round_trip [OF example_stack_wf, of 0] by (simp add: example_stack_def)

end
