(* ===== verification/Merge_Tick.thy ===== *)
theory Merge_Tick
  imports Merge_Queue_Markers
begin

text \<open>
  One tick of the merge queue (\<^verbatim>\<open>mergequeue/snapshot.go\<close>, \<^verbatim>\<open>mergequeue/apply.go\<close>): reading the snapshot
  from GitHub, planning, and carrying the plan out with git and the GitHub API.

  GitHub, the clone and the clock are the record \<open>hub\<close> of functions on an arbitrary world,
  any of which may fail.  \<open>tk_trace\<close> is a ghost record, in order, of the calls that change
  something outside and of the answers the decisions of the tick rest on: the configuration, the commit
  of the target, the labeled pull requests, the check runs of a commit, the files a pull request
  changes and the commit a ref was fetched at.
\<close>

section \<open>The outside world\<close>

record branchUpdate =
  bu_Branch :: string
  bu_SHA :: string
  bu_Expected :: string

record 'w hub =
  hb_ResolveBranch :: "string \<Rightarrow> 'w \<Rightarrow> (goerr + string) \<times> 'w"
  hb_ReadFile :: "string \<Rightarrow> 'w \<Rightarrow> (goerr + string) \<times> 'w"
  hb_QueuedPRs :: "string \<Rightarrow> 'w \<Rightarrow> (goerr + pr list) \<times> 'w"
  hb_CanWrite :: "string \<Rightarrow> 'w \<Rightarrow> (goerr + bool) \<times> 'w"
  hb_StatusComment :: "int \<Rightarrow> string \<Rightarrow> 'w \<Rightarrow> (goerr + string) \<times> 'w"
  hb_UpsertStatusComment :: "int \<Rightarrow> string \<Rightarrow> string \<Rightarrow> 'w \<Rightarrow> goerr option \<times> 'w"
  hb_ChangedFiles :: "int \<Rightarrow> 'w \<Rightarrow> (goerr + string list) \<times> 'w"
  hb_CheckRuns :: "string \<Rightarrow> 'w \<Rightarrow> (goerr + checkRun list) \<times> 'w"
  hb_WorkflowRuns :: "string \<Rightarrow> 'w \<Rightarrow> (goerr + workflowRun list) \<times> 'w"
  hb_IsAncestor :: "string \<Rightarrow> string \<Rightarrow> 'w \<Rightarrow> (goerr + bool) \<times> 'w"
  hb_CancelRun :: "int \<Rightarrow> 'w \<Rightarrow> goerr option \<times> 'w"
  hb_RerunFailedJobs :: "int \<Rightarrow> 'w \<Rightarrow> goerr option \<times> 'w"
  hb_RemoveLabel :: "int \<Rightarrow> string \<Rightarrow> 'w \<Rightarrow> goerr option \<times> 'w"
  hb_OpenGit :: "string \<Rightarrow> 'w \<Rightarrow> goerr option \<times> 'w"
  hb_Fetch :: "string \<Rightarrow> 'w \<Rightarrow> (goerr + string) \<times> 'w"
  hb_GitIsAncestor :: "string \<Rightarrow> string \<Rightarrow> 'w \<Rightarrow> (goerr + bool) \<times> 'w"
  hb_Rebase :: "string \<Rightarrow> string \<Rightarrow> string \<Rightarrow> 'w \<Rightarrow> (goerr + string) \<times> 'w"
  hb_PushBranches :: "branchUpdate list \<Rightarrow> 'w \<Rightarrow> goerr option \<times> 'w"
  hb_FastForward :: "string \<Rightarrow> string \<Rightarrow> 'w \<Rightarrow> goerr option \<times> 'w"
  hb_Now :: "'w \<Rightarrow> gotime \<times> 'w"
  hb_Sleep :: "duration \<Rightarrow> 'w \<Rightarrow> bool \<times> 'w"

datatype hub_event =
    SawFile string string
  | SawBranch string string
  | SawQueued string "pr list"
  | SawChecks string "checkRun list"
  | SawFiles int "string list"
  | SawFetch string string
  | WriteComment int string
  | WriteCancel int
  | WriteRerun int
  | WriteRemoveLabel int string
  | WritePush "branchUpdate list"
  | WriteFastForward string string

record report =
  rp_Formed :: "int list list"
  rp_Landed :: "int list list"
  rp_Retried :: "int list list"
  rp_Split :: "int list list"
  rp_Abandoned :: "int list list"
  rp_Rejected :: "int list"
  rp_Deferred :: "int list list"
  rp_Idle :: bool

record options =
  op_BotLogin :: string
  op_DryRun :: bool
  op_SettleWait :: duration

record 'w tick =
  tk_world :: 'w
  tk_trace :: "hub_event list"
  tk_git :: bool
  tk_report :: report

text \<open>What one applier works with; it does not change during a tick.\<close>

record applier =
  ap_options :: options
  ap_config :: mqConfig
  ap_snapshot :: snapshot
  ap_queued :: queuedMap

section \<open>Steps\<close>

definition hub_call :: "('a \<Rightarrow> hub_event list) \<Rightarrow> ('w \<Rightarrow> 'a \<times> 'w) \<Rightarrow> ('w tick, 'a) state" where
  "hub_call events g = State (\<lambda>s. case g (tk_world s) of (a, w) \<Rightarrow> (a, s\<lparr>tk_world := w, tk_trace := tk_trace s @ events a\<rparr>))"

definition hub_read :: "('w \<Rightarrow> 'a \<times> 'w) \<Rightarrow> ('w tick, 'a) state" where
  "hub_read g = hub_call (\<lambda>_. []) g"

definition hub_see :: "('a \<Rightarrow> hub_event) \<Rightarrow> ('w \<Rightarrow> (goerr + 'a) \<times> 'w) \<Rightarrow> ('w tick, goerr + 'a) state" where
  "hub_see event g = hub_call (\<lambda>r. case r of Inl _ \<Rightarrow> [] | Inr a \<Rightarrow> [event a]) g"

definition hub_write :: "hub_event \<Rightarrow> ('w \<Rightarrow> 'a \<times> 'w) \<Rightarrow> ('w tick, 'a) state" where
  "hub_write event g = hub_call (\<lambda>_. [event]) g"

definition heads_ref :: "string \<Rightarrow> string" where
  "heads_ref branch = ''refs/heads/'' @ branch"

definition git_fetch :: "'w hub \<Rightarrow> string \<Rightarrow> ('w tick, goerr + string) state" where
  "git_fetch hub ref = hub_see (SawFetch ref) (hb_Fetch hub ref)"

definition reports :: "(report \<Rightarrow> report) \<Rightarrow> ('w tick, unit) state" where
  "reports f = modify (\<lambda>s. s\<lparr>tk_report := f (tk_report s)\<rparr>)"

text \<open>
  \<open>try_error m k\<close> is \<^verbatim>\<open>a, err := m; if err != nil { return err }; k(a)\<close> where the result is an error only,
  \<open>try_value\<close> the same where there is a result; \<open>check_error\<close> is \<^verbatim>\<open>if err := m; err != nil { return err }; k\<close>.
\<close>

definition try_error :: "('s, goerr + 'a) state \<Rightarrow> ('a \<Rightarrow> ('s, goerr option) state) \<Rightarrow> ('s, goerr option) state" where
  "try_error m k = State_Monad.bind m (\<lambda>r. case r of Inl err \<Rightarrow> State_Monad.return (Some err) | Inr a \<Rightarrow> k a)"

definition try_value :: "('s, goerr + 'a) state \<Rightarrow> ('a \<Rightarrow> ('s, goerr + 'b) state) \<Rightarrow> ('s, goerr + 'b) state" where
  "try_value m k = State_Monad.bind m (\<lambda>r. case r of Inl err \<Rightarrow> State_Monad.return (Inl err) | Inr a \<Rightarrow> k a)"

definition check_error :: "('s, goerr option) state \<Rightarrow> ('s, goerr option) state \<Rightarrow> ('s, goerr option) state" where
  "check_error m k = State_Monad.bind m (\<lambda>r. case r of Some err \<Rightarrow> State_Monad.return (Some err) | None \<Rightarrow> k)"

text \<open>The body of a \<^verbatim>\<open>range\<close> loop that returns at the first error.\<close>

fun for_each :: "('a \<Rightarrow> ('s, goerr option) state) \<Rightarrow> 'a list \<Rightarrow> ('s, goerr option) state" where
  "for_each f [] = State_Monad.return None"
| "for_each f (x # xs) = check_error (f x) (for_each f xs)"

section \<open>Reading the snapshot\<close>

definition activeRunStatus :: "string \<Rightarrow> bool" where
  "activeRunStatus st \<longleftrightarrow> st \<in> set [''queued'', ''in_progress'', ''waiting'', ''requested'', ''pending'']"

definition rerunnableConclusion :: "string \<Rightarrow> bool" where
  "rerunnableConclusion c \<longleftrightarrow> c \<in> set [''failure'', ''timed_out'', ''cancelled'']"

definition active_pull_request_runs :: "workflowRun list \<Rightarrow> int list" where
  "active_pull_request_runs runs = map wf_ID (filter (\<lambda>r. wf_Event r = ''pull_request'' \<and> activeRunStatus (wf_Status r)) runs)"

fun batchmate_loop :: "'w hub \<Rightarrow> member list \<Rightarrow> int list \<Rightarrow> ('w tick, goerr + int list) state" where
  "batchmate_loop hub [] ids = State_Monad.return (Inr ids)"
| "batchmate_loop hub (m # ms) ids =
     State_Monad.bind (hub_read (hb_WorkflowRuns hub (me_SHA m))) (\<lambda>r.
       case r of
         Inl err \<Rightarrow> State_Monad.return (Inl (ErrWrap ''runs of a pull request'' err))
       | Inr runs \<Rightarrow> batchmate_loop hub ms (ids @ active_pull_request_runs runs))"

definition batchmateRuns :: "'w hub \<Rightarrow> stack \<Rightarrow> ('w tick, goerr + int list) state" where
  "batchmateRuns hub s = batchmate_loop hub (butlast (st_Members s)) []"

definition needsFiles :: "requiredCheck list \<Rightarrow> bool" where
  "needsFiles checks \<longleftrightarrow> list_ex (\<lambda>c. rc_Paths c \<noteq> []) checks"

fun changed_files :: "'w hub \<Rightarrow> int list \<Rightarrow> string list \<Rightarrow> ('w tick, goerr + string list) state" where
  "changed_files hub [] files = State_Monad.return (Inr files)"
| "changed_files hub (n # ns) files =
     try_value (hub_see (SawFiles n) (hb_ChangedFiles hub n)) (\<lambda>changed. changed_files hub ns (files @ changed))"

definition loadInFlight :: "'w hub \<Rightarrow> mqConfig \<Rightarrow> stack \<Rightarrow> string \<Rightarrow> queuedMap \<Rightarrow> gotime \<Rightarrow> ('w tick, goerr + inFlight) state" where
  "loadInFlight hub config s targetSHA queued now =
     (let f = \<lparr>if_Stack = s, if_Landed = False, if_Checks = zeroStatus, if_RerunIDs = [], if_BatchmateRuns = []\<rparr>;
          top = stack_Top s
      in if st_Base s \<noteq> targetSHA
         then (if me_SHA top = targetSHA then State_Monad.return (Inr (f\<lparr>if_Landed := True\<rparr>))
               else try_value (hub_read (hb_IsAncestor hub (me_SHA top) targetSHA)) (\<lambda>landed.
                    State_Monad.return (Inr (f\<lparr>if_Landed := landed\<rparr>))))
         else if staleReason s targetSHA queued \<noteq> [] then State_Monad.return (Inr f)
         else
         try_value (if needsFiles (mc_RequiredChecks config) then changed_files hub (stack_Numbers s) []
                    else State_Monad.return (Inr [])) (\<lambda>files.
         try_value (hub_see (SawChecks (me_SHA top)) (hb_CheckRuns hub (me_SHA top))) (\<lambda>runs.
         let checks = Evaluate (mc_RequiredChecks config) files runs (time_sub now (st_At s)) (mc_CheckTimeout config)
                        (if st_Retry s > 0 then st_At s else zeroTime);
             f1 = f\<lparr>if_Checks := checks\<rparr>
         in if cs_State checks = StateFailure
            then (if st_Retry s > 0 \<or> cs_Suites checks = [] then State_Monad.return (Inr f1)
                  else try_value (hub_read (hb_WorkflowRuns hub (me_SHA top))) (\<lambda>wruns.
                    State_Monad.return (Inr (f1\<lparr>if_RerunIDs := map wf_ID (filter (\<lambda>r. wf_Status r = ''completed''
                       \<and> rerunnableConclusion (wf_Conclusion r) \<and> wf_SuiteID r \<in> set (cs_Suites checks)) wruns)\<rparr>))))
            else if cs_State checks = StatePending
            then try_value (batchmateRuns hub s) (\<lambda>ids. State_Monad.return (Inr (f1\<lparr>if_BatchmateRuns := ids\<rparr>)))
            else State_Monad.return (Inr f1))))"

text \<open>The loop over the labeled pull requests; \<open>known\<close> caches who can write.\<close>

definition labeler_can_write :: "'w hub \<Rightarrow> (string \<times> bool) list \<Rightarrow> pr \<Rightarrow> ('w tick, goerr + bool \<times> (string \<times> bool) list) state" where
  "labeler_can_write hub known p =
     (if pr_LabeledBy p = [] then State_Monad.return (Inr (False, known))
      else (case map_of known (pr_LabeledBy p) of
              Some allowed \<Rightarrow> State_Monad.return (Inr (allowed, known))
            | None \<Rightarrow> try_value (hub_read (hb_CanWrite hub (pr_LabeledBy p))) (\<lambda>allowed.
                        State_Monad.return (Inr (allowed, AList.update (pr_LabeledBy p) allowed known)))))"

definition queued_of :: "pr \<Rightarrow> bool \<Rightarrow> string \<Rightarrow> queuedPR" where
  "queued_of p allowed body = pr.extend p (queuedPR.fields allowed (ParseOwns body)
     (case ParseLanded body of Some l \<Rightarrow> ld_Head l = pr_HeadSHA p | None \<Rightarrow> False))"

definition own_stack :: "pr \<Rightarrow> string \<Rightarrow> stack list" where
  "own_stack p body = (case ParseStack body of Some s \<Rightarrow> if me_Number (stack_Top s) = pr_Number p then [s] else [] | None \<Rightarrow> [])"

fun load_queued :: "'w hub \<Rightarrow> string \<Rightarrow> pr list \<Rightarrow> (string \<times> bool) list \<Rightarrow> queuedPR list \<times> stack list
    \<Rightarrow> ('w tick, goerr + queuedPR list \<times> stack list) state" where
  "load_queued hub botLogin [] known acc = State_Monad.return (Inr acc)"
| "load_queued hub botLogin (p # ps) known (queued, stacks) =
     try_value (labeler_can_write hub known p) (\<lambda>(allowed, known').
     if botLogin = [] then load_queued hub botLogin ps known' (queued @ [pr.extend p (queuedPR.fields allowed [] False)], stacks)
     else try_value (hub_read (hb_StatusComment hub (pr_Number p) botLogin)) (\<lambda>body.
          load_queued hub botLogin ps known' (queued @ [queued_of p allowed body], stacks @ own_stack p body)))"

fun load_stacks :: "'w hub \<Rightarrow> mqConfig \<Rightarrow> string \<Rightarrow> queuedMap \<Rightarrow> gotime \<Rightarrow> stack list \<Rightarrow> inFlight list
    \<Rightarrow> ('w tick, goerr + inFlight list) state" where
  "load_stacks hub config targetSHA queued now [] acc = State_Monad.return (Inr acc)"
| "load_stacks hub config targetSHA queued now (s # ss) acc =
     try_value (loadInFlight hub config s targetSHA queued now) (\<lambda>f.
     load_stacks hub config targetSHA queued now ss (acc @ [f]))"

definition LoadSnapshot :: "'w hub \<Rightarrow> mqConfig \<Rightarrow> string \<Rightarrow> gotime \<Rightarrow> ('w tick, goerr + snapshot) state" where
  "LoadSnapshot hub config botLogin now =
     try_value (hub_see (SawBranch (mc_Target config)) (hb_ResolveBranch hub (mc_Target config))) (\<lambda>targetSHA.
     try_value (hub_see (SawQueued (mc_Label config)) (hb_QueuedPRs hub (mc_Label config))) (\<lambda>prs.
     try_value (load_queued hub botLogin (sortFIFO prs) [] ([], [])) (\<lambda>(queued, stacks).
     try_value (load_stacks hub config targetSHA (queued_map queued) now stacks []) (\<lambda>inFlights.
     State_Monad.return (Inr \<lparr>sn_Now = now, sn_TargetSHA = targetSHA, sn_Queued = queued, sn_Stacks = inFlights\<rparr>)))))"

section \<open>Carrying the plan out\<close>

definition zeroQueuedPR :: queuedPR where
  "zeroQueuedPR = \<lparr>pr_Number = 0, pr_HeadSHA = [], pr_HeadRef = [], pr_BaseRef = [], pr_SameRepo = False, pr_Draft = False,
     pr_LabeledAt = zeroTime, pr_LabeledBy = [], qp_LabelerCanWrite = False, qp_Owns = [], qp_Landed = False\<rparr>"

text \<open>Indexing a Go map with a key it lacks gives the zero value.\<close>

definition queued_pr :: "applier \<Rightarrow> int \<Rightarrow> queuedPR" where
  "queued_pr a n = (case map_of (ap_queued a) n of Some p \<Rightarrow> p | None \<Rightarrow> zeroQueuedPR)"

definition openGit :: "'w hub \<Rightarrow> applier \<Rightarrow> ('w tick, goerr option) state" where
  "openGit hub a =
     State_Monad.bind (gets tk_git) (\<lambda>opened.
     if opened then State_Monad.return None
     else State_Monad.bind (hub_read (hb_OpenGit hub (mc_Target (ap_config a)))) (\<lambda>r.
          case r of
            Some err \<Rightarrow> State_Monad.return (Some (ErrWrap ''clone the repository'' err))
          | None \<Rightarrow> State_Monad.bind (modify (\<lambda>s. s\<lparr>tk_git := True\<rparr>)) (\<lambda>_. State_Monad.return None)))"

definition comment :: "'w hub \<Rightarrow> applier \<Rightarrow> int \<Rightarrow> string \<Rightarrow> ('w tick, goerr option) state" where
  "comment hub a number body =
     hub_write (WriteComment number body) (hb_UpsertStatusComment hub number (op_BotLogin (ap_options a)) body)"

definition postpone :: "int list \<Rightarrow> ('w tick, unit) state" where
  "postpone prs = reports (\<lambda>r. r\<lparr>rp_Deferred := rp_Deferred r @ [prs]\<rparr>)"

text \<open>\<^verbatim>\<open>cancel\<close> is best effort: errors are only logged.\<close>

fun cancel :: "'w hub \<Rightarrow> int list \<Rightarrow> ('w tick, unit) state" where
  "cancel hub [] = State_Monad.return ()"
| "cancel hub (i # is) = State_Monad.bind (hub_write (WriteCancel i) (hb_CancelRun hub i)) (\<lambda>_. cancel hub is)"

fun rerun :: "'w hub \<Rightarrow> int list \<Rightarrow> ('w tick, unit) state" where
  "rerun hub [] = State_Monad.return ()"
| "rerun hub (i # is) = State_Monad.bind (hub_write (WriteRerun i) (hb_RerunFailedJobs hub i)) (\<lambda>_. rerun hub is)"

definition cancelPullRequestRuns :: "'w hub \<Rightarrow> string \<Rightarrow> ('w tick, unit) state" where
  "cancelPullRequestRuns hub sha =
     State_Monad.bind (hub_read (hb_WorkflowRuns hub sha)) (\<lambda>r.
       case r of Inl err \<Rightarrow> State_Monad.return () | Inr runs \<Rightarrow> cancel hub (active_pull_request_runs runs))"

text \<open>
  \<^verbatim>\<open>settle\<close> polls every five seconds until its deadline or the end of the context.  The loop has
  no bound of its own; \<open>fuel\<close> bounds the polls, and the answer says whether it ended by itself.
\<close>

fun settle_loop :: "'w hub \<Rightarrow> stack \<Rightarrow> gotime \<Rightarrow> nat \<Rightarrow> ('w tick, bool) state" where
  "settle_loop hub s deadline 0 = State_Monad.return False"
| "settle_loop hub s deadline (Suc fuel) =
     State_Monad.bind (batchmateRuns hub s) (\<lambda>r.
     State_Monad.bind (case r of Inl err \<Rightarrow> State_Monad.return () | Inr ids \<Rightarrow> cancel hub ids) (\<lambda>_.
     State_Monad.bind (hub_read (hb_Now hub)) (\<lambda>now.
     if \<not> now < deadline then State_Monad.return True
     else State_Monad.bind (hub_read (hb_Sleep hub (5 * second))) (\<lambda>done.
          if done then State_Monad.return True else settle_loop hub s deadline fuel))))"

definition settle_fuel :: "duration \<Rightarrow> nat" where
  "settle_fuel wait = nat (wait div (5 * second)) + 2"

definition settle :: "'w hub \<Rightarrow> applier \<Rightarrow> stack \<Rightarrow> ('w tick, bool) state" where
  "settle hub a s =
     (if op_SettleWait (ap_options a) \<le> 0 \<or> length (st_Members s) < 2 then State_Monad.return True
      else State_Monad.bind (hub_read (hb_Now hub)) (\<lambda>now.
           settle_loop hub s (now + op_SettleWait (ap_options a)) (settle_fuel (op_SettleWait (ap_options a)))))"

fun upstream_loop :: "'w hub \<Rightarrow> queuedPR \<Rightarrow> string \<Rightarrow> own list \<Rightarrow> ('w tick, string \<times> own list) state" where
  "upstream_loop hub p base [] = State_Monad.return (base, [])"
| "upstream_loop hub p base (o' # os) =
     State_Monad.bind (hub_read (hb_GitIsAncestor hub (ow_Head o') (pr_HeadSHA p))) (\<lambda>headOK.
     if headOK \<noteq> Inr True then upstream_loop hub p base os
     else State_Monad.bind (hub_read (hb_GitIsAncestor hub (ow_Upstream o') (ow_Head o'))) (\<lambda>upstreamOK.
          if upstreamOK \<noteq> Inr True then upstream_loop hub p base os
          else State_Monad.return (ow_Upstream o', [o'])))"

definition upstream :: "'w hub \<Rightarrow> queuedPR \<Rightarrow> string \<Rightarrow> ('w tick, string \<times> own list) state" where
  "upstream hub p base = upstream_loop hub p base (qp_Owns p)"

definition reject :: "'w hub \<Rightarrow> applier \<Rightarrow> int \<Rightarrow> string \<Rightarrow> string list \<Rightarrow> ('w tick, goerr option) state" where
  "reject hub a number reason urls =
     check_error (hub_write (WriteRemoveLabel number (mc_Label (ap_config a))) (hb_RemoveLabel hub number (mc_Label (ap_config a))))
     (check_error (comment hub a number (rejectedComment reason (mc_Label (ap_config a)) urls (qp_Owns (queued_pr a number))))
     (State_Monad.bind (reports (\<lambda>r. r\<lparr>rp_Rejected := rp_Rejected r @ [number]\<rparr>)) (\<lambda>_. State_Monad.return None)))"

text \<open>The loop of \<^verbatim>\<open>form\<close> over the pull requests, up to the first that moved or does not rebase.\<close>

datatype built =
    Built "member list" "branchUpdate list" "own list list"
  | Moved int
  | Conflicted int
  | BuildFailed goerr

fun build_stack :: "'w hub \<Rightarrow> applier \<Rightarrow> string \<Rightarrow> int list \<Rightarrow> string \<Rightarrow> member list \<Rightarrow> branchUpdate list \<Rightarrow> own list list
    \<Rightarrow> ('w tick, built) state" where
  "build_stack hub a base [] tip members updates records = State_Monad.return (Built members updates records)"
| "build_stack hub a base (number # prs) tip members updates records =
     (let p = queued_pr a number
      in State_Monad.bind (git_fetch hub (heads_ref (pr_HeadRef p))) (\<lambda>fetched.
         case fetched of
           Inl err \<Rightarrow> State_Monad.return (BuildFailed err)
         | Inr head \<Rightarrow>
             if head \<noteq> pr_HeadSHA p then State_Monad.return (Moved number)
             else State_Monad.bind (upstream hub p base) (\<lambda>(up, used).
                  State_Monad.bind (hub_read (hb_Rebase hub tip up head)) (\<lambda>rebased.
                  case rebased of
                    Inl err \<Rightarrow> State_Monad.return (if errors_Is (Some err) ErrRebaseConflict then Conflicted number else BuildFailed err)
                  | Inr sha \<Rightarrow>
                      build_stack hub a base prs sha (members @ [\<lparr>me_Number = number, me_SHA = sha\<rparr>])
                        (updates @ [\<lparr>bu_Branch = pr_HeadRef p, bu_SHA = sha, bu_Expected = pr_HeadSHA p\<rparr>]) (records @ [used])))))"

text \<open>From the built stack on: comments first, the top one last, then the push.\<close>

definition publish_stack :: "'w hub \<Rightarrow> applier \<Rightarrow> int list \<Rightarrow> stack \<Rightarrow> branchUpdate list \<Rightarrow> own list list \<Rightarrow> ('w tick, goerr option) state" where
  "publish_stack hub a prs s updates records =
     check_error (for_each (\<lambda>i. comment hub a (me_Number (st_Members s ! i)) (stackComment s i (records ! i))) [0..<length (st_Members s)])
     (State_Monad.bind (hub_write (WritePush updates) (hb_PushBranches hub updates)) (\<lambda>pushed.
      case pushed of
        Some err \<Rightarrow>
          if errors_Is (Some err) ErrLeaseRejected then State_Monad.bind (postpone prs) (\<lambda>_. State_Monad.return None)
          else State_Monad.return (Some err)
      | None \<Rightarrow>
          State_Monad.bind (reports (\<lambda>r. r\<lparr>rp_Formed := rp_Formed r @ [prs]\<rparr>)) (\<lambda>_.
          State_Monad.bind (settle hub a s) (\<lambda>_. State_Monad.return None))))"

text \<open>A conflict names a member, so a group that cannot be split has exactly one.\<close>

function form :: "'w hub \<Rightarrow> applier \<Rightarrow> int list \<Rightarrow> string \<Rightarrow> ('w tick, goerr option) state" where
  "form hub a prs base =
     check_error (openGit hub a)
     (try_error (git_fetch hub (heads_ref (mc_Target (ap_config a)))) (\<lambda>target.
      if target \<noteq> base then State_Monad.bind (postpone prs) (\<lambda>_. State_Monad.return None)
      else State_Monad.bind (build_stack hub a base prs base [] [] []) (\<lambda>result.
           case result of
             BuildFailed err \<Rightarrow> State_Monad.return (Some err)
           | Moved number \<Rightarrow> State_Monad.bind (postpone prs) (\<lambda>_. State_Monad.return None)
           | Conflicted culprit \<Rightarrow>
               if length prs < 2 then reject hub a culprit ''it does not rebase cleanly onto the target'' []
               else State_Monad.bind (reports (\<lambda>r. r\<lparr>rp_Split := rp_Split r @ [prs]\<rparr>)) (\<lambda>_.
                    check_error (form hub a (fst (Split prs)) base) (form hub a (snd (Split prs)) base))
           | Built members updates records \<Rightarrow>
               publish_stack hub a prs \<lparr>st_Base = base, st_Members = members, st_Retry = 0, st_At = sn_Now (ap_snapshot a)\<rparr>
                 updates records)))"
  by pat_completeness auto

termination
  by (relation "measure (\<lambda>(hub, a, prs, base). length prs)") (auto simp: Split_def Let_def)

declare form.simps [simp del]

definition land :: "'w hub \<Rightarrow> applier \<Rightarrow> stack \<Rightarrow> ('w tick, goerr option) state" where
  "land hub a s =
     check_error (for_each (\<lambda>i. comment hub a (me_Number (st_Members s ! i)) (landedComment s i)) [0..<length (st_Members s)])
     (State_Monad.bind (reports (\<lambda>r. r\<lparr>rp_Landed := rp_Landed r @ [stack_Numbers s]\<rparr>)) (\<lambda>_. State_Monad.return None))"

definition advance :: "'w hub \<Rightarrow> applier \<Rightarrow> stack \<Rightarrow> ('w tick, goerr option) state" where
  "advance hub a s =
     (let top = stack_Top s; later = State_Monad.bind (postpone (stack_Numbers s)) (\<lambda>_. State_Monad.return None)
      in check_error (openGit hub a)
         (try_error (git_fetch hub (heads_ref (pr_HeadRef (queued_pr a (me_Number top))))) (\<lambda>head.
          if head \<noteq> me_SHA top then later
          else State_Monad.bind (hub_write (WriteFastForward (mc_Target (ap_config a)) (me_SHA top))
                 (hb_FastForward hub (mc_Target (ap_config a)) (me_SHA top))) (\<lambda>moved.
               case moved of
                 Some err \<Rightarrow> if errors_Is (Some err) ErrNotFastForward then later else State_Monad.return (Some err)
               | None \<Rightarrow> land hub a s))))"

definition keepOwns :: "own list \<Rightarrow> own \<Rightarrow> own list" where
  "keepOwns owns current = (case filter (\<lambda>o'. o' \<noteq> current) owns of [] \<Rightarrow> [] | o' # os \<Rightarrow> [o'])"

definition apply_action :: "'w hub \<Rightarrow> applier \<Rightarrow> action \<Rightarrow> ('w tick, goerr option) state" where
  "apply_action hub a act =
     (case act of
        ActionComment number body \<Rightarrow> comment hub a number body
      | ActionCancel s ids \<Rightarrow> State_Monad.bind (cancel hub ids) (\<lambda>_. State_Monad.return None)
      | ActionForm prs base \<Rightarrow> form hub a prs base
      | ActionAdvance s \<Rightarrow> advance hub a s
      | ActionLanded s \<Rightarrow> land hub a s
      | ActionRetry s ids reason \<Rightarrow>
          State_Monad.bind (rerun hub ids) (\<lambda>_.
          check_error (for_each (\<lambda>i. let m = st_Members s ! i in comment hub a (me_Number m)
              (stackComment s i (keepOwns (qp_Owns (queued_pr a (me_Number m))) (stackOwn s i)))) [0..<length (st_Members s)])
          (State_Monad.bind (reports (\<lambda>r. r\<lparr>rp_Retried := rp_Retried r @ [stack_Numbers s]\<rparr>)) (\<lambda>_. State_Monad.return None)))
      | ActionReject s number reason urls \<Rightarrow> reject hub a number reason urls
      | ActionSplit s reason \<Rightarrow>
          State_Monad.bind (reports (\<lambda>r. r\<lparr>rp_Split := rp_Split r @ [stack_Numbers s]\<rparr>)) (\<lambda>_. State_Monad.return None)
      | ActionAbandon s reason prs \<Rightarrow>
          State_Monad.bind (cancelPullRequestRuns hub (me_SHA (stack_Top s))) (\<lambda>_.
          check_error (for_each (\<lambda>number.
              case map_of (ap_queued a) number of
                None \<Rightarrow> State_Monad.return None
              | Some p \<Rightarrow> comment hub a number (requeuedComment reason (qp_Owns p))) prs)
          (State_Monad.bind (reports (\<lambda>r. r\<lparr>rp_Abandoned := rp_Abandoned r @ [stack_Numbers s]\<rparr>)) (\<lambda>_. State_Monad.return None))))"

definition Apply :: "'w hub \<Rightarrow> plan \<Rightarrow> snapshot \<Rightarrow> mqConfig \<Rightarrow> options \<Rightarrow> ('w tick, goerr option) state" where
  "Apply hub pl sn config opts =
     (let a = \<lparr>ap_options = opts, ap_config = config, ap_snapshot = sn, ap_queued = queued_map (sn_Queued sn)\<rparr>
      in State_Monad.bind (reports (\<lambda>r. r\<lparr>rp_Idle := pl_Idle pl\<rparr>)) (\<lambda>_.
         for_each (\<lambda>act. State_Monad.bind (apply_action hub a act) (\<lambda>err.
           State_Monad.return (map_option (ErrWrap ''apply'') err))) (pl_Actions pl)))"

definition ConfigPath :: string where "ConfigPath = ''.github/merge-queue.yml''"

text \<open>\<open>parse\<close> is \<^verbatim>\<open>ParseConfig\<close> with its YAML decoder.\<close>

definition Tick :: "(string \<Rightarrow> goerr + mqConfig) \<Rightarrow> 'w hub \<Rightarrow> options \<Rightarrow> ('w tick, goerr option \<times> plan option) state" where
  "Tick parse hub opts =
     (let failed = (\<lambda>err. State_Monad.return (Some err, None))
      in if \<not> op_DryRun opts \<and> op_BotLogin opts = []
         then failed (ErrText ''a tick that writes needs the queue's bot login, to recognize its own status comments'')
         else State_Monad.bind (hub_see (SawFile ConfigPath) (hb_ReadFile hub ConfigPath)) (\<lambda>r.
         case r of
           Inl err \<Rightarrow> failed (ErrWrap ''read the configuration from the default branch'' err)
         | Inr input \<Rightarrow>
         (case parse input of
            Inl err \<Rightarrow> failed err
          | Inr config \<Rightarrow>
          State_Monad.bind (hub_read (hb_Now hub)) (\<lambda>now.
          State_Monad.bind (LoadSnapshot hub config (op_BotLogin opts) now) (\<lambda>loaded.
          case loaded of
            Inl err \<Rightarrow> failed err
          | Inr sn \<Rightarrow>
              let pl = PlanTick sn config
              in if op_DryRun opts
                 then State_Monad.bind (reports (\<lambda>r. r\<lparr>rp_Idle := pl_Idle pl\<rparr>)) (\<lambda>_. State_Monad.return (None, Some pl))
                 else State_Monad.bind (Apply hub pl sn config opts) (\<lambda>err. State_Monad.return (err, Some pl)))))))"

end
