(* ===== verification/Merge_Trace.thy ===== *)
theory Merge_Trace
  imports Merge_Tick
begin

text \<open>
  A logic of traces for the steps of a tick.  \<open>traces R m\<close> says that every run of \<open>m\<close> only appends
  to the trace, and that its answer and what it appends satisfy \<open>R\<close>; the events a step of the tick
  rests on come before it in what it appends.  A set of event lists that is closed under appending
  is a trace language; what a tick's loops do to such a language is proved once, in a locale.
\<close>

section \<open>Traces of a step\<close>

definition traces :: "('a \<Rightarrow> hub_event list \<Rightarrow> bool) \<Rightarrow> ('w tick, 'a) state \<Rightarrow> bool" where
  "traces R m \<longleftrightarrow> (\<forall>s. \<exists>es. tk_trace (snd (run_state m s)) = tk_trace s @ es \<and> R (fst (run_state m s)) es)"

abbreviation emits :: "(hub_event list \<Rightarrow> bool) \<Rightarrow> ('w tick, 'a) state \<Rightarrow> bool" where
  "emits T m \<equiv> traces (\<lambda>_. T) m"

lemma tracesD:
  "traces R m \<Longrightarrow> run_state m s = (a, s') \<Longrightarrow> \<exists>es. tk_trace s' = tk_trace s @ es \<and> R a es"
  by (force simp: traces_def dest: spec [of _ s])

lemma traces_weaken: "traces R m \<Longrightarrow> (\<And>a es. R a es \<Longrightarrow> Q a es) \<Longrightarrow> traces Q m"
  unfolding traces_def by blast

lemma traces_conj:
  assumes "traces R m" and "traces Q m"
  shows "traces (\<lambda>a es. R a es \<and> Q a es) m"
  unfolding traces_def
proof
  fix s
  obtain es es' where "tk_trace (snd (run_state m s)) = tk_trace s @ es" "R (fst (run_state m s)) es"
    "tk_trace (snd (run_state m s)) = tk_trace s @ es'" "Q (fst (run_state m s)) es'"
    using assms unfolding traces_def by blast
  then show "\<exists>es. tk_trace (snd (run_state m s)) = tk_trace s @ es \<and> R (fst (run_state m s)) es \<and> Q (fst (run_state m s)) es"
    by auto
qed

named_theorems trace_rules \<open>syntax-directed rules of the trace logic\<close>

lemma traces_return [trace_rules]: "R a [] \<Longrightarrow> traces R (State_Monad.return a)"
  by (simp add: traces_def)

lemma traces_gets [trace_rules]: "(\<And>a. R a []) \<Longrightarrow> traces R (gets f)"
  by (simp add: traces_def)

lemma traces_reports [trace_rules]: "R () [] \<Longrightarrow> traces R (reports f)"
  by (simp add: traces_def reports_def)

lemma traces_opened [trace_rules]: "R () [] \<Longrightarrow> traces R (modify (\<lambda>s. s\<lparr>tk_git := b\<rparr>))"
  by (simp add: traces_def)

lemma traces_call: "(\<And>a. R a (events a)) \<Longrightarrow> traces R (hub_call events g)"
  by (auto simp: traces_def hub_call_def split: prod.splits)

lemma traces_read [trace_rules]: "(\<And>a. R a []) \<Longrightarrow> traces R (hub_read g)"
  unfolding hub_read_def by (rule traces_call)

lemma traces_see [trace_rules]: "(\<And>err. R (Inl err) []) \<Longrightarrow> (\<And>a. R (Inr a) [event a]) \<Longrightarrow> traces R (hub_see event g)"
  unfolding hub_see_def by (rule traces_call) (simp split: sum.split)

lemma traces_write [trace_rules]: "(\<And>a. R a [event]) \<Longrightarrow> traces R (hub_write event g)"
  unfolding hub_write_def by (rule traces_call)

lemma traces_bind:
  assumes "traces R m" and "\<And>a es. R a es \<Longrightarrow> traces (\<lambda>b es'. Q b (es @ es')) (f a)"
  shows "traces Q (State_Monad.bind m f)"
  unfolding traces_def
proof
  fix s
  obtain a s1 where m: "run_state m s = (a, s1)" by (cases "run_state m s")
  obtain b s2 where f: "run_state (f a) s1 = (b, s2)" by (cases "run_state (f a) s1")
  from tracesD [OF assms(1) m] obtain es where es: "tk_trace s1 = tk_trace s @ es" "R a es" by blast
  from tracesD [OF assms(2) [OF es(2)] f] obtain es' where "tk_trace s2 = tk_trace s1 @ es'" "Q b (es @ es')" by blast
  then show "\<exists>es. tk_trace (snd (run_state (State_Monad.bind m f) s)) = tk_trace s @ es
      \<and> Q (fst (run_state (State_Monad.bind m f) s)) es"
    using es m f by simp
qed

lemma traces_if [trace_rules]: "(b \<Longrightarrow> traces R m) \<Longrightarrow> (\<not> b \<Longrightarrow> traces R n) \<Longrightarrow> traces R (if b then m else n)"
  by simp

lemma traces_option [trace_rules]:
  "(x = None \<Longrightarrow> traces R m) \<Longrightarrow> (\<And>a. x = Some a \<Longrightarrow> traces R (f a)) \<Longrightarrow> traces R (case x of None \<Rightarrow> m | Some a \<Rightarrow> f a)"
  by (cases x) auto

lemma traces_sum [trace_rules]:
  "(\<And>a. x = Inl a \<Longrightarrow> traces R (f a)) \<Longrightarrow> (\<And>b. x = Inr b \<Longrightarrow> traces R (g b))
   \<Longrightarrow> traces R (case x of Inl a \<Rightarrow> f a | Inr b \<Rightarrow> g b)"
  by (cases x) auto

lemma traces_prod [trace_rules]: "(\<And>a b. x = (a, b) \<Longrightarrow> traces R (f a b)) \<Longrightarrow> traces R (case x of (a, b) \<Rightarrow> f a b)"
  by (cases x) auto

lemma traces_let [trace_rules]: "(\<And>y. y = x \<Longrightarrow> traces R (f y)) \<Longrightarrow> traces R (let y = x in f y)"
  by simp

lemma traces_try_value:
  assumes "traces S m" and "\<And>err es. S (Inl err) es \<Longrightarrow> Q (Inl err) es"
    and "\<And>a es. S (Inr a) es \<Longrightarrow> traces (\<lambda>b es'. Q b (es @ es')) (k a)"
  shows "traces Q (try_value m k)"
  unfolding try_value_def
  by (rule traces_bind [OF assms(1)]) (auto intro!: traces_sum traces_return intro: assms(2,3))

lemma traces_try_error:
  assumes "traces S m" and "\<And>err es. S (Inl err) es \<Longrightarrow> Q (Some err) es"
    and "\<And>a es. S (Inr a) es \<Longrightarrow> traces (\<lambda>b es'. Q b (es @ es')) (k a)"
  shows "traces Q (try_error m k)"
  unfolding try_error_def
  by (rule traces_bind [OF assms(1)]) (auto intro!: traces_sum traces_return intro: assms(2,3))

lemma traces_check_error:
  assumes "traces S m" and "\<And>err es. S (Some err) es \<Longrightarrow> Q (Some err) es"
    and "\<And>es. S None es \<Longrightarrow> traces (\<lambda>b es'. Q b (es @ es')) k"
  shows "traces Q (check_error m k)"
  unfolding check_error_def
  by (rule traces_bind [OF assms(1)]) (auto intro!: traces_option traces_return intro: assms(2,3))

text \<open>A loop of writes that stops at the first failure has written all of them when it ends without one.\<close>

lemma traces_for_each_write:
  assumes "\<And>x. x \<in> set xs \<Longrightarrow> \<exists>g. f x = hub_write (event x) g"
  shows "traces (\<lambda>r es. \<exists>n \<le> length xs. es = map event (take n xs) \<and> (r = None \<longrightarrow> n = length xs)) (for_each f xs)"
  using assms
proof (induction xs)
  case Nil
  then show ?case by (simp add: traces_def)
next
  case (Cons x xs)
  obtain g where g: "f x = hub_write (event x) g" using Cons.prems by auto
  have IH: "traces (\<lambda>r es. \<exists>n \<le> length xs. es = map event (take n xs) \<and> (r = None \<longrightarrow> n = length xs)) (for_each f xs)"
    by (rule Cons.IH) (simp add: Cons.prems)
  have "traces (\<lambda>r es. es = [event x]) (f x)" unfolding g by (rule traces_write) simp
  then show ?case unfolding for_each.simps
  proof (rule traces_check_error)
    fix es assume es: "es = [event x]"
    show "traces (\<lambda>b es'. \<exists>n \<le> length (x # xs). es @ es' = map event (take n (x # xs)) \<and> (b = None \<longrightarrow> n = length (x # xs)))
        (for_each f xs)"
    proof (rule traces_weaken [OF IH], elim exE conjE)
      fix b es' n assume "n \<le> length xs" "es' = map event (take n xs)" "b = None \<longrightarrow> n = length xs"
      then show "\<exists>n \<le> length (x # xs). es @ es' = map event (take n (x # xs)) \<and> (b = None \<longrightarrow> n = length (x # xs))"
        by (intro exI [of _ "Suc n"]) (simp add: es)
    qed
  qed (auto intro: exI [of _ 1])
qed

text \<open>What \<^verbatim>\<open>form\<close> does with the stack it built.\<close>

definition after_build :: "'w hub \<Rightarrow> applier \<Rightarrow> int list \<Rightarrow> string \<Rightarrow> built \<Rightarrow> ('w tick, goerr option) state" where
  "after_build hub a prs base result =
     (case result of
        BuildFailed err \<Rightarrow> State_Monad.return (Some err)
      | Moved number \<Rightarrow> State_Monad.bind (postpone prs) (\<lambda>_. State_Monad.return None)
      | Conflicted culprit \<Rightarrow>
          if length prs < 2 then reject hub a culprit ''it does not rebase cleanly onto the target'' []
          else State_Monad.bind (reports (\<lambda>r. r\<lparr>rp_Split := rp_Split r @ [prs]\<rparr>)) (\<lambda>_.
               check_error (form hub a (fst (Split prs)) base) (form hub a (snd (Split prs)) base))
      | Built members updates records \<Rightarrow>
          publish_stack hub a prs \<lparr>st_Base = base, st_Members = members, st_Retry = 0, st_At = sn_Now (ap_snapshot a)\<rparr>
            updates records)"

abbreviation target_ref :: "applier \<Rightarrow> string" where
  "target_ref a \<equiv> heads_ref (mc_Target (ap_config a))"

lemma form_unfold:
  "form hub a prs base =
     check_error (openGit hub a) (try_error (git_fetch hub (target_ref a)) (\<lambda>target.
       if target \<noteq> base then State_Monad.bind (postpone prs) (\<lambda>_. State_Monad.return None)
       else State_Monad.bind (build_stack hub a base prs base [] [] []) (after_build hub a prs base)))"
  unfolding after_build_def by (rule form.simps)

section \<open>Trace languages\<close>

locale trace_language =
  fixes T :: "hub_event list \<Rightarrow> bool"
  assumes empty_ok: "T []"
    and append_ok: "T xs \<Longrightarrow> T ys \<Longrightarrow> T (xs @ ys)"
begin

lemma emits_after: "T es \<Longrightarrow> emits T m \<Longrightarrow> traces (\<lambda>_ es'. T (es @ es')) m"
  by (erule traces_weaken) (rule append_ok)

lemma emits_bind: "emits T m \<Longrightarrow> (\<And>a. emits T (f a)) \<Longrightarrow> emits T (State_Monad.bind m f)"
  by (rule traces_bind [where R = "\<lambda>_. T"]) (auto intro: emits_after)

lemma emits_try_value: "emits T m \<Longrightarrow> (\<And>a. emits T (k a)) \<Longrightarrow> emits T (try_value m k)"
  by (rule traces_try_value [where S = "\<lambda>_. T"]) (auto intro: emits_after)

lemma emits_try_error: "emits T m \<Longrightarrow> (\<And>a. emits T (k a)) \<Longrightarrow> emits T (try_error m k)"
  by (rule traces_try_error [where S = "\<lambda>_. T"]) (auto intro: emits_after)

lemma emits_check_error: "emits T m \<Longrightarrow> emits T k \<Longrightarrow> emits T (check_error m k)"
  by (rule traces_check_error [where S = "\<lambda>_. T"]) (auto intro: emits_after)

lemma emits_return: "emits T (State_Monad.return a)"
  by (rule traces_return) (rule empty_ok)

lemma emits_read: "emits T (hub_read g)"
  by (rule traces_read) (rule empty_ok)

lemma emits_reports: "emits T (reports f)"
  by (rule traces_reports) (rule empty_ok)

lemma emits_for_each: "(\<And>x. x \<in> set xs \<Longrightarrow> emits T (f x)) \<Longrightarrow> emits T (for_each f xs)"
  by (induction xs) (auto intro: emits_return emits_check_error)

lemmas emits_steps =
  emits_bind emits_try_value emits_try_error emits_check_error emits_return emits_read emits_reports
  traces_if traces_option traces_sum traces_prod traces_let

lemma emits_postpone: "emits T (postpone prs)"
  unfolding postpone_def by (rule emits_reports)

lemma emits_openGit: "emits T (openGit hub a)"
  unfolding openGit_def
  by (intro emits_steps traces_gets traces_opened empty_ok)

lemma emits_batchmate_loop: "emits T (batchmate_loop hub ms ids)"
  by (induction ms arbitrary: ids) (auto intro!: emits_steps)

lemma emits_batchmateRuns: "emits T (batchmateRuns hub s)"
  unfolding batchmateRuns_def by (rule emits_batchmate_loop)

lemma emits_load_queued: "emits T (load_queued hub botLogin ps known acc)"
proof (induction ps arbitrary: known acc)
  case (Cons p ps)
  then show ?case by (cases acc) (auto simp: labeler_can_write_def intro!: emits_steps)
qed (auto intro: emits_return)

lemma emits_upstream_loop: "emits T (upstream_loop hub p base os)"
  by (induction os) (auto intro!: emits_steps)

lemma emits_upstream: "emits T (upstream hub p base)"
  unfolding upstream_def by (rule emits_upstream_loop)

lemma emits_cancel: "(\<And>i. T [WriteCancel i]) \<Longrightarrow> emits T (cancel hub ids)"
  by (induction ids) (auto intro!: emits_steps traces_write)

lemma emits_rerun: "(\<And>i. T [WriteRerun i]) \<Longrightarrow> emits T (rerun hub ids)"
  by (induction ids) (auto intro!: emits_steps traces_write)

lemma emits_comment: "T [WriteComment n body] \<Longrightarrow> emits T (comment hub a n body)"
  unfolding comment_def by (rule traces_write)

lemma emits_cancelPullRequestRuns: "(\<And>i. T [WriteCancel i]) \<Longrightarrow> emits T (cancelPullRequestRuns hub sha)"
  unfolding cancelPullRequestRuns_def by (intro emits_steps emits_cancel)

lemma emits_settle_loop: "(\<And>i. T [WriteCancel i]) \<Longrightarrow> emits T (settle_loop hub s deadline fuel)"
  by (induction fuel) (auto intro!: emits_steps emits_cancel emits_batchmateRuns)

lemma emits_settle: "(\<And>i. T [WriteCancel i]) \<Longrightarrow> emits T (settle hub a s)"
  unfolding settle_def by (intro emits_steps emits_settle_loop)

end

locale reading_language = trace_language +
  assumes saw_ok: "T [SawBranch branch sha]" "T [SawChecks sha runs]" "T [SawFetch ref sha]" "T [SawFiles n files]" "T [SawFile path input]" "T [SawQueued label prs]"
begin

lemma emits_fetch: "emits T (git_fetch hub ref)"
  unfolding git_fetch_def by (rule traces_see) (rule empty_ok saw_ok)+

lemma emits_changed_files: "emits T (changed_files hub ns acc)"
  by (induction ns arbitrary: acc) (auto intro!: emits_steps traces_see empty_ok saw_ok)

lemma emits_loadInFlight: "emits T (loadInFlight hub config s targetSHA queued now)"
  unfolding loadInFlight_def
  by (intro emits_steps emits_changed_files emits_batchmateRuns traces_see empty_ok saw_ok)

lemma emits_load_stacks: "emits T (load_stacks hub config targetSHA queued now ss acc)"
  by (induction ss arbitrary: acc) (auto intro!: emits_steps emits_loadInFlight)

lemma emits_LoadSnapshot: "emits T (LoadSnapshot hub config botLogin now)"
  unfolding LoadSnapshot_def
  by (intro emits_steps emits_load_queued emits_load_stacks traces_see empty_ok saw_ok)

lemma emits_build_stack: "emits T (build_stack hub a base prs tip members updates records)"
  by (induction prs arbitrary: tip members updates records)
    (auto simp: Let_def intro!: emits_steps emits_fetch emits_upstream)

lemma build_conflict_member:
  "traces (\<lambda>r es. \<forall>n. r = Conflicted n \<longrightarrow> n \<in> set prs) (build_stack hub a base prs tip members updates records)"
proof (induction prs arbitrary: tip members updates records)
  case (Cons p prs)
  have any: "traces (\<lambda>_ _. True) (git_fetch hub ref)" "traces (\<lambda>_ _. True) (upstream hub pr base)"
    "traces (\<lambda>_ _. True) (hub_read g)" for ref pr g
    by (rule traces_weaken [OF emits_fetch], simp) (rule traces_weaken [OF emits_upstream], simp, rule traces_read, simp)
  show ?case
    by (auto simp: Let_def split: if_splits intro!: any [THEN traces_bind] traces_sum traces_if traces_prod traces_return
        intro: traces_weaken [OF Cons.IH])
qed (auto intro!: traces_return)

lemma fetch_seen: "traces (\<lambda>r es. T es \<and> (\<forall>x. r = Inr x \<longrightarrow> es = [SawFetch ref x])) (git_fetch hub ref)"
  unfolding git_fetch_def by (rule traces_see) (simp_all add: empty_ok saw_ok)

lemma emits_reject:
  "(\<And>body. T [WriteComment n body]) \<Longrightarrow> T [WriteRemoveLabel n (mc_Label (ap_config a))] \<Longrightarrow> emits T (reject hub a n reason urls)"
  unfolding reject_def by (intro emits_steps emits_comment traces_write)

lemma emits_form:
  assumes "\<And>n body. T [WriteComment n body]"
    and "\<And>n. n \<in> set prs \<Longrightarrow> T [WriteRemoveLabel n (mc_Label (ap_config a))]"
    and "\<And>ns. set ns \<subseteq> set prs \<Longrightarrow> traces (\<lambda>r es. \<forall>members us rs. r = Built members us rs \<longrightarrow>
        traces (\<lambda>_ es'. T (SawFetch (target_ref a) base # es @ es'))
          (publish_stack hub a ns \<lparr>st_Base = base, st_Members = members, st_Retry = 0, st_At = sn_Now (ap_snapshot a)\<rparr> us rs))
        (build_stack hub a base ns base [] [] [])"
  shows "emits T (form hub a prs base)"
  using assms
proof (induction hub a prs base rule: form.induct)
  case (1 hub a prs base)
  have halves: "set (fst (Split prs)) \<subseteq> set prs" "set (snd (Split prs)) \<subseteq> set prs"
    by (auto simp: Split_def Let_def dest: in_set_takeD in_set_dropD)
  have split: "emits T (check_error (form hub a (fst (Split prs)) base) (form hub a (snd (Split prs)) base))"
    if "\<not> length prs < 2"
    using "1.IH"(1,2) [OF _ that] "1.prems" halves that by (intro emits_check_error) (auto simp: subset_iff)
  have later: "emits T (State_Monad.bind (postpone prs) (\<lambda>_. State_Monad.return None))"
    by (intro emits_steps emits_postpone)
  let ?saw = "SawFetch (target_ref a) base"
  have after: "traces (\<lambda>_ es'. T (?saw # bs @ es')) (after_build hub a prs base result)"
    if "T bs" "\<forall>n. result = Conflicted n \<longrightarrow> n \<in> set prs"
      "\<forall>members us rs. result = Built members us rs \<longrightarrow> traces (\<lambda>_ es'. T (?saw # bs @ es'))
         (publish_stack hub a prs \<lparr>st_Base = base, st_Members = members, st_Retry = 0, st_At = sn_Now (ap_snapshot a)\<rparr> us rs)"
    for bs result
  proof -
    have bs: "T (?saw # bs)" using append_ok [OF saw_ok(3) that(1)] by simp
    have "emits T (after_build hub a prs base result)" if "\<forall>members us rs. result \<noteq> Built members us rs"
      using that \<open>\<forall>n. result = Conflicted n \<longrightarrow> n \<in> set prs\<close> "1.prems"(1,2) split later
      by (cases result) (auto simp: after_build_def intro!: emits_bind emits_reports emits_reject emits_return)
    then show ?thesis
      using emits_after [OF bs] that(3) unfolding append_Cons by (cases result) (auto simp: after_build_def)
  qed
  show ?case unfolding form_unfold [of hub a prs base]
  proof (rule emits_check_error [OF emits_openGit], rule traces_try_error [OF fetch_seen])
    fix target es
    assume "T es \<and> (\<forall>x. Inr target = Inr x \<longrightarrow> es = [SawFetch (target_ref a) x])"
    then show "traces (\<lambda>_ es'. T (es @ es')) (if target \<noteq> base then State_Monad.bind (postpone prs) (\<lambda>_. State_Monad.return None)
        else State_Monad.bind (build_stack hub a base prs base [] [] []) (after_build hub a prs base))"
      using emits_after [OF saw_ok(3) later, of "target_ref a" target]
      by (auto intro!: traces_bind [OF traces_conj [OF traces_conj [OF emits_build_stack build_conflict_member]
            "1.prems"(3) [OF subset_refl]]] after)
  qed auto
qed

lemma emits_land: "(\<And>n body. T [WriteComment n body]) \<Longrightarrow> emits T (land hub a s)"
  unfolding land_def by (intro emits_steps emits_for_each emits_comment)

lemma emits_action:
  assumes "\<And>n body. T [WriteComment n body]" and "\<And>i. T [WriteCancel i]" and "\<And>i. T [WriteRerun i]"
    and "\<And>s n reason urls. act = ActionReject s n reason urls \<Longrightarrow> T [WriteRemoveLabel n (mc_Label (ap_config a))]"
    and "\<And>prs base. act = ActionForm prs base \<Longrightarrow> emits T (form hub a prs base)"
    and "\<And>s. act = ActionAdvance s \<Longrightarrow> emits T (advance hub a s)"
  shows "emits T (apply_action hub a act)"
  using assms unfolding apply_action_def
  by (cases act) (auto simp: Let_def intro!: emits_steps emits_for_each emits_comment emits_cancel emits_rerun emits_reject
      emits_cancelPullRequestRuns emits_land)

end

text \<open>In the languages in use each event is allowed after what precedes it.\<close>

locale hub_precedence = precedence Q for Q :: "hub_event list \<Rightarrow> hub_event \<Rightarrow> bool"

sublocale hub_precedence \<subseteq> trace_language "preceded Q"
  by unfold_locales (simp add: preceded_def, rule preceded_append)

interpretation only: trace_language "list_all A" for A
  by unfold_locales simp_all

definition is_saw :: "hub_event \<Rightarrow> bool" where
  "is_saw e = (case e of SawFile p x \<Rightarrow> True | SawQueued l ps \<Rightarrow> True | SawBranch b x \<Rightarrow> True | SawChecks x rs \<Rightarrow> True | SawFiles n fs \<Rightarrow> True | SawFetch r x \<Rightarrow> True | _ \<Rightarrow> False)"

interpretation saw: reading_language "list_all is_saw"
  by unfold_locales (simp_all add: is_saw_def)

interpretation any: reading_language "\<lambda>_. True"
  by unfold_locales simp_all

end
