(* ===== verification/Merge_Tick_Correct.thy ===== *)
theory Merge_Tick_Correct
  imports Merge_Trace
begin

text \<open>
  What a tick of the merge queue may do to a repository, for every answer of GitHub and of git:
  the target only moves to a commit whose required checks this very tick saw green, on top of the
  target it saw; branches are only pushed over the heads the snapshot saw, after every status comment
  was written; a dry run writes nothing.
\<close>

section \<open>The evidence a snapshot rests on\<close>

text \<open>The files of the stack, as far as the required checks ask for them.\<close>

definition files_seen :: "mqConfig \<Rightarrow> hub_event set \<Rightarrow> stack \<Rightarrow> string list \<Rightarrow> bool" where
  "files_seen config E s files \<longleftrightarrow>
     (if needsFiles (mc_RequiredChecks config)
      then \<exists>fs. list_all2 (\<lambda>n changed. SawFiles n changed \<in> E) (stack_Numbers s) fs \<and> files = concat fs
      else files = [])"

definition seen_green :: "mqConfig \<Rightarrow> gotime \<Rightarrow> hub_event set \<Rightarrow> stack \<Rightarrow> bool" where
  "seen_green config now E s \<longleftrightarrow>
     (\<exists>files runs. files_seen config E s files \<and> SawChecks (me_SHA (stack_Top s)) runs \<in> E
        \<and> cs_State (Evaluate (mc_RequiredChecks config) files runs (time_sub now (st_At s)) (mc_CheckTimeout config)
                      (if st_Retry s > 0 then st_At s else zeroTime)) = StateSuccess)"

definition flight_seen :: "mqConfig \<Rightarrow> gotime \<Rightarrow> hub_event set \<Rightarrow> inFlight \<Rightarrow> bool" where
  "flight_seen config now E f \<longleftrightarrow> (cs_State (if_Checks f) = StateSuccess \<longrightarrow> seen_green config now E (if_Stack f))"

lemma files_seen_mono: "files_seen config E s files \<Longrightarrow> E \<subseteq> E' \<Longrightarrow> files_seen config E' s files"
  unfolding files_seen_def by (auto 4 4 split: if_splits elim: list_all2_mono)

lemma seen_green_mono: "seen_green config now E s \<Longrightarrow> E \<subseteq> E' \<Longrightarrow> seen_green config now E' s"
  unfolding seen_green_def using files_seen_mono by blast

lemma flight_seen_mono: "flight_seen config now E f \<Longrightarrow> E \<subseteq> E' \<Longrightarrow> flight_seen config now E' f"
  unfolding flight_seen_def using seen_green_mono by blast

lemma changed_files_seen:
  "traces (\<lambda>r es. \<forall>files. r = Inr files \<longrightarrow>
     (\<exists>fs. list_all2 (\<lambda>n changed. SawFiles n changed \<in> set es) ns fs \<and> files = acc @ concat fs)) (changed_files hub ns acc)"
proof (induction ns arbitrary: acc)
  case (Cons n ns)
  have see: "traces (\<lambda>r es. \<forall>x. r = Inr x \<longrightarrow> es = [SawFiles n x]) (hub_see (SawFiles n) (hb_ChangedFiles hub n))"
    by (rule traces_see) simp_all
  show ?case unfolding changed_files.simps
  proof (rule traces_try_value [OF see])
    fix changed es assume "\<forall>x. Inr changed = Inr x \<longrightarrow> es = [SawFiles n x]"
    then have es: "es = [SawFiles n changed]" by simp
    show "traces (\<lambda>b es'. \<forall>files. b = Inr files \<longrightarrow> (\<exists>fs. list_all2 (\<lambda>n changed. SawFiles n changed \<in> set (es @ es')) (n # ns) fs
        \<and> files = acc @ concat fs)) (changed_files hub ns (acc @ changed))"
    proof (rule traces_weaken [OF Cons.IH], intro allI impI)
      fix b es' files
      assume "\<forall>files. b = Inr files \<longrightarrow> (\<exists>fs. list_all2 (\<lambda>n changed. SawFiles n changed \<in> set es') ns fs
          \<and> files = (acc @ changed) @ concat fs)" "b = Inr files"
      then obtain fs where fs: "list_all2 (\<lambda>n changed. SawFiles n changed \<in> set es') ns fs" "files = (acc @ changed) @ concat fs"
        by blast
      have "list_all2 (\<lambda>n changed. SawFiles n changed \<in> set (es @ es')) ns fs" by (rule list_all2_mono [OF fs(1)]) simp
      then show "\<exists>fs. list_all2 (\<lambda>n changed. SawFiles n changed \<in> set (es @ es')) (n # ns) fs \<and> files = acc @ concat fs"
        using fs(2) by (intro exI [of _ "changed # fs"]) (simp add: es)
    qed
  qed simp
qed (auto intro!: traces_return)

lemma stack_files_seen:
  "traces (\<lambda>r es. \<forall>files. r = Inr files \<longrightarrow> files_seen config (set es) s files)
     (if needsFiles (mc_RequiredChecks config) then changed_files hub (stack_Numbers s) [] else State_Monad.return (Inr []))"
proof (rule traces_if)
  assume "needsFiles (mc_RequiredChecks config)"
  then show "traces (\<lambda>r es. \<forall>files. r = Inr files \<longrightarrow> files_seen config (set es) s files) (changed_files hub (stack_Numbers s) [])"
    by (intro traces_weaken [OF changed_files_seen]) (simp add: files_seen_def)
qed (auto simp: files_seen_def intro: traces_return)

lemma loadInFlight_seen:
  "traces (\<lambda>r es. \<forall>f. r = Inr f \<longrightarrow> if_Stack f = s \<and> flight_seen config now (set es) f)
     (loadInFlight hub config s targetSHA queued now)"
proof -
  have early: "flight_seen config now E \<lparr>if_Stack = s, if_Landed = b, if_Checks = zeroStatus, if_RerunIDs = [], if_BatchmateRuns = []\<rparr>"
    for E b by (simp add: flight_seen_def zeroStatus_def StateSuccess_def)
  have checks: "traces (\<lambda>r es. \<forall>x. r = Inr x \<longrightarrow> es = [SawChecks sha x]) (hub_see (SawChecks sha) (hb_CheckRuns hub sha))" for sha
    by (rule traces_see) simp_all
  have any: "traces (\<lambda>_ _. True) (hub_read g)" "traces (\<lambda>_ _. True) (batchmateRuns hub s)" for g
    by (rule any.emits_read any.emits_batchmateRuns)+
  have green: "flight_seen config now E f"
    if "files_seen config (set es) s files" "SawChecks (me_SHA (stack_Top s)) runs \<in> E" "set es \<subseteq> E" "if_Stack f = s"
      "if_Checks f = Evaluate (mc_RequiredChecks config) files runs (time_sub now (st_At s)) (mc_CheckTimeout config)
         (if st_Retry s > 0 then st_At s else zeroTime)" for E es runs files f
    unfolding flight_seen_def seen_green_def that(4,5) using files_seen_mono [OF that(1,3)] that(2) by blast
  show ?thesis unfolding loadInFlight_def Let_def
    by (intro traces_if traces_return traces_try_value [OF stack_files_seen] traces_try_value [OF checks]
        any [THEN traces_try_value]; (auto simp: early intro!: green simp del: if_split)?)
qed

lemma load_stacks_seen:
  "traces (\<lambda>r es. \<forall>fs. r = Inr fs \<longrightarrow> (\<forall>f \<in> set fs. f \<in> set acc \<or> flight_seen config now (set es) f))
     (load_stacks hub config targetSHA queued now ss acc)"
proof (induction ss arbitrary: acc)
  case (Cons s ss)
  show ?case unfolding load_stacks.simps
    by (rule traces_try_value [OF loadInFlight_seen])
      (auto intro!: traces_weaken [OF Cons.IH] dest!: bspec intro: flight_seen_mono [OF _ Un_upper1] flight_seen_mono [OF _ Un_upper2])
qed (auto intro!: traces_return)

lemma truncate_queued [simp]:
  "pr.truncate (pr.extend p (queuedPR.fields allowed owns landed)) = p" "pr.truncate (queued_of p allowed body) = p"
  by (simp_all add: queued_of_def pr.defs queuedPR.defs)

lemma load_queued_prs:
  "traces (\<lambda>r es. \<forall>queued stacks. r = Inr (queued, stacks) \<longrightarrow> map pr.truncate queued = map pr.truncate (fst acc) @ ps)
     (load_queued hub botLogin ps known acc)"
proof (induction ps arbitrary: botLogin known acc)
  case (Cons p ps)
  have any: "traces (\<lambda>_ _. True) (hub_read g)" "traces (\<lambda>_ _. True) (labeler_can_write hub known p)" for g
    by (rule any.emits_read) (auto simp: labeler_can_write_def intro!: any.emits_steps)
  show ?case
    by (cases acc) (auto intro!: any [THEN traces_try_value] traces_prod traces_if
        intro: traces_weaken [OF Cons.IH])
qed (auto intro!: traces_return)

definition snapshot_seen :: "mqConfig \<Rightarrow> hub_event set \<Rightarrow> snapshot \<Rightarrow> bool" where
  "snapshot_seen config E sn \<longleftrightarrow>
     SawBranch (mc_Target config) (sn_TargetSHA sn) \<in> E
     \<and> (\<exists>prs. SawQueued (mc_Label config) prs \<in> E \<and> map pr.truncate (sn_Queued sn) = sortFIFO prs)
     \<and> (\<forall>f \<in> set (sn_Stacks sn). flight_seen config (sn_Now sn) E f)"

lemma LoadSnapshot_seen:
  "traces (\<lambda>r es. list_all is_saw es \<and> (\<forall>sn. r = Inr sn \<longrightarrow> snapshot_seen config (set es) sn)) (LoadSnapshot hub config botLogin now)"
proof (rule traces_conj [OF saw.emits_LoadSnapshot])
  have see: "traces (\<lambda>r es. \<forall>x. r = Inr x \<longrightarrow> es = [event x]) (hub_see event g)" for event :: "'b \<Rightarrow> hub_event" and g
    by (rule traces_see) simp_all
  show "traces (\<lambda>r es. \<forall>sn. r = Inr sn \<longrightarrow> snapshot_seen config (set es) sn) (LoadSnapshot hub config botLogin now)"
    unfolding LoadSnapshot_def
    by (intro traces_try_value [OF see] traces_try_value [OF load_queued_prs] traces_prod traces_try_value [OF load_stacks_seen] traces_return;
        (auto simp: snapshot_seen_def intro: flight_seen_mono)?)
qed

section \<open>Moving the target\<close>

definition advance_ok :: "applier \<Rightarrow> action list \<Rightarrow> hub_event list \<Rightarrow> hub_event \<Rightarrow> bool" where
  "advance_ok a acts before e \<longleftrightarrow> (\<forall>branch sha. e = WriteFastForward branch sha \<longrightarrow>
     branch = mc_Target (ap_config a)
     \<and> (\<exists>s. ActionAdvance s \<in> set acts \<and> sha = me_SHA (stack_Top s)
          \<and> SawFetch (heads_ref (pr_HeadRef (queued_pr a (me_Number (stack_Top s))))) sha \<in> set before))"

interpretation adv: hub_precedence "advance_ok a acts" for a acts
  by unfold_locales (auto simp: advance_ok_def)

interpretation adv: reading_language "preceded (advance_ok a acts)" for a acts
  by unfold_locales (auto simp: preceded_single advance_ok_def)

definition is_move :: "hub_event \<Rightarrow> bool" where
  "is_move e = (case e of WriteFastForward b x \<Rightarrow> True | _ \<Rightarrow> False)"

lemma is_move_simps [simp]:
  "is_move (WriteFastForward branch sha)" "\<not> is_move (WriteComment n body)" "\<not> is_move (WriteCancel i)"
  "\<not> is_move (WriteRerun i)" "\<not> is_move (WriteRemoveLabel n label)" "\<not> is_move (WritePush us)"
  by (simp_all add: is_move_def)

interpretation still: reading_language "list_all (\<lambda>e. \<not> is_move e)"
  by unfold_locales (simp_all add: is_move_def)

lemma publish_still: "emits (list_all (\<lambda>e. \<not> is_move e)) (publish_stack hub a prs s us rs)"
  unfolding publish_stack_def
  by (intro only.emits_steps only.emits_for_each only.emits_comment only.emits_postpone only.emits_settle traces_write)
    (simp_all add: is_move_def)

lemma form_still: "emits (list_all (\<lambda>e. \<not> is_move e)) (form hub a prs base)"
  by (rule still.emits_form)
    (auto simp: is_move_def intro!: traces_weaken [OF still.emits_build_stack] traces_weaken [OF publish_still])

lemma land_still: "emits (list_all (\<lambda>e. \<not> is_move e)) (land hub a s)"
  by (rule still.emits_land) (simp add: is_move_def)

lemma action_still: "\<not> is_advance act \<Longrightarrow> emits (list_all (\<lambda>e. \<not> is_move e)) (apply_action hub a act)"
  by (rule still.emits_action) (auto simp: is_advance_def intro: form_still)

lemma traces_count:
  assumes "\<And>x. x \<in> set xs \<Longrightarrow> traces (\<lambda>_ es. length (filter P es) \<le> c x) (f x)"
  shows "traces (\<lambda>_ es. length (filter P es) \<le> sum_list (map c xs)) (for_each f xs)"
  using assms
proof (induction xs)
  case (Cons x xs)
  then show ?case unfolding for_each.simps
    by (intro traces_check_error [where S = "\<lambda>_ es. length (filter P es) \<le> c x"])
      (auto intro: traces_weaken [OF Cons.IH])
qed (auto intro: traces_return)

interpretation silent: trace_language "\<lambda>es. es = []"
  by unfold_locales simp_all

lemma advance_trace:
  "traces (\<lambda>_ es. list_all (\<lambda>e. \<not> is_move e) es \<or> (\<exists>es'. list_all (\<lambda>e. \<not> is_move e) es' \<and>
     es = SawFetch (heads_ref (pr_HeadRef (queued_pr a (me_Number (stack_Top s))))) (me_SHA (stack_Top s))
          # WriteFastForward (mc_Target (ap_config a)) (me_SHA (stack_Top s)) # es')) (advance hub a s)"
proof -
  have later: "emits (list_all (\<lambda>e. \<not> is_move e)) (State_Monad.bind (postpone ns) (\<lambda>_. State_Monad.return None))" for ns
    by (intro only.emits_steps only.emits_postpone)
  have put: "traces (\<lambda>_ es. es = [e]) (hub_write e g)" for e g by (rule traces_write) (rule refl)
  have saw: "\<not> is_move (SawFetch r x)" for r x by (simp add: is_move_def)
  show ?thesis unfolding advance_def Let_def
    by (intro traces_check_error [OF silent.emits_openGit] traces_try_error [OF still.fetch_seen] traces_if
        traces_bind [OF put] traces_option traces_return traces_weaken [OF later] traces_weaken [OF land_still]; simp add: saw)
qed

lemma advance_moves:
  assumes "ActionAdvance s \<in> set acts"
  shows "traces (\<lambda>_ es. preceded (advance_ok a acts) es \<and> length (filter is_move es) \<le> 1) (advance hub a s)"
  using assms
  by (intro traces_weaken [OF advance_trace])
    (auto simp: preceded_def advance_ok_def is_move_def list_all_iff Cons_eq_append_conv filter_empty_conv intro!: exI [of _ s])

lemma still_ok:
  "list_all (\<lambda>e. \<not> is_move e) es \<Longrightarrow> preceded (advance_ok a acts) es \<and> length (filter is_move es) \<le> 0"
  by (auto simp: preceded_def advance_ok_def is_move_def list_all_iff filter_empty_conv)

lemma action_moves:
  assumes "act \<in> set acts"
  shows "traces (\<lambda>_ es. preceded (advance_ok a acts) es \<and> length (filter is_move es) \<le> (if is_advance act then 1 else 0)) (apply_action hub a act)"
proof (cases "is_advance act")
  case True
  then obtain s where "act = ActionAdvance s" by (cases act) (auto simp: is_advance_def)
  then show ?thesis using advance_moves [of s acts a hub] assms True by (simp add: apply_action_def)
next
  case False
  show ?thesis using False by (intro traces_weaken [OF action_still [OF False]]) (use still_ok in auto)
qed

lemma sum_list_indicator: "sum_list (map (\<lambda>x. if P x then 1 else 0) xs) = length (filter P xs)"
  by (induction xs) auto

lemma Apply_moves:
  defines "a opts config sn \<equiv> \<lparr>ap_options = opts, ap_config = config, ap_snapshot = sn, ap_queued = queued_map (sn_Queued sn)\<rparr>"
  shows "traces (\<lambda>_ es. preceded (advance_ok (a opts config sn) (pl_Actions pl)) es
    \<and> length (filter is_move es) \<le> length (filter is_advance (pl_Actions pl))) (Apply hub pl sn config opts)"
proof -
  let ?step = "\<lambda>act. State_Monad.bind (apply_action hub (a opts config sn) act) (\<lambda>err. State_Monad.return (map_option (ErrWrap ''apply'') err))"
  have step: "traces (\<lambda>_ es. preceded (advance_ok (a opts config sn) (pl_Actions pl)) es
      \<and> length (filter is_move es) \<le> (if is_advance act then 1 else 0)) (?step act)" if "act \<in> set (pl_Actions pl)" for act
    using that by (intro traces_bind [OF action_moves] traces_return) auto
  have "traces (\<lambda>_ es. preceded (advance_ok (a opts config sn) (pl_Actions pl)) es
      \<and> length (filter is_move es) \<le> length (filter is_advance (pl_Actions pl))) (for_each ?step (pl_Actions pl))"
    by (intro traces_conj adv.emits_for_each, rule traces_weaken [OF step], assumption, simp)
      (rule traces_count [where c = "\<lambda>act. if is_advance act then 1 else 0", unfolded sum_list_indicator],
       rule traces_weaken [OF step], assumption, simp)
  then show ?thesis unfolding Apply_def Let_def a_def
    by (intro traces_bind [OF silent.emits_reports]) simp
qed

text \<open>What a tick must have seen before it moves \<open>branch\<close> to \<open>sha\<close>.\<close>

definition tested_move :: "(string \<Rightarrow> goerr + mqConfig) \<Rightarrow> hub_event set \<Rightarrow> string \<Rightarrow> string \<Rightarrow> bool" where
  "tested_move parse E branch sha \<longleftrightarrow>
     (\<exists>input config now st prs.
        SawFile ConfigPath input \<in> E \<and> parse input = Inr config
      \<and> branch = mc_Target config \<and> sha = me_SHA (stack_Top st)
      \<and> SawBranch branch (st_Base st) \<in> E
      \<and> seen_green config now E st
      \<and> SawQueued (mc_Label config) prs \<in> E
      \<and> (\<forall>m \<in> set (st_Members st). \<exists>p \<in> set prs. pr_Number p = me_Number m \<and> pr_HeadSHA p = me_SHA m)
      \<and> (\<exists>ref. SawFetch ref sha \<in> E))"

definition moves_tested :: "(string \<Rightarrow> goerr + mqConfig) \<Rightarrow> hub_event list \<Rightarrow> bool" where
  "moves_tested parse es \<longleftrightarrow> length (filter is_move es) \<le> 1
     \<and> preceded (\<lambda>before e. \<forall>branch sha. e = WriteFastForward branch sha \<longrightarrow> tested_move parse (set before) branch sha) es"

lemma moves_tested_still: "list_all (\<lambda>e. \<not> is_move e) es \<Longrightarrow> moves_tested parse es"
  by (auto simp: moves_tested_def preceded_def list_all_iff filter_empty_conv is_move_def)

lemma saw_still: "list_all is_saw es \<Longrightarrow> list_all (\<lambda>e. \<not> is_move e) es"
  by (auto simp: list_all_iff is_saw_def is_move_def split: hub_event.splits)

lemma after_still:
  assumes "pre @ es = before @ e # after" and "list_all (\<lambda>e. \<not> is_move e) pre" and "is_move e"
  shows "\<exists>zs. before = pre @ zs \<and> es = zs @ e # after"
  using assms by (force simp: append_eq_append_conv2 append_eq_Cons_conv)

lemma planned_move_tested:
  assumes sn: "snapshot_seen config E sn" and cfg: "SawFile ConfigPath input \<in> E" "parse input = Inr config"
    and plan: "ActionAdvance st \<in> set (pl_Actions (PlanTick sn config))" and fetch: "SawFetch ref (me_SHA (stack_Top st)) \<in> E"
  shows "tested_move parse E (mc_Target config) (me_SHA (stack_Top st))"
proof -
  have st: "st_Base st = sn_TargetSHA sn"
    "\<exists>f \<in> set (sn_Stacks sn). if_Stack f = st \<and> \<not> if_Landed f \<and> cs_State (if_Checks f) = StateSuccess"
    "\<forall>m \<in> set (st_Members st). \<exists>p \<in> set (sn_Queued sn). pr_Number p = me_Number m \<and> pr_HeadSHA p = me_SHA m"
    using plan_advances_tested_stack [of sn config] plan by blast+
  obtain prs where prs: "SawQueued (mc_Label config) prs \<in> E" "map pr.truncate (sn_Queued sn) = sortFIFO prs"
    using sn by (auto simp: snapshot_seen_def)
  have "pr.truncate p \<in> set prs" if "p \<in> set (sn_Queued sn)" for p
    using that arg_cong [OF prs(2), of set] arg_cong [OF mset_sortFIFO [of prs], of set_mset] by (auto dest: equalityD1)
  moreover have "pr_Number (pr.truncate p) = pr_Number p" "pr_HeadSHA (pr.truncate p) = pr_HeadSHA p" for p
    by (simp_all add: pr.defs)
  ultimately have "\<forall>m \<in> set (st_Members st). \<exists>p \<in> set prs. pr_Number p = me_Number m \<and> pr_HeadSHA p = me_SHA m"
    using st(3) by metis
  moreover have "seen_green config (sn_Now sn) E st" "SawBranch (mc_Target config) (st_Base st) \<in> E"
    using sn st(1,2) by (auto simp: snapshot_seen_def flight_seen_def)
  ultimately show ?thesis unfolding tested_move_def using cfg prs(1) fetch by blast
qed

lemma snapshot_seen_mono: "snapshot_seen config E sn \<Longrightarrow> E \<subseteq> E' \<Longrightarrow> snapshot_seen config E' sn"
  unfolding snapshot_seen_def using flight_seen_mono by blast

lemma Apply_moves_tested:
  assumes pre: "list_all (\<lambda>e. \<not> is_move e) pre" "SawFile ConfigPath input \<in> set pre" "snapshot_seen config (set pre) sn"
    and parse: "parse input = Inr config"
  shows "traces (\<lambda>_ es. moves_tested parse (pre @ es)) (Apply hub (PlanTick sn config) sn config opts)"
proof (rule traces_weaken [OF Apply_moves])
  fix es let ?a = "\<lparr>ap_options = opts, ap_config = config, ap_snapshot = sn, ap_queued = queued_map (sn_Queued sn)\<rparr>"
  assume es: "preceded (advance_ok ?a (pl_Actions (PlanTick sn config))) es
    \<and> length (filter is_move es) \<le> length (filter is_advance (pl_Actions (PlanTick sn config)))"
  have one: "length (filter is_move (pre @ es)) \<le> 1"
    using es pre(1) plan_advances_tested_stack [of sn config] by (auto simp: list_all_iff filter_empty_conv)
  have "tested_move parse (set before) branch sha"
    if eq: "pre @ es = before @ WriteFastForward branch sha # after" for before branch sha after
  proof -
    obtain zs where zs: "before = pre @ zs" "es = zs @ WriteFastForward branch sha # after"
      using after_still [OF eq pre(1)] by (auto simp: is_move_def)
    with es have ok: "advance_ok ?a (pl_Actions (PlanTick sn config)) zs (WriteFastForward branch sha)"
      by (auto simp: preceded_def)
    then obtain st ref where st: "branch = mc_Target config" "sha = me_SHA (stack_Top st)"
      "ActionAdvance st \<in> set (pl_Actions (PlanTick sn config))" "SawFetch ref sha \<in> set zs"
      by (auto simp: advance_ok_def)
    have "snapshot_seen config (set before) sn" "SawFile ConfigPath input \<in> set before"
      "SawFetch ref (me_SHA (stack_Top st)) \<in> set before"
      using snapshot_seen_mono [OF pre(3)] zs(1) pre(2) st(2,4) by auto
    then show ?thesis unfolding st(1,2) using planned_move_tested [where parse = parse] parse st(3) by blast
  qed
  with one show "moves_tested parse (pre @ es)" by (auto simp: moves_tested_def preceded_def)
qed

text \<open>A tick reads, and only then, unless it is a dry run, carries out the plan of what it read.\<close>

lemma Tick_emits:
  assumes quiet: "\<And>es. list_all is_saw es \<Longrightarrow> T es"
    and carry: "\<And>input config es sn. parse input = Inr config \<Longrightarrow> list_all is_saw es \<Longrightarrow> SawFile ConfigPath input \<in> set es
      \<Longrightarrow> snapshot_seen config (set es) sn \<Longrightarrow> \<not> op_DryRun opts
      \<Longrightarrow> traces (\<lambda>_ es'. T (es @ es')) (Apply hub (PlanTick sn config) sn config opts)"
  shows "emits T (Tick parse hub opts)"
proof -
  have cfg: "traces (\<lambda>r es. list_all is_saw es \<and> (\<forall>x. r = Inr x \<longrightarrow> es = [SawFile ConfigPath x]))
      (hub_see (SawFile ConfigPath) (hb_ReadFile hub ConfigPath))"
    by (rule traces_see) (simp_all add: is_saw_def)
  have carried: "traces (\<lambda>_ es'. T (SawFile ConfigPath input # es @ es'))
      (State_Monad.bind (Apply hub (PlanTick sn config) sn config opts) (\<lambda>err. State_Monad.return (err, Some (PlanTick sn config))))"
    if "parse input = Inr config" "list_all is_saw es" "snapshot_seen config (set es) sn" "\<not> op_DryRun opts" for input config es sn
    using that by (intro traces_bind [OF carry [where es = "SawFile ConfigPath input # es" and input = input]] traces_return)
      (auto simp: is_saw_def elim: snapshot_seen_mono)
  show ?thesis unfolding Tick_def Let_def
    by (intro traces_if traces_return traces_bind [OF cfg] traces_sum traces_bind [OF silent.emits_read]
        traces_bind [OF LoadSnapshot_seen] traces_bind [OF silent.emits_reports];
        (auto intro!: quiet carried)?)
qed

lemma Tick_moves_tested: "emits (moves_tested parse) (Tick parse hub opts)"
  by (rule Tick_emits) (auto intro: moves_tested_still saw_still Apply_moves_tested)

text \<open>
  C4. A tick moves at most one branch, once.  By then it has read the configuration from the default
  branch; the branch is that configuration's target, which the tick saw at the base of the stack it
  lands; the required checks of the stack's top commit, read in this tick, evaluate to success on the
  files the members change; every member is still labeled and its head is the commit that was tested;
  and the commit the target moves to was fetched from the clone.
\<close>

theorem target_moves_to_tested_commit:
  assumes "run_state (Tick parse hub opts) s = (r, s')" and "tk_trace s = []"
  shows "length (filter is_move (tk_trace s')) \<le> 1
    \<and> (\<forall>before branch sha after. tk_trace s' = before @ WriteFastForward branch sha # after \<longrightarrow> tested_move parse (set before) branch sha)"
proof -
  from tracesD [OF Tick_moves_tested assms(1)] assms(2) have "moves_tested parse (tk_trace s')" by simp
  then show ?thesis by (auto simp: moves_tested_def preceded_def)
qed

section \<open>Publishing a stack\<close>

definition lease :: "queuedPR \<Rightarrow> member \<Rightarrow> branchUpdate" where
  "lease p m = \<lparr>bu_Branch = pr_HeadRef p, bu_SHA = me_SHA m, bu_Expected = pr_HeadSHA p\<rparr>"

lemma build_stack_built:
  "traces (\<lambda>r es. \<forall>ms us rs. r = Built ms us rs \<longrightarrow> (\<exists>new. ms = members @ new \<and> map me_Number new = prs
      \<and> us = updates @ map (\<lambda>m. lease (queued_pr a (me_Number m)) m) new
      \<and> (\<forall>m \<in> set new. SawFetch (heads_ref (pr_HeadRef (queued_pr a (me_Number m)))) (pr_HeadSHA (queued_pr a (me_Number m))) \<in> set es)))
     (build_stack hub a base prs tip members updates records)"
proof (induction prs arbitrary: tip members updates records)
  case (Cons number prs)
  let ?p = "queued_pr a number"
  have any: "traces (\<lambda>_ _. True) (upstream hub ?p base)" "traces (\<lambda>_ _. True) (hub_read g)" for g
    by (rule any.emits_upstream any.emits_read)+
  have next_member: "traces (\<lambda>r es. \<forall>ms us rs. r = Built ms us rs \<longrightarrow> (\<exists>new. ms = members @ new \<and> map me_Number new = number # prs
      \<and> us = updates @ map (\<lambda>m. lease (queued_pr a (me_Number m)) m) new
      \<and> (\<forall>m \<in> set new. SawFetch (heads_ref (pr_HeadRef (queued_pr a (me_Number m)))) (pr_HeadSHA (queued_pr a (me_Number m)))
            \<in> set (SawFetch (heads_ref (pr_HeadRef ?p)) (pr_HeadSHA ?p) # es1 @ es2 @ es))))
     (build_stack hub a base prs sha (members @ [\<lparr>me_Number = number, me_SHA = sha\<rparr>])
        (updates @ [\<lparr>bu_Branch = pr_HeadRef ?p, bu_SHA = sha, bu_Expected = pr_HeadSHA ?p\<rparr>]) (records @ [used]))" for es1 es2 sha used
  proof (rule traces_weaken [OF Cons.IH], intro allI impI, elim allE impE, assumption, elim exE conjE)
    fix ms us new es
    assume "ms = (members @ [\<lparr>me_Number = number, me_SHA = sha\<rparr>]) @ new" "map me_Number new = prs"
      "us = (updates @ [\<lparr>bu_Branch = pr_HeadRef ?p, bu_SHA = sha, bu_Expected = pr_HeadSHA ?p\<rparr>])
         @ map (\<lambda>m. lease (queued_pr a (me_Number m)) m) new"
      "\<forall>m \<in> set new. SawFetch (heads_ref (pr_HeadRef (queued_pr a (me_Number m)))) (pr_HeadSHA (queued_pr a (me_Number m))) \<in> set es"
    then show "\<exists>new. ms = members @ new \<and> map me_Number new = number # prs
      \<and> us = updates @ map (\<lambda>m. lease (queued_pr a (me_Number m)) m) new
      \<and> (\<forall>m \<in> set new. SawFetch (heads_ref (pr_HeadRef (queued_pr a (me_Number m)))) (pr_HeadSHA (queued_pr a (me_Number m)))
            \<in> set (SawFetch (heads_ref (pr_HeadRef ?p)) (pr_HeadSHA ?p) # es1 @ es2 @ es))"
      by (intro exI [of _ "\<lparr>me_Number = number, me_SHA = sha\<rparr> # new"]) (auto simp: lease_def)
  qed
  show ?case unfolding build_stack.simps Let_def
    by (intro traces_bind [OF any.fetch_seen] traces_sum traces_if traces_return any [THEN traces_bind] traces_prod;
        (auto intro!: next_member [simplified] split: if_splits)?)
qed (auto intro!: traces_return)

text \<open>Every status comment of the stack is written before its push, in order, with nothing in between.\<close>

definition stack_comments :: "stack \<Rightarrow> own list list \<Rightarrow> hub_event list" where
  "stack_comments s records =
     map (\<lambda>i. WriteComment (me_Number (st_Members s ! i)) (stackComment s i (records ! i))) [0..<length (st_Members s)]"

definition is_push :: "hub_event \<Rightarrow> bool" where
  "is_push e = (case e of WritePush us \<Rightarrow> True | _ \<Rightarrow> False)"

lemma publish_trace:
  "traces (\<lambda>_ es. list_all (\<lambda>e. \<not> is_push e) es
     \<or> (\<exists>es'. es = stack_comments s records @ WritePush us # es' \<and> list_all (\<lambda>e. \<not> is_push e) es')) (publish_stack hub a prs s us records)"
proof -
  let ?f = "\<lambda>i. comment hub a (me_Number (st_Members s ! i)) (stackComment s i (records ! i))"
  have comments: "traces (\<lambda>r es. list_all (\<lambda>e. \<not> is_push e) es \<and> (r = None \<longrightarrow> es = stack_comments s records))
      (for_each ?f [0..<length (st_Members s)])"
    by (rule traces_weaken [OF traces_for_each_write
          [where event = "\<lambda>i. WriteComment (me_Number (st_Members s ! i)) (stackComment s i (records ! i))"]])
      (auto simp: comment_def stack_comments_def is_push_def list_all_iff)
  have put: "traces (\<lambda>_ es. es = [e]) (hub_write e g)" for e g by (rule traces_write) (rule refl)
  have later: "emits (list_all (\<lambda>e. \<not> is_push e)) (State_Monad.bind (postpone prs) (\<lambda>_. State_Monad.return None))"
    by (intro only.emits_steps only.emits_postpone)
  have formed: "emits (list_all (\<lambda>e. \<not> is_push e)) (State_Monad.bind (reports (\<lambda>r. r\<lparr>rp_Formed := rp_Formed r @ [prs]\<rparr>)) (\<lambda>_.
          State_Monad.bind (settle hub a s) (\<lambda>_. State_Monad.return None)))"
    by (intro only.emits_steps only.emits_settle) (simp add: is_push_def)
  show ?thesis unfolding publish_stack_def
    by (intro traces_check_error [OF comments] traces_bind [OF put] traces_option traces_if traces_return
        traces_weaken [OF later] traces_weaken [OF formed]; simp)
qed

definition push_ok :: "applier \<Rightarrow> action list \<Rightarrow> hub_event list \<Rightarrow> hub_event \<Rightarrow> bool" where
  "push_ok a acts before e \<longleftrightarrow> (\<forall>us. e = WritePush us \<longrightarrow>
     (\<exists>prs st records. ActionForm prs (st_Base st) \<in> set acts \<and> set (stack_Numbers st) \<subseteq> set prs
        \<and> SawFetch (target_ref a) (st_Base st) \<in> set before
        \<and> suffix (stack_comments st records) before
        \<and> us = map (\<lambda>m. lease (queued_pr a (me_Number m)) m) (st_Members st)
        \<and> (\<forall>n \<in> set (stack_Numbers st). SawFetch (heads_ref (pr_HeadRef (queued_pr a n))) (pr_HeadSHA (queued_pr a n)) \<in> set before)))"

lemma push_ok_more: "push_ok a acts before e \<Longrightarrow> push_ok a acts (xs @ before) e"
  unfolding push_ok_def by (fastforce intro: suffix_appendI)

interpretation push: hub_precedence "push_ok a acts" for a acts
  by unfold_locales (rule push_ok_more)

interpretation push: reading_language "preceded (push_ok a acts)" for a acts
  by unfold_locales (auto simp: preceded_single push_ok_def)

lemma no_push_ok: "list_all (\<lambda>e. \<not> is_push e) es \<Longrightarrow> preceded (push_ok a acts) es"
  by (auto simp: preceded_def push_ok_def list_all_iff is_push_def)

lemma publish_ok:
  assumes "ActionForm prs base \<in> set acts" and "map me_Number members = ns" and "set ns \<subseteq> set prs" and "list_all is_saw es"
    and "us = map (\<lambda>m. lease (queued_pr a (me_Number m)) m) members"
    and "\<forall>m \<in> set members. SawFetch (heads_ref (pr_HeadRef (queued_pr a (me_Number m)))) (pr_HeadSHA (queued_pr a (me_Number m))) \<in> set es"
  shows "traces (\<lambda>_ es'. preceded (push_ok a acts) (SawFetch (target_ref a) base # es @ es'))
     (publish_stack hub a ns \<lparr>st_Base = base, st_Members = members, st_Retry = 0, st_At = now\<rparr> us records)"
proof (rule traces_weaken [OF publish_trace])
  let ?st = "\<lparr>st_Base = base, st_Members = members, st_Retry = 0, st_At = now\<rparr>"
  let ?saw = "SawFetch (target_ref a) base"
  fix es'
  have pre: "preceded (push_ok a acts) (?saw # es)"
    using assms(4) by (intro no_push_ok) (auto simp: list_all_iff is_saw_def is_push_def split: hub_event.splits)
  have comments: "preceded (push_ok a acts) (stack_comments ?st records)"
    by (intro no_push_ok) (auto simp: stack_comments_def list_all_iff is_push_def)
  have push: "push_ok a acts (?saw # es @ stack_comments ?st records) (WritePush us)"
    unfolding push_ok_def using assms
    by (auto simp: stack_Numbers_def suffix_def intro!: exI [of _ prs] exI [of _ ?st] exI [of _ records])
  assume "list_all (\<lambda>e. \<not> is_push e) es'
    \<or> (\<exists>ts. es' = stack_comments ?st records @ WritePush us # ts \<and> list_all (\<lambda>e. \<not> is_push e) ts)"
  then show "preceded (push_ok a acts) (?saw # es @ es')"
  proof
    assume "list_all (\<lambda>e. \<not> is_push e) es'"
    then show ?thesis using push.preceded_append [OF pre no_push_ok] by simp
  next
    assume "\<exists>ts. es' = stack_comments ?st records @ WritePush us # ts \<and> list_all (\<lambda>e. \<not> is_push e) ts"
    then obtain ts where ts: "es' = stack_comments ?st records @ WritePush us # ts" "list_all (\<lambda>e. \<not> is_push e) ts" by blast
    have "preceded (push_ok a acts) ((?saw # es @ stack_comments ?st records) @ [WritePush us])"
      using push.preceded_append [OF pre comments] push by (intro preceded_snoc) simp_all
    from push.preceded_append [OF this no_push_ok [OF ts(2)]] show ?thesis by (simp add: ts(1))
  qed
qed

lemma form_pushes:
  assumes "ActionForm prs base \<in> set acts"
  shows "emits (preceded (push_ok a acts)) (form hub a prs base)"
proof (rule push.emits_form)
  fix ns assume ns: "set ns \<subseteq> set prs"
  show "traces (\<lambda>r es. \<forall>members us rs. r = Built members us rs \<longrightarrow>
        traces (\<lambda>_ es'. preceded (push_ok a acts) (SawFetch (target_ref a) base # es @ es'))
          (publish_stack hub a ns \<lparr>st_Base = base, st_Members = members, st_Retry = 0, st_At = sn_Now (ap_snapshot a)\<rparr> us rs))
        (build_stack hub a base ns base [] [] [])"
    by (rule traces_weaken [OF traces_conj [OF build_stack_built saw.emits_build_stack]])
      (auto intro!: publish_ok [OF assms _ ns])
qed (auto simp: preceded_single push_ok_def)

lemma advance_pushes: "emits (preceded (push_ok a acts)) (advance hub a s)"
  unfolding advance_def Let_def
  by (intro push.emits_steps push.emits_openGit push.emits_fetch push.emits_postpone push.emits_land traces_write)
    (simp_all add: preceded_single push_ok_def)

lemma action_pushes: "act \<in> set acts \<Longrightarrow> emits (preceded (push_ok a acts)) (apply_action hub a act)"
  by (rule push.emits_action) (auto simp: preceded_single push_ok_def intro: form_pushes advance_pushes)

lemma Apply_pushes:
  "emits (preceded (push_ok \<lparr>ap_options = opts, ap_config = config, ap_snapshot = sn, ap_queued = queued_map (sn_Queued sn)\<rparr>
     (pl_Actions pl))) (Apply hub pl sn config opts)"
  unfolding Apply_def Let_def by (intro push.emits_steps push.emits_for_each action_pushes)

text \<open>What a tick has seen and written when it pushes \<open>us\<close>.\<close>

definition push_published :: "(string \<Rightarrow> goerr + mqConfig) \<Rightarrow> hub_event list \<Rightarrow> branchUpdate list \<Rightarrow> bool" where
  "push_published parse before us \<longleftrightarrow>
     (\<exists>input config prs st records.
        SawFile ConfigPath input \<in> set before \<and> parse input = Inr config
      \<and> SawQueued (mc_Label config) prs \<in> set before
      \<and> SawBranch (mc_Target config) (st_Base st) \<in> set before
      \<and> SawFetch (heads_ref (mc_Target config)) (st_Base st) \<in> set before
      \<and> suffix (stack_comments st records) before
      \<and> list_all2 (\<lambda>m u. \<exists>p \<in> set prs. pr_Number p = me_Number m
           \<and> u = \<lparr>bu_Branch = pr_HeadRef p, bu_SHA = me_SHA m, bu_Expected = pr_HeadSHA p\<rparr>
           \<and> SawFetch (heads_ref (pr_HeadRef p)) (pr_HeadSHA p) \<in> set before) (st_Members st) us)"

lemma push_published_more: "push_published parse before us \<Longrightarrow> push_published parse (xs @ before) us"
  unfolding push_published_def set_append
  by (elim exE conjE, intro exI conjI UnI2, assumption+)
    (erule suffix_appendI, erule list_all2_mono, blast)

lemma planned_form:
  assumes "ActionForm prs base \<in> set (pl_Actions (PlanTick sn config))"
  shows "base = sn_TargetSHA sn \<and> set prs \<subseteq> pr_Number ` set (sn_Queued sn)"
proof (cases rule: plan_failure_cases [OF assms])
  case (2 f)
  have "base = st_Base (if_Stack f)"
    "prs = fst (Split (stack_Numbers (if_Stack f))) \<or> prs = snd (Split (stack_Numbers (if_Stack f)))"
    using 2(2) by (auto simp: failureActions_def Let_def case_prod_beta split: if_splits)
  moreover have "set (stack_Numbers (if_Stack f)) \<subseteq> pr_Number ` set (sn_Queued sn)" "st_Base (if_Stack f) = sn_TargetSHA sn"
    using 2(1) by (auto simp: red_stack_def stack_Numbers_def image_iff) metis
  ultimately show ?thesis by (auto simp: Split_def Let_def dest: in_set_takeD in_set_dropD split: if_splits)
next
  case 3
  then show ?thesis by (auto simp: take_batch_def dest: in_set_takeD split: if_splits)
qed simp

lemma seen_queue:
  assumes "snapshot_seen config E sn"
  obtains prs where "SawQueued (mc_Label config) prs \<in> E"
    "\<And>p. p \<in> set (sn_Queued sn) \<Longrightarrow> pr.truncate p \<in> set prs"
proof -
  obtain prs where prs: "SawQueued (mc_Label config) prs \<in> E" "map pr.truncate (sn_Queued sn) = sortFIFO prs"
    using assms by (auto simp: snapshot_seen_def)
  have "set prs = pr.truncate ` set (sn_Queued sn)"
    using arg_cong [OF prs(2), of set] arg_cong [OF mset_sortFIFO [of prs], of set_mset] by simp
  with prs(1) show ?thesis by (intro that) auto
qed

lemma truncate_fields [simp]:
  "pr_Number (pr.truncate p) = pr_Number p" "pr_HeadSHA (pr.truncate p) = pr_HeadSHA p" "pr_HeadRef (pr.truncate p) = pr_HeadRef p"
  by (simp_all add: pr.defs)

lemma queued_pr_seen:
  assumes "n \<in> pr_Number ` set (sn_Queued sn)" and "ap_queued a = queued_map (sn_Queued sn)"
  shows "queued_pr a n \<in> set (sn_Queued sn) \<and> pr_Number (queued_pr a n) = n"
  using assms queued_map_None [of "sn_Queued sn" n] queued_map_SomeD [of "sn_Queued sn" n]
  by (cases "map_of (queued_map (sn_Queued sn)) n") (auto simp: queued_pr_def)

lemma planned_push_published:
  assumes sn: "snapshot_seen config (set pre) sn" and cfg: "SawFile ConfigPath input \<in> set pre" "parse input = Inr config"
    and ok: "push_ok a (pl_Actions (PlanTick sn config)) before (WritePush us)"
    and a: "ap_queued a = queued_map (sn_Queued sn)" "ap_config a = config"
  shows "push_published parse (pre @ before) us"
proof -
  obtain prs st records where st: "ActionForm prs (st_Base st) \<in> set (pl_Actions (PlanTick sn config))"
    "set (stack_Numbers st) \<subseteq> set prs" "SawFetch (target_ref a) (st_Base st) \<in> set before"
    "suffix (stack_comments st records) before" "us = map (\<lambda>m. lease (queued_pr a (me_Number m)) m) (st_Members st)"
    "\<forall>n \<in> set (stack_Numbers st). SawFetch (heads_ref (pr_HeadRef (queued_pr a n))) (pr_HeadSHA (queued_pr a n)) \<in> set before"
    using ok by (auto simp: push_ok_def)
  obtain labeled where labeled: "SawQueued (mc_Label config) labeled \<in> set pre"
    "\<And>p. p \<in> set (sn_Queued sn) \<Longrightarrow> pr.truncate p \<in> set labeled"
    using seen_queue [OF sn] by blast
  have base: "SawBranch (mc_Target config) (st_Base st) \<in> set pre"
    using sn planned_form [OF st(1)] by (simp add: snapshot_seen_def)
  have member: "\<exists>p \<in> set labeled. pr_Number p = me_Number m \<and> lease (queued_pr a (me_Number m)) m =
        \<lparr>bu_Branch = pr_HeadRef p, bu_SHA = me_SHA m, bu_Expected = pr_HeadSHA p\<rparr>
      \<and> SawFetch (heads_ref (pr_HeadRef p)) (pr_HeadSHA p) \<in> set (pre @ before)" if "m \<in> set (st_Members st)" for m
  proof -
    have n: "me_Number m \<in> set (stack_Numbers st)" using that by (simp add: stack_Numbers_def)
    have "queued_pr a (me_Number m) \<in> set (sn_Queued sn) \<and> pr_Number (queued_pr a (me_Number m)) = me_Number m"
      using queued_pr_seen [OF _ a(1)] n st(2) planned_form [OF st(1)] by blast
    then show ?thesis using labeled(2) [of "queued_pr a (me_Number m)"] st(6) n
      by (intro bexI [of _ "pr.truncate (queued_pr a (me_Number m))"]) (auto simp: lease_def)
  qed
  show ?thesis unfolding push_published_def
    using cfg labeled(1) base st(3,4) a(2) member
    by (intro exI [of _ input] exI [of _ config] exI [of _ labeled] exI [of _ st] exI [of _ records])
      (auto simp: st(5) list_all2_conv_all_nth suffix_appendI)
qed

lemma saw_before:
  assumes "pre @ es = before @ e # after" and "list_all is_saw pre" and "\<not> is_saw e"
  shows "\<exists>zs. before = pre @ zs \<and> es = zs @ e # after"
  using assms by (force simp: append_eq_append_conv2 append_eq_Cons_conv)

text \<open>
  C5. Branches are pushed write-ahead.  When a tick pushes branches, the last thing it wrote is the
  status comment of every member of the stack, in order, so the marker that describes the stack is
  the last of them; the stack stands on the commit the tick saw the target at, in GitHub and in its
  clone; each push is for the branch of a labeled pull request, leased on the head GitHub reported
  for it, which is also the head the clone fetched.
\<close>

theorem push_is_write_ahead:
  assumes "run_state (Tick parse hub opts) s = (r, s')" and "tk_trace s = []"
    and "tk_trace s' = before @ WritePush us # after"
  shows "push_published parse before us"
proof -
  let ?T = "preceded (\<lambda>before e. \<forall>us. e = WritePush us \<longrightarrow> push_published parse before us)"
  have "emits ?T (Tick parse hub opts)"
  proof (rule Tick_emits)
    show "?T es" if "list_all is_saw es" for es using that by (auto simp: preceded_def is_saw_def)
    fix input config es sn
    assume sn: "parse input = Inr config" "list_all is_saw es" "SawFile ConfigPath input \<in> set es" "snapshot_seen config (set es) sn"
    show "traces (\<lambda>_ es'. ?T (es @ es')) (Apply hub (PlanTick sn config) sn config opts)"
    proof (rule traces_weaken [OF Apply_pushes], unfold preceded_def, intro allI impI)
      fix es' before e after us
      assume ok: "\<forall>before e after. es' = before @ e # after \<longrightarrow> push_ok \<lparr>ap_options = opts, ap_config = config, ap_snapshot = sn,
          ap_queued = queued_map (sn_Queued sn)\<rparr> (pl_Actions (PlanTick sn config)) before e"
        and eq: "es @ es' = before @ e # after" and e: "e = WritePush us"
      obtain zs where zs: "before = es @ zs" "es' = zs @ e # after" using saw_before [OF eq sn(2)] e by (auto simp: is_saw_def)
      with ok e have "push_ok \<lparr>ap_options = opts, ap_config = config, ap_snapshot = sn, ap_queued = queued_map (sn_Queued sn)\<rparr>
          (pl_Actions (PlanTick sn config)) zs (WritePush us)" by blast
      then show "push_published parse before us"
        unfolding zs(1) by (rule planned_push_published [where parse = parse, OF sn(4,3,1)]) simp_all
    qed
  qed
  from tracesD [OF this assms(1)] assms(2,3) show ?thesis by (auto simp: preceded_def)
qed

text \<open>
  A dry run only reads; a tick that would write but does not know the account whose comments it can
  trust fails before it reads anything.
\<close>

theorem dry_run_writes_nothing:
  "(op_DryRun opts \<longrightarrow> (\<exists>es. tk_trace (snd (run_state (Tick parse hub opts) s)) = tk_trace s @ es \<and> list_all is_saw es))
   \<and> (\<not> op_DryRun opts \<and> op_BotLogin opts = [] \<longrightarrow>
        (\<exists>err. run_state (Tick parse hub opts) s = ((Some err, None), s)))"
proof (intro conjI impI)
  assume "op_DryRun opts"
  then have "emits (list_all is_saw) (Tick parse hub opts)" by (intro Tick_emits) simp_all
  then show "\<exists>es. tk_trace (snd (run_state (Tick parse hub opts) s)) = tk_trace s @ es \<and> list_all is_saw es"
    by (simp add: traces_def)
qed (simp add: Tick_def)

section \<open>An example repository\<close>

text \<open>One labeled pull request, green checks, a clone that agrees with GitHub, a clock that moves as the queue sleeps.\<close>

definition example_hub :: "string \<Rightarrow> gotime hub" where
  "example_hub body = \<lparr>
     hb_ResolveBranch = (\<lambda>branch w. (Inr (example_sha (CHR ''a'')), w)),
     hb_ReadFile = (\<lambda>path w. (Inr [], w)),
     hb_QueuedPRs = (\<lambda>label w. (Inr [pr.truncate (example_pr 7)], w)),
     hb_CanWrite = (\<lambda>login w. (Inr True, w)),
     hb_StatusComment = (\<lambda>n login w. (Inr body, w)),
     hb_UpsertStatusComment = (\<lambda>n login body' w. (None, w)),
     hb_ChangedFiles = (\<lambda>n w. (Inr [], w)),
     hb_CheckRuns = (\<lambda>sha w. (Inr [example_run], w)),
     hb_WorkflowRuns = (\<lambda>sha w. (Inr [], w)),
     hb_IsAncestor = (\<lambda>x y w. (Inr False, w)),
     hb_CancelRun = (\<lambda>i w. (None, w)),
     hb_RerunFailedJobs = (\<lambda>i w. (None, w)),
     hb_RemoveLabel = (\<lambda>n label w. (None, w)),
     hb_OpenGit = (\<lambda>target w. (None, w)),
     hb_Fetch = (\<lambda>ref w. (Inr (example_sha (if ref = heads_ref ''main'' then CHR ''a'' else CHR ''b'')), w)),
     hb_GitIsAncestor = (\<lambda>x y w. (Inr True, w)),
     hb_Rebase = (\<lambda>onto up head w. (Inr (example_sha (CHR ''c'')), w)),
     hb_PushBranches = (\<lambda>us w. (None, w)),
     hb_FastForward = (\<lambda>branch sha w. (None, w)),
     hb_Now = (\<lambda>w. (w, w)),
     hb_Sleep = (\<lambda>d w. (False, w + d))\<rparr>"

definition example_options :: "bool \<Rightarrow> options" where
  "example_options dry = \<lparr>op_BotLogin = ''queue[bot]'', op_DryRun = dry, op_SettleWait = 12 * second\<rparr>"

definition example_start :: "gotime tick" where
  "example_start = \<lparr>tk_world = 62135596810 * second, tk_trace = [], tk_git = False,
     tk_report = \<lparr>rp_Formed = [], rp_Landed = [], rp_Retried = [], rp_Split = [], rp_Abandoned = [], rp_Rejected = [],
       rp_Deferred = [], rp_Idle = False\<rparr>\<rparr>"

lemma example_tick:
  "filter is_move (tk_trace (snd (run_state (Tick (\<lambda>_. Inr example_config) (example_hub (stackMarker example_stack)) (example_options False)) example_start)))
    = [WriteFastForward ''main'' (example_sha (CHR ''b''))]"
  by code_simp

theorem target_moves_to_tested_commit_witness:
  "\<exists>before after. tk_trace (snd (run_state (Tick (\<lambda>_. Inr example_config) (example_hub (stackMarker example_stack)) (example_options False))
       example_start)) = before @ WriteFastForward ''main'' (example_sha (CHR ''b'')) # after
     \<and> tested_move (\<lambda>_. Inr example_config) (set before) ''main'' (example_sha (CHR ''b''))"
proof -
  let ?run = "run_state (Tick (\<lambda>_. Inr example_config) (example_hub (stackMarker example_stack)) (example_options False)) example_start"
  have "WriteFastForward ''main'' (example_sha (CHR ''b'')) \<in> set (filter is_move (tk_trace (snd ?run)))"
    unfolding example_tick by simp
  then obtain before after where "tk_trace (snd ?run) = before @ WriteFastForward ''main'' (example_sha (CHR ''b'')) # after"
    by (auto simp: in_set_conv_decomp)
  then show ?thesis
    using target_moves_to_tested_commit [of "\<lambda>_. Inr example_config" _ _ example_start "fst ?run" "snd ?run"]
    by (auto simp: example_start_def)
qed

lemma example_push:
  "filter is_push (tk_trace (snd (run_state (Tick (\<lambda>_. Inr example_config) (example_hub []) (example_options False)) example_start)))
    = [WritePush [\<lparr>bu_Branch = ''topic'', bu_SHA = example_sha (CHR ''c''), bu_Expected = example_sha (CHR ''b'')\<rparr>]]"
  by code_simp

theorem push_is_write_ahead_witness:
  "\<exists>before after us. tk_trace (snd (run_state (Tick (\<lambda>_. Inr example_config) (example_hub []) (example_options False))
       example_start)) = before @ WritePush us # after \<and> push_published (\<lambda>_. Inr example_config) before us"
proof -
  let ?run = "run_state (Tick (\<lambda>_. Inr example_config) (example_hub []) (example_options False)) example_start"
  let ?us = "[\<lparr>bu_Branch = ''topic'', bu_SHA = example_sha (CHR ''c''), bu_Expected = example_sha (CHR ''b'')\<rparr>]"
  have "WritePush ?us \<in> set (filter is_push (tk_trace (snd ?run)))" unfolding example_push by simp
  then obtain before after where eq: "tk_trace (snd ?run) = before @ WritePush ?us # after"
    by (auto simp: in_set_conv_decomp)
  have "tk_trace example_start = []" by (simp add: example_start_def)
  from push_is_write_ahead [OF _ this eq] eq show ?thesis by (metis prod.collapse)
qed

theorem dry_run_writes_nothing_witness:
  "\<exists>es. tk_trace (snd (run_state (Tick (\<lambda>_. Inr example_config) (example_hub []) (example_options True)) example_start)) = es
     \<and> list_all is_saw es"
  using dry_run_writes_nothing [of "example_options True" "\<lambda>_. Inr example_config" "example_hub []" example_start]
  by (simp add: example_options_def example_start_def)

end
