(* ===== verification/Merge_Settle.thy ===== *)
theory Merge_Settle
  imports Merge_Tick_Correct
begin

text \<open>
  After a push the tick keeps cancelling the runs the push started (\<^verbatim>\<open>settle\<close> in
  \<^verbatim>\<open>mergequeue/apply.go\<close>).  The loop polls GitHub until a deadline; it ends for every behaviour of
  GitHub when the clock is a clock.
\<close>

section \<open>Settling ends\<close>

text \<open>The clock of a world: reading it gives the time, no call turns it back, and a sleep that is not cut short lasts.\<close>

definition clocked :: "'w hub \<Rightarrow> ('w \<Rightarrow> gotime) \<Rightarrow> bool" where
  "clocked hub clock \<longleftrightarrow>
     (\<forall>w. fst (hb_Now hub w) = clock w \<and> clock w \<le> clock (snd (hb_Now hub w)))
   \<and> (\<forall>sha w. clock w \<le> clock (snd (hb_WorkflowRuns hub sha w)))
   \<and> (\<forall>i w. clock w \<le> clock (snd (hb_CancelRun hub i w)))
   \<and> (\<forall>d w. fst (hb_Sleep hub d w) \<or> clock w + d \<le> clock (snd (hb_Sleep hub d w)))"

lemma clockedD:
  assumes "clocked hub clock"
  shows "fst (hb_Now hub w) = clock w" "clock w \<le> clock (snd (hb_Now hub w))"
    "clock w \<le> clock (snd (hb_WorkflowRuns hub sha w))" "clock w \<le> clock (snd (hb_CancelRun hub i w))"
    "\<not> fst (hb_Sleep hub d w) \<Longrightarrow> clock w + d \<le> clock (snd (hb_Sleep hub d w))"
  using assms by (auto simp: clocked_def)

lemma keeps_call:
  assumes "\<And>w. clock w \<le> clock (snd (g w))"
  shows "keeps (\<lambda>s. (c :: gotime) \<le> clock (tk_world s)) (hub_call events g)"
proof (rule keepsI)
  fix s a s' assume c: "c \<le> clock (tk_world s)" and "run_state (hub_call events g) s = (a, s')"
  then have "tk_world s' = snd (g (tk_world s))" by (auto simp: hub_call_def split: prod.splits)
  then show "c \<le> clock (tk_world s')" using order_trans [OF c assms [of "tk_world s"]] by simp
qed

lemma keeps_batchmate_loop:
  assumes "clocked hub clock"
  shows "keeps (\<lambda>s. c \<le> clock (tk_world s)) (batchmate_loop hub ms ids)"
  by (induction ms arbitrary: ids) (auto simp: hub_read_def intro!: keeps_rules keeps_call clockedD(3) [OF assms])

lemma keeps_cancel:
  assumes "clocked hub clock"
  shows "keeps (\<lambda>s. c \<le> clock (tk_world s)) (cancel hub ids)"
  by (induction ids) (auto simp: hub_write_def intro!: keeps_rules keeps_call clockedD(4) [OF assms])

lemma settle_step:
  assumes "clocked hub clock"
  shows "fst (run_state (settle_loop hub st deadline (Suc fuel)) s)
   \<or> (\<exists>s'. clock (tk_world s) < deadline \<and> clock (tk_world s) + 5 * second \<le> clock (tk_world s')
        \<and> run_state (settle_loop hub st deadline (Suc fuel)) s = run_state (settle_loop hub st deadline fuel) s')"
proof -
  obtain r s1 where 1: "run_state (batchmateRuns hub st) s = (r, s1)" by fastforce
  obtain u s2 where 2: "run_state (case r of Inl err \<Rightarrow> State_Monad.return () | Inr ids \<Rightarrow> cancel hub ids) s1 = (u, s2)" by (meson surj_pair)
  obtain n s3 where 3: "run_state (hub_read (hb_Now hub)) s2 = (n, s3)" by fastforce
  obtain b s4 where 4: "run_state (hub_read (hb_Sleep hub (5 * second))) s3 = (b, s4)" by fastforce
  have "clock (tk_world s) \<le> clock (tk_world s1)"
    using keepsD [OF keeps_batchmate_loop [OF assms] _ 1 [unfolded batchmateRuns_def], of "clock (tk_world s)"] by simp
  moreover have "keeps (\<lambda>s. clock (tk_world s1) \<le> clock (tk_world s)) (case r of Inl err \<Rightarrow> State_Monad.return () | Inr ids \<Rightarrow> cancel hub ids)"
    by (intro keeps_rules keeps_cancel [OF assms])
  then have "clock (tk_world s1) \<le> clock (tk_world s2)" 
    using keepsD [where I = "\<lambda>s. clock (tk_world s1) \<le> clock (tk_world s)", OF _ _ 2] by simp
  moreover have "n = clock (tk_world s2)" "clock (tk_world s2) \<le> clock (tk_world s3)"
    using 3 clockedD(1,2) [OF assms, of "tk_world s2"] by (auto simp: hub_read_def hub_call_def split: prod.splits)
  moreover have "b \<or> clock (tk_world s3) + 5 * second \<le> clock (tk_world s4)"
    using 4 clockedD(5) [OF assms, of "5 * second" "tk_world s3"] by (cases b) (auto simp: hub_read_def hub_call_def split: prod.splits)
  ultimately show ?thesis using 1 2 3 4 by (auto simp: intro!: exI [of _ s4])
qed

lemma settle_loop_ends:
  assumes "clocked hub clock"
  shows "deadline \<le> clock (tk_world s) + 5 * second * int fuel \<Longrightarrow> fst (run_state (settle_loop hub st deadline (Suc fuel)) s)"
proof (induction fuel arbitrary: s)
  case 0
  then show ?case using settle_step [OF assms, of st deadline 0 s] by auto
next
  case (Suc fuel)
  from settle_step [OF assms, of st deadline "Suc fuel" s] show ?case
  proof
    assume "\<exists>s'. clock (tk_world s) < deadline \<and> clock (tk_world s) + 5 * second \<le> clock (tk_world s')
        \<and> run_state (settle_loop hub st deadline (Suc (Suc fuel))) s = run_state (settle_loop hub st deadline (Suc fuel)) s'"
    then obtain s' where s': "clock (tk_world s) + 5 * second \<le> clock (tk_world s')"
      "run_state (settle_loop hub st deadline (Suc (Suc fuel))) s = run_state (settle_loop hub st deadline (Suc fuel)) s'" by blast
    have "deadline \<le> clock (tk_world s') + 5 * second * int fuel" using Suc.prems s'(1) by (simp add: algebra_simps)
    then show ?thesis unfolding s'(2) by (rule Suc.IH)
  qed
qed

text \<open>
  C36. Settling ends.  However slowly GitHub answers and whatever it answers, the loop that cancels
  the runs a push started ends by itself within the polls the wait allows, provided the clock is
  a clock: it is never turned back, and a five-second sleep that is not cut short takes five seconds.
\<close>

theorem settle_ends:
  assumes "clocked hub clock"
  shows "fst (run_state (settle hub a st) s)"
proof (cases "op_SettleWait (ap_options a) \<le> 0 \<or> length (st_Members st) < 2")
  case False
  define wait where "wait = op_SettleWait (ap_options a)"
  have w: "0 < wait" using False by (simp add: wait_def)
  obtain n s1 where 1: "run_state (hub_read (hb_Now hub)) s = (n, s1)" by fastforce
  have n: "n \<le> clock (tk_world s1)"
    using 1 clockedD(1,2) [OF assms, of "tk_world s"] by (auto simp: hub_read_def hub_call_def split: prod.splits)
  have "wait = 5 * second * (wait div (5 * second)) + wait mod (5 * second)" by simp
  moreover have "wait mod (5 * second) < 5 * second" by (rule pos_mod_bound) simp
  moreover have "int (nat (wait div (5 * second)) + 1) = wait div (5 * second) + 1"
    using w by (simp add: pos_imp_zdiv_nonneg_iff)
  ultimately have "wait \<le> 5 * second * int (nat (wait div (5 * second)) + 1)" by (simp add: distrib_left)
  then have "n + wait \<le> clock (tk_world s1) + 5 * second * int (nat (wait div (5 * second)) + 1)" using n by linarith
  from settle_loop_ends [OF assms this] show ?thesis
    using False 1 by (simp add: settle_def settle_fuel_def wait_def del: settle_loop.simps)
qed (simp add: settle_def)

theorem settle_ends_witness:
  "fst (run_state (settle (example_hub []) \<lparr>ap_options = example_options False, ap_config = example_config,
     ap_snapshot = example_snapshot [], ap_queued = []\<rparr> (example_stack\<lparr>st_Members := [\<lparr>me_Number = 1, me_SHA = []\<rparr>, \<lparr>me_Number = 2, me_SHA = []\<rparr>]\<rparr>)) example_start)"
  by (rule settle_ends [of "example_hub []" id]) (simp add: clocked_def example_hub_def)

end
