(* ===== verification/Pool_State.thy ===== *)
theory Pool_State
  imports Go_Text Provider_Seam Complex_Main "HOL-Library.Product_Lexorder"
begin

text \<open>
  A pool of shared hosts (\<^verbatim>\<open>pool/pool.go\<close>, \<^verbatim>\<open>pool/usage.go\<close>, \<^verbatim>\<open>pool/conditions.go\<close> and the state
  of \<^verbatim>\<open>pool/compute.go\<close>): its data, the meters of its hosts, the problems it remembers and every
  section of code that runs under its mutex, as a function of the clock and the pool.  Each such
  section reads the clock once.  Hours, prices and slot-seconds, which the program keeps in floating
  point, are rationals.
\<close>

text \<open>The conversion of a floating-point number, taken as a rational, to an integer.\<close>

definition trunc_rat :: "rat \<Rightarrow> int" where
  "trunc_rat x = (if x < 0 then - \<lfloor>- x\<rfloor> else \<lfloor>x\<rfloor>)"

section \<open>Sources, hosts, agents\<close>

definition BillingPerSecond :: string where "BillingPerSecond = ''per_second''"
definition BillingPerStartedHour :: string where "BillingPerStartedHour = ''per_started_hour''"
definition BillingOwned :: string where "BillingOwned = ''owned''"

record facts =
  fa_Billing :: string
  fa_HourlyPrice :: rat
  fa_Currency :: string
  fa_CanCreate :: bool

record host =
  ho_ID :: string
  ho_Address :: string
  ho_HostKey :: string
  ho_CreatedAt :: gotime
  ho_State :: string
  ho_StateSince :: gotime
  ho_Image :: string

definition HostStopped :: string where "HostStopped = ''stopped''"

record slot =
  sl_Index :: int
  sl_ControllerID :: string
  sl_LeaseID :: string
  sl_RunnerName :: string
  sl_RunnerID :: int
  sl_RunnerScaleSetID :: int
  sl_State :: string
  sl_CreatedAt :: gotime

record hostInfo =
  hi_Version :: string
  hi_Slots :: int
  hi_Image :: string
  hi_Ready :: bool
  hi_DiskFreeBytes :: nat

record startRequest =
  sq_Image :: string
  sq_ControllerID :: string
  sq_LeaseID :: string
  sq_RunnerName :: string
  sq_RunnerID :: int
  sq_RunnerScaleSetID :: int
  sq_JITConfig :: string
  sq_Deadline :: gotime
  sq_IdleTimeoutSeconds :: int

definition CodeInvalid :: string where "CodeInvalid = ''invalid''"
definition CodeSlotBusy :: string where "CodeSlotBusy = ''slot_busy''"
definition CodeLeaseMismatch :: string where "CodeLeaseMismatch = ''lease_mismatch''"
definition CodeNotReady :: string where "CodeNotReady = ''not_ready''"
definition CodeImageMismatch :: string where "CodeImageMismatch = ''image_mismatch''"
definition CodeDiskFull :: string where "CodeDiskFull = ''disk_full''"

fun as_agent :: "goerr \<Rightarrow> string option" where
  "as_agent (AgentError code msg) = Some code"
| "as_agent _ = None"

definition IsAgentRefusal :: "goerr option \<Rightarrow> string \<Rightarrow> bool" where
  "IsAgentRefusal err code =
     (case errors_As as_agent err of None \<Rightarrow> False | Some c \<Rightarrow> code = [] \<or> c = code)"

definition refusalCode :: "goerr option \<Rightarrow> string" where
  "refusalCode err = (case errors_As as_agent err of Some code \<Rightarrow> code | None \<Rightarrow> [])"

text \<open>The regular expression \<^verbatim>\<open>^[a-z][a-z0-9-]{0,30}$\<close>.\<close>

definition ValidName :: "string \<Rightarrow> bool" where
  "ValidName name \<longleftrightarrow>
     (case name of
        [] \<Rightarrow> False
      | c # cs \<Rightarrow> is_lower c \<and> list_all (\<lambda>c. is_lower c \<or> is_digit c \<or> c = CHR ''-'') cs \<and> length cs \<le> 30)"

section \<open>Small functions\<close>

definition remainingPaid :: "duration \<Rightarrow> duration" where
  "remainingPaid age = (if age < 0 then hour else hour - age mod hour)"

fun latest :: "gotime list \<Rightarrow> gotime \<Rightarrow> gotime" where
  "latest [] result = result"
| "latest (t # ts) result = latest ts (if t > result then t else result)"

definition earliest :: "gotime \<Rightarrow> gotime \<Rightarrow> gotime" where
  "earliest t limit = (if \<not> time_isZero t \<and> t < limit then t else limit)"

fun firstNonZero :: "gotime list \<Rightarrow> gotime" where
  "firstNonZero [] = zeroTime"
| "firstNonZero (t # ts) = (if \<not> time_isZero t then t else firstNonZero ts)"

fun firstNonEmpty :: "string list \<Rightarrow> string" where
  "firstNonEmpty [] = []"
| "firstNonEmpty (s # ss) = (if s \<noteq> [] then s else firstNonEmpty ss)"

definition WorkerID :: "string \<Rightarrow> int \<Rightarrow> string \<Rightarrow> string" where
  "WorkerID hostID slot leaseID = hostID @ ''/'' @ itoa slot @ ''/'' @ leaseID"

definition parseWorkerID :: "string \<Rightarrow> goerr + string \<times> int \<times> string" where
  "parseWorkerID i =
     (case split_on (CHR ''/'') [] i of
        [host, index, lease] \<Rightarrow>
          if host = [] \<or> lease = [] then Inl (ErrText ''invalid pool worker id'')
          else (case strconv_Atoi index of
                  None \<Rightarrow> Inl (ErrText ''invalid pool worker id'')
                | Some n \<Rightarrow> if n < 0 then Inl (ErrText ''invalid pool worker id'') else Inr (host, n, lease))
      | _ \<Rightarrow> Inl (ErrText ''invalid pool worker id''))"

definition slotWorker :: "string \<Rightarrow> int \<Rightarrow> slot \<Rightarrow> lease \<Rightarrow> worker" where
  "slotWorker hostID index s l =
     \<lparr>w_ID = WorkerID hostID index (firstNonEmpty [sl_LeaseID s, l_ID l]),
      w_LeaseID = firstNonEmpty [sl_LeaseID s, l_ID l],
      w_RunnerName = firstNonEmpty [sl_RunnerName s, l_RunnerName l],
      w_RunnerID = (if sl_RunnerID s = 0 then l_RunnerID l else sl_RunnerID s),
      w_RunnerScaleSetID = (if sl_RunnerScaleSetID s = 0 then l_RunnerScaleSetID l else sl_RunnerScaleSetID s),
      w_State = sl_State s, w_CreatedAt = sl_CreatedAt s\<rparr>"

definition zeroLease :: lease where
  "zeroLease = \<lparr>l_ID = [], l_RunnerName = [], l_RunnerID = 0, l_RunnerScaleSetID = 0, l_JITConfig = [],
     l_Deadline = zeroTime, l_IdleTimeout = 0\<rparr>"

definition zeroSlot :: slot where
  "zeroSlot = \<lparr>sl_Index = 0, sl_ControllerID = [], sl_LeaseID = [], sl_RunnerName = [], sl_RunnerID = 0,
     sl_RunnerScaleSetID = 0, sl_State = [], sl_CreatedAt = zeroTime\<rparr>"

definition zeroHost :: host where
  "zeroHost = \<lparr>ho_ID = [], ho_Address = [], ho_HostKey = [], ho_CreatedAt = zeroTime, ho_State = [],
     ho_StateSince = zeroTime, ho_Image = []\<rparr>"

definition zeroInfo :: hostInfo where
  "zeroInfo = \<lparr>hi_Version = [], hi_Slots = 0, hi_Image = [], hi_Ready = False, hi_DiskFreeBytes = 0\<rparr>"

section \<open>Configuration\<close>

text \<open>
  \<open>pc_Related\<close> is \<^verbatim>\<open>Follow.Related\<close>, absent when no tag is followed; \<open>pc_stopper\<close> says whether the
  source can stop hosts.
\<close>

record poolConfig =
  pc_Name :: string
  pc_ControllerID :: string
  pc_Image :: string
  pc_MinHosts :: int
  pc_MaxHosts :: int
  pc_facts :: facts
  pc_stopper :: bool
  pc_Related :: "(string \<Rightarrow> bool) option"
  pc_ImageRefresh :: duration
  pc_MaxLifetime :: duration
  pc_Tick :: duration
  pc_HostListInterval :: duration
  pc_BootTimeout :: duration
  pc_UnreachableGrace :: duration
  pc_IdleReturn :: duration
  pc_HourMargin :: duration
  pc_CallTimeout :: duration
  pc_StartTimeout :: duration
  pc_IdleStop :: duration
  pc_KeepStopped :: int
  pc_DeleteStoppedAfter :: duration
  pc_Speculative :: bool

definition hostRefusalBackoff :: duration where "hostRefusalBackoff = minute"
definition initialCreateBackoff :: duration where "initialCreateBackoff = minute"
definition maximumCreateBackoff :: duration where "maximumCreateBackoff = 15 * minute"
definition maxStartAttempts :: nat where "maxStartAttempts = 3"
definition maxStartFailures :: int where "maxStartFailures = 2"
definition lateStartWait :: duration where "lateStartWait = 30 * second"
definition lateStartPoll :: duration where "lateStartPoll = 2 * second"
definition CapacityReasonFull :: string where "CapacityReasonFull = ''pool_full''"
definition imageRetry :: duration where "imageRetry = minute"
definition replaceInterval :: duration where "replaceInterval = 5 * minute"

definition default_to :: "duration \<Rightarrow> duration \<Rightarrow> duration" where
  "default_to v fallback = (if v \<le> 0 then fallback else v)"

definition pool_defaults :: "poolConfig \<Rightarrow> poolConfig" where
  "pool_defaults c =
     (let c' = c\<lparr>pc_Tick := default_to (pc_Tick c) (10 * second),
                 pc_HostListInterval := default_to (pc_HostListInterval c) (30 * second),
                 pc_BootTimeout := default_to (pc_BootTimeout c) (10 * minute),
                 pc_UnreachableGrace := default_to (pc_UnreachableGrace c) (2 * minute),
                 pc_IdleReturn := default_to (pc_IdleReturn c) (2 * minute),
                 pc_HourMargin := default_to (pc_HourMargin c) (2 * minute),
                 pc_CallTimeout := default_to (pc_CallTimeout c) (20 * second),
                 pc_StartTimeout := default_to (pc_StartTimeout c) (90 * second),
                 pc_DeleteStoppedAfter := default_to (pc_DeleteStoppedAfter c) (6 * hour),
                 pc_ImageRefresh := default_to (pc_ImageRefresh c) (5 * minute)\<rparr>
      in c'\<lparr>pc_IdleStop := default_to (pc_IdleStop c') (pc_IdleReturn c')\<rparr>)"

text \<open>
  The checks of \<^verbatim>\<open>New\<close>, in its order.  That the source and the agent are there is the \<open>env\<close> of
  the operations; \<open>pc_stopper\<close> is what the type assertion found, so it implies a creating source.
\<close>

definition pool_configure :: "poolConfig \<Rightarrow> goerr + poolConfig" where
  "pool_configure c =
     (let facts = pc_facts c; d = pool_defaults c
      in if \<not> ValidName (pc_Name c) then Inl (ErrText ''pool name must be lowercase letters, digits, and hyphens'')
         else if pc_ControllerID c = [] \<or> pc_Image c = []
           then Inl (ErrText ''pool requires a controller ID, a runner image, a host source, and a host agent'')
         else if fa_Billing facts \<notin> {BillingPerSecond, BillingPerStartedHour, BillingOwned}
           then Inl (ErrText ''pool source has unknown billing'')
         else if fa_CanCreate facts \<and> (pc_MinHosts c < 0 \<or> pc_MaxHosts c < 1 \<or> pc_MinHosts c > pc_MaxHosts c)
           then Inl (ErrText ''pool host bounds must satisfy 0 <= min_hosts <= max_hosts and max_hosts >= 1'')
         else if \<not> fa_CanCreate facts \<and> (pc_MinHosts c \<noteq> 0 \<or> pc_MaxHosts c \<noteq> 0)
           then Inl (ErrText ''pool source cannot create hosts, so min_hosts and max_hosts do not apply'')
         else if pc_Related c \<noteq> None \<and> \<not> fa_CanCreate facts
           then Inl (ErrText ''pool source cannot create hosts, so it cannot follow an image tag'')
         else if pc_MaxLifetime c < minute then Inl (ErrText ''pool requires the worker maximum lifetime'')
         else if fa_Billing facts = BillingPerStartedHour \<and> pc_HourMargin d \<le> pc_Tick d
           then Inl (ErrText ''pool must check its hosts more often than its paid-hour margin'')
         else if \<not> (fa_CanCreate facts \<and> pc_stopper c) \<and> pc_KeepStopped c \<noteq> 0
           then Inl (ErrText ''pool source cannot stop hosts, so keep_stopped does not apply'')
         else if pc_KeepStopped c < 0 \<or> pc_KeepStopped c > pc_MaxHosts c
           then Inl (ErrText ''pool must keep between 0 and max_hosts stopped hosts'')
         else Inr (d\<lparr>pc_stopper := fa_CanCreate facts \<and> pc_stopper c\<rparr>))"

section \<open>State\<close>

datatype phase =
    PhaseCreating | PhaseBooting | PhaseReady | PhaseDraining | PhaseDeleting | PhaseStopping | PhaseStopped | PhaseStarting

record usage =
  us_running :: duration
  us_ready :: duration
  us_busy :: rat
  us_readyBusy :: rat
  us_slot :: rat
  us_readySlot :: rat

record meter =
  mt_at :: gotime
  mt_running :: bool
  mt_ready :: bool
  mt_busy :: int
  mt_used :: usage

record hostHealth =
  hh_drainedAt :: gotime
  hh_slotFailures :: int
  hh_slotFailingSince :: gotime
  hh_slotFailure :: string
  hh_foreignSince :: gotime

record hostState =
  hs_host :: host
  hs_phase :: phase
  hs_info :: hostInfo
  hs_slots :: "(int \<times> slot) list"
  hs_reserved :: "(int \<times> string) list"
  hs_firstSeen :: gotime
  hs_lastContact :: gotime
  hs_lastListed :: gotime
  hs_everReady :: bool
  hs_ownBoot :: bool
  hs_emptySince :: gotime
  hs_notBefore :: gotime
  hs_drainReason :: string
  hs_warnedAt :: gotime
  hs_bootSince :: gotime
  hs_runningSince :: gotime
  hs_billed :: rat
  hs_stoppedSince :: gotime
  hs_startedByPool :: bool
  hs_startFailures :: int
  hs_changedAt :: gotime
  hs_createdImage :: string
  hs_meter :: meter
  hs_billedBefore :: rat
  hs_health :: hostHealth

record launchBucket =
  lb_start :: gotime
  lb_launched :: int
  lb_overflowed :: int

record poolHealth =
  ph_sourceFailingSince :: gotime
  ph_imageFailingSince :: gotime
  ph_launchFailures :: int
  ph_launchFailingSince :: gotime
  ph_launchFailure :: string
  ph_bootFailingSince :: gotime
  ph_bootFailedAt :: gotime
  ph_bootFailure :: string
  ph_window :: "launchBucket list"
  ph_overflowingSince :: gotime
  ph_lastFull :: gotime

text \<open>
  \<open>po_wake\<close> and \<open>po_room\<close> are the one-token channels that wake the maintenance loop and tell the
  controller that a host is ready; \<open>po_roomReady\<close> says whether anyone asked for the latter.
\<close>

record pool =
  po_hosts :: "hostState gomap"
  po_hostsListedAt :: gotime
  po_hostsKnown :: bool
  po_demand :: int
  po_createSeq :: int
  po_createNotBefore :: gotime
  po_createBackoff :: duration
  po_launched :: nat
  po_overflowed :: nat
  po_speculated :: nat
  po_returnedHosts :: int
  po_returnedHours :: rat
  po_hostStarts :: int
  po_hostStops :: int
  po_wake :: bool
  po_roomReady :: bool
  po_room :: bool
  po_image :: string
  po_imageResolved :: bool
  po_imageCheckAt :: gotime
  po_imageCheckedAt :: gotime
  po_imageError :: "goerr option"
  po_replaceNotBefore :: gotime
  po_imageFailed :: bool
  po_imageReplaced :: int
  po_measuredSince :: gotime
  po_retired :: usage
  po_retiredBefore :: rat
  po_slotsSeen :: int
  po_health :: poolHealth

definition zeroUsage :: usage where
  "zeroUsage = \<lparr>us_running = 0, us_ready = 0, us_busy = 0, us_readyBusy = 0, us_slot = 0, us_readySlot = 0\<rparr>"

definition zeroMeter :: meter where
  "zeroMeter = \<lparr>mt_at = zeroTime, mt_running = False, mt_ready = False, mt_busy = 0, mt_used = zeroUsage\<rparr>"

definition zeroHostHealth :: hostHealth where
  "zeroHostHealth = \<lparr>hh_drainedAt = zeroTime, hh_slotFailures = 0, hh_slotFailingSince = zeroTime, hh_slotFailure = [],
     hh_foreignSince = zeroTime\<rparr>"

text \<open>A composite literal of \<^verbatim>\<open>hostState\<close> that sets the host, the phase and \<^verbatim>\<open>firstSeen\<close>.\<close>

definition new_host :: "host \<Rightarrow> phase \<Rightarrow> gotime \<Rightarrow> hostState" where
  "new_host h ph now =
     \<lparr>hs_host = h, hs_phase = ph, hs_info = zeroInfo, hs_slots = [], hs_reserved = [], hs_firstSeen = now,
      hs_lastContact = zeroTime, hs_lastListed = zeroTime, hs_everReady = False, hs_ownBoot = False,
      hs_emptySince = zeroTime, hs_notBefore = zeroTime, hs_drainReason = [], hs_warnedAt = zeroTime,
      hs_bootSince = zeroTime, hs_runningSince = zeroTime, hs_billed = 0, hs_stoppedSince = zeroTime,
      hs_startedByPool = False, hs_startFailures = 0, hs_changedAt = zeroTime, hs_createdImage = [],
      hs_meter = zeroMeter, hs_billedBefore = 0, hs_health = zeroHostHealth\<rparr>"

definition zeroPoolHealth :: poolHealth where
  "zeroPoolHealth = \<lparr>ph_sourceFailingSince = zeroTime, ph_imageFailingSince = zeroTime, ph_launchFailures = 0,
     ph_launchFailingSince = zeroTime, ph_launchFailure = [], ph_bootFailingSince = zeroTime, ph_bootFailedAt = zeroTime,
     ph_bootFailure = [], ph_window = [], ph_overflowingSince = zeroTime, ph_lastFull = zeroTime\<rparr>"

definition new_pool :: "poolConfig \<Rightarrow> gotime \<Rightarrow> pool" where
  "new_pool cfg now =
     \<lparr>po_hosts = [], po_hostsListedAt = zeroTime, po_hostsKnown = False, po_demand = 0, po_createSeq = 0,
      po_createNotBefore = zeroTime, po_createBackoff = 0, po_launched = 0, po_overflowed = 0, po_speculated = 0,
      po_returnedHosts = 0, po_returnedHours = 0, po_hostStarts = 0, po_hostStops = 0, po_wake = False,
      po_roomReady = False, po_room = False, po_image = pc_Image cfg, po_imageResolved = False,
      po_imageCheckAt = zeroTime, po_imageCheckedAt = zeroTime, po_imageError = None, po_replaceNotBefore = zeroTime,
      po_imageFailed = False, po_imageReplaced = 0, po_measuredSince = now, po_retired = zeroUsage,
      po_retiredBefore = 0, po_slotsSeen = 0, po_health = zeroPoolHealth\<rparr>"

text \<open>
  Writing through the pointer \<^verbatim>\<open>p.hosts[id]\<close>: nothing happens when there is no such host.
\<close>

definition on_host :: "string \<Rightarrow> (hostState \<Rightarrow> hostState) \<Rightarrow> pool \<Rightarrow> pool" where
  "on_host i f p = (case map_of (po_hosts p) i of None \<Rightarrow> p | Some h \<Rightarrow> p\<lparr>po_hosts := AList.update i (f h) (po_hosts p)\<rparr>)"

definition on_health :: "(poolHealth \<Rightarrow> poolHealth) \<Rightarrow> pool \<Rightarrow> pool" where
  "on_health f p = p\<lparr>po_health := f (po_health p)\<rparr>"

definition sortedIDs :: "pool \<Rightarrow> string list" where
  "sortedIDs p = sort (map fst (po_hosts p))"

section \<open>Slots of a host\<close>

definition occupied :: "hostState \<Rightarrow> int" where
  "occupied h = int (length (hs_slots h))"

definition busy_slots :: "hostState \<Rightarrow> int" where
  "busy_slots h = occupied h + int (length (hs_reserved h))"

definition slot_free :: "hostState \<Rightarrow> int \<Rightarrow> bool" where
  "slot_free h i \<longleftrightarrow> map_of (hs_slots h) i = None \<and> map_of (hs_reserved h) i = None"

definition slot_range :: "hostState \<Rightarrow> int list" where
  "slot_range h = [0..hi_Slots (hs_info h) - 1]"

definition freeSlot :: "hostState \<Rightarrow> int option" where
  "freeSlot h = (case filter (slot_free h) (slot_range h) of [] \<Rightarrow> None | i # is \<Rightarrow> Some i)"

definition freeCount :: "hostState \<Rightarrow> int" where
  "freeCount h = int (length (filter (slot_free h) (slot_range h)))"

definition host_running :: "hostState \<Rightarrow> bool" where
  "host_running h \<longleftrightarrow> hs_phase h \<notin> {PhaseCreating, PhaseStopped, PhaseStarting, PhaseStopping}"

end
