(* ===== verification/Pool_Sections.thy ===== *)
theory Pool_Sections
  imports Pool_State
begin

text \<open>
  What the pool does under its mutex: metering, the problems it remembers, taking and freeing slots,
  following hosts the source lists, choosing hosts to return, start and create.
\<close>

section \<open>Billing and meters\<close>

definition seconds :: "duration \<Rightarrow> rat" where
  "seconds d = of_int d / of_int second"

definition hours :: "duration \<Rightarrow> rat" where
  "hours d = of_int d / of_int hour"

definition billedHours :: "poolConfig \<Rightarrow> gotime \<Rightarrow> gotime \<Rightarrow> rat" where
  "billedHours cfg createdAt now =
     (if time_isZero createdAt \<or> \<not> now > createdAt then 0
      else (let age = time_sub now createdAt
            in if fa_Billing (pc_facts cfg) = BillingPerStartedHour then of_int \<lceil>hours age\<rceil>
               else if fa_Billing (pc_facts cfg) = BillingPerSecond then hours age
               else 0))"

definition hostBilled :: "poolConfig \<Rightarrow> hostState \<Rightarrow> gotime \<Rightarrow> rat" where
  "hostBilled cfg h now =
     hs_billed h + (if time_isZero (hs_runningSince h) then 0 else billedHours cfg (hs_runningSince h) now)"

definition usage_add :: "usage \<Rightarrow> usage \<Rightarrow> usage" where
  "usage_add u v =
     \<lparr>us_running = us_running u + us_running v, us_ready = us_ready u + us_ready v,
      us_busy = us_busy u + us_busy v, us_readyBusy = us_readyBusy u + us_readyBusy v,
      us_slot = us_slot u + us_slot v, us_readySlot = us_readySlot u + us_readySlot v\<rparr>"

definition slotsOf :: "pool \<Rightarrow> hostState \<Rightarrow> int" where
  "slotsOf p h = (if hi_Slots (hs_info h) > 0 then hi_Slots (hs_info h) else po_slotsSeen p)"

definition meter_elapsed :: "duration \<Rightarrow> meter \<Rightarrow> usage" where
  "meter_elapsed elapsed m =
     (let u = mt_used m;
          u1 = (if mt_running m then u\<lparr>us_running := us_running u + elapsed,
                                       us_busy := us_busy u + of_int (mt_busy m) * seconds elapsed\<rparr> else u)
      in if mt_ready m then u1\<lparr>us_ready := us_ready u1 + elapsed,
                               us_readyBusy := us_readyBusy u1 + of_int (mt_busy m) * seconds elapsed\<rparr> else u1)"

definition accrue_host :: "pool \<Rightarrow> gotime \<Rightarrow> hostState \<Rightarrow> hostState" where
  "accrue_host p now h =
     (let m = hs_meter h;
          elapsed = time_sub now (mt_at m);
          used = (if \<not> time_isZero (mt_at m) \<and> elapsed > 0 then meter_elapsed elapsed m else mt_used m);
          running = \<not> time_isZero (hs_runningSince h);
          busy = (if \<not> running then 0
                  else if slotsOf p h > 0 then min (busy_slots h) (slotsOf p h) else busy_slots h)
      in h\<lparr>hs_meter := \<lparr>mt_at = (if now > mt_at m then now else mt_at m), mt_running = running,
            mt_ready = running \<and> hs_phase h = PhaseReady, mt_busy = busy, mt_used = used\<rparr>\<rparr>)"

definition accrue :: "gotime \<Rightarrow> pool \<Rightarrow> pool" where
  "accrue now p = p\<lparr>po_hosts := map (\<lambda>(i, h). (i, accrue_host p now h)) (po_hosts p)\<rparr>"

definition usageOf :: "pool \<Rightarrow> hostState \<Rightarrow> usage" where
  "usageOf p h =
     (let used = mt_used (hs_meter h); slots = of_int (slotsOf p h)
      in used\<lparr>us_slot := slots * seconds (us_running used), us_readySlot := slots * seconds (us_ready used)\<rparr>)"

definition forget :: "string \<Rightarrow> gotime \<Rightarrow> pool \<Rightarrow> pool" where
  "forget i now p =
     (case map_of (po_hosts p) i of
        None \<Rightarrow> p
      | Some _ \<Rightarrow>
          (let p' = accrue now p
           in case map_of (po_hosts p') i of
                None \<Rightarrow> p'
              | Some h \<Rightarrow> p'\<lparr>po_retired := usage_add (po_retired p') (usageOf p' h), po_hosts := AList.delete i (po_hosts p')\<rparr>))"

section \<open>The problems a pool remembers\<close>

definition sourceUnavailableAfter :: duration where "sourceUnavailableAfter = 5 * minute"
definition imageUnresolvedAfter :: duration where "imageUnresolvedAfter = 15 * minute"
definition launchFailuresReported :: int where "launchFailuresReported = 3"
definition slotFailuresReported :: int where "slotFailuresReported = 3"
definition foreignSlotAfter :: duration where "foreignSlotAfter = 5 * minute"
definition overflowWindow :: duration where "overflowWindow = hour"
definition overflowBucket :: duration where "overflowBucket = 5 * minute"
definition overflowReported :: int where "overflowReported = 20"
definition bootFailureQuiet :: duration where "bootFailureQuiet = 30 * minute"

definition launchFailed :: "gotime \<Rightarrow> string \<Rightarrow> poolHealth \<Rightarrow> poolHealth" where
  "launchFailed now reason s =
     s\<lparr>ph_launchFailingSince := (if ph_launchFailures s = 0 then now else ph_launchFailingSince s),
       ph_launchFailures := ph_launchFailures s + 1, ph_launchFailure := reason\<rparr>"

definition launchSucceeded :: "poolHealth \<Rightarrow> poolHealth" where
  "launchSucceeded s = s\<lparr>ph_launchFailures := 0, ph_launchFailingSince := zeroTime, ph_launchFailure := []\<rparr>"

definition bootFailed :: "gotime \<Rightarrow> string \<Rightarrow> poolHealth \<Rightarrow> poolHealth" where
  "bootFailed now failure s =
     s\<lparr>ph_bootFailingSince := (if time_isZero (ph_bootFailingSince s) then now else ph_bootFailingSince s),
       ph_bootFailedAt := now, ph_bootFailure := failure\<rparr>"

definition bootRecovered :: "poolHealth \<Rightarrow> poolHealth" where
  "bootRecovered s = s\<lparr>ph_bootFailingSince := zeroTime, ph_bootFailedAt := zeroTime, ph_bootFailure := []\<rparr>"

definition slotFailed :: "gotime \<Rightarrow> string \<Rightarrow> hostHealth \<Rightarrow> hostHealth" where
  "slotFailed now reason s =
     s\<lparr>hh_slotFailingSince := (if hh_slotFailures s = 0 then now else hh_slotFailingSince s),
       hh_slotFailures := hh_slotFailures s + 1, hh_slotFailure := reason\<rparr>"

definition on_hostHealth :: "(hostHealth \<Rightarrow> hostHealth) \<Rightarrow> hostState \<Rightarrow> hostState" where
  "on_hostHealth f h = h\<lparr>hs_health := f (hs_health h)\<rparr>"

definition foreign :: "poolConfig \<Rightarrow> hostState \<Rightarrow> bool" where
  "foreign cfg h \<longleftrightarrow> list_ex (\<lambda>(i, s). sl_ControllerID s \<noteq> pc_ControllerID cfg) (hs_slots h)"

definition trackForeign :: "poolConfig \<Rightarrow> gotime \<Rightarrow> hostState \<Rightarrow> hostState" where
  "trackForeign cfg now h =
     (if \<not> foreign cfg h then on_hostHealth (\<lambda>s. s\<lparr>hh_foreignSince := zeroTime\<rparr>) h
      else if time_isZero (hh_foreignSince (hs_health h)) then on_hostHealth (\<lambda>s. s\<lparr>hh_foreignSince := now\<rparr>) h
      else h)"

definition health_count :: "gotime \<Rightarrow> bool \<Rightarrow> poolHealth \<Rightarrow> poolHealth" where
  "health_count now full s =
     (let start = time_Truncate now overflowBucket;
          w = (if ph_window s = [] \<or> lb_start (last (ph_window s)) \<noteq> start
               then filter (\<lambda>b. time_sub now (lb_start b) < overflowWindow) (ph_window s)
                    @ [\<lparr>lb_start = start, lb_launched = 0, lb_overflowed = 0\<rparr>]
               else ph_window s);
          b = last w
      in if full
         then s\<lparr>ph_window := butlast w @ [b\<lparr>lb_overflowed := lb_overflowed b + 1\<rparr>], ph_lastFull := now\<rparr>
         else s\<lparr>ph_window := butlast w @ [b\<lparr>lb_launched := lb_launched b + 1\<rparr>]\<rparr>)"

definition health_recent :: "gotime \<Rightarrow> poolHealth \<Rightarrow> int \<times> int" where
  "health_recent now s =
     (let bs = filter (\<lambda>b. time_sub now (lb_start b) < overflowWindow) (ph_window s)
      in (sum_list (map lb_launched bs), sum_list (map lb_overflowed bs)))"

definition launchFailureReason :: "goerr option \<Rightarrow> string" where
  "launchFailureReason err = (if IsCapacity err then CapacityReason err else ''provider_error'')"

section \<open>Images\<close>

definition related :: "poolConfig \<Rightarrow> string \<Rightarrow> bool" where
  "related cfg img = (case pc_Related cfg of None \<Rightarrow> False | Some f \<Rightarrow> f img)"

definition accepts :: "poolConfig \<Rightarrow> pool \<Rightarrow> string \<Rightarrow> bool" where
  "accepts cfg p img \<longleftrightarrow> img = po_image p \<or> img = pc_Image cfg \<or> related cfg img"

definition stale :: "poolConfig \<Rightarrow> pool \<Rightarrow> string \<Rightarrow> bool" where
  "stale cfg p img \<longleftrightarrow> pc_Related cfg \<noteq> None \<and> po_imageResolved p \<and> img \<noteq> po_image p"

text \<open>The section of \<^verbatim>\<open>followTag\<close> after the resolution.\<close>

definition tag_resolved :: "poolConfig \<Rightarrow> goerr + string \<Rightarrow> gotime \<Rightarrow> pool \<Rightarrow> pool" where
  "tag_resolved cfg resolved now p =
     (let checked = (case resolved of
            Inl err \<Rightarrow> Inl err
          | Inr img \<Rightarrow> if img = pc_Image cfg \<or> \<not> related cfg img
                         then Inl (ErrText ''resolved an image that is not a digest of the tag'') else Inr img)
      in case checked of
           Inl err \<Rightarrow>
             on_health (\<lambda>s. s\<lparr>ph_imageFailingSince := (if time_isZero (ph_imageFailingSince s) then now else ph_imageFailingSince s)\<rparr>)
               (p\<lparr>po_imageCheckAt := now + imageRetry, po_imageError := Some err\<rparr>)
         | Inr img \<Rightarrow>
             (let p' = on_health (\<lambda>s. s\<lparr>ph_imageFailingSince := zeroTime\<rparr>)
                         (p\<lparr>po_imageCheckAt := now + pc_ImageRefresh cfg, po_imageCheckedAt := now, po_imageError := None\<rparr>)
              in if img = po_image p then p'
                 else p'\<lparr>po_image := img, po_imageResolved := True, po_imageFailed := False\<rparr>))"

section \<open>Taking and freeing slots\<close>

definition takesLeases :: "poolConfig \<Rightarrow> gotime \<Rightarrow> hostState \<Rightarrow> bool" where
  "takesLeases cfg now h \<longleftrightarrow>
     hs_phase h = PhaseReady \<and> \<not> now < hs_notBefore h \<and> \<not> time_isZero (hs_lastContact h)
     \<and> time_sub now (hs_lastContact h) \<le> pc_UnreachableGrace cfg"

definition freeSlots :: "poolConfig \<Rightarrow> gotime \<Rightarrow> pool \<Rightarrow> int" where
  "freeSlots cfg now p = sum_list (map (\<lambda>(i, h). if takesLeases cfg now h then freeCount h else 0) (po_hosts p))"

text \<open>The choice of \<^verbatim>\<open>reserve\<close>: the loop over the hosts in the order of their ids.\<close>

definition better_host :: "poolConfig \<Rightarrow> pool \<Rightarrow> hostState \<Rightarrow> hostState \<Rightarrow> bool" where
  "better_host cfg p h best \<longleftrightarrow>
     (let st = stale cfg p (hi_Image (hs_info h)); bestStale = stale cfg p (hi_Image (hs_info best))
      in (bestStale \<and> \<not> st)
       \<or> (st = bestStale \<and> (freeCount h < freeCount best
            \<or> (freeCount h = freeCount best \<and> ho_CreatedAt (hs_host h) < ho_CreatedAt (hs_host best)))))"

fun reserve_loop :: "poolConfig \<Rightarrow> gotime \<Rightarrow> pool \<Rightarrow> string list \<Rightarrow> (string \<times> hostState) option \<Rightarrow> (string \<times> hostState) option" where
  "reserve_loop cfg now p [] best = best"
| "reserve_loop cfg now p (i # is) best =
     reserve_loop cfg now p is
       (case map_of (po_hosts p) i of
          None \<Rightarrow> best
        | Some h \<Rightarrow>
            if \<not> takesLeases cfg now h \<or> freeCount h = 0 then best
            else (case best of
                    None \<Rightarrow> Some (i, h)
                  | Some (j, b) \<Rightarrow> if better_host cfg p h b then Some (i, h) else best))"

definition reserve :: "poolConfig \<Rightarrow> string \<Rightarrow> gotime \<Rightarrow> pool \<Rightarrow> (host \<times> int \<times> string) option \<times> pool" where
  "reserve cfg leaseID now p =
     (case reserve_loop cfg now p (sortedIDs p) None of
        None \<Rightarrow> (None, p)
      | Some (i, h) \<Rightarrow>
          (let slot = (case freeSlot h of Some n \<Rightarrow> n | None \<Rightarrow> 0)
           in (Some (hs_host h, slot, hi_Image (hs_info h)),
               accrue now (on_host i (\<lambda>h. h\<lparr>hs_reserved := AList.update slot leaseID (hs_reserved h), hs_emptySince := zeroTime\<rparr>) p))))"

definition release :: "string \<Rightarrow> int \<Rightarrow> gotime \<Rightarrow> pool \<Rightarrow> pool" where
  "release hostID slot now p =
     accrue now (on_host hostID (\<lambda>h. h\<lparr>hs_reserved := AList.delete slot (hs_reserved h)\<rparr>) p)"

definition started_slot :: "poolConfig \<Rightarrow> int \<Rightarrow> slot \<Rightarrow> lease \<Rightarrow> gotime \<Rightarrow> slot" where
  "started_slot cfg n s l now =
     s\<lparr>sl_Index := n, sl_ControllerID := pc_ControllerID cfg, sl_LeaseID := l_ID l, sl_RunnerName := l_RunnerName l,
       sl_RunnerID := (if sl_RunnerID s = 0 then l_RunnerID l else sl_RunnerID s),
       sl_RunnerScaleSetID := (if sl_RunnerScaleSetID s = 0 then l_RunnerScaleSetID l else sl_RunnerScaleSetID s),
       sl_State := (if sl_State s = [] then ''started'' else sl_State s),
       sl_CreatedAt := (if time_isZero (sl_CreatedAt s) then now else sl_CreatedAt s)\<rparr>"

definition commit :: "poolConfig \<Rightarrow> string \<Rightarrow> int \<Rightarrow> slot \<Rightarrow> lease \<Rightarrow> gotime \<Rightarrow> pool \<Rightarrow> worker \<times> pool" where
  "commit cfg hostID n s l now p =
     (let s' = started_slot cfg n s l now;
          p1 = on_host hostID (\<lambda>h. on_hostHealth (\<lambda>e. e\<lparr>hh_slotFailures := 0\<rparr>)
                 (h\<lparr>hs_reserved := AList.delete n (hs_reserved h), hs_slots := AList.update n s' (hs_slots h),
                    hs_lastContact := now, hs_emptySince := zeroTime\<rparr>)) p
      in (slotWorker hostID n s' l,
          on_health (health_count now False) (accrue now (p1\<lparr>po_launched := po_launched p1 + 1\<rparr>))))"

definition suspect_slot :: "poolConfig \<Rightarrow> int \<Rightarrow> lease \<Rightarrow> gotime \<Rightarrow> slot" where
  "suspect_slot cfg n l now =
     \<lparr>sl_Index = n, sl_ControllerID = pc_ControllerID cfg, sl_LeaseID = l_ID l, sl_RunnerName = l_RunnerName l,
      sl_RunnerID = l_RunnerID l, sl_RunnerScaleSetID = l_RunnerScaleSetID l, sl_State = ''starting'', sl_CreatedAt = now\<rparr>"

definition holdSuspect :: "poolConfig \<Rightarrow> string \<Rightarrow> int \<Rightarrow> lease \<Rightarrow> string \<Rightarrow> gotime \<Rightarrow> pool \<Rightarrow> pool" where
  "holdSuspect cfg hostID n l reason now p =
     accrue now (on_host hostID (\<lambda>h. (on_hostHealth (slotFailed now reason) h)
        \<lparr>hs_reserved := AList.delete n (hs_reserved h), hs_slots := AList.update n (suspect_slot cfg n l now) (hs_slots h),
          hs_notBefore := now + hostRefusalBackoff\<rparr>) p)"

definition markForeign :: "poolConfig \<Rightarrow> string \<Rightarrow> int \<Rightarrow> gotime \<Rightarrow> pool \<Rightarrow> pool" where
  "markForeign cfg hostID n now p =
     accrue now (on_host hostID (\<lambda>h. trackForeign cfg now
        (if map_of (hs_slots h) n = None
         then h\<lparr>hs_slots := AList.update n (zeroSlot\<lparr>sl_Index := n, sl_State := ''unknown''\<rparr>) (hs_slots h)\<rparr> else h)) p)"

definition refuseHost :: "string \<Rightarrow> string \<Rightarrow> gotime \<Rightarrow> pool \<Rightarrow> pool" where
  "refuseHost hostID reason now p =
     accrue now (on_host hostID (\<lambda>h0.
        (let h = h0\<lparr>hs_notBefore := now + hostRefusalBackoff\<rparr>
         in if reason = CodeImageMismatch \<and> hs_phase h = PhaseReady
            then on_hostHealth (\<lambda>e. e\<lparr>hh_drainedAt := now\<rparr>) (h\<lparr>hs_phase := PhaseDraining, hs_drainReason := ''image_mismatch''\<rparr>)
            else if reason \<noteq> CodeImageMismatch then on_hostHealth (slotFailed now reason) h
            else h)) p)"

definition cleared :: "string \<Rightarrow> int \<Rightarrow> string \<Rightarrow> gotime \<Rightarrow> pool \<Rightarrow> pool" where
  "cleared hostID n leaseID now p =
     (case map_of (po_hosts p) hostID of
        None \<Rightarrow> p
      | Some _ \<Rightarrow>
          accrue now (on_host hostID (\<lambda>h.
            (let h1 = (case map_of (hs_slots h) n of
                   Some current \<Rightarrow> if sl_LeaseID current = leaseID \<or> sl_LeaseID current = []
                                   then h\<lparr>hs_slots := AList.delete n (hs_slots h)\<rparr> else h
                 | None \<Rightarrow> h)
             in if hs_slots h1 = [] \<and> hs_reserved h1 = [] \<and> time_isZero (hs_emptySince h1) then h1\<lparr>hs_emptySince := now\<rparr> else h1)) p))"

section \<open>Starting and creating hosts\<close>

definition unusable :: "poolConfig \<Rightarrow> pool \<Rightarrow> hostState \<Rightarrow> string" where
  "unusable cfg p h =
     (if hs_drainReason h \<noteq> [] then hs_drainReason h
      else if ho_Image (hs_host h) \<noteq> [] \<and> \<not> accepts cfg p (ho_Image (hs_host h)) then ''image_mismatch''
      else if ho_Image (hs_host h) \<noteq> [] \<and> stale cfg p (ho_Image (hs_host h)) then ''image_stale''
      else if hs_startFailures h \<ge> maxStartFailures then ''start_failed''
      else [])"

fun startable_loop :: "poolConfig \<Rightarrow> gotime \<Rightarrow> pool \<Rightarrow> string list \<Rightarrow> (string \<times> hostState) option \<Rightarrow> (string \<times> hostState) option" where
  "startable_loop cfg now p [] best = best"
| "startable_loop cfg now p (i # is) best =
     startable_loop cfg now p is
       (case map_of (po_hosts p) i of
          None \<Rightarrow> best
        | Some h \<Rightarrow>
            if hs_phase h \<noteq> PhaseStopped \<or> now < hs_notBefore h \<or> unusable cfg p h \<noteq> [] then best
            else (case best of
                    None \<Rightarrow> Some (i, h)
                  | Some (j, b) \<Rightarrow> if hs_stoppedSince h > hs_stoppedSince b then Some (i, h) else best))"

definition startable :: "poolConfig \<Rightarrow> gotime \<Rightarrow> pool \<Rightarrow> (string \<times> hostState) option" where
  "startable cfg now p = (if \<not> pc_stopper cfg then None else startable_loop cfg now p (sortedIDs p) None)"

definition hostOnItsWay :: "pool \<Rightarrow> bool" where
  "hostOnItsWay p \<longleftrightarrow> list_ex (\<lambda>(i, h). hs_phase h \<in> {PhaseCreating, PhaseStarting, PhaseBooting}) (po_hosts p)"

definition host_count :: "pool \<Rightarrow> int" where
  "host_count p = int (length (po_hosts p))"

definition roomComing :: "poolConfig \<Rightarrow> gotime \<Rightarrow> pool \<Rightarrow> bool" where
  "roomComing cfg now p \<longleftrightarrow>
     hostOnItsWay p \<or> startable cfg now p \<noteq> None
     \<or> (fa_CanCreate (pc_facts cfg) \<and> host_count p < pc_MaxHosts cfg \<and> \<not> now < po_createNotBefore p)"

text \<open>\<^verbatim>\<open>noteFull\<close> with the signal to the maintenance loop that follows it.\<close>

definition noteFull :: "poolConfig \<Rightarrow> gotime \<Rightarrow> pool \<Rightarrow> duration \<times> pool" where
  "noteFull cfg now p =
     (let p' = on_health (health_count now True) (p\<lparr>po_demand := po_demand p + 1, po_overflowed := po_overflowed p + 1\<rparr>)
      in (if roomComing cfg now p' then pc_Tick cfg else 0, p'\<lparr>po_wake := True\<rparr>))"

text \<open>The goroutines \<^verbatim>\<open>grow\<close> starts.\<close>

datatype spawn = SpawnStart string | SpawnCreate string string

fun grow_starts :: "poolConfig \<Rightarrow> gotime \<Rightarrow> nat \<Rightarrow> pool \<Rightarrow> spawn list \<Rightarrow> nat \<times> spawn list \<times> pool" where
  "grow_starts cfg now 0 p sp = (0, sp, p)"
| "grow_starts cfg now (Suc want) p sp =
     (case startable cfg now p of
        None \<Rightarrow> (Suc want, sp, p)
      | Some (i, h) \<Rightarrow>
          grow_starts cfg now want (on_host i (\<lambda>h. h\<lparr>hs_phase := PhaseStarting, hs_changedAt := now\<rparr>) p)
            (sp @ [SpawnStart (ho_ID (hs_host h))]))"

fun grow_creates :: "gotime \<Rightarrow> nat \<Rightarrow> pool \<Rightarrow> spawn list \<Rightarrow> spawn list \<times> pool" where
  "grow_creates now 0 p sp = (sp, p)"
| "grow_creates now (Suc want) p sp =
     (let n = po_createSeq p + 1; placeholder = ''creating-'' @ itoa n
      in grow_creates now want
           (p\<lparr>po_createSeq := n, po_hosts := AList.update placeholder (new_host zeroHost PhaseCreating now) (po_hosts p)\<rparr>)
           (sp @ [SpawnCreate placeholder (po_image p)]))"

definition host_active :: "hostState \<Rightarrow> bool" where
  "host_active h \<longleftrightarrow> hs_phase h \<in> {PhaseCreating, PhaseStarting, PhaseBooting, PhaseReady}"

definition host_pending :: "hostState \<Rightarrow> bool" where
  "host_pending h \<longleftrightarrow> hs_phase h \<in> {PhaseCreating, PhaseStarting} \<or> (hs_phase h = PhaseBooting \<and> \<not> hs_everReady h)"

definition grow_want :: "poolConfig \<Rightarrow> pool \<Rightarrow> int" where
  "grow_want cfg p =
     (let active = int (length (filter (host_active \<circ> snd) (po_hosts p)));
          pending = length (filter (host_pending \<circ> snd) (po_hosts p));
          want = max 0 (pc_MinHosts cfg - active)
      in if want = 0 \<and> po_demand p > 0 \<and> pending = 0 then 1 else want)"

definition grow :: "poolConfig \<Rightarrow> gotime \<Rightarrow> pool \<Rightarrow> spawn list \<times> pool" where
  "grow cfg now p =
     (if \<not> fa_CanCreate (pc_facts cfg) then ([], p)
      else (case grow_starts cfg now (nat (grow_want cfg p)) (p\<lparr>po_demand := 0\<rparr>) [] of
              (want, started, p1) \<Rightarrow>
                (let left = min (int want) (max 0 (pc_MaxHosts cfg - host_count p1))
                 in grow_creates now (if now < po_createNotBefore p1 then 0 else nat left) p1 started)))"

text \<open>The sections of \<^verbatim>\<open>start\<close> and \<^verbatim>\<open>create\<close> after the call to the source.\<close>

definition start_done :: "goerr option \<Rightarrow> string \<Rightarrow> gotime \<Rightarrow> pool \<Rightarrow> pool" where
  "start_done err i now p =
     (case map_of (po_hosts p) i of
        None \<Rightarrow> p
      | Some h0 \<Rightarrow>
          (let p0 = on_host i (\<lambda>h. h\<lparr>hs_changedAt := now\<rparr>) p
           in (accrue now
             (case err of
                Some e \<Rightarrow>
                  on_health (launchFailed now (launchFailureReason err))
                    ((on_host i (\<lambda>h. h\<lparr>hs_phase := PhaseStopped,
                        hs_startFailures := (if IsCapacity err then maxStartFailures else hs_startFailures h + 1),
                        hs_notBefore := now + hostRefusalBackoff\<rparr>) p0)\<lparr>po_demand := po_demand p0 + 1\<rparr>)
              | None \<Rightarrow>
                  (on_host i (\<lambda>h. h\<lparr>hs_phase := PhaseBooting, hs_bootSince := now, hs_runningSince := now, hs_ownBoot := True,
                      hs_everReady := False, hs_startedByPool := True, hs_lastContact := zeroTime, hs_stoppedSince := zeroTime,
                      hs_notBefore := zeroTime\<rparr>) p0)
                    \<lparr>po_hostStarts := po_hostStarts p0 + 1, po_hostsListedAt := zeroTime\<rparr>))\<lparr>po_wake := True\<rparr>))"

definition invalid_host_id :: "string \<Rightarrow> bool" where
  "invalid_host_id i \<longleftrightarrow> i = [] \<or> CHR ''/'' \<in> set i \<or> CHR '':'' \<in> set i"

definition create_failed :: "goerr \<Rightarrow> string \<Rightarrow> gotime \<Rightarrow> pool \<Rightarrow> pool" where
  "create_failed err img now p =
     (let p1 = (if \<not> now < po_createNotBefore p
                then (let b = min (max (po_createBackoff p * 2) initialCreateBackoff) maximumCreateBackoff
                      in on_health (launchFailed now (launchFailureReason (Some err)))
                           (p\<lparr>po_createBackoff := b, po_createNotBefore := now + b\<rparr>))
                else p)
      in if img = po_image p1 then p1\<lparr>po_imageFailed := True\<rparr> else p1)"

definition create_succeeded :: "host \<Rightarrow> string \<Rightarrow> gotime \<Rightarrow> pool \<Rightarrow> pool" where
  "create_succeeded h img now p =
     (let p1 = on_health launchSucceeded (p\<lparr>po_createBackoff := 0\<rparr>)
      in if invalid_host_id (ho_ID h) then p1
         else (case map_of (po_hosts p1) (ho_ID h) of
                 Some _ \<Rightarrow> on_host (ho_ID h) (\<lambda>e. e\<lparr>hs_host := h, hs_ownBoot := True, hs_createdImage := img\<rparr>) p1
               | None \<Rightarrow>
                   p1\<lparr>po_hosts := AList.update (ho_ID h)
                     ((new_host h PhaseBooting now)\<lparr>hs_ownBoot := True, hs_createdImage := img,
                        hs_runningSince := firstNonZero [ho_CreatedAt h, now]\<rparr>) (po_hosts p1)\<rparr>))"

definition create_done :: "goerr + host \<Rightarrow> string \<Rightarrow> string \<Rightarrow> gotime \<Rightarrow> pool \<Rightarrow> pool" where
  "create_done created placeholder img now p =
     (let p0 = forget placeholder now p
      in accrue now (case created of Inl err \<Rightarrow> create_failed err img now p0 | Inr h \<Rightarrow> create_succeeded h img now p0))"

end
