(* ===== verification/Pool_Maintain.thy ===== *)
theory Pool_Maintain
  imports Pool_Sections
begin

text \<open>
  The rest of what a pool does under its mutex: following the hosts its source lists and the slots
  its agents list, replacing and returning hosts, and reporting.
\<close>

section \<open>Following the source\<close>

definition markStopped :: "poolConfig \<Rightarrow> gotime \<Rightarrow> hostState \<Rightarrow> hostState" where
  "markStopped cfg since h =
     h\<lparr>hs_billed := hs_billed h + (if time_isZero (hs_runningSince h) then 0 else billedHours cfg (hs_runningSince h) since),
       hs_phase := PhaseStopped, hs_runningSince := zeroTime, hs_stoppedSince := since, hs_slots := [],
       hs_lastListed := zeroTime, hs_emptySince := zeroTime, hs_startedByPool := False\<rparr>"

definition reconcile_host :: "poolConfig \<Rightarrow> gotime \<Rightarrow> string \<Rightarrow> pool \<Rightarrow> pool" where
  "reconcile_host cfg now i p =
     (case map_of (po_hosts p) i of
        None \<Rightarrow> p
      | Some h \<Rightarrow>
          (let stopped = (ho_State (hs_host h) = HostStopped)
           in if \<not> pc_stopper cfg then p
              else if stopped \<and> hs_phase h \<in> {PhaseBooting, PhaseReady, PhaseDraining}
              then (let p1 = (if hs_startedByPool h
                              then on_health (launchFailed now ''stopped_while_starting'')
                                     (on_host i (\<lambda>h. h\<lparr>hs_startFailures := hs_startFailures h + 1, hs_notBefore := now + hostRefusalBackoff\<rparr>) p)
                              else p)
                    in on_host i (markStopped cfg (earliest (ho_StateSince (hs_host h)) now)) p1)
              else if \<not> stopped \<and> hs_phase h = PhaseStopped
              then on_host i (\<lambda>h. h\<lparr>hs_phase := PhaseBooting, hs_bootSince := now, hs_ownBoot := False, hs_everReady := False,
                     hs_lastContact := zeroTime, hs_runningSince := firstNonZero [ho_StateSince (hs_host h), now],
                     hs_stoppedSince := zeroTime\<rparr>) p
              else p))"

definition found_host :: "poolConfig \<Rightarrow> gotime \<Rightarrow> host \<Rightarrow> hostState" where
  "found_host cfg now host =
     (let h = (new_host host PhaseBooting now)
            \<lparr>hs_ownBoot := \<not> time_isZero (ho_CreatedAt host) \<and> time_sub now (ho_CreatedAt host) < pc_BootTimeout cfg\<rparr>
      in if pc_stopper cfg \<and> ho_State host = HostStopped
         then h\<lparr>hs_phase := PhaseStopped, hs_stoppedSince := earliest (ho_StateSince host) now\<rparr>
         else (let since = firstNonZero [ho_StateSince host, ho_CreatedAt host, now]
               in h\<lparr>hs_runningSince := since, hs_billedBefore := billedHours cfg since now\<rparr>))"

definition listed_host :: "poolConfig \<Rightarrow> gotime \<Rightarrow> gotime \<Rightarrow> host \<Rightarrow> pool \<Rightarrow> pool" where
  "listed_host cfg started now host p =
     (if invalid_host_id (ho_ID host) then p
      else (case map_of (po_hosts p) (ho_ID host) of
              Some existing \<Rightarrow>
                (let p1 = on_host (ho_ID host) (\<lambda>h. h\<lparr>hs_host := host\<rparr>) p
                 in if \<not> hs_changedAt existing > started then reconcile_host cfg now (ho_ID host) p1 else p1)
            | None \<Rightarrow> p\<lparr>po_hosts := AList.update (ho_ID host) (found_host cfg now host) (po_hosts p)\<rparr>))"

definition gone_hosts :: "gotime \<Rightarrow> string list \<Rightarrow> pool \<Rightarrow> string list" where
  "gone_hosts started seen p =
     map fst (filter (\<lambda>(i, h). i \<notin> set seen \<and> hs_phase h \<noteq> PhaseCreating \<and> \<not> hs_firstSeen h > started) (po_hosts p))"

definition hosts_listed :: "poolConfig \<Rightarrow> gotime \<Rightarrow> host list \<Rightarrow> gotime \<Rightarrow> pool \<Rightarrow> pool" where
  "hosts_listed cfg started listed now p =
     (let p1 = fold (listed_host cfg started now) listed (on_health (\<lambda>s. s\<lparr>ph_sourceFailingSince := zeroTime\<rparr>) p);
          seen = filter (\<lambda>i. \<not> invalid_host_id i) (map ho_ID listed);
          p2 = fold (\<lambda>i. forget i now) (gone_hosts started seen p1) p1
      in (accrue now p2)\<lparr>po_hostsListedAt := now, po_hostsKnown := True\<rparr>)"

definition source_failed :: "gotime \<Rightarrow> pool \<Rightarrow> pool" where
  "source_failed now p =
     on_health (\<lambda>s. s\<lparr>ph_sourceFailingSince := (if time_isZero (ph_sourceFailingSince s) then now else ph_sourceFailingSince s)\<rparr>) p"

section \<open>Following the agents\<close>

definition probed_host :: "poolConfig \<Rightarrow> gotime \<Rightarrow> host \<times> (goerr + hostInfo) \<Rightarrow> pool \<Rightarrow> pool" where
  "probed_host cfg now r p =
     (case snd r of
        Inl err \<Rightarrow> p
      | Inr info \<Rightarrow>
          (let i = ho_ID (fst r)
           in case map_of (po_hosts p) i of
                None \<Rightarrow> p
              | Some h \<Rightarrow>
                  if hs_phase h \<noteq> PhaseBooting then p
                  else (let p1 = (on_host i (\<lambda>h. h\<lparr>hs_lastContact := now, hs_info := info\<rparr>) p)
                                   \<lparr>po_slotsSeen := max (po_slotsSeen p) (hi_Slots info)\<rparr>
                        in if \<not> accepts cfg p1 (hi_Image info)
                           then (let p2 = on_host i (\<lambda>h. on_hostHealth (\<lambda>e. e\<lparr>hh_drainedAt := now\<rparr>)
                                          (h\<lparr>hs_phase := PhaseDraining, hs_drainReason := ''image_mismatch''\<rparr>)) p1
                                 in if hs_createdImage h \<noteq> []
                                    then on_health (bootFailed now (''host '' @ i @ '', created for this pool, runs another runner image'')) p2
                                    else p2)
                           else if hi_Ready info \<and> hi_Slots info > 0
                           then (let p2 = on_health (bootRecovered \<circ> launchSucceeded)
                                      (on_host i (\<lambda>h. on_hostHealth (\<lambda>e. e\<lparr>hh_slotFailures := 0\<rparr>)
                                         (h\<lparr>hs_phase := PhaseReady, hs_everReady := True, hs_startedByPool := False, hs_startFailures := 0\<rparr>)) p1)
                                 in if po_roomReady p2 then p2\<lparr>po_room := True\<rparr> else p2)
                           else p1)))"

definition hosts_probed :: "poolConfig \<Rightarrow> (host \<times> (goerr + hostInfo)) list \<Rightarrow> gotime \<Rightarrow> pool \<Rightarrow> pool" where
  "hosts_probed cfg results now p = accrue now (fold (probed_host cfg now) results p)"

definition slot_map :: "slot list \<Rightarrow> (int \<times> slot) list" where
  "slot_map slots = fold (\<lambda>s. AList.update (sl_Index s) s) slots []"

definition listed_slots :: "poolConfig \<Rightarrow> gotime \<Rightarrow> host \<times> (goerr + slot list) \<Rightarrow> pool \<Rightarrow> pool" where
  "listed_slots cfg now r p =
     (case snd r of
        Inl err \<Rightarrow>
          on_host (ho_ID (fst r)) (\<lambda>h. if hs_everReady h \<and> time_sub now (hs_warnedAt h) > pc_UnreachableGrace cfg
                                     then h\<lparr>hs_warnedAt := now\<rparr> else h) p
      | Inr slots \<Rightarrow>
          on_host (ho_ID (fst r)) (\<lambda>h0.
            (let h = trackForeign cfg now (h0\<lparr>hs_slots := slot_map slots, hs_lastContact := now, hs_lastListed := now\<rparr>)
             in if hs_slots h = [] \<and> hs_reserved h = []
                then (if time_isZero (hs_emptySince h) then h\<lparr>hs_emptySince := now\<rparr> else h)
                else h\<lparr>hs_emptySince := zeroTime\<rparr>)) p)"

definition slots_listed :: "poolConfig \<Rightarrow> (host \<times> (goerr + slot list)) list \<Rightarrow> gotime \<Rightarrow> pool \<Rightarrow> pool" where
  "slots_listed cfg results now p = accrue now (fold (listed_slots cfg now) results p)"

definition hostsIn :: "(hostState \<Rightarrow> bool) \<Rightarrow> pool \<Rightarrow> host list" where
  "hostsIn match p = map hs_host (filter match (List.map_filter (map_of (po_hosts p)) (sortedIDs p)))"

text \<open>The last section of \<^verbatim>\<open>Inventory\<close>.\<close>

definition host_workers :: "poolConfig \<Rightarrow> string \<Rightarrow> hostState \<Rightarrow> worker list" where
  "host_workers cfg i h =
     map (\<lambda>n. slotWorker i n (the (map_of (hs_slots h) n)) zeroLease)
       (filter (\<lambda>n. case map_of (hs_slots h) n of
            Some s \<Rightarrow> sl_ControllerID s = pc_ControllerID cfg \<and> sl_LeaseID s \<noteq> [] \<and> sl_RunnerName s \<noteq> []
          | None \<Rightarrow> False) (sort (map fst (hs_slots h))))"

definition inventory_workers :: "poolConfig \<Rightarrow> gotime \<Rightarrow> pool \<Rightarrow> worker list" where
  "inventory_workers cfg now p =
     concat (map (\<lambda>i. case map_of (po_hosts p) i of
         None \<Rightarrow> []
       | Some h \<Rightarrow> if time_isZero (hs_lastListed h) \<or> time_sub now (hs_lastListed h) > pc_UnreachableGrace cfg then []
                   else host_workers cfg i h) (sortedIDs p))"

section \<open>Replacing hosts on an earlier image\<close>

text \<open>The loop of \<^verbatim>\<open>replaceStale\<close>; \<open>None\<close> when it returns early.\<close>

fun replace_loop :: "poolConfig \<Rightarrow> pool \<Rightarrow> string list \<Rightarrow> (string \<times> hostState) option \<Rightarrow> bool
    \<Rightarrow> ((string \<times> hostState) option \<times> bool) option" where
  "replace_loop cfg p [] candidate current = Some (candidate, current)"
| "replace_loop cfg p (i # is) candidate current =
     (case map_of (po_hosts p) i of
        None \<Rightarrow> replace_loop cfg p is candidate current
      | Some h \<Rightarrow>
          if hs_phase h \<in> {PhaseCreating, PhaseStarting, PhaseStopping, PhaseDeleting} then None
          else if hs_phase h = PhaseBooting \<and> hs_ownBoot h \<and> \<not> hs_everReady h then None
          else if hs_phase h = PhaseDraining \<and> hs_drainReason h = ''image_stale'' then None
          else if hs_phase h = PhaseReady
          then (if \<not> stale cfg p (hi_Image (hs_info h)) then replace_loop cfg p is candidate True
                else replace_loop cfg p is
                  (case candidate of
                     None \<Rightarrow> Some (i, h)
                   | Some (j, c) \<Rightarrow>
                       if busy_slots h < busy_slots c
                          \<or> (busy_slots h = busy_slots c \<and> ho_CreatedAt (hs_host h) < ho_CreatedAt (hs_host c))
                       then Some (i, h) else candidate) current)
          else replace_loop cfg p is candidate current)"

definition replaceStale :: "poolConfig \<Rightarrow> gotime \<Rightarrow> pool \<Rightarrow> pool" where
  "replaceStale cfg now p =
     (if pc_Related cfg = None \<or> \<not> po_imageResolved p \<or> now < po_replaceNotBefore p then p
      else (case replace_loop cfg p (sortedIDs p) None False of
              Some (Some (i, h), current) \<Rightarrow>
                if po_imageFailed p \<and> \<not> current then p
                else (accrue now (on_host i (\<lambda>h. h\<lparr>hs_phase := PhaseDraining, hs_drainReason := ''image_stale''\<rparr>) p))
                       \<lparr>po_replaceNotBefore := now + replaceInterval, po_imageReplaced := po_imageReplaced p + 1\<rparr>
            | _ \<Rightarrow> p))"

section \<open>Returning hosts\<close>

record returnCandidate =
  rc_host :: host
  rc_previous :: phase
  rc_reason :: string
  rc_stop :: bool

definition baseHosts :: "poolConfig \<Rightarrow> pool \<Rightarrow> string list" where
  "baseHosts cfg p =
     map (ho_ID \<circ> hs_host) (take (nat (pc_MinHosts cfg))
       (sort_key (\<lambda>h. (ho_CreatedAt (hs_host h), ho_ID (hs_host h))) (filter (\<lambda>h. hs_phase h = PhaseReady) (map snd (po_hosts p)))))"

definition boot_expired :: "poolConfig \<Rightarrow> gotime \<Rightarrow> hostState \<Rightarrow> bool" where
  "boot_expired cfg now h \<longleftrightarrow>
     (let bootStart = firstNonZero [hs_bootSince h, ho_CreatedAt (hs_host h)]
      in hs_phase h = PhaseBooting \<and> hs_ownBoot h \<and> \<not> hs_everReady h \<and> \<not> time_isZero bootStart
         \<and> time_sub now bootStart > pc_BootTimeout cfg)"

definition silent :: "poolConfig \<Rightarrow> gotime \<Rightarrow> hostState \<Rightarrow> bool" where
  "silent cfg now h \<longleftrightarrow>
     hs_phase h \<in> {PhaseReady, PhaseDraining, PhaseBooting}
     \<and> time_sub now (latest [hs_lastContact h, hs_firstSeen h, hs_bootSince h] zeroTime) > pc_MaxLifetime cfg + pc_UnreachableGrace cfg"

definition known_empty :: "poolConfig \<Rightarrow> gotime \<Rightarrow> hostState \<Rightarrow> bool" where
  "known_empty cfg now h \<longleftrightarrow>
     \<not> (occupied h > 0 \<or> hs_reserved h \<noteq> [] \<or> time_isZero (hs_lastListed h) \<or> time_sub now (hs_lastListed h) > 3 * pc_Tick cfg)"

text \<open>Why a host is returned, \<^verbatim>\<open>""\<close> when it is kept, and whether it is stopped instead of deleted.\<close>

definition return_reason :: "poolConfig \<Rightarrow> pool \<Rightarrow> string list \<Rightarrow> gotime \<Rightarrow> string \<Rightarrow> hostState \<Rightarrow> string \<times> bool" where
  "return_reason cfg p base now i h =
     (let billing = fa_Billing (pc_facts cfg)
      in if boot_expired cfg now h then (''boot_timeout'', False)
         else if silent cfg now h then (''unreachable'', False)
         else if hs_phase h \<noteq> PhaseReady \<and> hs_phase h \<noteq> PhaseDraining then ([], False)
         else if \<not> known_empty cfg now h then ([], False)
         else if hs_phase h = PhaseDraining then (hs_drainReason h, False)
         else if i \<in> set base \<or> billing = BillingOwned then ([], False)
         else if billing = BillingPerStartedHour
           then (if remainingPaid (time_sub now (ho_CreatedAt (hs_host h))) \<le> pc_HourMargin cfg then (''paid_hour_ending'', False) else ([], False))
         else if billing = BillingPerSecond
           then (let idle = (if pc_stopper cfg then pc_IdleStop cfg else pc_IdleReturn cfg)
                 in if \<not> time_isZero (hs_emptySince h) \<and> time_sub now (hs_emptySince h) \<ge> idle
                    then (if pc_stopper cfg \<and> stale cfg p (hi_Image (hs_info h)) then (''image_stale'', False) else (''idle'', pc_stopper cfg))
                    else ([], False))
         else ([], False))"

text \<open>Rounding is half away from zero; a duration under a minute prints as \<^verbatim>\<open>Duration.String\<close> does.\<close>

definition roughly :: "duration \<Rightarrow> string" where
  "roughly d =
     (let units = (\<lambda>unit. (d + unit div 2) div unit)
      in if d < minute then (if units second = 60 then ''1m0s'' else itoa (units second) @ ''s'')
         else if d < hour then itoa (units minute) @ ''m''
         else (let m = units minute; r = m mod 60
               in itoa (m div 60) @ ''h'' @ (if r < 10 then ''0'' else []) @ itoa r @ ''m''))"

definition note_boot_failure :: "poolConfig \<Rightarrow> gotime \<Rightarrow> string \<Rightarrow> hostState \<Rightarrow> pool \<Rightarrow> pool" where
  "note_boot_failure cfg now i h p =
     (if boot_expired cfg now h
      then on_health (bootFailed now (''host '' @ i @ '' did not become ready within '' @ roughly (pc_BootTimeout cfg)))
             (if hs_createdImage h \<noteq> [] \<and> hs_createdImage h = po_image p then p\<lparr>po_imageFailed := True\<rparr> else p)
      else p)"

definition return_host :: "poolConfig \<Rightarrow> string list \<Rightarrow> gotime \<Rightarrow> string \<Rightarrow> returnCandidate list \<times> pool \<Rightarrow> returnCandidate list \<times> pool" where
  "return_host cfg base now i acc =
     (case acc of (candidates, p) \<Rightarrow>
        (case map_of (po_hosts p) i of
           None \<Rightarrow> acc
         | Some h \<Rightarrow>
             (case return_reason cfg p base now i h of
                (reason, stop) \<Rightarrow>
                  (if reason = [] then (candidates, note_boot_failure cfg now i h p)
                   else (candidates @ [\<lparr>rc_host = hs_host h, rc_previous = hs_phase h, rc_reason = reason, rc_stop = stop\<rparr>],
                         on_host i (\<lambda>h. h\<lparr>hs_phase := (if stop then PhaseStopping else PhaseDeleting)\<rparr>)
                           (note_boot_failure cfg now i h p))))))"

definition stopped_hosts :: "pool \<Rightarrow> (string \<times> hostState) list" where
  "stopped_hosts p =
     sort_key (\<lambda>(i, h). (- hs_stoppedSince h, ho_ID (hs_host h))) (filter (\<lambda>(i, h). hs_phase h = PhaseStopped) (po_hosts p))"

fun stopped_loop :: "poolConfig \<Rightarrow> gotime \<Rightarrow> pool \<Rightarrow> (string \<times> hostState) list \<Rightarrow> int \<Rightarrow> (string \<times> returnCandidate) list" where
  "stopped_loop cfg now p [] kept = []"
| "stopped_loop cfg now p ((i, h) # hs) kept =
     (let reason = unusable cfg p h;
          candidate = (\<lambda>r. (i, \<lparr>rc_host = hs_host h, rc_previous = PhaseStopped, rc_reason = r, rc_stop = False\<rparr>))
      in if reason \<noteq> [] then candidate reason # stopped_loop cfg now p hs kept
         else if kept < pc_KeepStopped cfg then stopped_loop cfg now p hs (kept + 1)
         else if time_sub now (hs_stoppedSince h) \<ge> pc_DeleteStoppedAfter cfg
           then candidate ''stopped_expired'' # stopped_loop cfg now p hs kept
         else stopped_loop cfg now p hs kept)"

definition stoppedCandidates :: "poolConfig \<Rightarrow> gotime \<Rightarrow> pool \<Rightarrow> returnCandidate list \<times> pool" where
  "stoppedCandidates cfg now p =
     (let cs = stopped_loop cfg now p (stopped_hosts p) 0
      in (map snd cs, fold (\<lambda>(i, c). on_host i (\<lambda>h. h\<lparr>hs_phase := PhaseDeleting\<rparr>)) cs p))"

definition returnCandidates :: "poolConfig \<Rightarrow> gotime \<Rightarrow> pool \<Rightarrow> returnCandidate list \<times> pool" where
  "returnCandidates cfg now p =
     (case fold (return_host cfg (baseHosts cfg p) now) (sortedIDs p) ([], p) of
        (candidates, p1) \<Rightarrow>
          (case stoppedCandidates cfg now p1 of
             (more_candidates, p2) \<Rightarrow> (candidates @ more_candidates, accrue now p2)))"

definition restorePhase :: "string \<Rightarrow> phase \<Rightarrow> gotime \<Rightarrow> pool \<Rightarrow> pool" where
  "restorePhase hostID previous now p =
     accrue now (on_host hostID (\<lambda>h. if hs_phase h \<in> {PhaseDeleting, PhaseStopping} then h\<lparr>hs_phase := previous\<rparr> else h) p)"

definition host_returned :: "poolConfig \<Rightarrow> string \<Rightarrow> gotime \<Rightarrow> pool \<Rightarrow> pool" where
  "host_returned cfg i now p =
     (let p1 = (case map_of (po_hosts p) i of
                  None \<Rightarrow> p
                | Some h \<Rightarrow> forget i now (p\<lparr>po_returnedHours := po_returnedHours p + hostBilled cfg h now,
                                           po_retiredBefore := po_retiredBefore p + hs_billedBefore h\<rparr>))
      in p1\<lparr>po_returnedHosts := po_returnedHosts p1 + 1\<rparr>)"

definition host_stopped :: "poolConfig \<Rightarrow> string \<Rightarrow> gotime \<Rightarrow> pool \<Rightarrow> pool" where
  "host_stopped cfg i now p =
     (let p1 = accrue now (on_host i (\<lambda>h. (markStopped cfg now h)\<lparr>hs_changedAt := now\<rparr>) p)
      in p1\<lparr>po_hostStops := po_hostStops p1 + 1\<rparr>)"

definition warnStuckStaticHosts :: "poolConfig \<Rightarrow> gotime \<Rightarrow> pool \<Rightarrow> pool" where
  "warnStuckStaticHosts cfg now p =
     p\<lparr>po_hosts := map (\<lambda>(i, h). (i,
        if hs_phase h \<in> {PhaseBooting, PhaseDraining} \<and> time_sub now (hs_warnedAt h) > 5 * minute
           \<and> time_sub now (hs_firstSeen h) > pc_Tick cfg
        then h\<lparr>hs_warnedAt := now\<rparr> else h)) (po_hosts p)\<rparr>"

section \<open>Conditions and status\<close>

definition atCeiling :: "poolConfig \<Rightarrow> gotime \<Rightarrow> pool \<Rightarrow> bool" where
  "atCeiling cfg now p \<longleftrightarrow>
     \<not> hostOnItsWay p \<and> startable cfg now p = None
     \<and> (\<not> fa_CanCreate (pc_facts cfg) \<or> host_count p \<ge> pc_MaxHosts cfg)"

definition checkHealth :: "poolConfig \<Rightarrow> gotime \<Rightarrow> pool \<Rightarrow> pool" where
  "checkHealth cfg now p0 =
     (let p = (if \<not> time_isZero (ph_bootFailingSince (po_health p0)) \<and> \<not> hostOnItsWay p0
                  \<and> time_sub now (latest [ph_bootFailedAt (po_health p0), ph_lastFull (po_health p0)] zeroTime) \<ge> bootFailureQuiet
               then on_health bootRecovered p0 else p0)
      in case health_recent now (po_health p) of
           (launched, overflowed) \<Rightarrow>
             if time_isZero (ph_overflowingSince (po_health p))
             then (if overflowed \<ge> overflowReported \<and> overflowed \<ge> launched \<and> atCeiling cfg now p
                   then on_health (\<lambda>s. s\<lparr>ph_overflowingSince := now\<rparr>) p else p)
             else if 2 * overflowed < overflowReported \<or> 3 * overflowed < launched
             then on_health (\<lambda>s. s\<lparr>ph_overflowingSince := zeroTime\<rparr>) p
             else p)"

text \<open>\<open>add\<close> of \<^verbatim>\<open>conditions\<close>.\<close>

definition pool_condition :: "string \<Rightarrow> string \<Rightarrow> string \<Rightarrow> gotime \<Rightarrow> string \<Rightarrow> string \<Rightarrow> condition" where
  "pool_condition name kind host since summary action =
     \<lparr>co_Key = ''pool/'' @ name @ ''/'' @ kind @ (if host \<noteq> [] then ''/'' @ host else []),
      co_Summary = summary, co_Action = action, co_Since = since\<rparr>"

definition pool_conditions :: "poolConfig \<Rightarrow> gotime \<Rightarrow> pool \<Rightarrow> condition list" where
  "pool_conditions cfg now p =
     (let name = pc_Name cfg; s = po_health p;
          add = (\<lambda>b kind since summary action. if b then [pool_condition name kind [] since (''pool '' @ name @ summary) action] else [])
      in add (\<not> time_isZero (ph_sourceFailingSince s) \<and> time_sub now (ph_sourceFailingSince s) \<ge> sourceUnavailableAfter)
           ''host_source_unavailable'' (ph_sourceFailingSince s) '' cannot list its hosts''
           ''The pool keeps using the hosts it already knows. Check the provider token and the provider's status; the controller log has each error.''
       @ add (\<not> time_isZero (ph_imageFailingSince s) \<and> time_sub now (ph_imageFailingSince s) \<ge> imageUnresolvedAfter)
           ''image_tag_unresolved'' (ph_imageFailingSince s) '' cannot resolve its runner image tag''
           ''Hosts keep their image, and new hosts use the last digest resolved, or the tag itself before any. Check the registry token and that the tag exists; the controller log has each error.''
       @ add (ph_launchFailures s \<ge> launchFailuresReported)
           ''host_launch_failing'' (ph_launchFailingSince s)
           ('' failed to create or start a host '' @ itoa (ph_launchFailures s) @ '' times in a row (last: '' @ ph_launchFailure s @ '')'')
           ''Jobs the pool cannot take go to the next tier, or wait if it is the last one. Check the provider quota, capacity in the region, and the token; the controller log has each error.''
       @ add (\<not> time_isZero (ph_bootFailingSince s))
           ''host_boot_failed'' (ph_bootFailingSince s) ('' '' @ ph_bootFailure s)
           ''Check the host's boot log and the pool's runner_image. Until a host becomes ready, the pool keeps replacing hosts on demand, each billed while it boots.''
       @ (case health_recent now s of
            (launched, overflowed) \<Rightarrow>
              add (\<not> time_isZero (ph_overflowingSince s))
                ''pool_overflowing'' (ph_overflowingSince s)
                ('' was full for '' @ itoa overflowed @ '' of '' @ itoa (launched + overflowed) @ '' launches in the last hour'')
                (if fa_CanCreate (pc_facts cfg)
                 then ''Jobs went to the next tier, or waited if the pool is the last one. If the load lasts, raise max_hosts or slots.''
                 else ''Jobs went to the next tier, or waited if the pool is the last one. If the load lasts, add hosts or raise slots.'')))"

definition host_conditions :: "poolConfig \<Rightarrow> gotime \<Rightarrow> string \<Rightarrow> hostState \<Rightarrow> condition list" where
  "host_conditions cfg now i h =
     (let name = pc_Name cfg; e = hs_health h;
          add = (\<lambda>kind since summary action. [pool_condition name kind i since (''pool '' @ name @ summary) action]);
          booting = latest [hs_firstSeen h, hs_bootSince h] zeroTime
      in (if hs_phase h \<in> {PhaseReady, PhaseDraining} \<and> \<not> time_isZero (hs_lastContact h)
             \<and> time_sub now (hs_lastContact h) > pc_UnreachableGrace cfg
          then add ''host_unreachable'' (hs_lastContact h)
                 ('' host '' @ i @ '' has not answered for more than '' @ roughly (pc_UnreachableGrace cfg))
                 (''The pool sends it no new job; jobs running there fail if it does not come back. Check the host and the network from the controller to it.''
                  @ (if fa_CanCreate (pc_facts cfg)
                     then '' The pool deletes it once it has been silent for longer than the maximum worker lifetime.'' else []))
          else if hs_phase h = PhaseBooting \<and> \<not> hs_ownBoot h \<and> time_sub now booting > pc_BootTimeout cfg
          then add ''host_not_serving'' booting
                 ('' host '' @ i @ '' has not become ready for more than '' @ roughly (pc_BootTimeout cfg))
                 ''The pool sends it no job. Check the host's agent and its boot log.''
          else if hs_phase h = PhaseDraining \<and> \<not> fa_CanCreate (pc_facts cfg) \<and> \<not> time_isZero (hh_drainedAt e)
             \<and> time_sub now (hh_drainedAt e) > pc_BootTimeout cfg
          then add ''host_not_serving'' (hh_drainedAt e)
                 ('' static host '' @ i @ '' takes no job ('' @ hs_drainReason h @ '')'')
                 ''The pool never replaces a static host. Update it to the pool's runner image, then restart the controller to put it back in service.''
          else if hs_phase h = PhaseReady \<and> hh_slotFailures e \<ge> slotFailuresReported
          then add ''host_refusing'' (hh_slotFailingSince e)
                 ('' host '' @ i @ '' failed to start '' @ itoa (hh_slotFailures e) @ '' slots in a row (last: '' @ hh_slotFailure e @ '')'')
                 ''The pool sends new jobs to its other hosts first. Check the host's agent; for disk_full, free the host's disk.''
          else [])
       @ (if \<not> time_isZero (hh_foreignSince e) \<and> foreign cfg h \<and> time_sub now (hh_foreignSince e) \<ge> foreignSlotAfter
          then add ''foreign_slot'' (hh_foreignSince e)
                 ('' host '' @ i @ '' has a slot container this controller did not start'')
                 ''The pool leaves that slot alone, so the host runs fewer jobs. Look for a second controller using the host, or a container started by hand or under an old CONTROLLER_ID, and remove it.''
          else []))"

definition conditions :: "poolConfig \<Rightarrow> gotime \<Rightarrow> pool \<Rightarrow> condition list" where
  "conditions cfg now p =
     pool_conditions cfg now p
     @ concat (map (\<lambda>i. case map_of (po_hosts p) i of None \<Rightarrow> [] | Some h \<Rightarrow> host_conditions cfg now i h) (sortedIDs p))"

text \<open>Costs and ratios round half away from zero, to the cent and to the thousandth.\<close>

definition math_Round :: "rat \<Rightarrow> int" where
  "math_Round x = (if x < 0 then - \<lfloor>- x + 1 / 2\<rfloor> else \<lfloor>x + 1 / 2\<rfloor>)"

definition priceHours :: "rat \<Rightarrow> rat \<Rightarrow> rat" where
  "priceHours n hourlyPrice = of_int (math_Round (n * hourlyPrice * 100)) / 100"

definition ratio :: "rat \<Rightarrow> rat \<Rightarrow> rat" where
  "ratio part whole = (if whole \<le> 0 then 0 else of_int (math_Round (part / whole * 1000)) / 1000)"

record usageReport =
  ur_RunningSeconds :: int
  ur_ReadySeconds :: int
  ur_SlotSeconds :: int
  ur_BusySlotSeconds :: int
  ur_Occupancy :: rat
  ur_ReadyOccupancy :: rat

definition usage_report :: "usage \<Rightarrow> usageReport" where
  "usage_report u =
     \<lparr>ur_RunningSeconds = go_quot (us_running u) second, ur_ReadySeconds = go_quot (us_ready u) second,
      ur_SlotSeconds = trunc_rat (us_slot u), ur_BusySlotSeconds = trunc_rat (us_busy u),
      ur_Occupancy = ratio (us_busy u) (us_slot u), ur_ReadyOccupancy = ratio (us_readyBusy u) (us_readySlot u)\<rparr>"

record hostStatus =
  ht_ID :: string
  ht_Phase :: phase
  ht_Slots :: int
  ht_Busy :: int
  ht_Reachable :: bool
  ht_CreatedAt :: gotime
  ht_StoppedAt :: gotime
  ht_Image :: string
  ht_Stale :: bool
  ht_Usage :: usageReport

record poolStatus =
  st_Name :: string
  st_Billing :: string
  st_HourlyPrice :: rat
  st_Currency :: string
  st_MinHosts :: int
  st_MaxHosts :: int
  st_SlotsTotal :: int
  st_SlotsBusy :: int
  st_Launched :: nat
  st_Overflowed :: nat
  st_ReturnedHosts :: int
  st_Speculated :: nat
  st_HostStops :: int
  st_HostStarts :: int
  st_Image :: string
  st_Follows :: string
  st_ImageCheckedAt :: gotime
  st_ImageError :: "goerr option"
  st_ImageReplacements :: int
  st_BilledHours :: rat
  st_Cost :: rat
  st_Hosts :: "hostStatus list"
  st_MeasuredSince :: gotime
  st_Usage :: usageReport
  st_MeasuredCost :: rat
  st_Conditions :: "condition list"

definition host_status :: "poolConfig \<Rightarrow> gotime \<Rightarrow> pool \<Rightarrow> string \<Rightarrow> hostState \<Rightarrow> hostStatus" where
  "host_status cfg now p i h =
     (let img = (if host_running h then firstNonEmpty [hi_Image (hs_info h), ho_Image (hs_host h)]
                 else firstNonEmpty [ho_Image (hs_host h), hi_Image (hs_info h)])
      in \<lparr>ht_ID = i, ht_Phase = hs_phase h, ht_Slots = hi_Slots (hs_info h), ht_Busy = busy_slots h,
          ht_Reachable = host_running h \<and> \<not> time_isZero (hs_lastContact h) \<and> time_sub now (hs_lastContact h) \<le> pc_UnreachableGrace cfg,
          ht_CreatedAt = ho_CreatedAt (hs_host h), ht_StoppedAt = hs_stoppedSince h, ht_Image = img,
          ht_Stale = img \<noteq> [] \<and> accepts cfg p img \<and> stale cfg p img, ht_Usage = usage_report (usageOf p h)\<rparr>)"

definition pool_Status :: "poolConfig \<Rightarrow> gotime \<Rightarrow> pool \<Rightarrow> poolStatus \<times> pool" where
  "pool_Status cfg now p0 =
     (let p = accrue now p0;
          hosts = List.map_filter (\<lambda>i. map_option (Pair i) (map_of (po_hosts p) i)) (sortedIDs p);
          ready = filter (\<lambda>(i, h). hs_phase h = PhaseReady) hosts;
          billed = po_returnedHours p + sum_list (map (\<lambda>(i, h). hostBilled cfg h now) hosts);
          billedBefore = po_retiredBefore p + sum_list (map (\<lambda>(i, h). hs_billedBefore h) hosts);
          price = fa_HourlyPrice (pc_facts cfg); follows = pc_Related cfg \<noteq> None
      in (\<lparr>st_Name = pc_Name cfg, st_Billing = fa_Billing (pc_facts cfg), st_HourlyPrice = price,
           st_Currency = fa_Currency (pc_facts cfg), st_MinHosts = pc_MinHosts cfg, st_MaxHosts = pc_MaxHosts cfg,
           st_SlotsTotal = sum_list (map (\<lambda>(i, h). hi_Slots (hs_info h)) ready),
           st_SlotsBusy = sum_list (map (\<lambda>(i, h). min (busy_slots h) (hi_Slots (hs_info h))) ready),
           st_Launched = po_launched p, st_Overflowed = po_overflowed p, st_ReturnedHosts = po_returnedHosts p,
           st_Speculated = po_speculated p, st_HostStops = po_hostStops p, st_HostStarts = po_hostStarts p,
           st_Image = po_image p, st_Follows = (if follows then pc_Image cfg else []),
           st_ImageCheckedAt = (if follows then po_imageCheckedAt p else zeroTime),
           st_ImageError = (if follows then po_imageError p else None), st_ImageReplacements = po_imageReplaced p,
           st_BilledHours = billed, st_Cost = priceHours billed price,
           st_Hosts = map (\<lambda>(i, h). host_status cfg now p i h) hosts, st_MeasuredSince = po_measuredSince p,
           st_Usage = usage_report (fold (\<lambda>(i, h) u. usage_add u (usageOf p h)) hosts (po_retired p)),
           st_MeasuredCost = priceHours (max 0 (billed - billedBefore)) price,
           st_Conditions = conditions cfg now p\<rparr>, p))"

end
