(* ===== verification/Pool_Model.thy ===== *)
theory Pool_Model
  imports Pool_Maintain Interleaving
begin

text \<open>
  The operations of a pool (\<^verbatim>\<open>pool/compute.go\<close>) as programs of atomic steps: each section under the
  pool's mutex, each call to the host source, to a host agent, to the registry or to the clock is one
  step.  Launches, removals, inventories, the maintenance loop and the goroutines that start and create
  hosts run at once; what holds in every interleaving of their steps is in \<open>Pool_Correct\<close>.

  What a pool calls outside is the record \<open>poolEnv\<close> of functions on an arbitrary world.  The calls of
  one parallel batch are made in the order of the batch.  \<open>pl_calls\<close> is a ghost record, with the pool
  as it was at that moment, of the calls that start or remove a container and delete, stop, start or
  create a host.
\<close>

record 'w poolEnv =
  pe_now :: "'w \<Rightarrow> gotime \<times> 'w"
  pe_wall :: "'w \<Rightarrow> gotime \<times> 'w"
  pe_sleep :: "duration \<Rightarrow> 'w \<Rightarrow> bool \<times> 'w"
  pe_done :: "'w \<Rightarrow> bool \<times> 'w"
  pe_list :: "'w \<Rightarrow> (goerr + host list) \<times> 'w"
  pe_create :: "string \<Rightarrow> 'w \<Rightarrow> (goerr + host) \<times> 'w"
  pe_delete :: "string \<Rightarrow> 'w \<Rightarrow> goerr option \<times> 'w"
  pe_stop :: "string \<Rightarrow> 'w \<Rightarrow> goerr option \<times> 'w"
  pe_start :: "string \<Rightarrow> 'w \<Rightarrow> goerr option \<times> 'w"
  pe_resolve :: "'w \<Rightarrow> (goerr + string) \<times> 'w"
  pe_info :: "host \<Rightarrow> 'w \<Rightarrow> (goerr + hostInfo) \<times> 'w"
  pe_slots :: "host \<Rightarrow> 'w \<Rightarrow> (goerr + slot list) \<times> 'w"
  pe_startSlot :: "host \<Rightarrow> int \<Rightarrow> startRequest \<Rightarrow> 'w \<Rightarrow> (goerr + slot) \<times> 'w"
  pe_remove :: "host \<Rightarrow> int \<Rightarrow> string \<Rightarrow> 'w \<Rightarrow> goerr option \<times> 'w"

datatype pool_call =
    CallStartSlot host int startRequest pool
  | CallRemove host int string pool
  | CallDelete returnCandidate pool
  | CallStop returnCandidate pool
  | CallStartHost string pool
  | CallCreate string pool

record 'w poolSys =
  pl_pool :: pool
  pl_world :: 'w
  pl_calls :: "pool_call list"
  pl_spawned :: "spawn list"

section \<open>Steps\<close>

definition outside :: "('w \<Rightarrow> 'a \<times> 'w) \<Rightarrow> ('w poolSys, 'a) prog" where
  "outside g = atom (\<lambda>s. case g (pl_world s) of (a, w) \<Rightarrow> (a, s\<lparr>pl_world := w\<rparr>))"

definition outside_traced :: "(pool \<Rightarrow> pool_call) \<Rightarrow> ('w \<Rightarrow> 'a \<times> 'w) \<Rightarrow> ('w poolSys, 'a) prog" where
  "outside_traced c g = atom (\<lambda>s. case g (pl_world s) of
     (a, w) \<Rightarrow> (a, s\<lparr>pl_world := w, pl_calls := pl_calls s @ [c (pl_pool s)]\<rparr>))"

text \<open>A section under the mutex, which reads the clock.\<close>

definition locked :: "'w poolEnv \<Rightarrow> (gotime \<Rightarrow> pool \<Rightarrow> 'a \<times> pool) \<Rightarrow> ('w poolSys, 'a) prog" where
  "locked env f = atom (\<lambda>s. case pe_now env (pl_world s) of
     (now, w) \<Rightarrow> (case f now (pl_pool s) of (a, p) \<Rightarrow> (a, s\<lparr>pl_pool := p, pl_world := w\<rparr>)))"

definition locked_do :: "'w poolEnv \<Rightarrow> (gotime \<Rightarrow> pool \<Rightarrow> pool) \<Rightarrow> ('w poolSys, unit) prog" where
  "locked_do env f = locked env (\<lambda>now p. ((), f now p))"

definition locked_get :: "(pool \<Rightarrow> 'a) \<Rightarrow> ('w poolSys, 'a) prog" where
  "locked_get f = atom (\<lambda>s. (f (pl_pool s), s))"

definition locked_set :: "(pool \<Rightarrow> pool) \<Rightarrow> ('w poolSys, unit) prog" where
  "locked_set f = atom (\<lambda>s. ((), s\<lparr>pl_pool := f (pl_pool s)\<rparr>))"

definition pool_now :: "'w poolEnv \<Rightarrow> ('w poolSys, gotime) prog" where
  "pool_now env = outside (pe_now env)"

fun batch :: "('a \<Rightarrow> ('s, 'b) prog) \<Rightarrow> 'a list \<Rightarrow> ('s, ('a \<times> 'b) list) prog" where
  "batch call [] = Done []"
| "batch call (x # xs) = pbind (call x) (\<lambda>r. pbind (batch call xs) (\<lambda>rs. Done ((x, r) # rs)))"

section \<open>Launching\<close>

text \<open>
  \<^verbatim>\<open>readLateStart\<close> polls until its deadline.  \<open>fuel\<close> bounds the polls; the answer is \<open>None\<close> when the
  loop did not end by itself, which \<open>readLateStart_ends\<close> excludes.
\<close>

fun read_slot :: "poolConfig \<Rightarrow> int \<Rightarrow> lease \<Rightarrow> slot list \<Rightarrow> slot option option" where
  "read_slot cfg n l [] = None"
| "read_slot cfg n l (s # rest) =
     (if sl_Index s \<noteq> n then read_slot cfg n l rest
      else if sl_ControllerID s \<noteq> pc_ControllerID cfg \<or> sl_LeaseID s \<noteq> l_ID l \<or> sl_RunnerName s \<noteq> l_RunnerName l then Some None
      else if sl_State s = ''started'' then Some (Some s)
      else if sl_State s = ''starting'' then read_slot cfg n l rest
      else Some None)"

fun late_loop :: "'w poolEnv \<Rightarrow> poolConfig \<Rightarrow> host \<Rightarrow> int \<Rightarrow> lease \<Rightarrow> bool \<Rightarrow> gotime \<Rightarrow> nat \<Rightarrow> ('w poolSys, slot option option) prog" where
  "late_loop env cfg host n l answered deadline 0 = Done None"
| "late_loop env cfg host n l answered deadline (Suc fuel) =
     pbind (outside (pe_done env)) (\<lambda>over.
     if over then Done (Some None)
     else
     pbind (outside (pe_slots env host)) (\<lambda>listed.
     case (case listed of Inl err \<Rightarrow> None | Inr slots \<Rightarrow> read_slot cfg n l slots) of
       Some found \<Rightarrow> Done (Some found)
     | None \<Rightarrow>
         pbind (outside (pe_wall env)) (\<lambda>now.
         if answered \<or> \<not> now + lateStartPoll < deadline then Done (Some None)
         else pbind (outside (pe_sleep env lateStartPoll)) (\<lambda>_. late_loop env cfg host n l answered deadline fuel))))"

definition late_fuel :: nat where
  "late_fuel = nat (lateStartWait div lateStartPoll) + 2"

definition readLateStart :: "'w poolEnv \<Rightarrow> poolConfig \<Rightarrow> host \<Rightarrow> int \<Rightarrow> lease \<Rightarrow> goerr \<Rightarrow> ('w poolSys, slot option option) prog" where
  "readLateStart env cfg host n l startErr =
     pbind (outside (pe_wall env)) (\<lambda>now.
     late_loop env cfg host n l (errors_As as_agent (Some startErr) \<noteq> None) (now + lateStartWait) late_fuel)"

definition start_request :: "poolConfig \<Rightarrow> lease \<Rightarrow> string \<Rightarrow> startRequest" where
  "start_request cfg l img =
     \<lparr>sq_Image = img, sq_ControllerID = pc_ControllerID cfg, sq_LeaseID = l_ID l, sq_RunnerName = l_RunnerName l,
      sq_RunnerID = l_RunnerID l, sq_RunnerScaleSetID = l_RunnerScaleSetID l, sq_JITConfig = l_JITConfig l,
      sq_Deadline = l_Deadline l, sq_IdleTimeoutSeconds = go_quot (l_IdleTimeout l) second\<rparr>"

definition launch_full :: "'w poolEnv \<Rightarrow> poolConfig \<Rightarrow> bool \<Rightarrow> ('w poolSys, goerr + worker) prog" where
  "launch_full env cfg growing =
     (let full = (\<lambda>retryAfter. Inl (CapacityError CapacityReasonFull retryAfter (ErrWrap (''pool '' @ pc_Name cfg) (ErrSentinel ErrFull))))
      in if \<not> growing then Done (full 0)
         else pbind (locked env (noteFull cfg)) (\<lambda>retryAfter. Done (full retryAfter)))"

fun launch_attempts :: "'w poolEnv \<Rightarrow> poolConfig \<Rightarrow> lease \<Rightarrow> bool \<Rightarrow> nat \<Rightarrow> ('w poolSys, goerr + worker) prog" where
  "launch_attempts env cfg l growing 0 = launch_full env cfg growing"
| "launch_attempts env cfg l growing (Suc n) =
     pbind (locked env (reserve cfg (l_ID l))) (\<lambda>reserved.
     case reserved of
       None \<Rightarrow> launch_full env cfg growing
     | Some (host, slot, img) \<Rightarrow>
         (let request = start_request cfg l img; again = launch_attempts env cfg l growing n;
              release_slot = locked_do env (release (ho_ID host) slot)
          in pbind (outside_traced (CallStartSlot host slot request) (pe_startSlot env host slot request)) (\<lambda>started.
             case started of
               Inr s \<Rightarrow> pbind (locked env (commit cfg (ho_ID host) slot s l)) (\<lambda>w. Done (Inr w))
             | Inl err \<Rightarrow>
                 if errors_Is (Some err) ErrUnreachable
                 then pseq release_slot (pseq (locked_do env (refuseHost (ho_ID host) ''unreachable'')) again)
                 else if IsAgentRefusal (Some err) CodeSlotBusy
                 then pseq release_slot (pseq (locked_do env (markForeign cfg (ho_ID host) slot)) again)
                 else if IsAgentRefusal (Some err) CodeNotReady \<or> IsAgentRefusal (Some err) CodeImageMismatch
                    \<or> IsAgentRefusal (Some err) CodeDiskFull
                 then pseq release_slot (pseq (locked_do env (refuseHost (ho_ID host) (refusalCode (Some err)))) again)
                 else if IsAgentRefusal (Some err) CodeInvalid
                 then pseq release_slot (Done (Inl (ErrWrap ''the host rejected the lease'' err)))
                 else
                 pbind (readLateStart env cfg host slot l err) (\<lambda>late.
                 case late of
                   Some (Some s) \<Rightarrow> pbind (locked env (commit cfg (ho_ID host) slot s l)) (\<lambda>w. Done (Inr w))
                 | _ \<Rightarrow>
                     pbind (pool_now env) (\<lambda>now.
                     pseq (locked_do env (holdSuspect cfg (ho_ID host) slot l (firstNonEmpty [refusalCode (Some err), ''start_unconfirmed''])))
                       (Done (Inl (PartialLaunchError
                          (slotWorker (ho_ID host) slot
                             (zeroSlot\<lparr>sl_Index := slot, sl_ControllerID := pc_ControllerID cfg, sl_State := ''starting'', sl_CreatedAt := now\<rparr>) l)
                          (ErrWrap ''start slot'' err)))))))))"

definition launch :: "'w poolEnv \<Rightarrow> poolConfig \<Rightarrow> lease \<Rightarrow> bool \<Rightarrow> ('w poolSys, goerr + worker) prog" where
  "launch env cfg l growing =
     (if l_ID l = [] \<or> l_RunnerName l = [] \<or> l_JITConfig l = [] \<or> CHR ''/'' \<in> set (l_ID l)
      then Done (Inl (ErrText ''pool launch requires a lease ID, a runner name, and a JIT configuration''))
      else launch_attempts env cfg l growing maxStartAttempts)"

definition pool_Launch :: "'w poolEnv \<Rightarrow> poolConfig \<Rightarrow> lease \<Rightarrow> ('w poolSys, goerr + worker) prog" where
  "pool_Launch env cfg l = launch env cfg l True"

definition launchSpare :: "'w poolEnv \<Rightarrow> poolConfig \<Rightarrow> lease \<Rightarrow> ('w poolSys, goerr + worker) prog" where
  "launchSpare env cfg l =
     pbind (launch env cfg l False) (\<lambda>r.
     case r of
       Inl err \<Rightarrow> Done r
     | Inr w \<Rightarrow> pseq (locked_set (\<lambda>p. p\<lparr>po_speculated := po_speculated p + 1\<rparr>)) (Done r))"

definition freeSlots_now :: "'w poolEnv \<Rightarrow> poolConfig \<Rightarrow> ('w poolSys, int) prog" where
  "freeSlots_now env cfg = locked env (\<lambda>now p. (freeSlots cfg now p, p))"

section \<open>Listing and removing\<close>

definition refreshHosts :: "'w poolEnv \<Rightarrow> poolConfig \<Rightarrow> bool \<Rightarrow> ('w poolSys, goerr option) prog" where
  "refreshHosts env cfg force =
     pbind (locked env (\<lambda>now p. (po_hostsKnown p \<and> time_sub now (po_hostsListedAt p) < pc_HostListInterval cfg, p))) (\<lambda>fresh.
     if fresh \<and> \<not> force then Done None
     else
     pbind (pool_now env) (\<lambda>started.
     pbind (outside (pe_list env)) (\<lambda>listed.
     case listed of
       Inl err \<Rightarrow> pseq (locked_do env source_failed) (Done (Some err))
     | Inr hosts \<Rightarrow> pseq (locked_do env (hosts_listed cfg started hosts)) (Done None))))"

definition listSlots :: "'w poolEnv \<Rightarrow> poolConfig \<Rightarrow> host list \<Rightarrow> ('w poolSys, unit) prog" where
  "listSlots env cfg hosts =
     pbind (batch (\<lambda>h. outside (pe_slots env h)) hosts) (\<lambda>results. locked_do env (slots_listed cfg results))"

definition probe :: "'w poolEnv \<Rightarrow> poolConfig \<Rightarrow> ('w poolSys, unit) prog" where
  "probe env cfg =
     pbind (locked_get (hostsIn (\<lambda>h. hs_phase h = PhaseBooting \<and> ho_Address (hs_host h) \<noteq> []))) (\<lambda>booting.
     pbind (batch (\<lambda>h. outside (pe_info env h)) booting) (\<lambda>results. locked_do env (hosts_probed cfg results)))"

definition inventory_slots :: "'w poolEnv \<Rightarrow> poolConfig \<Rightarrow> ('w poolSys, goerr + worker list) prog" where
  "inventory_slots env cfg =
     pbind (locked_get (hostsIn (\<lambda>h. ho_Address (hs_host h) \<noteq> [] \<and> host_running h \<and> (hs_everReady h \<or> \<not> hs_ownBoot h)))) (\<lambda>hosts.
     pseq (listSlots env cfg hosts) (locked env (\<lambda>now p. (Inr (inventory_workers cfg now p), p))))"

definition pool_Inventory :: "'w poolEnv \<Rightarrow> poolConfig \<Rightarrow> ('w poolSys, goerr + worker list) prog" where
  "pool_Inventory env cfg =
     pcheck (refreshHosts env cfg False)
       (\<lambda>err. pbind (locked_get po_hostsKnown) (\<lambda>known.
          if \<not> known then Done (Inl (ErrWrap ''list hosts'' err)) else inventory_slots env cfg))
       (inventory_slots env cfg)"

definition pool_host :: "string \<Rightarrow> pool \<Rightarrow> host option" where
  "pool_host i p = (case map_of (po_hosts p) i of
     None \<Rightarrow> None | Some h \<Rightarrow> if hs_phase h = PhaseCreating then None else Some (hs_host h))"

definition stoppedHost :: "string \<Rightarrow> pool \<Rightarrow> bool" where
  "stoppedHost i p = (case map_of (po_hosts p) i of None \<Rightarrow> False | Some h \<Rightarrow> hs_phase h = PhaseStopped)"

text \<open>From the host on.\<close>

definition remove_slot :: "'w poolEnv \<Rightarrow> poolConfig \<Rightarrow> host \<Rightarrow> string \<Rightarrow> int \<Rightarrow> string \<Rightarrow> ('w poolSys, goerr option) prog" where
  "remove_slot env cfg host hostID slot leaseID =
     pbind (locked_get (stoppedHost hostID)) (\<lambda>stopped.
     if stopped then pseq (locked_do env (cleared hostID slot leaseID)) (Done None)
     else
     pbind (outside_traced (CallRemove host slot leaseID) (pe_remove env host slot leaseID)) (\<lambda>err.
     if err = None \<or> IsAgentRefusal err CodeLeaseMismatch
     then pseq (locked_do env (cleared hostID slot leaseID)) (Done None)
     else if IsAgentRefusal err CodeInvalid then Done (map_option (ErrWrap ''remove slot'') err)
     else Done (map_option (TransientError \<circ> ErrWrap ''remove slot'') err)))"

definition pool_Destroy :: "'w poolEnv \<Rightarrow> poolConfig \<Rightarrow> string \<Rightarrow> ('w poolSys, goerr option) prog" where
  "pool_Destroy env cfg workerID =
     (case parseWorkerID workerID of
        Inl err \<Rightarrow> Done (Some err)
      | Inr (hostID, slot, leaseID) \<Rightarrow>
          pbind (locked_get (pool_host hostID)) (\<lambda>found.
          case found of
            Some host \<Rightarrow> remove_slot env cfg host hostID slot leaseID
          | None \<Rightarrow>
              pcheck (refreshHosts env cfg True)
                (\<lambda>err. Done (Some (TransientError (ErrWrap ''confirm host'' err))))
                (pbind (locked_get (pool_host hostID)) (\<lambda>again.
                 case again of
                   None \<Rightarrow> Done None
                 | Some host \<Rightarrow> remove_slot env cfg host hostID slot leaseID))))"

section \<open>Maintenance\<close>

definition followTag :: "'w poolEnv \<Rightarrow> poolConfig \<Rightarrow> ('w poolSys, unit) prog" where
  "followTag env cfg =
     (if pc_Related cfg = None then Done ()
      else pbind (locked env (\<lambda>now p. (\<not> now < po_imageCheckAt p, p))) (\<lambda>due.
           if \<not> due then Done ()
           else pbind (outside (pe_resolve env)) (\<lambda>resolved. locked_do env (tag_resolved cfg resolved))))"

definition stopHost :: "'w poolEnv \<Rightarrow> poolConfig \<Rightarrow> returnCandidate \<Rightarrow> ('w poolSys, unit) prog" where
  "stopHost env cfg c =
     pbind (outside_traced (CallStop c) (pe_stop env (ho_ID (rc_host c)))) (\<lambda>err.
     case err of
       Some e \<Rightarrow> locked_do env (restorePhase (ho_ID (rc_host c)) (rc_previous c))
     | None \<Rightarrow> locked_do env (host_stopped cfg (ho_ID (rc_host c))))"

definition deleteHost :: "'w poolEnv \<Rightarrow> poolConfig \<Rightarrow> returnCandidate \<Rightarrow> ('w poolSys, unit) prog" where
  "deleteHost env cfg c =
     pbind (outside_traced (CallDelete c) (pe_delete env (ho_ID (rc_host c)))) (\<lambda>err.
     case err of
       Some e \<Rightarrow> locked_do env (restorePhase (ho_ID (rc_host c)) (rc_previous c))
     | None \<Rightarrow> locked_do env (host_returned cfg (ho_ID (rc_host c))))"

definition needs_listing :: "returnCandidate \<Rightarrow> bool" where
  "needs_listing c \<longleftrightarrow> rc_previous c \<noteq> PhaseStopped \<and> rc_reason c \<noteq> ''boot_timeout'' \<and> rc_reason c \<noteq> ''unreachable''"

definition returnHost :: "'w poolEnv \<Rightarrow> poolConfig \<Rightarrow> returnCandidate \<Rightarrow> ('w poolSys, unit) prog" where
  "returnHost env cfg c =
     (let give_back = (if rc_stop c then stopHost env cfg c else deleteHost env cfg c)
      in if needs_listing c
         then pbind (outside (pe_slots env (rc_host c))) (\<lambda>listed.
              if listed = Inr [] then give_back else locked_do env (restorePhase (ho_ID (rc_host c)) (rc_previous c)))
         else give_back)"

fun for_all :: "('a \<Rightarrow> ('s, unit) prog) \<Rightarrow> 'a list \<Rightarrow> ('s, unit) prog" where
  "for_all f [] = Done ()"
| "for_all f (x # xs) = pseq (f x) (for_all f xs)"

definition returnHosts :: "'w poolEnv \<Rightarrow> poolConfig \<Rightarrow> ('w poolSys, unit) prog" where
  "returnHosts env cfg =
     (if \<not> fa_CanCreate (pc_facts cfg) then locked_do env (warnStuckStaticHosts cfg)
      else pbind (locked env (returnCandidates cfg)) (for_all (returnHost env cfg)))"

definition grow_hosts :: "'w poolEnv \<Rightarrow> poolConfig \<Rightarrow> ('w poolSys, unit) prog" where
  "grow_hosts env cfg = atom (\<lambda>s. case pe_now env (pl_world s) of
     (now, w) \<Rightarrow> (case grow cfg now (pl_pool s) of
        (spawned, p) \<Rightarrow> ((), s\<lparr>pl_pool := p, pl_world := w, pl_spawned := pl_spawned s @ spawned\<rparr>)))"

definition maintain :: "'w poolEnv \<Rightarrow> poolConfig \<Rightarrow> ('w poolSys, unit) prog" where
  "maintain env cfg =
     pseq (followTag env cfg)
     (pseq (pbind (refreshHosts env cfg False) (\<lambda>err. Done ()))
     (pseq (probe env cfg)
     (pseq (pbind (locked_get (hostsIn (\<lambda>h. ho_Address (hs_host h) \<noteq> [] \<and> hs_phase h \<in> {PhaseReady, PhaseDraining}))) (listSlots env cfg))
     (pseq (locked_do env (replaceStale cfg))
     (pseq (returnHosts env cfg)
     (pseq (grow_hosts env cfg)
     (locked_do env (checkHealth cfg))))))))"

definition start_host :: "'w poolEnv \<Rightarrow> string \<Rightarrow> ('w poolSys, unit) prog" where
  "start_host env i =
     pbind (outside_traced (CallStartHost i) (pe_start env i)) (\<lambda>err. locked_do env (start_done err i))"

definition create_host :: "'w poolEnv \<Rightarrow> string \<Rightarrow> string \<Rightarrow> ('w poolSys, unit) prog" where
  "create_host env placeholder img =
     pbind (outside_traced (CallCreate img) (pe_create env img)) (\<lambda>created. locked_do env (create_done created placeholder img))"

definition spawn_prog :: "'w poolEnv \<Rightarrow> spawn \<Rightarrow> ('w poolSys, unit) prog" where
  "spawn_prog env sp = (case sp of SpawnStart i \<Rightarrow> start_host env i | SpawnCreate placeholder img \<Rightarrow> create_host env placeholder img)"

section \<open>Running\<close>

text \<open>
  What callers ask of a pool, without the answer, and how a pool runs: at any moment a call arrives, a
  goroutine that was started begins, or any of the running ones takes its next step.
\<close>

datatype pool_op = OpLaunch lease | OpSpare lease | OpInventory | OpDestroy string | OpMaintain | OpStatus | OpFreeSlots

definition ignore :: "('s, 'a) prog \<Rightarrow> ('s, unit) prog" where
  "ignore p = pbind p (\<lambda>_. Done ())"

definition op_prog :: "'w poolEnv \<Rightarrow> poolConfig \<Rightarrow> pool_op \<Rightarrow> ('w poolSys, unit) prog" where
  "op_prog env cfg oper = (case oper of
     OpLaunch l \<Rightarrow> ignore (pool_Launch env cfg l)
   | OpSpare l \<Rightarrow> ignore (launchSpare env cfg l)
   | OpInventory \<Rightarrow> ignore (pool_Inventory env cfg)
   | OpDestroy i \<Rightarrow> ignore (pool_Destroy env cfg i)
   | OpMaintain \<Rightarrow> maintain env cfg
   | OpStatus \<Rightarrow> ignore (locked env (pool_Status cfg))
   | OpFreeSlots \<Rightarrow> ignore (freeSlots_now env cfg))"

inductive pool_run :: "'w poolEnv \<Rightarrow> poolConfig \<Rightarrow> 'w poolSys \<Rightarrow> ('w poolSys, unit) prog list \<Rightarrow> 'w poolSys \<Rightarrow> bool"
  for env cfg s0 where
  run_start: "pool_run env cfg s0 [] s0"
| run_call: "pool_run env cfg s0 (op_prog env cfg oper # ts) s" if "pool_run env cfg s0 ts s"
| run_spawn: "pool_run env cfg s0 (spawn_prog env sp # ts) (s\<lparr>pl_spawned := sps\<rparr>)"
    if "pool_run env cfg s0 ts s" "pl_spawned s = sp # sps"
| run_step: "pool_run env cfg s0 (ts[i := fst (f s)]) (snd (f s))"
    if "pool_run env cfg s0 ts s" "i < length ts" "ts ! i = Act f"

text \<open>What every step of every program keeps holds in every run.\<close>

lemma pool_run_keeps:
  assumes "pool_run env cfg s0 ts s" and "I s0" and "\<And>oper. pkeeps I (op_prog env cfg oper)"
    and "\<And>s sp sps. I s \<Longrightarrow> pl_spawned s = sp # sps \<Longrightarrow> pkeeps I (spawn_prog env sp) \<and> I (s\<lparr>pl_spawned := sps\<rparr>)"
  shows "I s \<and> (\<forall>t \<in> set ts. pkeeps I t)"
  using assms(1)
proof (induction rule: pool_run.induct)
  case (run_step ts s i f)
  then have "pkeeps I (Act f)" using nth_mem [of i ts] by auto
  then have "I (snd (f s)) \<and> pkeeps I (fst (f s))" using run_step.IH by (simp add: pkeeps_Act_iff)
  then show ?case using run_step.IH by (auto dest: set_update_subset_insert [THEN subsetD])
qed (use assms(2-4) in auto)

end
