(* ===== verification/Pool_Invariants.thy ===== *)
theory Pool_Invariants
  imports Pool_Model "HOL-Library.Sublist"
begin

text \<open>
  The invariant of a pool and that every section under its mutex keeps it: hosts are known under their
  own ids and placeholders only while they are created, slot maps have no repeated slot, a host that is
  being stopped holds no reservation, a meter's ready time is part of its running time, a host drains for
  one of two reasons, placeholders are numbered below the counter, and the backoff of creations stays
  within its bounds.
\<close>

section \<open>The invariant\<close>

definition placeholder_id :: "string \<Rightarrow> bool" where
  "placeholder_id i \<longleftrightarrow> prefix ''creating-'' i"

definition usage_ok :: "usage \<Rightarrow> bool" where
  "usage_ok u \<longleftrightarrow> 0 \<le> us_ready u \<and> us_ready u \<le> us_running u \<and> 0 \<le> us_readyBusy u \<and> us_readyBusy u \<le> us_busy u"

definition meter_ok :: "meter \<Rightarrow> bool" where
  "meter_ok m \<longleftrightarrow> usage_ok (mt_used m) \<and> 0 \<le> mt_busy m \<and> (mt_ready m \<longrightarrow> mt_running m)"

definition named_ok :: "string \<Rightarrow> hostState \<Rightarrow> bool" where
  "named_ok i h \<longleftrightarrow>
     (if hs_phase h = PhaseCreating then placeholder_id i
      else \<not> placeholder_id i \<and> ho_ID (hs_host h) = i \<and> \<not> invalid_host_id i)"

definition host_ok :: "string \<Rightarrow> hostState \<Rightarrow> bool" where
  "host_ok i h \<longleftrightarrow>
     named_ok i h \<and> gomap_ok (hs_slots h) \<and> gomap_ok (hs_reserved h)
     \<and> (hs_phase h = PhaseStopping \<longrightarrow> hs_reserved h = []) \<and> meter_ok (hs_meter h)
     \<and> hs_drainReason h \<in> {[], ''image_mismatch'', ''image_stale''}"

definition hosts_ok :: "hostState gomap \<Rightarrow> bool" where
  "hosts_ok hs \<longleftrightarrow> gomap_ok hs \<and> (\<forall>i h. map_of hs i = Some h \<longrightarrow> host_ok i h)"

definition seq_ok :: "pool \<Rightarrow> bool" where
  "seq_ok p \<longleftrightarrow>
     0 \<le> po_createSeq p
     \<and> (\<forall>i h. map_of (po_hosts p) i = Some h \<longrightarrow> placeholder_id i \<longrightarrow> (\<exists>k. 1 \<le> k \<and> k \<le> po_createSeq p \<and> i = ''creating-'' @ itoa k))"

definition pool_ok :: "pool \<Rightarrow> bool" where
  "pool_ok p \<longleftrightarrow> hosts_ok (po_hosts p) \<and> seq_ok p \<and> 0 \<le> po_createBackoff p \<and> po_createBackoff p \<le> maximumCreateBackoff"

named_theorems pool_ok_rules \<open>sections that keep the invariant of a pool\<close>

lemma pool_ok_cong:
  "pool_ok p \<Longrightarrow> po_hosts p' = po_hosts p \<Longrightarrow> po_createBackoff p' = po_createBackoff p
   \<Longrightarrow> po_createSeq p' = po_createSeq p \<Longrightarrow> pool_ok p'"
  by (simp add: pool_ok_def seq_ok_def)

lemma pool_ok_host: "pool_ok p \<Longrightarrow> map_of (po_hosts p) i = Some h \<Longrightarrow> host_ok i h"
  by (simp add: pool_ok_def hosts_ok_def)

lemma pool_ok_new: "pool_ok (new_pool cfg now)"
  by (simp add: pool_ok_def seq_ok_def hosts_ok_def new_pool_def maximumCreateBackoff_def)

lemma pool_ok_on_health [simp]: "pool_ok (on_health f p) \<longleftrightarrow> pool_ok p"
  by (simp add: pool_ok_def seq_ok_def on_health_def)

lemma on_health_fields [simp]:
  "po_hosts (on_health f p) = po_hosts p" "po_createBackoff (on_health f p) = po_createBackoff p" "po_image (on_health f p) = po_image p"
  "po_createSeq (on_health f p) = po_createSeq p"
  by (simp_all add: on_health_def)

lemma on_host_fields [simp]:
  "po_createBackoff (on_host i f p) = po_createBackoff p" "po_image (on_host i f p) = po_image p"
  "po_createNotBefore (on_host i f p) = po_createNotBefore p" "po_createSeq (on_host i f p) = po_createSeq p"
  by (simp_all add: on_host_def split: option.splits)

lemma accrue_fields [simp]:
  "po_createBackoff (accrue now p) = po_createBackoff p" "po_image (accrue now p) = po_image p"
  "po_createNotBefore (accrue now p) = po_createNotBefore p" "po_createSeq (accrue now p) = po_createSeq p"
  by (simp_all add: accrue_def)

lemma map_of_on_host:
  "map_of (po_hosts (on_host i f p)) j = (if j = i then map_option f (map_of (po_hosts p) i) else map_of (po_hosts p) j)"
  by (auto simp: on_host_def split: option.splits)

lemma map_of_map_snd: "map_of (map (\<lambda>(k, v). (k, f k v)) m) k = map_option (f k) (map_of m k)"
  by (induction m) auto

lemma map_of_accrue: "map_of (po_hosts (accrue now p)) i = map_option (accrue_host p now) (map_of (po_hosts p) i)"
  using map_of_map_snd [of "\<lambda>_. accrue_host p now" "po_hosts p" i] by (simp add: accrue_def)

lemma pool_ok_on_host:
  assumes "pool_ok p" and "\<And>h. map_of (po_hosts p) i = Some h \<Longrightarrow> host_ok i h \<Longrightarrow> host_ok i (f h)"
  shows "pool_ok (on_host i f p)"
  using assms by (auto simp: pool_ok_def seq_ok_def hosts_ok_def on_host_def split: option.splits)

lemma pool_ok_update:
  assumes "pool_ok p" and "host_ok i h" and "\<not> placeholder_id i"
  shows "pool_ok (p\<lparr>po_hosts := AList.update i h (po_hosts p)\<rparr>)"
  using assms by (auto simp: pool_ok_def seq_ok_def hosts_ok_def)

section \<open>Meters\<close>

lemma seconds_mono: "0 < elapsed \<Longrightarrow> 0 \<le> busy \<Longrightarrow> (0 :: rat) \<le> of_int busy * seconds elapsed"
  by (simp add: seconds_def)

lemma meter_elapsed_ok: "meter_ok m \<Longrightarrow> 0 < elapsed \<Longrightarrow> usage_ok (meter_elapsed elapsed m)"
  using seconds_mono [of elapsed "mt_busy m"]
  by (auto simp: meter_ok_def meter_elapsed_def usage_ok_def Let_def)

lemma busy_slots_nonneg: "0 \<le> busy_slots h"
  by (simp add: busy_slots_def occupied_def)

lemma accrue_host_ok: "host_ok i h \<Longrightarrow> host_ok i (accrue_host p now h)"
  using meter_elapsed_ok [of "hs_meter h" "time_sub now (mt_at (hs_meter h))"] busy_slots_nonneg [of h]
  by (auto simp: host_ok_def named_ok_def accrue_host_def Let_def meter_ok_def)

lemma pool_ok_accrue [pool_ok_rules]: "pool_ok p \<Longrightarrow> pool_ok (accrue now p)"
proof -
  assume p: "pool_ok p"
  have "gomap_ok (po_hosts (accrue now p))" using p by (simp add: accrue_def pool_ok_def hosts_ok_def)
  moreover have "host_ok i h" if "map_of (po_hosts (accrue now p)) i = Some h" for i h
    using that pool_ok_host [OF p] accrue_host_ok by (auto simp: map_of_accrue)
  moreover have "seq_ok (accrue now p)" using p by (auto simp: seq_ok_def pool_ok_def map_of_accrue)
  ultimately show ?thesis using p by (simp add: pool_ok_def hosts_ok_def)
qed

lemma pool_ok_forget [pool_ok_rules]: "pool_ok p \<Longrightarrow> pool_ok (forget i now p)"
proof -
  assume "pool_ok p"
  then have "pool_ok (accrue now p)" by (rule pool_ok_accrue)
  then show ?thesis using \<open>pool_ok p\<close> by (auto simp: forget_def Let_def pool_ok_def seq_ok_def hosts_ok_def split: option.splits if_splits)
qed

section \<open>Slots\<close>

lemma host_ok_simps [simp]:
  "host_ok i (h\<lparr>hs_emptySince := t\<rparr>) = host_ok i h" "host_ok i (h\<lparr>hs_notBefore := t\<rparr>) = host_ok i h"
  "host_ok i (h\<lparr>hs_lastContact := t\<rparr>) = host_ok i h" "host_ok i (h\<lparr>hs_lastListed := t\<rparr>) = host_ok i h"
  "host_ok i (h\<lparr>hs_warnedAt := t\<rparr>) = host_ok i h" "host_ok i (h\<lparr>hs_changedAt := t\<rparr>) = host_ok i h"
  "host_ok i (h\<lparr>hs_info := info\<rparr>) = host_ok i h"
  "host_ok i (h\<lparr>hs_everReady := b\<rparr>) = host_ok i h" "host_ok i (h\<lparr>hs_ownBoot := b\<rparr>) = host_ok i h"
  "host_ok i (h\<lparr>hs_bootSince := t\<rparr>) = host_ok i h" "host_ok i (h\<lparr>hs_runningSince := t\<rparr>) = host_ok i h"
  "host_ok i (h\<lparr>hs_billed := x\<rparr>) = host_ok i h" "host_ok i (h\<lparr>hs_stoppedSince := t\<rparr>) = host_ok i h"
  "host_ok i (h\<lparr>hs_startedByPool := b\<rparr>) = host_ok i h" "host_ok i (h\<lparr>hs_startFailures := n\<rparr>) = host_ok i h"
  "host_ok i (h\<lparr>hs_createdImage := r\<rparr>) = host_ok i h" "host_ok i (h\<lparr>hs_billedBefore := x\<rparr>) = host_ok i h"
  "host_ok i (on_hostHealth g h) = host_ok i h"
  by (simp_all add: host_ok_def named_ok_def on_hostHealth_def)

lemma host_ok_slots: "host_ok i h \<Longrightarrow> gomap_ok m \<Longrightarrow> host_ok i (h\<lparr>hs_slots := m\<rparr>)"
  by (simp add: host_ok_def named_ok_def)

lemma host_ok_reserved:
  "host_ok i h \<Longrightarrow> gomap_ok m \<Longrightarrow> (hs_phase h = PhaseStopping \<Longrightarrow> m = []) \<Longrightarrow> host_ok i (h\<lparr>hs_reserved := m\<rparr>)"
  by (simp add: host_ok_def named_ok_def)

lemma host_ok_drain: "host_ok i h \<Longrightarrow> r \<in> {''image_mismatch'', ''image_stale''} \<Longrightarrow> host_ok i (h\<lparr>hs_drainReason := r\<rparr>)"
  by (auto simp: host_ok_def named_ok_def)

lemma host_ok_phase:
  "host_ok i h \<Longrightarrow> hs_phase h \<noteq> PhaseCreating \<Longrightarrow> ph \<noteq> PhaseCreating \<Longrightarrow> (ph = PhaseStopping \<Longrightarrow> hs_reserved h = [])
   \<Longrightarrow> host_ok i (h\<lparr>hs_phase := ph\<rparr>)"
  by (simp add: host_ok_def named_ok_def)

lemma host_okD:
  assumes "host_ok i h"
  shows "gomap_ok (hs_slots h)" "gomap_ok (hs_reserved h)" "hs_phase h = PhaseStopping \<Longrightarrow> hs_reserved h = []"
    "hs_phase h \<noteq> PhaseCreating \<Longrightarrow> ho_ID (hs_host h) = i" "hs_phase h \<noteq> PhaseCreating \<longleftrightarrow> \<not> placeholder_id i"
  using assms by (auto simp: host_ok_def named_ok_def split: if_splits)

lemmas host_ok_intros = host_ok_slots host_ok_reserved gomap_ok_update gomap_ok_delete host_okD(1,2)

lemma delete_Nil [simp]: "AList.delete k [] = []"
  by simp

lemma reserve_loop_in:
  "reserve_loop cfg now p is best = Some (i, h) \<Longrightarrow>
     best = Some (i, h) \<or> (map_of (po_hosts p) i = Some h \<and> takesLeases cfg now h \<and> freeCount h \<noteq> 0)"
  by (induction cfg now p "is" best rule: reserve_loop.induct) (auto split: option.splits if_splits)

lemma pool_ok_reserve [pool_ok_rules]: "pool_ok p \<Longrightarrow> pool_ok (snd (reserve cfg l now p))"
  by (auto simp: reserve_def Let_def takesLeases_def split: option.splits dest!: reserve_loop_in
      intro!: pool_ok_accrue pool_ok_on_host host_ok_intros)

lemma pool_ok_release [pool_ok_rules]: "pool_ok p \<Longrightarrow> pool_ok (release i n now p)"
  unfolding release_def by (intro pool_ok_accrue pool_ok_on_host host_ok_intros) (auto simp: host_okD)

lemma pool_ok_commit [pool_ok_rules]: "pool_ok p \<Longrightarrow> pool_ok (snd (commit cfg i n s l now p))"
proof -
  assume p: "pool_ok p"
  have "pool_ok (on_host i (\<lambda>h. on_hostHealth (\<lambda>e. e\<lparr>hh_slotFailures := 0\<rparr>)
                 (h\<lparr>hs_reserved := AList.delete n (hs_reserved h), hs_slots := AList.update n s' (hs_slots h),
                    hs_lastContact := now, hs_emptySince := zeroTime\<rparr>)) p)" for s'
    by (rule pool_ok_on_host [OF p]) (auto intro!: host_ok_intros dest: host_okD)
  then show ?thesis unfolding commit_def Let_def snd_conv pool_ok_on_health
    by (intro pool_ok_accrue) (rule pool_ok_cong, assumption, simp_all)
qed

lemma pool_ok_holdSuspect [pool_ok_rules]: "pool_ok p \<Longrightarrow> pool_ok (holdSuspect cfg i n l r now p)"
  unfolding holdSuspect_def
  by (intro pool_ok_accrue pool_ok_on_host) (auto intro!: host_ok_intros dest: host_okD simp: on_hostHealth_def [symmetric], auto simp: on_hostHealth_def dest: host_okD)

lemma host_ok_trackForeign [simp]: "host_ok i (trackForeign cfg now h) = host_ok i h"
  by (simp add: trackForeign_def)

lemma pool_ok_markForeign [pool_ok_rules]: "pool_ok p \<Longrightarrow> pool_ok (markForeign cfg i n now p)"
  unfolding markForeign_def by (intro pool_ok_accrue pool_ok_on_host) (auto intro!: host_ok_intros dest: host_okD)

lemma pool_ok_refuseHost [pool_ok_rules]: "pool_ok p \<Longrightarrow> pool_ok (refuseHost i r now p)"
  unfolding refuseHost_def Let_def
  by (intro pool_ok_accrue pool_ok_on_host) (auto intro!: host_ok_phase host_ok_drain)

lemma pool_ok_cleared [pool_ok_rules]: "pool_ok p \<Longrightarrow> pool_ok (cleared i n l now p)"
  unfolding cleared_def Let_def
  by (auto split: option.splits intro!: pool_ok_accrue pool_ok_on_host host_ok_intros dest: host_okD)

lemma pool_ok_noteFull [pool_ok_rules]: "pool_ok p \<Longrightarrow> pool_ok (snd (noteFull cfg now p))"
  unfolding noteFull_def Let_def snd_conv by (rule pool_ok_cong) simp_all

section \<open>Hosts on their way\<close>

lemma host_ok_new: "host_ok i (new_host h PhaseCreating now) \<longleftrightarrow> placeholder_id i"
  "host_ok i (new_host h PhaseBooting now) \<longleftrightarrow> \<not> placeholder_id i \<and> ho_ID h = i \<and> \<not> invalid_host_id i"
  by (auto simp: host_ok_def named_ok_def new_host_def meter_ok_def zeroMeter_def usage_ok_def zeroUsage_def)

lemma not_creating: "host_ok i h \<Longrightarrow> \<not> placeholder_id i \<Longrightarrow> hs_phase h \<noteq> PhaseCreating"
  using host_okD(5) by blast

lemma startable_loop_in:
  "startable_loop cfg now p is best = Some (i, h) \<Longrightarrow>
     best = Some (i, h) \<or> (map_of (po_hosts p) i = Some h \<and> hs_phase h = PhaseStopped)"
  by (induction cfg now p "is" best rule: startable_loop.induct) (auto split: option.splits if_splits)

lemma startable_in: "startable cfg now p = Some (i, h) \<Longrightarrow> map_of (po_hosts p) i = Some h \<and> hs_phase h = PhaseStopped"
  by (auto simp: startable_def split: if_splits dest: startable_loop_in)

definition spawn_ok :: "spawn \<Rightarrow> bool" where
  "spawn_ok sp = (case sp of SpawnStart i \<Rightarrow> \<not> placeholder_id i | SpawnCreate i img \<Rightarrow> True)"

lemma grow_starts_ok:
  "pool_ok p \<Longrightarrow> list_all spawn_ok sp \<Longrightarrow> grow_starts cfg now n p sp = (w, sp', p') \<Longrightarrow> pool_ok p' \<and> list_all spawn_ok sp'"
proof (induction cfg now n p sp rule: grow_starts.induct)
  case (2 cfg now want p sp)
  show ?case
  proof (cases "startable cfg now p")
    case None
    then show ?thesis using 2 by simp
  next
    case (Some ih)
    obtain i h where ih: "ih = (i, h)" by (cases ih)
    have h: "map_of (po_hosts p) i = Some h" "hs_phase h = PhaseStopped" using startable_in Some ih by auto
    then have "host_ok i h" using pool_ok_host 2(2) by blast
    then have "ho_ID (hs_host h) = i" "\<not> placeholder_id i" using h(2) host_okD(4,5) [of i h] by auto
    moreover have "pool_ok (on_host i (\<lambda>h. h\<lparr>hs_phase := PhaseStarting, hs_changedAt := now\<rparr>) p)"
      using 2(2) h by (intro pool_ok_on_host) (auto intro!: host_ok_phase)
    ultimately show ?thesis using 2(1) [OF Some ih [symmetric]] 2(3,4) Some ih by (simp add: spawn_ok_def)
  qed
qed auto

lemma placeholder_creating: "placeholder_id (''creating-'' @ s)"
  by (simp add: placeholder_id_def)

lemma pool_ok_create:
  assumes "pool_ok p" and "n = po_createSeq p + 1"
  shows "pool_ok (p\<lparr>po_createSeq := n, po_hosts := AList.update (''creating-'' @ itoa n) (new_host zeroHost PhaseCreating now) (po_hosts p)\<rparr>)"
proof -
  let ?p = "p\<lparr>po_createSeq := n, po_hosts := AList.update (''creating-'' @ itoa n) (new_host zeroHost PhaseCreating now) (po_hosts p)\<rparr>"
  have "hosts_ok (po_hosts ?p)"
    using assms(1) placeholder_creating by (auto simp: pool_ok_def hosts_ok_def host_ok_new)
  moreover have "\<exists>k. 1 \<le> k \<and> k \<le> n \<and> i = ''creating-'' @ itoa k" if known: "map_of (po_hosts ?p) i = Some h" "placeholder_id i" for i h
  proof (cases "i = ''creating-'' @ itoa n")
    case True
    then show ?thesis using assms by (intro exI [of _ n]) (simp add: pool_ok_def seq_ok_def)
  next
    case False
    then have "map_of (po_hosts p) i = Some h" using known(1) by simp
    then obtain k where "1 \<le> k" "k \<le> po_createSeq p" "i = ''creating-'' @ itoa k"
      using assms(1) known(2) by (auto simp: pool_ok_def seq_ok_def)
    then show ?thesis using assms(2) by (intro exI [of _ k]) simp
  qed
  ultimately show ?thesis using assms by (simp add: pool_ok_def seq_ok_def)
qed

lemma grow_creates_ok:
  "pool_ok p \<Longrightarrow> list_all spawn_ok sp \<Longrightarrow> grow_creates now n p sp = (sp', p') \<Longrightarrow> pool_ok p' \<and> list_all spawn_ok sp'"
proof (induction now n p sp rule: grow_creates.induct)
  case (2 now want p sp)
  show ?case using 2(1) [OF refl refl pool_ok_create [OF 2(2) refl]] 2(3,4) by (simp add: Let_def spawn_ok_def)
qed auto

lemma pool_ok_grow:
  assumes "pool_ok p" and "grow cfg now p = (sp, p')"
  shows "pool_ok p' \<and> list_all spawn_ok sp"
proof (cases "fa_CanCreate (pc_facts cfg)")
  case True
  obtain w sp1 p1 where 1: "grow_starts cfg now (nat (grow_want cfg p)) (p\<lparr>po_demand := 0\<rparr>) [] = (w, sp1, p1)"
    by (metis prod_cases3)
  have "pool_ok (p\<lparr>po_demand := 0\<rparr>)" using assms(1) by (rule pool_ok_cong) simp_all
  then have "pool_ok p1" "list_all spawn_ok sp1" using grow_starts_ok [OF _ _ 1] by simp_all
  moreover have "grow_creates now (if now < po_createNotBefore p1 then 0
      else nat (min (int w) (max 0 (pc_MaxHosts cfg - host_count p1)))) p1 sp1 = (sp, p')"
    using assms(2) True 1 by (simp add: grow_def Let_def)
  ultimately show ?thesis by (rule grow_creates_ok)
qed (use assms in \<open>simp add: grow_def\<close>)

lemma pool_ok_start_done:
  assumes "pool_ok p" and "\<not> placeholder_id i"
  shows "pool_ok (start_done err i now p)"
proof (cases "map_of (po_hosts p) i")
  case (Some h)
  let ?p0 = "on_host i (\<lambda>h. h\<lparr>hs_changedAt := now\<rparr>) p"
  have p0: "pool_ok ?p0" using assms(1) by (intro pool_ok_on_host) auto
  have failed: "pool_ok (on_host i (\<lambda>h. h\<lparr>hs_phase := PhaseStopped,
      hs_startFailures := (if IsCapacity err then maxStartFailures else hs_startFailures h + 1), hs_notBefore := now + hostRefusalBackoff\<rparr>) ?p0)"
    by (rule pool_ok_on_host [OF p0]) (use assms(2) in \<open>auto intro!: host_ok_phase dest: not_creating\<close>)
  have begun: "pool_ok (on_host i (\<lambda>h. h\<lparr>hs_phase := PhaseBooting, hs_bootSince := now, hs_runningSince := now, hs_ownBoot := True,
      hs_everReady := False, hs_startedByPool := True, hs_lastContact := zeroTime, hs_stoppedSince := zeroTime, hs_notBefore := zeroTime\<rparr>) ?p0)"
    by (rule pool_ok_on_host [OF p0]) (use assms(2) in \<open>auto intro!: host_ok_phase dest: not_creating\<close>)
  show ?thesis
    unfolding start_done_def Some option.case Let_def
    by (rule pool_ok_cong [OF pool_ok_accrue], cases err)
      (simp_all, rule pool_ok_cong [OF begun], simp_all, rule pool_ok_cong [OF failed], simp_all)
qed (use assms in \<open>simp add: start_done_def\<close>)

lemma pool_ok_create_done:
  assumes "pool_ok p" and "\<And>h. created = Inr h \<Longrightarrow> \<not> placeholder_id (ho_ID h)"
  shows "pool_ok (create_done created placeholder img now p)"
proof -
  have p0: "pool_ok (forget placeholder now p)" using assms(1) by (rule pool_ok_forget)
  have failed: "pool_ok q \<Longrightarrow> pool_ok (create_failed err img now q)" for err q
    by (auto simp: create_failed_def Let_def pool_ok_def seq_ok_def initialCreateBackoff_def maximumCreateBackoff_def)
  have made: "pool_ok (create_succeeded h img now q)" if q: "pool_ok q" and h: "\<not> placeholder_id (ho_ID h)" for h q
  proof -
    have q1: "pool_ok (on_health launchSucceeded (q\<lparr>po_createBackoff := 0\<rparr>))"
      using q by (simp add: pool_ok_def seq_ok_def maximumCreateBackoff_def)
    let ?q1 = "on_health launchSucceeded (q\<lparr>po_createBackoff := 0\<rparr>)"
    have known: "pool_ok (on_host (ho_ID h) (\<lambda>e. e\<lparr>hs_host := h, hs_ownBoot := True, hs_createdImage := img\<rparr>) ?q1)"
      by (rule pool_ok_on_host [OF q1]) (auto simp: host_ok_def named_ok_def split: if_splits)
    have fresh: "pool_ok (?q1\<lparr>po_hosts := AList.update (ho_ID h) ((new_host h PhaseBooting now)
        \<lparr>hs_ownBoot := True, hs_createdImage := img, hs_runningSince := firstNonZero [ho_CreatedAt h, now]\<rparr>) (po_hosts ?q1)\<rparr>)"
      if "\<not> invalid_host_id (ho_ID h)"
      using pool_ok_update [OF q1] host_ok_new(2) h that by simp
    show ?thesis unfolding create_succeeded_def Let_def using q1 known fresh by (auto split: option.splits)
  qed
  show ?thesis unfolding create_done_def Let_def
    by (rule pool_ok_accrue) (use p0 failed made assms(2) in \<open>auto split: sum.split\<close>)
qed

section \<open>Following and returning hosts\<close>

lemma host_ok_markStopped: "host_ok i h \<Longrightarrow> hs_phase h \<noteq> PhaseCreating \<Longrightarrow> host_ok i (markStopped cfg t h)"
  unfolding markStopped_def by (auto simp: host_ok_def named_ok_def)

lemma pool_ok_reconcile: "pool_ok p \<Longrightarrow> pool_ok (reconcile_host cfg now i p)"
proof (cases "map_of (po_hosts p) i")
  case (Some h)
  assume p: "pool_ok p"
  show ?thesis
    unfolding reconcile_host_def Some option.case Let_def
    using p Some by (auto simp: map_of_on_host intro!: pool_ok_on_host host_ok_phase host_ok_markStopped)
qed (simp add: reconcile_host_def)

lemma pool_ok_listed_host:
  assumes "pool_ok p" and "\<not> placeholder_id (ho_ID h)"
  shows "pool_ok (listed_host cfg started now h p)"
proof -
  have "pool_ok (on_host (ho_ID h) (\<lambda>e. e\<lparr>hs_host := h\<rparr>) p)" if "\<not> invalid_host_id (ho_ID h)"
    using assms that by (intro pool_ok_on_host) (auto simp: host_ok_def named_ok_def)
  moreover have "host_ok (ho_ID h) (found_host cfg now h)" if "\<not> invalid_host_id (ho_ID h)"
    using assms(2) that by (auto simp: found_host_def Let_def host_ok_new intro!: host_ok_phase) (simp add: new_host_def)
  ultimately show ?thesis using assms
    by (auto simp: listed_host_def Let_def split: option.splits intro: pool_ok_reconcile pool_ok_update)
qed

lemma pool_ok_fold: "pool_ok p \<Longrightarrow> (\<And>x q. x \<in> set xs \<Longrightarrow> pool_ok q \<Longrightarrow> pool_ok (f x q)) \<Longrightarrow> pool_ok (fold f xs p)"
  by (induction xs arbitrary: p) auto

lemma pool_ok_hosts_listed:
  assumes "pool_ok p" and "\<And>h. h \<in> set listed \<Longrightarrow> \<not> placeholder_id (ho_ID h)"
  shows "pool_ok (hosts_listed cfg started listed now p)"
  unfolding hosts_listed_def Let_def
  by (rule pool_ok_cong [OF pool_ok_accrue [OF pool_ok_fold [OF pool_ok_fold]]])
    (use assms in \<open>auto intro: pool_ok_listed_host pool_ok_forget\<close>)

lemma pool_ok_source_failed [pool_ok_rules]: "pool_ok p \<Longrightarrow> pool_ok (source_failed now p)"
  by (simp add: source_failed_def)

section \<open>Following the agents\<close>

lemma pool_ok_probed_host: "pool_ok p \<Longrightarrow> pool_ok (probed_host cfg now r p)"
proof (cases "snd r")
  case (Inr info)
  assume p: "pool_ok p"
  let ?i = "ho_ID (fst r)"
  let ?p1 = "(on_host ?i (\<lambda>h. h\<lparr>hs_lastContact := now, hs_info := info\<rparr>) p)\<lparr>po_slotsSeen := max (po_slotsSeen p) (hi_Slots info)\<rparr>"
  have p1: "pool_ok ?p1" by (rule pool_ok_cong [OF pool_ok_on_host [OF p]]) auto
  have change: "pool_ok (on_host ?i f ?p1)"
    if "\<exists>h. map_of (po_hosts p) ?i = Some h \<and> hs_phase h = PhaseBooting"
      and "\<And>h. hs_phase h = PhaseBooting \<Longrightarrow> host_ok ?i h \<Longrightarrow> host_ok ?i (f h)" for f
    by (rule pool_ok_on_host [OF p1]) (use that in \<open>auto simp: map_of_on_host\<close>)
  have room: "pool_ok q \<Longrightarrow> pool_ok (q\<lparr>po_room := True\<rparr>)" for q by (rule pool_ok_cong) simp_all
  show ?thesis
    unfolding probed_host_def Inr sum.case Let_def
    using p p1 by (auto split: option.splits intro!: change room host_ok_phase host_ok_drain)
qed (simp add: probed_host_def)

lemma pool_ok_hosts_probed: "pool_ok p \<Longrightarrow> pool_ok (hosts_probed cfg results now p)"
  unfolding hosts_probed_def by (intro pool_ok_accrue pool_ok_fold pool_ok_probed_host)

lemma gomap_ok_slot_map: "gomap_ok (slot_map slots)"
proof -
  have "gomap_ok m \<Longrightarrow> gomap_ok (fold (\<lambda>s. AList.update (sl_Index s) s) slots m)" for m
    by (induction slots arbitrary: m) auto
  then show ?thesis by (simp add: slot_map_def)
qed

lemma pool_ok_listed_slots: "pool_ok p \<Longrightarrow> pool_ok (listed_slots cfg now r p)"
  unfolding listed_slots_def Let_def
  by (cases "snd r") (auto intro!: pool_ok_on_host host_ok_slots gomap_ok_slot_map)

lemma pool_ok_slots_listed: "pool_ok p \<Longrightarrow> pool_ok (slots_listed cfg results now p)"
  unfolding slots_listed_def by (intro pool_ok_accrue pool_ok_fold pool_ok_listed_slots)

lemma replace_loop_in:
  "replace_loop cfg p is best current = Some (Some (i, h), c) \<Longrightarrow>
     best = Some (i, h) \<or> (map_of (po_hosts p) i = Some h \<and> hs_phase h = PhaseReady)"
  by (induction cfg p "is" best current rule: replace_loop.induct) (auto split: option.splits if_splits)

lemma pool_ok_replaceStale [pool_ok_rules]: "pool_ok p \<Longrightarrow> pool_ok (replaceStale cfg now p)"
proof -
  assume p: "pool_ok p"
  have drained: "pool_ok ((accrue now (on_host i (\<lambda>h. h\<lparr>hs_phase := PhaseDraining, hs_drainReason := ''image_stale''\<rparr>) p))
      \<lparr>po_replaceNotBefore := t, po_imageReplaced := n\<rparr>)"
    if "map_of (po_hosts p) i = Some h" "hs_phase h = PhaseReady" for i h t n
    by (rule pool_ok_cong [OF pool_ok_accrue [OF pool_ok_on_host [OF p]]]) (use that in \<open>auto intro!: host_ok_phase host_ok_drain\<close>)
  show ?thesis
    unfolding replaceStale_def using p by (auto split: option.splits dest!: replace_loop_in intro!: drained)
qed

section \<open>Returning hosts\<close>

text \<open>What a candidate for the return is: a host of the pool, by its own id, in a phase it can go back to.\<close>

definition candidate_ok :: "returnCandidate \<Rightarrow> bool" where
  "candidate_ok c \<longleftrightarrow>
     \<not> placeholder_id (ho_ID (rc_host c)) \<and> rc_previous c \<in> {PhaseBooting, PhaseReady, PhaseDraining, PhaseStopped}"

lemma return_reason_phase:
  "return_reason cfg p base now i h = (reason, stop) \<Longrightarrow> reason \<noteq> [] \<Longrightarrow>
     hs_phase h \<in> {PhaseBooting, PhaseReady, PhaseDraining} \<and> (stop \<longrightarrow> hs_phase h = PhaseReady \<and> hs_reserved h = [])"
  by (auto simp: return_reason_def boot_expired_def silent_def known_empty_def Let_def split: if_splits)

lemma note_boot_failure_fields [simp]:
  "po_hosts (note_boot_failure cfg now i h p) = po_hosts p" "po_createBackoff (note_boot_failure cfg now i h p) = po_createBackoff p"
  "po_createSeq (note_boot_failure cfg now i h p) = po_createSeq p"
  by (simp_all add: note_boot_failure_def)

lemma return_host_ok:
  assumes "list_all candidate_ok cs" and p: "pool_ok p" and eq: "return_host cfg base now i (cs, p) = (cs', p')"
  shows "list_all candidate_ok cs' \<and> pool_ok p'"
proof (cases "map_of (po_hosts p) i")
  case None
  then show ?thesis using assms by (simp add: return_host_def)
next
  case (Some h)
  obtain reason stop where r: "return_reason cfg p base now i h = (reason, stop)" by fastforce
  have p1: "pool_ok (note_boot_failure cfg now i h p)" using p by (rule pool_ok_cong) simp_all
  show ?thesis
  proof (cases "reason = []")
    case True
    then show ?thesis using assms(1) p1 eq Some r by (simp add: return_host_def)
  next
    case False
    have h: "host_ok i h" using pool_ok_host [OF p Some] .
    have ph: "hs_phase h \<in> {PhaseBooting, PhaseReady, PhaseDraining}" "stop \<Longrightarrow> hs_reserved h = []"
      using return_reason_phase [OF r False] by auto
    then have "candidate_ok \<lparr>rc_host = hs_host h, rc_previous = hs_phase h, rc_reason = reason, rc_stop = stop\<rparr>"
      using host_okD(4,5) [OF h] by (auto simp: candidate_ok_def)
    moreover have "pool_ok (on_host i (\<lambda>h. h\<lparr>hs_phase := (if stop then PhaseStopping else PhaseDeleting)\<rparr>) (note_boot_failure cfg now i h p))"
      by (rule pool_ok_on_host [OF p1]) (use Some ph in \<open>auto intro!: host_ok_phase\<close>)
    ultimately show ?thesis using assms(1) eq Some r False by (auto simp: return_host_def)
  qed
qed

lemma return_hosts_ok:
  "list_all candidate_ok cs \<Longrightarrow> pool_ok p \<Longrightarrow> fold (return_host cfg base now) is (cs, p) = (cs', p') \<Longrightarrow>
     list_all candidate_ok cs' \<and> pool_ok p'"
proof (induction "is" arbitrary: cs p)
  case (Cons i "is")
  obtain cs1 p1 where 1: "return_host cfg base now i (cs, p) = (cs1, p1)" by fastforce
  show ?case using Cons.IH [of cs1 p1] Cons.prems(3) return_host_ok [OF Cons.prems(1,2) 1] 1 by simp
qed simp

lemma stopped_loop_in:
  "(i, c) \<in> set (stopped_loop cfg now p hs n) \<Longrightarrow> \<exists>h. (i, h) \<in> set hs \<and> rc_host c = hs_host h \<and> rc_previous c = PhaseStopped \<and> \<not> rc_stop c"
  by (induction cfg now p hs n rule: stopped_loop.induct) (auto simp: Let_def split: if_splits)

lemma stopped_hosts_in:
  assumes "pool_ok p" and "(i, h) \<in> set (stopped_hosts p)"
  shows "map_of (po_hosts p) i = Some h \<and> hs_phase h = PhaseStopped"
proof -
  have "gomap_ok (po_hosts p)" using assms(1) by (simp add: pool_ok_def hosts_ok_def)
  then show ?thesis using assms(2) by (auto simp: stopped_hosts_def gomap_in_set)
qed

lemma stoppedCandidates_ok:
  assumes p: "pool_ok p" and eq: "stoppedCandidates cfg now p = (cs, p')"
  shows "list_all candidate_ok cs \<and> pool_ok p'"
proof -
  let ?cs = "stopped_loop cfg now p (stopped_hosts p) 0"
  have known: "\<exists>h. host_ok i h \<and> hs_phase h = PhaseStopped \<and> rc_host c = hs_host h \<and> rc_previous c = PhaseStopped"
    if "(i, c) \<in> set ?cs" for i c
    using stopped_loop_in [OF that] stopped_hosts_in [OF p] pool_ok_host [OF p] by blast
  have own: "\<not> placeholder_id i \<and> candidate_ok c" if "(i, c) \<in> set ?cs" for i c
    using known [OF that] host_okD(4,5) by (fastforce simp: candidate_ok_def)
  have "pool_ok (fold (\<lambda>(i, c). on_host i (\<lambda>h. h\<lparr>hs_phase := PhaseDeleting\<rparr>)) ?cs p)"
    by (rule pool_ok_fold [OF p]) (use own in \<open>auto intro!: pool_ok_on_host host_ok_phase dest: not_creating\<close>)
  then show ?thesis using eq own by (auto simp: stoppedCandidates_def Let_def list_all_iff)
qed

lemma pool_ok_returnCandidates:
  assumes "pool_ok p" and "returnCandidates cfg now p = (cs, p')"
  shows "list_all candidate_ok cs \<and> pool_ok p'"
proof -
  obtain cs1 p1 where 1: "fold (return_host cfg (baseHosts cfg p) now) (sortedIDs p) ([], p) = (cs1, p1)" by fastforce
  obtain cs2 p2 where 2: "stoppedCandidates cfg now p1 = (cs2, p2)" by fastforce
  have "list_all candidate_ok cs1" "pool_ok p1" using return_hosts_ok [OF _ assms(1) 1] by simp_all
  then show ?thesis using stoppedCandidates_ok [OF _ 2] assms(2) 1 2 by (auto simp: returnCandidates_def intro: pool_ok_accrue)
qed

lemma pool_ok_restorePhase: "pool_ok p \<Longrightarrow> candidate_ok c \<Longrightarrow> pool_ok (restorePhase (ho_ID (rc_host c)) (rc_previous c) now p)"
  unfolding restorePhase_def
  by (intro pool_ok_accrue pool_ok_on_host) (auto simp: candidate_ok_def intro!: host_ok_phase dest: host_okD(3))

lemma pool_ok_host_returned [pool_ok_rules]: "pool_ok p \<Longrightarrow> pool_ok (host_returned cfg i now p)"
proof -
  assume p: "pool_ok p"
  have "pool_ok (forget i now (p\<lparr>po_returnedHours := x, po_retiredBefore := y\<rparr>))" for x y
    by (rule pool_ok_forget, rule pool_ok_cong [OF p]) simp_all
  then have "pool_ok (case map_of (po_hosts p) i of None \<Rightarrow> p | Some h \<Rightarrow> forget i now
        (p\<lparr>po_returnedHours := po_returnedHours p + hostBilled cfg h now, po_retiredBefore := po_retiredBefore p + hs_billedBefore h\<rparr>))"
    using p by (simp split: option.split)
  then show ?thesis unfolding host_returned_def Let_def by (rule pool_ok_cong) simp_all
qed

lemma pool_ok_host_stopped: "pool_ok p \<Longrightarrow> \<not> placeholder_id i \<Longrightarrow> pool_ok (host_stopped cfg i now p)"
  unfolding host_stopped_def Let_def
  by (rule pool_ok_cong [OF pool_ok_accrue [OF pool_ok_on_host]]) (auto intro!: host_ok_markStopped dest: not_creating)

section \<open>Reports\<close>

lemma pool_ok_warnStuck [pool_ok_rules]: "pool_ok p \<Longrightarrow> pool_ok (warnStuckStaticHosts cfg now p)"
  using map_of_map_snd [of "\<lambda>i h. if hs_phase h \<in> {PhaseBooting, PhaseDraining} \<and> time_sub now (hs_warnedAt h) > 5 * minute
           \<and> time_sub now (hs_firstSeen h) > pc_Tick cfg then h\<lparr>hs_warnedAt := now\<rparr> else h" "po_hosts p"]
  by (auto simp: warnStuckStaticHosts_def pool_ok_def seq_ok_def hosts_ok_def)

lemma pool_ok_checkHealth [pool_ok_rules]: "pool_ok p \<Longrightarrow> pool_ok (checkHealth cfg now p)"
  by (simp add: checkHealth_def Let_def split: prod.splits)

lemma pool_ok_tag_resolved [pool_ok_rules]: "pool_ok p \<Longrightarrow> pool_ok (tag_resolved cfg r now p)"
  by (auto simp: tag_resolved_def Let_def pool_ok_def seq_ok_def split: sum.splits)

lemma pool_ok_Status [pool_ok_rules]: "pool_ok p \<Longrightarrow> pool_ok (snd (pool_Status cfg now p))"
  by (simp add: pool_Status_def Let_def pool_ok_accrue)

end
