(* ===== verification/Pool_Run.thy ===== *)
theory Pool_Run
  imports Pool_Invariants
begin

text \<open>
  The invariant of a pool in every interleaving of launches, removals, inventories, reports, the
  maintenance loop and the goroutines that start and create hosts.
\<close>

section \<open>Steps that keep the invariant\<close>

definition sys_ok :: "'w poolSys \<Rightarrow> bool" where
  "sys_ok s \<longleftrightarrow> pool_ok (pl_pool s) \<and> list_all spawn_ok (pl_spawned s)"

text \<open>What is relied on of a host source: no host has an id that starts with \<^verbatim>\<open>creating-\<close>.\<close>

definition names_ok :: "'w poolEnv \<Rightarrow> bool" where
  "names_ok env \<longleftrightarrow>
     (\<forall>w hs. fst (pe_list env w) = Inr hs \<longrightarrow> list_all (\<lambda>h. \<not> placeholder_id (ho_ID h)) hs)
     \<and> (\<forall>img w h. fst (pe_create env img w) = Inr h \<longrightarrow> \<not> placeholder_id (ho_ID h))"

lemma pool_ok_locked [pkeeps_rules]:
  "(\<And>now p. pool_ok p \<Longrightarrow> pool_ok (snd (f now p))) \<Longrightarrow> pkeeps sys_ok (locked env f)"
  unfolding locked_def by (rule pkeeps_atom) (auto simp: sys_ok_def case_prod_beta)

lemma pool_ok_locked_do [pkeeps_rules]: "(\<And>now p. pool_ok p \<Longrightarrow> pool_ok (f now p)) \<Longrightarrow> pkeeps sys_ok (locked_do env f)"
  unfolding locked_do_def by (rule pool_ok_locked) simp

lemma pool_ok_locked_get [pkeeps_rules]: "pkeeps sys_ok (locked_get f)"
  unfolding locked_get_def by (rule pkeeps_atom) simp

lemma pool_ok_locked_set [pkeeps_rules]: "(\<And>p. pool_ok p \<Longrightarrow> pool_ok (f p)) \<Longrightarrow> pkeeps sys_ok (locked_set f)"
  unfolding locked_set_def by (rule pkeeps_atom) (simp add: sys_ok_def)

lemma pool_ok_outside [pkeeps_rules]: "pkeeps sys_ok (outside g)"
  unfolding outside_def by (rule pkeeps_atom) (simp add: sys_ok_def split: prod.split)

lemma pool_ok_outside_traced [pkeeps_rules]: "pkeeps sys_ok (outside_traced c g)"
  unfolding outside_traced_def by (rule pkeeps_atom) (simp add: sys_ok_def split: prod.split)

lemma pool_ok_now [pkeeps_rules]: "pkeeps sys_ok (pool_now env)"
  unfolding pool_now_def by (rule pool_ok_outside)

lemma pool_ok_batch: "(\<And>x. pkeeps I (call x)) \<Longrightarrow> pkeeps I (batch call xs)"
  by (induction xs) (auto intro!: pkeeps_rules)

lemma pool_ok_for_all: "(\<And>x. x \<in> set xs \<Longrightarrow> pkeeps I (f x)) \<Longrightarrow> pkeeps I (for_all f xs)"
  by (induction xs) (auto intro!: pkeeps_rules)

text \<open>When what follows depends on the answer.\<close>

lemma pool_ok_bind_outside: "(\<And>w. pkeeps sys_ok (k (fst (g w)))) \<Longrightarrow> pkeeps sys_ok (pbind (outside g) k)"
  unfolding outside_def by (rule pkeeps_bind_atom) (auto simp: sys_ok_def case_prod_beta)

lemma pool_ok_bind_outside_traced: "(\<And>w. pkeeps sys_ok (k (fst (g w)))) \<Longrightarrow> pkeeps sys_ok (pbind (outside_traced c g) k)"
  unfolding outside_traced_def by (rule pkeeps_bind_atom) (auto simp: sys_ok_def case_prod_beta)

lemma pool_ok_bind_locked:
  assumes "\<And>now p. pool_ok p \<Longrightarrow> pool_ok (snd (f now p)) \<and> pkeeps sys_ok (k (fst (f now p)))"
  shows "pkeeps sys_ok (pbind (locked env f) k)"
  unfolding locked_def by (rule pkeeps_bind_atom) (use assms in \<open>auto simp: sys_ok_def case_prod_beta\<close>)

section \<open>Operations that keep the invariant\<close>

lemma late_loop_ok: "pkeeps sys_ok (late_loop env cfg host n l answered deadline fuel)"
  by (induction fuel) (auto intro!: pkeeps_rules)

lemma launch_full_ok: "pkeeps sys_ok (launch_full env cfg growing)"
  unfolding launch_full_def Let_def by (intro pkeeps_rules pool_ok_rules)

lemma launch_attempts_ok: "pkeeps sys_ok (launch_attempts env cfg l growing n)"
proof (induction n)
  case 0
  show ?case by (simp add: launch_full_ok)
next
  case (Suc n)
  show ?case
    unfolding launch_attempts.simps Let_def readLateStart_def
    by (intro pkeeps_rules pool_ok_rules launch_full_ok late_loop_ok Suc; assumption)
qed

lemma launch_ok [pkeeps_rules]: "pkeeps sys_ok (launch env cfg l growing)"
  unfolding launch_def by (intro pkeeps_rules launch_attempts_ok)

lemma refreshHosts_ok [pkeeps_rules]: "names_ok env \<Longrightarrow> pkeeps sys_ok (refreshHosts env cfg force)"
  unfolding refreshHosts_def
  by (intro pkeeps_rules pool_ok_bind_outside pool_ok_rules pool_ok_hosts_listed)
    (auto simp: names_ok_def list_all_iff)

lemma listSlots_ok [pkeeps_rules]: "pkeeps sys_ok (listSlots env cfg hosts)"
  unfolding listSlots_def by (intro pkeeps_rules pool_ok_batch pool_ok_slots_listed)

lemma remove_slot_ok [pkeeps_rules]: "pkeeps sys_ok (remove_slot env cfg host hostID slot leaseID)"
  unfolding remove_slot_def by (intro pkeeps_rules pool_ok_rules)

lemma pool_Inventory_ok: "names_ok env \<Longrightarrow> pkeeps sys_ok (pool_Inventory env cfg)"
  unfolding pool_Inventory_def inventory_slots_def by (intro pkeeps_rules) (auto intro: pkeeps_rules)

lemma pool_Destroy_ok: "names_ok env \<Longrightarrow> pkeeps sys_ok (pool_Destroy env cfg i)"
  unfolding pool_Destroy_def by (intro pkeeps_rules)

lemma returnHost_ok: "candidate_ok c \<Longrightarrow> pkeeps sys_ok (returnHost env cfg c)"
  unfolding returnHost_def Let_def stopHost_def deleteHost_def
  by (intro pkeeps_rules pool_ok_restorePhase pool_ok_host_stopped pool_ok_rules) (auto simp: candidate_ok_def)

lemma returnHosts_ok: "pkeeps sys_ok (returnHosts env cfg)"
  unfolding returnHosts_def
proof (intro pkeeps_if)
  show "pkeeps sys_ok (locked_do env (warnStuckStaticHosts cfg))" by (intro pkeeps_rules pool_ok_rules)
  show "pkeeps sys_ok (pbind (locked env (returnCandidates cfg)) (for_all (returnHost env cfg)))"
  proof (rule pool_ok_bind_locked)
    fix now p
    assume "pool_ok p"
    then have "list_all candidate_ok (fst (returnCandidates cfg now p)) \<and> pool_ok (snd (returnCandidates cfg now p))"
      using pool_ok_returnCandidates [of p cfg now] by (metis prod.collapse)
    then show "pool_ok (snd (returnCandidates cfg now p)) \<and> pkeeps sys_ok (for_all (returnHost env cfg) (fst (returnCandidates cfg now p)))"
      by (auto simp: list_all_iff intro!: pool_ok_for_all returnHost_ok)
  qed
qed

lemma grow_hosts_ok: "pkeeps sys_ok (grow_hosts env cfg)"
  unfolding grow_hosts_def by (rule pkeeps_atom) (auto simp: sys_ok_def split: prod.splits dest: pool_ok_grow)

lemma maintain_ok: "names_ok env \<Longrightarrow> pkeeps sys_ok (maintain env cfg)"
  unfolding maintain_def followTag_def probe_def
  by (intro pkeeps_rules pool_ok_rules returnHosts_ok grow_hosts_ok pool_ok_batch pool_ok_hosts_probed) auto

lemma op_prog_ok: "names_ok env \<Longrightarrow> pkeeps sys_ok (op_prog env cfg oper)"
  unfolding op_prog_def ignore_def pool_Launch_def launchSpare_def freeSlots_now_def
  by (cases oper)
    (auto intro!: pkeeps_rules pool_ok_rules maintain_ok pool_Inventory_ok pool_Destroy_ok elim: pool_ok_cong)

lemma spawn_prog_ok: "names_ok env \<Longrightarrow> spawn_ok sp \<Longrightarrow> pkeeps sys_ok (spawn_prog env sp)"
  unfolding spawn_prog_def start_host_def create_host_def spawn_ok_def
  by (cases sp) (auto intro!: pkeeps_rules pool_ok_start_done pool_ok_bind_outside_traced pool_ok_create_done simp: names_ok_def)

section \<open>Every run\<close>

lemma pool_run_sys_ok:
  assumes "names_ok env" and "sys_ok s0" and "pool_run env cfg s0 ts s"
  shows "sys_ok s"
proof -
  have "sys_ok s \<and> (\<forall>t \<in> set ts. pkeeps sys_ok t)"
  proof (rule pool_run_keeps [OF assms(3,2) op_prog_ok [OF assms(1)]])
    fix s sp sps
    assume "sys_ok s" "pl_spawned s = sp # sps"
    then have "spawn_ok sp" "sys_ok (s\<lparr>pl_spawned := sps\<rparr>)" by (simp_all add: sys_ok_def)
    then show "pkeeps sys_ok (spawn_prog env sp) \<and> sys_ok (s\<lparr>pl_spawned := sps\<rparr>)" using spawn_prog_ok assms(1) by blast
  qed
  then show ?thesis ..
qed

section \<open>One operation alone\<close>

text \<open>
  What an operation does when nothing else runs, whatever the world answers: \<open>ptriple P m Q\<close> says that
  from a pool and a record of calls with \<open>P\<close> it ends with \<open>Q\<close>.
\<close>

definition ptriple :: "(pool \<Rightarrow> pool_call list \<Rightarrow> bool) \<Rightarrow> ('w poolSys, 'a) prog \<Rightarrow> ('a \<Rightarrow> pool \<Rightarrow> pool_call list \<Rightarrow> bool) \<Rightarrow> bool" where
  "ptriple P m Q \<longleftrightarrow> hoare (\<lambda>s. P (pl_pool s) (pl_calls s)) (seq m) (\<lambda>a s. Q a (pl_pool s) (pl_calls s))"

lemma ptripleD:
  "ptriple P m Q \<Longrightarrow> P (pl_pool s) (pl_calls s) \<Longrightarrow> prun m s = (a, s') \<Longrightarrow> Q a (pl_pool s') (pl_calls s')"
  by (auto simp: ptriple_def hoare_seq_iff dest: spec [where x = s])

lemma ptriple_bind: "ptriple P m R \<Longrightarrow> (\<And>a. ptriple (R a) (k a) Q) \<Longrightarrow> ptriple P (pbind m k) Q"
  unfolding ptriple_def by (rule hoare_pbind)

lemma ptriple_seq: "ptriple P m (\<lambda>_. R) \<Longrightarrow> ptriple R k Q \<Longrightarrow> ptriple P (pseq m k) Q"
  unfolding ptriple_def by (rule hoare_pseq)

lemma ptriple_Done: "(\<And>p c. P p c \<Longrightarrow> Q a p c) \<Longrightarrow> ptriple P (Done a) Q"
  unfolding ptriple_def by (rule hoare_Done) blast

lemma ptriple_pre: "ptriple P m Q \<Longrightarrow> (\<And>p c. P' p c \<Longrightarrow> P p c) \<Longrightarrow> ptriple P' m Q"
  by (simp add: ptriple_def hoare_seq_iff)

lemma ptriple_post: "ptriple P m Q \<Longrightarrow> (\<And>a p c. Q a p c \<Longrightarrow> Q' a p c) \<Longrightarrow> ptriple P m Q'"
  by (simp add: ptriple_def hoare_seq_iff)

lemma ptriple_False: "ptriple (\<lambda>_ _. False) m Q"
  by (simp add: ptriple_def hoare_seq_iff)

lemma ptriple_outside: "(\<And>a p c. P p c \<Longrightarrow> Q a p c) \<Longrightarrow> ptriple P (outside g) Q"
  unfolding ptriple_def outside_def by (rule hoare_atom) (simp add: case_prod_beta)

lemma ptriple_if: "(b \<Longrightarrow> ptriple P m Q) \<Longrightarrow> (\<not> b \<Longrightarrow> ptriple P k Q) \<Longrightarrow> ptriple P (if b then m else k) Q"
  by simp

lemma ptriple_option:
  "(x = None \<Longrightarrow> ptriple P m Q) \<Longrightarrow> (\<And>a. x = Some a \<Longrightarrow> ptriple P (k a) Q) \<Longrightarrow> ptriple P (case x of None \<Rightarrow> m | Some a \<Rightarrow> k a) Q"
  by (cases x) auto

lemma ptriple_sum:
  "(\<And>a. x = Inl a \<Longrightarrow> ptriple P (m a) Q) \<Longrightarrow> (\<And>b. x = Inr b \<Longrightarrow> ptriple P (k b) Q) \<Longrightarrow> ptriple P (case x of Inl a \<Rightarrow> m a | Inr b \<Rightarrow> k b) Q"
  by (cases x) auto

lemmas ptriple_cases = ptriple_if ptriple_option ptriple_sum

lemma ptriple_bind_outside: "(\<And>a. ptriple P (k a) Q) \<Longrightarrow> ptriple P (pbind (outside g) k) Q"
  by (rule ptriple_bind [OF ptriple_outside])

text \<open>With what is known of the answer.\<close>

lemma ptriple_outside_fact: "(\<And>w p c. P p c \<Longrightarrow> Q (fst (g w)) p c) \<Longrightarrow> ptriple P (outside g) Q"
  unfolding ptriple_def outside_def by (rule hoare_atom) (simp add: case_prod_beta)

lemma ptriple_outside_traced: "(\<And>a p c. P p c \<Longrightarrow> Q a p (c @ [call p])) \<Longrightarrow> ptriple P (outside_traced call g) Q"
  unfolding ptriple_def outside_traced_def by (rule hoare_atom) (simp add: case_prod_beta)

lemma ptriple_locked: "(\<And>now p c. P p c \<Longrightarrow> Q (fst (f now p)) (snd (f now p)) c) \<Longrightarrow> ptriple P (locked env f) Q"
  unfolding ptriple_def locked_def by (rule hoare_atom) (simp add: case_prod_beta)

lemma ptriple_locked_do: "(\<And>now p c. P p c \<Longrightarrow> Q () (f now p) c) \<Longrightarrow> ptriple P (locked_do env f) Q"
  unfolding locked_do_def by (rule ptriple_locked) simp

lemma ptriple_locked_get: "(\<And>p c. P p c \<Longrightarrow> Q (f p) p c) \<Longrightarrow> ptriple P (locked_get f) Q"
  unfolding ptriple_def locked_get_def by (rule hoare_atom) simp

lemma ptriple_batch:
  "(\<And>x. ptriple P (call x) (\<lambda>_. P)) \<Longrightarrow> ptriple P (batch call xs) (\<lambda>_. P)"
  by (induction xs) (auto intro!: ptriple_Done ptriple_bind)

end
