(* ===== verification/Pool_Example.thy ===== *)
theory Pool_Example
  imports Pool_Run
begin

text \<open>
  A small pool for the examples: a source with one host it lists and another it can create, agents that
  accept every start, and a pool that knows the first host as ready with two free slots.
\<close>

definition example_cfg :: poolConfig where
  "example_cfg =
     \<lparr>pc_Name = ''p'', pc_ControllerID = ''c'', pc_Image = ''img'', pc_MinHosts = 0, pc_MaxHosts = 2,
      pc_facts = \<lparr>fa_Billing = BillingPerSecond, fa_HourlyPrice = 1 / 10, fa_Currency = ''EUR'', fa_CanCreate = True\<rparr>,
      pc_stopper = True, pc_Related = None, pc_ImageRefresh = 5 * minute, pc_MaxLifetime = hour, pc_Tick = 10 * second,
      pc_HostListInterval = 30 * second, pc_BootTimeout = 10 * minute, pc_UnreachableGrace = 2 * minute,
      pc_IdleReturn = 2 * minute, pc_HourMargin = 2 * minute, pc_CallTimeout = 20 * second, pc_StartTimeout = 90 * second,
      pc_IdleStop = 2 * minute, pc_KeepStopped = 1, pc_DeleteStoppedAfter = 6 * hour, pc_Speculative = False\<rparr>"

definition example_host :: "string \<Rightarrow> host" where
  "example_host i = zeroHost\<lparr>ho_ID := i, ho_Address := ''10.0.0.1''\<rparr>"

definition example_ready :: "string \<Rightarrow> hostState" where
  "example_ready i = (new_host (example_host i) PhaseReady 1)
     \<lparr>hs_info := zeroInfo\<lparr>hi_Slots := 2, hi_Image := ''img'', hi_Ready := True\<rparr>, hs_lastContact := 5, hs_lastListed := 5,
      hs_everReady := True, hs_emptySince := 5, hs_runningSince := 1\<rparr>"

definition example_pool :: pool where
  "example_pool = (new_pool example_cfg 1)\<lparr>po_hosts := [(''h1'', example_ready ''h1'')], po_hostsKnown := True, po_hostsListedAt := 5\<rparr>"

text \<open>The world is its clock.\<close>

definition example_env :: "gotime poolEnv" where
  "example_env =
     \<lparr>pe_now = (\<lambda>t. (t, t)), pe_wall = (\<lambda>t. (t, t)), pe_sleep = (\<lambda>d t. (False, t + d)), pe_done = (\<lambda>t. (False, t)),
      pe_list = (\<lambda>t. (Inr [example_host ''h1''], t)), pe_create = (\<lambda>img t. (Inr (example_host ''h2''), t)),
      pe_delete = (\<lambda>i t. (None, t)), pe_stop = (\<lambda>i t. (None, t)), pe_start = (\<lambda>i t. (None, t)),
      pe_resolve = (\<lambda>t. (Inr ''img'', t)), pe_info = (\<lambda>h t. (Inr zeroInfo, t)), pe_slots = (\<lambda>h t. (Inr [], t)),
      pe_startSlot = (\<lambda>h n q t. (Inr zeroSlot, t)), pe_remove = (\<lambda>h n i t. (None, t))\<rparr>"

definition example_lease :: lease where
  "example_lease = zeroLease\<lparr>l_ID := ''lease1'', l_RunnerName := ''runner1'', l_RunnerID := 7, l_JITConfig := ''jit''\<rparr>"

definition example_sys :: "gotime \<Rightarrow> gotime poolSys" where
  "example_sys t = \<lparr>pl_pool = example_pool, pl_world = t, pl_calls = [], pl_spawned = []\<rparr>"

lemma example_names: "names_ok example_env"
  by (simp add: names_ok_def example_env_def example_host_def placeholder_id_def)

lemma example_host_ok: "host_ok ''h1'' (example_ready ''h1'')"
  by (simp add: host_ok_def named_ok_def example_ready_def new_host_def example_host_def meter_ok_def zeroMeter_def usage_ok_def zeroUsage_def
      placeholder_id_def invalid_host_id_def)

lemma example_pool_ok: "pool_ok example_pool"
  using example_host_ok by (simp add: pool_ok_def hosts_ok_def seq_ok_def placeholder_id_def example_pool_def new_pool_def maximumCreateBackoff_def gomap_ok_def)

lemma example_sys_ok: "sys_ok (example_sys t)"
  by (simp add: sys_ok_def example_sys_def example_pool_ok)

end
