(* ===== verification/Pool_Launch.thy ===== *)
theory Pool_Launch
  imports Pool_Example
begin

text \<open>
  What a launch does: which slot it takes, what it leaves behind on every branch, and that reading a
  late start back ends.
\<close>

section \<open>Worker ids\<close>

lemma parse_WorkerID:
  assumes "hostID \<noteq> []" "CHR ''/'' \<notin> set hostID" "leaseID \<noteq> []" "CHR ''/'' \<notin> set leaseID" "0 \<le> n" "n \<le> maxInt64"
  shows "parseWorkerID (WorkerID hostID n leaseID) = Inr (hostID, n, leaseID)"
proof -
  have "CHR ''/'' \<notin> set (itoa n)" using digit_signs [of "itoa n"] nat_digits_digits assms(5) by (simp add: itoa_def)
  then show ?thesis
    using assms by (simp add: parseWorkerID_def WorkerID_def split_on_block split_on_tail strconv_Atoi_itoa)
qed

section \<open>Where a launch goes\<close>

text \<open>The hosts a lease can go to, in the order in which they are preferred.\<close>

definition has_room :: "poolConfig \<Rightarrow> gotime \<Rightarrow> pool \<Rightarrow> string \<Rightarrow> hostState \<Rightarrow> bool" where
  "has_room cfg now p i h \<longleftrightarrow> map_of (po_hosts p) i = Some h \<and> takesLeases cfg now h \<and> freeCount h \<noteq> 0"

definition preference :: "poolConfig \<Rightarrow> pool \<Rightarrow> hostState \<Rightarrow> bool \<times> int \<times> gotime" where
  "preference cfg p h = (stale cfg p (hi_Image (hs_info h)), freeCount h, ho_CreatedAt (hs_host h))"

lemma better_host_iff: "better_host cfg p h b \<longleftrightarrow> preference cfg p h < preference cfg p b"
  by (auto simp: better_host_def preference_def Let_def less_prod_simp)

text \<open>The best of the hosts seen, the first one in the order of ids when several are equally good.\<close>

definition is_best :: "poolConfig \<Rightarrow> pool \<Rightarrow> (string \<times> hostState) option \<Rightarrow> (string \<times> hostState) set \<Rightarrow> bool" where
  "is_best cfg p best S \<longleftrightarrow>
     (case best of
        None \<Rightarrow> S = {}
      | Some (i, h) \<Rightarrow> (i, h) \<in> S \<and> (\<forall>(j, h') \<in> S. (preference cfg p h, i) \<le> (preference cfg p h', j)))"

lemma is_best_insert:
  assumes "is_best cfg p best S" and "\<forall>(j, h') \<in> S. j < i"
  shows "is_best cfg p (case best of None \<Rightarrow> Some (i, h) | Some (j, b) \<Rightarrow> if better_host cfg p h b then Some (i, h) else best) (insert (i, h) S)"
proof (cases best)
  case None
  then show ?thesis using assms by (simp add: is_best_def)
next
  case (Some jb)
  obtain j b where jb: "jb = (j, b)" by (cases jb)
  have b: "(j, b) \<in> S" "\<And>k c. (k, c) \<in> S \<Longrightarrow> (preference cfg p b, j) \<le> (preference cfg p c, k)"
    using assms(1) Some jb by (auto simp: is_best_def)
  have "j < i" using assms(2) b(1) by auto
  show ?thesis
  proof (cases "better_host cfg p h b")
    case True
    have "(preference cfg p h, i) \<le> (preference cfg p c, k)" if "(k, c) \<in> S" for k c
      using b(2) [OF that] True by (auto simp: better_host_iff less_eq_prod_simp)
    then show ?thesis using True Some jb by (auto simp: is_best_def)
  next
    case False
    then have "(preference cfg p b, j) \<le> (preference cfg p h, i)" using \<open>j < i\<close> by (auto simp: better_host_iff less_eq_prod_simp)
    then show ?thesis using False Some jb b by (auto simp: is_best_def)
  qed
qed

lemma reserve_loop_best:
  assumes "is_best cfg p best S" and "sorted is" and "distinct is" and "\<forall>(j, h) \<in> S. \<forall>i \<in> set is. j < i"
  shows "is_best cfg p (reserve_loop cfg now p is best) (S \<union> {(i, h). i \<in> set is \<and> has_room cfg now p i h})"
  using assms
proof (induction cfg now p "is" best arbitrary: S rule: reserve_loop.induct)
  case (2 cfg now p i "is" best)
  let ?best = "case map_of (po_hosts p) i of
          None \<Rightarrow> best
        | Some h \<Rightarrow>
            if \<not> takesLeases cfg now h \<or> freeCount h = 0 then best
            else (case best of None \<Rightarrow> Some (i, h) | Some (j, b) \<Rightarrow> if better_host cfg p h b then Some (i, h) else best)"
  let ?S = "S \<union> {(k, h). k = i \<and> has_room cfg now p i h}"
  have "is_best cfg p ?best ?S"
  proof (cases "\<exists>h. has_room cfg now p i h")
    case True
    then obtain h where h: "has_room cfg now p i h" ..
    then have S: "?S = insert (i, h) S" by (auto simp: has_room_def)
    have "\<forall>(j, h') \<in> S. j < i" using 2(5) by auto
    then show ?thesis using is_best_insert [OF 2(2), of i h] h unfolding S by (simp add: has_room_def)
  next
    case False
    then have "?S = S" by auto
    moreover have "?best = best" using False by (auto simp: has_room_def split: option.split)
    ultimately show ?thesis using 2(2) by simp
  qed
  moreover have "\<forall>(j, h) \<in> ?S. \<forall>k \<in> set is. j < k"
    using 2(3-5) by (auto simp: order_le_less)
  ultimately have "is_best cfg p (reserve_loop cfg now p is ?best) (?S \<union> {(i, h). i \<in> set is \<and> has_room cfg now p i h})"
    using 2(1) 2(3,4) by simp
  moreover have "?S \<union> {(k, h). k \<in> set is \<and> has_room cfg now p k h} = S \<union> {(k, h). k \<in> set (i # is) \<and> has_room cfg now p k h}"
    by auto
  ultimately show ?case by simp
qed simp

lemma reserve_loop_spec:
  assumes "gomap_ok (po_hosts p)"
  shows "is_best cfg p (reserve_loop cfg now p (sortedIDs p) None) {(i, h). has_room cfg now p i h}"
proof -
  have "{} \<union> {(i, h). i \<in> set (sortedIDs p) \<and> has_room cfg now p i h} = {(i, h). has_room cfg now p i h}"
    by (auto simp: sortedIDs_def has_room_def dest: map_of_SomeD intro: rev_image_eqI)
  then show ?thesis
    using reserve_loop_best [of cfg p None "{}" "sortedIDs p" now] assms
    by (simp add: is_best_def sortedIDs_def gomap_ok_def)
qed

lemma freeCount_nonneg: "0 \<le> freeCount h"
  by (simp add: freeCount_def)

lemma freeSlot_first:
  assumes "freeCount h \<noteq> 0"
  obtains n where "freeSlot h = Some n" "0 \<le> n" "n < hi_Slots (hs_info h)" "slot_free h n" "\<And>m. 0 \<le> m \<Longrightarrow> m < n \<Longrightarrow> \<not> slot_free h m"
proof -
  obtain n ns where f: "filter (slot_free h) (slot_range h) = n # ns"
    using assms by (cases "filter (slot_free h) (slot_range h)") (auto simp: freeCount_def)
  then obtain us vs where u: "slot_range h = us @ n # vs" "\<forall>m \<in> set us. \<not> slot_free h m" "slot_free h n"
    by (auto simp: filter_eq_Cons_iff)
  have "sorted (slot_range h)" "distinct (slot_range h)" by (simp_all add: slot_range_def)
  have n: "0 \<le> n \<and> n < hi_Slots (hs_info h)"
    using arg_cong [OF u(1), of set] by (auto simp: slot_range_def)
  have "m \<in> set us" if "0 \<le> m" "m < n" for m
  proof -
    have "m \<in> set (slot_range h)" using that n by (simp add: slot_range_def)
    moreover have "\<forall>v \<in> set (n # vs). n \<le> v" using \<open>sorted (slot_range h)\<close> u(1) by (auto simp: sorted_append)
    ultimately show ?thesis using u(1) that by fastforce
  qed
  then show ?thesis using that [of n] f n u by (auto simp: freeSlot_def)
qed

text \<open>What a pool holds in a slot: a reservation, a container.\<close>

definition reserved_at :: "pool \<Rightarrow> string \<Rightarrow> int \<Rightarrow> string option" where
  "reserved_at p i n = (case map_of (po_hosts p) i of None \<Rightarrow> None | Some h \<Rightarrow> map_of (hs_reserved h) n)"

definition slot_at :: "pool \<Rightarrow> string \<Rightarrow> int \<Rightarrow> slot option" where
  "slot_at p i n = (case map_of (po_hosts p) i of None \<Rightarrow> None | Some h \<Rightarrow> map_of (hs_slots h) n)"

definition info_at :: "pool \<Rightarrow> string \<Rightarrow> hostInfo option" where
  "info_at p i = map_option hs_info (map_of (po_hosts p) i)"

lemma accrue_host_fields [simp]:
  "hs_reserved (accrue_host p now h) = hs_reserved h" "hs_slots (accrue_host p now h) = hs_slots h"
  "hs_info (accrue_host p now h) = hs_info h" "hs_phase (accrue_host p now h) = hs_phase h" "hs_host (accrue_host p now h) = hs_host h"
  "hs_notBefore (accrue_host p now h) = hs_notBefore h" "hs_lastContact (accrue_host p now h) = hs_lastContact h"
  "hs_lastListed (accrue_host p now h) = hs_lastListed h"
  by (simp_all add: accrue_host_def Let_def)

lemma at_accrue [simp]:
  "reserved_at (accrue now p) = reserved_at p" "slot_at (accrue now p) = slot_at p" "info_at (accrue now p) = info_at p"
  by (auto simp: reserved_at_def slot_at_def info_at_def map_of_accrue option.map_comp o_def intro!: ext split: option.splits)

lemma at_on_health [simp]:
  "reserved_at (on_health f p) = reserved_at p" "slot_at (on_health f p) = slot_at p" "info_at (on_health f p) = info_at p"
  by (auto simp: reserved_at_def slot_at_def info_at_def intro!: ext)

lemma at_on_host:
  assumes "map_of (po_hosts p) i = Some h"
  shows "reserved_at (on_host i f p) = (reserved_at p)(i := map_of (hs_reserved (f h)))"
    and "slot_at (on_host i f p) = (slot_at p)(i := map_of (hs_slots (f h)))"
    and "info_at (on_host i f p) = (info_at p)(i := Some (hs_info (f h)))"
  using assms by (auto simp: reserved_at_def slot_at_def info_at_def map_of_on_host intro!: ext)

lemma at_host:
  assumes "map_of (po_hosts p) i = Some h"
  shows "reserved_at p i = map_of (hs_reserved h)" "slot_at p i = map_of (hs_slots h)" "info_at p i = Some (hs_info h)"
  using assms by (auto simp: reserved_at_def slot_at_def info_at_def intro!: ext)

lemma freeCount_accrue [simp]: "freeCount (accrue_host p now h) = freeCount h" "takesLeases cfg t (accrue_host p now h) = takesLeases cfg t h"
proof -
  have "slot_free (accrue_host p now h) = slot_free h" by (auto simp: slot_free_def intro!: ext)
  then show "freeCount (accrue_host p now h) = freeCount h" by (simp add: freeCount_def slot_range_def)
qed (simp add: takesLeases_def)

lemma freeSlots_accrue [simp]: "freeSlots cfg t (accrue now p) = freeSlots cfg t p"
  by (auto simp: freeSlots_def accrue_def o_def case_prod_beta intro!: arg_cong [where f = sum_list] map_cong)

lemma length_filter_without:
  "distinct xs \<Longrightarrow> n \<in> set xs \<Longrightarrow> P n \<Longrightarrow> length (filter P xs) = Suc (length (filter (\<lambda>m. P m \<and> m \<noteq> n) xs))"
proof (induction xs)
  case (Cons x xs)
  have "filter (\<lambda>m. P m \<and> m \<noteq> n) xs = filter P xs" if "n \<notin> set xs" using that by (intro filter_cong) auto
  then show ?case using Cons by auto
qed simp

lemma freeCount_reserve:
  assumes "0 \<le> n" "n < hi_Slots (hs_info h)" "slot_free h n"
  shows "freeCount (h\<lparr>hs_reserved := AList.update n l (hs_reserved h), hs_emptySince := t\<rparr>) = freeCount h - 1"
proof -
  have "slot_free (h\<lparr>hs_reserved := AList.update n l (hs_reserved h), hs_emptySince := t\<rparr>) = (\<lambda>m. slot_free h m \<and> m \<noteq> n)"
    by (auto simp: slot_free_def intro!: ext split: if_splits)
  then show ?thesis
    using length_filter_without [of "slot_range h" n "slot_free h"] assms by (simp add: freeCount_def slot_range_def)
qed

lemma sum_update:
  fixes f :: "'a \<Rightarrow> int"
  shows "gomap_ok m \<Longrightarrow> map_of m k = Some v \<Longrightarrow>
    sum_list (map (\<lambda>(k, v). f v) (AList.update k v' m)) = sum_list (map (\<lambda>(k, v). f v) m) - f v + f v'"
  by (induction m) (auto simp: gomap_ok_def split: if_splits)

lemma freeSlots_none:
  assumes "gomap_ok (po_hosts p)"
  shows "freeSlots cfg now p = 0 \<longleftrightarrow> (\<nexists>i h. has_room cfg now p i h)"
proof -
  have "freeSlots cfg now p = 0 \<longleftrightarrow> (\<forall>(i, h) \<in> set (po_hosts p). takesLeases cfg now h \<longrightarrow> freeCount h = 0)"
    unfolding freeSlots_def by (subst sum_list_nonneg_eq_0_iff) (auto simp: freeCount_nonneg)
  then show ?thesis using assms by (auto simp: has_room_def gomap_in_set)
qed

lemma reserve_None:
  assumes "pool_ok p" and "reserve cfg leaseID now p = (None, p')"
  shows "p' = p \<and> freeSlots cfg now p = 0"
proof -
  have ok: "gomap_ok (po_hosts p)" using assms(1) by (simp add: pool_ok_def hosts_ok_def)
  have "reserve_loop cfg now p (sortedIDs p) None = None" "p' = p"
    using assms(2) by (auto simp: reserve_def Let_def split: option.splits)
  then show ?thesis using reserve_loop_spec [OF ok, of cfg now] freeSlots_none [OF ok] by (auto simp: is_best_def)
qed

lemma reserve_Some:
  assumes "pool_ok p" and "reserve cfg leaseID now p = (Some (host, n, img), p')"
  obtains h where "has_room cfg now p (ho_ID host) h" "host = hs_host h" "img = hi_Image (hs_info h)"
    "\<And>j h'. has_room cfg now p j h' \<Longrightarrow> (preference cfg p h, ho_ID host) \<le> (preference cfg p h', j)"
    "0 \<le> n" "n < hi_Slots (hs_info h)" "slot_free h n" "\<And>m. 0 \<le> m \<Longrightarrow> m < n \<Longrightarrow> \<not> slot_free h m"
    "p' = accrue now (on_host (ho_ID host) (\<lambda>h. h\<lparr>hs_reserved := AList.update n leaseID (hs_reserved h), hs_emptySince := zeroTime\<rparr>) p)"
proof -
  have ok: "gomap_ok (po_hosts p)" using assms(1) by (simp add: pool_ok_def hosts_ok_def)
  obtain i h where loop: "reserve_loop cfg now p (sortedIDs p) None = Some (i, h)"
    using assms(2) by (cases "reserve_loop cfg now p (sortedIDs p) None") (auto simp: reserve_def)
  have h: "has_room cfg now p i h" and least: "\<And>j h'. has_room cfg now p j h' \<Longrightarrow> (preference cfg p h, i) \<le> (preference cfg p h', j)"
    using reserve_loop_spec [OF ok, of cfg now] loop by (auto simp: is_best_def)
  have known: "map_of (po_hosts p) i = Some h" "hs_phase h = PhaseReady" "freeCount h \<noteq> 0"
    using h by (auto simp: has_room_def takesLeases_def)
  obtain m where m: "freeSlot h = Some m" "0 \<le> m" "m < hi_Slots (hs_info h)" "slot_free h m"
      "\<And>k. 0 \<le> k \<Longrightarrow> k < m \<Longrightarrow> \<not> slot_free h k"
    using freeSlot_first [OF known(3)] by blast
  have "host = hs_host h" "n = m" "img = hi_Image (hs_info h)"
    "p' = accrue now (on_host i (\<lambda>h. h\<lparr>hs_reserved := AList.update m leaseID (hs_reserved h), hs_emptySince := zeroTime\<rparr>) p)"
    using assms(2) loop m(1) by (auto simp: reserve_def)
  moreover have "ho_ID (hs_host h) = i"
    using host_okD(4) [OF pool_ok_host [OF assms(1) known(1)]] known(2) by simp
  ultimately show ?thesis using that [of h] h least m by simp
qed

lemma at_reserve:
  assumes "pool_ok p" and "reserve cfg leaseID now p = (Some (host, n, img), p')"
  shows "reserved_at p' = (reserved_at p)(ho_ID host := (reserved_at p (ho_ID host))(n \<mapsto> leaseID))"
    and "slot_at p' = slot_at p" and "info_at p' = info_at p" and "reserved_at p (ho_ID host) n = None" and "slot_at p (ho_ID host) n = None"
    and "\<exists>info. info_at p (ho_ID host) = Some info \<and> 0 \<le> n \<and> n < hi_Slots info"
    and "\<not> placeholder_id (ho_ID host)" "\<not> invalid_host_id (ho_ID host)"
proof -
  obtain h where h: "has_room cfg now p (ho_ID host) h" "0 \<le> n" "n < hi_Slots (hs_info h)" "slot_free h n"
    and p': "p' = accrue now (on_host (ho_ID host) (\<lambda>h. h\<lparr>hs_reserved := AList.update n leaseID (hs_reserved h), hs_emptySince := zeroTime\<rparr>) p)"
    by (rule reserve_Some [OF assms]) (rule that)
  have known: "map_of (po_hosts p) (ho_ID host) = Some h" "hs_phase h = PhaseReady" using h(1) by (auto simp: has_room_def takesLeases_def)
  show "reserved_at p' = (reserved_at p)(ho_ID host := (reserved_at p (ho_ID host))(n \<mapsto> leaseID))"
    "slot_at p' = slot_at p" "info_at p' = info_at p"
    using at_on_host [OF known(1)] at_host [OF known(1)] p' by (auto simp: update_conv' fun_upd_idem_iff)
  show "reserved_at p (ho_ID host) n = None" "slot_at p (ho_ID host) n = None"
    "\<exists>info. info_at p (ho_ID host) = Some info \<and> 0 \<le> n \<and> n < hi_Slots info"
    using at_host [OF known(1)] h by (auto simp: slot_free_def)
  show "\<not> placeholder_id (ho_ID host)" "\<not> invalid_host_id (ho_ID host)"
    using pool_ok_host [OF assms(1) known(1)] known(2) by (auto simp: host_ok_def named_ok_def)
qed

lemma freeSlots_reserve:
  assumes "pool_ok p" and "reserve cfg leaseID now p = (Some (host, n, img), p')"
  shows "freeSlots cfg now p' = freeSlots cfg now p - 1"
proof -
  let ?f = "\<lambda>h. h\<lparr>hs_reserved := AList.update n leaseID (hs_reserved h), hs_emptySince := zeroTime\<rparr>"
  have ok: "gomap_ok (po_hosts p)" using assms(1) by (simp add: pool_ok_def hosts_ok_def)
  obtain h where h: "has_room cfg now p (ho_ID host) h" "0 \<le> n" "n < hi_Slots (hs_info h)" "slot_free h n"
    and p': "p' = accrue now (on_host (ho_ID host) ?f p)"
    by (rule reserve_Some [OF assms]) (rule that)
  then have known: "map_of (po_hosts p) (ho_ID host) = Some h" "takesLeases cfg now h" by (auto simp: has_room_def)
  moreover have "takesLeases cfg now (?f h)" using known(2) by (simp add: takesLeases_def)
  ultimately have "freeSlots cfg now (on_host (ho_ID host) ?f p) = freeSlots cfg now p - 1"
    using sum_update [OF ok known(1), of "\<lambda>h. if takesLeases cfg now h then freeCount h else 0" "?f h"] freeCount_reserve [OF h(2-4)]
    by (simp add: freeSlots_def on_host_def)
  then show ?thesis by (simp add: p')
qed

text \<open>
  A reservation takes the first free slot of the best host with room: one on the current image
  before one on an earlier image, then the one with the fewest free slots, then the oldest, then the
  least id.  The slot is then held for the lease and one slot less is free; without room nothing
  changes.
\<close>

theorem reserve_picks_best:
  assumes "pool_ok p" and "reserve cfg leaseID now p = (r, p')"
  shows "case r of
      None \<Rightarrow> p' = p \<and> freeSlots cfg now p = 0
    | Some (host, n, img) \<Rightarrow>
        \<exists>h. has_room cfg now p (ho_ID host) h \<and> host = hs_host h \<and> img = hi_Image (hs_info h)
          \<and> (\<forall>j h'. has_room cfg now p j h' \<longrightarrow> (preference cfg p h, ho_ID host) \<le> (preference cfg p h', j))
          \<and> 0 \<le> n \<and> n < hi_Slots (hs_info h) \<and> slot_free h n \<and> (\<forall>m. 0 \<le> m \<and> m < n \<longrightarrow> \<not> slot_free h m)
          \<and> reserved_at p' = (reserved_at p)(ho_ID host := (reserved_at p (ho_ID host))(n \<mapsto> leaseID)) \<and> slot_at p' = slot_at p
          \<and> freeSlots cfg now p' = freeSlots cfg now p - 1"
proof (cases r)
  case None
  then show ?thesis using reserve_None assms by simp
next
  case (Some x)
  obtain host n img where x: "r = Some (host, n, img)" using Some by (cases x) auto
  note assms(2) [unfolded x]
  note r = assms(1) this
  show ?thesis unfolding x option.case prod.case
    by (rule reserve_Some [OF r]) (use at_reserve(1,2) [OF r] freeSlots_reserve [OF r] in blast)
qed

lemma example_reserve: "reserve example_cfg ''lease1'' 10 example_pool
    = (Some (example_host ''h1'', 0, ''img''), snd (reserve example_cfg ''lease1'' 10 example_pool))"
proof -
  have "fst (reserve example_cfg ''lease1'' 10 example_pool) = Some (example_host ''h1'', 0, ''img'')" by code_simp
  then show ?thesis by (metis prod.collapse)
qed

theorem reserve_picks_best_witness:
  "\<exists>h. has_room example_cfg 10 example_pool ''h1'' h
     \<and> reserved_at (snd (reserve example_cfg ''lease1'' 10 example_pool)) ''h1'' 0 = Some ''lease1''"
  using reserve_picks_best [OF example_pool_ok example_reserve] by (auto simp: example_host_def)

section \<open>What a launch leaves behind\<close>

text \<open>
  \<open>untouched p0 p\<close>: the reservations are those of \<open>p0\<close>, and so are the slots but for markers, which
  name no lease, of slots that were found taken by someone else.
\<close>

definition marker :: "slot \<Rightarrow> bool" where
  "marker s \<longleftrightarrow> sl_ControllerID s = [] \<and> sl_LeaseID s = []"

definition same_slot :: "slot option \<Rightarrow> slot option \<Rightarrow> bool" where
  "same_slot old new \<longleftrightarrow> new = old \<or> (old = None \<and> (\<exists>s. new = Some s \<and> marker s))"

definition untouched :: "pool \<Rightarrow> pool \<Rightarrow> bool" where
  "untouched p0 p \<longleftrightarrow> reserved_at p = reserved_at p0 \<and> info_at p = info_at p0 \<and> (\<forall>i n. same_slot (slot_at p0 i n) (slot_at p i n))"

text \<open>The same but for one slot, reserved for the lease.\<close>

definition booked :: "pool \<Rightarrow> string \<Rightarrow> host \<Rightarrow> int \<Rightarrow> pool \<Rightarrow> bool" where
  "booked p0 leaseID host n p \<longleftrightarrow>
     reserved_at p = (reserved_at p0)(ho_ID host := (reserved_at p0 (ho_ID host))(n \<mapsto> leaseID)) \<and> info_at p = info_at p0
     \<and> (\<forall>i n. same_slot (slot_at p0 i n) (slot_at p i n)) \<and> reserved_at p0 (ho_ID host) n = None \<and> slot_at p0 (ho_ID host) n = None
     \<and> (\<exists>info. info_at p0 (ho_ID host) = Some info \<and> 0 \<le> n \<and> n < hi_Slots info) \<and> \<not> invalid_host_id (ho_ID host)"

text \<open>A slot that was free is held for the lease, the worker's id names it, and its start was asked for.\<close>

definition holds_lease :: "poolConfig \<Rightarrow> pool \<Rightarrow> lease \<Rightarrow> worker \<Rightarrow> pool \<Rightarrow> pool_call list \<Rightarrow> bool" where
  "holds_lease cfg p0 l w p calls \<longleftrightarrow>
     (\<exists>host n s. reserved_at p = reserved_at p0 \<and> slot_at p0 (ho_ID host) n = None \<and> reserved_at p0 (ho_ID host) n = None
        \<and> slot_at p (ho_ID host) n = Some s
        \<and> sl_LeaseID s = l_ID l \<and> sl_ControllerID s = pc_ControllerID cfg \<and> sl_RunnerName s = l_RunnerName l
        \<and> w_LeaseID w = l_ID l \<and> parseWorkerID (w_ID w) = Inr (ho_ID host, n, l_ID l)
        \<and> (\<forall>j m. (j, m) \<noteq> (ho_ID host, n) \<longrightarrow> same_slot (slot_at p0 j m) (slot_at p j m))
        \<and> (\<exists>img pp. CallStartSlot host n (start_request cfg l img) pp \<in> set calls))"

definition launch_result :: "poolConfig \<Rightarrow> pool \<Rightarrow> lease \<Rightarrow> goerr + worker \<Rightarrow> pool \<Rightarrow> pool_call list \<Rightarrow> bool" where
  "launch_result cfg p0 l r p calls \<longleftrightarrow>
     (case r of
        Inr w \<Rightarrow> holds_lease cfg p0 l w p calls
      | Inl (PartialLaunchError w e) \<Rightarrow> holds_lease cfg p0 l w p calls
      | Inl e \<Rightarrow> untouched p0 p)"

lemma info_at_Some: "info_at p i = Some info \<Longrightarrow> \<exists>h. map_of (po_hosts p) i = Some h"
  by (auto simp: info_at_def)

lemma at_release:
  "reserved_at (release i n now p) = (reserved_at p)(i := (reserved_at p i)(n := None))"
  "slot_at (release i n now p) = slot_at p" "info_at (release i n now p) = info_at p"
proof -
  let ?f = "\<lambda>h. h\<lparr>hs_reserved := AList.delete n (hs_reserved h)\<rparr>"
  have "reserved_at (on_host i ?f p) = (reserved_at p)(i := (reserved_at p i)(n := None))
      \<and> slot_at (on_host i ?f p) = slot_at p \<and> info_at (on_host i ?f p) = info_at p"
  proof (cases "map_of (po_hosts p) i")
    case None
    then show ?thesis by (auto simp: on_host_def reserved_at_def intro!: ext)
  next
    case (Some h)
    then show ?thesis using at_on_host [OF Some, of ?f] at_host [OF Some] by (auto simp: delete_conv' fun_upd_idem_iff)
  qed
  then show "reserved_at (release i n now p) = (reserved_at p)(i := (reserved_at p i)(n := None))"
    "slot_at (release i n now p) = slot_at p" "info_at (release i n now p) = info_at p"
    by (simp_all add: release_def)
qed

lemma untouched_release:
  "booked p0 leaseID host n p \<Longrightarrow> untouched p0 (release (ho_ID host) n now p)"
  unfolding booked_def untouched_def at_release by (auto simp: fun_upd_idem_iff)

lemma at_refuseHost:
  "reserved_at (refuseHost i r now p) = reserved_at p" "slot_at (refuseHost i r now p) = slot_at p" "info_at (refuseHost i r now p) = info_at p"
  by (cases "map_of (po_hosts p) i";
      auto simp: refuseHost_def reserved_at_def slot_at_def info_at_def map_of_on_host map_of_accrue on_hostHealth_def Let_def option.map_comp o_def
      intro!: ext split: option.splits)+

lemma trackForeign_fields [simp]:
  "hs_reserved (trackForeign cfg now h) = hs_reserved h" "hs_slots (trackForeign cfg now h) = hs_slots h" "hs_info (trackForeign cfg now h) = hs_info h"
  by (simp_all add: trackForeign_def on_hostHealth_def)

lemma at_markForeign:
  "reserved_at (markForeign cfg i n now p) = reserved_at p" "info_at (markForeign cfg i n now p) = info_at p"
  "same_slot (slot_at p j m) (slot_at (markForeign cfg i n now p) j m)"
  by (cases "map_of (po_hosts p) i";
      auto simp: markForeign_def reserved_at_def slot_at_def info_at_def map_of_on_host map_of_accrue option.map_comp o_def
      same_slot_def marker_def zeroSlot_def intro!: ext split: option.splits)+

lemma same_slot_trans: "same_slot a b \<Longrightarrow> same_slot b c \<Longrightarrow> same_slot a c"
  by (auto simp: same_slot_def)

lemma untouched_refuseHost: "untouched p0 p \<Longrightarrow> untouched p0 (refuseHost i r now p)"
  by (simp add: untouched_def at_refuseHost)

lemma untouched_markForeign: "untouched p0 p \<Longrightarrow> untouched p0 (markForeign cfg i n now p)"
  unfolding untouched_def by (metis at_markForeign same_slot_trans)

lemma at_cong:
  assumes "po_hosts p' = po_hosts p"
  shows "reserved_at p' = reserved_at p" "slot_at p' = slot_at p" "info_at p' = info_at p"
  using assms by (auto simp: reserved_at_def slot_at_def info_at_def intro!: ext)

lemma untouched_noteFull: "untouched p0 p \<Longrightarrow> untouched p0 (snd (noteFull cfg now p))"
  using at_cong [of "snd (noteFull cfg now p)" p] by (simp add: noteFull_def untouched_def Let_def)

lemma booked_reserve:
  assumes "pool_ok p" "untouched p0 p" "reserve cfg leaseID now p = (Some (host, n, img), p')"
  shows "booked p0 leaseID host n p'"
proof -
  note r = at_reserve [OF assms(1,3)]
  have same: "same_slot (slot_at p0 j m) (slot_at p j m)" for j m using assms(2) by (simp add: untouched_def)
  have "slot_at p0 (ho_ID host) n = None" using same [of "ho_ID host" n] r(5) by (auto simp: same_slot_def)
  then show ?thesis using r assms(2) by (simp add: booked_def untouched_def)
qed

text \<open>Putting a slot where the reservation was.\<close>

lemma held_slot:
  assumes "booked p0 (l_ID l) host n p" and "\<And>i info. info_at p0 i = Some info \<Longrightarrow> hi_Slots info \<le> maxInt64"
    and "l_ID l \<noteq> []" "CHR ''/'' \<notin> set (l_ID l)"
    and "reserved_at p' = (reserved_at p)(ho_ID host := (reserved_at p (ho_ID host))(n := None))"
    and "slot_at p' = (slot_at p)(ho_ID host := (slot_at p (ho_ID host))(n \<mapsto> s))"
    and "sl_LeaseID s = l_ID l" "sl_ControllerID s = pc_ControllerID cfg" "sl_RunnerName s = l_RunnerName l"
    and "w_ID w = WorkerID (ho_ID host) n (l_ID l)" "w_LeaseID w = l_ID l"
    and "CallStartSlot host n (start_request cfg l img) pp \<in> set calls"
  shows "holds_lease cfg p0 l w p' calls"
proof -
  obtain info where info: "info_at p0 (ho_ID host) = Some info" "0 \<le> n" "n < hi_Slots info" "\<not> invalid_host_id (ho_ID host)"
    using assms(1) by (auto simp: booked_def)
  have "parseWorkerID (w_ID w) = Inr (ho_ID host, n, l_ID l)"
    unfolding assms(10) by (rule parse_WorkerID) (use assms(2) [OF info(1)] assms(3,4) info in \<open>auto simp: invalid_host_id_def\<close>)
  then show ?thesis
    unfolding holds_lease_def using assms
    by (intro exI [of _ host] exI [of _ n] exI [of _ s]) (auto simp: booked_def fun_upd_idem_iff)
qed

lemma held_commit:
  assumes "booked p0 (l_ID l) host n p" and "\<And>i info. info_at p0 i = Some info \<Longrightarrow> hi_Slots info \<le> maxInt64"
    and "l_ID l \<noteq> []" "CHR ''/'' \<notin> set (l_ID l)" "CallStartSlot host n (start_request cfg l img) pp \<in> set calls"
  shows "holds_lease cfg p0 l (fst (commit cfg (ho_ID host) n s l now p)) (snd (commit cfg (ho_ID host) n s l now p)) calls"
proof -
  let ?s = "started_slot cfg n s l now"
  let ?f = "\<lambda>h. on_hostHealth (\<lambda>e. e\<lparr>hh_slotFailures := 0\<rparr>)
      (h\<lparr>hs_reserved := AList.delete n (hs_reserved h), hs_slots := AList.update n ?s (hs_slots h), hs_lastContact := now, hs_emptySince := zeroTime\<rparr>)"
  obtain h where h: "map_of (po_hosts p) (ho_ID host) = Some h" using assms(1) info_at_Some by (fastforce simp: booked_def)
  have views: "reserved_at (q\<lparr>po_launched := m\<rparr>) = reserved_at q" "slot_at (q\<lparr>po_launched := m\<rparr>) = slot_at q" for q :: pool and m
    by (rule at_cong, simp)+
  have "reserved_at (snd (commit cfg (ho_ID host) n s l now p)) = (reserved_at p)(ho_ID host := (reserved_at p (ho_ID host))(n := None))"
    "slot_at (snd (commit cfg (ho_ID host) n s l now p)) = (slot_at p)(ho_ID host := (slot_at p (ho_ID host))(n \<mapsto> ?s))"
    using at_on_host [OF h, of ?f] at_host [OF h]
    by (auto simp: commit_def Let_def views on_hostHealth_def delete_conv' update_conv')
  from held_slot [OF assms(1-4) this _ _ _ _ _ assms(5)] show ?thesis
    using assms(3) by (auto simp: started_slot_def commit_def slotWorker_def Let_def)
qed

lemma held_suspect:
  assumes "booked p0 (l_ID l) host n p" and "\<And>i info. info_at p0 i = Some info \<Longrightarrow> hi_Slots info \<le> maxInt64"
    and "l_ID l \<noteq> []" "CHR ''/'' \<notin> set (l_ID l)" "CallStartSlot host n (start_request cfg l img) pp \<in> set calls"
  shows "holds_lease cfg p0 l (slotWorker (ho_ID host) n (zeroSlot\<lparr>sl_Index := n, sl_ControllerID := c, sl_State := st, sl_CreatedAt := t\<rparr>) l)
    (holdSuspect cfg (ho_ID host) n l reason now p) calls"
proof -
  let ?f = "\<lambda>h. (on_hostHealth (slotFailed now reason) h)
        \<lparr>hs_reserved := AList.delete n (hs_reserved h), hs_slots := AList.update n (suspect_slot cfg n l now) (hs_slots h),
          hs_notBefore := now + hostRefusalBackoff\<rparr>"
  obtain h where h: "map_of (po_hosts p) (ho_ID host) = Some h" using assms(1) info_at_Some by (fastforce simp: booked_def)
  have "reserved_at (holdSuspect cfg (ho_ID host) n l reason now p) = (reserved_at p)(ho_ID host := (reserved_at p (ho_ID host))(n := None))"
    "slot_at (holdSuspect cfg (ho_ID host) n l reason now p) = (slot_at p)(ho_ID host := (slot_at p (ho_ID host))(n \<mapsto> suspect_slot cfg n l now))"
    using at_on_host [OF h, of ?f] at_host [OF h] by (auto simp: holdSuspect_def delete_conv' update_conv')
  from held_slot [OF assms(1-4) this _ _ _ _ _ assms(5)] show ?thesis
    using assms(3) by (auto simp: suspect_slot_def slotWorker_def zeroSlot_def)
qed

lemma late_loop_triple: "ptriple P (late_loop env cfg host n l answered deadline fuel) (\<lambda>_. P)"
  by (induction fuel) (auto intro!: ptriple_Done ptriple_bind_outside split: option.split)

lemma readLateStart_triple: "ptriple P (readLateStart env cfg host n l err) (\<lambda>_. P)"
  unfolding readLateStart_def by (intro ptriple_bind_outside late_loop_triple)

lemma launch_full_triple: "ptriple (\<lambda>p c. untouched p0 p) (launch_full env cfg growing) (launch_result cfg p0 l)"
proof -
  have "ptriple (\<lambda>p c. untouched p0 p) (locked env (noteFull cfg)) (\<lambda>_ p c. untouched p0 p)"
    by (rule ptriple_locked) (rule untouched_noteFull)
  then show ?thesis
    unfolding launch_full_def Let_def
    by (auto intro!: ptriple_Done ptriple_bind simp: launch_result_def)
qed

lemma release_triple:
  "ptriple (\<lambda>p c. pool_ok p \<and> booked p0 leaseID host n p) (locked_do env (release (ho_ID host) n)) (\<lambda>_ p c. pool_ok p \<and> untouched p0 p)"
  by (rule ptriple_locked_do) (auto intro: pool_ok_release untouched_release)

lemma launch_attempts_triple:
  assumes slots: "\<And>i info. info_at p0 i = Some info \<Longrightarrow> hi_Slots info \<le> maxInt64" and l: "l_ID l \<noteq> []" "CHR ''/'' \<notin> set (l_ID l)"
  shows "ptriple (\<lambda>p c. pool_ok p \<and> untouched p0 p) (launch_attempts env cfg l growing n) (launch_result cfg p0 l)"
proof (induction n)
  case 0
  show ?case unfolding launch_attempts.simps by (rule ptriple_pre [OF launch_full_triple]) simp
next
  case (Suc n)
  let ?B = "\<lambda>host n p c. pool_ok p \<and> booked p0 (l_ID l) host n p"
  have reserve: "ptriple (\<lambda>p c. pool_ok p \<and> untouched p0 p) (locked env (reserve cfg (l_ID l)))
      (\<lambda>r p c. case r of None \<Rightarrow> untouched p0 p | Some (host, n, img) \<Rightarrow> ?B host n p c)"
  proof (rule ptriple_locked)
    fix now p and c :: "pool_call list"
    assume p: "pool_ok p \<and> untouched p0 p"
    show "case fst (reserve cfg (l_ID l) now p) of None \<Rightarrow> untouched p0 (snd (reserve cfg (l_ID l) now p))
        | Some (host, n, img) \<Rightarrow> ?B host n (snd (reserve cfg (l_ID l) now p)) c"
      using p reserve_None [of p cfg "l_ID l" now] booked_reserve [of p p0 cfg "l_ID l" now] pool_ok_reserve [of p cfg "l_ID l" now]
      by (cases "reserve cfg (l_ID l) now p") (auto split: option.splits)
  qed
  have refuse: "ptriple (?B host m) (pseq (locked_do env (release (ho_ID host) m)) (pseq (locked_do env (refuseHost (ho_ID host) reason))
      (launch_attempts env cfg l growing n))) (launch_result cfg p0 l)" for host m reason
    by (rule ptriple_seq [OF release_triple], rule ptriple_seq [OF _ Suc], rule ptriple_locked_do) (auto intro: pool_ok_refuseHost untouched_refuseHost)
  have foreign: "ptriple (?B host m) (pseq (locked_do env (release (ho_ID host) m)) (pseq (locked_do env (markForeign cfg (ho_ID host) m))
      (launch_attempts env cfg l growing n))) (launch_result cfg p0 l)" for host m
    by (rule ptriple_seq [OF release_triple], rule ptriple_seq [OF _ Suc], rule ptriple_locked_do) (auto intro: pool_ok_markForeign untouched_markForeign)
  have rejected: "ptriple (?B host m) (pseq (locked_do env (release (ho_ID host) m)) (Done (Inl (ErrWrap msg err)))) (launch_result cfg p0 l)" for host m msg err
    by (rule ptriple_seq [OF release_triple], rule ptriple_Done) (simp add: launch_result_def)
  let ?C = "\<lambda>host m img p c. ?B host m p c \<and> (\<exists>pp. CallStartSlot host m (start_request cfg l img) pp \<in> set c)"
  have commit: "ptriple (?C host m img) (pbind (locked env (commit cfg (ho_ID host) m s l)) (\<lambda>w. Done (Inr w))) (launch_result cfg p0 l)"
    for host m img s
    by (rule ptriple_bind [OF ptriple_locked [where Q = "holds_lease cfg p0 l"] ptriple_Done])
      (auto intro: held_commit [OF _ slots l] simp: launch_result_def)
  have suspect: "ptriple (?C host m img) (pbind (pool_now env) (\<lambda>t. pseq (locked_do env (holdSuspect cfg (ho_ID host) m l reason))
      (Done (Inl (PartialLaunchError (slotWorker (ho_ID host) m (zeroSlot\<lparr>sl_Index := m, sl_ControllerID := pc_ControllerID cfg,
         sl_State := st, sl_CreatedAt := t\<rparr>) l) err))))) (launch_result cfg p0 l)" for host m img reason st err
    unfolding pool_now_def
    by (rule ptriple_bind_outside, rule ptriple_seq [OF ptriple_locked_do ptriple_Done])
      (auto intro: held_suspect [OF _ slots l] simp: launch_result_def)
  have start: "ptriple (?B host m) (outside_traced (CallStartSlot host m (start_request cfg l img)) g) (\<lambda>_. ?C host m img)" for host m img g
    by (rule ptriple_outside_traced) auto
  have weaken: "ptriple (?C host m img) k Q" if "ptriple (?B host m) k Q" for host m img k Q
    using that by (rule ptriple_pre) simp
  show ?case
    unfolding launch_attempts.simps Let_def
    apply (rule ptriple_bind [OF reserve])
    subgoal for r
      apply (cases r)
       apply (simp only: option.case launch_full_triple)
      apply (simp only: option.case split_paired_all prod.case)
      apply (rule ptriple_bind [OF start])
      apply (intro ptriple_cases commit suspect weaken [OF refuse] weaken [OF foreign] weaken [OF rejected] ptriple_bind [OF readLateStart_triple])
      done
    done
qed

lemma launch_triple:
  assumes "\<And>i info. info_at p0 i = Some info \<Longrightarrow> hi_Slots info \<le> maxInt64"
  shows "ptriple (\<lambda>p c. pool_ok p \<and> p = p0) (launch env cfg l growing) (launch_result cfg p0 l)"
proof -
  have same: "untouched p0 p0" by (simp add: untouched_def same_slot_def)
  have "ptriple (\<lambda>p c. pool_ok p \<and> p = p0) (launch_attempts env cfg l growing maxStartAttempts) (launch_result cfg p0 l)"
    if "l_ID l \<noteq> []" "CHR ''/'' \<notin> set (l_ID l)"
    by (rule ptriple_pre [OF launch_attempts_triple [OF assms that]]) (use same in auto)
  then show ?thesis
    unfolding launch_def by (intro ptriple_if) (auto intro!: ptriple_Done simp: launch_result_def same)
qed

section \<open>Reading a late start back\<close>

text \<open>
  What the end of the loop relies on: the wall clock never goes back, and a sleep lasts as long as
  asked unless the context is over.
\<close>

definition wall_clock :: "('w \<Rightarrow> gotime) \<Rightarrow> 'w poolEnv \<Rightarrow> bool" where
  "wall_clock clk env \<longleftrightarrow>
     (\<forall>w. fst (pe_wall env w) = clk w \<and> clk w \<le> clk (snd (pe_wall env w)) \<and> clk w \<le> clk (snd (pe_done env w))
        \<and> (\<forall>h. clk w \<le> clk (snd (pe_slots env h w)))
        \<and> (\<forall>d. clk w + d \<le> clk (snd (pe_sleep env d w)) \<or> fst (pe_done env (snd (pe_sleep env d w)))))"

lemma prun_outside: "prun (outside g) s = (fst (g (pl_world s)), s\<lparr>pl_world := snd (g (pl_world s))\<rparr>)"
  by (simp add: outside_def case_prod_beta)

lemma late_loop_over: "fst (pe_done env (pl_world s)) \<Longrightarrow> fuel \<noteq> 0 \<Longrightarrow> fst (prun (late_loop env cfg host n l answered deadline fuel) s) = Some None"
  by (cases fuel) (simp_all add: prun_outside)

lemma late_loop_ends:
  assumes "wall_clock clk env" and "deadline - clk (pl_world s) \<le> lateStartPoll * int fuel" and "fuel \<noteq> 0"
  shows "fst (prun (late_loop env cfg host n l answered deadline fuel) s) \<noteq> None"
  using assms(2,3)
proof (induction fuel arbitrary: s)
  case (Suc fuel)
  let ?w1 = "snd (pe_done env (pl_world s))" and ?w = "pl_world s"
  let ?w2 = "snd (pe_slots env host ?w1)"
  let ?w3 = "snd (pe_wall env ?w2)"
  let ?w4 = "snd (pe_sleep env lateStartPoll ?w3)"
  have clock: "clk ?w \<le> clk ?w1" "clk ?w1 \<le> clk ?w2" "fst (pe_wall env ?w2) = clk ?w2" "clk ?w2 \<le> clk ?w3"
    "clk ?w3 + lateStartPoll \<le> clk ?w4 \<or> fst (pe_done env ?w4)"
    using assms(1) by (auto simp: wall_clock_def)
  have again: "fst (prun (late_loop env cfg host n l answered deadline fuel) (s\<lparr>pl_world := ?w4\<rparr>)) \<noteq> None"
    if "clk ?w2 + lateStartPoll < deadline"
  proof -
    have "lateStartPoll < lateStartPoll * int (Suc fuel)" using that clock Suc.prems(1) by simp
    then have "fuel \<noteq> 0" by (cases fuel) simp_all
    then show ?thesis
      using clock(5) late_loop_over [of env "s\<lparr>pl_world := ?w4\<rparr>" fuel] Suc.IH [of "s\<lparr>pl_world := ?w4\<rparr>"] clock(1-4) Suc.prems(1)
      by (auto simp: algebra_simps)
  qed
  show ?case
    using again clock(3) by (auto simp: prun_outside case_prod_beta split: option.split sum.split)
qed simp

lemma readLateStart_ends:
  assumes "wall_clock clk env"
  shows "fst (prun (readLateStart env cfg host n l err) s) \<noteq> None"
proof -
  have "fst (pe_wall env (pl_world s)) = clk (pl_world s)" "clk (pl_world s) \<le> clk (snd (pe_wall env (pl_world s)))"
    using assms by (auto simp: wall_clock_def)
  then show ?thesis
    using late_loop_ends [OF assms, of "fst (pe_wall env (pl_world s)) + lateStartWait" "s\<lparr>pl_world := snd (pe_wall env (pl_world s))\<rparr>" late_fuel]
    by (simp add: readLateStart_def prun_outside late_fuel_def lateStartWait_def lateStartPoll_def)
qed

lemma read_slot_own:
  "read_slot cfg n l slots = Some (Some s) \<Longrightarrow> s \<in> set slots \<and> sl_Index s = n \<and> sl_ControllerID s = pc_ControllerID cfg
     \<and> sl_LeaseID s = l_ID l \<and> sl_RunnerName s = l_RunnerName l \<and> sl_State s = ''started''"
  by (induction cfg n l slots rule: read_slot.induct) (auto split: if_splits)

lemma late_loop_own:
  "fst (prun (late_loop env cfg host n l answered deadline fuel) s) = Some (Some x) \<Longrightarrow>
     \<exists>w slots. fst (pe_slots env host w) = Inr slots \<and> read_slot cfg n l slots = Some (Some x)"
proof (induction fuel arbitrary: s)
  case (Suc fuel)
  let ?w1 = "snd (pe_done env (pl_world s))"
  show ?case
  proof (cases "fst (pe_slots env host ?w1)")
    case (Inl e)
    then show ?thesis using Suc by (auto simp: prun_outside case_prod_beta split: if_splits)
  next
    case (Inr slots)
    then show ?thesis using Suc by (fastforce simp: prun_outside case_prod_beta split: if_splits option.splits)
  qed
qed simp

section \<open>The promises of a launch\<close>

lemma example_info: "info_at example_pool i = Some info \<Longrightarrow> hi_Slots info \<le> maxInt64"
  by (auto simp: info_at_def example_pool_def new_pool_def example_ready_def new_host_def maxInt64_def split: if_splits)

lemma example_launch:
  "case fst (prun (launch example_env example_cfg example_lease True) (example_sys 10)) of
     Inr w \<Rightarrow> w_ID w = ''h1/0/lease1'' | Inl e \<Rightarrow> False"
  by code_simp

text \<open>
  C7. Whatever the agents answer, a launch keeps the pool well-formed and leaves no reservation of its
  own.  When it answers a worker, or a worker that may have started, a slot that was free holds the
  lease, its start was asked of that host, and the worker's id names that host and slot.  On any other
  error no slot is held for the lease: the slots are as before, but for markers of slots that someone
  else was found to use.
\<close>

theorem launch_outcome:
  assumes "sys_ok s" and "\<And>i info. info_at (pl_pool s) i = Some info \<Longrightarrow> hi_Slots info \<le> maxInt64"
    and "prun (launch env cfg l growing) s = (r, s')"
  shows "sys_ok s' \<and> launch_result cfg (pl_pool s) l r (pl_pool s') (pl_calls s')"
proof
  show "sys_ok s'" using pkeeps_prun [OF launch_ok assms(1), of env cfg l growing] assms(3) by simp
  show "launch_result cfg (pl_pool s) l r (pl_pool s') (pl_calls s')"
    using ptripleD [OF launch_triple [OF assms(2)] _ assms(3)] assms(1) by (auto simp: sys_ok_def)
qed

theorem launch_outcome_witness:
  "\<exists>w. fst (prun (launch example_env example_cfg example_lease True) (example_sys 10)) = Inr w
     \<and> holds_lease example_cfg example_pool example_lease w
        (pl_pool (snd (prun (launch example_env example_cfg example_lease True) (example_sys 10))))
        (pl_calls (snd (prun (launch example_env example_cfg example_lease True) (example_sys 10))))"
proof -
  let ?m = "launch example_env example_cfg example_lease True"
  have "prun ?m (example_sys 10) = (fst (prun ?m (example_sys 10)), snd (prun ?m (example_sys 10)))" by simp
  from launch_outcome [OF example_sys_ok _ this] example_info example_launch
  show ?thesis by (auto simp: example_sys_def launch_result_def split: sum.splits)
qed

text \<open>
  Reading a late start back ends by itself as long as the clock advances while it sleeps, changes
  nothing in the pool, and finds a slot only when the agent lists exactly that slot as started with this
  controller, this lease and this runner.
\<close>

theorem late_start_read_back:
  assumes "wall_clock clk env"
  shows "\<exists>found s'. prun (readLateStart env cfg host n l err) s = (Some found, s') \<and> pl_pool s' = pl_pool s
    \<and> (\<forall>x. found = Some x \<longrightarrow> sl_Index x = n \<and> sl_ControllerID x = pc_ControllerID cfg \<and> sl_LeaseID x = l_ID l
          \<and> sl_RunnerName x = l_RunnerName l \<and> sl_State x = ''started''
          \<and> (\<exists>w slots. fst (pe_slots env host w) = Inr slots \<and> x \<in> set slots))"
proof -
  obtain r s' where r: "prun (readLateStart env cfg host n l err) s = (r, s')" by fastforce
  obtain found where found: "r = Some found" using readLateStart_ends [OF assms, of cfg host n l err s] r by auto
  have "pl_pool s' = pl_pool s"
    using ptripleD [OF readLateStart_triple [of "\<lambda>p c. p = pl_pool s"] _ r] by simp
  moreover have "\<exists>w slots. fst (pe_slots env host w) = Inr slots \<and> read_slot cfg n l slots = Some (Some x)" if "found = Some x" for x
  proof -
    have "fst (prun (late_loop env cfg host n l (errors_As as_agent (Some err) \<noteq> None)
        (fst (pe_wall env (pl_world s)) + lateStartWait) late_fuel) (s\<lparr>pl_world := snd (pe_wall env (pl_world s))\<rparr>)) = Some (Some x)"
      using r found that by (simp add: readLateStart_def prun_outside)
    then show ?thesis by (rule late_loop_own)
  qed
  ultimately show ?thesis using r found read_slot_own by blast
qed

theorem late_start_read_back_witness:
  "\<exists>s'. prun (readLateStart example_env example_cfg (example_host ''h1'') 0 example_lease (ErrText ''timeout'')) (example_sys 10) = (Some None, s')"
proof -
  have "wall_clock id example_env" by (simp add: wall_clock_def example_env_def)
  from late_start_read_back [OF this, of example_cfg "example_host ''h1''" 0 example_lease "ErrText ''timeout''" "example_sys 10"]
  obtain found s' where r: "prun (readLateStart example_env example_cfg (example_host ''h1'') 0 example_lease (ErrText ''timeout'')) (example_sys 10) = (Some found, s')"
    and own: "\<And>x. found = Some x \<Longrightarrow> \<exists>w slots. fst (pe_slots example_env (example_host ''h1'') w) = Inr slots \<and> x \<in> set slots"
    by blast
  have "found = None" using own by (cases found) (auto simp: example_env_def)
  then show ?thesis using r by blast
qed

text \<open>The id of a worker parses back to its host, slot and lease.\<close>

theorem worker_id_round_trip:
  assumes "hostID \<noteq> []" "CHR ''/'' \<notin> set hostID" "leaseID \<noteq> []" "CHR ''/'' \<notin> set leaseID" "0 \<le> n" "n \<le> maxInt64"
  shows "parseWorkerID (WorkerID hostID n leaseID) = Inr (hostID, n, leaseID)"
  using assms by (rule parse_WorkerID)

theorem worker_id_round_trip_witness:
  "WorkerID ''h1'' 12 ''lease1'' = ''h1/12/lease1'' \<and> parseWorkerID ''h1/12/lease1'' = Inr (''h1'', 12, ''lease1'')"
proof -
  have "WorkerID ''h1'' 12 ''lease1'' = ''h1/12/lease1''" by code_simp
  then show ?thesis using worker_id_round_trip [of "''h1''" "''lease1''" 12] by (simp add: maxInt64_def)
qed

end
