(* ===== verification/Pool_Return.thy ===== *)
theory Pool_Return
  imports Pool_Launch
begin

text \<open>
  When a pool gives hosts back and when it asks for more: a host is deleted or stopped only when no job
  can be on it, hosts are created only up to the maximum and as many as are wanted, and a host paid by
  the hour is looked at before every hour it would start.
\<close>

section \<open>Which hosts are returned\<close>

definition phase_at :: "pool \<Rightarrow> string \<Rightarrow> phase option" where
  "phase_at p i = map_option hs_phase (map_of (po_hosts p) i)"
















section \<open>Returning them\<close>



lemma phase_at_accrue [simp]: "phase_at (accrue now p) i = phase_at p i"
  by (simp add: phase_at_def map_of_accrue option.map_comp o_def)








section \<open>Asking for hosts\<close>

definition is_create :: "spawn \<Rightarrow> bool" where
  "is_create sp = (case sp of SpawnStart i \<Rightarrow> False | SpawnCreate i img \<Rightarrow> True)"

lemma placeholder_fresh: "pool_ok p \<Longrightarrow> map_of (po_hosts p) (''creating-'' @ itoa (po_createSeq p + 1)) = None"
proof (rule ccontr)
  define i where "i = ''creating-'' @ itoa (po_createSeq p + 1)"
  assume p: "pool_ok p" and "map_of (po_hosts p) (''creating-'' @ itoa (po_createSeq p + 1)) \<noteq> None"
  then obtain h where "map_of (po_hosts p) i = Some h" by (auto simp: i_def)
  moreover have "placeholder_id i" unfolding i_def by (rule placeholder_creating)
  ultimately obtain k where k: "1 \<le> k" "k \<le> po_createSeq p" "i = ''creating-'' @ itoa k"
    using p unfolding pool_ok_def seq_ok_def by blast
  then show False using itoa_inj [of "po_createSeq p + 1" k] by (simp add: i_def)
qed

definition startable_host :: "poolConfig \<Rightarrow> gotime \<Rightarrow> pool \<Rightarrow> hostState \<Rightarrow> bool" where
  "startable_host cfg now p h \<longleftrightarrow> hs_phase h = PhaseStopped \<and> \<not> now < hs_notBefore h \<and> unusable cfg p h = []"

lemma startable_loop_None:
  "startable_loop cfg now p is best = None \<longleftrightarrow>
     best = None \<and> (\<forall>i \<in> set is. \<forall>h. map_of (po_hosts p) i = Some h \<longrightarrow> \<not> startable_host cfg now p h)"
  by (induction cfg now p "is" best rule: startable_loop.induct) (auto simp: startable_host_def split: option.splits if_splits)

lemma startable_None:
  "startable cfg now p = None \<longleftrightarrow> \<not> pc_stopper cfg \<or> (\<forall>i h. map_of (po_hosts p) i = Some h \<longrightarrow> \<not> startable_host cfg now p h)"
proof -
  have "i \<in> set (sortedIDs p)" if "map_of (po_hosts p) i = Some h" for i h
    using map_of_SomeD [OF that] by (force simp: sortedIDs_def)
  then show ?thesis by (auto simp: startable_def startable_loop_None)
qed

lemma on_host_count: "length (po_hosts (on_host i f p)) = length (po_hosts p)"
  by (simp add: on_host_def length_update_old split: option.split)

lemma grow_starts_spec:
  "pool_ok p \<Longrightarrow> grow_starts cfg now n p sp = (w, sp', p') \<Longrightarrow>
     length (po_hosts p') = length (po_hosts p) \<and> po_createNotBefore p' = po_createNotBefore p \<and> po_image p' = po_image p
     \<and> (\<exists>new. sp' = sp @ map SpawnStart new \<and> length new + w = n \<and> distinct new
          \<and> (\<forall>i. phase_at p' i = (if i \<in> set new then Some PhaseStarting else phase_at p i)) \<and> (\<forall>i \<in> set new. phase_at p i = Some PhaseStopped))
     \<and> (w \<noteq> 0 \<longrightarrow> startable cfg now p' = None)"
proof (induction cfg now n p sp rule: grow_starts.induct)
  case (1 cfg now p sp)
  then show ?case by (auto intro!: exI [of _ "[]"])
next
  case (2 cfg now want p sp)
  show ?case
  proof (cases "startable cfg now p")
    case None
    then show ?thesis using 2 by (auto intro!: exI [of _ "[]"])
  next
    case (Some ih)
    obtain i h where ih: "ih = (i, h)" by (cases ih)
    let ?p = "on_host i (\<lambda>h. h\<lparr>hs_phase := PhaseStarting, hs_changedAt := now\<rparr>) p"
    have h: "map_of (po_hosts p) i = Some h" "hs_phase h = PhaseStopped" using startable_in Some ih by auto
    have id: "ho_ID (hs_host h) = i" using host_okD(4) [OF pool_ok_host [OF 2(2) h(1)]] h(2) by simp
    have ok: "pool_ok ?p" using 2(2) h by (intro pool_ok_on_host) (auto intro!: host_ok_phase)
    have phases: "phase_at ?p j = (if j = i then Some PhaseStarting else phase_at p j)" for j
      using h by (simp add: phase_at_def map_of_on_host)
    have "grow_starts cfg now want ?p (sp @ [SpawnStart i]) = (w, sp', p')" using 2(3) Some ih id by simp
    from 2(1) [OF Some ih [symmetric] ok, unfolded id, OF this] obtain new where
      new: "sp' = sp @ [SpawnStart i] @ map SpawnStart new" "length new + w = want" "distinct new"
        "\<And>j. phase_at p' j = (if j \<in> set new then Some PhaseStarting else phase_at ?p j)" "\<And>j. j \<in> set new \<Longrightarrow> phase_at ?p j = Some PhaseStopped"
      and rest: "length (po_hosts p') = length (po_hosts ?p)" "po_createNotBefore p' = po_createNotBefore p" "po_image p' = po_image p"
        "w \<noteq> 0 \<Longrightarrow> startable cfg now p' = None"
      by auto
    have "i \<notin> set new" using new(5) phases by force
    moreover have "phase_at p j = Some PhaseStopped" if "j \<in> set (i # new)" for j
    proof (cases "j = i")
      case True
      then show ?thesis using h by (simp add: phase_at_def)
    next
      case False
      then show ?thesis using that new(5) [of j] phases [of j] by simp
    qed
    ultimately show ?thesis
      using new rest phases by (intro conjI exI [of _ "i # new"]) (auto simp: on_host_count)
  qed
qed

lemma grow_creates_spec:
  "pool_ok p \<Longrightarrow> grow_creates now n p sp = (sp', p') \<Longrightarrow>
     length (po_hosts p') = length (po_hosts p) + n \<and> po_image p' = po_image p
     \<and> (\<exists>new. sp' = sp @ map (\<lambda>i. SpawnCreate i (po_image p)) new \<and> length new = n \<and> distinct new
          \<and> (\<forall>i \<in> set new. map_of (po_hosts p) i = None \<and> phase_at p' i = Some PhaseCreating)
          \<and> (\<forall>i. i \<notin> set new \<longrightarrow> map_of (po_hosts p') i = map_of (po_hosts p) i))"
proof (induction now n p sp rule: grow_creates.induct)
  case (1 now p sp)
  then show ?case by auto
next
  case (2 now want p sp)
  define i where "i = ''creating-'' @ itoa (po_createSeq p + 1)"
  let ?p = "p\<lparr>po_createSeq := po_createSeq p + 1, po_hosts := AList.update i (new_host zeroHost PhaseCreating now) (po_hosts p)\<rparr>"
  have fresh: "map_of (po_hosts p) i = None" unfolding i_def by (rule placeholder_fresh [OF 2(2)])
  have "pool_ok ?p" unfolding i_def by (rule pool_ok_create [OF 2(2) refl])
  moreover have "grow_creates now want ?p (sp @ [SpawnCreate i (po_image p)]) = (sp', p')" using 2(3) by (simp add: i_def Let_def)
  ultimately obtain new where
    new: "sp' = sp @ [SpawnCreate i (po_image p)] @ map (\<lambda>i. SpawnCreate i (po_image p)) new" "length new = want" "distinct new"
      "\<And>j. j \<in> set new \<Longrightarrow> map_of (po_hosts ?p) j = None \<and> phase_at p' j = Some PhaseCreating"
      "\<And>j. j \<notin> set new \<Longrightarrow> map_of (po_hosts p') j = map_of (po_hosts ?p) j"
    and rest: "length (po_hosts p') = length (po_hosts ?p) + want" "po_image p' = po_image p"
    using 2(1) [OF refl i_def] by (auto simp: i_def)
  have i: "i \<notin> set new" using new(4) by force
  have "phase_at p' j = Some PhaseCreating \<and> map_of (po_hosts p) j = None" if "j \<in> set (i # new)" for j
  proof (cases "j = i")
    case True
    then show ?thesis using new(5) [OF i] fresh by (simp add: phase_at_def new_host_def)
  next
    case False
    then show ?thesis using that new(4) [of j] by simp
  qed
  moreover have "map_of (po_hosts p') j = map_of (po_hosts p) j" if "j \<notin> set (i # new)" for j
    using that new(5) [of j] by simp
  moreover have "length (po_hosts p') = length (po_hosts p) + Suc want" using rest(1) length_update_new [OF fresh] by simp
  ultimately show ?case using new(1-3) rest(2) i by (intro conjI exI [of _ "i # new"]) auto
qed

lemma unusable_cong: "po_image p' = po_image p \<Longrightarrow> po_imageResolved p' = po_imageResolved p \<Longrightarrow> unusable cfg p' h = unusable cfg p h"
  by (simp add: unusable_def accepts_def stale_def)

lemma on_host_resolved [simp]: "po_imageResolved (on_host i f p) = po_imageResolved p"
  by (simp add: on_host_def split: option.split)

lemma grow_resolved:
  "grow_starts cfg now n p sp = (w, sp', p') \<Longrightarrow> po_imageResolved p' = po_imageResolved p"
  "grow_creates now n p sp = (sp', p') \<Longrightarrow> po_imageResolved p' = po_imageResolved p"
proof -
  show "grow_starts cfg now n p sp = (w, sp', p') \<Longrightarrow> po_imageResolved p' = po_imageResolved p"
    by (induction cfg now n p sp rule: grow_starts.induct) (auto split: option.splits)
  show "grow_creates now n p sp = (sp', p') \<Longrightarrow> po_imageResolved p' = po_imageResolved p"
    by (induction now n p sp rule: grow_creates.induct) (auto simp: Let_def)
qed

lemma startable_None_created:
  assumes none: "startable cfg now p = None" and image: "po_image p' = po_image p" "po_imageResolved p' = po_imageResolved p"
    and hosts: "\<And>i. map_of (po_hosts p') i = map_of (po_hosts p) i \<or> phase_at p' i = Some PhaseCreating"
  shows "startable cfg now p' = None"
proof -
  have "\<not> startable_host cfg now p' h" if "map_of (po_hosts p') i = Some h" "pc_stopper cfg" for i h
  proof
    assume h: "startable_host cfg now p' h"
    then have "phase_at p' i \<noteq> Some PhaseCreating" using that(1) by (auto simp: phase_at_def startable_host_def)
    then have "map_of (po_hosts p) i = Some h" using hosts [of i] that(1) by simp
    moreover have "startable_host cfg now p h" using h unusable_cong [OF image, of cfg h] by (simp add: startable_host_def)
    ultimately show False using none that(2) by (auto simp: startable_None)
  qed
  then show ?thesis by (auto simp: startable_None)
qed

lemma grow_want_nonneg: "0 \<le> grow_want cfg p"
  by (simp add: grow_want_def Let_def)

text \<open>
  C28. Growing a pool that can create hosts starts stopped hosts first and then creates new ones: never
  above the maximum, none before the backoff has passed, and never more than wanted.  It asks for
  exactly as many as wanted unless no stopped host is left to start and the maximum or the backoff
  stops it.  Each host it starts was stopped, each it creates has a place of its own, and no two of
  them are the same.
\<close>

theorem growth_bounded:
  assumes "pool_ok p" and "grow cfg now p = (sp, p')" and "fa_CanCreate (pc_facts cfg)"
  shows "host_count p' = host_count p + int (length (filter is_create sp))
    \<and> (filter is_create sp \<noteq> [] \<longrightarrow> host_count p' \<le> pc_MaxHosts cfg \<and> \<not> now < po_createNotBefore p)
    \<and> int (length sp) \<le> grow_want cfg p
    \<and> (int (length sp) < grow_want cfg p \<longrightarrow>
        startable cfg now p' = None \<and> (now < po_createNotBefore p \<or> pc_MaxHosts cfg \<le> host_count p'))
    \<and> distinct sp
    \<and> (\<forall>i. SpawnStart i \<in> set sp \<longrightarrow> phase_at p i = Some PhaseStopped \<and> phase_at p' i = Some PhaseStarting)
    \<and> (\<forall>i img. SpawnCreate i img \<in> set sp \<longrightarrow> phase_at p i = None \<and> phase_at p' i = Some PhaseCreating \<and> img = po_image p)"
proof -
  let ?p0 = "p\<lparr>po_demand := 0\<rparr>" and ?want = "nat (grow_want cfg p)"
  have p0: "pool_ok ?p0" by (rule pool_ok_cong [OF assms(1)]) simp_all
  obtain w sp1 p1 where 1: "grow_starts cfg now ?want ?p0 [] = (w, sp1, p1)" by (metis prod_cases3)
  define n where "n = (if now < po_createNotBefore p1 then 0 else nat (min (int w) (max 0 (pc_MaxHosts cfg - host_count p1))))"
  have 2: "grow_creates now n p1 sp1 = (sp, p')" using assms(2,3) 1 by (simp add: grow_def n_def Let_def)
  have p1: "pool_ok p1" using grow_starts_ok [OF p0 _ 1] by simp
  obtain new where s: "sp1 = map SpawnStart new" "length new + w = ?want" "distinct new"
      "\<And>i. phase_at p1 i = (if i \<in> set new then Some PhaseStarting else phase_at ?p0 i)" "\<And>i. i \<in> set new \<Longrightarrow> phase_at ?p0 i = Some PhaseStopped"
    and s': "length (po_hosts p1) = length (po_hosts p)" "po_createNotBefore p1 = po_createNotBefore p" "po_image p1 = po_image p"
      "w \<noteq> 0 \<Longrightarrow> startable cfg now p1 = None"
    using grow_starts_spec [OF p0 1] by auto
  obtain news where c: "sp = map SpawnStart new @ map (\<lambda>i. SpawnCreate i (po_image p)) news" "length news = n" "distinct news"
      "\<And>i. i \<in> set news \<Longrightarrow> map_of (po_hosts p1) i = None \<and> phase_at p' i = Some PhaseCreating"
      "\<And>i. i \<notin> set news \<Longrightarrow> map_of (po_hosts p') i = map_of (po_hosts p1) i"
    and c': "length (po_hosts p') = length (po_hosts p1) + n" "po_image p' = po_image p1"
    using grow_creates_spec [OF p1 2] s(1) s'(3) by auto
  have same: "phase_at ?p0 i = phase_at p i" for i by (simp add: phase_at_def)
  have creates: "length (filter is_create sp) = n" by (simp add: c(1,2) is_create_def filter_map o_def)
  have count: "host_count p' = host_count p + int n" using s'(1) c'(1) by (simp add: host_count_def)
  have n: "n \<noteq> 0 \<Longrightarrow> host_count p' \<le> pc_MaxHosts cfg \<and> \<not> now < po_createNotBefore p" "n \<le> w"
    using count s'(1,2) by (auto simp: n_def host_count_def split: if_splits)
  have short: "startable cfg now p' = None \<and> (now < po_createNotBefore p \<or> pc_MaxHosts cfg \<le> host_count p')" if "n < w"
  proof
    show "startable cfg now p' = None"
      by (rule startable_None_created [where p = p1]) (use s'(4) that c(4,5) c'(2) grow_resolved(2) [OF 2] in auto)
    show "now < po_createNotBefore p \<or> pc_MaxHosts cfg \<le> host_count p'"
      using that count s'(1,2) by (auto simp: n_def host_count_def split: if_splits)
  qed
  have starts: "phase_at p i = Some PhaseStopped \<and> phase_at p' i = Some PhaseStarting" if "i \<in> set new" for i
  proof -
    have "phase_at p1 i = Some PhaseStarting" using s(4) that by simp
    then have "i \<notin> set news" using c(4) by (auto simp: phase_at_def)
    then show ?thesis using s(5) [OF that] same \<open>phase_at p1 i = Some PhaseStarting\<close> c(5) by (simp add: phase_at_def)
  qed
  have made: "phase_at p i = None \<and> phase_at p' i = Some PhaseCreating" if "i \<in> set news" for i
    using c(4) [OF that] s(4) [of i] same [of i] by (auto simp: phase_at_def split: if_splits)
  have "distinct sp" using s(3) c(3) by (auto simp: c(1) distinct_map inj_on_def)
  moreover have "int (length sp) \<le> grow_want cfg p" "int (length sp) < grow_want cfg p \<Longrightarrow> n < w"
    using s(2) c(2) n(2) grow_want_nonneg [of cfg p] by (auto simp: c(1))
  moreover have "SpawnStart i \<in> set sp \<Longrightarrow> i \<in> set new" "SpawnCreate i img \<in> set sp \<Longrightarrow> i \<in> set news \<and> img = po_image p" for i img
    by (auto simp: c(1))
  moreover have "filter is_create sp \<noteq> [] \<Longrightarrow> n \<noteq> 0" using creates by auto
  ultimately show ?thesis unfolding creates using count n(1) short starts made by blast
qed

lemma example_want: "grow_want example_cfg (example_pool\<lparr>po_demand := 1\<rparr>) = 1 \<and> fst (grow example_cfg 10 (example_pool\<lparr>po_demand := 1\<rparr>)) = [SpawnCreate ''creating-1'' ''img'']"
  by code_simp

theorem growth_bounded_witness:
  "\<exists>p'. grow example_cfg 10 (example_pool\<lparr>po_demand := 1\<rparr>) = ([SpawnCreate ''creating-1'' ''img''], p')
     \<and> host_count p' = 2 \<and> phase_at p' ''creating-1'' = Some PhaseCreating"
proof -
  let ?p = "example_pool\<lparr>po_demand := 1\<rparr>"
  have ok: "pool_ok ?p" by (rule pool_ok_cong [OF example_pool_ok]) simp_all
  obtain p' where g: "grow example_cfg 10 ?p = ([SpawnCreate ''creating-1'' ''img''], p')" using example_want by (metis prod.collapse)
  have "fa_CanCreate (pc_facts example_cfg)" by (simp add: example_cfg_def)
  from growth_bounded [OF ok g this] show ?thesis
    using g by (auto simp: is_create_def host_count_def example_pool_def)
qed

section \<open>Paid hours\<close>

text \<open>
  Take a pool whose hosts are paid by started hours, as its configuration was accepted, and two
  looks at a host at most a tick apart.  When a new paid hour begins between them, the first look found
  the host inside its margin; so a host that was empty then is a candidate for return before the next
  hour is paid.
\<close>

theorem paid_hour_seen:
  assumes "pool_configure c = Inr cfg" and "fa_Billing (pc_facts cfg) = BillingPerStartedHour"
    and "0 \<le> age" "later \<le> age + pc_Tick cfg" "age div hour < later div hour"
    and "hs_phase h = PhaseReady" "known_empty cfg now h" "i \<notin> set base" "time_sub now (ho_CreatedAt (hs_host h)) = age"
  shows "remainingPaid age \<le> pc_HourMargin cfg \<and> fst (return_reason cfg p base now i h) \<noteq> []"
proof -
  have margin: "pc_Tick cfg < pc_HourMargin cfg"
    using assms(1,2) by (auto simp: pool_configure_def pool_defaults_def Let_def split: if_splits)
  have "(age div hour + 1) * hour \<le> (later div hour) * hour" using assms(5) by (intro mult_right_mono) auto
  also have "\<dots> \<le> later" by (simp add: div_mult_mod_eq [symmetric] minus_mod_eq_div_mult [symmetric])
  finally have "age - age mod hour + hour \<le> later" by (simp add: algebra_simps minus_mod_eq_mult_div [symmetric])
  then have "remainingPaid age \<le> pc_HourMargin cfg" using assms(3,4) margin by (simp add: remainingPaid_def)
  then show ?thesis using assms by (auto simp: return_reason_def Let_def BillingPerStartedHour_def BillingOwned_def)
qed

definition example_hourly :: poolConfig where
  "example_hourly = example_cfg\<lparr>pc_facts := (pc_facts example_cfg)\<lparr>fa_Billing := BillingPerStartedHour\<rparr>, pc_stopper := False, pc_KeepStopped := 0\<rparr>"

theorem paid_hour_seen_witness:
  "remainingPaid (hour - 5 * second) \<le> pc_HourMargin example_hourly
   \<and> fst (return_reason example_hourly example_pool [] (hour - 5 * second) ''h1'' ((example_ready ''h1'')\<lparr>hs_lastListed := hour - 5 * second\<rparr>)) \<noteq> []"
  by (rule paid_hour_seen [where c = example_hourly and later = "hour + 5 * second"])
    (simp_all add: example_hourly_def example_cfg_def pool_configure_def pool_defaults_def default_to_def ValidName_def Let_def is_lower_def
      BillingPerStartedHour_def BillingPerSecond_def example_ready_def new_host_def known_empty_def occupied_def time_sub_def time_isZero_def
      zeroTime_def maxInt64_def minInt64_def example_host_def zeroHost_def)

end
