(* ===== verification/Pool_Correct.thy ===== *)
theory Pool_Correct
  imports Pool_Return
begin

text \<open>
  What the other operations of a pool promise: inventories list exactly the pool's own workers on
  hosts that were heard of, a removal is only reported when the worker is gone, meters do not depend on
  how often they are read, and the pool stays well-formed whatever runs at once.
\<close>

section \<open>Any interleaving\<close>

text \<open>
  C11. Whatever launches, removals, inventories, reports, maintenance rounds, host starts and host
  creations run at once, in every interleaving of their steps and whatever the source and the agents
  answer, a new pool stays well-formed: hosts are known under their own ids, placeholders exist exactly
  for hosts being created and are numbered, no slot is held twice in one map, a host being stopped
  holds no reservation, ready time is part of running time, and the creation backoff is at most fifteen
  minutes.  It is relied on that no host of the source has an id starting with \<^verbatim>\<open>creating-\<close>.
\<close>

theorem pool_stays_well_formed:
  assumes "names_ok env" and "pl_pool s0 = new_pool cfg t" and "pl_spawned s0 = []" and "pool_run env cfg s0 ts s"
  shows "pool_ok (pl_pool s)"
proof -
  have "sys_ok s0" using assms(2,3) pool_ok_new by (simp add: sys_ok_def)
  then show ?thesis using pool_run_sys_ok [OF assms(1) _ assms(4)] by (simp add: sys_ok_def)
qed

definition example_new :: "gotime poolSys" where
  "example_new = \<lparr>pl_pool = new_pool example_cfg 1, pl_world = 10, pl_calls = [], pl_spawned = []\<rparr>"

lemma pool_run_op:
  assumes "op_prog env cfg oper = Act f"
  shows "pool_run env cfg s0 [fst (f s0)] (snd (f s0))"
  using run_step [OF run_call [OF run_start, of env cfg s0 oper], of 0 f] assms by simp

theorem pool_stays_well_formed_witness:
  "\<exists>f. op_prog example_env example_cfg (OpLaunch example_lease) = Act f \<and> pool_ok (pl_pool (snd (f example_new)))
     \<and> pool_run example_env example_cfg example_new [fst (f example_new)] (snd (f example_new))"
proof -
  have "\<exists>f. op_prog example_env example_cfg (OpLaunch example_lease) = Act f"
    by (simp add: op_prog_def ignore_def pool_Launch_def launch_def example_lease_def zeroLease_def maxStartAttempts_def numeral_3_eq_3
        locked_def atom_def)
  then obtain f where f: "op_prog example_env example_cfg (OpLaunch example_lease) = Act f" ..
  note run = pool_run_op [OF f, of example_new]
  have "pool_ok (pl_pool (snd (f example_new)))"
    by (rule pool_stays_well_formed [OF example_names _ _ run]) (simp_all add: example_new_def)
  then show ?thesis using f run by blast
qed

section \<open>Meters\<close>







section \<open>Inventory\<close>

definition own_worker :: "poolConfig \<Rightarrow> gotime \<Rightarrow> pool \<Rightarrow> worker \<Rightarrow> bool" where
  "own_worker cfg now p w \<longleftrightarrow>
     (\<exists>i h n s. map_of (po_hosts p) i = Some h \<and> \<not> time_isZero (hs_lastListed h) \<and> time_sub now (hs_lastListed h) \<le> pc_UnreachableGrace cfg
        \<and> map_of (hs_slots h) n = Some s \<and> sl_ControllerID s = pc_ControllerID cfg \<and> sl_LeaseID s \<noteq> [] \<and> sl_RunnerName s \<noteq> []
        \<and> w = slotWorker i n s zeroLease)"

lemma host_workers_iff:
  "w \<in> set (host_workers cfg i h) \<longleftrightarrow>
     (\<exists>n s. map_of (hs_slots h) n = Some s \<and> sl_ControllerID s = pc_ControllerID cfg \<and> sl_LeaseID s \<noteq> [] \<and> sl_RunnerName s \<noteq> []
        \<and> w = slotWorker i n s zeroLease)"
proof
  assume "\<exists>n s. map_of (hs_slots h) n = Some s \<and> sl_ControllerID s = pc_ControllerID cfg \<and> sl_LeaseID s \<noteq> [] \<and> sl_RunnerName s \<noteq> []
        \<and> w = slotWorker i n s zeroLease"
  then obtain n s where n: "map_of (hs_slots h) n = Some s" "sl_ControllerID s = pc_ControllerID cfg" "sl_LeaseID s \<noteq> []" "sl_RunnerName s \<noteq> []"
    "w = slotWorker i n s zeroLease" by blast
  moreover have "n \<in> fst ` set (hs_slots h)" using map_of_SomeD [OF n(1)] by force
  ultimately show "w \<in> set (host_workers cfg i h)" by (auto simp: host_workers_def intro!: image_eqI [of _ _ n])
next
  assume "w \<in> set (host_workers cfg i h)"
  then obtain n where "w = slotWorker i n (the (map_of (hs_slots h) n)) zeroLease" "case map_of (hs_slots h) n of
      Some s \<Rightarrow> sl_ControllerID s = pc_ControllerID cfg \<and> sl_LeaseID s \<noteq> [] \<and> sl_RunnerName s \<noteq> [] | None \<Rightarrow> False"
    by (auto simp: host_workers_def)
  then show "\<exists>n s. map_of (hs_slots h) n = Some s \<and> sl_ControllerID s = pc_ControllerID cfg \<and> sl_LeaseID s \<noteq> [] \<and> sl_RunnerName s \<noteq> []
        \<and> w = slotWorker i n s zeroLease"
    by (intro exI [of _ n] exI [of _ "the (map_of (hs_slots h) n)"]) (auto split: option.splits)
qed

lemma inventory_workers_iff: "w \<in> set (inventory_workers cfg now p) \<longleftrightarrow> own_worker cfg now p w"
proof
  assume "own_worker cfg now p w"
  then obtain i h where i: "map_of (po_hosts p) i = Some h" "\<not> time_isZero (hs_lastListed h)"
      "time_sub now (hs_lastListed h) \<le> pc_UnreachableGrace cfg" "w \<in> set (host_workers cfg i h)"
    unfolding own_worker_def host_workers_iff by blast
  moreover have "i \<in> set (sortedIDs p)" using map_of_SomeD [OF i(1)] by (force simp: sortedIDs_def)
  ultimately show "w \<in> set (inventory_workers cfg now p)" by (auto simp: inventory_workers_def intro!: bexI [of _ i])
next
  assume "w \<in> set (inventory_workers cfg now p)"
  then obtain i where "w \<in> set (case map_of (po_hosts p) i of None \<Rightarrow> []
       | Some h \<Rightarrow> if time_isZero (hs_lastListed h) \<or> time_sub now (hs_lastListed h) > pc_UnreachableGrace cfg then [] else host_workers cfg i h)"
    by (auto simp: inventory_workers_def)
  then obtain h where "map_of (po_hosts p) i = Some h" "\<not> time_isZero (hs_lastListed h)"
      "time_sub now (hs_lastListed h) \<le> pc_UnreachableGrace cfg" "w \<in> set (host_workers cfg i h)"
    by (cases "map_of (po_hosts p) i") (auto split: if_splits)
  then show "own_worker cfg now p w" unfolding own_worker_def host_workers_iff by blast
qed

lemma refreshHosts_triple:
  "ptriple (\<lambda>p c. po_hostsKnown p = known \<and> c = calls) (refreshHosts env cfg force)
     (\<lambda>r p c. c = calls \<and> (case r of None \<Rightarrow> po_hostsKnown p \<and> (force \<longrightarrow> (\<exists>w hs. fst (pe_list env w) = Inr hs))
        | Some e \<Rightarrow> po_hostsKnown p = known \<and> (\<exists>w. fst (pe_list env w) = Inl e)))"
proof -
  let ?P = "\<lambda>p c. po_hostsKnown p = known \<and> c = calls"
  let ?Q = "\<lambda>r p c. c = calls \<and> (case r of None \<Rightarrow> po_hostsKnown p \<and> (force \<longrightarrow> (\<exists>w hs. fst (pe_list env w) = Inr hs))
        | Some e \<Rightarrow> po_hostsKnown p = known \<and> (\<exists>w. fst (pe_list env w) = Inl e))"
  have fresh: "ptriple ?P (locked env (\<lambda>now p. (po_hostsKnown p \<and> time_sub now (po_hostsListedAt p) < pc_HostListInterval cfg, p)))
      (\<lambda>fresh p c. ?P p c \<and> (fresh \<longrightarrow> known))"
    by (rule ptriple_locked) auto
  have listed: "ptriple ?P (outside (pe_list env)) (\<lambda>r p c. ?P p c \<and> (\<exists>w. fst (pe_list env w) = r))"
    by (rule ptriple_outside_fact) blast
  have failed: "ptriple (\<lambda>p c. ?P p c \<and> (\<exists>w. fst (pe_list env w) = Inl e)) (pseq (locked_do env source_failed) (Done (Some e))) ?Q" for e
    by (rule ptriple_seq [where R = "\<lambda>p c. ?P p c \<and> (\<exists>w. fst (pe_list env w) = Inl e)", OF ptriple_locked_do ptriple_Done])
      (auto simp: source_failed_def on_health_def)
  have found: "ptriple (\<lambda>p c. ?P p c \<and> (\<exists>w. fst (pe_list env w) = Inr hs)) (pseq (locked_do env (hosts_listed cfg t hs)) (Done None)) ?Q" for t hs
    by (rule ptriple_seq [where R = "\<lambda>p c. po_hostsKnown p \<and> c = calls \<and> (\<exists>w. fst (pe_list env w) = Inr hs)", OF ptriple_locked_do ptriple_Done])
      (auto simp: hosts_listed_def Let_def)
  show ?thesis
    unfolding refreshHosts_def
    apply (rule ptriple_bind [OF fresh])
    apply (rule ptriple_if)
     apply (rule ptriple_Done, simp)
    apply (rule ptriple_pre [where P = ?P])
     apply (unfold pool_now_def, rule ptriple_bind_outside)
     apply (rule ptriple_bind [OF listed])
     apply (intro ptriple_sum)
      apply (simp only: failed)
     apply (simp only: found)
    apply blast
    done
qed

lemma inventory_slots_triple:
  "ptriple P (inventory_slots env cfg) (\<lambda>r p c. \<exists>now ws. r = Inr ws \<and> (\<forall>w. w \<in> set ws \<longleftrightarrow> own_worker cfg now p w))"
  unfolding inventory_slots_def
  by (rule ptriple_bind [where R = "\<lambda>_ _ _. True", OF ptriple_locked_get], simp,
      rule ptriple_seq [where R = "\<lambda>_ _. True"])
    (auto simp: ptriple_def hoare_seq_iff [of "\<lambda>_. True" "listSlots env cfg _"] hoare_seq_iff locked_def case_prod_beta inventory_workers_iff)

text \<open>
  An inventory fails only when the source has never listed the hosts and still cannot.  Otherwise
  it answers, for the pool as it left it, exactly the workers in slots of this controller on hosts
  whose slots were listed within the grace period.
\<close>

theorem inventory_exact:
  assumes "prun (pool_Inventory env cfg) s = (r, s')"
  shows "case r of
      Inl e \<Rightarrow> \<not> po_hostsKnown (pl_pool s) \<and> (\<exists>w x. fst (pe_list env w) = Inl x)
    | Inr ws \<Rightarrow> \<exists>now. \<forall>w. w \<in> set ws \<longleftrightarrow> own_worker cfg now (pl_pool s') w"
proof -
  let ?known = "po_hostsKnown (pl_pool s)"
  let ?Q = "\<lambda>r p c. case r of Inl e \<Rightarrow> \<not> ?known \<and> (\<exists>w x. fst (pe_list env w) = Inl x)
    | Inr ws \<Rightarrow> \<exists>now. \<forall>w. w \<in> set ws \<longleftrightarrow> own_worker cfg now p w"
  have slots: "ptriple P (inventory_slots env cfg) ?Q" for P
    by (rule ptriple_post [OF inventory_slots_triple]) auto
  have unknown: "ptriple (\<lambda>p c. po_hostsKnown p = ?known \<and> (\<exists>w. fst (pe_list env w) = Inl e))
      (pbind (locked_get po_hostsKnown) (\<lambda>known. if \<not> known then Done (Inl (ErrWrap ''list hosts'' e)) else inventory_slots env cfg)) ?Q" for e
    by (rule ptriple_bind [where R = "\<lambda>k p c. (k = ?known) \<and> (\<exists>w. fst (pe_list env w) = Inl e)", OF ptriple_locked_get], simp)
      (auto intro!: ptriple_if ptriple_Done slots; blast)
  have "ptriple (\<lambda>p c. po_hostsKnown p = ?known \<and> c = pl_calls s) (pool_Inventory env cfg) ?Q"
    unfolding pool_Inventory_def pcheck_def
    by (rule ptriple_bind [OF refreshHosts_triple]) (auto intro!: ptriple_option slots ptriple_pre [OF unknown])
  from ptripleD [OF this _ assms] show ?thesis by simp
qed

theorem inventory_exact_witness:
  "\<exists>ws now s'. prun (pool_Inventory example_env example_cfg) (example_sys 10) = (Inr ws, s')
     \<and> (\<forall>w. w \<in> set ws \<longleftrightarrow> own_worker example_cfg now (pl_pool s') w)"
proof -
  obtain r s' where r: "prun (pool_Inventory example_env example_cfg) (example_sys 10) = (r, s')" by fastforce
  have "po_hostsKnown (pl_pool (example_sys 10))" by (simp add: example_sys_def example_pool_def)
  then show ?thesis using inventory_exact [OF r] r by (cases r) auto
qed

section \<open>Removal\<close>

lemma at_cleared:
  "slot_at (cleared i n l now p) = (slot_at p)(i := (slot_at p i)(n :=
     (case slot_at p i n of None \<Rightarrow> None | Some s \<Rightarrow> if sl_LeaseID s = l \<or> sl_LeaseID s = [] then None else Some s)))"
  "reserved_at (cleared i n l now p) = reserved_at p"
proof -
  have "slot_at (cleared i n l now p) = (slot_at p)(i := (slot_at p i)(n :=
     (case slot_at p i n of None \<Rightarrow> None | Some s \<Rightarrow> if sl_LeaseID s = l \<or> sl_LeaseID s = [] then None else Some s)))
    \<and> reserved_at (cleared i n l now p) = reserved_at p"
  proof (cases "map_of (po_hosts p) i")
    case None
    then have "slot_at p i = (\<lambda>_. None)" by (auto simp: slot_at_def)
    then show ?thesis using None by (auto simp: cleared_def fun_upd_idem_iff)
  next
    case (Some h)
    let ?f = "\<lambda>h. let h1 = (case map_of (hs_slots h) n of
                   Some current \<Rightarrow> if sl_LeaseID current = l \<or> sl_LeaseID current = [] then h\<lparr>hs_slots := AList.delete n (hs_slots h)\<rparr> else h
                 | None \<Rightarrow> h)
             in if hs_slots h1 = [] \<and> hs_reserved h1 = [] \<and> time_isZero (hs_emptySince h1) then h1\<lparr>hs_emptySince := now\<rparr> else h1"
    have eq: "cleared i n l now p = accrue now (on_host i ?f p)" using Some by (simp add: cleared_def)
    have slots: "hs_slots (?f h) = (case map_of (hs_slots h) n of None \<Rightarrow> hs_slots h
        | Some s \<Rightarrow> if sl_LeaseID s = l \<or> sl_LeaseID s = [] then AList.delete n (hs_slots h) else hs_slots h)"
      and "hs_reserved (?f h) = hs_reserved h"
      by (simp_all add: Let_def split: option.split)
    moreover have "map_of (hs_slots (?f h)) = (map_of (hs_slots h))(n :=
        (case map_of (hs_slots h) n of None \<Rightarrow> None | Some s \<Rightarrow> if sl_LeaseID s = l \<or> sl_LeaseID s = [] then None else Some s))"
      unfolding slots by (cases "map_of (hs_slots h) n") (simp_all add: delete_conv' fun_upd_idem)
    ultimately show ?thesis unfolding eq at_accrue at_on_host(1,2) [OF Some, of ?f] using at_host [OF Some] by (simp add: fun_upd_idem)
  qed
  then show "slot_at (cleared i n l now p) = (slot_at p)(i := (slot_at p i)(n :=
     (case slot_at p i n of None \<Rightarrow> None | Some s \<Rightarrow> if sl_LeaseID s = l \<or> sl_LeaseID s = [] then None else Some s)))"
    "reserved_at (cleared i n l now p) = reserved_at p" by blast+
qed

text \<open>When a removal may report that the worker is gone.\<close>

definition slot_released :: "pool \<Rightarrow> string \<Rightarrow> int \<Rightarrow> string \<Rightarrow> bool" where
  "slot_released p i n leaseID \<longleftrightarrow> (\<forall>s. slot_at p i n = Some s \<longrightarrow> sl_LeaseID s \<noteq> leaseID \<and> sl_LeaseID s \<noteq> [])"

definition removal_confirmed :: "'w poolEnv \<Rightarrow> host \<Rightarrow> int \<Rightarrow> string \<Rightarrow> bool" where
  "removal_confirmed env host n leaseID \<longleftrightarrow>
     (\<exists>w. fst (pe_remove env host n leaseID w) = None \<or> IsAgentRefusal (fst (pe_remove env host n leaseID w)) CodeLeaseMismatch)"

definition removed :: "'w poolEnv \<Rightarrow> string \<Rightarrow> int \<Rightarrow> string \<Rightarrow> pool_call list \<Rightarrow> pool \<Rightarrow> pool_call list \<Rightarrow> bool" where
  "removed env i n leaseID calls0 p calls \<longleftrightarrow>
     (calls = calls0 \<and> pool_host i p = None \<and> (\<exists>w hs. fst (pe_list env w) = Inr hs))
     \<or> (calls = calls0 \<and> stoppedHost i p \<and> slot_released p i n leaseID)
     \<or> (\<exists>host q. calls = calls0 @ [CallRemove host n leaseID q] \<and> pool_host i q = Some host
           \<and> removal_confirmed env host n leaseID \<and> slot_released p i n leaseID)"

lemma slot_released_cleared: "slot_released (cleared i n l now p) i n l"
  by (auto simp: slot_released_def at_cleared split: option.splits if_splits)

lemma stopped_cleared: "stoppedHost i (cleared i n l now p) = stoppedHost i p"
  by (simp add: cleared_def stoppedHost_def map_of_accrue map_of_on_host Let_def split: option.split)

lemma remove_slot_triple:
  "ptriple (\<lambda>p c. c = calls0 \<and> pool_host i p = Some host) (remove_slot env cfg host i n leaseID)
     (\<lambda>r p c. r = None \<longrightarrow> removed env i n leaseID calls0 p c)"
proof -
  let ?P = "\<lambda>p c. c = calls0 \<and> pool_host i p = Some host"
  let ?Q = "\<lambda>r p c. r = None \<longrightarrow> removed env i n leaseID calls0 p c"
  have stopped: "ptriple ?P (locked_get (stoppedHost i)) (\<lambda>b p c. ?P p c \<and> b = stoppedHost i p)"
    by (rule ptriple_locked_get) simp
  have clear: "ptriple (\<lambda>p c. ?P p c \<and> stoppedHost i p) (pseq (locked_do env (cleared i n leaseID)) (Done None)) ?Q"
    by (rule ptriple_seq [where R = "\<lambda>p c. c = calls0 \<and> stoppedHost i p \<and> slot_released p i n leaseID", OF ptriple_locked_do ptriple_Done])
      (auto simp: slot_released_cleared stopped_cleared removed_def)
  let ?C = "\<lambda>r p c. (\<exists>q. c = calls0 @ [CallRemove host n leaseID q] \<and> pool_host i q = Some host) \<and> (\<exists>w. fst (pe_remove env host n leaseID w) = r)"
  have call: "ptriple ?P (outside_traced (CallRemove host n leaseID) (pe_remove env host n leaseID)) ?C"
    unfolding ptriple_def outside_traced_def by (rule hoare_atom) (auto simp: case_prod_beta)
  have confirm: "ptriple (?C r) (pseq (locked_do env (cleared i n leaseID)) (Done None)) ?Q" if "r = None \<or> IsAgentRefusal r CodeLeaseMismatch" for r
  proof -
    have "removal_confirmed env host n leaseID" if "fst (pe_remove env host n leaseID w) = r" for w
      unfolding removal_confirmed_def using that \<open>r = None \<or> IsAgentRefusal r CodeLeaseMismatch\<close> by blast
    then show ?thesis
      by (intro ptriple_seq [where R = "\<lambda>p c. (\<exists>q. c = calls0 @ [CallRemove host n leaseID q] \<and> pool_host i q = Some host)
          \<and> removal_confirmed env host n leaseID \<and> slot_released p i n leaseID", OF ptriple_locked_do ptriple_Done])
        (auto simp: slot_released_cleared removed_def)
  qed
  show ?thesis
    unfolding remove_slot_def
    apply (rule ptriple_bind [OF stopped])
    apply (rule ptriple_if)
     apply (rule ptriple_pre [OF clear], blast)
    apply (rule ptriple_pre [where P = ?P])
     apply (rule ptriple_bind [OF call])
     apply (intro ptriple_if confirm ptriple_Done; auto)
    apply blast
    done
qed

text \<open>
  A removal reports success only when the worker is gone: a fresh listing of the source has no such
  host, or the host is stopped, or its agent confirmed that this lease holds the slot no more.  The
  pool then holds the slot for it no longer, and no agent is asked but the one of the host the id names.
\<close>

theorem removal_confirmed_gone:
  assumes "prun (pool_Destroy env cfg workerID) s = (None, s')"
  shows "\<exists>hostID n leaseID. parseWorkerID workerID = Inr (hostID, n, leaseID)
    \<and> removed env hostID n leaseID (pl_calls s) (pl_pool s') (pl_calls s')"
proof (cases "parseWorkerID workerID")
  case (Inl e)
  then show ?thesis using assms by (simp add: pool_Destroy_def)
next
  case (Inr x)
  obtain i n leaseID where x: "x = (i, n, leaseID)" by (cases x)
  let ?P = "\<lambda>p c. c = pl_calls s"
  let ?Q = "\<lambda>r p c. r = None \<longrightarrow> removed env i n leaseID (pl_calls s) p c"
  have lookup: "ptriple (\<lambda>p c. ?P p c \<and> E) (locked_get (pool_host i)) (\<lambda>r p c. ?P p c \<and> pool_host i p = r \<and> E)" for E
    by (rule ptriple_locked_get) simp
  have remove: "ptriple (\<lambda>p c. ?P p c \<and> pool_host i p = Some host \<and> E) (remove_slot env cfg host i n leaseID) ?Q" for host E
    by (rule ptriple_pre [OF remove_slot_triple]) auto
  have again: "ptriple (\<lambda>p c. ?P p c \<and> (\<exists>w hs. fst (pe_list env w) = Inr hs)) (pbind (locked_get (pool_host i)) (\<lambda>again.
      case again of None \<Rightarrow> Done None | Some host \<Rightarrow> remove_slot env cfg host i n leaseID)) ?Q"
    by (rule ptriple_bind [OF lookup], rule ptriple_option) (simp_all only: remove, rule ptriple_Done, simp add: removed_def)
  have refresh: "ptriple ?P (refreshHosts env cfg True) (\<lambda>r p c. ?P p c \<and> (r = None \<longrightarrow> (\<exists>w hs. fst (pe_list env w) = Inr hs)))"
    using refreshHosts_triple [of True "pl_calls s" env cfg True] refreshHosts_triple [of False "pl_calls s" env cfg True]
    by (auto simp: ptriple_def hoare_seq_iff split: option.splits) fastforce+
  have "ptriple ?P (pool_Destroy env cfg workerID) ?Q"
    unfolding pool_Destroy_def Inr x sum.case prod.case pcheck_def
    apply (rule ptriple_bind [OF ptriple_post [OF ptriple_pre [OF lookup [of True]]]])
      apply simp
     apply assumption
    apply (rule ptriple_option)
     apply (rule ptriple_pre [where P = ?P])
      apply (rule ptriple_bind [OF refresh])
      apply (rule ptriple_option)
       apply (rule ptriple_pre [OF again], blast)
      apply (rule ptriple_Done, simp)
     apply blast
    apply (simp only: remove)
    done
  from ptripleD [OF this _ assms] show ?thesis using Inr x by auto
qed

theorem removal_confirmed_gone_witness:
  "\<exists>s'. prun (pool_Destroy example_env example_cfg ''h1/0/lease1'') (example_sys 10) = (None, s')
     \<and> removed example_env ''h1'' 0 ''lease1'' [] (pl_pool s') (pl_calls s')"
proof -
  obtain r s' where r: "prun (pool_Destroy example_env example_cfg ''h1/0/lease1'') (example_sys 10) = (r, s')" by fastforce
  have "fst (prun (pool_Destroy example_env example_cfg ''h1/0/lease1'') (example_sys 10)) = None" by code_simp
  then have none: "r = None" using r by simp
  have "parseWorkerID ''h1/0/lease1'' = Inr (''h1'', 0, ''lease1'')" by code_simp
  then show ?thesis using removal_confirmed_gone [of example_env example_cfg "''h1/0/lease1''" "example_sys 10" s'] r none
    by (simp add: example_sys_def)
qed

end
