(* ===== verification/Placement.thy ===== *)
theory Placement
  imports Pool_Correct
begin

text \<open>
  The placement of leases on tiers (\<^verbatim>\<open>pool/placement.go\<close>): the tiers in order, the next one only when
  a tier is full, worker ids that carry the tier's name, inventories that fail as a whole.

  A tier's compute is a record of programs on a state the tiers share.  The tiers of an inventory,
  which the program asks at once, are asked in order.
\<close>

section \<open>Tiers\<close>

text \<open>What \<^verbatim>\<open>spareTier\<close> adds to a compute; \<open>sp_onRoomReady\<close> registers the signal of the placement.\<close>

record 's spareTier =
  sp_freeSlots :: "('s, int) prog"
  sp_launchSpare :: "lease \<Rightarrow> ('s, goerr + worker) prog"
  sp_speculative :: bool
  sp_onRoomReady :: "('s, unit) prog"

text \<open>A compute with the optional interfaces it implements: spare launches, a price, conditions.\<close>

record 's compute =
  cp_Launch :: "lease \<Rightarrow> ('s, goerr + worker) prog"
  cp_Inventory :: "('s, goerr + worker list) prog"
  cp_Destroy :: "string \<Rightarrow> ('s, goerr option) prog"
  cp_spare :: "'s spareTier option"
  cp_WorkerHourlyPrice :: "(rat \<times> string) option"
  cp_Conditions :: "('s, condition list) prog option"
  cp_Status :: "('s, poolStatus) prog option"

record 's tier =
  ti_Name :: string
  ti_Compute :: "'s compute option"
  ti_Drain :: bool

record 's placement =
  pm_tiers :: "('s tier) list"
  pm_spare :: "(string \<times> 's spareTier) list"

fun check_tiers :: "'s tier list \<Rightarrow> string list \<Rightarrow> goerr option" where
  "check_tiers [] seen = None"
| "check_tiers (t # ts) seen =
     (if \<not> ValidName (ti_Name t) \<or> ti_Compute t = None then Some (ErrText ''invalid placement tier'')
      else if ti_Name t \<in> set seen then Some (ErrText ''placement tier appears twice'')
      else check_tiers ts (ti_Name t # seen))"

fun spare_tiers :: "bool \<Rightarrow> 's tier list \<Rightarrow> (string \<times> 's spareTier) list" where
  "spare_tiers bootsBefore [] = []"
| "spare_tiers bootsBefore (t # ts) =
     (if ti_Drain t then spare_tiers bootsBefore ts
      else (case Option.bind (ti_Compute t) cp_spare of
              None \<Rightarrow> spare_tiers True ts
            | Some sp \<Rightarrow> (if sp_speculative sp \<and> \<not> bootsBefore then [(ti_Name t, sp)] else []) @ spare_tiers bootsBefore ts))"

definition placement_of :: "'s tier list \<Rightarrow> goerr + 's placement" where
  "placement_of tiers =
     (if tiers = [] then Inl (ErrText ''placement requires at least one tier'')
      else (case check_tiers tiers [] of
              Some err \<Rightarrow> Inl err
            | None \<Rightarrow>
                if list_all ti_Drain tiers then Inl (ErrText ''placement requires at least one tier that starts workers'')
                else Inr \<lparr>pm_tiers = tiers, pm_spare = spare_tiers False tiers\<rparr>))"

definition NewPlacement :: "'s tier list \<Rightarrow> ('s, goerr + 's placement) prog" where
  "NewPlacement tiers =
     (case placement_of tiers of
        Inl err \<Rightarrow> Done (Inl err)
      | Inr p \<Rightarrow> pseq (for_all (\<lambda>(name, sp). sp_onRoomReady sp) (pm_spare p)) (Done (Inr p)))"

text \<open>\<^verbatim>\<open>byName\<close>.\<close>

definition byName :: "'s placement \<Rightarrow> string \<Rightarrow> 's compute option" where
  "byName p name = (case filter (\<lambda>t. ti_Name t = name) (pm_tiers p) of [] \<Rightarrow> None | t # ts \<Rightarrow> ti_Compute t)"

section \<open>Launching\<close>

definition tag_worker :: "string \<Rightarrow> worker \<Rightarrow> worker" where
  "tag_worker name w = w\<lparr>w_ID := name @ '':'' @ w_ID w\<rparr>"

text \<open>The write through the pointer \<^verbatim>\<open>errors.As\<close> found: the first partial launch in the error.\<close>

definition has_partial :: "goerr \<Rightarrow> bool" where
  "has_partial e \<longleftrightarrow> errors_As as_partial (Some e) \<noteq> None"

fun tag_partial :: "string \<Rightarrow> goerr \<Rightarrow> goerr" and tag_first :: "string \<Rightarrow> goerr list \<Rightarrow> goerr list" where
  "tag_partial name (PartialLaunchError w e) = PartialLaunchError (if w_ID w \<noteq> [] then tag_worker name w else w) e"
| "tag_partial name (ErrWrap m e) = ErrWrap m (tag_partial name e)"
| "tag_partial name (ErrJoin es) = ErrJoin (tag_first name es)"
| "tag_partial name (UrlError e) = UrlError (tag_partial name e)"
| "tag_partial name (TransientError e) = TransientError (tag_partial name e)"
| "tag_partial name (CapacityError r d e) = CapacityError r d (tag_partial name e)"
| "tag_partial name (LaunchRejectedError r e) = LaunchRejectedError r (tag_partial name e)"
| "tag_partial name (HandlerFailure e) = HandlerFailure (tag_partial name e)"
| "tag_partial name (ErrText m) = ErrText m"
| "tag_partial name (ErrSentinel x) = ErrSentinel x"
| "tag_partial name (NetError m) = NetError m"
| "tag_partial name (StatusError p n m) = StatusError p n m"
| "tag_partial name (AgentError c m) = AgentError c m"
| "tag_first name [] = []"
| "tag_first name (e # es) = (if has_partial e then tag_partial name e # es else e # tag_first name es)"

definition tier_Launch :: "'s tier \<Rightarrow> lease \<Rightarrow> ('s, goerr + worker) prog" where
  "tier_Launch t l = (case ti_Compute t of Some c \<Rightarrow> cp_Launch c l | None \<Rightarrow> Done (Inl (ErrText ''nil compute'')))"

text \<open>The loop over the launching tiers; \<^verbatim>\<open>lastErr\<close> is what is returned after the last one.\<close>

fun launch_tiers :: "'s tier list \<Rightarrow> lease \<Rightarrow> goerr \<Rightarrow> ('s, goerr + worker) prog" where
  "launch_tiers [] l lastErr = Done (Inl lastErr)"
| "launch_tiers (t # ts) l lastErr =
     pbind (tier_Launch t l) (\<lambda>r.
     case r of
       Inr w \<Rightarrow> Done (Inr (tag_worker (ti_Name t) w))
     | Inl err \<Rightarrow>
         if has_partial err then Done (Inl (tag_partial (ti_Name t) err))
         else if IsCapacity (Some err) \<and> ts \<noteq> [] then launch_tiers ts l err
         else Done (Inl err))"

definition launching :: "'s placement \<Rightarrow> 's tier list" where
  "launching p = filter (\<lambda>t. \<not> ti_Drain t) (pm_tiers p)"

definition placement_Launch :: "'s placement \<Rightarrow> lease \<Rightarrow> ('s, goerr + worker) prog" where
  "placement_Launch p l = launch_tiers (launching p) l (ErrText [])"

fun spare_room :: "(string \<times> 's spareTier) list \<Rightarrow> int \<Rightarrow> ('s, int) prog" where
  "spare_room [] room = Done room"
| "spare_room ((name, sp) # ts) room = pbind (sp_freeSlots sp) (\<lambda>n. spare_room ts (room + n))"

definition SpareRoom :: "'s placement \<Rightarrow> ('s, int) prog" where
  "SpareRoom p = spare_room (pm_spare p) 0"

fun launch_spares :: "(string \<times> 's spareTier) list \<Rightarrow> lease \<Rightarrow> goerr \<Rightarrow> ('s, goerr + worker) prog" where
  "launch_spares [] l lastErr = Done (Inl lastErr)"
| "launch_spares ((name, sp) # ts) l lastErr =
     pbind (sp_launchSpare sp l) (\<lambda>r.
     case r of
       Inr w \<Rightarrow> Done (Inr (tag_worker name w))
     | Inl err \<Rightarrow>
         if has_partial err then Done (Inl (tag_partial name err))
         else if \<not> IsCapacity (Some err) then Done (Inl err)
         else launch_spares ts l err)"

definition LaunchSpare :: "'s placement \<Rightarrow> lease \<Rightarrow> ('s, goerr + worker) prog" where
  "LaunchSpare p l =
     launch_spares (pm_spare p) l (CapacityError CapacityReasonFull 0 (ErrWrap ''no speculative pool'' (ErrSentinel ErrFull)))"

section \<open>Routing\<close>

definition Fast :: "'s placement \<Rightarrow> string \<Rightarrow> bool" where
  "Fast p workerID =
     (case strings_Cut (CHR '':'') workerID of
        None \<Rightarrow> False
      | Some (name, i) \<Rightarrow> (case byName p name of None \<Rightarrow> False | Some c \<Rightarrow> cp_spare c \<noteq> None))"

definition placement_Destroy :: "'s placement \<Rightarrow> string \<Rightarrow> ('s, goerr option) prog" where
  "placement_Destroy p workerID =
     (if workerID = [] then Done None
      else (case strings_Cut (CHR '':'') workerID of
              None \<Rightarrow> Done (Some (ErrText ''worker id names no placement tier''))
            | Some (name, i) \<Rightarrow>
                (case byName p name of
                   None \<Rightarrow> Done (Some (ErrText ''worker id names no placement tier''))
                 | Some c \<Rightarrow> if i = [] then Done (Some (ErrText ''worker id names no placement tier'')) else cp_Destroy c i)))"

text \<open>Every tier is asked; the answers are then read in order.\<close>

definition tier_Inventory :: "'s tier \<Rightarrow> ('s, goerr + worker list) prog" where
  "tier_Inventory t = (case ti_Compute t of Some c \<Rightarrow> cp_Inventory c | None \<Rightarrow> Done (Inl (ErrText ''nil compute'')))"

fun join_inventories :: "('s tier \<times> (goerr + worker list)) list \<Rightarrow> worker list \<Rightarrow> goerr + worker list" where
  "join_inventories [] workers = Inr workers"
| "join_inventories ((t, r) # rs) workers =
     (case r of
        Inl e \<Rightarrow>
          (let err = ErrWrap (''placement tier '' @ ti_Name t) e
           in if IsTransient (Some e) then Inl (TransientError err) else Inl err)
      | Inr ws \<Rightarrow> join_inventories rs (workers @ map (tag_worker (ti_Name t)) ws))"

definition placement_Inventory :: "'s placement \<Rightarrow> ('s, goerr + worker list) prog" where
  "placement_Inventory p = pbind (batch tier_Inventory (pm_tiers p)) (\<lambda>results. Done (join_inventories results []))"

section \<open>Reports\<close>

fun workerPrice :: "'s tier list \<Rightarrow> (string \<times> rat \<times> string) option" where
  "workerPrice [] = None"
| "workerPrice (t # ts) =
     (case Option.bind (ti_Compute t) cp_WorkerHourlyPrice of
        Some (price, currency) \<Rightarrow> Some (ti_Name t, price, currency)
      | None \<Rightarrow> workerPrice ts)"

record ephemeralEquivalent =
  eq_Tier :: string
  eq_HourlyPrice :: rat
  eq_Currency :: string
  eq_Cost :: rat

definition ephemeralEquivalent_of :: "int \<Rightarrow> string \<Rightarrow> rat \<Rightarrow> string \<Rightarrow> ephemeralEquivalent" where
  "ephemeralEquivalent_of busySlotSeconds tier hourlyPrice currency =
     \<lparr>eq_Tier = tier, eq_HourlyPrice = hourlyPrice, eq_Currency = currency,
      eq_Cost = priceHours (of_int busySlotSeconds / 3600) hourlyPrice\<rparr>"

text \<open>A pool's status with the equivalent that \<^verbatim>\<open>ComputeStatus\<close> adds to it.\<close>

record placementStatus =
  ps_Tiers :: "string list"
  ps_Draining :: "string list"
  ps_Speculative :: "string list"
  ps_Pools :: "(poolStatus \<times> ephemeralEquivalent option) list"

fun pool_statuses :: "(string \<times> rat \<times> string) option \<Rightarrow> 's tier list \<Rightarrow> ('s, (poolStatus \<times> ephemeralEquivalent option) list) prog" where
  "pool_statuses priced [] = Done []"
| "pool_statuses priced (t # ts) =
     (case Option.bind (ti_Compute t) cp_Status of
        None \<Rightarrow> pool_statuses priced ts
      | Some status \<Rightarrow>
          pbind status (\<lambda>st.
          pbind (pool_statuses priced ts) (\<lambda>rest.
          Done ((st, map_option (\<lambda>(tier, price, currency). ephemeralEquivalent_of (ur_BusySlotSeconds (st_Usage st)) tier price currency) priced) # rest))))"

definition ComputeStatus :: "'s placement \<Rightarrow> ('s, placementStatus) prog" where
  "ComputeStatus p =
     pbind (pool_statuses (workerPrice (pm_tiers p)) (pm_tiers p)) (\<lambda>pools.
     Done \<lparr>ps_Tiers = map ti_Name (filter (\<lambda>t. \<not> ti_Drain t) (pm_tiers p)), ps_Draining = map ti_Name (filter ti_Drain (pm_tiers p)),
           ps_Speculative = map fst (pm_spare p), ps_Pools = pools\<rparr>)"

fun tier_conditions :: "'s tier list \<Rightarrow> ('s, condition list) prog" where
  "tier_conditions [] = Done []"
| "tier_conditions (t # ts) =
     (case Option.bind (ti_Compute t) cp_Conditions of
        None \<Rightarrow> tier_conditions ts
      | Some conds \<Rightarrow> pbind conds (\<lambda>cs. pbind (tier_conditions ts) (\<lambda>rest. Done (cs @ rest))))"

definition placement_Conditions :: "'s placement \<Rightarrow> ('s, condition list) prog" where
  "placement_Conditions p = tier_conditions (pm_tiers p)"

text \<open>A pool as a tier's compute.\<close>

definition pool_compute :: "'w poolEnv \<Rightarrow> poolConfig \<Rightarrow> 'w poolSys compute" where
  "pool_compute env cfg =
     \<lparr>cp_Launch = pool_Launch env cfg, cp_Inventory = pool_Inventory env cfg, cp_Destroy = pool_Destroy env cfg,
      cp_spare = Some \<lparr>sp_freeSlots = freeSlots_now env cfg, sp_launchSpare = launchSpare env cfg, sp_speculative = pc_Speculative cfg,
        sp_onRoomReady = locked_set (\<lambda>p. p\<lparr>po_roomReady := True\<rparr>)\<rparr>,
      cp_WorkerHourlyPrice = None, cp_Conditions = Some (locked env (\<lambda>now p. (conditions cfg now p, p))),
      cp_Status = Some (locked env (pool_Status cfg))\<rparr>"

section \<open>Valid placements\<close>

lemma check_tiers_None:
  "check_tiers ts seen = None \<Longrightarrow>
     (\<forall>t \<in> set ts. ValidName (ti_Name t) \<and> (\<exists>c. ti_Compute t = Some c)) \<and> distinct (map ti_Name ts) \<and> set seen \<inter> set (map ti_Name ts) = {}"
proof (induction ts seen rule: check_tiers.induct)
  case (2 t ts seen)
  have t: "ValidName (ti_Name t)" "ti_Compute t \<noteq> None" "ti_Name t \<notin> set seen" "check_tiers ts (ti_Name t # seen) = None"
    using 2(2) by (simp_all split: if_splits)
  have "\<not> (\<not> ValidName (ti_Name t) \<or> ti_Compute t = None)" using t(1,2) by simp
  note rest = 2(1) [OF this t(3,4)]
  have "ti_Name t \<notin> set (map ti_Name ts)" "set seen \<inter> set (map ti_Name ts) = {}" using rest by auto
  then show ?case using t rest by simp
qed simp

lemma placement_of_valid:
  assumes "placement_of tiers = Inr p"
  shows "pm_tiers p = tiers" "\<And>t. t \<in> set tiers \<Longrightarrow> ValidName (ti_Name t)" "\<And>t. t \<in> set tiers \<Longrightarrow> \<exists>c. ti_Compute t = Some c"
    "distinct (map ti_Name tiers)" "launching p \<noteq> []"
  using assms check_tiers_None [of tiers "[]"]
  by (auto simp: placement_of_def launching_def filter_empty_conv list_all_iff split: if_splits option.splits)

lemma valid_name_colon: "ValidName name \<Longrightarrow> CHR '':'' \<notin> set name"
  by (auto simp: ValidName_def is_lower_def is_digit_def list_all_iff split: list.splits)

lemma byName_tier:
  assumes "placement_of tiers = Inr p" and "t \<in> set tiers"
  shows "byName p (ti_Name t) = ti_Compute t"
proof -
  have "filter (\<lambda>u. ti_Name u = ti_Name t) tiers = [t]"
    using assms(2) placement_of_valid(4) [OF assms(1)]
  proof (induction tiers)
    case (Cons u us)
    have "filter (\<lambda>v. ti_Name v = ti_Name u) us = []" using Cons.prems(2) by (auto simp: filter_empty_conv) (metis imageI)
    moreover have "ti_Name u \<noteq> ti_Name t" if "t \<in> set us" using Cons.prems(2) that by (auto dest: imageI [of t _ ti_Name])
    ultimately show ?case using Cons by auto
  qed simp
  then show ?thesis by (simp add: byName_def placement_of_valid(1) [OF assms(1)])
qed

lemma route_destroy:
  assumes "placement_of tiers = Inr p" and "t \<in> set tiers" and "ti_Compute t = Some c" and "i \<noteq> []"
  shows "placement_Destroy p (ti_Name t @ '':'' @ i) = cp_Destroy c i"
  using byName_tier [OF assms(1,2)] assms cut_at_block [OF valid_name_colon [OF placement_of_valid(2) [OF assms(1,2)]], of i]
  by (simp add: placement_Destroy_def)

section \<open>Order\<close>

text \<open>Tiers that were tried, each full.\<close>

inductive refused :: "lease \<Rightarrow> 's tier list \<Rightarrow> 's \<Rightarrow> 's \<Rightarrow> bool" for l where
  refused_Nil: "refused l [] s s"
| refused_Cons: "refused l (t # ts) s s'"
    if "prun (tier_Launch t l) s = (Inl e, s1)" "IsCapacity (Some e)" "\<not> has_partial e" "refused l ts s1 s'"

text \<open>What a placement makes of the answer of the tier it ends with.\<close>

definition placed :: "'s tier \<Rightarrow> bool \<Rightarrow> goerr + worker \<Rightarrow> goerr + worker \<Rightarrow> bool" where
  "placed t is_last answer r \<longleftrightarrow>
     (case answer of
        Inr w \<Rightarrow> r = Inr (tag_worker (ti_Name t) w)
      | Inl e \<Rightarrow> if has_partial e then r = Inl (tag_partial (ti_Name t) e) else r = Inl e \<and> (IsCapacity (Some e) \<longrightarrow> is_last))"

lemma launch_tiers_order:
  assumes "prun (launch_tiers ts l e0) s = (r, s')" and "ts \<noteq> []"
  shows "\<exists>pre t post s1 answer. ts = pre @ t # post \<and> refused l pre s s1 \<and> prun (tier_Launch t l) s1 = (answer, s') \<and> placed t (post = []) answer r"
  using assms
proof (induction ts arbitrary: s e0)
  case (Cons t ts)
  obtain answer s1 where a: "prun (tier_Launch t l) s = (answer, s1)" by fastforce
  show ?case
  proof (cases "\<exists>e. answer = Inl e \<and> \<not> has_partial e \<and> IsCapacity (Some e) \<and> ts \<noteq> []")
    case True
    then obtain e where e: "answer = Inl e" "\<not> has_partial e" "IsCapacity (Some e)" "ts \<noteq> []" by blast
    then have "prun (launch_tiers ts l e) s1 = (r, s')" using Cons.prems a by simp
    from Cons.IH [OF this e(4)] obtain pre u post s2 b where
      "ts = pre @ u # post" "refused l pre s1 s2" "prun (tier_Launch u l) s2 = (b, s')" "placed u (post = []) b r" by blast
    then show ?thesis using refused_Cons [OF a [unfolded e(1)] e(3,2)]
      by (intro exI [of _ "t # pre"] exI [of _ u] exI [of _ post] exI [of _ s2] exI [of _ b]) simp
  next
    case False
    then have "s1 = s' \<and> placed t (ts = []) answer r"
      using Cons.prems a by (auto simp: placed_def split: sum.splits if_splits)
    then show ?thesis using a refused_Nil
      by (intro exI [of _ "[]"] exI [of _ t] exI [of _ ts] exI [of _ s] exI [of _ answer]) auto
  qed
qed simp

section \<open>A compute as a tier\<close>

text \<open>What a placement relies on of a compute: the workers it launches are named.\<close>

locale compute_tier =
  fixes c :: "'s compute" and inv :: "'s \<Rightarrow> bool"
  assumes launched_named: "inv s \<Longrightarrow> prun (cp_Launch c l) s = (Inr w, s') \<Longrightarrow> w_ID w \<noteq> []"
begin

lemma placed_destroy:
  assumes "placement_of tiers = Inr p" and "t \<in> set tiers" and "ti_Compute t = Some c"
    and "inv s" and "prun (cp_Launch c l) s = (Inr w, s')"
  shows "placement_Destroy p (w_ID (tag_worker (ti_Name t) w)) = cp_Destroy c (w_ID w)"
  using route_destroy [OF assms(1-3) launched_named [OF assms(4,5)]] by (simp add: tag_worker_def)

end

definition pool_fits :: "'w poolSys \<Rightarrow> bool" where
  "pool_fits s \<longleftrightarrow> sys_ok s \<and> (\<forall>i info. info_at (pl_pool s) i = Some info \<longrightarrow> hi_Slots info \<le> maxInt64)"

lemma pool_launch_result:
  assumes "pool_fits s" and "prun (pool_Launch env cfg l) s = (r, s')"
  shows "launch_result cfg (pl_pool s) l r (pl_pool s') (pl_calls s')"
proof -
  have slots: "\<And>i info. info_at (pl_pool s) i = Some info \<Longrightarrow> hi_Slots info \<le> maxInt64" and ok: "pool_ok (pl_pool s)"
    using assms(1) by (auto simp: pool_fits_def sys_ok_def)
  show ?thesis using ptripleD [OF launch_triple [OF slots] _ assms(2) [unfolded pool_Launch_def]] ok by auto
qed

lemma pool_launch_named: "pool_fits s \<Longrightarrow> prun (pool_Launch env cfg l) s = (Inr w, s') \<Longrightarrow> w_ID w \<noteq> []"
  using pool_launch_result [of s env cfg l "Inr w" s'] by (auto simp: launch_result_def holds_lease_def parseWorkerID_def)

interpretation pool_tier: compute_tier "pool_compute env cfg" pool_fits for env cfg
  by unfold_locales (auto simp: pool_compute_def dest: pool_launch_named)

section \<open>The promises of a placement\<close>

definition example_cloud :: "gotime poolSys compute" where
  "example_cloud =
     \<lparr>cp_Launch = (\<lambda>l. Done (Inr \<lparr>w_ID = ''m1'', w_LeaseID = l_ID l, w_RunnerName = l_RunnerName l, w_RunnerID = 0, w_RunnerScaleSetID = 0,
        w_State = ''started'', w_CreatedAt = 0\<rparr>)),
      cp_Inventory = Done (Inr []), cp_Destroy = (\<lambda>i. Done None), cp_spare = None, cp_WorkerHourlyPrice = Some (1 / 10, ''USD''),
      cp_Conditions = None, cp_Status = None\<rparr>"

definition example_pool_tier :: "gotime poolSys tier" where
  "example_pool_tier = \<lparr>ti_Name = ''base'', ti_Compute = Some (pool_compute example_env example_cfg), ti_Drain = False\<rparr>"

definition example_tiers :: "gotime poolSys tier list" where
  "example_tiers = [example_pool_tier, \<lparr>ti_Name = ''cloud'', ti_Compute = Some example_cloud, ti_Drain = False\<rparr>]"

lemma example_placement: "\<exists>p. placement_of example_tiers = Inr p"
  by (simp add: placement_of_def example_tiers_def example_pool_tier_def ValidName_def is_lower_def)

text \<open>
  A placement tries the tiers that start workers in their order, and goes on to the next only when a
  tier answered that it is full: any other answer of a tier, a worker, a worker that may have started or
  an error, is the placement's answer, with the tier's name before the worker's id, and no later tier is
  asked.  When all are full the last one's error is the answer.
\<close>

theorem placement_in_order:
  assumes "placement_of tiers = Inr p" and "prun (placement_Launch p l) s = (r, s')"
  shows "\<exists>pre t post s1 answer. filter (\<lambda>t. \<not> ti_Drain t) tiers = pre @ t # post \<and> refused l pre s s1
    \<and> prun (tier_Launch t l) s1 = (answer, s') \<and> placed t (post = []) answer r"
  using launch_tiers_order [of "launching p" l "ErrText []" s r s'] placement_of_valid(1,5) [OF assms(1)] assms(2)
  by (simp add: placement_Launch_def launching_def)

theorem placement_in_order_witness:
  "\<exists>p r s'. placement_of example_tiers = Inr p \<and> prun (placement_Launch p example_lease) (example_sys 10) = (r, s')
     \<and> (\<exists>pre t post s1 answer. example_tiers = pre @ t # post \<and> refused example_lease pre (example_sys 10) s1
        \<and> prun (tier_Launch t example_lease) s1 = (answer, s') \<and> placed t (post = []) answer r)"
proof -
  obtain p where p: "placement_of example_tiers = Inr p" using example_placement ..
  obtain r s' where r: "prun (placement_Launch p example_lease) (example_sys 10) = (r, s')" by fastforce
  have "filter (\<lambda>t. \<not> ti_Drain t) example_tiers = example_tiers" by (simp add: example_tiers_def example_pool_tier_def)
  then show ?thesis using placement_in_order [OF p r] p r by auto
qed

text \<open>
  C12. A worker that a pool tier launched is destroyed by that pool: from a well-formed pool, the id the
  placement gave it names the tier, the host, the slot and the lease, the pool holds that slot for the
  lease, and destroying that id through the placement is destroying it in that pool.
\<close>

theorem pool_worker_routes_back:
  assumes "placement_of tiers = Inr p" and "t \<in> set tiers" and "ti_Compute t = Some (pool_compute env cfg)"
    and "pool_fits s" and "prun (tier_Launch t l) s = (Inr w, s')"
  shows "placement_Destroy p (w_ID (tag_worker (ti_Name t) w)) = pool_Destroy env cfg (w_ID w)
    \<and> Fast p (w_ID (tag_worker (ti_Name t) w)) \<and> holds_lease cfg (pl_pool s) l w (pl_pool s') (pl_calls s')"
proof (intro conjI)
  have launch: "prun (cp_Launch (pool_compute env cfg) l) s = (Inr w, s')" using assms(3,5) by (simp add: tier_Launch_def)
  show "placement_Destroy p (w_ID (tag_worker (ti_Name t) w)) = pool_Destroy env cfg (w_ID w)"
    using pool_tier.placed_destroy [OF assms(1-4) launch] by (simp add: pool_compute_def)
  show "Fast p (w_ID (tag_worker (ti_Name t) w))"
    using byName_tier [OF assms(1,2)] assms(3) cut_at_block [OF valid_name_colon [OF placement_of_valid(2) [OF assms(1,2)]], of "w_ID w"]
    by (simp add: Fast_def tag_worker_def pool_compute_def)
  show "holds_lease cfg (pl_pool s) l w (pl_pool s') (pl_calls s')"
    using pool_launch_result [OF assms(4), of env cfg l "Inr w" s'] launch by (simp add: pool_compute_def launch_result_def)
qed

theorem pool_worker_routes_back_witness:
  "\<exists>p w s'. placement_of example_tiers = Inr p \<and> prun (tier_Launch example_pool_tier example_lease) (example_sys 10) = (Inr w, s')
     \<and> placement_Destroy p (''base:'' @ w_ID w) = pool_Destroy example_env example_cfg (w_ID w)"
proof -
  obtain p where p: "placement_of example_tiers = Inr p" using example_placement ..
  have t: "example_pool_tier \<in> set example_tiers" "ti_Compute example_pool_tier = Some (pool_compute example_env example_cfg)"
    by (simp_all add: example_tiers_def example_pool_tier_def)
  have fits: "pool_fits (example_sys 10)"
    using example_sys_ok example_info by (auto simp: pool_fits_def example_sys_def)
  have "case fst (prun (launch example_env example_cfg example_lease True) (example_sys 10)) of Inr w \<Rightarrow> True | Inl e \<Rightarrow> False"
    using example_launch by (simp split: sum.splits)
  then obtain w s' where w: "prun (tier_Launch example_pool_tier example_lease) (example_sys 10) = (Inr w, s')"
    by (cases "prun (launch example_env example_cfg example_lease True) (example_sys 10)")
      (auto simp: tier_Launch_def t(2) pool_compute_def pool_Launch_def split: sum.splits)
  show ?thesis
    using pool_worker_routes_back [OF p t fits w] p w by (auto simp: tag_worker_def example_pool_tier_def)
qed

lemma join_inventories_Inr:
  "join_inventories rs ws0 = Inr ws \<longleftrightarrow>
     (\<forall>(t, r) \<in> set rs. \<exists>x. r = Inr x) \<and> ws = ws0 @ concat (map (\<lambda>(t, r). case r of Inr x \<Rightarrow> map (tag_worker (ti_Name t)) x | Inl e \<Rightarrow> []) rs)"
  by (induction rs ws0 rule: join_inventories.induct) (auto simp: Let_def split: sum.splits)

lemma join_inventories_Inl:
  "join_inventories rs ws0 = Inl e \<Longrightarrow> \<exists>t x. (t, Inl x) \<in> set rs \<and> IsTransient (Some e) = IsTransient (Some x)"
proof (induction rs ws0 rule: join_inventories.induct)
  case (2 t r rs workers)
  show ?case
  proof (cases r)
    case (Inl x)
    then show ?thesis using 2(2)
      by (intro exI [of _ t] exI [of _ x]) (auto simp: Let_def IsTransient_def errors_As_def errors_nodes_def split: if_splits)
  next
    case (Inr ws)
    then show ?thesis using 2 by auto
  qed
qed simp

lemma batch_results: "prun (batch call xs) s = (rs, s') \<Longrightarrow> map fst rs = xs"
  by (induction xs arbitrary: s rs s') (auto split: prod.splits)

text \<open>What a placement reads from the tiers' answers: all the tagged workers, or the first failure.\<close>

definition inventory_of :: "('s tier \<times> (goerr + worker list)) list \<Rightarrow> goerr + worker list \<Rightarrow> bool" where
  "inventory_of results r \<longleftrightarrow>
     (case r of
        Inr ws \<Rightarrow> list_all (\<lambda>(t, answer). \<not> isl answer) results
          \<and> ws = concat (map (\<lambda>(t, answer). map (tag_worker (ti_Name t)) (projr answer)) results)
      | Inl e \<Rightarrow> list_ex (\<lambda>(t, answer). isl answer \<and> IsTransient (Some e) = IsTransient (Some (projl answer))) results)"

lemma join_inventory_of: "inventory_of results (join_inventories results [])"
proof (cases "join_inventories results []")
  case (Inl e)
  obtain t x where "(t, Inl x) \<in> set results" "IsTransient (Some e) = IsTransient (Some x)" using join_inventories_Inl [OF Inl] by blast
  then show ?thesis unfolding inventory_of_def Inl list_ex_iff by (auto intro!: bexI [of _ "(t, Inl x)"])
next
  case (Inr ws)
  then have all: "\<forall>(t, r) \<in> set results. \<exists>x. r = Inr x"
    and ws: "ws = concat (map (\<lambda>(t, r). case r of Inr x \<Rightarrow> map (tag_worker (ti_Name t)) x | Inl e \<Rightarrow> []) results)"
    by (simp_all add: join_inventories_Inr)
  have "ws = concat (map (\<lambda>(t, answer). map (tag_worker (ti_Name t)) (projr answer)) results)"
    unfolding ws using all by (intro arg_cong [where f = concat] map_cong refl) auto
  moreover have "list_all (\<lambda>(t, answer). \<not> isl answer) results" using all by (auto simp: list_all_iff)
  ultimately show ?thesis unfolding inventory_of_def Inr by simp
qed

text \<open>
  A placement's inventory is whole or an error: every tier, the drained ones too, is asked, and the
  answer is all their workers under their tiers' names exactly when every tier answered.  One tier that
  fails fails the inventory, with an error that is transient exactly when that tier's was, so no worker
  is ever taken for gone because its tier could not be asked.
\<close>

theorem placement_inventory_whole:
  assumes "placement_of tiers = Inr p" and "prun (placement_Inventory p) s = (r, s')"
  shows "\<exists>results. prun (batch tier_Inventory tiers) s = (results, s') \<and> map fst results = tiers \<and> inventory_of results r"
  using assms(2) batch_results [of tier_Inventory tiers s] join_inventory_of
  by (auto simp: placement_Inventory_def placement_of_valid(1) [OF assms(1)] prun_pbind split: prod.splits)

theorem placement_inventory_whole_witness:
  "\<exists>p r s' results. placement_of example_tiers = Inr p \<and> prun (placement_Inventory p) (example_sys 10) = (r, s')
     \<and> prun (batch tier_Inventory example_tiers) (example_sys 10) = (results, s') \<and> inventory_of results r"
proof -
  obtain p where p: "placement_of example_tiers = Inr p" using example_placement ..
  obtain r s' where r: "prun (placement_Inventory p) (example_sys 10) = (r, s')" by fastforce
  show ?thesis using placement_inventory_whole [OF p r] p r by blast
qed

end
