(* ===== verification/Host_Agent.thy ===== *)
theory Host_Agent
  imports Pool_State "HOL-Library.State_Monad"
begin

text \<open>
  The agent that runs on a pool host (\<^verbatim>\<open>hostagent/agent.go\<close>, \<^verbatim>\<open>hostagent/workspace.go\<close>): the four verbs it
  answers, the Docker commands they give, and the work directories of the slots.

  Docker, the file system, the clock and the lock are fields of the record \<open>agent\<close>, functions on an
  arbitrary world, any of which may fail.  \<open>sy_trace\<close> is a ghost record, in order, of the Docker commands
  with their answers and of the directories renamed and made.  The JSON of a request, of a reply and of
  \<^verbatim>\<open>docker inspect\<close> is identified with what is decoded from it; encoding a reply does not fail.
\<close>

section \<open>Configuration\<close>

definition labelSlot :: string where "labelSlot = ''runneryard.slot''"
definition labelController :: string where "labelController = ''runneryard.controller''"
definition labelLease :: string where "labelLease = ''runneryard.lease''"
definition labelRunnerName :: string where "labelRunnerName = ''runneryard.runner-name''"
definition labelRunnerID :: string where "labelRunnerID = ''runneryard.runner-id''"
definition labelScaleSetID :: string where "labelScaleSetID = ''runneryard.scale-set-id''"
definition labelImage :: string where "labelImage = ''runneryard.image''"
definition maxRequestBytes :: int where "maxRequestBytes = 65536"
definition maxJITBytes :: nat where "maxJITBytes = 49152"
definition maxSlots :: int where "maxSlots = 64"
definition maxCaches :: nat where "maxCaches = 8"
definition defaultDockerFS :: string where "defaultDockerFS = ''/var/lib/docker''"
definition MinimumSlotMemoryMB :: int where "MinimumSlotMemoryMB = 512"
definition CodeDockerFailed :: string where "CodeDockerFailed = ''docker_failed''"

definition safeLabelValue :: "string \<Rightarrow> bool" where
  "safeLabelValue s = safe_token {CHR ''.'', CHR ''_'', CHR ''-''} 62 s"

definition safeHostname :: "string \<Rightarrow> bool" where
  "safeHostname s = safe_token {CHR ''-''} 62 s"

definition safeJIT :: "string \<Rightarrow> bool" where
  "safeJIT s \<longleftrightarrow> s \<noteq> [] \<and> list_all (\<lambda>c. is_alnum c \<or> c \<in> {CHR ''+'', CHR ''/'', CHR ''=''}) s"

definition safeImage :: "string \<Rightarrow> bool" where
  "safeImage s = safe_token {CHR ''.'', CHR ''_'', CHR ''/'', CHR '':'', CHR ''@'', CHR ''-''} 254 s"

definition safeCachePath :: "string \<Rightarrow> bool" where
  "safeCachePath s \<longleftrightarrow>
     (case s of
        [] \<Rightarrow> False
      | c # cs \<Rightarrow> c = CHR ''/'' \<and> cs \<noteq> [] \<and> list_all (\<lambda>c. is_alnum c \<or> c \<in> {CHR ''.'', CHR ''_'', CHR ''/'', CHR ''-''}) cs)"

record hostConfig =
  hc_Slots :: int
  hc_Image :: string
  hc_SlotCPUs :: rat
  hc_SlotMemoryMB :: int
  hc_Caches :: "string list"
  hc_MinFreeDiskGB :: int
  hc_DockerRoot :: string

definition validCachePath :: "string \<Rightarrow> bool" where
  "validCachePath path \<longleftrightarrow>
     safeCachePath path \<and> filepath_Clean path = path \<and> path \<noteq> ''/home/runner/_work'' \<and> path \<noteq> ''/var/lib/docker''
     \<and> list_ex (\<lambda>dir. prefix dir path \<and> length path > length dir) [''/home/runner/'', ''/opt/'']"

definition cacheVolumeSuffix :: "string \<Rightarrow> string" where
  "cacheVolumeSuffix path = replace_byte (CHR ''/'') (CHR ''-'') (trim_prefix ''/'' path)"

fun validate_caches :: "string list \<Rightarrow> string list \<Rightarrow> goerr option" where
  "validate_caches seen [] = None"
| "validate_caches seen (path # paths) =
     (if \<not> validCachePath path then Some (ErrText ''cache path must be a clean absolute path under /home/runner or /opt'')
      else if cacheVolumeSuffix path \<in> set seen then Some (ErrText ''cache path appears twice or shares its volume with another path'')
      else validate_caches (cacheVolumeSuffix path # seen) paths)"

definition host_Validate :: "hostConfig \<Rightarrow> goerr option" where
  "host_Validate c =
     (if hc_Slots c < 1 \<or> hc_Slots c > maxSlots then Some (ErrText ''slots must be between 1 and 64'')
      else if \<not> safeImage (hc_Image c) then Some (ErrText ''invalid runner image'')
      else if hc_SlotCPUs c < 0 \<or> hc_SlotCPUs c > 512 \<or> hc_SlotMemoryMB c < 0
        \<or> (hc_SlotMemoryMB c > 0 \<and> hc_SlotMemoryMB c < MinimumSlotMemoryMB)
      then Some (ErrText ''slot CPUs must be positive and slot memory at least 512 MB when set'')
      else if length (hc_Caches c) > maxCaches then Some (ErrText ''at most 8 cache paths'')
      else (case validate_caches [] (hc_Caches c) of
              Some err \<Rightarrow> Some err
            | None \<Rightarrow>
                if hc_MinFreeDiskGB c < 0 \<or> hc_MinFreeDiskGB c > 10000
                then Some (ErrText ''min_free_disk_gb must be between 0 and 10000'')
                else if hc_DockerRoot c \<noteq> [] \<and> \<not> filepath_IsAbs (hc_DockerRoot c) then Some (ErrText ''docker_root must be an absolute path'')
                else None))"

text \<open>\<open>contents\<close> is the file's content, decoded.\<close>

definition LoadConfig :: "goerr + hostConfig \<Rightarrow> goerr + hostConfig" where
  "LoadConfig contents =
     (case contents of
        Inl err \<Rightarrow> Inl err
      | Inr cfg \<Rightarrow> (case host_Validate cfg of Some err \<Rightarrow> Inl err | None \<Rightarrow> Inr cfg))"

section \<open>The agent\<close>

record container =
  ct_Name :: string
  ct_Created :: gotime
  ct_Status :: string
  ct_Labels :: "string gomap"

text \<open>Standard output, and the containers \<^verbatim>\<open>json.Unmarshal\<close> reads from it, if any.\<close>

record dockerOutput =
  do_Text :: string
  do_Containers :: "container list option"

type_synonym docker_answer = "dockerOutput \<times> string option"

text \<open>
  \<open>ag_PurgeTicks\<close> is how the timers of \<^verbatim>\<open>awaitPurge\<close> end its loop: the polls before the end, and whether the
  end is that of the context rather than the deadline.  \<open>ag_FormatFloat\<close> is \<^verbatim>\<open>strconv.FormatFloat\<close>.
\<close>

record 'w agent =
  ag_Config :: hostConfig
  ag_LocalImage :: string
  ag_ConfigErr :: "string option"
  ag_CPUs :: "int list"
  ag_WorkRoot :: string
  ag_Version :: string
  ag_Docker :: "string list \<Rightarrow> string list \<Rightarrow> 'w \<Rightarrow> docker_answer \<times> 'w"
  ag_FreeBytes :: "(string \<Rightarrow> 'w \<Rightarrow> (goerr + nat) \<times> 'w) option"
  ag_Lock :: "(int \<Rightarrow> 'w \<Rightarrow> string option \<times> 'w) option"
  ag_Unlock :: "int \<Rightarrow> 'w \<Rightarrow> unit \<times> 'w"
  ag_CachesFilled :: "('w \<Rightarrow> bool \<times> 'w) option"
  ag_PurgeWorkspaces :: "('w \<Rightarrow> unit \<times> 'w) option"
  ag_Now :: "'w \<Rightarrow> gotime \<times> 'w"
  ag_ReadDir :: "string \<Rightarrow> 'w \<Rightarrow> (goerr + string list option) \<times> 'w"
  ag_Rename :: "string \<Rightarrow> string \<Rightarrow> 'w \<Rightarrow> goerr option \<times> 'w"
  ag_Mkdir :: "string \<Rightarrow> 'w \<Rightarrow> goerr option \<times> 'w"
  ag_MkdirAll :: "string \<Rightarrow> 'w \<Rightarrow> goerr option \<times> 'w"
  ag_RandText :: "'w \<Rightarrow> string \<times> 'w"
  ag_PurgeTicks :: "'w \<Rightarrow> (nat \<times> bool) \<times> 'w"
  ag_FormatFloat :: "rat \<Rightarrow> string"

datatype agent_event =
    DockerRun "string list" "string list" docker_answer
  | DirRenamed string string
  | DirMade string

record 'w agentSys =
  sy_world :: 'w
  sy_trace :: "agent_event list"

datatype agentResult = ResInfo hostInfo | ResSlots "slot list" | ResSlot slot | ResRemoved bool

type_synonym reply = "(string \<times> string) + agentResult"

definition refuse :: "string \<Rightarrow> string \<Rightarrow> reply" where
  "refuse code msg = Inl (code, msg)"

definition succeed :: "agentResult \<Rightarrow> reply" where
  "succeed r = Inr r"

definition agent_do :: "('a \<Rightarrow> agent_event list) \<Rightarrow> ('w \<Rightarrow> 'a \<times> 'w) \<Rightarrow> ('w agentSys, 'a) state" where
  "agent_do events f =
     State (\<lambda>s. case f (sy_world s) of (a, w) \<Rightarrow> (a, s\<lparr>sy_world := w, sy_trace := sy_trace s @ events a\<rparr>))"

definition agent_read :: "('w \<Rightarrow> 'a \<times> 'w) \<Rightarrow> ('w agentSys, 'a) state" where
  "agent_read f = agent_do (\<lambda>_. []) f"

definition docker :: "'w agent \<Rightarrow> string list \<Rightarrow> string list \<Rightarrow> ('w agentSys, docker_answer) state" where
  "docker a env args = agent_do (\<lambda>r. [DockerRun env args r]) (ag_Docker a env args)"

section \<open>Containers and slots\<close>

definition containerName :: "int \<Rightarrow> string" where
  "containerName slot = ''runneryard-slot-'' @ itoa slot"

definition notFound :: "string \<Rightarrow> bool" where
  "notFound msg = sublist ''no such'' (toLower msg)"

definition label :: "container \<Rightarrow> string \<Rightarrow> string" where
  "label c key = (case map_of (ct_Labels c) key of Some v \<Rightarrow> v | None \<Rightarrow> [])"

definition workerState_of :: "string \<Rightarrow> string" where
  "workerState_of status =
     (if status = ''running'' then ''started''
      else if status = ''created'' \<or> status = ''restarting'' then ''starting''
      else if status = ''removing'' then ''destroying''
      else if status = ''exited'' \<or> status = ''dead'' \<or> status = ''paused'' then ''stopped''
      else ''unknown'')"

definition toSlot :: "container \<Rightarrow> slot option" where
  "toSlot c =
     (case strconv_Atoi (label c labelSlot) of
        None \<Rightarrow> None
      | Some index \<Rightarrow>
          if index < 0 then None
          else Some \<lparr>sl_Index = index, sl_ControllerID = label c labelController, sl_LeaseID = label c labelLease,
                 sl_RunnerName = label c labelRunnerName, sl_RunnerID = parse_int (label c labelRunnerID),
                 sl_RunnerScaleSetID = parse_int (label c labelScaleSetID), sl_State = workerState_of (ct_Status c),
                 sl_CreatedAt = ct_Created c\<rparr>)"

definition agent_image :: "'w agent \<Rightarrow> string" where
  "agent_image a = (if ag_LocalImage a \<noteq> [] then ag_LocalImage a else hc_Image (ag_Config a))"

definition imagePresent :: "'w agent \<Rightarrow> ('w agentSys, bool) state" where
  "imagePresent a =
     State_Monad.bind (docker a [] [''image'', ''inspect'', ''--format'', ''{{.Id}}'', agent_image a]) (\<lambda>(out, err). State_Monad.return (err = None))"

definition cachesFilled :: "'w agent \<Rightarrow> ('w agentSys, bool) state" where
  "cachesFilled a = (case ag_CachesFilled a of None \<Rightarrow> State_Monad.return True | Some f \<Rightarrow> agent_read f)"

definition inspectContainer :: "'w agent \<Rightarrow> string \<Rightarrow> ('w agentSys, string + container option) state" where
  "inspectContainer a name =
     State_Monad.bind (docker a [] [''inspect'', ''--type'', ''container'', name]) (\<lambda>(out, err).
     State_Monad.return
       (case err of
          Some msg \<Rightarrow> if notFound msg then Inr None else Inl (''docker inspect: '' @ msg)
        | None \<Rightarrow> (case do_Containers out of Some [c] \<Rightarrow> Inr (Some c) | _ \<Rightarrow> Inl ''unexpected docker inspect output'')))"

definition slotByName :: "'w agent \<Rightarrow> string \<Rightarrow> ('w agentSys, string + slot) state" where
  "slotByName a name =
     State_Monad.bind (docker a [] [''inspect'', name]) (\<lambda>(out, err).
     State_Monad.return
       (case err of
          Some msg \<Rightarrow> Inl msg
        | None \<Rightarrow>
            (case do_Containers out of
               Some [c] \<Rightarrow> (case toSlot c of Some s \<Rightarrow> Inr s | None \<Rightarrow> Inl ''started container lacks slot labels'')
             | _ \<Rightarrow> Inl ''unexpected docker inspect output'')))"

definition agent_slots :: "'w agent \<Rightarrow> ('w agentSys, string + slot list) state" where
  "agent_slots a =
     State_Monad.bind (docker a [] [''ps'', ''--all'', ''--no-trunc'', ''--filter'', ''label='' @ labelSlot, ''--format'', ''{{.ID}}'']) (\<lambda>(out, err).
     case err of
       Some msg \<Rightarrow> State_Monad.return (Inl (''docker ps: '' @ msg))
     | None \<Rightarrow>
         (let ids = strings_Fields (do_Text out)
          in if ids = [] then State_Monad.return (Inr [])
             else State_Monad.bind (docker a [] (''inspect'' # ids)) (\<lambda>(out, err).
               State_Monad.return
                 (case do_Containers out of
                    None \<Rightarrow> (case err of Some msg \<Rightarrow> Inl (''docker inspect: '' @ msg) | None \<Rightarrow> Inl ''decode docker inspect'')
                  | Some containers \<Rightarrow> Inr (List.map_filter toSlot containers)))))"

section \<open>CPUs and volumes\<close>

text \<open>The cores of a slot, none when it gets a quota instead.\<close>

definition slot_cores :: "'w agent \<Rightarrow> int \<Rightarrow> int list" where
  "slot_cores a slot =
     (let count = trunc_rat (hc_SlotCPUs (ag_Config a))
      in if count < 1 \<or> of_int count \<noteq> hc_SlotCPUs (ag_Config a) \<or> hc_Slots (ag_Config a) * count > int (length (ag_CPUs a))
           \<or> slot < 0 \<or> slot \<ge> hc_Slots (ag_Config a)
         then []
         else take (nat count) (drop (nat (slot * count)) (ag_CPUs a)))"

definition slotCPUSet :: "'w agent \<Rightarrow> int \<Rightarrow> string" where
  "slotCPUSet a slot = strings_Join (map itoa (slot_cores a slot)) '',''"

definition SlotsPinned :: "'w agent \<Rightarrow> bool" where
  "SlotsPinned a \<longleftrightarrow> slotCPUSet a 0 \<noteq> []"

definition maxCPU :: int where "maxCPU = 8191"

definition cpu_range :: "string \<Rightarrow> (int \<times> int) option" where
  "cpu_range part =
     (case strings_Cut (CHR ''-'') part of
        None \<Rightarrow> map_option (\<lambda>low. (low, low)) (strconv_Atoi part)
      | Some (first, final) \<Rightarrow>
          (case strconv_Atoi first of
             None \<Rightarrow> None
           | Some low \<Rightarrow> map_option (Pair low) (strconv_Atoi final)))"

fun cpu_list :: "int list \<Rightarrow> string list \<Rightarrow> goerr + int list" where
  "cpu_list cpus [] = Inr cpus"
| "cpu_list cpus (part # parts) =
     (case cpu_range part of
        None \<Rightarrow> Inl (ErrText ''invalid CPU list'')
      | Some (low, high) \<Rightarrow>
          if low < 0 \<or> high < low \<or> high > maxCPU \<or> (cpus \<noteq> [] \<and> low \<le> last cpus) then Inl (ErrText ''invalid CPU list'')
          else cpu_list (cpus @ [low..high]) parts)"

definition ParseCPUList :: "string \<Rightarrow> goerr + int list" where
  "ParseCPUList s =
     (let trimmed = trimSpace s
      in if trimmed = [] then Inl (ErrText ''empty CPU list'') else cpu_list [] (split_on (CHR '','') [] trimmed))"

text \<open>\<open>contents\<close> is what \<^verbatim>\<open>/sys/devices/system/cpu/online\<close> holds, if it could be read.\<close>

definition OnlineCPUs :: "string option \<Rightarrow> int list" where
  "OnlineCPUs contents =
     (case contents of None \<Rightarrow> [] | Some s \<Rightarrow> (case ParseCPUList s of Inl err \<Rightarrow> [] | Inr cpus \<Rightarrow> cpus))"

text \<open>Name and target of a slot's volumes.\<close>

definition volumes :: "'w agent \<Rightarrow> int \<Rightarrow> (string \<times> string) list" where
  "volumes a slot =
     (containerName slot @ ''-docker'', ''/var/lib/docker'')
     # map (\<lambda>path. (containerName slot @ ''-cache-'' @ cacheVolumeSuffix path, path)) (hc_Caches (ag_Config a))"

definition volume_args :: "(string \<times> string) list \<Rightarrow> string list" where
  "volume_args vs = concat (map (\<lambda>(name, target). [''--mount'', ''type=volume,source='' @ name @ '',target='' @ target]) vs)"

definition retiredWorkVolume :: "int \<Rightarrow> string" where
  "retiredWorkVolume slot = containerName slot @ ''-work''"

text \<open>The slots, filled at once, in order.\<close>

fun prefill_slots :: "'w agent \<Rightarrow> int list \<Rightarrow> ('w agentSys, goerr list) state" where
  "prefill_slots a [] = State_Monad.return []"
| "prefill_slots a (slot # rest) =
     State_Monad.bind
       (docker a [] ([''run'', ''--rm'', ''--network'', ''none'', ''--pull'', ''never'', ''--entrypoint'', ''/usr/bin/true'']
          @ volume_args (volumes a slot) @ [agent_image a])) (\<lambda>(out, err).
     State_Monad.bind (prefill_slots a rest) (\<lambda>errs.
     State_Monad.return (case err of Some msg \<Rightarrow> ErrWrap (''slot '' @ itoa slot) (ErrText msg) # errs | None \<Rightarrow> errs)))"

definition PrefillCaches :: "'w agent \<Rightarrow> ('w agentSys, goerr option) state" where
  "PrefillCaches a =
     State_Monad.bind (prefill_slots a [0..hc_Slots (ag_Config a) - 1]) (\<lambda>errs.
     State_Monad.return (if errs = [] then None else Some (ErrJoin errs)))"

section \<open>Work directories\<close>

definition workspaceTarget :: string where "workspaceTarget = ''/home/runner/_work''"
definition workspacePrefix :: string where "workspacePrefix = ''slot-''"
definition retiredWorkspacePrefix :: string where "retiredWorkspacePrefix = ''deleting-''"
definition labelWorkspacePurge :: string where "labelWorkspacePurge = ''runneryard.workspace-purge''"
definition purgeTarget :: string where "purgeTarget = ''/workspaces''"

definition validWorkRoot :: "string \<Rightarrow> bool" where
  "validWorkRoot dir \<longleftrightarrow> safeCachePath dir \<and> filepath_Clean dir = dir"

definition slotWorkspacePrefix :: "int \<Rightarrow> string" where
  "slotWorkspacePrefix slot = workspacePrefix @ itoa slot @ ''-''"

definition rename_dir :: "'w agent \<Rightarrow> string \<Rightarrow> string \<Rightarrow> ('w agentSys, goerr option) state" where
  "rename_dir a from to = agent_do (\<lambda>err. if err = None then [DirRenamed from to] else []) (ag_Rename a from to)"

fun retire_names :: "'w agent \<Rightarrow> string \<Rightarrow> string list \<Rightarrow> nat \<Rightarrow> ('w agentSys, nat \<times> goerr option) state" where
  "retire_names a dir [] retired = State_Monad.return (retired, None)"
| "retire_names a dir (name # names) retired =
     State_Monad.bind (agent_read (ag_RandText a)) (\<lambda>text.
     State_Monad.bind (rename_dir a (filepath_Join dir name) (filepath_Join dir (retiredWorkspacePrefix @ name @ ''-'' @ toLower text))) (\<lambda>err.
     case err of
       Some e \<Rightarrow> State_Monad.return (retired, Some e)
     | None \<Rightarrow> retire_names a dir names (Suc retired)))"

text \<open>\<open>ag_ReadDir\<close> answers the names in a directory, \<open>None\<close> when it does not exist.\<close>

definition retireWorkspaces :: "'w agent \<Rightarrow> string \<Rightarrow> string \<Rightarrow> ('w agentSys, nat \<times> goerr option) state" where
  "retireWorkspaces a dir pre =
     State_Monad.bind (agent_read (ag_ReadDir a dir)) (\<lambda>entries.
     case entries of
       Inl err \<Rightarrow> State_Monad.return (0, Some err)
     | Inr None \<Rightarrow> State_Monad.return (0, None)
     | Inr (Some names) \<Rightarrow> retire_names a dir (filter (prefix pre) names) 0)"

definition RetireWorkspaces :: "'w agent \<Rightarrow> string \<Rightarrow> ('w agentSys, nat \<times> goerr option) state" where
  "RetireWorkspaces a dir = retireWorkspaces a dir workspacePrefix"

definition purgeArgs :: "'w agent \<Rightarrow> string list" where
  "purgeArgs a =
     [''run'', ''--rm'', ''--detach'', ''--label'', labelWorkspacePurge @ ''=true'',
      ''--network'', ''none'', ''--read-only'', ''--log-driver'', ''none'',
      ''--user'', ''0:0'', ''--cap-drop'', ''ALL'', ''--cap-add'', ''DAC_OVERRIDE'', ''--cap-add'', ''FOWNER'',
      ''--mount'', ''type=bind,source='' @ ag_WorkRoot a @ '',target='' @ purgeTarget,
      ''--pull'', ''never'', ''--entrypoint'', ''/usr/bin/find'',
      agent_image a, purgeTarget, ''-mindepth'', ''1'', ''-maxdepth'', ''1'', ''-name'', retiredWorkspacePrefix @ ''*'',
      ''-exec'', ''rm'', ''-rf'', ''--'', ''{}'', ''+'']"

definition purgeWorkspaces :: "'w agent \<Rightarrow> ('w agentSys, unit) state" where
  "purgeWorkspaces a =
     (case ag_PurgeWorkspaces a of
        Some f \<Rightarrow> agent_read f
      | None \<Rightarrow> State_Monad.bind (docker a [] (purgeArgs a)) (\<lambda>_. State_Monad.return ()))"

definition discardWorkspaces :: "'w agent \<Rightarrow> int \<Rightarrow> ('w agentSys, goerr option) state" where
  "discardWorkspaces a slot =
     (if ag_WorkRoot a = [] then State_Monad.return None
      else State_Monad.bind (retireWorkspaces a (ag_WorkRoot a) (slotWorkspacePrefix slot)) (\<lambda>(retired, err).
           State_Monad.bind (if retired > 0 then purgeWorkspaces a else State_Monad.return ()) (\<lambda>_.
           State_Monad.return err)))"

definition prepareWorkspace :: "'w agent \<Rightarrow> int \<Rightarrow> string \<Rightarrow> ('w agentSys, goerr + string) state" where
  "prepareWorkspace a slot leaseID =
     (if \<not> validWorkRoot (ag_WorkRoot a) then State_Monad.return (Inl (ErrText ''invalid work root''))
      else if \<not> safeLabelValue leaseID then State_Monad.return (Inl (ErrText ''invalid lease id''))
      else State_Monad.bind (agent_read (ag_MkdirAll a (ag_WorkRoot a))) (\<lambda>err.
           case err of
             Some e \<Rightarrow> State_Monad.return (Inl e)
           | None \<Rightarrow>
               State_Monad.bind (discardWorkspaces a slot) (\<lambda>err.
               case err of
                 Some e \<Rightarrow> State_Monad.return (Inl e)
               | None \<Rightarrow>
                   (let path = filepath_Join (ag_WorkRoot a) (slotWorkspacePrefix slot @ leaseID)
                    in State_Monad.bind (agent_do (\<lambda>err. if err = None then [DirMade path] else []) (ag_Mkdir a path)) (\<lambda>err.
                       State_Monad.return (case err of Some e \<Rightarrow> Inl e | None \<Rightarrow> Inr path))))))"

definition agent_freeBytes :: "'w agent \<Rightarrow> ('w agentSys, goerr + nat) state" where
  "agent_freeBytes a =
     (case ag_FreeBytes a of
        None \<Rightarrow> State_Monad.return (Inl (ErrText ''disk space unknown''))
      | Some f \<Rightarrow>
          (let dir = (if hc_DockerRoot (ag_Config a) = [] then defaultDockerFS else hc_DockerRoot (ag_Config a))
           in State_Monad.bind (agent_read (f dir)) (\<lambda>free.
              case free of
                Inl err \<Rightarrow> State_Monad.return (Inl err)
              | Inr n \<Rightarrow>
                  if ag_WorkRoot a = [] then State_Monad.return (Inr n)
                  else State_Monad.bind (agent_read (f (ag_WorkRoot a))) (\<lambda>work.
                       State_Monad.return (Inr (case work of Inl _ \<Rightarrow> n | Inr m \<Rightarrow> if m < n then m else n))))))"

definition retiredWorkspacesLeft :: "'w agent \<Rightarrow> string \<Rightarrow> ('w agentSys, bool) state" where
  "retiredWorkspacesLeft a dir =
     State_Monad.bind (agent_read (ag_ReadDir a dir)) (\<lambda>entries.
     State_Monad.return (case entries of Inr (Some names) \<Rightarrow> list_ex (prefix retiredWorkspacePrefix) names | _ \<Rightarrow> False))"

text \<open>The loop over the polls; \<open>free\<close> is what was free at the last one.\<close>

fun await_polls :: "'w agent \<Rightarrow> nat \<Rightarrow> bool \<Rightarrow> nat \<Rightarrow> nat \<Rightarrow> ('w agentSys, goerr + nat) state" where
  "await_polls a required over 0 free = (if over then State_Monad.return (Inr free) else agent_freeBytes a)"
| "await_polls a required over (Suc n) free =
     State_Monad.bind (agent_freeBytes a) (\<lambda>current.
     case current of
       Inl err \<Rightarrow> State_Monad.return (Inl err)
     | Inr m \<Rightarrow>
         if m \<ge> required then State_Monad.return (Inr m)
         else State_Monad.bind (retiredWorkspacesLeft a (ag_WorkRoot a)) (\<lambda>left.
              if \<not> left then State_Monad.return (Inr m) else await_polls a required over n m))"

definition awaitPurge :: "'w agent \<Rightarrow> nat \<Rightarrow> nat \<Rightarrow> ('w agentSys, goerr + nat) state" where
  "awaitPurge a required free =
     (if ag_WorkRoot a = [] then State_Monad.return (Inr free)
      else State_Monad.bind (retiredWorkspacesLeft a (ag_WorkRoot a)) (\<lambda>left.
           if \<not> left then State_Monad.return (Inr free)
           else State_Monad.bind (purgeWorkspaces a) (\<lambda>_.
                State_Monad.bind (agent_read (ag_PurgeTicks a)) (\<lambda>(polls, over). await_polls a required over polls free))))"

section \<open>The verbs\<close>

text \<open>The refusal, if any.\<close>

definition ensureDisk :: "'w agent \<Rightarrow> int \<Rightarrow> ('w agentSys, reply option) state" where
  "ensureDisk a slot =
     (if hc_MinFreeDiskGB (ag_Config a) = 0 then State_Monad.return None
      else (let required = nat (hc_MinFreeDiskGB (ag_Config a)) * 2 ^ 30
            in State_Monad.bind (agent_freeBytes a) (\<lambda>free.
               case free of
                 Inl _ \<Rightarrow> State_Monad.return None
               | Inr n \<Rightarrow>
                   if n \<ge> required then State_Monad.return None
                   else State_Monad.bind (awaitPurge a required n) (\<lambda>free.
                     case free of
                       Inl _ \<Rightarrow> State_Monad.return None
                     | Inr n \<Rightarrow>
                         if n \<ge> required then State_Monad.return None
                         else State_Monad.bind
                           (docker a [] ([''volume'', ''rm'', ''--force''] @ map fst (volumes a slot) @ [retiredWorkVolume slot])) (\<lambda>(out, err).
                           case err of
                             Some msg \<Rightarrow>
                               State_Monad.return
                                 (Some (refuse CodeDiskFull (''free disk below minimum and slot caches could not be removed: '' @ msg)))
                           | None \<Rightarrow>
                               State_Monad.bind (agent_freeBytes a) (\<lambda>free.
                               State_Monad.return
                                 (case free of
                                    Inr n \<Rightarrow>
                                      if n < required
                                      then Some (refuse CodeDiskFull (''free disk '' @ itoa (int (n div 2 ^ 30)) @ '' GB below minimum ''
                                             @ itoa (hc_MinFreeDiskGB (ag_Config a)) @ '' GB''))
                                      else None
                                  | Inl _ \<Rightarrow> None)))))))"

definition agent_validate :: "gotime \<Rightarrow> startRequest \<Rightarrow> string option" where
  "agent_validate now r =
     (if \<not> safeLabelValue (sq_ControllerID r) then Some ''invalid controller id''
      else if \<not> safeLabelValue (sq_LeaseID r) then Some ''invalid lease id''
      else if \<not> safeHostname (sq_RunnerName r) then Some ''invalid runner name''
      else if sq_RunnerID r < 0 \<or> sq_RunnerScaleSetID r < 0 then Some ''invalid runner registration''
      else if sq_JITConfig r = [] \<or> length (sq_JITConfig r) > maxJITBytes \<or> \<not> safeJIT (sq_JITConfig r) then Some ''invalid JIT configuration''
      else if \<not> sq_Deadline r > now \<or> sq_Deadline r > now + 25 * hour then Some ''deadline must be in the future and within 25h''
      else if sq_IdleTimeoutSeconds r < 0 \<or> sq_IdleTimeoutSeconds r > 86400 then Some ''invalid idle timeout''
      else None)"

definition slotEntrypoint :: string where "slotEntrypoint = ''/usr/local/bin/runner-entrypoint''"

definition label_args :: "int \<Rightarrow> startRequest \<Rightarrow> (string \<times> string) list" where
  "label_args slot r =
     [(labelSlot, itoa slot), (labelController, sq_ControllerID r), (labelLease, sq_LeaseID r), (labelRunnerName, sq_RunnerName r),
      (labelRunnerID, itoa (sq_RunnerID r)), (labelScaleSetID, itoa (sq_RunnerScaleSetID r)), (labelImage, sq_Image r)]"

definition runArgs :: "'w agent \<Rightarrow> int \<Rightarrow> startRequest \<Rightarrow> string \<Rightarrow> string list" where
  "runArgs a slot r workspace =
     [''run'', ''--detach'', ''--name'', containerName slot, ''--hostname'', sq_RunnerName r, ''--privileged'']
     @ concat (map (\<lambda>(key, v). [''--label'', key @ ''='' @ v]) (label_args slot r))
     @ [''--log-driver'', ''json-file'', ''--log-opt'', ''max-size=20m'', ''--log-opt'', ''max-file=2'']
     @ (if slotCPUSet a slot \<noteq> [] then [''--cpuset-cpus'', slotCPUSet a slot]
        else if hc_SlotCPUs (ag_Config a) > 0 then [''--cpus'', ag_FormatFloat a (hc_SlotCPUs (ag_Config a))] else [])
     @ (if hc_SlotMemoryMB (ag_Config a) > 0 then [''--memory'', itoa (hc_SlotMemoryMB (ag_Config a)) @ ''m''] else [])
     @ [''--env'', ''ACTIONS_RUNNER_INPUT_JITCONFIG'',
        ''--env'', ''RUNNERYARD_DEADLINE='' @ time_RFC3339 (sq_Deadline r),
        ''--env'', ''RUNNERYARD_IDLE_TIMEOUT='' @ itoa (sq_IdleTimeoutSeconds r),
        ''--env'', ''RUNNERYARD_REUSED_SLOT=1'']
     @ volume_args (volumes a slot)
     @ (if workspace \<noteq> [] then [''--mount'', ''type=bind,source='' @ workspace @ '',target='' @ workspaceTarget] else [])
     @ [''--pull'', ''never'', ''--entrypoint'', ''/usr/bin/dumb-init'', agent_image a, ''--'', slotEntrypoint]"

definition info :: "'w agent \<Rightarrow> ('w agentSys, reply) state" where
  "info a =
     (if ag_ConfigErr a \<noteq> None then State_Monad.return (succeed (ResInfo (zeroInfo\<lparr>hi_Version := ag_Version a\<rparr>)))
      else State_Monad.bind (cachesFilled a) (\<lambda>filled.
           State_Monad.bind (if filled then imagePresent a else State_Monad.return False) (\<lambda>ready.
           State_Monad.bind (agent_freeBytes a) (\<lambda>free.
           State_Monad.return (succeed (ResInfo
             \<lparr>hi_Version = ag_Version a, hi_Slots = hc_Slots (ag_Config a), hi_Image = hc_Image (ag_Config a), hi_Ready = ready,
              hi_DiskFreeBytes = (case free of Inr n \<Rightarrow> n | Inl _ \<Rightarrow> 0)\<rparr>))))))"

definition agent_list :: "'w agent \<Rightarrow> ('w agentSys, reply) state" where
  "agent_list a =
     State_Monad.bind (agent_slots a) (\<lambda>r.
     State_Monad.return (case r of Inl msg \<Rightarrow> refuse CodeDockerFailed msg | Inr slots \<Rightarrow> succeed (ResSlots slots)))"

text \<open>Standard input as a start reads it: whether reading failed, how much there was, and the request in it.\<close>

record stdin =
  si_Failed :: bool
  si_Length :: int
  si_Request :: "startRequest option"

text \<open>The run; before it the disk and the work directory; before them the image and the caches.\<close>

definition run_slot :: "'w agent \<Rightarrow> int \<Rightarrow> startRequest \<Rightarrow> string \<Rightarrow> ('w agentSys, reply) state" where
  "run_slot a slot r workspace =
     (let name = containerName slot
      in State_Monad.bind (docker a [''ACTIONS_RUNNER_INPUT_JITCONFIG='' @ sq_JITConfig r] (runArgs a slot r workspace)) (\<lambda>(out, err).
         case err of
           Some msg \<Rightarrow>
             State_Monad.bind (inspectContainer a name) (\<lambda>found.
             State_Monad.bind
               (case found of
                  Inr (Some c) \<Rightarrow>
                    if label c labelLease = sq_LeaseID r
                    then State_Monad.bind (docker a [] [''rm'', ''--force'', name]) (\<lambda>_. State_Monad.return ())
                    else State_Monad.return ()
                | _ \<Rightarrow> State_Monad.return ()) (\<lambda>_.
             State_Monad.return (refuse CodeDockerFailed (''docker run: '' @ msg))))
         | None \<Rightarrow>
             State_Monad.bind (slotByName a name) (\<lambda>started.
             State_Monad.return
               (case started of
                  Inl msg \<Rightarrow> refuse CodeDockerFailed (''inspect started slot: '' @ msg)
                | Inr s \<Rightarrow> succeed (ResSlot s)))))"

definition claim_slot :: "'w agent \<Rightarrow> int \<Rightarrow> startRequest \<Rightarrow> ('w agentSys, reply) state" where
  "claim_slot a slot r =
     State_Monad.bind (ensureDisk a slot) (\<lambda>refused.
     case refused of
       Some answer \<Rightarrow> State_Monad.return answer
     | None \<Rightarrow>
         if ag_WorkRoot a = [] then run_slot a slot r []
         else State_Monad.bind (prepareWorkspace a slot (sq_LeaseID r)) (\<lambda>workspace.
              case workspace of
                Inl err \<Rightarrow> State_Monad.return (refuse CodeNotReady ''prepare work directory'')
              | Inr path \<Rightarrow> run_slot a slot r path))"

definition prepare_slot :: "'w agent \<Rightarrow> int \<Rightarrow> startRequest \<Rightarrow> ('w agentSys, reply) state" where
  "prepare_slot a slot r =
     State_Monad.bind (imagePresent a) (\<lambda>present.
     if \<not> present then State_Monad.return (refuse CodeNotReady ''runner image is not present'')
     else State_Monad.bind (cachesFilled a) (\<lambda>filled.
     if \<not> filled then State_Monad.return (refuse CodeNotReady ''slot caches are still being filled'')
     else claim_slot a slot r))"

definition agent_start :: "'w agent \<Rightarrow> int \<Rightarrow> stdin \<Rightarrow> ('w agentSys, reply) state" where
  "agent_start a slot input =
     (if si_Failed input \<or> si_Length input > maxRequestBytes
      then State_Monad.return (refuse CodeInvalid ''unreadable or oversized start request'')
      else (case si_Request input of
              None \<Rightarrow> State_Monad.return (refuse CodeInvalid ''start request is not valid JSON'')
            | Some r \<Rightarrow>
                if sq_Image r \<noteq> hc_Image (ag_Config a)
                then State_Monad.return (refuse CodeImageMismatch (''host serves '' @ hc_Image (ag_Config a)))
                else State_Monad.bind (agent_read (ag_Now a)) (\<lambda>now.
                     case agent_validate now r of
                       Some msg \<Rightarrow> State_Monad.return (refuse CodeInvalid msg)
                     | None \<Rightarrow>
                         State_Monad.bind (inspectContainer a (containerName slot)) (\<lambda>found.
                         case found of
                           Inl msg \<Rightarrow> State_Monad.return (refuse CodeDockerFailed msg)
                         | Inr (Some c) \<Rightarrow> State_Monad.return (refuse CodeSlotBusy ''slot already holds a container'')
                         | Inr None \<Rightarrow> prepare_slot a slot r))))"

definition awaitExit :: "'w agent \<Rightarrow> string \<Rightarrow> ('w agentSys, unit) state" where
  "awaitExit a name = State_Monad.bind (docker a [] [''wait'', name]) (\<lambda>_. State_Monad.return ())"

definition discard_removed :: "'w agent \<Rightarrow> int \<Rightarrow> bool \<Rightarrow> ('w agentSys, reply) state" where
  "discard_removed a slot found =
     State_Monad.bind (discardWorkspaces a slot) (\<lambda>err.
     State_Monad.return (case err of Some e \<Rightarrow> refuse CodeDockerFailed ''retire work directory'' | None \<Rightarrow> succeed (ResRemoved found)))"

definition agent_remove :: "'w agent \<Rightarrow> int \<Rightarrow> string \<Rightarrow> ('w agentSys, reply) state" where
  "agent_remove a slot leaseID =
     (let name = containerName slot
      in State_Monad.bind (inspectContainer a name) (\<lambda>found.
         case found of
           Inl msg \<Rightarrow> State_Monad.return (refuse CodeDockerFailed msg)
         | Inr None \<Rightarrow> discard_removed a slot False
         | Inr (Some c) \<Rightarrow>
             if label c labelLease \<noteq> leaseID then State_Monad.return (refuse CodeLeaseMismatch ''slot holds another lease'')
             else State_Monad.bind (if ct_Status c = ''running'' then awaitExit a name else State_Monad.return ()) (\<lambda>_.
                  State_Monad.bind (docker a [] [''rm'', ''--force'', name]) (\<lambda>(out, err).
                  case err of
                    Some msg \<Rightarrow> State_Monad.return (refuse CodeDockerFailed (''docker rm: '' @ msg))
                  | None \<Rightarrow> discard_removed a slot True))))"

definition slotIndex :: "'w agent \<Rightarrow> string \<Rightarrow> int option" where
  "slotIndex a v =
     (case strconv_Atoi v of
        None \<Rightarrow> None
      | Some slot \<Rightarrow> if slot < 0 \<or> slot \<ge> hc_Slots (ag_Config a) \<or> itoa slot \<noteq> v then None else Some slot)"

definition agent_locked :: "'w agent \<Rightarrow> int \<Rightarrow> ('w agentSys, reply) state \<Rightarrow> ('w agentSys, reply) state" where
  "agent_locked a slot run =
     (case ag_Lock a of
        None \<Rightarrow> run
      | Some lock \<Rightarrow>
          State_Monad.bind (agent_read (lock slot)) (\<lambda>err.
          case err of
            Some msg \<Rightarrow> State_Monad.return (refuse CodeDockerFailed (''lock slot: '' @ msg))
          | None \<Rightarrow> State_Monad.bind run (\<lambda>answer. State_Monad.bind (agent_read (ag_Unlock a slot)) (\<lambda>_. State_Monad.return answer))))"

definition Handle :: "'w agent \<Rightarrow> string \<Rightarrow> stdin \<Rightarrow> ('w agentSys, reply) state" where
  "Handle a command input =
     (case strings_Fields command of
        [] \<Rightarrow> State_Monad.return (refuse CodeInvalid ''empty command'')
      | verb # args \<Rightarrow>
          if verb = ''info'' \<and> args = [] then info a
          else (case ag_ConfigErr a of
                  Some msg \<Rightarrow> State_Monad.return (refuse CodeNotReady (''host is not installed: '' @ msg))
                | None \<Rightarrow>
                    if verb = ''list'' \<and> args = [] then agent_list a
                    else if verb = ''start'' \<and> length args = 1
                    then (case slotIndex a (args ! 0) of
                            None \<Rightarrow> State_Monad.return (refuse CodeInvalid ''invalid slot'')
                          | Some slot \<Rightarrow> agent_locked a slot (agent_start a slot input))
                    else if verb = ''remove'' \<and> length args = 2
                    then (case slotIndex a (args ! 0) of
                            None \<Rightarrow> State_Monad.return (refuse CodeInvalid ''invalid slot or lease'')
                          | Some slot \<Rightarrow>
                              if \<not> safeLabelValue (args ! 1) then State_Monad.return (refuse CodeInvalid ''invalid slot or lease'')
                              else agent_locked a slot (agent_remove a slot (args ! 1)))
                    else State_Monad.return (refuse CodeInvalid ''unknown command'')))"

end
