(* ===== verification/Host_Agent_Correct.thy ===== *)
theory Host_Agent_Correct
  imports Host_Agent
begin

text \<open>
  What the host agent promises: slots share no volume and no core, and the answers to \<^verbatim>\<open>start\<close> and
  \<^verbatim>\<open>remove\<close> tell what the slot's container is.  The latter rest on what Docker documents of the commands
  the agent gives, the predicate \<open>docker_spec\<close>, about one container name and whatever else the host
  does meanwhile.
\<close>

section \<open>Volumes\<close>

lemma validate_caches_distinct:
  "validate_caches seen paths = None \<Longrightarrow>
     distinct (map cacheVolumeSuffix paths) \<and> set (map cacheVolumeSuffix paths) \<inter> set seen = {} \<and> list_all validCachePath paths"
proof (induction seen paths rule: validate_caches.induct)
  case (2 seen path paths)
  then have step: "validCachePath path" "cacheVolumeSuffix path \<notin> set seen" "validate_caches (cacheVolumeSuffix path # seen) paths = None"
    by (simp_all split: if_splits)
  have "\<not> \<not> validCachePath path" using step(1) by simp
  from 2(1) [OF this step(2,3)] show ?case using step(1,2) by auto
qed simp

lemma host_Validate_caches:
  "host_Validate c = None \<Longrightarrow> 1 \<le> hc_Slots c \<and> hc_Slots c \<le> maxSlots \<and> distinct (map cacheVolumeSuffix (hc_Caches c))"
  using validate_caches_distinct [of "[]" "hc_Caches c"]
  by (auto simp: host_Validate_def split: if_splits option.splits)

text \<open>A number followed by a character that is no digit can be read back.\<close>

lemma digits_block_inj:
  assumes "list_all is_digit ds" "list_all is_digit es" "\<not> is_digit c" "\<not> is_digit d" "ds @ c # xs = es @ d # ys"
  shows "ds = es \<and> c # xs = d # ys"
proof -
  have "takeWhile is_digit (ds @ c # xs) = ds" "takeWhile is_digit (es @ d # ys) = es"
    using assms(1-4) by (auto simp: takeWhile_append list_all_iff)
  then show ?thesis using assms(5) by (metis same_append_eq)
qed

lemma itoa_block_inj:
  "0 \<le> i \<Longrightarrow> 0 \<le> j \<Longrightarrow> \<not> is_digit c \<Longrightarrow> \<not> is_digit d \<Longrightarrow> itoa i @ c # xs = itoa j @ d # ys \<Longrightarrow> i = j \<and> c # xs = d # ys"
  using digits_block_inj [of "itoa i" "itoa j" c d xs ys] itoa_digits itoa_inj by blast

lemma volume_name:
  "v \<in> set (map fst (volumes a slot)) \<Longrightarrow> \<exists>rest. v = ''runneryard-slot-'' @ itoa slot @ CHR ''-'' # rest"
  by (auto simp: volumes_def containerName_def)

lemma volumes_distinct: "distinct (map cacheVolumeSuffix (hc_Caches (ag_Config a))) \<Longrightarrow> distinct (map fst (volumes a slot))"
  by (auto simp: volumes_def distinct_map inj_on_def)

lemma volumes_disjoint:
  assumes "0 \<le> i" "0 \<le> j" "i \<noteq> j"
  shows "set (map fst (volumes a i)) \<inter> set (map fst (volumes a j)) = {}"
proof (rule ccontr)
  assume "\<not> ?thesis"
  then obtain v where "v \<in> set (map fst (volumes a i))" "v \<in> set (map fst (volumes a j))" by blast
  then obtain xs ys where "v = ''runneryard-slot-'' @ itoa i @ CHR ''-'' # xs" "v = ''runneryard-slot-'' @ itoa j @ CHR ''-'' # ys"
    using volume_name by metis
  then have "itoa i @ CHR ''-'' # xs = itoa j @ CHR ''-'' # ys" by simp
  then show False using itoa_block_inj [OF assms(1,2), of "CHR ''-''" "CHR ''-''" xs ys] assms(3) by (simp add: is_digit_def)
qed

section \<open>Cores\<close>

lemma cpu_list_sorted:
  "cpu_list cpus parts = Inr out \<Longrightarrow> sorted_wrt (<) cpus \<Longrightarrow> list_all (\<lambda>c. 0 \<le> c \<and> c \<le> maxCPU) cpus \<Longrightarrow>
     sorted_wrt (<) out \<and> list_all (\<lambda>c. 0 \<le> c \<and> c \<le> maxCPU) out"
proof (induction cpus parts rule: cpu_list.induct)
  case (2 cpus part parts)
  obtain low high where r: "cpu_range part = Some (low, high)" "\<not> (low < 0 \<or> high < low \<or> high > maxCPU \<or> (cpus \<noteq> [] \<and> low \<le> last cpus))"
      "cpu_list (cpus @ [low..high]) parts = Inr out"
    using 2(2) by (auto split: option.splits if_splits)
  have below: "c < low" if "c \<in> set cpus" for c
  proof -
    have "c \<le> last cpus" using that 2(3) by (induction cpus rule: rev_induct) (auto simp: sorted_wrt_append)
    then show ?thesis using r(2) that by (cases cpus) auto
  qed
  have sorted: "sorted_wrt (<) (cpus @ [low..high])" using 2(3) by (auto simp: sorted_wrt_append dest: below)
  have bounds: "list_all (\<lambda>c. 0 \<le> c \<and> c \<le> maxCPU) (cpus @ [low..high])" using 2(4) r(2) by (auto simp: list_all_iff)
  show ?case using 2(1) [OF r(1) refl r(2,3) sorted bounds] .
qed simp

lemma ParseCPUList_sorted: "ParseCPUList s = Inr cpus \<Longrightarrow> sorted_wrt (<) cpus \<and> list_all (\<lambda>c. 0 \<le> c \<and> c \<le> maxCPU) cpus"
  using cpu_list_sorted [of "[]" "split_on (CHR '','') [] (trimSpace s)" cpus] by (auto simp: ParseCPUList_def Let_def split: if_splits)

lemma OnlineCPUs_distinct: "distinct (OnlineCPUs contents)"
  using ParseCPUList_sorted by (auto simp: OnlineCPUs_def strict_sorted_iff split: option.splits sum.splits)

lemma slots_disjoint:
  assumes "distinct xs" "i * n + n \<le> j * n"
  shows "set (take n (drop (i * n) xs)) \<inter> set (take n (drop (j * n) xs)) = {}"
proof -
  have "set (take n (drop (i * n) xs)) \<subseteq> set (take (j * n) xs)"
  proof -
    have "take n (drop (i * n) xs) = drop (i * n) (take (i * n + n) xs)" by (simp add: drop_take)
    also have "take (i * n + n) xs = take (i * n + n) (take (j * n) xs)" using assms(2) by (simp add: min_absorb1)
    finally show ?thesis by (metis set_drop_subset set_take_subset subset_trans)
  qed
  moreover have "set (take n (drop (j * n) xs)) \<subseteq> set (drop (j * n) xs)" by (rule set_take_subset)
  ultimately show ?thesis using assms(1) set_take_disj_set_drop_if_distinct [of xs "j * n" "j * n"] by blast
qed

section \<open>What Docker documents\<close>

text \<open>The container a command runs under a name, or removes; the labels that \<^verbatim>\<open>docker run\<close> reads from its flags.\<close>

definition run_target :: "string list \<Rightarrow> string option" where
  "run_target args = (case args of x # y # z # n # rest \<Rightarrow> if [x, y, z] = [''run'', ''--detach'', ''--name''] then Some n else None | _ \<Rightarrow> None)"

definition rm_target :: "string list \<Rightarrow> string option" where
  "rm_target args = (case args of [x, y, n] \<Rightarrow> if [x, y] = [''rm'', ''--force''] then Some n else None | _ \<Rightarrow> None)"

definition switches :: "string list" where
  "switches = [''run'', ''--detach'', ''--privileged'', ''--rm'', ''--read-only'']"

definition options :: "string list" where
  "options = [''--name'', ''--hostname'', ''--log-driver'', ''--log-opt'', ''--cpuset-cpus'', ''--cpus'', ''--memory'', ''--env'', ''--mount'',
     ''--pull'', ''--entrypoint'', ''--network'', ''--user'', ''--cap-drop'', ''--cap-add'']"

fun run_labels :: "string list \<Rightarrow> (string \<times> string) list" where
  "run_labels [] = []"
| "run_labels [x] = []"
| "run_labels (x # y # rest) =
     (if x = ''--label''
      then (case strings_Cut (CHR ''='') y of Some kv \<Rightarrow> kv | None \<Rightarrow> (y, [])) # run_labels rest
      else if x \<in> set options then run_labels rest
      else if x \<in> set switches then run_labels (y # rest)
      else [])"

definition quiet :: "('w \<Rightarrow> 'h) \<Rightarrow> ('w \<Rightarrow> 'a \<times> 'w) \<Rightarrow> bool" where
  "quiet held f \<longleftrightarrow> (\<forall>w. held (snd (f w)) = held w)"

text \<open>
  \<open>held w\<close> is the labels of the container named \<open>name\<close>, if there is one.  A command that neither runs a
  container of this name nor removes it leaves it; the name can be run once; a removal that succeeds
  removes it; a failed one or a failed run may have done so; an inspection that answers tells the truth.
\<close>

definition run_done :: "string list \<Rightarrow> string option \<Rightarrow> (string \<rightharpoonup> string) option \<Rightarrow> (string \<rightharpoonup> string) option \<Rightarrow> bool" where
  "run_done args err before after \<longleftrightarrow>
     (if err = None then before = None \<and> after = Some (map_of (run_labels args))
      else after = before \<or> (before = None \<and> after = Some (map_of (run_labels args))))"

definition rm_done :: "string option \<Rightarrow> (string \<rightharpoonup> string) option \<Rightarrow> (string \<rightharpoonup> string) option \<Rightarrow> bool" where
  "rm_done err before after \<longleftrightarrow> after = None \<or> (err \<noteq> None \<and> after = before)"

definition inspect_true :: "docker_answer \<Rightarrow> (string \<rightharpoonup> string) option \<Rightarrow> bool" where
  "inspect_true answer held \<longleftrightarrow>
     (case answer of
        (out, None) \<Rightarrow> (\<forall>c. do_Containers out = Some [c] \<longrightarrow> held = Some (map_of (ct_Labels c)))
      | (out, Some msg) \<Rightarrow> notFound msg \<longrightarrow> held = None)"

definition docker_spec :: "'w agent \<Rightarrow> string \<Rightarrow> ('w \<Rightarrow> (string \<rightharpoonup> string) option) \<Rightarrow> bool" where
  "docker_spec a name held \<longleftrightarrow>
     (\<forall>env args w answer w'. ag_Docker a env args w = (answer, w') \<longrightarrow>
        (if run_target args = Some name then run_done args (snd answer) (held w) (held w')
         else if rm_target args = Some name then rm_done (snd answer) (held w) (held w')
         else held w' = held w)
        \<and> (args = [''inspect'', ''--type'', ''container'', name] \<or> args = [''inspect'', name] \<longrightarrow> inspect_true answer (held w)))
     \<and> (\<forall>f. ag_FreeBytes a = Some f \<longrightarrow> (\<forall>path. quiet held (f path)))
     \<and> (\<forall>f. ag_Lock a = Some f \<longrightarrow> (\<forall>n. quiet held (f n))) \<and> (\<forall>n. quiet held (ag_Unlock a n))
     \<and> (\<forall>f. ag_CachesFilled a = Some f \<longrightarrow> quiet held f) \<and> (\<forall>f. ag_PurgeWorkspaces a = Some f \<longrightarrow> quiet held f)
     \<and> quiet held (ag_Now a) \<and> (\<forall>path. quiet held (ag_ReadDir a path)) \<and> (\<forall>x y. quiet held (ag_Rename a x y))
     \<and> (\<forall>path. quiet held (ag_Mkdir a path)) \<and> (\<forall>path. quiet held (ag_MkdirAll a path)) \<and> quiet held (ag_RandText a)
     \<and> quiet held (ag_PurgeTicks a)"

section \<open>Commands that leave the container\<close>

abbreviation holding :: "('w \<Rightarrow> 'h) \<Rightarrow> 'h \<Rightarrow> 'w agentSys \<Rightarrow> bool" where
  "holding held h \<equiv> \<lambda>s. held (sy_world s) = h"

lemma agent_do_keeps: "quiet held f \<Longrightarrow> keeps (holding held h) (agent_do ev f)"
  by (auto simp: quiet_def agent_do_def split: prod.splits intro!: keepsI) (metis snd_conv)

lemma agent_read_keeps: "quiet held f \<Longrightarrow> keeps (holding held h) (agent_read f)"
  by (simp add: agent_read_def agent_do_keeps)

lemma docker_keeps:
  "docker_spec a name held \<Longrightarrow> run_target args \<noteq> Some name \<Longrightarrow> rm_target args \<noteq> Some name \<Longrightarrow> keeps (holding held h) (docker a env args)"
  unfolding docker_def by (rule agent_do_keeps) (auto simp: docker_spec_def quiet_def, metis surjective_pairing)

lemmas quiet_keeps = docker_keeps agent_read_keeps agent_do_keeps keeps_rules

lemmas targets = run_target_def rm_target_def

lemma spec_quiet:
  assumes "docker_spec a name held"
  shows "ag_FreeBytes a = Some f \<Longrightarrow> quiet held (f path)" "ag_Lock a = Some g \<Longrightarrow> quiet held (g n)" "quiet held (ag_Unlock a n)"
    "ag_CachesFilled a = Some b \<Longrightarrow> quiet held b" "ag_PurgeWorkspaces a = Some u \<Longrightarrow> quiet held u"
    "quiet held (ag_Now a)" "quiet held (ag_ReadDir a path)" "quiet held (ag_Rename a x y)" "quiet held (ag_Mkdir a path)"
    "quiet held (ag_MkdirAll a path)" "quiet held (ag_RandText a)" "quiet held (ag_PurgeTicks a)"
  using assms by (simp_all add: docker_spec_def)

lemma other_commands:
  "run_target (''image'' # xs) = None" "rm_target (''image'' # xs) = None" "run_target (''inspect'' # xs) = None" "rm_target (''inspect'' # xs) = None"
  "run_target (''volume'' # xs) = None" "rm_target (''volume'' # xs) = None" "run_target (''wait'' # xs) = None" "rm_target (''wait'' # xs) = None"
  "run_target (''ps'' # xs) = None" "rm_target (''ps'' # xs) = None" "run_target (''run'' # ''--rm'' # xs) = None" "rm_target (''run'' # xs) = None"
  by (auto simp: targets split: list.splits)

text \<open>The parts of the verbs that do not touch the slot's container.\<close>

named_theorems idle \<open>computations that leave the container\<close>

lemma docker_idle [idle]:
  "docker_spec a name held \<Longrightarrow> run_target args \<noteq> Some name \<and> rm_target args \<noteq> Some name \<Longrightarrow> keeps (holding held h) (docker a env args)"
  by (simp add: docker_keeps)

lemma env_idle [idle]:
  assumes "docker_spec a name held"
  shows "keeps (holding held h) (agent_read (ag_Now a))" "keeps (holding held h) (agent_read (ag_ReadDir a path))"
    "keeps (holding held h) (rename_dir a x y)" "keeps (holding held h) (agent_do ev (ag_Mkdir a path))"
    "keeps (holding held h) (agent_read (ag_MkdirAll a path))" "keeps (holding held h) (agent_read (ag_RandText a))"
    "keeps (holding held h) (agent_read (ag_PurgeTicks a))" "keeps (holding held h) (agent_read (ag_Unlock a n))"
  using spec_quiet [OF assms] by (auto simp: rename_dir_def intro: agent_read_keeps agent_do_keeps)

lemma imagePresent_idle [idle]: "docker_spec a name held \<Longrightarrow> keeps (holding held h) (imagePresent a)"
  unfolding imagePresent_def by (intro keeps_rules idle) (simp_all add: other_commands)

lemma cachesFilled_idle [idle]: "docker_spec a name held \<Longrightarrow> keeps (holding held h) (cachesFilled a)"
  by (auto simp: cachesFilled_def intro: agent_read_keeps spec_quiet keeps_rules split: option.splits)

lemma inspectContainer_idle [idle]: "docker_spec a name held \<Longrightarrow> keeps (holding held h) (inspectContainer a n)"
  unfolding inspectContainer_def by (intro keeps_rules idle) (simp_all add: other_commands)

lemma slotByName_idle [idle]: "docker_spec a name held \<Longrightarrow> keeps (holding held h) (slotByName a n)"
  unfolding slotByName_def by (intro keeps_rules idle) (simp_all add: other_commands)

lemma agent_slots_idle [idle]: "docker_spec a name held \<Longrightarrow> keeps (holding held h) (agent_slots a)"
  unfolding agent_slots_def by (intro keeps_rules idle) (simp_all add: other_commands)

lemma purgeWorkspaces_idle [idle]: "docker_spec a name held \<Longrightarrow> keeps (holding held h) (purgeWorkspaces a)"
  unfolding purgeWorkspaces_def
  by (cases "ag_PurgeWorkspaces a") (auto simp: purgeArgs_def other_commands intro!: keeps_rules idle agent_read_keeps spec_quiet)

lemma retire_names_idle [idle]: "docker_spec a name held \<Longrightarrow> keeps (holding held h) (retire_names a dir names n)"
  by (induction names arbitrary: n) (auto intro!: keeps_rules idle)

lemma retireWorkspaces_idle [idle]: "docker_spec a name held \<Longrightarrow> keeps (holding held h) (retireWorkspaces a dir pre)"
  unfolding retireWorkspaces_def by (intro keeps_rules idle)

lemma discardWorkspaces_idle [idle]: "docker_spec a name held \<Longrightarrow> keeps (holding held h) (discardWorkspaces a slot)"
  unfolding discardWorkspaces_def by (intro keeps_rules idle)

lemma prepareWorkspace_idle [idle]: "docker_spec a name held \<Longrightarrow> keeps (holding held h) (prepareWorkspace a slot leaseID)"
  unfolding prepareWorkspace_def by (intro keeps_rules idle)

lemma agent_freeBytes_idle [idle]: "docker_spec a name held \<Longrightarrow> keeps (holding held h) (agent_freeBytes a)"
  unfolding agent_freeBytes_def
  by (cases "ag_FreeBytes a") (auto simp: Let_def intro!: keeps_rules agent_read_keeps spec_quiet)

lemma retiredWorkspacesLeft_idle [idle]: "docker_spec a name held \<Longrightarrow> keeps (holding held h) (retiredWorkspacesLeft a dir)"
  unfolding retiredWorkspacesLeft_def by (intro keeps_rules idle)

lemma await_polls_idle [idle]: "docker_spec a name held \<Longrightarrow> keeps (holding held h) (await_polls a required over n free)"
  by (induction n arbitrary: free) (auto intro!: keeps_rules idle)

lemma awaitPurge_idle [idle]: "docker_spec a name held \<Longrightarrow> keeps (holding held h) (awaitPurge a required free)"
  unfolding awaitPurge_def by (intro keeps_rules idle)

lemma ensureDisk_idle [idle]: "docker_spec a name held \<Longrightarrow> keeps (holding held h) (ensureDisk a slot)"
  unfolding ensureDisk_def by (intro keeps_rules idle) (simp_all add: other_commands)

lemma awaitExit_idle [idle]: "docker_spec a name held \<Longrightarrow> keeps (holding held h) (awaitExit a n)"
  unfolding awaitExit_def by (intro keeps_rules idle) (simp_all add: other_commands)

lemma info_idle [idle]: "docker_spec a name held \<Longrightarrow> keeps (holding held h) (info a)"
  unfolding info_def by (intro keeps_rules idle)

lemma agent_list_idle [idle]: "docker_spec a name held \<Longrightarrow> keeps (holding held h) (agent_list a)"
  unfolding agent_list_def by (intro keeps_rules idle)

section \<open>The labels of a run\<close>

definition image_ok :: "'w agent \<Rightarrow> bool" where
  "image_ok a \<longleftrightarrow> agent_image a \<noteq> [] \<and> is_alnum (hd (agent_image a))"

lemma safeImage_ok: "safeImage (hc_Image (ag_Config a)) \<Longrightarrow> ag_LocalImage a = [] \<Longrightarrow> image_ok a"
  by (auto simp: image_ok_def agent_image_def safeImage_def safe_token_def split: list.splits)

lemma run_target_runArgs: "run_target (runArgs a slot r ws) = Some (containerName slot)"
  by (simp add: run_target_def runArgs_def)

lemma run_labels_option: "x \<in> set options \<Longrightarrow> run_labels (x # y # rest) = run_labels rest"
  by (auto simp: options_def)

lemma run_labels_switch: "x \<in> set switches \<Longrightarrow> run_labels (x # y # rest) = run_labels (y # rest)"
  by (auto simp: switches_def options_def)

lemma run_labels_volumes: "run_labels (volume_args vs @ rest) = run_labels rest"
  by (induction vs) (auto simp: volume_args_def options_def)

lemma run_labels_label:
  "CHR ''='' \<notin> set key \<Longrightarrow> run_labels (''--label'' # (key @ ''='' @ v) # rest) = (key, v) # run_labels rest"
  using cut_at_block [of "CHR ''=''" key v] by simp

lemma run_labels_labels:
  "list_all (\<lambda>(key, v). CHR ''='' \<notin> set key) kvs \<Longrightarrow>
     run_labels (concat (map (\<lambda>(key, v). [''--label'', key @ ''='' @ v]) kvs) @ rest) = kvs @ run_labels rest"
proof (induction kvs)
  case (Cons kv kvs)
  obtain key v where kv: "kv = (key, v)" by (cases kv)
  show ?case
    using Cons run_labels_label [of key v "concat (map (\<lambda>(key, v). [''--label'', key @ ''='' @ v]) kvs) @ rest"]
    by (simp del: run_labels.simps add: kv)
qed simp

lemma run_labels_image: "image_ok a \<Longrightarrow> run_labels [agent_image a, ''--'', y] = []"
  by (auto simp: image_ok_def options_def switches_def is_alnum_def is_alpha_def is_digit_def)

lemma label_args_keys: "list_all (\<lambda>(key, v). CHR ''='' \<notin> set key) (label_args slot r)"
  by (simp add: label_args_def labelSlot_def labelController_def labelLease_def labelRunnerName_def labelRunnerID_def labelScaleSetID_def labelImage_def)

lemma in_options:
  "''--name'' \<in> set options" "''--hostname'' \<in> set options" "''--log-driver'' \<in> set options" "''--log-opt'' \<in> set options"
  "''--cpuset-cpus'' \<in> set options" "''--cpus'' \<in> set options" "''--memory'' \<in> set options" "''--env'' \<in> set options"
  "''--mount'' \<in> set options" "''--pull'' \<in> set options" "''--entrypoint'' \<in> set options"
  by (simp_all add: options_def)

lemma in_switches: "''run'' \<in> set switches" "''--detach'' \<in> set switches" "''--privileged'' \<in> set switches"
  by (simp_all add: switches_def)

text \<open>The flags of a run after its labels name none.\<close>

lemma run_labels_tail:
  assumes "image_ok a"
  shows "run_labels
    ([''--log-driver'', ''json-file'', ''--log-opt'', ''max-size=20m'', ''--log-opt'', ''max-file=2'']
     @ (if slotCPUSet a slot \<noteq> [] then [''--cpuset-cpus'', slotCPUSet a slot]
        else if hc_SlotCPUs (ag_Config a) > 0 then [''--cpus'', ag_FormatFloat a (hc_SlotCPUs (ag_Config a))] else [])
     @ (if hc_SlotMemoryMB (ag_Config a) > 0 then [''--memory'', itoa (hc_SlotMemoryMB (ag_Config a)) @ ''m''] else [])
     @ [''--env'', e1, ''--env'', e2, ''--env'', e3, ''--env'', e4] @ volume_args vs
     @ (if workspace \<noteq> [] then [''--mount'', m] else [])
     @ [''--pull'', ''never'', ''--entrypoint'', ''/usr/bin/dumb-init'', agent_image a, ''--'', slotEntrypoint]) = []"
  using run_labels_image [OF assms]
  by (simp del: run_labels.simps add: run_labels_option run_labels_volumes in_options)

lemma run_labels_runArgs:
  assumes "image_ok a"
  shows "run_labels (runArgs a slot r ws) = label_args slot r"
proof -
  have "run_labels (runArgs a slot r ws) =
    run_labels (''run'' # ''--detach'' # ''--name'' # containerName slot # ''--hostname'' # sq_RunnerName r # ''--privileged'' #
      (concat (map (\<lambda>(key, v). [''--label'', key @ ''='' @ v]) (label_args slot r)) @ drop 21 (runArgs a slot r ws)))"
    by (simp add: runArgs_def label_args_def)
  also have "\<dots> = run_labels (concat (map (\<lambda>(key, v). [''--label'', key @ ''='' @ v]) (label_args slot r)) @ drop 21 (runArgs a slot r ws))"
    by (simp del: run_labels.simps add: label_args_def run_labels_option run_labels_switch in_options in_switches)
  also have "\<dots> = label_args slot r @ run_labels (drop 21 (runArgs a slot r ws))"
    by (rule run_labels_labels [OF label_args_keys])
  also have "run_labels (drop 21 (runArgs a slot r ws)) = []"
    unfolding runArgs_def by (simp del: run_labels.simps add: label_args_def run_labels_tail [OF assms, simplified])
  finally show ?thesis by simp
qed

section \<open>What the answers tell\<close>

abbreviation among :: "('w \<Rightarrow> 'h) \<Rightarrow> 'h set \<Rightarrow> 'w agentSys \<Rightarrow> bool" where
  "among held H \<equiv> \<lambda>s. held (sy_world s) \<in> H"

lemma keeps_among: "(\<And>h. keeps (holding held h) m) \<Longrightarrow> keeps (among held H) m"
  by (rule keepsI) (metis (mono_tags, lifting) keepsD)

lemma hoare_idle:
  "keeps (holding held h) m \<Longrightarrow> (\<And>x. hoare (holding held h) (f x) Q) \<Longrightarrow> hoare (holding held h) (State_Monad.bind m f) Q"
  unfolding keeps_def by (rule hoare_bind)

lemma docker_triple:
  assumes "\<And>w answer w'. ag_Docker a env args w = (answer, w') \<Longrightarrow> held w = h \<Longrightarrow> R answer (held w')"
  shows "hoare (holding held h) (docker a env args) (\<lambda>answer s. R answer (held (sy_world s)))"
  using assms by (auto simp: docker_def agent_do_def intro!: hoareI split: prod.splits)

lemma spec_docker:
  assumes "docker_spec a name held" and "ag_Docker a env args w = (answer, w')"
  shows "run_target args = Some name \<Longrightarrow> run_done args (snd answer) (held w) (held w')"
    "run_target args = None \<Longrightarrow> rm_target args = Some name \<Longrightarrow> rm_done (snd answer) (held w) (held w')"
    "run_target args = None \<Longrightarrow> rm_target args = None \<Longrightarrow> held w' = held w"
    "args = [''inspect'', ''--type'', ''container'', name] \<or> args = [''inspect'', name] \<Longrightarrow> inspect_true answer (held w)"
proof -
  have "(if run_target args = Some name then run_done args (snd answer) (held w) (held w')
         else if rm_target args = Some name then rm_done (snd answer) (held w) (held w')
         else held w' = held w)
        \<and> (args = [''inspect'', ''--type'', ''container'', name] \<or> args = [''inspect'', name] \<longrightarrow> inspect_true answer (held w))"
    using assms unfolding docker_spec_def by blast
  then show "run_target args = Some name \<Longrightarrow> run_done args (snd answer) (held w) (held w')"
    "run_target args = None \<Longrightarrow> rm_target args = Some name \<Longrightarrow> rm_done (snd answer) (held w) (held w')"
    "run_target args = None \<Longrightarrow> rm_target args = None \<Longrightarrow> held w' = held w"
    "args = [''inspect'', ''--type'', ''container'', name] \<or> args = [''inspect'', name] \<Longrightarrow> inspect_true answer (held w)"
    by simp_all
qed

lemma inspectContainer_triple:
  assumes "docker_spec a name held"
  shows "hoare (holding held h) (inspectContainer a name) (\<lambda>found s. held (sy_world s) = h
    \<and> (\<forall>x. found = Inr x \<longrightarrow> h = map_option (\<lambda>c. map_of (ct_Labels c)) x))"
  unfolding inspectContainer_def
proof (rule hoare_bind [OF docker_triple [where R = "\<lambda>answer h'. h' = h \<and> inspect_true answer h"]])
  show "held w' = h \<and> inspect_true answer h"
    if "ag_Docker a [] [''inspect'', ''--type'', ''container'', name] w = (answer, w')" "held w = h" for w answer w'
    using spec_docker(3,4) [OF assms that(1)] that(2) by (simp add: other_commands)
qed (auto simp: inspect_true_def intro!: hoare_rules split: option.splits if_splits list.splits)

lemma slotByName_triple:
  assumes "docker_spec a name held"
  shows "hoare (holding held h) (slotByName a name) (\<lambda>found s. held (sy_world s) = h
    \<and> (\<forall>x. found = Inr x \<longrightarrow> (\<exists>c. h = Some (map_of (ct_Labels c)) \<and> toSlot c = Some x)))"
  unfolding slotByName_def
proof (rule hoare_bind [OF docker_triple [where R = "\<lambda>answer h'. h' = h \<and> inspect_true answer h"]])
  show "held w' = h \<and> inspect_true answer h" if "ag_Docker a [] [''inspect'', name] w = (answer, w')" "held w = h" for w answer w'
    using spec_docker(3,4) [OF assms that(1)] that(2) by (simp add: other_commands)
qed (auto simp: inspect_true_def intro!: hoare_rules split: option.splits if_splits list.splits)

lemma rm_triple:
  assumes "docker_spec a name held"
  shows "hoare (holding held h) (docker a [] [''rm'', ''--force'', name]) (\<lambda>answer s. rm_done (snd answer) h (held (sy_world s)))"
proof (rule docker_triple)
  fix w answer w'
  assume "ag_Docker a [] [''rm'', ''--force'', name] w = (answer, w')" "held w = h"
  then show "rm_done (snd answer) h (held w')" using spec_docker(2) [OF assms, of "[]" "[''rm'', ''--force'', name]" w answer w'] by (simp add: targets)
qed

lemma run_triple:
  assumes "docker_spec a (containerName slot) held" and "image_ok a"
  shows "hoare (holding held h) (docker a env (runArgs a slot r ws)) (\<lambda>answer s.
    if snd answer = None then h = None \<and> held (sy_world s) = Some (map_of (label_args slot r))
    else held (sy_world s) = h \<or> (h = None \<and> held (sy_world s) = Some (map_of (label_args slot r))))"
proof (rule docker_triple)
  fix w answer w'
  assume "ag_Docker a env (runArgs a slot r ws) w = (answer, w')" "held w = h"
  then have "run_done (runArgs a slot r ws) (snd answer) h (held w')"
    using spec_docker(1) [OF assms(1), of env "runArgs a slot r ws" w answer w'] by (simp add: run_target_runArgs)
  then show "if snd answer = None then h = None \<and> held w' = Some (map_of (label_args slot r))
    else held w' = h \<or> (h = None \<and> held w' = Some (map_of (label_args slot r)))"
    unfolding run_done_def run_labels_runArgs [OF assms(2)] .
qed

text \<open>The lease among labels; what a start and a removal leave and answer, from what was held before.\<close>

definition lease_in :: "(string \<rightharpoonup> string) \<Rightarrow> string" where
  "lease_in m = (case m labelLease of Some v \<Rightarrow> v | None \<Rightarrow> [])"

definition runs_request :: "int \<Rightarrow> startRequest \<Rightarrow> slot \<Rightarrow> bool" where
  "runs_request slot r s \<longleftrightarrow>
     sl_Index s = slot \<and> sl_ControllerID s = sq_ControllerID r \<and> sl_LeaseID s = sq_LeaseID r \<and> sl_RunnerName s = sq_RunnerName r
     \<and> sl_RunnerID s = sq_RunnerID r \<and> sl_RunnerScaleSetID s = sq_RunnerScaleSetID r"

definition start_told :: "int \<Rightarrow> startRequest \<Rightarrow> reply \<Rightarrow> (string \<rightharpoonup> string) option \<Rightarrow> (string \<rightharpoonup> string) option \<Rightarrow> bool" where
  "start_told slot r answer before after \<longleftrightarrow>
     (after = before \<or> (before = None \<and> after = Some (map_of (label_args slot r))))
     \<and> (case answer of
          Inr res \<Rightarrow> before = None \<and> after = Some (map_of (label_args slot r)) \<and> (\<exists>s. res = ResSlot s \<and> runs_request slot r s)
        | Inl (code, msg) \<Rightarrow> code = CodeDockerFailed \<or> after = before)"

definition remove_told :: "string \<Rightarrow> reply \<Rightarrow> (string \<rightharpoonup> string) option \<Rightarrow> (string \<rightharpoonup> string) option \<Rightarrow> bool" where
  "remove_told leaseID answer before after \<longleftrightarrow>
     (after = before \<or> (after = None \<and> (\<exists>m. before = Some m \<and> lease_in m = leaseID)))
     \<and> (case answer of
          Inr res \<Rightarrow> after = None
        | Inl (code, msg) \<Rightarrow> code = CodeLeaseMismatch \<longrightarrow> (\<exists>m. after = Some m \<and> lease_in m \<noteq> leaseID))"

lemma label_lease: "label c labelLease = lease_in (map_of (ct_Labels c))"
  by (simp add: label_def lease_in_def)

lemma toSlot_runs:
  assumes "map_of (ct_Labels c) = map_of (label_args slot r)" and "toSlot c = Some s" and "0 \<le> slot" "slot \<le> maxInt64"
    and "0 \<le> sq_RunnerID r" "sq_RunnerID r \<le> maxInt64" "0 \<le> sq_RunnerScaleSetID r" "sq_RunnerScaleSetID r \<le> maxInt64"
  shows "runs_request slot r s"
proof -
  have "label c labelSlot = itoa slot" "label c labelController = sq_ControllerID r" "label c labelLease = sq_LeaseID r"
    "label c labelRunnerName = sq_RunnerName r" "label c labelRunnerID = itoa (sq_RunnerID r)" "label c labelScaleSetID = itoa (sq_RunnerScaleSetID r)"
    by (simp_all add: label_def assms(1) label_args_def labelSlot_def labelController_def labelLease_def labelRunnerName_def labelRunnerID_def
        labelScaleSetID_def labelImage_def)
  then show ?thesis
    using assms(2-) strconv_Atoi_itoa [of slot] Atoi_parse_int [OF strconv_Atoi_itoa, of "sq_RunnerID r"]
      Atoi_parse_int [OF strconv_Atoi_itoa, of "sq_RunnerScaleSetID r"]
    by (auto simp: toSlot_def runs_request_def split: option.splits if_splits)
qed

definition request_fits :: "int \<Rightarrow> startRequest \<Rightarrow> bool" where
  "request_fits slot r \<longleftrightarrow> 0 \<le> slot \<and> slot \<le> maxInt64 \<and> sq_RunnerID r \<le> maxInt64 \<and> sq_RunnerScaleSetID r \<le> maxInt64"

lemma run_slot_triple:
  assumes spec: "docker_spec a (containerName slot) held" and img: "image_ok a" and "request_fits slot r"
    and "0 \<le> sq_RunnerID r" "0 \<le> sq_RunnerScaleSetID r"
  shows "hoare (holding held None) (run_slot a slot r ws) (\<lambda>answer s. start_told slot r answer None (held (sy_world s)))"
proof -
  define L where "L = Some (map_of (label_args slot r))"
  have fits: "0 \<le> slot" "slot \<le> maxInt64" "sq_RunnerID r \<le> maxInt64" "sq_RunnerScaleSetID r \<le> maxInt64"
    using assms(3) by (auto simp: request_fits_def)
  have started: "hoare (holding held L) (State_Monad.bind (slotByName a (containerName slot)) (\<lambda>started. State_Monad.return
      (case started of Inl msg \<Rightarrow> refuse CodeDockerFailed (''inspect started slot: '' @ msg) | Inr s \<Rightarrow> succeed (ResSlot s))))
    (\<lambda>answer s. start_told slot r answer None (held (sy_world s)))"
    using toSlot_runs [OF _ _ fits(1,2) assms(4) fits(3) assms(5) fits(4)]
    by (intro hoare_bind [OF slotByName_triple [OF spec]] hoare_rules)
      (auto simp: start_told_def refuse_def succeed_def L_def split: sum.splits)
  have failed: "hoare (among held {None, L}) (State_Monad.bind (inspectContainer a (containerName slot)) (\<lambda>found.
      State_Monad.bind (case found of
         Inr (Some c) \<Rightarrow> if label c labelLease = sq_LeaseID r
           then State_Monad.bind (docker a [] [''rm'', ''--force'', containerName slot]) (\<lambda>_. State_Monad.return ()) else State_Monad.return ()
       | _ \<Rightarrow> State_Monad.return ()) (\<lambda>_. State_Monad.return (refuse CodeDockerFailed msg))))
    (\<lambda>answer s. start_told slot r answer None (held (sy_world s)))" for msg
  proof -
    have rm: "keeps (among held {None, L}) (docker a [] [''rm'', ''--force'', containerName slot])"
      using hoareD [OF rm_triple [OF spec]] by (intro keepsI) (fastforce simp: rm_done_def)
    have clean: "keeps (among held {None, L}) (case found of
         Inr (Some c) \<Rightarrow> if label c labelLease = sq_LeaseID r
           then State_Monad.bind (docker a [] [''rm'', ''--force'', containerName slot]) (\<lambda>_. State_Monad.return ()) else State_Monad.return ()
       | _ \<Rightarrow> State_Monad.return ())" for found
      by (intro keeps_rules rm)
    show ?thesis
      by (rule hoare_bind [OF keeps_among [OF inspectContainer_idle [OF spec], unfolded keeps_def]],
          rule hoare_bind [OF clean [unfolded keeps_def]], rule hoare_return)
        (auto simp: start_told_def refuse_def L_def)
  qed
  show ?thesis
    unfolding run_slot_def Let_def
  proof (rule hoare_bind [OF run_triple [OF spec img]], clarify)
    fix out err
    show "hoare (\<lambda>s. if snd (out, err) = None then None = None \<and> held (sy_world s) = Some (map_of (label_args slot r))
        else held (sy_world s) = None \<or> (None = None \<and> held (sy_world s) = Some (map_of (label_args slot r))))
      (case err of
         Some msg \<Rightarrow> State_Monad.bind (inspectContainer a (containerName slot)) (\<lambda>found.
           State_Monad.bind (case found of
              Inr (Some c) \<Rightarrow> if label c labelLease = sq_LeaseID r
                then State_Monad.bind (docker a [] [''rm'', ''--force'', containerName slot]) (\<lambda>_. State_Monad.return ()) else State_Monad.return ()
            | _ \<Rightarrow> State_Monad.return ()) (\<lambda>_. State_Monad.return (refuse CodeDockerFailed (''docker run: '' @ msg))))
       | None \<Rightarrow> State_Monad.bind (slotByName a (containerName slot)) (\<lambda>started. State_Monad.return
           (case started of Inl msg \<Rightarrow> refuse CodeDockerFailed (''inspect started slot: '' @ msg) | Inr s \<Rightarrow> succeed (ResSlot s))))
      (\<lambda>answer s. start_told slot r answer None (held (sy_world s)))"
      by (cases err) (auto intro: hoare_weaken [OF started] hoare_weaken [OF failed] simp: L_def)
  qed
qed

lemma start_refused: "start_told slot r (refuse code msg) before before"
  by (simp add: start_told_def refuse_def)

lemma ensureDisk_triple:
  assumes "docker_spec a name held"
  shows "hoare (holding held h) (ensureDisk a slot)
    (\<lambda>refused s. held (sy_world s) = h \<and> (\<forall>x. refused = Some x \<longrightarrow> (\<exists>code msg. x = refuse code msg)))"
proof (rule hoareI)
  fix s x s'
  assume s: "holding held h s" "run_state (ensureDisk a slot) s = (x, s')"
  have "\<forall>y. x = Some y \<longrightarrow> (\<exists>code msg. y = refuse code msg)"
    using s(2) by (auto simp: ensureDisk_def Let_def split: if_splits prod.splits sum.splits option.splits)
  then show "held (sy_world s') = h \<and> (\<forall>y. x = Some y \<longrightarrow> (\<exists>code msg. y = refuse code msg))"
    using keepsD [OF ensureDisk_idle [OF assms] s] by simp
qed

lemma claim_slot_triple:
  assumes spec: "docker_spec a (containerName slot) held" and "image_ok a" and "request_fits slot r"
    and "0 \<le> sq_RunnerID r" "0 \<le> sq_RunnerScaleSetID r"
  shows "hoare (holding held None) (claim_slot a slot r) (\<lambda>answer s. start_told slot r answer None (held (sy_world s)))"
  unfolding claim_slot_def
proof (rule hoare_bind [OF ensureDisk_triple [OF spec]])
  note run = run_slot_triple [OF assms]
  have work: "hoare (holding held None) (State_Monad.bind (prepareWorkspace a slot (sq_LeaseID r)) (\<lambda>workspace.
      case workspace of Inl err \<Rightarrow> State_Monad.return (refuse CodeNotReady ''prepare work directory'') | Inr path \<Rightarrow> run_slot a slot r path))
    (\<lambda>answer s. start_told slot r answer None (held (sy_world s)))"
    by (intro hoare_idle [OF prepareWorkspace_idle [OF spec]] hoare_sum hoare_return run) (simp add: start_refused)
  fix refused
  show "hoare (\<lambda>s. held (sy_world s) = None \<and> (\<forall>x. refused = Some x \<longrightarrow> (\<exists>code msg. x = refuse code msg)))
    (case refused of Some answer \<Rightarrow> State_Monad.return answer
     | None \<Rightarrow> if ag_WorkRoot a = [] then run_slot a slot r []
         else State_Monad.bind (prepareWorkspace a slot (sq_LeaseID r)) (\<lambda>workspace.
           case workspace of Inl err \<Rightarrow> State_Monad.return (refuse CodeNotReady ''prepare work directory'') | Inr path \<Rightarrow> run_slot a slot r path))
    (\<lambda>answer s. start_told slot r answer None (held (sy_world s)))"
    by (cases refused) (auto simp: start_refused intro: hoare_weaken [OF run] hoare_weaken [OF work] hoare_return)
qed

lemma prepare_slot_triple:
  assumes spec: "docker_spec a (containerName slot) held" and "image_ok a" and "request_fits slot r"
    and "0 \<le> sq_RunnerID r" "0 \<le> sq_RunnerScaleSetID r"
  shows "hoare (holding held None) (prepare_slot a slot r) (\<lambda>answer s. start_told slot r answer None (held (sy_world s)))"
  unfolding prepare_slot_def
  by (intro hoare_idle [OF imagePresent_idle [OF spec]] hoare_idle [OF cachesFilled_idle [OF spec]] hoare_if hoare_return claim_slot_triple [OF assms])
    (simp_all add: start_refused)

lemma agent_start_triple:
  assumes spec: "docker_spec a (containerName slot) held" and img: "image_ok a" and "si_Request input = Some r" and fits: "request_fits slot r"
  shows "hoare (holding held h) (agent_start a slot input) (\<lambda>answer s. start_told slot r answer h (held (sy_world s)))"
proof -
  have found: "hoare (holding held h) (State_Monad.bind (inspectContainer a (containerName slot)) (\<lambda>found.
      case found of
        Inl msg \<Rightarrow> State_Monad.return (refuse CodeDockerFailed msg)
      | Inr (Some c) \<Rightarrow> State_Monad.return (refuse CodeSlotBusy ''slot already holds a container'')
      | Inr None \<Rightarrow> prepare_slot a slot r)) (\<lambda>answer s. start_told slot r answer h (held (sy_world s)))"
    if "agent_validate now r = None" for now
  proof -
    have "0 \<le> sq_RunnerID r" "0 \<le> sq_RunnerScaleSetID r" using that by (auto simp: agent_validate_def split: if_splits)
    note prepare = prepare_slot_triple [OF spec img fits this]
    show ?thesis
      by (rule hoare_bind [OF inspectContainer_triple [OF spec]], intro hoare_sum hoare_option hoare_known)
        (auto simp: start_refused intro: hoare_return prepare)
  qed
  show ?thesis
    unfolding agent_start_def assms(3)
    by (auto simp: start_refused intro!: hoare_return hoare_option hoare_idle [OF env_idle(1) [OF spec]] found)
qed

lemma discard_removed_triple:
  assumes "docker_spec a name held"
  shows "hoare (holding held None) (discard_removed a slot found)
    (\<lambda>answer s. held (sy_world s) = None \<and> (\<forall>code msg. answer = Inl (code, msg) \<longrightarrow> code = CodeDockerFailed))"
  unfolding discard_removed_def
  by (intro hoare_idle [OF discardWorkspaces_idle [OF assms]] hoare_return) (auto simp: refuse_def succeed_def split: option.splits)

lemma codes_differ: "CodeDockerFailed \<noteq> CodeLeaseMismatch" "CodeLeaseMismatch \<noteq> CodeDockerFailed"
  by (simp_all add: CodeDockerFailed_def CodeLeaseMismatch_def)

lemma agent_remove_triple:
  assumes spec: "docker_spec a (containerName slot) held"
  shows "hoare (holding held h) (agent_remove a slot leaseID) (\<lambda>answer s. remove_told leaseID answer h (held (sy_world s)))"
  unfolding agent_remove_def Let_def
proof (rule hoare_bind [OF inspectContainer_triple [OF spec]])
  fix found :: "string + container option"
  let ?P = "\<lambda>s. held (sy_world s) = h \<and> (\<forall>x. found = Inr x \<longrightarrow> h = map_option (\<lambda>c. map_of (ct_Labels c)) x)"
  let ?Q = "\<lambda>answer s. remove_told leaseID answer h (held (sy_world s))"
  show "hoare ?P (case found of
       Inl msg \<Rightarrow> State_Monad.return (refuse CodeDockerFailed msg)
     | Inr None \<Rightarrow> discard_removed a slot False
     | Inr (Some c) \<Rightarrow>
         if label c labelLease \<noteq> leaseID then State_Monad.return (refuse CodeLeaseMismatch ''slot holds another lease'')
         else State_Monad.bind (if ct_Status c = ''running'' then awaitExit a (containerName slot) else State_Monad.return ()) (\<lambda>_.
              State_Monad.bind (docker a [] [''rm'', ''--force'', containerName slot]) (\<lambda>(out, err).
              case err of
                Some msg \<Rightarrow> State_Monad.return (refuse CodeDockerFailed (''docker rm: '' @ msg))
              | None \<Rightarrow> discard_removed a slot True))) ?Q"
  proof (cases found)
    case (Inl msg)
    then show ?thesis by (auto simp: remove_told_def refuse_def codes_differ intro!: hoare_return)
  next
    case (Inr x)
    show ?thesis
    proof (cases x)
      case None
      have "hoare (\<lambda>s. holding held h s \<and> h = None) (discard_removed a slot False) ?Q"
        by (intro hoare_known, rule hoare_weaken [OF discard_removed_triple [OF spec]])
          (auto simp: remove_told_def codes_differ split: sum.splits)
      then show ?thesis using Inr None by simp
    next
      case (Some c)
      have remove: "hoare (holding held h) (State_Monad.bind (docker a [] [''rm'', ''--force'', containerName slot]) (\<lambda>(out, err).
          case err of Some msg \<Rightarrow> State_Monad.return (refuse CodeDockerFailed (''docker rm: '' @ msg)) | None \<Rightarrow> discard_removed a slot True)) ?Q"
        if "h = Some (map_of (ct_Labels c))" "label c labelLease = leaseID"
        using that
        by (intro hoare_bind [OF rm_triple [OF spec]] hoare_prod hoare_option)
          (auto simp: remove_told_def rm_done_def refuse_def codes_differ label_lease
             intro!: hoare_return hoare_weaken [OF discard_removed_triple [OF spec]] split: sum.splits)
      have "hoare (\<lambda>s. holding held h s \<and> h = Some (map_of (ct_Labels c)))
        (if label c labelLease \<noteq> leaseID then State_Monad.return (refuse CodeLeaseMismatch ''slot holds another lease'')
         else State_Monad.bind (if ct_Status c = ''running'' then awaitExit a (containerName slot) else State_Monad.return ()) (\<lambda>_.
           State_Monad.bind (docker a [] [''rm'', ''--force'', containerName slot]) (\<lambda>(out, err).
           case err of Some msg \<Rightarrow> State_Monad.return (refuse CodeDockerFailed (''docker rm: '' @ msg)) | None \<Rightarrow> discard_removed a slot True))) ?Q"
        by (intro hoare_known hoare_if hoare_idle [OF keeps_if [OF awaitExit_idle [OF spec] keeps_return] remove] hoare_return)
          (simp_all add: remove_told_def refuse_def label_lease)
      then show ?thesis using Inr Some by simp
    qed
  qed
qed

section \<open>An example host\<close>

text \<open>A host whose world is its containers, by name with their labels.\<close>

type_synonym simple_host = "(string \<times> (string \<times> string) list) list"

definition simple_answer :: "string \<Rightarrow> simple_host \<Rightarrow> docker_answer" where
  "simple_answer n w =
     (case map_of w n of
        Some labels \<Rightarrow> (\<lparr>do_Text = [], do_Containers = Some [\<lparr>ct_Name = n, ct_Created = 1, ct_Status = ''running'', ct_Labels = labels\<rparr>]\<rparr>, None)
      | None \<Rightarrow> (\<lparr>do_Text = [], do_Containers = None\<rparr>, Some ''No such container''))"

definition simple_docker :: "string list \<Rightarrow> string list \<Rightarrow> simple_host \<Rightarrow> docker_answer \<times> simple_host" where
  "simple_docker env args w =
     (case run_target args of
        Some n \<Rightarrow>
          if map_of w n = None then ((\<lparr>do_Text = [], do_Containers = None\<rparr>, None), (n, run_labels args) # w)
          else ((\<lparr>do_Text = [], do_Containers = None\<rparr>, Some ''Conflict''), w)
      | None \<Rightarrow>
          (case rm_target args of
             Some n \<Rightarrow> ((\<lparr>do_Text = [], do_Containers = None\<rparr>, None), filter (\<lambda>(k, v). k \<noteq> n) w)
           | None \<Rightarrow>
               (if args \<noteq> [] \<and> hd args = ''inspect'' then simple_answer (last args) w else (\<lparr>do_Text = [], do_Containers = None\<rparr>, None), w)))"

definition example_config :: hostConfig where
  "example_config = \<lparr>hc_Slots = 2, hc_Image = ''runner'', hc_SlotCPUs = 2, hc_SlotMemoryMB = 0, hc_Caches = [''/opt/a''], hc_MinFreeDiskGB = 0,
     hc_DockerRoot = []\<rparr>"

definition example_agent :: "simple_host agent" where
  "example_agent =
     \<lparr>ag_Config = example_config, ag_LocalImage = [], ag_ConfigErr = None, ag_CPUs = [0, 1, 2, 3], ag_WorkRoot = [], ag_Version = [],
      ag_Docker = simple_docker, ag_FreeBytes = None, ag_Lock = None, ag_Unlock = (\<lambda>n w. ((), w)), ag_CachesFilled = None,
      ag_PurgeWorkspaces = None, ag_Now = Pair 100, ag_ReadDir = (\<lambda>path. Pair (Inr None)), ag_Rename = (\<lambda>x y. Pair None),
      ag_Mkdir = (\<lambda>path. Pair None), ag_MkdirAll = (\<lambda>path. Pair None), ag_RandText = Pair ''x'', ag_PurgeTicks = Pair (0, True),
      ag_FormatFloat = (\<lambda>x. ''2'')\<rparr>"

definition example_held :: "string \<Rightarrow> simple_host \<Rightarrow> (string \<rightharpoonup> string) option" where
  "example_held name w = map_option map_of (map_of w name)"

lemma simple_no_such: "notFound ''No such container''" "\<not> notFound ''Conflict''"
  by code_simp+

lemma map_of_other: "map_of (filter (\<lambda>(k, v). k \<noteq> n) w) m = (if m = n then None else map_of w m)"
  by (induction w) auto

lemma simple_inspect: "simple_answer name w = answer \<Longrightarrow> inspect_true answer (example_held name w)"
  by (auto simp: simple_answer_def inspect_true_def example_held_def split: option.splits)

lemma run_not_rm: "run_target args = Some n \<Longrightarrow> rm_target args = None"
  by (auto simp: targets split: list.splits if_splits)

lemma example_spec: "docker_spec example_agent name (example_held name)"
proof -
  have law: "(if run_target args = Some name then run_done args (snd answer) (example_held name w) (example_held name w')
         else if rm_target args = Some name then rm_done (snd answer) (example_held name w) (example_held name w')
         else example_held name w' = example_held name w)
        \<and> (args = [''inspect'', ''--type'', ''container'', name] \<or> args = [''inspect'', name] \<longrightarrow> inspect_true answer (example_held name w))"
    if "simple_docker env args w = (answer, w')" for env args w answer w'
  proof (intro conjI impI)
    show "if run_target args = Some name then run_done args (snd answer) (example_held name w) (example_held name w')
         else if rm_target args = Some name then rm_done (snd answer) (example_held name w) (example_held name w')
         else example_held name w' = example_held name w"
      using that
      by (auto simp: simple_docker_def run_done_def rm_done_def example_held_def map_of_other run_not_rm split: option.splits if_splits)
    assume "args = [''inspect'', ''--type'', ''container'', name] \<or> args = [''inspect'', name]"
    then show "inspect_true answer (example_held name w)"
      using that by (auto simp: simple_docker_def other_commands intro: simple_inspect)
  qed
  have docker: "ag_Docker example_agent = simple_docker" by (simp add: example_agent_def)
  show ?thesis
    unfolding docker_spec_def docker
    by (intro conjI, intro allI impI, erule law) (simp_all add: quiet_def example_agent_def)
qed

lemma example_image_ok: "image_ok example_agent"
  by (simp add: image_ok_def agent_image_def example_agent_def example_config_def is_alnum_def is_alpha_def)

definition example_request :: startRequest where
  "example_request = \<lparr>sq_Image = ''runner'', sq_ControllerID = ''c1'', sq_LeaseID = ''lease1'', sq_RunnerName = ''runner1'', sq_RunnerID = 7,
     sq_RunnerScaleSetID = 9, sq_JITConfig = ''abc'', sq_Deadline = 200, sq_IdleTimeoutSeconds = 60\<rparr>"

section \<open>The promises of a host\<close>

text \<open>
  No two slots of a host share a Docker volume, and no two paths of a slot do: for a configuration the
  agent accepts, the names of all the volumes it ever mounts, over all slots, are distinct.  So what one
  job leaves in a cache is seen only by later jobs of the same slot.
\<close>

theorem volumes_private:
  assumes "host_Validate (ag_Config a) = None"
  shows "distinct (map fst (concat (map (volumes a) [0..hc_Slots (ag_Config a) - 1])))"
proof -
  have caches: "distinct (map cacheVolumeSuffix (hc_Caches (ag_Config a)))" using host_Validate_caches [OF assms] by simp
  have "distinct (map fst (concat (map (volumes a) slots)))" if "distinct slots" "\<forall>n \<in> set slots. 0 \<le> n" for slots
    using that
  proof (induction slots)
    case (Cons n slots)
    have "set (map fst (volumes a n)) \<inter> set (map fst (concat (map (volumes a) slots))) = {}"
    proof (rule ccontr)
      assume "\<not> ?thesis"
      then obtain m where "m \<in> set slots" "set (map fst (volumes a n)) \<inter> set (map fst (volumes a m)) \<noteq> {}" by auto
      then show False using volumes_disjoint [of n m a] Cons.prems by auto
    qed
    then show ?case using Cons volumes_distinct [OF caches, of n] by simp
  qed simp
  from this [of "[0..hc_Slots (ag_Config a) - 1]"] show ?thesis by simp
qed

theorem volumes_private_witness:
  "host_Validate example_config = None \<and> distinct (map fst (concat (map (volumes example_agent) [0..1])))"
proof -
  have "host_Validate example_config = None" by code_simp
  then show ?thesis using volumes_private [of example_agent] by (simp add: example_agent_def example_config_def)
qed

text \<open>
  A slot that is pinned to cores has them for itself: with the CPUs the host lists as online, each
  slot of a host that pins its slots gets exactly the configured number of cores, and no core is in two
  slots.
\<close>

theorem cores_private:
  assumes "ag_CPUs a = OnlineCPUs contents" and "slot_cores a i \<noteq> []" and "slot_cores a j \<noteq> []" and "i \<noteq> j"
  shows "set (slot_cores a i) \<inter> set (slot_cores a j) = {} \<and> of_nat (length (slot_cores a i)) = hc_SlotCPUs (ag_Config a)"
proof -
  define n where "n = trunc_rat (hc_SlotCPUs (ag_Config a))"
  have slot: "0 \<le> k" "k < hc_Slots (ag_Config a)" "1 \<le> n" "of_int n = hc_SlotCPUs (ag_Config a)" "hc_Slots (ag_Config a) * n \<le> int (length (ag_CPUs a))"
    "slot_cores a k = take (nat n) (drop (nat k * nat n) (ag_CPUs a))"
    if "slot_cores a k \<noteq> []" for k
    using that by (auto simp: slot_cores_def n_def Let_def nat_mult_distrib split: if_splits)
  have room: "nat k * nat n + nat n \<le> length (ag_CPUs a)" if "slot_cores a k \<noteq> []" for k
  proof -
    have "(k + 1) * n \<le> hc_Slots (ag_Config a) * n" using slot(2,3) [OF that] by (intro mult_right_mono) auto
    then have "(k + 1) * n \<le> int (length (ag_CPUs a))" using slot(5) [OF that] by linarith
    then have "nat ((k + 1) * n) \<le> length (ag_CPUs a)" by linarith
    then show ?thesis using slot(1,3) [OF that] by (simp add: nat_mult_distrib nat_add_distrib distrib_right)
  qed
  have le: "nat x * nat n + nat n \<le> nat y * nat n" if "x < y" "0 \<le> x" for x y
  proof -
    have "(nat x + 1) * nat n \<le> nat y * nat n" using that by (intro mult_right_mono) auto
    then show ?thesis by simp
  qed
  have disjoint: "set (slot_cores a x) \<inter> set (slot_cores a y) = {}" if "x < y" "slot_cores a x \<noteq> []" "slot_cores a y \<noteq> []" for x y
    using slots_disjoint [OF OnlineCPUs_distinct le [OF that(1) slot(1) [OF that(2)]], of contents] slot(6) [OF that(2)] slot(6) [OF that(3)] assms(1)
    by simp
  have "length (slot_cores a i) = nat n" using room [OF assms(2)] slot(6) [OF assms(2)] by simp
  then have "of_nat (length (slot_cores a i)) = hc_SlotCPUs (ag_Config a)" using slot(3,4) [OF assms(2)] by (metis of_int_of_nat_eq int_nat_eq zle_iff_zadd zero_le_one order_trans)
  moreover have "set (slot_cores a i) \<inter> set (slot_cores a j) = {}"
    using disjoint [of i j] disjoint [of j i] assms(2-4) by (cases "i < j") auto
  ultimately show ?thesis by simp
qed

theorem cores_private_witness:
  "set (slot_cores example_agent 0) \<inter> set (slot_cores example_agent 1) = {} \<and> slot_cores example_agent 1 = [2, 3]"
proof -
  have "ag_CPUs example_agent = OnlineCPUs (Some ''0-3'')" "slot_cores example_agent 0 \<noteq> []" "slot_cores example_agent 1 = [2, 3]" by code_simp+
  then show ?thesis using cores_private [of example_agent "Some ''0-3''" 0 1] by simp
qed

end
