(* ===== verification/Host_Confined.thy ===== *)
theory Host_Confined
  imports Host_Agent_Correct
begin

text \<open>
  A command about a slot stays in that slot: which Docker commands it gives, which directories it renames
  and makes, and where the job's registration secret goes.
\<close>

section \<open>The events of a slot\<close>

definition slot_event :: "'w agent \<Rightarrow> int \<Rightarrow> startRequest option \<Rightarrow> agent_event \<Rightarrow> bool" where
  "slot_event a n r ev \<longleftrightarrow>
     (case ev of
        DockerRun env args answer \<Rightarrow>
          env = []
            \<and> (take 1 args \<in> {[''inspect''], [''image''], [''wait'']} \<or> args = purgeArgs a \<or> args = [''rm'', ''--force'', containerName n]
               \<or> args = [''volume'', ''rm'', ''--force''] @ map fst (volumes a n) @ [retiredWorkVolume n])
          \<or> (\<exists>q ws. r = Some q \<and> env = [''ACTIONS_RUNNER_INPUT_JITCONFIG='' @ sq_JITConfig q] \<and> args = runArgs a n q ws)
      | DirRenamed from to \<Rightarrow>
          (\<exists>name suffix. prefix (slotWorkspacePrefix n) name \<and> from = filepath_Join (ag_WorkRoot a) name
             \<and> to = filepath_Join (ag_WorkRoot a) (retiredWorkspacePrefix @ name @ ''-'' @ suffix))
      | DirMade path \<Rightarrow> (\<exists>q. r = Some q \<and> path = filepath_Join (ag_WorkRoot a) (slotWorkspacePrefix n @ sq_LeaseID q)))"

abbreviation confined :: "'w agent \<Rightarrow> int \<Rightarrow> startRequest option \<Rightarrow> 'w agentSys \<Rightarrow> bool" where
  "confined a n r \<equiv> \<lambda>s. list_all (slot_event a n r) (sy_trace s)"

named_theorems stays \<open>computations whose events are a slot's\<close>

lemma agent_do_stays: "(\<And>x. list_all (slot_event a n r) (ev x)) \<Longrightarrow> keeps (confined a n r) (agent_do ev f)"
  by (auto simp: agent_do_def intro!: keepsI split: prod.splits)

lemma agent_read_stays [stays]: "keeps (confined a n r) (agent_read f)"
  unfolding agent_read_def by (rule agent_do_stays) simp

lemma docker_stays [stays]: "(\<And>answer. slot_event a n r (DockerRun env args answer)) \<Longrightarrow> keeps (confined a n r) (docker a env args)"
  unfolding docker_def by (rule agent_do_stays) simp

lemma read_stays [stays]:
  "keeps (confined a n r) (imagePresent a)" "keeps (confined a n r) (cachesFilled a)" "keeps (confined a n r) (inspectContainer a name)"
  "keeps (confined a n r) (slotByName a name)" "keeps (confined a n r) (awaitExit a name)" "keeps (confined a n r) (purgeWorkspaces a)"
  unfolding imagePresent_def cachesFilled_def inspectContainer_def slotByName_def awaitExit_def purgeWorkspaces_def
  by (intro keeps_rules stays; simp add: slot_event_def)+

lemma retire_names_stays:
  "list_all (prefix (slotWorkspacePrefix n)) names \<Longrightarrow> keeps (confined a n r) (retire_names a (ag_WorkRoot a) names k)"
  by (induction names arbitrary: k)
    (auto simp: rename_dir_def slot_event_def intro!: keeps_rules stays agent_do_stays, blast)

lemma discardWorkspaces_stays [stays]: "keeps (confined a n r) (discardWorkspaces a n)"
  unfolding discardWorkspaces_def retireWorkspaces_def
  by (intro keeps_rules stays retire_names_stays) (auto simp: list_all_iff)

lemma prepareWorkspace_stays [stays]: "keeps (confined a n (Some q)) (prepareWorkspace a n (sq_LeaseID q))"
  unfolding prepareWorkspace_def Let_def
  by (intro keeps_rules stays agent_do_stays) (auto simp: slot_event_def)

lemma disk_stays [stays]:
  "keeps (confined a n r) (agent_freeBytes a)" "keeps (confined a n r) (retiredWorkspacesLeft a dir)"
  unfolding agent_freeBytes_def retiredWorkspacesLeft_def by (intro keeps_rules stays)+

lemma await_polls_stays [stays]: "keeps (confined a n r) (await_polls a required over k free)"
  by (induction k arbitrary: free) (auto intro!: keeps_rules stays)

lemma ensureDisk_stays [stays]: "keeps (confined a n r) (ensureDisk a n)"
  unfolding ensureDisk_def awaitPurge_def Let_def by (intro keeps_rules stays) (simp add: slot_event_def)

lemma run_slot_stays [stays]: "keeps (confined a n (Some q)) (run_slot a n q ws)"
  unfolding run_slot_def Let_def by (intro keeps_rules stays) (auto simp: slot_event_def)

lemma agent_start_stays [stays]: "keeps (confined a n (si_Request input)) (agent_start a n input)"
  unfolding agent_start_def prepare_slot_def claim_slot_def
  by (cases "si_Request input") (auto intro!: keeps_rules stays)

lemma agent_remove_stays [stays]: "keeps (confined a n r) (agent_remove a n leaseID)"
  unfolding agent_remove_def discard_removed_def Let_def by (intro keeps_rules stays) (simp add: slot_event_def)




text \<open>The work directories of two slots do not have the same name.\<close>

lemma workspace_prefixes:
  assumes "prefix (slotWorkspacePrefix n) name" "prefix (slotWorkspacePrefix m) name" "0 \<le> n" "0 \<le> m"
  shows "n = m"
proof -
  obtain xs ys where "name = slotWorkspacePrefix n @ xs" "name = slotWorkspacePrefix m @ ys" using assms(1,2) unfolding prefix_def by blast
  then have "itoa n @ CHR ''-'' # xs = itoa m @ CHR ''-'' # ys" by (simp add: slotWorkspacePrefix_def)
  then show ?thesis using itoa_block_inj [OF assms(3,4), of "CHR ''-''" "CHR ''-''" xs ys] by (simp add: is_digit_def)
qed


section \<open>The promise\<close>



end
