(* ===== verification/Host_Transport.thy ===== *)
theory Host_Transport
  imports Host_Agent_Correct Pool_Model
begin

text \<open>
  The SSH transport from a pool to the agents of its hosts (\<^verbatim>\<open>pool/sshagent.go\<close>): kept connections, one per
  host and pinned key, one session per command, and what the pool makes of the agent's reply.

  Dialling, the handshake with a pinned key, sessions and the commands run in them are the record
  \<open>sshEnv\<close>, functions on an arbitrary world.  Every section under the mutex and every such call is one
  step.  A connection carries, besides what the program keeps, the address and the key its handshake was
  made with.
\<close>

section \<open>Connections\<close>

record sshConn =
  cn_serial :: nat
  cn_identity :: string
  cn_address :: string
  cn_hostKey :: string

record 'w sshSys =
  sh_world :: 'w
  sh_conns :: "sshConn gomap"
  sh_next :: nat

text \<open>A reply as decoded, and how a session that started its command ends.\<close>

record wireReply =
  wr_OK :: bool
  wr_Result :: "agentResult option"
  wr_Error :: "(string \<times> string) option"

datatype sessionEnd = Interrupted goerr | NoReply | Replied wireReply

text \<open>
  \<open>se_validKey\<close> is whether \<^verbatim>\<open>ssh.ParseAuthorizedKey\<close> accepts a key, \<open>se_handshake\<close> the dialling and the
  handshake that accepts this key only; \<open>se_run\<close> starts a command in a session and waits for its end,
  \<open>Inl\<close> when it could not be started; \<open>se_size\<close> is the length of an encoded request.
\<close>

record 'w sshEnv =
  se_validKey :: "string \<Rightarrow> bool"
  se_handshake :: "string \<Rightarrow> string \<Rightarrow> 'w \<Rightarrow> goerr option \<times> 'w"
  se_acquire :: "nat \<Rightarrow> 'w \<Rightarrow> goerr option \<times> 'w"
  se_release :: "nat \<Rightarrow> 'w \<Rightarrow> unit \<times> 'w"
  se_newSession :: "nat \<Rightarrow> 'w \<Rightarrow> goerr option \<times> 'w"
  se_run :: "sshConn \<Rightarrow> string \<Rightarrow> stdin \<Rightarrow> 'w \<Rightarrow> (goerr + sessionEnd) \<times> 'w"
  se_size :: "startRequest \<Rightarrow> int"

definition ssh_outside :: "('w \<Rightarrow> 'a \<times> 'w) \<Rightarrow> ('w sshSys, 'a) prog" where
  "ssh_outside f = atom (\<lambda>s. case f (sh_world s) of (a, w) \<Rightarrow> (a, s\<lparr>sh_world := w\<rparr>))"

definition identity_of :: "host \<Rightarrow> string" where
  "identity_of h = ho_Address h @ ''|'' @ ho_HostKey h"

definition kept_conn :: "host \<Rightarrow> 'w sshSys \<Rightarrow> sshConn option" where
  "kept_conn h s =
     (case map_of (sh_conns s) (ho_ID h) of
        Some c \<Rightarrow> if cn_identity c = identity_of h then Some c else None
      | None \<Rightarrow> None)"

text \<open>The section after the handshake: a connection another call made meanwhile is used, one to another identity replaced.\<close>

definition store_conn :: "host \<Rightarrow> 'w sshSys \<Rightarrow> sshConn \<times> 'w sshSys" where
  "store_conn h s =
     (let c = \<lparr>cn_serial = sh_next s, cn_identity = identity_of h, cn_address = ho_Address h, cn_hostKey = ho_HostKey h\<rparr>;
          s1 = s\<lparr>sh_next := Suc (sh_next s)\<rparr>
      in case kept_conn h s of
           Some existing \<Rightarrow> (existing, s1)
         | None \<Rightarrow> (c, s1\<lparr>sh_conns := AList.update (ho_ID h) c (sh_conns s)\<rparr>))"

definition connect :: "'w sshEnv \<Rightarrow> host \<Rightarrow> ('w sshSys, goerr + sshConn) prog" where
  "connect env h =
     pbind (atom (\<lambda>s. (kept_conn h s, s))) (\<lambda>kept.
     case kept of
       Some c \<Rightarrow> Done (Inr c)
     | None \<Rightarrow>
         if \<not> se_validKey env (ho_HostKey h) then Done (Inl (ErrText ''no valid pinned host key''))
         else pbind (ssh_outside (se_handshake env (ho_Address h) (ho_HostKey h))) (\<lambda>err.
              case err of
                Some e \<Rightarrow> Done (Inl e)
              | None \<Rightarrow> pbind (atom (store_conn h)) (\<lambda>c. Done (Inr c))))"

definition drop_conn :: "string \<Rightarrow> sshConn \<Rightarrow> ('w sshSys, unit) prog" where
  "drop_conn hostID c =
     atom (\<lambda>s. ((), case map_of (sh_conns s) hostID of
        Some current \<Rightarrow> if cn_serial current = cn_serial c then s\<lparr>sh_conns := AList.delete hostID (sh_conns s)\<rparr> else s
      | None \<Rightarrow> s))"

fun session_attempts :: "'w sshEnv \<Rightarrow> host \<Rightarrow> nat \<Rightarrow> goerr \<Rightarrow> ('w sshSys, goerr + sshConn) prog" where
  "session_attempts env h 0 lastErr = Done (Inl lastErr)"
| "session_attempts env h (Suc n) lastErr =
     pbind (connect env h) (\<lambda>r.
     case r of
       Inl err \<Rightarrow> Done (Inl err)
     | Inr c \<Rightarrow>
         pbind (ssh_outside (se_acquire env (cn_serial c))) (\<lambda>err.
         case err of
           Some e \<Rightarrow> Done (Inl e)
         | None \<Rightarrow>
             pbind (ssh_outside (se_newSession env (cn_serial c))) (\<lambda>err.
             case err of
               None \<Rightarrow> Done (Inr c)
             | Some e \<Rightarrow>
                 pseq (ssh_outside (se_release env (cn_serial c))) (pseq (drop_conn (ho_ID h) c) (session_attempts env h n e)))))"

definition session :: "'w sshEnv \<Rightarrow> host \<Rightarrow> ('w sshSys, goerr + sshConn) prog" where
  "session env h = session_attempts env h 2 (ErrText [])"

section \<open>Commands\<close>

text \<open>What a call makes of a session that ended.\<close>

definition call_result :: "string \<Rightarrow> sessionEnd \<Rightarrow> goerr + agentResult option" where
  "call_result hostID over =
     (case over of
        Interrupted err \<Rightarrow> Inl (ErrWrap (''host agent '' @ hostID @ '': interrupted'') err)
      | NoReply \<Rightarrow> Inl (ErrText (''host agent '' @ hostID @ '': returned no reply''))
      | Replied answer \<Rightarrow>
          if \<not> wr_OK answer
          then (case wr_Error answer of
                  None \<Rightarrow> Inl (ErrText (''host agent '' @ hostID @ '': failed without a reason''))
                | Some (code, msg) \<Rightarrow>
                    if code = [] then Inl (ErrText (''host agent '' @ hostID @ '': failed without a reason'')) else Inl (AgentError code msg))
          else Inr (wr_Result answer))"

definition unreachable :: "string \<Rightarrow> goerr \<Rightarrow> goerr" where
  "unreachable hostID err = ErrWrap hostID (ErrJoin [ErrSentinel ErrUnreachable, err])"

definition ssh_call :: "'w sshEnv \<Rightarrow> host \<Rightarrow> string \<Rightarrow> stdin \<Rightarrow> ('w sshSys, goerr + agentResult option) prog" where
  "ssh_call env h command input =
     pbind (session env h) (\<lambda>r.
     case r of
       Inl err \<Rightarrow> Done (Inl (unreachable (ho_ID h) err))
     | Inr c \<Rightarrow>
         pbind (ssh_outside (se_run env c command input)) (\<lambda>ran.
         case ran of
           Inl err \<Rightarrow>
             pseq (drop_conn (ho_ID h) c) (pseq (ssh_outside (se_release env (cn_serial c))) (Done (Inl (unreachable (ho_ID h) err))))
         | Inr over \<Rightarrow> pseq (ssh_outside (se_release env (cn_serial c))) (Done (call_result (ho_ID h) over))))"

definition no_input :: stdin where
  "no_input = \<lparr>si_Failed = False, si_Length = 0, si_Request = None\<rparr>"

definition wrong_reply :: goerr where
  "wrong_reply = ErrText ''decode reply''"

text \<open>The four verbs; an empty result leaves the zero value.\<close>

definition ssh_Info :: "'w sshEnv \<Rightarrow> host \<Rightarrow> ('w sshSys, goerr + hostInfo) prog" where
  "ssh_Info env h =
     pbind (ssh_call env h ''info'' no_input) (\<lambda>r. Done
       (case r of Inl err \<Rightarrow> Inl err | Inr None \<Rightarrow> Inr zeroInfo | Inr (Some (ResInfo i)) \<Rightarrow> Inr i | _ \<Rightarrow> Inl wrong_reply))"

definition ssh_List :: "'w sshEnv \<Rightarrow> host \<Rightarrow> ('w sshSys, goerr + slot list) prog" where
  "ssh_List env h =
     pbind (ssh_call env h ''list'' no_input) (\<lambda>r. Done
       (case r of Inl err \<Rightarrow> Inl err | Inr None \<Rightarrow> Inr [] | Inr (Some (ResSlots ss)) \<Rightarrow> Inr ss | _ \<Rightarrow> Inl wrong_reply))"

definition start_input :: "'w sshEnv \<Rightarrow> startRequest \<Rightarrow> stdin" where
  "start_input env r = \<lparr>si_Failed = False, si_Length = se_size env r, si_Request = Some r\<rparr>"

definition ssh_Start :: "'w sshEnv \<Rightarrow> host \<Rightarrow> int \<Rightarrow> startRequest \<Rightarrow> ('w sshSys, goerr + slot) prog" where
  "ssh_Start env h n r =
     pbind (ssh_call env h (''start '' @ itoa n) (start_input env r)) (\<lambda>x. Done
       (case x of Inl err \<Rightarrow> Inl err | Inr None \<Rightarrow> Inr zeroSlot | Inr (Some (ResSlot s)) \<Rightarrow> Inr s | _ \<Rightarrow> Inl wrong_reply))"

definition bad_lease :: "string \<Rightarrow> bool" where
  "bad_lease leaseID \<longleftrightarrow> leaseID = [] \<or> list_ex (\<lambda>c. c \<in> {CHR '' '', CHR 0x09, CHR 0x0D, CHR 0x0A}) leaseID"

definition ssh_Remove :: "'w sshEnv \<Rightarrow> host \<Rightarrow> int \<Rightarrow> string \<Rightarrow> ('w sshSys, goerr option) prog" where
  "ssh_Remove env h n leaseID =
     (if bad_lease leaseID then Done (Some (ErrText ''invalid lease id''))
      else pbind (ssh_call env h (''remove '' @ itoa n @ '' '' @ leaseID) no_input) (\<lambda>r. Done
        (case r of Inl err \<Rightarrow> Some err | Inr _ \<Rightarrow> None)))"

section \<open>Pinned keys\<close>

text \<open>
  Every kept connection was made with the address and the key its identity names, a key the library
  accepts.
\<close>

definition conns_pinned :: "'w sshEnv \<Rightarrow> 'w sshSys \<Rightarrow> bool" where
  "conns_pinned env s \<longleftrightarrow>
     (\<forall>i c. map_of (sh_conns s) i = Some c \<longrightarrow>
        cn_identity c = cn_address c @ ''|'' @ cn_hostKey c \<and> se_validKey env (cn_hostKey c))"

lemma ssh_outside_pinned: "pkeeps (conns_pinned env) (ssh_outside f)"
  unfolding ssh_outside_def by (rule pkeeps_atom) (simp add: conns_pinned_def case_prod_beta)

lemma drop_conn_pinned: "pkeeps (conns_pinned env) (drop_conn i c)"
  unfolding drop_conn_def by (rule pkeeps_atom) (auto simp: conns_pinned_def delete_conv' split: option.splits if_splits)

lemma store_conn_pinned:
  "conns_pinned env s \<Longrightarrow> se_validKey env (ho_HostKey h) \<Longrightarrow> conns_pinned env (snd (store_conn h s))"
  by (auto simp: conns_pinned_def store_conn_def identity_of_def Let_def update_conv' split: option.splits if_splits)

lemma connect_pinned: "pkeeps (conns_pinned env) (connect env h)"
  unfolding connect_def
  by (intro pkeeps_rules ssh_outside_pinned pkeeps_atom) (auto simp: store_conn_pinned)

lemma session_pinned: "pkeeps (conns_pinned env) (session_attempts env h n e)"
  by (induction n arbitrary: e) (auto intro!: pkeeps_rules ssh_outside_pinned drop_conn_pinned connect_pinned)

lemma ssh_call_pinned: "pkeeps (conns_pinned env) (ssh_call env h command input)"
  unfolding ssh_call_def session_def by (intro pkeeps_rules ssh_outside_pinned drop_conn_pinned session_pinned)

lemma kept_identity: "kept_conn h s = Some c \<Longrightarrow> cn_identity c = identity_of h"
  by (auto simp: kept_conn_def split: option.splits if_splits)

lemma connect_identity: "prun (connect env h) s = (Inr c, s') \<Longrightarrow> cn_identity c = identity_of h"
  by (auto simp: connect_def ssh_outside_def store_conn_def Let_def kept_identity split: option.splits if_splits prod.splits)

lemma session_identity: "prun (session_attempts env h n e) s = (Inr c, s') \<Longrightarrow> cn_identity c = identity_of h"
proof (induction n arbitrary: e s)
  case (Suc n)
  then show ?case
    by (auto simp: ssh_outside_def split: sum.splits option.splits prod.splits dest: connect_identity)
qed simp

definition conn_pinned :: "'w sshEnv \<Rightarrow> sshConn \<Rightarrow> bool" where
  "conn_pinned env c \<longleftrightarrow> cn_identity c = cn_address c @ ''|'' @ cn_hostKey c \<and> se_validKey env (cn_hostKey c)"

lemma conns_pinned_conn: "conns_pinned env s \<Longrightarrow> map_of (sh_conns s) i = Some c \<Longrightarrow> conn_pinned env c"
  by (auto simp: conns_pinned_def conn_pinned_def)

lemma kept_pinned: "conns_pinned env s \<Longrightarrow> kept_conn h s = Some c \<Longrightarrow> conn_pinned env c"
  by (auto simp: kept_conn_def intro: conns_pinned_conn split: option.splits if_splits)

lemma store_pinned: "conns_pinned env s \<Longrightarrow> se_validKey env (ho_HostKey h) \<Longrightarrow> conn_pinned env (fst (store_conn h s))"
  by (auto simp: store_conn_def Let_def conn_pinned_def identity_of_def intro: kept_pinned [unfolded conn_pinned_def]
      dest: kept_pinned [unfolded conn_pinned_def] split: option.splits)

lemma world_pinned: "conns_pinned env (s\<lparr>sh_world := w\<rparr>) = conns_pinned env s"
  by (simp add: conns_pinned_def)

lemma connect_conn_pinned: "conns_pinned env s \<Longrightarrow> prun (connect env h) s = (Inr c, s') \<Longrightarrow> conn_pinned env c"
  by (auto simp: connect_def ssh_outside_def world_pinned case_prod_beta split: option.splits if_splits
      intro: kept_pinned store_pinned dest: arg_cong [where f = fst])

lemma session_conn_pinned: "conns_pinned env s \<Longrightarrow> prun (session_attempts env h n e) s = (Inr c, s') \<Longrightarrow> conn_pinned env c"
proof (induction n arbitrary: e s)
  case (Suc n)
  obtain r s1 where r: "prun (connect env h) s = (r, s1)" by fastforce
  have s1: "conns_pinned env s1" using pkeeps_prun [OF connect_pinned Suc.prems(1), of h] r by simp
  show ?case
  proof (cases r)
    case (Inl e)
    then show ?thesis using Suc.prems r by simp
  next
    case (Inr d)
    have rest: "conns_pinned env (snd (prun (drop_conn (ho_ID h) d) s2))" if "conns_pinned env s2" for s2
      using pkeeps_prun [OF drop_conn_pinned that] .
    show ?thesis
      using Suc.prems(2) r Inr connect_conn_pinned [OF Suc.prems(1), of h d s1] s1 Suc.IH rest
      by (simp add: ssh_outside_def case_prod_beta world_pinned split: option.splits) (metis world_pinned)
  qed
qed simp

end
