(* ===== verification/Host_Link.thy ===== *)
theory Host_Link
  imports Host_Transport
begin

text \<open>
  The pool, the transport and the host agent together: what a pool may conclude about a slot's container
  from the answer to a start or a removal that went over SSH to the agent of the host.
\<close>

section \<open>The commands as the agent reads them\<close>

lemma fields_word: "list_all (\<lambda>c. \<not> is_ascii_space c) s \<Longrightarrow> acc @ s \<noteq> [] \<Longrightarrow> fields_from acc s = [acc @ s]"
  by (induction s arbitrary: acc) auto

lemma fields_block:
  "list_all (\<lambda>c. \<not> is_ascii_space c) s \<Longrightarrow> acc @ s \<noteq> [] \<Longrightarrow> is_ascii_space c \<Longrightarrow>
     fields_from acc (s @ c # rest) = (acc @ s) # fields_from [] rest"
  by (induction s arbitrary: acc) auto

lemma digit_word: "is_digit c \<Longrightarrow> \<not> is_ascii_space c"
  by (auto simp: is_digit_def is_ascii_space_def Let_def)

lemma itoa_word: "0 \<le> n \<Longrightarrow> list_all (\<lambda>c. \<not> is_ascii_space c) (itoa n) \<and> itoa n \<noteq> []"
  using itoa_digits [of n] by (auto simp: list_all_iff digit_word)

lemma start_fields: "0 \<le> n \<Longrightarrow> strings_Fields (''start '' @ itoa n) = [''start'', itoa n]"
  using itoa_word [of n] fields_word [of "itoa n" "[]"] by (simp add: strings_Fields_def is_ascii_space_def)

lemma remove_fields:
  assumes "0 \<le> n" "list_all (\<lambda>c. \<not> is_ascii_space c) leaseID" "leaseID \<noteq> []"
  shows "strings_Fields (''remove '' @ itoa n @ '' '' @ leaseID) = [''remove'', itoa n, leaseID]"
  using itoa_word [OF assms(1)] fields_block [of "itoa n" "[]" "CHR '' ''" leaseID] fields_word [of leaseID "[]"] assms(2,3)
  by (simp add: strings_Fields_def is_ascii_space_def)

lemma slotIndex_Some:
  assumes "slotIndex a (itoa n) = Some k" and "0 \<le> n"
  shows "k = n \<and> n \<le> maxInt64"
proof -
  have "strconv_Atoi (itoa n) = Some k" "0 \<le> k" "itoa k = itoa n"
    using assms(1) by (auto simp: slotIndex_def split: option.splits if_splits)
  moreover from this have "k = n" using itoa_inj [of k n] assms(2) by simp
  ultimately show ?thesis by (auto simp: strconv_Atoi_def Let_def split: prod.splits if_splits)
qed

lemma agent_locked_triple:
  assumes "docker_spec a name held" and "hoare (holding held h) run (\<lambda>answer s. Q answer (held (sy_world s)))"
    and "\<And>msg. Q (refuse CodeDockerFailed msg) h"
  shows "hoare (holding held h) (agent_locked a slot run) (\<lambda>answer s. Q answer (held (sy_world s)))"
proof (cases "ag_Lock a")
  case None
  then show ?thesis using assms(2) by (simp add: agent_locked_def)
next
  case (Some lock)
  have unlock: "hoare (\<lambda>s. Q answer (held (sy_world s))) (State_Monad.bind (agent_read (ag_Unlock a slot)) (\<lambda>_. State_Monad.return answer))
    (\<lambda>answer s. Q answer (held (sy_world s)))" for answer
    using keepsD [OF env_idle(8) [OF assms(1)]] by (fastforce intro!: hoareI split: prod.splits)
  show ?thesis
    unfolding agent_locked_def Some option.case
    by (rule hoare_idle [OF agent_read_keeps [OF spec_quiet(2) [OF assms(1) Some]]], rule hoare_option,
        rule hoare_bind [OF assms(2) unlock], rule hoare_return) (simp add: assms(3))
qed

lemma Handle_start_triple:
  assumes "docker_spec a (containerName n) held" "image_ok a" "0 \<le> n"
    and "si_Request input = Some r \<or> si_Request input = None" "sq_RunnerID r \<le> maxInt64" "sq_RunnerScaleSetID r \<le> maxInt64"
  shows "hoare (holding held h) (Handle a (''start '' @ itoa n) input) (\<lambda>answer s. start_told n r answer h (held (sy_world s)))"
proof -
  have run: "hoare (holding held h) (agent_start a n input) (\<lambda>answer s. start_told n r answer h (held (sy_world s)))" if "n \<le> maxInt64"
  proof (cases "si_Request input")
    case None
    then show ?thesis by (auto simp: agent_start_def start_refused intro!: hoare_return)
  next
    case (Some q)
    then have "si_Request input = Some r" using assms(4) by auto
    then show ?thesis using agent_start_triple [OF assms(1,2)] that assms(3,5,6) by (simp add: request_fits_def)
  qed
  have locked: "hoare (holding held h) (agent_locked a n (agent_start a n input)) (\<lambda>answer s. start_told n r answer h (held (sy_world s)))"
    if "n \<le> maxInt64" by (rule agent_locked_triple [OF assms(1) run [OF that]]) (rule start_refused)
  show ?thesis
    unfolding Handle_def start_fields [OF assms(3)] using locked slotIndex_Some [of a n] assms(3)
    by (auto simp: start_refused intro!: hoare_return split: option.splits)
qed

lemma Handle_remove_triple:
  assumes "docker_spec a (containerName n) held" "0 \<le> n" "leaseID \<noteq> []" "list_all (\<lambda>c. \<not> is_ascii_space c) leaseID"
  shows "hoare (holding held h) (Handle a (''remove '' @ itoa n @ '' '' @ leaseID) input) (\<lambda>answer s. remove_told leaseID answer h (held (sy_world s)))"
proof -
  have other: "remove_told leaseID (refuse code msg) x x" if "code \<noteq> CodeLeaseMismatch" for code msg x
    using that by (simp add: remove_told_def refuse_def)
  have codes: "CodeInvalid \<noteq> CodeLeaseMismatch" "CodeNotReady \<noteq> CodeLeaseMismatch"
    by (simp_all add: CodeInvalid_def CodeNotReady_def CodeLeaseMismatch_def)
  have locked: "hoare (holding held h) (agent_locked a n (agent_remove a n leaseID)) (\<lambda>answer s. remove_told leaseID answer h (held (sy_world s)))"
    by (rule agent_locked_triple [OF assms(1) agent_remove_triple [OF assms(1)]]) (simp add: other codes_differ)
  show ?thesis
    unfolding Handle_def remove_fields [OF assms(2,4,3)] using locked slotIndex_Some [of a n] assms(2)
    by (auto simp: other codes intro!: hoare_return split: option.splits)
qed

section \<open>Over the transport\<close>

text \<open>A reply as the agent encodes it.\<close>

definition wire :: "reply \<Rightarrow> wireReply" where
  "wire answer =
     (case answer of
        Inl e \<Rightarrow> \<lparr>wr_OK = False, wr_Result = None, wr_Error = Some e\<rparr>
      | Inr r \<Rightarrow> \<lparr>wr_OK = True, wr_Result = Some r, wr_Error = None\<rparr>)"

text \<open>
  What the transport relies on of SSH and the host: connecting leaves the container; a command that could
  not be started did not run; one that was started is the agent's, on the request sent or a cut one, and
  a reply that arrives is the agent's; a wait is only interrupted by the end of the context; the
  errors of the library are no refusals of an agent.
\<close>

definition plain :: "goerr \<Rightarrow> bool" where
  "plain e \<longleftrightarrow> errors_As as_agent (Some e) = None"

definition speaks_plain :: "('w \<Rightarrow> goerr option \<times> 'w) \<Rightarrow> bool" where
  "speaks_plain f \<longleftrightarrow> (\<forall>w e. fst (f w) = Some e \<longrightarrow> plain e)"

definition command_ran :: "'w agent \<Rightarrow> ('w \<Rightarrow> 'h) \<Rightarrow> string \<Rightarrow> stdin \<Rightarrow> 'w \<Rightarrow> goerr + sessionEnd \<Rightarrow> 'w \<Rightarrow> bool" where
  "command_ran a held command input w outcome w' \<longleftrightarrow>
     (case outcome of
        Inl err \<Rightarrow> held w' = held w \<and> plain err
      | Inr over \<Rightarrow>
          (\<exists>input' answer s'. (si_Request input' = si_Request input \<or> si_Request input' = None)
             \<and> run_state (Handle a command input') \<lparr>sy_world = w, sy_trace = []\<rparr> = (answer, s') \<and> held w' = held (sy_world s')
             \<and> (case over of Replied answer' \<Rightarrow> answer' = wire answer
                | Interrupted err \<Rightarrow> err \<in> {ErrSentinel ContextCanceled, ErrSentinel ContextDeadlineExceeded} | NoReply \<Rightarrow> True)))"

definition transport_spec :: "'w sshEnv \<Rightarrow> host \<Rightarrow> 'w agent \<Rightarrow> ('w \<Rightarrow> 'h) \<Rightarrow> bool" where
  "transport_spec env host a held \<longleftrightarrow>
     (\<forall>x y. quiet held (se_handshake env x y)) \<and> (\<forall>n. quiet held (se_acquire env n)) \<and> (\<forall>n. quiet held (se_release env n))
     \<and> (\<forall>n. quiet held (se_newSession env n))
     \<and> (\<forall>x y. speaks_plain (se_handshake env x y)) \<and> (\<forall>n. speaks_plain (se_acquire env n)) \<and> (\<forall>n. speaks_plain (se_newSession env n))
     \<and> (\<forall>c command input w. cn_identity c = identity_of host \<longrightarrow>
          command_ran a held command input w (fst (se_run env c command input w)) (snd (se_run env c command input w)))"

definition lost :: "goerr \<Rightarrow> bool" where
  "lost e \<longleftrightarrow> \<not> errors_Is (Some e) ErrUnreachable \<and> errors_As as_agent (Some e) = None"

abbreviation sheld :: "('w \<Rightarrow> 'h) \<Rightarrow> 'h \<Rightarrow> 'w sshSys \<Rightarrow> bool" where
  "sheld held h \<equiv> \<lambda>s. held (sh_world s) = h"

lemma ssh_outside_quiet: "quiet held f \<Longrightarrow> pkeeps (sheld held h) (ssh_outside f)"
  unfolding ssh_outside_def by (rule pkeeps_atom) (simp add: quiet_def case_prod_beta)

lemma drop_conn_quiet: "pkeeps (sheld held h) (drop_conn i c)"
  unfolding drop_conn_def by (rule pkeeps_atom) (auto split: option.splits)

lemma connect_quiet: "transport_spec env host a held \<Longrightarrow> pkeeps (sheld held h) (connect env host)"
  unfolding connect_def
  by (intro pkeeps_rules ssh_outside_quiet pkeeps_atom) (auto simp: transport_spec_def store_conn_def Let_def split: option.splits)

lemma session_quiet: "transport_spec env host a held \<Longrightarrow> pkeeps (sheld held h) (session_attempts env host n e)"
  by (induction n arbitrary: e)
    (auto intro!: pkeeps_rules ssh_outside_quiet drop_conn_quiet connect_quiet simp: transport_spec_def)

lemma connect_plain: "transport_spec env host a held \<Longrightarrow> prun (connect env host) s = (Inl e, s') \<Longrightarrow> plain e"
  by (auto simp: connect_def ssh_outside_def transport_spec_def speaks_plain_def plain_def errors_As_def errors_nodes_def
      split: option.splits if_splits prod.splits) (metis fst_conv)+

lemma session_plain:
  "transport_spec env host a held \<Longrightarrow> plain e \<Longrightarrow> prun (session_attempts env host n e) s = (Inl e', s') \<Longrightarrow> plain e'"
proof (induction n arbitrary: e s)
  case (Suc n)
  have plain: "speaks_plain (se_acquire env k)" "speaks_plain (se_newSession env k)" for k using Suc.prems(1) by (simp_all add: transport_spec_def)
  show ?case
    using Suc.prems(3) Suc.IH [OF Suc.prems(1)] connect_plain [OF Suc.prems(1)] plain
    by (auto simp: ssh_outside_def speaks_plain_def split: sum.splits option.splits prod.splits) (metis fst_conv)+
qed simp

lemma session_triple:
  assumes "transport_spec env host a held"
  shows "hoare (sheld held h) (seq (session env host)) 
    (\<lambda>r s. held (sh_world s) = h \<and> (case r of Inl err \<Rightarrow> plain err | Inr c \<Rightarrow> cn_identity c = identity_of host))"
proof (rule hoareI)
  fix s r s'
  assume s: "sheld held h s" "run_state (seq (session env host)) s = (r, s')"
  have "plain (ErrText [])" by (simp add: plain_def errors_As_def errors_nodes_def)
  then have "case r of Inl err \<Rightarrow> plain err | Inr c \<Rightarrow> cn_identity c = identity_of host"
    using session_plain [OF assms] session_identity s(2) by (fastforce simp: session_def split: sum.splits)
  then show "held (sh_world s') = h \<and> (case r of Inl err \<Rightarrow> plain err | Inr c \<Rightarrow> cn_identity c = identity_of host)"
    using hoareD [OF hoare_pkeeps [OF session_quiet [OF assms, where n = 2 and e = "ErrText []"]] s(1)] s(2) by (simp add: session_def)
qed

lemma ssh_run_triple:
  fixes held :: "'w \<Rightarrow> (string \<rightharpoonup> string) option"
  assumes "transport_spec env host a held" and "cn_identity c = identity_of host"
    and "\<And>input'. si_Request input' = si_Request input \<or> si_Request input' = None \<Longrightarrow>
      hoare (holding held h) (Handle a command input') (\<lambda>answer s. T answer (held (sy_world s)))"
  shows "hoare (sheld held h) (seq (ssh_outside (se_run env c command input))) (\<lambda>outcome s.
    case outcome of
      Inl err \<Rightarrow> held (sh_world s) = h \<and> plain err
    | Inr over \<Rightarrow> (\<exists>answer. T answer (held (sh_world s))
        \<and> (call_result i over = call_result i (Replied (wire answer)) \<or> (\<exists>e. call_result i over = Inl e \<and> lost e))))"
  unfolding ssh_outside_def
proof (rule hoare_atom)
  fix s :: "'w sshSys"
  assume h: "held (sh_world s) = h"
  obtain outcome w' where r: "se_run env c command input (sh_world s) = (outcome, w')" by fastforce
  have outcome: "command_ran a held command input (sh_world s) outcome w'" using assms(1,2) r by (metis fst_conv snd_conv transport_spec_def)
  show "case fst (case se_run env c command input (sh_world s) of (x, w) \<Rightarrow> (x, s\<lparr>sh_world := w\<rparr>)) of
      Inl err \<Rightarrow> held (sh_world (snd (case se_run env c command input (sh_world s) of (x, w) \<Rightarrow> (x, s\<lparr>sh_world := w\<rparr>)))) = h \<and> plain err
    | Inr over \<Rightarrow> (\<exists>answer. T answer (held (sh_world (snd (case se_run env c command input (sh_world s) of (x, w) \<Rightarrow> (x, s\<lparr>sh_world := w\<rparr>)))))
        \<and> (call_result i over = call_result i (Replied (wire answer)) \<or> (\<exists>e. call_result i over = Inl e \<and> lost e)))"
  proof (cases outcome)
    case (Inl err)
    then show ?thesis using outcome r h by (simp add: command_ran_def)
  next
    case (Inr over)
    then obtain input' answer s' where i: "si_Request input' = si_Request input \<or> si_Request input' = None"
        and run: "run_state (Handle a command input') \<lparr>sy_world = sh_world s, sy_trace = []\<rparr> = (answer, s')"
        and w: "held w' = held (sy_world s')"
        and over: "case over of Replied answer' \<Rightarrow> answer' = wire answer
          | Interrupted err \<Rightarrow> err \<in> {ErrSentinel ContextCanceled, ErrSentinel ContextDeadlineExceeded} | NoReply \<Rightarrow> True"
      using outcome unfolding command_ran_def by auto
    have "T answer (held w')" using hoareD [OF assms(3) [OF i] _ run] h w by simp
    moreover have "call_result i over = call_result i (Replied (wire answer)) \<or> (\<exists>e. call_result i over = Inl e \<and> lost e)"
      using over by (cases over) (auto simp: call_result_def lost_def errors_Is_def errors_As_def errors_nodes_def)
    ultimately show ?thesis using r Inr by auto
  qed
qed

lemma hoare_disj: "hoare P m Q \<Longrightarrow> hoare P' m Q \<Longrightarrow> hoare (\<lambda>s. P s \<or> P' s) m Q"
  by (auto simp: hoare_def)

lemma ssh_call_triple:
  fixes held :: "'w \<Rightarrow> (string \<rightharpoonup> string) option"
  assumes spec: "transport_spec env host a held"
    and "\<And>input'. si_Request input' = si_Request input \<or> si_Request input' = None \<Longrightarrow>
      hoare (holding held h) (Handle a command input') (\<lambda>answer s. T answer (held (sy_world s)))"
  shows "hoare (sheld held h) (seq (ssh_call env host command input)) (\<lambda>r s.
    (held (sh_world s) = h \<and> (\<exists>err. r = Inl (unreachable (ho_ID host) err) \<and> plain err))
    \<or> (\<exists>answer. T answer (held (sh_world s)) \<and> (r = call_result (ho_ID host) (Replied (wire answer)) \<or> (\<exists>e. r = Inl e \<and> lost e))))"
    (is "hoare _ _ ?Q")
proof -
  let ?i = "ho_ID host"
  let ?ran = "\<lambda>outcome s. case outcome of Inl err \<Rightarrow> held (sh_world s) = h \<and> plain err
    | Inr over \<Rightarrow> (\<exists>answer. T answer (held (sh_world s))
        \<and> (call_result ?i over = call_result ?i (Replied (wire answer)) \<or> (\<exists>e. call_result ?i over = Inl e \<and> lost e)))"
  have release: "quiet held (se_release env n)" for n using spec by (simp add: transport_spec_def)
  have failed: "hoare (\<lambda>s. sheld held h s \<and> plain err)
      (seq (pseq (drop_conn ?i c) (pseq (ssh_outside (se_release env n)) (Done (Inl (unreachable ?i err)))))) ?Q" for c n err
    by (rule hoare_known, intro hoare_pseq [OF hoare_pkeeps [OF drop_conn_quiet]] hoare_pseq [OF hoare_pkeeps [OF ssh_outside_quiet [OF release]]] hoare_Done) blast
  have ended: "hoare (\<lambda>s. ?ran (Inr over) s) (seq (pseq (ssh_outside (se_release env n)) (Done (call_result ?i over)))) ?Q" for n over
  proof (rule hoare_pseq [OF hoare_pkeeps hoare_Done])
    show "pkeeps (\<lambda>s. ?ran (Inr over) s) (ssh_outside (se_release env n))"
      unfolding ssh_outside_def using release [of n] by (intro pkeeps_atom) (simp add: quiet_def case_prod_beta)
  qed auto
  have run: "hoare (sheld held h) (seq (pbind (ssh_outside (se_run env c command input)) (\<lambda>outcome.
      case outcome of
        Inl err \<Rightarrow> pseq (drop_conn ?i c) (pseq (ssh_outside (se_release env n)) (Done (Inl (unreachable ?i err))))
      | Inr over \<Rightarrow> pseq (ssh_outside (se_release env n)) (Done (call_result ?i over))))) ?Q" if "cn_identity c = identity_of host" for n c
  proof (rule hoare_pbind [OF ssh_run_triple [OF spec that assms(2), where i = ?i]])
    fix outcome
    show "hoare (?ran outcome) (seq (case outcome of
        Inl err \<Rightarrow> pseq (drop_conn ?i c) (pseq (ssh_outside (se_release env n)) (Done (Inl (unreachable ?i err))))
      | Inr over \<Rightarrow> pseq (ssh_outside (se_release env n)) (Done (call_result ?i over)))) ?Q"
      using failed ended by (cases outcome) simp_all
  qed
  show ?thesis
    unfolding ssh_call_def
  proof (rule hoare_pbind [OF session_triple [OF spec]])
    fix r :: "goerr + sshConn"
    show "hoare (\<lambda>s. held (sh_world s) = h \<and> (case r of Inl err \<Rightarrow> plain err | Inr c \<Rightarrow> cn_identity c = identity_of host)) (seq (case r of
        Inl err \<Rightarrow> Done (Inl (unreachable ?i err))
      | Inr c \<Rightarrow> pbind (ssh_outside (se_run env c command input)) (\<lambda>outcome.
          case outcome of
            Inl err \<Rightarrow> pseq (drop_conn ?i c) (pseq (ssh_outside (se_release env (cn_serial c))) (Done (Inl (unreachable ?i err))))
          | Inr over \<Rightarrow> pseq (ssh_outside (se_release env (cn_serial c))) (Done (call_result ?i over))))) ?Q"
      using run by (cases r) (auto intro: hoare_Done hoare_known)
  qed
qed

section \<open>The promises to the pool\<close>

definition not_started_codes :: "string list" where
  "not_started_codes = [CodeSlotBusy, CodeNotReady, CodeImageMismatch, CodeDiskFull, CodeInvalid]"

text \<open>What the pool concludes from a start, and from a removal.\<close>

definition start_tells :: "int \<Rightarrow> startRequest \<Rightarrow> goerr + slot \<Rightarrow> (string \<rightharpoonup> string) option \<Rightarrow> (string \<rightharpoonup> string) option \<Rightarrow> bool" where
  "start_tells n r result before after \<longleftrightarrow>
     (after = before \<or> (before = None \<and> after = Some (map_of (label_args n r))))
     \<and> (case result of
          Inr s \<Rightarrow> before = None \<and> after = Some (map_of (label_args n r)) \<and> runs_request n r s
        | Inl e \<Rightarrow> errors_Is (Some e) ErrUnreachable \<or> list_ex (IsAgentRefusal (Some e)) not_started_codes \<longrightarrow> after = before)"

definition removal_tells :: "string \<Rightarrow> goerr option \<Rightarrow> (string \<rightharpoonup> string) option \<Rightarrow> (string \<rightharpoonup> string) option \<Rightarrow> bool" where
  "removal_tells leaseID result before after \<longleftrightarrow>
     (after = before \<or> (after = None \<and> (\<exists>m. before = Some m \<and> lease_in m = leaseID)))
     \<and> (result = None \<or> IsAgentRefusal result CodeLeaseMismatch \<longrightarrow> \<not> (\<exists>m. after = Some m \<and> lease_in m = leaseID))"

lemma refusal_wire:
  "call_result i (Replied (wire (Inl (code, msg)))) = (if code = [] then Inl (ErrText (''host agent '' @ i @ '': failed without a reason'')) else Inl (AgentError code msg))"
  "call_result i (Replied (wire (Inr res))) = Inr (Some res)"
  by (simp_all add: call_result_def wire_def)

lemma agent_error_refusal: "IsAgentRefusal (Some (AgentError c m)) code \<longleftrightarrow> code = [] \<or> c = code"
  "errors_Is (Some (AgentError c m)) x = False" "errors_Is (Some (ErrText t)) x = False" "IsAgentRefusal (Some (ErrText t)) code = False"
  by (simp_all add: IsAgentRefusal_def errors_As_def errors_nodes_def errors_Is_def)

lemma lost_refusal: "lost e \<Longrightarrow> IsAgentRefusal (Some e) code = False" "lost e \<Longrightarrow> errors_Is (Some e) ErrUnreachable = False"
  by (simp_all add: lost_def IsAgentRefusal_def)

lemma unreachable_is: "errors_Is (Some (unreachable i e)) ErrUnreachable" "plain e \<Longrightarrow> IsAgentRefusal (Some (unreachable i e)) code = False"
  by (auto simp: unreachable_def errors_Is_def errors_nodes_def IsAgentRefusal_def plain_def errors_As_def split: option.splits)

lemma start_told_tells:
  assumes "start_told n r answer before after"
    and "x = call_result i (Replied (wire answer)) \<or> (\<exists>e. x = Inl e \<and> lost e)"
  shows "start_tells n r (case x of Inl err \<Rightarrow> Inl err | Inr None \<Rightarrow> Inr zeroSlot | Inr (Some (ResSlot s)) \<Rightarrow> Inr s | _ \<Rightarrow> Inl wrong_reply) before after"
proof (cases answer)
  case (Inl refusal)
  have "CodeDockerFailed \<notin> set not_started_codes" "[] \<notin> set not_started_codes"
    by (simp_all add: not_started_codes_def CodeDockerFailed_def CodeSlotBusy_def CodeNotReady_def CodeImageMismatch_def CodeDiskFull_def CodeInvalid_def)
  then show ?thesis
    using assms Inl
    by (cases refusal) (auto simp: start_told_def start_tells_def refusal_wire agent_error_refusal list_ex_iff lost_refusal split: if_splits)
next
  case (Inr res)
  then show ?thesis
    using assms by (auto simp: start_told_def start_tells_def refusal_wire list_ex_iff lost_refusal)
qed

lemma remove_told_tells:
  assumes "remove_told leaseID answer before after"
    and "x = call_result i (Replied (wire answer)) \<or> (\<exists>e. x = Inl e \<and> lost e)"
  shows "removal_tells leaseID (case x of Inl err \<Rightarrow> Some err | Inr _ \<Rightarrow> None) before after"
proof -
  have "CodeLeaseMismatch \<noteq> []" by (simp add: CodeLeaseMismatch_def)
  then show ?thesis
    using assms
    by (cases answer) (auto simp: remove_told_def removal_tells_def refusal_wire agent_error_refusal lost_refusal split: if_splits)
qed

lemma ssh_Start_triple:
  assumes "docker_spec a (containerName n) held" "transport_spec env host a held" "image_ok a" "0 \<le> n"
    "sq_RunnerID r \<le> maxInt64" "sq_RunnerScaleSetID r \<le> maxInt64"
  shows "hoare (sheld held h) (seq (ssh_Start env host n r)) (\<lambda>result s. start_tells n r result h (held (sh_world s)))"
  unfolding ssh_Start_def
proof (rule hoare_pbind [OF ssh_call_triple [OF assms(2), where T = "\<lambda>answer h'. start_told n r answer h h'"]])
  show "hoare (holding held h) (Handle a (''start '' @ itoa n) input') (\<lambda>answer s. start_told n r answer h (held (sy_world s)))"
    if "si_Request input' = si_Request (start_input env r) \<or> si_Request input' = None" for input'
    by (rule Handle_start_triple [OF assms(1,3,4)]) (use that assms(5,6) in \<open>auto simp: start_input_def\<close>)
  fix x
  show "hoare (\<lambda>s. sheld held h s \<and> (\<exists>err. x = Inl (unreachable (ho_ID host) err) \<and> plain err) \<or>
      (\<exists>answer. start_told n r answer h (held (sh_world s)) \<and> (x = call_result (ho_ID host) (Replied (wire answer)) \<or> (\<exists>e. x = Inl e \<and> lost e))))
    (seq (Done (case x of Inl err \<Rightarrow> Inl err | Inr None \<Rightarrow> Inr zeroSlot | Inr (Some (ResSlot s)) \<Rightarrow> Inr s | _ \<Rightarrow> Inl wrong_reply)))
    (\<lambda>result s. start_tells n r result h (held (sh_world s)))"
    by (rule hoare_Done) (use start_told_tells in \<open>fastforce simp: start_tells_def unreachable_is\<close>)
qed

lemma alnum_word: "is_alnum c \<or> c \<in> {CHR ''.'', CHR ''_'', CHR ''-''} \<Longrightarrow> \<not> is_ascii_space c"
  by (auto simp: is_alnum_def is_alpha_def is_digit_def is_ascii_space_def Let_def)

lemma safe_lease: "safeLabelValue leaseID \<Longrightarrow> leaseID \<noteq> [] \<and> list_all (\<lambda>c. \<not> is_ascii_space c) leaseID"
  unfolding safeLabelValue_def safe_token_def using alnum_word by (auto simp: list_all_iff split: list.splits)

lemma ssh_Remove_triple:
  assumes "docker_spec a (containerName n) held" "transport_spec env host a held" "0 \<le> n" "safeLabelValue leaseID"
  shows "hoare (sheld held h) (seq (ssh_Remove env host n leaseID)) (\<lambda>result s. removal_tells leaseID result h (held (sh_world s)))"
proof -
  have lease: "leaseID \<noteq> []" "list_all (\<lambda>c. \<not> is_ascii_space c) leaseID" using safe_lease [OF assms(4)] by auto
  have spaces: "is_ascii_space c" if "c \<in> {CHR '' '', CHR 0x09, CHR 0x0D, CHR 0x0A}" for c
    using that by (auto simp: is_ascii_space_def)
  have good: "\<not> bad_lease leaseID"
    using lease spaces unfolding bad_lease_def list_ex_iff list_all_iff by blast
  have call: "hoare (sheld held h) (seq (pbind (ssh_call env host (''remove '' @ itoa n @ '' '' @ leaseID) no_input) (\<lambda>r. Done
      (case r of Inl err \<Rightarrow> Some err | Inr _ \<Rightarrow> None)))) (\<lambda>result s. removal_tells leaseID result h (held (sh_world s)))"
  proof (rule hoare_pbind [OF ssh_call_triple [OF assms(2), where T = "\<lambda>answer h'. remove_told leaseID answer h h'"]])
    fix x
    show "hoare (\<lambda>s. sheld held h s \<and> (\<exists>err. x = Inl (unreachable (ho_ID host) err) \<and> plain err) \<or>
        (\<exists>answer. remove_told leaseID answer h (held (sh_world s)) \<and> (x = call_result (ho_ID host) (Replied (wire answer)) \<or> (\<exists>e. x = Inl e \<and> lost e))))
      (seq (Done (case x of Inl err \<Rightarrow> Some err | Inr _ \<Rightarrow> None))) (\<lambda>result s. removal_tells leaseID result h (held (sh_world s)))"
      by (rule hoare_Done) (use remove_told_tells in \<open>fastforce simp: removal_tells_def unreachable_is\<close>)
  qed (rule Handle_remove_triple [OF assms(1,3) lease])
  then show ?thesis using good by (simp add: ssh_Remove_def)
qed

end
