(* ===== verification/Host_Promise.thy ===== *)
theory Host_Promise
  imports Host_Link Pool_Return Pool_Example
begin

text \<open>
  The contract between a pool and the hosts it uses, across the components: a pool's operation, the SSH
  transport, the agent and Docker.  Each theorem speaks of the container a slot holds before and after,
  \<open>held\<close> being how the world shows it.
\<close>

lemma hoare_prun: "hoare P (seq m) Q \<Longrightarrow> P s \<Longrightarrow> prun m s = (a, s') \<Longrightarrow> Q a s'"
  by (auto simp: hoare_seq_iff dest: spec [where x = s])


section \<open>An example of the whole path\<close>

definition example_run :: "sshConn \<Rightarrow> string \<Rightarrow> stdin \<Rightarrow> simple_host \<Rightarrow> (goerr + sessionEnd) \<times> simple_host" where
  "example_run c command input w =
     (case run_state (Handle example_agent command input) \<lparr>sy_world = w, sy_trace = []\<rparr> of
        (answer, s) \<Rightarrow> (Inr (Replied (wire answer)), sy_world s))"

definition example_ssh :: "simple_host sshEnv" where
  "example_ssh =
     \<lparr>se_validKey = (\<lambda>k. k = ''key''), se_handshake = (\<lambda>x y. Pair None), se_acquire = (\<lambda>n. Pair None), se_release = (\<lambda>n. Pair ()),
      se_newSession = (\<lambda>n. Pair None), se_run = example_run, se_size = (\<lambda>r. 100)\<rparr>"

definition pinned_host :: host where
  "pinned_host = (example_host ''h1'')\<lparr>ho_HostKey := ''key''\<rparr>"

definition example_conns :: "simple_host \<Rightarrow> simple_host sshSys" where
  "example_conns w = \<lparr>sh_world = w, sh_conns = [], sh_next = 0\<rparr>"

lemma example_transport: "transport_spec example_ssh host example_agent (example_held name)"
proof -
  have "command_ran example_agent (example_held name) command input w (fst (example_run c command input w)) (snd (example_run c command input w))"
    for c command input w
    by (auto simp: command_ran_def example_run_def split: prod.splits)
  then show ?thesis
    by (auto simp: transport_spec_def example_ssh_def quiet_def speaks_plain_def)
qed

section \<open>The properties\<close>



text \<open>
  What the answer to a removal tells the pool: only a container that carries this lease is ever
  removed, whatever the answer; and after a success, or a refusal because of another lease, the slot
  holds no container of this lease.
\<close>

theorem removal_answer_tells:
  assumes "docker_spec a (containerName n) held" and "transport_spec env host a held" and "0 \<le> n" and "safeLabelValue leaseID"
    and "prun (ssh_Remove env host n leaseID) s = (result, s')"
  shows "removal_tells leaseID result (held (sh_world s)) (held (sh_world s'))"
  using hoare_prun [OF ssh_Remove_triple [OF assms(1-4)] _ assms(5)] by simp

definition leased_host :: simple_host where
  "leased_host = [(containerName 0, [(labelLease, ''lease1'')])]"

theorem removal_answer_tells_witness:
  "\<exists>s'. prun (ssh_Remove example_ssh pinned_host 0 ''lease1'') (example_conns leased_host) = (None, s')
     \<and> removal_tells ''lease1'' None (Some [labelLease \<mapsto> ''lease1'']) (example_held (containerName 0) (sh_world s'))"
proof -
  obtain result s' where r: "prun (ssh_Remove example_ssh pinned_host 0 ''lease1'') (example_conns leased_host) = (result, s')" by fastforce
  have "fst (prun (ssh_Remove example_ssh pinned_host 0 ''lease1'') (example_conns leased_host)) = None" by code_simp
  moreover have "safeLabelValue ''lease1''" by code_simp
  ultimately show ?thesis
    using removal_answer_tells [OF example_spec example_transport _ _ r] r by (auto simp: example_conns_def example_held_def leased_host_def)
qed

lemma locked_do_world:
  assumes "\<And>w. sh_world (snd (pe_now env w)) = sh_world w"
  shows "hoare (\<lambda>s. P (sh_world (pl_world s))) (seq (locked_do env f)) (\<lambda>_ s. P (sh_world (pl_world s)))"
  unfolding locked_do_def locked_def
  by (rule hoare_atom) (simp add: case_prod_beta assms)

lemma remove_slot_removal:
  assumes "docker_spec a (containerName n) held" "transport_spec senv host a held" "0 \<le> n" "safeLabelValue leaseID"
    and "pe_remove env = (\<lambda>h k l. prun (ssh_Remove senv h k l))" and "\<And>w. sh_world (snd (pe_now env w)) = sh_world w"
  shows "hoare (\<lambda>s. held (sh_world (pl_world s)) = h \<and> \<not> stoppedHost hostID (pl_pool s)) (seq (remove_slot env cfg host hostID n leaseID))
    (\<lambda>result s. (\<exists>answer. removal_tells leaseID answer h (held (sh_world (pl_world s)))
       \<and> (result = None \<longrightarrow> answer = None \<or> IsAgentRefusal answer CodeLeaseMismatch)))" (is "hoare ?P _ ?Q")
proof -
  let ?R = "\<lambda>answer w. removal_tells leaseID answer h (held w)"
  have call: "hoare (\<lambda>s. held (sh_world (pl_world s)) = h) (seq (outside_traced c (pe_remove env host n leaseID)))
    (\<lambda>answer s. ?R answer (sh_world (pl_world s)))" for c
    unfolding outside_traced_def assms(5)
    by (rule hoare_atom) (auto simp: split_beta intro!: hoare_prun [OF ssh_Remove_triple [OF assms(1-4)]])
  have clear: "hoare (\<lambda>s. ?R answer (sh_world (pl_world s))) (seq (pseq (locked_do env f) (Done None))) ?Q"
    if "answer = None \<or> IsAgentRefusal answer CodeLeaseMismatch" for answer f
    by (rule hoare_pseq [OF locked_do_world [where P = "?R answer", OF assms(6)] hoare_Done]) (use that in blast)
  have asked: "hoare (\<lambda>s. held (sh_world (pl_world s)) = h)
    (seq (pbind (outside_traced (CallRemove host n leaseID) (pe_remove env host n leaseID)) (\<lambda>err.
     if err = None \<or> IsAgentRefusal err CodeLeaseMismatch then pseq (locked_do env (cleared hostID n leaseID)) (Done None)
     else if IsAgentRefusal err CodeInvalid then Done (map_option (ErrWrap ''remove slot'') err)
     else Done (map_option (TransientError \<circ> ErrWrap ''remove slot'') err)))) ?Q"
  proof (rule hoare_pbind [OF call])
    fix answer
    show "hoare (\<lambda>s. ?R answer (sh_world (pl_world s)))
      (seq (if answer = None \<or> IsAgentRefusal answer CodeLeaseMismatch then pseq (locked_do env (cleared hostID n leaseID)) (Done None)
       else if IsAgentRefusal answer CodeInvalid then Done (map_option (ErrWrap ''remove slot'') answer)
       else Done (map_option (TransientError \<circ> ErrWrap ''remove slot'') answer))) ?Q"
      using clear by (auto intro!: hoare_Done)
  qed
  show ?thesis
    unfolding remove_slot_def locked_get_def
  proof (rule hoare_pbind [where R = "\<lambda>stopped s. held (sh_world (pl_world s)) = h \<and> \<not> stopped"])
    show "hoare ?P (seq (atom (\<lambda>s. (stoppedHost hostID (pl_pool s), s)))) (\<lambda>stopped s. held (sh_world (pl_world s)) = h \<and> \<not> stopped)"
      by (rule hoare_atom) simp
  qed (rule hoare_known, use asked in simp)
qed

text \<open>
  C9. A worker the pool destroyed is gone from its host: through the pool, the transport, the agent and
  Docker, a removal of a worker on a known host that runs touches no container but one of this
  lease, and when it reports success no container of this lease is left in the slot.
\<close>

theorem destroyed_worker_gone:
  assumes "parseWorkerID workerID = Inr (hostID, n, leaseID)" and "pool_host hostID (pl_pool s) = Some host"
    and "\<not> stoppedHost hostID (pl_pool s)" and "safeLabelValue leaseID" and "0 \<le> n"
    and "docker_spec a (containerName n) held" and "transport_spec senv host a held"
    and "pe_remove env = (\<lambda>h k l. prun (ssh_Remove senv h k l))" and "\<And>w. sh_world (snd (pe_now env w)) = sh_world w"
    and "prun (pool_Destroy env cfg workerID) s = (result, s')"
  shows "(held (sh_world (pl_world s')) = held (sh_world (pl_world s))
      \<or> held (sh_world (pl_world s')) = None \<and> (\<exists>m. held (sh_world (pl_world s)) = Some m \<and> lease_in m = leaseID))
    \<and> (result = None \<longrightarrow> \<not> (\<exists>m. held (sh_world (pl_world s')) = Some m \<and> lease_in m = leaseID))"
proof -
  have "prun (remove_slot env cfg host hostID n leaseID) s = (result, s')"
    using assms(10) by (simp add: pool_Destroy_def assms(1,2) locked_get_def)
  then have "\<exists>answer. removal_tells leaseID answer (held (sh_world (pl_world s))) (held (sh_world (pl_world s')))
       \<and> (result = None \<longrightarrow> answer = None \<or> IsAgentRefusal answer CodeLeaseMismatch)"
    using hoare_prun [OF remove_slot_removal [OF assms(6,7,5,4,8,9)], of s "held (sh_world (pl_world s))" hostID] assms(3) by blast
  then show ?thesis unfolding removal_tells_def by blast
qed

definition example_pool_ssh :: "simple_host sshSys poolEnv" where
  "example_pool_ssh =
     \<lparr>pe_now = Pair 10, pe_wall = Pair 10, pe_sleep = (\<lambda>d. Pair False), pe_done = Pair False,
      pe_list = Pair (Inr [pinned_host]), pe_create = (\<lambda>img. Pair (Inr (example_host ''h2''))),
      pe_delete = (\<lambda>i. Pair None), pe_stop = (\<lambda>i. Pair None), pe_start = (\<lambda>i. Pair None),
      pe_resolve = Pair (Inr ''img''), pe_info = (\<lambda>h. prun (ssh_Info example_ssh h)), pe_slots = (\<lambda>h. prun (ssh_List example_ssh h)),
      pe_startSlot = (\<lambda>h n r. prun (ssh_Start example_ssh h n r)), pe_remove = (\<lambda>h n l. prun (ssh_Remove example_ssh h n l))\<rparr>"

definition linked_sys :: "simple_host sshSys poolSys" where
  "linked_sys =
     \<lparr>pl_pool = example_pool\<lparr>po_hosts := [(''h1'', (example_ready ''h1'')\<lparr>hs_host := pinned_host\<rparr>)]\<rparr>,
      pl_world = example_conns leased_host, pl_calls = [], pl_spawned = []\<rparr>"

theorem destroyed_worker_gone_witness:
  "\<exists>s'. prun (pool_Destroy example_pool_ssh example_cfg ''h1/0/lease1'') linked_sys = (None, s')
     \<and> \<not> (\<exists>m. example_held (containerName 0) (sh_world (pl_world s')) = Some m \<and> lease_in m = ''lease1'')"
proof -
  obtain result s' where r: "prun (pool_Destroy example_pool_ssh example_cfg ''h1/0/lease1'') linked_sys = (result, s')" by fastforce
  have "parseWorkerID ''h1/0/lease1'' = Inr (''h1'', 0, ''lease1'')" "safeLabelValue ''lease1''" "\<not> stoppedHost ''h1'' (pl_pool linked_sys)"
    "pool_host ''h1'' (pl_pool linked_sys) = Some pinned_host"
    "fst (prun (pool_Destroy example_pool_ssh example_cfg ''h1/0/lease1'') linked_sys) = None"
    by code_simp+
  moreover have "pe_remove example_pool_ssh = (\<lambda>h k l. prun (ssh_Remove example_ssh h k l))" "\<And>w. sh_world (snd (pe_now example_pool_ssh w)) = sh_world w"
    by (simp_all add: example_pool_ssh_def)
  ultimately show ?thesis
    using destroyed_worker_gone [OF _ _ _ _ _ example_spec example_transport _ _ r] r by auto
qed



end
