(* ===== verification/Cloud_Api.thy ===== *)
theory Cloud_Api
  imports Retry_Policy Go_Text
begin

text \<open>
  What the cloud adapters share (\<^verbatim>\<open>doJSON\<close>, \<^verbatim>\<open>responseError\<close> and the retried calls of
  \<^verbatim>\<open>providers/hetzner/adapter.go\<close> and \<^verbatim>\<open>providers/fly/adapter.go\<close>): requests to a REST API and what is
  made of the answers.

  The HTTP client, the rate limiter, the timers and the random source are the record \<open>cloud\<close>, functions
  on an arbitrary world.  A URL is identified with its unescaped path segments after the base and its query;
  a body with what is encoded in it or decoded from it, so an answer carries, for each type the program
  decodes, the value and the error of the decoder.  \<open>cs_trace\<close> is a ghost record of the requests and
  their outcomes, in order.
\<close>

section \<open>Requests\<close>

record 'b httpRequest =
  rq_Method :: string
  rq_Path :: "string list"
  rq_Query :: "(string \<times> string) list"
  rq_Body :: "'b option"

record 'r httpResponse =
  rs_Status :: int
  rs_Contents :: "goerr + string"
  rs_Body :: 'r

text \<open>A request that could not be built, one that got no answer, an answer.\<close>

datatype 'r outcome = NotBuilt goerr | NoAnswer goerr | Answered "'r httpResponse"

record ('w, 'b, 'r) cloud =
  cl_http :: "'b httpRequest \<Rightarrow> 'w \<Rightarrow> 'r outcome \<times> 'w"
  cl_wait :: "'w \<Rightarrow> goerr option \<times> 'w"
  cl_sleep :: "duration \<Rightarrow> 'w \<Rightarrow> goerr option \<times> 'w"
  cl_random :: "'w \<Rightarrow> rat \<times> 'w"
  cl_policy :: policy

record ('w, 'b, 'r) cloudSys =
  cs_world :: 'w
  cs_trace :: "('b httpRequest \<times> 'r outcome) list"

definition cloud_do :: "('w \<Rightarrow> 'a \<times> 'w) \<Rightarrow> (('w, 'b, 'r) cloudSys, 'a) state" where
  "cloud_do f = State (\<lambda>s. case f (cs_world s) of (a, w) \<Rightarrow> (a, s\<lparr>cs_world := w\<rparr>))"

definition cloud_send :: "('w, 'b, 'r) cloud \<Rightarrow> 'b httpRequest \<Rightarrow> (('w, 'b, 'r) cloudSys, 'r outcome) state" where
  "cloud_send env req = State (\<lambda>s. case cl_http env req (cs_world s) of
     (out, w) \<Rightarrow> (out, s\<lparr>cs_world := w, cs_trace := cs_trace s @ [(req, out)]\<rparr>))"

definition MethodGet :: string where "MethodGet = ''GET''"
definition MethodPost :: string where "MethodPost = ''POST''"
definition MethodDelete :: string where "MethodDelete = ''DELETE''"

definition plain_request :: "string \<Rightarrow> string list \<Rightarrow> 'b httpRequest" where
  "plain_request method path = \<lparr>rq_Method = method, rq_Path = path, rq_Query = [], rq_Body = None\<rparr>"

definition good_status :: "int \<Rightarrow> bool" where
  "good_status status \<longleftrightarrow> \<not> (status < 200 \<or> status \<ge> 300)"

text \<open>
  \<^verbatim>\<open>doJSON\<close>: \<open>classify\<close> is the provider's \<^verbatim>\<open>responseError\<close>, \<open>target\<close> what the body decodes to, \<open>zero\<close>
  the target before.
\<close>

definition json_result :: "('r httpResponse \<Rightarrow> goerr) \<Rightarrow> ('r \<Rightarrow> 'v \<times> goerr option) \<Rightarrow> 'v \<Rightarrow> 'r outcome \<Rightarrow> 'v \<times> goerr option" where
  "json_result classify target zero out =
     (case out of
        NotBuilt e \<Rightarrow> (zero, Some (ErrWrap ''build request'' e))
      | NoAnswer e \<Rightarrow> (zero, ClassifyRequestError (Some e))
      | Answered r \<Rightarrow>
          if \<not> good_status (rs_Status r) then (zero, Some (classify r))
          else if rs_Status r = 204 then (zero, None)
          else (case target (rs_Body r) of (v, err) \<Rightarrow> (v, map_option (ErrWrap ''decode response'') err)))"

definition doJSON :: "('w, 'b, 'r) cloud \<Rightarrow> ('r httpResponse \<Rightarrow> goerr) \<Rightarrow> 'b httpRequest \<Rightarrow> ('r \<Rightarrow> 'v \<times> goerr option) \<Rightarrow> 'v
    \<Rightarrow> (('w, 'b, 'r) cloudSys, 'v \<times> goerr option) state" where
  "doJSON env classify req target zero =
     do { out \<leftarrow> cloud_send env req; State_Monad.return (json_result classify target zero out) }"

text \<open>The target \<^verbatim>\<open>nil\<close>.\<close>

definition nil_target :: "'r \<Rightarrow> unit \<times> goerr option" where
  "nil_target r = ((), None)"

section \<open>Encodings\<close>

text \<open>\<^verbatim>\<open>base64.StdEncoding\<close>, \<^verbatim>\<open>hex.EncodeToString\<close>, \<^verbatim>\<open>net.JoinHostPort\<close> and \<^verbatim>\<open>strings.TrimRight\<close> of one byte.\<close>

definition base64_char :: "nat \<Rightarrow> char" where
  "base64_char n = ''ABCDEFGHIJKLMNOPQRSTUVWXYZabcdefghijklmnopqrstuvwxyz0123456789+/'' ! n"

fun base64_encode :: "string \<Rightarrow> string" where
  "base64_encode [] = []"
| "base64_encode [a] =
     (let x = of_char a :: nat in [base64_char (x div 4), base64_char (x mod 4 * 16), CHR ''='', CHR ''=''])"
| "base64_encode [a, b] =
     (let x = of_char a :: nat; y = of_char b :: nat
      in [base64_char (x div 4), base64_char (x mod 4 * 16 + y div 16), base64_char (y mod 16 * 4), CHR ''=''])"
| "base64_encode (a # b # c # rest) =
     (let x = of_char a :: nat; y = of_char b :: nat; z = of_char c :: nat
      in [base64_char (x div 4), base64_char (x mod 4 * 16 + y div 16), base64_char (y mod 16 * 4 + z div 64), base64_char (z mod 64)]
         @ base64_encode rest)"

definition hex_encode :: "string \<Rightarrow> string" where
  "hex_encode s = concat (map (\<lambda>c. let n = of_char c :: nat in [''0123456789abcdef'' ! (n div 16), ''0123456789abcdef'' ! (n mod 16)]) s)"

definition JoinHostPort :: "string \<Rightarrow> string \<Rightarrow> string" where
  "JoinHostPort host port =
     (if CHR '':'' \<in> set host \<or> CHR ''%'' \<in> set host then ''['' @ host @ '']:'' @ port else host @ '':'' @ port)"

definition trim_right :: "char \<Rightarrow> string \<Rightarrow> string" where
  "trim_right c s = rev (dropWhile (\<lambda>x. x = c) (rev s))"

text \<open>A value of a Go map, the empty string when the key is absent.\<close>

definition label_of :: "string gomap \<Rightarrow> string \<Rightarrow> string" where
  "label_of labels key = (case map_of labels key of Some v \<Rightarrow> v | None \<Rightarrow> [])"

section \<open>Labels\<close>

text \<open>The labels, at Fly the metadata, of workers and of pool hosts; both adapters use the same keys and fill a worker in the same way.\<close>

definition managedByKey :: string where "managedByKey = ''runneryard-managed-by''"
definition controllerIDKey :: string where "controllerIDKey = ''runneryard-controller''"
definition leaseIDKey :: string where "leaseIDKey = ''runneryard-lease-id''"
definition runnerNameKey :: string where "runnerNameKey = ''runneryard-runner-name''"
definition runnerIDKey :: string where "runnerIDKey = ''runneryard-runner-id''"
definition runnerScaleSetIDKey :: string where "runnerScaleSetIDKey = ''runneryard-runner-scale-set-id''"
definition poolHostKey :: string where "poolHostKey = ''runneryard-pool-host''"
definition poolNameKey :: string where "poolNameKey = ''runneryard-pool''"

definition withLeaseProof :: "worker \<Rightarrow> lease \<Rightarrow> worker" where
  "withLeaseProof w l =
     w\<lparr>w_LeaseID := if w_LeaseID w = [] then l_ID l else w_LeaseID w,
       w_RunnerName := if w_RunnerName w = [] then l_RunnerName l else w_RunnerName w,
       w_RunnerID := if w_RunnerID w = 0 then l_RunnerID l else w_RunnerID w,
       w_RunnerScaleSetID := if w_RunnerScaleSetID w = 0 then l_RunnerScaleSetID l else w_RunnerScaleSetID w\<rparr>"

section \<open>Retried calls\<close>

text \<open>
  A retried operation assigns a captured variable: the retry loop runs on the state with that variable
  beside it.
\<close>

definition beside :: "('s, 'a) state \<Rightarrow> ('s \<times> 'v, 'a) state" where
  "beside m = State (\<lambda>(s, v). case run_state m s of (a, s') \<Rightarrow> (a, (s', v)))"

definition assigning :: "('s, 'v \<times> goerr option) state \<Rightarrow> ('s \<times> 'v, goerr option) state" where
  "assigning m = State (\<lambda>(s, v). case run_state m s of ((v', err), s') \<Rightarrow> (err, (s', v')))"

definition retryer_beside :: "'s retryer \<Rightarrow> ('s \<times> 'v) retryer" where
  "retryer_beside r =
     \<lparr>r_policy = r_policy r, r_wait = beside (r_wait r), r_sleep = (\<lambda>d. beside (r_sleep r d)), r_random = beside (r_random r)\<rparr>"

definition retry_value :: "'s retryer \<Rightarrow> 'v \<Rightarrow> ('s, 'v \<times> goerr option) state \<Rightarrow> ('s, 'v \<times> goerr option) state" where
  "retry_value r zero operation =
     State (\<lambda>s. case run_state (retry_Do (retryer_beside r) (assigning operation)) (s, zero) of (err, (s', v)) \<Rightarrow> ((v, err), s'))"

definition cloud_retryer :: "('w, 'b, 'r) cloud \<Rightarrow> ('w, 'b, 'r) cloudSys retryer" where
  "cloud_retryer env =
     \<lparr>r_policy = withDefaults (cl_policy env), r_wait = cloud_do (cl_wait env), r_sleep = (\<lambda>d. cloud_do (cl_sleep env d)),
      r_random = cloud_do (cl_random env)\<rparr>"

definition attempts_of :: "('w, 'b, 'r) cloud \<Rightarrow> nat" where
  "attempts_of env = nat (p_Attempts (withDefaults (cl_policy env)))"

text \<open>The pause after a failed attempt.\<close>

definition backoff_sleep :: "('w, 'b, 'r) cloud \<Rightarrow> int \<Rightarrow> (('w, 'b, 'r) cloudSys, goerr option) state" where
  "backoff_sleep env attempt =
     do { x \<leftarrow> cloud_do (cl_random env); cloud_do (cl_sleep env (Backoff (withDefaults (cl_policy env)) attempt x)) }"

definition retried :: "('w, 'b, 'r) cloud \<Rightarrow> ('r httpResponse \<Rightarrow> goerr) \<Rightarrow> 'b httpRequest \<Rightarrow> ('r \<Rightarrow> 'v \<times> goerr option) \<Rightarrow> 'v
    \<Rightarrow> (('w, 'b, 'r) cloudSys, 'v \<times> goerr option) state" where
  "retried env classify req target zero = retry_value (cloud_retryer env) zero (doJSON env classify req target zero)"

definition status_is :: "int \<Rightarrow> goerr option \<Rightarrow> bool" where
  "status_is n err \<longleftrightarrow> (case errors_As as_status err of Some (p, m) \<Rightarrow> m = n | None \<Rightarrow> False)"

section \<open>Rules\<close>

lemma run_cloud_do: "run_state (cloud_do f) s = (fst (f (cs_world s)), s\<lparr>cs_world := snd (f (cs_world s))\<rparr>)"
  by (simp add: cloud_do_def case_prod_beta)

lemma run_beside: "run_state (beside m) (s, v) = (fst (run_state m s), (snd (run_state m s), v))"
  by (simp add: beside_def case_prod_beta)

lemma run_assigning: "run_state (assigning m) (s, v) = (snd (fst (run_state m s)), (snd (run_state m s), fst (fst (run_state m s))))"
  by (simp add: assigning_def case_prod_beta)

text \<open>
  A retried operation: its last attempt, or a failure of the pacing between attempts.  \<open>P\<close> is what holds
  before every attempt, so it has to hold again after a transient failure.
\<close>

lemma beside_keeps: "keeps P m \<Longrightarrow> keeps (\<lambda>sv. P (fst sv)) (beside m)"
  by (auto simp: keeps_def hoare_def run_beside case_prod_beta)

lemma assigning_hoare: "hoare P m (\<lambda>ve s. Q (fst ve) (snd ve) s) \<Longrightarrow> hoare (\<lambda>sv. P (fst sv)) (assigning m) (\<lambda>err sv. Q (snd sv) err (fst sv))"
  by (auto simp: hoare_def run_assigning case_prod_beta)

lemma retryer_beside_fields [simp]:
  "r_policy (retryer_beside r) = r_policy r" "r_wait (retryer_beside r) = beside (r_wait r)"
  "r_sleep (retryer_beside r) d = beside (r_sleep r d)" "r_random (retryer_beside r) = beside (r_random r)"
  by (simp_all add: retryer_beside_def)

lemma retry_from_hoare:
  assumes wait: "keeps P (r_wait r)" and sleep: "\<And>d. keeps P (r_sleep r d)" and random: "keeps P (r_random r)"
    and op: "hoare P operation (\<lambda>ve s. Q (fst ve) (snd ve) s)"
    and again: "\<And>v err s. Q v err s \<Longrightarrow> IsTransient err \<Longrightarrow> P s"
  shows "hoare (\<lambda>sv. P (fst sv) \<and> (k = 0 \<longrightarrow> l \<noteq> None)) (retry_from k (retryer_beside r) attempt (assigning operation) l)
    (\<lambda>err sv. Q (snd sv) err (fst sv) \<or> P (fst sv) \<and> err \<noteq> None)" (is "hoare _ _ ?R")
proof (induction k arbitrary: attempt l)
  case 0
  then show ?case by (auto intro: hoare_return)
next
  case (Suc k)
  let ?P = "\<lambda>sv. P (fst sv)"
  have keep: "hoare ?P (beside m) (\<lambda>_. ?P)" if "keeps P m" for m :: "('a, 'x) state"
    using beside_keeps [OF that] by (simp add: keeps_def)
  have slept: "hoare ?P (case e of Some err \<Rightarrow> State_Monad.return (errors_Join [last, Some err])
      | None \<Rightarrow> retry_from k (retryer_beside r) (attempt + 1) (assigning operation) last) ?R" if "IsTransient last" for e last
    using that by (cases e; cases last) (auto intro!: hoare_return hoare_weaken [OF Suc.IH])
  have backoff: "hoare ?P (do { x \<leftarrow> beside (r_random r); slept \<leftarrow> beside (r_sleep r (f x));
      case slept of Some err \<Rightarrow> State_Monad.return (errors_Join [last, Some err])
      | None \<Rightarrow> retry_from k (retryer_beside r) (attempt + 1) (assigning operation) last }) ?R" if "IsTransient last" for f last
    by (intro hoare_bind [OF keep [OF random]] hoare_bind [OF keep [OF sleep]] slept that)
  have "hoare ?P (do { last \<leftarrow> assigning operation;
      if last = None \<or> \<not> IsTransient last then State_Monad.return last
      else if attempt = p_Attempts (r_policy r) then State_Monad.return last
      else do { x \<leftarrow> beside (r_random r); slept \<leftarrow> beside (r_sleep r (Backoff (r_policy r) attempt x));
        case slept of Some err \<Rightarrow> State_Monad.return (errors_Join [last, Some err])
        | None \<Rightarrow> retry_from k (retryer_beside r) (attempt + 1) (assigning operation) last } }) ?R"
    by (rule hoare_bind [OF assigning_hoare [OF op]], intro hoare_if hoare_return)
      (auto intro: hoare_weaken [OF backoff] again)
  then have "hoare ?P (case waited of Some err \<Rightarrow> State_Monad.return (Some err) | None \<Rightarrow> do { last \<leftarrow> assigning operation;
      if last = None \<or> \<not> IsTransient last then State_Monad.return last
      else if attempt = p_Attempts (r_policy r) then State_Monad.return last
      else do { x \<leftarrow> beside (r_random r); slept \<leftarrow> beside (r_sleep r (Backoff (r_policy r) attempt x));
        case slept of Some err \<Rightarrow> State_Monad.return (errors_Join [last, Some err])
        | None \<Rightarrow> retry_from k (retryer_beside r) (attempt + 1) (assigning operation) last } }) ?R" for waited
    by (cases waited) (auto intro: hoare_return)
  from hoare_bind [OF keep [OF wait] this] show ?case unfolding retry_from.simps retryer_beside_fields by (rule hoare_weaken) auto
qed

lemma retry_value_hoare:
  assumes "keeps P (r_wait r)" and "\<And>d. keeps P (r_sleep r d)" and "keeps P (r_random r)" and "1 \<le> p_Attempts (r_policy r)"
    and "hoare P operation (\<lambda>ve s. Q (fst ve) (snd ve) s)" and "\<And>v err s. Q v err s \<Longrightarrow> IsTransient err \<Longrightarrow> P s"
  shows "hoare P (retry_value r zero operation) (\<lambda>ve s. Q (fst ve) (snd ve) s \<or> P s \<and> snd ve \<noteq> None)"
proof (rule hoareI)
  fix s ve s'
  assume s: "P s" "run_state (retry_value r zero operation) s = (ve, s')"
  obtain v err where ve: "ve = (v, err)" by fastforce
  have run: "run_state (retry_from (nat (p_Attempts (r_policy r))) (retryer_beside r) 1 (assigning operation) None) (s, zero) = (err, (s', v))"
    using s(2) ve by (simp add: retry_value_def retry_Do_def split: prod.splits)
  have pos: "nat (p_Attempts (r_policy r)) \<noteq> 0" using assms(4) by simp
  show "Q (fst ve) (snd ve) s' \<or> P s' \<and> snd ve \<noteq> None"
    using hoareD [OF retry_from_hoare [OF assms(1-3,5,6)] _ run] s(1) pos ve by simp
qed

text \<open>What every call outside but the requests leaves alone.\<close>

definition calm :: "('w, 'b, 'r) cloud \<Rightarrow> ('w \<Rightarrow> 'h) \<Rightarrow> bool" where
  "calm env held \<longleftrightarrow>
     (\<forall>w. held (snd (cl_wait env w)) = held w) \<and> (\<forall>d w. held (snd (cl_sleep env d w)) = held w) \<and> (\<forall>w. held (snd (cl_random env w)) = held w)"

lemma cloud_do_keeps: "(\<And>w. held (snd (f w)) = held w) \<Longrightarrow> keeps (\<lambda>s. P (held (cs_world s)) (cs_trace s)) (cloud_do f)"
  by (rule keepsI) (auto simp: run_cloud_do)

lemma pacing_keeps:
  assumes "calm env held"
  shows "keeps (\<lambda>s. P (held (cs_world s)) (cs_trace s)) (cloud_do (cl_wait env))"
    "keeps (\<lambda>s. P (held (cs_world s)) (cs_trace s)) (cloud_do (cl_sleep env d))"
    "keeps (\<lambda>s. P (held (cs_world s)) (cs_trace s)) (cloud_do (cl_random env))"
    "keeps (\<lambda>s. P (held (cs_world s)) (cs_trace s)) (backoff_sleep env attempt)"
  unfolding backoff_sleep_def using assms by (auto simp: calm_def intro!: keeps_bind cloud_do_keeps)

lemma retried_hoare:
  assumes "calm env held"
    and "hoare (\<lambda>s. P (held (cs_world s)) (cs_trace s)) operation (\<lambda>ve s. Q (fst ve) (snd ve) s)"
    and "\<And>v err s. Q v err s \<Longrightarrow> IsTransient err \<Longrightarrow> P (held (cs_world s)) (cs_trace s)"
  shows "hoare (\<lambda>s. P (held (cs_world s)) (cs_trace s)) (retry_value (cloud_retryer env) zero operation)
    (\<lambda>ve s. Q (fst ve) (snd ve) s \<or> P (held (cs_world s)) (cs_trace s) \<and> snd ve \<noteq> None)"
  by (rule retry_value_hoare) (use assms withDefaults_wf [of "cl_policy env"] pacing_keeps [OF assms(1), where P = P] in \<open>auto simp: cloud_retryer_def\<close>)

lemma retry_keeps:
  assumes "calm env held" and "keeps (\<lambda>s. P (held (cs_world s)) (cs_trace s)) operation"
  shows "keeps (\<lambda>s. P (held (cs_world s)) (cs_trace s)) (retry_value (cloud_retryer env) zero operation)"
  using retried_hoare [OF assms(1), where P = P and Q = "\<lambda>_ _ s. P (held (cs_world s)) (cs_trace s)", of operation zero] assms(2)
  by (auto simp: keeps_def elim!: hoare_weaken)

text \<open>A call sends one request; what it returns is read off the outcome.\<close>

lemma send_hoare:
  assumes "\<And>s out w. P s \<Longrightarrow> cl_http env req (cs_world s) = (out, w) \<Longrightarrow> Q (f out) (s\<lparr>cs_world := w, cs_trace := cs_trace s @ [(req, out)]\<rparr>)"
  shows "hoare P (do { out \<leftarrow> cloud_send env req; State_Monad.return (f out) }) Q"
  using assms by (auto simp: hoare_def cloud_send_def split: prod.splits)

lemma json_answered:
  "json_result classify target zero out = (v, err) \<Longrightarrow> v \<noteq> zero \<Longrightarrow> \<exists>r. out = Answered r \<and> good_status (rs_Status r) \<and> fst (target (rs_Body r)) = v"
  by (cases out) (auto simp: json_result_def split: if_splits prod.splits)

lemma hoare_pre: "hoare P' m Q \<Longrightarrow> (\<And>s. P s \<Longrightarrow> P' s) \<Longrightarrow> hoare P m Q"
  by (erule hoare_weaken)

lemma find_member: "List.find P xs = Some x \<Longrightarrow> x \<in> set xs"
  by (induction xs) (auto split: if_splits)

lemma proof_keeps_id [simp]: "w_ID (withLeaseProof w l) = w_ID w"
  by (simp add: withLeaseProof_def)

section \<open>What a launch leaves behind\<close>

text \<open>The errors of a context.\<close>

definition context_error :: "goerr \<Rightarrow> bool" where
  "context_error e \<longleftrightarrow> e \<in> {ErrSentinel ContextCanceled, ErrSentinel ContextDeadlineExceeded}"

text \<open>
  What a launch has added to the machines there were: at most one, with the labels of the lease, and the
  one its result names, if it names one.
\<close>

definition added :: "('i \<times> 'l) list \<Rightarrow> 'l \<Rightarrow> ('i \<Rightarrow> bool) option \<Rightarrow> ('i \<times> 'l) list \<Rightarrow> bool" where
  "added H labels named after \<longleftrightarrow>
     after = H \<and> named = None \<or> (\<exists>i. after = H @ [(i, labels)] \<and> (case named of None \<Rightarrow> True | Some P \<Rightarrow> P i))"

section \<open>Invariants of the trace\<close>

text \<open>An invariant of the requests made, which the requests of a kind, \<open>free\<close>, always keep.\<close>

locale cloud_inv =
  fixes inv :: "('b httpRequest \<times> 'r outcome) list \<Rightarrow> bool" and free :: "'b httpRequest \<Rightarrow> bool"
  assumes free_ok: "inv es \<Longrightarrow> free req \<Longrightarrow> inv (es @ [(req, out)])"
begin

lemma inv_do: "keeps (\<lambda>s. inv (cs_trace s)) (cloud_do f)"
  by (rule cloud_do_keeps [where held = "\<lambda>_. ()" and P = "\<lambda>_. inv"]) simp

lemma inv_backoff: "keeps (\<lambda>s. inv (cs_trace s)) (backoff_sleep env attempt)"
  unfolding backoff_sleep_def by (intro keeps_bind inv_do)

lemma inv_send: "free req \<Longrightarrow> keeps (\<lambda>s. inv (cs_trace s)) (cloud_send env req)"
  by (rule keepsI) (auto simp: cloud_send_def free_ok split: prod.splits)

lemma inv_retry:
  "keeps (\<lambda>s. inv (cs_trace s)) operation \<Longrightarrow> keeps (\<lambda>s. inv (cs_trace s)) (retry_value (cloud_retryer env) zero operation)"
  by (rule retry_keeps [where held = "\<lambda>_. ()" and P = "\<lambda>_. inv"]) (simp_all add: calm_def)

lemma inv_doJSON: "free req \<Longrightarrow> keeps (\<lambda>s. inv (cs_trace s)) (doJSON env classify req target zero)"
  unfolding doJSON_def by (intro keeps_bind inv_send keeps_return)

lemma inv_retried: "free req \<Longrightarrow> keeps (\<lambda>s. inv (cs_trace s)) (retried env classify req target zero)"
  unfolding retried_def by (intro inv_retry inv_doJSON)

text \<open>A value that was read is that of an answer in the trace.\<close>

lemma inv_json:
  assumes "free req"
  shows "hoare (\<lambda>s. inv (cs_trace s)) (doJSON env classify req target zero)
    (\<lambda>ve s. inv (cs_trace s) \<and> (\<exists>out. (req, out) \<in> set (cs_trace s) \<and> json_result classify target zero out = ve))"
  unfolding doJSON_def by (rule send_hoare) (use assms free_ok in auto)

lemma inv_json_retried:
  assumes "free req"
  shows "hoare (\<lambda>s. inv (cs_trace s)) (retried env classify req target zero)
    (\<lambda>ve s. inv (cs_trace s) \<and> (snd ve = None \<longrightarrow> (\<exists>out. (req, out) \<in> set (cs_trace s) \<and> json_result classify target zero out = ve)))"
proof -
  have "hoare (\<lambda>s. inv (cs_trace s)) (doJSON env classify req target zero)
    (\<lambda>ve s. inv (cs_trace s) \<and> (\<exists>out. (req, out) \<in> set (cs_trace s) \<and> json_result classify target zero out = (fst ve, snd ve)))"
    using inv_json [OF assms] by simp
  from retried_hoare [where held = "\<lambda>_. ()" and P = "\<lambda>_. inv", OF _ this] show ?thesis
    unfolding retried_def by (rule hoare_weaken) (auto simp: calm_def)
qed

lemma inv_read:
  assumes "free req"
  shows "hoare (\<lambda>s. inv (cs_trace s)) (doJSON env classify req target zero) (\<lambda>ve s. inv (cs_trace s)
    \<and> (fst ve \<noteq> zero \<longrightarrow> (\<exists>r. (req, Answered r) \<in> set (cs_trace s) \<and> good_status (rs_Status r) \<and> fst (target (rs_Body r)) = fst ve)))"
  by (rule hoare_weaken [OF inv_json [OF assms]]) (auto, metis json_answered prod.collapse)

lemma inv_read_retried:
  assumes "free req"
  shows "hoare (\<lambda>s. inv (cs_trace s)) (retried env classify req target zero) (\<lambda>ve s. inv (cs_trace s)
    \<and> (snd ve = None \<and> fst ve \<noteq> zero \<longrightarrow> (\<exists>r. (req, Answered r) \<in> set (cs_trace s) \<and> good_status (rs_Status r) \<and> fst (target (rs_Body r)) = fst ve)))"
  by (rule hoare_weaken [OF inv_json_retried [OF assms]]) (auto dest!: json_answered)

end

end
