(* ===== verification/Hetzner_Adapter.thy ===== *)
theory Hetzner_Adapter
  imports Cloud_Api
begin

text \<open>
  Disposable servers of Hetzner Cloud as workers (\<^verbatim>\<open>providers/hetzner/adapter.go\<close>): a launch that creates a
  server powered off, checks its firewall and powers it on; the inventory by labels; the deletion.

  A wait for an action polls until its context ends, which it does after \<open>hz_actionTimeout\<close>: the polls are
  \<open>hz_actionPollInterval\<close> apart, so their number bounds the loop.  A listing whose pages never end lasts
  until its context does; \<open>hz_pages\<close> is how many pages that takes.  \<open>hz_urlError\<close> is what
  \<^verbatim>\<open>url.Parse\<close> says to the base URL.
\<close>

section \<open>Data\<close>

definition safeLabel :: "string \<Rightarrow> bool" where
  "safeLabel s = safe_token {CHR ''.'', CHR ''_'', CHR ''-''} 62 s"

record hzConfig =
  hk_APIToken :: string
  hk_APIBaseURL :: string
  hk_Location :: string
  hk_ServerType :: string
  hk_ServerImage :: string
  hk_RunnerImage :: string
  hk_ControllerID :: string
  hk_FirewallID :: int
  hk_NetworkID :: int
  hk_ActionPollInterval :: duration
  hk_ActionTimeout :: duration

record hetzner =
  hz_baseURL :: string
  hz_token :: string
  hz_location :: string
  hz_serverType :: string
  hz_serverImage :: string
  hz_runnerImage :: string
  hz_controllerID :: string
  hz_firewallID :: int
  hz_networkID :: int
  hz_actionPollInterval :: duration
  hz_actionTimeout :: duration
  hz_pages :: nat
  hz_urlError :: "goerr option"

definition hz_New :: "hzConfig \<Rightarrow> nat \<Rightarrow> goerr option \<Rightarrow> goerr + hetzner" where
  "hz_New cfg pages urlError =
     (if hk_APIToken cfg = [] \<or> hk_Location cfg = [] \<or> hk_ServerType cfg = [] \<or> hk_ServerImage cfg = [] \<or> hk_RunnerImage cfg = []
         \<or> hk_ControllerID cfg = []
      then Inl (ErrText ''hetzner token, location, server type, server image, runner image, and controller ID are required'')
      else if hk_FirewallID cfg < 1 then Inl (ErrText ''hetzner worker firewall ID is required'')
      else if \<not> safeLabel (hk_ControllerID cfg)
      then Inl (ErrText ''hetzner controller ID must be a valid label value of at most 63 characters'')
      else if hk_NetworkID cfg < 0 then Inl (ErrText ''hetzner network ID cannot be negative'')
      else Inr
        \<lparr>hz_baseURL = trim_right (CHR ''/'') (if hk_APIBaseURL cfg = [] then ''https://api.hetzner.cloud/v1'' else hk_APIBaseURL cfg),
         hz_token = hk_APIToken cfg, hz_location = hk_Location cfg, hz_serverType = hk_ServerType cfg,
         hz_serverImage = hk_ServerImage cfg, hz_runnerImage = hk_RunnerImage cfg, hz_controllerID = hk_ControllerID cfg,
         hz_firewallID = hk_FirewallID cfg, hz_networkID = hk_NetworkID cfg,
         hz_actionPollInterval = (if hk_ActionPollInterval cfg \<le> 0 then 500000000 else hk_ActionPollInterval cfg),
         hz_actionTimeout = (if hk_ActionTimeout cfg \<le> 0 then 3 * minute else hk_ActionTimeout cfg),
         hz_pages = pages, hz_urlError = urlError\<rparr>)"

record serverFirewall =
  fw_ID :: int
  fw_Status :: string

record server =
  sv_ID :: int
  sv_Name :: string
  sv_Status :: string
  sv_CreatedAt :: gotime
  sv_Labels :: "string gomap"
  sv_IPv4 :: string
  sv_Firewalls :: "serverFirewall list"

record hzAction =
  ac_ID :: int
  ac_Status :: string
  ac_Error :: "(string \<times> string) option"

text \<open>The cloud-init documents, of a worker and of a pool host.\<close>

record cloudFile =
  ci_Path :: string
  ci_Owner :: string
  ci_Permissions :: string
  ci_Encoding :: string
  ci_Content :: string

datatype userData =
    WorkerInit "cloudFile list" "string list list"
  | HostInit bool bool bool "string list" "string gomap" "string list list"

record createServerRequest =
  cq_Name :: string
  cq_ServerType :: string
  cq_Image :: string
  cq_Location :: string
  cq_UserData :: userData
  cq_StartAfterCreate :: bool
  cq_Labels :: "string gomap"
  cq_Firewalls :: "int list"
  cq_Networks :: "int list"
  cq_EnableIPv4 :: bool
  cq_EnableIPv6 :: bool

record createServerResponse =
  cp_Server :: server
  cp_Action :: hzAction
  cp_NextActions :: "hzAction list"

definition zeroServer :: server where
  "zeroServer = \<lparr>sv_ID = 0, sv_Name = [], sv_Status = [], sv_CreatedAt = zeroTime, sv_Labels = [], sv_IPv4 = [], sv_Firewalls = []\<rparr>"

definition zeroAction :: hzAction where
  "zeroAction = \<lparr>ac_ID = 0, ac_Status = [], ac_Error = None\<rparr>"

definition zeroCreated :: createServerResponse where
  "zeroCreated = \<lparr>cp_Server = zeroServer, cp_Action = zeroAction, cp_NextActions = []\<rparr>"

text \<open>What a body decodes to: a created server, a server, an action, a page of servers with the next page.\<close>

record hzBody =
  hb_created :: "createServerResponse \<times> goerr option"
  hb_server :: "server \<times> goerr option"
  hb_action :: "hzAction \<times> goerr option"
  hb_page :: "(server list \<times> int option) \<times> goerr option"

type_synonym 'w hzCloud = "('w, createServerRequest, hzBody) cloud"
type_synonym 'w hzSys = "('w, createServerRequest, hzBody) cloudSys"
type_synonym hzRequest = "createServerRequest httpRequest"

section \<open>Requests\<close>

definition hz_responseError :: "hzBody httpResponse \<Rightarrow> goerr" where
  "hz_responseError r =
     (case rs_Contents r of
        Inl readErr \<Rightarrow> ErrJoin [the (ClassifyStatus ''hetzner'' (rs_Status r) []), readErr]
      | Inr contents \<Rightarrow> the (ClassifyStatus ''hetzner'' (rs_Status r) (trimSpace contents)))"

definition server_path :: "int \<Rightarrow> string list" where
  "server_path n = [''servers'', itoa n]"

definition create_request :: "createServerRequest \<Rightarrow> hzRequest" where
  "create_request payload = \<lparr>rq_Method = MethodPost, rq_Path = [''servers''], rq_Query = [], rq_Body = Some payload\<rparr>"

definition list_request :: "string \<Rightarrow> int \<Rightarrow> hzRequest" where
  "list_request selector page =
     \<lparr>rq_Method = MethodGet, rq_Path = [''servers''],
      rq_Query = [(''label_selector'', selector), (''page'', itoa page), (''per_page'', ''50'')], rq_Body = None\<rparr>"

definition hz_doJSON :: "'w hzCloud \<Rightarrow> hzRequest \<Rightarrow> (hzBody \<Rightarrow> 'v \<times> goerr option) \<Rightarrow> 'v \<Rightarrow> ('w hzSys, 'v \<times> goerr option) state" where
  "hz_doJSON env req target zero = doJSON env hz_responseError req target zero"

definition hz_retried :: "'w hzCloud \<Rightarrow> hzRequest \<Rightarrow> (hzBody \<Rightarrow> 'v \<times> goerr option) \<Rightarrow> 'v \<Rightarrow> ('w hzSys, 'v \<times> goerr option) state" where
  "hz_retried env req target zero = retried env hz_responseError req target zero"

section \<open>Workers\<close>

definition hz_toWorker :: "server \<Rightarrow> worker" where
  "hz_toWorker item =
     \<lparr>w_ID = itoa (sv_ID item), w_LeaseID = label_of (sv_Labels item) leaseIDKey, w_RunnerName = label_of (sv_Labels item) runnerNameKey,
      w_RunnerID = parse_int (label_of (sv_Labels item) runnerIDKey),
      w_RunnerScaleSetID = parse_int (label_of (sv_Labels item) runnerScaleSetIDKey),
      w_State = sv_Status item, w_CreatedAt = sv_CreatedAt item\<rparr>"

definition firewallApplied :: "server \<Rightarrow> int \<Rightarrow> bool" where
  "firewallApplied item firewallID \<longleftrightarrow> list_ex (\<lambda>f. fw_ID f = firewallID \<and> fw_Status f = ''applied'') (sv_Firewalls item)"

definition lease_file :: "lease \<Rightarrow> string" where
  "lease_file l =
     ''ACTIONS_RUNNER_INPUT_JITCONFIG='' @ l_JITConfig l @ [CHR 0x0A]
     @ ''RUNNERYARD_DEADLINE='' @ time_RFC3339 (l_Deadline l) @ [CHR 0x0A]
     @ ''RUNNERYARD_IDLE_TIMEOUT='' @ itoa (go_quot (l_IdleTimeout l) second) @ [CHR 0x0A]"

definition worker_bootstrap :: string where
  \<open>worker_bootstrap = strings_Join
     [''set -Eeuo pipefail'',
      ''image=$1'',
      ''runner_name=$2'',
      ''lease_file=/etc/runneryard/lease.env'',
      ''container=runneryard-worker'',
      ''cleanup() {'',
      ''  shred -u "$lease_file" 2>/dev/null || rm -f "$lease_file"'',
      ''  docker rm --force "$container" >/dev/null 2>&1 || true'',
      ''  shutdown -h now >/dev/null 2>&1 || true'',
      ''}'',
      ''trap cleanup EXIT'',
      ''docker pull "$image"'',
      ''docker create '' @ [CHR 0x5C],
      ''  --name "$container" '' @ [CHR 0x5C],
      ''  --hostname "$runner_name" '' @ [CHR 0x5C],
      ''  --privileged '' @ [CHR 0x5C],
      ''  --env-file "$lease_file" '' @ [CHR 0x5C],
      ''  --entrypoint /usr/bin/dumb-init '' @ [CHR 0x5C],
      ''  "$image" -- /usr/local/bin/runner-entrypoint >/dev/null'',
      ''shred -u "$lease_file" 2>/dev/null || rm -f "$lease_file"'',
      ''set +e'',
      ''docker start --attach "$container"'',
      ''runner_status=$?'',
      ''set -e'',
      ''exit "$runner_status"''] [CHR 0x0A]\<close>

definition renderCloudInit :: "lease \<Rightarrow> string \<Rightarrow> userData" where
  "renderCloudInit l runnerImage =
     WorkerInit
       [\<lparr>ci_Path = ''/etc/runneryard/lease.env'', ci_Owner = ''root:root'', ci_Permissions = ''0600'', ci_Encoding = ''b64'',
         ci_Content = base64_encode (lease_file l)\<rparr>]
       [[''bash'', ''-lc'', worker_bootstrap, ''runneryard-bootstrap'', runnerImage, l_RunnerName l]]"

section \<open>Actions\<close>

text \<open>Whether an action has ended, and how.\<close>

definition action_over :: "hzAction \<Rightarrow> goerr option option" where
  "action_over current =
     (if ac_Status current = ''success'' then Some None
      else if ac_Status current = ''error''
      then (case ac_Error current of
              Some (code, msg) \<Rightarrow> Some (Some (ErrText (''hetzner action '' @ itoa (ac_ID current) @ '' failed ('' @ code @ ''): '' @ msg)))
            | None \<Rightarrow> Some (Some (ErrText (''hetzner action '' @ itoa (ac_ID current) @ '' failed''))))
      else if ac_Status current = ''running'' \<or> ac_Status current = [] then None
      else Some (Some (ErrText (''hetzner action '' @ itoa (ac_ID current) @ '' has unknown status''))))"

fun wait_polls :: "nat \<Rightarrow> 'w hzCloud \<Rightarrow> hetzner \<Rightarrow> hzAction \<Rightarrow> ('w hzSys, goerr option) state" where
  "wait_polls 0 env a current =
     State_Monad.return (case action_over current of Some r \<Rightarrow> r | None \<Rightarrow> Some (ErrSentinel ContextDeadlineExceeded))"
| "wait_polls (Suc n) env a current =
     (case action_over current of
        Some r \<Rightarrow> State_Monad.return r
      | None \<Rightarrow>
          do { slept \<leftarrow> cloud_do (cl_sleep env (hz_actionPollInterval a));
               case slept of
                 Some err \<Rightarrow> State_Monad.return (Some err)
               | None \<Rightarrow>
                   do { (response, err) \<leftarrow> hz_retried env (plain_request MethodGet [''actions'', itoa (ac_ID current)]) hb_action zeroAction;
                        case err of
                          Some e \<Rightarrow> State_Monad.return (Some (ErrWrap (''poll Hetzner action '' @ itoa (ac_ID current)) e))
                        | None \<Rightarrow> wait_polls n env a response } })"

definition waitAction :: "'w hzCloud \<Rightarrow> hetzner \<Rightarrow> hzAction \<Rightarrow> ('w hzSys, goerr option) state" where
  "waitAction env a current = wait_polls (nat (hz_actionTimeout a div hz_actionPollInterval a)) env a current"

fun waitActions :: "'w hzCloud \<Rightarrow> hetzner \<Rightarrow> hzAction list \<Rightarrow> ('w hzSys, goerr option) state" where
  "waitActions env a [] = State_Monad.return None"
| "waitActions env a (current # rest) =
     (if ac_ID current < 1 then State_Monad.return (Some (ErrText ''hetzner response did not include an action id''))
      else do { err \<leftarrow> waitAction env a current;
                case err of Some e \<Rightarrow> State_Monad.return (Some e) | None \<Rightarrow> waitActions env a rest })"

section \<open>Listing\<close>

fun each_page :: "nat \<Rightarrow> 'w hzCloud \<Rightarrow> string \<Rightarrow> int \<Rightarrow> server list \<Rightarrow> ('w hzSys, goerr + server list) state" where
  "each_page 0 env selector page seen = State_Monad.return (Inl (ErrWrap ''list Hetzner servers'' (ErrSentinel ContextCanceled)))"
| "each_page (Suc n) env selector page seen =
     do { (response, err) \<leftarrow> hz_retried env (list_request selector page) hb_page ([], None);
          case err of
            Some e \<Rightarrow> State_Monad.return (Inl (ErrWrap ''list Hetzner servers'' e))
          | None \<Rightarrow>
              (case snd response of
                 None \<Rightarrow> State_Monad.return (Inr (seen @ fst response))
               | Some next_page \<Rightarrow> each_page n env selector next_page (seen @ fst response)) }"

text \<open>The servers the callback is called with, in order.\<close>

definition eachServer :: "'w hzCloud \<Rightarrow> hetzner \<Rightarrow> string \<Rightarrow> ('w hzSys, goerr + server list) state" where
  "eachServer env a selector =
     (case hz_urlError a of
        Some e \<Rightarrow> State_Monad.return (Inl (ErrWrap ''build Hetzner inventory URL'' e))
      | None \<Rightarrow> each_page (hz_pages a) env selector 1 [])"

definition is_worker :: "hetzner \<Rightarrow> server \<Rightarrow> bool" where
  "is_worker a item \<longleftrightarrow>
     \<not> (label_of (sv_Labels item) managedByKey \<noteq> ''true'' \<or> label_of (sv_Labels item) controllerIDKey \<noteq> hz_controllerID a
        \<or> label_of (sv_Labels item) poolHostKey \<noteq> [])"

definition listServers :: "'w hzCloud \<Rightarrow> hetzner \<Rightarrow> string \<Rightarrow> ('w hzSys, goerr + worker list) state" where
  "listServers env a selector =
     do { r \<leftarrow> eachServer env a selector;
          State_Monad.return (case r of Inl err \<Rightarrow> Inl err | Inr items \<Rightarrow> Inr (map hz_toWorker (filter (is_worker a) items))) }"

definition owned_selector :: "hetzner \<Rightarrow> string" where
  "owned_selector a = managedByKey @ ''=true,'' @ controllerIDKey @ ''='' @ hz_controllerID a"

definition hz_Inventory :: "'w hzCloud \<Rightarrow> hetzner \<Rightarrow> ('w hzSys, goerr + worker list) state" where
  "hz_Inventory env a = listServers env a (owned_selector a)"

definition hz_findByLease :: "'w hzCloud \<Rightarrow> hetzner \<Rightarrow> string \<Rightarrow> ('w hzSys, goerr + worker option) state" where
  "hz_findByLease env a leaseID =
     (if \<not> safeLabel leaseID then State_Monad.return (Inl (ErrText ''lease id is not a valid label value''))
      else do { r \<leftarrow> listServers env a (owned_selector a @ '','' @ leaseIDKey @ ''='' @ leaseID);
                State_Monad.return (case r of Inl err \<Rightarrow> Inl err | Inr ws \<Rightarrow> Inr (List.find (\<lambda>w. w_LeaseID w = leaseID) ws)) })"

section \<open>Launch\<close>

text \<open>The loop of \<^verbatim>\<open>createServer\<close> from an attempt on, \<open>n\<close> attempts left.\<close>

fun create_attempts :: "nat \<Rightarrow> 'w hzCloud \<Rightarrow> hetzner \<Rightarrow> lease \<Rightarrow> createServerRequest \<Rightarrow> int \<Rightarrow> goerr
    \<Rightarrow> ('w hzSys, goerr + createServerResponse) state" where
  "create_attempts 0 env a l payload attempt lastErr = State_Monad.return (Inl lastErr)"
| "create_attempts (Suc n) env a l payload attempt lastErr =
     do { waited \<leftarrow> cloud_do (cl_wait env);
          case waited of
            Some err \<Rightarrow> State_Monad.return (Inl err)
          | None \<Rightarrow>
              do { (created, err) \<leftarrow> hz_doJSON env (create_request payload) hb_created zeroCreated;
                   case err of
                     None \<Rightarrow>
                       State_Monad.return
                         (if sv_ID (cp_Server created) = 0
                          then Inl (ErrText (''create Hetzner worker '' @ l_RunnerName l @ '': response did not include a server id''))
                          else Inr created)
                   | Some e \<Rightarrow>
                       if sv_ID (cp_Server created) \<noteq> 0
                       then State_Monad.return (Inl (PartialLaunchError (withLeaseProof (hz_toWorker (cp_Server created)) l) e))
                       else (let lastErr = ErrWrap (''create Hetzner worker '' @ l_RunnerName l) e
                             in if \<not> IsTransient err then State_Monad.return (Inl lastErr)
                                else do { existing \<leftarrow> hz_findByLease env a (l_ID l);
                                          case existing of
                                            Inl lookupErr \<Rightarrow>
                                              State_Monad.return (Inl (ErrJoin [lastErr, ErrWrap ''confirm Hetzner worker absence before retry'' lookupErr]))
                                          | Inr (Some w) \<Rightarrow> State_Monad.return (Inl (PartialLaunchError (withLeaseProof w l) lastErr))
                                          | Inr None \<Rightarrow>
                                              if n = 0 then State_Monad.return (Inl lastErr)
                                              else do { slept \<leftarrow> backoff_sleep env attempt;
                                                        case slept of
                                                          Some err \<Rightarrow> State_Monad.return (Inl (ErrJoin [lastErr, err]))
                                                        | None \<Rightarrow> create_attempts n env a l payload (attempt + 1) lastErr } }) } }"

definition createServer :: "'w hzCloud \<Rightarrow> hetzner \<Rightarrow> lease \<Rightarrow> createServerRequest \<Rightarrow> ('w hzSys, goerr + createServerResponse) state" where
  "createServer env a l payload = create_attempts (attempts_of env) env a l payload 1 (ErrText [])"

definition launch_payload :: "hetzner \<Rightarrow> lease \<Rightarrow> createServerRequest" where
  "launch_payload a l =
     \<lparr>cq_Name = l_RunnerName l, cq_ServerType = hz_serverType a, cq_Image = hz_serverImage a, cq_Location = hz_location a,
      cq_UserData = renderCloudInit l (hz_runnerImage a), cq_StartAfterCreate = False,
      cq_Labels = [(managedByKey, ''true''), (controllerIDKey, hz_controllerID a), (leaseIDKey, l_ID l), (runnerNameKey, l_RunnerName l),
        (runnerIDKey, itoa (l_RunnerID l)), (runnerScaleSetIDKey, itoa (l_RunnerScaleSetID l))],
      cq_Firewalls = [hz_firewallID a], cq_Networks = (if hz_networkID a > 0 then [hz_networkID a] else []),
      cq_EnableIPv4 = True, cq_EnableIPv6 = True\<rparr>"

definition poweron_request :: "int \<Rightarrow> hzRequest" where
  "poweron_request n = plain_request MethodPost (server_path n @ [''actions'', ''poweron''])"

text \<open>From the created server on: qualified while off, powered on, seen running.\<close>

definition confirm_running :: "'w hzCloud \<Rightarrow> hetzner \<Rightarrow> int \<Rightarrow> (goerr \<Rightarrow> goerr + worker) \<Rightarrow> (server \<Rightarrow> worker) \<Rightarrow> ('w hzSys, goerr + worker) state" where
  "confirm_running env a n fail ok =
     do { (running, err) \<leftarrow> hz_doJSON env (plain_request MethodGet (server_path n)) hb_server zeroServer;
          State_Monad.return
            (case err of
               Some e \<Rightarrow> fail (ErrWrap ''confirm powered-on Hetzner worker'' e)
             | None \<Rightarrow>
                 if sv_Status running \<noteq> ''running'' then fail (ErrText (''powered-on Hetzner worker has status '' @ sv_Status running))
                 else Inr (ok running)) }"

definition power_on :: "'w hzCloud \<Rightarrow> hetzner \<Rightarrow> int \<Rightarrow> (goerr \<Rightarrow> goerr + worker) \<Rightarrow> (server \<Rightarrow> worker) \<Rightarrow> ('w hzSys, goerr + worker) state" where
  "power_on env a n fail ok =
     do { (poweredOn, err) \<leftarrow> hz_doJSON env (poweron_request n) hb_action zeroAction;
          case err of
            Some e \<Rightarrow> State_Monad.return (fail (ErrWrap ''power on qualified Hetzner worker'' e))
          | None \<Rightarrow>
              do { err \<leftarrow> waitActions env a [poweredOn];
                   case err of
                     Some e \<Rightarrow> State_Monad.return (fail (ErrWrap ''power on qualified Hetzner worker'' e))
                   | None \<Rightarrow> confirm_running env a n fail ok } }"

definition qualify_launch :: "'w hzCloud \<Rightarrow> hetzner \<Rightarrow> lease \<Rightarrow> createServerResponse \<Rightarrow> ('w hzSys, goerr + worker) state" where
  "qualify_launch env a l created =
     (let worker = withLeaseProof (hz_toWorker (cp_Server created)) l;
          fail = (\<lambda>e. Inl (PartialLaunchError worker e));
          n = sv_ID (cp_Server created)
      in do { err \<leftarrow> waitActions env a (cp_Action created # cp_NextActions created);
              case err of
                Some e \<Rightarrow> State_Monad.return (fail (ErrWrap ''qualify Hetzner worker'' e))
              | None \<Rightarrow>
                  do { (qualified, err) \<leftarrow> hz_doJSON env (plain_request MethodGet (server_path n)) hb_server zeroServer;
                       case err of
                         Some e \<Rightarrow> State_Monad.return (fail (ErrWrap ''verify Hetzner worker firewall'' e))
                       | None \<Rightarrow>
                           if \<not> firewallApplied qualified (hz_firewallID a)
                           then State_Monad.return (fail (ErrText (''required firewall '' @ itoa (hz_firewallID a) @ '' is not applied'')))
                           else power_on env a n fail (\<lambda>item. withLeaseProof (hz_toWorker item) l) } })"

definition hz_Launch :: "'w hzCloud \<Rightarrow> hetzner \<Rightarrow> lease \<Rightarrow> ('w hzSys, goerr + worker) state" where
  "hz_Launch env a l =
     do { r \<leftarrow> createServer env a l (launch_payload a l);
          case r of Inl err \<Rightarrow> State_Monad.return (Inl err) | Inr created \<Rightarrow> qualify_launch env a l created }"

section \<open>Destroy\<close>

definition delete_result :: "hzBody outcome \<Rightarrow> hzAction \<times> goerr option" where
  "delete_result out =
     (case out of
        NotBuilt e \<Rightarrow> (zeroAction, Some (ErrWrap ''build delete request'' e))
      | NoAnswer e \<Rightarrow> (zeroAction, ClassifyRequestError (Some e))
      | Answered r \<Rightarrow>
          if rs_Status r = 404 \<or> rs_Status r = 204 then (zeroAction, None)
          else if \<not> good_status (rs_Status r) then (zeroAction, Some (hz_responseError r))
          else (case hb_action (rs_Body r) of (v, err) \<Rightarrow> (v, map_option (ErrWrap ''decode Hetzner delete action'') err)))"

definition delete_request :: "string \<Rightarrow> hzRequest" where
  "delete_request workerID = plain_request MethodDelete [''servers'', workerID]"

definition hz_Destroy :: "'w hzCloud \<Rightarrow> hetzner \<Rightarrow> string \<Rightarrow> ('w hzSys, goerr option) state" where
  "hz_Destroy env a workerID =
     (if workerID = [] then State_Monad.return None
      else if strconv_Atoi workerID = None then State_Monad.return (Some (ErrText ''invalid Hetzner worker id''))
      else do { (deleted, err) \<leftarrow> retry_value (cloud_retryer env) zeroAction
                  (do { out \<leftarrow> cloud_send env (delete_request workerID); State_Monad.return (delete_result out) });
                case err of
                  Some e \<Rightarrow> State_Monad.return (Some (ErrWrap (''delete Hetzner worker '' @ workerID) e))
                | None \<Rightarrow>
                    if ac_ID deleted = 0 then State_Monad.return None
                    else do { err \<leftarrow> waitActions env a [deleted];
                              State_Monad.return (map_option (ErrWrap (''delete Hetzner worker '' @ workerID)) err) } })"

end
