(* ===== verification/Hetzner_Hosts.thy ===== *)
theory Hetzner_Hosts
  imports Hetzner_Adapter Pool_State
begin

text \<open>
  Hetzner Cloud servers as pool hosts (\<^verbatim>\<open>providers/hetzner/hostsource.go\<close>, \<^verbatim>\<open>providers/hetzner/prices.go\<close>):
  validation, prices, listing, creation with the firewall checked before power on, deletion after a check
  of the labels.

  The derivation of host keys, the random bytes of a name, the decimal text of a float and the size of an
  encoded cloud-init document are parameters of the configuration.
\<close>

section \<open>Configuration\<close>

record 'w hzPool =
  hp_api :: hzConfig
  hp_Pool :: string
  hp_HourlyPrice :: rat
  hp_Slots :: int
  hp_SlotCPUs :: rat
  hp_SlotMemoryMB :: int
  hp_Caches :: "string list"
  hp_MinFreeDiskGB :: int
  hp_HostKey :: "(string \<Rightarrow> goerr + string \<times> string) option"
  hp_AuthorizedKey :: string
  hp_RandRead :: "'w \<Rightarrow> (goerr + string) \<times> 'w"
  hp_FormatFloat :: "rat \<Rightarrow> string"
  hp_encodedSize :: "userData \<Rightarrow> int"

record 'w hzSource =
  hn_cfg :: "'w hzPool"
  hn_key :: "string \<Rightarrow> goerr + string \<times> string"
  hn_api :: hetzner
  hn_price :: rat

definition hourlyEUR :: "(string \<times> rat) list" where
  "hourlyEUR =
     [(''cx33'', 136 / 10000), (''cx53'', 473 / 10000), (''cpx22'', 312 / 10000), (''cpx32'', 569 / 10000), (''cpx42'', 1114 / 10000),
      (''ccx33'', 2219 / 10000)]"

definition HourlyPriceEUR :: "string \<Rightarrow> rat option" where
  "HourlyPriceEUR serverType = map_of hourlyEUR serverType"

definition plain_path :: "string \<Rightarrow> bool" where
  "plain_path path \<longleftrightarrow> \<not> (path = [] \<or> list_ex (\<lambda>c. c \<in> {CHR '' '', CHR 0x09, CHR 0x0D, CHR 0x0A, CHR 0x27, CHR 0x22}) path)"

definition hz_price :: "'w hzPool \<Rightarrow> goerr + rat" where
  "hz_price cfg =
     (if hp_HourlyPrice cfg < 0 then Inl (ErrText ''hourly price cannot be negative'')
      else if hp_HourlyPrice cfg = 0
      then (case HourlyPriceEUR (hk_ServerType (hp_api cfg)) of
              None \<Rightarrow> Inl (ErrText ''no listed price for server type; set hourly_price'')
            | Some listed \<Rightarrow> Inr listed)
      else Inr (hp_HourlyPrice cfg))"

definition hz_NewHostSource :: "'w hzPool \<Rightarrow> nat \<Rightarrow> goerr option \<Rightarrow> goerr + 'w hzSource" where
  "hz_NewHostSource cfg pages urlError =
     (if \<not> ValidName (hp_Pool cfg) then Inl (ErrText ''hetzner pool name must be lowercase letters, digits, and hyphens'')
      else (case hp_HostKey cfg of
          None \<Rightarrow> Inl (ErrText ''hetzner pool requires the controller SSH key'')
        | Some key \<Rightarrow>
            if trimSpace (hp_AuthorizedKey cfg) = [] then Inl (ErrText ''hetzner pool requires the controller SSH key'')
            else if hp_Slots cfg < 1 then Inl (ErrText ''hetzner pool requires at least one slot per host'')
            else if hp_SlotCPUs cfg < 0 \<or> hp_SlotMemoryMB cfg < 0 \<or> hp_MinFreeDiskGB cfg < 0
            then Inl (ErrText ''hetzner pool slot limits cannot be negative'')
            else if \<not> list_all plain_path (hp_Caches cfg) then Inl (ErrText ''hetzner pool cache path is not a plain path'')
            else (case hz_price cfg of
                    Inl err \<Rightarrow> Inl err
                  | Inr price \<Rightarrow>
                      (case hz_New (hp_api cfg) pages urlError of
                         Inl err \<Rightarrow> Inl (ErrWrap ''hetzner pool'' err)
                       | Inr api \<Rightarrow> Inr \<lparr>hn_cfg = cfg, hn_key = key, hn_api = api, hn_price = price\<rparr>))))"

definition hz_Facts :: "'w hzSource \<Rightarrow> facts" where
  "hz_Facts s = \<lparr>fa_Billing = BillingPerStartedHour, fa_HourlyPrice = hn_price s, fa_Currency = ''EUR'', fa_CanCreate = True\<rparr>"

section \<open>Ownership\<close>

definition host_selector :: "'w hzSource \<Rightarrow> string" where
  "host_selector s =
     poolHostKey @ ''=true,'' @ controllerIDKey @ ''='' @ hk_ControllerID (hp_api (hn_cfg s)) @ '','' @ poolNameKey @ ''='' @ hp_Pool (hn_cfg s)"

definition hz_owns :: "'w hzSource \<Rightarrow> server \<Rightarrow> bool" where
  "hz_owns s item \<longleftrightarrow>
     label_of (sv_Labels item) poolHostKey = ''true'' \<and> label_of (sv_Labels item) controllerIDKey = hk_ControllerID (hp_api (hn_cfg s))
     \<and> label_of (sv_Labels item) poolNameKey = hp_Pool (hn_cfg s) \<and> label_of (sv_Labels item) managedByKey = []"

definition hz_hostIDPrefix :: string where "hz_hostIDPrefix = ''hetzner-''"

definition hz_toHost :: "'w hzSource \<Rightarrow> server \<Rightarrow> goerr + host" where
  "hz_toHost s item =
     (case hn_key s (sv_Name item) of
        Inl err \<Rightarrow> Inl (ErrWrap (''derive host key of '' @ sv_Name item) err)
      | Inr (private, public) \<Rightarrow>
          Inr (zeroHost\<lparr>ho_ID := hz_hostIDPrefix @ itoa (sv_ID item), ho_HostKey := public, ho_CreatedAt := sv_CreatedAt item,
                 ho_State := sv_Status item, ho_Address := if sv_IPv4 item \<noteq> [] then JoinHostPort (sv_IPv4 item) ''22'' else []\<rparr>))"

fun hz_toHosts :: "'w hzSource \<Rightarrow> server list \<Rightarrow> goerr + host list" where
  "hz_toHosts s [] = Inr []"
| "hz_toHosts s (item # items) =
     (if \<not> hz_owns s item then hz_toHosts s items
      else (case hz_toHost s item of
              Inl err \<Rightarrow> Inl err
            | Inr h \<Rightarrow> (case hz_toHosts s items of Inl err \<Rightarrow> Inl err | Inr hs \<Rightarrow> Inr (h # hs))))"

definition hz_List :: "'w hzCloud \<Rightarrow> 'w hzSource \<Rightarrow> ('w hzSys, goerr + host list) state" where
  "hz_List env s =
     do { r \<leftarrow> eachServer env (hn_api s) (host_selector s);
          State_Monad.return (case r of Inl err \<Rightarrow> Inl err | Inr items \<Rightarrow> hz_toHosts s items) }"

section \<open>Creation\<close>

definition hz_newName :: "'w hzSource \<Rightarrow> ('w hzSys, goerr + string) state" where
  "hz_newName s =
     do { r \<leftarrow> cloud_do (hp_RandRead (hn_cfg s));
          State_Monad.return
            (case r of
               Inl err \<Rightarrow> Inl (ErrWrap ''name pool host'' err)
             | Inr bytes \<Rightarrow> Inr (''ry-'' @ hp_Pool (hn_cfg s) @ ''-'' @ hex_encode bytes)) }"

definition installedBinary :: string where "installedBinary = ''/usr/local/bin/runneryard''"

definition hostBootstrapScript :: string where
  \<open>hostBootstrapScript = strings_Join
     [''set -Eeuo pipefail'',
      ''image=$1'',
      ''shift'',
      ''for attempt in 1 2 3 4 5; do'',
      ''  docker pull "$image" && break'',
      ''  [ "$attempt" = 5 ] && exit 1'',
      ''  sleep 10'',
      ''done'',
      ''container=$(docker create "$image")'',
      ''trap '' @ [CHR 0x27] @ ''docker rm --force "$container" >/dev/null 2>&1 || true'' @ [CHR 0x27] @ '' EXIT'',
      ''docker cp "$container:'' @ installedBinary @ ''" '' @ installedBinary @ ''.new'',
      ''chmod 0755 '' @ installedBinary @ ''.new'',
      ''mv '' @ installedBinary @ ''.new '' @ installedBinary,
      installedBinary @ '' host install --image "$image" "$@"''] [CHR 0x0A]\<close>

definition bootstrap_args :: "'w hzSource \<Rightarrow> string \<Rightarrow> string \<Rightarrow> string list" where
  "bootstrap_args s img authorizedKey =
     (let cfg = hn_cfg s
      in [''bash'', ''-c'', hostBootstrapScript, ''runneryard-host-bootstrap'', img, ''--slots'', itoa (hp_Slots cfg),
          ''--authorized-key'', authorizedKey, ''--min-free-disk-gb'', itoa (hp_MinFreeDiskGB cfg), ''--harden-sshd'', ''--block-metadata'']
         @ (if hp_SlotCPUs cfg > 0 then [''--slot-cpus'', hp_FormatFloat cfg (hp_SlotCPUs cfg)] else [])
         @ (if hp_SlotMemoryMB cfg > 0 then [''--slot-memory-mb'', itoa (hp_SlotMemoryMB cfg)] else [])
         @ concat (map (\<lambda>path. [''--cache'', path]) (hp_Caches cfg)))"

definition renderHostCloudInit :: "'w hzSource \<Rightarrow> string \<Rightarrow> string \<Rightarrow> string \<Rightarrow> goerr + userData" where
  "renderHostCloudInit s privateKey publicKey img =
     (let authorizedKey = trimSpace (hp_AuthorizedKey (hn_cfg s))
      in if privateKey = [] \<or> publicKey = [] \<or> img = [] \<or> authorizedKey = []
         then Inl (ErrText ''host key, runner image, and controller key are required'')
         else (let document = HostInit False True True [] [(''ed25519_private'', privateKey), (''ed25519_public'', publicKey)]
                     [bootstrap_args s img authorizedKey]
               in if hp_encodedSize (hn_cfg s) document > 32 * 1024 then Inl (ErrText ''pool host user data is above 32 KiB'')
                  else Inr document))"

definition host_payload :: "'w hzSource \<Rightarrow> string \<Rightarrow> userData \<Rightarrow> createServerRequest" where
  "host_payload s name document =
     (let api = hp_api (hn_cfg s)
      in \<lparr>cq_Name = name, cq_ServerType = hk_ServerType api, cq_Image = hk_ServerImage api, cq_Location = hk_Location api,
          cq_UserData = document, cq_StartAfterCreate = False,
          cq_Labels = [(poolHostKey, ''true''), (controllerIDKey, hk_ControllerID api), (poolNameKey, hp_Pool (hn_cfg s))],
          cq_Firewalls = [hk_FirewallID api], cq_Networks = (if hk_NetworkID api > 0 then [hk_NetworkID api] else []),
          cq_EnableIPv4 = True, cq_EnableIPv6 = True\<rparr>)"

definition confirm_host :: "'w hzCloud \<Rightarrow> 'w hzSource \<Rightarrow> int \<Rightarrow> ('w hzSys, goerr + server) state" where
  "confirm_host env s n =
     do { (running, err) \<leftarrow> hz_doJSON env (plain_request MethodGet (server_path n)) hb_server zeroServer;
          State_Monad.return
            (case err of
               Some e \<Rightarrow> Inl (ErrWrap ''confirm power on'' e)
             | None \<Rightarrow>
                 if \<not> hz_owns s running then Inl (ErrText ''created server does not carry the pool labels'') else Inr running) }"

definition power_on_host :: "'w hzCloud \<Rightarrow> 'w hzSource \<Rightarrow> int \<Rightarrow> ('w hzSys, goerr + server) state" where
  "power_on_host env s n =
     do { (poweredOn, err) \<leftarrow> hz_doJSON env (poweron_request n) hb_action zeroAction;
          case err of
            Some e \<Rightarrow> State_Monad.return (Inl (ErrWrap ''power on'' e))
          | None \<Rightarrow>
              do { err \<leftarrow> waitActions env (hn_api s) [poweredOn];
                   case err of Some e \<Rightarrow> State_Monad.return (Inl (ErrWrap ''power on'' e)) | None \<Rightarrow> confirm_host env s n } }"

definition hz_qualify :: "'w hzCloud \<Rightarrow> 'w hzSource \<Rightarrow> createServerResponse \<Rightarrow> ('w hzSys, goerr + server) state" where
  "hz_qualify env s created =
     (let n = sv_ID (cp_Server created); firewallID = hk_FirewallID (hp_api (hn_cfg s))
      in do { err \<leftarrow> waitActions env (hn_api s) (cp_Action created # cp_NextActions created);
              case err of
                Some e \<Rightarrow> State_Monad.return (Inl e)
              | None \<Rightarrow>
                  do { (qualified, err) \<leftarrow> hz_doJSON env (plain_request MethodGet (server_path n)) hb_server zeroServer;
                       case err of
                         Some e \<Rightarrow> State_Monad.return (Inl (ErrWrap ''verify firewall'' e))
                       | None \<Rightarrow>
                           if \<not> firewallApplied qualified firewallID
                           then State_Monad.return (Inl (ErrText (''required firewall '' @ itoa firewallID @ '' is not applied'')))
                           else power_on_host env s n } })"

definition hz_discard :: "'w hzCloud \<Rightarrow> 'w hzSource \<Rightarrow> int \<Rightarrow> ('w hzSys, goerr option) state" where
  "hz_discard env s n =
     do { err \<leftarrow> hz_Destroy env (hn_api s) (itoa n); State_Monad.return (map_option (ErrWrap ''delete failed pool host'') err) }"

text \<open>\<^verbatim>\<open>errors.Join(err, s.discard(...))\<close>.\<close>

definition hz_give_up :: "'w hzCloud \<Rightarrow> 'w hzSource \<Rightarrow> goerr \<Rightarrow> int \<Rightarrow> ('w hzSys, goerr + host) state" where
  "hz_give_up env s e n =
     do { err \<leftarrow> hz_discard env s n; State_Monad.return (Inl (ErrJoin (e # (case err of None \<Rightarrow> [] | Some d \<Rightarrow> [d])))) }"

definition hz_create_named :: "'w hzCloud \<Rightarrow> 'w hzSource \<Rightarrow> string \<Rightarrow> userData \<Rightarrow> ('w hzSys, goerr + host) state" where
  "hz_create_named env s name document =
     do { waited \<leftarrow> cloud_do (cl_wait env);
          case waited of
            Some err \<Rightarrow> State_Monad.return (Inl err)
          | None \<Rightarrow>
              do { (created, err) \<leftarrow> hz_doJSON env (create_request (host_payload s name document)) hb_created zeroCreated;
                   case err of
                     Some e \<Rightarrow>
                       (let e = ErrWrap (''create Hetzner pool host '' @ name) e
                        in if sv_ID (cp_Server created) \<noteq> 0 then hz_give_up env s e (sv_ID (cp_Server created))
                           else State_Monad.return (Inl e))
                   | None \<Rightarrow>
                       if sv_ID (cp_Server created) = 0
                       then State_Monad.return (Inl (ErrText (''create Hetzner pool host '' @ name @ '': response did not include a server id'')))
                       else do { r \<leftarrow> hz_qualify env s created;
                                 case r of
                                   Inl e \<Rightarrow> hz_give_up env s (ErrWrap (''prepare Hetzner pool host '' @ name) e) (sv_ID (cp_Server created))
                                 | Inr running \<Rightarrow> State_Monad.return (hz_toHost s running) } } }"

definition hz_Create :: "'w hzCloud \<Rightarrow> 'w hzSource \<Rightarrow> string \<Rightarrow> ('w hzSys, goerr + host) state" where
  "hz_Create env s img =
     do { named \<leftarrow> hz_newName s;
          case named of
            Inl err \<Rightarrow> State_Monad.return (Inl err)
          | Inr name \<Rightarrow>
              (case hn_key s name of
                 Inl err \<Rightarrow> State_Monad.return (Inl (ErrWrap (''derive host key of '' @ name) err))
               | Inr (privateKey, publicKey) \<Rightarrow>
                   (case renderHostCloudInit s privateKey publicKey img of
                      Inl err \<Rightarrow> State_Monad.return (Inl (ErrWrap ''render pool host bootstrap'' err))
                    | Inr document \<Rightarrow> hz_create_named env s name document)) }"

section \<open>Deletion\<close>

definition host_server_id :: "string \<Rightarrow> string option" where
  "host_server_id hostID =
     (case cut_prefix hz_hostIDPrefix hostID of
        None \<Rightarrow> None
      | Some raw \<Rightarrow> (case strconv_Atoi raw of None \<Rightarrow> None | Some n \<Rightarrow> if n < 1 then None else Some raw))"

definition hz_Delete :: "'w hzCloud \<Rightarrow> 'w hzSource \<Rightarrow> string \<Rightarrow> ('w hzSys, goerr option) state" where
  "hz_Delete env s hostID =
     (case host_server_id hostID of
        None \<Rightarrow> State_Monad.return (Some (ErrText ''invalid Hetzner pool host id''))
      | Some raw \<Rightarrow>
          do { (current, err) \<leftarrow> hz_retried env (plain_request MethodGet [''servers'', raw]) hb_server zeroServer;
               case err of
                 Some e \<Rightarrow>
                   State_Monad.return (if status_is 404 err then None else Some (ErrWrap (''look up Hetzner pool host '' @ hostID) e))
               | None \<Rightarrow>
                   if \<not> hz_owns s current then State_Monad.return (Some (ErrText (''refusing to delete Hetzner server '' @ raw)))
                   else hz_Destroy env (hn_api s) raw })"

end
