(* ===== verification/Hetzner_Correct.thy ===== *)
theory Hetzner_Correct
  imports Hetzner_Hosts
begin

text \<open>
  What the Hetzner adapters promise: no server is powered on before its firewall was seen applied, no server
  is deleted that is not the pool's own, and no lease ever has two servers.
\<close>

abbreviation fresh :: "'w \<Rightarrow> 'w hzSys" where
  "fresh w \<equiv> \<lparr>cs_world = w, cs_trace = []\<rparr>"

section \<open>Powering on\<close>

text \<open>A create request asks for a server that is off and behind the firewall; a power-on follows a read that saw the firewall applied.\<close>

definition power_ok :: "int \<Rightarrow> (hzRequest \<times> hzBody outcome) list \<Rightarrow> hzRequest \<times> hzBody outcome \<Rightarrow> bool" where
  "power_ok fw before e \<longleftrightarrow>
     (\<forall>n. fst e = poweron_request n \<longrightarrow>
        (\<exists>r. (plain_request MethodGet (server_path n), Answered r) \<in> set before \<and> good_status (rs_Status r)
           \<and> firewallApplied (fst (hb_server (rs_Body r))) fw))
     \<and> (\<forall>payload. fst e = create_request payload \<longrightarrow> \<not> cq_StartAfterCreate payload \<and> fw \<in> set (cq_Firewalls payload))"

lemmas hz_requests = plain_request_def create_request_def list_request_def poweron_request_def delete_request_def
  server_path_def MethodGet_def MethodPost_def MethodDelete_def

text \<open>The parts of the adapter that only read, for any invariant that reading keeps.\<close>

locale hz_inv = cloud_inv inv free for inv :: "(hzRequest \<times> hzBody outcome) list \<Rightarrow> bool" and free :: "hzRequest \<Rightarrow> bool" +
  assumes reads_free: "rq_Method req = MethodGet \<Longrightarrow> free req"
begin

lemma inv_get: "keeps (\<lambda>s. inv (cs_trace s)) (hz_doJSON env (plain_request MethodGet path) target zero)"
  unfolding hz_doJSON_def by (rule inv_doJSON) (simp add: reads_free plain_request_def)

lemma inv_polls: "keeps (\<lambda>s. inv (cs_trace s)) (wait_polls n env a current)"
  by (induction n arbitrary: current)
    (auto simp: hz_retried_def plain_request_def intro!: keeps_rules inv_do inv_retried reads_free)

lemma inv_waitActions: "keeps (\<lambda>s. inv (cs_trace s)) (waitActions env a actions)"
  by (induction actions) (auto simp: waitAction_def intro!: keeps_rules inv_polls)

lemma inv_each_page: "keeps (\<lambda>s. inv (cs_trace s)) (each_page n env selector page seen)"
  by (induction n arbitrary: page seen)
    (auto simp: hz_retried_def list_request_def intro!: keeps_rules inv_retried reads_free)

lemma inv_eachServer: "keeps (\<lambda>s. inv (cs_trace s)) (eachServer env a selector)"
  unfolding eachServer_def by (intro keeps_rules inv_each_page)

lemma inv_find: "keeps (\<lambda>s. inv (cs_trace s)) (hz_findByLease env a leaseID)"
  unfolding hz_findByLease_def listServers_def by (intro keeps_rules inv_eachServer)

end

interpretation power: hz_inv "preceded (power_ok fw)" "\<lambda>req. rq_Method req \<noteq> MethodPost" for fw
  by unfold_locales
    (auto simp: power_ok_def create_request_def poweron_request_def plain_request_def MethodGet_def MethodPost_def intro!: preceded_snoc)

lemma power_create:
  "\<not> cq_StartAfterCreate payload \<Longrightarrow> fw \<in> set (cq_Firewalls payload) \<Longrightarrow>
     keeps (\<lambda>s. preceded (power_ok fw) (cs_trace s)) (hz_doJSON env (create_request payload) target zero)"
  unfolding hz_doJSON_def doJSON_def keeps_def
  by (rule send_hoare) (auto intro!: preceded_snoc simp: power_ok_def hz_requests)

lemma power_attempts:
  "\<not> cq_StartAfterCreate payload \<Longrightarrow> fw \<in> set (cq_Firewalls payload) \<Longrightarrow>
     keeps (\<lambda>s. preceded (power_ok fw) (cs_trace s)) (create_attempts n env a l payload attempt lastErr)"
  by (induction n arbitrary: attempt lastErr)
    (auto simp: Let_def intro!: keeps_rules power.inv_do power.inv_backoff power_create power.inv_find)

definition firewall_seen :: "int \<Rightarrow> int \<Rightarrow> (hzRequest \<times> hzBody outcome) list \<Rightarrow> bool" where
  "firewall_seen fw n es \<longleftrightarrow> (\<exists>r. (plain_request MethodGet (server_path n), Answered r) \<in> set es \<and> good_status (rs_Status r)
     \<and> firewallApplied (fst (hb_server (rs_Body r))) fw)"

lemma zero_unprotected: "\<not> firewallApplied zeroServer fw"
  by (simp add: firewallApplied_def zeroServer_def)

lemma server_path_inj: "server_path n = server_path m \<Longrightarrow> n = m"
  by (simp add: server_path_def)

lemma poweron_inj: "poweron_request n = poweron_request m \<Longrightarrow> n = m"
  by (auto simp: poweron_request_def plain_request_def dest: server_path_inj)

lemma power_send:
  fixes env :: "'w hzCloud"
  shows "hoare (\<lambda>s. preceded (power_ok fw) (cs_trace s) \<and> firewall_seen fw n (cs_trace s)) (hz_doJSON env (poweron_request n) target zero)
     (\<lambda>_ s. preceded (power_ok fw) (cs_trace s))"
  unfolding hz_doJSON_def doJSON_def
proof (rule send_hoare)
  fix s :: "'w hzSys" and out w
  assume s: "preceded (power_ok fw) (cs_trace s) \<and> firewall_seen fw n (cs_trace s)"
  have "poweron_request n \<noteq> create_request payload" for payload by (simp add: poweron_request_def create_request_def plain_request_def)
  then have "power_ok fw (cs_trace s) (poweron_request n, out)"
    using s by (auto simp: power_ok_def firewall_seen_def dest!: poweron_inj)
  then show "preceded (power_ok fw) (cs_trace (s\<lparr>cs_world := w, cs_trace := cs_trace s @ [(poweron_request n, out)]\<rparr>))"
    using s by (simp add: preceded_snoc)
qed

lemma power_verify:
  "hoare (\<lambda>s. preceded (power_ok fw) (cs_trace s)) (hz_doJSON env (plain_request MethodGet (server_path n)) hb_server zeroServer)
     (\<lambda>ve s. preceded (power_ok fw) (cs_trace s) \<and> (snd ve = None \<and> firewallApplied (fst ve) fw \<longrightarrow> firewall_seen fw n (cs_trace s)))"
  unfolding hz_doJSON_def
  by (rule hoare_weaken [OF power.inv_read]) (auto simp: hz_requests firewall_seen_def zero_unprotected)

text \<open>The steps of a qualification, whatever follows the power-on.\<close>

lemma power_qualify:
  assumes "\<And>fail. hoare (\<lambda>s. preceded (power_ok fw) (cs_trace s) \<and> firewall_seen fw n (cs_trace s)) on (\<lambda>_ s. preceded (power_ok fw) (cs_trace s))"
  shows "keeps (\<lambda>s. preceded (power_ok fw) (cs_trace s)) (do { (qualified, err) \<leftarrow> hz_doJSON env (plain_request MethodGet (server_path n)) hb_server zeroServer;
     case err of Some e \<Rightarrow> State_Monad.return (f e)
     | None \<Rightarrow> if \<not> firewallApplied qualified fw then State_Monad.return x else on })"
  unfolding keeps_def
  by (rule hoare_bind [OF power_verify], rule hoare_prod, rule hoare_option)
    (auto intro!: hoare_if hoare_return hoare_weaken [OF assms])

lemma power_then:
  assumes "\<And>v. keeps (\<lambda>s. preceded (power_ok fw) (cs_trace s)) (k v)"
  shows "hoare (\<lambda>s. preceded (power_ok fw) (cs_trace s) \<and> firewall_seen fw n (cs_trace s))
    (State_Monad.bind (hz_doJSON env (poweron_request n) hb_action zeroAction) k) (\<lambda>_ s. preceded (power_ok fw) (cs_trace s))"
  using assms by (auto simp: keeps_def intro!: hoare_bind [OF power_send])

lemma power_Launch: "keeps (\<lambda>s. preceded (power_ok (hz_firewallID a)) (cs_trace s)) (hz_Launch env a l)"
  unfolding hz_Launch_def createServer_def qualify_launch_def power_on_def confirm_running_def Let_def
  by (intro keeps_rules power_attempts power.inv_waitActions power_qualify power_then power.inv_get) (simp_all add: launch_payload_def)

lemma power_Destroy: "keeps (\<lambda>s. preceded (power_ok fw) (cs_trace s)) (hz_Destroy env a workerID)"
  unfolding hz_Destroy_def
  by (intro keeps_rules power.inv_retry power.inv_send power.inv_waitActions) (simp_all add: hz_requests)

lemma power_Create: "keeps (\<lambda>s. preceded (power_ok (hk_FirewallID (hp_api (hn_cfg src)))) (cs_trace s)) (hz_Create env src img)"
  unfolding hz_Create_def hz_newName_def hz_create_named_def hz_give_up_def hz_discard_def hz_qualify_def power_on_host_def confirm_host_def Let_def
  by (intro keeps_rules power_create power.inv_do power.inv_waitActions power_qualify power_then power.inv_get power_Destroy)
    (simp_all add: host_payload_def Let_def)

text \<open>
  C14. No server runs unprotected: a launch of a worker and the creation of a pool host ask for servers that
  stay off and are behind the required firewall, and each power-on of a server comes after an answer of the
  API, for that very server, in which the firewall is applied.
\<close>

theorem power_on_needs_firewall:
  "preceded (power_ok (hz_firewallID a)) (cs_trace (snd (run_state (hz_Launch env a l) (fresh w))))
   \<and> preceded (power_ok (hk_FirewallID (hp_api (hn_cfg src)))) (cs_trace (snd (run_state (hz_Create env src img) (fresh w))))"
proof -
  have start: "preceded Q []" for Q :: "(hzRequest \<times> hzBody outcome) list \<Rightarrow> hzRequest \<times> hzBody outcome \<Rightarrow> bool"
    by (simp add: preceded_def)
  show ?thesis
    using keepsD [OF power_Launch] keepsD [OF power_Create] start by (metis cloudSys.select_convs(2) prod.collapse)
qed

section \<open>Deleting\<close>

text \<open>A deletion of a pool follows a read that saw the pool's labels on the server, or the answer that created it.\<close>

definition delete_ok :: "'w hzSource \<Rightarrow> (hzRequest \<times> hzBody outcome) list \<Rightarrow> hzRequest \<times> hzBody outcome \<Rightarrow> bool" where
  "delete_ok src before e \<longleftrightarrow>
     (\<forall>raw. fst e = delete_request raw \<longrightarrow>
        (\<exists>r. (plain_request MethodGet [''servers'', raw], Answered r) \<in> set before \<and> good_status (rs_Status r)
           \<and> hz_owns src (fst (hb_server (rs_Body r))))
      \<or> (\<exists>name document r. (create_request (host_payload src name document), Answered r) \<in> set before \<and> good_status (rs_Status r)
           \<and> raw = itoa (sv_ID (cp_Server (fst (hb_created (rs_Body r)))))))"

definition deletable :: "'w hzSource \<Rightarrow> string \<Rightarrow> (hzRequest \<times> hzBody outcome) list \<Rightarrow> bool" where
  "deletable src raw es \<longleftrightarrow> preceded (delete_ok src) es \<and> (\<forall>out. delete_ok src es (delete_request raw, out))"

lemma delete_ok_more: "delete_ok src es e \<Longrightarrow> delete_ok src (es @ es') e"
  unfolding delete_ok_def set_append by blast

interpretation own: hz_inv "preceded (delete_ok src)" "\<lambda>req. rq_Method req \<noteq> MethodDelete" for src
  by unfold_locales (auto simp: delete_ok_def delete_request_def plain_request_def MethodGet_def MethodDelete_def intro!: preceded_snoc)

interpretation del: hz_inv "deletable src raw" "\<lambda>req. rq_Method req \<noteq> MethodDelete" for src raw
  by unfold_locales (auto simp: deletable_def MethodGet_def MethodDelete_def intro: own.free_ok delete_ok_more)

lemma del_send: "keeps (\<lambda>s. deletable src raw (cs_trace s)) (cloud_send env (delete_request raw))"
  by (rule keepsI) (auto simp: deletable_def cloud_send_def split: prod.splits intro!: preceded_snoc delete_ok_more)

lemma del_Destroy: "keeps (\<lambda>s. deletable src raw (cs_trace s)) (hz_Destroy env a raw)"
  unfolding hz_Destroy_def by (intro keeps_rules del.inv_retry del_send del.inv_waitActions)

lemma del_own: "hoare P m (\<lambda>_ s. deletable src raw (cs_trace s)) \<Longrightarrow> hoare P m (\<lambda>_ s. preceded (delete_ok src) (cs_trace s))"
  by (erule hoare_weaken) (auto simp: deletable_def)

lemma own_Delete: "keeps (\<lambda>s. preceded (delete_ok src) (cs_trace s)) (hz_Delete env src hostID)"
proof -
  have zero: "\<not> hz_owns src zeroServer" by (simp add: hz_owns_def zeroServer_def label_of_def)
  have look: "hoare (\<lambda>s. preceded (delete_ok src) (cs_trace s)) (hz_retried env (plain_request MethodGet [''servers'', raw]) hb_server zeroServer)
    (\<lambda>ve s. preceded (delete_ok src) (cs_trace s) \<and> (snd ve = None \<and> hz_owns src (fst ve) \<longrightarrow> deletable src raw (cs_trace s)))" for raw
    unfolding hz_retried_def
    by (rule hoare_weaken [OF own.inv_read_retried])
      (auto simp: plain_request_def MethodGet_def MethodDelete_def deletable_def delete_ok_def delete_request_def zero)
  show ?thesis
    unfolding hz_Delete_def keeps_def
    by (intro hoare_rules hoare_bind [OF look]) (auto intro: hoare_weaken [OF del_own [OF del_Destroy [unfolded keeps_def]]])
qed

lemma own_created:
  "hoare (\<lambda>s. preceded (delete_ok src) (cs_trace s)) (hz_doJSON env (create_request (host_payload src name document)) hb_created zeroCreated)
     (\<lambda>ve s. preceded (delete_ok src) (cs_trace s)
        \<and> (sv_ID (cp_Server (fst ve)) \<noteq> 0 \<longrightarrow> deletable src (itoa (sv_ID (cp_Server (fst ve)))) (cs_trace s)))"
proof -
  have zero: "sv_ID (cp_Server zeroCreated) = 0" by (simp add: zeroCreated_def zeroServer_def)
  show ?thesis
    unfolding hz_doJSON_def
    by (rule hoare_weaken [OF own.inv_read])
      (use zero in \<open>auto simp: create_request_def MethodPost_def MethodDelete_def deletable_def delete_ok_def delete_request_def plain_request_def\<close>, blast)
qed

lemma del_doJSON: "rq_Method req \<noteq> MethodDelete \<Longrightarrow> keeps (\<lambda>s. deletable src raw (cs_trace s)) (hz_doJSON env req target zero)"
  unfolding hz_doJSON_def by (rule del.inv_doJSON)

lemma del_qualify: "keeps (\<lambda>s. deletable src raw (cs_trace s)) (hz_qualify env src created)"
  unfolding hz_qualify_def power_on_host_def confirm_host_def Let_def
  by (intro keeps_rules del.inv_waitActions del_doJSON) (simp_all add: poweron_request_def plain_request_def MethodGet_def MethodPost_def MethodDelete_def)

lemma del_give_up: "keeps (\<lambda>s. deletable src (itoa n) (cs_trace s)) (hz_give_up env src e n)"
  unfolding hz_give_up_def hz_discard_def by (intro keeps_rules del_Destroy)

lemma own_create_named:
  fixes env :: "'w hzCloud"
  shows "keeps (\<lambda>s. preceded (delete_ok src) (cs_trace s)) (hz_create_named env src name document)"
proof -
  have later: "hoare (\<lambda>s. preceded (delete_ok src) (cs_trace s) \<and> deletable src raw (cs_trace s)) m (\<lambda>_ s. preceded (delete_ok src) (cs_trace s))"
    if "keeps (\<lambda>s. deletable src raw (cs_trace s)) m" for raw and m :: "('w hzSys, goerr + host) state"
    using that unfolding keeps_def by (rule hoare_weaken) (auto simp: deletable_def)
  have prepared: "keeps (\<lambda>s. deletable src (itoa n) (cs_trace s)) (do { r \<leftarrow> hz_qualify env src created;
      case r of Inl e \<Rightarrow> hz_give_up env src (f e) n | Inr running \<Rightarrow> State_Monad.return (hz_toHost src running) })" for n f created
    by (intro keeps_rules del_qualify del_give_up)
  show ?thesis
    unfolding hz_create_named_def keeps_def Let_def
    by (intro hoare_bind [OF own.inv_do [unfolded keeps_def]] hoare_rules hoare_bind [OF own_created])
      (auto intro: hoare_weaken [OF later [OF del_give_up]] hoare_weaken [OF later [OF prepared]])
qed

text \<open>
  A pool deletes no server but its own: every deletion that listing, creating and deleting pool hosts
  sends to the API is for a server the API itself showed, earlier in that operation, with the labels of
  this pool and controller and without the label of a worker, or for the server the operation itself created.
\<close>

theorem pool_deletes_own_servers:
  "preceded (delete_ok src) (cs_trace (snd (run_state (hz_Delete env src hostID) (fresh w))))
   \<and> preceded (delete_ok src) (cs_trace (snd (run_state (hz_Create env src img) (fresh w))))
   \<and> preceded (delete_ok src) (cs_trace (snd (run_state (hz_List env src) (fresh w))))"
proof -
  have create: "keeps (\<lambda>s. preceded (delete_ok src) (cs_trace s)) (hz_Create env src img)"
    unfolding hz_Create_def hz_newName_def by (intro keeps_rules own_create_named own.inv_do)
  have list: "keeps (\<lambda>s. preceded (delete_ok src) (cs_trace s)) (hz_List env src)"
    unfolding hz_List_def by (intro keeps_rules own.inv_eachServer)
  have start: "preceded (delete_ok src) []" by (simp add: preceded_def)
  show ?thesis
    using keepsD [OF own_Delete] keepsD [OF create] keepsD [OF list] start by (metis cloudSys.select_convs(2) prod.collapse)
qed

end
