(* ===== verification/Hetzner_Lease.thy ===== *)
theory Hetzner_Lease
  imports Hetzner_Correct
begin

text \<open>
  One server per lease at Hetzner: what the launch of a worker leaves in the project, whatever answers get
  lost, given what the API documents.
\<close>

section \<open>The documented API\<close>

text \<open>
  \<open>servers\<close> shows the servers of the project, by id with their labels.  A create request adds at most one
  server with the labels asked for, and an answer that names a server names that one; an answer may get lost,
  or be an error, whether or not the server was made.  Nothing but a deletion removes servers.  A listing has
  the servers that carry the labels of the selector, fifty a page; a read of a server answers with that one.
\<close>

definition selector_pairs :: "string \<Rightarrow> (string \<times> string) list" where
  "selector_pairs selector =
     map (\<lambda>p. case strings_Cut (CHR ''='') p of Some kv \<Rightarrow> kv | None \<Rightarrow> (p, [])) (split_on (CHR '','') [] selector)"

definition selected :: "string \<Rightarrow> int \<times> string gomap \<Rightarrow> bool" where
  "selected selector p \<longleftrightarrow> list_all (\<lambda>(k, v). map_of (snd p) k = Some v) (selector_pairs selector)"

definition ident :: "server \<Rightarrow> int \<times> string gomap" where
  "ident item = (sv_ID item, sv_Labels item)"

definition create_effect :: "createServerRequest \<Rightarrow> hzBody outcome \<Rightarrow> (int \<times> string gomap) list \<Rightarrow> (int \<times> string gomap) list \<Rightarrow> bool" where
  "create_effect payload out before after \<longleftrightarrow>
     (after = before \<or> (\<exists>i. after = before @ [(i, cq_Labels payload)]))
     \<and> (\<forall>r. out = Answered r \<and> good_status (rs_Status r) \<and> sv_ID (cp_Server (fst (hb_created (rs_Body r)))) \<noteq> 0 \<longrightarrow>
          after = before @ [(sv_ID (cp_Server (fst (hb_created (rs_Body r)))), cq_Labels payload)])"

definition page_answer :: "string \<Rightarrow> int \<Rightarrow> server list \<times> int option \<Rightarrow> (int \<times> string gomap) list \<Rightarrow> bool" where
  "page_answer selector page answer held \<longleftrightarrow>
     (let ms = filter (selected selector) held
      in map ident (fst answer) = take 50 (drop (50 * (nat page - 1)) ms)
         \<and> snd answer = (if int (length ms) > 50 * page then Some (page + 1) else None))"

definition read_answer :: "hzRequest \<Rightarrow> hzBody \<Rightarrow> (int \<times> string gomap) list \<Rightarrow> bool" where
  "read_answer req body held \<longleftrightarrow>
     (\<forall>n. req = plain_request MethodGet (server_path n) \<and> snd (hb_server body) = None \<longrightarrow> sv_ID (fst (hb_server body)) = n)
     \<and> (\<forall>selector page. req = list_request selector page \<and> 1 \<le> page \<and> snd (hb_page body) = None \<longrightarrow>
          page_answer selector page (fst (hb_page body)) held)"

definition request_effect :: "hzRequest \<Rightarrow> hzBody outcome \<Rightarrow> (int \<times> string gomap) list \<Rightarrow> (int \<times> string gomap) list \<Rightarrow> bool" where
  "request_effect req out before after \<longleftrightarrow>
     (\<forall>payload. req = create_request payload \<longrightarrow> create_effect payload out before after)
     \<and> (rq_Body req = None \<and> rq_Method req \<noteq> MethodDelete \<longrightarrow> after = before)
     \<and> (\<forall>r. out = Answered r \<and> rq_Method req = MethodGet \<and> good_status (rs_Status r) \<longrightarrow>
          rs_Status r \<noteq> 204 \<and> read_answer req (rs_Body r) before)"

definition hz_spec :: "'w hzCloud \<Rightarrow> ('w \<Rightarrow> (int \<times> string gomap) list) \<Rightarrow> bool" where
  "hz_spec env servers \<longleftrightarrow>
     calm env servers \<and> (\<forall>w e. fst (cl_wait env w) = Some e \<longrightarrow> context_error e)
     \<and> (\<forall>req w out w'. cl_http env req w = (out, w') \<longrightarrow> request_effect req out (servers w) (servers w'))"

abbreviation having :: "('w \<Rightarrow> 'h) \<Rightarrow> 'h \<Rightarrow> 'w hzSys \<Rightarrow> bool" where
  "having held h \<equiv> \<lambda>s. held (cs_world s) = h"

section \<open>Reading\<close>

lemma spec_calm: "hz_spec env servers \<Longrightarrow> calm env servers"
  by (simp add: hz_spec_def)

lemma spec_effect: "hz_spec env servers \<Longrightarrow> cl_http env req w = (out, w') \<Longrightarrow> request_effect req out (servers w) (servers w')"
  unfolding hz_spec_def by blast

lemma spec_pacing:
  assumes "hz_spec env servers"
  shows "keeps (having servers H) (cloud_do (cl_wait env))" "keeps (having servers H) (cloud_do (cl_sleep env d))"
    "keeps (having servers H) (backoff_sleep env attempt)"
  using pacing_keeps [OF spec_calm [OF assms], where P = "\<lambda>h _. h = H"] by simp_all

lemma still_send:
  assumes "hz_spec env servers" and "rq_Body req = None" and "rq_Method req \<noteq> MethodDelete"
  shows "keeps (having servers H) (cloud_send env req)"
  using spec_effect [OF assms(1)] assms(2,3) by (auto simp: cloud_send_def request_effect_def split: prod.splits intro!: keepsI)

lemma still_doJSON:
  assumes "hz_spec env servers" and "rq_Body req = None" and "rq_Method req \<noteq> MethodDelete"
  shows "keeps (having servers H) (hz_doJSON env req target zero)"
  unfolding hz_doJSON_def doJSON_def by (intro keeps_rules still_send assms)

lemma still_retried:
  assumes "hz_spec env servers" and "rq_Body req = None" and "rq_Method req \<noteq> MethodDelete"
  shows "keeps (having servers H) (hz_retried env req target zero)"
  unfolding hz_retried_def retried_def
  by (rule retry_keeps [OF spec_calm [OF assms(1)], where P = "\<lambda>h _. h = H"]) (rule still_doJSON [OF assms, unfolded hz_doJSON_def])

lemma still_polls: "hz_spec env servers \<Longrightarrow> keeps (having servers H) (wait_polls n env a current)"
  by (induction n arbitrary: current)
    (auto simp: plain_request_def MethodGet_def MethodDelete_def intro!: keeps_rules spec_pacing still_retried)

lemma still_waitActions: "hz_spec env servers \<Longrightarrow> keeps (having servers H) (waitActions env a actions)"
  by (induction actions) (auto simp: waitAction_def intro!: keeps_rules still_polls)

text \<open>A successful read tells what the API documents.\<close>

lemma read_triple:
  fixes env :: "'w hzCloud"
  assumes "hz_spec env servers" and "rq_Body req = None" and "rq_Method req = MethodGet"
    and "\<And>body. read_answer req body H \<Longrightarrow> snd (target body) = None \<Longrightarrow> R (fst (target body))"
  shows "hoare (having servers H) (doJSON env hz_responseError req target zero) (\<lambda>ve s. servers (cs_world s) = H \<and> (snd ve = None \<longrightarrow> R (fst ve)))"
  unfolding doJSON_def
proof (rule send_hoare)
  fix s :: "'w hzSys" and out w
  assume s: "servers (cs_world s) = H" "cl_http env req (cs_world s) = (out, w)"
  have eff: "request_effect req out H (servers w)" using spec_effect [OF assms(1) s(2)] s(1) by simp
  have "R (fst (json_result hz_responseError target zero out))" if none: "snd (json_result hz_responseError target zero out) = None"
  proof (cases out)
    case (Answered r)
    then have good: "good_status (rs_Status r)" using none by (auto simp: json_result_def split: if_splits)
    then have "rs_Status r \<noteq> 204" "read_answer req (rs_Body r) H" using eff Answered assms(3) by (auto simp: request_effect_def)
    then show ?thesis using none Answered good assms(4) [of "rs_Body r"] by (auto simp: json_result_def split: prod.splits)
  qed (use none in \<open>auto simp: json_result_def ClassifyRequestError_def Transient_def split: if_splits option.splits\<close>)
  moreover have "servers w = H" using eff assms(2,3) by (simp add: request_effect_def MethodGet_def MethodDelete_def)
  ultimately show "servers (cs_world (s\<lparr>cs_world := w, cs_trace := cs_trace s @ [(req, out)]\<rparr>)) = H
    \<and> (snd (json_result hz_responseError target zero out) = None \<longrightarrow> R (fst (json_result hz_responseError target zero out)))" by simp
qed

lemma read_retried_triple:
  assumes "hz_spec env servers" and "rq_Body req = None" and "rq_Method req = MethodGet"
    and "\<And>body. read_answer req body H \<Longrightarrow> snd (target body) = None \<Longrightarrow> R (fst (target body))"
  shows "hoare (having servers H) (hz_retried env req target zero) (\<lambda>ve s. servers (cs_world s) = H \<and> (snd ve = None \<longrightarrow> R (fst ve)))"
proof -
  have "hoare (having servers H) (doJSON env hz_responseError req target zero) (\<lambda>ve s. servers (cs_world s) = H \<and> (snd ve = None \<longrightarrow> R (fst ve)))"
    by (rule read_triple [OF assms(1-3)]) (rule assms(4))
  from retried_hoare [OF spec_calm [OF assms(1)], where P = "\<lambda>h _. h = H", where Q = "\<lambda>v err s. servers (cs_world s) = H \<and> (err = None \<longrightarrow> R v)", OF this]
  show ?thesis unfolding hz_retried_def retried_def by (rule hoare_weaken) auto
qed

section \<open>Listing\<close>

lemma label_pair: "CHR '','' \<notin> set p \<Longrightarrow> strings_Cut (CHR ''='') p = Some kv \<Longrightarrow> selector_pairs p = [kv]"
  by (simp add: selector_pairs_def split_on_tail)

lemma selector_more:
  "CHR '','' \<notin> set p \<Longrightarrow> strings_Cut (CHR ''='') p = Some kv \<Longrightarrow> selector_pairs (p @ '','' @ rest) = kv # selector_pairs rest"
  by (simp add: selector_pairs_def split_on_block)

lemma safe_comma: "safeLabel v \<Longrightarrow> CHR '','' \<notin> set v"
  by (auto simp: safeLabel_def safe_token_def is_alnum_def is_alpha_def is_digit_def list_all_iff split: list.splits)

lemma keys_plain:
  "CHR ''='' \<notin> set managedByKey" "CHR ''='' \<notin> set controllerIDKey" "CHR ''='' \<notin> set leaseIDKey"
  "CHR '','' \<notin> set managedByKey" "CHR '','' \<notin> set controllerIDKey" "CHR '','' \<notin> set leaseIDKey"
  by (simp_all add: managedByKey_def controllerIDKey_def leaseIDKey_def)

lemma lease_selector:
  assumes "safeLabel (hz_controllerID a)" and "safeLabel leaseID"
  shows "selector_pairs (owned_selector a @ '','' @ leaseIDKey @ ''='' @ leaseID)
    = [(managedByKey, ''true''), (controllerIDKey, hz_controllerID a), (leaseIDKey, leaseID)]"
proof -
  have managed: "strings_Cut (CHR ''='') (managedByKey @ ''=true'') = Some (managedByKey, ''true'')"
    using cut_at_block [OF keys_plain(1), of "''true''"] by simp
  have control: "strings_Cut (CHR ''='') (controllerIDKey @ ''='' @ hz_controllerID a) = Some (controllerIDKey, hz_controllerID a)"
    using cut_at_block [OF keys_plain(2)] by simp
  have lease: "strings_Cut (CHR ''='') (leaseIDKey @ ''='' @ leaseID) = Some (leaseIDKey, leaseID)"
    using cut_at_block [OF keys_plain(3)] by simp
  show ?thesis
    using selector_more [OF _ managed, of "controllerIDKey @ ''='' @ hz_controllerID a @ '','' @ leaseIDKey @ ''='' @ leaseID"]
      selector_more [OF _ control, of "leaseIDKey @ ''='' @ leaseID"] label_pair [OF _ lease] keys_plain safe_comma [OF assms(1)] safe_comma [OF assms(2)]
    by (simp add: owned_selector_def)
qed

lemma page_next:
  assumes "map ident seen = take (50 * (nat page - 1)) ms" "1 \<le> page" "map ident items = take 50 (drop (50 * (nat page - 1)) ms)"
  shows "map ident (seen @ items) = take (50 * (nat (page + 1) - 1)) ms"
proof -
  have "50 * (nat (page + 1) - 1) = 50 * (nat page - 1) + 50" using assms(2) by simp
  then show ?thesis using assms(1,3) by (simp add: take_add)
qed

lemma each_page_triple:
  assumes "hz_spec env servers"
  shows "hoare (\<lambda>s. servers (cs_world s) = H \<and> map ident seen = take (50 * (nat page - 1)) (filter (selected selector) H) \<and> 1 \<le> page)
    (each_page n env selector page seen)
    (\<lambda>r s. servers (cs_world s) = H \<and> (\<forall>items. r = Inr items \<longrightarrow> map ident items = filter (selected selector) H))"
proof (induction n arbitrary: page seen)
  case 0
  then show ?case by (auto intro: hoare_return)
next
  case (Suc n)
  let ?ms = "filter (selected selector) H"
  let ?C = "map ident seen = take (50 * (nat page - 1)) ?ms \<and> 1 \<le> page"
  show ?case
  proof (rule hoare_known)
    assume c: ?C
    have got: "hoare (having servers H) (hz_retried env (list_request selector page) hb_page ([], None))
      (\<lambda>ve s. servers (cs_world s) = H \<and> (snd ve = None \<longrightarrow> page_answer selector page (fst ve) H))"
      by (rule read_retried_triple [OF assms]) (use c in \<open>auto simp: list_request_def read_answer_def\<close>)
    show "hoare (having servers H) (each_page (Suc n) env selector page seen)
      (\<lambda>r s. servers (cs_world s) = H \<and> (\<forall>items. r = Inr items \<longrightarrow> map ident items = ?ms))"
      unfolding each_page.simps
    proof (rule hoare_bind [OF got], rule hoare_prod, rule hoare_option)
      fix ve :: "(server list \<times> int option) \<times> goerr option" and response err
      assume ve: "ve = (response, err)" "err = None"
      show "hoare (\<lambda>s. servers (cs_world s) = H \<and> (snd ve = None \<longrightarrow> page_answer selector page (fst ve) H))
        (case snd response of None \<Rightarrow> State_Monad.return (Inr (seen @ fst response))
         | Some next_page \<Rightarrow> each_page n env selector next_page (seen @ fst response))
        (\<lambda>r s. servers (cs_world s) = H \<and> (\<forall>items. r = Inr items \<longrightarrow> map ident items = ?ms))"
      proof (rule hoare_weaken [where P' = "\<lambda>s. servers (cs_world s) = H \<and> page_answer selector page response H", OF hoare_known])
        assume "page_answer selector page response H"
        then have items: "map ident (fst response) = take 50 (drop (50 * (nat page - 1)) ?ms)"
            and more: "snd response = (if int (length ?ms) > 50 * page then Some (page + 1) else None)"
          by (auto simp: page_answer_def Let_def)
        have so_far: "map ident (seen @ fst response) = take (50 * (nat (page + 1) - 1)) ?ms" using page_next [OF _ _ items] c by blast
        have "length ?ms \<le> 50 * (nat (page + 1) - 1)" if "\<not> int (length ?ms) > 50 * page" using that c by linarith
        then show "hoare (having servers H)
          (case snd response of None \<Rightarrow> State_Monad.return (Inr (seen @ fst response))
           | Some next_page \<Rightarrow> each_page n env selector next_page (seen @ fst response))
          (\<lambda>r s. servers (cs_world s) = H \<and> (\<forall>items. r = Inr items \<longrightarrow> map ident items = ?ms))"
          using so_far more c by (auto intro!: hoare_return hoare_weaken [OF Suc.IH])
      qed (use ve in auto)
    qed (auto intro: hoare_return)
  qed
qed

text \<open>The servers of a lease.\<close>

definition of_lease :: "hetzner \<Rightarrow> string \<Rightarrow> int \<times> string gomap \<Rightarrow> bool" where
  "of_lease a leaseID p \<longleftrightarrow>
     label_of (snd p) managedByKey = ''true'' \<and> label_of (snd p) controllerIDKey = hz_controllerID a \<and> label_of (snd p) poolHostKey = []
     \<and> label_of (snd p) leaseIDKey = leaseID"

lemma find_triple:
  assumes "hz_spec env servers" and "safeLabel (hz_controllerID a)"
  shows "hoare (having servers H) (hz_findByLease env a leaseID) (\<lambda>r s. servers (cs_world s) = H
    \<and> (r = Inr None \<longrightarrow> filter (of_lease a leaseID) H = []) \<and> (\<forall>w. r = Inr (Some w) \<longrightarrow> (\<exists>p \<in> set H. of_lease a leaseID p \<and> w_ID w = itoa (fst p))))"
    (is "hoare _ _ ?Q")
proof (cases "safeLabel leaseID")
  case False
  then show ?thesis by (auto simp: hz_findByLease_def intro: hoare_return)
next
  case True
  define sel where "sel = owned_selector a @ '','' @ leaseIDKey @ ''='' @ leaseID"
  have nonempty: "leaseID \<noteq> []" "hz_controllerID a \<noteq> []" using True assms(2) by (auto simp: safeLabel_def safe_token_def)
  have all: "selected sel p \<longleftrightarrow> label_of (snd p) managedByKey = ''true'' \<and> label_of (snd p) controllerIDKey = hz_controllerID a
      \<and> label_of (snd p) leaseIDKey = leaseID" for p
    unfolding sel_def selected_def lease_selector [OF assms(2) True] using nonempty by (auto simp: label_of_def split: option.splits)
  have each: "hoare (having servers H) (eachServer env a sel)
    (\<lambda>r s. servers (cs_world s) = H \<and> (\<forall>items. r = Inr items \<longrightarrow> map ident items = filter (selected sel) H))"
    unfolding eachServer_def
    by (rule hoare_option) (auto intro!: hoare_return hoare_weaken [OF each_page_triple [OF assms(1)]])
  have found: "?Q (Inr (List.find (\<lambda>w. w_LeaseID w = leaseID) (map hz_toWorker (filter (is_worker a) items)))) s"
    if h: "servers (cs_world s) = H" "map ident items = filter (selected sel) H" for items s
  proof -
    have item: "ident item \<in> set H \<and> of_lease a leaseID (ident item)" if "item \<in> set items" "is_worker a item" for item
    proof -
      have "ident item \<in> set (filter (selected sel) H)" using h(2) that(1) by (metis image_eqI list.set_map)
      then show ?thesis using that(2) by (auto simp: all of_lease_def is_worker_def ident_def)
    qed
    have listed: "\<exists>item \<in> set items. is_worker a item \<and> w_LeaseID (hz_toWorker item) = leaseID" if "p \<in> set H" "of_lease a leaseID p" for p
    proof -
      have "p \<in> set (map ident items)" using that h(2) by (auto simp: all of_lease_def)
      then show ?thesis using that(2) by (fastforce simp: of_lease_def is_worker_def ident_def hz_toWorker_def)
    qed
    have "\<exists>p \<in> set H. of_lease a leaseID p \<and> w_ID w = itoa (fst p)"
      if "List.find (\<lambda>w. w_LeaseID w = leaseID) (map hz_toWorker (filter (is_worker a) items)) = Some w" for w
    proof -
      from find_member [OF that] obtain item where "item \<in> set items" "is_worker a item" "w = hz_toWorker item" by auto
      then show ?thesis using item [of item] by (intro bexI [of _ "ident item"]) (auto simp: hz_toWorker_def ident_def)
    qed
    then show ?thesis using h(1) listed by (fastforce simp: find_None_iff filter_empty_conv)
  qed
  show ?thesis
    unfolding hz_findByLease_def listServers_def sel_def [symmetric] using True
    by (simp, intro hoare_bind [OF each] hoare_return) (use found in \<open>auto split: sum.splits\<close>)
qed

section \<open>Creating\<close>

definition names_server :: "goerr + worker \<Rightarrow> (int \<Rightarrow> bool) option" where
  "names_server result =
     (case result of
        Inr w \<Rightarrow> Some (\<lambda>i. w_ID w = itoa i)
      | Inl (PartialLaunchError w e) \<Rightarrow> Some (\<lambda>i. w_ID w = itoa i)
      | Inl _ \<Rightarrow> None)"

definition creation_names :: "goerr + createServerResponse \<Rightarrow> (int \<Rightarrow> bool) option" where
  "creation_names result =
     (case result of
        Inr c \<Rightarrow> Some (\<lambda>i. sv_ID (cp_Server c) = i)
      | Inl (PartialLaunchError w e) \<Rightarrow> Some (\<lambda>i. w_ID w = itoa i)
      | Inl _ \<Rightarrow> None)"

lemma hz_worker_id [simp]: "w_ID (hz_toWorker item) = itoa (sv_ID item)"
  by (simp add: hz_toWorker_def)

lemma create_sent:
  fixes env :: "'w hzCloud"
  assumes "hz_spec env servers"
  shows "hoare (having servers H) (hz_doJSON env (create_request payload) hb_created zeroCreated)
    (\<lambda>ve s. if sv_ID (cp_Server (fst ve)) = 0 then added H (cq_Labels payload) None (servers (cs_world s))
       else servers (cs_world s) = H @ [(sv_ID (cp_Server (fst ve)), cq_Labels payload)])"
  unfolding hz_doJSON_def doJSON_def
proof (rule send_hoare)
  fix s :: "'w hzSys" and out w
  assume s: "servers (cs_world s) = H" "cl_http env (create_request payload) (cs_world s) = (out, w)"
  have eff: "create_effect payload out H (servers w)" using spec_effect [OF assms s(2)] s(1) unfolding request_effect_def by blast
  have zero: "sv_ID (cp_Server zeroCreated) = 0" by (simp add: zeroCreated_def zeroServer_def)
  have "\<exists>r. out = Answered r \<and> good_status (rs_Status r) \<and> fst (hb_created (rs_Body r)) = v"
    if "json_result hz_responseError hb_created zeroCreated out = (v, e)" "sv_ID (cp_Server v) \<noteq> 0" for v e
    using json_answered [OF that(1)] that(2) zero by auto
  then show "if sv_ID (cp_Server (fst (json_result hz_responseError hb_created zeroCreated out))) = 0
      then added H (cq_Labels payload) None (servers (cs_world (s\<lparr>cs_world := w, cs_trace := cs_trace s @ [(create_request payload, out)]\<rparr>)))
      else servers (cs_world (s\<lparr>cs_world := w, cs_trace := cs_trace s @ [(create_request payload, out)]\<rparr>))
        = H @ [(sv_ID (cp_Server (fst (json_result hz_responseError hb_created zeroCreated out))), cq_Labels payload)]"
    using eff unfolding create_effect_def added_def by (cases "json_result hz_responseError hb_created zeroCreated out") fastforce
qed

lemma wait_context:
  assumes "hz_spec env servers"
  shows "hoare (having servers H) (cloud_do (cl_wait env)) (\<lambda>r s. servers (cs_world s) = H \<and> (\<forall>e. r = Some e \<longrightarrow> context_error e))"
  using assms by (auto simp: hz_spec_def calm_def hoare_def run_cloud_do)

lemma added_lease:
  assumes "filter (of_lease a leaseID) H = []" and "of_lease a leaseID (0, labels)" and "added H labels None after" and "p \<in> set after" and "of_lease a leaseID p"
  shows "after = H @ [p] \<and> snd p = labels"
  using assms by (auto simp: added_def filter_empty_conv)

lemma create_attempts_triple:
  fixes env :: "'w hzCloud"
  assumes spec: "hz_spec env servers" and controller: "safeLabel (hz_controllerID a)"
    and none: "filter (of_lease a (l_ID l)) H = []" and labels: "of_lease a (l_ID l) (0, cq_Labels payload)"
  shows "(\<And>w e. lastErr \<noteq> PartialLaunchError w e) \<Longrightarrow> hoare (having servers H) (create_attempts n env a l payload attempt lastErr)
    (\<lambda>r s. added H (cq_Labels payload) (creation_names r) (servers (cs_world s)))"
proof (induction n arbitrary: attempt lastErr)
  case 0
  then show ?case by (auto intro!: hoare_return simp: added_def creation_names_def split: goerr.splits)
next
  case (Suc n)
  let ?labels = "cq_Labels payload" and ?Q = "\<lambda>r (s :: 'w hzSys). added H (cq_Labels payload) (creation_names r) (servers (cs_world s))"
  have refused: "?Q (Inl e) s" if "added H ?labels None (servers (cs_world s))" "\<And>w e'. e \<noteq> PartialLaunchError w e'" for e and s :: "'w hzSys"
    using that by (cases e) (auto simp: creation_names_def)
  have slept: "hoare (having servers H) (do { slept \<leftarrow> backoff_sleep env attempt;
      case slept of Some err \<Rightarrow> State_Monad.return (Inl (ErrJoin [ErrWrap m e, err]))
      | None \<Rightarrow> create_attempts n env a l payload (attempt + 1) (ErrWrap m e) }) ?Q" for m e
    by (intro hoare_bind [OF spec_pacing(3) [OF spec, unfolded keeps_def]] hoare_rules Suc.IH refused) (auto simp: added_def)
  have lookup: "hoare (\<lambda>s. added H ?labels None (servers (cs_world s))) (hz_findByLease env a (l_ID l))
    (\<lambda>r s. added H ?labels None (servers (cs_world s)) \<and> (r = Inr None \<longrightarrow> servers (cs_world s) = H)
       \<and> (\<forall>w. r = Inr (Some w) \<longrightarrow> (\<exists>i. servers (cs_world s) = H @ [(i, ?labels)] \<and> w_ID w = itoa i)))"
  proof (rule hoareI)
    fix s r s'
    assume s: "added H ?labels None (servers (cs_world s))" "run_state (hz_findByLease env a (l_ID l)) s = (r, s')"
    note f = hoareD [OF find_triple [OF spec controller] refl s(2)]
    have gone: "servers (cs_world s') = H" if "r = Inr None"
      using f that s(1) labels by (auto simp: added_def of_lease_def)
    moreover have "\<exists>i. servers (cs_world s') = H @ [(i, ?labels)] \<and> w_ID w = itoa i" if "r = Inr (Some w)" for w
    proof -
      from f that obtain p where p: "p \<in> set (servers (cs_world s))" "of_lease a (l_ID l) p" "w_ID w = itoa (fst p)" by auto
      from added_lease [OF none labels s(1) p(1,2)] f p(3) show ?thesis by (intro exI [of _ "fst p"]) (auto simp: prod_eq_iff)
    qed
    ultimately show "added H ?labels None (servers (cs_world s')) \<and> (r = Inr None \<longrightarrow> servers (cs_world s') = H)
       \<and> (\<forall>w. r = Inr (Some w) \<longrightarrow> (\<exists>i. servers (cs_world s') = H @ [(i, ?labels)] \<and> w_ID w = itoa i))" using f s(1) by simp
  qed
  have found: "hoare (\<lambda>s. added H ?labels None (servers (cs_world s)) \<and> (r = Inr None \<longrightarrow> servers (cs_world s) = H)
       \<and> (\<forall>w. r = Inr (Some w) \<longrightarrow> (\<exists>i. servers (cs_world s) = H @ [(i, ?labels)] \<and> w_ID w = itoa i)))
     (case r of
        Inl lookupErr \<Rightarrow> State_Monad.return (Inl (ErrJoin [ErrWrap m e, ErrWrap m' lookupErr]))
      | Inr None \<Rightarrow>
          if n = 0 then State_Monad.return (Inl (ErrWrap m e))
          else do { slept \<leftarrow> backoff_sleep env attempt;
                    case slept of
                      None \<Rightarrow> create_attempts n env a l payload (attempt + 1) (ErrWrap m e)
                    | Some err \<Rightarrow> State_Monad.return (Inl (ErrJoin [ErrWrap m e, err])) }
      | Inr (Some w) \<Rightarrow> State_Monad.return (Inl (PartialLaunchError (withLeaseProof w l) (ErrWrap m e)))) ?Q" for r m m' e
  proof (cases r)
    case (Inl lookupErr)
    then show ?thesis by (auto intro!: hoare_return refused)
  next
    case (Inr x)
    show ?thesis
    proof (cases x)
      case None
      then show ?thesis using Inr slept by (auto intro!: hoare_return intro: hoare_pre simp: creation_names_def)
    next
      case (Some w)
      then show ?thesis using Inr by (auto intro!: hoare_return simp: creation_names_def added_def)
    qed
  qed
  show ?case
    unfolding create_attempts.simps Let_def
  proof (rule hoare_bind [OF wait_context [OF spec]], rule hoare_option)
    fix waited :: "goerr option" and err
    assume "waited = Some err"
    then show "hoare (\<lambda>s. servers (cs_world s) = H \<and> (\<forall>e. waited = Some e \<longrightarrow> context_error e)) (State_Monad.return (Inl err)) ?Q"
      by (auto intro!: hoare_return simp: added_def context_error_def creation_names_def)
  next
    fix waited :: "goerr option"
    assume "waited = None"
    show "hoare (\<lambda>s. servers (cs_world s) = H \<and> (\<forall>e. waited = Some e \<longrightarrow> context_error e)) (do {
        (created, err) \<leftarrow> hz_doJSON env (create_request payload) hb_created zeroCreated;
        case err of
          None \<Rightarrow> State_Monad.return
            (if sv_ID (cp_Server created) = 0
             then Inl (ErrText (''create Hetzner worker '' @ l_RunnerName l @ '': response did not include a server id'')) else Inr created)
        | Some e \<Rightarrow>
            if sv_ID (cp_Server created) \<noteq> 0
            then State_Monad.return (Inl (PartialLaunchError (withLeaseProof (hz_toWorker (cp_Server created)) l) e))
            else if \<not> IsTransient err then State_Monad.return (Inl (ErrWrap (''create Hetzner worker '' @ l_RunnerName l) e))
            else do { existing \<leftarrow> hz_findByLease env a (l_ID l);
              case existing of
                Inl lookupErr \<Rightarrow> State_Monad.return (Inl (ErrJoin [ErrWrap (''create Hetzner worker '' @ l_RunnerName l) e,
                  ErrWrap ''confirm Hetzner worker absence before retry'' lookupErr]))
              | Inr None \<Rightarrow>
                  if n = 0 then State_Monad.return (Inl (ErrWrap (''create Hetzner worker '' @ l_RunnerName l) e))
                  else do { slept \<leftarrow> backoff_sleep env attempt;
                    case slept of
                      None \<Rightarrow> create_attempts n env a l payload (attempt + 1) (ErrWrap (''create Hetzner worker '' @ l_RunnerName l) e)
                    | Some err \<Rightarrow> State_Monad.return (Inl (ErrJoin [ErrWrap (''create Hetzner worker '' @ l_RunnerName l) e, err])) }
              | Inr (Some w) \<Rightarrow> State_Monad.return (Inl (PartialLaunchError (withLeaseProof w l)
                  (ErrWrap (''create Hetzner worker '' @ l_RunnerName l) e))) } }) ?Q"
      by (rule hoare_pre [OF hoare_bind [OF create_sent [OF spec]]], rule hoare_prod, rule hoare_option, rule hoare_return,
          force simp: creation_names_def added_def, rule hoare_if, rule hoare_return, force simp: creation_names_def added_def,
          rule hoare_if, rule hoare_return, force simp: creation_names_def added_def, rule hoare_pre [OF hoare_bind [OF lookup found]])
        (auto split: if_splits)
  qed
qed

section \<open>Launching\<close>

lemma get_plain: "rq_Body (plain_request m path) = None" "rq_Method (plain_request m path) = m"
  by (simp_all add: plain_request_def)

lemma confirm_triple:
  assumes "hz_spec env servers" and "\<And>e. Q (fail e)" and "\<And>item. sv_ID item = n \<Longrightarrow> Q (Inr (ok item))"
  shows "hoare (having servers H) (confirm_running env a n fail ok) (\<lambda>r s. servers (cs_world s) = H \<and> Q r)"
proof -
  have "hoare (having servers H) (hz_doJSON env (plain_request MethodGet (server_path n)) hb_server zeroServer)
    (\<lambda>ve s. servers (cs_world s) = H \<and> (snd ve = None \<longrightarrow> sv_ID (fst ve) = n))"
    unfolding hz_doJSON_def
    by (rule read_triple [OF assms(1)]) (auto simp: get_plain read_answer_def)
  then show ?thesis
    unfolding confirm_running_def using assms(2,3) by (elim hoare_bind) (auto intro!: hoare_return split: option.splits)
qed

lemma launch_steps_still:
  assumes "hz_spec env servers"
  shows "hoare (having servers H) (waitActions env a actions) (\<lambda>_. having servers H)"
    "hoare (having servers H) (hz_doJSON env (plain_request MethodGet path) target zero) (\<lambda>_. having servers H)"
    "hoare (having servers H) (hz_doJSON env (poweron_request n) target zero) (\<lambda>_. having servers H)"
  by (auto simp: poweron_request_def get_plain MethodGet_def MethodPost_def MethodDelete_def
      intro!: still_waitActions [OF assms, unfolded keeps_def] still_doJSON [OF assms, unfolded keeps_def])

lemma power_on_triple:
  assumes "hz_spec env servers" and "\<And>e. Q (fail e)" and "\<And>item. sv_ID item = n \<Longrightarrow> Q (Inr (ok item))"
  shows "hoare (having servers H) (power_on env a n fail ok) (\<lambda>r s. servers (cs_world s) = H \<and> Q r)"
  unfolding power_on_def
  by (intro hoare_bind [OF launch_steps_still(3) [OF assms(1)]] hoare_rules hoare_bind [OF launch_steps_still(1) [OF assms(1)]]
      confirm_triple assms) (auto simp: assms)

lemma qualify_triple:
  assumes "hz_spec env servers"
  shows "hoare (having servers H) (qualify_launch env a l created) (\<lambda>r s. servers (cs_world s) = H
    \<and> (\<exists>P. names_server r = Some P \<and> P (sv_ID (cp_Server created))))"
  unfolding qualify_launch_def Let_def
  by (intro hoare_bind [OF launch_steps_still(1) [OF assms]] hoare_rules hoare_bind [OF launch_steps_still(2) [OF assms]] power_on_triple assms)
    (auto simp: names_server_def)

text \<open>
  C13. No lease ever has two servers: whatever requests fail, and whichever of them did their work all the
  same, the launch of a worker adds at most one server to the project, with the labels of the lease.  When it
  succeeds, and when it reports a partial launch, it added one, and names it by its id.
\<close>

theorem one_server_per_lease:
  assumes "hz_spec env servers" and "safeLabel (hz_controllerID a)"
    and "filter (of_lease a (l_ID l)) (servers (cs_world s)) = []"
    and "run_state (hz_Launch env a l) s = (result, s')"
  shows "added (servers (cs_world s)) (cq_Labels (launch_payload a l)) (names_server result) (servers (cs_world s'))"
proof -
  define H where "H = servers (cs_world s)"
  let ?labels = "cq_Labels (launch_payload a l)"
  have labels: "of_lease a (l_ID l) (0, ?labels)"
    by (simp add: of_lease_def launch_payload_def label_of_def managedByKey_def controllerIDKey_def poolHostKey_def leaseIDKey_def runnerNameKey_def
        runnerIDKey_def runnerScaleSetIDKey_def)
  have create: "hoare (having servers H) (createServer env a l (launch_payload a l))
    (\<lambda>r s. added H ?labels (creation_names r) (servers (cs_world s)))"
    unfolding createServer_def using assms(3) by (intro create_attempts_triple assms(1,2) labels) (auto simp: H_def)
  have rest: "hoare (\<lambda>s. added H ?labels (creation_names r) (servers (cs_world s)))
    (case r of Inl err \<Rightarrow> State_Monad.return (Inl err) | Inr created \<Rightarrow> qualify_launch env a l created)
    (\<lambda>result s. added H ?labels (names_server result) (servers (cs_world s)))" for r
  proof (cases r)
    case (Inl err)
    then show ?thesis by (auto intro!: hoare_return simp: creation_names_def names_server_def split: goerr.splits)
  next
    case (Inr created)
    show ?thesis unfolding Inr sum.case
      by (rule hoare_weaken [OF qualify_triple [OF assms(1), of "H @ [(sv_ID (cp_Server created), ?labels)]"]])
        (auto simp: creation_names_def added_def)
  qed
  have "hoare (having servers H) (hz_Launch env a l) (\<lambda>result s. added H ?labels (names_server result) (servers (cs_world s)))"
    unfolding hz_Launch_def by (rule hoare_bind [OF create rest])
  from hoareD [OF this _ assms(4)] show ?thesis by (simp add: H_def)
qed

text \<open>
  An API that makes every server at once and behind the firewall, and answers every request, except that the
  answer to the first creation gets lost when the world says so.
\<close>

definition tiny_int :: "string \<Rightarrow> int" where
  "tiny_int s = (if s \<noteq> [] \<and> hd s = CHR ''-'' then - int (digits_value (tl s)) else int (digits_value s))"

definition tiny_server :: "int \<times> string gomap \<Rightarrow> server" where
  "tiny_server p = zeroServer\<lparr>sv_ID := fst p, sv_Status := ''running'', sv_Labels := snd p, sv_Firewalls := [\<lparr>fw_ID = 5, fw_Status = ''applied''\<rparr>]\<rparr>"

definition tiny_page :: "(string \<times> string) list \<Rightarrow> (int \<times> string gomap) list \<Rightarrow> server list \<times> int option" where
  "tiny_page query held =
     (let ms = filter (selected (label_of query ''label_selector'')) held; page = tiny_int (label_of query ''page'')
      in (map tiny_server (take 50 (drop (50 * (nat page - 1)) ms)), if int (length ms) > 50 * page then Some (page + 1) else None))"

definition tiny_answer :: "hzRequest \<Rightarrow> (int \<times> string gomap) list \<Rightarrow> createServerResponse \<Rightarrow> hzBody outcome" where
  "tiny_answer req held c =
     Answered \<lparr>rs_Status = 200, rs_Contents = Inr [], rs_Body =
       \<lparr>hb_created = (c, None), hb_server = (tiny_server (tiny_int (last (rq_Path req)), []), None),
        hb_action = (\<lparr>ac_ID = 1, ac_Status = ''success'', ac_Error = None\<rparr>, None), hb_page = (tiny_page (rq_Query req) held, None)\<rparr>\<rparr>"

definition tiny_http :: "hzRequest \<Rightarrow> (int \<times> string gomap) list \<times> bool \<Rightarrow> hzBody outcome \<times> (int \<times> string gomap) list \<times> bool" where
  "tiny_http req w =
     (case rq_Body req of
        None \<Rightarrow> (tiny_answer req (fst w) zeroCreated, w)
      | Some payload \<Rightarrow>
          (let p = (int (length (fst w)) + 1, cq_Labels payload);
               c = \<lparr>cp_Server = tiny_server p, cp_Action = \<lparr>ac_ID = 1, ac_Status = ''success'', ac_Error = None\<rparr>, cp_NextActions = []\<rparr>
           in (if snd w then NoAnswer (NetError ''reset'') else tiny_answer req (fst w) c, (fst w @ [p], False))))"

definition tiny :: "((int \<times> string gomap) list \<times> bool) hzCloud" where
  "tiny = \<lparr>cl_http = tiny_http, cl_wait = Pair None, cl_sleep = (\<lambda>d. Pair None), cl_random = Pair 0,
     cl_policy = \<lparr>p_Attempts = 3, p_InitialBackoff = 1, p_MaxBackoff = 1, p_Rate = 0, p_Burst = 1\<rparr>\<rparr>"

lemma tiny_int_itoa: "tiny_int (itoa n) = n"
proof (cases "n < 0")
  case False
  then have "hd (itoa n) \<noteq> CHR ''-''" using itoa_digits [of n] digit_signs [of "itoa n"] by (metis hd_in_set linorder_not_less)
  then show ?thesis using False by (simp add: tiny_int_def itoa_def digits_value_nat_digits)
qed (simp add: tiny_int_def itoa_def digits_value_nat_digits)

lemma tiny_ident: "map ident (map tiny_server ps) = ps"
  by (simp add: ident_def tiny_server_def comp_def)

lemma tiny_reads:
  assumes "1 \<le> page"
  shows "page_answer selector page (tiny_page (rq_Query (list_request selector page)) held) held"
  using tiny_ident by (simp add: page_answer_def tiny_page_def list_request_def label_of_def tiny_int_itoa Let_def del: map_map)

lemma tiny_spec: "hz_spec tiny fst"
proof -
  have http: "cl_http tiny = tiny_http" by (simp add: tiny_def)
  have "request_effect req out (fst w) (fst w')" if "tiny_http req w = (out, w')" for req w out w'
    unfolding request_effect_def
  proof (intro conjI allI impI)
    show "create_effect payload out (fst w) (fst w')" if "req = create_request payload" for payload
      using that \<open>tiny_http req w = (out, w')\<close>
      by (auto simp: tiny_http_def create_request_def create_effect_def tiny_answer_def tiny_server_def Let_def split: if_splits)
    show "fst w' = fst w" if "rq_Body req = None \<and> rq_Method req \<noteq> MethodDelete"
      using that \<open>tiny_http req w = (out, w')\<close> by (simp add: tiny_http_def)
    fix r
    assume r: "out = Answered r \<and> rq_Method req = MethodGet \<and> good_status (rs_Status r)"
    then show "rs_Status r \<noteq> 204"
      using \<open>tiny_http req w = (out, w')\<close> by (auto simp: tiny_http_def tiny_answer_def Let_def split: option.splits if_splits)
    show "read_answer req (rs_Body r) (fst w)"
      using r \<open>tiny_http req w = (out, w')\<close> tiny_reads
      by (auto simp: read_answer_def tiny_http_def tiny_answer_def get_plain server_path_def tiny_server_def tiny_int_itoa list_request_def plain_request_def)
  qed
  then show ?thesis unfolding hz_spec_def http by (auto simp: calm_def tiny_def)
qed

definition tiny_adapter :: hetzner where
  "tiny_adapter = \<lparr>hz_baseURL = [], hz_token = ''t'', hz_location = ''fsn1'', hz_serverType = ''cx33'', hz_serverImage = ''u'', hz_runnerImage = ''img'',
     hz_controllerID = ''c1'', hz_firewallID = 5, hz_networkID = 0, hz_actionPollInterval = 1, hz_actionTimeout = 1, hz_pages = 1, hz_urlError = None\<rparr>"

definition tiny_lease :: lease where
  "tiny_lease = \<lparr>l_ID = ''lease1'', l_RunnerName = ''r1'', l_RunnerID = 7, l_RunnerScaleSetID = 9, l_JITConfig = ''x'', l_Deadline = 0, l_IdleTimeout = second\<rparr>"

theorem one_server_per_lease_witness:
  "\<exists>result s'. run_state (hz_Launch tiny tiny_adapter tiny_lease) (fresh ([], True)) = (result, s')
     \<and> added [] (cq_Labels (launch_payload tiny_adapter tiny_lease)) (names_server result) (fst (cs_world s'))"
proof -
  obtain result s' where r: "run_state (hz_Launch tiny tiny_adapter tiny_lease) (fresh ([], True)) = (result, s')" by fastforce
  have "safeLabel (hz_controllerID tiny_adapter)" by code_simp
  from one_server_per_lease [OF tiny_spec this _ r] show ?thesis using r by simp
qed

end
