(* ===== verification/Fly_Adapter.thy ===== *)
theory Fly_Adapter
  imports Cloud_Api
begin

text \<open>
  Fly Machines as workers (\<^verbatim>\<open>providers/fly/adapter.go\<close>, \<^verbatim>\<open>providers/fly/prices.go\<close>): validation, the launch
  that repeats a creation only after an inventory without the lease, the inventory by metadata, the
  deletion with its reading of a refusal, the classification of shortages, and prices.

  \<open>parseIP\<close> is \<^verbatim>\<open>net.ParseIP\<close> followed by \<^verbatim>\<open>String\<close>.  The rates of the price list, floating-point numbers
  in the program, are rationals.
\<close>

section \<open>Prices\<close>

definition SharedVCPUPerSecond :: rat where "SharedVCPUPerSecond = 8465 / 10 ^ 10"
definition PerformanceVCPUPerSecond :: rat where "PerformanceVCPUPerSecond = 12732 / 10 ^ 9"
definition RAMPerGBPerSecond :: rat where "RAMPerGBPerSecond = 2316 / 10 ^ 9"

definition RegionMultiplier :: "string \<Rightarrow> rat option" where
  "RegionMultiplier region = map_of [(''iad'', 1), (''ewr'', 1), (''cdg'', 1134615385 / 10 ^ 9)] region"

definition PricePerSecond :: "string \<Rightarrow> int \<Rightarrow> int \<Rightarrow> rat option" where
  "PricePerSecond cpuKind cpus memoryMB =
     (let price = (\<lambda>vcpu includedMB.
            Some (of_int cpus * vcpu + max 0 (of_int memoryMB - of_int cpus * includedMB) / 1024 * RAMPerGBPerSecond))
      in if cpus < 1 \<or> memoryMB < 1 then None
         else if cpuKind = ''performance'' then price PerformanceVCPUPerSecond 2048
         else if cpuKind = ''shared'' then price SharedVCPUPerSecond 256
         else None)"

definition HourlyPriceUSD :: "string \<Rightarrow> int \<Rightarrow> int \<Rightarrow> string \<Rightarrow> rat option" where
  "HourlyPriceUSD cpuKind cpus memoryMB region =
     (case RegionMultiplier region of
        None \<Rightarrow> None
      | Some multiplier \<Rightarrow>
          (case PricePerSecond cpuKind cpus memoryMB of None \<Rightarrow> None | Some perSecond \<Rightarrow> Some (perSecond * multiplier * 3600)))"

section \<open>Configuration\<close>

definition deadlineKey :: string where "deadlineKey = ''runneryard-deadline''"
definition runnerEntrypoint :: string where "runnerEntrypoint = ''/usr/local/bin/runner-entrypoint''"
definition destroyedMachine :: string where "destroyedMachine = ''destroyed''"
definition destroyingMachine :: string where "destroyingMachine = ''destroying''"

record flyConfig =
  fc_APIToken :: string
  fc_APIBaseURL :: string
  fc_App :: string
  fc_Region :: string
  fc_Image :: string
  fc_ControllerID :: string
  fc_CPUKind :: string
  fc_CPUs :: int
  fc_MemoryMB :: int
  fc_RootFSGB :: int
  fc_DockerDNS :: string

record fly =
  fl_baseURL :: string
  fl_token :: string
  fl_app :: string
  fl_region :: string
  fl_image :: string
  fl_controllerID :: string
  fl_cpuKind :: string
  fl_cpus :: int
  fl_memoryMB :: int
  fl_rootFSGB :: int
  fl_dockerDNS :: string

fun dns_items :: "(string \<Rightarrow> string option) \<Rightarrow> string list \<Rightarrow> string list \<Rightarrow> goerr + string list" where
  "dns_items parseIP [] normalized = Inr normalized"
| "dns_items parseIP (item # items) normalized =
     (case parseIP (trimSpace item) of
        None \<Rightarrow> Inl (ErrText ''fly Docker DNS entry must be a literal IP address'')
      | Some canonical \<Rightarrow>
          if canonical \<in> set normalized then Inl (ErrText ''fly Docker DNS contains duplicate address'')
          else dns_items parseIP items (normalized @ [canonical]))"

definition normalizeDockerDNS :: "(string \<Rightarrow> string option) \<Rightarrow> string \<Rightarrow> goerr + string" where
  "normalizeDockerDNS parseIP text_value =
     (let items = split_on (CHR '','') [] (if trimSpace text_value = [] then ''1.1.1.1,8.8.8.8'' else text_value)
      in if length items < 1 \<or> length items > 3
         then Inl (ErrText ''fly Docker DNS must contain between one and three comma-separated IP addresses'')
         else (case dns_items parseIP items [] of Inl err \<Rightarrow> Inl err | Inr normalized \<Rightarrow> Inr (strings_Join normalized '','')))"

definition fly_New :: "(string \<Rightarrow> string option) \<Rightarrow> flyConfig \<Rightarrow> goerr + fly" where
  "fly_New parseIP cfg =
     (if fc_APIToken cfg = [] \<or> fc_App cfg = [] \<or> fc_Region cfg = [] \<or> fc_Image cfg = [] \<or> fc_ControllerID cfg = []
      then Inl (ErrText ''fly token, worker app, region, image, and controller ID are required'')
      else if fc_CPUKind cfg \<noteq> ''shared'' \<and> fc_CPUKind cfg \<noteq> ''performance''
      then Inl (ErrText ''fly CPU kind must be shared or performance'')
      else if fc_CPUs cfg < 1 \<or> fc_MemoryMB cfg < 512 \<or> fc_RootFSGB cfg < 10
      then Inl (ErrText ''fly worker shape must have at least 1 CPU, 512 MB RAM, and 10 GB rootfs'')
      else (case normalizeDockerDNS parseIP (fc_DockerDNS cfg) of
              Inl err \<Rightarrow> Inl err
            | Inr dockerDNS \<Rightarrow> Inr
                \<lparr>fl_baseURL = trim_right (CHR ''/'') (if fc_APIBaseURL cfg = [] then ''https://api.machines.dev'' else fc_APIBaseURL cfg),
                 fl_token = fc_APIToken cfg, fl_app = fc_App cfg, fl_region = fc_Region cfg, fl_image = fc_Image cfg,
                 fl_controllerID = fc_ControllerID cfg, fl_cpuKind = fc_CPUKind cfg, fl_cpus = fc_CPUs cfg, fl_memoryMB = fc_MemoryMB cfg,
                 fl_rootFSGB = fc_RootFSGB cfg, fl_dockerDNS = dockerDNS\<rparr>))"

definition WorkerHourlyPrice :: "fly \<Rightarrow> rat option" where
  "WorkerHourlyPrice a = HourlyPriceUSD (fl_cpuKind a) (fl_cpus a) (fl_memoryMB a) (fl_region a)"

section \<open>Machines\<close>

record guestConfig =
  gc_CPUs :: int
  gc_MemoryMB :: int
  gc_CPUKind :: string

record processConfig =
  pr_Entrypoint :: "string list"
  pr_User :: string
  pr_Env :: "string gomap"
  pr_IgnoreAppSecrets :: bool

record machineConfig =
  mg_Image :: string
  mg_Processes :: "processConfig list"
  mg_Metadata :: "string gomap"
  mg_AutoDestroy :: bool
  mg_Restart :: string
  mg_Guest :: guestConfig
  mg_RootFSGB :: int
  mg_StopSignal :: string
  mg_StopTimeout :: duration

record machine =
  ma_ID :: string
  ma_Name :: string
  ma_State :: string
  ma_Region :: string
  ma_CreatedAt :: gotime
  ma_Metadata :: "string gomap"

definition zeroMachine :: machine where
  "zeroMachine = \<lparr>ma_ID = [], ma_Name = [], ma_State = [], ma_Region = [], ma_CreatedAt = zeroTime, ma_Metadata = []\<rparr>"

record createMachineRequest =
  cm_Name :: string
  cm_Region :: string
  cm_Config :: machineConfig

text \<open>Pool hosts: a Machine with a volume.\<close>

record machineMount =
  mm_Volume :: string
  mm_Path :: string

record machineFile =
  mf_GuestPath :: string
  mf_RawValue :: string
  mf_Mode :: int

record poolMachine =
  pm_ID :: string
  pm_Name :: string
  pm_State :: string
  pm_Region :: string
  pm_PrivateIP :: string
  pm_CreatedAt :: gotime
  pm_UpdatedAt :: gotime
  pm_Image :: string
  pm_Metadata :: "string gomap"
  pm_Mounts :: "machineMount list"

definition zeroPoolMachine :: poolMachine where
  "zeroPoolMachine = \<lparr>pm_ID = [], pm_Name = [], pm_State = [], pm_Region = [], pm_PrivateIP = [], pm_CreatedAt = zeroTime, pm_UpdatedAt = zeroTime,
     pm_Image = [], pm_Metadata = [], pm_Mounts = []\<rparr>"

record createPoolMachineRequest =
  co_Name :: string
  co_Region :: string
  co_Image :: string
  co_Guest :: guestConfig
  co_Processes :: "processConfig list"
  co_Metadata :: "string gomap"
  co_Mounts :: "machineMount list"
  co_Files :: "machineFile list"
  co_AutoDestroy :: bool
  co_Restart :: string
  co_StopSignal :: string
  co_StopTimeout :: duration

record flyVolume =
  fv_ID :: string
  fv_Name :: string
  fv_State :: string
  fv_AttachedMachineID :: "string option"
  fv_CreatedAt :: gotime

definition zeroVolume :: flyVolume where
  "zeroVolume = \<lparr>fv_ID = [], fv_Name = [], fv_State = [], fv_AttachedMachineID = None, fv_CreatedAt = zeroTime\<rparr>"

definition volume_attached :: "flyVolume \<Rightarrow> bool" where
  "volume_attached v \<longleftrightarrow> fv_AttachedMachineID v \<noteq> None \<and> fv_AttachedMachineID v \<noteq> Some []"

record createVolumeRequest =
  cv_Name :: string
  cv_Region :: string
  cv_SizeGB :: int
  cv_Encrypted :: bool
  cv_AutoBackupEnabled :: bool
  cv_Compute :: guestConfig

text \<open>What is sent, and what an answer decodes to.\<close>

datatype flyBody =
    CreateMachine createMachineRequest
  | CreatePoolMachine createPoolMachineRequest
  | CreateVolume createVolumeRequest

record flyReply =
  fr_machine :: "machine \<times> goerr option"
  fr_machines :: "machine list \<times> goerr option"
  fr_pool :: "poolMachine \<times> goerr option"
  fr_pools :: "poolMachine list \<times> goerr option"
  fr_volume :: "flyVolume \<times> goerr option"
  fr_volumes :: "flyVolume list \<times> goerr option"

type_synonym 'w flyCloud = "('w, flyBody, flyReply) cloud"
type_synonym 'w flySys = "('w, flyBody, flyReply) cloudSys"
type_synonym flyRequest = "flyBody httpRequest"

section \<open>Answers\<close>

definition capacityDescription :: "string \<Rightarrow> string" where
  "capacityDescription reason =
     label_of [(''fly_machine_limit'', ''organization machine limit reached''),
       (''fly_insufficient_resources'', ''region could not reserve the requested resources''),
       (''fly_placement_unavailable'', ''no host could place the machine'')] reason"

definition capacityReason :: "int \<Rightarrow> string \<Rightarrow> string" where
  "capacityReason status message =
     (let lower = map char_toLower message
      in if status < 400 \<or> status \<ge> 500 \<or> status = 429 then []
         else if strings_Contains lower ''machine limit'' then ''fly_machine_limit''
         else if list_ex (strings_Contains lower)
           [''could not reserve resource'', ''insufficient memory'', ''insufficient cpu'', ''insufficient resources'', ''not enough capacity'',
            ''no capacity'', ''capacity available'']
         then ''fly_insufficient_resources''
         else if list_ex (strings_Contains lower) [''no host'', ''find a host'', ''unable to place'', ''failed to place'', ''could not place'']
         then ''fly_placement_unavailable''
         else [])"

definition fly_responseError :: "flyReply httpResponse \<Rightarrow> goerr" where
  "fly_responseError r =
     (case rs_Contents r of
        Inl readErr \<Rightarrow> ErrJoin [the (ClassifyStatus ''fly'' (rs_Status r) []), readErr]
      | Inr contents \<Rightarrow>
          (let message = trimSpace contents; reason = capacityReason (rs_Status r) message
           in if reason \<noteq> [] then CapacityError reason 0 (ErrText (capacityDescription reason))
              else the (ClassifyStatus ''fly'' (rs_Status r) message)))"

definition fly_doJSON :: "'w flyCloud \<Rightarrow> flyRequest \<Rightarrow> (flyReply \<Rightarrow> 'v \<times> goerr option) \<Rightarrow> 'v \<Rightarrow> ('w flySys, 'v \<times> goerr option) state" where
  "fly_doJSON env req target zero = doJSON env fly_responseError req target zero"

definition fly_retried :: "'w flyCloud \<Rightarrow> flyRequest \<Rightarrow> (flyReply \<Rightarrow> 'v \<times> goerr option) \<Rightarrow> 'v \<Rightarrow> ('w flySys, 'v \<times> goerr option) state" where
  "fly_retried env req target zero = retried env fly_responseError req target zero"

definition machines_path :: "string \<Rightarrow> string list" where
  "machines_path app = [''v1'', ''apps'', app, ''machines'']"

section \<open>Workers\<close>

definition fly_toWorker :: "machine \<Rightarrow> worker" where
  "fly_toWorker item =
     \<lparr>w_ID = ma_ID item, w_LeaseID = label_of (ma_Metadata item) leaseIDKey, w_RunnerName = label_of (ma_Metadata item) runnerNameKey,
      w_RunnerID = parse_int (label_of (ma_Metadata item) runnerIDKey),
      w_RunnerScaleSetID = parse_int (label_of (ma_Metadata item) runnerScaleSetIDKey),
      w_State = ma_State item, w_CreatedAt = ma_CreatedAt item\<rparr>"

definition fly_is_worker :: "fly \<Rightarrow> machine \<Rightarrow> bool" where
  "fly_is_worker a item \<longleftrightarrow>
     \<not> (label_of (ma_Metadata item) managedByKey \<noteq> ''true'' \<or> label_of (ma_Metadata item) controllerIDKey \<noteq> fl_controllerID a)"

definition machines_request :: "fly \<Rightarrow> flyRequest" where
  "machines_request a = plain_request MethodGet (machines_path (fl_app a))"

definition fly_Inventory :: "'w flyCloud \<Rightarrow> fly \<Rightarrow> ('w flySys, goerr + worker list) state" where
  "fly_Inventory env a =
     do { (machines, err) \<leftarrow> fly_retried env (machines_request a) fr_machines [];
          State_Monad.return
            (case err of
               Some e \<Rightarrow> Inl (ErrWrap ''list Fly Machines'' e)
             | None \<Rightarrow> Inr (map fly_toWorker (filter (fly_is_worker a) machines))) }"

definition fly_findByLease :: "'w flyCloud \<Rightarrow> fly \<Rightarrow> string \<Rightarrow> ('w flySys, goerr + worker option) state" where
  "fly_findByLease env a leaseID =
     do { r \<leftarrow> fly_Inventory env a;
          State_Monad.return (case r of Inl err \<Rightarrow> Inl err | Inr ws \<Rightarrow> Inr (List.find (\<lambda>w. w_LeaseID w = leaseID) ws)) }"

definition fly_payload :: "fly \<Rightarrow> lease \<Rightarrow> createMachineRequest" where
  "fly_payload a l =
     \<lparr>cm_Name = l_RunnerName l, cm_Region = fl_region a, cm_Config =
        \<lparr>mg_Image = fl_image a,
         mg_Processes = [\<lparr>pr_Entrypoint = [''/usr/bin/dumb-init'', ''--'', runnerEntrypoint], pr_User = [],
           pr_Env = [(''ACTIONS_RUNNER_INPUT_JITCONFIG'', l_JITConfig l), (''RUNNERYARD_DEADLINE'', time_RFC3339 (l_Deadline l)),
             (''RUNNERYARD_DOCKER_DNS'', fl_dockerDNS a), (''RUNNERYARD_IDLE_TIMEOUT'', itoa (go_quot (l_IdleTimeout l) second))],
           pr_IgnoreAppSecrets = True\<rparr>],
         mg_Metadata = [(managedByKey, ''true''), (controllerIDKey, fl_controllerID a), (leaseIDKey, l_ID l), (runnerNameKey, l_RunnerName l),
           (runnerIDKey, itoa (l_RunnerID l)), (runnerScaleSetIDKey, itoa (l_RunnerScaleSetID l)), (deadlineKey, time_RFC3339 (l_Deadline l))],
         mg_AutoDestroy = True, mg_Restart = ''no'',
         mg_Guest = \<lparr>gc_CPUs = fl_cpus a, gc_MemoryMB = fl_memoryMB a, gc_CPUKind = fl_cpuKind a\<rparr>, mg_RootFSGB = fl_rootFSGB a,
         mg_StopSignal = ''SIGTERM'', mg_StopTimeout = 30 * second\<rparr>\<rparr>"

definition create_machine_request :: "fly \<Rightarrow> createMachineRequest \<Rightarrow> flyRequest" where
  "create_machine_request a payload =
     \<lparr>rq_Method = MethodPost, rq_Path = machines_path (fl_app a), rq_Query = [], rq_Body = Some (CreateMachine payload)\<rparr>"

text \<open>The loop of \<^verbatim>\<open>Launch\<close> from an attempt on, \<open>n\<close> attempts left.\<close>

fun fly_attempts :: "nat \<Rightarrow> 'w flyCloud \<Rightarrow> fly \<Rightarrow> lease \<Rightarrow> createMachineRequest \<Rightarrow> int \<Rightarrow> goerr \<Rightarrow> ('w flySys, goerr + worker) state" where
  "fly_attempts 0 env a l payload attempt lastErr = State_Monad.return (Inl lastErr)"
| "fly_attempts (Suc n) env a l payload attempt lastErr =
     do { waited \<leftarrow> cloud_do (cl_wait env);
          case waited of
            Some err \<Rightarrow> State_Monad.return (Inl err)
          | None \<Rightarrow>
              do { (created, err) \<leftarrow> fly_doJSON env (create_machine_request a payload) fr_machine zeroMachine;
                   case err of
                     None \<Rightarrow>
                       State_Monad.return
                         (if ma_ID created = []
                          then Inl (ErrText (''create Fly worker '' @ l_RunnerName l @ '': response did not include a machine id''))
                          else Inr (withLeaseProof (fly_toWorker created) l))
                   | Some e \<Rightarrow>
                       if ma_ID created \<noteq> []
                       then State_Monad.return (Inl (PartialLaunchError (withLeaseProof (fly_toWorker created) l) e))
                       else (let lastErr = ErrWrap (''create Fly worker '' @ l_RunnerName l) e
                             in if \<not> IsTransient err then State_Monad.return (Inl lastErr)
                                else do { existing \<leftarrow> fly_findByLease env a (l_ID l);
                                          case existing of
                                            Inl lookupErr \<Rightarrow>
                                              State_Monad.return (Inl (ErrJoin [lastErr, ErrWrap ''confirm Fly worker absence before retry'' lookupErr]))
                                          | Inr (Some w) \<Rightarrow> State_Monad.return (Inr (withLeaseProof w l))
                                          | Inr None \<Rightarrow>
                                              if n = 0 then State_Monad.return (Inl lastErr)
                                              else do { slept \<leftarrow> backoff_sleep env attempt;
                                                        case slept of
                                                          Some err \<Rightarrow> State_Monad.return (Inl (ErrJoin [lastErr, err]))
                                                        | None \<Rightarrow> fly_attempts n env a l payload (attempt + 1) lastErr } }) } }"

definition fly_Launch :: "'w flyCloud \<Rightarrow> fly \<Rightarrow> lease \<Rightarrow> ('w flySys, goerr + worker) state" where
  "fly_Launch env a l = fly_attempts (attempts_of env) env a l (fly_payload a l) 1 (ErrText [])"

section \<open>Destroy\<close>

definition fly_leaving :: "'w flyCloud \<Rightarrow> fly \<Rightarrow> string \<Rightarrow> ('w flySys, bool) state" where
  "fly_leaving env a workerID =
     do { (item, err) \<leftarrow> fly_doJSON env (plain_request MethodGet (machines_path (fl_app a) @ [workerID])) fr_machine zeroMachine;
          State_Monad.return (status_is 404 err \<or> (err = None \<and> (ma_State item = destroyingMachine \<or> ma_State item = destroyedMachine))) }"

definition force_delete :: "string \<Rightarrow> string \<Rightarrow> flyRequest" where
  "force_delete app machineID =
     \<lparr>rq_Method = MethodDelete, rq_Path = machines_path app @ [machineID], rq_Query = [(''force'', ''true'')], rq_Body = None\<rparr>"

definition fly_delete_once :: "'w flyCloud \<Rightarrow> fly \<Rightarrow> string \<Rightarrow> ('w flySys, unit \<times> goerr option) state" where
  "fly_delete_once env a workerID =
     do { out \<leftarrow> cloud_send env (force_delete (fl_app a) workerID);
          case out of
            NotBuilt e \<Rightarrow> State_Monad.return ((), Some (ErrWrap ''build delete request'' e))
          | NoAnswer e \<Rightarrow> State_Monad.return ((), ClassifyRequestError (Some e))
          | Answered r \<Rightarrow>
              if rs_Status r = 404 then State_Monad.return ((), None)
              else if rs_Status r = 412
              then do { gone \<leftarrow> fly_leaving env a workerID; State_Monad.return ((), if gone then None else Some (fly_responseError r)) }
              else State_Monad.return ((), if \<not> good_status (rs_Status r) then Some (fly_responseError r) else None) }"

definition fly_Destroy :: "'w flyCloud \<Rightarrow> fly \<Rightarrow> string \<Rightarrow> ('w flySys, goerr option) state" where
  "fly_Destroy env a workerID =
     (if workerID = [] then State_Monad.return None
      else do { (u, err) \<leftarrow> retry_value (cloud_retryer env) () (fly_delete_once env a workerID);
                State_Monad.return (map_option (ErrWrap (''delete Fly worker '' @ workerID)) err) })"

end
