(* ===== verification/Fly_Hosts.thy ===== *)
theory Fly_Hosts
  imports Fly_Adapter Host_Agent
begin

text \<open>
  Fly Machines as pool hosts (\<^verbatim>\<open>providers/fly/hostsource.go\<close>): each host is one Machine with one volume.
  Listing with the sweep of volumes that belong to no Machine, creation, deletion, stop and start, each
  after a check of the labels.

  The waits for a state poll until their context ends, which it does after \<open>ps_StateTimeout\<close>; the polls are
  \<open>ps_PollInterval\<close> apart.  The hash, the derivation of host keys, random bytes, the clock and the JSON text
  of the agent's configuration are parameters; the time of the last sweep is passed along.
\<close>

section \<open>Configuration\<close>

definition poolImageKey :: string where "poolImageKey = ''runneryard-pool-image''"
definition fly_hostIDPrefix :: string where "fly_hostIDPrefix = ''fly-''"
definition dataPath :: string where "dataPath = ''/data''"
definition stoppedMachine :: string where "stoppedMachine = ''stopped''"
definition startedMachine :: string where "startedMachine = ''started''"
definition orphanVolumeAge :: duration where "orphanVolumeAge = 30 * minute"
definition volumeSweepEvery :: duration where "volumeSweepEvery = 10 * minute"
definition BootPort :: string where "BootPort = ''2222''"

definition safeMachineID :: "string \<Rightarrow> bool" where
  "safeMachineID s \<longleftrightarrow> s \<noteq> [] \<and> length s \<le> 64 \<and> list_all (\<lambda>c. is_lower c \<or> is_digit c) s"

record 'w flyPool =
  ps_APIToken :: string
  ps_APIBaseURL :: string
  ps_App :: string
  ps_Region :: string
  ps_CPUKind :: string
  ps_CPUs :: int
  ps_MemoryMB :: int
  ps_VolumeGB :: int
  ps_ControllerID :: string
  ps_Pool :: string
  ps_HourlyPrice :: rat
  ps_RunnerImage :: string
  ps_Slots :: int
  ps_SlotCPUs :: rat
  ps_SlotMemoryMB :: int
  ps_Caches :: "string list"
  ps_MinFreeDiskGB :: int
  ps_DockerDNS :: string
  ps_HostKey :: "(string \<Rightarrow> goerr + string \<times> string) option"
  ps_AuthorizedKey :: string
  ps_PollInterval :: duration
  ps_StateTimeout :: duration
  ps_Now :: "'w \<Rightarrow> gotime \<times> 'w"
  ps_RandRead :: "'w \<Rightarrow> (goerr + string) \<times> 'w"
  ps_Sum256 :: "string \<Rightarrow> string"
  ps_hostJSON :: "hostConfig \<Rightarrow> string"

record 'w flySource =
  fs_cfg :: "'w flyPool"
  fs_key :: "string \<Rightarrow> goerr + string \<times> string"
  fs_api :: fly
  fs_price :: rat
  fs_imageTag :: string
  fs_volumePrefix :: string
  fs_dockerDNS :: string

definition fly_hostConfig :: "'w flyPool \<Rightarrow> string \<Rightarrow> hostConfig" where
  "fly_hostConfig cfg img =
     \<lparr>hc_Slots = ps_Slots cfg, hc_Image = img, hc_SlotCPUs = ps_SlotCPUs cfg, hc_SlotMemoryMB = ps_SlotMemoryMB cfg, hc_Caches = ps_Caches cfg,
      hc_MinFreeDiskGB = ps_MinFreeDiskGB cfg, hc_DockerRoot = dataPath @ ''/docker''\<rparr>"

definition imageTag :: "'w flyPool \<Rightarrow> string \<Rightarrow> string" where
  "imageTag cfg img = hex_encode (take 8 (ps_Sum256 cfg img))"

definition fly_price :: "'w flyPool \<Rightarrow> goerr + rat" where
  "fly_price cfg =
     (if ps_HourlyPrice cfg < 0 then Inl (ErrText ''fly pool hourly price cannot be negative'')
      else if ps_HourlyPrice cfg = 0
      then (case HourlyPriceUSD (ps_CPUKind cfg) (ps_CPUs cfg) (ps_MemoryMB cfg) (ps_Region cfg) of
              None \<Rightarrow> Inl (ErrText ''no listed price multiplier for region; set hourly_price'')
            | Some listed \<Rightarrow> Inr listed)
      else Inr (ps_HourlyPrice cfg))"

definition fly_pool_fault :: "'w flyPool \<Rightarrow> string option" where
  "fly_pool_fault cfg =
     (if \<not> ValidName (ps_Pool cfg) then Some ''fly pool name must be lowercase letters, digits, and hyphens''
      else if ps_APIToken cfg = [] \<or> ps_App cfg = [] \<or> ps_Region cfg = [] \<or> ps_ControllerID cfg = []
      then Some ''fly pool requires a token, an app, a region, and a controller ID''
      else if ps_HostKey cfg = None \<or> trimSpace (ps_AuthorizedKey cfg) = [] then Some ''fly pool requires the controller SSH key''
      else if ps_CPUKind cfg \<noteq> ''shared'' \<and> ps_CPUKind cfg \<noteq> ''performance'' then Some ''fly pool CPU kind must be shared or performance''
      else if ps_CPUs cfg < 1 \<or> ps_MemoryMB cfg < 1024 \<or> go_rem (ps_MemoryMB cfg) 256 \<noteq> 0
      then Some ''fly pool hosts need at least 1 CPU and 1024 MB of memory in steps of 256 MB''
      else if ps_VolumeGB cfg < 10 \<or> ps_VolumeGB cfg > 500 then Some ''fly pool volume_gb must be between 10 and 500''
      else None)"

definition fly_NewHostSource :: "(string \<Rightarrow> string option) \<Rightarrow> 'w flyPool \<Rightarrow> goerr + 'w flySource" where
  "fly_NewHostSource parseIP cfg =
     (case fly_pool_fault cfg of
        Some m \<Rightarrow> Inl (ErrText m)
      | None \<Rightarrow>
          (case host_Validate (fly_hostConfig cfg (ps_RunnerImage cfg)) of
             Some e \<Rightarrow> Inl (ErrWrap ''fly pool'' e)
           | None \<Rightarrow>
               (case normalizeDockerDNS parseIP (ps_DockerDNS cfg) of
                  Inl err \<Rightarrow> Inl err
                | Inr dockerDNS \<Rightarrow>
                    (case fly_price cfg of
                       Inl err \<Rightarrow> Inl err
                     | Inr price \<Rightarrow> Inr
                         \<lparr>fs_cfg = cfg\<lparr>ps_PollInterval := if ps_PollInterval cfg \<le> 0 then 2 * second else ps_PollInterval cfg,
                                       ps_StateTimeout := if ps_StateTimeout cfg \<le> 0 then 3 * minute else ps_StateTimeout cfg\<rparr>,
                          fs_key = the (ps_HostKey cfg),
                          fs_api = \<lparr>fl_baseURL = trim_right (CHR ''/'') (if ps_APIBaseURL cfg = [] then ''https://api.machines.dev'' else ps_APIBaseURL cfg),
                            fl_token = ps_APIToken cfg, fl_app = ps_App cfg, fl_region = [], fl_image = [],
                            fl_controllerID = [], fl_cpuKind = [], fl_cpus = 0, fl_memoryMB = 0, fl_rootFSGB = 0, fl_dockerDNS = []\<rparr>,
                          fs_price = price, fs_imageTag = imageTag cfg (ps_RunnerImage cfg),
                          fs_volumePrefix = ''ry_'' @ hex_encode (take 4 (ps_Sum256 cfg (ps_ControllerID cfg @ ''|'' @ ps_Pool cfg))) @ ''_'',
                          fs_dockerDNS = dockerDNS\<rparr>))))"

definition fly_Facts :: "'w flySource \<Rightarrow> facts" where
  "fly_Facts s = \<lparr>fa_Billing = BillingPerSecond, fa_HourlyPrice = fs_price s, fa_Currency = ''USD'', fa_CanCreate = True\<rparr>"

section \<open>Ownership\<close>

definition fly_owns :: "'w flySource \<Rightarrow> poolMachine \<Rightarrow> bool" where
  "fly_owns s item \<longleftrightarrow>
     label_of (pm_Metadata item) poolHostKey = ''true'' \<and> label_of (pm_Metadata item) controllerIDKey = ps_ControllerID (fs_cfg s)
     \<and> label_of (pm_Metadata item) poolNameKey = ps_Pool (fs_cfg s) \<and> label_of (pm_Metadata item) managedByKey = []"

definition fly_host_state :: "poolMachine \<Rightarrow> string" where
  "fly_host_state item =
     (if pm_State item = startedMachine then ''running''
      else if pm_State item \<in> {stoppedMachine, ''suspended'', ''failed''} then HostStopped
      else pm_State item)"

definition fly_host_image :: "'w flySource \<Rightarrow> poolMachine \<Rightarrow> string" where
  "fly_host_image s item =
     (let tag = label_of (pm_Metadata item) poolImageKey
      in if tag \<noteq> [] \<and> pm_Image item \<noteq> [] \<and> imageTag (fs_cfg s) (pm_Image item) = tag then pm_Image item
         else if tag = fs_imageTag s then ps_RunnerImage (fs_cfg s)
         else if tag \<noteq> [] then ''other-image@'' @ tag
         else [])"

definition fly_toHost :: "'w flySource \<Rightarrow> poolMachine \<Rightarrow> goerr + host" where
  "fly_toHost s item =
     (case fs_key s (pm_Name item) of
        Inl err \<Rightarrow> Inl (ErrWrap (''derive host key of '' @ pm_Name item) err)
      | Inr (private, public) \<Rightarrow>
          Inr (zeroHost\<lparr>ho_ID := fly_hostIDPrefix @ pm_ID item, ho_HostKey := public, ho_CreatedAt := pm_CreatedAt item,
                 ho_StateSince := pm_UpdatedAt item, ho_State := fly_host_state item,
                 ho_Address := if pm_PrivateIP item \<noteq> [] then JoinHostPort (pm_PrivateIP item) BootPort else [],
                 ho_Image := fly_host_image s item\<rparr>))"

section \<open>Machines and volumes\<close>

definition pool_machines_path :: "'w flySource \<Rightarrow> string list" where
  "pool_machines_path s = machines_path (fl_app (fs_api s))"

definition volumes_path :: "'w flySource \<Rightarrow> string list" where
  "volumes_path s = [''v1'', ''apps'', ps_App (fs_cfg s), ''volumes'']"

text \<open>\<^verbatim>\<open>machine\<close>: \<open>Inr None\<close> is \<^verbatim>\<open>errMachineGone\<close>.\<close>

definition pool_machine :: "'w flyCloud \<Rightarrow> 'w flySource \<Rightarrow> string \<Rightarrow> ('w flySys, goerr + poolMachine option) state" where
  "pool_machine env s machineID =
     do { (item, err) \<leftarrow> fly_retried env (plain_request MethodGet (pool_machines_path s @ [machineID])) fr_pool zeroPoolMachine;
          State_Monad.return
            (if status_is 404 err then Inr None
             else (case err of Some e \<Rightarrow> Inl (ErrWrap (''look up Fly Machine '' @ machineID) e) | None \<Rightarrow> Inr (Some item))) }"

definition ownedMachine :: "'w flyCloud \<Rightarrow> 'w flySource \<Rightarrow> string \<Rightarrow> ('w flySys, goerr + poolMachine option) state" where
  "ownedMachine env s hostID =
     (case cut_prefix fly_hostIDPrefix hostID of
        None \<Rightarrow> State_Monad.return (Inl (ErrText ''invalid Fly pool host id''))
      | Some machineID \<Rightarrow>
          if \<not> safeMachineID machineID then State_Monad.return (Inl (ErrText ''invalid Fly pool host id''))
          else do { r \<leftarrow> pool_machine env s machineID;
                    State_Monad.return
                      (case r of
                         Inr (Some item) \<Rightarrow>
                           if \<not> fly_owns s item then Inl (ErrText (''refusing to touch Fly Machine '' @ machineID)) else Inr (Some item)
                       | other \<Rightarrow> other) })"

definition pool_machines :: "'w flyCloud \<Rightarrow> 'w flySource \<Rightarrow> ('w flySys, poolMachine list \<times> goerr option) state" where
  "pool_machines env s = fly_retried env (plain_request MethodGet (pool_machines_path s)) fr_pools []"

definition findByName :: "'w flyCloud \<Rightarrow> 'w flySource \<Rightarrow> string \<Rightarrow> ('w flySys, goerr + poolMachine option) state" where
  "findByName env s name =
     do { (machines, err) \<leftarrow> pool_machines env s;
          State_Monad.return
            (case err of
               Some e \<Rightarrow> Inl (ErrWrap ''confirm Fly pool host absence'' e)
             | None \<Rightarrow> Inr (List.find (\<lambda>item. pm_Name item = name \<and> fly_owns s item) machines)) }"

definition state_polls :: "'w flySource \<Rightarrow> nat" where
  "state_polls s = nat (ps_StateTimeout (fs_cfg s) div ps_PollInterval (fs_cfg s))"

fun wait_state :: "nat \<Rightarrow> 'w flyCloud \<Rightarrow> 'w flySource \<Rightarrow> string \<Rightarrow> string \<Rightarrow> string \<Rightarrow> ('w flySys, goerr option) state" where
  "wait_state n env s machineID want last_state =
     (let again = (\<lambda>last_state.
            let late = Some (ErrText (''machine '' @ machineID @ '' still '' @ last_state @ '' waiting for '' @ want))
            in case n of
                 0 \<Rightarrow> State_Monad.return late
               | Suc k \<Rightarrow>
                   do { slept \<leftarrow> cloud_do (cl_sleep env (ps_PollInterval (fs_cfg s)));
                        case slept of Some err \<Rightarrow> State_Monad.return late | None \<Rightarrow> wait_state k env s machineID want last_state })
      in do { r \<leftarrow> pool_machine env s machineID;
              case r of
                Inl err \<Rightarrow> again last_state
              | Inr None \<Rightarrow> State_Monad.return (if want = destroyedMachine then None else Some (ErrText ''machine no longer exists''))
              | Inr (Some item) \<Rightarrow> if pm_State item = want then State_Monad.return None else again (pm_State item) })"

definition waitState :: "'w flyCloud \<Rightarrow> 'w flySource \<Rightarrow> string \<Rightarrow> string \<Rightarrow> ('w flySys, goerr option) state" where
  "waitState env s machineID want = wait_state (state_polls s) env s machineID want []"

definition fly_volumes :: "'w flyCloud \<Rightarrow> 'w flySource \<Rightarrow> ('w flySys, flyVolume list \<times> goerr option) state" where
  "fly_volumes env s = fly_retried env (plain_request MethodGet (volumes_path s)) fr_volumes []"

definition delete_volume :: "'w flySource \<Rightarrow> string \<Rightarrow> flyRequest" where
  "delete_volume s volumeID = plain_request MethodDelete (volumes_path s @ [volumeID])"

text \<open>A deletion that finds nothing has succeeded.\<close>

definition deleted_or_gone :: "unit \<times> goerr option \<Rightarrow> unit \<times> goerr option" where
  "deleted_or_gone r = (if status_is 404 (snd r) then ((), None) else r)"

definition retried_delete :: "'w flyCloud \<Rightarrow> flyRequest \<Rightarrow> ('w flySys, unit \<times> goerr option) state" where
  "retried_delete env req =
     retry_value (cloud_retryer env) ()
       (do { r \<leftarrow> fly_doJSON env req nil_target (); State_Monad.return (deleted_or_gone r) })"

text \<open>A refusal to delete that ends the wait for the volume.\<close>

definition delete_hopeless :: "goerr \<Rightarrow> bool" where
  "delete_hopeless e \<longleftrightarrow>
     (case errors_As as_status (Some e) of None \<Rightarrow> True | Some (p, status) \<Rightarrow> status \<ge> 500 \<or> status = 401 \<or> status = 403)"

fun drop_volume :: "nat \<Rightarrow> 'w flyCloud \<Rightarrow> 'w flySource \<Rightarrow> string \<Rightarrow> ('w flySys, goerr option) state" where
  "drop_volume n env s volumeID =
     (let again = (case n of
            0 \<Rightarrow> State_Monad.return (Some (ErrText (''volume '' @ volumeID @ '' is still attached'')))
          | Suc k \<Rightarrow>
              do { slept \<leftarrow> cloud_do (cl_sleep env (ps_PollInterval (fs_cfg s)));
                   case slept of
                     Some err \<Rightarrow> State_Monad.return (Some (ErrText (''volume '' @ volumeID @ '' is still attached'')))
                   | None \<Rightarrow> drop_volume k env s volumeID })
      in do { (volume, err) \<leftarrow> fly_retried env (plain_request MethodGet (volumes_path s @ [volumeID])) fr_volume zeroVolume;
              if status_is 404 err \<or> (err = None \<and> fv_State volume \<in> {destroyedMachine, ''pending_destroy''}) then State_Monad.return None
              else (case err of
                      Some e \<Rightarrow> State_Monad.return (Some (ErrWrap (''look up volume '' @ volumeID) e))
                    | None \<Rightarrow>
                        if \<not> prefix (fs_volumePrefix s) (fv_Name volume)
                        then State_Monad.return (Some (ErrText (''refusing to delete volume '' @ volumeID)))
                        else if volume_attached volume then again
                        else do { (u, err) \<leftarrow> retried_delete env (delete_volume s volumeID);
                                  case err of
                                    None \<Rightarrow> State_Monad.return None
                                  | Some e \<Rightarrow>
                                      if delete_hopeless e then State_Monad.return (Some (ErrWrap (''delete volume '' @ volumeID) e))
                                      else again }) })"

definition dropVolume :: "'w flyCloud \<Rightarrow> 'w flySource \<Rightarrow> string \<Rightarrow> ('w flySys, goerr option) state" where
  "dropVolume env s volumeID = drop_volume (state_polls s) env s volumeID"

section \<open>Listing and the sweep\<close>

definition orphan :: "'w flySource \<Rightarrow> gotime \<Rightarrow> string list \<Rightarrow> flyVolume \<Rightarrow> bool" where
  "orphan s now mounted v \<longleftrightarrow>
     \<not> (\<not> prefix (fs_volumePrefix s) (fv_Name v) \<or> fv_ID v \<in> set mounted \<or> volume_attached v
        \<or> fv_State v \<in> {destroyingMachine, destroyedMachine, ''pending_destroy''}
        \<or> time_isZero (fv_CreatedAt v) \<or> time_sub now (fv_CreatedAt v) < orphanVolumeAge)"

fun drop_each :: "'w flyCloud \<Rightarrow> 'w flySource \<Rightarrow> string list \<Rightarrow> ('w flySys, unit) state" where
  "drop_each env s [] = State_Monad.return ()"
| "drop_each env s (v # vs) = do { err \<leftarrow> dropVolume env s v; drop_each env s vs }"

text \<open>The sweep; it returns the time of the last one.\<close>

definition sweepVolumes :: "'w flyCloud \<Rightarrow> 'w flySource \<Rightarrow> string list \<Rightarrow> gotime \<Rightarrow> ('w flySys, gotime) state" where
  "sweepVolumes env s mounted sweptAt =
     do { now \<leftarrow> cloud_do (ps_Now (fs_cfg s));
          if \<not> time_isZero sweptAt \<and> time_sub now sweptAt < volumeSweepEvery then State_Monad.return sweptAt
          else do { (volumes, err) \<leftarrow> fly_volumes env s;
                    case err of
                      Some e \<Rightarrow> State_Monad.return now
                    | None \<Rightarrow>
                        do { u \<leftarrow> drop_each env s (map fv_ID (filter (orphan s now mounted) volumes)); State_Monad.return now } } }"

definition listable :: "'w flySource \<Rightarrow> poolMachine \<Rightarrow> bool" where
  "listable s item \<longleftrightarrow> \<not> (\<not> fly_owns s item \<or> pm_State item = destroyingMachine \<or> pm_State item = destroyedMachine)"

fun fly_toHosts :: "'w flySource \<Rightarrow> poolMachine list \<Rightarrow> goerr + host list" where
  "fly_toHosts s [] = Inr []"
| "fly_toHosts s (item # items) =
     (if \<not> listable s item then fly_toHosts s items
      else (case fly_toHost s item of
              Inl err \<Rightarrow> Inl err
            | Inr h \<Rightarrow> (case fly_toHosts s items of Inl err \<Rightarrow> Inl err | Inr hs \<Rightarrow> Inr (h # hs))))"

definition mounted_volumes :: "poolMachine list \<Rightarrow> string list" where
  "mounted_volumes machines = concat (map (\<lambda>item. map mm_Volume (pm_Mounts item)) machines)"

definition fly_List :: "'w flyCloud \<Rightarrow> 'w flySource \<Rightarrow> gotime \<Rightarrow> ('w flySys, (goerr + host list) \<times> gotime) state" where
  "fly_List env s sweptAt =
     do { (machines, err) \<leftarrow> pool_machines env s;
          case err of
            Some e \<Rightarrow> State_Monad.return (Inl (ErrWrap ''list Fly pool hosts'' e), sweptAt)
          | None \<Rightarrow>
              (case fly_toHosts s machines of
                 Inl err \<Rightarrow> State_Monad.return (Inl err, sweptAt)
               | Inr hosts \<Rightarrow>
                   do { swept \<leftarrow> sweepVolumes env s (mounted_volumes machines) sweptAt; State_Monad.return (Inr hosts, swept) }) }"

section \<open>Creation\<close>

definition volume_request :: "'w flySource \<Rightarrow> createVolumeRequest \<Rightarrow> flyRequest" where
  "volume_request s payload =
     \<lparr>rq_Method = MethodPost, rq_Path = volumes_path s, rq_Query = [], rq_Body = Some (CreateVolume payload)\<rparr>"

definition guest_of :: "'w flySource \<Rightarrow> guestConfig" where
  "guest_of s = \<lparr>gc_CPUs = ps_CPUs (fs_cfg s), gc_MemoryMB = ps_MemoryMB (fs_cfg s), gc_CPUKind = ps_CPUKind (fs_cfg s)\<rparr>"

definition created_volume :: "string \<Rightarrow> flyVolume \<times> goerr option \<Rightarrow> goerr + flyVolume" where
  "created_volume name r =
     (case snd r of
        Some e \<Rightarrow> Inl e
      | None \<Rightarrow>
          if fv_ID (fst r) = [] \<or> fv_Name (fst r) \<noteq> name then Inl (ErrText ''the response is not the requested volume'') else Inr (fst r))"

definition createVolume :: "'w flyCloud \<Rightarrow> 'w flySource \<Rightarrow> string \<Rightarrow> guestConfig \<Rightarrow> ('w flySys, goerr + flyVolume) state" where
  "createVolume env s name guest =
     do { waited \<leftarrow> cloud_do (cl_wait env);
          case waited of
            Some err \<Rightarrow> State_Monad.return (Inl err)
          | None \<Rightarrow>
              do { r \<leftarrow> fly_doJSON env (volume_request s \<lparr>cv_Name = name, cv_Region = ps_Region (fs_cfg s), cv_SizeGB = ps_VolumeGB (fs_cfg s),
                          cv_Encrypted = True, cv_AutoBackupEnabled = False, cv_Compute = guest\<rparr>) fr_volume zeroVolume;
                   case snd r of
                     Some e \<Rightarrow>
                       if IsTransient (snd r)
                       then do { (volumes, listErr) \<leftarrow> fly_volumes env s;
                                 State_Monad.return
                                   (case listErr of
                                      Some le \<Rightarrow> Inl (ErrJoin [e, le])
                                    | None \<Rightarrow> (case List.find (\<lambda>v. fv_Name v = name) volumes of Some v \<Rightarrow> Inr v | None \<Rightarrow> created_volume name r)) }
                       else State_Monad.return (created_volume name r)
                   | None \<Rightarrow> State_Monad.return (created_volume name r) } }"

definition pool_payload :: "'w flySource \<Rightarrow> string \<Rightarrow> string \<Rightarrow> string \<Rightarrow> string \<Rightarrow> createPoolMachineRequest" where
  "pool_payload s name img privateKey volumeID =
     \<lparr>co_Name = name, co_Region = ps_Region (fs_cfg s), co_Image = img, co_Guest = guest_of s,
      co_Processes = [\<lparr>pr_Entrypoint = [''/usr/local/bin/runneryard'', ''host'', ''boot''], pr_User = ''root'',
        pr_Env = [(''RUNNERYARD_DOCKER_DNS'', fs_dockerDNS s)], pr_IgnoreAppSecrets = True\<rparr>],
      co_Metadata = [(poolHostKey, ''true''), (controllerIDKey, ps_ControllerID (fs_cfg s)), (poolNameKey, ps_Pool (fs_cfg s)),
        (poolImageKey, imageTag (fs_cfg s) img)],
      co_Mounts = [\<lparr>mm_Volume = volumeID, mm_Path = dataPath\<rparr>],
      co_Files =
        [\<lparr>mf_GuestPath = ''/etc/runneryard/host.json'',
          mf_RawValue = base64_encode (ps_hostJSON (fs_cfg s) (fly_hostConfig (fs_cfg s) img) @ [CHR 0x0A]), mf_Mode = 420\<rparr>,
         \<lparr>mf_GuestPath = ''/etc/runneryard/ssh_host_ed25519_key'', mf_RawValue = base64_encode privateKey, mf_Mode = 384\<rparr>,
         \<lparr>mf_GuestPath = ''/etc/runneryard/controller.pub'', mf_RawValue = base64_encode (trimSpace (ps_AuthorizedKey (fs_cfg s)) @ [CHR 0x0A]),
          mf_Mode = 420\<rparr>],
      co_AutoDestroy = False, co_Restart = ''no'', co_StopSignal = ''SIGTERM'', co_StopTimeout = 30 * second\<rparr>"

definition pool_machine_request :: "'w flySource \<Rightarrow> createPoolMachineRequest \<Rightarrow> flyRequest" where
  "pool_machine_request s payload =
     \<lparr>rq_Method = MethodPost, rq_Path = pool_machines_path s, rq_Query = [], rq_Body = Some (CreatePoolMachine payload)\<rparr>"

text \<open>\<^verbatim>\<open>errors.Join(err, s.dropVolume(...))\<close>.\<close>

definition fly_give_up :: "'w flyCloud \<Rightarrow> 'w flySource \<Rightarrow> goerr \<Rightarrow> string \<Rightarrow> ('w flySys, goerr + host) state" where
  "fly_give_up env s e volumeID =
     do { err \<leftarrow> dropVolume env s volumeID; State_Monad.return (Inl (ErrJoin (e # (case err of None \<Rightarrow> [] | Some d \<Rightarrow> [d])))) }"

definition created_host :: "'w flySource \<Rightarrow> string \<Rightarrow> poolMachine \<Rightarrow> goerr + host" where
  "created_host s name created =
     (if pm_ID created = [] \<or> \<not> fly_owns s created
      then Inl (ErrText (''create Fly pool host '' @ name @ '': the response is not a Machine of this pool''))
      else fly_toHost s created)"

definition create_on_volume :: "'w flyCloud \<Rightarrow> 'w flySource \<Rightarrow> string \<Rightarrow> string \<Rightarrow> string \<Rightarrow> string \<Rightarrow> ('w flySys, goerr + host) state" where
  "create_on_volume env s name img privateKey volumeID =
     do { waited \<leftarrow> cloud_do (cl_wait env);
          case waited of
            Some err \<Rightarrow> fly_give_up env s err volumeID
          | None \<Rightarrow>
              do { (created, err) \<leftarrow> fly_doJSON env (pool_machine_request s (pool_payload s name img privateKey volumeID)) fr_pool zeroPoolMachine;
                   case err of
                     None \<Rightarrow> State_Monad.return (created_host s name created)
                   | Some e \<Rightarrow>
                       (let failed = ErrWrap (''create Fly pool host '' @ name) e
                        in if IsTransient err
                           then do { found \<leftarrow> findByName env s name;
                                     case found of
                                       Inl lookupErr \<Rightarrow> State_Monad.return (Inl (ErrJoin [failed, lookupErr]))
                                     | Inr (Some item) \<Rightarrow> State_Monad.return (created_host s name item)
                                     | Inr None \<Rightarrow> fly_give_up env s failed volumeID }
                           else fly_give_up env s failed volumeID) } }"

definition fly_Create :: "'w flyCloud \<Rightarrow> 'w flySource \<Rightarrow> string \<Rightarrow> ('w flySys, goerr + host) state" where
  "fly_Create env s img =
     (case host_Validate (fly_hostConfig (fs_cfg s) img) of
        Some e \<Rightarrow> State_Monad.return (Inl (ErrWrap ''fly pool'' e))
      | None \<Rightarrow>
          do { r \<leftarrow> cloud_do (ps_RandRead (fs_cfg s));
               case r of
                 Inl err \<Rightarrow> State_Monad.return (Inl (ErrWrap ''name pool host'' err))
               | Inr bytes \<Rightarrow>
                   (let name = ''ry-'' @ ps_Pool (fs_cfg s) @ ''-'' @ hex_encode bytes
                    in case fs_key s name of
                         Inl err \<Rightarrow> State_Monad.return (Inl (ErrWrap (''derive host key of '' @ name) err))
                       | Inr (privateKey, publicKey) \<Rightarrow>
                           do { made \<leftarrow> createVolume env s (fs_volumePrefix s @ hex_encode bytes) (guest_of s);
                                case made of
                                  Inl err \<Rightarrow> State_Monad.return (Inl (ErrWrap (''create volume of Fly pool host '' @ name) err))
                                | Inr volume \<Rightarrow> create_on_volume env s name img privateKey (fv_ID volume) }) })"

section \<open>Deletion, stop, start\<close>

definition fly_Delete :: "'w flyCloud \<Rightarrow> 'w flySource \<Rightarrow> string \<Rightarrow> ('w flySys, goerr option) state" where
  "fly_Delete env s hostID =
     do { r \<leftarrow> ownedMachine env s hostID;
          case r of
            Inl err \<Rightarrow> State_Monad.return (Some err)
          | Inr None \<Rightarrow> State_Monad.return None
          | Inr (Some item) \<Rightarrow>
              do { (u, err) \<leftarrow> retried_delete env (force_delete (fl_app (fs_api s)) (pm_ID item));
                   case err of
                     Some e \<Rightarrow> State_Monad.return (Some (ErrWrap (''delete Fly pool host '' @ hostID) e))
                   | None \<Rightarrow>
                       do { err \<leftarrow> waitState env s (pm_ID item) destroyedMachine;
                            case err of
                              Some e \<Rightarrow> State_Monad.return (Some (ErrWrap (''delete Fly pool host '' @ hostID) e))
                            | None \<Rightarrow> do { u \<leftarrow> drop_each env s (map mm_Volume (pm_Mounts item)); State_Monad.return None } } } }"

definition transition_request :: "'w flySource \<Rightarrow> string \<Rightarrow> string \<Rightarrow> flyRequest" where
  "transition_request s machineID verb = plain_request MethodPost (pool_machines_path s @ [machineID, verb])"

definition under_way :: "string \<Rightarrow> string" where
  "under_way want = (if want = stoppedMachine then ''stopping'' else if want = startedMachine then ''starting'' else [])"

definition transition :: "'w flyCloud \<Rightarrow> 'w flySource \<Rightarrow> string \<Rightarrow> string \<Rightarrow> string \<Rightarrow> ('w flySys, goerr option) state" where
  "transition env s hostID verb want =
     (let fail = ErrWrap (verb @ '' Fly pool host '' @ hostID)
      in do { r \<leftarrow> ownedMachine env s hostID;
              case r of
                Inl err \<Rightarrow> State_Monad.return (Some (fail err))
              | Inr None \<Rightarrow> State_Monad.return (Some (fail (ErrText ''machine no longer exists'')))
              | Inr (Some item) \<Rightarrow>
                  do { err \<leftarrow> (if pm_State item \<noteq> want \<and> pm_State item \<noteq> under_way want
                                  then do { (u, err) \<leftarrow> fly_retried env (transition_request s (pm_ID item) verb) nil_target ();
                                            State_Monad.return err }
                                  else State_Monad.return None);
                       case err of
                         Some e \<Rightarrow> State_Monad.return (Some (fail e))
                       | None \<Rightarrow> do { err \<leftarrow> waitState env s (pm_ID item) want; State_Monad.return (map_option fail err) } } })"

definition fly_Stop :: "'w flyCloud \<Rightarrow> 'w flySource \<Rightarrow> string \<Rightarrow> ('w flySys, goerr option) state" where
  "fly_Stop env s hostID = transition env s hostID ''stop'' stoppedMachine"

definition fly_Start :: "'w flyCloud \<Rightarrow> 'w flySource \<Rightarrow> string \<Rightarrow> ('w flySys, goerr option) state" where
  "fly_Start env s hostID = transition env s hostID ''start'' startedMachine"

declare wait_state.simps [simp del] drop_volume.simps [simp del]

end
