(* ===== verification/Fly_Correct.thy ===== *)
theory Fly_Correct
  imports Fly_Hosts
begin

text \<open>
  What the Fly adapters promise: a pool touches no Machine and no volume but its own, the sweep deletes only
  volumes no Machine uses, and workers and pool hosts are told apart.
\<close>

section \<open>Touching only the pool's own\<close>

definition machine_seen :: "'w flySource \<Rightarrow> string \<Rightarrow> (flyRequest \<times> flyReply outcome) list \<Rightarrow> bool" where
  "machine_seen src machineID es \<longleftrightarrow>
     (\<exists>asked r. (plain_request MethodGet (pool_machines_path src @ [asked]), Answered r) \<in> set es \<and> good_status (rs_Status r)
        \<and> pm_ID (fst (fr_pool (rs_Body r))) = machineID \<and> fly_owns src (fst (fr_pool (rs_Body r))))"

definition volume_seen :: "'w flySource \<Rightarrow> string \<Rightarrow> (flyRequest \<times> flyReply outcome) list \<Rightarrow> bool" where
  "volume_seen src volumeID es \<longleftrightarrow>
     (\<exists>out v. (plain_request MethodGet (volumes_path src @ [volumeID]), out) \<in> set es
        \<and> json_result fly_responseError fr_volume zeroVolume out = (v, None) \<and> prefix (fs_volumePrefix src) (fv_Name v) \<and> \<not> volume_attached v)"

text \<open>
  A stop, a start and a deletion of a Machine follow an answer that showed that Machine with the pool's
  labels; a deletion of a volume follows an answer that showed it with the pool's prefix and unattached.
\<close>

definition touch_ok :: "'w flySource \<Rightarrow> (flyRequest \<times> flyReply outcome) list \<Rightarrow> flyRequest \<times> flyReply outcome \<Rightarrow> bool" where
  "touch_ok src before e \<longleftrightarrow>
     (\<forall>machineID. fst e = force_delete (fl_app (fs_api src)) machineID \<or> (\<exists>verb. fst e = transition_request src machineID verb) \<longrightarrow>
        machine_seen src machineID before)
     \<and> (\<forall>volumeID. fst e = delete_volume src volumeID \<longrightarrow> volume_seen src volumeID before)"

lemma seen_more: "machine_seen src i es \<Longrightarrow> machine_seen src i (es @ es')" "volume_seen src v es \<Longrightarrow> volume_seen src v (es @ es')"
  unfolding machine_seen_def volume_seen_def by auto

lemmas fly_requests = plain_request_def force_delete_def transition_request_def delete_volume_def machines_path_def volumes_path_def
  pool_machines_path_def MethodGet_def MethodPost_def MethodDelete_def

text \<open>Requests that are no such touch: reads, and posts with a body.\<close>

definition harmless :: "flyRequest \<Rightarrow> bool" where
  "harmless req \<longleftrightarrow> rq_Method req = MethodGet \<or> (rq_Method req = MethodPost \<and> rq_Body req \<noteq> None)"

lemma harmless_ok: "harmless (fst e) \<Longrightarrow> touch_ok src before e"
  by (auto simp: touch_ok_def harmless_def fly_requests)

locale fly_inv = cloud_inv inv harmless for inv :: "(flyRequest \<times> flyReply outcome) list \<Rightarrow> bool"
begin

lemma inv_get: "keeps (\<lambda>s. inv (cs_trace s)) (fly_retried env (plain_request MethodGet path) target zero)"
  unfolding fly_retried_def by (rule inv_retried) (simp add: harmless_def plain_request_def)

lemma inv_machine: "keeps (\<lambda>s. inv (cs_trace s)) (pool_machine env src machineID)"
  unfolding pool_machine_def by (intro keeps_rules inv_get)

lemma inv_find: "keeps (\<lambda>s. inv (cs_trace s)) (findByName env src name)"
  unfolding findByName_def pool_machines_def by (intro keeps_rules inv_get)

lemma inv_volumes: "keeps (\<lambda>s. inv (cs_trace s)) (fly_volumes env src)"
  unfolding fly_volumes_def by (rule inv_get)

lemma inv_wait_state: "keeps (\<lambda>s. inv (cs_trace s)) (wait_state n env src machineID want last_state)"
proof (induction n arbitrary: last_state)
  case 0
  show ?case unfolding wait_state.simps [of 0] Let_def nat.case by (intro keeps_rules inv_machine)
next
  case (Suc n)
  then show ?case unfolding wait_state.simps [of "Suc n"] Let_def nat.case by (intro keeps_rules inv_machine inv_do)
qed

lemma inv_waitState: "keeps (\<lambda>s. inv (cs_trace s)) (waitState env src machineID want)"
  unfolding waitState_def by (rule inv_wait_state)

lemma inv_post: "rq_Method req = MethodPost \<Longrightarrow> rq_Body req \<noteq> None \<Longrightarrow> keeps (\<lambda>s. inv (cs_trace s)) (fly_doJSON env req target zero)"
  unfolding fly_doJSON_def by (rule inv_doJSON) (simp add: harmless_def)

lemma inv_createVolume: "keeps (\<lambda>s. inv (cs_trace s)) (createVolume env src name guest)"
  unfolding createVolume_def by (intro keeps_rules inv_do inv_post inv_volumes) (simp_all add: volume_request_def)

end

interpretation touch: fly_inv "preceded (touch_ok src)" for src
  by unfold_locales (auto intro!: preceded_snoc harmless_ok)

definition may_touch :: "'w flySource \<Rightarrow> string \<Rightarrow> (flyRequest \<times> flyReply outcome) list \<Rightarrow> bool" where
  "may_touch src machineID es \<longleftrightarrow> preceded (touch_ok src) es \<and> machine_seen src machineID es"

interpretation may: fly_inv "may_touch src machineID" for src machineID
  by unfold_locales (auto simp: may_touch_def intro: touch.free_ok seen_more)

lemma touched_ok:
  assumes "machine_seen src machineID es" and "req = force_delete (fl_app (fs_api src)) machineID \<or> req = transition_request src machineID verb"
  shows "touch_ok src es (req, out)"
  using assms by (auto simp: touch_ok_def fly_requests)

lemma may_send:
  assumes "req = force_delete (fl_app (fs_api src)) machineID \<or> req = transition_request src machineID verb"
  shows "keeps (\<lambda>s. may_touch src machineID (cs_trace s)) (fly_doJSON env req target zero)"
  unfolding fly_doJSON_def doJSON_def keeps_def
  by (rule send_hoare) (auto simp: may_touch_def intro!: preceded_snoc touched_ok [OF _ assms] seen_more)

lemma may_delete: "keeps (\<lambda>s. may_touch src machineID (cs_trace s)) (retried_delete env (force_delete (fl_app (fs_api src)) machineID))"
  unfolding retried_delete_def by (intro may.inv_retry keeps_rules may_send) simp

lemma may_transition: "keeps (\<lambda>s. may_touch src machineID (cs_trace s)) (fly_retried env (transition_request src machineID verb) target zero)"
  unfolding fly_retried_def retried_def using may_send [of "transition_request src machineID verb" src machineID verb env target zero]
  by (auto simp: fly_doJSON_def intro!: may.inv_retry)

definition may_drop :: "'w flySource \<Rightarrow> string \<Rightarrow> (flyRequest \<times> flyReply outcome) list \<Rightarrow> bool" where
  "may_drop src volumeID es \<longleftrightarrow> preceded (touch_ok src) es \<and> volume_seen src volumeID es"

interpretation drop: fly_inv "may_drop src volumeID" for src volumeID
  by unfold_locales (auto simp: may_drop_def intro: touch.free_ok seen_more)

lemma dropped_ok: "volume_seen src volumeID es \<Longrightarrow> touch_ok src es (delete_volume src volumeID, out)"
  by (auto simp: touch_ok_def fly_requests)

lemma drop_delete: "keeps (\<lambda>s. may_drop src volumeID (cs_trace s)) (retried_delete env (delete_volume src volumeID))"
proof -
  have "keeps (\<lambda>s. may_drop src volumeID (cs_trace s)) (fly_doJSON env (delete_volume src volumeID) nil_target ())"
    unfolding fly_doJSON_def doJSON_def keeps_def
    by (rule send_hoare) (auto simp: may_drop_def intro!: preceded_snoc dropped_ok seen_more)
  then show ?thesis unfolding retried_delete_def by (intro drop.inv_retry keeps_rules)
qed

lemma drop_read:
  fixes env :: "'w flyCloud"
  shows "hoare (\<lambda>s. preceded (touch_ok src) (cs_trace s)) (fly_retried env (plain_request MethodGet (volumes_path src @ [volumeID])) fr_volume zeroVolume)
     (\<lambda>ve s. preceded (touch_ok src) (cs_trace s) \<and> (snd ve = None \<and> prefix (fs_volumePrefix src) (fv_Name (fst ve)) \<and> \<not> volume_attached (fst ve)
        \<longrightarrow> may_drop src volumeID (cs_trace s)))"
  unfolding fly_retried_def
proof (rule hoare_weaken [OF touch.inv_json_retried [where src = src]])
  show "harmless (plain_request MethodGet (volumes_path src @ [volumeID]))" by (simp add: harmless_def plain_request_def)
  fix ve :: "flyVolume \<times> goerr option" and s :: "'w flySys"
  assume "preceded (touch_ok src) (cs_trace s) \<and> (snd ve = None \<longrightarrow> (\<exists>out. (plain_request MethodGet (volumes_path src @ [volumeID]), out)
    \<in> set (cs_trace s) \<and> json_result fly_responseError fr_volume zeroVolume out = ve))"
  then show "preceded (touch_ok src) (cs_trace s) \<and> (snd ve = None \<and> prefix (fs_volumePrefix src) (fv_Name (fst ve)) \<and> \<not> volume_attached (fst ve)
      \<longrightarrow> may_drop src volumeID (cs_trace s))"
    by (cases ve) (auto simp: may_drop_def volume_seen_def)
qed

lemma touch_drop_volume: "keeps (\<lambda>s. preceded (touch_ok src) (cs_trace s)) (drop_volume n env src volumeID)"
proof (induction n)
  have step: "keeps (\<lambda>s. preceded (touch_ok src) (cs_trace s)) (do { (volume, err) \<leftarrow> fly_retried env (plain_request MethodGet (volumes_path src @ [volumeID])) fr_volume zeroVolume;
      if status_is 404 err \<or> (err = None \<and> fv_State volume \<in> {destroyedMachine, ''pending_destroy''}) then State_Monad.return None
      else (case err of
              None \<Rightarrow>
                if \<not> prefix (fs_volumePrefix src) (fv_Name volume) then State_Monad.return (Some (ErrText (''refusing to delete volume '' @ volumeID)))
                else if volume_attached volume then again
                else do { (u, err) \<leftarrow> retried_delete env (delete_volume src volumeID);
                          case err of
                            None \<Rightarrow> State_Monad.return None
                          | Some e \<Rightarrow> if delete_hopeless e then State_Monad.return (Some (ErrWrap (''delete volume '' @ volumeID) e)) else again }
            | Some e \<Rightarrow> State_Monad.return (Some (ErrWrap (''look up volume '' @ volumeID) e))) })"
    if again: "keeps (\<lambda>s. preceded (touch_ok src) (cs_trace s)) again" for again
  proof -
    have deleted: "hoare (\<lambda>s. may_drop src volumeID (cs_trace s)) (do { (u, err) \<leftarrow> retried_delete env (delete_volume src volumeID);
        case err of
          None \<Rightarrow> State_Monad.return None
        | Some e \<Rightarrow> if delete_hopeless e then State_Monad.return (Some (ErrWrap (''delete volume '' @ volumeID) e)) else again })
      (\<lambda>_ s. preceded (touch_ok src) (cs_trace s))"
      by (rule hoare_bind [OF drop_delete [unfolded keeps_def]], intro hoare_rules)
        (auto simp: may_drop_def intro: hoare_weaken [OF again [unfolded keeps_def]])
    show ?thesis
      unfolding keeps_def
      by (rule hoare_bind [OF drop_read], intro hoare_rules)
        (auto intro: hoare_weaken [OF again [unfolded keeps_def]] hoare_weaken [OF deleted])
  qed
  {
    case 0
    show ?case unfolding drop_volume.simps [of 0] Let_def nat.case by (intro step keeps_rules)
  next
    case (Suc n)
    then show ?case unfolding drop_volume.simps [of "Suc n"] Let_def nat.case by (intro step keeps_rules touch.inv_do)
  }
qed

lemma touch_drop_each: "keeps (\<lambda>s. preceded (touch_ok src) (cs_trace s)) (drop_each env src volumeIDs)"
  by (induction volumeIDs) (auto simp: dropVolume_def intro!: keeps_rules touch_drop_volume)

lemma owned_triple:
  fixes env :: "'w flyCloud"
  shows "hoare (\<lambda>s. preceded (touch_ok src) (cs_trace s)) (ownedMachine env src hostID)
    (\<lambda>r s. preceded (touch_ok src) (cs_trace s) \<and> (\<forall>item. r = Inr (Some item) \<longrightarrow> may_touch src (pm_ID item) (cs_trace s)))"
proof -
  have zero: "\<not> fly_owns src zeroPoolMachine" by (simp add: fly_owns_def zeroPoolMachine_def label_of_def)
  have machine: "hoare (\<lambda>s. preceded (touch_ok src) (cs_trace s)) (pool_machine env src machineID)
    (\<lambda>r s. preceded (touch_ok src) (cs_trace s) \<and> (\<forall>item. r = Inr (Some item) \<and> fly_owns src item \<longrightarrow> may_touch src (pm_ID item) (cs_trace s)))" for machineID
    unfolding pool_machine_def fly_retried_def
  proof (rule hoare_bind [OF touch.inv_read_retried [where src = src]])
    show "harmless (plain_request MethodGet (pool_machines_path src @ [machineID]))" by (simp add: harmless_def plain_request_def)
    fix ve :: "poolMachine \<times> goerr option"
    show "hoare (\<lambda>s. preceded (touch_ok src) (cs_trace s) \<and> (snd ve = None \<and> fst ve \<noteq> zeroPoolMachine \<longrightarrow>
        (\<exists>r. (plain_request MethodGet (pool_machines_path src @ [machineID]), Answered r) \<in> set (cs_trace s) \<and> good_status (rs_Status r)
           \<and> fst (fr_pool (rs_Body r)) = fst ve)))
      (case ve of (item, err) \<Rightarrow> State_Monad.return (if status_is 404 err then Inr None
        else case err of None \<Rightarrow> Inr (Some item) | Some e \<Rightarrow> Inl (ErrWrap (''look up Fly Machine '' @ machineID) e)))
      (\<lambda>r s. preceded (touch_ok src) (cs_trace s) \<and> (\<forall>item. r = Inr (Some item) \<and> fly_owns src item \<longrightarrow> may_touch src (pm_ID item) (cs_trace s)))"
      using zero by (cases ve) (auto intro!: hoare_return simp: may_touch_def machine_seen_def split: option.splits)
  qed
  show ?thesis
    unfolding ownedMachine_def by (intro hoare_rules hoare_bind [OF machine]) (auto split: sum.splits option.splits if_splits)
qed

lemma may_own:
  assumes "keeps (\<lambda>s. may_touch src machineID (cs_trace s)) m"
  shows "hoare (\<lambda>s. may_touch src machineID (cs_trace s)) m (\<lambda>_ s. preceded (touch_ok src) (cs_trace s))"
  using assms unfolding keeps_def by (rule hoare_weaken) (auto simp: may_touch_def)

lemma touch_transition: "keeps (\<lambda>s. preceded (touch_ok src) (cs_trace s)) (transition env src hostID verb want)"
proof -
  have moved: "keeps (\<lambda>s. may_touch src (pm_ID item) (cs_trace s)) (do { err \<leftarrow> (if pm_State item \<noteq> want \<and> pm_State item \<noteq> under_way want
        then do { (u, err) \<leftarrow> fly_retried env (transition_request src (pm_ID item) verb) nil_target (); State_Monad.return err }
        else State_Monad.return None);
      case err of None \<Rightarrow> do { err \<leftarrow> waitState env src (pm_ID item) want; State_Monad.return (map_option fail err) }
      | Some e \<Rightarrow> State_Monad.return (Some (fail e)) })" for item fail
    by (intro keeps_rules may_transition may.inv_waitState)
  show ?thesis
    unfolding transition_def Let_def keeps_def
    by (rule hoare_bind [OF owned_triple], rule hoare_sum, rule hoare_return, simp, rule hoare_option, rule hoare_return, simp,
        rule hoare_weaken [OF may_own [OF moved]]) simp_all
qed

lemma touch_Delete: "keeps (\<lambda>s. preceded (touch_ok src) (cs_trace s)) (fly_Delete env src hostID)"
proof -
  have volumes: "hoare (\<lambda>s. may_touch src i (cs_trace s)) (do { u \<leftarrow> drop_each env src vs; State_Monad.return x })
      (\<lambda>_ s. preceded (touch_ok src) (cs_trace s))" for i vs and x :: "goerr option"
    by (rule hoare_weaken [OF keeps_bind [OF touch_drop_each keeps_return, unfolded keeps_def]]) (auto simp: may_touch_def)
  have rest: "hoare (\<lambda>s. may_touch src (pm_ID item) (cs_trace s)) (do { (u, err) \<leftarrow> retried_delete env (force_delete (fl_app (fs_api src)) (pm_ID item));
      case err of
        None \<Rightarrow> do { err \<leftarrow> waitState env src (pm_ID item) destroyedMachine;
                     case err of
                       None \<Rightarrow> do { u \<leftarrow> drop_each env src (map mm_Volume (pm_Mounts item)); State_Monad.return None }
                     | Some e \<Rightarrow> State_Monad.return (Some (ErrWrap (''delete Fly pool host '' @ hostID) e)) }
      | Some e \<Rightarrow> State_Monad.return (Some (ErrWrap (''delete Fly pool host '' @ hostID) e)) })
    (\<lambda>_ s. preceded (touch_ok src) (cs_trace s))" for item
    by (rule hoare_bind [OF may_delete [unfolded keeps_def]], intro hoare_rules hoare_bind [OF may.inv_waitState [unfolded keeps_def]] volumes)
      (auto simp: may_touch_def)
  show ?thesis
    unfolding fly_Delete_def keeps_def
    by (rule hoare_bind [OF owned_triple], rule hoare_sum, rule hoare_return, simp, rule hoare_option, rule hoare_return, simp,
        rule hoare_weaken [OF rest]) simp_all
qed

lemma touch_Create: "keeps (\<lambda>s. preceded (touch_ok src) (cs_trace s)) (fly_Create env src img)"
  unfolding fly_Create_def create_on_volume_def fly_give_up_def dropVolume_def Let_def
  by (intro keeps_rules touch.inv_do touch.inv_createVolume touch_drop_volume touch.inv_post touch.inv_find) (simp_all add: pool_machine_request_def)

lemma touch_List: "keeps (\<lambda>s. preceded (touch_ok src) (cs_trace s)) (fly_List env src sweptAt)"
  unfolding fly_List_def sweepVolumes_def pool_machines_def
  by (intro keeps_rules touch.inv_do touch.inv_volumes touch_drop_each touch.inv_get)

text \<open>The operations of a pool's source at Fly.\<close>

datatype flyOp = OpList gotime | OpCreate string | OpDelete string | OpStop string | OpStart string

definition fly_op :: "'w flyCloud \<Rightarrow> 'w flySource \<Rightarrow> flyOp \<Rightarrow> ('w flySys, unit) state" where
  "fly_op env src op =
     (case op of
        OpList sweptAt \<Rightarrow> do { r \<leftarrow> fly_List env src sweptAt; State_Monad.return () }
      | OpCreate img \<Rightarrow> do { r \<leftarrow> fly_Create env src img; State_Monad.return () }
      | OpDelete hostID \<Rightarrow> do { r \<leftarrow> fly_Delete env src hostID; State_Monad.return () }
      | OpStop hostID \<Rightarrow> do { r \<leftarrow> fly_Stop env src hostID; State_Monad.return () }
      | OpStart hostID \<Rightarrow> do { r \<leftarrow> fly_Start env src hostID; State_Monad.return () })"

text \<open>
  C16. A pool touches nothing but its own at Fly: in every operation, each request that stops, starts or
  deletes a Machine comes after an answer of the API that showed that Machine with the labels of
  this pool and controller and without the label of a worker, and each request that deletes a volume after an
  answer that showed it with the pool's prefix and attached to nothing.
\<close>

theorem pool_touches_own_machines:
  "preceded (touch_ok src) (cs_trace (snd (run_state (fly_op env src op) \<lparr>cs_world = w, cs_trace = []\<rparr>)))"
proof -
  have "keeps (\<lambda>s. preceded (touch_ok src) (cs_trace s)) (fly_op env src op)"
    unfolding fly_op_def fly_Stop_def fly_Start_def
    by (cases op) (auto intro!: keeps_rules touch_List touch_Create touch_Delete touch_transition)
  moreover have "preceded (touch_ok src) []" by (simp add: preceded_def)
  ultimately show ?thesis using keepsD by (metis cloudSys.select_convs(2) prod.collapse)
qed

section \<open>The sweep\<close>

context fly_inv
begin

lemma inv_drop_volume:
  assumes "\<And>es out. inv es \<Longrightarrow> inv (es @ [(delete_volume src volumeID, out)])"
  shows "keeps (\<lambda>s. inv (cs_trace s)) (drop_volume n env src volumeID)"
proof (induction n)
  have delete: "keeps (\<lambda>s. inv (cs_trace s)) (retried_delete env (delete_volume src volumeID))"
    unfolding retried_delete_def fly_doJSON_def doJSON_def using assms
    by (intro inv_retry keeps_rules) (auto simp: cloud_send_def split: prod.splits intro!: keepsI)
  {
    case 0
    show ?case unfolding drop_volume.simps [of 0] Let_def nat.case by (intro keeps_rules inv_get delete)
  next
    case (Suc n)
    then show ?case unfolding drop_volume.simps [of "Suc n"] Let_def nat.case by (intro keeps_rules inv_get inv_do delete)
  }
qed

end

text \<open>The volumes deleted so far, given the Machines and volumes that answers in the trace listed.\<close>

definition sweeping :: "'w flySource \<Rightarrow> poolMachine list \<Rightarrow> flyVolume list \<Rightarrow> gotime \<Rightarrow> (flyRequest \<times> flyReply outcome) list \<Rightarrow> bool" where
  "sweeping src machines vols now es \<longleftrightarrow>
     (\<exists>out. (plain_request MethodGet (pool_machines_path src), out) \<in> set es \<and> json_result fly_responseError fr_pools [] out = (machines, None))
     \<and> (\<exists>out. (plain_request MethodGet (volumes_path src), out) \<in> set es \<and> json_result fly_responseError fr_volumes [] out = (vols, None))
     \<and> (\<forall>v out. (delete_volume src v, out) \<in> set es \<longrightarrow> v \<in> fv_ID ` {vol \<in> set vols. orphan src now (mounted_volumes machines) vol})"

definition swept_ok :: "'w flySource \<Rightarrow> gotime \<Rightarrow> (flyRequest \<times> flyReply outcome) list \<Rightarrow> bool" where
  "swept_ok src swept es \<longleftrightarrow> (\<forall>v out. (delete_volume src v, out) \<notin> set es) \<or> (\<exists>machines vols. sweeping src machines vols swept es)"

lemma harmless_delete: "harmless req \<Longrightarrow> req \<noteq> delete_volume src v"
  by (auto simp: harmless_def fly_requests)

interpretation sweep: fly_inv "sweeping src machines vols now" for src machines vols now
  by unfold_locales (auto simp: sweeping_def harmless_delete dest: harmless_delete)

definition untouched :: "'w flySource \<Rightarrow> poolMachine list option \<Rightarrow> (flyRequest \<times> flyReply outcome) list \<Rightarrow> bool" where
  "untouched src listed es \<longleftrightarrow> (\<forall>v out. (delete_volume src v, out) \<notin> set es)
     \<and> (case listed of None \<Rightarrow> True | Some machines \<Rightarrow>
          \<exists>out. (plain_request MethodGet (pool_machines_path src), out) \<in> set es \<and> json_result fly_responseError fr_pools [] out = (machines, None))"

interpretation still: fly_inv "untouched src listed" for src listed
  by unfold_locales (auto simp: untouched_def dest: harmless_delete split: option.splits)

lemma sweep_each:
  "set ids \<subseteq> fv_ID ` {vol \<in> set vols. orphan src now (mounted_volumes machines) vol} \<Longrightarrow>
     keeps (\<lambda>s. sweeping src machines vols now (cs_trace s)) (drop_each env src ids)"
proof (induction ids)
  case (Cons v ids)
  have "keeps (\<lambda>s. sweeping src machines vols now (cs_trace s)) (drop_volume n env src v)" for n
  proof (rule sweep.inv_drop_volume)
    show "sweeping src machines vols now (es @ [(delete_volume src v, out)])" if "sweeping src machines vols now es" for es out
      using that Cons.prems by (auto simp: sweeping_def delete_volume_def plain_request_def)
  qed
  then show ?case using Cons by (auto simp: dropVolume_def intro!: keeps_rules)
qed (simp add: keeps_rules)

lemma sweepVolumes_triple:
  fixes env :: "'w flyCloud"
  shows "hoare (\<lambda>s. untouched src (Some machines) (cs_trace s)) (sweepVolumes env src (mounted_volumes machines) sweptAt)
    (\<lambda>swept s. swept_ok src swept (cs_trace s))"
proof -
  have listed: "hoare (\<lambda>s. untouched src (Some machines) (cs_trace s)) (fly_volumes env src)
    (\<lambda>ve s. untouched src (Some machines) (cs_trace s) \<and> (snd ve = None \<longrightarrow> sweeping src machines (fst ve) now (cs_trace s)))" for now
    unfolding fly_volumes_def fly_retried_def
    by (rule hoare_weaken [OF still.inv_json_retried [where src = src and listed = "Some machines"]])
      (auto simp: harmless_def plain_request_def untouched_def sweeping_def prod_eq_iff)
  have each: "hoare (\<lambda>s. sweeping src machines vs now (cs_trace s))
      (do { u \<leftarrow> drop_each env src (map fv_ID (filter (orphan src now (mounted_volumes machines)) vs)); State_Monad.return now })
      (\<lambda>swept s. swept_ok src swept (cs_trace s))" for vs now
    by (rule hoare_bind [OF sweep_each [unfolded keeps_def, where vols = vs]]) (auto intro!: hoare_return simp: swept_ok_def)
  have quiet: "swept_ok src swept (cs_trace s)" if "untouched src (Some machines) (cs_trace s)" for swept and s :: "'w flySys"
    using that by (simp add: untouched_def swept_ok_def)
  show ?thesis
    unfolding sweepVolumes_def
    by (rule hoare_bind [OF still.inv_do [unfolded keeps_def]], rule hoare_if, rule hoare_return, rule quiet, assumption,
        rule hoare_bind [OF listed], rule hoare_prod, rule hoare_option, rule hoare_weaken [OF each])
      (auto intro!: hoare_return quiet)
qed

lemma List_triple:
  fixes env :: "'w flyCloud"
  shows "hoare (\<lambda>s. untouched src None (cs_trace s)) (fly_List env src sweptAt) (\<lambda>r s. swept_ok src (snd r) (cs_trace s))"
proof -
  have machines: "hoare (\<lambda>s. untouched src None (cs_trace s)) (pool_machines env src)
    (\<lambda>ve s. untouched src None (cs_trace s) \<and> (snd ve = None \<longrightarrow> untouched src (Some (fst ve)) (cs_trace s)))"
    unfolding pool_machines_def fly_retried_def
    by (rule hoare_weaken [OF still.inv_json_retried [where src = src and listed = None]])
      (auto simp: harmless_def plain_request_def untouched_def prod_eq_iff)
  have quiet: "swept_ok src swept (cs_trace s)" if "untouched src None (cs_trace s)" for swept and s :: "'w flySys"
    using that by (simp add: untouched_def swept_ok_def)
  have swept: "hoare (\<lambda>s. untouched src (Some ms) (cs_trace s)) (do { swept \<leftarrow> sweepVolumes env src (mounted_volumes ms) sweptAt; State_Monad.return (Inr hosts, swept) })
    (\<lambda>r s. swept_ok src (snd r) (cs_trace s))" for ms and hosts :: "host list"
    by (rule hoare_bind [OF sweepVolumes_triple]) (auto intro!: hoare_return)
  show ?thesis
    unfolding fly_List_def
    by (rule hoare_bind [OF machines], rule hoare_prod, rule hoare_option, rule hoare_sum, rule hoare_return, auto intro!: quiet)
      (auto intro!: hoare_return quiet intro: hoare_weaken [OF swept])
qed

text \<open>
  The sweep that goes with a listing deletes only volumes that belong to no Machine: each volume it
  deletes is in the listing of volumes of this very pass, has the pool's prefix, is attached to nothing and
  mounted by no Machine of the listing of this pass, is not on its way out, and is at least half
  an hour old at the time of the sweep.
\<close>

theorem sweep_deletes_orphans:
  "swept_ok src (snd (fst (run_state (fly_List env src sweptAt) \<lparr>cs_world = w, cs_trace = []\<rparr>)))
     (cs_trace (snd (run_state (fly_List env src sweptAt) \<lparr>cs_world = w, cs_trace = []\<rparr>)))"
  by (rule hoareD [OF List_triple _ surjective_pairing]) (simp add: untouched_def)

end
