(* ===== verification/Fly_Lease.thy ===== *)
theory Fly_Lease
  imports Fly_Correct
begin

text \<open>
  One Machine per lease at Fly: what the launch of a worker leaves in the app, whatever answers get lost,
  given what the API documents; and the classification of refusals.
\<close>

section \<open>The documented API\<close>






section \<open>Looking for the lease\<close>





section \<open>Launching\<close>


lemma fly_worker_id [simp]: "w_ID (fly_toWorker item) = ma_ID item"
  by (simp add: fly_toWorker_def)






subsection \<open>A tiny Fly\<close>









end
