(* ===== verification/Image_Registry.thy ===== *)
theory Image_Registry
  imports Cloud_Api
begin

text \<open>
  Which digest an image tag names (\<^verbatim>\<open>registry/registry.go\<close>): parsing a reference, reading a manifest with
  or without credentials, the Bearer challenge and its token, and the tag a pool follows.

  Requests go through \<open>rg_send\<close>, a function on an arbitrary world that sends one request and follows no
  redirect; \<open>rg_parseURL\<close> is \<^verbatim>\<open>url.Parse\<close> and \<open>rg_sha256\<close> the hash, in bytes.  A URL is identified with its
  scheme, host, path and query.  \<open>gs_trace\<close> is a ghost record of the requests, in order.
\<close>

section \<open>References\<close>

definition dockerHub :: string where "dockerHub = ''docker.io''"
definition dockerHubAPI :: string where "dockerHubAPI = ''registry-1.docker.io''"
definition maxManifestBytes :: int where "maxManifestBytes = 4 * 2 ^ 20"

definition digestPattern :: "string \<Rightarrow> bool" where
  "digestPattern s \<longleftrightarrow> (case cut_prefix ''sha256:'' s of None \<Rightarrow> False | Some hex \<Rightarrow> length hex = 64 \<and> list_all is_hex_lower hex)"

definition tagPattern :: "string \<Rightarrow> bool" where
  "tagPattern s \<longleftrightarrow>
     (case s of [] \<Rightarrow> False
      | c # cs \<Rightarrow> (is_alnum c \<or> c = CHR ''_'') \<and> list_all (\<lambda>c. is_alnum c \<or> c \<in> set ''_.-'') cs \<and> length cs \<le> 127)"

text \<open>A component of a path: runs of lower-case letters and digits, between them one of the separators \<^verbatim>\<open>.\<close>, \<^verbatim>\<open>_\<close>, \<^verbatim>\<open>__\<close> or any number of hyphens.\<close>

definition is_lowernum :: "char \<Rightarrow> bool" where
  "is_lowernum c \<longleftrightarrow> is_lower c \<or> is_digit c"

definition path_separator :: "string \<Rightarrow> bool" where
  "path_separator sep \<longleftrightarrow> sep = ''.'' \<or> sep = ''_'' \<or> sep = ''__'' \<or> (sep \<noteq> [] \<and> list_all (\<lambda>c. c = CHR ''-'') sep)"

fun component_from :: "string \<Rightarrow> string \<Rightarrow> bool" where
  "component_from sep [] \<longleftrightarrow> sep = []"
| "component_from sep (c # cs) \<longleftrightarrow>
     (if is_lowernum c then (sep = [] \<or> path_separator sep) \<and> component_from [] cs else component_from (sep @ [c]) cs)"

definition path_component :: "string \<Rightarrow> bool" where
  "path_component s \<longleftrightarrow> s \<noteq> [] \<and> is_lowernum (hd s) \<and> component_from [] s"

definition pathPattern :: "string \<Rightarrow> bool" where
  "pathPattern s \<longleftrightarrow> list_all path_component (split_on (CHR ''/'') [] s)"

definition host_label :: "string \<Rightarrow> bool" where
  "host_label s \<longleftrightarrow> s \<noteq> [] \<and> is_alnum (hd s) \<and> is_alnum (last s) \<and> list_all (\<lambda>c. is_alnum c \<or> c = CHR ''-'') s"

definition hostPattern :: "string \<Rightarrow> bool" where
  "hostPattern s \<longleftrightarrow>
     (case strings_Cut (CHR '':'') s of
        None \<Rightarrow> list_all host_label (split_on (CHR ''.'') [] s)
      | Some (name, port) \<Rightarrow>
          list_all host_label (split_on (CHR ''.'') [] name) \<and> 1 \<le> length port \<and> length port \<le> 5 \<and> list_all is_digit port)"

record reference =
  rf_Registry :: string
  rf_Repository :: string
  rf_Tag :: string
  rf_Digest :: string
  rf_name :: string

text \<open>The text before and after the last occurrence of a byte.\<close>

definition cut_last :: "char \<Rightarrow> string \<Rightarrow> (string \<times> string) option" where
  "cut_last c s = (case dropWhile (\<lambda>x. x \<noteq> c) (rev s) of [] \<Rightarrow> None | _ # before \<Rightarrow> Some (rev before, rev (takeWhile (\<lambda>x. x \<noteq> c) (rev s))))"

text \<open>The name without its tag, and the tag: what follows the last colon when no slash follows it.\<close>

definition split_tag :: "string \<Rightarrow> string \<times> string option" where
  "split_tag name =
     (case cut_last (CHR '':'') name of
        Some (before, tag) \<Rightarrow> if CHR ''/'' \<in> set tag then (name, None) else (before, Some tag)
      | None \<Rightarrow> (name, None))"

text \<open>The registry host and the path, when the first component names a host.\<close>

definition split_host :: "string \<Rightarrow> (string \<times> string) option" where
  "split_host name =
     (case strings_Cut (CHR ''/'') name of
        Some (first, rest) \<Rightarrow>
          if CHR ''.'' \<in> set first \<or> CHR '':'' \<in> set first \<or> first = ''localhost'' then
            (if hostPattern first then Some (toLower first, rest) else None)
          else Some (dockerHub, name)
      | None \<Rightarrow> Some (dockerHub, name))"

definition parse_name :: "string \<Rightarrow> string \<Rightarrow> bool \<Rightarrow> string \<Rightarrow> string \<Rightarrow> goerr + reference" where
  "parse_name img name pinned tag digest =
     (case split_host name of
        None \<Rightarrow> Inl (ErrText (''image '' @ img @ '': invalid registry host''))
      | Some (written, path) \<Rightarrow>
          (let host = (if written = ''index.docker.io'' then dockerHub else written)
           in if \<not> pathPattern path then Inl (ErrText (''image '' @ img @ '': invalid repository''))
              else Inr \<lparr>rf_Registry = host,
                        rf_Repository = if host = dockerHub \<and> CHR ''/'' \<notin> set path then ''library/'' @ path else path,
                        rf_Tag = if \<not> pinned \<and> tag = [] then ''latest'' else tag, rf_Digest = digest, rf_name = name\<rparr>))"

definition Parse :: "string \<Rightarrow> goerr + reference" where
  "Parse img =
     (let (name, digest, pinned) = (case strings_Cut (CHR ''@'') img of Some (n, d) \<Rightarrow> (n, d, True) | None \<Rightarrow> (img, [], False))
      in if pinned \<and> \<not> digestPattern digest
         then Inl (ErrText (''image '' @ img @ '': digest must be sha256 and 64 lowercase hex characters''))
         else (case split_tag name of
                 (bare, None) \<Rightarrow> parse_name img bare pinned [] digest
               | (bare, Some tag) \<Rightarrow>
                   if \<not> tagPattern tag then Inl (ErrText (''image '' @ img @ '': invalid tag''))
                   else parse_name img bare pinned tag digest))"

definition Pinned :: "reference \<Rightarrow> bool" where
  "Pinned r \<longleftrightarrow> rf_Digest r \<noteq> []"

definition Pin :: "reference \<Rightarrow> string \<Rightarrow> string" where
  "Pin r digest = rf_name r @ ''@'' @ digest"

section \<open>Requests\<close>

record url =
  ur_Scheme :: string
  ur_Host :: string
  ur_Path :: "string list"
  ur_Query :: "string gomap"

record regRequest =
  gq_Method :: string
  gq_URL :: url
  gq_Authorization :: string

record regResponse =
  gp_Status :: int
  gp_Authenticate :: string
  gp_ContentDigest :: string
  gp_Contents :: "goerr + string"
  gp_Token :: "(string \<times> string) option"

record 'w registry =
  rg_send :: "regRequest \<Rightarrow> 'w \<Rightarrow> (goerr + regResponse) \<times> 'w"
  rg_parseURL :: "string \<Rightarrow> url option"
  rg_sha256 :: "string \<Rightarrow> string"
  rg_Credentials :: "(string \<Rightarrow> (string \<times> string) option) option"

record 'w regSys =
  gs_world :: 'w
  gs_trace :: "regRequest list"

definition reg_send :: "'w registry \<Rightarrow> regRequest \<Rightarrow> ('w regSys, goerr + regResponse) state" where
  "reg_send c req = State (\<lambda>s. case rg_send c req (gs_world s) of (r, w) \<Rightarrow> (r, s\<lparr>gs_world := w, gs_trace := gs_trace s @ [req]\<rparr>))"

definition basic :: "string \<Rightarrow> string \<Rightarrow> string" where
  "basic username password = ''Basic '' @ base64_encode (username @ '':'' @ password)"

definition MethodHead :: string where "MethodHead = ''HEAD''"

section \<open>Challenges\<close>

text \<open>
  \<^verbatim>\<open>parseChallenge\<close>: the loop over the parameters, each turn on a strictly shorter rest.
\<close>

definition trim_commas :: "string \<Rightarrow> string" where
  "trim_commas rest = trimSpace (dropWhile (\<lambda>c. c = CHR '','') (trimSpace rest))"

definition challenge_param :: "string \<Rightarrow> (string \<times> string \<times> string) option" where
  "challenge_param rest =
     (case strings_Cut (CHR ''='') rest of
        None \<Rightarrow> None
      | Some (rawKey, rawValue) \<Rightarrow>
          (let key = toLower (trimSpace rawKey); v = trimSpace rawValue
           in if v \<noteq> [] \<and> hd v = CHR 0x22 then
                (case strings_Cut (CHR 0x22) (tl v) of None \<Rightarrow> None | Some (quoted, after) \<Rightarrow> Some (key, quoted, after))
              else (case strings_Cut (CHR '','') v of
                      None \<Rightarrow> Some (key, trimSpace v, [])
                    | Some (plain, after) \<Rightarrow> Some (key, trimSpace plain, after))))"

lemma length_trimSpace: "length (trimSpace s) \<le> length s"
proof -
  have "length (dropWhile is_ascii_space (rev (dropWhile is_ascii_space s))) \<le> length s"
    by (metis length_dropWhile_le length_rev order_trans)
  then show ?thesis by (simp add: trimSpace_def)
qed

lemma strings_Cut_length: "strings_Cut c s = Some (a, b) \<Longrightarrow> length b < length s"
proof -
  assume cut: "strings_Cut c s = Some (a, b)"
  then obtain x where "dropWhile (\<lambda>y. y \<noteq> c) s = x # b" by (auto simp: strings_Cut_def split: list.splits)
  then show ?thesis using length_dropWhile_le [of "\<lambda>y. y \<noteq> c" s] by simp
qed

lemma challenge_shrinks: "challenge_param rest = Some (key, v, after) \<Longrightarrow> length (trim_commas after) < length rest"
proof -
  assume p: "challenge_param rest = Some (key, v, after)"
  then obtain rawKey rawValue where cut: "strings_Cut (CHR ''='') rest = Some (rawKey, rawValue)"
    by (auto simp: challenge_param_def split: option.splits)
  have "length after \<le> length (trimSpace rawValue)"
    using p cut
    by (auto simp: challenge_param_def Let_def split: option.splits if_splits dest!: strings_Cut_length)
  moreover have "length (trim_commas after) \<le> length after"
    unfolding trim_commas_def by (meson length_dropWhile_le length_trimSpace order_trans)
  ultimately show ?thesis using strings_Cut_length [OF cut] length_trimSpace [of rawValue] by linarith
qed

function challenge_params :: "string \<Rightarrow> string gomap \<Rightarrow> string gomap" where
  "challenge_params rest params =
     (if rest = [] then params
      else (case challenge_param rest of
              None \<Rightarrow> params
            | Some (key, v, after) \<Rightarrow> challenge_params (trim_commas after) (AList.update key v params)))"
  by pat_completeness auto
termination
  by (relation "measure (\<lambda>(rest, params). length rest)") (auto dest: challenge_shrinks)

definition parseChallenge :: "string \<Rightarrow> string \<times> string gomap" where
  "parseChallenge header =
     (case strings_Cut (CHR '' '') (trimSpace header) of
        None \<Rightarrow> (toLower (trimSpace header), [])
      | Some (scheme, rest) \<Rightarrow> (toLower scheme, challenge_params (trimSpace rest) []))"

section \<open>Reading a digest\<close>

definition manifest :: "'w registry \<Rightarrow> string \<Rightarrow> url \<Rightarrow> string \<Rightarrow> ('w regSys, goerr + regResponse) state" where
  "manifest c method endpoint authorization =
     do { r \<leftarrow> reg_send c \<lparr>gq_Method = method, gq_URL = endpoint, gq_Authorization = authorization\<rparr>;
          State_Monad.return (case r of Inl e \<Rightarrow> Inl (ErrWrap ''read manifest'' e) | Inr response \<Rightarrow> Inr response) }"

definition answered_status :: "reference \<Rightarrow> int \<Rightarrow> goerr" where
  "answered_status ref status =
     ErrText (''registry '' @ rf_Registry ref @ '' answered HTTP '' @ itoa status @ '' for '' @ rf_Repository ref @ '':'' @ rf_Tag ref)"

definition hashManifest :: "'w registry \<Rightarrow> url \<Rightarrow> string \<Rightarrow> reference \<Rightarrow> ('w regSys, goerr + string) state" where
  "hashManifest c endpoint authorization ref =
     do { r \<leftarrow> manifest c MethodGet endpoint authorization;
          State_Monad.return
            (case r of
               Inl e \<Rightarrow> Inl e
             | Inr response \<Rightarrow>
                 if gp_Status response \<noteq> 200 then Inl (answered_status ref (gp_Status response))
                 else (case gp_Contents response of
                         Inl e \<Rightarrow> Inl (ErrWrap ''read manifest'' e)
                       | Inr body \<Rightarrow>
                           if int (length body) > maxManifestBytes
                           then Inl (ErrText (''registry '' @ rf_Registry ref @ '' returned a manifest larger than '' @ itoa maxManifestBytes @ '' bytes''))
                           else Inr (''sha256:'' @ hex_encode (rg_sha256 c body)))) }"

definition token_request :: "url \<Rightarrow> string gomap \<Rightarrow> string \<Rightarrow> string \<Rightarrow> (string \<times> string) option \<Rightarrow> regRequest" where
  "token_request realm params apiHost repository credentials =
     (let query = (if label_of params ''service'' \<noteq> [] then AList.update ''service'' (label_of params ''service'') (ur_Query realm) else ur_Query realm)
      in \<lparr>gq_Method = MethodGet,
          gq_URL = realm\<lparr>ur_Query := AList.update ''scope'' (''repository:'' @ repository @ '':pull'') query\<rparr>,
          gq_Authorization =
            (case credentials of
               Some (username, password) \<Rightarrow> if EqualFold (ur_Host realm) apiHost then basic username password else []
             | None \<Rightarrow> [])\<rparr>)"

definition token_answer :: "goerr + regResponse \<Rightarrow> goerr + string" where
  "token_answer r =
     (case r of
        Inl e \<Rightarrow> Inl (ErrWrap ''get a pull token'' e)
      | Inr response \<Rightarrow>
          if gp_Status response \<noteq> 200 then Inl (ErrText (''the token service answered HTTP '' @ itoa (gp_Status response)))
          else (case gp_Token response of
                  None \<Rightarrow> Inl (ErrText ''the token service returned no token'')
                | Some (tok, accessToken) \<Rightarrow>
                    (let chosen = (if tok = [] then accessToken else tok)
                     in if chosen = [] \<or> list_ex (\<lambda>c. c \<in> {CHR '' '', CHR 0x0D, CHR 0x0A}) chosen
                        then Inl (ErrText ''the token service returned no token'') else Inr chosen)))"

definition reg_token :: "'w registry \<Rightarrow> string gomap \<Rightarrow> string \<Rightarrow> string \<Rightarrow> (string \<times> string) option \<Rightarrow> ('w regSys, goerr + string) state" where
  "reg_token c params apiHost repository credentials =
     (case rg_parseURL c (label_of params ''realm'') of
        None \<Rightarrow> State_Monad.return (Inl (ErrText ''the token realm is not an https URL''))
      | Some realm \<Rightarrow>
          if ur_Scheme realm \<noteq> ''https'' \<or> ur_Host realm = []
          then State_Monad.return (Inl (ErrText ''the token realm is not an https URL''))
          else do { r \<leftarrow> reg_send c (token_request realm params apiHost repository credentials);
                    State_Monad.return (token_answer r) })"

definition apiHost_of :: "string \<Rightarrow> string" where
  "apiHost_of host = (if host = dockerHub then dockerHubAPI else host)"

definition endpoint_of :: "reference \<Rightarrow> url" where
  "endpoint_of ref =
     \<lparr>ur_Scheme = ''https'', ur_Host = apiHost_of (rf_Registry ref),
      ur_Path = [''v2''] @ split_on (CHR ''/'') [] (rf_Repository ref) @ [''manifests'', rf_Tag ref], ur_Query = []\<rparr>"

text \<open>What is made of the last answer to the reading of the manifest.\<close>

definition digest_of :: "'w registry \<Rightarrow> reference \<Rightarrow> string \<Rightarrow> regResponse \<Rightarrow> ('w regSys, goerr + string) state" where
  "digest_of c ref authorization response =
     (let status = gp_Status response
      in if status = 404 then
           State_Monad.return (Inl (ErrText (''registry '' @ rf_Registry ref @ '' has no tag '' @ rf_Tag ref @ '' in '' @ rf_Repository ref)))
         else if status = 401 \<or> status = 403 then
           State_Monad.return (Inl (ErrText (''registry '' @ rf_Registry ref @ '' refused to read '' @ rf_Repository ref @ '' (HTTP '' @ itoa status @ '')'')))
         else if status \<noteq> 200 then State_Monad.return (Inl (answered_status ref status))
         else if gp_ContentDigest response = [] then hashManifest c (endpoint_of ref) authorization ref
         else if \<not> digestPattern (gp_ContentDigest response) then
           State_Monad.return (Inl (ErrText (''registry '' @ rf_Registry ref @ '' returned an unexpected digest for '' @ rf_Repository ref @ '':'' @ rf_Tag ref)))
         else State_Monad.return (Inr (gp_ContentDigest response)))"

definition answer_challenge :: "'w registry \<Rightarrow> reference \<Rightarrow> (string \<times> string) option \<Rightarrow> regResponse \<Rightarrow> ('w regSys, goerr + string) state" where
  "answer_challenge c ref credentials response =
     (case parseChallenge (gp_Authenticate response) of
        (scheme, params) \<Rightarrow>
          if scheme \<noteq> ''bearer'' then
            State_Monad.return (Inl
              (if credentials \<noteq> None
               then ErrText (''registry '' @ rf_Registry ref @ '' refused the credentials for '' @ rf_Repository ref @ '' (HTTP 401)'')
               else ErrText (''registry '' @ rf_Registry ref @ '' requires credentials for '' @ rf_Repository ref)))
          else do { tok \<leftarrow> reg_token c params (apiHost_of (rf_Registry ref)) (rf_Repository ref) credentials;
                    case tok of
                      Inl e \<Rightarrow> State_Monad.return (Inl (ErrWrap (''registry '' @ rf_Registry ref) e))
                    | Inr issued \<Rightarrow>
                        do { again \<leftarrow> manifest c MethodHead (endpoint_of ref) (''Bearer '' @ issued);
                             case again of
                               Inl e \<Rightarrow> State_Monad.return (Inl e)
                             | Inr answer \<Rightarrow> digest_of c ref (''Bearer '' @ issued) answer } })"

definition reg_Digest :: "'w registry \<Rightarrow> reference \<Rightarrow> ('w regSys, goerr + string) state" where
  "reg_Digest c ref =
     (if rf_Tag ref = [] \<or> rf_Repository ref = [] \<or> rf_Registry ref = []
      then State_Monad.return (Inl (ErrText ''registry: the reference names no tag''))
      else (let credentials = (case rg_Credentials c of None \<Rightarrow> None | Some f \<Rightarrow> f (rf_Registry ref));
                authorization = (case credentials of Some (username, password) \<Rightarrow> basic username password | None \<Rightarrow> [])
            in do { r \<leftarrow> manifest c MethodHead (endpoint_of ref) authorization;
                    case r of
                      Inl e \<Rightarrow> State_Monad.return (Inl e)
                    | Inr response \<Rightarrow>
                        if gp_Status response = 401 then answer_challenge c ref credentials response
                        else digest_of c ref authorization response }))"

section \<open>Following a tag\<close>

definition NewTag :: "string \<Rightarrow> goerr + reference" where
  "NewTag img =
     (case Parse img of
        Inl e \<Rightarrow> Inl e
      | Inr ref \<Rightarrow> if Pinned ref then Inl (ErrText (''image '' @ img @ '' is pinned to a digest; there is no tag to follow'')) else Inr ref)"

definition Resolve :: "'w registry \<Rightarrow> reference \<Rightarrow> ('w regSys, goerr + string) state" where
  "Resolve c t =
     do { r \<leftarrow> reg_Digest c t;
          State_Monad.return (case r of Inl e \<Rightarrow> Inl e | Inr digest \<Rightarrow> Inr (Pin t digest)) }"

definition Related :: "reference \<Rightarrow> string \<Rightarrow> bool" where
  "Related t img \<longleftrightarrow>
     (case Parse img of Inl e \<Rightarrow> False | Inr ref \<Rightarrow> rf_Registry ref = rf_Registry t \<and> rf_Repository ref = rf_Repository t)"

section \<open>Credentials\<close>

text \<open>A request over TLS that carries an authorization only when it goes to the given host.\<close>

definition homebound :: "string \<Rightarrow> regRequest \<Rightarrow> bool" where
  "homebound host q \<longleftrightarrow> ur_Scheme (gq_URL q) = ''https'' \<and> (gq_Authorization q = [] \<or> EqualFold (ur_Host (gq_URL q)) host)"

abbreviation all_homebound :: "string \<Rightarrow> 'w regSys \<Rightarrow> bool" where
  "all_homebound host s \<equiv> list_all (homebound host) (gs_trace s)"

lemma send_homebound: "homebound host q \<Longrightarrow> keeps (all_homebound host) (reg_send c q)"
  by (rule keepsI) (auto simp: reg_send_def split: prod.splits)

lemma manifest_homebound: "keeps (all_homebound (apiHost_of (rf_Registry ref))) (manifest c method (endpoint_of ref) authorization)"
  unfolding manifest_def by (intro keeps_rules send_homebound) (simp add: homebound_def endpoint_of_def EqualFold_def)

lemma token_homebound: "keeps (all_homebound host) (reg_token c params host repository credentials)"
proof -
  have "homebound host (token_request realm params host repository credentials)" if "ur_Scheme realm = ''https''" for realm
    using that by (simp add: homebound_def token_request_def Let_def split: option.splits)
  then show ?thesis
    unfolding reg_token_def by (cases "rg_parseURL c (label_of params ''realm'')") (simp_all add: keeps_return keeps_bind send_homebound)
qed

lemma digest_of_homebound: "keeps (all_homebound (apiHost_of (rf_Registry ref))) (digest_of c ref authorization response)"
  unfolding digest_of_def hashManifest_def by (intro keeps_rules manifest_homebound)

lemma challenge_homebound: "keeps (all_homebound (apiHost_of (rf_Registry ref))) (answer_challenge c ref credentials response)"
  unfolding answer_challenge_def by (intro keeps_rules manifest_homebound token_homebound digest_of_homebound)

text \<open>
  C21. Reading which digest a tag names never sends a credential elsewhere: every request goes over TLS, and one
  that carries an authorization, be it the user name and password or the token that was issued for them, goes to
  the registry of the reference, whatever realm a challenge names.
\<close>

theorem credentials_stay_home:
  "list_all (homebound (apiHost_of (rf_Registry ref))) (gs_trace (snd (run_state (reg_Digest c ref) \<lparr>gs_world = w, gs_trace = []\<rparr>)))"
proof -
  have "keeps (all_homebound (apiHost_of (rf_Registry ref))) (reg_Digest c ref)"
    unfolding reg_Digest_def by (intro keeps_rules manifest_homebound challenge_homebound digest_of_homebound)
  then show ?thesis by (rule keepsD [OF _ _ surjective_pairing]) simp
qed

section \<open>The followed image\<close>

lemma split_on_chars: "x \<noteq> c \<Longrightarrow> x \<in> set acc \<or> x \<in> set s \<Longrightarrow> \<exists>p \<in> set (split_on c acc s). x \<in> set p"
  by (induction s arbitrary: acc) auto

lemma component_colon: "component_from sep s \<Longrightarrow> CHR '':'' \<notin> set sep \<and> CHR '':'' \<notin> set s"
proof (induction s arbitrary: sep)
  case (Cons c s)
  have colon: "\<not> is_lowernum (CHR '':'')" by code_simp
  have separator: "CHR '':'' \<notin> set sep" if "path_separator sep"
    using that unfolding path_separator_def list_all_iff by auto
  show ?case
  proof (cases "is_lowernum c")
    case True
    then have "component_from [] s" "sep = [] \<or> path_separator sep" using Cons.prems by simp_all
    then show ?thesis using Cons.IH [of "[]"] separator colon True by auto
  next
    case False
    then show ?thesis using Cons.IH [of "sep @ [c]"] Cons.prems by auto
  qed
qed simp

lemma path_colon: "pathPattern path \<Longrightarrow> CHR '':'' \<notin> set path"
  using split_on_chars [of "CHR '':''" "CHR ''/''" "[]" path] component_colon unfolding pathPattern_def path_component_def list_all_iff by auto

lemma cut_last_none: "c \<notin> set s \<Longrightarrow> cut_last c s = None"
proof -
  assume "c \<notin> set s"
  then have none: "dropWhile (\<lambda>x. x \<noteq> c) (rev s) = []" by (subst dropWhile_eq_Nil_conv) auto
  show ?thesis unfolding cut_last_def none by simp
qed

lemma strings_Cut_eq: "strings_Cut c s = Some (a, b) \<Longrightarrow> s = a @ c # b"
proof -
  assume "strings_Cut c s = Some (a, b)"
  then obtain x where x: "dropWhile (\<lambda>y. y \<noteq> c) s = x # b" "a = takeWhile (\<lambda>y. y \<noteq> c) s" by (auto simp: strings_Cut_def split: list.splits)
  then show ?thesis using takeWhile_dropWhile_id [of "\<lambda>y. y \<noteq> c" s] hd_dropWhile [of "\<lambda>y. y \<noteq> c" s] by auto
qed

lemma no_tag_left:
  assumes "split_host name = Some (written, path)" and "pathPattern path"
  shows "split_tag name = (name, None)"
proof (cases "path = name")
  case True
  then show ?thesis using path_colon [OF assms(2)] cut_last_none by (simp add: split_tag_def)
next
  case False
  with assms(1) obtain first where "strings_Cut (CHR ''/'') name = Some (first, path)"
    by (auto simp: split_host_def split: option.splits if_splits)
  then have name: "name = first @ CHR ''/'' # path" by (rule strings_Cut_eq)
  have "takeWhile (\<lambda>x. x \<noteq> CHR '':'') (rev name) = rev path @ CHR ''/'' # takeWhile (\<lambda>x. x \<noteq> CHR '':'') (rev first)"
    using path_colon [OF assms(2)] unfolding name rev_append by (subst takeWhile_append2) auto
  then show ?thesis by (auto simp: split_tag_def cut_last_def split: list.splits)
qed

lemma cut_last_set: "cut_last c s = Some (a, b) \<Longrightarrow> set a \<subseteq> set s"
proof -
  assume "cut_last c s = Some (a, b)"
  then obtain x where "dropWhile (\<lambda>y. y \<noteq> c) (rev s) = x # rev a" by (auto simp: cut_last_def split: list.splits)
  then have "set (rev a) \<subseteq> set (rev s)" by (metis set_dropWhileD set_subset_Cons subset_iff)
  then show ?thesis by simp
qed

lemma split_tag_set: "split_tag name = (bare, tag) \<Longrightarrow> set bare \<subseteq> set name"
  using cut_last_set [of "CHR '':''" name] by (auto simp: split_tag_def split: option.splits if_splits)

lemma digestPattern_nonempty: "digestPattern d \<Longrightarrow> d \<noteq> []"
  by (auto simp: digestPattern_def cut_prefix_def)

lemma parse_pinned:
  assumes "Parse img = Inr t" and "\<not> Pinned t" and "digestPattern d"
  shows "Parse (Pin t d) = Inr (t\<lparr>rf_Tag := [], rf_Digest := d\<rparr>)"
proof -
  have uncut: "strings_Cut (CHR ''@'') img = None"
    using assms(1,2) digestPattern_nonempty
    by (auto simp: Parse_def Pinned_def parse_name_def Let_def split: option.splits prod.splits if_splits)
  then have at: "CHR ''@'' \<notin> set img" by (auto simp: strings_Cut_def dropWhile_eq_Nil_conv split: list.splits)
  obtain bare tag where bare: "split_tag img = (bare, tag)" by fastforce
  then obtain tag' where parsed: "parse_name img bare False tag' [] = Inr t"
    using assms(1) uncut by (auto simp: Parse_def Let_def split: option.splits if_splits)
  then obtain written path where host: "split_host bare = Some (written, path)" "pathPattern path"
    by (auto simp: parse_name_def Let_def split: option.splits if_splits)
  have "strings_Cut (CHR ''@'') (bare @ ''@'' @ d) = Some (bare, d)"
    using split_tag_set [OF bare] at cut_at_block [of "CHR ''@''" bare d] by auto
  moreover have "rf_name t = bare" using parsed by (auto simp: parse_name_def Let_def split: option.splits if_splits)
  ultimately show ?thesis
    using parsed host no_tag_left [OF host] assms(3) by (auto simp: Parse_def Pin_def parse_name_def Let_def split: if_splits)
qed

lemma hex_encode_ok: "list_all is_hex_lower (hex_encode s) \<and> length (hex_encode s) = 2 * length s"
proof (induction s)
  case (Cons c s)
  have nibble: "is_hex_lower (''0123456789abcdef'' ! k)" if "k < 16" for k :: nat
  proof -
    have "\<forall>k \<in> set [0..<16]. is_hex_lower (''0123456789abcdef'' ! k)" by code_simp
    then show ?thesis using that by simp
  qed
  have "(of_char c :: nat) < 256" by (rule nat_of_char_less_256)
  then have "(of_char c :: nat) div 16 < 16" "(of_char c :: nat) mod 16 < 16" by (simp_all add: less_mult_imp_div_less)
  then show ?case using Cons nibble by (simp add: hex_encode_def Let_def)
qed (simp add: hex_encode_def)

lemma digest_hoare:
  assumes "\<And>body. length (rg_sha256 c body) = 32"
  shows "hoare (\<lambda>s. True) (reg_Digest c ref) (\<lambda>r s. \<forall>d. r = Inr d \<longrightarrow> digestPattern d)"
proof -
  have hashed: "digestPattern (''sha256:'' @ hex_encode (rg_sha256 c body))" for body
    using hex_encode_ok [of "rg_sha256 c body"] assms by (simp add: digestPattern_def cut_prefix_def)
  have final: "hoare (\<lambda>s. True) (digest_of c ref authorization response) (\<lambda>r s. \<forall>d. r = Inr d \<longrightarrow> digestPattern d)" for authorization response
    unfolding digest_of_def hashManifest_def Let_def
    by (intro hoare_if hoare_return hoare_bind [where R = "\<lambda>_ _. True"])
      (auto simp: hashed [simplified] hoare_def split: sum.splits if_splits)
  show ?thesis
    unfolding reg_Digest_def answer_challenge_def Let_def
    by (intro hoare_if hoare_return hoare_bind [where R = "\<lambda>_ _. True"] hoare_sum hoare_prod final) (auto simp: hoare_def)
qed

text \<open>
  Following a tag pins exactly the followed image: whenever resolving a tag succeeds, the image it returns
  parses to the registry and the repository of the tag, pinned to a well-formed digest, and counts as related to
  the tag.
\<close>

theorem resolved_image_follows:
  assumes "NewTag img = Inr t" and "\<And>body. length (rg_sha256 c body) = 32"
    and "run_state (Resolve c t) s = (Inr pinned, s')"
  shows "\<exists>d. digestPattern d \<and> pinned = Pin t d \<and> Parse pinned = Inr (t\<lparr>rf_Tag := [], rf_Digest := d\<rparr>) \<and> Related t pinned"
proof -
  have t: "Parse img = Inr t" "\<not> Pinned t" using assms(1) by (auto simp: NewTag_def split: sum.splits if_splits)
  obtain d where d: "run_state (reg_Digest c t) s = (Inr d, s')" "pinned = Pin t d"
    using assms(3) by (auto simp: Resolve_def split: prod.splits sum.splits)
  have "digestPattern d" using hoareD [OF digest_hoare [OF assms(2)] TrueI d(1)] by simp
  with parse_pinned [OF t this] show ?thesis by (intro exI [of _ d]) (simp add: d(2) Related_def)
qed

definition still_registry :: "unit registry" where
  "still_registry =
     \<lparr>rg_send = (\<lambda>q w. (Inr \<lparr>gp_Status = 200, gp_Authenticate = [], gp_ContentDigest = ''sha256:'' @ replicate 64 (CHR ''a''), gp_Contents = Inr [],
        gp_Token = None\<rparr>, w)), rg_parseURL = (\<lambda>_. None), rg_sha256 = (\<lambda>_. replicate 32 (CHR 0x00)), rg_Credentials = None\<rparr>"

definition app_tag :: reference where
  "app_tag = \<lparr>rf_Registry = ''registry.fly.io'', rf_Repository = ''app'', rf_Tag = ''main'', rf_Digest = [], rf_name = ''registry.fly.io/app''\<rparr>"

theorem resolved_image_follows_witness:
  "\<exists>pinned s'. run_state (Resolve still_registry app_tag) \<lparr>gs_world = (), gs_trace = []\<rparr> = (Inr pinned, s') \<and> Related app_tag pinned"
proof -
  have new: "NewTag ''registry.fly.io/app:main'' = Inr app_tag" by code_simp
  have "isl (fst (run_state (Resolve still_registry app_tag) \<lparr>gs_world = (), gs_trace = []\<rparr>)) = False" by code_simp
  then obtain pinned s' where r: "run_state (Resolve still_registry app_tag) \<lparr>gs_world = (), gs_trace = []\<rparr> = (Inr pinned, s')"
    by (metis isl_def old.sum.exhaust surjective_pairing)
  from resolved_image_follows [OF new _ r] show ?thesis using r by (auto simp: still_registry_def)
qed

end
