(* ===== verification/Merge_Clients.thy ===== *)
theory Merge_Clients
  imports Merge_Trace Cloud_Api
begin

text \<open>
  The clients behind a tick of the merge queue: the REST client (\<^verbatim>\<open>mergequeue/github.go\<close>) and the git
  command line in a throwaway clone (\<^verbatim>\<open>mergequeue/git.go\<close>), put together as the command does
  (\<^verbatim>\<open>cmd/runneryard/merge_queue.go\<close>).

  The HTTP client, the git executable, the temporary directory, the environment, \<^verbatim>\<open>url.Parse\<close> and the clock
  are the record \<open>tools\<close>, functions on an arbitrary world.  An answer carries, for each type the program decodes,
  the value or nothing when the decoder fails.  \<open>to_trace\<close> is a ghost record of the requests and commands with
  their outcomes, in order.
\<close>

section \<open>The outside world\<close>

record pullReply =
  pl_Draft :: bool
  pl_HeadSHA :: string
  pl_HeadRef :: string
  pl_HeadRepo :: "string option"
  pl_BaseRef :: string
  pl_BaseRepo :: "string option"

record timelineEvent =
  tl_Event :: string
  tl_Label :: string
  tl_Actor :: string
  tl_CreatedAt :: gotime

record issueComment =
  ic_ID :: int
  ic_Body :: string
  ic_Login :: string
  ic_Type :: string

text \<open>What an answer decodes to: \<open>gb_issues\<close> has the number of an issue and whether it is a pull request, \<open>gb_checks\<close> the total count.\<close>

record ghBody =
  gb_ref :: "string option"
  gb_issues :: "(int \<times> bool) list option"
  gb_pull :: "pullReply option"
  gb_events :: "timelineEvent list option"
  gb_permission :: "string option"
  gb_comments :: "issueComment list option"
  gb_files :: "(string \<times> string) list option"
  gb_checks :: "(int \<times> checkRun list) option"
  gb_runs :: "workflowRun list option"
  gb_compare :: "string option"

type_synonym ghRequest = "string httpRequest"

text \<open>A run of a command: what it printed and its error, which tells an exit status from a failure to run.\<close>

record gitRun =
  gt_stdout :: string
  gt_stderr :: string
  gt_err :: "(bool \<times> goerr) option"

record 'w tools =
  tl_http :: "ghRequest \<Rightarrow> 'w \<Rightarrow> ghBody outcome \<times> 'w"
  tl_git :: "string \<Rightarrow> string list \<Rightarrow> string list \<Rightarrow> 'w \<Rightarrow> gitRun \<times> 'w"
  tl_MkdirTemp :: "'w \<Rightarrow> (goerr + string) \<times> 'w"
  tl_Now :: "'w \<Rightarrow> gotime \<times> 'w"
  tl_Sleep :: "duration \<Rightarrow> 'w \<Rightarrow> bool \<times> 'w"
  tl_LookupEnv :: "string \<Rightarrow> string option"
  tl_parseURL :: "string \<Rightarrow> (string \<times> string) option"
  tl_owner :: string
  tl_repo :: string
  tl_remote :: string
  tl_token :: string

datatype toolEvent = Asked ghRequest "ghBody outcome" | Ran "string list" gitRun

record 'w toolSys =
  to_world :: 'w
  to_trace :: "toolEvent list"
  to_workdir :: string

definition tool_do :: "('w \<Rightarrow> 'a \<times> 'w) \<Rightarrow> ('w toolSys, 'a) state" where
  "tool_do f = State (\<lambda>s. case f (to_world s) of (a, w) \<Rightarrow> (a, s\<lparr>to_world := w\<rparr>))"

definition tool_event :: "('a \<Rightarrow> toolEvent) \<Rightarrow> ('w \<Rightarrow> 'a \<times> 'w) \<Rightarrow> ('w toolSys, 'a) state" where
  "tool_event event f = State (\<lambda>s. case f (to_world s) of (a, w) \<Rightarrow> (a, s\<lparr>to_world := w, to_trace := to_trace s @ [event a]\<rparr>))"

section \<open>Requests\<close>

datatype ghErr = GhStatus int | GhErr goerr

definition gh_error :: "ghErr \<Rightarrow> goerr" where
  "gh_error e = (case e of GhStatus status \<Rightarrow> ErrText (''GitHub returned '' @ itoa status) | GhErr err \<Rightarrow> err)"

definition maxGitHubResponse :: int where "maxGitHubResponse = 2 ^ 20"
definition maxCompareResponse :: int where "maxCompareResponse = 8 * 2 ^ 20"
definition pageSize :: nat where "pageSize = 100"
definition maxPages :: nat where "maxPages = 30"
definition MethodPatch :: string where "MethodPatch = ''PATCH''"

definition repoPath :: "'w tools \<Rightarrow> string list \<Rightarrow> string list" where
  "repoPath c segments = [''repos'', tl_owner c, tl_repo c] @ segments"

definition escapePath :: "string \<Rightarrow> string list" where
  "escapePath name = split_on (CHR ''/'') [] name"

definition gh_request :: "string \<Rightarrow> string list \<Rightarrow> (string \<times> string) list \<Rightarrow> string option \<Rightarrow> ghRequest" where
  "gh_request method path query input = \<lparr>rq_Method = method, rq_Path = path, rq_Query = query, rq_Body = input\<rparr>"

definition gh_result :: "int \<Rightarrow> int list \<Rightarrow> ghBody outcome \<Rightarrow> ghErr + ghBody httpResponse" where
  "gh_result limit expected out =
     (case out of
        NotBuilt e \<Rightarrow> Inl (GhErr (ErrText ''create GitHub request''))
      | NoAnswer e \<Rightarrow> Inl (GhErr e)
      | Answered r \<Rightarrow>
          (case rs_Contents r of
             Inl e \<Rightarrow> Inl (GhErr (ErrText ''read GitHub response''))
           | Inr data \<Rightarrow>
               if rs_Status r \<notin> set expected then Inl (GhStatus (rs_Status r))
               else if int (length data) > limit then Inl (GhErr (ErrText ''GitHub response too large''))
               else Inr r))"

definition gh_do :: "'w tools \<Rightarrow> ghRequest \<Rightarrow> int \<Rightarrow> int list \<Rightarrow> ('w toolSys, ghErr + ghBody httpResponse) state" where
  "gh_do c req limit expected =
     do { out \<leftarrow> tool_event (Asked req) (tl_http c req); State_Monad.return (gh_result limit expected out) }"

definition gh_decoded :: "(ghBody \<Rightarrow> 'v option) \<Rightarrow> ghErr + ghBody httpResponse \<Rightarrow> ghErr + 'v" where
  "gh_decoded target r =
     (case r of
        Inl e \<Rightarrow> Inl e
      | Inr answer \<Rightarrow> (case target (rs_Body answer) of None \<Rightarrow> Inl (GhErr (ErrText ''decode GitHub response'')) | Some v \<Rightarrow> Inr v))"

definition gh_doJSON :: "'w tools \<Rightarrow> ghRequest \<Rightarrow> (ghBody \<Rightarrow> 'v option) \<Rightarrow> int \<Rightarrow> ('w toolSys, ghErr + 'v) state" where
  "gh_doJSON c req target expected =
     do { r \<leftarrow> gh_do c req maxGitHubResponse [expected]; State_Monad.return (gh_decoded target r) }"

text \<open>The output \<^verbatim>\<open>nil\<close>: nothing is decoded.\<close>

definition no_output :: "ghBody \<Rightarrow> unit option" where
  "no_output body = Some ()"

definition gh_wrap :: "string \<Rightarrow> ghErr + 'v \<Rightarrow> goerr + 'v" where
  "gh_wrap message r = (case r of Inl e \<Rightarrow> Inl (ErrWrap message (gh_error e)) | Inr v \<Rightarrow> Inr v)"

definition gh_failed :: "string \<Rightarrow> ghErr + 'v \<Rightarrow> goerr option" where
  "gh_failed message r = (case r of Inl e \<Rightarrow> Some (ErrWrap message (gh_error e)) | Inr v \<Rightarrow> None)"

definition page_query :: "nat \<Rightarrow> (string \<times> string) list" where
  "page_query page = [(''per_page'', itoa (int pageSize)), (''page'', itoa (int page))]"

text \<open>\<^verbatim>\<open>getList\<close> from a page on, \<open>n\<close> pages left.\<close>

fun list_pages :: "nat \<Rightarrow> 'w tools \<Rightarrow> string list \<Rightarrow> (string \<times> string) list \<Rightarrow> (ghBody \<Rightarrow> 'v list option) \<Rightarrow> nat \<Rightarrow> 'v list
    \<Rightarrow> ('w toolSys, ghErr + 'v list) state" where
  "list_pages 0 c path query target page all = State_Monad.return (Inr all)"
| "list_pages (Suc n) c path query target page all =
     do { r \<leftarrow> gh_doJSON c (gh_request MethodGet path (query @ page_query page) None) target 200;
          case r of
            Inl e \<Rightarrow> State_Monad.return (Inl e)
          | Inr items \<Rightarrow>
              if length items < pageSize then State_Monad.return (Inr (all @ items))
              else list_pages n c path query target (Suc page) (all @ items) }"

definition getList :: "'w tools \<Rightarrow> string list \<Rightarrow> (string \<times> string) list \<Rightarrow> (ghBody \<Rightarrow> 'v list option) \<Rightarrow> ('w toolSys, ghErr + 'v list) state" where
  "getList c path query target = list_pages maxPages c path query target 1 []"

section \<open>The REST client\<close>

definition gh_ResolveBranch :: "'w tools \<Rightarrow> string \<Rightarrow> ('w toolSys, goerr + string) state" where
  "gh_ResolveBranch c branch =
     do { r \<leftarrow> gh_doJSON c (gh_request MethodGet (repoPath c ([''git'', ''ref'', ''heads''] @ escapePath branch)) [] None) gb_ref 200;
          State_Monad.return (gh_wrap (''resolve branch '' @ branch) r) }"

definition gh_ReadFile :: "'w tools \<Rightarrow> string \<Rightarrow> ('w toolSys, goerr + string) state" where
  "gh_ReadFile c path =
     do { r \<leftarrow> gh_do c (gh_request MethodGet (repoPath c ([''contents''] @ escapePath path)) [] None) maxGitHubResponse [200];
          State_Monad.return
            (gh_wrap (''read '' @ path)
              (case r of Inl e \<Rightarrow> Inl e | Inr answer \<Rightarrow> (case rs_Contents answer of Inl e \<Rightarrow> Inl (GhErr e) | Inr data \<Rightarrow> Inr data))) }"

definition same_repo :: "pullReply \<Rightarrow> bool" where
  "same_repo p = (case (pl_HeadRepo p, pl_BaseRepo p) of (Some head, Some base) \<Rightarrow> EqualFold head base | _ \<Rightarrow> False)"

definition gh_pullRequest :: "'w tools \<Rightarrow> int \<Rightarrow> ('w toolSys, goerr + pr) state" where
  "gh_pullRequest c number =
     do { r \<leftarrow> gh_doJSON c (gh_request MethodGet (repoPath c [''pulls'', itoa number]) [] None) gb_pull 200;
          State_Monad.return
            (case gh_wrap (''pull request #'' @ itoa number) r of
               Inl e \<Rightarrow> Inl e
             | Inr p \<Rightarrow> Inr \<lparr>pr_Number = number, pr_HeadSHA = pl_HeadSHA p, pr_HeadRef = pl_HeadRef p, pr_BaseRef = pl_BaseRef p,
                 pr_SameRepo = same_repo p, pr_Draft = pl_Draft p, pr_LabeledAt = zeroTime, pr_LabeledBy = []\<rparr>) }"

fun last_labeled :: "string \<Rightarrow> timelineEvent list \<Rightarrow> gotime \<times> string \<Rightarrow> gotime \<times> string" where
  "last_labeled label_name [] found = found"
| "last_labeled label_name (e # es) found =
     last_labeled label_name es
       (if tl_Event e = ''labeled'' \<and> EqualFold (tl_Label e) label_name \<and> \<not> tl_CreatedAt e < fst found then (tl_CreatedAt e, tl_Actor e) else found)"

definition gh_lastLabeled :: "'w tools \<Rightarrow> int \<Rightarrow> string \<Rightarrow> ('w toolSys, goerr + gotime \<times> string) state" where
  "gh_lastLabeled c number label_name =
     do { r \<leftarrow> getList c (repoPath c [''issues'', itoa number, ''timeline'']) [] gb_events;
          State_Monad.return
            (case gh_wrap (''timeline of #'' @ itoa number) r of Inl e \<Rightarrow> Inl e | Inr events \<Rightarrow> Inr (last_labeled label_name events (zeroTime, []))) }"

fun queued_issues :: "'w tools \<Rightarrow> string \<Rightarrow> (int \<times> bool) list \<Rightarrow> pr list \<Rightarrow> ('w toolSys, goerr + pr list) state" where
  "queued_issues c label_name [] prs = State_Monad.return (Inr prs)"
| "queued_issues c label_name ((number, isPull) # issues) prs =
     (if \<not> isPull then queued_issues c label_name issues prs
      else do { r \<leftarrow> gh_pullRequest c number;
                case r of
                  Inl e \<Rightarrow> State_Monad.return (Inl e)
                | Inr p \<Rightarrow>
                    do { l \<leftarrow> gh_lastLabeled c number label_name;
                         case l of
                           Inl e \<Rightarrow> State_Monad.return (Inl e)
                         | Inr (labeled, by_whom) \<Rightarrow>
                             queued_issues c label_name issues (prs @ [p\<lparr>pr_LabeledAt := labeled, pr_LabeledBy := by_whom\<rparr>]) } })"

definition gh_QueuedPRs :: "'w tools \<Rightarrow> string \<Rightarrow> ('w toolSys, goerr + pr list) state" where
  "gh_QueuedPRs c label_name =
     do { r \<leftarrow> getList c (repoPath c [''issues'']) [(''state'', ''open''), (''labels'', label_name)] gb_issues;
          case r of
            Inl e \<Rightarrow> State_Monad.return (Inl (ErrWrap ''list queued pull requests'' (gh_error e)))
          | Inr issues \<Rightarrow> queued_issues c label_name issues [] }"

definition gh_CanWrite :: "'w tools \<Rightarrow> string \<Rightarrow> ('w toolSys, goerr + bool) state" where
  "gh_CanWrite c login =
     do { r \<leftarrow> gh_doJSON c (gh_request MethodGet (repoPath c [''collaborators'', login, ''permission'']) [] None) gb_permission 200;
          State_Monad.return
            (if r = Inl (GhStatus 404) then Inr False
             else (case gh_wrap (''permission of '' @ login) r of
                     Inl e \<Rightarrow> Inl e
                   | Inr permission \<Rightarrow> Inr (permission = ''admin'' \<or> permission = ''write''))) }"

definition own_comment :: "string \<Rightarrow> issueComment \<Rightarrow> bool" where
  "own_comment botLogin ic \<longleftrightarrow> ic_Type ic = ''Bot'' \<and> EqualFold (ic_Login ic) botLogin \<and> prefix StatusPrefix (ic_Body ic)"

definition gh_statusComment :: "'w tools \<Rightarrow> int \<Rightarrow> string \<Rightarrow> ('w toolSys, goerr + issueComment option) state" where
  "gh_statusComment c number botLogin =
     do { r \<leftarrow> getList c (repoPath c [''issues'', itoa number, ''comments'']) [] gb_comments;
          State_Monad.return
            (case gh_wrap (''comments of #'' @ itoa number) r of
               Inl e \<Rightarrow> Inl e
             | Inr comments \<Rightarrow> Inr (List.find (own_comment botLogin) (rev comments))) }"

definition gh_StatusComment :: "'w tools \<Rightarrow> int \<Rightarrow> string \<Rightarrow> ('w toolSys, goerr + string) state" where
  "gh_StatusComment c number botLogin =
     do { r \<leftarrow> gh_statusComment c number botLogin;
          State_Monad.return (case r of Inl e \<Rightarrow> Inl e | Inr None \<Rightarrow> Inr [] | Inr (Some ic) \<Rightarrow> Inr (ic_Body ic)) }"

definition edit_request :: "'w tools \<Rightarrow> int \<Rightarrow> string \<Rightarrow> ghRequest" where
  "edit_request c commentID body = gh_request MethodPatch (repoPath c [''issues'', ''comments'', itoa commentID]) [] (Some body)"

definition post_request :: "'w tools \<Rightarrow> int \<Rightarrow> string \<Rightarrow> ghRequest" where
  "post_request c number body = gh_request MethodPost (repoPath c [''issues'', itoa number, ''comments'']) [] (Some body)"

definition gh_UpsertStatusComment :: "'w tools \<Rightarrow> int \<Rightarrow> string \<Rightarrow> string \<Rightarrow> ('w toolSys, goerr option) state" where
  "gh_UpsertStatusComment c number botLogin body =
     do { found \<leftarrow> gh_statusComment c number botLogin;
          case found of
            Inl e \<Rightarrow> State_Monad.return (Some e)
          | Inr None \<Rightarrow>
              do { r \<leftarrow> gh_doJSON c (post_request c number body) no_output 201;
                   State_Monad.return (gh_failed (''comment on #'' @ itoa number) r) }
          | Inr (Some ic) \<Rightarrow>
              if ic_Body ic = body then State_Monad.return None
              else do { r \<leftarrow> gh_doJSON c (edit_request c (ic_ID ic) body) no_output 200;
                        State_Monad.return (gh_failed (''edit the status comment of #'' @ itoa number) r) } }"

definition gh_ChangedFiles :: "'w tools \<Rightarrow> int \<Rightarrow> ('w toolSys, goerr + string list) state" where
  "gh_ChangedFiles c number =
     do { r \<leftarrow> getList c (repoPath c [''pulls'', itoa number, ''files'']) [] gb_files;
          State_Monad.return
            (case gh_wrap (''files of #'' @ itoa number) r of
               Inl e \<Rightarrow> Inl e
             | Inr files \<Rightarrow> Inr (concat (map (\<lambda>(name, previous). name # (if previous \<noteq> [] then [previous] else [])) files))) }"

text \<open>\<^verbatim>\<open>CheckRuns\<close> from a page on, \<open>n\<close> pages left.\<close>

fun check_pages :: "nat \<Rightarrow> 'w tools \<Rightarrow> string \<Rightarrow> nat \<Rightarrow> checkRun list \<Rightarrow> ('w toolSys, goerr + checkRun list) state" where
  "check_pages 0 c sha page runs = State_Monad.return (Inr runs)"
| "check_pages (Suc n) c sha page runs =
     do { r \<leftarrow> gh_doJSON c (gh_request MethodGet (repoPath c [''commits'', sha, ''check-runs'']) ([(''filter'', ''all'')] @ page_query page) None) gb_checks 200;
          case r of
            Inl e \<Rightarrow> State_Monad.return (Inl (ErrWrap (''check runs of '' @ sha) (gh_error e)))
          | Inr (totalCount, listed) \<Rightarrow>
              if length listed < pageSize \<or> int (length (runs @ listed)) \<ge> totalCount then State_Monad.return (Inr (runs @ listed))
              else check_pages n c sha (Suc page) (runs @ listed) }"

definition gh_CheckRuns :: "'w tools \<Rightarrow> string \<Rightarrow> ('w toolSys, goerr + checkRun list) state" where
  "gh_CheckRuns c sha = check_pages maxPages c sha 1 []"

definition gh_WorkflowRuns :: "'w tools \<Rightarrow> string \<Rightarrow> ('w toolSys, goerr + workflowRun list) state" where
  "gh_WorkflowRuns c sha =
     do { r \<leftarrow> gh_doJSON c (gh_request MethodGet (repoPath c [''actions'', ''runs'']) [(''head_sha'', sha), (''per_page'', itoa (int pageSize))] None) gb_runs 200;
          State_Monad.return (gh_wrap (''workflow runs of '' @ sha) r) }"

definition gh_IsAncestor :: "'w tools \<Rightarrow> string \<Rightarrow> string \<Rightarrow> ('w toolSys, goerr + bool) state" where
  "gh_IsAncestor c ancestor descendant =
     do { r \<leftarrow> gh_do c (gh_request MethodGet (repoPath c [''compare'', ancestor @ ''...'' @ descendant]) [(''per_page'', ''1'')] None) maxCompareResponse [200];
          State_Monad.return
            (case r of
               Inl (GhStatus status) \<Rightarrow>
                 if status = 404 then Inr False else Inl (ErrWrap (''compare '' @ ancestor @ '' with '' @ descendant) (gh_error (GhStatus status)))
             | Inl (GhErr e) \<Rightarrow> Inl (ErrWrap (''compare '' @ ancestor @ '' with '' @ descendant) e)
             | Inr answer \<Rightarrow>
                 (case gb_compare (rs_Body answer) of
                    None \<Rightarrow> Inl (ErrText ''decode GitHub compare response'')
                  | Some status \<Rightarrow> Inr (status = ''ahead'' \<or> status = ''identical''))) }"

definition gh_CancelRun :: "'w tools \<Rightarrow> int \<Rightarrow> ('w toolSys, goerr option) state" where
  "gh_CancelRun c runID =
     do { r \<leftarrow> gh_do c (gh_request MethodPost (repoPath c [''actions'', ''runs'', itoa runID, ''cancel'']) [] None) maxGitHubResponse [202, 409];
          State_Monad.return (gh_failed (''cancel run '' @ itoa runID) r) }"

definition gh_RerunFailedJobs :: "'w tools \<Rightarrow> int \<Rightarrow> ('w toolSys, goerr option) state" where
  "gh_RerunFailedJobs c runID =
     do { r \<leftarrow> gh_doJSON c (gh_request MethodPost (repoPath c [''actions'', ''runs'', itoa runID, ''rerun-failed-jobs'']) [] None) no_output 201;
          State_Monad.return (gh_failed (''re-run the failed jobs of run '' @ itoa runID) r) }"

definition gh_RemoveLabel :: "'w tools \<Rightarrow> int \<Rightarrow> string \<Rightarrow> ('w toolSys, goerr option) state" where
  "gh_RemoveLabel c number label_name =
     do { r \<leftarrow> gh_do c (gh_request MethodDelete (repoPath c [''issues'', itoa number, ''labels'', label_name]) [] None) maxGitHubResponse [200, 404];
          State_Monad.return (gh_failed (''remove the '' @ label_name @ '' label from #'' @ itoa number) r) }"

section \<open>The clone\<close>

definition committerName :: string where "committerName = ''runneryard-merge-queue''"
definition committerEmail :: string where "committerEmail = ''merge-queue@runneryard.invalid''"

definition inheritedEnvironment :: "string list" where
  "inheritedEnvironment =
     [''PATH'', ''HOME'', ''TMPDIR'', ''LANG'', ''LC_ALL'', ''SSL_CERT_FILE'', ''SSL_CERT_DIR'', ''HTTPS_PROXY'', ''https_proxy'', ''HTTP_PROXY'',
      ''http_proxy'', ''NO_PROXY'', ''no_proxy'', ''ALL_PROXY'', ''all_proxy'']"

text \<open>The configuration of the clone; nothing when a token would go to a remote that is not https.\<close>

definition git_config :: "'w tools \<Rightarrow> (string \<times> string) list option" where
  "git_config c =
     (let config = [(''core.hooksPath'', ''/dev/null''), (''core.fsmonitor'', ''false''), (''commit.gpgsign'', ''false''), (''gc.auto'', ''0''),
            (''maintenance.auto'', ''false''), (''user.name'', committerName), (''user.email'', committerEmail)]
      in if tl_token c = [] then Some config
         else (case tl_parseURL c (tl_remote c) of
                 None \<Rightarrow> None
               | Some (scheme, host) \<Rightarrow>
                   if scheme \<noteq> ''https'' \<or> host = [] then None
                   else Some (config @ [(''http.'' @ scheme @ ''://'' @ host @ ''/.extraheader'',
                                         ''AUTHORIZATION: basic '' @ base64_encode (''x-access-token:'' @ tl_token c))])))"

definition git_env :: "'w tools \<Rightarrow> (string \<times> string) list \<Rightarrow> string list" where
  "git_env c config =
     [''GIT_TERMINAL_PROMPT=0'', ''GIT_LFS_SKIP_SMUDGE=1'', ''GIT_CONFIG_NOSYSTEM=1'', ''GIT_CONFIG_GLOBAL=/dev/null'']
     @ concat (map (\<lambda>name. case tl_LookupEnv c name of None \<Rightarrow> [] | Some v \<Rightarrow> [name @ ''='' @ v]) inheritedEnvironment)
     @ [''GIT_CONFIG_COUNT='' @ itoa (int (length config))]
     @ concat (map (\<lambda>(i, entry). [''GIT_CONFIG_KEY_'' @ itoa (int i) @ ''='' @ fst entry, ''GIT_CONFIG_VALUE_'' @ itoa (int i) @ ''='' @ snd entry])
         (List.enumerate 0 config))"

definition newline_text :: string where "newline_text = [CHR 0x0A]"

text \<open>\<^verbatim>\<open>runIn\<close>: the output, and the error with whether it is an exit status.\<close>

definition runIn :: "'w tools \<Rightarrow> string \<Rightarrow> string list \<Rightarrow> ('w toolSys, string \<times> (bool \<times> goerr) option) state" where
  "runIn c dir args =
     do { r \<leftarrow> tool_event (Ran args) (tl_git c dir (case git_config c of None \<Rightarrow> [] | Some config \<Rightarrow> git_env c config) args);
          State_Monad.return
            (case gt_err r of
               None \<Rightarrow> (trimSpace (gt_stdout r), None)
             | Some (exited, e) \<Rightarrow>
                 (gt_stdout r @ gt_stderr r,
                  Some (exited, ErrWrap (''git '' @ hd args @ '': '' @ trimSpace (gt_stdout r @ newline_text @ gt_stderr r)) e))) }"

definition git_run :: "'w tools \<Rightarrow> string list \<Rightarrow> ('w toolSys, string \<times> (bool \<times> goerr) option) state" where
  "git_run c args = do { dir \<leftarrow> gets to_workdir; runIn c (filepath_Join dir ''repo'') args }"

text \<open>\<^verbatim>\<open>git_output\<close>: the output or the error.\<close>

definition git_output :: "string \<times> (bool \<times> goerr) option \<Rightarrow> goerr + string" where
  "git_output r = (case snd r of None \<Rightarrow> Inr (fst r) | Some (exited, e) \<Rightarrow> Inl e)"

definition clone_args :: "string \<Rightarrow> string \<Rightarrow> string \<Rightarrow> string list" where
  "clone_args target remote dir =
     [''clone'', ''--quiet'', ''--filter=blob:none'', ''--single-branch'', ''--no-tags'', ''--branch'', target, ''--'', remote, dir]"

definition NewLocalGit :: "'w tools \<Rightarrow> string \<Rightarrow> string \<Rightarrow> ('w toolSys, goerr option) state" where
  "NewLocalGit c dir target =
     (case git_config c of
        None \<Rightarrow> State_Monad.return (Some (ErrText ''an authenticated remote must be an https URL''))
      | Some config \<Rightarrow>
          do { r \<leftarrow> runIn c [] (clone_args target (tl_remote c) dir); State_Monad.return (map_option snd (snd r)) })"

definition tools_OpenGit :: "'w tools \<Rightarrow> string \<Rightarrow> ('w toolSys, goerr option) state" where
  "tools_OpenGit c target =
     do { r \<leftarrow> tool_do (tl_MkdirTemp c);
          case r of
            Inl e \<Rightarrow> State_Monad.return (Some e)
          | Inr dir \<Rightarrow> do { _ \<leftarrow> modify (\<lambda>s. s\<lparr>to_workdir := dir\<rparr>); NewLocalGit c (filepath_Join dir ''repo'') target } }"

definition git_Fetch :: "'w tools \<Rightarrow> string \<Rightarrow> ('w toolSys, goerr + string) state" where
  "git_Fetch c ref =
     do { r \<leftarrow> git_run c [''fetch'', ''--quiet'', ''--no-tags'', ''origin'', ref];
          case snd r of
            Some (exited, e) \<Rightarrow> State_Monad.return (Inl e)
          | None \<Rightarrow> do { p \<leftarrow> git_run c [''rev-parse'', ''--verify'', ''FETCH_HEAD^{commit}'']; State_Monad.return (git_output p) } }"

definition git_IsAncestor :: "'w tools \<Rightarrow> string \<Rightarrow> string \<Rightarrow> ('w toolSys, goerr + bool) state" where
  "git_IsAncestor c ancestor descendant =
     do { r \<leftarrow> git_run c [''merge-base'', ''--is-ancestor'', ancestor, descendant];
          State_Monad.return (case snd r of None \<Rightarrow> Inr True | Some (exited, e) \<Rightarrow> if exited then Inr False else Inl e) }"

definition git_Rebase :: "'w tools \<Rightarrow> string \<Rightarrow> string \<Rightarrow> string \<Rightarrow> ('w toolSys, goerr + string) state" where
  "git_Rebase c onto upstream_commit head =
     do { r \<leftarrow> git_run c [''rebase'', ''--quiet'', ''--force-rebase'', ''--no-autosquash'', ''--onto'', onto, upstream_commit, head];
          case snd r of
            Some (exited, e) \<Rightarrow>
              do { abort \<leftarrow> git_run c [''rebase'', ''--abort''];
                   State_Monad.return (Inl (if snd abort = None then ErrSentinel ErrRebaseConflict else e)) }
          | None \<Rightarrow> do { p \<leftarrow> git_run c [''rev-parse'', ''--verify'', ''HEAD^{commit}'']; State_Monad.return (git_output p) } }"

definition push_args :: "branchUpdate list \<Rightarrow> string list" where
  "push_args updates =
     [''push'', ''--atomic'', ''--porcelain'', ''origin'']
     @ map (\<lambda>u. ''--force-with-lease=refs/heads/'' @ bu_Branch u @ '':'' @ bu_Expected u) updates
     @ map (\<lambda>u. bu_SHA u @ '':refs/heads/'' @ bu_Branch u) updates"

definition forward_args :: "string \<Rightarrow> string \<Rightarrow> string list" where
  "forward_args branch sha = [''push'', ''--porcelain'', ''origin'', sha @ '':refs/heads/'' @ branch]"

definition git_PushBranches :: "'w tools \<Rightarrow> branchUpdate list \<Rightarrow> ('w toolSys, goerr option) state" where
  "git_PushBranches c updates =
     do { r \<leftarrow> git_run c (push_args updates);
          State_Monad.return
            (case snd r of
               None \<Rightarrow> None
             | Some (exited, e) \<Rightarrow> if strings_Contains (fst r) ''stale info'' then Some (ErrSentinel ErrLeaseRejected) else Some e) }"

definition git_FastForward :: "'w tools \<Rightarrow> string \<Rightarrow> string \<Rightarrow> ('w toolSys, goerr option) state" where
  "git_FastForward c branch sha =
     do { r \<leftarrow> git_run c (forward_args branch sha);
          State_Monad.return
            (case snd r of
               None \<Rightarrow> None
             | Some (exited, e) \<Rightarrow>
                 if strings_Contains (fst r) ''non-fast-forward'' \<or> strings_Contains (fst r) ''fetch first''
                 then Some (ErrSentinel ErrNotFastForward) else Some e) }"

section \<open>The hub of a tick\<close>

definition rest_hub :: "'w tools \<Rightarrow> 'w toolSys hub" where
  "rest_hub c =
     \<lparr>hb_ResolveBranch = (\<lambda>branch. run_state (gh_ResolveBranch c branch)), hb_ReadFile = (\<lambda>path. run_state (gh_ReadFile c path)),
      hb_QueuedPRs = (\<lambda>label_name. run_state (gh_QueuedPRs c label_name)), hb_CanWrite = (\<lambda>login. run_state (gh_CanWrite c login)),
      hb_StatusComment = (\<lambda>number login. run_state (gh_StatusComment c number login)),
      hb_UpsertStatusComment = (\<lambda>number login body. run_state (gh_UpsertStatusComment c number login body)),
      hb_ChangedFiles = (\<lambda>number. run_state (gh_ChangedFiles c number)), hb_CheckRuns = (\<lambda>sha. run_state (gh_CheckRuns c sha)),
      hb_WorkflowRuns = (\<lambda>sha. run_state (gh_WorkflowRuns c sha)), hb_IsAncestor = (\<lambda>a d. run_state (gh_IsAncestor c a d)),
      hb_CancelRun = (\<lambda>i. run_state (gh_CancelRun c i)), hb_RerunFailedJobs = (\<lambda>i. run_state (gh_RerunFailedJobs c i)),
      hb_RemoveLabel = (\<lambda>number label_name. run_state (gh_RemoveLabel c number label_name)),
      hb_OpenGit = (\<lambda>target. run_state (tools_OpenGit c target)), hb_Fetch = (\<lambda>ref. run_state (git_Fetch c ref)),
      hb_GitIsAncestor = (\<lambda>a d. run_state (git_IsAncestor c a d)),
      hb_Rebase = (\<lambda>onto up head. run_state (git_Rebase c onto up head)), hb_PushBranches = (\<lambda>updates. run_state (git_PushBranches c updates)),
      hb_FastForward = (\<lambda>branch sha. run_state (git_FastForward c branch sha)), hb_Now = run_state (tool_do (tl_Now c)),
      hb_Sleep = (\<lambda>d. run_state (tool_do (tl_Sleep c d)))\<rparr>"

end
