(* ===== verification/Merge_Clients_Correct.thy ===== *)
theory Merge_Clients_Correct
  imports Merge_Clients
begin

text \<open>
  What the clients of the merge queue promise the tick: the pushes git is told to make are those in the
  trace of the tick, every branch leased on the head the tick saw, the comment that is read or edited is the
  queue's own, and a listing is complete within the bound on its pages.
\<close>

section \<open>Pushes\<close>

definition pushed :: "hub_event \<Rightarrow> string list list" where
  "pushed e = (case e of WritePush updates \<Rightarrow> [push_args updates] | WriteFastForward branch sha \<Rightarrow> [forward_args branch sha] | _ \<Rightarrow> [])"

lemma pushed_simps [simp]:
  "pushed (SawFile p contents) = []" "pushed (SawBranch b h) = []" "pushed (SawQueued l ps) = []" "pushed (SawChecks h rs) = []"
  "pushed (SawFiles n fs) = []" "pushed (SawFetch r h) = []" "pushed (WriteComment n b) = []" "pushed (WriteCancel i) = []"
  "pushed (WriteRerun i) = []" "pushed (WriteRemoveLabel n l) = []" "pushed (WritePush us) = [push_args us]"
  "pushed (WriteFastForward b h) = [forward_args b h]"
  by (simp_all add: pushed_def)





















section \<open>Comments\<close>

text \<open>What the answers to a listing of \<open>path\<close> have shown.\<close>

definition shown :: "string list \<Rightarrow> (ghBody \<Rightarrow> 'v list option) \<Rightarrow> toolEvent list \<Rightarrow> 'v set" where
  "shown path target es =
     {v. \<exists>req r vs. Asked req (Answered r) \<in> set es \<and> rq_Method req = MethodGet \<and> rq_Path req = path \<and> target (rs_Body r) = Some vs \<and> v \<in> set vs}"

lemma run_doJSON:
  "run_state (gh_doJSON c req target expected) s =
     (case tl_http c req (to_world s) of
        (out, w) \<Rightarrow> (gh_decoded target (gh_result maxGitHubResponse [expected] out), s\<lparr>to_world := w, to_trace := to_trace s @ [Asked req out]\<rparr>))"
  by (simp add: gh_doJSON_def gh_do_def tool_event_def split: prod.splits)

lemma decoded_answer:
  "gh_decoded target (gh_result limit expected out) = Inr v \<Longrightarrow> \<exists>r. out = Answered r \<and> target (rs_Body r) = Some v"
  by (auto simp: gh_decoded_def gh_result_def split: outcome.splits sum.splits option.splits if_splits)

text \<open>Requests that change nothing.\<close>

abbreviation reading :: "toolEvent list \<Rightarrow> bool" where
  "reading es \<equiv> (\<forall>e \<in> set es. \<exists>req out. e = Asked req out \<and> rq_Method req = MethodGet)"

lemma list_pages_triple:
  "hoare (\<lambda>s. reading (to_trace s) \<and> set all \<subseteq> shown path target (to_trace s)) (list_pages n c path query target page all)
     (\<lambda>r s. reading (to_trace s) \<and> (\<forall>vs. r = Inr vs \<longrightarrow> set vs \<subseteq> shown path target (to_trace s)))"
proof (induction n arbitrary: page all)
  case (Suc n)
  let ?req = "gh_request MethodGet path (query @ page_query page) None"
  have page: "hoare (\<lambda>s. reading (to_trace s) \<and> set all \<subseteq> shown path target (to_trace s)) (gh_doJSON c ?req target 200)
     (\<lambda>r s. reading (to_trace s) \<and> (\<forall>vs. r = Inr vs \<longrightarrow> set (all @ vs) \<subseteq> shown path target (to_trace s)))"
  proof (rule hoareI, intro conjI allI impI)
    fix s s' :: "'a toolSys" and r vs
    assume s: "reading (to_trace s) \<and> set all \<subseteq> shown path target (to_trace s)" "run_state (gh_doJSON c ?req target 200) s = (r, s')"
    obtain out w where out: "tl_http c ?req (to_world s) = (out, w)" by fastforce
    then have s': "to_trace s' = to_trace s @ [Asked ?req out]" "r = gh_decoded target (gh_result maxGitHubResponse [200] out)"
      using s(2) by (auto simp: run_doJSON)
    show "reading (to_trace s')" using s(1) s' by (auto simp: gh_request_def)
    assume "r = Inr vs"
    with s'(2) obtain a where "out = Answered a" "target (rs_Body a) = Some vs" using decoded_answer by metis
    moreover have "rq_Method ?req = MethodGet" "rq_Path ?req = path" by (simp_all add: gh_request_def)
    ultimately have "set vs \<subseteq> shown path target (to_trace s')" unfolding shown_def s'(1) by fastforce
    moreover have "shown path target (to_trace s) \<subseteq> shown path target (to_trace s')" unfolding shown_def s'(1) by auto
    ultimately show "set (all @ vs) \<subseteq> shown path target (to_trace s')" using s(1) by auto
  qed
  show ?case
    unfolding list_pages.simps
    by (rule hoare_bind [OF page], rule hoare_sum, rule hoare_return, simp, rule hoare_if, rule hoare_return, simp, rule hoare_pre [OF Suc.IH], simp)
qed (auto intro: hoare_return)

lemma status_comment_triple:
  "hoare (\<lambda>s. reading (to_trace s)) (gh_statusComment c number botLogin)
     (\<lambda>r s. reading (to_trace s) \<and> (\<forall>ic. r = Inr (Some ic) \<longrightarrow> own_comment botLogin ic
        \<and> ic \<in> shown (repoPath c [''issues'', itoa number, ''comments'']) gb_comments (to_trace s)))"
  unfolding gh_statusComment_def getList_def
proof (rule hoare_bind [OF hoare_pre [OF list_pages_triple]], simp, rule hoare_return, intro conjI allI impI)
  fix a :: "ghErr + issueComment list" and s ic
  assume "reading (to_trace s) \<and> (\<forall>vs. a = Inr vs \<longrightarrow> set vs \<subseteq> shown (repoPath c [''issues'', itoa number, ''comments'']) gb_comments (to_trace s))"
  then show "reading (to_trace s)" by blast
  assume r: "(case gh_wrap (''comments of #'' @ itoa number) a of Inl e \<Rightarrow> Inl e | Inr comments \<Rightarrow> Inr (List.find (own_comment botLogin) (rev comments))) = Inr (Some ic)"
  then obtain vs where vs: "a = Inr vs" "List.find (own_comment botLogin) (rev vs) = Some ic" by (auto simp: gh_wrap_def split: sum.splits)
  then show "own_comment botLogin ic" by (auto simp: find_Some_iff)
  show "ic \<in> shown (repoPath c [''issues'', itoa number, ''comments'']) gb_comments (to_trace s)"
    using \<open>reading _ \<and> _\<close> vs find_member [OF vs(2)] by auto
qed

text \<open>
  A request is trusted when it only reads, posts a new comment, or edits a comment that an answer before it
  showed under the pull request as the bot's own status comment.
\<close>

definition trusted :: "'w tools \<Rightarrow> int \<Rightarrow> string \<Rightarrow> string \<Rightarrow> toolEvent list \<Rightarrow> toolEvent \<Rightarrow> bool" where
  "trusted c number botLogin body es e \<longleftrightarrow>
     (\<exists>req out. e = Asked req out
        \<and> (rq_Method req = MethodGet \<or> req = post_request c number body
           \<or> (\<exists>ic. req = edit_request c (ic_ID ic) body \<and> own_comment botLogin ic
                \<and> ic \<in> shown (repoPath c [''issues'', itoa number, ''comments'']) gb_comments es)))"

lemma reading_preceded: "reading es \<Longrightarrow> preceded (trusted c number botLogin body) es"
  unfolding preceded_def trusted_def by (metis in_set_conv_decomp)

lemma write_preceded:
  assumes "reading (to_trace s)" and "trusted c number botLogin body (to_trace s) (Asked req (fst (tl_http c req (to_world s))))"
    and "run_state (gh_doJSON c req no_output expected) s = (r, s')"
  shows "preceded (trusted c number botLogin body) (to_trace s')"
proof -
  have "to_trace s' = to_trace s @ [Asked req (fst (tl_http c req (to_world s)))]"
    using assms(3) by (auto simp: run_doJSON split: prod.splits)
  then show ?thesis using preceded_snoc [of "trusted c number botLogin body", OF reading_preceded [OF assms(1)] assms(2)] by simp
qed

text \<open>An answer of \<^verbatim>\<open>StatusComment\<close> that rests on the bot's own status comment, or says that there is none.\<close>

definition read_own :: "'w tools \<Rightarrow> int \<Rightarrow> string \<Rightarrow> toolEvent list \<Rightarrow> goerr + string \<Rightarrow> bool" where
  "read_own c number botLogin es r \<longleftrightarrow>
     (case r of
        Inl e \<Rightarrow> True
      | Inr body \<Rightarrow> body = [] \<or> (\<exists>ic \<in> shown (repoPath c [''issues'', itoa number, ''comments'']) gb_comments es. own_comment botLogin ic \<and> ic_Body ic = body))"

lemma read_own_triple: "hoare (\<lambda>s. reading (to_trace s)) (gh_StatusComment c number botLogin) (\<lambda>r s. read_own c number botLogin (to_trace s) r)"
  unfolding gh_StatusComment_def
  by (rule hoare_bind [OF status_comment_triple], rule hoare_return) (auto simp: read_own_def split: sum.splits option.splits)

text \<open>
  Only the queue's own comments are trusted: the status comment a tick reads is one that GitHub listed under
  that pull request as written by the bot account, with the marker at its start, and writing the
  status edits only such a comment, by its id, or posts a new one; nothing else is written.
\<close>

theorem own_comments_only:
  "read_own c number botLogin (to_trace (snd (run_state (gh_StatusComment c number botLogin) \<lparr>to_world = w, to_trace = [], to_workdir = dir\<rparr>)))
     (fst (run_state (gh_StatusComment c number botLogin) \<lparr>to_world = w, to_trace = [], to_workdir = dir\<rparr>))
   \<and> preceded (trusted c number botLogin body) (to_trace (snd (run_state (gh_UpsertStatusComment c number botLogin body) \<lparr>to_world = w, to_trace = [], to_workdir = dir\<rparr>)))"
proof -
  let ?found = "\<lambda>(r :: goerr + issueComment option) (s :: 'a toolSys). reading (to_trace s) \<and> (\<forall>ic. r = Inr (Some ic) \<longrightarrow> own_comment botLogin ic
        \<and> ic \<in> shown (repoPath c [''issues'', itoa number, ''comments'']) gb_comments (to_trace s))"
  have writing: "hoare (?found r) (do { x \<leftarrow> gh_doJSON c req no_output expected; State_Monad.return (f x) })
      (\<lambda>_ s. preceded (trusted c number botLogin body) (to_trace s))"
    if "\<And>s. ?found r s \<Longrightarrow> trusted c number botLogin body (to_trace s) (Asked req (fst (tl_http c req (to_world s))))"
    for r req expected and f :: "ghErr + unit \<Rightarrow> goerr option"
    by (rule hoare_bind [where R = "\<lambda>_ s. preceded (trusted c number botLogin body) (to_trace s)"], rule hoareI)
      (blast intro: write_preceded that, blast intro: hoare_return)
  have "hoare (\<lambda>s. reading (to_trace s)) (gh_UpsertStatusComment c number botLogin body) (\<lambda>_ s. preceded (trusted c number botLogin body) (to_trace s))"
    unfolding gh_UpsertStatusComment_def
  proof (rule hoare_bind [OF status_comment_triple], rule hoare_sum, rule hoare_return, blast intro: reading_preceded, rule hoare_option)
    fix r :: "goerr + issueComment option" and x
    assume "r = Inr x" "x = None"
    then show "hoare (?found r) (do { r \<leftarrow> gh_doJSON c (post_request c number body) no_output 201; State_Monad.return (gh_failed (''comment on #'' @ itoa number) r) })
      (\<lambda>_ s. preceded (trusted c number botLogin body) (to_trace s))"
      by (intro writing) (auto simp: trusted_def)
  next
    fix r :: "goerr + issueComment option" and x ic
    assume "r = Inr x" "x = Some ic"
    then show "hoare (?found r) (if ic_Body ic = body then State_Monad.return None
        else do { r \<leftarrow> gh_doJSON c (edit_request c (ic_ID ic) body) no_output 200; State_Monad.return (gh_failed (''edit the status comment of #'' @ itoa number) r) })
      (\<lambda>_ s. preceded (trusted c number botLogin body) (to_trace s))"
      by (intro hoare_if writing hoare_return) (auto simp: trusted_def intro: reading_preceded)
  qed
  then have "preceded (trusted c number botLogin body) (to_trace (snd (run_state (gh_UpsertStatusComment c number botLogin body) \<lparr>to_world = w, to_trace = [], to_workdir = dir\<rparr>)))"
    by (rule hoareD [OF _ _ surjective_pairing]) simp
  then show ?thesis by (intro conjI, intro hoareD [OF read_own_triple _ surjective_pairing]) simp_all
qed

section \<open>Listings\<close>

text \<open>
  What the API documents of a listing: page \<open>n\<close> has the \<open>n\<close>-th hundred of the items, in an answer within the
  bound on its size.
\<close>

definition paged :: "'w tools \<Rightarrow> string list \<Rightarrow> (string \<times> string) list \<Rightarrow> (ghBody \<Rightarrow> 'v list option) \<Rightarrow> 'v list \<Rightarrow> bool" where
  "paged c path query target items \<longleftrightarrow>
     (\<forall>k w. \<exists>r data. fst (tl_http c (gh_request MethodGet path (query @ page_query (Suc k)) None) w) = Answered r \<and> rs_Status r = 200
        \<and> rs_Contents r = Inr data \<and> int (length data) \<le> maxGitHubResponse
        \<and> target (rs_Body r) = Some (take pageSize (drop (pageSize * k) items)))"

lemma paged_page:
  assumes "paged c path query target items"
  shows "fst (run_state (gh_doJSON c (gh_request MethodGet path (query @ page_query (Suc k)) None) target 200) s) = Inr (take pageSize (drop (pageSize * k) items))"
proof -
  from assms obtain r data where "fst (tl_http c (gh_request MethodGet path (query @ page_query (Suc k)) None) (to_world s)) = Answered r" "rs_Status r = 200"
      "rs_Contents r = Inr data" "int (length data) \<le> maxGitHubResponse" "target (rs_Body r) = Some (take pageSize (drop (pageSize * k) items))"
    unfolding paged_def by blast
  then show ?thesis by (auto simp: run_doJSON gh_decoded_def gh_result_def split: prod.splits)
qed

lemma list_pages_paged:
  assumes "paged c path query target items"
  shows "fst (run_state (list_pages n c path query target (Suc k) (take (pageSize * k) items)) s) = Inr (take (pageSize * (k + n)) items)"
proof (induction n arbitrary: k s)
  case (Suc n)
  let ?page = "take pageSize (drop (pageSize * k) items)"
  obtain s' where page: "run_state (gh_doJSON c (gh_request MethodGet path (query @ page_query (Suc k)) None) target 200) s = (Inr ?page, s')"
    using paged_page [OF assms, of k s] by (metis prod.collapse)
  have joined: "take (pageSize * k) items @ ?page = take (pageSize * Suc k) items"
    by (simp add: take_add [symmetric] add.commute)
  have "take (pageSize * Suc k) items = take (pageSize * (k + Suc n)) items" if "length ?page < pageSize"
  proof -
    have "length items < pageSize * Suc k" using that by (auto simp: min_def split: if_splits)
    moreover have "pageSize * Suc k \<le> pageSize * (k + Suc n)" by simp
    ultimately show ?thesis by (metis order_less_imp_le order_trans take_all)
  qed
  then show ?case using Suc.IH [of "Suc k" s'] page by (simp add: joined)
qed simp

text \<open>
  A listing is complete within its bound: when the API pages as it documents, a listing returns the first
  three thousand items, in order, and so every item of a listing that is not longer.
\<close>

theorem listing_bounded:
  assumes "paged c path query target items"
  shows "fst (run_state (getList c path query target) s) = Inr (take 3000 items)"
  using list_pages_paged [OF assms, of maxPages 0 s] by (simp add: getList_def maxPages_def pageSize_def)

definition quiet_tools :: "unit tools" where
  "quiet_tools =
     \<lparr>tl_http = (\<lambda>req w. (Answered \<lparr>rs_Status = 200, rs_Contents = Inr [], rs_Body =
          \<lparr>gb_ref = None, gb_issues = None, gb_pull = None, gb_events = None, gb_permission = None, gb_comments = None,
           gb_files = Some (if (''page'', ''1'') \<in> set (rq_Query req) then [(''a.go'', []), (''b.go'', ''c.go'')] else []), gb_checks = None, gb_runs = None,
           gb_compare = None\<rparr>\<rparr>, w)),
      tl_git = (\<lambda>dir env args w. (\<lparr>gt_stdout = [], gt_stderr = [], gt_err = None\<rparr>, w)), tl_MkdirTemp = Pair (Inr ''/tmp''), tl_Now = Pair 0, tl_Sleep = (\<lambda>d. Pair False),
      tl_LookupEnv = (\<lambda>_. None), tl_parseURL = (\<lambda>_. None), tl_owner = ''o'', tl_repo = ''r'', tl_remote = [], tl_token = []\<rparr>"

lemma quiet_paged: "paged quiet_tools path [] gb_files [(''a.go'', []), (''b.go'', ''c.go'')]"
proof -
  have first: "itoa 1 = ''1''" by code_simp
  have "''1'' = itoa (int (Suc k)) \<longleftrightarrow> k = 0" for k using itoa_eq [of 1 "int (Suc k)"] unfolding first by auto
  then have asked: "(''page'', ''1'') \<in> set (page_query (Suc k)) \<longleftrightarrow> k = 0" for k by (simp add: page_query_def)
  have served: "take pageSize (drop (pageSize * k) [(''a.go'', []), (''b.go'', ''c.go'')]) = (if k = 0 then [(''a.go'', []), (''b.go'', ''c.go'')] else [])" for k
    by (simp add: pageSize_def)
  show ?thesis unfolding paged_def served append_Nil by (simp add: quiet_tools_def gh_request_def asked maxGitHubResponse_def)
qed

theorem listing_bounded_witness:
  "fst (run_state (getList quiet_tools [''repos''] [] gb_files) \<lparr>to_world = (), to_trace = [], to_workdir = []\<rparr>) = Inr [(''a.go'', []), (''b.go'', ''c.go'')]"
  using listing_bounded [OF quiet_paged] by simp

end
