(* ===== verification/Goroutines.thy ===== *)
theory Goroutines
  imports Interleaving
begin

text \<open>
  Goroutines that learn from the shared state.  A schedule names, step by step, the goroutine that runs
  next.  What a goroutine has seen of a state that only ever advances stays true whatever the others do, so it
  may rely on it later: \<open>guards K p Q\<close> says that, knowing \<open>K\<close>, every step of \<open>p\<close> keeps the invariant and
  advances the state, and that \<open>Q\<close> is known of its result.
\<close>

section \<open>Schedules\<close>

fun interleave :: "nat list \<Rightarrow> ('s, 'a) prog list \<Rightarrow> 's \<Rightarrow> ('s, 'a) prog list \<times> 's" where
  "interleave [] ps s = (ps, s)"
| "interleave (i # is) ps s =
     (if i < length ps
      then (case ps ! i of
              Done a \<Rightarrow> interleave is ps s
            | Act f \<Rightarrow> interleave is (ps[i := fst (f s)]) (snd (f s)))
      else interleave is ps s)"

section \<open>Knowledge\<close>

locale advancing =
  fixes I :: "'s \<Rightarrow> bool" and later :: "'s \<Rightarrow> 's \<Rightarrow> bool"
begin

definition stable :: "('s \<Rightarrow> bool) \<Rightarrow> bool" where
  "stable K \<longleftrightarrow> (\<forall>s s'. K s \<longrightarrow> later s s' \<longrightarrow> K s')"

inductive guards :: "('s \<Rightarrow> bool) \<Rightarrow> ('s, 'a) prog \<Rightarrow> ('a \<Rightarrow> 's \<Rightarrow> bool) \<Rightarrow> bool" where
  guards_Done: "(\<And>s. I s \<Longrightarrow> K s \<Longrightarrow> Q a s) \<Longrightarrow> guards K (Done a) Q"
| guards_Act: "(\<And>s. I s \<Longrightarrow> K s \<Longrightarrow> I (snd (f s)) \<and> later s (snd (f s))
      \<and> (\<exists>K'. stable K' \<and> K' (snd (f s)) \<and> guards K' (fst (f s)) Q)) \<Longrightarrow> guards K (Act f) Q"

inductive_cases guards_DoneE: "guards K (Done a) Q"
inductive_cases guards_ActE: "guards K (Act f) Q"

lemma guards_pre:
  assumes "guards K p Q" and "\<And>s. I s \<Longrightarrow> K' s \<Longrightarrow> K s"
  shows "guards K' p Q"
  using assms(1)
proof cases
  case (guards_Done a)
  then show ?thesis using assms(2) by (auto intro: guards.guards_Done)
next
  case (guards_Act f)
  then show ?thesis using assms(2) by (auto intro: guards.guards_Act)
qed

lemma guards_post: "guards K p Q \<Longrightarrow> (\<And>a s. Q a s \<Longrightarrow> Q' a s) \<Longrightarrow> guards K p Q'"
proof (induction K p Q rule: guards.induct)
  case (guards_Done K Q a)
  then show ?case by (auto intro: guards.guards_Done)
next
  case (guards_Act K f Q)
  then show ?case by (intro guards.guards_Act) meson
qed

lemma guards_pbind: "guards K p R \<Longrightarrow> (\<And>a. guards (R a) (k a) Q) \<Longrightarrow> guards K (pbind p k) Q"
proof (induction K p R rule: guards.induct)
  case (guards_Done K R a)
  then show ?case by (auto intro: guards_pre)
next
  case (guards_Act K f R)
  show ?case unfolding pbind.simps
  proof (rule guards.guards_Act)
    fix s assume s: "I s" "K s"
    from guards_Act.IH [OF s] obtain K' where "stable K'" "K' (snd (f s))" "guards K' (pbind (fst (f s)) k) Q"
      "I (snd (f s))" "later s (snd (f s))" using guards_Act.prems by blast
    then show "I (snd ((map_prod (\<lambda>p. pbind p k) id \<circ> f) s)) \<and> later s (snd ((map_prod (\<lambda>p. pbind p k) id \<circ> f) s))
        \<and> (\<exists>K'. stable K' \<and> K' (snd ((map_prod (\<lambda>p. pbind p k) id \<circ> f) s)) \<and> guards K' (fst ((map_prod (\<lambda>p. pbind p k) id \<circ> f) s)) Q)"
      by auto
  qed
qed

lemma guards_pseq: "guards K p (\<lambda>_. R) \<Longrightarrow> guards R q Q \<Longrightarrow> guards K (pseq p q) Q"
  unfolding pseq_def by (rule guards_pbind)

lemma guards_atom:
  assumes "\<And>s. I s \<Longrightarrow> K s \<Longrightarrow> I (snd (f s)) \<and> later s (snd (f s)) \<and> Q (fst (f s)) (snd (f s))" and "\<And>a. stable (Q a)"
  shows "guards K (atom f) Q"
  unfolding atom_def
proof (rule guards_Act)
  fix s assume "I s" "K s"
  then show "I (snd (case f s of (a, s') \<Rightarrow> (Done a, s'))) \<and> later s (snd (case f s of (a, s') \<Rightarrow> (Done a, s')))
      \<and> (\<exists>K'. stable K' \<and> K' (snd (case f s of (a, s') \<Rightarrow> (Done a, s'))) \<and> guards K' (fst (case f s of (a, s') \<Rightarrow> (Done a, s'))) Q)"
    using assms(1) [of s] assms(2) by (cases "f s") (auto intro!: exI [of _ "Q (fst (f s))"] guards_Done)
qed

lemma guards_if: "(b \<Longrightarrow> guards K p Q) \<Longrightarrow> (\<not> b \<Longrightarrow> guards K q Q) \<Longrightarrow> guards K (if b then p else q) Q"
  by simp

lemma guards_option: "(x = None \<Longrightarrow> guards K p Q) \<Longrightarrow> (\<And>a. x = Some a \<Longrightarrow> guards K (q a) Q) \<Longrightarrow> guards K (case x of None \<Rightarrow> p | Some a \<Rightarrow> q a) Q"
  by (cases x) auto

text \<open>However the goroutines interleave, the invariant holds throughout, and so does what each still relies on.\<close>

lemma interleave_guarded:
  assumes "I s" and "\<forall>i < length ps. \<exists>K. stable K \<and> K s \<and> guards K (ps ! i) (Q i)"
  shows "I (snd (interleave sched ps s))
    \<and> (\<forall>i < length (fst (interleave sched ps s)). \<exists>K. stable K \<and> K (snd (interleave sched ps s)) \<and> guards K (fst (interleave sched ps s) ! i) (Q i))"
  using assms
proof (induction sched arbitrary: ps s)
  case (Cons i sched)
  show ?case
  proof (cases "\<exists>f. i < length ps \<and> ps ! i = Act f")
    case True
    then obtain f where f: "i < length ps" "ps ! i = Act f" by blast
    then obtain K where K: "K s" "guards K (Act f) (Q i)" using Cons.prems(2) by metis
    then obtain K' where step: "I (snd (f s))" "later s (snd (f s))" "stable K'" "K' (snd (f s))" "guards K' (fst (f s)) (Q i)"
      using Cons.prems(1) by (elim guards_ActE) blast
    have "\<exists>K. stable K \<and> K (snd (f s)) \<and> guards K (ps[i := fst (f s)] ! j) (Q j)" if "j < length ps" for j
    proof (cases "j = i")
      case True
      then show ?thesis using step that by auto
    next
      case False
      then show ?thesis using Cons.prems(2) that step(2) by (metis nth_list_update_neq stable_def)
    qed
    then show ?thesis using Cons.IH [of "snd (f s)" "ps[i := fst (f s)]"] step(1) f by simp
  next
    case False
    then have "interleave (i # sched) ps s = interleave sched ps s" by (auto split: prog.splits)
    then show ?thesis using Cons by simp
  qed
qed auto

end

end
