(* ===== verification/Session_Process.thy ===== *)
theory Session_Process
  imports Scaler_Correct Retry_Policy Go_Text Goroutines
begin

text \<open>
  The controller process (\<^verbatim>\<open>controller/controller.go\<close>, \<^verbatim>\<open>controller/wake.go\<close>, \<^verbatim>\<open>controller/paced_client.go\<close>
  and the sessions of \<^verbatim>\<open>controller/scale_sets.go\<close>): its configuration, what \<^verbatim>\<open>Run\<close> sets up, the registration of scale
  sets, the paced GitHub client, the interrupted poll, and the supervision of one session per scale set around the scaler
  of \<open>Scaler_Model\<close>.

  GitHub's client, the message session, the listener and the compute are libraries or parameters: the record
  \<open>process\<close> has them as functions on the scaler's world.  The listener is what it does next: deliver a message to the
  handlers, or end; it returns a handler's error wrapped.  A handler runs under the handlers' mutex and recovery runs
  while the other session still waits, so each is one step; opening, closing and waiting are steps of
  their own.  The looks at the other session's recovery, the messages of a session and the sessions of a supervisor have no bound;
  fuel bounds them, and a supervisor that runs out of it is still running.  \<open>px_events\<close> is a ghost record of the
  steps, in order.  The maintenance goroutine of a pool is \<open>Pool_Run\<close>'s, and \<^verbatim>\<open>shutdown\<close> only logs.
\<close>

section \<open>Configuration\<close>

definition filepath_Dir :: "string \<Rightarrow> string" where
  "filepath_Dir path = filepath_Clean (rev (dropWhile (\<lambda>c. c \<noteq> CHR ''/'') (rev path)))"

definition DefaultRunnerGroup :: string where "DefaultRunnerGroup = ''default''"
definition defaultLaunchConcurrency :: int where "defaultLaunchConcurrency = 8"
definition sessionRestartInitialBackoff :: duration where "sessionRestartInitialBackoff = 5 * second"
definition sessionRestartMaximumBackoff :: duration where "sessionRestartMaximumBackoff = 2 * minute"
definition sessionStableAfter :: duration where "sessionStableAfter = 2 * minute"

record controllerConfig =
  cc_GitHubURL :: string
  cc_ScaleSetName :: string
  cc_RunnerGroup :: string
  cc_ControllerID :: string
  cc_MinWorkers :: int
  cc_MaxWorkers :: int
  cc_MaxLifetime :: duration
  cc_UsageBudget :: duration
  cc_BudgetWindow :: duration
  cc_BudgetFile :: string
  cc_RetirementFile :: string
  cc_StatusFile :: string
  cc_Provider :: string
  cc_Version :: string
  cc_CommitSHA :: string
  cc_LaunchConcurrency :: int
  cc_IdleTimeout :: duration
  cc_DanglingTimeout :: duration
  cc_EphemeralScaleSetName :: string
  cc_EphemeralCompute :: "launcher option"

definition controller_defaults :: "controllerConfig \<Rightarrow> controllerConfig" where
  "controller_defaults cfg =
     cfg\<lparr>cc_EphemeralCompute := (if cc_EphemeralScaleSetName cfg = [] then None
            else case cc_EphemeralCompute cfg of None \<Rightarrow> Some LaunchCompute | Some l \<Rightarrow> Some l),
        cc_RunnerGroup := if cc_RunnerGroup cfg = [] then DefaultRunnerGroup else cc_RunnerGroup cfg,
        cc_StatusFile := if cc_StatusFile cfg = [] then filepath_Join (filepath_Dir (cc_BudgetFile cfg)) ''status.json'' else cc_StatusFile cfg,
        cc_RetirementFile := if cc_RetirementFile cfg = [] then filepath_Join (filepath_Dir (cc_BudgetFile cfg)) ''retirements.json'' else cc_RetirementFile cfg,
        cc_Provider := if cc_Provider cfg = [] then ''unknown'' else cc_Provider cfg,
        cc_LaunchConcurrency := if cc_LaunchConcurrency cfg < 1 then defaultLaunchConcurrency else cc_LaunchConcurrency cfg\<rparr>"

text \<open>\<open>adapters\<close> says whether both adapters are given.\<close>

definition controller_New :: "bool \<Rightarrow> controllerConfig \<Rightarrow> goerr + controllerConfig" where
  "controller_New adapters cfg =
     (let c = controller_defaults cfg
      in if \<not> adapters then Inl (ErrText ''GitHub and compute adapters are required'')
         else if cc_ScaleSetName cfg = [] \<or> cc_ControllerID cfg = [] \<or> cc_MaxWorkers cfg < 1 \<or> cc_MinWorkers cfg < 0 \<or> cc_MinWorkers cfg > cc_MaxWorkers cfg
         then Inl (ErrText ''invalid controller identity or worker bounds'')
         else if cc_EphemeralScaleSetName cfg = cc_ScaleSetName cfg then Inl (ErrText ''the ephemeral scale set needs a name of its own'')
         else if cc_MaxLifetime cfg < minute \<or> cc_MaxLifetime cfg > 24 * hour
         then Inl (ErrText ''maximum worker lifetime must be between 1m and 24h'')
         else if cc_UsageBudget cfg < cc_MaxLifetime cfg \<or> cc_BudgetWindow cfg < hour \<or> cc_BudgetFile cfg = []
         then Inl (ErrText ''usage budget must cover at least one worker lifetime and use a durable state file'')
         else if cc_StatusFile c = cc_BudgetFile c then Inl (ErrText ''fleet status and runner usage budget must use different files'')
         else if cc_RetirementFile c = cc_BudgetFile c \<or> cc_RetirementFile c = cc_StatusFile c
         then Inl (ErrText ''runner retirement queue must use a dedicated file'')
         else if cc_IdleTimeout cfg < 0 \<or> cc_IdleTimeout cfg > cc_MaxLifetime cfg \<or> cc_DanglingTimeout cfg < 0 \<or> cc_DanglingTimeout cfg > cc_MaxLifetime cfg
         then Inl (ErrText ''idle and dangling timeouts must be between 0 and the maximum worker lifetime'')
         else Inr c)"

section \<open>The process\<close>

text \<open>What the listener does next: a message for the handlers, or its end.\<close>

datatype delivery = DesiredCount int | JobStarted jobMessage | JobCompleted jobMessage | ListenerEnds "goerr option"

record runnerScaleSet =
  ss_ID :: int
  ss_SetName :: string
  ss_RunnerGroupID :: int
  ss_Labels :: "string list"
  ss_DisableUpdate :: bool

record 'w process =
  pc_env :: "'w env"
  pc_group :: "string \<Rightarrow> 'w \<Rightarrow> (goerr + int) \<times> 'w"
  pc_getSet :: "int \<Rightarrow> string \<Rightarrow> 'w \<Rightarrow> (goerr + runnerScaleSet option) \<times> 'w"
  pc_createSet :: "runnerScaleSet \<Rightarrow> 'w \<Rightarrow> (goerr + runnerScaleSet) \<times> 'w"
  pc_updateSet :: "int \<Rightarrow> runnerScaleSet \<Rightarrow> 'w \<Rightarrow> (goerr + runnerScaleSet) \<times> 'w"
  pc_open :: "int \<Rightarrow> 'w \<Rightarrow> goerr option \<times> 'w"
  pc_listener :: "int \<Rightarrow> 'w \<Rightarrow> goerr option \<times> 'w"
  pc_deliver :: "int \<Rightarrow> 'w \<Rightarrow> delivery \<times> 'w"
  pc_close :: "int \<Rightarrow> 'w \<Rightarrow> goerr option \<times> 'w"
  pc_done :: "'w \<Rightarrow> bool \<times> 'w"
  pc_speculates :: bool
  pc_select :: "'w \<Rightarrow> bool \<times> 'w"
  pc_wait :: "duration \<Rightarrow> 'w \<Rightarrow> bool \<times> 'w"

datatype processEvent =
    SessionOpened int "goerr option"
  | Recovered "goerr option"
  | Handled int message "goerr option"
  | SessionClosed int
  | BackedOff int duration
  | SawCancelled int

record 'w proc =
  px_sys :: "'w sys"
  px_events :: "processEvent list"
  px_recovered :: bool
  px_failure :: "goerr option"

definition in_sys :: "('a \<Rightarrow> processEvent list) \<Rightarrow> ('w sys, 'a) prog \<Rightarrow> ('w proc, 'a) prog" where
  "in_sys events p = atom (\<lambda>s. case prun p (px_sys s) of (a, x) \<Rightarrow> (a, s\<lparr>px_sys := x, px_events := px_events s @ events a\<rparr>))"

abbreviation process_report :: "'w process \<Rightarrow> reporter_op \<Rightarrow> ('w proc, unit) prog" where
  "process_report pc op \<equiv> in_sys (\<lambda>_. []) (report (pc_env pc) op)"

text \<open>The context of the sessions: done when the process is, or when a session failed.\<close>

definition ctx_done :: "'w process \<Rightarrow> int \<Rightarrow> ('w proc, bool) prog" where
  "ctx_done pc setID = atom (\<lambda>s. case pc_done pc (sy_world (px_sys s)) of
     (d, w) \<Rightarrow> (d \<or> px_failure s \<noteq> None, s\<lparr>px_sys := (px_sys s)\<lparr>sy_world := w\<rparr>,
        px_events := px_events s @ (if d \<or> px_failure s \<noteq> None then [SawCancelled setID] else [])\<rparr>))"

definition waitContext :: "'w process \<Rightarrow> int \<Rightarrow> duration \<Rightarrow> ('w proc, bool) prog" where
  "waitContext pc setID delay = atom (\<lambda>s. case pc_wait pc delay (sy_world (px_sys s)) of
     (d, w) \<Rightarrow> (d \<or> px_failure s \<noteq> None, s\<lparr>px_sys := (px_sys s)\<lparr>sy_world := w\<rparr>,
        px_events := px_events s @ [BackedOff setID delay] @ (if d \<or> px_failure s \<noteq> None then [SawCancelled setID] else [])\<rparr>))"

section \<open>Starting\<close>

text \<open>The files the process finds, what probing the journal shows, and what \<^verbatim>\<open>newAlerter\<close> returns.\<close>

record startFiles =
  sf_budget :: "usageLedger fileState"
  sf_status :: "fleetStatus fileState"
  sf_journal :: "retirementLedger fileState"
  sf_probe :: "retirementLedger fileProbe"
  sf_windows :: bool
  sf_alert :: "goerr + alerter option"

text \<open>The ledger and the status reporter, in an otherwise empty scaler.\<close>

definition start_stores :: "'w process \<Rightarrow> controllerConfig \<Rightarrow> startFiles \<Rightarrow> 'w \<Rightarrow> goerr + 'w sys" where
  "start_stores pc cfg files w0 =
     (let env = pc_env pc;
          (fs1, w1) = env_fs env w0;
          (now1, w2) = env_now env w1
      in case newUsageBudget (cc_UsageBudget cfg) (cc_BudgetWindow cfg) (cc_BudgetFile cfg) (cc_MaxLifetime cfg) (sf_budget files) now1 fs1 of
           Inl err \<Rightarrow> Inl err
         | Inr budget \<Rightarrow>
             (let (now2, w3) = env_now env w2;
                  (now3, w4) = env_now env w3;
                  (fs2, w5) = env_fs env w4;
                  status = initial_status now3
                    \<lparr>cs_ID = cc_ControllerID cfg, cs_Provider = cc_Provider cfg, cs_Version = cc_Version cfg, cs_CommitSHA = cc_CommitSHA cfg\<rparr>
                    (cc_GitHubURL cfg) (cc_ScaleSetName cfg) (cc_EphemeralScaleSetName cfg) (cc_MaxWorkers cfg) (budget_snapshot budget now2)
              in case newStatusReporter (cc_StatusFile cfg) fs2 status (sf_alert files) (sf_status files) of
                   Inl err \<Rightarrow> Inl err
                 | Inr reporter \<Rightarrow>
                     Inr \<lparr>sy_state = newWorkerState, sy_budget = budget,
                          sy_retirements = \<lparr>rq_file = cc_RetirementFile cfg, rq_entries = [], rq_disk = sf_journal files\<rparr>,
                          sy_reporter = reporter_start reporter,
                          sy_gate = \<lparr>lg_kind = [], lg_effective = 0, lg_reason = [], lg_retryAt = zeroTime, lg_backoff = 0, lg_probe = None\<rparr>,
                          sy_world = w5, sy_calls = []\<rparr>))"

definition open_journal :: "'w process \<Rightarrow> controllerConfig \<Rightarrow> startFiles \<Rightarrow> ('w sys, goerr option) prog" where
  "open_journal pc cfg files =
     atom (\<lambda>s. case env_fs (pc_env pc) (sy_world s) of
       (fs, w) \<Rightarrow> (case newRetirementQueue (cc_RetirementFile cfg) (sf_windows files) (sf_probe files) (sf_journal files) fs of
          Inl err \<Rightarrow> (Some err, s\<lparr>sy_world := w\<rparr>)
        | Inr q \<Rightarrow> (None, s\<lparr>sy_retirements := q, sy_world := w\<rparr>)))"

definition registerScaleSet :: "'w process \<Rightarrow> int \<Rightarrow> string \<Rightarrow> ('w sys, goerr + runnerScaleSet) prog" where
  "registerScaleSet pc runnerGroupID name =
     pbind (world_call (pc_getSet pc runnerGroupID name)) (\<lambda>found.
       case found of
         Inl err \<Rightarrow> pseq (report (pc_env pc) (RpDegraded ''github_scale_set_failed'')) (Done (Inl (ErrWrap ''find runner scale set'' err)))
       | Inr scaleSet \<Rightarrow>
           (let desired = \<lparr>ss_ID = 0, ss_SetName = name, ss_RunnerGroupID = runnerGroupID, ss_Labels = [name], ss_DisableUpdate = True\<rparr>
            in case scaleSet of
                 None \<Rightarrow> pbind (world_call (pc_createSet pc desired)) (\<lambda>created.
                   case created of
                     Inl err \<Rightarrow> pseq (report (pc_env pc) (RpDegraded ''github_scale_set_failed'')) (Done (Inl (ErrWrap ''create runner scale set'' err)))
                   | Inr made \<Rightarrow> Done (Inr made))
               | Some existing \<Rightarrow> pbind (world_call (pc_updateSet pc (ss_ID existing) desired)) (\<lambda>updated.
                   case updated of
                     Inl err \<Rightarrow> pseq (report (pc_env pc) (RpDegraded ''github_scale_set_failed'')) (Done (Inl (ErrWrap ''update runner scale set'' err)))
                   | Inr made \<Rightarrow> Done (Inr made))))"

definition runner_group :: "'w process \<Rightarrow> controllerConfig \<Rightarrow> ('w sys, goerr + int) prog" where
  "runner_group pc cfg =
     (if cc_RunnerGroup cfg = DefaultRunnerGroup then Done (Inr 1)
      else pbind (world_call (pc_group pc (cc_RunnerGroup cfg))) (\<lambda>found.
           case found of
             Inl err \<Rightarrow> pseq (report (pc_env pc) (RpDegraded ''github_runner_group_failed'')) (Done (Inl (ErrWrap ''resolve runner group'' err)))
           | Inr gid \<Rightarrow> Done (Inr gid)))"

text \<open>The second scale set, if the configuration names one; GitHub must tell the two apart.\<close>

definition ephemeral_set :: "'w process \<Rightarrow> controllerConfig \<Rightarrow> int \<Rightarrow> runnerScaleSet \<Rightarrow> ('w sys, goerr + runnerScaleSet option) prog" where
  "ephemeral_set pc cfg runnerGroupID scaleSet =
     (if cc_EphemeralScaleSetName cfg = [] then Done (Inr None)
      else pbind (registerScaleSet pc runnerGroupID (cc_EphemeralScaleSetName cfg)) (\<lambda>registered.
           case registered of
             Inl err \<Rightarrow> Done (Inl err)
           | Inr eset \<Rightarrow>
               if ss_ID eset = ss_ID scaleSet
               then pseq (report (pc_env pc) (RpDegraded ''github_scale_set_failed'')) (Done (Inl (ErrText ''GitHub returned one scale set for both'')))
               else Done (Inr (Some eset))))"

text \<open>The scaler's configuration; \<open>pc_speculates\<close> says whether the compute takes speculative launches.\<close>

definition scaler_config :: "'w process \<Rightarrow> controllerConfig \<Rightarrow> runnerScaleSet \<Rightarrow> runnerScaleSet option \<Rightarrow> scalerConfig" where
  "scaler_config pc cfg scaleSet eset =
     \<lparr>cf_scaleSetName = cc_ScaleSetName cfg, cf_scaleSetID = ss_ID scaleSet, cf_minWorkers = cc_MinWorkers cfg,
      cf_maxWorkers = cc_MaxWorkers cfg, cf_launchConcurrency = cc_LaunchConcurrency cfg, cf_maxLifetime = cc_MaxLifetime cfg,
      cf_idleTimeout = cc_IdleTimeout cfg, cf_danglingTimeout = cc_DanglingTimeout cfg,
      cf_ephemeral = map_option (\<lambda>e. \<lparr>rt_name = cc_EphemeralScaleSetName cfg, rt_id = ss_ID e, rt_minWorkers = 0,
        rt_launch = (case cc_EphemeralCompute cfg of Some l \<Rightarrow> l | None \<Rightarrow> LaunchCompute)\<rparr>) eset,
      cf_speculator = pc_speculates pc\<rparr>"

definition start_scaler :: "'w process \<Rightarrow> controllerConfig \<Rightarrow> startFiles \<Rightarrow> ('w sys, goerr + scalerConfig) prog" where
  "start_scaler pc cfg files =
     pbind (open_journal pc cfg files) (\<lambda>unopened.
       case unopened of
         Some err \<Rightarrow> pseq (report (pc_env pc) (RpDegraded ''runner_retirement_state_failed'')) (Done (Inl err))
       | None \<Rightarrow>
           pseq (reportRetirements (pc_env pc))
           (pbind (runner_group pc cfg) (\<lambda>grouped.
            case grouped of
              Inl err \<Rightarrow> Done (Inl err)
            | Inr runnerGroupID \<Rightarrow>
                pbind (registerScaleSet pc runnerGroupID (cc_ScaleSetName cfg)) (\<lambda>registered.
                  case registered of
                    Inl err \<Rightarrow> Done (Inl err)
                  | Inr scaleSet \<Rightarrow>
                      pbind (ephemeral_set pc cfg runnerGroupID scaleSet) (\<lambda>eset.
                        case eset of
                          Inl err \<Rightarrow> Done (Inl err)
                        | Inr eph \<Rightarrow> Done (Inr (scaler_config pc cfg scaleSet eph)))))))"

section \<open>Sessions\<close>

record sessionScaleSet =
  sn_name :: string
  sn_id :: int
  sn_route :: scaleSetRoute
  sn_recovers :: bool

text \<open>The handlers of a scale set.\<close>

fun message_of :: "sessionScaleSet \<Rightarrow> delivery \<Rightarrow> goerr option + message" where
  "message_of set_of (DesiredCount n) = Inr (MsgDesired (sn_route set_of) n)"
| "message_of set_of (JobStarted job) = Inr (MsgJobStarted job)"
| "message_of set_of (JobCompleted job) = Inr (MsgJobCompleted job)"
| "message_of set_of (ListenerEnds err) = Inl err"

text \<open>\<^verbatim>\<open>queue.Run\<close>: messages go to the handlers until one of them fails or the listener ends, \<open>n\<close> deliveries at most.\<close>

fun run_listener :: "nat \<Rightarrow> scalerConfig \<Rightarrow> 'w process \<Rightarrow> sessionScaleSet \<Rightarrow> ('w proc, goerr option option) prog" where
  "run_listener 0 cfg pc set_of = Done None"
| "run_listener (Suc n) cfg pc set_of =
     pbind (in_sys (\<lambda>_. []) (world_call (pc_deliver pc (sn_id set_of)))) (\<lambda>d.
       case message_of set_of d of
         Inl err \<Rightarrow> Done (Some err)
       | Inr m \<Rightarrow>
           pbind (in_sys (\<lambda>r. [Handled (sn_id set_of) m r]) (handle cfg (pc_env pc) m)) (\<lambda>err.
             case err of
               Some e \<Rightarrow> Done (Some (Some (ErrWrap ''handle message'' e)))
             | None \<Rightarrow> run_listener n cfg pc set_of))"

text \<open>
  The part of \<^verbatim>\<open>runScaleSetSession\<close> after recovery, from the listener's creation on.  The result says whether the session ended and,
  if so, with which error.
\<close>

definition listen_session :: "nat \<Rightarrow> scalerConfig \<Rightarrow> 'w process \<Rightarrow> sessionScaleSet \<Rightarrow> ('w proc, goerr option option) prog" where
  "listen_session n cfg pc set_of =
     pbind (in_sys (\<lambda>_. []) (world_call (pc_listener pc (sn_id set_of)))) (\<lambda>unlistened.
       case unlistened of
         Some err \<Rightarrow>
           pseq (process_report pc (RpDegraded ''github_listener_failed''))
           (Done (Some (failClosed (Some (ErrWrap ''create scale set listener'' err)))))
       | None \<Rightarrow>
           pbind (run_listener n cfg pc set_of) (\<lambda>ended.
             case ended of
               None \<Rightarrow> Done None
             | Some None \<Rightarrow> Done (Some None)
             | Some (Some err) \<Rightarrow>
                 if errors_Is (Some err) ContextCanceled then Done (Some None)
                 else pseq (process_report pc (RpDegraded ''github_listener_failed''))
                      (Done (Some (Some (ErrWrap ''run scale set listener'' err))))))"

definition runScaleSetSession :: "nat \<Rightarrow> scalerConfig \<Rightarrow> 'w process \<Rightarrow> sessionScaleSet \<Rightarrow> bool \<Rightarrow> ('w proc, goerr option option) prog" where
  "runScaleSetSession n cfg pc set_of recoverWorkers =
     pbind (if recoverWorkers then in_sys (\<lambda>r. [Recovered r]) (recover cfg (pc_env pc)) else Done None) (\<lambda>failed.
       case failed of
         Some err \<Rightarrow> Done (Some (failClosed (Some (ErrWrap ''recover workers'' err))))
       | None \<Rightarrow>
           pseq (if recoverWorkers \<and> sn_recovers set_of then atom (\<lambda>s. ((), s\<lparr>px_recovered := True\<rparr>)) else Done ())
           (pseq (process_report pc RpRecovered)
           (listen_session n cfg pc set_of)))"

definition nextSessionBackoff :: "duration \<Rightarrow> duration \<Rightarrow> duration \<Rightarrow> duration" where
  "nextSessionBackoff current initial maximum = (if current \<le> 0 then initial else min (current * 2) maximum)"

text \<open>One session, from its opening to its closing: its error, and whether it lasted; nothing when it never ended.\<close>

definition one_session :: "nat \<Rightarrow> scalerConfig \<Rightarrow> 'w process \<Rightarrow> sessionScaleSet \<Rightarrow> bool \<Rightarrow> ('w proc, (goerr option \<times> bool \<times> bool) option) prog" where
  "one_session n cfg pc set_of recoverWorkers =
     pbind (in_sys (\<lambda>r. [SessionOpened (sn_id set_of) r]) (world_call (pc_open pc (sn_id set_of)))) (\<lambda>unopened.
       case unopened of
         Some openErr \<Rightarrow>
           pseq (process_report pc (RpDegraded ''github_session_failed''))
           (Done (Some (Some (ErrWrap ''create message session'' openErr), False, recoverWorkers)))
       | None \<Rightarrow>
           pbind (in_sys (\<lambda>_. []) (clock (pc_env pc))) (\<lambda>started.
           pseq (process_report pc (RpGithubActivity ''session_created''))
           (pbind (runScaleSetSession n cfg pc set_of recoverWorkers) (\<lambda>ended.
            case ended of
              None \<Rightarrow> Done None
            | Some err \<Rightarrow>
                pseq (in_sys (\<lambda>_. [SessionClosed (sn_id set_of)]) (world_call (pc_close pc (sn_id set_of))))
                (pbind (in_sys (\<lambda>_. []) (clock (pc_env pc))) (\<lambda>now.
                 Done (Some (err, time_sub now started \<ge> sessionStableAfter, False))))))))"

text \<open>The loop of \<^verbatim>\<open>superviseSession\<close>, \<open>k\<close> sessions at most; \<^const>\<open>None\<close> when it is still running.\<close>

fun supervise_loop :: "nat \<Rightarrow> nat \<Rightarrow> scalerConfig \<Rightarrow> 'w process \<Rightarrow> sessionScaleSet \<Rightarrow> duration \<Rightarrow> duration \<Rightarrow> duration \<Rightarrow> bool
    \<Rightarrow> ('w proc, goerr option option) prog" where
  "supervise_loop 0 n cfg pc set_of initial maximum backoff recoverWorkers = Done None"
| "supervise_loop (Suc k) n cfg pc set_of initial maximum backoff recoverWorkers =
     pbind (one_session n cfg pc set_of recoverWorkers) (\<lambda>ended.
       case ended of
         None \<Rightarrow> Done None
       | Some (err, lasted, stillRecover) \<Rightarrow>
           pbind (ctx_done pc (sn_id set_of)) (\<lambda>cancelled.
             if cancelled then Done (Some None)
             else if isHandlerFailure err then Done (Some err)
             else let backoff' = nextSessionBackoff (if lasted then 0 else backoff) initial maximum
                  in pseq (process_report pc (RpDegraded ''github_session_restarting''))
                     (pbind (waitContext pc (sn_id set_of) backoff') (\<lambda>over.
                      if over then Done (Some None)
                      else supervise_loop k n cfg pc set_of initial maximum backoff' stillRecover))))"

text \<open>
  Waiting for the recovery of the other session, \<open>j\<close> looks at most: whether it came, or the context ended first.  When both have,
  \<^verbatim>\<open>select\<close> takes either, as \<open>pc_select\<close> says.
\<close>

fun await_recovery :: "nat \<Rightarrow> 'w process \<Rightarrow> int \<Rightarrow> ('w proc, bool option) prog" where
  "await_recovery 0 pc setID = Done None"
| "await_recovery (Suc j) pc setID =
     pbind (atom (\<lambda>s. (px_recovered s, s))) (\<lambda>ready.
       pbind (in_sys (\<lambda>_. []) (world_call (pc_select pc))) (\<lambda>prefers.
         if ready \<and> prefers then Done (Some True)
         else pbind (ctx_done pc setID) (\<lambda>cancelled.
                if cancelled then Done (Some False) else if ready then Done (Some True) else await_recovery j pc setID)))"

definition superviseSession :: "nat \<Rightarrow> nat \<Rightarrow> nat \<Rightarrow> scalerConfig \<Rightarrow> 'w process \<Rightarrow> sessionScaleSet \<Rightarrow> bool \<Rightarrow> duration \<Rightarrow> duration
    \<Rightarrow> ('w proc, goerr option option) prog" where
  "superviseSession j k n cfg pc set_of awaits initial maximum =
     (if \<not> awaits then supervise_loop k n cfg pc set_of initial maximum 0 True
      else pbind (await_recovery j pc (sn_id set_of)) (\<lambda>ready.
           case ready of
             None \<Rightarrow> Done None
           | Some came \<Rightarrow> if came then supervise_loop k n cfg pc set_of initial maximum 0 False else Done (Some None)))"

text \<open>
  \<^verbatim>\<open>superviseScaleSets\<close>: one goroutine per scale set; the first one recovers, the other waits for that, and
  the first failure cancels both.
\<close>

definition collect_result :: "goerr option option \<Rightarrow> ('w proc, goerr option option) prog" where
  "collect_result r =
     atom (\<lambda>s. (r, case r of
        Some (Some err) \<Rightarrow> if px_failure s = None then s\<lparr>px_failure := Some err\<rparr> else s
      | _ \<Rightarrow> s))"

definition superviseScaleSets :: "nat \<Rightarrow> nat \<Rightarrow> nat \<Rightarrow> scalerConfig \<Rightarrow> 'w process \<Rightarrow> sessionScaleSet list \<Rightarrow> duration \<Rightarrow> duration
    \<Rightarrow> ('w proc, goerr option option) prog list" where
  "superviseScaleSets j k n cfg pc sets initial maximum =
     map (\<lambda>(i, set_of). pbind (superviseSession j k n cfg pc (set_of\<lparr>sn_recovers := (i = 0)\<rparr>) (i \<noteq> 0) initial maximum) collect_result)
       (List.enumerate 0 sets)"

definition scaleSetSessions :: "scalerConfig \<Rightarrow> sessionScaleSet list" where
  "scaleSetSessions cfg =
     \<lparr>sn_name = cf_scaleSetName cfg, sn_id = cf_scaleSetID cfg, sn_route = mainRoute cfg, sn_recovers = False\<rparr>
     # (case cf_ephemeral cfg of None \<Rightarrow> [] | Some e \<Rightarrow> [\<lparr>sn_name = rt_name e, sn_id = rt_id e, sn_route = e, sn_recovers = False\<rparr>])"

text \<open>
  \<^verbatim>\<open>Run\<close>: the stores, the scale sets, then the goroutines of the sessions, one or two, run as \<open>sched\<close> says.
\<close>

definition controller_Run :: "nat \<Rightarrow> nat \<Rightarrow> nat \<Rightarrow> nat list \<Rightarrow> 'w process \<Rightarrow> controllerConfig \<Rightarrow> startFiles \<Rightarrow> 'w
    \<Rightarrow> goerr + ('w proc, goerr option option) prog list \<times> 'w proc" where
  "controller_Run j k n sched pc cfg files w =
     (case start_stores pc cfg files w of
        Inl err \<Rightarrow> Inl err
      | Inr s \<Rightarrow>
          (case prun (start_scaler pc cfg files) s of
             (Inl err, _) \<Rightarrow> Inl err
           | (Inr scfg, s') \<Rightarrow>
               Inr (interleave sched
                 (superviseScaleSets j k n scfg pc (scaleSetSessions scfg) sessionRestartInitialBackoff sessionRestartMaximumBackoff)
                 \<lparr>px_sys = s', px_events = [], px_recovered = False, px_failure = None\<rparr>)))"

section \<open>The paced client\<close>

text \<open>
  \<^verbatim>\<open>pacedScaleSetClient\<close>: every GitHub call first waits on the token bucket.  The bucket is part of the world of the paced environment;
  \<open>ctx\<close> is the context's error and \<open>sleep\<close> the limiter's sleep.
\<close>

definition unpaced :: "('w \<Rightarrow> 'a \<times> 'w) \<Rightarrow> 'w \<times> limiter \<Rightarrow> 'a \<times> 'w \<times> limiter" where
  "unpaced call = (\<lambda>(w, l). case call w of (a, w') \<Rightarrow> (a, w', l))"

definition paced_wait :: "'w env \<Rightarrow> ('w \<Rightarrow> goerr option) \<Rightarrow> (duration \<Rightarrow> 'w \<Rightarrow> goerr option \<times> 'w) \<Rightarrow> 'w \<times> limiter \<Rightarrow> goerr option \<times> 'w \<times> limiter" where
  "paced_wait env ctx sleep = (\<lambda>(w, l).
     case env_now env w of (now, w1) \<Rightarrow>
       (case limiter_Wait l now (ctx w1) (\<lambda>d. fst (sleep d w1)) of
          (l', err) \<Rightarrow>
            (err, (if lim_rate l \<le> 0 then w1
                   else case snd (limiter_take l now) of None \<Rightarrow> w1 | Some d \<Rightarrow> snd (sleep d w1)), l')))"

definition paced :: "'w env \<Rightarrow> ('w \<Rightarrow> goerr option) \<Rightarrow> (duration \<Rightarrow> 'w \<Rightarrow> goerr option \<times> 'w) \<Rightarrow> (goerr \<Rightarrow> 'a) \<Rightarrow> ('w \<Rightarrow> 'a \<times> 'w)
    \<Rightarrow> 'w \<times> limiter \<Rightarrow> 'a \<times> 'w \<times> limiter" where
  "paced env ctx sleep failed call x =
     (case paced_wait env ctx sleep x of
        (Some err, x') \<Rightarrow> (failed err, x')
      | (None, x') \<Rightarrow> unpaced call x')"

definition newPacedScaleSetClient :: "rat \<Rightarrow> ('w \<Rightarrow> goerr option) \<Rightarrow> (duration \<Rightarrow> 'w \<Rightarrow> goerr option \<times> 'w) \<Rightarrow> 'w env \<Rightarrow> ('w \<times> limiter) env" where
  "newPacedScaleSetClient rate ctx sleep env =
     (let remove = (if rate \<le> 0 then unpaced else paced env ctx sleep Some)
      in \<lparr>env_now = unpaced (env_now env),
          env_newID = unpaced (env_newID env),
          env_fs = unpaced (env_fs env),
          env_schedule = unpaced (env_schedule env),
          env_inventory = unpaced (env_inventory env),
          env_launch = (\<lambda>l x. unpaced (env_launch env l x)),
          env_destroy = (\<lambda>i. unpaced (env_destroy env i)),
          env_spareRoom = unpaced (env_spareRoom env),
          env_fast = (\<lambda>x. env_fast env (fst x)),
          env_generateJit = (\<lambda>name i. (if rate \<le> 0 then unpaced else paced env ctx sleep Inl) (env_generateJit env name i)),
          env_getRunner = (\<lambda>name. (if rate \<le> 0 then unpaced else paced env ctx sleep Inl) (env_getRunner env name)),
          env_removeRunner = (\<lambda>i. remove (env_removeRunner env i))\<rparr>)"

section \<open>The interrupted poll\<close>

text \<open>
  \<^verbatim>\<open>wakingSession.GetMessage\<close>: \<open>woken\<close> says that a wake-up came before the poll's answer, \<open>answer\<close> is what the poll returns (then after
  its cancellation) and \<open>over\<close> whether the caller's context is done by then.
\<close>

definition waking_GetMessage :: "bool \<Rightarrow> bool \<Rightarrow> goerr + 'm option \<Rightarrow> bool \<Rightarrow> goerr + 'm option" where
  "waking_GetMessage listens woken answer over =
     (if \<not> listens \<or> \<not> woken then answer
      else (case answer of
              Inl err \<Rightarrow> if \<not> over then Inr None else Inl err
            | Inr message \<Rightarrow> Inr message))"

end
