(* ===== verification/Session_Correct.thy ===== *)
theory Session_Correct
  imports Session_Process
begin

text \<open>
  What holds of the controller process whichever calls fail and however the goroutines of its
  sessions interleave: the stores stay well formed from the start on, no handler runs before the workers are
  recovered, and a supervisor gives up only on a handler's failure or a cancelled context, after waits within the bounds.
\<close>

section \<open>Stores\<close>

definition stores_fine :: "'w sys \<Rightarrow> bool" where
  "stores_fine s \<longleftrightarrow> entries_named (rq_entries (sy_retirements s)) \<and> state_ok (sy_state s) \<and> ledger_ok (sy_budget s)"

lemma put_named:
  assumes ok: "entries_named (rq_entries q)"
  shows "entries_named (rq_entries (snd (queue_put fs e q)))"
proof (cases "put_spec (map_of (rq_entries q)) e")
  case None
  then show ?thesis using queue_put_commit [OF ok, of fs e] ok by auto
next
  case (Some x)
  let ?m = "AList.update (re_RunnerName e) x (rq_entries q)"
  obtain err q' where step: "queue_put fs e q = (err, q')" by fastforce
  have "commit queue_persistLocked rq_entries set_queue fs ?m q = (err, q')"
    using queue_put_commit [OF ok, of fs e] step Some by auto
  from commit_queue [OF this] have "rq_entries q' = (if err = None then ?m else rq_entries q)" by simp
  moreover have "entries_named ?m"
    using put_spec_name [OF Some ok] entries_named_update [OF ok, of x] by simp
  ultimately show ?thesis using ok step by simp
qed

lemma remove_named:
  assumes ok: "entries_named (rq_entries q)"
  shows "entries_named (rq_entries (snd (queue_remove fs name q)))"
proof (cases "map_of (rq_entries q) name")
  case None
  then show ?thesis using ok by (simp add: queue_remove_def)
next
  case (Some previous)
  obtain err q' where step: "queue_remove fs name q = (err, q')" by fastforce
  have named: "name = re_RunnerName previous" "validateRetirementEntry previous = None"
    using ok Some entries_namedD by auto
  have del: "entries_named (AList.delete name (rq_entries q))"
    using ok entries_named_delete by simp
  show ?thesis
    using queue_remove_cases [OF step Some] del entries_named_update [OF del named(2)] named(1) step by (simp split: if_splits)
qed

interpretation fine_inv: sys_invariant "stores_fine :: 'w sys \<Rightarrow> bool"
  by unfold_locales (simp_all add: stores_fine_def state_step_ok ledger_step put_named remove_named)

lemma handle_fine: "pkeeps stores_fine (handle cfg env m)"
  by (cases m; simp add: HandleJobStarted_def HandleJobCompleted_def;
      intro pkeeps_rules fine_inv.handleDesired_keeps fine_inv.recover_keeps
        fine_inv.handleJobStarted_keeps fine_inv.handleJobCompleted_keeps)

section \<open>The record of the process\<close>

text \<open>What the record may hold after what precedes it.\<close>

fun allowed_after :: "duration \<Rightarrow> duration \<Rightarrow> processEvent list \<Rightarrow> processEvent \<Rightarrow> bool" where
  "allowed_after initial maximum before (Handled i m r) = (Recovered None \<in> set before)"
| "allowed_after initial maximum before (BackedOff i d) = (initial \<le> d \<and> d \<le> maximum)"
| "allowed_after initial maximum before _ = True"

abbreviation has_recovered :: "'w proc \<Rightarrow> bool" where
  "has_recovered s \<equiv> Recovered None \<in> set (px_events s)"

definition process_ok :: "duration \<Rightarrow> duration \<Rightarrow> 'w proc \<Rightarrow> bool" where
  "process_ok initial maximum s \<longleftrightarrow> stores_fine (px_sys s) \<and> preceded (allowed_after initial maximum) (px_events s)
     \<and> (px_recovered s \<longrightarrow> has_recovered s) \<and> (\<forall>e. px_failure s = Some e \<longrightarrow> isHandlerFailure (Some e))"

definition recorded_more :: "'w proc \<Rightarrow> 'w proc \<Rightarrow> bool" where
  "recorded_more s s' \<longleftrightarrow> (\<exists>es. px_events s' = px_events s @ es)"

interpretation sess: advancing "process_ok initial maximum" recorded_more for initial maximum
  by unfold_locales

lemma stable_True [simp]: "sess.stable (\<lambda>_. True)"
  by (simp add: sess.stable_def)

lemma stable_event [simp]: "sess.stable (\<lambda>s. e \<in> set (px_events s))"
  by (auto simp: sess.stable_def recorded_more_def)

lemma stable_imp [simp]: "(b \<Longrightarrow> sess.stable K) \<Longrightarrow> sess.stable (\<lambda>s. b \<longrightarrow> K s)"
  by (auto simp: sess.stable_def)

lemma stable_disj [simp]: "sess.stable K \<Longrightarrow> sess.stable (\<lambda>s. K s \<or> b)"
  by (auto simp: sess.stable_def)

text \<open>A program of the scaler, its record after it.\<close>

lemma guards_in_sys:
  assumes "pkeeps stores_fine p" and "\<And>a. sess.stable (Q a)"
    and "\<And>s a. K s \<Longrightarrow> preceded (allowed_after i m) (px_events s) \<Longrightarrow> preceded (allowed_after i m) (px_events s @ ev a)"
    and "\<And>s a x. K s \<Longrightarrow> Q a (s\<lparr>px_sys := x, px_events := px_events s @ ev a\<rparr>)"
  shows "sess.guards i m K (in_sys ev p) Q"
  unfolding in_sys_def
proof (rule sess.guards_atom)
  fix s assume s: "process_ok i m s" "K s"
  obtain a x where r: "prun p (px_sys s) = (a, x)" by fastforce
  have "stores_fine x" using pkeeps_prun [OF assms(1), of "px_sys s"] s(1) r by (simp add: process_ok_def)
  then show "process_ok i m (snd (case prun p (px_sys s) of (a, x) \<Rightarrow> (a, s\<lparr>px_sys := x, px_events := px_events s @ ev a\<rparr>)))
      \<and> recorded_more s (snd (case prun p (px_sys s) of (a, x) \<Rightarrow> (a, s\<lparr>px_sys := x, px_events := px_events s @ ev a\<rparr>)))
      \<and> Q (fst (case prun p (px_sys s) of (a, x) \<Rightarrow> (a, s\<lparr>px_sys := x, px_events := px_events s @ ev a\<rparr>)))
          (snd (case prun p (px_sys s) of (a, x) \<Rightarrow> (a, s\<lparr>px_sys := x, px_events := px_events s @ ev a\<rparr>)))"
    using s assms(3,4) r by (auto simp: process_ok_def recorded_more_def)
qed (rule assms(2))

text \<open>Steps that record nothing keep what is known.\<close>

lemma guards_silent:
  assumes "pkeeps stores_fine p" and "sess.stable K" and "\<And>s x. K (s\<lparr>px_sys := x\<rparr>) = K s"
  shows "sess.guards i m K (in_sys (\<lambda>_. []) p) (\<lambda>_. K)"
proof (rule guards_in_sys [OF assms(1)])
  fix s x and a :: 'b assume "K s"
  moreover have "s\<lparr>px_sys := x, px_events := px_events s @ []\<rparr> = s\<lparr>px_sys := x\<rparr>" by simp
  ultimately show "K (s\<lparr>px_sys := x, px_events := px_events s @ []\<rparr>)" using assms(3) by metis
qed (simp_all add: assms(2))

abbreviation knows :: "bool \<Rightarrow> 'w proc \<Rightarrow> bool" where
  "knows b s \<equiv> has_recovered s \<or> b"

lemma guards_report: "sess.guards i m (knows b) (process_report pc op) (\<lambda>_. knows b)"
  by (rule guards_silent) (simp_all add: fine_inv.report_keeps)

lemma guards_world: "sess.guards i m (knows b) (in_sys (\<lambda>_. []) (world_call g)) (\<lambda>_. knows b)"
  by (rule guards_silent) (simp_all add: fine_inv.world_call)

lemma guards_clock: "sess.guards i m (knows b) (in_sys (\<lambda>_. []) (clock env)) (\<lambda>_. knows b)"
  by (rule guards_silent) (simp_all add: fine_inv.clock_keeps)

lemma guards_Done_knows: "(\<And>s :: 'w proc. knows b s \<Longrightarrow> Q a s) \<Longrightarrow> sess.guards i m (knows b) (Done a) Q"
  by (rule sess.guards_Done)

text \<open>Steps that only record what may come at any time.\<close>

lemma guards_recorded:
  assumes "pkeeps stores_fine p" and "\<And>a before. \<forall>e \<in> set (ev a). \<forall>before. allowed_after i m before e" and "\<And>a. length (ev a) \<le> 1"
  shows "sess.guards i m (knows b) (in_sys ev p) (\<lambda>_. knows b)"
proof (rule guards_in_sys [OF assms(1)])
  fix s :: "'a proc" and a assume "preceded (allowed_after i m) (px_events s)"
  then show "preceded (allowed_after i m) (px_events s @ ev a)"
    using assms(2,3) [of a] by (cases "ev a") (auto intro: preceded_snoc)
qed auto

section \<open>Sessions\<close>

lemma run_listener_guarded:
  "sess.guards i m has_recovered (run_listener n cfg pc set_of) (\<lambda>_. has_recovered)"
proof (induction n)
  case 0
  show ?case by (simp add: sess.guards_Done)
next
  case (Suc n)
  have handled: "sess.guards i m has_recovered (in_sys (\<lambda>r. [Handled (sn_id set_of) msg r]) (handle cfg (pc_env pc) msg)) (\<lambda>_. has_recovered)" for msg
    by (rule guards_in_sys [OF handle_fine]) (auto intro: preceded_snoc)
  show ?case unfolding run_listener.simps
    by (rule sess.guards_pbind [OF guards_world [where b = False, simplified]], split sum.split, intro conjI allI impI sess.guards_Done, assumption,
        rule sess.guards_pbind [OF handled], rule sess.guards_option [OF Suc], rule sess.guards_Done, assumption)
qed

lemma recover_guarded:
  "sess.guards i m (knows True) (in_sys (\<lambda>r. [Recovered r]) (recover cfg env)) (\<lambda>r s. r = None \<longrightarrow> has_recovered s)"
  by (rule guards_in_sys [OF fine_inv.recover_keeps]) (auto intro: preceded_snoc)

lemma mark_recovered: "sess.guards i m has_recovered (atom (\<lambda>s. ((), s\<lparr>px_recovered := True\<rparr>))) (\<lambda>_. has_recovered)"
  by (rule sess.guards_atom) (auto simp: process_ok_def recorded_more_def)

lemmas guards_known = guards_report [where b = False, simplified] guards_world [where b = False, simplified]

lemma listen_session_guarded: "sess.guards i m has_recovered (listen_session n cfg pc set_of) (\<lambda>_. has_recovered)"
  unfolding listen_session_def
  by (rule sess.guards_pbind [OF guards_known(2)], rule sess.guards_option,
      rule sess.guards_pbind [OF run_listener_guarded], (rule sess.guards_option, rule sess.guards_Done, assumption)+,
      rule sess.guards_if, rule sess.guards_Done, assumption, (rule sess.guards_pseq [OF guards_known(1)], rule sess.guards_Done, assumption)+)

text \<open>After a session the workers are recovered, unless it failed closed.\<close>

lemma session_guarded:
  "sess.guards i m (knows recoverWorkers) (runScaleSetSession n cfg pc set_of recoverWorkers)
     (\<lambda>r. knows (\<exists>e. r = Some e \<and> isHandlerFailure e))"
proof -
  have first: "sess.guards i m (knows recoverWorkers)
      (if recoverWorkers then in_sys (\<lambda>r. [Recovered r]) (recover cfg (pc_env pc)) else Done None) (\<lambda>r s. r = None \<longrightarrow> has_recovered s)"
    using recover_guarded [of i m cfg "pc_env pc"] by (auto intro: sess.guards_Done)
  have mark: "sess.guards i m has_recovered (if b then atom (\<lambda>s. ((), s\<lparr>px_recovered := True\<rparr>)) else Done ()) (\<lambda>_. has_recovered)" for b
    using mark_recovered by (auto intro: sess.guards_Done)
  show ?thesis unfolding runScaleSetSession_def
    by (rule sess.guards_pbind [OF first], rule sess.guards_option, rule sess.guards_pre [where K = has_recovered],
        rule sess.guards_pseq [OF mark], rule sess.guards_pseq [OF guards_known(1)], rule sess.guards_post [OF listen_session_guarded],
        simp, simp, rule sess.guards_Done, simp add: isHandlerFailure_failClosed)
qed

text \<open>So the next session either recovers, or may count on it.\<close>

lemma guards_opened: "sess.guards i m (knows b) (in_sys (\<lambda>r. [SessionOpened j r]) (world_call g)) (\<lambda>_. knows b)"
  by (rule guards_recorded) (simp_all add: fine_inv.world_call)

lemma guards_closed: "sess.guards i m (knows b) (in_sys (\<lambda>_. [SessionClosed j]) (world_call g)) (\<lambda>_. knows b)"
  by (rule guards_recorded) (simp_all add: fine_inv.world_call)

lemma one_session_guarded:
  "sess.guards i m (knows recoverWorkers) (one_session n cfg pc set_of recoverWorkers)
     (\<lambda>r. knows (\<exists>err lasted still. r = Some (err, lasted, still) \<and> (still \<or> isHandlerFailure err)))"
  unfolding one_session_def
  by (rule sess.guards_pbind [OF guards_opened], rule sess.guards_option,
      rule sess.guards_pbind [OF guards_clock], rule sess.guards_pseq [OF guards_report],
      rule sess.guards_pbind [OF session_guarded], rule sess.guards_option, rule sess.guards_Done, simp,
      rule sess.guards_pseq [OF guards_closed], rule sess.guards_pbind [OF guards_clock], rule sess.guards_Done, force,
      rule sess.guards_pseq [OF guards_report], rule sess.guards_Done, blast)

section \<open>Supervision\<close>

text \<open>Why a supervisor ended: it saw the context cancelled, or returns a handler's failure.\<close>

definition ended_rightly :: "int \<Rightarrow> goerr option option \<Rightarrow> 'w proc \<Rightarrow> bool" where
  "ended_rightly j r s \<longleftrightarrow> (r = Some None \<longrightarrow> SawCancelled j \<in> set (px_events s)) \<and> (\<forall>e. r = Some (Some e) \<longrightarrow> isHandlerFailure (Some e))"

lemma ended_rightly_simps [simp]:
  "ended_rightly j None s" "ended_rightly j (Some None) s \<longleftrightarrow> SawCancelled j \<in> set (px_events s)"
  "isHandlerFailure err \<Longrightarrow> ended_rightly j (Some err) s"
  by (auto simp: ended_rightly_def isHandlerFailure_def errors_nodes_def)

lemma stable_cancelled: "sess.stable (\<lambda>s. (c \<longrightarrow> SawCancelled j \<in> set (px_events s)) \<and> knows b s)"
  by (auto simp: sess.stable_def recorded_more_def)

lemma ctx_done_guarded:
  "sess.guards i m (knows b) (ctx_done pc j) (\<lambda>c s. (c \<longrightarrow> SawCancelled j \<in> set (px_events s)) \<and> knows b s)"
  unfolding ctx_done_def
  by (rule sess.guards_atom [OF _ stable_cancelled])
     (auto simp: process_ok_def recorded_more_def stores_fine_def case_prod_beta intro: preceded_snoc)

lemma waitContext_guarded:
  assumes "i \<le> d" and "d \<le> m"
  shows "sess.guards i m (knows b) (waitContext pc j d) (\<lambda>c s. (c \<longrightarrow> SawCancelled j \<in> set (px_events s)) \<and> knows b s)"
proof -
  have two: "preceded (allowed_after i m) (es @ [BackedOff j d]) \<and> preceded (allowed_after i m) (es @ [BackedOff j d, SawCancelled j])"
    if "preceded (allowed_after i m) es" for es
    using preceded_snoc [OF that, of "BackedOff j d"] preceded_snoc [of _ "es @ [BackedOff j d]" "SawCancelled j"] assms by simp
  show ?thesis unfolding waitContext_def
    by (rule sess.guards_atom [OF _ stable_cancelled])
       (auto simp: process_ok_def recorded_more_def stores_fine_def case_prod_beta two)
qed

lemma backoff_bounds:
  assumes "0 < i" and "i \<le> m" and "b = 0 \<or> i \<le> b \<and> b \<le> m"
  shows "i \<le> nextSessionBackoff (if lasted then 0 else b) i m \<and> nextSessionBackoff (if lasted then 0 else b) i m \<le> m"
  using assms by (auto simp: nextSessionBackoff_def)

lemma supervise_loop_guarded:
  assumes "0 < i" and "i \<le> m" and "backoff = 0 \<or> i \<le> backoff \<and> backoff \<le> m"
  shows "sess.guards i m (knows recoverWorkers) (supervise_loop k n cfg pc set_of i m backoff recoverWorkers) (ended_rightly (sn_id set_of))"
  using assms(3)
proof (induction k arbitrary: backoff recoverWorkers)
  case 0
  show ?case by (simp add: sess.guards_Done)
next
  case (Suc k)
  have again: "sess.guards i m (knows (still \<or> isHandlerFailure err))
      (pbind (ctx_done pc (sn_id set_of)) (\<lambda>cancelled.
             if cancelled then Done (Some None)
             else if isHandlerFailure err then Done (Some err)
             else let backoff' = nextSessionBackoff (if lasted then 0 else backoff) i m
                  in pseq (process_report pc (RpDegraded ''github_session_restarting''))
                     (pbind (waitContext pc (sn_id set_of) backoff') (\<lambda>over.
                      if over then Done (Some None)
                      else supervise_loop k n cfg pc set_of i m backoff' still))))
      (ended_rightly (sn_id set_of))" for err lasted still
  proof -
    let ?b = "nextSessionBackoff (if lasted then 0 else backoff) i m"
    have b: "i \<le> ?b" "?b \<le> m" using backoff_bounds [OF assms(1,2) Suc.prems, of lasted] by simp_all
    have wait: "sess.guards i m (knows still) (pbind (waitContext pc (sn_id set_of) ?b) (\<lambda>over.
        if over then Done (Some None) else supervise_loop k n cfg pc set_of i m ?b still)) (ended_rightly (sn_id set_of))"
      by (rule sess.guards_pbind [OF waitContext_guarded [OF b]], rule sess.guards_if, rule sess.guards_Done, simp,
          rule sess.guards_pre [OF Suc.IH], use b in \<open>simp_all\<close>)
    show ?thesis
      by (rule sess.guards_pbind [OF ctx_done_guarded], rule sess.guards_if, rule sess.guards_Done, simp,
          rule sess.guards_if, rule sess.guards_Done, simp,
          unfold Let_def, rule sess.guards_pre [where K = "knows still"], rule sess.guards_pseq [OF guards_report wait], auto)
  qed
  show ?case unfolding supervise_loop.simps
    by (rule sess.guards_pbind [OF one_session_guarded], rule sess.guards_option, rule sess.guards_Done, simp,
        split prod.split, split prod.split, intro allI impI, rule sess.guards_pre [OF again], auto)
qed

lemma await_recovery_guarded:
  "sess.guards i m (knows True) (await_recovery l pc j)
     (\<lambda>r s. (r = Some True \<longrightarrow> has_recovered s) \<and> (r = Some False \<longrightarrow> SawCancelled j \<in> set (px_events s)))"
proof (induction l)
  case 0
  show ?case by (simp add: sess.guards_Done)
next
  case (Suc l)
  have look: "sess.guards i m (knows True) (atom (\<lambda>s. (px_recovered s, s))) (\<lambda>ready. knows (\<not> ready))"
    by (rule sess.guards_atom) (auto simp: process_ok_def recorded_more_def)
  show ?case unfolding await_recovery.simps
    by (rule sess.guards_pbind [OF look], rule sess.guards_pbind [OF guards_world], rule sess.guards_if, rule sess.guards_Done, simp,
        rule sess.guards_pbind [OF ctx_done_guarded], rule sess.guards_if, rule sess.guards_Done, simp,
        rule sess.guards_if, rule sess.guards_Done, simp, rule sess.guards_pre [OF Suc], simp)
qed

lemma superviseSession_guarded:
  assumes "0 < i" and "i \<le> m"
  shows "sess.guards i m (knows True) (superviseSession l k n cfg pc set_of awaits i m) (ended_rightly (sn_id set_of))"
proof -
  have loop: "sess.guards i m (knows b) (supervise_loop k n cfg pc set_of i m 0 b) (ended_rightly (sn_id set_of))" for b
    using supervise_loop_guarded [OF assms, of 0] by simp
  show ?thesis unfolding superviseSession_def
    by (rule sess.guards_if, rule loop, rule sess.guards_pbind [OF await_recovery_guarded], rule sess.guards_option, rule sess.guards_Done, simp,
        rule sess.guards_if, rule sess.guards_pre [OF loop], simp, rule sess.guards_Done, simp)
qed

lemma stable_ended [simp]: "sess.stable (ended_rightly j r)"
  by (auto simp: sess.stable_def ended_rightly_def recorded_more_def)

lemma collect_result_guarded: "sess.guards i m (ended_rightly j r) (collect_result r) (ended_rightly j)"
  unfolding collect_result_def
  by (rule sess.guards_atom) (auto simp: process_ok_def recorded_more_def ended_rightly_def split: option.splits)

lemma supervisor_guarded:
  assumes "0 < i" and "i \<le> m"
  shows "sess.guards i m (knows True) (pbind (superviseSession l k n cfg pc set_of awaits i m) collect_result) (ended_rightly (sn_id set_of))"
  by (rule sess.guards_pbind [OF superviseSession_guarded [OF assms]], rule collect_result_guarded)

text \<open>In every schedule, then, the invariant holds and each supervisor that ended did so for a reason.\<close>

lemma supervised:
  assumes "0 < i" and "i \<le> m" and "process_ok i m s"
  shows "case interleave sched (superviseScaleSets l k n cfg pc sets i m) s of
     (ps, s') \<Rightarrow> process_ok i m s' \<and> (\<forall>x < length ps. \<forall>r. ps ! x = Done r \<longrightarrow> ended_rightly (sn_id (sets ! x)) r s')"
proof -
  let ?ps = "superviseScaleSets l k n cfg pc sets i m"
  have "\<forall>x < length ?ps. \<exists>K. sess.stable K \<and> K s \<and> sess.guards i m K (?ps ! x) (ended_rightly (sn_id (sets ! x)))"
  proof (intro allI impI)
    fix x assume "x < length ?ps"
    then have x: "x < length sets" by (simp add: superviseScaleSets_def)
    then have "?ps ! x = pbind (superviseSession l k n cfg pc ((sets ! x)\<lparr>sn_recovers := (x = 0)\<rparr>) (x \<noteq> 0) i m) collect_result"
      by (simp add: superviseScaleSets_def nth_enumerate_eq)
    then have "sess.guards i m (knows True) (?ps ! x) (ended_rightly (sn_id (sets ! x)))"
      using supervisor_guarded [OF assms(1,2), of l k n cfg pc "(sets ! x)\<lparr>sn_recovers := (x = 0)\<rparr>" "x \<noteq> 0"] by simp
    then show "\<exists>K. sess.stable K \<and> K s \<and> sess.guards i m K (?ps ! x) (ended_rightly (sn_id (sets ! x)))"
      using stable_True by (intro exI [of _ "knows True"]) simp
  qed
  from sess.interleave_guarded [OF assms(3) this, of sched]
  show ?thesis unfolding case_prod_beta by (metis sess.guards_DoneE)
qed

section \<open>Starting\<close>

lemma load_named: "load_entries m es = Inr m' \<Longrightarrow> entries_named m \<Longrightarrow> entries_named m'"
  by (induction m es rule: load_entries.induct) (auto simp: entries_named_update split: option.splits if_splits)

lemma journal_named: "newRetirementQueue path windows probe disk fs = Inr q \<Longrightarrow> entries_named (rq_entries q)"
proof -
  have "entries_named []" by (simp add: entries_named_def)
  moreover have "rq_entries (snd (queue_persistLocked fs q)) = rq_entries q" for q
    by (simp add: queue_persistLocked_def case_prod_beta)
  then have "queue_persistLocked fs q = (e, q') \<Longrightarrow> rq_entries q' = rq_entries q" for q e q' by (metis snd_conv)
  ultimately show "newRetirementQueue path windows probe disk fs = Inr q \<Longrightarrow> entries_named (rq_entries q)"
    by (fastforce simp: newRetirementQueue_def Let_def intro: load_named split: if_splits sum.splits prod.splits option.splits)
qed

lemma ledger_opened: "newUsageBudget limit window path reservation disk now fs = Inr b \<Longrightarrow> ledger_ok b"
proof -
  assume new: "newUsageBudget limit window path reservation disk now fs = Inr b"
  then obtain ledger where disk: "disk = FileContent ledger" and pos: "0 < reservation"
    by (auto simp: newUsageBudget_def split: if_splits fileState.splits)
  let ?b = "\<lparr>ub_limit = limit, ub_window = window, ub_reservation = reservation, ub_stateFile = path,
    ub_entries = ul_Entries ledger, ub_disk = disk\<rparr>"
  obtain c b' where p: "budget_prune ?b now = (c, b')" by fastforce
  have "budget_validate ?b = None" using new disk by (auto simp: newUsageBudget_def Let_def split: if_splits option.splits)
  then have "ledger_ok ?b" using pos by (auto simp: ledger_ok_def budget_validate_iff entry_valid_def)
  then have b': "ledger_ok b'" using ledger_prune [of ?b now] p by simp
  have "ub_entries b = ub_entries b' \<and> ub_reservation b = ub_reservation b'"
    using new disk p \<open>budget_validate ?b = None\<close>
    by (auto simp: newUsageBudget_def Let_def budget_persist_def split: if_splits bool.splits option.splits prod.splits)
  then show ?thesis using b' by (simp add: ledger_ok_def)
qed

lemma start_stores_fine: "start_stores pc cfg files w = Inr s \<Longrightarrow> stores_fine s"
  by (auto simp: start_stores_def Let_def stores_fine_def entries_named_def state_newWorkerState_ok dest: ledger_opened split: prod.splits sum.splits)

lemma open_journal_fine [pkeeps_rules]: "pkeeps stores_fine (open_journal pc cfg files)"
  unfolding open_journal_def
  by (rule pkeeps_atom) (auto simp: stores_fine_def dest: journal_named split: prod.splits sum.splits)

lemma registerScaleSet_fine [pkeeps_rules]: "pkeeps stores_fine (registerScaleSet pc g name)"
  unfolding registerScaleSet_def Let_def by (intro pkeeps_rules fine_inv.report_keeps fine_inv.world_call)

lemma runner_group_fine [pkeeps_rules]: "pkeeps stores_fine (runner_group pc cfg)"
  unfolding runner_group_def by (intro pkeeps_rules fine_inv.report_keeps fine_inv.world_call)

lemma ephemeral_set_fine [pkeeps_rules]: "pkeeps stores_fine (ephemeral_set pc cfg g x)"
  unfolding ephemeral_set_def by (intro pkeeps_rules fine_inv.report_keeps fine_inv.world_call)

lemma start_scaler_fine: "pkeeps stores_fine (start_scaler pc cfg files)"
  unfolding start_scaler_def by (intro pkeeps_rules fine_inv.report_keeps fine_inv.reportRetirements_keeps)

lemma run_process_ok:
  assumes "controller_Run l k n sched pc cfg files w = Inr (ps, s)"
  shows "process_ok sessionRestartInitialBackoff sessionRestartMaximumBackoff s"
proof -
  obtain s1 where s1: "start_stores pc cfg files w = Inr s1" using assms by (auto simp: controller_Run_def split: sum.splits)
  obtain scfg s2 where s2: "prun (start_scaler pc cfg files) s1 = (Inr scfg, s2)"
    using assms s1 by (auto simp: controller_Run_def split: sum.splits prod.splits)
  let ?p = "\<lparr>px_sys = s2, px_events = [], px_recovered = False, px_failure = None\<rparr>"
  have "stores_fine s2" using pkeeps_prun [OF start_scaler_fine start_stores_fine [OF s1]] s2 by (metis snd_conv)
  then have "process_ok sessionRestartInitialBackoff sessionRestartMaximumBackoff ?p" by (simp add: process_ok_def preceded_def)
  moreover have "0 < sessionRestartInitialBackoff" "sessionRestartInitialBackoff \<le> sessionRestartMaximumBackoff"
    by (simp_all add: sessionRestartInitialBackoff_def sessionRestartMaximumBackoff_def)
  moreover have "interleave sched (superviseScaleSets l k n scfg pc (scaleSetSessions scfg) sessionRestartInitialBackoff sessionRestartMaximumBackoff) ?p = (ps, s)"
    using assms s1 s2 by (simp add: controller_Run_def)
  ultimately show ?thesis
    using supervised [of sessionRestartInitialBackoff sessionRestartMaximumBackoff ?p "scaleSetSessions scfg" sched l k n scfg pc] by simp
qed

text \<open>
  C17. The controller recovers before it acts.  Whatever \<^verbatim>\<open>Run\<close> finds on disk, whichever calls to GitHub, the
  compute and the file system fail, and however the goroutines of one or two scale sets interleave, no handler of either scale
  set runs before a recovery of the workers succeeded.
\<close>

theorem handlers_after_recovery:
  "case controller_Run looks sessions messages sched pc cfg files w of
     Inl err \<Rightarrow> True
   | Inr (ps, s) \<Rightarrow> preceded (\<lambda>before e. case e of Handled i msg r \<Rightarrow> Recovered None \<in> set before | _ \<Rightarrow> True) (px_events s)"
proof -
  have "preceded (allowed_after i m) es \<Longrightarrow>
      preceded (\<lambda>before e. case e of Handled i msg r \<Rightarrow> Recovered None \<in> set before | _ \<Rightarrow> True) es" for i m es
    by (fastforce simp: preceded_def split: processEvent.splits)
  then show ?thesis using run_process_ok [of looks sessions messages sched pc cfg files w]
    by (auto simp: process_ok_def split: sum.splits)
qed

text \<open>
  C18. The controller's stores are well formed from the start on: whatever the files held, in every schedule of the
  sessions the usage ledger, the retirement journal and the worker state satisfy their invariants, or \<^verbatim>\<open>Run\<close> returned an error
  before it opened a session.
\<close>

theorem run_stores_well_formed:
  "case controller_Run looks sessions messages sched pc cfg files w of
     Inl err \<Rightarrow> True
   | Inr (ps, s) \<Rightarrow> entries_named (rq_entries (sy_retirements (px_sys s))) \<and> state_ok (sy_state (px_sys s)) \<and> ledger_ok (sy_budget (px_sys s))"
  using run_process_ok [of looks sessions messages sched pc cfg files w] by (auto simp: process_ok_def stores_fine_def split: sum.splits)

text \<open>
  C19. A supervisor keeps its session open.  In every schedule of the supervisors, one that returned either saw its
  context cancelled or returns a handler's failure, never a failure of the transport; the error the
  process fails with is a handler's failure; and every wait before a session is reopened lies between the initial and the maximum
  backoff.
\<close>

theorem supervision_ends:
  assumes "0 < initial" and "initial \<le> maximum"
    and "entries_named (rq_entries (sy_retirements s))" and "state_ok (sy_state s)" and "ledger_ok (sy_budget s)"
  shows "case interleave sched (superviseScaleSets looks sessions messages cfg pc sets initial maximum)
           \<lparr>px_sys = s, px_events = [], px_recovered = False, px_failure = None\<rparr> of
     (ps, s') \<Rightarrow>
       (\<forall>x < length ps. \<forall>r. ps ! x = Done (Some r) \<longrightarrow>
          (case r of None \<Rightarrow> SawCancelled (sn_id (sets ! x)) \<in> set (px_events s') | Some e \<Rightarrow> isHandlerFailure (Some e)))
     \<and> (\<forall>e. px_failure s' = Some e \<longrightarrow> isHandlerFailure (Some e))
     \<and> (\<forall>i d. BackedOff i d \<in> set (px_events s') \<longrightarrow> initial \<le> d \<and> d \<le> maximum)"
proof -
  let ?p = "\<lparr>px_sys = s, px_events = [], px_recovered = False, px_failure = None\<rparr>"
  obtain ps s' where r: "interleave sched (superviseScaleSets looks sessions messages cfg pc sets initial maximum) ?p = (ps, s')" by fastforce
  have "process_ok initial maximum ?p" using assms by (simp add: process_ok_def stores_fine_def preceded_def)
  from supervised [OF assms(1,2) this, of sets sched looks sessions messages cfg pc]
  have ok: "process_ok initial maximum s'" and ended: "\<And>x r. x < length ps \<Longrightarrow> ps ! x = Done r \<Longrightarrow> ended_rightly (sn_id (sets ! x)) r s'"
    by (simp_all add: r)
  have "initial \<le> d \<and> d \<le> maximum" if seen: "BackedOff i d \<in> set (px_events s')" for i d
  proof -
    obtain before after where "px_events s' = before @ BackedOff i d # after" using split_list [OF seen] by blast
    then have "allowed_after initial maximum before (BackedOff i d)" using ok unfolding process_ok_def preceded_def by blast
    then show ?thesis by simp
  qed
  then show ?thesis using ok ended by (fastforce simp: r process_ok_def ended_rightly_def split: option.splits)
qed

definition example_process :: "unit process" where
  "example_process = \<lparr>pc_env = example_env, pc_group = (\<lambda>_ w. (Inr 1, w)),
     pc_getSet = (\<lambda>g name w. (Inr None, w)), pc_createSet = (\<lambda>d w. (Inr (d\<lparr>ss_ID := 7\<rparr>), w)), pc_updateSet = (\<lambda>i d w. (Inr (d\<lparr>ss_ID := i\<rparr>), w)),
     pc_open = (\<lambda>i w. (None, w)), pc_listener = (\<lambda>i w. (None, w)), pc_deliver = (\<lambda>i w. (DesiredCount 1, w)),
     pc_close = (\<lambda>i w. (None, w)), pc_done = (\<lambda>w. (False, w)), pc_speculates = False, pc_select = (\<lambda>w. (True, w)), pc_wait = (\<lambda>d w. (False, w))\<rparr>"

theorem supervision_ends_witness:
  "case interleave [0, 0, 0, 0, 0, 0] (superviseScaleSets 1 2 3 example_cfg example_process (scaleSetSessions example_cfg)
       sessionRestartInitialBackoff sessionRestartMaximumBackoff)
       \<lparr>px_sys = example_sys, px_events = [], px_recovered = False, px_failure = None\<rparr> of
     (ps, s') \<Rightarrow> \<forall>i d. BackedOff i d \<in> set (px_events s') \<longrightarrow> 5 * second \<le> d \<and> d \<le> 2 * minute"
proof -
  have "0 < sessionRestartInitialBackoff" "sessionRestartInitialBackoff \<le> sessionRestartMaximumBackoff"
    "entries_named (rq_entries (sy_retirements example_sys))" "ledger_ok (sy_budget example_sys)"
    using example_sys_queue
    by (simp_all add: sessionRestartInitialBackoff_def sessionRestartMaximumBackoff_def queue_ok_def ledger_ok_def example_sys_def example_budget_def)
  from supervision_ends [OF this(1-3) example_sys_state this(4), of "scaleSetSessions example_cfg" "[0, 0, 0, 0, 0, 0]" 1 2 3 example_cfg example_process]
  show ?thesis by (simp add: case_prod_beta sessionRestartInitialBackoff_def sessionRestartMaximumBackoff_def)
qed

end
