(* ===== verification/App_Config.thy ===== *)
theory App_Config
  imports Session_Process Fly_Hosts Hetzner_Hosts Image_Registry Placement
begin

text \<open>
  The configuration of the controller (\<^verbatim>\<open>cmd/runneryard/config.go\<close>, \<^verbatim>\<open>cmd/runneryard/pools.go\<close>) and static hosts
  (\<^verbatim>\<open>pool/static.go\<close>): the environment variables with their defaults, the pools file, their validation, and the
  construction of the adapters, the host sources, the pools and the placement from them.

  The environment, the parsers of floats, durations and URLs, the reading and decoding of files, the check of GitHub App
  credentials, which is a library's, and the construction of keys are the record \<open>settings\<close>.  \<^verbatim>\<open>poolsFile.validate\<close>
  fills defaults in through its pointer, so the validations return what they leave behind.  Floats are rationals.
\<close>

section \<open>Static hosts\<close>

record staticHost =
  sh_Name :: string
  sh_Address :: string
  sh_HostKey :: string

record staticSource =
  so_facts :: facts
  so_hosts :: "host list"

text \<open>\<^verbatim>\<open>net.SplitHostPort\<close>.\<close>

definition SplitHostPort :: "string \<Rightarrow> (string \<times> string) option" where
  "SplitHostPort s =
     (case cut_last (CHR '':'') s of
        None \<Rightarrow> None
      | Some (before, port) \<Rightarrow>
          if hd s = CHR ''[''
          then (case strings_Cut (CHR '']'') s of
                  None \<Rightarrow> None
                | Some (h, rest) \<Rightarrow>
                    if rest \<noteq> CHR '':'' # port \<or> CHR ''['' \<in> set (tl s) \<or> CHR '']'' \<in> set rest then None else Some (tl h, port))
          else if CHR '':'' \<in> set before \<or> CHR ''['' \<in> set s \<or> CHR '']'' \<in> set s then None
          else Some (before, port))"

text \<open>The regular expression \<^verbatim>\<open>dnsName\<close>: labels of at most 63 characters between dots.\<close>

definition dns_label :: "string \<Rightarrow> bool" where
  "dns_label s \<longleftrightarrow> s \<noteq> [] \<and> length s \<le> 63 \<and> is_alnum (hd s) \<and> is_alnum (last s) \<and> list_all (\<lambda>c. is_alnum c \<or> c = CHR ''-'') s"

definition dnsName :: "string \<Rightarrow> bool" where
  "dnsName s \<longleftrightarrow> list_all dns_label (split_on (CHR ''.'') [] s)"

text \<open>\<open>isIP\<close> is whether \<^verbatim>\<open>net.ParseIP\<close> reads the text.\<close>

definition staticAddress :: "(string \<Rightarrow> bool) \<Rightarrow> string \<Rightarrow> string option" where
  "staticAddress isIP address =
     (let (host, port) = (case SplitHostPort address of Some hp \<Rightarrow> hp | None \<Rightarrow> (address, ''22''))
      in case strconv_Atoi port of
           None \<Rightarrow> None
         | Some number \<Rightarrow>
             if number < 1 \<or> number > 65535 then None
             else if \<not> isIP host \<and> (length host > 253 \<or> \<not> dnsName host) then None
             else Some (JoinHostPort host port))"

text \<open>\<open>parseKey\<close> is \<^verbatim>\<open>ssh.ParseAuthorizedKey\<close> followed by \<^verbatim>\<open>MarshalAuthorizedKey\<close>.\<close>

fun static_hosts :: "(string \<Rightarrow> bool) \<Rightarrow> (string \<Rightarrow> goerr + string) \<Rightarrow> string list \<Rightarrow> staticHost list \<Rightarrow> goerr + host list" where
  "static_hosts isIP parseKey seen [] = Inr []"
| "static_hosts isIP parseKey seen (h # hs) =
     (if \<not> ValidName (sh_Name h) then Inl (ErrText ''static host name must be lowercase letters, digits, and hyphens'')
      else if sh_Name h \<in> set seen then Inl (ErrText ''static host appears twice'')
      else (case staticAddress isIP (sh_Address h) of
              None \<Rightarrow> Inl (ErrText ''static host has an invalid address'')
            | Some address \<Rightarrow>
                (case parseKey (trimSpace (sh_HostKey h)) of
                   Inl err \<Rightarrow> Inl (ErrWrap ''static host needs its SSH host public key'' err)
                 | Inr key \<Rightarrow>
                     (case static_hosts isIP parseKey (sh_Name h # seen) hs of
                        Inl err \<Rightarrow> Inl err
                      | Inr listed \<Rightarrow>
                          Inr (zeroHost\<lparr>ho_ID := sh_Name h, ho_Address := address, ho_HostKey := trimSpace key, ho_State := ''running''\<rparr> # listed)))))"

definition NewStaticSource :: "(string \<Rightarrow> bool) \<Rightarrow> (string \<Rightarrow> goerr + string) \<Rightarrow> string \<Rightarrow> rat \<Rightarrow> string \<Rightarrow> staticHost list \<Rightarrow> goerr + staticSource" where
  "NewStaticSource isIP parseKey billing hourlyPrice currency hosts =
     (let billing' = (if billing = [] then BillingOwned else billing)
      in if billing' \<notin> {BillingOwned, BillingPerSecond, BillingPerStartedHour} then Inl (ErrText ''unknown billing'')
         else if hosts = [] then Inl (ErrText ''a static pool needs at least one host'')
         else (case static_hosts isIP parseKey [] hosts of
                 Inl err \<Rightarrow> Inl err
               | Inr listed \<Rightarrow>
                   Inr \<lparr>so_facts = \<lparr>fa_Billing = billing', fa_HourlyPrice = hourlyPrice, fa_Currency = currency, fa_CanCreate = False\<rparr>, so_hosts = listed\<rparr>))"

definition static_List :: "staticSource \<Rightarrow> goerr + host list" where
  "static_List s = Inr (so_hosts s)"

definition static_Create :: "staticSource \<Rightarrow> string \<Rightarrow> goerr + host" where
  "static_Create s name = Inl (ErrText ''a static pool cannot create hosts'')"

definition static_Delete :: "staticSource \<Rightarrow> string \<Rightarrow> goerr option" where
  "static_Delete s i = Some (ErrText ''a static pool never deletes hosts'')"

section \<open>The pools file\<close>

definition ephemeralTier :: string where "ephemeralTier = ''ephemeral''"
definition maximumPoolSlots :: int where "maximumPoolSlots = 64"
definition maximumPoolHosts :: int where "maximumPoolHosts = 100"
definition defaultPoolDiskGB :: int where "defaultPoolDiskGB = 20"
definition poolTrustPrivate :: string where "poolTrustPrivate = ''private''"
definition poolSourceHetzner :: string where "poolSourceHetzner = ''hetzner''"
definition poolSourceStatic :: string where "poolSourceStatic = ''static''"
definition poolSourceFly :: string where "poolSourceFly = ''fly''"
definition defaultFlyVolumeGB :: int where "defaultFlyVolumeGB = 50"
definition defaultFlyIdleStop :: duration where "defaultFlyIdleStop = 5 * minute"
definition defaultKeepStopped :: int where "defaultKeepStopped = 1"
definition defaultDeleteAfter :: duration where "defaultDeleteAfter = 6 * hour"
definition defaultHetznerImage :: string where "defaultHetznerImage = ''docker-ce''"
definition flyRegistry :: string where "flyRegistry = ''registry.fly.io''"
definition flyHostReservedMB :: int where "flyHostReservedMB = 1024"
definition computeProviderNone :: string where "computeProviderNone = ''none''"

definition DefaultCaches :: "string list" where
  "DefaultCaches = [''/home/runner/.cache'', ''/home/runner/.npm'', ''/home/runner/go'']"

text \<open>A pool of the file; options are the fields that may be left out.\<close>

record poolEntry =
  pe_Name :: string
  pe_Source :: string
  pe_RunnerImage :: string
  pe_Slots :: int
  pe_MinHosts :: int
  pe_MaxHosts :: int
  pe_HourlyPrice :: rat
  pe_SlotCPUs :: rat
  pe_SlotMemoryMB :: int
  pe_MinFreeDiskGB :: "int option"
  pe_Caches :: "string list"
  pe_Speculative :: "bool option"
  pe_ServerType :: string
  pe_Location :: string
  pe_ServerImage :: string
  pe_FirewallID :: int
  pe_NetworkID :: int
  pe_Billing :: string
  pe_Currency :: string
  pe_Hosts :: "staticHost list"
  pe_FlyApp :: string
  pe_Region :: string
  pe_CPUKind :: string
  pe_CPUs :: int
  pe_MemoryMB :: int
  pe_VolumeGB :: int
  pe_IdleStopAfter :: duration
  pe_KeepStopped :: "int option"
  pe_DeleteStoppedAfter :: duration

record poolsFile =
  pf_Trust :: string
  pf_SSHKeyFile :: string
  pf_Placement :: "string list"
  pf_Pools :: "poolEntry list"

definition flyFields :: "poolEntry \<Rightarrow> bool" where
  "flyFields p \<longleftrightarrow> pe_FlyApp p \<noteq> [] \<or> pe_Region p \<noteq> [] \<or> pe_CPUKind p \<noteq> [] \<or> pe_CPUs p \<noteq> 0 \<or> pe_MemoryMB p \<noteq> 0 \<or> pe_VolumeGB p \<noteq> 0
     \<or> pe_IdleStopAfter p \<noteq> 0 \<or> pe_KeepStopped p \<noteq> None \<or> pe_DeleteStoppedAfter p \<noteq> 0"

section \<open>The configuration\<close>

record githubApp =
  ga_ClientID :: string
  ga_InstallationID :: int
  ga_PrivateKey :: string

datatype logLevel = LevelDebug | LevelInfo | LevelWarn | LevelError

record appConfig =
  app_GitHubURL :: string
  app_ScaleSetName :: string
  app_RunnerGroup :: string
  app_GitHubApp :: githubApp
  app_GitHubToken :: string
  app_ComputeProvider :: string
  app_ControllerID :: string
  app_ControllerFlyApp :: string
  app_FlyAPIToken :: string
  app_FlyAPIBaseURL :: string
  app_FlyWorkerApp :: string
  app_FlyRegion :: string
  app_PoolFlyAPIToken :: string
  app_HetznerAPIToken :: string
  app_HetznerAPIBaseURL :: string
  app_HetznerLocation :: string
  app_HetznerServerType :: string
  app_HetznerServerImage :: string
  app_HetznerFirewallID :: int
  app_HetznerNetworkID :: int
  app_RunnerImage :: string
  app_MinWorkers :: int
  app_MaxWorkers :: int
  app_RunnerCPUs :: int
  app_RunnerMemoryMB :: int
  app_RunnerRootFSGB :: int
  app_RunnerDockerDNS :: string
  app_RunnerCPUKind :: string
  app_RunnerMaxLifetime :: duration
  app_RunnerUsageBudget :: duration
  app_RunnerBudgetWindow :: duration
  app_RunnerBudgetFile :: string
  app_RunnerStatusFile :: string
  app_ProviderRetries :: int
  app_ProviderRateLimit :: rat
  app_GitHubAPIRateLimit :: rat
  app_LaunchConcurrency :: int
  app_RunnerIdleTimeout :: duration
  app_DanglingTimeout :: duration
  app_AlertWebhookURL :: string
  app_LogLevel :: logLevel
  app_PoolsFile :: string
  app_Pools :: "poolsFile option"
  app_EphemeralScaleSetName :: string

text \<open>What \<^verbatim>\<open>url.Parse\<close> returns.\<close>

record parsedURL =
  pu_Scheme :: string
  pu_Hostname :: string
  pu_Port :: string
  pu_User :: bool
  pu_RawQuery :: string
  pu_Fragment :: string
  pu_RawPath :: string
  pu_Path :: string

text \<open>
  \<open>se_pools\<close> reads and decodes a pools file, \<open>se_keyProbe\<close> is what inspecting a private key file shows, \<open>se_controllerKey\<close> is the
  controller's key of a file, with the text of its public half and the host keys it derives.
\<close>

record controllerKey =
  ck_HostKey :: "string \<Rightarrow> goerr + string \<times> string"
  ck_AuthorizedKey :: string

record settings =
  se_Getenv :: "string \<Rightarrow> string"
  se_ParseFloat :: "string \<Rightarrow> goerr + rat"
  se_ParseDuration :: "string \<Rightarrow> goerr + duration"
  se_parseURL :: "string \<Rightarrow> parsedURL option"
  se_isIP :: "string \<Rightarrow> bool"
  se_parseIP :: "string \<Rightarrow> string option"
  se_parseKey :: "string \<Rightarrow> goerr + string"
  se_appValidate :: "githubApp \<Rightarrow> goerr option"
  se_pools :: "string \<Rightarrow> goerr + poolsFile"
  se_keyProbe :: "string \<Rightarrow> string fileProbe"
  se_windows :: bool
  se_controllerKey :: "string \<Rightarrow> goerr + controllerKey"

section \<open>Reading the environment\<close>

definition getenv_trim :: "settings \<Rightarrow> string \<Rightarrow> string" where
  "getenv_trim st name = trimSpace (se_Getenv st name)"

definition envOr :: "settings \<Rightarrow> string \<Rightarrow> string \<Rightarrow> string" where
  "envOr st name fallback = (if getenv_trim st name \<noteq> [] then getenv_trim st name else trimSpace fallback)"

definition envInt :: "settings \<Rightarrow> string \<Rightarrow> int \<Rightarrow> goerr + int" where
  "envInt st name fallback =
     (if getenv_trim st name = [] then Inr fallback
      else (case strconv_Atoi (getenv_trim st name) of
              None \<Rightarrow> Inl (ErrText (name @ '' must be an integer'')) | Some n \<Rightarrow> Inr n))"

definition envFloat :: "settings \<Rightarrow> string \<Rightarrow> rat \<Rightarrow> goerr + rat" where
  "envFloat st name fallback =
     (if getenv_trim st name = [] then Inr fallback
      else (case se_ParseFloat st (getenv_trim st name) of
              Inl err \<Rightarrow> Inl (ErrWrap (name @ '' must be a number'') err) | Inr x \<Rightarrow> Inr x))"

definition envDuration :: "settings \<Rightarrow> string \<Rightarrow> duration \<Rightarrow> goerr + duration" where
  "envDuration st name fallback =
     (if getenv_trim st name = [] then Inr fallback
      else (case se_ParseDuration st (getenv_trim st name) of
              Inl err \<Rightarrow> Inl (ErrWrap (name @ '' must be a duration'') err) | Inr d \<Rightarrow> Inr d))"

definition parseLogLevel :: "string \<Rightarrow> logLevel" where
  "parseLogLevel text_value =
     (let v = toLower text_value
      in if v = ''debug'' then LevelDebug else if v = ''warn'' \<or> v = ''warning'' then LevelWarn
         else if v = ''error'' then LevelError else LevelInfo)"

definition readPrivateKeyFile :: "settings \<Rightarrow> string \<Rightarrow> goerr + string" where
  "readPrivateKeyFile st path =
     (let p = se_keyProbe st path
      in if fp_abs p \<noteq> None then Inl (ErrText ''resolve private key path'')
         else if fp_root p \<noteq> None then Inl (ErrText ''open private key directory'')
         else (case fp_lstat p of
             Some e \<Rightarrow> Inl (ErrWrap ''inspect private key file'' e)
           | None \<Rightarrow>
               if fp_symlink p \<or> \<not> fp_regular p then Inl (ErrText ''private key path must be a regular file, not a symlink'')
               else if \<not> se_windows st \<and> fp_groupOrOthers p then Inl (ErrText ''private key file is readable by group or others; run chmod 600 first'')
               else if fp_size p < 1 \<or> fp_size p > 65536 then Inl (ErrText ''private key file size is outside the safe range'')
               else if fp_open p \<noteq> None then Inl (ErrText ''open private key file'')
               else if \<not> fp_sameFile p then Inl (ErrText ''private key file changed while it was being inspected'')
               else (case fp_decode p of Inl e \<Rightarrow> Inl (ErrText ''read private key file'') | Inr contents \<Rightarrow> Inr contents)))"

text \<open>\<^verbatim>\<open>if v, err = m; err != nil { return err }\<close>.\<close>

definition or_fail :: "goerr + 'a \<Rightarrow> ('a \<Rightarrow> goerr + 'b) \<Rightarrow> goerr + 'b" where
  "or_fail m k = (case m of Inl err \<Rightarrow> Inl err | Inr v \<Rightarrow> k v)"

definition loadPoolsFile :: "settings \<Rightarrow> string \<Rightarrow> goerr + poolsFile" where
  "loadPoolsFile st path =
     or_fail (se_pools st path) (\<lambda>parsed.
       let keyFile = getenv_trim st ''RUNNER_POOL_SSH_KEY_FILE''
       in Inr (if keyFile \<noteq> [] then parsed\<lparr>pf_SSHKeyFile := keyFile\<rparr> else parsed))"

definition runner_cpu_kind :: "settings \<Rightarrow> string" where
  "runner_cpu_kind st =
     (let kind = getenv_trim st ''RUNNER_CPU_KIND''
      in if kind \<noteq> [] then kind else if getenv_trim st ''RUNNER_CPUS'' \<noteq> [] then ''shared'' else ''performance'')"

definition private_key :: "settings \<Rightarrow> goerr + string" where
  "private_key st =
     (let privateKey = se_Getenv st ''GITHUB_APP_PRIVATE_KEY''; keyPath = getenv_trim st ''GITHUB_APP_PRIVATE_KEY_FILE''
      in if privateKey = [] \<and> keyPath \<noteq> []
         then (case readPrivateKeyFile st keyPath of Inl err \<Rightarrow> Inl (ErrWrap ''read GITHUB_APP_PRIVATE_KEY_FILE'' err) | Inr key \<Rightarrow> Inr key)
         else Inr privateKey)"

text \<open>\<^verbatim>\<open>loadConfig\<close> up to the validation.\<close>

definition read_config :: "settings \<Rightarrow> goerr + appConfig" where
  "read_config st =
     or_fail (envInt st ''MIN_RUNNERS'' 0) (\<lambda>minWorkers.
     or_fail (envInt st ''MAX_RUNNERS'' 8) (\<lambda>maxWorkers.
     or_fail (envInt st ''RUNNER_CPUS'' 2) (\<lambda>cpus.
     or_fail (envInt st ''RUNNER_MEMORY_MB'' 8192) (\<lambda>memoryMB.
     or_fail (envInt st ''RUNNER_ROOTFS_GB'' 30) (\<lambda>rootFSGB.
     or_fail (envInt st ''RUNNER_HETZNER_FIREWALL_ID'' 0) (\<lambda>firewallID.
     or_fail (envInt st ''RUNNER_HETZNER_NETWORK_ID'' 0) (\<lambda>networkID.
     or_fail (envDuration st ''RUNNER_MAX_LIFETIME'' (2 * hour)) (\<lambda>maxLifetime.
     or_fail (envDuration st ''RUNNER_USAGE_BUDGET'' (10000 * minute)) (\<lambda>usageBudget.
     or_fail (envDuration st ''RUNNER_BUDGET_WINDOW'' (30 * 24 * hour)) (\<lambda>budgetWindow.
     or_fail (envInt st ''PROVIDER_RETRY_ATTEMPTS'' 5) (\<lambda>retries.
     or_fail (envFloat st ''PROVIDER_RATE_LIMIT'' 5) (\<lambda>rateLimit.
     or_fail (envFloat st ''GITHUB_API_RATE_LIMIT'' 10) (\<lambda>githubRate.
     or_fail (envInt st ''RUNNER_LAUNCH_CONCURRENCY'' 8) (\<lambda>concurrency.
     or_fail (envDuration st ''RUNNER_IDLE_TIMEOUT'' (10 * minute)) (\<lambda>idleTimeout.
     or_fail (envDuration st ''RUNNER_DANGLING_TIMEOUT'' (25 * minute)) (\<lambda>danglingTimeout.
     or_fail (envInt st ''GITHUB_APP_INSTALLATION_ID'' 0) (\<lambda>installationID.
     or_fail (private_key st) (\<lambda>privateKey.
     or_fail (if getenv_trim st ''RUNNER_POOLS_FILE'' = [] then Inr None
              else or_fail (loadPoolsFile st (getenv_trim st ''RUNNER_POOLS_FILE'')) (\<lambda>f. Inr (Some f))) (\<lambda>pools.
       let budgetFile = getenv_trim st ''RUNNER_BUDGET_FILE''; statusFile = getenv_trim st ''RUNNER_STATUS_FILE''
       in Inr
        \<lparr>app_GitHubURL = getenv_trim st ''GITHUB_CONFIG_URL'', app_ScaleSetName = envOr st ''SCALE_SET_NAME'' ''runneryard-linux-x64'',
         app_RunnerGroup = envOr st ''RUNNER_GROUP'' DefaultRunnerGroup,
         app_GitHubApp = \<lparr>ga_ClientID = getenv_trim st ''GITHUB_APP_CLIENT_ID'', ga_InstallationID = installationID, ga_PrivateKey = privateKey\<rparr>,
         app_GitHubToken = getenv_trim st ''GITHUB_TOKEN'', app_ComputeProvider = envOr st ''COMPUTE_PROVIDER'' ''fly'',
         app_ControllerID = envOr st ''CONTROLLER_ID'' (envOr st ''SCALE_SET_NAME'' ''runneryard-linux-x64''),
         app_ControllerFlyApp = getenv_trim st ''FLY_APP_NAME'', app_FlyAPIToken = getenv_trim st ''FLY_API_TOKEN'',
         app_FlyAPIBaseURL = envOr st ''FLY_API_BASE_URL'' ''https://api.machines.dev'',
         app_FlyWorkerApp = getenv_trim st ''RUNNER_FLY_APP'', app_FlyRegion = envOr st ''RUNNER_FLY_REGION'' (se_Getenv st ''FLY_REGION''),
         app_PoolFlyAPIToken = getenv_trim st ''RUNNER_POOL_FLY_API_TOKEN'', app_HetznerAPIToken = getenv_trim st ''HCLOUD_TOKEN'',
         app_HetznerAPIBaseURL = envOr st ''HCLOUD_API_BASE_URL'' ''https://api.hetzner.cloud/v1'',
         app_HetznerLocation = envOr st ''RUNNER_HETZNER_LOCATION'' ''fsn1'', app_HetznerServerType = envOr st ''RUNNER_HETZNER_SERVER_TYPE'' ''cpx32'',
         app_HetznerServerImage = envOr st ''RUNNER_HETZNER_IMAGE'' ''docker-ce'', app_HetznerFirewallID = firewallID, app_HetznerNetworkID = networkID,
         app_RunnerImage = envOr st ''RUNNER_IMAGE'' (se_Getenv st ''FLY_IMAGE_REF''), app_MinWorkers = minWorkers, app_MaxWorkers = maxWorkers,
         app_RunnerCPUs = cpus, app_RunnerMemoryMB = memoryMB, app_RunnerRootFSGB = rootFSGB,
         app_RunnerDockerDNS = getenv_trim st ''RUNNER_DOCKER_DNS'', app_RunnerCPUKind = runner_cpu_kind st, app_RunnerMaxLifetime = maxLifetime,
         app_RunnerUsageBudget = usageBudget, app_RunnerBudgetWindow = budgetWindow, app_RunnerBudgetFile = budgetFile,
         app_RunnerStatusFile = (if statusFile = [] \<and> budgetFile \<noteq> [] then filepath_Join (filepath_Dir budgetFile) ''status.json'' else statusFile),
         app_ProviderRetries = retries, app_ProviderRateLimit = rateLimit, app_GitHubAPIRateLimit = githubRate, app_LaunchConcurrency = concurrency,
         app_RunnerIdleTimeout = idleTimeout, app_DanglingTimeout = danglingTimeout, app_AlertWebhookURL = getenv_trim st ''ALERT_WEBHOOK_URL'',
         app_LogLevel = parseLogLevel (envOr st ''LOG_LEVEL'' ''info''), app_PoolsFile = getenv_trim st ''RUNNER_POOLS_FILE'', app_Pools = pools,
         app_EphemeralScaleSetName = getenv_trim st ''EPHEMERAL_SCALE_SET_NAME''\<rparr>)))))))))))))))))))"

section \<open>Validation\<close>

text \<open>The regular expressions \<^verbatim>\<open>safeGitHubOwner\<close> and \<^verbatim>\<open>safeGitHubRepo\<close>.\<close>

definition safeGitHubOwner :: "string \<Rightarrow> bool" where
  "safeGitHubOwner s = safe_token {CHR ''-''} 38 s"

definition safeGitHubRepo :: "string \<Rightarrow> bool" where
  "safeGitHubRepo s \<longleftrightarrow> s \<noteq> [] \<and> length s \<le> 100 \<and> list_all (\<lambda>c. is_alnum c \<or> c \<in> {CHR ''.'', CHR ''_'', CHR ''-''}) s"

definition normalizeGitHubConfigURL :: "settings \<Rightarrow> string \<Rightarrow> goerr + string \<times> string" where
  "normalizeGitHubConfigURL st raw =
     (if raw = [] \<or> trimSpace raw \<noteq> raw then Inl (ErrText ''must be an https://github.com repository or organization URL without surrounding whitespace'')
      else (case se_parseURL st raw of
          None \<Rightarrow> Inl (ErrText ''must be an https://github.com repository or organization URL'')
        | Some u \<Rightarrow>
            if pu_Scheme u \<noteq> ''https'' \<or> \<not> EqualFold (pu_Hostname u) ''github.com'' \<or> pu_Port u \<noteq> []
            then Inl (ErrText ''must be an https://github.com repository or organization URL'')
            else if pu_User u \<or> pu_RawQuery u \<noteq> [] \<or> pu_Fragment u \<noteq> [] \<or> pu_RawPath u \<noteq> []
            then Inl (ErrText ''must not contain credentials, query parameters, fragments, or encoded path characters'')
            else (let parts = split_on (CHR ''/'') [] (trim_right (CHR ''/'') (dropWhile (\<lambda>c. c = CHR ''/'') (pu_Path u)))
                  in if length parts < 1 \<or> length parts > 2 \<or> \<not> safeGitHubOwner (hd parts)
                     then Inl (ErrText ''must contain one GitHub owner and at most one repository name'')
                     else if length parts = 2 \<and> \<not> safeGitHubRepo (parts ! 1) then Inl (ErrText ''contains an invalid GitHub repository name'')
                     else Inr (''https://github.com/'' @ strings_Join parts ''/'', hd parts))))"

definition poolFlyToken :: "appConfig \<Rightarrow> string" where
  "poolFlyToken c = (if app_PoolFlyAPIToken c \<noteq> [] then app_PoolFlyAPIToken c else app_FlyAPIToken c)"

definition validateHetzner :: "appConfig \<Rightarrow> poolEntry \<Rightarrow> goerr + poolEntry" where
  "validateHetzner cfg p0 =
     (let p = p0\<lparr>pe_Location := if pe_Location p0 = [] then app_HetznerLocation cfg else pe_Location p0,
                 pe_ServerImage := if pe_ServerImage p0 = [] then defaultHetznerImage else pe_ServerImage p0\<rparr>
      in if app_HetznerAPIToken cfg = [] then Inl (ErrText ''hetzner pool requires HCLOUD_TOKEN'')
         else if pe_NetworkID p < 0 then Inl (ErrText ''hetzner pool network_id must be a network ID or omitted'')
         else if pe_ServerType p = [] \<or> pe_Location p = [] \<or> pe_FirewallID p < 1
         then Inl (ErrText ''hetzner pool requires server_type, location, and firewall_id'')
         else if pe_FirewallID p = app_HetznerFirewallID cfg then Inl (ErrText ''hetzner pool must use its own firewall'')
         else if pe_Slots p < 1 \<or> pe_Slots p > maximumPoolSlots then Inl (ErrText ''hetzner pool slots must be between 1 and 64'')
         else if pe_MinHosts p < 0 \<or> pe_MaxHosts p < 1 \<or> pe_MinHosts p > pe_MaxHosts p \<or> pe_MaxHosts p > maximumPoolHosts
         then Inl (ErrText ''hetzner pool hosts must satisfy 0 <= min_hosts <= max_hosts <= 100 and max_hosts >= 1'')
         else if pe_Billing p \<noteq> [] \<or> pe_Currency p \<noteq> [] \<or> pe_Hosts p \<noteq> []
         then Inl (ErrText ''billing, currency, and hosts only apply to static pools'')
         else if flyFields p then Inl (ErrText ''the stop settings only apply to Fly pools'')
         else Inr p)"

text \<open>\<^verbatim>\<open>follower\<close>: the followed tag, or nothing for a pinned image or another source.\<close>

definition follower :: "poolEntry \<Rightarrow> goerr + reference option" where
  "follower p =
     (if pe_Source p \<noteq> poolSourceFly then Inr None
      else (case Parse (pe_RunnerImage p) of
              Inl err \<Rightarrow> Inl (ErrWrap ''fly pool runner_image'' err)
            | Inr ref \<Rightarrow>
                if Pinned ref then Inr None
                else (case NewTag (pe_RunnerImage p) of Inl err \<Rightarrow> Inl (ErrWrap ''fly pool runner_image'' err) | Inr tag \<Rightarrow> Inr (Some tag))))"

definition flyRegistryCredentials :: "string \<Rightarrow> string \<Rightarrow> (string \<times> string) option" where
  "flyRegistryCredentials token host = (if host \<noteq> flyRegistry \<or> token = [] then None else Some (''x'', token))"

text \<open>What the host sources take from their surroundings.\<close>

record 'w hostEnv =
  he_Now :: "'w \<Rightarrow> gotime \<times> 'w"
  he_RandRead :: "'w \<Rightarrow> (goerr + string) \<times> 'w"
  he_Sum256 :: "string \<Rightarrow> string"
  he_hostJSON :: "hostConfig \<Rightarrow> string"
  he_FormatFloat :: "rat \<Rightarrow> string"
  he_encodedSize :: "userData \<Rightarrow> int"
  he_pages :: nat
  he_urlError :: "goerr option"

definition flySourceConfig :: "'w hostEnv \<Rightarrow> appConfig \<Rightarrow> poolEntry \<Rightarrow> (string \<Rightarrow> goerr + string \<times> string) \<Rightarrow> string \<Rightarrow> 'w flyPool" where
  "flySourceConfig he cfg p hostKey authorizedKey =
     \<lparr>ps_APIToken = poolFlyToken cfg, ps_APIBaseURL = app_FlyAPIBaseURL cfg, ps_App = pe_FlyApp p, ps_Region = pe_Region p,
      ps_CPUKind = pe_CPUKind p, ps_CPUs = pe_CPUs p, ps_MemoryMB = pe_MemoryMB p, ps_VolumeGB = pe_VolumeGB p,
      ps_ControllerID = app_ControllerID cfg, ps_Pool = pe_Name p, ps_HourlyPrice = pe_HourlyPrice p,
      ps_RunnerImage = pe_RunnerImage p, ps_Slots = pe_Slots p, ps_SlotCPUs = pe_SlotCPUs p, ps_SlotMemoryMB = pe_SlotMemoryMB p,
      ps_Caches = pe_Caches p, ps_MinFreeDiskGB = the (pe_MinFreeDiskGB p), ps_DockerDNS = app_RunnerDockerDNS cfg,
      ps_HostKey = Some hostKey, ps_AuthorizedKey = authorizedKey, ps_PollInterval = 0, ps_StateTimeout = 0,
      ps_Now = he_Now he, ps_RandRead = he_RandRead he, ps_Sum256 = he_Sum256 he, ps_hostJSON = he_hostJSON he\<rparr>"

text \<open>The defaults \<^verbatim>\<open>validateFly\<close> fills in; the share of a slot divides by the number of slots, which is positive there.
  The memory of the slots is a product of 64-bit integers, and the file sets no bound on it.\<close>

definition fly_defaults :: "appConfig \<Rightarrow> poolEntry \<Rightarrow> poolEntry" where
  "fly_defaults cfg p =
     p\<lparr>pe_Region := if pe_Region p = [] then app_FlyRegion cfg else pe_Region p,
       pe_CPUKind := if pe_CPUKind p = [] then ''performance'' else pe_CPUKind p,
       pe_VolumeGB := if pe_VolumeGB p = 0 then defaultFlyVolumeGB else pe_VolumeGB p,
       pe_IdleStopAfter := if pe_IdleStopAfter p = 0 then defaultFlyIdleStop else pe_IdleStopAfter p,
       pe_KeepStopped := (case pe_KeepStopped p of None \<Rightarrow> Some (min defaultKeepStopped (pe_MaxHosts p)) | Some k \<Rightarrow> Some k),
       pe_DeleteStoppedAfter := if pe_DeleteStoppedAfter p = 0 then defaultDeleteAfter else pe_DeleteStoppedAfter p\<rparr>"

definition fly_slot_memory :: "poolEntry \<Rightarrow> poolEntry" where
  "fly_slot_memory p =
     (if pe_SlotMemoryMB p = 0 then p\<lparr>pe_SlotMemoryMB := go_quot (max 0 (pe_MemoryMB p - flyHostReservedMB)) (pe_Slots p)\<rparr> else p)"

definition validateFly :: "'w hostEnv \<Rightarrow> settings \<Rightarrow> appConfig \<Rightarrow> poolEntry \<Rightarrow> goerr + poolEntry" where
  "validateFly he st cfg p0 =
     (if poolFlyToken cfg = [] then Inl (ErrText ''fly pool requires RUNNER_POOL_FLY_API_TOKEN or FLY_API_TOKEN'')
      else if pe_FlyApp p0 = [] then Inl (ErrText ''fly pool requires fly_app: an app of its own for the pool's Machines'')
      else if pe_FlyApp p0 = app_FlyWorkerApp cfg \<or> pe_FlyApp p0 = app_ControllerFlyApp cfg
      then Inl (ErrText ''fly pool must use its own fly_app, not the worker or controller app'')
      else (let p1 = fly_defaults cfg p0
            in if pe_Region p1 = [] \<or> pe_CPUs p1 < 1 \<or> pe_MemoryMB p1 < 1 then Inl (ErrText ''fly pool requires region, cpus, and memory_mb'')
               else if pe_Slots p1 < 1 \<or> pe_Slots p1 > maximumPoolSlots then Inl (ErrText ''fly pool slots must be between 1 and 64'')
               else (let p = fly_slot_memory p1
                     in if pe_SlotMemoryMB p < MinimumSlotMemoryMB \<or> wrap64 (pe_Slots p * pe_SlotMemoryMB p + flyHostReservedMB) > pe_MemoryMB p
                        then Inl (ErrText ''fly pool: the slots and the host do not fit in memory_mb'')
                        else if pe_MinHosts p < 0 \<or> pe_MaxHosts p < 1 \<or> pe_MinHosts p > pe_MaxHosts p \<or> pe_MaxHosts p > maximumPoolHosts
                        then Inl (ErrText ''fly pool hosts must satisfy 0 <= min_hosts <= max_hosts <= 100 and max_hosts >= 1'')
                        else if pe_IdleStopAfter p < minute \<or> pe_DeleteStoppedAfter p < minute
                        then Inl (ErrText ''fly pool idle_stop_after and delete_stopped_after must be at least one minute'')
                        else if the (pe_KeepStopped p) < 0 \<or> the (pe_KeepStopped p) > pe_MaxHosts p
                        then Inl (ErrText ''fly pool keep_stopped must be between 0 and max_hosts'')
                        else if pe_ServerType p \<noteq> [] \<or> pe_Location p \<noteq> [] \<or> pe_ServerImage p \<noteq> [] \<or> pe_FirewallID p \<noteq> 0 \<or> pe_NetworkID p \<noteq> 0
                        then Inl (ErrText ''fly pool: server settings only apply to Hetzner pools'')
                        else if pe_Billing p \<noteq> [] \<or> pe_Currency p \<noteq> [] \<or> pe_Hosts p \<noteq> []
                        then Inl (ErrText ''billing, currency, and hosts only apply to static pools'')
                        else or_fail (follower p) (\<lambda>_.
                             or_fail (fly_NewHostSource (se_parseIP st) (flySourceConfig he cfg p (\<lambda>_. Inr ([], [])) ''read at startup'')) (\<lambda>_.
                             Inr p)))))"

definition validateStatic :: "settings \<Rightarrow> poolEntry \<Rightarrow> goerr + poolEntry" where
  "validateStatic st p =
     (if flyFields p then Inl (ErrText ''the stop settings only apply to Fly pools'')
      else if pe_Hosts p = [] then Inl (ErrText ''static pool lists no hosts'')
      else if pe_MinHosts p \<noteq> 0 \<or> pe_MaxHosts p \<noteq> 0 then Inl (ErrText ''static pool cannot create hosts; remove min_hosts and max_hosts'')
      else if pe_Slots p \<noteq> 0 then Inl (ErrText ''static pool: each host states its slots in its own host install'')
      else (case NewStaticSource (se_isIP st) (se_parseKey st) (pe_Billing p) (pe_HourlyPrice p) (pe_Currency p) (pe_Hosts p) of
              Inl err \<Rightarrow> Inl (ErrWrap ''static pool'' err)
            | Inr _ \<Rightarrow> Inr p))"

definition pool_defaulted :: "appConfig \<Rightarrow> poolEntry \<Rightarrow> poolEntry" where
  "pool_defaulted cfg p =
     p\<lparr>pe_RunnerImage := if pe_RunnerImage p = [] then app_RunnerImage cfg else pe_RunnerImage p,
       pe_MinFreeDiskGB := (case pe_MinFreeDiskGB p of None \<Rightarrow> Some defaultPoolDiskGB | Some d \<Rightarrow> Some d),
       pe_Caches := if pe_Caches p = [] then DefaultCaches else pe_Caches p\<rparr>"

definition pool_check :: "poolEntry \<Rightarrow> hostConfig" where
  "pool_check p =
     \<lparr>hc_Slots = max (pe_Slots p) 1, hc_Image = pe_RunnerImage p, hc_SlotCPUs = pe_SlotCPUs p, hc_SlotMemoryMB = pe_SlotMemoryMB p,
      hc_Caches = pe_Caches p, hc_MinFreeDiskGB = the (pe_MinFreeDiskGB p), hc_DockerRoot = []\<rparr>"

definition validate_pool :: "'w hostEnv \<Rightarrow> settings \<Rightarrow> appConfig \<Rightarrow> string list \<Rightarrow> poolEntry \<Rightarrow> goerr + poolEntry" where
  "validate_pool he st cfg names p0 =
     (if \<not> ValidName (pe_Name p0) \<or> pe_Name p0 = ephemeralTier
      then Inl (ErrText ''pool name must be lowercase letters, digits, and hyphens, and not ephemeral'')
      else if pe_Name p0 \<in> set names then Inl (ErrText ''pool is declared twice'')
      else (let p = pool_defaulted cfg p0
            in if pe_RunnerImage p = [] then Inl (ErrText ''pool requires runner_image or RUNNER_IMAGE'')
               else (case host_Validate (pool_check p) of
                       Some err \<Rightarrow> Inl (ErrWrap ''pool'' err)
                     | None \<Rightarrow>
                         if pe_Source p = poolSourceHetzner then validateHetzner cfg p
                         else if pe_Source p = poolSourceFly then validateFly he st cfg p
                         else if pe_Source p = poolSourceStatic then validateStatic st p
                         else Inl (ErrText ''pool source must be fly, hetzner, or static''))))"

fun validate_entries_of :: "'w hostEnv \<Rightarrow> settings \<Rightarrow> appConfig \<Rightarrow> string list \<Rightarrow> poolEntry list \<Rightarrow> goerr + poolEntry list" where
  "validate_entries_of he st cfg names [] = Inr []"
| "validate_entries_of he st cfg names (p # ps) =
     or_fail (validate_pool he st cfg names p) (\<lambda>p'.
     or_fail (validate_entries_of he st cfg (pe_Name p # names) ps) (\<lambda>ps'. Inr (p' # ps')))"

fun validate_placement :: "bool \<Rightarrow> string list \<Rightarrow> string list \<Rightarrow> string list \<Rightarrow> goerr option" where
  "validate_placement has_ephemeral names seen [] = None"
| "validate_placement has_ephemeral names seen (n # ns) =
     (if n \<in> set seen then Some (ErrText ''placement lists a tier twice'')
      else if n = ephemeralTier
      then (if \<not> has_ephemeral then Some (ErrText ''placement lists ephemeral but COMPUTE_PROVIDER is none'')
            else validate_placement has_ephemeral names (n # seen) ns)
      else if n \<notin> set names then Some (ErrText ''placement lists a pool that is not declared'')
      else validate_placement has_ephemeral names (n # seen) ns)"

definition pools_validate :: "'w hostEnv \<Rightarrow> settings \<Rightarrow> appConfig \<Rightarrow> poolsFile \<Rightarrow> goerr + poolsFile" where
  "pools_validate he st cfg f =
     (if pf_Trust f \<noteq> poolTrustPrivate then Inl (ErrText ''RUNNER_POOLS_FILE must declare trust: private'')
      else if pf_Pools f = [] then Inl (ErrText ''RUNNER_POOLS_FILE declares no pools'')
      else if trimSpace (pf_SSHKeyFile f) = [] then Inl (ErrText ''RUNNER_POOLS_FILE requires ssh_key_file or RUNNER_POOL_SSH_KEY_FILE'')
      else or_fail (validate_entries_of he st cfg [] (pf_Pools f)) (\<lambda>pools.
        let has_ephemeral = (app_ComputeProvider cfg \<noteq> computeProviderNone);
            order = (if pf_Placement f = [] then map pe_Name pools @ (if has_ephemeral then [ephemeralTier] else []) else pf_Placement f)
        in case validate_placement has_ephemeral (map pe_Name pools) [] order of
             Some err \<Rightarrow> Inl err
           | None \<Rightarrow> Inr (f\<lparr>pf_Pools := pools, pf_Placement := order\<rparr>)))"

text \<open>The checks of \<^verbatim>\<open>appConfig.validate\<close> before and after the pools.\<close>

definition validate_target :: "settings \<Rightarrow> appConfig \<Rightarrow> goerr option" where
  "validate_target st c =
     (case normalizeGitHubConfigURL st (app_GitHubURL c) of
        Inl err \<Rightarrow> Some (ErrWrap ''GITHUB_CONFIG_URL'' err)
      | Inr _ \<Rightarrow>
          if app_ScaleSetName c = [] \<or> app_ControllerID c = [] then Some (ErrText ''scale set name and controller ID are required'')
          else if app_EphemeralScaleSetName c \<noteq> [] \<and> app_EphemeralScaleSetName c = app_ScaleSetName c
          then Some (ErrText ''EPHEMERAL_SCALE_SET_NAME must differ from SCALE_SET_NAME'')
          else if app_EphemeralScaleSetName c \<noteq> [] \<and> app_ComputeProvider c = computeProviderNone
          then Some (ErrText ''EPHEMERAL_SCALE_SET_NAME needs an ephemeral tier; COMPUTE_PROVIDER=none has none'')
          else if app_GitHubToken c = [] \<and> se_appValidate st (app_GitHubApp c) \<noteq> None
          then Some (ErrWrap ''provide GITHUB_TOKEN or complete GitHub App credentials'' (the (se_appValidate st (app_GitHubApp c))))
          else if app_GitHubToken c \<noteq> [] \<and> se_appValidate st (app_GitHubApp c) = None
          then Some (ErrText ''provide either GITHUB_TOKEN or GitHub App credentials, not both'')
          else None)"

definition validate_provider :: "appConfig \<Rightarrow> goerr option" where
  "validate_provider c =
     (if app_ComputeProvider c = ''fly''
      then (if app_FlyAPIToken c = [] \<or> app_FlyWorkerApp c = [] \<or> app_FlyRegion c = [] \<or> app_RunnerImage c = []
            then Some (ErrText ''fly adapter requires FLY_API_TOKEN, RUNNER_FLY_APP, RUNNER_FLY_REGION, and RUNNER_IMAGE'')
            else if app_ControllerFlyApp c \<noteq> [] \<and> app_ControllerFlyApp c = app_FlyWorkerApp c
            then Some (ErrText ''controller and worker Fly apps must be different so app secrets cannot reach jobs'')
            else None)
      else if app_ComputeProvider c = ''hetzner''
      then (if app_HetznerAPIToken c = [] \<or> app_HetznerLocation c = [] \<or> app_HetznerServerType c = [] \<or> app_HetznerServerImage c = []
              \<or> app_HetznerFirewallID c < 1 \<or> app_RunnerImage c = []
            then Some (ErrText ''hetzner adapter requires its settings'')
            else if app_HetznerNetworkID c < 0 then Some (ErrText ''RUNNER_HETZNER_NETWORK_ID cannot be negative'')
            else None)
      else if app_ComputeProvider c = computeProviderNone
      then (if app_Pools c = None then Some (ErrText ''COMPUTE_PROVIDER=none requires RUNNER_POOLS_FILE'') else None)
      else Some (ErrText ''unsupported COMPUTE_PROVIDER''))"

definition validate_bounds :: "appConfig \<Rightarrow> goerr option" where
  "validate_bounds c =
     (if app_MinWorkers c < 0 \<or> app_MaxWorkers c < 1 \<or> app_MinWorkers c > app_MaxWorkers c
      then Some (ErrText ''worker bounds must satisfy 0 <= MIN_RUNNERS <= MAX_RUNNERS and MAX_RUNNERS >= 1'')
      else if app_RunnerMaxLifetime c < minute \<or> app_RunnerMaxLifetime c > 24 * hour then Some (ErrText ''RUNNER_MAX_LIFETIME must be between 1m and 24h'')
      else if app_RunnerUsageBudget c < app_RunnerMaxLifetime c then Some (ErrText ''RUNNER_USAGE_BUDGET must cover at least one RUNNER_MAX_LIFETIME'')
      else if app_RunnerBudgetWindow c < hour then Some (ErrText ''RUNNER_BUDGET_WINDOW must be at least 1h'')
      else if app_RunnerBudgetFile c = [] then Some (ErrText ''RUNNER_BUDGET_FILE must point to durable controller storage'')
      else if app_RunnerStatusFile c = [] \<or> app_RunnerStatusFile c = app_RunnerBudgetFile c
      then Some (ErrText ''RUNNER_STATUS_FILE must be set and differ from RUNNER_BUDGET_FILE'')
      else if app_ProviderRetries c < 1 \<or> app_ProviderRetries c > 20 then Some (ErrText ''PROVIDER_RETRY_ATTEMPTS must be between 1 and 20'')
      else if app_ProviderRateLimit c \<le> 0 \<or> app_ProviderRateLimit c > 100 then Some (ErrText ''PROVIDER_RATE_LIMIT must be between 0 and 100 requests per second'')
      else if app_GitHubAPIRateLimit c < 0 \<or> app_GitHubAPIRateLimit c > 100
      then Some (ErrText ''GITHUB_API_RATE_LIMIT must be between 0 and 100 requests per second'')
      else if app_LaunchConcurrency c < 1 \<or> app_LaunchConcurrency c > 64 then Some (ErrText ''RUNNER_LAUNCH_CONCURRENCY must be between 1 and 64'')
      else if app_RunnerIdleTimeout c < 0 \<or> (app_RunnerIdleTimeout c > 0 \<and> app_RunnerIdleTimeout c < minute) \<or> app_RunnerIdleTimeout c > app_RunnerMaxLifetime c
      then Some (ErrText ''RUNNER_IDLE_TIMEOUT must be 0 or between 1m and RUNNER_MAX_LIFETIME'')
      else if app_DanglingTimeout c < 0 \<or> (app_DanglingTimeout c > 0 \<and> app_DanglingTimeout c < app_RunnerIdleTimeout c)
        \<or> app_DanglingTimeout c > app_RunnerMaxLifetime c
      then Some (ErrText ''RUNNER_DANGLING_TIMEOUT must be 0 or between RUNNER_IDLE_TIMEOUT and RUNNER_MAX_LIFETIME'')
      else if app_AlertWebhookURL c \<noteq> [] \<and> \<not> prefix ''https://'' (app_AlertWebhookURL c) then Some (ErrText ''ALERT_WEBHOOK_URL must be an https URL'')
      else None)"

definition app_validate :: "'w hostEnv \<Rightarrow> settings \<Rightarrow> appConfig \<Rightarrow> goerr + appConfig" where
  "app_validate he st c =
     (case validate_target st c of
        Some err \<Rightarrow> Inl err
      | None \<Rightarrow>
          (case validate_provider c of
             Some err \<Rightarrow> Inl err
           | None \<Rightarrow>
               or_fail (case app_Pools c of None \<Rightarrow> Inr None | Some f \<Rightarrow> or_fail (pools_validate he st c f) (\<lambda>f'. Inr (Some f'))) (\<lambda>pools.
                 case validate_bounds c of Some err \<Rightarrow> Inl err | None \<Rightarrow> Inr (c\<lparr>app_Pools := pools\<rparr>))))"

definition loadConfig :: "'w hostEnv \<Rightarrow> settings \<Rightarrow> goerr + appConfig" where
  "loadConfig he st = or_fail (read_config st) (app_validate he st)"

section \<open>Construction\<close>

definition retryPolicy :: "appConfig \<Rightarrow> policy" where
  "retryPolicy c =
     \<lparr>p_Attempts = app_ProviderRetries c, p_InitialBackoff = 0, p_MaxBackoff = 0, p_Rate = app_ProviderRateLimit c, p_Burst = \<lfloor>app_ProviderRateLimit c * 2\<rfloor>\<rparr>"

datatype 'w hostSource = FlyHosts "'w flySource" | HetznerHosts "'w hzSource" | StaticHosts staticSource

datatype 'w builtCompute = BuiltFly fly | BuiltHetzner hetzner | BuiltPool poolConfig "'w hostSource"

definition ephemeralCompute :: "'w hostEnv \<Rightarrow> settings \<Rightarrow> appConfig \<Rightarrow> goerr + 'w builtCompute option" where
  "ephemeralCompute he st c =
     (if app_ComputeProvider c = computeProviderNone then Inr None
      else if app_ComputeProvider c = ''fly''
      then (case fly_New (se_parseIP st)
              \<lparr>fc_APIToken = app_FlyAPIToken c, fc_APIBaseURL = app_FlyAPIBaseURL c, fc_App = app_FlyWorkerApp c, fc_Region = app_FlyRegion c,
               fc_Image = app_RunnerImage c, fc_ControllerID = app_ControllerID c, fc_CPUKind = app_RunnerCPUKind c, fc_CPUs = app_RunnerCPUs c,
               fc_MemoryMB = app_RunnerMemoryMB c, fc_RootFSGB = app_RunnerRootFSGB c, fc_DockerDNS = app_RunnerDockerDNS c\<rparr> of
              Inl err \<Rightarrow> Inl err | Inr a \<Rightarrow> Inr (Some (BuiltFly a)))
      else if app_ComputeProvider c = ''hetzner''
      then (case hz_New
              \<lparr>hk_APIToken = app_HetznerAPIToken c, hk_APIBaseURL = app_HetznerAPIBaseURL c, hk_Location = app_HetznerLocation c,
               hk_ServerType = app_HetznerServerType c, hk_ServerImage = app_HetznerServerImage c, hk_RunnerImage = app_RunnerImage c,
               hk_ControllerID = app_ControllerID c, hk_FirewallID = app_HetznerFirewallID c, hk_NetworkID = app_HetznerNetworkID c,
               hk_ActionPollInterval = 0, hk_ActionTimeout = 0\<rparr> (he_pages he) (he_urlError he) of
              Inl err \<Rightarrow> Inl err | Inr a \<Rightarrow> Inr (Some (BuiltHetzner a)))
      else Inl (ErrText ''unsupported COMPUTE_PROVIDER''))"

definition hetznerSourceConfig :: "'w hostEnv \<Rightarrow> appConfig \<Rightarrow> poolEntry \<Rightarrow> controllerKey \<Rightarrow> 'w hzPool" where
  "hetznerSourceConfig he c p key =
     \<lparr>hp_api = \<lparr>hk_APIToken = app_HetznerAPIToken c, hk_APIBaseURL = app_HetznerAPIBaseURL c, hk_Location = pe_Location p,
        hk_ServerType = pe_ServerType p, hk_ServerImage = pe_ServerImage p, hk_RunnerImage = pe_RunnerImage p,
        hk_ControllerID = app_ControllerID c, hk_FirewallID = pe_FirewallID p, hk_NetworkID = pe_NetworkID p,
        hk_ActionPollInterval = 0, hk_ActionTimeout = 0\<rparr>,
      hp_Pool = pe_Name p, hp_HourlyPrice = pe_HourlyPrice p, hp_Slots = pe_Slots p, hp_SlotCPUs = pe_SlotCPUs p,
      hp_SlotMemoryMB = pe_SlotMemoryMB p, hp_Caches = pe_Caches p, hp_MinFreeDiskGB = the (pe_MinFreeDiskGB p),
      hp_HostKey = Some (ck_HostKey key), hp_AuthorizedKey = ck_AuthorizedKey key, hp_RandRead = he_RandRead he,
      hp_FormatFloat = he_FormatFloat he, hp_encodedSize = he_encodedSize he\<rparr>"

definition poolSource :: "'w hostEnv \<Rightarrow> settings \<Rightarrow> appConfig \<Rightarrow> controllerKey \<Rightarrow> poolEntry \<Rightarrow> goerr + 'w hostSource" where
  "poolSource he st c key p =
     (if pe_Source p = poolSourceFly
      then or_fail (fly_NewHostSource (se_parseIP st) (flySourceConfig he c p (ck_HostKey key) (ck_AuthorizedKey key))) (\<lambda>s. Inr (FlyHosts s))
      else if pe_Source p = poolSourceHetzner
      then or_fail (hz_NewHostSource (hetznerSourceConfig he c p key) (he_pages he) (he_urlError he)) (\<lambda>s. Inr (HetznerHosts s))
      else if pe_Source p = poolSourceStatic
      then or_fail (NewStaticSource (se_isIP st) (se_parseKey st) (pe_Billing p) (pe_HourlyPrice p) (pe_Currency p) (pe_Hosts p)) (\<lambda>s. Inr (StaticHosts s))
      else Inl (ErrText ''unknown pool source''))"

fun source_facts :: "'w hostSource \<Rightarrow> facts" where
  "source_facts (FlyHosts s) = fly_Facts s"
| "source_facts (HetznerHosts s) = hz_Facts s"
| "source_facts (StaticHosts s) = so_facts s"

text \<open>Only Fly's hosts can be stopped and started.\<close>

fun source_stops :: "'w hostSource \<Rightarrow> bool" where
  "source_stops (FlyHosts s) = True"
| "source_stops (HetznerHosts s) = False"
| "source_stops (StaticHosts s) = False"

definition pool_of :: "appConfig \<Rightarrow> poolEntry \<Rightarrow> 'w hostSource \<Rightarrow> reference option \<Rightarrow> poolConfig" where
  "pool_of c p source follow =
     \<lparr>pc_Name = pe_Name p, pc_ControllerID = app_ControllerID c, pc_Image = pe_RunnerImage p, pc_MinHosts = pe_MinHosts p, pc_MaxHosts = pe_MaxHosts p,
      pc_facts = source_facts source, pc_stopper = source_stops source,
      pc_Related = map_option Related follow, pc_ImageRefresh = 0, pc_MaxLifetime = app_RunnerMaxLifetime c, pc_Tick = 0, pc_HostListInterval = 0,
      pc_BootTimeout = 0, pc_UnreachableGrace = 0, pc_IdleReturn = 0, pc_HourMargin = 0, pc_CallTimeout = 0, pc_StartTimeout = 0,
      pc_IdleStop = (if pe_Source p = poolSourceFly then pe_IdleStopAfter p else 0),
      pc_KeepStopped = (if pe_Source p = poolSourceFly then the (pe_KeepStopped p) else 0),
      pc_DeleteStoppedAfter = (if pe_Source p = poolSourceFly then pe_DeleteStoppedAfter p else 0),
      pc_Speculative = (pe_Speculative p = None \<or> pe_Speculative p = Some True)\<rparr>"

definition build_pool :: "'w hostEnv \<Rightarrow> settings \<Rightarrow> appConfig \<Rightarrow> controllerKey \<Rightarrow> poolEntry \<Rightarrow> goerr + 'w builtCompute" where
  "build_pool he st c key p =
     or_fail (poolSource he st c key p) (\<lambda>source.
     or_fail (follower p) (\<lambda>follow.
     or_fail (pool_configure (pool_of c p source follow)) (\<lambda>created. Inr (BuiltPool created source))))"

fun build_pools :: "'w hostEnv \<Rightarrow> settings \<Rightarrow> appConfig \<Rightarrow> controllerKey \<Rightarrow> poolEntry list \<Rightarrow> goerr + (string \<times> 'w builtCompute) list" where
  "build_pools he st c key [] = Inr []"
| "build_pools he st c key (p # ps) =
     or_fail (build_pool he st c key p) (\<lambda>built. or_fail (build_pools he st c key ps) (\<lambda>rest. Inr ((pe_Name p, built) # rest)))"

text \<open>The tiers of a placement: the order of the file, then what it leaves out, which drains.\<close>

definition tiers_of :: "('w builtCompute \<Rightarrow> 's compute) \<Rightarrow> string list \<Rightarrow> (string \<times> 'w builtCompute) list \<Rightarrow> 's tier list" where
  "tiers_of impl order computes =
     map (\<lambda>name. \<lparr>ti_Name = name, ti_Compute = map_option impl (map_of computes name), ti_Drain = False\<rparr>) order
     @ map (\<lambda>name. \<lparr>ti_Name = name, ti_Compute = map_option impl (map_of computes name), ti_Drain = True\<rparr>)
         (filter (\<lambda>name. name \<notin> set order) (sort (map fst computes)))"

definition withPools :: "('w builtCompute \<Rightarrow> 's compute) \<Rightarrow> 'w hostEnv \<Rightarrow> settings \<Rightarrow> appConfig \<Rightarrow> poolsFile \<Rightarrow> 'w builtCompute option \<Rightarrow> goerr + 's placement" where
  "withPools impl he st c f tier_one =
     or_fail (se_controllerKey st (pf_SSHKeyFile f)) (\<lambda>key.
     or_fail (build_pools he st c key (pf_Pools f)) (\<lambda>pools.
       placement_of (tiers_of impl (pf_Placement f) ((case tier_one of None \<Rightarrow> [] | Some e \<Rightarrow> [(ephemeralTier, e)]) @ pools))))"

text \<open>What launches the workers: one compute, or a placement and, for a second scale set, the ephemeral tier alone.\<close>

datatype ('w, 's) computes = SingleCompute "'w builtCompute option" | PlacedCompute "'s placement" "'s placement option"

definition app_computes :: "('w builtCompute \<Rightarrow> 's compute) \<Rightarrow> 'w hostEnv \<Rightarrow> settings \<Rightarrow> appConfig \<Rightarrow> goerr + ('w, 's) computes" where
  "app_computes impl he st c =
     or_fail (ephemeralCompute he st c) (\<lambda>tier_one.
       case app_Pools c of
         None \<Rightarrow> Inr (SingleCompute tier_one)
       | Some f \<Rightarrow>
           or_fail (withPools impl he st c f tier_one) (\<lambda>placed.
             if app_EphemeralScaleSetName c = [] then Inr (PlacedCompute placed None)
             else or_fail (placement_of [\<lparr>ti_Name = ephemeralTier, ti_Compute = map_option impl tier_one, ti_Drain = False\<rparr>]) (\<lambda>direct.
                  Inr (PlacedCompute placed (Some direct)))))"

definition app_controllerConfig :: "appConfig \<Rightarrow> string \<Rightarrow> string \<Rightarrow> launcher option \<Rightarrow> controllerConfig" where
  "app_controllerConfig c version commitSHA direct =
     \<lparr>cc_GitHubURL = app_GitHubURL c, cc_ScaleSetName = app_ScaleSetName c, cc_RunnerGroup = app_RunnerGroup c, cc_ControllerID = app_ControllerID c,
      cc_MinWorkers = app_MinWorkers c, cc_MaxWorkers = app_MaxWorkers c, cc_MaxLifetime = app_RunnerMaxLifetime c,
      cc_UsageBudget = app_RunnerUsageBudget c, cc_BudgetWindow = app_RunnerBudgetWindow c, cc_BudgetFile = app_RunnerBudgetFile c,
      cc_RetirementFile = [], cc_StatusFile = app_RunnerStatusFile c, cc_Provider = app_ComputeProvider c, cc_Version = version, cc_CommitSHA = commitSHA,
      cc_LaunchConcurrency = app_LaunchConcurrency c, cc_IdleTimeout = app_RunnerIdleTimeout c, cc_DanglingTimeout = app_DanglingTimeout c,
      cc_EphemeralScaleSetName = app_EphemeralScaleSetName c, cc_EphemeralCompute = direct\<rparr>"

end
