(* ===== verification/App_Config_Correct.thy ===== *)
theory App_Config_Correct
  imports App_Config
begin

text \<open>
  What an accepted configuration is good for: the controller, its pools and its placement are constructed from it without an
  error, and the pools it yields are kept apart from the workers and from the controller.
\<close>

section \<open>Pools\<close>

lemma or_fail_Inr [simp]: "or_fail m k = Inr x \<longleftrightarrow> (\<exists>v. m = Inr v \<and> k v = Inr x)"
  by (cases m) (auto simp: or_fail_def)

lemma or_fail_simps [simp]: "or_fail (Inr v) k = k v" "or_fail (Inl e) k = Inl e"
  by (simp_all add: or_fail_def)




lemma sources_differ [simp]:
  "poolSourceFly \<noteq> poolSourceHetzner" "poolSourceHetzner \<noteq> poolSourceFly" "poolSourceFly \<noteq> poolSourceStatic" "poolSourceStatic \<noteq> poolSourceFly"
  "poolSourceHetzner \<noteq> poolSourceStatic" "poolSourceStatic \<noteq> poolSourceHetzner"
  by (simp_all add: poolSourceFly_def poolSourceHetzner_def poolSourceStatic_def)

text \<open>What \<^verbatim>\<open>withPools\<close> needs beyond the file: the key, and what only the source of a Hetzner pool checks.\<close>

definition entry_startable :: "appConfig \<Rightarrow> controllerKey \<Rightarrow> poolEntry \<Rightarrow> bool" where
  "entry_startable c key p \<longleftrightarrow> trimSpace (ck_AuthorizedKey key) \<noteq> []
     \<and> (pe_Source p = poolSourceHetzner \<longrightarrow> safeLabel (app_ControllerID c) \<and> 0 \<le> pe_HourlyPrice p
          \<and> (pe_HourlyPrice p = 0 \<longrightarrow> HourlyPriceEUR (pe_ServerType p) \<noteq> None))"

lemma slot_memory_fields [simp]:
  "pe_Name (fly_slot_memory p) = pe_Name p" "pe_Source (fly_slot_memory p) = pe_Source p" "pe_RunnerImage (fly_slot_memory p) = pe_RunnerImage p"
  "pe_MinHosts (fly_slot_memory p) = pe_MinHosts p" "pe_MaxHosts (fly_slot_memory p) = pe_MaxHosts p" "pe_FlyApp (fly_slot_memory p) = pe_FlyApp p"
  "pe_KeepStopped (fly_slot_memory p) = pe_KeepStopped p" "pe_Slots (fly_slot_memory p) = pe_Slots p" "pe_MemoryMB (fly_slot_memory p) = pe_MemoryMB p"
  by (simp_all add: fly_slot_memory_def)

lemma fly_defaults_fields [simp]:
  "pe_Name (fly_defaults c p) = pe_Name p" "pe_Source (fly_defaults c p) = pe_Source p" "pe_RunnerImage (fly_defaults c p) = pe_RunnerImage p"
  "pe_MinHosts (fly_defaults c p) = pe_MinHosts p" "pe_MaxHosts (fly_defaults c p) = pe_MaxHosts p" "pe_FlyApp (fly_defaults c p) = pe_FlyApp p"
  by (simp_all add: fly_defaults_def)

lemma validateFly_result:
  assumes "validateFly he st c p0 = Inr p"
  shows "p = fly_slot_memory (fly_defaults c p0)" "\<exists>f. follower p = Inr f"
    "\<exists>s. fly_NewHostSource (se_parseIP st) (flySourceConfig he c p (\<lambda>_. Inr ([], [])) ''read at startup'') = Inr s"
    "0 \<le> pe_MinHosts p" "1 \<le> pe_MaxHosts p" "pe_MinHosts p \<le> pe_MaxHosts p" "0 \<le> the (pe_KeepStopped p)" "the (pe_KeepStopped p) \<le> pe_MaxHosts p"
    "pe_FlyApp p \<noteq> app_FlyWorkerApp c" "pe_FlyApp p \<noteq> app_ControllerFlyApp c"
    "wrap64 (pe_Slots p * pe_SlotMemoryMB p + flyHostReservedMB) \<le> pe_MemoryMB p" "MinimumSlotMemoryMB \<le> pe_SlotMemoryMB p"
    "1 \<le> pe_Slots p" "pe_Slots p \<le> maximumPoolSlots"
  using assms by (auto simp: validateFly_def Let_def split: if_splits)

text \<open>Up to \<open>2 ^ 57 - 16\<close> megabytes a slot, the sum \<^verbatim>\<open>validateFly\<close> compares does not wrap around.\<close>

lemma slots_fit:
  assumes "validateFly he st c p0 = Inr p" and "pe_SlotMemoryMB p < 144115188075855856"
  shows "pe_Slots p * pe_SlotMemoryMB p + flyHostReservedMB \<le> pe_MemoryMB p"
proof -
  note r = validateFly_result(11-14) [OF assms(1)]
  have "pe_Slots p * pe_SlotMemoryMB p \<le> 64 * 144115188075855855"
    using r assms(2) by (intro mult_mono) (simp_all add: maximumPoolSlots_def MinimumSlotMemoryMB_def)
  moreover have "0 \<le> pe_Slots p * pe_SlotMemoryMB p" using r by (simp add: MinimumSlotMemoryMB_def)
  ultimately have "wrap64 (pe_Slots p * pe_SlotMemoryMB p + flyHostReservedMB) = pe_Slots p * pe_SlotMemoryMB p + flyHostReservedMB"
    by (intro wrap64_id) (simp_all add: flyHostReservedMB_def minInt64_def maxInt64_def)
  then show ?thesis using r(1) by simp
qed





lemma validate_pool_cases:
  assumes "validate_pool he st c names p0 = Inr p"
  obtains (hetzner) "pe_Source (pool_defaulted c p0) = poolSourceHetzner" "validateHetzner c (pool_defaulted c p0) = Inr p"
  | (fly) "pe_Source (pool_defaulted c p0) = poolSourceFly" "validateFly he st c (pool_defaulted c p0) = Inr p"
  | (static) "pe_Source (pool_defaulted c p0) = poolSourceStatic" "validateStatic st (pool_defaulted c p0) = Inr p"
  using assms by (auto simp: validate_pool_def Let_def split: if_splits option.splits)


lemma pool_defaulted_name [simp]: "pe_Name (pool_defaulted c p) = pe_Name p"
  by (simp add: pool_defaulted_def)






section \<open>The placement\<close>






lemma pools_validate_result:
  assumes "pools_validate he st c f = Inr f'"
  shows "validate_entries_of he st c [] (pf_Pools f) = Inr (pf_Pools f')" "pf_Pools f' \<noteq> []" "pf_Placement f' \<noteq> []" "pf_Trust f' = poolTrustPrivate"
    "validate_placement (app_ComputeProvider c \<noteq> computeProviderNone) (map pe_Name (pf_Pools f')) [] (pf_Placement f') = None"
proof -
  obtain ps where ps: "validate_entries_of he st c [] (pf_Pools f) = Inr ps" "pf_Pools f \<noteq> []" "pf_Trust f = poolTrustPrivate"
    using assms by (auto simp: pools_validate_def split: if_splits)
  define order where "order = (if pf_Placement f = [] then map pe_Name ps @ (if app_ComputeProvider c \<noteq> computeProviderNone then [ephemeralTier] else []) else pf_Placement f)"
  have f': "f' = f\<lparr>pf_Pools := ps, pf_Placement := order\<rparr>"
    and v: "validate_placement (app_ComputeProvider c \<noteq> computeProviderNone) (map pe_Name ps) [] order = None"
    using assms ps unfolding order_def by (auto simp: pools_validate_def Let_def split: if_splits option.splits)
  have "ps \<noteq> []" using ps by (cases "pf_Pools f") auto
  then show "validate_entries_of he st c [] (pf_Pools f) = Inr (pf_Pools f')" "pf_Pools f' \<noteq> []" "pf_Placement f' \<noteq> []" "pf_Trust f' = poolTrustPrivate"
    "validate_placement (app_ComputeProvider c \<noteq> computeProviderNone) (map pe_Name (pf_Pools f')) [] (pf_Placement f') = None"
    using ps f' v by (auto simp: order_def)
qed


section \<open>Starting\<close>

text \<open>The pools are validated and built by the other settings only.\<close>

lemma other_settings:
  "app_GitHubURL (c\<lparr>app_Pools := x\<rparr>) = app_GitHubURL c" "app_ScaleSetName (c\<lparr>app_Pools := x\<rparr>) = app_ScaleSetName c"
  "app_RunnerGroup (c\<lparr>app_Pools := x\<rparr>) = app_RunnerGroup c" "app_GitHubApp (c\<lparr>app_Pools := x\<rparr>) = app_GitHubApp c"
  "app_GitHubToken (c\<lparr>app_Pools := x\<rparr>) = app_GitHubToken c"
  "app_ComputeProvider (c\<lparr>app_Pools := x\<rparr>) = app_ComputeProvider c"
  "app_ControllerID (c\<lparr>app_Pools := x\<rparr>) = app_ControllerID c"
  "app_ControllerFlyApp (c\<lparr>app_Pools := x\<rparr>) = app_ControllerFlyApp c"
  "app_FlyAPIToken (c\<lparr>app_Pools := x\<rparr>) = app_FlyAPIToken c" "app_FlyAPIBaseURL (c\<lparr>app_Pools := x\<rparr>) = app_FlyAPIBaseURL c"
  "app_FlyWorkerApp (c\<lparr>app_Pools := x\<rparr>) = app_FlyWorkerApp c" "app_FlyRegion (c\<lparr>app_Pools := x\<rparr>) = app_FlyRegion c"
  "app_PoolFlyAPIToken (c\<lparr>app_Pools := x\<rparr>) = app_PoolFlyAPIToken c"
  "app_HetznerAPIToken (c\<lparr>app_Pools := x\<rparr>) = app_HetznerAPIToken c"
  "app_HetznerAPIBaseURL (c\<lparr>app_Pools := x\<rparr>) = app_HetznerAPIBaseURL c"
  "app_HetznerLocation (c\<lparr>app_Pools := x\<rparr>) = app_HetznerLocation c"
  "app_HetznerServerType (c\<lparr>app_Pools := x\<rparr>) = app_HetznerServerType c"
  "app_HetznerServerImage (c\<lparr>app_Pools := x\<rparr>) = app_HetznerServerImage c"
  "app_HetznerFirewallID (c\<lparr>app_Pools := x\<rparr>) = app_HetznerFirewallID c"
  "app_HetznerNetworkID (c\<lparr>app_Pools := x\<rparr>) = app_HetznerNetworkID c"
  "app_RunnerImage (c\<lparr>app_Pools := x\<rparr>) = app_RunnerImage c" "app_MinWorkers (c\<lparr>app_Pools := x\<rparr>) = app_MinWorkers c"
  "app_MaxWorkers (c\<lparr>app_Pools := x\<rparr>) = app_MaxWorkers c" "app_RunnerCPUs (c\<lparr>app_Pools := x\<rparr>) = app_RunnerCPUs c"
  "app_RunnerMemoryMB (c\<lparr>app_Pools := x\<rparr>) = app_RunnerMemoryMB c"
  "app_RunnerRootFSGB (c\<lparr>app_Pools := x\<rparr>) = app_RunnerRootFSGB c"
  "app_RunnerDockerDNS (c\<lparr>app_Pools := x\<rparr>) = app_RunnerDockerDNS c"
  "app_RunnerCPUKind (c\<lparr>app_Pools := x\<rparr>) = app_RunnerCPUKind c"
  "app_RunnerMaxLifetime (c\<lparr>app_Pools := x\<rparr>) = app_RunnerMaxLifetime c"
  "app_RunnerUsageBudget (c\<lparr>app_Pools := x\<rparr>) = app_RunnerUsageBudget c"
  "app_RunnerBudgetWindow (c\<lparr>app_Pools := x\<rparr>) = app_RunnerBudgetWindow c"
  "app_RunnerBudgetFile (c\<lparr>app_Pools := x\<rparr>) = app_RunnerBudgetFile c"
  "app_RunnerStatusFile (c\<lparr>app_Pools := x\<rparr>) = app_RunnerStatusFile c"
  "app_ProviderRetries (c\<lparr>app_Pools := x\<rparr>) = app_ProviderRetries c"
  "app_ProviderRateLimit (c\<lparr>app_Pools := x\<rparr>) = app_ProviderRateLimit c"
  "app_GitHubAPIRateLimit (c\<lparr>app_Pools := x\<rparr>) = app_GitHubAPIRateLimit c"
  "app_LaunchConcurrency (c\<lparr>app_Pools := x\<rparr>) = app_LaunchConcurrency c"
  "app_RunnerIdleTimeout (c\<lparr>app_Pools := x\<rparr>) = app_RunnerIdleTimeout c"
  "app_DanglingTimeout (c\<lparr>app_Pools := x\<rparr>) = app_DanglingTimeout c"
  "app_AlertWebhookURL (c\<lparr>app_Pools := x\<rparr>) = app_AlertWebhookURL c" "app_LogLevel (c\<lparr>app_Pools := x\<rparr>) = app_LogLevel c"
  "app_PoolsFile (c\<lparr>app_Pools := x\<rparr>) = app_PoolsFile c"
  "app_EphemeralScaleSetName (c\<lparr>app_Pools := x\<rparr>) = app_EphemeralScaleSetName c"
  by simp_all

lemma without_pools [simp]:
  "flySourceConfig he (c\<lparr>app_Pools := x\<rparr>) = flySourceConfig he c" "hetznerSourceConfig he (c\<lparr>app_Pools := x\<rparr>) = hetznerSourceConfig he c"
  "fly_defaults (c\<lparr>app_Pools := x\<rparr>) = fly_defaults c" "pool_defaulted (c\<lparr>app_Pools := x\<rparr>) = pool_defaulted c"
  "validateHetzner (c\<lparr>app_Pools := x\<rparr>) = validateHetzner c" "poolFlyToken (c\<lparr>app_Pools := x\<rparr>) = poolFlyToken c"
  "ephemeralCompute he st (c\<lparr>app_Pools := x\<rparr>) = ephemeralCompute he st c" "entry_startable (c\<lparr>app_Pools := x\<rparr>) = entry_startable c"
  unfolding flySourceConfig_def hetznerSourceConfig_def fly_defaults_def pool_defaulted_def validateHetzner_def poolFlyToken_def
    ephemeralCompute_def entry_startable_def other_settings by (rule refl)+

lemma validate_without_pools [simp]: "pools_validate he st (c\<lparr>app_Pools := x\<rparr>) = pools_validate he st c"
proof -
  have fly: "validateFly he st (c\<lparr>app_Pools := x\<rparr>) = validateFly he st c" unfolding validateFly_def without_pools other_settings ..
  have "validate_pool he st (c\<lparr>app_Pools := x\<rparr>) = validate_pool he st c" unfolding validate_pool_def without_pools fly other_settings ..
  then have entries: "validate_entries_of he st (c\<lparr>app_Pools := x\<rparr>) names ps = validate_entries_of he st c names ps" for names ps
    by (induction ps arbitrary: names) simp_all
  show ?thesis unfolding pools_validate_def other_settings entries ..
qed

lemma app_validate_result:
  assumes "app_validate he st c = Inr c'"
  shows "validate_target st c' = None" "validate_bounds c' = None" "\<And>f'. app_Pools c' = Some f' \<Longrightarrow> \<exists>f. pools_validate he st c' f = Inr f'"
proof -
  obtain pools where c': "c' = c\<lparr>app_Pools := pools\<rparr>" "validate_target st c = None" "validate_bounds c = None"
    and p: "(case app_Pools c of None \<Rightarrow> Inr None | Some f \<Rightarrow> or_fail (pools_validate he st c f) (\<lambda>f'. Inr (Some f'))) = Inr pools"
    using assms unfolding app_validate_def by (cases "validate_target st c"; cases "validate_provider c"; cases "validate_bounds c") auto
  show "validate_target st c' = None" using c'(2) unfolding c'(1) validate_target_def other_settings .
  show "validate_bounds c' = None" using c'(3) unfolding c'(1) validate_bounds_def other_settings .
  show "\<exists>f. pools_validate he st c' f = Inr f'" if "app_Pools c' = Some f'" for f'
    using p that c'(1) by (auto split: option.splits)
qed




section \<open>Isolation\<close>

lemma built_from:
  "build_pools he st c key ps = Inr bs \<Longrightarrow> (n, b) \<in> set bs \<Longrightarrow> \<exists>p \<in> set ps. build_pool he st c key p = Inr b"
  by (induction ps arbitrary: bs) auto

lemma validated_from:
  "validate_entries_of he st c names ps = Inr ps' \<Longrightarrow> p \<in> set ps' \<Longrightarrow> \<exists>names p0. validate_pool he st c names p0 = Inr p"
  by (induction ps arbitrary: names ps') (auto, blast)

lemma validated_source:
  "validateHetzner c p0 = Inr p \<Longrightarrow> pe_Source p = pe_Source p0 \<and> pe_FirewallID p \<noteq> app_HetznerFirewallID c"
  "validateStatic st p0 = Inr p \<Longrightarrow> pe_Source p = pe_Source p0"
  by (auto simp: validateHetzner_def validateStatic_def Let_def split: if_splits sum.splits)

lemma fly_pool_apart:
  assumes v: "validate_pool he st c names p0 = Inr p" and b: "build_pool he st c key p = Inr (BuiltPool cfg (FlyHosts s))"
  shows "fl_app (fs_api s) \<noteq> app_FlyWorkerApp c \<and> fl_app (fs_api s) \<noteq> app_ControllerFlyApp c
    \<and> (ps_SlotMemoryMB (fs_cfg s) < 144115188075855856 \<longrightarrow>
         ps_Slots (fs_cfg s) * ps_SlotMemoryMB (fs_cfg s) + flyHostReservedMB \<le> ps_MemoryMB (fs_cfg s))"
proof -
  have src: "pe_Source p = poolSourceFly" and s: "fly_NewHostSource (se_parseIP st) (flySourceConfig he c p (ck_HostKey key) (ck_AuthorizedKey key)) = Inr s"
    using b by (auto simp: build_pool_def poolSource_def split: if_splits)
  have fields: "fl_app (fs_api s) = pe_FlyApp p" "ps_Slots (fs_cfg s) = pe_Slots p" "ps_SlotMemoryMB (fs_cfg s) = pe_SlotMemoryMB p"
    "ps_MemoryMB (fs_cfg s) = pe_MemoryMB p"
    using s by (auto simp: fly_NewHostSource_def flySourceConfig_def split: option.splits sum.splits)
  from v have "validateFly he st c (pool_defaulted c p0) = Inr p"
    using src by (cases rule: validate_pool_cases) (auto dest: validated_source)
  from validateFly_result(9,10) [OF this] slots_fit [OF this] show ?thesis unfolding fields by blast
qed

lemma hetzner_pool_apart:
  assumes v: "validate_pool he st c names p0 = Inr p" and b: "build_pool he st c key p = Inr (BuiltPool cfg (HetznerHosts s))"
  shows "hz_firewallID (hn_api s) \<noteq> app_HetznerFirewallID c"
proof -
  have src: "pe_Source p = poolSourceHetzner" and s: "hz_NewHostSource (hetznerSourceConfig he c p key) (he_pages he) (he_urlError he) = Inr s"
    using b by (auto simp: build_pool_def poolSource_def split: if_splits)
  have "hz_firewallID (hn_api s) = pe_FirewallID p"
    using s by (auto simp: hz_NewHostSource_def hz_New_def hetznerSourceConfig_def split: option.splits sum.splits if_splits)
  moreover from v have "validateHetzner c (pool_defaulted c p0) = Inr p"
    using src validateFly_result(1) [of he st c "pool_defaulted c p0" p] by (cases rule: validate_pool_cases) (auto dest: validated_source)
  ultimately show ?thesis using validated_source(1) by metis
qed

text \<open>
  C25. Pools are kept apart.  The pools built from an accepted configuration serve one trust domain; the Machines of a
  Fly pool are in an app that is neither the workers' nor the controller's, and its slots leave the host its
  memory unless a slot asks for over \<open>10 ^ 17\<close> megabytes, where the 64-bit sum of the check wraps around; the servers of a Hetzner
  pool are behind another firewall than the workers.
\<close>

theorem pools_kept_apart:
  assumes "app_validate he st c = Inr c'" and "app_Pools c' = Some f" and "build_pools he st c' key (pf_Pools f) = Inr bs"
  shows "pf_Trust f = ''private''
    \<and> (\<forall>n cfg s. (n, BuiltPool cfg (FlyHosts s)) \<in> set bs \<longrightarrow>
         fl_app (fs_api s) \<noteq> app_FlyWorkerApp c' \<and> fl_app (fs_api s) \<noteq> app_ControllerFlyApp c'
       \<and> (ps_SlotMemoryMB (fs_cfg s) < 144115188075855856 \<longrightarrow>
            ps_Slots (fs_cfg s) * ps_SlotMemoryMB (fs_cfg s) + 1024 \<le> ps_MemoryMB (fs_cfg s)))
    \<and> (\<forall>n cfg s. (n, BuiltPool cfg (HetznerHosts s)) \<in> set bs \<longrightarrow> hz_firewallID (hn_api s) \<noteq> app_HetznerFirewallID c')"
proof -
  obtain f0 where f0: "pools_validate he st c' f0 = Inr f" using app_validate_result(3) [OF assms(1,2)] by blast
  note r = pools_validate_result [OF f0]
  have from_pool: "\<exists>names p0 p. validate_pool he st c' names p0 = Inr p \<and> build_pool he st c' key p = Inr b" if "(n, b) \<in> set bs" for n b
    using built_from [OF assms(3) that] validated_from [OF r(1)] by blast
  show ?thesis
  proof (intro conjI allI impI)
    show "pf_Trust f = ''private''" using r(4) by (simp add: poolTrustPrivate_def)
  next
    fix n cfg and s :: "'a flySource" assume "(n, BuiltPool cfg (FlyHosts s)) \<in> set bs"
    from from_pool [OF this] show "fl_app (fs_api s) \<noteq> app_FlyWorkerApp c'" "fl_app (fs_api s) \<noteq> app_ControllerFlyApp c'"
      "ps_SlotMemoryMB (fs_cfg s) < 144115188075855856 \<Longrightarrow> ps_Slots (fs_cfg s) * ps_SlotMemoryMB (fs_cfg s) + 1024 \<le> ps_MemoryMB (fs_cfg s)"
      using fly_pool_apart by (fastforce simp: flyHostReservedMB_def)+
  next
    fix n cfg and s :: "'a hzSource" assume "(n, BuiltPool cfg (HetznerHosts s)) \<in> set bs"
    from from_pool [OF this] show "hz_firewallID (hn_api s) \<noteq> app_HetznerFirewallID c'" using hetzner_pool_apart by blast
  qed
qed

section \<open>An example\<close>

definition example_entry_pool :: poolEntry where
  "example_entry_pool =
     \<lparr>pe_Name = ''metal'', pe_Source = ''static'', pe_RunnerImage = ''registry.fly.io/runner'', pe_Slots = 0, pe_MinHosts = 0, pe_MaxHosts = 0,
      pe_HourlyPrice = 0, pe_SlotCPUs = 0, pe_SlotMemoryMB = 0, pe_MinFreeDiskGB = None, pe_Caches = [''/opt/cache''], pe_Speculative = None,
      pe_ServerType = [], pe_Location = [], pe_ServerImage = [], pe_FirewallID = 0, pe_NetworkID = 0, pe_Billing = [], pe_Currency = [],
      pe_Hosts = [\<lparr>sh_Name = ''box'', sh_Address = ''build.example'', sh_HostKey = ''ssh-ed25519 AAAA''\<rparr>], pe_FlyApp = [], pe_Region = [], pe_CPUKind = [],
      pe_CPUs = 0, pe_MemoryMB = 0, pe_VolumeGB = 0, pe_IdleStopAfter = 0, pe_KeepStopped = None, pe_DeleteStoppedAfter = 0\<rparr>"

definition example_fly_pool :: poolEntry where
  "example_fly_pool =
     example_entry_pool\<lparr>pe_Name := ''burst'', pe_Source := ''fly'', pe_Slots := 2, pe_MaxHosts := 2, pe_HourlyPrice := 1, pe_Hosts := [],
       pe_FlyApp := ''acme-pool'', pe_Region := ''iad'', pe_CPUs := 4, pe_MemoryMB := 8192\<rparr>"

text \<open>Two slots of \<open>2 ^ 62\<close> megabytes on a host of eight gigabytes: the check lets them through.\<close>

definition overflowing_pool :: poolEntry where
  "overflowing_pool = example_fly_pool\<lparr>pe_SlotMemoryMB := 4611686018427387904\<rparr>"

definition example_settings :: settings where
  "example_settings =
     \<lparr>se_Getenv = (\<lambda>_. []), se_ParseFloat = (\<lambda>_. Inl (ErrText [])), se_ParseDuration = (\<lambda>_. Inl (ErrText [])),
      se_parseURL = (\<lambda>_. Some \<lparr>pu_Scheme = ''https'', pu_Hostname = ''github.com'', pu_Port = [], pu_User = False, pu_RawQuery = [], pu_Fragment = [],
        pu_RawPath = [], pu_Path = ''/acme''\<rparr>),
      se_isIP = (\<lambda>_. False), se_parseIP = Some, se_parseKey = Inr, se_appValidate = (\<lambda>_. Some (ErrText [])), se_pools = (\<lambda>_. Inl (ErrText [])),
      se_keyProbe = (\<lambda>_. \<lparr>fp_abs = None, fp_root = None, fp_lstat = None, fp_symlink = False, fp_regular = True, fp_groupOrOthers = False, fp_size = 1,
        fp_open = None, fp_sameFile = True, fp_decode = Inr [], fp_trailing = False\<rparr>), se_windows = False,
      se_controllerKey = (\<lambda>_. Inr \<lparr>ck_HostKey = (\<lambda>_. Inr ([], [])), ck_AuthorizedKey = ''ssh-ed25519 BBBB''\<rparr>)\<rparr>"

definition example_app :: appConfig where
  "example_app =
     \<lparr>app_GitHubURL = ''https://github.com/acme'', app_ScaleSetName = ''main'', app_RunnerGroup = ''default'',
      app_GitHubApp = \<lparr>ga_ClientID = [], ga_InstallationID = 0, ga_PrivateKey = []\<rparr>, app_GitHubToken = ''token'', app_ComputeProvider = ''none'',
      app_ControllerID = ''c1'', app_ControllerFlyApp = [], app_FlyAPIToken = [], app_FlyAPIBaseURL = [], app_FlyWorkerApp = [], app_FlyRegion = [],
      app_PoolFlyAPIToken = ''token'', app_HetznerAPIToken = [], app_HetznerAPIBaseURL = [], app_HetznerLocation = [], app_HetznerServerType = [],
      app_HetznerServerImage = [], app_HetznerFirewallID = 0, app_HetznerNetworkID = 0, app_RunnerImage = [], app_MinWorkers = 0, app_MaxWorkers = 4,
      app_RunnerCPUs = 2, app_RunnerMemoryMB = 8192, app_RunnerRootFSGB = 30, app_RunnerDockerDNS = [], app_RunnerCPUKind = ''shared'',
      app_RunnerMaxLifetime = hour, app_RunnerUsageBudget = 10 * hour, app_RunnerBudgetWindow = 24 * hour, app_RunnerBudgetFile = ''/data/usage.json'',
      app_RunnerStatusFile = ''/data/status.json'', app_ProviderRetries = 5, app_ProviderRateLimit = 5, app_GitHubAPIRateLimit = 10,
      app_LaunchConcurrency = 8, app_RunnerIdleTimeout = 0, app_DanglingTimeout = 0, app_AlertWebhookURL = [], app_LogLevel = LevelInfo,
      app_PoolsFile = ''/data/pools.yaml'',
      app_Pools = Some \<lparr>pf_Trust = ''private'', pf_SSHKeyFile = ''/data/key'', pf_Placement = [], pf_Pools = [example_entry_pool, example_fly_pool]\<rparr>,
      app_EphemeralScaleSetName = []\<rparr>"

definition example_hostEnv :: "unit hostEnv" where
  "example_hostEnv =
     \<lparr>he_Now = Pair 0, he_RandRead = Pair (Inr []), he_Sum256 = id, he_hostJSON = (\<lambda>_. []), he_FormatFloat = (\<lambda>_. []), he_encodedSize = (\<lambda>_. 0), he_pages = 1,
      he_urlError = None\<rparr>"


definition example_key :: controllerKey where
  "example_key = \<lparr>ck_HostKey = (\<lambda>_. Inr ([], [])), ck_AuthorizedKey = ''ssh-ed25519 BBBB''\<rparr>"


lemma overflow_accepted: "\<not> isl (validate_pool example_hostEnv example_settings example_app [] overflowing_pool)"
  by code_simp


theorem pools_kept_apart_witness:
  "\<exists>c' bs. app_validate example_hostEnv example_settings example_app = Inr c'
     \<and> build_pools example_hostEnv example_settings c' example_key (pf_Pools (the (app_Pools c'))) = Inr bs
     \<and> (\<forall>n cfg s. (n, BuiltPool cfg (FlyHosts s)) \<in> set bs \<longrightarrow> fl_app (fs_api s) \<noteq> app_FlyWorkerApp c')"
proof -
  have "case app_validate example_hostEnv example_settings example_app of Inl _ \<Rightarrow> False
      | Inr c' \<Rightarrow> app_Pools c' \<noteq> None \<and> \<not> isl (build_pools example_hostEnv example_settings c' example_key (pf_Pools (the (app_Pools c'))))"
    by code_simp
  then obtain c' f bs where "app_validate example_hostEnv example_settings example_app = Inr c'" "app_Pools c' = Some f"
    "build_pools example_hostEnv example_settings c' example_key (pf_Pools f) = Inr bs"
    by (auto simp: isl_def split: sum.splits) (metis old.sum.exhaust)
  with pools_kept_apart [OF this] show ?thesis by auto
qed

end
