(* ===== verification/GitHub_App.thy ===== *)
theory GitHub_App
  imports Cloud_Api "HOL-Library.Sublist"
begin

text \<open>
  The GitHub App of a fleet (\<^verbatim>\<open>githubapp/githubapp.go\<close>): targets, credentials and profiles with their validation, the calls
  of the GitHub API, the loopback server of the manifest flow, and the two ways of setting an App up, which create one or reuse one.

  The HTTP client, the signing of tokens, the random bytes, the browser, the requests the loopback server gets and the sink are the
  record \<open>githubEnv\<close>.  An answer carries, for each type the program decodes, the value or nothing when the decoder fails.
  Escaping of paths is identified with its text.  \<open>gs_trace\<close> is a ghost record of the events, in order.
\<close>

section \<open>Targets, credentials, profiles\<close>

definition safeOwner :: "string \<Rightarrow> bool" where
  "safeOwner s = safe_token {CHR ''-''} 38 s"

definition safeRepo :: "string \<Rightarrow> bool" where
  "safeRepo s \<longleftrightarrow> s \<noteq> [] \<and> length s \<le> 100 \<and> list_all (\<lambda>c. is_alnum c \<or> c \<in> {CHR ''.'', CHR ''_'', CHR ''-''}) s"

definition safeID :: "string \<Rightarrow> bool" where
  "safeID s \<longleftrightarrow> s \<noteq> [] \<and> length s \<le> 128 \<and> list_all (\<lambda>c. is_alnum c \<or> c \<in> {CHR ''_'', CHR ''.'', CHR ''-''}) s"

definition is_lower :: "char \<Rightarrow> bool" where
  "is_lower c \<longleftrightarrow> CHR ''a'' \<le> c \<and> c \<le> CHR ''z''"

definition safeSlug :: "string \<Rightarrow> bool" where
  "safeSlug s \<longleftrightarrow> s \<noteq> [] \<and> length s \<le> 100 \<and> hd s \<noteq> CHR ''-'' \<and> list_all (\<lambda>c. is_lower c \<or> is_digit c \<or> c = CHR ''-'') s"

definition safePermission :: "string \<Rightarrow> bool" where
  "safePermission s \<longleftrightarrow> 2 \<le> length s \<and> length s \<le> 64 \<and> is_lower (hd s) \<and> list_all (\<lambda>c. is_lower c \<or> c = CHR ''_'') s"

definition permissionLevels :: "string \<Rightarrow> nat" where
  "permissionLevels level = (if level = ''read'' then 1 else if level = ''write'' then 2 else if level = ''admin'' then 3 else 0)"

definition grants :: "string \<Rightarrow> string \<Rightarrow> bool" where
  "grants have_level want \<longleftrightarrow> permissionLevels have_level \<ge> permissionLevels want \<and> permissionLevels want > 0"

definition OwnerUser :: string where "OwnerUser = ''user''"
definition OwnerOrganization :: string where "OwnerOrganization = ''organization''"

record target =
  tg_ConfigURL :: string
  tg_Owner :: string
  tg_Repository :: string
  tg_OwnerKind :: string

definition target_Validate :: "target \<Rightarrow> goerr option" where
  "target_Validate t =
     (if tg_ConfigURL t = [] \<or> tg_Owner t = [] then Some (ErrText ''GitHub target URL and owner are required'')
      else if \<not> safeOwner (tg_Owner t) \<or> (tg_Repository t \<noteq> [] \<and> \<not> safeRepo (tg_Repository t))
      then Some (ErrText ''GitHub target contains an invalid owner or repository name'')
      else if tg_ConfigURL t \<noteq> ''https://github.com/'' @ tg_Owner t @ (if tg_Repository t \<noteq> [] then ''/'' @ tg_Repository t else [])
      then Some (ErrText ''GitHub target URL must be canonical and match its owner and repository'')
      else if tg_OwnerKind t \<noteq> OwnerUser \<and> tg_OwnerKind t \<noteq> OwnerOrganization then Some (ErrText ''GitHub owner kind must be user or organization'')
      else if tg_Repository t = [] \<and> tg_OwnerKind t \<noteq> OwnerOrganization
      then Some (ErrText ''organization runner scale sets require an organization owner'')
      else None)"

record credentials =
  cr_AppID :: int
  cr_ClientID :: string
  cr_InstallationID :: int
  cr_PrivateKey :: string
  cr_Slug :: string
  cr_HTMLURL :: string

record profile =
  pr_Name :: string
  pr_Qualifiers :: "string list"
  pr_Description :: string
  pr_Permissions :: "(string \<times> string) list"
  pr_Explanation :: string

definition requiredPermission :: "target \<Rightarrow> string" where
  "requiredPermission t = (if tg_Repository t \<noteq> [] then ''administration'' else ''organization_self_hosted_runners'')"

definition permissionExplanation :: "target \<Rightarrow> string" where
  "permissionExplanation t =
     (if tg_Repository t \<noteq> []
      then ''It requests Repository administration: write because GitHub places repository runner scale-set management behind that permission.''
      else ''It requests Organization self-hosted runners: write because GitHub places organization runner scale-set management behind that permission.'')"

definition RunnerProfile :: "target \<Rightarrow> profile" where
  "RunnerProfile t =
     \<lparr>pr_Name = ''RunnerYard'', pr_Qualifiers = tg_Owner t # (if tg_Repository t \<noteq> [] then [tg_Repository t] else []),
      pr_Description = ''Dedicated credentials for one self-hosted RunnerYard fleet.'', pr_Permissions = [(requiredPermission t, ''write'')],
      pr_Explanation = permissionExplanation t\<rparr>"

definition maxAppNameLength :: int where "maxAppNameLength = 34"
definition nameSuffixBytes :: nat where "nameSuffixBytes = 4"
definition minQualifierLength :: nat where "minQualifierLength = 4"

definition profile_validate :: "profile \<Rightarrow> goerr option" where
  "profile_validate p =
     (if pr_Name p = [] \<or> pr_Permissions p = [] then Some (ErrText ''GitHub App profile needs a name and permissions'')
      else if int (length (pr_Name p)) + 1 + 2 * int nameSuffixBytes > maxAppNameLength
      then Some (ErrText ''GitHub App profile name leaves no room for the random suffix'')
      else if list_ex (\<lambda>(name, level). \<not> safePermission name \<or> permissionLevels level = 0) (pr_Permissions p)
      then Some (ErrText ''GitHub App profile has an invalid permission'')
      else None)"

section \<open>The name of an App\<close>

text \<open>The loop over the qualifiers: the first that does not fit is shortened, or dropped, and ends it.\<close>

definition trim_right_any :: "char set \<Rightarrow> string \<Rightarrow> string" where
  "trim_right_any cs s = rev (dropWhile (\<lambda>c. c \<in> cs) (rev s))"

fun add_qualifiers :: "int \<Rightarrow> string \<Rightarrow> string list \<Rightarrow> string" where
  "add_qualifiers budget name [] = name"
| "add_qualifiers budget name (q # qs) =
     (let room = budget - int (length name) - 1
      in if int (length q) > room
         then (let short = trim_right_any {CHR ''-'', CHR ''.'', CHR ''_''} (take (nat (max room 0)) q)
               in if length short \<ge> minQualifierLength then name @ '' '' @ short else name)
         else add_qualifiers budget (name @ '' '' @ q) qs)"

definition appName :: "profile \<Rightarrow> string \<Rightarrow> goerr + string" where
  "appName p suffix_hex =
     (let budget = maxAppNameLength - 1 - int (length suffix_hex)
      in if int (length (pr_Name p)) > budget then Inl (ErrText ''GitHub App name leaves no room for the random suffix'')
         else Inr (add_qualifiers budget (pr_Name p) (pr_Qualifiers p) @ '' '' @ suffix_hex))"

record manifest =
  mf_name :: string
  mf_url :: string
  mf_description :: string
  mf_redirect_url :: string
  mf_public :: bool
  mf_request_oauth_on_install :: bool
  mf_hook_url :: string
  mf_hook_active :: bool
  mf_default_permissions :: "(string \<times> string) list"
  mf_default_events :: "string list"

definition manifestJSON :: "profile \<Rightarrow> string \<Rightarrow> string \<Rightarrow> string \<Rightarrow> goerr + manifest" where
  "manifestJSON p redirectURL homepageURL suffix_hex =
     (case appName p suffix_hex of
        Inl err \<Rightarrow> Inl err
      | Inr name \<Rightarrow>
          Inr \<lparr>mf_name = name, mf_url = homepageURL, mf_description = pr_Description p, mf_redirect_url = redirectURL, mf_public = False,
               mf_request_oauth_on_install = False, mf_hook_url = homepageURL @ ''/github/no-webhook'', mf_hook_active = False,
               mf_default_permissions = pr_Permissions p, mf_default_events = []\<rparr>)"

section \<open>The API\<close>

record appPayload =
  ap_ID :: int
  ap_ClientID :: string
  ap_PEM :: string
  ap_Slug :: string
  ap_HTMLURL :: string

record installationRecord =
  in_ID :: int
  in_AppID :: int
  in_Login :: string
  in_Permissions :: "(string \<times> string) list"
  in_RepositorySelection :: string

record githubBody =
  gb_token :: "string option"
  gb_repository :: "(bool \<times> string) option"
  gb_groups :: "(string \<times> bool option) list option"
  gb_account :: "string option"
  gb_app :: "appPayload option"
  gb_installation :: "installationRecord option"

record loopbackRequest =
  lr_Method :: string
  lr_Path :: string
  lr_state :: string
  lr_code :: string

text \<open>What \<^verbatim>\<open>url.Parse\<close> returns.\<close>

record siteURL =
  su_Scheme :: string
  su_Host :: string
  su_User :: bool
  su_RawQuery :: string
  su_Fragment :: string
  su_EscapedPath :: string

text \<open>
  \<open>ge_sign\<close> reads the clock and signs a token for a key that parses, \<open>ge_served\<close> is the requests the loopback server gets
  before the wait for a code ends, and the error it ends with if it does not end with a code.
\<close>

record 'w githubEnv =
  ge_http :: "string \<Rightarrow> unit httpRequest \<Rightarrow> 'w \<Rightarrow> githubBody outcome \<times> 'w"
  ge_parsesRSA :: "string \<Rightarrow> bool"
  ge_sign :: "string \<Rightarrow> string \<Rightarrow> 'w \<Rightarrow> (goerr + string) \<times> 'w"
  ge_random :: "nat \<Rightarrow> 'w \<Rightarrow> (goerr + string) \<times> 'w"
  ge_listen :: "'w \<Rightarrow> (goerr + string) \<times> 'w"
  ge_open :: "string \<Rightarrow> 'w \<Rightarrow> goerr option \<times> 'w"
  ge_served :: "'w \<Rightarrow> (loopbackRequest list \<times> goerr option) \<times> 'w"
  ge_store :: "credentials \<Rightarrow> 'w \<Rightarrow> goerr option \<times> 'w"
  ge_parseURL :: "string \<Rightarrow> siteURL option"

datatype githubEvent =
    Signed string string string
  | Sent string "unit httpRequest" "githubBody outcome"
  | Drawn nat string
  | Served loopbackRequest
  | Opened string
  | Stored credentials
  | ControllerRan

record 'w githubSys =
  gs_world :: 'w
  gs_trace :: "githubEvent list"

text \<open>A call of the surroundings and the events it leaves.\<close>

definition github_call :: "('w \<Rightarrow> 'r \<times> 'w) \<Rightarrow> ('r \<Rightarrow> githubEvent list) \<Rightarrow> ('w githubSys, 'r) state" where
  "github_call f events = State (\<lambda>s. case f (gs_world s) of (r, w) \<Rightarrow> (r, s\<lparr>gs_world := w, gs_trace := gs_trace s @ events r\<rparr>))"

definition github_send :: "'w githubEnv \<Rightarrow> string \<Rightarrow> unit httpRequest \<Rightarrow> ('w githubSys, githubBody outcome) state" where
  "github_send env token req = github_call (ge_http env token req) (\<lambda>out. [Sent token req out])"

definition api_result :: "(githubBody \<Rightarrow> 'v option) \<Rightarrow> int \<Rightarrow> githubBody outcome \<Rightarrow> goerr + 'v" where
  "api_result decoded expectedStatus out =
     (case out of
        NotBuilt e \<Rightarrow> Inl (ErrText ''create GitHub request'')
      | NoAnswer e \<Rightarrow> Inl e
      | Answered r \<Rightarrow>
          if rs_Status r \<noteq> expectedStatus then Inl (StatusError ''github'' (rs_Status r) [])
          else (case decoded (rs_Body r) of None \<Rightarrow> Inl (ErrText ''decode GitHub response'') | Some v \<Rightarrow> Inr v))"

definition api_doJSON :: "'w githubEnv \<Rightarrow> string \<Rightarrow> unit httpRequest \<Rightarrow> (githubBody \<Rightarrow> 'v option) \<Rightarrow> int \<Rightarrow> ('w githubSys, goerr + 'v) state" where
  "api_doJSON env token req decoded expectedStatus =
     do { out \<leftarrow> github_send env token req; State_Monad.return (api_result decoded expectedStatus out) }"

text \<open>\<^verbatim>\<open>errors.As\<close> a status error of 404.\<close>

definition status_not_found :: "goerr \<Rightarrow> bool" where
  "status_not_found err = (case List.map_filter as_status (err_nodes err) of [] \<Rightarrow> False | (_, status) # _ \<Rightarrow> status = 404)"

definition appJWT :: "'w githubEnv \<Rightarrow> credentials \<Rightarrow> ('w githubSys, goerr + string) state" where
  "appJWT env c =
     (if \<not> ge_parsesRSA env (cr_PrivateKey c) then State_Monad.return (Inl (ErrText ''parse GitHub App private key''))
      else do { r \<leftarrow> github_call (ge_sign env (cr_ClientID c) (cr_PrivateKey c))
                       (\<lambda>r. case r of Inl err \<Rightarrow> [] | Inr token \<Rightarrow> [Signed (cr_ClientID c) (cr_PrivateKey c) token]);
                State_Monad.return (case r of Inl err \<Rightarrow> Inl (ErrText ''sign GitHub App verification token'') | Inr token \<Rightarrow> Inr token) })"

definition credentials_Validate :: "'w githubEnv \<Rightarrow> credentials \<Rightarrow> goerr option" where
  "credentials_Validate env c =
     (if cr_ClientID c = [] \<or> cr_InstallationID c < 1 \<or> cr_PrivateKey c = [] then Some (ErrText ''incomplete GitHub App credentials'')
      else if \<not> safeID (cr_ClientID c) then Some (ErrText ''GitHub App client ID contains invalid characters'')
      else if \<not> ge_parsesRSA env (cr_PrivateKey c) then Some (ErrText ''GitHub App private key is not a valid RSA PEM key'')
      else None)"

definition ResolveOwnerKind :: "'w githubEnv \<Rightarrow> string \<Rightarrow> ('w githubSys, goerr + string) state" where
  "ResolveOwnerKind env owner =
     do { r \<leftarrow> api_doJSON env [] (plain_request MethodGet [''users'', owner]) gb_account 200;
          State_Monad.return
            (case r of
               Inl err \<Rightarrow> Inl (ErrWrap ''resolve GitHub owner'' err)
             | Inr kind \<Rightarrow> if kind = ''User'' then Inr OwnerUser else if kind = ''Organization'' then Inr OwnerOrganization
                           else Inl (ErrText ''GitHub owner has unsupported account type'')) }"

definition conversion_request :: "string \<Rightarrow> unit httpRequest" where
  "conversion_request code = plain_request MethodPost [''app-manifests'', code, ''conversions'']"

definition converted :: "'w githubEnv \<Rightarrow> githubBody outcome \<Rightarrow> goerr + credentials" where
  "converted env out =
     (case out of
        NotBuilt e \<Rightarrow> Inl (ErrText ''create GitHub manifest exchange request'')
      | NoAnswer e \<Rightarrow> Inl (ErrWrap ''exchange GitHub App manifest code'' e)
      | Answered r \<Rightarrow>
          if rs_Status r \<noteq> 201 then Inl (ErrText ''exchange GitHub App manifest code'')
          else (case gb_app (rs_Body r) of
                  None \<Rightarrow> Inl (ErrText ''decode GitHub App manifest response'')
                | Some a \<Rightarrow>
                    if ap_ID a < 1 \<or> ap_ClientID a = [] \<or> ap_PEM a = [] \<or> ap_HTMLURL a = [] then Inl (ErrText ''GitHub App manifest response was incomplete'')
                    else if \<not> ge_parsesRSA env (ap_PEM a) then Inl (ErrText ''GitHub App manifest returned an invalid private key'')
                    else Inr \<lparr>cr_AppID = ap_ID a, cr_ClientID = ap_ClientID a, cr_InstallationID = 0, cr_PrivateKey = ap_PEM a, cr_Slug = ap_Slug a,
                              cr_HTMLURL = ap_HTMLURL a\<rparr>))"

definition ConvertManifest :: "'w githubEnv \<Rightarrow> string \<Rightarrow> ('w githubSys, goerr + credentials) state" where
  "ConvertManifest env code = do { out \<leftarrow> github_send env [] (conversion_request code); State_Monad.return (converted env out) }"

definition installationURL :: "'w githubEnv \<Rightarrow> credentials \<Rightarrow> goerr + string" where
  "installationURL env c =
     (case ge_parseURL env (cr_HTMLURL c) of
        None \<Rightarrow> Inl (ErrText ''GitHub App response contained an unsafe installation URL'')
      | Some u \<Rightarrow>
          if su_Scheme u \<noteq> ''https'' \<or> su_Host u \<noteq> ''github.com'' \<or> su_User u \<or> su_RawQuery u \<noteq> [] \<or> su_Fragment u \<noteq> []
          then Inl (ErrText ''GitHub App response contained an unsafe installation URL'')
          else if \<not> safeSlug (cr_Slug c) \<or> su_EscapedPath u \<noteq> ''/apps/'' @ cr_Slug c
          then Inl (ErrText ''GitHub App response contained a mismatched installation URL'')
          else Inr (trim_right (CHR ''/'') (cr_HTMLURL c) @ ''/installations/new''))"

definition covers :: "installationRecord \<Rightarrow> profile \<Rightarrow> goerr option" where
  "covers i p =
     (case filter (\<lambda>name. \<not> grants (case map_of (in_Permissions i) name of None \<Rightarrow> [] | Some level \<Rightarrow> level) (the (map_of (pr_Permissions p) name)))
             (sort (map fst (pr_Permissions p))) of
        [] \<Rightarrow> None
      | name # _ \<Rightarrow> Some (ErrText (''GitHub App installation lacks required '' @ name)))"

definition identity_request :: "unit httpRequest" where
  "identity_request = plain_request MethodGet [''app'']"

definition installation_request :: "target \<Rightarrow> unit httpRequest" where
  "installation_request t =
     plain_request MethodGet (if tg_Repository t = [] then [''orgs'', tg_Owner t, ''installation''] else [''repos'', tg_Owner t, tg_Repository t, ''installation''])"

definition targetInstallation :: "'w githubEnv \<Rightarrow> string \<Rightarrow> target \<Rightarrow> ('w githubSys, goerr + installationRecord) state" where
  "targetInstallation env appToken t = api_doJSON env appToken (installation_request t) gb_installation 200"

definition identified :: "credentials \<Rightarrow> appPayload \<Rightarrow> goerr + credentials" where
  "identified c a =
     (if ap_ID a < 1 \<or> (ap_ClientID a \<noteq> cr_ClientID c \<and> itoa (ap_ID a) \<noteq> cr_ClientID c)
      then Inl (ErrText ''GitHub App identity does not match the supplied client ID'')
      else if cr_AppID c > 0 \<and> cr_AppID c \<noteq> ap_ID a then Inl (ErrText ''GitHub App identity does not match the created app'')
      else Inr (c\<lparr>cr_AppID := ap_ID a, cr_Slug := if cr_Slug c = [] then ap_Slug a else cr_Slug c,
                  cr_HTMLURL := if cr_HTMLURL c = [] then ap_HTMLURL a else cr_HTMLURL c\<rparr>))"

definition Identify :: "'w githubEnv \<Rightarrow> credentials \<Rightarrow> ('w githubSys, goerr + credentials) state" where
  "Identify env c =
     do { signed \<leftarrow> appJWT env c;
          case signed of
            Inl err \<Rightarrow> State_Monad.return (Inl err)
          | Inr appToken \<Rightarrow>
              do { r \<leftarrow> api_doJSON env appToken identity_request gb_app 200;
                   State_Monad.return (case r of Inl err \<Rightarrow> Inl (ErrWrap ''verify GitHub App identity'' err) | Inr a \<Rightarrow> identified c a) } }"

definition verified :: "credentials \<Rightarrow> credentials \<Rightarrow> target \<Rightarrow> profile \<Rightarrow> installationRecord \<Rightarrow> goerr + installationRecord" where
  "verified c app t p i =
     (if in_ID i \<noteq> cr_InstallationID c \<or> in_AppID i \<noteq> cr_AppID app
      then Inl (ErrText ''GitHub App installation does not match the created app or selected target'')
      else if \<not> EqualFold (in_Login i) (tg_Owner t) then Inl (ErrText ''GitHub App installation belongs to a different account'')
      else (case covers i p of Some err \<Rightarrow> Inl err | None \<Rightarrow> Inr i))"

definition api_verify :: "'w githubEnv \<Rightarrow> credentials \<Rightarrow> target \<Rightarrow> profile \<Rightarrow> ('w githubSys, goerr + installationRecord) state" where
  "api_verify env c t p =
     (case credentials_Validate env c of
        Some err \<Rightarrow> State_Monad.return (Inl err)
      | None \<Rightarrow>
          do { identity \<leftarrow> Identify env c;
               case identity of
                 Inl err \<Rightarrow> State_Monad.return (Inl err)
               | Inr app \<Rightarrow>
                   do { signed \<leftarrow> appJWT env c;
                        case signed of
                          Inl err \<Rightarrow> State_Monad.return (Inl err)
                        | Inr appToken \<Rightarrow>
                            do { r \<leftarrow> targetInstallation env appToken t;
                                 State_Monad.return
                                   (case r of Inl err \<Rightarrow> Inl (ErrWrap ''verify GitHub App installation'' err) | Inr i \<Rightarrow> verified c app t p i) } } })"

text \<open>
  \<^verbatim>\<open>WaitForInstallationFor\<close> with \<open>n\<close> ticks before the context ends: the setup ends within an hour, a tick takes two seconds.
\<close>

fun WaitForInstallationFor :: "nat \<Rightarrow> 'w githubEnv \<Rightarrow> credentials \<Rightarrow> target \<Rightarrow> profile \<Rightarrow> ('w githubSys, goerr + int) state" where
  "WaitForInstallationFor n env c t p =
     do { signed \<leftarrow> appJWT env c;
          case signed of
            Inl err \<Rightarrow> State_Monad.return (Inl err)
          | Inr appToken \<Rightarrow>
              do { r \<leftarrow> targetInstallation env appToken t;
                   case r of
                     Inr i \<Rightarrow> State_Monad.return (case covers i p of Some err \<Rightarrow> Inl err | None \<Rightarrow> Inr (in_ID i))
                   | Inl err \<Rightarrow>
                       if \<not> status_not_found err then State_Monad.return (Inl (ErrWrap ''discover GitHub App installation'' err))
                       else (case n of
                               0 \<Rightarrow> State_Monad.return (Inl (ErrWrap ''GitHub App installation was not visible before setup ended'' (ErrSentinel ContextDeadlineExceeded)))
                             | Suc m \<Rightarrow> WaitForInstallationFor m env c t p) } }"

section \<open>The loopback server\<close>

text \<open>
  The handler with the channel of codes it fills: \<open>lh_codes\<close> is the buffer, \<open>lh_once\<close> whether \<^verbatim>\<open>callbackOnce\<close> has run.
  The result is the status of the response.
\<close>

record loopbackHandler =
  lh_registerURL :: "string \<times> string"
  lh_manifest :: manifest
  lh_state :: string
  lh_codes :: "string list"
  lh_once :: bool

definition newLoopbackHandler :: "string \<times> string \<Rightarrow> manifest \<Rightarrow> string \<Rightarrow> loopbackHandler" where
  "newLoopbackHandler registerURL mf state = \<lparr>lh_registerURL = registerURL, lh_manifest = mf, lh_state = state, lh_codes = [], lh_once = False\<rparr>"

definition ServeHTTP :: "loopbackHandler \<Rightarrow> loopbackRequest \<Rightarrow> nat \<times> loopbackHandler" where
  "ServeHTTP h r =
     (if lr_Method r \<noteq> MethodGet then (405, h)
      else if lr_Path r = ''/start'' then (200, h)
      else if lr_Path r = ''/callback''
      then (if lr_state r \<noteq> lh_state h then (400, h)
            else (let code = trimSpace (lr_code r)
                  in if length code < 20 \<or> length code > 256 \<or> CHR 0x0D \<in> set code \<or> CHR 0x0A \<in> set code then (400, h)
                     else (200, if lh_once h then h else h\<lparr>lh_codes := lh_codes h @ [code], lh_once := True\<rparr>)))
      else (404, h))"

definition serve_all :: "loopbackHandler \<Rightarrow> loopbackRequest list \<Rightarrow> loopbackHandler" where
  "serve_all h rs = fold (\<lambda>r h. snd (ServeHTTP h r)) rs h"

text \<open>A wait that gets no code ends by the timeout at the latest.\<close>

definition waitValue :: "string list \<Rightarrow> goerr option \<Rightarrow> goerr + string" where
  "waitValue codes ended =
     (case ended of
        Some err \<Rightarrow> Inl (ErrWrap ''GitHub App creation failed'' err)
      | None \<Rightarrow> (case codes of [] \<Rightarrow> Inl (ErrWrap ''GitHub App creation timed out or was canceled'' (ErrSentinel ContextDeadlineExceeded)) | code # _ \<Rightarrow> Inr code))"

section \<open>Setting an App up\<close>

record setupOptions =
  op_Target :: target
  op_Profile :: "profile option"
  op_Sink :: bool
  op_Browser :: bool
  op_NoBrowser :: bool
  op_Timeout :: duration
  op_SiteBaseURL :: string
  op_HomepageURL :: string

definition setup_prepare :: "setupOptions \<Rightarrow> goerr + setupOptions \<times> profile" where
  "setup_prepare opts =
     (case target_Validate (op_Target opts) of
        Some err \<Rightarrow> Inl err
      | None \<Rightarrow>
          (let p = (case op_Profile opts of None \<Rightarrow> RunnerProfile (op_Target opts) | Some p \<Rightarrow> p)
           in case profile_validate p of
                Some err \<Rightarrow> Inl err
              | None \<Rightarrow>
                  if \<not> op_Sink opts then Inl (ErrText ''credential sink is required'')
                  else if \<not> op_Browser opts \<and> \<not> op_NoBrowser opts then Inl (ErrText ''browser opener is required unless --no-browser is used'')
                  else (let timeout = (if op_Timeout opts \<le> 0 then 10 * minute else op_Timeout opts)
                        in if timeout > hour then Inl (ErrText ''GitHub App setup timeout cannot exceed one hour'')
                           else Inr (opts\<lparr>op_Timeout := timeout,
                                       op_SiteBaseURL := if op_SiteBaseURL opts = [] then ''https://github.com'' else op_SiteBaseURL opts,
                                       op_HomepageURL := if op_HomepageURL opts = [] then ''https://runneryard.com'' else op_HomepageURL opts\<rparr>, p))))"

definition exposeAndOpen :: "'w githubEnv \<Rightarrow> bool \<Rightarrow> string \<Rightarrow> ('w githubSys, goerr option) state" where
  "exposeAndOpen env noBrowser url = (if noBrowser then State_Monad.return None else github_call (ge_open env url) (\<lambda>_. [Opened url]))"

definition registrationURL :: "'w githubEnv \<Rightarrow> string \<Rightarrow> target \<Rightarrow> string \<Rightarrow> goerr + string \<times> string" where
  "registrationURL env siteBase t state =
     (case ge_parseURL env siteBase of
        None \<Rightarrow> Inl (ErrText ''invalid GitHub site base URL'')
      | Some base \<Rightarrow>
          if su_Scheme base \<noteq> ''https'' \<or> su_Host base = [] then Inl (ErrText ''invalid GitHub site base URL'')
          else Inr (''https://'' @ su_Host base
                      @ (if tg_OwnerKind t = OwnerOrganization then ''/organizations/'' @ tg_Owner t @ ''/settings/apps/new'' else ''/settings/apps/new''), state))"

definition randomHex :: "'w githubEnv \<Rightarrow> nat \<Rightarrow> ('w githubSys, goerr + string) state" where
  "randomHex env n =
     do { r \<leftarrow> github_call (ge_random env n) (\<lambda>r. case r of Inl err \<Rightarrow> [] | Inr bytes \<Rightarrow> [Drawn n (hex_encode bytes)]);
          State_Monad.return (case r of Inl err \<Rightarrow> Inl err | Inr bytes \<Rightarrow> Inr (hex_encode bytes)) }"

record setupResult =
  sr_AppURL :: string
  sr_Slug :: string
  sr_InstallationID :: int
  sr_AllRepositories :: bool

definition store_verified :: "nat \<Rightarrow> 'w githubEnv \<Rightarrow> setupOptions \<Rightarrow> profile \<Rightarrow> credentials \<Rightarrow> ('w githubSys, goerr + setupResult) state" where
  "store_verified n env opts p c =
     do { waited \<leftarrow> WaitForInstallationFor n env c (op_Target opts) p;
          case waited of
            Inl err \<Rightarrow> State_Monad.return (Inl err)
          | Inr installationID \<Rightarrow>
              (let c' = c\<lparr>cr_InstallationID := installationID\<rparr>
               in do { r \<leftarrow> api_verify env c' (op_Target opts) p;
                       case r of
                         Inl err \<Rightarrow> State_Monad.return (Inl err)
                       | Inr i \<Rightarrow>
                           do { err \<leftarrow> github_call (ge_store env c') (\<lambda>_. [Stored c']);
                                State_Monad.return
                                  (case err of
                                     Some e \<Rightarrow> Inl (ErrWrap ''store verified GitHub App credentials'' e)
                                   | None \<Rightarrow> Inr \<lparr>sr_AppURL = cr_HTMLURL c', sr_Slug = cr_Slug c', sr_InstallationID = cr_InstallationID c',
                                                  sr_AllRepositories = (in_RepositorySelection i = ''all'')\<rparr>) } }) }"

definition installAndStore :: "nat \<Rightarrow> 'w githubEnv \<Rightarrow> setupOptions \<Rightarrow> profile \<Rightarrow> credentials \<Rightarrow> bool \<Rightarrow> ('w githubSys, goerr + setupResult) state" where
  "installAndStore n env opts p c open_page =
     (if \<not> open_page then store_verified n env opts p c
      else (case installationURL env c of
              Inl err \<Rightarrow> State_Monad.return (Inl err)
            | Inr installURL \<Rightarrow>
                do { opened \<leftarrow> exposeAndOpen env (op_NoBrowser opts) installURL;
                     case opened of
                       Some err \<Rightarrow> State_Monad.return (Inl (ErrWrap ''open installation page'' err))
                     | None \<Rightarrow> store_verified n env opts p c }))"

text \<open>\<^verbatim>\<open>Bootstrap\<close> once the listener is up, in two parts: up to the browser, then the wait for the code and what follows it.\<close>

definition bootstrap_finish :: "nat \<Rightarrow> 'w githubEnv \<Rightarrow> setupOptions \<Rightarrow> profile \<Rightarrow> loopbackHandler \<Rightarrow> ('w githubSys, goerr + setupResult) state" where
  "bootstrap_finish n env opts p handler =
     do { (requests, ended) \<leftarrow> github_call (ge_served env) (\<lambda>(requests, ended). map Served requests);
          case waitValue (lh_codes (serve_all handler requests)) ended of
            Inl err \<Rightarrow> State_Monad.return (Inl err)
          | Inr code \<Rightarrow>
              do { exchanged \<leftarrow> ConvertManifest env code;
                   case exchanged of
                     Inl err \<Rightarrow> State_Monad.return (Inl err)
                   | Inr c \<Rightarrow> installAndStore n env opts p c True } }"

definition bootstrap_listening :: "nat \<Rightarrow> 'w githubEnv \<Rightarrow> setupOptions \<Rightarrow> profile \<Rightarrow> string \<Rightarrow> ('w githubSys, goerr + setupResult) state" where
  "bootstrap_listening n env opts p addr =
     do { drawn \<leftarrow> randomHex env 32;
          case drawn of
            Inl _ \<Rightarrow> State_Monad.return (Inl (ErrText ''generate setup state''))
          | Inr state \<Rightarrow>
              do { drawn \<leftarrow> randomHex env nameSuffixBytes;
                   case drawn of
                     Inl _ \<Rightarrow> State_Monad.return (Inl (ErrText ''generate app name''))
                   | Inr nameSuffix \<Rightarrow>
                       (case manifestJSON p (''http://'' @ addr @ ''/callback'') (op_HomepageURL opts) nameSuffix of
                          Inl err \<Rightarrow> State_Monad.return (Inl err)
                        | Inr mf \<Rightarrow>
                            (case registrationURL env (op_SiteBaseURL opts) (op_Target opts) state of
                               Inl err \<Rightarrow> State_Monad.return (Inl err)
                             | Inr registerURL \<Rightarrow>
                                 do { opened \<leftarrow> exposeAndOpen env (op_NoBrowser opts) (''http://'' @ addr @ ''/start'');
                                      case opened of
                                        Some err \<Rightarrow> State_Monad.return (Inl (ErrWrap ''open browser'' err))
                                      | None \<Rightarrow> bootstrap_finish n env opts p (newLoopbackHandler registerURL mf state) })) } }"

definition Bootstrap :: "nat \<Rightarrow> 'w githubEnv \<Rightarrow> setupOptions \<Rightarrow> ('w githubSys, goerr + setupResult) state" where
  "Bootstrap n env options =
     (case setup_prepare options of
        Inl err \<Rightarrow> State_Monad.return (Inl err)
      | Inr (opts, p) \<Rightarrow>
          do { listening \<leftarrow> github_call (ge_listen env) (\<lambda>_. []);
               case listening of
                 Inl err \<Rightarrow> State_Monad.return (Inl (ErrWrap ''start secure loopback callback'' err))
               | Inr addr \<Rightarrow> bootstrap_listening n env opts p addr })"

definition Reuse :: "nat \<Rightarrow> 'w githubEnv \<Rightarrow> setupOptions \<Rightarrow> credentials \<Rightarrow> ('w githubSys, goerr + setupResult) state" where
  "Reuse n env options c =
     (case setup_prepare options of
        Inl err \<Rightarrow> State_Monad.return (Inl err)
      | Inr (opts, p) \<Rightarrow>
          do { identity \<leftarrow> Identify env c;
               case identity of
                 Inl err \<Rightarrow> State_Monad.return (Inl err)
               | Inr app \<Rightarrow>
                   do { signed \<leftarrow> appJWT env app;
                        case signed of
                          Inl err \<Rightarrow> State_Monad.return (Inl err)
                        | Inr appToken \<Rightarrow>
                            do { r \<leftarrow> targetInstallation env appToken (op_Target opts);
                                 case r of
                                   Inr _ \<Rightarrow> installAndStore n env opts p app False
                                 | Inl err \<Rightarrow>
                                     if status_not_found err then installAndStore n env opts p app True
                                     else State_Monad.return (Inl (ErrWrap ''look up the installation'' err)) } } })"

end
