(* ===== verification/Pool_Trust.thy ===== *)
theory Pool_Trust
  imports App_Config GitHub_App
begin

text \<open>
  Whom the pools serve (\<^verbatim>\<open>githubapp/trust.go\<close>, \<^verbatim>\<open>cmd/runneryard/pool_trust.go\<close>, \<^verbatim>\<open>serve\<close> of
  \<^verbatim>\<open>cmd/runneryard/main.go\<close>): the check with GitHub that the target runs private code only, its repetition while the controller runs,
  and the start of the controller behind it.

  The API, its surroundings and the record of events are those of the App's setup.
\<close>

section \<open>The check\<close>

definition InstallationToken :: "'w githubEnv \<Rightarrow> credentials \<Rightarrow> ('w githubSys, goerr + string) state" where
  "InstallationToken env c =
     (case credentials_Validate env c of
        Some err \<Rightarrow> State_Monad.return (Inl err)
      | None \<Rightarrow>
          do { signed \<leftarrow> appJWT env c;
               case signed of
                 Inl err \<Rightarrow> State_Monad.return (Inl err)
               | Inr appToken \<Rightarrow>
                   do { issued \<leftarrow> api_doJSON env appToken
                          (plain_request MethodPost [''app'', ''installations'', itoa (cr_InstallationID c), ''access_tokens'']) gb_token 201;
                        State_Monad.return
                          (case issued of
                             Inl err \<Rightarrow> Inl (ErrWrap ''create GitHub App installation token'' err)
                           | Inr token \<Rightarrow> if token = [] then Inl (ErrText ''GitHub returned an empty installation token'') else Inr token) } })"

definition repo_request :: "target \<Rightarrow> unit httpRequest" where
  "repo_request t = plain_request MethodGet [''repos'', tg_Owner t, tg_Repository t]"

definition groups_request :: "target \<Rightarrow> nat \<Rightarrow> unit httpRequest" where
  "groups_request t page =
     (plain_request MethodGet [''orgs'', tg_Owner t, ''actions'', ''runner-groups''])\<lparr>rq_Query := [(''per_page'', ''100''), (''page'', itoa (int page))]\<rparr>"

definition public_target :: "string \<Rightarrow> goerr" where
  "public_target message = ErrWrap message (ErrSentinel ErrPublicTarget)"

definition repo_verdict :: "bool \<times> string \<Rightarrow> goerr option" where
  "repo_verdict r =
     (if \<not> fst r \<or> (snd r \<noteq> ''private'' \<and> snd r \<noteq> ''internal'') then Some (public_target ''pool hosts only serve private repositories'') else None)"

text \<open>The first group of that name decides; nothing when there is none.\<close>

fun group_verdict :: "string \<Rightarrow> (string \<times> bool option) list \<Rightarrow> goerr option option" where
  "group_verdict runnerGroup [] = None"
| "group_verdict runnerGroup ((name, allows) # groups) =
     (if \<not> EqualFold name runnerGroup then group_verdict runnerGroup groups
      else if allows = None \<or> allows = Some True
      then Some (Some (public_target ''runner group allows public repositories; turn that off before using pool hosts''))
      else Some None)"

text \<open>The pages of groups, \<open>n\<close> left.\<close>

fun check_groups :: "nat \<Rightarrow> 'w githubEnv \<Rightarrow> string \<Rightarrow> target \<Rightarrow> string \<Rightarrow> nat \<Rightarrow> ('w githubSys, goerr option) state" where
  "check_groups 0 env token t runnerGroup page = State_Monad.return (Some (ErrText ''runner group was not found''))"
| "check_groups (Suc n) env token t runnerGroup page =
     do { r \<leftarrow> api_doJSON env token (groups_request t page) gb_groups 200;
          case r of
            Inl err \<Rightarrow> State_Monad.return (Some (ErrWrap ''read runner groups'' err))
          | Inr groups \<Rightarrow>
              (case group_verdict runnerGroup groups of
                 Some verdict \<Rightarrow> State_Monad.return verdict
               | None \<Rightarrow>
                   if length groups < 100 then State_Monad.return (Some (ErrText ''runner group was not found''))
                   else check_groups n env token t runnerGroup (Suc page)) }"

definition CheckPrivateTarget :: "'w githubEnv \<Rightarrow> string \<Rightarrow> target \<Rightarrow> string \<Rightarrow> ('w githubSys, goerr option) state" where
  "CheckPrivateTarget env token t runnerGroup =
     (if token = [] then State_Monad.return (Some (ErrText ''checking that the GitHub target is private requires a token''))
      else if tg_Owner t = [] \<or> \<not> safeOwner (tg_Owner t) \<or> (tg_Repository t \<noteq> [] \<and> \<not> safeRepo (tg_Repository t))
      then State_Monad.return (Some (ErrText ''GitHub target contains an invalid owner or repository name''))
      else if tg_Repository t \<noteq> []
      then do { r \<leftarrow> api_doJSON env token (repo_request t) gb_repository 200;
                State_Monad.return (case r of Inl err \<Rightarrow> Some (ErrWrap ''read visibility'' err) | Inr v \<Rightarrow> repo_verdict v) }
      else check_groups 10 env token t (if runnerGroup = [] then ''Default'' else runnerGroup) 1)"

definition trust_target :: "string \<times> string \<Rightarrow> target" where
  "trust_target normal =
     \<lparr>tg_ConfigURL = fst normal, tg_Owner = snd normal,
      tg_Repository = (case strings_Cut (CHR ''/'') (trim_prefix ''https://github.com/'' (fst normal)) of None \<Rightarrow> [] | Some (owner, repository) \<Rightarrow> repository),
      tg_OwnerKind = []\<rparr>"

definition checkPoolTrust :: "'w githubEnv \<Rightarrow> settings \<Rightarrow> appConfig \<Rightarrow> ('w githubSys, goerr option) state" where
  "checkPoolTrust env st c =
     (case normalizeGitHubConfigURL st (app_GitHubURL c) of
        Inl err \<Rightarrow> State_Monad.return (Some (ErrWrap ''GITHUB_CONFIG_URL'' err))
      | Inr normal \<Rightarrow>
          do { token \<leftarrow> (if app_GitHubToken c \<noteq> [] then State_Monad.return (Inr (app_GitHubToken c))
                         else InstallationToken env \<lparr>cr_AppID = 0, cr_ClientID = ga_ClientID (app_GitHubApp c), cr_InstallationID = ga_InstallationID (app_GitHubApp c),
                                cr_PrivateKey = ga_PrivateKey (app_GitHubApp c), cr_Slug = [], cr_HTMLURL = []\<rparr>);
               case token of
                 Inl err \<Rightarrow> State_Monad.return (Some err)
               | Inr tok \<Rightarrow>
                   do { verdict \<leftarrow> CheckPrivateTarget env tok (trust_target normal) (app_RunnerGroup c);
                        State_Monad.return (map_option (ErrWrap ''pool hosts refused'') verdict) } })"

text \<open>\<^verbatim>\<open>watchPoolTrust\<close> for \<open>n\<close> ticks: what it stops the controller with, if it does.\<close>

fun watchPoolTrust :: "nat \<Rightarrow> 'w githubEnv \<Rightarrow> settings \<Rightarrow> appConfig \<Rightarrow> ('w githubSys, goerr option) state" where
  "watchPoolTrust 0 env st c = State_Monad.return None"
| "watchPoolTrust (Suc n) env st c =
     do { err \<leftarrow> checkPoolTrust env st c;
          if errors_Is err ErrPublicTarget then State_Monad.return err else watchPoolTrust n env st c }"

section \<open>Serving\<close>

text \<open>
  \<^verbatim>\<open>serve\<close>: the controller runs after the check, with \<open>n\<close> ticks of the watch beside it.  \<open>github\<close> is the construction of the GitHub client,
  \<open>fleet_Run\<close> what the controller's run returns, given what the watch stopped it with.  The result is the error of the process, if any.
\<close>

definition serve :: "nat \<Rightarrow> ('v builtCompute \<Rightarrow> 's compute) \<Rightarrow> 'v hostEnv \<Rightarrow> (appConfig \<Rightarrow> goerr option) \<Rightarrow> (goerr option \<Rightarrow> goerr option) \<Rightarrow> 'w githubEnv \<Rightarrow> settings
    \<Rightarrow> ('w githubSys, goerr option) state" where
  "serve n impl he github fleet_Run env st =
     (case loadConfig he st of
        Inl err \<Rightarrow> State_Monad.return (Some err)
      | Inr c \<Rightarrow>
          (case github c of
             Some err \<Rightarrow> State_Monad.return (Some (ErrWrap ''create GitHub adapter'' err))
           | None \<Rightarrow>
               (case app_computes impl he st c of
                  Inl err \<Rightarrow> State_Monad.return (Some (ErrWrap ''create compute adapter'' err))
                | Inr computes \<Rightarrow>
                    (case controller_New (case computes of SingleCompute None \<Rightarrow> False | _ \<Rightarrow> True)
                            (app_controllerConfig c [] [] (case computes of PlacedCompute pl (Some direct) \<Rightarrow> Some LaunchEphemeral | _ \<Rightarrow> None)) of
                       Inl err \<Rightarrow> State_Monad.return (Some (ErrWrap ''create controller'' err))
                     | Inr controller \<Rightarrow>
                         do { refused \<leftarrow> (if app_Pools c = None then State_Monad.return None else checkPoolTrust env st c);
                              case refused of
                                Some err \<Rightarrow> State_Monad.return (Some err)
                              | None \<Rightarrow>
                                  do { _ \<leftarrow> modify (\<lambda>s. s\<lparr>gs_trace := gs_trace s @ [ControllerRan]\<rparr>);
                                       stopped \<leftarrow> (if app_Pools c = None then State_Monad.return None else watchPoolTrust n env st c);
                                       State_Monad.return
                                         (if fleet_Run stopped \<noteq> None \<and> \<not> errors_Is (fleet_Run stopped) ContextCanceled then map_option (ErrWrap ''controller stopped'') (fleet_Run stopped)
                                          else if stopped \<noteq> None \<and> \<not> errors_Is stopped ContextCanceled then map_option (ErrWrap ''controller stopped'') stopped
                                          else None) } }))))"

section \<open>Only private code\<close>

text \<open>
  GitHub's word on the target: what an answer says of the repository, or of the first runner group of that name, which refuses public
  repositories or not.  \<open>None\<close> is an answer that says nothing of the target.
\<close>

definition group_word :: "string \<Rightarrow> (string \<times> bool option) list \<Rightarrow> bool option" where
  "group_word runnerGroup groups = map_option (\<lambda>g. snd g = Some False) (List.find (\<lambda>g. EqualFold (fst g) runnerGroup) groups)"

definition github_word :: "target \<Rightarrow> string \<Rightarrow> githubEvent \<Rightarrow> bool option" where
  "github_word t runnerGroup e =
     (case e of
        Sent token req (Answered r) \<Rightarrow>
          if rs_Status r \<noteq> 200 then None
          else if tg_Repository t \<noteq> [] \<and> req = repo_request t
          then map_option (\<lambda>(private, visibility). private \<and> visibility \<in> {''private'', ''internal''}) (gb_repository (rs_Body r))
          else if tg_Repository t = [] \<and> rq_Path req = [''orgs'', tg_Owner t, ''actions'', ''runner-groups'']
          then Option.bind (gb_groups (rs_Body r)) (group_word runnerGroup)
          else None
      | _ \<Rightarrow> None)"

definition says_private :: "target \<Rightarrow> string \<Rightarrow> githubEvent \<Rightarrow> bool" where
  "says_private t runnerGroup e \<longleftrightarrow> github_word t runnerGroup e = Some True"

definition says_public :: "target \<Rightarrow> string \<Rightarrow> githubEvent \<Rightarrow> bool" where
  "says_public t runnerGroup e \<longleftrightarrow> github_word t runnerGroup e = Some False"

text \<open>The controller starts after a word for private code only, and nothing follows a word against it.\<close>

definition served_ok :: "target \<Rightarrow> string \<Rightarrow> githubEvent list \<Rightarrow> githubEvent \<Rightarrow> bool" where
  "served_ok t g before e \<longleftrightarrow> \<not> list_ex (says_public t g) before \<and> (e = ControllerRan \<longrightarrow> list_ex (says_private t g) before)"

definition unrefuted :: "target \<Rightarrow> string \<Rightarrow> 'w githubSys \<Rightarrow> bool" where
  "unrefuted t g s \<longleftrightarrow> preceded (served_ok t g) (gs_trace s) \<and> \<not> list_ex (says_public t g) (gs_trace s)"

text \<open>The error of a definite answer: \<^verbatim>\<open>serve\<close> reports it unless it is a cancellation.\<close>

definition refuses :: "goerr option \<Rightarrow> bool" where
  "refuses r \<longleftrightarrow> errors_Is r ErrPublicTarget \<and> \<not> errors_Is r ContextCanceled"

definition judged :: "target \<Rightarrow> string \<Rightarrow> goerr option \<Rightarrow> 'w githubSys \<Rightarrow> bool" where
  "judged t g r s \<longleftrightarrow> preceded (served_ok t g) (gs_trace s) \<and> (r = None \<longrightarrow> list_ex (says_private t g) (gs_trace s))
     \<and> (list_ex (says_public t g) (gs_trace s) \<longrightarrow> refuses r)"

definition asked :: "target \<Rightarrow> string \<Rightarrow> string \<Rightarrow> unit httpRequest \<Rightarrow> githubBody outcome \<Rightarrow> 'w githubSys \<Rightarrow> bool" where
  "asked t g token req out s \<longleftrightarrow> preceded (served_ok t g) (gs_trace s)
     \<and> (\<exists>before. gs_trace s = before @ [Sent token req out] \<and> \<not> list_ex (says_public t g) before)"

lemma trust_send_triple: "hoare (unrefuted t g) (github_send env token req) (\<lambda>out. asked t g token req out)"
  by (auto simp: hoare_def github_send_def github_call_def unrefuted_def asked_def served_ok_def intro!: preceded_snoc split: prod.splits)

lemma asked_unrefuted: "asked t g token req out s \<Longrightarrow> \<not> says_public t g (Sent token req out) \<Longrightarrow> unrefuted t g s"
  by (auto simp: asked_def unrefuted_def)

lemma asked_judged:
  assumes "asked t g token req out s" and "r = None \<Longrightarrow> says_private t g (Sent token req out)"
    and "says_public t g (Sent token req out) \<Longrightarrow> refuses r"
  shows "judged t g r s"
  using assms by (auto simp: asked_def judged_def)

lemma unrefuted_judged: "unrefuted t g s \<Longrightarrow> judged t g (Some e) s"
  by (auto simp: unrefuted_def judged_def)

lemma judged_unrefuted: "judged t g r s \<Longrightarrow> \<not> errors_Is r ErrPublicTarget \<Longrightarrow> unrefuted t g s"
  by (auto simp: unrefuted_def judged_def refuses_def)

lemma errors_Is_wrap [simp]: "errors_Is (Some (ErrWrap m e)) x = errors_Is (Some e) x" "\<not> errors_Is None x"
  by (auto simp: errors_Is_def)

lemma refuses_simps [simp]: "refuses (Some (public_target m))" "refuses (Some (ErrWrap m e)) = refuses (Some e)" "\<not> refuses None"
  by (auto simp: refuses_def public_target_def errors_Is_def)

lemma refuses_some: "refuses r \<Longrightarrow> \<exists>err. r = Some err"
  by (cases r) auto

lemma group_verdict_word: "group_verdict g groups = map_option (\<lambda>private. if private then None
     else Some (public_target ''runner group allows public repositories; turn that off before using pool hosts'')) (group_word g groups)"
proof (induction g groups rule: group_verdict.induct)
  case (2 g name allows groups)
  then show ?case by (cases allows) (auto simp: group_word_def)
qed (simp add: group_word_def)

lemma group_answer:
  assumes "tg_Repository t = []"
  shows "github_word t g (Sent token (groups_request t page) out) = (case api_result gb_groups 200 out of Inl err \<Rightarrow> None | Inr groups \<Rightarrow> group_word g groups)"
  using assms by (auto simp: github_word_def api_result_def groups_request_def plain_request_def split: outcome.splits option.splits)

lemma repo_answer:
  assumes "tg_Repository t \<noteq> []"
  shows "github_word t g (Sent token (repo_request t) out)
    = (case api_result gb_repository 200 out of Inl err \<Rightarrow> None | Inr v \<Rightarrow> Some (repo_verdict v = None))"
  using assms by (auto simp: github_word_def api_result_def repo_verdict_def split: outcome.splits option.splits)

lemma token_answer: "github_word t g (Sent token (plain_request MethodPost (''app'' # path)) out) = None"
  by (auto simp: github_word_def repo_request_def plain_request_def split: outcome.splits)

lemma check_groups_triple:
  assumes t: "tg_Repository t = []"
  shows "hoare (unrefuted t g) (check_groups n env token t g page) (judged t g)"
proof (induction n arbitrary: page)
  case 0
  show ?case by (auto intro: hoare_return unrefuted_judged)
next
  case (Suc n)
  let ?next = "\<lambda>r. case r of Inl err \<Rightarrow> State_Monad.return (Some (ErrWrap ''read runner groups'' err))
      | Inr groups \<Rightarrow> (case group_verdict g groups of Some verdict \<Rightarrow> State_Monad.return verdict
          | None \<Rightarrow> if length groups < 100 then State_Monad.return (Some (ErrText ''runner group was not found'')) else check_groups n env token t g (Suc page))"
  have "hoare (asked t g token (groups_request t page) out) (?next (api_result gb_groups 200 out)) (judged t g)" for out
  proof (cases "api_result gb_groups 200 out")
    case (Inl err)
    then show ?thesis by (auto intro!: hoare_return unrefuted_judged elim!: asked_unrefuted simp: says_public_def group_answer [OF t])
  next
    case groups: (Inr groups)
    show ?thesis
    proof (cases "group_word g groups")
      case None
      then have "\<not> says_public t g (Sent token (groups_request t page) out)" using groups by (simp add: says_public_def group_answer [OF t])
      then show ?thesis using None groups
        by (auto simp: group_verdict_word intro!: hoare_return hoare_pre [OF Suc] intro: unrefuted_judged asked_unrefuted)
    next
      case (Some word)
      then show ?thesis using groups
        by (auto simp: group_verdict_word says_private_def says_public_def group_answer [OF t] intro!: hoare_return elim!: asked_judged)
    qed
  qed
  then show ?case unfolding check_groups.simps api_doJSON_def
    by (simp add: hoare_bind [OF trust_send_triple])
qed

lemma check_repository_triple:
  assumes t: "tg_Repository t \<noteq> []"
  shows "hoare (unrefuted t g) (do { r \<leftarrow> api_doJSON env token (repo_request t) gb_repository 200;
      State_Monad.return (case r of Inl err \<Rightarrow> Some (ErrWrap ''read visibility'' err) | Inr v \<Rightarrow> repo_verdict v) }) (judged t g)"
proof -
  have "judged t g (case api_result gb_repository 200 out of Inl err \<Rightarrow> Some (ErrWrap ''read visibility'' err) | Inr v \<Rightarrow> repo_verdict v) s"
    if "asked t g token (repo_request t) out s" for out and s :: "'a githubSys"
    by (rule asked_judged [OF that]) (auto simp: says_private_def says_public_def repo_answer [OF t] repo_verdict_def split: sum.splits if_splits)
  then show ?thesis unfolding api_doJSON_def by (simp add: hoare_bind [OF trust_send_triple] hoare_return)
qed

lemma CheckPrivateTarget_triple:
  "hoare (unrefuted t (if g = [] then ''Default'' else g)) (CheckPrivateTarget env token t g) (judged t (if g = [] then ''Default'' else g))"
  unfolding CheckPrivateTarget_def
  by (intro hoare_if hoare_return check_repository_triple check_groups_triple unrefuted_judged) simp_all

lemma InstallationToken_triple: "keeps (unrefuted t g) (InstallationToken env c)"
proof -
  have jwt: "keeps (unrefuted t g) (appJWT env c)"
    by (auto simp: keeps_def hoare_def unrefuted_def appJWT_def github_call_def served_ok_def says_public_def github_word_def
        intro!: preceded_snoc split: prod.splits sum.splits if_splits)
  have ask: "keeps (unrefuted t g) (api_doJSON env token (plain_request MethodPost (''app'' # path)) gb_token 201)" for token path
    unfolding api_doJSON_def keeps_def
    by (rule hoare_bind [OF trust_send_triple]) (auto intro!: hoare_return elim!: asked_unrefuted simp: says_public_def token_answer)
  show ?thesis unfolding InstallationToken_def by (intro keeps_rules jwt ask)
qed

abbreviation watched :: "(string \<times> string) \<Rightarrow> appConfig \<Rightarrow> (target \<Rightarrow> string \<Rightarrow> 'a) \<Rightarrow> 'a" where
  "watched normal c P \<equiv> P (trust_target normal) (if app_RunnerGroup c = [] then ''Default'' else app_RunnerGroup c)"

lemma checkPoolTrust_triple:
  assumes "normalizeGitHubConfigURL st (app_GitHubURL c) = Inr normal"
  shows "hoare (watched normal c unrefuted) (checkPoolTrust env st c) (watched normal c judged)"
proof -
  let ?I = "watched normal c unrefuted :: 'a githubSys \<Rightarrow> bool"
  have token: "hoare ?I (if app_GitHubToken c \<noteq> [] then State_Monad.return (Inr (app_GitHubToken c)) else InstallationToken env cr) (\<lambda>_. ?I)" for cr
    using InstallationToken_triple [of _ _ env cr] by (auto intro!: hoare_return simp: keeps_def)
  have wrapped: "watched normal c judged (map_option (ErrWrap m) v) s" if "watched normal c judged v s" for m v and s :: "'a githubSys"
    using that by (cases v) (auto simp: judged_def)
  show ?thesis unfolding checkPoolTrust_def assms sum.case
    by (rule hoare_bind [OF token], rule hoare_sum, rule hoare_return, erule unrefuted_judged,
        rule hoare_bind [OF CheckPrivateTarget_triple], rule hoare_return, erule wrapped)
qed

lemma watchPoolTrust_triple:
  assumes "normalizeGitHubConfigURL st (app_GitHubURL c) = Inr normal"
  shows "hoare (watched normal c unrefuted) (watchPoolTrust n env st c)
    (\<lambda>r s. watched normal c (\<lambda>t g. preceded (served_ok t g) (gs_trace s) \<and> (list_ex (says_public t g) (gs_trace s) \<longrightarrow> refuses r)))"
proof (induction n)
  case 0
  show ?case unfolding watchPoolTrust.simps by (rule hoare_return) (simp add: unrefuted_def)
next
  case (Suc n)
  show ?case unfolding watchPoolTrust.simps
    by (rule hoare_bind [OF checkPoolTrust_triple [OF assms]], rule hoare_if, rule hoare_return, simp add: judged_def,
        rule hoare_pre [OF Suc], erule (1) judged_unrefuted)
qed

lemma serving_triple:
  assumes "normalizeGitHubConfigURL st (app_GitHubURL c) = Inr normal"
  shows "hoare (watched normal c unrefuted)
     (do { refused \<leftarrow> checkPoolTrust env st c;
           case refused of
             Some err \<Rightarrow> State_Monad.return (Some err)
           | None \<Rightarrow>
               do { _ \<leftarrow> modify (\<lambda>s. s\<lparr>gs_trace := gs_trace s @ [ControllerRan]\<rparr>);
                    stopped \<leftarrow> watchPoolTrust n env st c;
                    State_Monad.return (f stopped) } })
     (\<lambda>r s. watched normal c (\<lambda>t g. preceded (served_ok t g) (gs_trace s)
        \<and> (list_ex (says_public t g) (gs_trace s) \<longrightarrow> refuses r \<or> (\<exists>stopped. refuses stopped \<and> r = f stopped))))"
proof (rule hoare_bind [OF checkPoolTrust_triple [OF assms]], rule hoare_option)
  fix refused :: "goerr option" assume "refused = None"
  have started: "hoare (watched normal c judged refused) (modify (\<lambda>s. s\<lparr>gs_trace := gs_trace s @ [ControllerRan]\<rparr>)) (\<lambda>_. watched normal c unrefuted)"
    using \<open>refused = None\<close>
    by (intro hoare_modify) (auto simp: judged_def unrefuted_def served_ok_def says_public_def github_word_def intro!: preceded_snoc)
  show "hoare (watched normal c judged refused) (do { _ \<leftarrow> modify (\<lambda>s. s\<lparr>gs_trace := gs_trace s @ [ControllerRan]\<rparr>);
      stopped \<leftarrow> watchPoolTrust n env st c; State_Monad.return (f stopped) })
     (\<lambda>r s. watched normal c (\<lambda>t g. preceded (served_ok t g) (gs_trace s)
        \<and> (list_ex (says_public t g) (gs_trace s) \<longrightarrow> refuses r \<or> (\<exists>stopped. refuses stopped \<and> r = f stopped))))"
    by (rule hoare_bind [OF started], rule hoare_bind [OF watchPoolTrust_triple [OF assms]], rule hoare_return) auto
qed (rule hoare_return, auto simp: judged_def)

lemma unconfirmed_refuses: "normalizeGitHubConfigURL st (app_GitHubURL c) = Inl err \<Longrightarrow> checkPoolTrust env st c = State_Monad.return (Some (ErrWrap ''GITHUB_CONFIG_URL'' err))"
  by (simp add: checkPoolTrust_def)

definition serving_confirmed :: "target \<Rightarrow> string \<Rightarrow> goerr option \<times> 'w githubSys \<Rightarrow> bool" where
  "serving_confirmed t g run \<longleftrightarrow> preceded (served_ok t g) (gs_trace (snd run))
     \<and> (case fst run of None \<Rightarrow> list_all (\<lambda>e. \<not> says_public t g e) (gs_trace (snd run)) | Some err \<Rightarrow> True)"

lemma serving_confirmed_run:
  assumes "hoare (unrefuted t g) m (\<lambda>r s. preceded (served_ok t g) (gs_trace s) \<and> (list_ex (says_public t g) (gs_trace s) \<longrightarrow> r \<noteq> None))"
  shows "serving_confirmed t g (run_state m \<lparr>gs_world = w, gs_trace = []\<rparr>)"
proof -
  obtain r s where rs: "run_state m \<lparr>gs_world = w, gs_trace = []\<rparr> = (r, s)" by fastforce
  have "unrefuted t g \<lparr>gs_world = w, gs_trace = []\<rparr>" by (simp add: unrefuted_def preceded_def)
  from hoareD [OF assms this rs] show ?thesis by (cases r) (auto simp: rs serving_confirmed_def list_ex_iff list_all_iff)
qed

text \<open>
  C22. With pools, \<^verbatim>\<open>serve\<close> starts the controller only after GitHub has said that the target runs private code only: that the
  repository is private or internal, or that the runner group of that name refuses public repositories.  Once GitHub has said the contrary, at
  the start or at any tick of the watch, nothing more happens and the process ends with an error.  A configuration that is refused asks
  nothing and starts nothing.
\<close>
theorem pools_serve_private:
  "let run = run_state (serve n impl he github fleet_Run env st) \<lparr>gs_world = w, gs_trace = []\<rparr>
   in case loadConfig he st of
        Inl err \<Rightarrow> gs_trace (snd run) = []
      | Inr c \<Rightarrow> app_Pools c = None
          \<or> (case normalizeGitHubConfigURL st (app_GitHubURL c) of
               Inl err \<Rightarrow> gs_trace (snd run) = []
             | Inr normal \<Rightarrow> serving_confirmed (trust_target normal) (if app_RunnerGroup c = [] then ''Default'' else app_RunnerGroup c) run)"
proof -
  let ?f = "\<lambda>stopped. if fleet_Run stopped \<noteq> None \<and> \<not> errors_Is (fleet_Run stopped) ContextCanceled then map_option (ErrWrap ''controller stopped'') (fleet_Run stopped)
     else if stopped \<noteq> None \<and> \<not> errors_Is stopped ContextCanceled then map_option (ErrWrap ''controller stopped'') stopped else None"
  have f: "?f stopped \<noteq> None" if "refuses stopped" for stopped using that by (cases stopped) (auto simp: refuses_def)
  have confirmed: "serving_confirmed (trust_target normal) (if app_RunnerGroup c = [] then ''Default'' else app_RunnerGroup c)
      (run_state (serve n impl he github fleet_Run env st) \<lparr>gs_world = w, gs_trace = []\<rparr>)"
    if c: "loadConfig he st = Inr c" "app_Pools c \<noteq> None" "normalizeGitHubConfigURL st (app_GitHubURL c) = Inr normal" for c normal
    unfolding serve_def c sum.case if_not_P [OF c(2)]
    by (rule serving_confirmed_run, intro hoare_option hoare_sum hoare_return hoare_weaken [OF serving_triple [OF c(3)]])
      (use f in \<open>auto simp: unrefuted_def dest: refuses_some\<close>)
  have unconfirmed: "gs_trace (snd (run_state (serve n impl he github fleet_Run env st) \<lparr>gs_world = w, gs_trace = []\<rparr>)) = []"
    if c: "loadConfig he st = Inr c" "app_Pools c \<noteq> None" "normalizeGitHubConfigURL st (app_GitHubURL c) = Inl err" for c err
    unfolding serve_def c sum.case if_not_P [OF c(2)] unconfirmed_refuses [OF c(3)] by (auto split: option.splits sum.splits)
  have unread: "gs_trace (snd (run_state (serve n impl he github fleet_Run env st) \<lparr>gs_world = w, gs_trace = []\<rparr>)) = []" if "loadConfig he st = Inl err" for err
    using that by (simp add: serve_def)
  show ?thesis
  proof (cases "loadConfig he st")
    case (Inl err)
    then show ?thesis using unread [OF Inl] by (simp add: Let_def)
  next
    case c: (Inr c)
    then show ?thesis
      using confirmed [OF c] unconfirmed [OF c] by (cases "app_Pools c = None"; cases "normalizeGitHubConfigURL st (app_GitHubURL c)") (simp_all add: Let_def)
  qed
qed

end
