(* ===== verification/GitHub_App_Correct.thy ===== *)
theory GitHub_App_Correct
  imports GitHub_App
begin

text \<open>
  What the setup of a GitHub App promises: credentials reach the sink only once GitHub has vouched for them, the code of the manifest flow
  is exchanged only when it came back with the state of this setup, and the name of the App fits.
\<close>

section \<open>Names\<close>

lemma trim_right_any_length: "length (trim_right_any cs s) \<le> length s"
  using length_dropWhile_le [of "\<lambda>c. c \<in> cs" "rev s"] by (simp add: trim_right_any_def)

lemma add_qualifiers_bounds:
  assumes "int (length name) \<le> budget"
  shows "int (length (add_qualifiers budget name qs)) \<le> budget \<and> prefix name (add_qualifiers budget name qs)"
  using assms
proof (induction budget name qs rule: add_qualifiers.induct)
  case (2 budget name q qs)
  let ?room = "budget - int (length name) - 1"
  show ?case
  proof (cases "int (length q) > ?room")
    case True
    let ?short = "trim_right_any {CHR ''-'', CHR ''.'', CHR ''_''} (take (nat (max ?room 0)) q)"
    have "int (length ?short) \<le> max ?room 0"
      using trim_right_any_length [of "{CHR ''-'', CHR ''.'', CHR ''_''}" "take (nat (max ?room 0)) q"] by (simp add: min_def split: if_splits)
    then show ?thesis using True 2(2) by (auto simp: Let_def minQualifierLength_def)
  next
    case False
    then have "int (length (name @ '' '' @ q)) \<le> budget" by simp
    from 2(1) [OF refl False this] show ?thesis using False by (auto simp: Let_def elim: append_prefixD)
  qed
qed simp

text \<open>
  The name of an App fits GitHub's limit of 34 characters whatever the owner and the repository are called: an accepted
  profile and the eight hexadecimal digits of the random suffix always give a name, which starts with the profile's name and ends with the
  whole suffix.
\<close>

theorem app_name_fits:
  assumes "profile_validate p = None" and "length suffix_hex = 2 * nameSuffixBytes"
  shows "\<exists>name. appName p suffix_hex = Inr name \<and> length name \<le> 34 \<and> prefix (pr_Name p) name \<and> suffix ('' '' @ suffix_hex) name"
proof -
  let ?name = "add_qualifiers 25 (pr_Name p) (pr_Qualifiers p)"
  have "int (length (pr_Name p)) \<le> 25"
    using assms(1) by (auto simp: profile_validate_def nameSuffixBytes_def maxAppNameLength_def split: if_splits)
  from add_qualifiers_bounds [OF this, of "pr_Qualifiers p"] this assms(2) show ?thesis
    by (auto simp: appName_def nameSuffixBytes_def maxAppNameLength_def Let_def suffix_def intro: prefix_prefix)
qed

theorem app_name_fits_witness:
  "\<exists>name. appName (RunnerProfile \<lparr>tg_ConfigURL = [], tg_Owner = ''an-organization-of-some-length'', tg_Repository = ''monorepo'', tg_OwnerKind = []\<rparr>) ''0011aabb'' = Inr name
     \<and> length name \<le> 34 \<and> prefix ''RunnerYard'' name \<and> suffix '' 0011aabb'' name"
proof -
  let ?p = "RunnerProfile \<lparr>tg_ConfigURL = [], tg_Owner = ''an-organization-of-some-length'', tg_Repository = ''monorepo'', tg_OwnerKind = []\<rparr>"
  have "profile_validate ?p = None" by code_simp
  from app_name_fits [OF this, of "''0011aabb''"] show ?thesis by (simp add: RunnerProfile_def nameSuffixBytes_def)
qed

section \<open>Who vouches for credentials\<close>

definition answered_as :: "credentials \<Rightarrow> unit httpRequest \<Rightarrow> githubBody \<Rightarrow> githubEvent set \<Rightarrow> bool" where
  "answered_as c req body E \<longleftrightarrow> (\<exists>token a. Signed (cr_ClientID c) (cr_PrivateKey c) token \<in> E \<and> Sent token req (Answered a) \<in> E \<and> rs_Status a = 200 \<and> rs_Body a = body)"

definition granted :: "profile \<Rightarrow> installationRecord \<Rightarrow> bool" where
  "granted p i \<longleftrightarrow> list_all (\<lambda>(name, want). grants (case map_of (in_Permissions i) name of None \<Rightarrow> [] | Some level \<Rightarrow> level) (the (map_of (pr_Permissions p) name)))
     (pr_Permissions p)"

text \<open>
  GitHub has answered requests signed with these credentials: that the App they sign for is theirs, and that its installation on the
  target is this one, in the owner's account, with the permissions of the profile.
\<close>

definition vouched :: "target \<Rightarrow> profile \<Rightarrow> credentials \<Rightarrow> githubEvent set \<Rightarrow> bool" where
  "vouched t p c E \<longleftrightarrow>
     (\<exists>b a b' i. answered_as c identity_request b E \<and> gb_app b = Some a \<and> (ap_ClientID a = cr_ClientID c \<or> itoa (ap_ID a) = cr_ClientID c)
        \<and> answered_as c (installation_request t) b' E \<and> gb_installation b' = Some i \<and> in_ID i = cr_InstallationID c \<and> in_AppID i = ap_ID a
        \<and> EqualFold (in_Login i) (tg_Owner t) \<and> granted p i)"

definition code_returned :: "string \<Rightarrow> githubEvent set \<Rightarrow> bool" where
  "code_returned code E \<longleftrightarrow>
     (\<exists>r. Served r \<in> E \<and> Drawn 32 (lr_state r) \<in> E \<and> lr_Method r = MethodGet \<and> lr_Path r = ''/callback'' \<and> trimSpace (lr_code r) = code)"

definition setup_ok :: "target \<Rightarrow> profile \<Rightarrow> githubEvent list \<Rightarrow> githubEvent \<Rightarrow> bool" where
  "setup_ok t p before e =
     (case e of
        Stored c \<Rightarrow> 1 \<le> cr_InstallationID c \<and> safeID (cr_ClientID c) \<and> vouched t p c (set before)
      | Sent token req out \<Rightarrow> (\<forall>code. req = conversion_request code \<longrightarrow> code_returned code (set before))
      | _ \<Rightarrow> True)"

text \<open>The events so far are in order, and what \<open>F\<close> says of them holds however many more follow.\<close>

definition saw :: "target \<Rightarrow> profile \<Rightarrow> (githubEvent set \<Rightarrow> bool) \<Rightarrow> 'w githubSys \<Rightarrow> bool" where
  "saw t p F s \<longleftrightarrow> preceded (setup_ok t p) (gs_trace s) \<and> (\<forall>E. set (gs_trace s) \<subseteq> E \<longrightarrow> F E)"

lemma preceded_more:
  assumes "preceded Q xs" and "\<And>e before. e \<in> set ys \<Longrightarrow> set xs \<subseteq> set before \<Longrightarrow> Q before e"
  shows "preceded Q (xs @ ys)"
  using assms(2)
proof (induction ys rule: rev_induct)
  case (snoc y ys)
  then have "preceded Q (xs @ ys)" by simp
  from preceded_snoc [OF this] snoc.prems [of y "xs @ ys"] show ?case by simp
qed (simp add: assms(1))

lemma call_triple:
  assumes "\<And>r e before. e \<in> set (ev r) \<Longrightarrow> F (set before) \<Longrightarrow> setup_ok t p before e"
  shows "hoare (saw t p F) (github_call f ev) (\<lambda>r. saw t p (\<lambda>E. F E \<and> set (ev r) \<subseteq> E))"
proof (rule hoareI)
  fix s a s' assume s: "saw t p F s" and run: "run_state (github_call f ev) s = (a, s')"
  then have tr: "gs_trace s' = gs_trace s @ ev a" by (auto simp: github_call_def split: prod.splits)
  have F: "F E" if "set (gs_trace s) \<subseteq> E" for E using s that by (auto simp: saw_def)
  have "preceded (setup_ok t p) (gs_trace s')"
    unfolding tr by (rule preceded_more) (use s assms F in \<open>auto simp: saw_def\<close>)
  then show "saw t p (\<lambda>E. F E \<and> set (ev a) \<subseteq> E) s'" using F by (auto simp: saw_def tr)
qed

lemma saw_weaken: "saw t p F s \<Longrightarrow> (\<And>E. F E \<Longrightarrow> G E) \<Longrightarrow> saw t p G s"
  by (auto simp: saw_def)

lemma quiet_call: "(\<And>r. ev r = []) \<Longrightarrow> keeps (saw t p F) (github_call f ev)"
  using call_triple [of ev F t p f] by (simp add: keeps_def)

lemma appJWT_triple:
  "hoare (saw t p F) (appJWT env c) (\<lambda>r. saw t p (\<lambda>E. F E \<and> (\<forall>token. r = Inr token \<longrightarrow> Signed (cr_ClientID c) (cr_PrivateKey c) token \<in> E)))"
  unfolding appJWT_def
  by (intro hoare_if hoare_return hoare_bind [OF call_triple])
    (auto simp: setup_ok_def elim!: saw_weaken split: sum.splits)

lemma api_doJSON_triple:
  assumes "\<And>code. req \<noteq> conversion_request code"
  shows "hoare (saw t p F) (api_doJSON env token req decoded status)
    (\<lambda>r. saw t p (\<lambda>E. F E \<and> (\<forall>v. r = Inr v \<longrightarrow> (\<exists>a. Sent token req (Answered a) \<in> E \<and> rs_Status a = status \<and> decoded (rs_Body a) = Some v))))"
  unfolding api_doJSON_def github_send_def
  by (intro hoare_return hoare_bind [OF call_triple])
    (auto simp: setup_ok_def assms api_result_def elim!: saw_weaken split: outcome.splits if_splits option.splits)

lemma no_conversion [simp]: "identity_request \<noteq> conversion_request code" "installation_request t \<noteq> conversion_request code"
  by (auto simp: identity_request_def installation_request_def conversion_request_def plain_request_def)

definition known_as :: "credentials \<Rightarrow> credentials \<Rightarrow> githubEvent set \<Rightarrow> bool" where
  "known_as c app E \<longleftrightarrow> (\<exists>b a. answered_as c identity_request b E \<and> gb_app b = Some a \<and> identified c a = Inr app)"

lemma known_asI:
  assumes "Signed (cr_ClientID c) (cr_PrivateKey c) token \<in> E" and "Sent token identity_request (Answered a) \<in> E" and "rs_Status a = 200"
    and "gb_app (rs_Body a) = Some x" and "identified c x = Inr app"
  shows "known_as c app E"
  unfolding known_as_def answered_as_def using assms by (intro exI [of _ "rs_Body a"] exI [of _ x]) auto

lemma Identify_triple: "hoare (saw t p F) (Identify env c) (\<lambda>r. saw t p (\<lambda>E. F E \<and> (\<forall>app. r = Inr app \<longrightarrow> known_as c app E)))"
  unfolding Identify_def
  by (intro hoare_bind [OF appJWT_triple] hoare_sum hoare_return hoare_bind [OF api_doJSON_triple])
    (auto elim!: saw_weaken intro: known_asI split: sum.splits)

lemma covers_granted: "covers i p = None \<Longrightarrow> granted p i"
  by (auto simp: covers_def granted_def list_all_iff filter_empty_conv split: list.splits)

lemma targetInstallation_triple:
  "hoare (saw t p F) (targetInstallation env token t')
    (\<lambda>r. saw t p (\<lambda>E. F E \<and> (\<forall>i. r = Inr i \<longrightarrow> (\<exists>a. Sent token (installation_request t') (Answered a) \<in> E \<and> rs_Status a = 200 \<and> gb_installation (rs_Body a) = Some i))))"
  unfolding targetInstallation_def by (rule api_doJSON_triple) simp

lemma verified_vouches:
  assumes "known_as c app E" and "Signed (cr_ClientID c) (cr_PrivateKey c) token \<in> E"
    and "Sent token (installation_request t) (Answered a) \<in> E" "rs_Status a = 200" "gb_installation (rs_Body a) = Some i" and "verified c app t p i = Inr i'"
  shows "vouched t p c E"
proof -
  obtain b x where x: "answered_as c identity_request b E" "gb_app b = Some x" "identified c x = Inr app" using assms(1) by (auto simp: known_as_def)
  then have "ap_ClientID x = cr_ClientID c \<or> itoa (ap_ID x) = cr_ClientID c" "cr_AppID app = ap_ID x" by (auto simp: identified_def split: if_splits)
  moreover have "answered_as c (installation_request t) (rs_Body a) E" using assms(2-4) by (auto simp: answered_as_def)
  moreover have "in_ID i = cr_InstallationID c" "in_AppID i = cr_AppID app" "EqualFold (in_Login i) (tg_Owner t)" "granted p i"
    using assms(6) by (auto simp: verified_def split: if_splits option.splits dest: covers_granted)
  ultimately show ?thesis using x(1,2) assms(5) unfolding vouched_def by metis
qed

lemma api_verify_triple: "hoare (saw t p F) (api_verify env c t p) (\<lambda>r. saw t p (\<lambda>E. F E \<and> (\<forall>i. r = Inr i \<longrightarrow> credentials_Validate env c = None \<and> vouched t p c E)))"
  unfolding api_verify_def
  by (intro hoare_option hoare_bind [OF Identify_triple] hoare_bind [OF appJWT_triple] hoare_bind [OF targetInstallation_triple] hoare_sum hoare_return)
    (auto elim!: saw_weaken dest: verified_vouches split: sum.splits)

lemma WaitForInstallationFor_keeps: "keeps (saw t p F) (WaitForInstallationFor n env c t' p')"
proof (induction n)
  case 0
  show ?case unfolding WaitForInstallationFor.simps [of 0] keeps_def
    by (intro hoare_bind [OF appJWT_triple] hoare_bind [OF targetInstallation_triple] hoare_sum hoare_if hoare_return) (auto elim!: saw_weaken intro!: hoare_return)
next
  case (Suc n)
  then show ?case unfolding WaitForInstallationFor.simps [of "Suc n"] keeps_def nat.case
    by (intro hoare_bind [OF appJWT_triple] hoare_bind [OF targetInstallation_triple] hoare_sum hoare_if hoare_return)
      (auto elim!: saw_weaken intro: hoare_pre)
qed

lemma stored_ok: "credentials_Validate env c = None \<Longrightarrow> vouched t p c (set before) \<Longrightarrow> setup_ok t p before (Stored c)"
  by (auto simp: setup_ok_def credentials_Validate_def split: if_splits)

lemma store_triple:
  "hoare (saw t p (\<lambda>E. F E \<and> (\<forall>i. Inr v = Inr i \<longrightarrow> credentials_Validate env c = None \<and> vouched t p c E)))
     (do { err \<leftarrow> github_call f (\<lambda>_. [Stored c]); State_Monad.return (g err) }) (\<lambda>_. saw t p F)"
  by (rule hoare_bind [OF call_triple]) (auto intro: stored_ok elim!: saw_weaken intro!: hoare_return)

lemma store_verified_keeps: "keeps (saw (op_Target opts) p F) (store_verified n env opts p c)"
  unfolding store_verified_def Let_def keeps_def
proof (rule hoare_bind [OF WaitForInstallationFor_keeps [unfolded keeps_def]], rule hoare_sum, rule hoare_return, assumption,
    rule hoare_bind [OF api_verify_triple], rule hoare_sum)
  fix r :: "goerr + installationRecord" and i and c' :: credentials assume "r = Inr i"
  then show "hoare (saw (op_Target opts) p (\<lambda>E. F E \<and> (\<forall>i. r = Inr i \<longrightarrow> credentials_Validate env c' = None \<and> vouched (op_Target opts) p c' E)))
      (do { err \<leftarrow> github_call (ge_store env c') (\<lambda>_. [Stored c']);
            State_Monad.return (case err of None \<Rightarrow> Inr \<lparr>sr_AppURL = cr_HTMLURL c', sr_Slug = cr_Slug c', sr_InstallationID = cr_InstallationID c',
                  sr_AllRepositories = (in_RepositorySelection i = ''all'')\<rparr> | Some e \<Rightarrow> Inl (ErrWrap ''store verified GitHub App credentials'' e)) })
      (\<lambda>_. saw (op_Target opts) p F)"
    by (simp only:) (rule store_triple)
qed (rule hoare_return, erule saw_weaken, simp)

lemma exposeAndOpen_keeps: "keeps (saw t p F) (exposeAndOpen env noBrowser url)"
  unfolding exposeAndOpen_def keeps_def
  by (intro hoare_if hoare_return hoare_weaken [OF call_triple]) (auto simp: setup_ok_def elim: saw_weaken)

lemma installAndStore_keeps: "keeps (saw (op_Target opts) p F) (installAndStore n env opts p c open_page)"
  unfolding installAndStore_def by (intro keeps_rules store_verified_keeps exposeAndOpen_keeps)

text \<open>Only a callback with the state of the setup fills the channel of codes, and only once.\<close>

lemma served_codes:
  assumes "lh_codes h = []" and "\<not> lh_once h"
  shows "length (lh_codes (serve_all h rs)) \<le> 1
    \<and> (\<forall>code \<in> set (lh_codes (serve_all h rs)). \<exists>r \<in> set rs. lr_Method r = MethodGet \<and> lr_Path r = ''/callback'' \<and> lr_state r = lh_state h \<and> trimSpace (lr_code r) = code)"
proof -
  have "length (lh_codes (serve_all h rs)) \<le> 1 \<and> (lh_once (serve_all h rs) \<longleftrightarrow> lh_codes (serve_all h rs) \<noteq> []) \<and> lh_state (serve_all h rs) = lh_state h
    \<and> (\<forall>code \<in> set (lh_codes (serve_all h rs)). \<exists>r \<in> set rs. lr_Method r = MethodGet \<and> lr_Path r = ''/callback'' \<and> lr_state r = lh_state h \<and> trimSpace (lr_code r) = code)"
  proof (induction rs rule: rev_induct)
    case Nil
    then show ?case using assms by (simp add: serve_all_def)
  next
    case (snoc r rs)
    have step: "serve_all h (rs @ [r]) = snd (ServeHTTP (serve_all h rs) r)" by (simp add: serve_all_def)
    show ?case unfolding step ServeHTTP_def Let_def using snoc by (auto split: if_splits)
  qed
  then show ?thesis by blast
qed

lemma bootstrap_finish_keeps:
  assumes "lh_codes h = []" and "\<not> lh_once h"
  shows "hoare (saw (op_Target opts) p (\<lambda>E. Drawn 32 (lh_state h) \<in> E)) (bootstrap_finish n env opts p h) (\<lambda>_. saw (op_Target opts) p (\<lambda>_. True))"
proof -
  have convert: "hoare (saw (op_Target opts) p (\<lambda>E. Drawn 32 (lh_state h) \<in> E \<and> set (map Served requests) \<subseteq> E)) (ConvertManifest env code) (\<lambda>_. saw (op_Target opts) p (\<lambda>_. True))"
    if code: "code \<in> set (lh_codes (serve_all h requests))" for requests code
  proof -
    have "code_returned code E" if "Drawn 32 (lh_state h) \<in> E" "set (map Served requests) \<subseteq> E" for E
      using served_codes [OF assms, of requests] code that by (fastforce simp: code_returned_def)
    moreover have "code' = code" if "conversion_request code = conversion_request code'" for code'
      using that by (simp add: conversion_request_def plain_request_def)
    ultimately show ?thesis unfolding ConvertManifest_def github_send_def
      by (intro hoare_bind [OF call_triple] hoare_return) (fastforce simp: setup_ok_def, auto elim: saw_weaken)
  qed
  have waited: "code \<in> set codes" if "waitValue codes ended = Inr code" for codes ended code
    using that by (auto simp: waitValue_def split: option.splits list.splits)
  show ?thesis unfolding bootstrap_finish_def
  proof (rule hoare_bind [OF call_triple], auto simp: setup_ok_def, rule hoare_sum, rule hoare_return, erule saw_weaken, simp)
    fix requests ended code assume "waitValue (lh_codes (serve_all h requests)) ended = Inr code"
    from waited [OF this]
    show "hoare (saw (op_Target opts) p (\<lambda>E. Drawn 32 (lh_state h) \<in> E \<and> Served ` set requests \<subseteq> E))
        (do { exchanged \<leftarrow> ConvertManifest env code; case exchanged of Inl err \<Rightarrow> State_Monad.return (Inl err) | Inr c \<Rightarrow> installAndStore n env opts p c True })
        (\<lambda>_. saw (op_Target opts) p (\<lambda>_. True))"
      using installAndStore_keeps [of opts p "\<lambda>_. True" n env _ True] unfolding keeps_def
      by (intro hoare_bind [OF convert [unfolded set_map]] hoare_sum hoare_return)
  qed
qed

lemma randomHex_triple: "hoare (saw t p F) (randomHex env n) (\<lambda>r. saw t p (\<lambda>E. F E \<and> (\<forall>hex. r = Inr hex \<longrightarrow> Drawn n hex \<in> E)))"
  unfolding randomHex_def
  by (intro hoare_bind [OF call_triple] hoare_return) (auto simp: setup_ok_def elim!: saw_weaken split: sum.splits)

lemma bootstrap_listening_keeps: "keeps (saw (op_Target opts) p (\<lambda>_. True)) (bootstrap_listening n env opts p addr)"
  unfolding bootstrap_listening_def keeps_def
proof (rule hoare_bind [OF randomHex_triple], rule hoare_sum, rule hoare_return, erule saw_weaken, simp)
  fix r :: "goerr + string" and state assume r: "r = Inr state"
  let ?I = "saw (op_Target opts) p (\<lambda>E. Drawn 32 state \<in> E) :: 'a githubSys \<Rightarrow> bool"
  have finish: "hoare ?I (bootstrap_finish n env opts p (newLoopbackHandler registerURL mf state)) (\<lambda>_. saw (op_Target opts) p (\<lambda>_. True))" for registerURL mf
    using bootstrap_finish_keeps [of "newLoopbackHandler registerURL mf state" opts p n env] by (simp add: newLoopbackHandler_def)
  have drawn: "hoare ?I (randomHex env k) (\<lambda>_. ?I)" for k
    by (rule hoare_weaken [OF randomHex_triple [where F = "\<lambda>E. Drawn 32 state \<in> E"]]) (auto elim: saw_weaken)
  have opened: "hoare ?I (exposeAndOpen env noBrowser url) (\<lambda>_. ?I)" for noBrowser url
    using exposeAndOpen_keeps unfolding keeps_def by blast
  have weak: "hoare ?I (State_Monad.return x) (\<lambda>_. saw (op_Target opts) p (\<lambda>_. True))" for x :: "goerr + setupResult"
    by (rule hoare_return) (auto elim: saw_weaken)
  show "hoare (saw (op_Target opts) p (\<lambda>E. True \<and> (\<forall>hex. r = Inr hex \<longrightarrow> Drawn 32 hex \<in> E)))
      (do { drawn \<leftarrow> randomHex env nameSuffixBytes;
            case drawn of
              Inl _ \<Rightarrow> State_Monad.return (Inl (ErrText ''generate app name''))
            | Inr nameSuffix \<Rightarrow>
                (case manifestJSON p (''http://'' @ addr @ ''/callback'') (op_HomepageURL opts) nameSuffix of
                   Inl err \<Rightarrow> State_Monad.return (Inl err)
                 | Inr mf \<Rightarrow>
                     (case registrationURL env (op_SiteBaseURL opts) (op_Target opts) state of
                        Inl err \<Rightarrow> State_Monad.return (Inl err)
                      | Inr registerURL \<Rightarrow>
                          do { opened \<leftarrow> exposeAndOpen env (op_NoBrowser opts) (''http://'' @ addr @ ''/start'');
                               case opened of
                                 Some err \<Rightarrow> State_Monad.return (Inl (ErrWrap ''open browser'' err))
                               | None \<Rightarrow> bootstrap_finish n env opts p (newLoopbackHandler registerURL mf state) })) })
      (\<lambda>_. saw (op_Target opts) p (\<lambda>_. True))"
    by (rule hoare_pre [where P' = ?I], intro hoare_bind [OF drawn] hoare_bind [OF opened] hoare_sum hoare_option finish weak) (auto simp: r elim: saw_weaken)
qed

lemma prepared_target: "setup_prepare opts = Inr (opts', p) \<Longrightarrow> op_Target opts' = op_Target opts"
  by (auto simp: setup_prepare_def Let_def split: option.splits if_splits)

lemma Bootstrap_keeps: "setup_prepare opts = Inr (opts', p) \<Longrightarrow> keeps (saw (op_Target opts) p (\<lambda>_. True)) (Bootstrap n env opts)"
  using bootstrap_listening_keeps [of opts' p n env] prepared_target
  by (auto simp: Bootstrap_def intro!: keeps_bind keeps_sum keeps_return quiet_call)

lemma Reuse_keeps:
  assumes "setup_prepare opts = Inr (opts', p)"
  shows "keeps (saw (op_Target opts) p (\<lambda>_. True)) (Reuse n env opts c)"
proof -
  let ?I = "saw (op_Target opts) p (\<lambda>_. True) :: 'a githubSys \<Rightarrow> bool"
  have "keeps ?I (Identify env c)" "keeps ?I (appJWT env c')" "keeps ?I (targetInstallation env token t)" for c' token t
    unfolding keeps_def
    by (rule hoare_weaken [OF Identify_triple [where F = "\<lambda>_. True"]] hoare_weaken [OF appJWT_triple [where F = "\<lambda>_. True"]]
        hoare_weaken [OF targetInstallation_triple [where F = "\<lambda>_. True"]]; auto elim: saw_weaken)+
  with installAndStore_keeps [of opts' p "\<lambda>_. True" n env] show ?thesis unfolding Reuse_def assms sum.case prod.case prepared_target [OF assms]
    by (intro keeps_bind keeps_sum keeps_if keeps_return)
qed

text \<open>
  C23. Setting up a GitHub App, by creating one or by reusing one, hands credentials to the sink only after GitHub has answered requests
  signed with them: that the App they sign for is the one of their client ID, and that this App's installation on the requested target is the
  one of the credentials, is in the owner's account and grants every permission of the profile.  A manifest code is exchanged only if it came
  back to the loopback server with the state drawn for this setup.  Options that are refused cause no event.
\<close>

theorem setup_stores_verified:
  "let trace_of = \<lambda>m. gs_trace (snd (run_state m \<lparr>gs_world = w, gs_trace = []\<rparr>))
   in case setup_prepare opts of
        Inl err \<Rightarrow> trace_of (Bootstrap n env opts) = [] \<and> trace_of (Reuse n env opts c) = []
      | Inr (opts', p) \<Rightarrow> preceded (setup_ok (op_Target opts) p) (trace_of (Bootstrap n env opts)) \<and> preceded (setup_ok (op_Target opts) p) (trace_of (Reuse n env opts c))"
proof -
  have run: "preceded (setup_ok t p) (gs_trace (snd (run_state m \<lparr>gs_world = w, gs_trace = []\<rparr>)))"
    if "keeps (saw t p (\<lambda>_. True)) m" for t p and m :: "('a githubSys, goerr + setupResult) state"
    using keepsD [OF that _ surjective_pairing, of "\<lparr>gs_world = w, gs_trace = []\<rparr>"] by (simp add: saw_def preceded_def)
  show ?thesis
    unfolding Let_def by (auto split: sum.splits intro: run Bootstrap_keeps Reuse_keeps) (simp_all add: Bootstrap_def Reuse_def)
qed

end
