(* ===== verification/Credential_Sinks.thy ===== *)
theory Credential_Sinks
  imports GitHub_App
begin

text \<open>
  Where the credentials of an App go (\<^verbatim>\<open>githubapp/sinks.go\<close>): files of the project, the secret store of Fly, or the Actions secrets of
  a repository.  The files are a map from paths to contents; each system call first asks the surroundings whether it fails, then has its effect.
  \<open>ks_ran\<close> is a ghost record of the commands run, with their arguments, standard input and result.
\<close>

section \<open>Files and commands\<close>

datatype fsCall =
    FsLstat string
  | FsRemove string
  | FsRename string string
  | FsChmod string
  | FsWrite string
  | FsSync string
  | FsClose string
  | FsRead string
  | FsAppend string

type_synonym files = "string \<Rightarrow> string option"

text \<open>
  What resolving the project directory and preparing \<^verbatim>\<open>.runneryard\<close> meets, in the order of the calls; \<open>pp_existing\<close> is the directory
  there is, if any, and whether it is a plain directory.
\<close>

record projectProbe =
  pp_abs :: "goerr option"
  pp_eval :: "goerr + string"
  pp_isDir :: bool
  pp_lstat :: "goerr option"
  pp_existing :: "bool option"
  pp_mkdir :: "goerr option"
  pp_chmod :: "goerr option"

record 'w sinkEnv =
  sk_api :: "'w githubEnv"
  sk_project :: "string \<Rightarrow> projectProbe"
  sk_fails :: "fsCall \<Rightarrow> 'w \<Rightarrow> goerr option \<times> 'w"
  sk_temp :: "string \<Rightarrow> string \<Rightarrow> files \<Rightarrow> 'w \<Rightarrow> (goerr + string) \<times> 'w"
  sk_irregular :: "string \<Rightarrow> bool"
  sk_symlink :: "string \<Rightarrow> bool"
  sk_run :: "string \<Rightarrow> string list \<Rightarrow> string \<Rightarrow> 'w \<Rightarrow> goerr option \<times> 'w"

record 'w sinkSys =
  ks_world :: 'w
  ks_files :: files
  ks_ran :: "(string \<times> string list \<times> string \<times> goerr option) list"






text \<open>Calls in sequence, up to the first that fails.\<close>

definition and_then :: "('s, goerr option) state \<Rightarrow> (goerr \<Rightarrow> goerr) \<Rightarrow> ('s, goerr option) state \<Rightarrow> ('s, goerr option) state" where
  "and_then m wrapped k = do { err \<leftarrow> m; case err of Some e \<Rightarrow> State_Monad.return (Some (wrapped e)) | None \<Rightarrow> k }"

section \<open>Credential files\<close>











section \<open>Secret stores\<close>

definition run_program :: "'w sinkEnv \<Rightarrow> string \<Rightarrow> string list \<Rightarrow> string \<Rightarrow> ('w sinkSys, goerr option) state" where
  "run_program env prog arguments stdin_text = State (\<lambda>s. case sk_run env prog arguments stdin_text (ks_world s) of
     (err, w) \<Rightarrow> (err, s\<lparr>ks_world := w, ks_ran := ks_ran s @ [(prog, arguments, stdin_text, err)]\<rparr>))"

definition safeFlyApp :: "string \<Rightarrow> bool" where
  "safeFlyApp s \<longleftrightarrow> s \<noteq> [] \<and> length s \<le> 63 \<and> hd s \<noteq> CHR ''-'' \<and> list_all (\<lambda>c. is_lower c \<or> is_digit c \<or> c = CHR ''-'') s"

definition trim_newline :: "string \<Rightarrow> string" where
  "trim_newline s = (if s \<noteq> [] \<and> last s = CHR 0x0A then butlast s else s)"

definition flySink_Store :: "'w sinkEnv \<Rightarrow> string \<Rightarrow> credentials \<Rightarrow> ('w sinkSys, goerr option) state" where
  "flySink_Store env app c =
     (case credentials_Validate (sk_api env) c of
        Some err \<Rightarrow> State_Monad.return (Some err)
      | None \<Rightarrow>
          if \<not> safeFlyApp app then State_Monad.return (Some (ErrText ''fly controller app must contain only lowercase letters, numbers, and hyphens''))
          else and_then (run_program env ''fly'' [''secrets'', ''import'', ''--stage'', ''--app'', app]
                  (''GITHUB_APP_CLIENT_ID='' @ cr_ClientID c @ [CHR 0x0A] @ ''GITHUB_APP_INSTALLATION_ID='' @ itoa (cr_InstallationID c) @ [CHR 0x0A]
                   @ ''GITHUB_APP_PRIVATE_KEY='' @ replicate 3 (CHR 0x22) @ trim_newline (cr_PrivateKey c) @ replicate 3 (CHR 0x22) @ [CHR 0x0A]))
                 (ErrWrap ''fly secrets import failed'') (State_Monad.return None))"

record repositorySink =
  rk_Owner :: string
  rk_Repository :: string
  rk_ClientIDVariable :: string
  rk_PrivateKeySecret :: string

definition sink_slug :: "repositorySink \<Rightarrow> string" where
  "sink_slug k = rk_Owner k @ ''/'' @ rk_Repository k"

definition safeActionsName :: "string \<Rightarrow> bool" where
  "safeActionsName s \<longleftrightarrow> s \<noteq> [] \<and> length s \<le> 100 \<and> CHR ''A'' \<le> hd s \<and> hd s \<le> CHR ''Z''
     \<and> list_all (\<lambda>c. CHR ''A'' \<le> c \<and> c \<le> CHR ''Z'' \<or> is_digit c \<or> c = CHR ''_'') s"

definition repositorySink_validate :: "repositorySink \<Rightarrow> goerr option" where
  "repositorySink_validate k =
     (if \<not> safeOwner (rk_Owner k) \<or> \<not> safeRepo (rk_Repository k) then Some (ErrText ''repository sink needs a valid owner and repository'')
      else if \<not> safeActionsName (rk_ClientIDVariable k) \<or> \<not> safeActionsName (rk_PrivateKeySecret k)
      then Some (ErrText ''repository sink needs valid variable and secret names'')
      else None)"

definition repositorySink_Ready :: "'w sinkEnv \<Rightarrow> repositorySink \<Rightarrow> ('w sinkSys, goerr option) state" where
  "repositorySink_Ready env k =
     (case repositorySink_validate k of
        Some err \<Rightarrow> State_Monad.return (Some err)
      | None \<Rightarrow>
          and_then (run_program env ''gh'' [''api'', ''--silent'', ''repos/'' @ sink_slug k @ ''/actions/secrets/public-key''] [])
            (ErrWrap ''gh cannot manage the Actions secrets'') (State_Monad.return None))"

definition secret_set :: "repositorySink \<Rightarrow> string list" where
  "secret_set k = [''secret'', ''set'', rk_PrivateKeySecret k, ''--app'', ''actions'', ''--repo'', sink_slug k]"

definition variable_set :: "repositorySink \<Rightarrow> credentials \<Rightarrow> string list" where
  "variable_set k c = [''variable'', ''set'', rk_ClientIDVariable k, ''--repo'', sink_slug k, ''--body'', cr_ClientID c]"

definition repositorySink_Store :: "'w sinkEnv \<Rightarrow> repositorySink \<Rightarrow> credentials \<Rightarrow> ('w sinkSys, goerr option) state" where
  "repositorySink_Store env k c =
     (case credentials_Validate (sk_api env) c of
        Some err \<Rightarrow> State_Monad.return (Some err)
      | None \<Rightarrow>
          (case repositorySink_validate k of
             Some err \<Rightarrow> State_Monad.return (Some err)
           | None \<Rightarrow>
               and_then (run_program env ''gh'' (secret_set k) (cr_PrivateKey c)) (ErrWrap ''gh secret set failed'')
                 (and_then (run_program env ''gh'' (variable_set k c) []) (ErrWrap ''gh variable set failed'') (State_Monad.return None))))"

section \<open>All or nothing\<close>



























section \<open>An example\<close>



text \<open>
  The key travels on standard input: the arguments of the commands do not depend on it.  The variable that turns a workflow to the App is set only after
  the secret.
\<close>

lemma repository_commands:
  assumes "run_state (repositorySink_Store env k c) s = (r, s')"
  shows "\<exists>cs. ks_ran s' = ks_ran s @ cs
    \<and> (cs = [] \<or> (\<exists>e. cs = [(''gh'', secret_set k, cr_PrivateKey c, Some e)]) \<or> (\<exists>e. cs = [(''gh'', secret_set k, cr_PrivateKey c, None), (''gh'', variable_set k c, [], e)]))
    \<and> (r = None \<longleftrightarrow> cs = [(''gh'', secret_set k, cr_PrivateKey c, None), (''gh'', variable_set k c, [], None)])"
  using assms by (auto simp: repositorySink_Store_def and_then_def run_program_def split: option.splits prod.splits)
    (metis option.distinct(1) option.exhaust)+

end
