(* ===== verification/Spec2Isabelle.thy ===== *)
theory Spec2Isabelle
  imports Retry_Policy Usage_Budget_Correct Scaler_Launch Scaler_Outage Merge_Settle Placement Host_Confined Host_Promise Hetzner_Lease Fly_Lease Image_Registry Merge_Clients_Correct Session_Correct
    App_Config_Correct Pool_Trust GitHub_App_Correct Credential_Sinks
begin

text \<open>
  RunnerYard runs self-hosted GitHub Actions runners on rented machines.  A controller
  listens to a GitHub scale set and keeps as many one-job workers as jobs wait
  (\<^verbatim>\<open>controller/\<close>); providers start and destroy the machines behind a small seam
  (\<^verbatim>\<open>provider/\<close>); a merge queue, run as a workflow, lands pull requests in tested stacks
  (\<^verbatim>\<open>mergequeue/\<close>).  This development models the decisions and the durable state of these
  parts as executable functions and proves what makes them safe.
\<close>

end
